(* ===== verification/Prelude.thy ===== *)
theory Prelude
  imports Main "HOL-Library.Word"
begin

text \<open>
  What every component shares: the JavaScript primitives the sources use on
  strings and numbers, written as executable functions, and the lemmas about
  them that the component theories rest on.

  A JavaScript string whose code units matter (an origin, a host name, a URL, a
  page text) is a \<^verbatim>\<open>jstr\<close>: the list of its UTF-16 code units as naturals.
  Identifiers, tokens and error messages that the code only stores, compares or
  returns are Isabelle strings.  A byte array (Uint8Array) is a list of
  8-bit words.
\<close>

type_synonym jstr = "nat list"
type_synonym bytes = "8 word list"

text \<open>The code units of an ASCII literal.\<close>

definition lit :: "string \<Rightarrow> jstr" where
  "lit s = map of_char s"

lemma lit_append: "lit (s @ t) = lit s @ lit t"
  by (simp add: lit_def)

lemma length_lit [simp]: "length (lit s) = length s"
  by (simp add: lit_def)

named_theorems js_simps \<open>the JavaScript primitives on code units\<close>

subsection \<open>String.prototype.trim\<close>

text \<open>WhiteSpace and LineTerminator code points of ECMA-262, as code units.\<close>

definition js_space :: "nat \<Rightarrow> bool" where
  "js_space c \<longleftrightarrow> (9 \<le> c \<and> c \<le> 13) \<or> c = 32 \<or> c = 160 \<or> c = 0x1680
     \<or> (0x2000 \<le> c \<and> c \<le> 0x200A) \<or> c = 0x2028 \<or> c = 0x2029 \<or> c = 0x202F
     \<or> c = 0x205F \<or> c = 0x3000 \<or> c = 0xFEFF"

definition trim_start :: "jstr \<Rightarrow> jstr" where
  "trim_start s = dropWhile js_space s"

definition trim :: "jstr \<Rightarrow> jstr" where
  "trim s = rev (dropWhile js_space (rev (dropWhile js_space s)))"

lemma trim_no_space:
  assumes "\<forall>c \<in> set s. \<not> js_space c"
  shows "trim s = s"
proof -
  have d: "dropWhile js_space xs = xs" if "\<forall>c \<in> set xs. \<not> js_space c" for xs
    using that by (cases xs) auto
  show ?thesis using assms by (simp add: trim_def d)
qed

lemma trim_Nil [simp]: "trim [] = []"
  by (simp add: trim_def)

text \<open>\<^verbatim>\<open>s.replace(":", "")\<close> with a string pattern removes the first occurrence only.\<close>

definition remove_first :: "nat \<Rightarrow> jstr \<Rightarrow> jstr" where
  "remove_first c s = remove1 c s"

definition ends_with :: "jstr \<Rightarrow> jstr \<Rightarrow> bool" where
  "ends_with s suf \<longleftrightarrow> length suf \<le> length s \<and> drop (length s - length suf) s = suf"

definition starts_with :: "jstr \<Rightarrow> jstr \<Rightarrow> bool" where
  "starts_with s p \<longleftrightarrow> take (length p) s = p"

text \<open>\<^verbatim>\<open>s.includes(p)\<close>.\<close>

fun includes_text :: "jstr \<Rightarrow> jstr \<Rightarrow> bool" where
  "includes_text [] p \<longleftrightarrow> p = []"
| "includes_text (c # s) p \<longleftrightarrow> starts_with (c # s) p \<or> includes_text s p"

subsection \<open>Decimal numbers\<close>

definition is_digit :: "nat \<Rightarrow> bool" where
  "is_digit c \<longleftrightarrow> 48 \<le> c \<and> c \<le> 57"

text \<open>\<^verbatim>\<open>String(n)\<close> for a nonnegative integer, and for an integer.\<close>

fun dec_nat :: "nat \<Rightarrow> jstr" where
  "dec_nat n = (if n < 10 then [48 + n] else dec_nat (n div 10) @ [48 + n mod 10])"

declare dec_nat.simps [simp del]

definition dec_int :: "int \<Rightarrow> jstr" where
  "dec_int i = (if i < 0 then 45 # dec_nat (nat (- i)) else dec_nat (nat i))"

definition digits_value :: "jstr \<Rightarrow> int" where
  "digits_value ds = foldl (\<lambda>acc c. acc * 10 + (int c - 48)) 0 ds"

text \<open>
  \<^verbatim>\<open>Number.parseInt(s, 10)\<close>: leading white space, an optional sign, the longest
  prefix of digits; None is NaN.
\<close>

definition parse_int :: "jstr \<Rightarrow> int option" where
  "parse_int s = (let t = dropWhile js_space s;
     neg = (t \<noteq> [] \<and> hd t = 45);
     u = (if t \<noteq> [] \<and> (hd t = 45 \<or> hd t = 43) then tl t else t);
     ds = takeWhile is_digit u
   in if ds = [] then None
      else Some (if neg then - digits_value ds else digits_value ds))"

lemma dec_nat_nonempty [simp]: "dec_nat n \<noteq> []"
  by (subst dec_nat.simps) simp

lemma dec_nat_digits: "c \<in> set (dec_nat n) \<Longrightarrow> is_digit c"
proof (induction n rule: dec_nat.induct)
  case (1 n)
  have "n mod 10 < 10" by simp
  with 1 show ?case
    by (subst (asm) dec_nat.simps) (auto simp: is_digit_def split: if_splits)
qed

lemma digits_value_snoc: "digits_value (ds @ [c]) = digits_value ds * 10 + (int c - 48)"
  by (simp add: digits_value_def)

lemma digits_value_dec_nat: "digits_value (dec_nat n) = int n"
proof (induction n rule: dec_nat.induct)
  case (1 n)
  show ?case
  proof (cases "n < 10")
    case True
    then show ?thesis by (subst dec_nat.simps) (simp add: digits_value_def)
  next
    case False
    have "digits_value (dec_nat n) = int (n div 10) * 10 + int (n mod 10)"
      using False 1 by (subst dec_nat.simps) (simp add: digits_value_snoc)
    also have "\<dots> = int n" by (metis div_mult_mod_eq of_nat_add of_nat_mult of_nat_numeral)
    finally show ?thesis .
  qed
qed

lemma dec_nat_inject: "dec_nat m = dec_nat n \<longleftrightarrow> m = n"
  by (metis digits_value_dec_nat of_nat_eq_iff)

lemma parse_int_dec_nat: "parse_int (dec_nat n) = Some (int n)"
proof -
  obtain c cs where cs: "dec_nat n = c # cs" by (cases "dec_nat n") auto
  have c: "is_digit c" using dec_nat_digits [of c n] cs by simp
  have all: "takeWhile is_digit (c # cs) = c # cs"
    using dec_nat_digits [of _ n] cs by (intro takeWhile_eq_all_conv [THEN iffD2]) auto
  have "\<not> js_space c" and "c \<noteq> 45" and "c \<noteq> 43"
    using c by (auto simp: is_digit_def js_space_def)
  then have "parse_int (c # cs) = Some (digits_value (c # cs))"
    using all by (simp add: parse_int_def Let_def)
  then show ?thesis using cs digits_value_dec_nat [of n] by simp
qed

lemma dec_int_of_pos: "0 \<le> i \<Longrightarrow> dec_int i = dec_nat (nat i)"
  by (simp add: dec_int_def)

subsection \<open>Splitting at a separator\<close>

lemma split_first_sep:
  assumes "s @ c # t = s' @ c # t'" and "c \<notin> set s" and "c \<notin> set s'"
  shows "s = s' \<and> t = t'"
  using assms
proof (induction s arbitrary: s')
  case Nil
  then show ?case by (cases s') auto
next
  case (Cons a s)
  then show ?case by (cases s') auto
qed

lemma split_last_sep:
  assumes "s @ c # t = s' @ c # t'" and "c \<notin> set t" and "c \<notin> set t'"
  shows "s = s' \<and> t = t'"
proof -
  have "rev t @ c # rev s = rev t' @ c # rev s'"
    using arg_cong [OF assms(1), of rev] by simp
  then have "rev t = rev t' \<and> rev s = rev s'"
    using assms(2,3) by (intro split_first_sep [of _ c]) auto
  then show ?thesis by simp
qed

subsection \<open>Searching lists\<close>

lemma find_SomeD: "List.find q xs = Some x \<Longrightarrow> x \<in> set xs \<and> q x"
  by (induction xs) (auto split: if_splits)

lemma find_append: "find P (xs @ ys) = (case find P xs of Some x \<Rightarrow> Some x | None \<Rightarrow> find P ys)"
  by (induction xs) auto

lemma find_filter_other: "(\<And>x. P x \<Longrightarrow> Q x) \<Longrightarrow> find P (filter Q xs) = find P xs"
  by (induction xs) auto

subsection \<open>Results\<close>

text \<open>
  A fallible operation returns a sum: Inl the error it throws or reports, Inr
  its value.
\<close>

definition is_ok :: "'e + 'a \<Rightarrow> bool" where
  "is_ok r = (case r of Inl _ \<Rightarrow> False | Inr _ \<Rightarrow> True)"

lemma is_ok_simps [simp]: "is_ok (Inr x)" "\<not> is_ok (Inl e)"
  by (simp_all add: is_ok_def)

lemma is_ok_iff: "is_ok r \<longleftrightarrow> (\<exists>x. r = Inr x)"
  by (cases r) auto

text \<open>\<^verbatim>\<open>!s\<close> for an optional text.\<close>

definition absent :: "jstr option \<Rightarrow> bool" where
  "absent s \<longleftrightarrow> s = None \<or> s = Some []"

text \<open>\<^verbatim>\<open>s || d\<close>.\<close>

definition or_text :: "jstr option \<Rightarrow> string \<Rightarrow> jstr" where
  "or_text v d = (case v of None \<Rightarrow> lit d | Some s \<Rightarrow> if s = [] then lit d else s)"

end
