(* ===== verification/Origin.thy ===== *)
theory Origin
  imports Prelude
begin

text \<open>
  The canonical absolute origin: src/src/domain/services/autofill/origin.ts.

  The WHATWG URL parser (\<^verbatim>\<open>new URL(s)\<close>, \<^verbatim>\<open>new URL(s, base)\<close>) and the Unicode
  tables of \<^verbatim>\<open>toLowerCase\<close> and \<^verbatim>\<open>toUpperCase\<close> are the platform's; they are the fields of the record
  \<^verbatim>\<open>web\<close>, an argument of every definition that uses them.  Nothing is assumed of
  them here.
\<close>

record url =
  u_protocol :: jstr
  u_hostname :: jstr
  u_port :: jstr

record web =
  to_lower :: "jstr \<Rightarrow> jstr"
  to_upper :: "jstr \<Rightarrow> jstr"
  parse_url :: "jstr \<Rightarrow> url option"
  resolve_url :: "jstr \<Rightarrow> jstr \<Rightarrow> jstr option"

text \<open>DEFAULT\_PORTS; None where the record has no entry (undefined).\<close>

definition default_ports :: "jstr \<Rightarrow> int option" where
  "default_ports scheme =
     (if scheme = lit ''http'' then Some 80
      else if scheme = lit ''https'' then Some 443
      else if scheme = lit ''ws'' then Some 80
      else if scheme = lit ''wss'' then Some 443
      else if scheme = lit ''ftp'' then Some 21
      else None)"

definition supported_schemes :: "jstr list" where
  "supported_schemes = [lit ''http'', lit ''https'']"

record canonical_origin =
  scheme :: jstr
  hostname :: jstr
  port :: int
  serialized :: jstr

datatype origin_parse_failure = EMPTY | UNPARSEABLE | UNSUPPORTED_SCHEME | MISSING_HOSTNAME

type_synonym origin_parse_result = "origin_parse_failure + canonical_origin"

definition normalize_hostname :: "web \<Rightarrow> jstr \<Rightarrow> jstr" where
  "normalize_hostname W h =
     (let host = to_lower W (trim h) in
      if ends_with host (lit ''.'') \<and> length host > 1 then butlast host else host)"

definition serialize_origin :: "jstr \<Rightarrow> jstr \<Rightarrow> int \<Rightarrow> jstr" where
  "serialize_origin sch host p = sch @ lit ''://'' @ host @ lit '':'' @ dec_int p"

definition parse_absolute_origin :: "web \<Rightarrow> jstr \<Rightarrow> origin_parse_result" where
  "parse_absolute_origin W input =
     (let trimmed = trim input in
      if trimmed = [] then Inl EMPTY
      else case parse_url W trimmed of
        None \<Rightarrow> Inl UNPARSEABLE
      | Some u \<Rightarrow>
          let sch = to_lower W (remove_first 58 (u_protocol u)) in
          if sch \<notin> set supported_schemes then Inl UNSUPPORTED_SCHEME
          else let host = normalize_hostname W (u_hostname u) in
          if host = [] then Inl MISSING_HOSTNAME
          else case (if u_port u \<noteq> [] then parse_int (u_port u) else default_ports sch) of
            None \<Rightarrow> Inl UNPARSEABLE
          | Some p \<Rightarrow>
              if p \<le> 0 \<or> p > 65535 then Inl UNPARSEABLE
              else Inr \<lparr> scheme = sch, hostname = host, port = p,
                         serialized = serialize_origin sch host p \<rparr>)"

datatype origin_comparison =
    O_Equal canonical_origin
  | O_Differ "canonical_origin option" "canonical_origin option" jstr

definition failure_name :: "origin_parse_failure \<Rightarrow> jstr" where
  "failure_name r = lit (case r of EMPTY \<Rightarrow> ''EMPTY'' | UNPARSEABLE \<Rightarrow> ''UNPARSEABLE''
     | UNSUPPORTED_SCHEME \<Rightarrow> ''UNSUPPORTED_SCHEME'' | MISSING_HOSTNAME \<Rightarrow> ''MISSING_HOSTNAME'')"

definition differs :: "string \<Rightarrow> jstr \<Rightarrow> jstr \<Rightarrow> jstr" where
  "differs what a e = lit what @ lit '' differs ('' @ a @ lit '' != '' @ e @ lit '')''"

definition compare_absolute_origins :: "web \<Rightarrow> jstr \<Rightarrow> jstr \<Rightarrow> origin_comparison" where
  "compare_absolute_origins W expected_input actual_input =
     (let expected = parse_absolute_origin W expected_input;
          actual = parse_absolute_origin W actual_input in
      case expected of
        Inl r \<Rightarrow> O_Differ None (case actual of Inl _ \<Rightarrow> None | Inr a \<Rightarrow> Some a)
                   (lit ''expected origin is unusable ('' @ failure_name r @ lit '')'')
      | Inr e \<Rightarrow> (case actual of
          Inl r \<Rightarrow> O_Differ (Some e) None
                     (lit ''actual origin is unusable ('' @ failure_name r @ lit '')'')
        | Inr a \<Rightarrow>
            if scheme e \<noteq> scheme a then
              O_Differ (Some e) (Some a) (differs ''scheme'' (scheme a) (scheme e))
            else if hostname e \<noteq> hostname a then
              O_Differ (Some e) (Some a) (differs ''hostname'' (hostname a) (hostname e))
            else if port e \<noteq> port a then
              O_Differ (Some e) (Some a) (differs ''port'' (dec_int (port a)) (dec_int (port e)))
            else O_Equal e))"

text \<open>A missing action (null, undefined) is None.\<close>

definition resolve_against_origin :: "web \<Rightarrow> jstr option \<Rightarrow> jstr \<Rightarrow> origin_parse_result" where
  "resolve_against_origin W candidate base =
     (case candidate of
        None \<Rightarrow> parse_absolute_origin W base
      | Some c \<Rightarrow>
          let trimmed = trim c in
          if trimmed = [] then parse_absolute_origin W base
          else (case resolve_url W trimmed base of
              None \<Rightarrow> Inl UNPARSEABLE
            | Some s \<Rightarrow> parse_absolute_origin W s))"

record browser_location =
  loc_protocol :: jstr
  loc_hostname :: jstr
  loc_port :: jstr

definition origin_from_location :: "browser_location \<Rightarrow> jstr" where
  "origin_from_location l =
     (let p = (if loc_port l \<noteq> [] then lit '':'' @ loc_port l else []) in
      loc_protocol l @ lit ''//'' @ loc_hostname l @ p)"

subsection \<open>What a parsed origin looks like\<close>

definition wf_origin :: "canonical_origin \<Rightarrow> bool" where
  "wf_origin c \<longleftrightarrow> scheme c \<in> set supported_schemes \<and> hostname c \<noteq> []
     \<and> 0 < port c \<and> port c \<le> 65535
     \<and> serialized c = serialize_origin (scheme c) (hostname c) (port c)"

lemma parse_absolute_origin_wf:
  assumes "parse_absolute_origin W s = Inr c"
  shows "wf_origin c"
  using assms
  by (auto simp: parse_absolute_origin_def wf_origin_def Let_def
           split: if_splits option.splits)

lemma resolve_against_origin_wf:
  assumes "resolve_against_origin W cand base = Inr c"
  shows "wf_origin c"
  using assms
  by (auto simp: resolve_against_origin_def Let_def parse_absolute_origin_wf
           split: if_splits option.splits)

lemma supported_scheme_no_colon: "sch \<in> set supported_schemes \<Longrightarrow> 58 \<notin> set sch"
  by (auto simp: supported_schemes_def lit_def)

lemma dec_int_no_colon: "0 < p \<Longrightarrow> 58 \<notin> set (dec_int p)"
  using dec_nat_digits [of 58 "nat p"] by (auto simp: dec_int_of_pos is_digit_def)

lemma lit_colon: "lit '':'' = [58]" "lit ''://'' = [58, 47, 47]"
  by (simp_all add: lit_def)

lemma serialize_origin_inject:
  assumes eq: "serialize_origin s1 h1 p1 = serialize_origin s2 h2 p2"
    and s: "s1 \<in> set supported_schemes" "s2 \<in> set supported_schemes"
    and p: "0 < p1" "0 < p2"
  shows "s1 = s2 \<and> h1 = h2 \<and> p1 = p2"
proof -
  have "s1 @ 58 # ([47, 47] @ h1 @ 58 # dec_int p1) = s2 @ 58 # ([47, 47] @ h2 @ 58 # dec_int p2)"
    using eq by (simp add: serialize_origin_def lit_colon)
  then have "s1 = s2 \<and> [47, 47] @ h1 @ 58 # dec_int p1 = [47, 47] @ h2 @ 58 # dec_int p2"
    using s by (intro split_first_sep) (auto simp: supported_scheme_no_colon)
  then have "s1 = s2" and tail: "h1 @ 58 # dec_int p1 = h2 @ 58 # dec_int p2" by auto
  have "h1 = h2 \<and> dec_int p1 = dec_int p2"
    using tail p by (intro split_last_sep) (auto simp: dec_int_no_colon)
  then show ?thesis
    using \<open>s1 = s2\<close> p by (auto simp: dec_int_of_pos dec_nat_inject)
qed

lemma wf_origin_serialized_inject:
  assumes "wf_origin c" and "wf_origin d" and "serialized c = serialized d"
  shows "c = d"
  using assms serialize_origin_inject [of "scheme c" "hostname c" "port c" "scheme d" "hostname d" "port d"]
  by (auto simp: wf_origin_def intro: canonical_origin.equality)

subsection \<open>Comparison\<close>

lemma compare_equal_iff_same:
  "compare_absolute_origins W e a = O_Equal c
     \<longleftrightarrow> parse_absolute_origin W e = Inr c \<and> parse_absolute_origin W a = Inr c"
proof (cases "parse_absolute_origin W e")
  case (Inl r)
  then show ?thesis by (simp add: compare_absolute_origins_def)
next
  case e: (Inr x)
  show ?thesis
  proof (cases "parse_absolute_origin W a")
    case (Inl r)
    with e show ?thesis by (simp add: compare_absolute_origins_def)
  next
    case a: (Inr y)
    have wf: "wf_origin x" "wf_origin y" using e a by (simp_all add: parse_absolute_origin_wf)
    have "scheme x = scheme y \<Longrightarrow> hostname x = hostname y \<Longrightarrow> port x = port y \<Longrightarrow> x = y"
      using wf by (auto simp: wf_origin_def intro: canonical_origin.equality)
    with e a show ?thesis by (auto simp: compare_absolute_origins_def)
  qed
qed

end
