(* ===== verification/Autofill_Guard.thy ===== *)
theory Autofill_Guard
  imports Origin "HOL-Library.Sublist"
begin

text \<open>
  The gate between a credential and a form field:
  src/src/domain/services/autofill/autofill-guard.ts.  The array \<^verbatim>\<open>passed\<close> that the
  code appends to in place is threaded as a list; null and undefined are None.
\<close>

datatype autofill_block_reason =
    CREDENTIAL_ORIGIN_MISSING
  | CREDENTIAL_ORIGIN_INVALID
  | DOCUMENT_ORIGIN_INVALID
  | EXACT_MATCH_FAILED
  | FORM_ACTION_ORIGIN_MISMATCH
  | FORM_ACTION_UNRESOLVABLE
  | SUBMIT_ORIGIN_MISMATCH
  | UNAUTHORIZED_FRAME
  | FRAME_CONTEXT_INCONSISTENT
  | OPERATION_NOT_RELEASABLE

record autofill_guard_request =
  gr_operation :: string
  credential_origin :: "jstr option"
  document_origin :: jstr
  form_action :: "jstr option"
  submit_origin :: "jstr option"
  top_level_origin :: "jstr option"
  frame_origin :: "jstr option"

record autofill_guard_block =
  block_reason :: autofill_block_reason
  block_detail :: jstr
  block_checks :: "string list"

record autofill_guard_allow =
  allow_operation :: string
  allow_origin :: canonical_origin
  allow_checks :: "string list"

type_synonym autofill_decision = "autofill_guard_block + autofill_guard_allow"

definition allowed_operations :: "string list" where
  "allowed_operations = [''AUTOFILL'', ''VIEW'', ''TOTP'']"

definition block :: "autofill_block_reason \<Rightarrow> jstr \<Rightarrow> string list \<Rightarrow> autofill_guard_block" where
  "block r d chk = \<lparr> block_reason = r, block_detail = d, block_checks = chk \<rparr>"

definition describe_origin_parse :: "origin_parse_result \<Rightarrow> jstr" where
  "describe_origin_parse r = (case r of Inr _ \<Rightarrow> lit ''ok'' | Inl e \<Rightarrow> failure_name e)"

text \<open>Inr is the array after a passed check (the code's null), Inl the block.\<close>

definition frame_context_decision ::
  "web \<Rightarrow> autofill_guard_request \<Rightarrow> canonical_origin \<Rightarrow> string list
     \<Rightarrow> autofill_guard_block + string list" where
  "frame_context_decision W rq cred passed =
     (let has_frame = (frame_origin rq \<noteq> None); has_top = (top_level_origin rq \<noteq> None) in
      if has_frame \<noteq> has_top then
        Inl (block FRAME_CONTEXT_INCONSISTENT
          (if has_frame
           then lit ''frameOrigin supplied without topLevelOrigin; frame context cannot be trusted''
           else lit ''topLevelOrigin supplied without frameOrigin; frame context cannot be trusted'')
          passed)
      else case (frame_origin rq, top_level_origin rq) of
        (Some f, Some t) \<Rightarrow>
          (let frame = parse_absolute_origin W f; top = parse_absolute_origin W t in
           case (frame, top) of
             (Inr fo, Inr tlo) \<Rightarrow>
               if serialized fo \<noteq> serialized cred then
                 Inl (block UNAUTHORIZED_FRAME
                   (lit ''frame origin '' @ serialized fo
                     @ lit '' is not the credential origin '' @ serialized cred) passed)
               else if serialized tlo \<noteq> serialized cred then
                 Inl (block UNAUTHORIZED_FRAME
                   (lit ''top-level origin '' @ serialized tlo
                     @ lit '' is not the credential origin '' @ serialized cred
                     @ lit ''; refusing to release into an embedded frame'') passed)
               else Inr (passed @ [''frame-authorized''])
           | _ \<Rightarrow> Inl (block FRAME_CONTEXT_INCONSISTENT
                   (lit ''frame context unusable (frame='' @ describe_origin_parse frame
                     @ lit '', topLevel='' @ describe_origin_parse top @ lit '')'') passed))
      | _ \<Rightarrow> Inr passed)"

definition form_submission_decision ::
  "web \<Rightarrow> autofill_guard_request \<Rightarrow> canonical_origin \<Rightarrow> canonical_origin \<Rightarrow> string list
     \<Rightarrow> autofill_guard_block + string list" where
  "form_submission_decision W rq cred doc passed =
     (case resolve_against_origin W (form_action rq) (serialized doc) of
        Inl r \<Rightarrow> Inl (block FORM_ACTION_UNRESOLVABLE
                  (lit ''form action could not be resolved ('' @ failure_name r @ lit '')'') passed)
      | Inr target \<Rightarrow>
          (case compare_absolute_origins W (serialized cred) (serialized target) of
             O_Differ _ _ _ \<Rightarrow> Inl (block FORM_ACTION_ORIGIN_MISMATCH
               (lit ''form posts to '' @ serialized target
                 @ lit '', not the credential origin '' @ serialized cred) passed)
           | O_Equal _ \<Rightarrow>
               (let passed1 = passed @ [''form-action-origin''] in
                case submit_origin rq of
                  None \<Rightarrow> Inr passed1
                | Some s \<Rightarrow>
                    (case compare_absolute_origins W (serialized cred) s of
                       O_Differ _ _ why \<Rightarrow> Inl (block SUBMIT_ORIGIN_MISMATCH
                         (lit ''submit target '' @ s @ lit '' is not the credential origin ''
                           @ serialized cred @ lit '' ('' @ why @ lit '')'') passed1)
                     | O_Equal _ \<Rightarrow> Inr (passed1 @ [''submit-origin''])))))"

definition evaluate_autofill :: "web \<Rightarrow> autofill_guard_request \<Rightarrow> autofill_decision" where
  "evaluate_autofill W rq =
     (if gr_operation rq \<notin> set allowed_operations then
        Inl (block OPERATION_NOT_RELEASABLE
          (lit ''operation '' @ [34] @ lit (gr_operation rq) @ [34]
            @ lit '' is not a releasable operation'') [])
      else let p1 = [''operation-releasable''] in
      case credential_origin rq of
        None \<Rightarrow> Inl (block CREDENTIAL_ORIGIN_MISSING
                  (lit ''credential has no origin bound to it; refusing to release'') p1)
      | Some co \<Rightarrow>
      if trim co = [] then
        Inl (block CREDENTIAL_ORIGIN_MISSING
          (lit ''credential has no origin bound to it; refusing to release'') p1)
      else let p2 = p1 @ [''credential-origin-present''] in
      case parse_absolute_origin W co of
        Inl r \<Rightarrow> Inl (block CREDENTIAL_ORIGIN_INVALID
                  (lit ''credential origin unusable ('' @ failure_name r @ lit '')'') p2)
      | Inr cred \<Rightarrow>
      let p3 = p2 @ [''credential-origin-valid''] in
      case parse_absolute_origin W (document_origin rq) of
        Inl r \<Rightarrow> Inl (block DOCUMENT_ORIGIN_INVALID
                  (lit ''document origin unusable ('' @ failure_name r @ lit '')'') p3)
      | Inr doc \<Rightarrow>
      let p4 = p3 @ [''document-origin-valid''] in
      case frame_context_decision W rq cred p4 of
        Inl b \<Rightarrow> Inl b
      | Inr p5 \<Rightarrow>
      case compare_absolute_origins W (serialized cred) (serialized doc) of
        O_Differ _ _ why \<Rightarrow> Inl (block EXACT_MATCH_FAILED
            (lit ''page origin '' @ serialized doc @ lit '' is not the credential origin ''
              @ serialized cred @ lit '' ('' @ why @ lit '')'') p5)
      | O_Equal _ \<Rightarrow>
      (case form_submission_decision W rq cred doc (p5 @ [''exact-match'']) of
        Inl b \<Rightarrow> Inl b
      | Inr p6 \<Rightarrow> Inr \<lparr> allow_operation = gr_operation rq, allow_origin = cred,
                        allow_checks = p6 \<rparr>))"

definition may_release_secret :: "web \<Rightarrow> autofill_guard_request \<Rightarrow> bool" where
  "may_release_secret W rq = is_ok (evaluate_autofill W rq)"

subsection \<open>Specification\<close>

text \<open>
  An origin is stable when its canonical serialization parses back to it.  The
  guard compares serializations by parsing them again, so equality of origins
  follows from its comparisons for stable origins.  Every origin is stable
  whose host name does not end in a dot; \<^verbatim>\<open>https://a..\<close> is not, because
  \<^verbatim>\<open>normalizeHostname\<close> drops a single trailing dot on each parse.
\<close>

definition stable_origin :: "web \<Rightarrow> canonical_origin \<Rightarrow> bool" where
  "stable_origin W c \<longleftrightarrow> parse_absolute_origin W (serialized c) = Inr c"

text \<open>The frame is absent, or both the frame and the top-level document are the origin.\<close>

definition frame_authorized :: "web \<Rightarrow> autofill_guard_request \<Rightarrow> canonical_origin \<Rightarrow> bool" where
  "frame_authorized W rq c \<longleftrightarrow>
     (frame_origin rq = None \<and> top_level_origin rq = None) \<or>
     (\<exists>f t. frame_origin rq = Some f \<and> top_level_origin rq = Some t \<and>
        parse_absolute_origin W f = Inr c \<and> parse_absolute_origin W t = Inr c)"

definition submit_authorized :: "web \<Rightarrow> autofill_guard_request \<Rightarrow> canonical_origin \<Rightarrow> bool" where
  "submit_authorized W rq c \<longleftrightarrow>
     (case submit_origin rq of None \<Rightarrow> True | Some s \<Rightarrow> parse_absolute_origin W s = Inr c)"

lemma frame_context_ok_iff:
  assumes "wf_origin c"
  shows "(\<exists>p. frame_context_decision W rq c passed = Inr p) \<longleftrightarrow> frame_authorized W rq c"
proof (cases "frame_origin rq")
  case None
  then show ?thesis
    by (cases "top_level_origin rq") (simp_all add: frame_context_decision_def frame_authorized_def)
next
  case f: (Some f)
  show ?thesis
  proof (cases "top_level_origin rq")
    case None
    with f show ?thesis by (simp add: frame_context_decision_def frame_authorized_def)
  next
    case t: (Some t)
    note ft = f t
    show ?thesis
    proof (cases "parse_absolute_origin W f")
      case (Inl e)
      with ft show ?thesis by (simp add: frame_context_decision_def frame_authorized_def)
    next
      case pf: (Inr fo)
      show ?thesis
      proof (cases "parse_absolute_origin W t")
        case (Inl e)
        with ft pf show ?thesis by (simp add: frame_context_decision_def frame_authorized_def)
      next
        case pt: (Inr tlo)
        have "wf_origin fo" "wf_origin tlo" using pf pt by (simp_all add: parse_absolute_origin_wf)
        then have "serialized fo = serialized c \<longleftrightarrow> fo = c" "serialized tlo = serialized c \<longleftrightarrow> tlo = c"
          using assms wf_origin_serialized_inject by blast+
        with ft pf pt show ?thesis by (auto simp: frame_context_decision_def frame_authorized_def)
      qed
    qed
  qed
qed

lemma compare_serialized_iff:
  assumes "stable_origin W c" and "stable_origin W d"
  shows "(\<exists>x. compare_absolute_origins W (serialized c) (serialized d) = O_Equal x) \<longleftrightarrow> d = c"
  using assms by (auto simp: compare_equal_iff_same stable_origin_def)

lemma compare_against_stable_iff:
  assumes "stable_origin W c"
  shows "(\<exists>x. compare_absolute_origins W (serialized c) s = O_Equal x)
           \<longleftrightarrow> parse_absolute_origin W s = Inr c"
  using assms by (auto simp: compare_equal_iff_same stable_origin_def)

lemma form_submission_ok_iff:
  assumes "stable_origin W c"
    and "\<And>t. resolve_against_origin W (form_action rq) (serialized d) = Inr t \<Longrightarrow> stable_origin W t"
  shows "(\<exists>p. form_submission_decision W rq c d passed = Inr p) \<longleftrightarrow>
           resolve_against_origin W (form_action rq) (serialized d) = Inr c
           \<and> submit_authorized W rq c"
proof (cases "resolve_against_origin W (form_action rq) (serialized d)")
  case (Inl r)
  then show ?thesis by (simp add: form_submission_decision_def)
next
  case t: (Inr t)
  have st: "stable_origin W t" using assms(2) t by blast
  show ?thesis
  proof (cases "compare_absolute_origins W (serialized c) (serialized t)")
    case (O_Differ x y z)
    then have "t \<noteq> c" using compare_serialized_iff [OF assms(1) st] by auto
    with t O_Differ show ?thesis by (auto simp: form_submission_decision_def)
  next
    case (O_Equal x)
    then have [simp]: "t = c" using compare_serialized_iff [OF assms(1) st] by auto
    show ?thesis
    proof (cases "submit_origin rq")
      case None
      with t O_Equal show ?thesis
        by (simp add: form_submission_decision_def submit_authorized_def)
    next
      case (Some s)
      with t O_Equal show ?thesis
        using compare_against_stable_iff [OF assms(1), of s]
        by (cases "compare_absolute_origins W (serialized c) s")
           (simp_all add: form_submission_decision_def submit_authorized_def)
    qed
  qed
qed

text \<open>The order in which the guard's checks are recorded.\<close>

definition guard_checks :: "string list" where
  "guard_checks = [''operation-releasable'', ''credential-origin-present'',
     ''credential-origin-valid'', ''document-origin-valid'', ''frame-authorized'',
     ''exact-match'', ''form-action-origin'', ''submit-origin'']"

lemma evaluate_autofill_allow_iff:
  assumes op: "gr_operation rq \<in> set allowed_operations"
    and co: "credential_origin rq = Some co" and c: "parse_absolute_origin W co = Inr c"
    and doc: "parse_absolute_origin W (document_origin rq) = Inr d"
    and st: "stable_origin W c" "stable_origin W d"
    and form: "\<And>t. resolve_against_origin W (form_action rq) (serialized d) = Inr t \<Longrightarrow> stable_origin W t"
  shows "is_ok (evaluate_autofill W rq) \<longleftrightarrow>
    d = c \<and> frame_authorized W rq c
    \<and> resolve_against_origin W (form_action rq) (serialized c) = Inr c \<and> submit_authorized W rq c"
proof -
  have ne: "trim co \<noteq> []" using c by (auto simp: parse_absolute_origin_def)
  let ?p4 = "[''operation-releasable'', ''credential-origin-present'', ''credential-origin-valid'',
    ''document-origin-valid'']"
  show ?thesis
  proof (cases "frame_context_decision W rq c ?p4")
    case (Inl b)
    then have "\<not> frame_authorized W rq c"
      using frame_context_ok_iff [of c W rq ?p4] c by (auto simp: parse_absolute_origin_wf)
    with op co ne c doc Inl show ?thesis by (simp add: evaluate_autofill_def)
  next
    case p5: (Inr p5)
    have fr: "frame_authorized W rq c"
      using frame_context_ok_iff [of c W rq ?p4] c p5 by (auto simp: parse_absolute_origin_wf)
    show ?thesis
    proof (cases "compare_absolute_origins W (serialized c) (serialized d)")
      case (O_Differ x y z)
      then have "d \<noteq> c" using compare_serialized_iff [OF st] by auto
      with op co ne c doc p5 O_Differ show ?thesis by (simp add: evaluate_autofill_def)
    next
      case (O_Equal x)
      then have [simp]: "d = c" using compare_serialized_iff [OF st] by auto
      have sub: "(\<exists>p. form_submission_decision W rq c c (p5 @ [''exact-match'']) = Inr p) \<longleftrightarrow>
          resolve_against_origin W (form_action rq) (serialized c) = Inr c \<and> submit_authorized W rq c"
        using form by (intro form_submission_ok_iff [OF st(1)]) simp
      show ?thesis
        using op co ne c doc p5 O_Equal fr sub
        by (cases "form_submission_decision W rq c c (p5 @ [''exact-match''])")
           (simp_all add: evaluate_autofill_def)
    qed
  qed
qed

lemma evaluate_autofill_needs:
  assumes "evaluate_autofill W rq = Inr a"
  shows "gr_operation rq \<in> set allowed_operations"
    and "\<exists>co c d. credential_origin rq = Some co \<and> parse_absolute_origin W co = Inr c
           \<and> parse_absolute_origin W (document_origin rq) = Inr d \<and> allow_origin a = c
           \<and> allow_operation a = gr_operation rq"
  using assms
  by (auto simp: evaluate_autofill_def Let_def
           split: if_splits option.splits sum.splits origin_comparison.splits)

end
