(* ===== verification/Codec.thy ===== *)
theory Codec
  imports Prelude
begin

unbundle bit_operations_syntax

text \<open>
  Encodings shared by the components: src/src/shared/utils/binary.ts (base64 over
  btoa and atob), the \<^verbatim>\<open>toHex\<close> loops, TextEncoder's UTF-8, big-endian integers
  as DataView writes them, and the XOR-accumulating comparison that
  domain-index.ts, hkdf-derivation.ts and others each spell out.
\<close>

subsection \<open>Bytes as naturals\<close>

definition nats_of :: "bytes \<Rightarrow> nat list" where
  "nats_of bs = map unat bs"

definition bytes_of :: "nat list \<Rightarrow> bytes" where
  "bytes_of ns = map of_nat ns"

lemma bytes_of_nats_of [simp]: "bytes_of (nats_of bs) = bs"
  by (simp add: bytes_of_def nats_of_def map_idI)

lemma unat_byte_less: "unat (b :: 8 word) < 256"
  using unsigned_less [of b, where ?'a = nat] by simp

lemma nats_of_bound: "\<forall>n \<in> set (nats_of bs). n < 256"
  by (auto simp: nats_of_def unat_byte_less)

lemma length_nats_of [simp]: "length (nats_of bs) = length bs"
  by (simp add: nats_of_def)

lemma nats_of_inject [simp]: "nats_of a = nats_of b \<longleftrightarrow> a = b"
  by (metis bytes_of_nats_of)

lemma nats_of_bytes_of: "\<forall>n \<in> set ns. n < 256 \<Longrightarrow> nats_of (bytes_of ns) = ns"
  by (induction ns) (auto simp: nats_of_def bytes_of_def unat_of_nat)

subsection \<open>Hexadecimal\<close>

definition hex_digit :: "nat \<Rightarrow> nat" where
  "hex_digit n = (if n < 10 then 48 + n else 87 + n)"

definition hex_value :: "nat \<Rightarrow> nat option" where
  "hex_value c = (if 48 \<le> c \<and> c \<le> 57 then Some (c - 48)
     else if 97 \<le> c \<and> c \<le> 102 then Some (c - 87)
     else if 65 \<le> c \<and> c \<le> 70 then Some (c - 55) else None)"

text \<open>\<^verbatim>\<open>b.toString(16).padStart(2, "0")\<close>, concatenated over the bytes.\<close>

definition to_hex :: "bytes \<Rightarrow> jstr" where
  "to_hex bs = concat (map (\<lambda>n. [hex_digit (n div 16), hex_digit (n mod 16)]) (nats_of bs))"

lemma hex_value_digit: "n < 16 \<Longrightarrow> hex_value (hex_digit n) = Some n"
  by (auto simp: hex_value_def hex_digit_def)

lemma length_to_hex: "length (to_hex bs) = 2 * length bs"
  by (induction bs) (simp_all add: to_hex_def nats_of_def)

lemma to_hex_inject: "to_hex a = to_hex b \<longleftrightarrow> a = b"
proof
  assume "to_hex a = to_hex b"
  then show "a = b"
  proof (induction a arbitrary: b)
    case Nil
    then show ?case by (cases b) (simp_all add: to_hex_def nats_of_def)
  next
    case (Cons x a)
    then obtain y b' where b: "b = y # b'"
      by (cases b) (simp_all add: to_hex_def nats_of_def)
    have hd: "hex_digit (unat x div 16) = hex_digit (unat y div 16)"
      and hm: "hex_digit (unat x mod 16) = hex_digit (unat y mod 16)"
      and tl: "to_hex a = to_hex b'"
      using Cons.prems b by (simp_all add: to_hex_def nats_of_def)
    have "unat x div 16 = unat y div 16"
      using arg_cong [OF hd, of hex_value] unat_byte_less [of x] unat_byte_less [of y]
      by (simp add: hex_value_digit)
    moreover have "unat x mod 16 = unat y mod 16"
      using arg_cong [OF hm, of hex_value] by (simp add: hex_value_digit)
    ultimately have "unat x = unat y" by (metis div_mult_mod_eq)
    then show ?case using Cons.IH [OF tl] b by (simp add: word_unat_eq_iff)
  qed
qed simp

subsection \<open>Base64\<close>

definition b64_char :: "nat \<Rightarrow> nat" where
  "b64_char n = (if n < 26 then 65 + n else if n < 52 then 71 + n
     else if n < 62 then n - 4 else if n = 62 then 43 else 47)"

definition b64_value :: "nat \<Rightarrow> nat option" where
  "b64_value c = (if 65 \<le> c \<and> c \<le> 90 then Some (c - 65)
     else if 97 \<le> c \<and> c \<le> 122 then Some (c - 71)
     else if 48 \<le> c \<and> c \<le> 57 then Some (c + 4)
     else if c = 43 then Some 62 else if c = 47 then Some 63 else None)"

lemma b64_value_char: "n < 64 \<Longrightarrow> b64_value (b64_char n) = Some n"
  by (auto simp: b64_value_def b64_char_def)

lemma b64_char_not_special: "n < 64 \<Longrightarrow> b64_char n \<noteq> 61 \<and> b64_char n > 32"
  by (auto simp: b64_char_def)

text \<open>btoa on byte values: groups of three bytes give four characters.\<close>

fun b64_groups :: "nat list \<Rightarrow> jstr" where
  "b64_groups (a # b # c # rest) =
     (let n = a * 65536 + b * 256 + c in
      b64_char (n div 262144) # b64_char (n div 4096 mod 64) # b64_char (n div 64 mod 64)
        # b64_char (n mod 64) # b64_groups rest)"
| "b64_groups [a, b] =
     (let n = a * 65536 + b * 256 in
      [b64_char (n div 262144), b64_char (n div 4096 mod 64), b64_char (n div 64 mod 64), 61])"
| "b64_groups [a] =
     (let n = a * 65536 in [b64_char (n div 262144), b64_char (n div 4096 mod 64), 61, 61])"
| "b64_groups [] = []"

definition binary_to_base64 :: "bytes \<Rightarrow> jstr" where
  "binary_to_base64 bs = b64_groups (nats_of bs)"

text \<open>
  atob is forgiving: ASCII white space is removed, one or two padding characters
  are dropped when the length is a multiple of four, a length of one modulo four
  or a character outside the alphabet is an error, and leftover bits are
  discarded.
\<close>

definition ascii_space :: "nat \<Rightarrow> bool" where
  "ascii_space c \<longleftrightarrow> c = 9 \<or> c = 10 \<or> c = 12 \<or> c = 13 \<or> c = 32"

definition strip_padding :: "jstr \<Rightarrow> jstr" where
  "strip_padding s =
     (if length s mod 4 = 0 then
        if ends_with s [61, 61] then take (length s - 2) s
        else if ends_with s [61] then take (length s - 1) s else s
      else s)"

fun b64_values :: "jstr \<Rightarrow> nat list option" where
  "b64_values [] = Some []"
| "b64_values (c # cs) = (case b64_value c of None \<Rightarrow> None
     | Some v \<Rightarrow> (case b64_values cs of None \<Rightarrow> None | Some vs \<Rightarrow> Some (v # vs)))"

fun b64_ungroup :: "nat list \<Rightarrow> nat list option" where
  "b64_ungroup (p # q # r # s # rest) =
     (let n = p * 262144 + q * 4096 + r * 64 + s in
      case b64_ungroup rest of None \<Rightarrow> None
      | Some bs \<Rightarrow> Some (n div 65536 # n div 256 mod 256 # n mod 256 # bs))"
| "b64_ungroup [p, q, r] =
     (let n = p * 262144 + q * 4096 + r * 64 in Some [n div 65536, n div 256 mod 256])"
| "b64_ungroup [p, q] = (let n = p * 262144 + q * 4096 in Some [n div 65536])"
| "b64_ungroup [p] = None"
| "b64_ungroup [] = Some []"

definition atob_values :: "jstr \<Rightarrow> nat list option" where
  "atob_values s = (case b64_values (strip_padding (filter (\<lambda>c. \<not> ascii_space c) s)) of
     None \<Rightarrow> None | Some vs \<Rightarrow> b64_ungroup vs)"

definition base64_to_binary :: "jstr \<Rightarrow> bytes option" where
  "base64_to_binary s = map_option bytes_of (atob_values s)"

subsubsection \<open>Decoding undoes encoding\<close>

lemma b64_quad:
  assumes "(a::nat) < 256" "b < 256" "c < 256" and n: "n = a * 65536 + b * 256 + c"
  shows "n div 262144 < 64" "n div 262144 * 262144 + n div 4096 mod 64 * 4096 + n div 64 mod 64 * 64 + n mod 64 = n"
    "n div 65536 = a" "n div 256 mod 256 = b" "n mod 256 = c"
proof -
  show "n div 262144 < 64" using assms by simp
  have e: "n div 4096 = n div 64 div 64" "n div 262144 = n div 64 div 64 div 64"
    by (simp_all add: div_mult2_eq [symmetric])
  show "n div 262144 * 262144 + n div 4096 mod 64 * 4096 + n div 64 mod 64 * 64 + n mod 64 = n"
    unfolding e
    using div_mult_mod_eq [of n 64] div_mult_mod_eq [of "n div 64" 64]
      div_mult_mod_eq [of "n div 64 div 64" 64] by linarith
  show "n div 65536 = a" using assms by simp
  have "n div 256 = a * 256 + b" using assms by simp
  then show "n div 256 mod 256 = b" using assms by simp
  have "n = (a * 256 + b) * 256 + c" using n by simp
  then show "n mod 256 = c" using \<open>c < 256\<close> by (simp only: mod_mult_self3 mod_less)
qed

definition unpadded :: "jstr \<Rightarrow> jstr" where
  "unpadded s = filter (\<lambda>c. c \<noteq> 61) s"

lemma b64_groups_decode:
  "\<forall>n \<in> set ns. n < 256 \<Longrightarrow>
     \<exists>vs. b64_values (unpadded (b64_groups ns)) = Some vs \<and> b64_ungroup vs = Some ns"
proof (induction ns rule: b64_groups.induct)
  case (1 a b c rest)
  define n where "n = a * 65536 + b * 256 + c"
  note q = b64_quad [OF _ _ _ n_def]
  have abc: "a < 256" "b < 256" "c < 256" using 1 by simp_all
  obtain vs where vs: "b64_values (unpadded (b64_groups rest)) = Some vs" "b64_ungroup vs = Some rest"
    using 1 by (auto simp: Let_def)
  have ns: "b64_char (n div 262144) \<noteq> 61" "b64_char (n div 4096 mod 64) \<noteq> 61"
    "b64_char (n div 64 mod 64) \<noteq> 61" "b64_char (n mod 64) \<noteq> 61"
    using q(1) [OF abc] b64_char_not_special by simp_all
  have "b64_values (unpadded (b64_groups (a # b # c # rest)))
      = Some (n div 262144 # n div 4096 mod 64 # n div 64 mod 64 # n mod 64 # vs)"
    using ns vs q(1) [OF abc]
    by (simp only: b64_groups.simps Let_def n_def [symmetric])
       (simp add: unpadded_def b64_value_char)
  moreover have "b64_ungroup (n div 262144 # n div 4096 mod 64 # n div 64 mod 64 # n mod 64 # vs)
      = Some (a # b # c # rest)"
    using vs q(3-5) [OF abc] by (simp only: b64_ungroup.simps Let_def q(2) [OF abc]) simp
  ultimately show ?case by blast
next
  case (2 a b)
  define n where "n = a * 65536 + b * 256 + 0"
  note q = b64_quad [OF _ _ _ n_def]
  have abc: "a < 256" "b < 256" "(0::nat) < 256" using 2 by simp_all
  have "n = (a * 1024 + b * 4) * 64" by (simp add: n_def)
  then have z: "n mod 64 = 0" by (simp only: mod_mult_self2_is_0)
  have ns: "b64_char (n div 262144) \<noteq> 61" "b64_char (n div 4096 mod 64) \<noteq> 61"
    "b64_char (n div 64 mod 64) \<noteq> 61"
    using q(1) [OF abc] b64_char_not_special by simp_all
  have n': "n = a * 65536 + b * 256" by (simp add: n_def)
  have "b64_values (unpadded (b64_groups [a, b]))
      = Some [n div 262144, n div 4096 mod 64, n div 64 mod 64]"
    using ns q(1) [OF abc]
    by (simp only: b64_groups.simps Let_def n' [symmetric])
       (simp add: unpadded_def b64_value_char)
  moreover have "b64_ungroup [n div 262144, n div 4096 mod 64, n div 64 mod 64] = Some [a, b]"
    using q(2) [OF abc, unfolded z] q(3,4) [OF abc] by (simp add: Let_def)
  ultimately show ?case by blast
next
  case (3 a)
  define n where "n = a * 65536 + 0 * 256 + 0"
  note q = b64_quad [OF _ _ _ n_def]
  have abc: "a < 256" "(0::nat) < 256" "(0::nat) < 256" using 3 by simp_all
  have "n = (a * 1024) * 64" by (simp add: n_def)
  moreover from this have "n div 64 = (a * 16) * 64" by simp
  ultimately have z: "n mod 64 = 0" "n div 64 mod 64 = 0" by (simp_all only: mod_mult_self2_is_0)
  have ns: "b64_char (n div 262144) \<noteq> 61" "b64_char (n div 4096 mod 64) \<noteq> 61"
    using q(1) [OF abc] b64_char_not_special by simp_all
  have n': "n = a * 65536" by (simp add: n_def)
  have "b64_values (unpadded (b64_groups [a])) = Some [n div 262144, n div 4096 mod 64]"
    using ns q(1) [OF abc]
    by (simp only: b64_groups.simps Let_def n' [symmetric])
       (simp add: unpadded_def b64_value_char)
  moreover have "b64_ungroup [n div 262144, n div 4096 mod 64] = Some [a]"
    using q(2) [OF abc, unfolded z] q(3) [OF abc] by (simp add: Let_def)
  ultimately show ?case by blast
next
  case 4
  then show ?case by (simp add: unpadded_def)
qed

lemma b64_groups_chars:
  "\<forall>n \<in> set ns. n < 256 \<Longrightarrow> c \<in> set (b64_groups ns) \<Longrightarrow> 32 < c"
proof (induction ns rule: b64_groups.induct)
  case (1 a b c rest)
  then show ?case by (auto simp: Let_def b64_char_not_special [THEN conjunct2])
next
  case (2 a b)
  then show ?case by (auto simp: Let_def b64_char_not_special [THEN conjunct2])
next
  case (3 a)
  then show ?case by (auto simp: Let_def b64_char_not_special [THEN conjunct2])
qed simp

lemma strip_padding_snoc2:
  "length p mod 4 = 2 \<Longrightarrow> strip_padding (p @ [x, y]) =
     (if x = 61 \<and> y = 61 then p else if y = 61 then p @ [x] else p @ [x, y])"
  by (simp add: strip_padding_def ends_with_def mod_simps) presburger

lemma strip_padding_append4:
  assumes xs: "length xs = 4" and s: "s \<noteq> []" and l: "length s mod 4 = 0"
  shows "strip_padding (xs @ s) = xs @ strip_padding s"
proof -
  obtain r y where r: "s = r @ [y]" using s by (metis rev_exhaust)
  then have "r \<noteq> []" using l by auto
  then obtain p x where "r = p @ [x]" by (metis rev_exhaust)
  with r have p: "s = p @ [x, y]" by simp
  have "length p mod 4 = 2" using l p by simp presburger
  moreover from this have "length (xs @ p) mod 4 = 2" using xs by simp
  ultimately show ?thesis
    using strip_padding_snoc2 [of p x y] strip_padding_snoc2 [of "xs @ p" x y] p by simp
qed

lemma length_b64_groups: "length (b64_groups ns) mod 4 = 0"
  by (induction ns rule: b64_groups.induct) (auto simp: Let_def)

lemma strip_padding_groups:
  "\<forall>n \<in> set ns. n < 256 \<Longrightarrow> strip_padding (b64_groups ns) = unpadded (b64_groups ns)"
proof (induction ns rule: b64_groups.induct)
  case (1 a b c rest)
  define n where "n = a * 65536 + b * 256 + c"
  define xs where "xs = [b64_char (n div 262144), b64_char (n div 4096 mod 64),
    b64_char (n div 64 mod 64), b64_char (n mod 64)]"
  have "n div 262144 < 64" using 1 b64_quad(1) [OF _ _ _ n_def] by simp
  then have ns: "\<forall>x \<in> set xs. x \<noteq> 61" by (simp add: xs_def b64_char_not_special)
  have g: "b64_groups (a # b # c # rest) = xs @ b64_groups rest"
    by (simp add: xs_def n_def Let_def)
  have u: "unpadded (xs @ b64_groups rest) = xs @ unpadded (b64_groups rest)"
    using ns by (simp add: unpadded_def filter_id_conv)
  have IH: "strip_padding (b64_groups rest) = unpadded (b64_groups rest)" using 1 by (auto simp: Let_def)
  show ?case
  proof (cases "b64_groups rest = []")
    case True
    with ns show ?thesis unfolding g
      by (simp add: xs_def strip_padding_def ends_with_def unpadded_def)
  next
    case False
    then show ?thesis unfolding g u
      using strip_padding_append4 [of xs "b64_groups rest"] IH length_b64_groups [of rest]
      by (simp add: xs_def)
  qed
next
  case (2 a b)
  then have "(a * 65536 + b * 256) div 262144 < 64" using b64_quad(1) [of a b 0] by simp
  then show ?case
    by (simp add: Let_def strip_padding_def ends_with_def unpadded_def b64_char_not_special)
next
  case (3 a)
  then have "(a * 65536) div 262144 < 64" by simp
  then show ?case
    by (simp add: Let_def strip_padding_def ends_with_def unpadded_def b64_char_not_special)
next
  case 4
  then show ?case by (simp add: strip_padding_def ends_with_def unpadded_def)
qed

lemma base64_round_trip: "base64_to_binary (binary_to_base64 bs) = Some bs"
proof -
  let ?g = "b64_groups (nats_of bs)"
  have f: "filter (\<lambda>c. \<not> ascii_space c) ?g = ?g"
  proof (rule filter_True, rule ballI)
    fix c assume "c \<in> set ?g"
    then have "32 < c" using b64_groups_chars [OF nats_of_bound] by blast
    then show "\<not> ascii_space c" by (simp add: ascii_space_def)
  qed
  obtain vs where "b64_values (unpadded ?g) = Some vs" "b64_ungroup vs = Some (nats_of bs)"
    using b64_groups_decode [OF nats_of_bound] by blast
  then show ?thesis
    by (simp add: base64_to_binary_def binary_to_base64_def atob_values_def f
                  strip_padding_groups [OF nats_of_bound])
qed

subsection \<open>UTF-8\<close>

text \<open>
  TextEncoder: surrogate pairs are combined, a lone surrogate becomes U+FFFD.
\<close>

definition high_surrogate :: "nat \<Rightarrow> bool" where
  "high_surrogate c \<longleftrightarrow> 0xD800 \<le> c \<and> c \<le> 0xDBFF"

definition low_surrogate :: "nat \<Rightarrow> bool" where
  "low_surrogate c \<longleftrightarrow> 0xDC00 \<le> c \<and> c \<le> 0xDFFF"

definition scalar_or_replacement :: "nat \<Rightarrow> nat" where
  "scalar_or_replacement c = (if high_surrogate c \<or> low_surrogate c then 0xFFFD else c)"

fun code_points :: "jstr \<Rightarrow> nat list" where
  "code_points [] = []"
| "code_points [c] = [scalar_or_replacement c]"
| "code_points (c # d # rest) =
     (if high_surrogate c \<and> low_surrogate d
      then (0x10000 + (c - 0xD800) * 1024 + (d - 0xDC00)) # code_points rest
      else scalar_or_replacement c # code_points (d # rest))"

definition utf8_point :: "nat \<Rightarrow> nat list" where
  "utf8_point c =
     (if c < 0x80 then [c]
      else if c < 0x800 then [0xC0 + c div 64, 0x80 + c mod 64]
      else if c < 0x10000 then [0xE0 + c div 4096, 0x80 + c div 64 mod 64, 0x80 + c mod 64]
      else [0xF0 + c div 262144, 0x80 + c div 4096 mod 64, 0x80 + c div 64 mod 64, 0x80 + c mod 64])"

definition utf8_encode :: "jstr \<Rightarrow> bytes" where
  "utf8_encode s = bytes_of (concat (map utf8_point (code_points s)))"

lemma code_points_ascii: "\<forall>c \<in> set s. c < 128 \<Longrightarrow> code_points s = s"
  by (induction s rule: code_points.induct)
     (auto simp: scalar_or_replacement_def high_surrogate_def low_surrogate_def)

lemma utf8_encode_ascii: "\<forall>c \<in> set s. c < 128 \<Longrightarrow> utf8_encode s = bytes_of s"
proof -
  assume a: "\<forall>c \<in> set s. c < 128"
  then have "concat (map utf8_point s) = s" by (induction s) (auto simp: utf8_point_def)
  with a show ?thesis by (simp add: utf8_encode_def code_points_ascii)
qed

lemma utf8_encode_ascii_inject:
  assumes "\<forall>c \<in> set s. c < 128" and "\<forall>c \<in> set t. c < 128"
    and "utf8_encode s = utf8_encode t"
  shows "s = t"
proof -
  have "nats_of (bytes_of s) = nats_of (bytes_of t)" using assms by (simp add: utf8_encode_ascii)
  moreover have "\<forall>c \<in> set s. c < 256" "\<forall>c \<in> set t. c < 256" using assms by auto
  ultimately show ?thesis by (simp add: nats_of_bytes_of)
qed

subsection \<open>Big-endian integers\<close>

text \<open>\<^verbatim>\<open>DataView.setUint16/32\<close> and \<^verbatim>\<open>setBigUint64\<close> with littleEndian false.\<close>

fun be_bytes :: "nat \<Rightarrow> int \<Rightarrow> bytes" where
  "be_bytes 0 x = []"
| "be_bytes (Suc k) x = be_bytes k (x div 256) @ [of_int x]"

definition be_value :: "bytes \<Rightarrow> int" where
  "be_value bs = foldl (\<lambda>acc b. acc * 256 + uint b) 0 bs"

lemma length_be_bytes [simp]: "length (be_bytes k x) = k"
  by (induction k arbitrary: x) simp_all

lemma be_value_snoc: "be_value (bs @ [b]) = be_value bs * 256 + uint b"
  by (simp add: be_value_def)

lemma uint_of_int_byte: "uint (of_int x :: 8 word) = x mod 256"
  by (simp add: unsigned_of_int take_bit_eq_mod)

lemma be_value_be_bytes: "be_value (be_bytes k x) = x mod 256 ^ k"
proof (induction k arbitrary: x)
  case 0
  then show ?case by (simp add: be_value_def)
next
  case (Suc k)
  have "x mod (256 * 256 ^ k) = 256 * (x div 256 mod 256 ^ k) + x mod 256"
    by (rule zmod_zmult2_eq) simp
  with Suc show ?case by (simp add: be_value_snoc uint_of_int_byte)
qed

lemma be_bytes_eq_iff: "be_bytes k x = be_bytes k y \<longleftrightarrow> x mod 256 ^ k = y mod 256 ^ k"
proof
  assume "be_bytes k x = be_bytes k y"
  then show "x mod 256 ^ k = y mod 256 ^ k" by (metis be_value_be_bytes)
next
  show "x mod 256 ^ k = y mod 256 ^ k \<Longrightarrow> be_bytes k x = be_bytes k y"
  proof (induction k arbitrary: x y)
    case (Suc k)
    have e: "z mod (256 * 256 ^ k) = 256 * (z div 256 mod 256 ^ k) + z mod 256" for z :: int
      by (rule zmod_zmult2_eq) simp
    have eq: "256 * (x div 256 mod 256 ^ k) + x mod 256 = 256 * (y div 256 mod 256 ^ k) + y mod 256"
      using Suc.prems by (simp add: e)
    have m: "x mod 256 = y mod 256"
      using arg_cong [OF eq, of "\<lambda>z. z mod 256"] by simp
    with eq have "x div 256 mod 256 ^ k = y div 256 mod 256 ^ k" by simp
    then have "be_bytes k (x div 256) = be_bytes k (y div 256)" by (rule Suc.IH)
    moreover have "(of_int x :: 8 word) = of_int y"
      by (rule word_uint_eqI) (simp add: uint_of_int_byte m)
    ultimately show ?case by simp
  qed simp
qed

lemma foldl_base: "foldl (\<lambda>acc b. acc * B + f b) x bs = x * B ^ length bs + foldl (\<lambda>acc b. acc * B + f b) (0::int) bs"
proof (induction bs arbitrary: x)
  case (Cons b bs)
  show ?case using Cons [of "x * B + f b"] Cons [of "f b"] by (simp add: algebra_simps)
qed simp

lemma be_value_Cons: "be_value (b # bs) = uint b * 256 ^ length bs + be_value bs"
  unfolding be_value_def by (simp add: foldl_base [of 256 uint "uint b"])
subsection \<open>Shifts on 32-bit numbers\<close>

lemma push5_or:
  fixes w :: "32 word"
  assumes "v < 32"
  shows "uint (push_bit 5 w OR of_nat v) = (uint w * 32 + int v) mod 2 ^ 32"
proof -
  have v: "(of_nat v :: 32 word) = take_bit 5 (of_nat v)"
    using assms by (simp add: take_bit_of_nat take_bit_nat_eq_self)
  have dis: "push_bit 5 w AND of_nat v = 0"
    by (subst v, rule bit_eqI) (auto simp: bit_simps)
  have "push_bit 5 w OR of_nat v = push_bit 5 w + of_nat v"
    using dis by (simp add: disjunctive_add_eq_or)
  also have "\<dots> = of_int (uint w * 32 + int v)"
    by (simp add: push_bit_eq_mult)
  finally have e: "push_bit 5 w OR of_nat v = of_int (uint w * 32 + int v)" .
  have "uint (of_int x :: 32 word) = x mod 2 ^ 32" for x
    by (simp add: unsigned_of_int take_bit_eq_mod)
  then show ?thesis unfolding e .
qed

lemma byte_of_shift:
  fixes w :: "32 word"
  assumes "k \<le> 4"
  shows "uint (ucast (signed_drop_bit k w AND 0xFF) :: 8 word) = uint w div 2 ^ k mod 256"
proof -
  have m: "(0xFF :: 32 word) = mask 8" by (simp add: mask_eq_exp_minus_1)
  have "ucast (signed_drop_bit k w AND 0xFF) = (ucast (drop_bit k w) :: 8 word)"
    unfolding m using assms by (intro bit_eqI) (auto simp: bit_simps bit_signed_drop_bit_iff)
  then have "uint (ucast (signed_drop_bit k w AND 0xFF) :: 8 word) = take_bit 8 (uint (drop_bit k w))"
    by (simp add: unsigned_ucast_eq)
  also have "\<dots> = uint w div 2 ^ k mod 256"
    using unsigned_less [of w, where ?'a = int]
    by (simp only: unsigned_drop_bit_eq) (simp add: take_bit_eq_mod drop_bit_eq_div)
  finally show ?thesis .
qed

subsection \<open>XOR-accumulating comparison\<close>

text \<open>
  \<^verbatim>\<open>if (a.length !== b.length) return false; for (...) diff |= a[i] ^ b[i];
  return diff === 0;\<close> over code units.
\<close>

definition xor_diff :: "jstr \<Rightarrow> jstr \<Rightarrow> nat" where
  "xor_diff a b = foldl (\<lambda>d (x, y). d OR (x XOR y)) 0 (zip a b)"

definition timing_safe_equal :: "jstr \<Rightarrow> jstr \<Rightarrow> bool" where
  "timing_safe_equal a b \<longleftrightarrow> length a = length b \<and> xor_diff a b = 0"

lemma nat_or_zero_iff: "(m OR n :: nat) = 0 \<longleftrightarrow> m = 0 \<and> n = 0"
  by (rule or_eq_0_iff)

lemma nat_xor_zero_iff: "(m XOR n :: nat) = 0 \<longleftrightarrow> m = n"
proof
  assume z: "m XOR n = 0"
  show "m = n"
  proof (rule bit_eqI)
    fix k
    have "bit (m XOR n) k = bit (0 :: nat) k" using z by (rule arg_cong)
    then show "bit m k = bit n k" by (simp add: bit_xor_iff)
  qed
qed simp

lemma foldl_xor_zero:
  fixes a b :: jstr and d0 :: nat
  shows "length a = length b \<Longrightarrow>
     foldl (\<lambda>d (x, y). d OR (x XOR y)) d0 (zip a b) = 0 \<longleftrightarrow> d0 = 0 \<and> a = b"
proof (induction a b arbitrary: d0 rule: list_induct2)
  case (Cons x xs y ys)
  have "foldl (\<lambda>d (x, y). d OR (x XOR y)) d0 (zip (x # xs) (y # ys)) = 0
      \<longleftrightarrow> d0 OR (x XOR y) = 0 \<and> xs = ys"
    using Cons.IH [of "d0 OR (x XOR y)"] by simp
  then show ?case by (simp only: nat_or_zero_iff nat_xor_zero_iff list.inject) blast
qed simp

lemma xor_diff_zero_iff: "length a = length b \<Longrightarrow> xor_diff a b = 0 \<longleftrightarrow> a = b"
  using foldl_xor_zero [of a b 0] by (simp add: xor_diff_def)

lemma timing_safe_equal_iff: "timing_safe_equal a b \<longleftrightarrow> a = b"
  using foldl_xor_zero [of a b 0] by (auto simp: timing_safe_equal_def xor_diff_def)

end
