(* ===== verification/Key_Derivation.thy ===== *)
theory Key_Derivation
  imports Codec
begin

text \<open>
  Per-entry key derivation: src/src/infrastructure/crypto/hkdf-derivation.ts, over
  the WebCrypto operations the client calls.  SubtleCrypto, TextDecoder and JSON
  are the platform's and are the fields of the record \<^verbatim>\<open>subtle\<close>; None stands for a
  rejected promise or a thrown exception.  The arguments of AES-GCM are the key, the
  IV, the additional data (empty when the call gives none) and the text.
\<close>

datatype json = JNull | JBool bool | JNum int | JStr jstr | JArr "json list" | JObj "(jstr \<times> json) list"

record subtle =
  hkdf_sha256 :: "bytes \<Rightarrow> bytes \<Rightarrow> bytes \<Rightarrow> nat \<Rightarrow> bytes"
  hmac_sha256 :: "bytes \<Rightarrow> bytes \<Rightarrow> bytes"
  aes_gcm_encrypt :: "bytes \<Rightarrow> bytes \<Rightarrow> bytes \<Rightarrow> bytes \<Rightarrow> bytes option"
  aes_gcm_decrypt :: "bytes \<Rightarrow> bytes \<Rightarrow> bytes \<Rightarrow> bytes \<Rightarrow> bytes option"
  text_decode :: "bytes \<Rightarrow> jstr"
  json_parse :: "jstr \<Rightarrow> json option"
  json_stringify :: "json \<Rightarrow> jstr"

datatype entry_mode = Personal | Managed

definition mode_name :: "entry_mode \<Rightarrow> jstr" where
  "mode_name m = (case m of Personal \<Rightarrow> lit ''personal'' | Managed \<Rightarrow> lit ''managed'')"

record derivation_context =
  dc_credential_id :: jstr
  dc_version :: int
  dc_mode :: entry_mode

record derived_entry_key =
  key_base64 :: jstr
  salt_base64 :: jstr
  key_context :: derivation_context

definition hkdf_key_length :: nat where
  "hkdf_key_length = 256"

definition build_context_info :: "derivation_context \<Rightarrow> jstr" where
  "build_context_info ctx = lit ''cybervault|'' @ dc_credential_id ctx @ lit ''|v''
     @ dec_int (dc_version ctx) @ lit ''|'' @ mode_name (dc_mode ctx)"

definition context_info_to_buffer :: "jstr \<Rightarrow> bytes" where
  "context_info_to_buffer info = utf8_encode info"

definition derive_entry_key ::
  "subtle \<Rightarrow> bytes \<Rightarrow> bytes \<Rightarrow> derivation_context \<Rightarrow> derived_entry_key" where
  "derive_entry_key S ikm salt ctx =
     (let info = context_info_to_buffer (build_context_info ctx);
          exported = hkdf_sha256 S ikm salt info hkdf_key_length in
      \<lparr> key_base64 = binary_to_base64 exported,
        salt_base64 = binary_to_base64 salt,
        key_context = ctx \<rparr>)"

definition derive_personal_entry_key ::
  "subtle \<Rightarrow> bytes \<Rightarrow> bytes \<Rightarrow> jstr \<Rightarrow> int \<Rightarrow> derived_entry_key" where
  "derive_personal_entry_key S vek salt cid ver = derive_entry_key S vek salt
     \<lparr> dc_credential_id = cid, dc_version = ver, dc_mode = Personal \<rparr>"

definition derive_managed_entry_key ::
  "subtle \<Rightarrow> bytes \<Rightarrow> bytes \<Rightarrow> bytes \<Rightarrow> jstr \<Rightarrow> int \<Rightarrow> derived_entry_key" where
  "derive_managed_entry_key S vek share salt cid ver = derive_entry_key S (vek @ share) salt
     \<lparr> dc_credential_id = cid, dc_version = ver, dc_mode = Managed \<rparr>"

definition timing_safe_equal_base64 :: "jstr \<Rightarrow> jstr \<Rightarrow> bool" where
  "timing_safe_equal_base64 a b = timing_safe_equal a b"

definition verify_entry_key ::
  "subtle \<Rightarrow> bytes \<Rightarrow> bytes \<Rightarrow> derivation_context \<Rightarrow> jstr \<Rightarrow> bool" where
  "verify_entry_key S ikm salt ctx expected =
     timing_safe_equal_base64 (key_base64 (derive_entry_key S ikm salt ctx)) expected"

text \<open>None: atob rejected the stored salt.\<close>

definition rederive_entry_key ::
  "subtle \<Rightarrow> bytes \<Rightarrow> jstr \<Rightarrow> derivation_context \<Rightarrow> jstr option" where
  "rederive_entry_key S ikm salt64 ctx =
     (case base64_to_binary salt64 of
        None \<Rightarrow> None
      | Some salt \<Rightarrow> Some (key_base64 (derive_entry_key S ikm salt ctx)))"

subsection \<open>Distinct contexts have distinct HKDF info\<close>

lemma dec_int_inject: "dec_int i = dec_int j \<longleftrightarrow> i = j"
proof
  assume eq: "dec_int i = dec_int j"
  have no: "dec_nat n \<noteq> 45 # xs" for n xs
    using dec_nat_digits [of 45 n] by (auto simp: is_digit_def)
  show "i = j"
    using eq no no [symmetric]
    by (auto simp: dec_int_def dec_nat_inject split: if_splits)
qed simp

lemma dec_nat_chars: "c \<in> set (dec_nat n) \<Longrightarrow> c < 58"
  using dec_nat_digits [of c n] by (simp add: is_digit_def)

lemma dec_int_chars: "c \<in> set (dec_int i) \<Longrightarrow> c < 58"
  by (auto simp: dec_int_def dec_nat_chars split: if_splits)

lemma mode_name_inject: "mode_name m = mode_name n \<longleftrightarrow> m = n"
  by (cases m; cases n) (simp_all add: mode_name_def lit_def)

lemma mode_name_no_bar: "124 \<notin> set (mode_name m)"
  by (cases m) (simp_all add: mode_name_def lit_def)

lemma dec_int_no_bar: "124 \<notin> set (dec_int i)"
  using dec_int_chars [of 124 i] by auto

lemma build_context_info_split:
  "build_context_info ctx =
     (lit ''cybervault|'' @ dc_credential_id ctx @ 124 # 118 # dec_int (dc_version ctx))
       @ 124 # mode_name (dc_mode ctx)"
  by (simp add: build_context_info_def lit_def)

lemma build_context_info_inject:
  assumes "build_context_info c = build_context_info d"
  shows "c = d"
proof -
  let ?pre = "\<lambda>x. lit ''cybervault|'' @ dc_credential_id x"
  have "?pre c @ 124 # 118 # dec_int (dc_version c) = ?pre d @ 124 # 118 # dec_int (dc_version d)
      \<and> mode_name (dc_mode c) = mode_name (dc_mode d)"
    using assms unfolding build_context_info_split
    by (intro split_last_sep [of _ 124]) (simp_all add: mode_name_no_bar)
  then have "?pre c @ 124 # (118 # dec_int (dc_version c)) = ?pre d @ 124 # (118 # dec_int (dc_version d))"
    and m: "dc_mode c = dc_mode d" by (simp_all add: mode_name_inject)
  then have "?pre c = ?pre d \<and> 118 # dec_int (dc_version c) = 118 # dec_int (dc_version d)"
    by (intro split_last_sep [of _ 124]) (simp_all add: dec_int_no_bar)
  then show ?thesis using m by (simp add: dec_int_inject derivation_context.equality)
qed

lemma derive_entry_key_salt: "salt_base64 (derive_entry_key S ikm salt ctx) = binary_to_base64 salt"
  by (simp add: derive_entry_key_def)

lemma derived_key_decodes:
  "base64_to_binary (key_base64 (derive_entry_key S ikm salt ctx))
     = Some (hkdf_sha256 S ikm salt (utf8_encode (build_context_info ctx)) hkdf_key_length)"
  by (simp add: derive_entry_key_def context_info_to_buffer_def base64_round_trip Let_def)

lemma rederive_after_derive:
  "rederive_entry_key S ikm (salt_base64 (derive_entry_key S ikm salt ctx)) ctx
     = Some (key_base64 (derive_entry_key S ikm salt ctx))"
  by (simp add: rederive_entry_key_def derive_entry_key_salt base64_round_trip)

end
