(* ===== verification/Domain_Index.thy ===== *)
theory Domain_Index
  imports Origin Key_Derivation
begin

text \<open>
  The opaque origin index: src/src/domain/services/autofill/domain-index.ts.  The
  interface \<^verbatim>\<open>id_index\<close> states what a client of the index relies on; it is
  interpreted on the code's functions.
\<close>

subsection \<open>Keys and tokens\<close>

definition domain_index_info :: jstr where
  "domain_index_info = lit ''cybervault|domain-index|v1''"

definition token_bytes :: nat where
  "token_bytes = 32"

definition derive_domain_index_key :: "subtle \<Rightarrow> bytes \<Rightarrow> bytes" where
  "derive_domain_index_key S vek =
     hkdf_sha256 S vek (replicate 32 0) (utf8_encode domain_index_info) (token_bytes * 8)"

datatype lookup_token_failure = ORIGIN_UNUSABLE | INDEX_KEY_MISSING

record lookup_token =
  token :: jstr
  token_origin :: canonical_origin

definition compute_lookup_token ::
  "web \<Rightarrow> subtle \<Rightarrow> jstr \<Rightarrow> bytes option \<Rightarrow> lookup_token_failure + lookup_token" where
  "compute_lookup_token W S orig index_key =
     (case index_key of
        None \<Rightarrow> Inl INDEX_KEY_MISSING
      | Some k \<Rightarrow>
          (case parse_absolute_origin W orig of
             Inl _ \<Rightarrow> Inl ORIGIN_UNUSABLE
           | Inr c \<Rightarrow> Inr \<lparr> token = to_hex (hmac_sha256 S k (utf8_encode (serialized c))),
                            token_origin = c \<rparr>))"

definition verify_token_for_origin ::
  "web \<Rightarrow> subtle \<Rightarrow> jstr \<Rightarrow> bytes option \<Rightarrow> jstr \<Rightarrow> bool" where
  "verify_token_for_origin W S orig index_key presented =
     (case compute_lookup_token W S orig index_key of
        Inl _ \<Rightarrow> False
      | Inr t \<Rightarrow>
          if length presented \<noteq> length (token t) then False
          else xor_diff (token t) presented = 0)"

subsection \<open>The index\<close>

text \<open>
  \<^verbatim>\<open>byToken\<close> is a map.  Its keys are lookup tokens, 64 hexadecimal digits, so the
  names that a JavaScript object inherits from its prototype are not among them.
\<close>

record opaque_index =
  index_version :: int
  by_token :: "jstr \<rightharpoonup> jstr list"

definition empty_index :: opaque_index where
  "empty_index = \<lparr> index_version = 1, by_token = Map.empty \<rparr>"

definition lookup_index :: "opaque_index \<Rightarrow> jstr \<Rightarrow> jstr list" where
  "lookup_index ix t = (case by_token ix t of None \<Rightarrow> [] | Some ids \<Rightarrow> ids)"

definition add_to_index :: "opaque_index \<Rightarrow> jstr \<Rightarrow> jstr \<Rightarrow> opaque_index" where
  "add_to_index ix t cid =
     (let existing = (case by_token ix t of None \<Rightarrow> [] | Some ids \<Rightarrow> ids) in
      if cid \<in> set existing then ix
      else \<lparr> index_version = 1, by_token = (by_token ix)(t \<mapsto> existing @ [cid]) \<rparr>)"

definition remove_from_index :: "opaque_index \<Rightarrow> jstr \<Rightarrow> jstr \<Rightarrow> opaque_index" where
  "remove_from_index ix t cid =
     (case by_token ix t of
        None \<Rightarrow> ix
      | Some existing \<Rightarrow>
          (let next = filter (\<lambda>i. i \<noteq> cid) existing in
           if length next = 0 then \<lparr> index_version = 1, by_token = (by_token ix)(t := None) \<rparr>
           else \<lparr> index_version = 1, by_token = (by_token ix)(t \<mapsto> next) \<rparr>))"

definition index_entry_matches_origin ::
  "web \<Rightarrow> subtle \<Rightarrow> opaque_index \<Rightarrow> jstr \<Rightarrow> jstr \<Rightarrow> jstr \<Rightarrow> bytes option \<Rightarrow> bool" where
  "index_entry_matches_origin W S ix t cid canonical index_key =
     (if \<not> verify_token_for_origin W S canonical index_key t then False
      else cid \<in> set (lookup_index ix t))"

subsection \<open>The interface of an identifier index\<close>

datatype ('t, 'c) index_op = Add 't 'c | Remove 't 'c

text \<open>Whether a history of operations, newest first, leaves an identifier registered.\<close>

fun registered :: "('t, 'c) index_op list \<Rightarrow> 't \<Rightarrow> 'c \<Rightarrow> bool" where
  "registered [] t c = False"
| "registered (Add t' c' # ops) t c = ((t' = t \<and> c' = c) \<or> registered ops t c)"
| "registered (Remove t' c' # ops) t c = (\<not> (t' = t \<and> c' = c) \<and> registered ops t c)"

locale id_index =
  fixes empty :: 'i
    and add :: "'i \<Rightarrow> 't \<Rightarrow> 'c \<Rightarrow> 'i"
    and remove :: "'i \<Rightarrow> 't \<Rightarrow> 'c \<Rightarrow> 'i"
    and lookup :: "'i \<Rightarrow> 't \<Rightarrow> 'c list"
    and inv :: "'i \<Rightarrow> bool"
  assumes inv_empty: "inv empty"
    and inv_add: "inv i \<Longrightarrow> inv (add i t c)"
    and inv_remove: "inv i \<Longrightarrow> inv (remove i t c)"
    and distinct_lookup: "inv i \<Longrightarrow> distinct (lookup i t)"
    and lookup_empty: "lookup empty t = []"
    and lookup_add: "inv i \<Longrightarrow>
          set (lookup (add i t c) t') = (if t' = t then insert c (set (lookup i t)) else set (lookup i t'))"
    and lookup_remove: "inv i \<Longrightarrow>
          set (lookup (remove i t c) t') = (if t' = t then set (lookup i t) - {c} else set (lookup i t'))"
begin

fun perform :: "('t, 'c) index_op list \<Rightarrow> 'i" where
  "perform [] = empty"
| "perform (Add t c # ops) = add (perform ops) t c"
| "perform (Remove t c # ops) = remove (perform ops) t c"

lemma perform_inv: "inv (perform ops)"
  by (induction ops rule: perform.induct) (simp_all add: inv_empty inv_add inv_remove)

lemma perform_distinct: "distinct (lookup (perform ops) t)"
  by (rule distinct_lookup) (rule perform_inv)

lemma perform_lookup: "c \<in> set (lookup (perform ops) t) \<longleftrightarrow> registered ops t c"
  by (induction ops rule: perform.induct)
     (auto simp: lookup_empty lookup_add lookup_remove perform_inv)

end

text \<open>No empty bucket is stored and no bucket repeats an identifier.\<close>

definition index_inv :: "opaque_index \<Rightarrow> bool" where
  "index_inv ix \<longleftrightarrow> index_version ix = 1
     \<and> (\<forall>t ids. by_token ix t = Some ids \<longrightarrow> ids \<noteq> [] \<and> distinct ids)"

interpretation oix: id_index empty_index add_to_index remove_from_index lookup_index index_inv
proof unfold_locales
  show "index_inv empty_index" by (simp add: index_inv_def empty_index_def)
  show "index_inv (add_to_index i t c)" if "index_inv i" for i t c
    using that by (auto simp: index_inv_def add_to_index_def Let_def split: option.splits)
  show "index_inv (remove_from_index i t c)" if "index_inv i" for i t c
    using that by (auto simp: index_inv_def remove_from_index_def Let_def filter_empty_conv
                        split: option.splits if_splits)
  show "distinct (lookup_index i t)" if "index_inv i" for i t
    using that by (auto simp: index_inv_def lookup_index_def split: option.splits)
  show "lookup_index empty_index t = []" for t
    by (simp add: lookup_index_def empty_index_def)
  show "set (lookup_index (add_to_index i t c) t')
      = (if t' = t then insert c (set (lookup_index i t)) else set (lookup_index i t'))" for i t c t'
    by (auto simp: lookup_index_def add_to_index_def Let_def split: option.splits if_splits)
  show "set (lookup_index (remove_from_index i t c) t')
      = (if t' = t then set (lookup_index i t) - {c} else set (lookup_index i t'))" for i t c t'
    by (auto simp: lookup_index_def remove_from_index_def Let_def filter_empty_conv
             split: option.splits if_splits)
qed

text \<open>An index that a sequence of calls leads to, from the empty one; newest call first.\<close>

fun index_after :: "(jstr, jstr) index_op list \<Rightarrow> opaque_index" where
  "index_after [] = empty_index"
| "index_after (Add t c # ops) = add_to_index (index_after ops) t c"
| "index_after (Remove t c # ops) = remove_from_index (index_after ops) t c"

lemma index_after_perform: "index_after ops = oix.perform ops"
  by (induction ops rule: index_after.induct) simp_all

subsection \<open>Tokens\<close>

lemma verify_token_iff:
  "verify_token_for_origin W S orig k presented
     \<longleftrightarrow> (\<exists>t. compute_lookup_token W S orig k = Inr t \<and> presented = token t)"
proof (cases "compute_lookup_token W S orig k")
  case (Inr t)
  have "xor_diff (token t) presented = 0 \<longleftrightarrow> presented = token t"
    if "length presented = length (token t)"
    using that xor_diff_zero_iff [of "token t" presented] by auto
  with Inr show ?thesis by (auto simp: verify_token_for_origin_def)
qed (simp add: verify_token_for_origin_def)

lemma compute_lookup_token_same_origin:
  assumes "parse_absolute_origin W a = Inr c" and "parse_absolute_origin W b = Inr c"
  shows "compute_lookup_token W S a k = compute_lookup_token W S b k"
  using assms by (simp add: compute_lookup_token_def split: option.splits)

lemma compute_lookup_token_hmac:
  assumes "compute_lookup_token W S a (Some k) = Inr t" and "compute_lookup_token W S b (Some k) = Inr u"
    and "token t = token u"
  shows "hmac_sha256 S k (utf8_encode (serialized (token_origin t)))
           = hmac_sha256 S k (utf8_encode (serialized (token_origin u)))"
  using assms by (auto simp: compute_lookup_token_def to_hex_inject split: sum.splits)

lemma domain_index_info_not_entry: "build_context_info ctx \<noteq> domain_index_info"
proof
  assume "build_context_info ctx = domain_index_info"
  then have eq: "(lit ''cybervault|'' @ dc_credential_id ctx @ 124 # 118 # dec_int (dc_version ctx))
       @ 124 # mode_name (dc_mode ctx) = lit ''cybervault|domain-index'' @ 124 # lit ''v1''"
    unfolding build_context_info_split by (simp add: domain_index_info_def lit_def)
  have "124 \<notin> set (lit ''v1'')" by (simp add: lit_def)
  then have "mode_name (dc_mode ctx) = lit ''v1''"
    using split_last_sep [OF eq] mode_name_no_bar by blast
  then show False by (cases "dc_mode ctx") (simp_all add: mode_name_def lit_def)
qed

end
