(* ===== verification/Credential_Release.thy ===== *)
theory Credential_Release
  imports Autofill_Guard Domain_Index
begin

text \<open>
  The service worker's release of a credential:
  src/src/background/credential-release.ts.  The injected collaborators
  (\<^verbatim>\<open>ReleaseDeps\<close>) are fields of the record \<^verbatim>\<open>release_deps\<close>; their None is a rejected
  promise.  Every call whose order matters (reading the index and the record,
  the guard, the capability request, a decryption) leaves an event in a trace,
  so that the order of operations is part of the model.  Zeroing the private
  key buffers has no effect on any value and is left out.
\<close>

record encrypted_record =
  er_id :: jstr
  er_mode :: entry_mode
  encrypted_secret :: jstr
  encrypted_totp_secret :: "jstr option"
  er_salt :: jstr
  er_version :: int
  release_share_ref :: "jstr option"
  er_title :: "jstr option"
  username_hint :: "jstr option"

record candidate_summary =
  cs_credential_id :: jstr
  cs_origin :: jstr
  has_totp :: bool
  cs_title :: "jstr option"
  cs_username_hint :: "jstr option"

record released_credential =
  rc_id :: jstr
  rc_username :: jstr
  rc_password :: jstr
  rc_totp_secret :: "jstr option"

datatype release_denial_code =
    VAULT_LOCKED | ORIGIN_UNUSABLE | ORIGIN_NOT_BOUND | CREDENTIAL_NOT_FOUND | GUARD_BLOCKED
  | CAPABILITY_DENIED | CHALLENGE_REQUIRED | RELEASE_SHARE_DENIED | DECRYPT_FAILED
  | MANAGED_REQUIRED | TOTP_DECRYPT_FAILED

record capability_request =
  cq_credential_id :: jstr
  cq_secret_ref :: jstr
  cq_operation :: string

datatype capability_reply = Capability_Granted jstr | Capability_Challenge | Capability_Refused jstr

record release_deps =
  get_vek :: "bytes option"
  get_index :: "opaque_index option"
  get_record :: "jstr \<Rightarrow> encrypted_record option option"
  request_capability :: "capability_request \<Rightarrow> capability_reply option"

record release_request =
  rq_credential_id :: jstr
  rq_origin :: jstr
  rq_operation :: string
  rq_document_origin :: jstr
  rq_top_level_origin :: jstr
  is_framed :: bool

subsection \<open>Traced computations\<close>

datatype release_event =
    Read_Index | Read_Record jstr | Ran_Guard | Asked_Capability capability_request | Decrypted jstr

datatype release_failure = Deny release_denial_code jstr | Thrown

type_synonym 'a traced = "release_event list \<times> (release_failure + 'a)"

definition returning :: "'a \<Rightarrow> 'a traced" where
  "returning x = ([], Inr x)"

definition failing :: "release_failure \<Rightarrow> 'a traced" where
  "failing f = ([], Inl f)"

definition emit :: "release_event \<Rightarrow> 'a traced \<Rightarrow> 'a traced" where
  "emit e m = (e # fst m, snd m)"

definition and_then :: "'a traced \<Rightarrow> ('a \<Rightarrow> 'b traced) \<Rightarrow> 'b traced" where
  "and_then m k = (case snd m of
     Inl f \<Rightarrow> (fst m, Inl f)
   | Inr x \<Rightarrow> (fst m @ fst (k x), snd (k x)))"

definition await :: "'a option \<Rightarrow> 'a traced" where
  "await r = (case r of None \<Rightarrow> failing Thrown | Some x \<Rightarrow> returning x)"

lemma traced_simps [simp]:
  "and_then (returning x) k = k x"
  "and_then (failing f) k = failing f"
  "and_then (emit e m) k = emit e (and_then m k)"
  "await None = failing Thrown"
  "await (Some x) = returning x"
  by (simp_all add: and_then_def returning_def failing_def emit_def await_def split: sum.split)

lemma traced_results [simp]:
  "snd (returning x) = Inr x" "snd (failing f) = Inl f" "snd (emit e m) = snd m"
  "fst (returning x) = []" "fst (failing f) = []" "fst (emit e m) = e # fst m"
  by (simp_all add: returning_def failing_def emit_def)

lemma snd_and_then:
  "snd (and_then m k) = (case snd m of Inl f \<Rightarrow> Inl f | Inr x \<Rightarrow> snd (k x))"
  by (simp add: and_then_def split: sum.split)

lemma fst_and_then:
  "fst (and_then m k) = fst m @ (case snd m of Inl f \<Rightarrow> [] | Inr x \<Rightarrow> fst (k x))"
  by (simp add: and_then_def split: sum.split)

subsection \<open>Decryption\<close>

definition salt_len :: nat where "salt_len = 32"
definition iv_len :: nat where "iv_len = 12"

record parsed_ciphertext =
  pc_salt :: bytes
  pc_iv :: bytes
  pc_body :: bytes

definition parse_ciphertext :: "jstr \<Rightarrow> parsed_ciphertext option" where
  "parse_ciphertext blob = (case base64_to_binary blob of
     None \<Rightarrow> None
   | Some bs \<Rightarrow>
       if length bs \<le> salt_len + iv_len then None
       else Some \<lparr> pc_salt = take salt_len bs, pc_iv = take iv_len (drop salt_len bs),
                   pc_body = drop (salt_len + iv_len) bs \<rparr>)"

definition decrypt_blob :: "subtle \<Rightarrow> jstr \<Rightarrow> bytes \<Rightarrow> jstr option traced" where
  "decrypt_blob S blob key = (case parse_ciphertext blob of
     None \<Rightarrow> returning None
   | Some p \<Rightarrow> emit (Decrypted blob)
       (case aes_gcm_decrypt S key (pc_iv p) [] (pc_body p) of
          None \<Rightarrow> returning None
        | Some plain \<Rightarrow> returning (Some (text_decode S plain))))"

text \<open>\<^verbatim>\<open>typeof parsed?.k === "string"\<close>.\<close>

definition string_field :: "json \<Rightarrow> jstr \<Rightarrow> jstr option" where
  "string_field j k = (case j of
     JObj kvs \<Rightarrow> (case map_of kvs k of Some (JStr s) \<Rightarrow> Some s | _ \<Rightarrow> None)
   | _ \<Rightarrow> None)"

definition decrypt_envelope :: "subtle \<Rightarrow> bytes \<Rightarrow> jstr \<Rightarrow> (jstr + (jstr \<times> jstr)) traced" where
  "decrypt_envelope S key enc = and_then (decrypt_blob S enc key) (\<lambda>raw. case raw of
     None \<Rightarrow> returning (Inl (lit ''secret blob could not be decrypted''))
   | Some s \<Rightarrow> (case json_parse S s of
       None \<Rightarrow> returning (Inl (lit ''secret envelope is not valid JSON''))
     | Some j \<Rightarrow> (case (string_field j (lit ''u''), string_field j (lit ''p'')) of
         (Some u, Some p) \<Rightarrow> returning (Inr (u, p))
       | _ \<Rightarrow> returning (Inl (lit ''secret envelope is malformed'')))))"

subsection \<open>Candidates\<close>

fun summaries :: "(jstr \<Rightarrow> encrypted_record option option) \<Rightarrow> jstr \<Rightarrow> jstr list
    \<Rightarrow> candidate_summary list traced" where
  "summaries rd canonical [] = returning []"
| "summaries rd canonical (cid # ids) = emit (Read_Record cid) (and_then (await (rd cid)) (\<lambda>r.
     case r of
       None \<Rightarrow> summaries rd canonical ids
     | Some rec \<Rightarrow> and_then (summaries rd canonical ids) (\<lambda>rest. returning
         (\<lparr> cs_credential_id = cid, cs_origin = canonical,
            has_totp = (encrypted_totp_secret rec \<noteq> None \<and> encrypted_totp_secret rec \<noteq> Some []),
            cs_title = er_title rec, cs_username_hint = username_hint rec \<rparr> # rest))))"

definition list_candidates_for_origin ::
  "web \<Rightarrow> subtle \<Rightarrow> jstr \<Rightarrow> release_deps \<Rightarrow> candidate_summary list" where
  "list_candidates_for_origin W S orig D = (case get_vek D of
     None \<Rightarrow> []
   | Some vek \<Rightarrow>
      (let m = (case compute_lookup_token W S orig (Some (derive_domain_index_key S vek)) of
          Inl _ \<Rightarrow> returning []
        | Inr t \<Rightarrow> emit Read_Index (and_then (await (get_index D)) (\<lambda>ix.
            summaries (get_record D) (serialized (token_origin t)) (lookup_index ix (token t)))))
       in case snd m of Inl _ \<Rightarrow> [] | Inr cs \<Rightarrow> cs))"

subsection \<open>Release\<close>

definition guard_request_of :: "release_request \<Rightarrow> lookup_token \<Rightarrow> autofill_guard_request" where
  "guard_request_of rq t =
     \<lparr> gr_operation = ''AUTOFILL'',
       credential_origin = Some (serialized (token_origin t)),
       document_origin = rq_document_origin rq,
       form_action = None,
       submit_origin = None,
       top_level_origin = (if is_framed rq then Some (rq_top_level_origin rq) else None),
       frame_origin = (if is_framed rq then Some (rq_document_origin rq) else None) \<rparr>"

definition block_reason_name :: "autofill_block_reason \<Rightarrow> string" where
  "block_reason_name r = (case r of
     CREDENTIAL_ORIGIN_MISSING \<Rightarrow> ''CREDENTIAL_ORIGIN_MISSING''
   | CREDENTIAL_ORIGIN_INVALID \<Rightarrow> ''CREDENTIAL_ORIGIN_INVALID''
   | DOCUMENT_ORIGIN_INVALID \<Rightarrow> ''DOCUMENT_ORIGIN_INVALID''
   | EXACT_MATCH_FAILED \<Rightarrow> ''EXACT_MATCH_FAILED''
   | FORM_ACTION_ORIGIN_MISMATCH \<Rightarrow> ''FORM_ACTION_ORIGIN_MISMATCH''
   | FORM_ACTION_UNRESOLVABLE \<Rightarrow> ''FORM_ACTION_UNRESOLVABLE''
   | SUBMIT_ORIGIN_MISMATCH \<Rightarrow> ''SUBMIT_ORIGIN_MISMATCH''
   | UNAUTHORIZED_FRAME \<Rightarrow> ''UNAUTHORIZED_FRAME''
   | FRAME_CONTEXT_INCONSISTENT \<Rightarrow> ''FRAME_CONTEXT_INCONSISTENT''
   | OPERATION_NOT_RELEASABLE \<Rightarrow> ''OPERATION_NOT_RELEASABLE'')"

definition prepare_release ::
  "web \<Rightarrow> subtle \<Rightarrow> release_request \<Rightarrow> release_deps \<Rightarrow> bytes \<Rightarrow> encrypted_record traced" where
  "prepare_release W S rq D vek =
     (let index_key = Some (derive_domain_index_key S vek) in
      case compute_lookup_token W S (rq_origin rq) index_key of
        Inl _ \<Rightarrow> failing (Deny ORIGIN_UNUSABLE (lit ''requested origin is unusable''))
      | Inr t \<Rightarrow> emit Read_Index (and_then (await (get_index D)) (\<lambda>ix.
          if \<not> index_entry_matches_origin W S ix (token t) (rq_credential_id rq)
                 (serialized (token_origin t)) index_key
          then failing (Deny ORIGIN_NOT_BOUND (lit ''credential is not bound to the requested origin''))
          else emit (Read_Record (rq_credential_id rq))
            (and_then (await (get_record D (rq_credential_id rq))) (\<lambda>r. case r of
              None \<Rightarrow> failing (Deny CREDENTIAL_NOT_FOUND (lit ''no such credential''))
            | Some rec \<Rightarrow>
                if er_mode rec = Managed \<and> (release_share_ref rec = None \<or> release_share_ref rec = Some [])
                then failing (Deny MANAGED_REQUIRED
                       (lit ''managed credential has no Release Share reference''))
                else emit Ran_Guard (case evaluate_autofill W (guard_request_of rq t) of
                    Inl b \<Rightarrow> failing (Deny GUARD_BLOCKED
                      (lit (block_reason_name (block_reason b)) @ lit '': '' @ block_detail b))
                  | Inr _ \<Rightarrow> returning rec))))))"

definition entry_key_for ::
  "subtle \<Rightarrow> encrypted_record \<Rightarrow> bytes \<Rightarrow> bytes \<Rightarrow> release_deps \<Rightarrow> jstr traced" where
  "entry_key_for S rec vek salt D =
     (case er_mode rec of
        Personal \<Rightarrow> returning (key_base64 (derive_personal_entry_key S vek salt (er_id rec) (er_version rec)))
      | Managed \<Rightarrow>
          (let cq = \<lparr> cq_credential_id = er_id rec,
                      cq_secret_ref = (case release_share_ref rec of None \<Rightarrow> [] | Some r \<Rightarrow> r),
                      cq_operation = ''AUTOFILL'' \<rparr> in
           emit (Asked_Capability cq) (and_then (await (request_capability D cq)) (\<lambda>reply.
             case reply of
               Capability_Challenge \<Rightarrow> failing (Deny CHALLENGE_REQUIRED
                 (lit ''policy requires a step-up challenge before release''))
             | Capability_Refused detail \<Rightarrow> failing (Deny CAPABILITY_DENIED detail)
             | Capability_Granted share64 \<Rightarrow> and_then (await (base64_to_binary share64)) (\<lambda>share.
                 returning (key_base64
                   (derive_managed_entry_key S vek share salt (er_id rec) (er_version rec))))))))"

definition build_release_outcome ::
  "subtle \<Rightarrow> encrypted_record \<Rightarrow> jstr \<times> jstr \<Rightarrow> bytes \<Rightarrow> released_credential traced" where
  "build_release_outcome S rec envelope key =
     (let released = (\<lambda>totp. \<lparr> rc_id = er_id rec, rc_username = fst envelope,
                               rc_password = snd envelope, rc_totp_secret = totp \<rparr>) in
      case encrypted_totp_secret rec of
        None \<Rightarrow> returning (released None)
      | Some enc \<Rightarrow>
          if enc = [] then returning (released None)
          else and_then (decrypt_blob S enc key) (\<lambda>seed. case seed of
              None \<Rightarrow> returning (released None)
            | Some s \<Rightarrow> returning (released (if s = [] then None else Some s))))"

text \<open>The body of the try block, then the catch clause.\<close>

definition release_steps ::
  "web \<Rightarrow> subtle \<Rightarrow> release_request \<Rightarrow> release_deps \<Rightarrow> bytes \<Rightarrow> released_credential traced" where
  "release_steps W S rq D vek =
     and_then (prepare_release W S rq D vek) (\<lambda>rec.
     and_then (await (base64_to_binary (er_salt rec))) (\<lambda>salt.
     and_then (entry_key_for S rec vek salt D) (\<lambda>key64.
     and_then (await (base64_to_binary key64)) (\<lambda>key.
     and_then (decrypt_envelope S key (encrypted_secret rec)) (\<lambda>envelope.
       case envelope of
         Inl detail \<Rightarrow> failing (Deny DECRYPT_FAILED detail)
       | Inr up \<Rightarrow> build_release_outcome S rec up key)))))"

definition release_credential ::
  "web \<Rightarrow> subtle \<Rightarrow> release_request \<Rightarrow> release_deps
     \<Rightarrow> release_event list \<times> ((release_denial_code \<times> jstr) + released_credential)" where
  "release_credential W S rq D =
     (case get_vek D of
        None \<Rightarrow> ([], Inl (VAULT_LOCKED, lit ''vault is locked''))
      | Some vek \<Rightarrow>
          (let m = release_steps W S rq D vek in
           (fst m, case snd m of
              Inl (Deny code detail) \<Rightarrow> Inl (code, detail)
            | Inl Thrown \<Rightarrow> Inl (DECRYPT_FAILED, lit ''unexpected failure during release'')
            | Inr c \<Rightarrow> Inr c)))"

subsection \<open>Binding and order\<close>

definition touches_secret :: "release_event \<Rightarrow> bool" where
  "touches_secret e = (case e of Asked_Capability _ \<Rightarrow> True | Decrypted _ \<Rightarrow> True | _ \<Rightarrow> False)"

text \<open>
  What must hold before a secret is touched: the credential is in the bucket of
  the requested origin's token, its record exists, and the guard allows the page.
\<close>

definition release_authorized ::
  "web \<Rightarrow> subtle \<Rightarrow> release_request \<Rightarrow> release_deps \<Rightarrow> bytes \<Rightarrow> encrypted_record \<Rightarrow> bool" where
  "release_authorized W S rq D vek rec \<longleftrightarrow>
     (case compute_lookup_token W S (rq_origin rq) (Some (derive_domain_index_key S vek)) of
        Inl _ \<Rightarrow> False
      | Inr t \<Rightarrow> (case get_index D of None \<Rightarrow> False | Some ix \<Rightarrow>
          index_entry_matches_origin W S ix (token t) (rq_credential_id rq)
             (serialized (token_origin t)) (Some (derive_domain_index_key S vek))
          \<and> get_record D (rq_credential_id rq) = Some (Some rec)
          \<and> is_ok (evaluate_autofill W (guard_request_of rq t))
          \<and> (er_mode rec = Managed \<longrightarrow> release_share_ref rec \<noteq> None \<and> release_share_ref rec \<noteq> Some [])))"

lemma prepare_release_ok_iff:
  "snd (prepare_release W S rq D vek) = Inr rec \<longleftrightarrow> release_authorized W S rq D vek rec"
  by (auto simp: prepare_release_def release_authorized_def Let_def snd_and_then is_ok_def await_def
           split: sum.splits option.splits if_splits)

lemma prepare_release_no_secret:
  "e \<in> set (fst (prepare_release W S rq D vek)) \<Longrightarrow> \<not> touches_secret e"
  by (auto simp: prepare_release_def Let_def fst_and_then touches_secret_def await_def
           split: sum.splits option.splits if_splits)

lemma build_release_outcome_id:
  "snd (build_release_outcome S rec up key) = Inr c \<Longrightarrow> rc_id c = er_id rec"
  by (auto simp: build_release_outcome_def Let_def snd_and_then split: option.splits if_splits sum.splits)

lemma release_credential_ok:
  assumes "snd (release_credential W S rq D) = Inr c"
  obtains vek rec where "get_vek D = Some vek" and "release_authorized W S rq D vek rec"
    and "rc_id c = er_id rec"
proof -
  obtain vek where vek: "get_vek D = Some vek"
    using assms by (cases "get_vek D") (simp_all add: release_credential_def)
  have ok: "snd (release_steps W S rq D vek) = Inr c"
    using assms vek
    by (auto simp: release_credential_def Let_def split: sum.splits release_failure.splits)
  then obtain rec where rec: "snd (prepare_release W S rq D vek) = Inr rec"
    by (auto simp: release_steps_def snd_and_then split: sum.splits)
  have "rc_id c = er_id rec"
    using ok rec by (auto simp: release_steps_def snd_and_then build_release_outcome_id split: sum.splits)
  with vek rec show ?thesis by (intro that) (simp_all add: prepare_release_ok_iff)
qed

text \<open>No event before the guard's touches a secret.\<close>

definition secrets_after_guard :: "release_event list \<Rightarrow> bool" where
  "secrets_after_guard es = list_all (\<lambda>e. \<not> touches_secret e) (takeWhile (\<lambda>e. e \<noteq> Ran_Guard) es)"

lemma prepare_release_ran_guard:
  "snd (prepare_release W S rq D vek) = Inr rec \<Longrightarrow> Ran_Guard \<in> set (fst (prepare_release W S rq D vek))"
  by (auto simp: prepare_release_def Let_def fst_and_then snd_and_then await_def
        split: sum.splits option.splits if_splits)

lemma release_steps_trace:
  "\<exists>rest. fst (release_steps W S rq D vek) = fst (prepare_release W S rq D vek) @ rest
     \<and> (rest \<noteq> [] \<longrightarrow> is_ok (snd (prepare_release W S rq D vek)))"
  by (cases "snd (prepare_release W S rq D vek)") (simp_all add: release_steps_def fst_and_then)

lemma secrets_after_guard_no_secret:
  "(\<And>e. e \<in> set es \<Longrightarrow> \<not> touches_secret e) \<Longrightarrow> secrets_after_guard es"
  unfolding secrets_after_guard_def list_all_iff by (meson set_takeWhileD)

lemma secrets_after_guard_append:
  "secrets_after_guard es \<Longrightarrow> Ran_Guard \<in> set es \<Longrightarrow> secrets_after_guard (es @ rest)"
  by (simp add: secrets_after_guard_def)

lemma release_secrets_after_guard: "secrets_after_guard (fst (release_credential W S rq D))"
proof (cases "get_vek D")
  case None
  then show ?thesis by (simp add: release_credential_def secrets_after_guard_def)
next
  case (Some vek)
  obtain rest where rest: "fst (release_steps W S rq D vek) = fst (prepare_release W S rq D vek) @ rest"
    "rest \<noteq> [] \<longrightarrow> is_ok (snd (prepare_release W S rq D vek))"
    using release_steps_trace by blast
  have "secrets_after_guard (fst (prepare_release W S rq D vek))"
    using prepare_release_no_secret by (rule secrets_after_guard_no_secret)
  then have "secrets_after_guard (fst (release_steps W S rq D vek))"
    using rest prepare_release_ran_guard [of W S rq D vek] secrets_after_guard_append
    by (cases "rest = []") (auto simp: is_ok_iff)
  with Some show ?thesis by (simp add: release_credential_def Let_def)
qed

text \<open>An authorized release is for the page whose origin the credential is bound to.\<close>

lemma release_authorized_page:
  assumes auth: "release_authorized W S rq D vek rec"
    and c: "parse_absolute_origin W (rq_origin rq) = Inr c" "stable_origin W c"
    and d: "\<And>d. parse_absolute_origin W (rq_document_origin rq) = Inr d \<Longrightarrow> stable_origin W d"
  shows "parse_absolute_origin W (rq_document_origin rq) = Inr c
    \<and> (is_framed rq \<longrightarrow> parse_absolute_origin W (rq_top_level_origin rq) = Inr c)
    \<and> (\<exists>t ix. compute_lookup_token W S (rq_origin rq) (Some (derive_domain_index_key S vek)) = Inr t
         \<and> token_origin t = c \<and> get_index D = Some ix
         \<and> rq_credential_id rq \<in> set (lookup_index ix (token t)))"
proof -
  obtain t ix where t: "compute_lookup_token W S (rq_origin rq) (Some (derive_domain_index_key S vek)) = Inr t"
    and ix: "get_index D = Some ix"
    and m: "index_entry_matches_origin W S ix (token t) (rq_credential_id rq)
       (serialized (token_origin t)) (Some (derive_domain_index_key S vek))"
    and g: "is_ok (evaluate_autofill W (guard_request_of rq t))"
    using auth by (auto simp: release_authorized_def split: sum.splits option.splits)
  have tc: "token_origin t = c" using t c(1) by (auto simp: compute_lookup_token_def)
  have pc: "parse_absolute_origin W (serialized c) = Inr c" using c(2) by (simp add: stable_origin_def)
  obtain a where "evaluate_autofill W (guard_request_of rq t) = Inr a" using g by (auto simp: is_ok_iff)
  from evaluate_autofill_needs(2) [OF this] obtain d where
    doc: "parse_absolute_origin W (rq_document_origin rq) = Inr d"
    by (auto simp: guard_request_of_def)
  have sd: "stable_origin W d" using d doc by blast
  then have "parse_absolute_origin W (serialized d) = Inr d" by (simp add: stable_origin_def)
  then have "d = c \<and> frame_authorized W (guard_request_of rq t) c"
    using evaluate_autofill_allow_iff [of "guard_request_of rq t" "serialized c" W c d] g tc pc doc c(2) sd
    by (simp add: guard_request_of_def allowed_operations_def resolve_against_origin_def)
  then show ?thesis
    using t ix m tc doc by (auto simp: frame_authorized_def guard_request_of_def index_entry_matches_origin_def
        split: if_splits)
qed

end
