(* ===== verification/Authoring.thy ===== *)
theory Authoring
  imports Credential_Release
begin

text \<open>
  The write side of the release path:
  src/src/domain/services/autofill/credential-authoring.ts.  The session VEK is a
  buffer of the caller's; \<^verbatim>\<open>author_credential\<close> returns what is left in it beside
  its result.  Random values (the id, the salt, the initialisation vectors) are
  arguments.
\<close>

datatype authoring_rejection =
    ORIGIN_MISSING | ORIGIN_NOT_ABSOLUTE | ORIGIN_SCHEME_NOT_ALLOWED | USERNAME_REQUIRED
  | PASSWORD_REQUIRED | TITLE_REQUIRED | MANAGED_REQUIRES_RELEASE_SHARE_REF | VAULT_IS_LOCKED

record authored_record = encrypted_record +
  ar_origin :: jstr

record authoring_success =
  au_record :: authored_record
  au_index :: opaque_index
  au_lookup_token :: jstr

type_synonym authoring_result = "(authoring_rejection \<times> jstr) + authoring_success"

record author_credential_input =
  ai_origin :: "jstr option"
  ai_username :: "jstr option"
  ai_password :: jstr
  ai_title :: "jstr option"
  ai_totp_seed_base32 :: "jstr option"
  ai_mode :: "entry_mode option"
  ai_release_share_ref :: "jstr option"
  ai_id :: "jstr option"

record authoring_random =
  rnd_id :: jstr
  rnd_salt :: bytes
  rnd_iv_secret :: bytes
  rnd_iv_totp :: bytes

definition secure_zero :: "bytes \<Rightarrow> bytes" where
  "secure_zero b = replicate (length b) 0"

definition redact_username :: "jstr \<Rightarrow> jstr" where
  "redact_username username =
     (let trimmed = trim username in
      if length trimmed = 0 then []
      else if length trimmed = 1 then lit ''*''
      else hd trimmed # replicate (min (length trimmed - 1) 8) 42)"

subsection \<open>Base32\<close>

text \<open>
  The accumulator is a JavaScript number used through 32-bit operators: \<^verbatim>\<open><<\<close>
  wraps and \<^verbatim>\<open>>>\<close> is the signed shift.
\<close>

definition base32_digit :: "nat \<Rightarrow> nat option" where
  "base32_digit c = (if 65 \<le> c \<and> c \<le> 90 then Some (c - 65)
     else if 50 \<le> c \<and> c \<le> 55 then Some (c - 24) else None)"

fun base32_loop :: "nat \<Rightarrow> 32 word \<Rightarrow> jstr \<Rightarrow> bytes" where
  "base32_loop bits value [] = []"
| "base32_loop bits value (c # cs) =
     (case base32_digit c of
        None \<Rightarrow> base32_loop bits value cs
      | Some v \<Rightarrow>
          (let value1 = push_bit 5 value OR of_nat v; bits1 = bits + 5 in
           if bits1 \<ge> 8
           then ucast (signed_drop_bit (bits1 - 8) value1 AND 0xFF) # base32_loop (bits1 - 8) value1 cs
           else base32_loop bits1 value1 cs))"

definition base32_to_bytes :: "web \<Rightarrow> jstr \<Rightarrow> bytes" where
  "base32_to_bytes W s =
     base32_loop 0 0 (to_upper W (filter (\<lambda>c. \<not> (js_space c \<or> c = 61)) s))"

subsection \<open>Sealing\<close>

text \<open>None: encrypt rejected.\<close>

definition seal :: "subtle \<Rightarrow> jstr \<Rightarrow> bytes \<Rightarrow> bytes \<Rightarrow> bytes \<Rightarrow> jstr option" where
  "seal S plaintext key salt iv =
     (case aes_gcm_encrypt S key iv [] (utf8_encode plaintext) of
        None \<Rightarrow> None
      | Some enc \<Rightarrow> Some (binary_to_base64 (salt @ iv @ enc)))"

subsection \<open>Validation\<close>

definition scheme_char :: "nat \<Rightarrow> bool" where
  "scheme_char c \<longleftrightarrow> (97 \<le> c \<and> c \<le> 122) \<or> (65 \<le> c \<and> c \<le> 90) \<or> (48 \<le> c \<and> c \<le> 57)
     \<or> c = 43 \<or> c = 46 \<or> c = 45"

text \<open>\<^verbatim>\<open>/^[a-zA-Z][a-zA-Z0-9+.-]*:\/\//.test(s)\<close>; no scheme character is a colon.\<close>

definition absolute_prefix :: "jstr \<Rightarrow> bool" where
  "absolute_prefix s = (case s of
     [] \<Rightarrow> False
   | c # cs \<Rightarrow> ((97 \<le> c \<and> c \<le> 122) \<or> (65 \<le> c \<and> c \<le> 90))
       \<and> starts_with (dropWhile scheme_char cs) (lit ''://''))"

definition validate_authoring_origin ::
  "web \<Rightarrow> jstr option \<Rightarrow> (authoring_rejection \<times> jstr) + jstr" where
  "validate_authoring_origin W orig = (case orig of
     None \<Rightarrow> Inl (ORIGIN_MISSING, lit ''an origin is required'')
   | Some s \<Rightarrow>
      (let trimmed = trim s in
       if trimmed = [] then Inl (ORIGIN_MISSING, lit ''an origin is required'')
       else if \<not> absolute_prefix trimmed then
         Inl (ORIGIN_NOT_ABSOLUTE, lit ''origin must be absolute (scheme://host[:port]); got ''
                @ [34] @ trimmed @ [34])
       else case parse_absolute_origin W trimmed of
         Inl r \<Rightarrow> Inl (if r = UNSUPPORTED_SCHEME then ORIGIN_SCHEME_NOT_ALLOWED else ORIGIN_NOT_ABSOLUTE,
                   lit ''origin rejected ('' @ failure_name r @ lit '')'')
       | Inr c \<Rightarrow> Inr (serialized c)))"

definition effective_username :: "jstr option \<Rightarrow> jstr" where
  "effective_username u = (case u of None \<Rightarrow> [] | Some s \<Rightarrow> trim s)"

definition effective_title :: "jstr option \<Rightarrow> jstr \<Rightarrow> jstr" where
  "effective_title t username = (case t of None \<Rightarrow> username
     | Some s \<Rightarrow> if trim s = [] then username else trim s)"

definition validate_authoring_fields ::
  "author_credential_input \<Rightarrow> jstr \<Rightarrow> (authoring_rejection \<times> jstr) + jstr" where
  "validate_authoring_fields input username =
     (if username = [] then Inl (USERNAME_REQUIRED, lit ''a username is required'')
      else if ai_password input = [] then Inl (PASSWORD_REQUIRED, lit ''a password is required'')
      else let title = effective_title (ai_title input) username in
      if title = [] then Inl (TITLE_REQUIRED, lit ''a title is required'')
      else Inr title)"

subsection \<open>Authoring\<close>

definition secret_envelope :: "jstr \<Rightarrow> jstr \<Rightarrow> json" where
  "secret_envelope u p = JObj [(lit ''u'', JStr u), (lit ''p'', JStr p)]"

definition authoring_threw :: "(authoring_rejection \<times> jstr) + 'a" where
  "authoring_threw = Inl (ORIGIN_NOT_ABSOLUTE, lit ''unexpected failure while authoring'')"

definition seal_and_register_credential ::
  "web \<Rightarrow> subtle \<Rightarrow> bytes \<Rightarrow> author_credential_input \<Rightarrow> jstr \<Rightarrow> jstr \<Rightarrow> jstr \<Rightarrow> jstr
     \<Rightarrow> authoring_random \<Rightarrow> opaque_index option \<Rightarrow> authoring_result \<times> bytes" where
  "seal_and_register_credential W S vek input username title canonical cid R existing =
     (let salt = rnd_salt R;
          derived = derive_personal_entry_key S vek salt cid 1 in
      case base64_to_binary (key_base64 derived) of
        None \<Rightarrow> (authoring_threw, secure_zero vek)
      | Some key \<Rightarrow>
      (case seal S (json_stringify S (secret_envelope username (ai_password input))) key salt (rnd_iv_secret R) of
        None \<Rightarrow> (authoring_threw, secure_zero vek)
      | Some enc \<Rightarrow>
      (let totp = (case ai_totp_seed_base32 input of
              None \<Rightarrow> Some (Inr None)
            | Some seed64 \<Rightarrow>
                if seed64 = [] then Some (Inr None)
                else (let seed = base32_to_bytes W seed64 in
                  if length seed = 0
                  then Some (Inl (PASSWORD_REQUIRED, lit ''TOTP seed contained no usable characters''))
                  else map_option (Inr \<circ> Some) (seal S (binary_to_base64 seed) key salt (rnd_iv_totp R))))
       in case totp of
         None \<Rightarrow> (authoring_threw, secure_zero vek)
       | Some (Inl rejection) \<Rightarrow> (Inl rejection, secure_zero vek)
       | Some (Inr enc_totp) \<Rightarrow>
         (case compute_lookup_token W S canonical (Some (derive_domain_index_key S vek)) of
            Inl _ \<Rightarrow> (Inl (ORIGIN_NOT_ABSOLUTE, lit ''could not derive a lookup token''), secure_zero vek)
          | Inr t \<Rightarrow>
            (Inr \<lparr> au_record = \<lparr> er_id = cid, er_mode = Personal, encrypted_secret = enc,
                     encrypted_totp_secret = enc_totp, er_salt = binary_to_base64 salt, er_version = 1,
                     release_share_ref = None, er_title = Some title,
                     username_hint = Some (redact_username username), ar_origin = canonical \<rparr>,
                   au_index = add_to_index (case existing of None \<Rightarrow> empty_index | Some ix \<Rightarrow> ix)
                                (token t) cid,
                   au_lookup_token = token t \<rparr>, vek)))))"

definition author_credential ::
  "web \<Rightarrow> subtle \<Rightarrow> author_credential_input \<Rightarrow> bytes option \<Rightarrow> opaque_index option
     \<Rightarrow> authoring_random \<Rightarrow> authoring_result \<times> bytes option" where
  "author_credential W S input vek_opt existing R = (case vek_opt of
     None \<Rightarrow> (Inl (VAULT_IS_LOCKED, lit ''vault is locked''), None)
   | Some vek \<Rightarrow>
     (case validate_authoring_origin W (ai_origin input) of
        Inl rejection \<Rightarrow> (Inl rejection, Some (secure_zero vek))
      | Inr canonical \<Rightarrow>
     (let username = effective_username (ai_username input) in
      case validate_authoring_fields input username of
        Inl rejection \<Rightarrow> (Inl rejection, Some (secure_zero vek))
      | Inr title \<Rightarrow>
     (let mode = (case ai_mode input of None \<Rightarrow> Personal | Some m \<Rightarrow> m) in
      if mode = Managed \<and> (ai_release_share_ref input = None \<or> ai_release_share_ref input = Some [])
      then (Inl (MANAGED_REQUIRES_RELEASE_SHARE_REF,
              lit ''a managed credential requires an opaque Release Share reference''), Some (secure_zero vek))
      else if mode = Managed
      then (Inl (MANAGED_REQUIRES_RELEASE_SHARE_REF,
              lit ''managed authoring is server-side by design: the entry key is ''
              @ lit ''HKDF(VEK || ReleaseShare) and only Core holds the Release Share at ''
              @ lit ''authoring time (see application/use-cases/managed-authoring.use-case.ts)''),
            Some (secure_zero vek))
      else (let r = seal_and_register_credential W S vek input username title canonical
                      (case ai_id input of None \<Rightarrow> rnd_id R | Some i \<Rightarrow> i) R existing
            in (fst r, Some (snd r)))))))"

subsection \<open>Base32 against its specification\<close>

text \<open>
  The accepted characters as 5-bit digits, the loop over them alone, and the number
  they write.
\<close>

definition base32_digits :: "jstr \<Rightarrow> nat list" where
  "base32_digits s = List.map_filter base32_digit s"

fun base32_pack :: "nat \<Rightarrow> 32 word \<Rightarrow> nat list \<Rightarrow> bytes" where
  "base32_pack bits value [] = []"
| "base32_pack bits value (v # vs) =
     (let value1 = push_bit 5 value OR of_nat v; bits1 = bits + 5 in
      if bits1 \<ge> 8
      then ucast (signed_drop_bit (bits1 - 8) value1 AND 0xFF) # base32_pack (bits1 - 8) value1 vs
      else base32_pack bits1 value1 vs)"

definition base32_value :: "nat list \<Rightarrow> int" where
  "base32_value ds = foldl (\<lambda>acc d. acc * 32 + int d) 0 ds"

lemma base32_digit_less: "base32_digit c = Some v \<Longrightarrow> v < 32"
  by (auto simp: base32_digit_def split: if_splits)

lemma base32_digits_less: "\<forall>v \<in> set (base32_digits s). v < 32"
  by (induction s) (auto simp: base32_digits_def List.map_filter_simps base32_digit_less split: option.splits)

lemma base32_loop_pack: "base32_loop bits w s = base32_pack bits w (base32_digits s)"
  by (induction bits w s rule: base32_loop.induct)
     (auto simp: base32_digits_def List.map_filter_simps Let_def split: option.splits)

lemma base32_value_Cons: "base32_value (b # bs) = int b * 32 ^ length bs + base32_value bs"
  unfolding base32_value_def by (simp add: foldl_base [of 32 int "int b"])

lemma base32_pack_length: "bits < 8 \<Longrightarrow> length (base32_pack bits w vs) = (bits + 5 * length vs) div 8"
proof (induction bits w vs rule: base32_pack.induct)
  case (2 bits w v vs)
  show ?case
  proof (cases "bits + 5 \<ge> 8")
    case True
    then have "length (base32_pack bits w (v # vs)) = 1 + (bits + 5 - 8 + 5 * length vs) div 8"
      using 2 by (simp add: Let_def)
    also have "\<dots> = (bits + 5 * length (v # vs)) div 8" using True by simp
    finally show ?thesis .
  next
    case False
    then show ?thesis using 2 by (simp add: Let_def)
  qed
qed simp

lemma base32_pending:
  fixes w :: "32 word"
  assumes "v < 32" "b + 5 \<le> 32"
  shows "uint (push_bit 5 w OR of_nat v) mod 2 ^ (b + 5) = uint w mod 2 ^ b * 32 + int v"
proof -
  have "(2::int) ^ (b + 5) dvd 2 ^ 32" using assms(2) by (rule le_imp_power_dvd)
  then have "uint (push_bit 5 w OR of_nat v) mod 2 ^ (b + 5) = (uint w * 32 + int v) mod 2 ^ (b + 5)"
    by (simp only: push5_or [OF assms(1)] mod_mod_cancel)
  also have "\<dots> = 32 * ((uint w * 32 + int v) div 32 mod 2 ^ b) + (uint w * 32 + int v) mod 32"
    by (simp only: power_add mult.commute [of "2 ^ b"]) (subst zmod_zmult2_eq, simp_all)
  also have "\<dots> = uint w mod 2 ^ b * 32 + int v" using assms(1) by simp
  finally show ?thesis .
qed

lemma base32_pack_value:
  assumes "bits < 8" "\<forall>v\<in>set vs. v < 32"
  shows "be_value (base32_pack bits w vs)
    = (uint w mod 2 ^ bits * 32 ^ length vs + base32_value vs) div 2 ^ ((bits + 5 * length vs) mod 8)"
  using assms
proof (induction bits w vs rule: base32_pack.induct)
  case (1 bits w)
  then show ?case by (simp add: be_value_def base32_value_def)
next
  case (2 bits w v vs)
  define w1 where "w1 = push_bit 5 w OR of_nat v"
  define X where "X = uint w mod 2 ^ bits * 32 + int v"
  have X: "uint w1 mod 2 ^ (bits + 5) = X"
    unfolding w1_def X_def using 2 by (intro base32_pending) simp_all
  have goal: "uint w mod 2 ^ bits * 32 ^ length (v # vs) + base32_value (v # vs) = X * 32 ^ length vs + base32_value vs"
    by (simp add: X_def base32_value_Cons algebra_simps)
  show ?case
  proof (cases "bits + 5 \<ge> 8")
    case False
    then have "be_value (base32_pack bits w (v # vs)) = be_value (base32_pack (bits + 5) w1 vs)"
      by (simp add: Let_def w1_def)
    also have "\<dots> = (X * 32 ^ length vs + base32_value vs) div 2 ^ ((bits + 5 + 5 * length vs) mod 8)"
      using False 2(2) [OF w1_def refl] 2 X by simp
    finally show ?thesis unfolding goal by (simp add: ac_simps)
  next
    case True
    define k where "k = bits + 5 - 8"
    have k: "k \<le> 4" "bits + 5 = k + 8" using True 2 by (simp_all add: k_def)
    define q where "q = (k + 5 * length vs) div 8"
    define r where "r = (k + 5 * length vs) mod 8"
    have qr: "k + 5 * length vs = 8 * q + r" by (simp add: q_def r_def)
    have byte: "uint w1 div 2 ^ k mod 256 = X div 2 ^ k"
    proof -
      have "X div 2 ^ k = (uint w1 mod (2 ^ k * 2 ^ 8)) div 2 ^ k" using X k by (simp add: power_add)
      also have "\<dots> = uint w1 div 2 ^ k mod 2 ^ 8"
        by (subst zmod_zmult2_eq) (simp_all add: div_add1_eq)
      finally show ?thesis by simp
    qed
    have pend: "uint w1 mod 2 ^ k = X mod 2 ^ k"
      unfolding X [symmetric] k(2) by (simp add: mod_mod_cancel le_imp_power_dvd)
    have "be_value (base32_pack bits w (v # vs)) = uint w1 div 2 ^ k mod 256 * 256 ^ length (base32_pack k w1 vs)
        + be_value (base32_pack k w1 vs)"
      using True by (simp add: Let_def w1_def [symmetric] be_value_Cons byte_of_shift [OF k(1)] k_def [symmetric])
    also have "length (base32_pack k w1 vs) = q" using base32_pack_length [of k w1 vs] k by (simp add: q_def)
    also have "be_value (base32_pack k w1 vs) = (X mod 2 ^ k * 32 ^ length vs + base32_value vs) div 2 ^ r"
      using True 2(1) [OF w1_def refl] 2 pend k by (simp add: k_def [symmetric] r_def)
    also have "uint w1 div 2 ^ k mod 256 * 256 ^ q + (X mod 2 ^ k * 32 ^ length vs + base32_value vs) div 2 ^ r
       = (X div 2 ^ k * 256 ^ q * 2 ^ r + (X mod 2 ^ k * 32 ^ length vs + base32_value vs)) div 2 ^ r"
      by (simp add: byte)
    also have "X div 2 ^ k * 256 ^ q * 2 ^ r + (X mod 2 ^ k * 32 ^ length vs + base32_value vs)
       = X * 32 ^ length vs + base32_value vs"
    proof -
      have "(256::int) ^ q * 2 ^ r = 2 ^ (8 * q + r)" by (simp add: power_add power_mult)
      also have "\<dots> = 2 ^ k * 32 ^ length vs" by (simp add: qr [symmetric] power_add power_mult)
      finally have "X div 2 ^ k * 256 ^ q * 2 ^ r = X div 2 ^ k * 2 ^ k * 32 ^ length vs"
        by (simp add: mult.assoc)
      moreover have "X div 2 ^ k * 2 ^ k + X mod 2 ^ k = X" by (rule div_mult_mod_eq)
      ultimately show ?thesis by (metis add.assoc distrib_right)
    qed
    finally have res: "be_value (base32_pack bits w (v # vs)) = (X * 32 ^ length vs + base32_value vs) div 2 ^ r" .
    have "bits + 5 * length (v # vs) = k + 5 * length vs + 8" using k(2) by simp
    then have "r = (bits + 5 * length (v # vs)) mod 8" by (simp only: r_def mod_add_self2)
    with res show ?thesis unfolding goal by simp
  qed
qed

lemma base32_loop_spec:
  "length (base32_loop 0 0 s) = 5 * length (base32_digits s) div 8"
  "be_value (base32_loop 0 0 s)
     = base32_value (base32_digits s) div 2 ^ (5 * length (base32_digits s) mod 8)"
  using base32_pack_length [of 0 0 "base32_digits s"]
    base32_pack_value [of 0 "base32_digits s" 0] base32_digits_less [of s]
  by (simp_all add: base32_loop_pack)

end
