(* ===== verification/Authored_Release.thy ===== *)
theory Authored_Release
  imports Authoring
begin

text \<open>
  The write side and the read side together: what credential-authoring.ts stores,
  credential-release.ts gives back to the origin it was authored for.  The laws of
  the platform that this needs are named here.
\<close>

subsection \<open>Laws of the platform\<close>

text \<open>AES-GCM: decryption under the same key, IV and additional data inverts encryption; a tag is never empty.\<close>

definition aead_ok :: "subtle \<Rightarrow> bool" where
  "aead_ok S \<longleftrightarrow> (\<forall>key iv aad pt ct. aes_gcm_encrypt S key iv aad pt = Some ct
     \<longrightarrow> ct \<noteq> [] \<and> aes_gcm_decrypt S key iv aad ct = Some pt)"

text \<open>TextDecoder reads back what TextEncoder wrote for this (well-formed) text.\<close>

definition decodes :: "subtle \<Rightarrow> jstr \<Rightarrow> bool" where
  "decodes S s \<longleftrightarrow> text_decode S (utf8_encode s) = s"

definition json_reads_back :: "subtle \<Rightarrow> json \<Rightarrow> bool" where
  "json_reads_back S j \<longleftrightarrow> json_parse S (json_stringify S j) = Some j"

subsection \<open>Sealed blobs open again\<close>

lemma binary_to_base64_nonempty: "bs \<noteq> [] \<Longrightarrow> binary_to_base64 bs \<noteq> []"
  by (cases "nats_of bs" rule: b64_groups.cases)
     (auto simp: binary_to_base64_def Let_def nats_of_def)

lemma decrypt_sealed:
  assumes "aead_ok S" and "decodes S pt" and "seal S pt key salt iv = Some blob"
    and "length salt = salt_len" and "length iv = iv_len"
  shows "decrypt_blob S blob key = emit (Decrypted blob) (returning (Some pt))"
proof -
  obtain ct where ct: "aes_gcm_encrypt S key iv [] (utf8_encode pt) = Some ct"
    and blob: "blob = binary_to_base64 (salt @ iv @ ct)"
    using assms(3) by (auto simp: seal_def split: option.splits)
  have "ct \<noteq> []" and dec: "aes_gcm_decrypt S key iv [] ct = Some (utf8_encode pt)"
    using assms(1) ct by (auto simp: aead_ok_def)
  then have "parse_ciphertext blob = Some \<lparr> pc_salt = salt, pc_iv = iv, pc_body = ct \<rparr>"
    using assms(4,5) by (simp add: parse_ciphertext_def blob base64_round_trip)
  then show ?thesis using dec assms(2) by (simp add: decrypt_blob_def decodes_def)
qed

lemma sealed_nonempty:
  assumes "seal S pt key salt iv = Some blob" and "length salt = salt_len"
  shows "blob \<noteq> []"
proof -
  have "salt \<noteq> []" using assms(2) by (auto simp: salt_len_def)
  then show ?thesis
    using assms(1) by (auto simp: seal_def binary_to_base64_nonempty split: option.splits)
qed

lemma string_field_envelope:
  "string_field (secret_envelope u p) (lit ''u'') = Some u"
  "string_field (secret_envelope u p) (lit ''p'') = Some p"
  by (simp_all add: string_field_def secret_envelope_def lit_def)

lemma decrypt_sealed_envelope:
  assumes "aead_ok S" and "json_reads_back S (secret_envelope u p)"
    and "decodes S (json_stringify S (secret_envelope u p))"
    and "seal S (json_stringify S (secret_envelope u p)) key salt iv = Some blob"
    and "length salt = salt_len" and "length iv = iv_len"
  shows "decrypt_envelope S key blob = emit (Decrypted blob) (returning (Inr (u, p)))"
  using decrypt_sealed [OF assms(1,3,4,5,6)] assms(2)
  by (simp add: decrypt_envelope_def json_reads_back_def string_field_envelope)

subsection \<open>What a successful authoring leaves\<close>

definition authored_totp :: "web \<Rightarrow> author_credential_input \<Rightarrow> jstr option" where
  "authored_totp W input = (case ai_totp_seed_base32 input of
     None \<Rightarrow> None
   | Some s \<Rightarrow> if s = [] then None else Some (binary_to_base64 (base32_to_bytes W s)))"

definition personal_key :: "subtle \<Rightarrow> bytes \<Rightarrow> bytes \<Rightarrow> jstr \<Rightarrow> bytes" where
  "personal_key S vek salt cid = hkdf_sha256 S vek salt
     (utf8_encode (build_context_info \<lparr> dc_credential_id = cid, dc_version = 1, dc_mode = Personal \<rparr>))
     hkdf_key_length"

lemma personal_key_decodes:
  "base64_to_binary (key_base64 (derive_personal_entry_key S vek salt cid 1))
     = Some (personal_key S vek salt cid)"
  by (simp add: derive_personal_entry_key_def derived_key_decodes personal_key_def)

text \<open>The record, index and token that the sealing of one credential produces.\<close>

definition authored_as ::
  "web \<Rightarrow> subtle \<Rightarrow> bytes \<Rightarrow> author_credential_input \<Rightarrow> jstr \<Rightarrow> jstr \<Rightarrow> jstr
     \<Rightarrow> authoring_random \<Rightarrow> opaque_index option \<Rightarrow> authoring_success \<Rightarrow> bool" where
  "authored_as W S vek input username canonical cid R existing out \<longleftrightarrow>
     (let rec = au_record out; key = personal_key S vek (rnd_salt R) cid in
      er_id rec = cid \<and> er_mode rec = Personal \<and> er_salt rec = binary_to_base64 (rnd_salt R)
      \<and> er_version rec = 1 \<and> ar_origin rec = canonical
      \<and> username_hint rec = Some (redact_username username)
      \<and> seal S (json_stringify S (secret_envelope username (ai_password input))) key
           (rnd_salt R) (rnd_iv_secret R) = Some (encrypted_secret rec)
      \<and> (case authored_totp W input of None \<Rightarrow> encrypted_totp_secret rec = None
         | Some seed \<Rightarrow> seed \<noteq> [] \<and> (\<exists>e. encrypted_totp_secret rec = Some e
             \<and> seal S seed key (rnd_salt R) (rnd_iv_totp R) = Some e))
      \<and> (\<exists>t. compute_lookup_token W S canonical (Some (derive_domain_index_key S vek)) = Inr t
           \<and> au_lookup_token out = token t
           \<and> au_index out = add_to_index (case existing of None \<Rightarrow> empty_index | Some ix \<Rightarrow> ix) (token t) cid))"

lemma seal_and_register_ok:
  assumes "seal_and_register_credential W S vek input username title canonical cid R existing = (Inr out, v)"
  shows "authored_as W S vek input username canonical cid R existing out \<and> v = vek"
  using assms
  by (auto simp: seal_and_register_credential_def Let_def personal_key_decodes authored_as_def
        authored_totp_def authoring_threw_def binary_to_base64_nonempty
      split: option.splits sum.splits if_splits)

lemma author_credential_ok:
  assumes "author_credential W S input vek_opt existing R = (Inr out, v)"
  obtains vek orig c where "vek_opt = Some vek" and "v = Some vek"
    and "ai_origin input = Some orig" and "parse_absolute_origin W (trim orig) = Inr c"
    and "absolute_prefix (trim orig)" and "ai_mode input \<noteq> Some Managed" and "ai_password input \<noteq> []"
    and "effective_username (ai_username input) \<noteq> []"
    and "authored_as W S vek input (effective_username (ai_username input)) (serialized c)
           (case ai_id input of None \<Rightarrow> rnd_id R | Some i \<Rightarrow> i) R existing out"
proof -
  from assms obtain vek where vek: "vek_opt = Some vek"
    by (cases vek_opt) (auto simp: author_credential_def)
  obtain canonical where val: "validate_authoring_origin W (ai_origin input) = Inr canonical"
    using assms vek by (cases "validate_authoring_origin W (ai_origin input)") (auto simp: author_credential_def)
  then obtain orig c where o: "ai_origin input = Some orig" "absolute_prefix (trim orig)"
    "parse_absolute_origin W (trim orig) = Inr c" "canonical = serialized c"
    by (auto simp: validate_authoring_origin_def Let_def split: option.splits if_splits sum.splits)
  let ?u = "effective_username (ai_username input)"
  obtain title where t: "validate_authoring_fields input ?u = Inr title"
    using assms vek val
    by (cases "validate_authoring_fields input ?u") (auto simp: author_credential_def Let_def)
  then have f: "ai_password input \<noteq> []" "?u \<noteq> []"
    by (auto simp: validate_authoring_fields_def split: if_splits)
  have m: "ai_mode input \<noteq> Some Managed"
    using assms vek val t by (auto simp: author_credential_def split: if_splits)
  have s: "\<exists>v'. seal_and_register_credential W S vek input ?u title canonical
      (case ai_id input of None \<Rightarrow> rnd_id R | Some i \<Rightarrow> i) R existing = (Inr out, v') \<and> v = Some v'"
    using assms vek val t
    by (auto simp: author_credential_def Let_def prod_eq_iff split: if_splits)
  then obtain v' where v': "seal_and_register_credential W S vek input ?u title canonical
      (case ai_id input of None \<Rightarrow> rnd_id R | Some i \<Rightarrow> i) R existing = (Inr out, v')" "v = Some v'"
    by blast
  from seal_and_register_ok [OF v'(1)] v'(2) vek o m f show ?thesis by (intro that) auto
qed

lemma author_credential_vek:
  "snd (author_credential W S input (Some vek) existing R)
     = Some (if is_ok (fst (author_credential W S input (Some vek) existing R)) then vek else secure_zero vek)"
proof (cases "author_credential W S input (Some vek) existing R")
  case (Pair r v)
  show ?thesis
  proof (cases r)
    case (Inr out)
    with Pair show ?thesis by (auto elim!: author_credential_ok)
  next
    case (Inl e)
    with Pair show ?thesis
      by (auto simp: author_credential_def seal_and_register_credential_def Let_def
            split: option.splits sum.splits if_splits)
  qed
qed

subsection \<open>Releasing what was authored\<close>

lemma guard_allows_own_page:
  assumes "parse_absolute_origin W (rq_document_origin rq) = Inr c" and "stable_origin W c"
    and "token_origin t = c" and "\<not> is_framed rq"
  shows "is_ok (evaluate_autofill W (guard_request_of rq t))"
proof -
  have s: "parse_absolute_origin W (serialized c) = Inr c"
    using assms(2) by (simp add: stable_origin_def)
  have r: "resolve_against_origin W (form_action (guard_request_of rq t)) (serialized c) = Inr c"
    using s by (simp add: resolve_against_origin_def guard_request_of_def)
  show ?thesis
    using evaluate_autofill_allow_iff [of "guard_request_of rq t" "serialized c" W c c]
      assms s r
    by (simp add: guard_request_of_def allowed_operations_def frame_authorized_def submit_authorized_def)
qed

lemma build_release_outcome_authored:
  assumes "aead_ok S" and "length salt = salt_len" and "length iv = iv_len"
    and "case totp of None \<Rightarrow> encrypted_totp_secret rec = None
      | Some seed \<Rightarrow> seed \<noteq> [] \<and> decodes S seed
          \<and> (\<exists>e. encrypted_totp_secret rec = Some e \<and> seal S seed key salt iv = Some e)"
  shows "snd (build_release_outcome S rec (u, p) key)
    = Inr \<lparr> rc_id = er_id rec, rc_username = u, rc_password = p, rc_totp_secret = totp \<rparr>"
proof (cases totp)
  case None
  with assms(4) show ?thesis by (simp add: build_release_outcome_def)
next
  case (Some seed)
  with assms(4) obtain e where e: "encrypted_totp_secret rec = Some e" "seal S seed key salt iv = Some e"
    and "seed \<noteq> []" "decodes S seed" by auto
  then show ?thesis
    using decrypt_sealed [OF assms(1) _ e(2) assms(2,3)] sealed_nonempty [OF e(2) assms(2)] Some
    by (simp add: build_release_outcome_def snd_and_then)
qed

lemma release_authored:
  assumes auth: "author_credential W S input (Some vek) existing R = (Inr out, v)"
    and S: "aead_ok S"
    and env: "json_reads_back S (secret_envelope (effective_username (ai_username input)) (ai_password input))"
      "decodes S (json_stringify S (secret_envelope (effective_username (ai_username input)) (ai_password input)))"
    and seed: "\<And>s. authored_totp W input = Some s \<Longrightarrow> decodes S s"
    and len: "length (rnd_salt R) = salt_len" "length (rnd_iv_secret R) = iv_len"
      "length (rnd_iv_totp R) = iv_len"
    and c: "ar_origin (au_record out) = serialized c" "stable_origin W c"
    and D: "get_vek D = Some vek" "get_index D = Some (au_index out)"
      "get_record D (er_id (au_record out)) = Some (Some (encrypted_record.truncate (au_record out)))"
    and rq: "rq_credential_id rq = er_id (au_record out)" "\<not> is_framed rq"
      "parse_absolute_origin W (rq_origin rq) = Inr c"
      "parse_absolute_origin W (rq_document_origin rq) = Inr c"
  shows "snd (release_credential W S rq D) = Inr
    \<lparr> rc_id = er_id (au_record out), rc_username = effective_username (ai_username input),
      rc_password = ai_password input, rc_totp_secret = authored_totp W input \<rparr>"
proof -
  let ?u = "effective_username (ai_username input)"
  let ?rec = "encrypted_record.truncate (au_record out)"
  let ?k = "Some (derive_domain_index_key S vek)"
  have "\<exists>cid (c0 :: canonical_origin). authored_as W S vek input ?u (serialized c0) cid R existing out"
  proof (rule author_credential_ok [OF auth], goal_cases)
    case (1 vek1 orig c1)
    then have "vek1 = vek" by simp
    from 1(9) [unfolded this] show ?case by - (rule exI, rule exI, assumption)
  qed
  then obtain cid and c0 :: canonical_origin where as: "authored_as W S vek input ?u (serialized c0) cid R existing out"
    by blast
  have c0: "serialized c0 = serialized c" using as c by (simp add: authored_as_def Let_def)
  have rec: "er_id ?rec = er_id (au_record out)" "er_mode ?rec = Personal"
    "er_salt ?rec = binary_to_base64 (rnd_salt R)" "er_version ?rec = 1"
    "encrypted_secret ?rec = encrypted_secret (au_record out)"
    "encrypted_totp_secret ?rec = encrypted_totp_secret (au_record out)"
    and cid: "er_id (au_record out) = cid"
    using as by (simp_all add: authored_as_def Let_def encrypted_record.defs)
  let ?key = "personal_key S vek (rnd_salt R) cid"
  have tok_parse: "parse_absolute_origin W (serialized c) = Inr c" using c by (simp add: stable_origin_def)
  obtain t where t: "compute_lookup_token W S (serialized c) ?k = Inr t"
    and ix: "au_index out = add_to_index (case existing of None \<Rightarrow> empty_index | Some ix \<Rightarrow> ix) (token t) cid"
    using as c0 by (auto simp: authored_as_def Let_def)
  have trq: "compute_lookup_token W S (rq_origin rq) ?k = Inr t"
    using compute_lookup_token_same_origin [OF rq(3) tok_parse] t by simp
  have tc: "token_origin t = c" using t tok_parse by (auto simp: compute_lookup_token_def)
  have "cid \<in> set (lookup_index (au_index out) (token t))"
    by (simp add: ix lookup_index_def add_to_index_def Let_def split: option.split)
  then have bound: "index_entry_matches_origin W S (au_index out) (token t) cid (serialized c) ?k"
    using t by (simp add: index_entry_matches_origin_def verify_token_iff)
  have "release_authorized W S rq D vek ?rec"
    using trq D bound rq(1) cid rec(2) tc guard_allows_own_page [OF rq(4) c(2) tc rq(2)]
    by (simp add: release_authorized_def)
  then have prep: "snd (prepare_release W S rq D vek) = Inr ?rec"
    by (simp add: prepare_release_ok_iff)
  have key: "entry_key_for S ?rec vek (rnd_salt R) D
      = returning (key_base64 (derive_personal_entry_key S vek (rnd_salt R) cid 1))"
    using rec cid by (simp add: entry_key_for_def)
  have sealed: "seal S (json_stringify S (secret_envelope ?u (ai_password input))) ?key
      (rnd_salt R) (rnd_iv_secret R) = Some (encrypted_secret (au_record out))"
    using as by (simp add: authored_as_def Let_def)
  have out: "snd (build_release_outcome S ?rec (?u, ai_password input) ?key)
    = Inr \<lparr> rc_id = er_id ?rec, rc_username = ?u, rc_password = ai_password input,
            rc_totp_secret = authored_totp W input \<rparr>"
    using as seed rec(6)
    by (intro build_release_outcome_authored [OF S len(1,3)])
       (auto simp: authored_as_def Let_def split: option.splits)
  show ?thesis
    using D(1) prep rec(1,3,5) key out decrypt_sealed_envelope [OF S env sealed len(1,2)]
    by (simp add: release_credential_def release_steps_def snd_and_then base64_round_trip
          personal_key_decodes Let_def)
qed

end
