(* ===== verification/Release_Share_Kek.thy ===== *)
theory Release_Share_Kek
  imports Authored_Release
begin

text \<open>
  The wrapping key of a Release Share:
  src/src/infrastructure/crypto/release-share-kek.ts.
\<close>

datatype kek_error_code = SECRET_MISSING | SECRET_WRONG_LENGTH | WRAP_FAILED | UNWRAP_FAILED

type_synonym kek_error = "kek_error_code \<times> jstr"

definition release_share_kek_info :: jstr where
  "release_share_kek_info = lit ''cybervault|release-share-kek|v1''"

definition release_share_kek_secret_bytes :: nat where
  "release_share_kek_secret_bytes = 32"

definition kek_bits :: nat where "kek_bits = 256"
definition wrap_iv_len :: nat where "wrap_iv_len = 12"

definition derive_release_share_kek :: "subtle \<Rightarrow> bytes option \<Rightarrow> kek_error + bytes" where
  "derive_release_share_kek S secret =
     (case secret of
        None \<Rightarrow> Inl (SECRET_MISSING, lit ''Release Share KEK secret is not configured'')
      | Some s \<Rightarrow>
          if length s = 0 then Inl (SECRET_MISSING, lit ''Release Share KEK secret is not configured'')
          else if length s \<noteq> release_share_kek_secret_bytes then
            Inl (SECRET_WRONG_LENGTH, lit ''Release Share KEK secret must be ''
              @ dec_nat release_share_kek_secret_bytes @ lit '' bytes, got '' @ dec_nat (length s))
          else Inr (hkdf_sha256 S s (replicate 32 0) (utf8_encode release_share_kek_info) kek_bits))"

definition load_release_share_kek_secret :: "jstr option \<Rightarrow> bytes option" where
  "load_release_share_kek_secret raw = (case raw of
     None \<Rightarrow> None
   | Some r \<Rightarrow>
       if r = [] \<or> trim r = [] then None
       else (case base64_to_binary (trim r) of
           None \<Rightarrow> None
         | Some bs \<Rightarrow> if length bs \<noteq> release_share_kek_secret_bytes then None else Some bs))"

text \<open>The IV is drawn at random; the message of a platform failure is an argument.\<close>

definition wrap_release_share ::
  "subtle \<Rightarrow> jstr \<Rightarrow> bytes \<Rightarrow> bytes \<Rightarrow> bytes \<Rightarrow> jstr \<Rightarrow> kek_error + jstr" where
  "wrap_release_share S platform_error iv kek share secret_ref =
     (if length kek \<noteq> kek_bits div 8 then
        Inl (WRAP_FAILED, lit ''Release Share KEK has an unexpected length'')
      else if length share = 0 then Inl (WRAP_FAILED, lit ''Release Share is empty'')
      else (case aes_gcm_encrypt S kek iv (utf8_encode secret_ref) share of
          None \<Rightarrow> Inl (WRAP_FAILED, lit ''could not wrap the Release Share: '' @ platform_error)
        | Some ct \<Rightarrow> Inr (binary_to_base64 (iv @ ct))))"

definition unwrap_release_share ::
  "subtle \<Rightarrow> bytes \<Rightarrow> jstr \<Rightarrow> jstr \<Rightarrow> kek_error + bytes" where
  "unwrap_release_share S kek wrapped secret_ref =
     (if length kek \<noteq> kek_bits div 8 then
        Inl (UNWRAP_FAILED, lit ''Release Share KEK has an unexpected length'')
      else case base64_to_binary wrapped of
        None \<Rightarrow> Inl (UNWRAP_FAILED, lit ''wrapped Release Share is not valid base64'')
      | Some combined \<Rightarrow>
          if length combined \<le> wrap_iv_len then
            Inl (UNWRAP_FAILED, lit ''wrapped Release Share is truncated'')
          else (case aes_gcm_decrypt S kek (take wrap_iv_len combined) (utf8_encode secret_ref)
                       (drop wrap_iv_len combined) of
              None \<Rightarrow> Inl (UNWRAP_FAILED,
                lit ''Release Share could not be unwrapped with the configured Release Share KEK'')
            | Some plain \<Rightarrow> Inr plain))"

lemma unwrap_wrapped:
  assumes "aead_ok S" and "length iv = wrap_iv_len"
    and "wrap_release_share S err iv kek share secret_ref = Inr wrapped"
  shows "unwrap_release_share S kek wrapped secret_ref = Inr share"
  using assms
  by (auto simp: wrap_release_share_def unwrap_release_share_def base64_round_trip aead_ok_def
        split: if_splits option.splits)

lemma load_saved_secret:
  assumes "length secret = release_share_kek_secret_bytes"
    and "trim (binary_to_base64 secret) = binary_to_base64 secret"
  shows "load_release_share_kek_secret (Some (binary_to_base64 secret)) = Some secret"
proof -
  have "secret \<noteq> []" using assms by (auto simp: release_share_kek_secret_bytes_def)
  then show ?thesis
    using assms by (simp add: load_release_share_kek_secret_def base64_round_trip binary_to_base64_nonempty)
qed

subsection \<open>The three info strings of the key hierarchy\<close>

lemma kek_info_not_entry: "build_context_info ctx \<noteq> release_share_kek_info"
proof
  assume "build_context_info ctx = release_share_kek_info"
  then have eq: "(lit ''cybervault|'' @ dc_credential_id ctx @ 124 # 118 # dec_int (dc_version ctx))
       @ 124 # mode_name (dc_mode ctx) = lit ''cybervault|release-share-kek'' @ 124 # lit ''v1''"
    unfolding build_context_info_split by (simp add: release_share_kek_info_def lit_def)
  have "124 \<notin> set (lit ''v1'')" by (simp add: lit_def)
  then have "mode_name (dc_mode ctx) = lit ''v1''"
    using split_last_sep [OF eq] mode_name_no_bar by blast
  then show False by (cases "dc_mode ctx") (simp_all add: mode_name_def lit_def)
qed

lemma kek_info_not_index: "release_share_kek_info \<noteq> domain_index_info"
  by (simp add: release_share_kek_info_def domain_index_info_def lit_def)

end
