(* ===== verification/Jti_Store.thy ===== *)
theory Jti_Store
  imports Prelude
begin

text \<open>
  Replay protection: src/src/infrastructure/crypto/jti-store.ts.  Times are
  milliseconds (\<^verbatim>\<open>Date.now()\<close>), an argument of each operation.  The interface
  \<^verbatim>\<open>replay_store\<close> states what a store promises its clients (the managed release and the
  challenge service); it is interpreted on the in-memory store.
\<close>

type_synonym jti_store = "jstr \<rightharpoonup> int"

definition empty_jti_store :: jti_store where
  "empty_jti_store = Map.empty"

definition try_consume :: "jti_store \<Rightarrow> int \<Rightarrow> jstr \<Rightarrow> int \<Rightarrow> bool \<times> jti_store" where
  "try_consume st now jti ttl_seconds =
     (let expiry = now + ttl_seconds * 1000 in
      case st jti of
        Some existing \<Rightarrow> if existing > now then (False, st) else (True, st(jti \<mapsto> expiry))
      | None \<Rightarrow> (True, st(jti \<mapsto> expiry)))"

definition is_consumed :: "jti_store \<Rightarrow> int \<Rightarrow> jstr \<Rightarrow> bool \<times> jti_store" where
  "is_consumed st now jti = (case st jti of
     None \<Rightarrow> (False, st)
   | Some expiry \<Rightarrow> if expiry \<le> now then (False, st(jti := None)) else (True, st))"

definition jti_cleanup :: "jti_store \<Rightarrow> int \<Rightarrow> jti_store" where
  "jti_cleanup st now = (\<lambda>j. case st j of
     None \<Rightarrow> None
   | Some expiry \<Rightarrow> if expiry \<le> now then None else Some expiry)"

definition jti_close :: "jti_store \<Rightarrow> jti_store" where
  "jti_close st = Map.empty"

datatype jti_verdict = Jti_Allowed | Jti_Refused string

definition verify_and_consume_jti :: "jti_store \<Rightarrow> int \<Rightarrow> jstr \<Rightarrow> int \<Rightarrow> jti_verdict \<times> jti_store" where
  "verify_and_consume_jti st now jti ttl_seconds =
     (if jti = [] \<or> length jti < 16 then (Jti_Refused ''Invalid JTI'', st)
      else (let (consumed, st') = try_consume st now jti ttl_seconds in
        if \<not> consumed then (Jti_Refused ''Replay detected: JTI already consumed'', st')
        else (Jti_Allowed, st')))"

subsection \<open>The interface of a replay store\<close>

text \<open>
  \<^verbatim>\<open>spent s now j\<close>: an attempt to consume j at time now is refused.  A use is
  remembered for its time to live, whatever else happens to the store, and
  sweeping expired entries is not observable.
\<close>

datatype 'j store_event = Consume int 'j int | Sweep int | Query int 'j

locale replay_store =
  fixes consume :: "'s \<Rightarrow> int \<Rightarrow> 'j \<Rightarrow> int \<Rightarrow> bool \<times> 's"
    and query :: "'s \<Rightarrow> int \<Rightarrow> 'j \<Rightarrow> bool \<times> 's"
    and sweep :: "'s \<Rightarrow> int \<Rightarrow> 's"
    and spent :: "'s \<Rightarrow> int \<Rightarrow> 'j \<Rightarrow> bool"
  assumes consume_result: "fst (consume s now j ttl) \<longleftrightarrow> \<not> spent s now j"
    and consume_spends: "\<not> spent s now j \<Longrightarrow> spent (snd (consume s now j ttl)) t j \<longleftrightarrow> t < now + ttl * 1000"
    and consume_refused: "spent s now j \<Longrightarrow> snd (consume s now j ttl) = s"
    and consume_other: "j' \<noteq> j \<Longrightarrow> spent (snd (consume s now j ttl)) t j' \<longleftrightarrow> spent s t j'"
    and query_result: "fst (query s now j) \<longleftrightarrow> spent s now j"
    and query_keeps: "now \<le> t \<Longrightarrow> spent (snd (query s now j)) t j' \<longleftrightarrow> spent s t j'"
    and sweep_keeps: "now \<le> t \<Longrightarrow> spent (sweep s now) t j \<longleftrightarrow> spent s t j"
    and spent_earlier: "spent s t j \<Longrightarrow> t' \<le> t \<Longrightarrow> spent s t' j"
begin

fun after :: "'s \<Rightarrow> 'j store_event list \<Rightarrow> 's" where
  "after s [] = s"
| "after s (Consume t j ttl # es) = after (snd (consume s t j ttl)) es"
| "after s (Query t j # es) = after (snd (query s t j)) es"
| "after s (Sweep t # es) = after (sweep s t) es"

fun event_time :: "'j store_event \<Rightarrow> int" where
  "event_time (Consume t j ttl) = t"
| "event_time (Sweep t) = t"
| "event_time (Query t j) = t"

lemma spent_after_event:
  assumes "spent s u j" and "event_time e \<le> u"
  shows "spent (after s [e]) u j"
proof (cases e)
  case (Consume t j' ttl)
  then have "t \<le> u" using assms(2) by simp
  then have "spent s t j" using spent_earlier assms(1) by blast
  then show ?thesis
    using Consume assms(1) consume_refused [of s t j' ttl] consume_other [of j j' s t ttl u]
    by (cases "j' = j") auto
next
  case (Sweep t)
  with assms sweep_keeps show ?thesis by simp
next
  case (Query t j')
  with assms query_keeps show ?thesis by simp
qed

lemma spent_after:
  assumes "spent s u j" and "\<forall>e \<in> set es. event_time e \<le> u"
  shows "spent (after s es) u j"
  using assms
proof (induction es arbitrary: s)
  case (Cons e es)
  have "after s (e # es) = after (after s [e]) es" by (cases e) simp_all
  with Cons spent_after_event show ?case by simp
qed simp

text \<open>After a successful use, no use of the same identifier succeeds within its time to live.\<close>

lemma no_double_use:
  assumes "fst (consume s t j ttl)"
    and "\<forall>e \<in> set es. event_time e \<le> u" and "u < t + ttl * 1000"
  shows "\<not> fst (consume (after (snd (consume s t j ttl)) es) u j ttl')"
proof -
  have "spent (snd (consume s t j ttl)) u j"
    using assms(1,3) by (simp add: consume_result consume_spends)
  from spent_after [OF this assms(2)] show ?thesis by (simp add: consume_result)
qed

text \<open>And it succeeds again once the time to live has passed.\<close>

lemma use_after_expiry:
  assumes "fst (consume s t j ttl)" and "t + ttl * 1000 \<le> u"
  shows "fst (consume (snd (consume s t j ttl)) u j ttl')"
  using assms by (simp add: consume_result consume_spends)

end

definition jti_spent :: "jti_store \<Rightarrow> int \<Rightarrow> jstr \<Rightarrow> bool" where
  "jti_spent st now jti = (case st jti of None \<Rightarrow> False | Some expiry \<Rightarrow> now < expiry)"

interpretation jti: replay_store try_consume is_consumed jti_cleanup jti_spent
  by unfold_locales
     (auto simp: try_consume_def is_consumed_def jti_cleanup_def jti_spent_def Let_def
       split: option.splits if_splits)

text \<open>The store after a list of calls, oldest first.\<close>

fun jti_after :: "jti_store \<Rightarrow> jstr store_event list \<Rightarrow> jti_store" where
  "jti_after st [] = st"
| "jti_after st (Consume t j ttl # es) = jti_after (snd (try_consume st t j ttl)) es"
| "jti_after st (Query t j # es) = jti_after (snd (is_consumed st t j)) es"
| "jti_after st (Sweep t # es) = jti_after (jti_cleanup st t) es"

lemma jti_after_eq: "jti_after st es = jti.after st es"
  by (induction st es rule: jti_after.induct) simp_all

definition event_at_most :: "int \<Rightarrow> jstr store_event \<Rightarrow> bool" where
  "event_at_most u e \<longleftrightarrow> (case e of Consume t j ttl \<Rightarrow> t \<le> u | Sweep t \<Rightarrow> t \<le> u | Query t j \<Rightarrow> t \<le> u)"

lemma event_at_most_iff: "event_at_most u e \<longleftrightarrow> jti.event_time e \<le> u"
  by (cases e) (simp_all add: event_at_most_def)

lemma verify_and_consume_allowed:
  "fst (verify_and_consume_jti st now jti ttl) = Jti_Allowed
     \<longleftrightarrow> 16 \<le> length jti \<and> fst (try_consume st now jti ttl)"
  by (auto simp: verify_and_consume_jti_def split: prod.splits)

lemma verify_and_consume_store:
  "snd (verify_and_consume_jti st now jti ttl)
     = (if jti = [] \<or> length jti < 16 then st else snd (try_consume st now jti ttl))"
  by (auto simp: verify_and_consume_jti_def split: prod.splits)

end
