(* ===== verification/Capability.thy ===== *)
theory Capability
  imports Release_Share_Kek Jti_Store
begin

text \<open>Capability tokens and their issuer.\<close>

section \<open>Tokens\<close>

text \<open>
  Capability tokens: src/src/infrastructure/crypto/ed25519-capability.ts.  The
  curve operations of @noble/curves are the fields of the record \<^verbatim>\<open>curve\<close>; Inl is
  the message of what they throw.  Times are Unix seconds and integral; the
  number that a 64-bit field decodes to is rounded as \<^verbatim>\<open>Number(bigint)\<close> rounds.
\<close>

record curve =
  ed_sign :: "bytes \<Rightarrow> bytes \<Rightarrow> string + bytes"
  ed_verify :: "bytes \<Rightarrow> bytes \<Rightarrow> bytes \<Rightarrow> string + bool"
  atob_message :: string

definition capability_version :: int where "capability_version = 1"
definition default_capability_ttl_seconds :: int where "default_capability_ttl_seconds = 300"
definition max_capability_ttl_seconds :: int where "max_capability_ttl_seconds = 3600"

definition capability_operations :: "jstr list" where
  "capability_operations = map lit
     [''AUTOFILL'', ''VIEW'', ''TOTP'', ''CONNECT'', ''READ'', ''ADMIN'', ''BACKUP'', ''RESTORE'',
      ''ROTATE_SECRET'', ''EDIT_SECRET'', ''DELETE_SECRET'', ''EXPORT_SECRET'']"

record capability_payload =
  cp_issuer :: jstr
  cp_audience :: jstr
  cp_user_id :: jstr
  cp_resource_id :: jstr
  cp_operation :: jstr
  cp_secret_ref :: jstr
  cp_device_id :: "jstr option"
  cp_assurance :: int
  cp_iat :: int
  cp_exp :: int
  cp_jti :: jstr
  cp_version :: int

record signed_capability =
  sg_payload :: capability_payload
  sg_signature :: jstr
  sg_header :: jstr

record capability_binding_context =
  cb_user_id :: jstr
  cb_resource_id :: jstr
  cb_secret_ref :: jstr
  cb_device_id :: jstr

definition plus_public_key_bytes :: nat where "plus_public_key_bytes = 32"

definition load_ed25519_private_key :: "jstr \<Rightarrow> string + bytes" where
  "load_ed25519_private_key k64 = (case base64_to_binary k64 of
     None \<Rightarrow> Inl ''InvalidCharacterError''
   | Some k \<Rightarrow> if length k \<noteq> 64 then Inl ''Invalid Ed25519 private key length: expected 64 bytes''
       else Inr k)"

definition load_ed25519_public_key :: "jstr \<Rightarrow> string + bytes" where
  "load_ed25519_public_key k64 = (case base64_to_binary k64 of
     None \<Rightarrow> Inl ''InvalidCharacterError''
   | Some k \<Rightarrow> if length k \<noteq> 32 then Inl ''Invalid Ed25519 public key length: expected 32 bytes''
       else Inr k)"

definition load_plus_public_key :: "jstr option \<Rightarrow> bytes option" where
  "load_plus_public_key raw = (case raw of
     None \<Rightarrow> None
   | Some r \<Rightarrow>
       if r = [] \<or> trim r = [] then None
       else (case base64_to_binary (trim r) of
           None \<Rightarrow> None
         | Some bs \<Rightarrow> if length bs \<noteq> plus_public_key_bytes then None else Some bs))"

subsection \<open>Canonical encoding\<close>

definition push_string :: "nat \<Rightarrow> jstr \<Rightarrow> string + bytes" where
  "push_string length_bytes s =
     (let encoded = utf8_encode s in
      if length_bytes = 1 then
        if length encoded > 255 then Inl ''String too long for 1-byte length''
        else Inr (be_bytes 1 (int (length encoded)) @ encoded)
      else
        if length encoded > 65535 then Inl ''String too long for 2-byte length''
        else Inr (be_bytes 2 (int (length encoded)) @ encoded))"

definition push_optional_string :: "jstr option \<Rightarrow> nat \<Rightarrow> string + bytes" where
  "push_optional_string s length_bytes = (case s of
     None \<Rightarrow> Inr [0]
   | Some t \<Rightarrow> if t = [] then Inr [0]
       else (case push_string length_bytes t of Inl e \<Rightarrow> Inl e | Inr b \<Rightarrow> Inr (1 # b)))"

text \<open>Parts in the order they are pushed; the first failing push is the error thrown.\<close>

fun concat_parts :: "(string + bytes) list \<Rightarrow> string + bytes" where
  "concat_parts [] = Inr []"
| "concat_parts (Inl e # ps) = Inl e"
| "concat_parts (Inr b # ps) = (case concat_parts ps of Inl e \<Rightarrow> Inl e | Inr bs \<Rightarrow> Inr (b @ bs))"

definition encode_capability_payload :: "capability_payload \<Rightarrow> string + bytes" where
  "encode_capability_payload p = concat_parts
     [Inr [of_int (cp_version p)],
      push_string 1 (cp_issuer p), push_string 1 (cp_audience p), push_string 2 (cp_user_id p),
      push_string 2 (cp_resource_id p), push_string 1 (cp_operation p),
      push_string 2 (cp_secret_ref p), push_optional_string (cp_device_id p) 2,
      Inr [of_int (cp_assurance p)],
      Inr (be_bytes 8 (cp_iat p)), Inr (be_bytes 8 (cp_exp p)),
      push_string 1 (cp_jti p)]"

text \<open>
  \<^verbatim>\<open>Number(v)\<close> of a 64-bit integer: exact below 2^53, else rounded to 53 significant
  bits, ties to even.
\<close>

fun bit_len :: "nat \<Rightarrow> nat" where
  "bit_len n = (if n = 0 then 0 else Suc (bit_len (n div 2)))"

declare bit_len.simps [simp del]

definition number_of_uint64 :: "int \<Rightarrow> int" where
  "number_of_uint64 v =
     (if v < 2 ^ 53 then v
      else (let u = 2 ^ (bit_len (nat v) - 53); q = v div u; r = v mod u in
        if 2 * r > u \<or> (2 * r = u \<and> odd q) then (q + 1) * u else q * u))"

text \<open>
  Reading past the end throws for the integers (DataView) and truncates for the
  strings (slice).  A reader takes the bytes not yet read.
\<close>

type_synonym 'a reader = "bytes \<Rightarrow> string + ('a \<times> bytes)"

definition read_uint :: "nat \<Rightarrow> int reader" where
  "read_uint k bs = (if length bs < k then Inl ''RangeError'' else Inr (be_value (take k bs), drop k bs))"

definition read_bind :: "'a reader \<Rightarrow> ('a \<Rightarrow> 'b reader) \<Rightarrow> 'b reader" where
  "read_bind m f bs = (case m bs of Inl e \<Rightarrow> Inl e | Inr (x, rest) \<Rightarrow> f x rest)"

definition read_string :: "subtle \<Rightarrow> nat \<Rightarrow> jstr reader" where
  "read_string S k = read_bind (read_uint k)
     (\<lambda>n bs. Inr (text_decode S (take (nat n) bs), drop (nat n) bs))"

definition read_optional_string :: "subtle \<Rightarrow> nat \<Rightarrow> jstr option reader" where
  "read_optional_string S k = read_bind (read_uint 1)
     (\<lambda>present. if present = 0 then (\<lambda>bs. Inr (None, bs))
        else read_bind (read_string S k) (\<lambda>s bs. Inr (Some s, bs)))"

definition decode_capability_payload :: "subtle \<Rightarrow> bytes \<Rightarrow> string + capability_payload" where
  "decode_capability_payload S data =
     (case
        (read_bind (read_uint 1) (\<lambda>version.
         read_bind (read_string S 1) (\<lambda>issuer.
         read_bind (read_string S 1) (\<lambda>audience.
         read_bind (read_string S 2) (\<lambda>user_id.
         read_bind (read_string S 2) (\<lambda>resource_id.
         read_bind (read_string S 1) (\<lambda>operation.
         read_bind (read_string S 2) (\<lambda>secret_ref.
         read_bind (read_optional_string S 2) (\<lambda>device_id.
         read_bind (read_uint 1) (\<lambda>assurance.
         read_bind (read_uint 8) (\<lambda>iat.
         read_bind (read_uint 8) (\<lambda>exp.
         read_bind (read_string S 1) (\<lambda>jti bs.
           Inr (\<lparr> cp_issuer = issuer, cp_audience = audience, cp_user_id = user_id,
                  cp_resource_id = resource_id, cp_operation = operation, cp_secret_ref = secret_ref,
                  cp_device_id = device_id, cp_assurance = assurance,
                  cp_iat = number_of_uint64 iat, cp_exp = number_of_uint64 exp,
                  cp_jti = jti, cp_version = version \<rparr>, bs)))))))))))))) data
      of Inl e \<Rightarrow> Inl e | Inr (p, _) \<Rightarrow> Inr p)"

subsection \<open>Signing and verification\<close>

definition capability_header :: jstr where
  "capability_header = binary_to_base64 (utf8_encode
     ([123, 34] @ lit ''alg'' @ [34, 58, 34] @ lit ''Ed25519'' @ [34, 44, 34] @ lit ''typ''
        @ [34, 58, 34] @ lit ''capability'' @ [34, 125]))"

definition sign_capability :: "curve \<Rightarrow> capability_payload \<Rightarrow> bytes \<Rightarrow> string + signed_capability" where
  "sign_capability C p private_key = (case encode_capability_payload p of
     Inl e \<Rightarrow> Inl e
   | Inr encoded \<Rightarrow> (case ed_sign C encoded (take 32 private_key) of
       Inl e \<Rightarrow> Inl e
     | Inr sig \<Rightarrow> Inr \<lparr> sg_payload = p, sg_signature = binary_to_base64 sig,
                       sg_header = capability_header \<rparr>))"

text \<open>A verdict: valid, or the error reported.\<close>

datatype verdict = Valid | Invalid string

definition verify_capability_bindings ::
  "capability_payload \<Rightarrow> capability_binding_context \<Rightarrow> verdict" where
  "verify_capability_bindings p x =
     (if cb_user_id x = [] \<or> cb_resource_id x = [] \<or> cb_secret_ref x = [] then
        Invalid ''Capability binding context is incomplete''
      else if cp_user_id p \<noteq> cb_user_id x then
        Invalid ''Capability userId does not match the authenticated user''
      else if cp_resource_id p \<noteq> cb_resource_id x then
        Invalid ''Capability resourceId does not match the requested resource''
      else if cp_secret_ref p \<noteq> cb_secret_ref x then
        Invalid ''Capability secretRef does not match the requested secret''
      else if (case cp_device_id p of None \<Rightarrow> [] | Some d \<Rightarrow> d) \<noteq> cb_device_id x then
        Invalid ''Capability deviceId does not match the bound device''
      else Valid)"

text \<open>\<^verbatim>\<open>now\<close> is \<^verbatim>\<open>Math.floor(Date.now() / 1000)\<close>; a missing context is None.\<close>

definition verify_capability ::
  "curve \<Rightarrow> int \<Rightarrow> signed_capability \<Rightarrow> bytes \<Rightarrow> capability_binding_context option \<Rightarrow> verdict" where
  "verify_capability C now tk public_key expected =
     (let p = sg_payload tk in
      case encode_capability_payload p of
        Inl e \<Rightarrow> Invalid e
      | Inr encoded \<Rightarrow>
     (case base64_to_binary (sg_signature tk) of
        None \<Rightarrow> Invalid (atob_message C)
      | Some sig \<Rightarrow>
     (case ed_verify C sig encoded public_key of
        Inl e \<Rightarrow> Invalid e
      | Inr valid \<Rightarrow>
          if \<not> valid then Invalid ''Invalid signature''
          else if cp_exp p < now then Invalid ''Capability expired''
          else if cp_iat p > now + 60 then Invalid ''Capability not yet valid''
          else if cp_issuer p \<noteq> lit ''cybervault-plus'' then Invalid ''Invalid issuer''
          else if cp_audience p \<noteq> lit ''cybervault-core'' then Invalid ''Invalid audience''
          else if cp_operation p \<notin> set capability_operations then Invalid ''Invalid operation''
          else if cp_assurance p < 1 \<or> cp_assurance p > 3 then Invalid ''Invalid assurance level''
          else if cp_version p \<noteq> capability_version then Invalid ''Unsupported capability version''
          else (case expected of None \<Rightarrow> Valid | Some x \<Rightarrow> verify_capability_bindings p x))))"

definition create_capability_payload ::
  "int \<Rightarrow> bytes \<Rightarrow> jstr \<Rightarrow> jstr \<Rightarrow> jstr \<Rightarrow> jstr \<Rightarrow> jstr option \<Rightarrow> int \<Rightarrow> int option
     \<Rightarrow> string + capability_payload" where
  "create_capability_payload now jti_bytes user_id resource_id operation secret_ref device_id assurance ttl_opt =
     (let ttl = (case ttl_opt of None \<Rightarrow> default_capability_ttl_seconds | Some t \<Rightarrow> t) in
      if ttl > max_capability_ttl_seconds then Inl ''TTL exceeds maximum of 3600 seconds''
      else Inr \<lparr> cp_issuer = lit ''cybervault-plus'', cp_audience = lit ''cybervault-core'',
                 cp_user_id = user_id, cp_resource_id = resource_id, cp_operation = operation,
                 cp_secret_ref = secret_ref, cp_device_id = device_id, cp_assurance = assurance,
                 cp_iat = now, cp_exp = now + ttl,
                 cp_jti = binary_to_base64 (take 16 jti_bytes), cp_version = capability_version \<rparr>)"

definition validate_capability_payload :: "int \<Rightarrow> capability_payload \<Rightarrow> verdict" where
  "validate_capability_payload now p =
     (if cp_version p \<noteq> capability_version then Invalid ''Unsupported capability version''
      else if cp_issuer p \<noteq> lit ''cybervault-plus'' then Invalid ''Invalid issuer''
      else if cp_audience p \<noteq> lit ''cybervault-core'' then Invalid ''Invalid audience''
      else if cp_operation p \<notin> set capability_operations then Invalid ''Invalid operation''
      else if cp_assurance p < 1 \<or> cp_assurance p > 3 then Invalid ''Invalid assurance level''
      else if cp_exp p < now then Invalid ''Capability expired''
      else if cp_iat p > now + 60 then Invalid ''Capability not yet valid''
      else if cp_jti p = [] \<or> length (cp_jti p) < 16 then Invalid ''Invalid or missing JTI''
      else Valid)"

subsection \<open>Decoding undoes encoding\<close>

lemma read_uint_be: "0 \<le> x \<Longrightarrow> x < 256 ^ k \<Longrightarrow> read_uint k (be_bytes k x @ rest) = Inr (x, rest)"
  by (simp add: read_uint_def be_value_be_bytes)

lemma read_uint_byte: "0 \<le> x \<Longrightarrow> x < 256 \<Longrightarrow> read_uint 1 (of_int x # rest) = Inr (x, rest)"
  using read_uint_be [of x 1 rest] by simp

lemma read_pushed_string:
  assumes "push_string k s = Inr b" and "k = 1 \<or> k = 2" and "decodes S s"
  shows "read_string S k (b @ rest) = Inr (s, rest)"
proof -
  have b: "b = be_bytes k (int (length (utf8_encode s))) @ utf8_encode s"
    and len: "int (length (utf8_encode s)) < 256 ^ k"
    using assms(1,2) by (auto simp: push_string_def Let_def split: if_splits)
  show ?thesis
    using assms(3) len by (simp add: b read_string_def read_bind_def read_uint_be decodes_def)
qed

lemma read_pushed_optional:
  assumes "push_optional_string s 2 = Inr b" and "s \<noteq> Some []"
    and "\<And>t. s = Some t \<Longrightarrow> decodes S t"
  shows "read_optional_string S 2 (b @ rest) = Inr (s, rest)"
proof (cases s)
  case None
  with assms(1) read_uint_byte [of 0 rest] show ?thesis
    by (auto simp: push_optional_string_def read_optional_string_def read_bind_def)
next
  case (Some t)
  then obtain c where c: "push_string 2 t = Inr c" "b = 1 # c"
    using assms(1,2) by (auto simp: push_optional_string_def split: sum.splits)
  with Some read_pushed_string [OF c(1) _ assms(3) [OF Some]] read_uint_byte [of 1 "c @ rest"]
  show ?thesis by (simp add: read_optional_string_def read_bind_def)
qed

lemma concat_parts_Cons:
  "concat_parts (p # ps) = Inr bs \<longleftrightarrow> (\<exists>b rest. p = Inr b \<and> concat_parts ps = Inr rest \<and> bs = b @ rest)"
  by (cases p) (auto split: sum.splits)

lemma number_of_uint64_exact: "x < 2 ^ 53 \<Longrightarrow> number_of_uint64 x = x"
  by (simp add: number_of_uint64_def)

text \<open>
  The payloads for which decoding is exact: one-byte fields in a byte, times
  nonnegative safe integers, no empty device, and texts that TextDecoder reads back.
\<close>

definition encodable :: "subtle \<Rightarrow> capability_payload \<Rightarrow> bool" where
  "encodable S p \<longleftrightarrow> 0 \<le> cp_version p \<and> cp_version p < 256 \<and> 0 \<le> cp_assurance p \<and> cp_assurance p < 256
     \<and> 0 \<le> cp_iat p \<and> cp_iat p < 2 ^ 53 \<and> 0 \<le> cp_exp p \<and> cp_exp p < 2 ^ 53
     \<and> cp_device_id p \<noteq> Some []
     \<and> list_all (decodes S) ([cp_issuer p, cp_audience p, cp_user_id p, cp_resource_id p,
          cp_operation p, cp_secret_ref p, cp_jti p] @ (case cp_device_id p of None \<Rightarrow> [] | Some d \<Rightarrow> [d]))"

lemma encoded_parts:
  assumes "encode_capability_payload p = Inr bs"
  obtains i a u r ope sec dev j where
    "push_string 1 (cp_issuer p) = Inr i" "push_string 1 (cp_audience p) = Inr a"
    "push_string 2 (cp_user_id p) = Inr u" "push_string 2 (cp_resource_id p) = Inr r"
    "push_string 1 (cp_operation p) = Inr ope" "push_string 2 (cp_secret_ref p) = Inr sec"
    "push_optional_string (cp_device_id p) 2 = Inr dev" "push_string 1 (cp_jti p) = Inr j"
    "bs = of_int (cp_version p) # i @ a @ u @ r @ ope @ sec @ dev @ of_int (cp_assurance p)
        # be_bytes 8 (cp_iat p) @ be_bytes 8 (cp_exp p) @ j @ []"
  using assms unfolding encode_capability_payload_def concat_parts_Cons by auto

lemma decode_encoded:
  assumes "encode_capability_payload p = Inr bs" and "encodable S p"
  shows "decode_capability_payload S bs = Inr p"
proof -
  from assms(1) obtain i a u r ope sec dev j where
    parts: "push_string 1 (cp_issuer p) = Inr i" "push_string 1 (cp_audience p) = Inr a"
      "push_string 2 (cp_user_id p) = Inr u" "push_string 2 (cp_resource_id p) = Inr r"
      "push_string 1 (cp_operation p) = Inr ope" "push_string 2 (cp_secret_ref p) = Inr sec"
      "push_optional_string (cp_device_id p) 2 = Inr dev" "push_string 1 (cp_jti p) = Inr j"
    and bs: "bs = of_int (cp_version p) # i @ a @ u @ r @ ope @ sec @ dev @ of_int (cp_assurance p)
        # be_bytes 8 (cp_iat p) @ be_bytes 8 (cp_exp p) @ j @ []"
    by (rule encoded_parts)
  have d: "decodes S (cp_issuer p)" "decodes S (cp_audience p)" "decodes S (cp_user_id p)"
    "decodes S (cp_resource_id p)" "decodes S (cp_operation p)" "decodes S (cp_secret_ref p)"
    "decodes S (cp_jti p)" "\<And>t. cp_device_id p = Some t \<Longrightarrow> decodes S t"
    using assms(2) by (auto simp: encodable_def)
  note rd = read_pushed_string [OF parts(1) _ d(1)] read_pushed_string [OF parts(2) _ d(2)]
    read_pushed_string [OF parts(3) _ d(3)] read_pushed_string [OF parts(4) _ d(4)]
    read_pushed_string [OF parts(5) _ d(5)] read_pushed_string [OF parts(6) _ d(6)]
    read_pushed_string [OF parts(8) _ d(7)]
  have w: "0 \<le> cp_version p" "cp_version p < 256" "0 \<le> cp_assurance p" "cp_assurance p < 256"
    "0 \<le> cp_iat p" "cp_iat p < 2 ^ 53" "0 \<le> cp_exp p" "cp_exp p < 2 ^ 53"
    and dev: "cp_device_id p \<noteq> Some []"
    using assms(2) by (simp_all add: encodable_def)
  have w64: "cp_iat p < 256 ^ 8" "cp_exp p < 256 ^ 8" using w by simp_all
  note n = read_uint_byte [OF w(1,2)] read_uint_byte [OF w(3,4)] read_uint_be [OF w(5) w64(1)]
    read_uint_be [OF w(7) w64(2)] number_of_uint64_exact [OF w(6)] number_of_uint64_exact [OF w(8)]
  show ?thesis
    unfolding decode_capability_payload_def bs
    by (simp only: read_bind_def rd n read_pushed_optional [OF parts(7) dev d(8)] append_Cons
          sum.case prod.case simp_thms) simp
qed

lemma encode_exp_mod:
  assumes "e mod 2 ^ 64 = cp_exp p mod 2 ^ 64"
  shows "encode_capability_payload (p\<lparr> cp_exp := e \<rparr>) = encode_capability_payload p"
proof -
  have "(256::int) ^ 8 = 2 ^ 64" by simp
  then have "be_bytes 8 e = be_bytes 8 (cp_exp p)"
    using assms by (simp only: be_bytes_eq_iff)
  then show ?thesis by (simp add: encode_capability_payload_def)
qed

subsection \<open>The signed bytes determine what they grant\<close>

text \<open>
  Texts count as the same when UTF-8 makes them the same bytes: it merges lone surrogates
  only.  The fields of fixed width are known modulo their width.
\<close>

definition same_text :: "jstr \<Rightarrow> jstr \<Rightarrow> bool" where
  "same_text s t \<longleftrightarrow> utf8_encode s = utf8_encode t"

definition device_text :: "jstr option \<Rightarrow> jstr" where
  "device_text d = (case d of None \<Rightarrow> [] | Some t \<Rightarrow> t)"

definition same_grant :: "capability_payload \<Rightarrow> capability_payload \<Rightarrow> bool" where
  "same_grant p q \<longleftrightarrow> same_text (cp_issuer p) (cp_issuer q) \<and> same_text (cp_audience p) (cp_audience q)
     \<and> same_text (cp_user_id p) (cp_user_id q) \<and> same_text (cp_resource_id p) (cp_resource_id q)
     \<and> same_text (cp_operation p) (cp_operation q) \<and> same_text (cp_secret_ref p) (cp_secret_ref q)
     \<and> same_text (device_text (cp_device_id p)) (device_text (cp_device_id q))
     \<and> same_text (cp_jti p) (cp_jti q) \<and> cp_assurance p mod 256 = cp_assurance q mod 256
     \<and> cp_iat p mod 2 ^ 64 = cp_iat q mod 2 ^ 64 \<and> cp_exp p mod 2 ^ 64 = cp_exp q mod 2 ^ 64"

text \<open>A text with its length in front can be cut off in one way only.\<close>

lemma pushed_string_cut:
  assumes "push_string k s = Inr b" "push_string k t = Inr c" "b @ x = c @ y" "k = 1 \<or> k = 2"
  shows "same_text s t \<and> x = y"
proof -
  have b: "b = be_bytes k (int (length (utf8_encode s))) @ utf8_encode s" "int (length (utf8_encode s)) < 256 ^ k"
    and c: "c = be_bytes k (int (length (utf8_encode t))) @ utf8_encode t" "int (length (utf8_encode t)) < 256 ^ k"
    using assms(1,2,4) by (auto simp: push_string_def Let_def split: if_splits)
  have "be_bytes k (int (length (utf8_encode s))) = be_bytes k (int (length (utf8_encode t)))"
    and e: "utf8_encode s @ x = utf8_encode t @ y"
    using assms(3) by (simp_all add: b(1) c(1))
  then have "length (utf8_encode s) = length (utf8_encode t)" using b(2) c(2) by (simp add: be_bytes_eq_iff)
  then show ?thesis using e by (simp add: same_text_def)
qed

lemma pushed_optional_cut:
  assumes "push_optional_string d 2 = Inr b" "push_optional_string e 2 = Inr c" "b @ x = c @ y"
  shows "same_text (device_text d) (device_text e) \<and> x = y"
proof -
  have cut: "(device_text d = [] \<and> b = [0]) \<or> (\<exists>b'. push_string 2 (device_text d) = Inr b' \<and> b = 1 # b')"
    if "push_optional_string d 2 = Inr b" for d b
    using that by (auto simp: push_optional_string_def device_text_def split: option.splits if_splits sum.splits)
  from cut [OF assms(1)] cut [OF assms(2)] show ?thesis
  proof (elim disjE exE conjE)
    fix b' c' assume "push_string 2 (device_text d) = Inr b'" "b = 1 # b'" "push_string 2 (device_text e) = Inr c'" "c = 1 # c'"
    then show ?thesis using assms(3) by (intro pushed_string_cut [of 2 _ b' _ c']) simp_all
  qed (use assms(3) in \<open>simp_all add: same_text_def\<close>)
qed

lemma fixed_width_cut: "be_bytes k i @ x = be_bytes k j @ y \<Longrightarrow> i mod 256 ^ k = j mod 256 ^ k \<and> x = y"
  by (simp add: be_bytes_eq_iff)

lemma byte_cut: "(of_int i :: 8 word) # x = of_int j # y \<Longrightarrow> i mod 256 = j mod 256 \<and> x = y"
  using fixed_width_cut [of 1 i x j y] by simp

lemma encoding_determines:
  assumes "encode_capability_payload p = Inr bs" "encode_capability_payload q = Inr bs"
  shows "same_grant p q"
proof -
  from assms(1) obtain i a u r ope sec dev j where p: "push_string 1 (cp_issuer p) = Inr i" "push_string 1 (cp_audience p) = Inr a"
      "push_string 2 (cp_user_id p) = Inr u" "push_string 2 (cp_resource_id p) = Inr r" "push_string 1 (cp_operation p) = Inr ope"
      "push_string 2 (cp_secret_ref p) = Inr sec" "push_optional_string (cp_device_id p) 2 = Inr dev" "push_string 1 (cp_jti p) = Inr j"
      "bs = of_int (cp_version p) # i @ a @ u @ r @ ope @ sec @ dev @ of_int (cp_assurance p)
        # be_bytes 8 (cp_iat p) @ be_bytes 8 (cp_exp p) @ j @ []" by (rule encoded_parts)
  from assms(2) obtain i' a' u' r' ope' sec' dev' j' where q: "push_string 1 (cp_issuer q) = Inr i'" "push_string 1 (cp_audience q) = Inr a'"
      "push_string 2 (cp_user_id q) = Inr u'" "push_string 2 (cp_resource_id q) = Inr r'" "push_string 1 (cp_operation q) = Inr ope'"
      "push_string 2 (cp_secret_ref q) = Inr sec'" "push_optional_string (cp_device_id q) 2 = Inr dev'" "push_string 1 (cp_jti q) = Inr j'"
      "bs = of_int (cp_version q) # i' @ a' @ u' @ r' @ ope' @ sec' @ dev' @ of_int (cp_assurance q)
        # be_bytes 8 (cp_iat q) @ be_bytes 8 (cp_exp q) @ j' @ []" by (rule encoded_parts)
  note v = byte_cut [OF trans [OF p(9) [symmetric] q(9)]]
  note 1 = pushed_string_cut [OF p(1) q(1) conjunct2 [OF v]]
  note 2 = pushed_string_cut [OF p(2) q(2) conjunct2 [OF 1 [simplified]]]
  note 3 = pushed_string_cut [OF p(3) q(3) conjunct2 [OF 2 [simplified]]]
  note 4 = pushed_string_cut [OF p(4) q(4) conjunct2 [OF 3 [simplified]]]
  note 5 = pushed_string_cut [OF p(5) q(5) conjunct2 [OF 4 [simplified]]]
  note 6 = pushed_string_cut [OF p(6) q(6) conjunct2 [OF 5 [simplified]]]
  note 7 = pushed_optional_cut [OF p(7) q(7) conjunct2 [OF 6 [simplified]]]
  note 8 = byte_cut [OF conjunct2 [OF 7]]
  note 9 = fixed_width_cut [OF conjunct2 [OF 8]]
  note 10 = fixed_width_cut [OF conjunct2 [OF 9]]
  note 11 = pushed_string_cut [OF p(8) q(8), of "[]" "[]"]
  have w: "(256 :: int) ^ 8 = 2 ^ 64" by simp
  show ?thesis unfolding same_grant_def
    using 1 2 3 4 5 6 7 8 9 [unfolded w] 10 [unfolded w] 11 by simp
qed

subsection \<open>What a valid capability satisfies\<close>

definition capability_acceptable ::
  "curve \<Rightarrow> int \<Rightarrow> signed_capability \<Rightarrow> bytes \<Rightarrow> bool" where
  "capability_acceptable C now tk public_key \<longleftrightarrow>
     (let p = sg_payload tk in
      (\<exists>encoded sig. encode_capability_payload p = Inr encoded
         \<and> base64_to_binary (sg_signature tk) = Some sig
         \<and> ed_verify C sig encoded public_key = Inr True)
      \<and> now \<le> cp_exp p \<and> cp_iat p \<le> now + 60
      \<and> cp_issuer p = lit ''cybervault-plus'' \<and> cp_audience p = lit ''cybervault-core''
      \<and> cp_operation p \<in> set capability_operations
      \<and> 1 \<le> cp_assurance p \<and> cp_assurance p \<le> 3 \<and> cp_version p = capability_version)"

definition capability_bound :: "capability_payload \<Rightarrow> capability_binding_context \<Rightarrow> bool" where
  "capability_bound p x \<longleftrightarrow> cb_user_id x \<noteq> [] \<and> cb_resource_id x \<noteq> [] \<and> cb_secret_ref x \<noteq> []
     \<and> cp_user_id p = cb_user_id x \<and> cp_resource_id p = cb_resource_id x
     \<and> cp_secret_ref p = cb_secret_ref x
     \<and> (case cp_device_id p of None \<Rightarrow> [] | Some d \<Rightarrow> d) = cb_device_id x"

lemma verify_bindings_valid_iff: "verify_capability_bindings p x = Valid \<longleftrightarrow> capability_bound p x"
  by (auto simp: verify_capability_bindings_def capability_bound_def)

lemma verify_capability_valid_iff:
  "verify_capability C now tk pk expected = Valid \<longleftrightarrow>
     capability_acceptable C now tk pk
     \<and> (case expected of None \<Rightarrow> True | Some x \<Rightarrow> capability_bound (sg_payload tk) x)"
  by (auto simp: verify_capability_def capability_acceptable_def Let_def verify_bindings_valid_iff
        split: sum.splits option.splits if_splits)

section \<open>The issuer\<close>

text \<open>
  The capability issuer: plus/domain/services/capability-issuer.ts.  The context a
  request carries is attached to the payload object but is no field of the signed
  encoding, and is kept beside it here.  Times to live are integral seconds.
\<close>

record issue_context =
  ic_risk_score :: "int option"
  ic_risk_reasons :: "jstr list option"
  ic_challenge_id :: "jstr option"

record issue_request =
  ir_user_id :: jstr
  ir_resource_id :: jstr
  ir_operation :: jstr
  ir_secret_ref :: jstr
  ir_device_id :: "jstr option"
  ir_assurance :: int
  ir_ttl_seconds :: "int option"
  ir_context :: "issue_context option"

record capability_issuer =
  is_private_key :: bytes
  is_public_key :: bytes
  is_default_ttl :: int
  is_max_ttl :: int

definition new_capability_issuer ::
  "jstr \<Rightarrow> int option \<Rightarrow> int option \<Rightarrow> string + capability_issuer" where
  "new_capability_issuer key64 default_ttl max_ttl = (case load_ed25519_private_key key64 of
     Inl e \<Rightarrow> Inl e
   | Inr k \<Rightarrow> Inr \<lparr> is_private_key = k, is_public_key = drop 32 k,
       is_default_ttl = (case default_ttl of None \<Rightarrow> default_capability_ttl_seconds | Some t \<Rightarrow> t),
       is_max_ttl = (case max_ttl of None \<Rightarrow> max_capability_ttl_seconds | Some t \<Rightarrow> t) \<rparr>)"

record issued_capability =
  ok_token :: signed_capability
  ok_context :: "issue_context option"
  ok_expires_at :: int

text \<open>\<^verbatim>\<open>now\<close> in milliseconds; a thrown error is caught and becomes the error reported.\<close>

definition issue_capability ::
  "curve \<Rightarrow> capability_issuer \<Rightarrow> int \<Rightarrow> bytes \<Rightarrow> issue_request \<Rightarrow> string + issued_capability" where
  "issue_capability C I now jti_bytes r =
     (let ttl = (case ir_ttl_seconds r of None \<Rightarrow> is_default_ttl I | Some t \<Rightarrow> t) in
      if ttl > is_max_ttl I then Inl (''TTL exceeds maximum of '' @ map char_of (dec_int (is_max_ttl I)) @ '' seconds'')
      else if ttl < 60 then Inl ''TTL must be at least 60 seconds''
      else (case create_capability_payload (now div 1000) jti_bytes (ir_user_id r) (ir_resource_id r)
                   (ir_operation r) (ir_secret_ref r) (ir_device_id r) (ir_assurance r) (Some ttl) of
          Inl e \<Rightarrow> Inl e
        | Inr p \<Rightarrow> (case sign_capability C p (is_private_key I) of
            Inl e \<Rightarrow> Inl e
          | Inr tk \<Rightarrow>
              if verify_capability C (now div 1000) tk (is_public_key I) None \<noteq> Valid
              then Inl ''Internal error: capability signing verification failed''
              else Inr \<lparr> ok_token = tk, ok_context = ir_context r, ok_expires_at = cp_exp p * 1000 \<rparr>)))"

text \<open>\<^verbatim>\<open>verify\<close>: Inl what it throws on an unreadable key, else the verdict and the payload.\<close>

definition issuer_verify ::
  "curve \<Rightarrow> capability_issuer \<Rightarrow> int \<Rightarrow> signed_capability \<Rightarrow> jstr option \<Rightarrow> string + (string + capability_payload)" where
  "issuer_verify C I now tk key64 =
     (case (case key64 of None \<Rightarrow> Inr (is_public_key I)
            | Some k \<Rightarrow> if k = [] then Inr (is_public_key I) else load_ed25519_public_key k) of
        Inl e \<Rightarrow> Inl e
      | Inr pk \<Rightarrow> (case verify_capability C (now div 1000) tk pk None of
            Invalid e \<Rightarrow> Inr (Inl e) | Valid \<Rightarrow> Inr (Inr (sg_payload tk))))"

definition issuer_public_key :: "capability_issuer \<Rightarrow> jstr" where
  "issuer_public_key I = binary_to_base64 (is_public_key I)"

definition issue_step_up_capability ::
  "curve \<Rightarrow> capability_issuer \<Rightarrow> int \<Rightarrow> bytes \<Rightarrow> issue_request \<Rightarrow> jstr \<Rightarrow> string + issued_capability" where
  "issue_step_up_capability C I now jti_bytes r challenge_id = issue_capability C I now jti_bytes
     (r\<lparr> ir_assurance := 3, ir_context := Some \<lparr> ic_risk_score = None, ic_risk_reasons = None,
         ic_challenge_id = Some challenge_id \<rparr> \<rparr>)"

definition issue_risk_based_capability ::
  "curve \<Rightarrow> capability_issuer \<Rightarrow> int \<Rightarrow> bytes \<Rightarrow> issue_request \<Rightarrow> int \<Rightarrow> jstr list \<Rightarrow> string + issued_capability" where
  "issue_risk_based_capability C I now jti_bytes r score reasons = issue_capability C I now jti_bytes
     (r\<lparr> ir_assurance := 2, ir_context := Some \<lparr> ic_risk_score = Some score, ic_risk_reasons = Some reasons,
         ic_challenge_id = None \<rparr> \<rparr>)"

definition issue_direct_capability ::
  "curve \<Rightarrow> capability_issuer \<Rightarrow> int \<Rightarrow> bytes \<Rightarrow> issue_request \<Rightarrow> string + issued_capability" where
  "issue_direct_capability C I now jti_bytes r = issue_capability C I now jti_bytes
     (r\<lparr> ir_assurance := 1, ir_context := None \<rparr>)"

definition verify_capability_core ::
  "curve \<Rightarrow> int \<Rightarrow> signed_capability \<Rightarrow> jstr \<Rightarrow> string + (string + capability_payload)" where
  "verify_capability_core C now tk key64 = (case load_ed25519_public_key key64 of
     Inl e \<Rightarrow> Inl e
   | Inr pk \<Rightarrow> (case verify_capability C (now div 1000) tk pk None of
         Invalid e \<Rightarrow> Inr (Inl e) | Valid \<Rightarrow> Inr (Inr (sg_payload tk))))"

definition consume_capability_jti :: "jti_store \<Rightarrow> int \<Rightarrow> jstr \<Rightarrow> int \<Rightarrow> jti_verdict \<times> jti_store" where
  "consume_capability_jti st now jti ttl = verify_and_consume_jti st now jti ttl"

subsection \<open>What is issued\<close>

lemma create_payload_fields:
  assumes "create_capability_payload now jb u r op sec d a ttl = Inr p"
  shows "cp_user_id p = u" "cp_resource_id p = r" "cp_operation p = op" "cp_secret_ref p = sec"
    "cp_device_id p = d" "cp_assurance p = a" "cp_iat p = now" "cp_version p = capability_version"
    "cp_jti p = binary_to_base64 (take 16 jb)"
    "cp_exp p = now + (case ttl of None \<Rightarrow> default_capability_ttl_seconds | Some t \<Rightarrow> t)"
    "cp_exp p \<le> now + max_capability_ttl_seconds"
  using assms by (auto simp: create_capability_payload_def Let_def split: if_splits)

lemma sign_capability_payload: "sign_capability C p k = Inr tk \<Longrightarrow> sg_payload tk = p"
  by (auto simp: sign_capability_def split: sum.splits)

lemma issue_capability_result:
  assumes "issue_capability C I now jb r = Inr out"
  shows "\<exists>p ttl. create_capability_payload (now div 1000) jb (ir_user_id r) (ir_resource_id r)
        (ir_operation r) (ir_secret_ref r) (ir_device_id r) (ir_assurance r) (Some ttl) = Inr p
     \<and> sign_capability C p (is_private_key I) = Inr (ok_token out)
     \<and> capability_acceptable C (now div 1000) (ok_token out) (is_public_key I)
     \<and> 60 \<le> ttl \<and> ttl \<le> is_max_ttl I
     \<and> ttl = (case ir_ttl_seconds r of None \<Rightarrow> is_default_ttl I | Some t \<Rightarrow> t)
     \<and> ok_expires_at out = cp_exp p * 1000"
  using assms
  by (auto simp: issue_capability_def Let_def verify_capability_valid_iff split: sum.splits if_splits)

text \<open>
  A capability issued for a request is one that verification accepts from the issuer's
  public key during its whole life, and it carries what was asked for.
\<close>

lemma issued_acceptable_until_expiry:
  assumes "issue_capability C I now jb r = Inr out" and "now div 1000 \<le> t" and "t \<le> cp_exp (sg_payload (ok_token out))"
  shows "capability_acceptable C t (ok_token out) (is_public_key I)"
proof -
  obtain p ttl where
    p: "create_capability_payload (now div 1000) jb (ir_user_id r) (ir_resource_id r)
        (ir_operation r) (ir_secret_ref r) (ir_device_id r) (ir_assurance r) (Some ttl) = Inr p"
    and s: "sign_capability C p (is_private_key I) = Inr (ok_token out)"
    and a: "capability_acceptable C (now div 1000) (ok_token out) (is_public_key I)"
    using issue_capability_result [OF assms(1)] by blast
  have "cp_iat (sg_payload (ok_token out)) = now div 1000"
    using create_payload_fields [OF p] sign_capability_payload [OF s] by simp
  then show ?thesis using a assms(2,3) by (simp add: capability_acceptable_def Let_def)
qed

lemma issue_fields:
  assumes "issue_capability C I now jb r = Inr out"
  shows "cp_user_id (sg_payload (ok_token out)) = ir_user_id r"
    "cp_resource_id (sg_payload (ok_token out)) = ir_resource_id r"
    "cp_operation (sg_payload (ok_token out)) = ir_operation r"
    "cp_secret_ref (sg_payload (ok_token out)) = ir_secret_ref r"
    "cp_device_id (sg_payload (ok_token out)) = ir_device_id r"
    "cp_assurance (sg_payload (ok_token out)) = ir_assurance r"
    "cp_iat (sg_payload (ok_token out)) = now div 1000"
    "cp_iat (sg_payload (ok_token out)) + 60 \<le> cp_exp (sg_payload (ok_token out))"
    "cp_exp (sg_payload (ok_token out)) \<le> cp_iat (sg_payload (ok_token out)) + is_max_ttl I"
    "ok_expires_at out = cp_exp (sg_payload (ok_token out)) * 1000"
proof -
  obtain p ttl where
    p: "create_capability_payload (now div 1000) jb (ir_user_id r) (ir_resource_id r)
        (ir_operation r) (ir_secret_ref r) (ir_device_id r) (ir_assurance r) (Some ttl) = Inr p"
    and s: "sign_capability C p (is_private_key I) = Inr (ok_token out)"
    and t: "60 \<le> ttl" "ttl \<le> is_max_ttl I" and e: "ok_expires_at out = cp_exp p * 1000"
    using issue_capability_result [OF assms] by blast
  show "cp_user_id (sg_payload (ok_token out)) = ir_user_id r"
    "cp_resource_id (sg_payload (ok_token out)) = ir_resource_id r"
    "cp_operation (sg_payload (ok_token out)) = ir_operation r"
    "cp_secret_ref (sg_payload (ok_token out)) = ir_secret_ref r"
    "cp_device_id (sg_payload (ok_token out)) = ir_device_id r"
    "cp_assurance (sg_payload (ok_token out)) = ir_assurance r"
    "cp_iat (sg_payload (ok_token out)) = now div 1000"
    "cp_iat (sg_payload (ok_token out)) + 60 \<le> cp_exp (sg_payload (ok_token out))"
    "cp_exp (sg_payload (ok_token out)) \<le> cp_iat (sg_payload (ok_token out)) + is_max_ttl I"
    "ok_expires_at out = cp_exp (sg_payload (ok_token out)) * 1000"
    using create_payload_fields [OF p] sign_capability_payload [OF s] t e by simp_all
qed

end
