(* ===== verification/Credential_Entity.thy ===== *)
theory Credential_Entity
  imports Key_Derivation
begin

text \<open>
  The credential entity: src/src/domain/entities/credential.ts.  A date is its
  time value in milliseconds; the ISO text of a date (\<^verbatim>\<open>toISOString\<close>, \<^verbatim>\<open>new Date(s)\<close>) is
  the platform's, the record \<^verbatim>\<open>dates\<close>.  A method that mutates the entity returns it
  updated, given the clock where it reads one.
\<close>

record dates =
  to_iso :: "int \<Rightarrow> jstr"
  of_iso :: "jstr \<Rightarrow> int"

record credential =
  cr_id :: jstr
  cr_vault_id :: jstr
  cr_title :: jstr
  cr_username :: jstr
  cr_encrypted_password :: jstr
  cr_mode :: entry_mode
  cr_salt :: jstr
  cr_version :: int
  cr_release_share_ref :: "jstr option"
  cr_url :: "jstr option"
  cr_notes :: "jstr option"
  cr_tags :: "jstr list"
  cr_favorite :: bool
  cr_created_at :: int
  cr_updated_at :: int
  cr_last_used :: "int option"
  cr_lock_version :: "int option"

definition is_personal :: "credential \<Rightarrow> bool" where
  "is_personal c \<longleftrightarrow> cr_mode c = Personal"

definition is_managed :: "credential \<Rightarrow> bool" where
  "is_managed c \<longleftrightarrow> cr_mode c = Managed"

definition update_password :: "int \<Rightarrow> jstr \<Rightarrow> credential \<Rightarrow> credential" where
  "update_password now x c = c\<lparr> cr_encrypted_password := x, cr_updated_at := now \<rparr>"

definition update_title :: "int \<Rightarrow> jstr \<Rightarrow> credential \<Rightarrow> credential" where
  "update_title now x c = c\<lparr> cr_title := x, cr_updated_at := now \<rparr>"

definition update_username :: "int \<Rightarrow> jstr \<Rightarrow> credential \<Rightarrow> credential" where
  "update_username now x c = c\<lparr> cr_username := x, cr_updated_at := now \<rparr>"

definition update_url :: "int \<Rightarrow> jstr option \<Rightarrow> credential \<Rightarrow> credential" where
  "update_url now x c = c\<lparr> cr_url := x, cr_updated_at := now \<rparr>"

definition update_notes :: "int \<Rightarrow> jstr option \<Rightarrow> credential \<Rightarrow> credential" where
  "update_notes now x c = c\<lparr> cr_notes := x, cr_updated_at := now \<rparr>"

definition toggle_favorite :: "int \<Rightarrow> credential \<Rightarrow> credential" where
  "toggle_favorite now c = c\<lparr> cr_favorite := \<not> cr_favorite c, cr_updated_at := now \<rparr>"

definition add_tag :: "int \<Rightarrow> jstr \<Rightarrow> credential \<Rightarrow> credential" where
  "add_tag now tag c =
     (if tag \<notin> set (cr_tags c) then c\<lparr> cr_tags := cr_tags c @ [tag], cr_updated_at := now \<rparr> else c)"

text \<open>splice at the first index of the tag.\<close>

definition remove_tag :: "int \<Rightarrow> jstr \<Rightarrow> credential \<Rightarrow> credential" where
  "remove_tag now tag c =
     (if tag \<in> set (cr_tags c) then c\<lparr> cr_tags := remove1 tag (cr_tags c), cr_updated_at := now \<rparr> else c)"

definition set_tags :: "int \<Rightarrow> jstr list \<Rightarrow> credential \<Rightarrow> credential" where
  "set_tags now tags c = c\<lparr> cr_tags := tags, cr_updated_at := now \<rparr>"

definition mark_as_used :: "int \<Rightarrow> credential \<Rightarrow> credential" where
  "mark_as_used now c = c\<lparr> cr_last_used := Some now \<rparr>"

definition increment_version :: "int \<Rightarrow> credential \<Rightarrow> credential" where
  "increment_version now c = c\<lparr> cr_version := cr_version c + 1, cr_updated_at := now \<rparr>"

record credential_create_input =
  ci_vault_id :: jstr
  ci_title :: jstr
  ci_username :: jstr
  ci_encrypted_password :: jstr
  ci_mode :: entry_mode
  ci_salt :: jstr
  ci_version :: "int option"
  ci_release_share_ref :: "jstr option"
  ci_url :: "jstr option"
  ci_notes :: "jstr option"
  ci_tags :: "jstr list option"
  ci_favorite :: "bool option"

definition create_personal :: "jstr \<Rightarrow> int \<Rightarrow> credential_create_input \<Rightarrow> credential" where
  "create_personal new_id now i =
     \<lparr> cr_id = new_id, cr_vault_id = ci_vault_id i, cr_title = ci_title i, cr_username = ci_username i,
       cr_encrypted_password = ci_encrypted_password i, cr_mode = Personal, cr_salt = ci_salt i,
       cr_version = (case ci_version i of None \<Rightarrow> 1 | Some v \<Rightarrow> v), cr_release_share_ref = None,
       cr_url = ci_url i, cr_notes = ci_notes i,
       cr_tags = (case ci_tags i of None \<Rightarrow> [] | Some ts \<Rightarrow> ts),
       cr_favorite = (case ci_favorite i of None \<Rightarrow> False | Some f \<Rightarrow> f),
       cr_created_at = now, cr_updated_at = now, cr_last_used = None, cr_lock_version = None \<rparr>"

definition create_managed :: "jstr \<Rightarrow> int \<Rightarrow> credential_create_input \<Rightarrow> credential" where
  "create_managed new_id now i =
     \<lparr> cr_id = new_id, cr_vault_id = ci_vault_id i, cr_title = ci_title i, cr_username = ci_username i,
       cr_encrypted_password = ci_encrypted_password i, cr_mode = Managed, cr_salt = ci_salt i,
       cr_version = (case ci_version i of None \<Rightarrow> 1 | Some v \<Rightarrow> v),
       cr_release_share_ref = ci_release_share_ref i,
       cr_url = ci_url i, cr_notes = ci_notes i,
       cr_tags = (case ci_tags i of None \<Rightarrow> [] | Some ts \<Rightarrow> ts),
       cr_favorite = (case ci_favorite i of None \<Rightarrow> False | Some f \<Rightarrow> f),
       cr_created_at = now, cr_updated_at = now, cr_last_used = None, cr_lock_version = None \<rparr>"

definition create_credential :: "jstr \<Rightarrow> int \<Rightarrow> credential_create_input \<Rightarrow> credential" where
  "create_credential new_id now i =
     (if ci_mode i = Personal then create_personal new_id now i else create_managed new_id now i)"

record plain_credential =
  pl_id :: jstr
  pl_vault_id :: jstr
  pl_title :: jstr
  pl_username :: jstr
  pl_encrypted_password :: jstr
  pl_mode :: entry_mode
  pl_salt :: jstr
  pl_version :: int
  pl_release_share_ref :: "jstr option"
  pl_url :: "jstr option"
  pl_notes :: "jstr option"
  pl_tags :: "jstr list"
  pl_favorite :: bool
  pl_created_at :: jstr
  pl_updated_at :: jstr
  pl_last_used :: "jstr option"
  pl_lock_version :: "int option"

text \<open>An empty identifier throws (DomainId); the text of a BIGINT column is its number.\<close>

definition from_plain_object :: "dates \<Rightarrow> plain_credential \<Rightarrow> string + credential" where
  "from_plain_object T o' =
     (if pl_id o' = [] \<or> pl_vault_id o' = [] then Inl ''DomainId value must not be empty''
      else Inr \<lparr> cr_id = pl_id o', cr_vault_id = pl_vault_id o', cr_title = pl_title o',
             cr_username = pl_username o', cr_encrypted_password = pl_encrypted_password o',
             cr_mode = pl_mode o', cr_salt = pl_salt o', cr_version = pl_version o',
             cr_release_share_ref = pl_release_share_ref o', cr_url = pl_url o', cr_notes = pl_notes o',
             cr_tags = pl_tags o', cr_favorite = pl_favorite o',
             cr_created_at = of_iso T (pl_created_at o'), cr_updated_at = of_iso T (pl_updated_at o'),
             cr_last_used = (case pl_last_used o' of None \<Rightarrow> None
               | Some s \<Rightarrow> if s = [] then None else Some (of_iso T s)),
             cr_lock_version = pl_lock_version o' \<rparr>)"

definition to_plain_object :: "dates \<Rightarrow> credential \<Rightarrow> plain_credential" where
  "to_plain_object T c =
     \<lparr> pl_id = cr_id c, pl_vault_id = cr_vault_id c, pl_title = cr_title c, pl_username = cr_username c,
       pl_encrypted_password = cr_encrypted_password c, pl_mode = cr_mode c, pl_salt = cr_salt c,
       pl_version = cr_version c, pl_release_share_ref = cr_release_share_ref c,
       pl_url = cr_url c, pl_notes = cr_notes c, pl_tags = cr_tags c, pl_favorite = cr_favorite c,
       pl_created_at = to_iso T (cr_created_at c), pl_updated_at = to_iso T (cr_updated_at c),
       pl_last_used = map_option (to_iso T) (cr_last_used c), pl_lock_version = cr_lock_version c \<rparr>"

record safe_credential =
  sf_id :: jstr
  sf_vault_id :: jstr
  sf_title :: jstr
  sf_username :: jstr
  sf_mode :: entry_mode
  sf_version :: int
  sf_has_release_share_ref :: bool
  sf_url :: "jstr option"
  sf_notes :: "jstr option"
  sf_tags :: "jstr list"
  sf_favorite :: bool
  sf_created_at :: jstr
  sf_updated_at :: jstr
  sf_last_used :: "jstr option"
  sf_lock_version :: "int option"

definition to_safe_object :: "dates \<Rightarrow> credential \<Rightarrow> safe_credential" where
  "to_safe_object T c =
     \<lparr> sf_id = cr_id c, sf_vault_id = cr_vault_id c, sf_title = cr_title c, sf_username = cr_username c,
       sf_mode = cr_mode c, sf_version = cr_version c,
       sf_has_release_share_ref = (cr_release_share_ref c \<noteq> None),
       sf_url = cr_url c, sf_notes = cr_notes c, sf_tags = cr_tags c, sf_favorite = cr_favorite c,
       sf_created_at = to_iso T (cr_created_at c), sf_updated_at = to_iso T (cr_updated_at c),
       sf_last_used = map_option (to_iso T) (cr_last_used c), sf_lock_version = cr_lock_version c \<rparr>"

subsection \<open>Serialization\<close>

definition dates_ok :: "dates \<Rightarrow> int \<Rightarrow> bool" where
  "dates_ok T t \<longleftrightarrow> of_iso T (to_iso T t) = t \<and> to_iso T t \<noteq> []"

lemma plain_round_trip:
  assumes "cr_id c \<noteq> []" and "cr_vault_id c \<noteq> []"
    and "dates_ok T (cr_created_at c)" and "dates_ok T (cr_updated_at c)"
    and "\<And>t. cr_last_used c = Some t \<Longrightarrow> dates_ok T t"
  shows "from_plain_object T (to_plain_object T c) = Inr c"
  using assms
  by (auto simp: from_plain_object_def to_plain_object_def dates_ok_def
        intro!: credential.equality split: option.split)

lemma safe_object_no_secret:
  assumes "c' = c\<lparr> cr_encrypted_password := e, cr_salt := s \<rparr>"
  shows "to_safe_object T c' = to_safe_object T c"
  using assms by (simp add: to_safe_object_def)

subsection \<open>Tags\<close>

lemma add_tag_distinct: "distinct (cr_tags c) \<Longrightarrow> distinct (cr_tags (add_tag now t c))"
  by (simp add: add_tag_def)

lemma remove_tag_distinct: "distinct (cr_tags c) \<Longrightarrow> distinct (cr_tags (remove_tag now t c))"
  by (simp add: remove_tag_def)

end
