(* ===== verification/Share_Store.thy ===== *)
theory Share_Store
  imports Prelude
begin

text \<open>The contracts of stores: release shares, and repositories of entities.\<close>

section \<open>Release shares\<close>

text \<open>
  The store of wrapped Release Shares: the port \<^verbatim>\<open>IReleaseShareStore\<close> of
  src/src/domain/repositories/index.ts and its in-memory implementation
  src/src/infrastructure/repositories/InMemoryReleaseShareStore.ts.  The use cases
  are written over the port, whose operations may throw (Inl the message); the
  interface \<^verbatim>\<open>share_store_laws\<close> is what they rely on.
\<close>

record wrapped_release_share =
  rs_secret_ref :: jstr
  rs_wrapped_share :: jstr
  rs_created_at :: int

record 's share_port =
  port_save :: "'s \<Rightarrow> wrapped_release_share \<Rightarrow> jstr + 's"
  port_find :: "'s \<Rightarrow> jstr \<Rightarrow> jstr + wrapped_release_share option"
  port_delete :: "'s \<Rightarrow> jstr \<Rightarrow> jstr + (bool \<times> 's)"

type_synonym share_entries = "(jstr \<times> wrapped_release_share) list"

text \<open>A JavaScript Map keeps insertion order; \<^verbatim>\<open>set\<close> on a present key keeps its place.\<close>

fun map_set :: "(jstr \<times> 'a) list \<Rightarrow> jstr \<Rightarrow> 'a \<Rightarrow> (jstr \<times> 'a) list" where
  "map_set [] k v = [(k, v)]"
| "map_set ((k', v') # kvs) k v = (if k' = k then (k, v) # kvs else (k', v') # map_set kvs k v)"

definition map_delete :: "(jstr \<times> 'a) list \<Rightarrow> jstr \<Rightarrow> (jstr \<times> 'a) list" where
  "map_delete kvs k = filter (\<lambda>kv. fst kv \<noteq> k) kvs"

lemma map_of_map_set: "map_of (map_set kvs k v) = (map_of kvs)(k \<mapsto> v)"
  by (induction kvs k v rule: map_set.induct) auto

lemma map_of_map_delete: "map_of (map_delete kvs k) = (map_of kvs)(k := None)"
  by (induction kvs) (auto simp: map_delete_def fun_eq_iff)

lemma distinct_map_set: "distinct (map fst kvs) \<Longrightarrow> distinct (map fst (map_set kvs k v))"
proof (induction kvs k v rule: map_set.induct)
  case (2 k' v' kvs k v)
  have "fst ` set (map_set kvs k v) = insert k (fst ` set kvs)"
    by (induction kvs k v rule: map_set.induct) auto
  with 2 show ?case by auto
qed simp

definition share_save :: "share_entries \<Rightarrow> wrapped_release_share \<Rightarrow> share_entries" where
  "share_save st e = map_set st (rs_secret_ref e)
     \<lparr> rs_secret_ref = rs_secret_ref e, rs_wrapped_share = rs_wrapped_share e,
       rs_created_at = rs_created_at e \<rparr>"

definition share_find :: "share_entries \<Rightarrow> jstr \<Rightarrow> wrapped_release_share option" where
  "share_find st r = map_of st r"

definition share_delete :: "share_entries \<Rightarrow> jstr \<Rightarrow> bool \<times> share_entries" where
  "share_delete st r = (map_of st r \<noteq> None, map_delete st r)"

definition share_snapshot :: "share_entries \<Rightarrow> wrapped_release_share list" where
  "share_snapshot st = map snd st"

definition in_memory_port :: "share_entries share_port" where
  "in_memory_port = \<lparr> port_save = (\<lambda>st e. Inr (share_save st e)),
     port_find = (\<lambda>st r. Inr (share_find st r)),
     port_delete = (\<lambda>st r. Inr (share_delete st r)) \<rparr>"

locale share_store_laws =
  fixes sp :: "'s share_port"
  assumes find_saved: "port_save sp st e = Inr st' \<Longrightarrow> port_find sp st' (rs_secret_ref e) = Inr (Some e)"
    and find_other: "port_save sp st e = Inr st' \<Longrightarrow> r \<noteq> rs_secret_ref e \<Longrightarrow> port_find sp st' r = port_find sp st r"
    and find_deleted: "port_delete sp st r = Inr (b, st') \<Longrightarrow> port_find sp st' r = Inr None"
    and find_undeleted: "port_delete sp st r = Inr (b, st') \<Longrightarrow> r' \<noteq> r \<Longrightarrow> port_find sp st' r' = port_find sp st r'"

interpretation mem: share_store_laws in_memory_port
  by unfold_locales
     (auto simp: in_memory_port_def share_save_def share_find_def share_delete_def
       map_of_map_set map_of_map_delete)

section \<open>Entities\<close>

text \<open>
  What the repositories of entities promise their clients, and the criteria their
  searches share.
\<close>

text \<open>A criterion that is absent or empty adds no condition.\<close>

definition criterion :: "jstr option \<Rightarrow> (jstr \<Rightarrow> bool) \<Rightarrow> bool" where
  "criterion c test \<longleftrightarrow> (case c of None \<Rightarrow> True | Some v \<Rightarrow> v = [] \<or> test v)"

datatype 'e table_op = Saving 'e | Removing jstr

locale entity_table =
  fixes save :: "'t \<Rightarrow> 'e \<Rightarrow> 'e option \<times> 't"
    and find_by :: "'t \<Rightarrow> jstr \<Rightarrow> 'e option option"
    and remove :: "'t \<Rightarrow> jstr \<Rightarrow> bool \<times> 't"
    and ident :: "'e \<Rightarrow> jstr"
    and wf :: "'t \<Rightarrow> bool"
  assumes save_wf: "wf t \<Longrightarrow> wf (snd (save t e))"
    and remove_wf: "wf t \<Longrightarrow> wf (snd (remove t i))"
    and save_found: "save t e = (Some e', t') \<Longrightarrow> find_by t' (ident e) = Some (Some e')"
    and save_fails: "save t e = (None, t') \<Longrightarrow> t' = t"
    and save_other: "i \<noteq> ident e \<Longrightarrow> find_by (snd (save t e)) i = find_by t i"
    and remove_found: "wf t \<Longrightarrow> find_by (snd (remove t i)) i = Some None"
    and remove_other: "i \<noteq> j \<Longrightarrow> find_by (snd (remove t j)) i = find_by t i"
begin

fun run_ops :: "'e table_op list \<Rightarrow> 't \<Rightarrow> 't" where
  "run_ops [] t = t"
| "run_ops (Saving e # ops) t = run_ops ops (snd (save t e))"
| "run_ops (Removing i # ops) t = run_ops ops (snd (remove t i))"

fun touches :: "jstr \<Rightarrow> 'e table_op \<Rightarrow> bool" where
  "touches i (Saving e) = (ident e = i)"
| "touches i (Removing j) = (j = i)"

lemma untouched_entity: "\<forall>x \<in> set ops. \<not> touches i x \<Longrightarrow> find_by (run_ops ops t) i = find_by t i"
  by (induction ops t rule: run_ops.induct) (auto simp: save_other remove_other)

text \<open>What was saved is found until its identifier is saved or removed again.\<close>

lemma saved_stays:
  "save t e = (Some e', t') \<Longrightarrow> \<forall>x \<in> set ops. \<not> touches (ident e) x \<Longrightarrow> find_by (run_ops ops t') (ident e) = Some (Some e')"
  using untouched_entity save_found by metis

lemma run_wf: "wf t \<Longrightarrow> wf (run_ops ops t)"
  by (induction ops t rule: run_ops.induct) (auto simp: save_wf remove_wf)

lemma removed_stays:
  "wf t \<Longrightarrow> \<forall>x \<in> set ops. \<not> touches i x \<Longrightarrow> find_by (run_ops ops (snd (remove t i))) i = Some None"
  by (simp add: untouched_entity remove_found)

end

end
