(* ===== verification/Managed_Authoring.thy ===== *)
theory Managed_Authoring
  imports Release_Share_Kek Share_Store
begin

text \<open>
  Server-side authoring of a managed credential:
  src/src/application/use-cases/managed-authoring.use-case.ts.  The use case is
  written over the share store port of the theory Share_Store.  It zeroes
  private buffers only, so its result does not depend on that.
\<close>

datatype managed_authoring_rejection =
    M_ORIGIN_MISSING | M_ORIGIN_NOT_ABSOLUTE | M_ORIGIN_SCHEME_NOT_ALLOWED | M_USERNAME_REQUIRED
  | M_PASSWORD_REQUIRED | M_TITLE_REQUIRED | SECRET_REF_REQUIRED | VEK_MISSING | TOTP_SEED_INVALID
  | RELEASE_SHARE_KEK_INVALID | RELEASE_SHARE_PERSIST_FAILED | INTERNAL_ERROR

type_synonym managed_rejection = "managed_authoring_rejection \<times> jstr"

record managed_authoring_input =
  mi_origin :: "jstr option"
  mi_username :: "jstr option"
  mi_password :: jstr
  mi_title :: "jstr option"
  mi_totp_seed_base32 :: "jstr option"
  mi_vek :: "bytes option"
  mi_secret_ref :: "jstr option"
  mi_existing_index :: "opaque_index option"
  mi_id :: "jstr option"

record managed_random =
  mr_share :: bytes
  mr_salt :: bytes
  mr_id :: jstr
  mr_iv_secret :: bytes
  mr_iv_totp :: bytes
  mr_iv_wrap :: bytes

definition validate_managed_origin :: "web \<Rightarrow> jstr option \<Rightarrow> managed_rejection + jstr" where
  "validate_managed_origin W orig = (case orig of
     None \<Rightarrow> Inl (M_ORIGIN_MISSING, lit ''an origin is required'')
   | Some s \<Rightarrow>
      (let trimmed = trim s in
       if trimmed = [] then Inl (M_ORIGIN_MISSING, lit ''an origin is required'')
       else if \<not> absolute_prefix trimmed then
         Inl (M_ORIGIN_NOT_ABSOLUTE, lit ''origin must be absolute (scheme://host[:port]); got ''
                @ [34] @ trimmed @ [34])
       else case parse_absolute_origin W trimmed of
         Inl r \<Rightarrow> Inl (if r = UNSUPPORTED_SCHEME then M_ORIGIN_SCHEME_NOT_ALLOWED else M_ORIGIN_NOT_ABSOLUTE,
                   lit ''origin rejected ('' @ failure_name r @ lit '')'')
       | Inr c \<Rightarrow> Inr (serialized c)))"

record managed_fields =
  mf_username :: jstr
  mf_title :: jstr
  mf_secret_ref :: jstr
  mf_vek :: bytes

definition validate_managed_fields :: "managed_authoring_input \<Rightarrow> managed_rejection + managed_fields" where
  "validate_managed_fields input =
     (let username = effective_username (mi_username input) in
      if username = [] then Inl (M_USERNAME_REQUIRED, lit ''a username is required'')
      else if mi_password input = [] then Inl (M_PASSWORD_REQUIRED, lit ''a password is required'')
      else let title = effective_title (mi_title input) username in
      if title = [] then Inl (M_TITLE_REQUIRED, lit ''a title is required'')
      else let secret_ref = effective_username (mi_secret_ref input) in
      if secret_ref = [] then
        Inl (SECRET_REF_REQUIRED, lit ''a fresh opaque Release Share reference is required'')
      else (case mi_vek input of
          None \<Rightarrow> Inl (VEK_MISSING, lit ''vault is locked: no VEK supplied'')
        | Some vek \<Rightarrow>
            if length vek = 0 then Inl (VEK_MISSING, lit ''vault is locked: no VEK supplied'')
            else Inr \<lparr> mf_username = username, mf_title = title, mf_secret_ref = secret_ref,
                       mf_vek = vek \<rparr>))"

definition derive_kek_or_reject :: "subtle \<Rightarrow> bytes option \<Rightarrow> managed_rejection + bytes" where
  "derive_kek_or_reject S secret = (case derive_release_share_kek S secret of
     Inl e \<Rightarrow> Inl (RELEASE_SHARE_KEK_INVALID, snd e)
   | Inr kek \<Rightarrow> Inr kek)"

record managed_sealed =
  ms_encrypted_secret :: jstr
  ms_encrypted_totp :: "jstr option"
  ms_index :: opaque_index
  ms_lookup_token :: jstr

text \<open>None is a throw that reaches execute's catch.\<close>

definition seal_managed_secrets ::
  "web \<Rightarrow> subtle \<Rightarrow> bytes \<Rightarrow> managed_random \<Rightarrow> managed_authoring_input \<Rightarrow> jstr \<Rightarrow> jstr \<Rightarrow> jstr
     \<Rightarrow> (managed_rejection + managed_sealed) option" where
  "seal_managed_secrets W S vek R input username canonical cid =
     (case base64_to_binary (key_base64 (derive_managed_entry_key S vek (mr_share R) (mr_salt R) cid 1)) of
        None \<Rightarrow> None
      | Some key \<Rightarrow>
      (case seal S (json_stringify S (secret_envelope username (mi_password input))) key
              (mr_salt R) (mr_iv_secret R) of
        None \<Rightarrow> None
      | Some enc \<Rightarrow>
      (let totp = (case mi_totp_seed_base32 input of
              None \<Rightarrow> Some (Inr None)
            | Some seed64 \<Rightarrow>
                if seed64 = [] then Some (Inr None)
                else (let seed = base32_to_bytes W seed64 in
                  if length seed = 0
                  then Some (Inl (TOTP_SEED_INVALID, lit ''TOTP seed contained no usable characters''))
                  else map_option (Inr \<circ> Some)
                         (seal S (binary_to_base64 seed) key (mr_salt R) (mr_iv_totp R))))
       in case totp of
         None \<Rightarrow> None
       | Some (Inl rejection) \<Rightarrow> Some (Inl rejection)
       | Some (Inr enc_totp) \<Rightarrow>
         (case compute_lookup_token W S canonical (Some (derive_domain_index_key S vek)) of
            Inl _ \<Rightarrow> Some (Inl (M_ORIGIN_NOT_ABSOLUTE, lit ''could not derive a lookup token''))
          | Inr t \<Rightarrow> Some (Inr \<lparr> ms_encrypted_secret = enc, ms_encrypted_totp = enc_totp,
              ms_index = add_to_index (case mi_existing_index input of None \<Rightarrow> empty_index | Some ix \<Rightarrow> ix)
                           (token t) cid,
              ms_lookup_token = token t \<rparr>)))))"

definition wrap_and_persist_share ::
  "subtle \<Rightarrow> 's share_port \<Rightarrow> jstr \<Rightarrow> bytes \<Rightarrow> bytes \<Rightarrow> bytes \<Rightarrow> jstr \<Rightarrow> int \<Rightarrow> 's
     \<Rightarrow> managed_rejection + 's" where
  "wrap_and_persist_share S sp err iv kek share secret_ref now store =
     (case wrap_release_share S err iv kek share secret_ref of
        Inl e \<Rightarrow> Inl (RELEASE_SHARE_KEK_INVALID, snd e)
      | Inr wrapped \<Rightarrow>
          (case port_save sp store
                   \<lparr> rs_secret_ref = secret_ref, rs_wrapped_share = wrapped, rs_created_at = now \<rparr> of
             Inl cause \<Rightarrow> Inl (RELEASE_SHARE_PERSIST_FAILED,
               lit ''could not persist the wrapped Release Share: '' @ cause)
           | Inr store' \<Rightarrow> Inr store'))"

text \<open>\<^verbatim>\<open>err\<close> is the message of a platform failure; an empty one stands for a value that is not an Error.\<close>

definition managed_authoring_execute ::
  "web \<Rightarrow> subtle \<Rightarrow> 's share_port \<Rightarrow> jstr \<Rightarrow> bytes option \<Rightarrow> managed_authoring_input \<Rightarrow> managed_random
     \<Rightarrow> int \<Rightarrow> 's \<Rightarrow> (managed_rejection + authoring_success) \<times> 's" where
  "managed_authoring_execute W S sp err kek_secret input R now store =
     (case validate_managed_origin W (mi_origin input) of
        Inl r \<Rightarrow> (Inl r, store)
      | Inr canonical \<Rightarrow>
     (case validate_managed_fields input of
        Inl r \<Rightarrow> (Inl r, store)
      | Inr f \<Rightarrow>
     (case derive_kek_or_reject S kek_secret of
        Inl r \<Rightarrow> (Inl r, store)
      | Inr kek \<Rightarrow>
     (let cid = (case mi_id input of None \<Rightarrow> mr_id R | Some i \<Rightarrow> i) in
      case seal_managed_secrets W S (mf_vek f) R input (mf_username f) canonical cid of
        None \<Rightarrow> (Inl (INTERNAL_ERROR, lit ''unexpected failure while authoring: '' @ err), store)
      | Some (Inl r) \<Rightarrow> (Inl r, store)
      | Some (Inr sealed) \<Rightarrow>
     (case wrap_and_persist_share S sp err (mr_iv_wrap R) kek (mr_share R) (mf_secret_ref f) now store of
        Inl r \<Rightarrow> (Inl r, store)
      | Inr store' \<Rightarrow>
        (Inr \<lparr> au_record = \<lparr> er_id = cid, er_mode = Managed, encrypted_secret = ms_encrypted_secret sealed,
                 encrypted_totp_secret = ms_encrypted_totp sealed, er_salt = binary_to_base64 (mr_salt R),
                 er_version = 1, release_share_ref = Some (mf_secret_ref f), er_title = Some (mf_title f),
                 username_hint = Some (redact_username (mf_username f)), ar_origin = canonical \<rparr>,
               au_index = ms_index sealed, au_lookup_token = ms_lookup_token sealed \<rparr>, store'))))))"

subsection \<open>The share of an authored credential\<close>

context share_store_laws
begin

lemma authored_share_found:
  assumes "managed_authoring_execute W S sp err kek_secret input R now st = (Inr out, st')"
    and "aead_ok S" and "length (mr_iv_wrap R) = wrap_iv_len"
  shows "\<exists>ref kek e. release_share_ref (au_record out) = Some ref \<and> ref \<noteq> []
    \<and> er_mode (au_record out) = Managed
    \<and> derive_release_share_kek S kek_secret = Inr kek
    \<and> port_find sp st' ref = Inr (Some e) \<and> rs_secret_ref e = ref
    \<and> unwrap_release_share S kek (rs_wrapped_share e) ref = Inr (mr_share R)"
proof -
  obtain canonical f kek sealed where v: "validate_managed_origin W (mi_origin input) = Inr canonical"
    "validate_managed_fields input = Inr f" "derive_kek_or_reject S kek_secret = Inr kek"
    and p: "wrap_and_persist_share S sp err (mr_iv_wrap R) kek (mr_share R) (mf_secret_ref f) now st = Inr st'"
    and r: "release_share_ref (au_record out) = Some (mf_secret_ref f)" "er_mode (au_record out) = Managed"
    using assms(1)
    by (auto simp: managed_authoring_execute_def Let_def split: sum.splits option.splits)
  have kek: "derive_release_share_kek S kek_secret = Inr kek"
    using v(3) by (auto simp: derive_kek_or_reject_def split: sum.splits)
  have ref: "mf_secret_ref f \<noteq> []"
    using v(2) by (auto simp: validate_managed_fields_def Let_def split: if_splits option.splits)
  obtain wrapped where w: "wrap_release_share S err (mr_iv_wrap R) kek (mr_share R)
        (mf_secret_ref f) = Inr wrapped"
    and st: "port_save sp st \<lparr> rs_secret_ref = mf_secret_ref f, rs_wrapped_share = wrapped,
        rs_created_at = now \<rparr> = Inr st'"
    using p by (auto simp: wrap_and_persist_share_def split: sum.splits)
  from find_saved [OF st] unwrap_wrapped [OF assms(2,3) w] kek r ref show ?thesis by auto
qed

end

lemma managed_authoring_rejected_store:
  assumes "managed_authoring_execute W S sp err kek_secret input R now store = (Inl r, store')"
  shows "store' = store"
  using assms by (auto simp: managed_authoring_execute_def Let_def split: sum.splits option.splits)

end
