(* ===== verification/Managed_Release.thy ===== *)
theory Managed_Release
  imports Capability Jti_Store Credential_Entity Managed_Authoring
begin

text \<open>
  The release of a managed credential by Core:
  src/src/application/use-cases/managed-release.use-case.ts.  Both use cases verify a
  capability against the pinned key, consume its identifier and resolve the
  credential through it.  The clock is read twice: at verification and at
  consumption, both in milliseconds.
\<close>

record managed_release_input =
  mr_token :: signed_capability
  mr_expected :: "capability_binding_context option"
  mr_vault_id :: jstr

record release_output =
  ro_release_share :: jstr
  ro_credential_id :: jstr

record 's release_core =
  core_find_credential :: "jstr \<Rightarrow> jstr + credential option"
  core_shares :: "'s share_port"
  core_share_state :: "'s option"
  core_kek_secret :: "bytes option"
  core_plus_public_key :: "bytes option"

definition capability_ttl_seconds :: "capability_payload \<Rightarrow> jstr + int" where
  "capability_ttl_seconds p =
     (let ttl = cp_exp p - cp_iat p in
      if ttl \<le> 0 then Inl (lit ''Capability has an invalid validity window'') else Inr ttl)"

definition verdict_error :: "verdict \<Rightarrow> jstr + unit" where
  "verdict_error v = (case v of Valid \<Rightarrow> Inr () | Invalid e \<Rightarrow> Inl (lit e))"

definition configuration_refusal :: "bytes option \<Rightarrow> managed_release_input \<Rightarrow> jstr + (bytes \<times> capability_binding_context)" where
  "configuration_refusal plus_key input =
     (if plus_key = None \<or> plus_key = Some [] then
        Inl (lit ''Managed release refused: PLUS_PUBLIC_KEY is not configured '' @ [0x2014] @ lit '' the Ed25519 capability ''
          @ lit ''verification key must be pinned in server configuration (base64 of the Plus signer's ''
          @ lit ''32-byte public key)'')
      else case mr_expected input of
        None \<Rightarrow> Inl (lit ''Managed release refused: capability binding context missing'')
      | Some x \<Rightarrow>
          if mr_vault_id input = [] then Inl (lit ''Managed release refused: vault binding missing'')
          else Inr (the plus_key, x))"

definition resolve_credential_for_release ::
  "(jstr \<Rightarrow> jstr + credential option) \<Rightarrow> capability_payload \<Rightarrow> jstr \<Rightarrow> jstr + credential" where
  "resolve_credential_for_release repo p vault_id =
     (case repo (cp_secret_ref p) of
        Inl e \<Rightarrow> Inl (lit ''Managed release failed: '' @ e)
      | Inr None \<Rightarrow> Inl (lit ''Credential not found for secretRef'')
      | Inr (Some c) \<Rightarrow>
          if \<not> is_managed c then Inl (lit ''Credential is not managed (requires Plus authorization)'')
          else if cr_release_share_ref c \<noteq> Some (cp_secret_ref p) then Inl (lit ''Secret reference mismatch'')
          else if cr_vault_id c \<noteq> vault_id then
            Inl (lit ''Credential does not belong to the requested vault'')
          else Inr c)"

definition unwrap_stored_release_share ::
  "subtle \<Rightarrow> 's share_port \<Rightarrow> 's option \<Rightarrow> bytes option \<Rightarrow> jstr option \<Rightarrow> jstr + bytes" where
  "unwrap_stored_release_share S sp st kek_secret secret_ref =
     (if secret_ref = None \<or> secret_ref = Some [] then
        Inl (lit ''Credential has no Release Share reference'')
      else case st of
        None \<Rightarrow> Inl (lit ''Managed release is not configured: Release Share store unavailable'')
      | Some s \<Rightarrow>
     (case derive_release_share_kek S kek_secret of
        Inl e \<Rightarrow> Inl (lit ''Managed release refused: '' @ snd e)
      | Inr kek \<Rightarrow>
     (case port_find sp s (the secret_ref) of
        Inl e \<Rightarrow> Inl (lit ''Release Share unwrapping failed: '' @ e)
      | Inr None \<Rightarrow> Inl (lit ''Release Share not found for secretRef'')
      | Inr (Some wrapped) \<Rightarrow>
     (case unwrap_release_share S kek (rs_wrapped_share wrapped) (rs_secret_ref wrapped) of
        Inl e \<Rightarrow> Inl (lit ''Release Share unwrapping failed: '' @ snd e)
      | Inr share \<Rightarrow> Inr share))))"

definition managed_release_execute ::
  "subtle \<Rightarrow> curve \<Rightarrow> 's release_core \<Rightarrow> managed_release_input \<Rightarrow> int \<Rightarrow> int \<Rightarrow> jti_store
     \<Rightarrow> (jstr + release_output) \<times> jti_store" where
  "managed_release_execute S C K input now_verify now_consume jtis =
     (case configuration_refusal (core_plus_public_key K) input of
        Inl e \<Rightarrow> (Inl e, jtis)
      | Inr (key, expected) \<Rightarrow>
     (let p = sg_payload (mr_token input) in
      case verdict_error (verify_capability C (now_verify div 1000) (mr_token input) key (Some expected)) of
        Inl e \<Rightarrow> (Inl e, jtis)
      | Inr _ \<Rightarrow>
      if cp_operation p \<noteq> lit ''VIEW'' \<and> cp_operation p \<noteq> lit ''AUTOFILL'' \<and> cp_operation p \<noteq> lit ''TOTP''
      then (Inl (lit ''Operation '' @ cp_operation p @ lit '' not allowed for managed release''), jtis)
      else (case capability_ttl_seconds p of
        Inl e \<Rightarrow> (Inl e, jtis)
      | Inr ttl \<Rightarrow>
     (let (verdict, jtis') = verify_and_consume_jti jtis now_consume (cp_jti p) ttl in
      case verdict of
        Jti_Refused e \<Rightarrow> (Inl (lit e), jtis')
      | Jti_Allowed \<Rightarrow>
     (case resolve_credential_for_release (core_find_credential K) p (mr_vault_id input) of
        Inl e \<Rightarrow> (Inl e, jtis')
      | Inr c \<Rightarrow>
     (case unwrap_stored_release_share S (core_shares K) (core_share_state K) (core_kek_secret K)
              (cr_release_share_ref c) of
        Inl e \<Rightarrow> (Inl e, jtis')
      | Inr share \<Rightarrow>
        (Inr \<lparr> ro_release_share = binary_to_base64 share, ro_credential_id = cr_id c \<rparr>, jtis')))))))"

subsection \<open>Reading a credential with a capability\<close>

record get_credential_input =
  gc_token :: signed_capability
  gc_expected :: "capability_binding_context option"
  gc_credential_id :: jstr

record credential_view =
  cv_id :: jstr
  cv_title :: jstr
  cv_username :: jstr
  cv_encrypted_password :: jstr
  cv_mode :: entry_mode
  cv_salt :: jstr
  cv_version :: int
  cv_release_share_ref :: "jstr option"

definition releasable_operations :: "jstr list" where
  "releasable_operations = map lit [''VIEW'', ''AUTOFILL'', ''TOTP'']"

definition get_configuration_refusal ::
  "bytes option \<Rightarrow> get_credential_input \<Rightarrow> jstr + (bytes \<times> capability_binding_context)" where
  "get_configuration_refusal plus_key input =
     (if plus_key = None \<or> plus_key = Some [] then
        Inl (lit ''Get credential refused: PLUS_PUBLIC_KEY is not configured '' @ [0x2014] @ lit '' the Ed25519 capability ''
          @ lit ''verification key must be pinned in server configuration'')
      else case gc_expected input of
        None \<Rightarrow> Inl (lit ''Get credential refused: capability binding context missing'')
      | Some x \<Rightarrow> Inr (the plus_key, x))"

definition resolve_credential_for_capability ::
  "(jstr \<Rightarrow> jstr + credential option) \<Rightarrow> capability_payload \<Rightarrow> jstr \<Rightarrow> jstr + credential" where
  "resolve_credential_for_capability repo p credential_id =
     (case repo (cp_secret_ref p) of
        Inl e \<Rightarrow> Inl (lit ''Get credential failed: '' @ e)
      | Inr None \<Rightarrow> Inl (lit ''Credential not found for secretRef'')
      | Inr (Some c) \<Rightarrow>
          if credential_id \<noteq> [] \<and> cr_id c \<noteq> credential_id then
            Inl (lit ''Credential does not match the capability'')
          else if is_managed c \<and> cp_operation p \<notin> set releasable_operations then
            Inl (lit ''Operation is not permitted for this credential'')
          else if is_personal c \<and> cp_operation p \<noteq> lit ''VIEW'' then
            Inl (lit ''Operation is not permitted for a personal credential'')
          else Inr c)"

definition get_credential_execute ::
  "curve \<Rightarrow> (jstr \<Rightarrow> jstr + credential option) \<Rightarrow> bytes option \<Rightarrow> get_credential_input
     \<Rightarrow> int \<Rightarrow> int \<Rightarrow> jti_store \<Rightarrow> (jstr + credential_view) \<times> jti_store" where
  "get_credential_execute C repo plus_key input now_verify now_consume jtis =
     (case get_configuration_refusal plus_key input of
        Inl e \<Rightarrow> (Inl e, jtis)
      | Inr (key, expected) \<Rightarrow>
     (let p = sg_payload (gc_token input) in
      case verdict_error (verify_capability C (now_verify div 1000) (gc_token input) key (Some expected)) of
        Inl e \<Rightarrow> (Inl e, jtis)
      | Inr _ \<Rightarrow>
     (case capability_ttl_seconds p of
        Inl e \<Rightarrow> (Inl e, jtis)
      | Inr ttl \<Rightarrow>
     (let (verdict, jtis') = verify_and_consume_jti jtis now_consume (cp_jti p) ttl in
      case verdict of
        Jti_Refused e \<Rightarrow> (Inl (lit e), jtis')
      | Jti_Allowed \<Rightarrow>
     (case resolve_credential_for_capability repo p (gc_credential_id input) of
        Inl e \<Rightarrow> (Inl e, jtis')
      | Inr c \<Rightarrow>
        (Inr \<lparr> cv_id = cr_id c, cv_title = cr_title c, cv_username = cr_username c,
               cv_encrypted_password = cr_encrypted_password c, cv_mode = cr_mode c,
               cv_salt = cr_salt c, cv_version = cr_version c,
               cv_release_share_ref = cr_release_share_ref c \<rparr>, jtis'))))))"

subsection \<open>What a release proves\<close>

lemma verdict_error_ok: "verdict_error v = Inr u \<longleftrightarrow> v = Valid"
  by (cases v) (simp_all add: verdict_error_def)

definition release_justified ::
  "subtle \<Rightarrow> curve \<Rightarrow> 's release_core \<Rightarrow> managed_release_input \<Rightarrow> int \<Rightarrow> int \<Rightarrow> jti_store \<Rightarrow> release_output \<Rightarrow> bool" where
  "release_justified S C K input now_verify now_consume jtis out \<longleftrightarrow>
     (let p = sg_payload (mr_token input) in
      \<exists>key x c share s kek w.
        core_plus_public_key K = Some key \<and> key \<noteq> [] \<and> mr_expected input = Some x
        \<and> mr_vault_id input \<noteq> []
        \<and> capability_acceptable C (now_verify div 1000) (mr_token input) key \<and> capability_bound p x
        \<and> cp_operation p \<in> set releasable_operations
        \<and> cp_iat p < cp_exp p \<and> 16 \<le> length (cp_jti p) \<and> \<not> jti_spent jtis now_consume (cp_jti p)
        \<and> core_find_credential K (cp_secret_ref p) = Inr (Some c)
        \<and> is_managed c \<and> cr_release_share_ref c = Some (cp_secret_ref p) \<and> cr_vault_id c = mr_vault_id input
        \<and> core_share_state K = Some s \<and> derive_release_share_kek S (core_kek_secret K) = Inr kek
        \<and> port_find (core_shares K) s (cp_secret_ref p) = Inr (Some w)
        \<and> unwrap_release_share S kek (rs_wrapped_share w) (rs_secret_ref w) = Inr share
        \<and> out = \<lparr> ro_release_share = binary_to_base64 share, ro_credential_id = cr_id c \<rparr>)"

lemma jti_allowed_iff:
  "fst (verify_and_consume_jti st now j ttl) = Jti_Allowed \<longleftrightarrow> 16 \<le> length j \<and> \<not> jti_spent st now j"
  by (simp add: verify_and_consume_allowed jti.consume_result)

lemma managed_release_justified:
  assumes "managed_release_execute S C K input now_verify now_consume jtis = (Inr out, jtis')"
  shows "release_justified S C K input now_verify now_consume jtis out"
proof -
  let ?p = "sg_payload (mr_token input)"
  obtain key x where cfg: "configuration_refusal (core_plus_public_key K) input = Inr (key, x)"
    using assms by (auto simp: managed_release_execute_def split: sum.splits)
  have ver: "verify_capability C (now_verify div 1000) (mr_token input) key (Some x) = Valid"
    using assms cfg by (auto simp: managed_release_execute_def Let_def verdict_error_ok split: sum.splits)
  have ope: "cp_operation ?p \<in> set releasable_operations"
    using assms cfg by (auto simp: managed_release_execute_def Let_def releasable_operations_def
        split: sum.splits if_splits)
  obtain ttl where ttl: "capability_ttl_seconds ?p = Inr ttl"
    using assms cfg by (auto simp: managed_release_execute_def Let_def split: sum.splits if_splits)
  have jt: "fst (verify_and_consume_jti jtis now_consume (cp_jti ?p) ttl) = Jti_Allowed"
    using assms cfg ttl by (auto simp: managed_release_execute_def Let_def
        split: sum.splits if_splits prod.splits jti_verdict.splits)
  obtain c share where c: "resolve_credential_for_release (core_find_credential K) ?p (mr_vault_id input) = Inr c"
    and sh: "unwrap_stored_release_share S (core_shares K) (core_share_state K) (core_kek_secret K)
        (cr_release_share_ref c) = Inr share"
    and out: "out = \<lparr> ro_release_share = binary_to_base64 share, ro_credential_id = cr_id c \<rparr>"
    using assms cfg ttl by (auto simp: managed_release_execute_def Let_def
        split: sum.splits if_splits prod.splits jti_verdict.splits)
  have k: "core_plus_public_key K = Some key \<and> key \<noteq> [] \<and> mr_expected input = Some x
      \<and> mr_vault_id input \<noteq> []"
    using cfg by (auto simp: configuration_refusal_def split: if_splits option.splits)
  have t: "cp_iat ?p < cp_exp ?p"
    using ttl by (auto simp: capability_ttl_seconds_def Let_def split: if_splits)
  have cc: "core_find_credential K (cp_secret_ref ?p) = Inr (Some c) \<and> is_managed c
      \<and> cr_release_share_ref c = Some (cp_secret_ref ?p) \<and> cr_vault_id c = mr_vault_id input"
    using c by (auto simp: resolve_credential_for_release_def split: sum.splits option.splits if_splits)
  obtain s kek w where "core_share_state K = Some s" "derive_release_share_kek S (core_kek_secret K) = Inr kek"
    "port_find (core_shares K) s (cp_secret_ref ?p) = Inr (Some w)"
    "unwrap_release_share S kek (rs_wrapped_share w) (rs_secret_ref w) = Inr share"
    using sh cc by (auto simp: unwrap_stored_release_share_def split: sum.splits option.splits if_splits)
  with k ver ope t jt cc out show ?thesis
    unfolding release_justified_def Let_def verify_capability_valid_iff jti_allowed_iff by auto
qed

lemma justified_managed_release:
  assumes "release_justified S C K input now_verify now_consume jtis out"
  shows "fst (managed_release_execute S C K input now_verify now_consume jtis) = Inr out"
proof -
  let ?p = "sg_payload (mr_token input)"
  obtain key x c share s kek w where
    cfg: "core_plus_public_key K = Some key" "key \<noteq> []" "mr_expected input = Some x"
    and ver: "capability_acceptable C (now_verify div 1000) (mr_token input) key" "capability_bound ?p x"
    and ope: "cp_operation ?p \<in> set releasable_operations"
    and ttl: "cp_iat ?p < cp_exp ?p"
    and j: "16 \<le> length (cp_jti ?p)" "\<not> jti_spent jtis now_consume (cp_jti ?p)"
    and c: "core_find_credential K (cp_secret_ref ?p) = Inr (Some c)" "is_managed c"
      "cr_release_share_ref c = Some (cp_secret_ref ?p)" "cr_vault_id c = mr_vault_id input"
    and sh: "core_share_state K = Some s" "derive_release_share_kek S (core_kek_secret K) = Inr kek"
      "port_find (core_shares K) s (cp_secret_ref ?p) = Inr (Some w)"
      "unwrap_release_share S kek (rs_wrapped_share w) (rs_secret_ref w) = Inr share"
    and out: "out = \<lparr> ro_release_share = binary_to_base64 share, ro_credential_id = cr_id c \<rparr>"
    and vault: "mr_vault_id input \<noteq> []"
    using assms unfolding release_justified_def Let_def by blast
  have 1: "configuration_refusal (core_plus_public_key K) input = Inr (key, x)"
    using cfg vault by (simp add: configuration_refusal_def)
  have 2: "verdict_error (verify_capability C (now_verify div 1000) (mr_token input) key (Some x)) = Inr ()"
    using ver by (simp add: verdict_error_ok verify_capability_valid_iff)
  have 3: "cp_operation ?p = lit ''VIEW'' \<or> cp_operation ?p = lit ''AUTOFILL'' \<or> cp_operation ?p = lit ''TOTP''"
    using ope by (auto simp: releasable_operations_def)
  have 4: "capability_ttl_seconds ?p = Inr (cp_exp ?p - cp_iat ?p)"
    using ttl by (simp add: capability_ttl_seconds_def)
  have 5: "fst (verify_and_consume_jti jtis now_consume (cp_jti ?p) (cp_exp ?p - cp_iat ?p)) = Jti_Allowed"
    using j by (simp add: jti_allowed_iff)
  have 6: "resolve_credential_for_release (core_find_credential K) ?p (mr_vault_id input) = Inr c"
    using c by (simp add: resolve_credential_for_release_def)
  have "cp_secret_ref ?p \<noteq> []"
    using ver(2) by (auto simp: capability_bound_def)
  then have 7: "unwrap_stored_release_share S (core_shares K) (core_share_state K) (core_kek_secret K)
      (cr_release_share_ref c) = Inr share"
    using sh c(3) by (simp add: unwrap_stored_release_share_def)
  show ?thesis
    using 1 2 3 4 5 6 7 out
    by (auto simp: managed_release_execute_def Let_def split: prod.splits)
qed

subsection \<open>Single use\<close>

lemma managed_release_store:
  assumes "managed_release_execute S C K input v t jtis = (Inr out, jtis')"
  shows "fst (try_consume jtis t (cp_jti (sg_payload (mr_token input)))
       (cp_exp (sg_payload (mr_token input)) - cp_iat (sg_payload (mr_token input))))
    \<and> jtis' = snd (try_consume jtis t (cp_jti (sg_payload (mr_token input)))
       (cp_exp (sg_payload (mr_token input)) - cp_iat (sg_payload (mr_token input))))"
proof -
  let ?p = "sg_payload (mr_token input)"
  have j: "16 \<le> length (cp_jti ?p)" "\<not> jti_spent jtis t (cp_jti ?p)" and w: "cp_iat ?p < cp_exp ?p"
    using managed_release_justified [OF assms] by (auto simp: release_justified_def Let_def)
  have "jtis' = snd (verify_and_consume_jti jtis t (cp_jti ?p) (cp_exp ?p - cp_iat ?p))"
    using assms by (auto simp: managed_release_execute_def Let_def capability_ttl_seconds_def
        split: sum.splits if_splits prod.splits jti_verdict.splits)
  then show ?thesis using j by (auto simp: verify_and_consume_store jti.consume_result)
qed

lemma managed_release_once:
  assumes first: "managed_release_execute S C K input v t jtis = (Inr out, jtis')"
    and same: "cp_jti (sg_payload (mr_token input')) = cp_jti (sg_payload (mr_token input))"
    and time: "\<forall>e \<in> set es. event_at_most u e"
    and live: "u < t + (cp_exp (sg_payload (mr_token input)) - cp_iat (sg_payload (mr_token input))) * 1000"
  shows "fst (managed_release_execute S C K' input' v' u (jti_after jtis' es)) \<noteq> Inr out'"
proof
  assume "fst (managed_release_execute S C K' input' v' u (jti_after jtis' es)) = Inr out'"
  then obtain jtis'' where "managed_release_execute S C K' input' v' u (jti_after jtis' es) = (Inr out', jtis'')"
    by (metis prod.collapse)
  then have "fst (try_consume (jti_after jtis' es) u (cp_jti (sg_payload (mr_token input')))
      (cp_exp (sg_payload (mr_token input')) - cp_iat (sg_payload (mr_token input'))))"
    using managed_release_store by blast
  then show False
    using managed_release_store [OF first] time live jti.no_double_use
    unfolding same jti_after_eq event_at_most_iff by blast
qed

lemma verified_before_expiry:
  assumes "managed_release_execute S C K input v t jtis = (Inr out, jtis')"
  shows "v < (cp_exp (sg_payload (mr_token input)) + 1) * 1000"
proof -
  have "v div 1000 \<le> cp_exp (sg_payload (mr_token input))"
    using managed_release_justified [OF assms]
    by (auto simp: release_justified_def Let_def capability_acceptable_def)
  then show ?thesis using div_mult_mod_eq [of v 1000] pos_mod_bound [of 1000 v] by (simp add: algebra_simps)
qed

text \<open>
  A capability first used no earlier than one second after its issue time is
  remembered past its last valid second.
\<close>

lemma managed_release_never_twice:
  assumes first: "managed_release_execute S C K input v t jtis = (Inr out, jtis')"
    and late: "(cp_iat (sg_payload (mr_token input)) + 1) * 1000 \<le> t"
    and same: "sg_payload (mr_token input') = sg_payload (mr_token input)"
    and time: "\<forall>e \<in> set es. event_at_most u e"
  shows "fst (managed_release_execute S C K' input' u u (jti_after jtis' es)) \<noteq> Inr out'"
proof
  assume second: "fst (managed_release_execute S C K' input' u u (jti_after jtis' es)) = Inr out'"
  then obtain jtis'' where
    "managed_release_execute S C K' input' u u (jti_after jtis' es) = (Inr out', jtis'')"
    by (metis prod.collapse)
  from verified_before_expiry [OF this]
  have "u < (cp_exp (sg_payload (mr_token input)) + 1) * 1000" by (simp add: same)
  then have live: "u < t + (cp_exp (sg_payload (mr_token input)) - cp_iat (sg_payload (mr_token input))) * 1000"
    using late by (simp add: algebra_simps)
  have "cp_jti (sg_payload (mr_token input')) = cp_jti (sg_payload (mr_token input))"
    by (simp add: same)
  from managed_release_once [OF first this time live] second show False by blast
qed

text \<open>
  Before that, the entry in the store expires while the capability is still
  accepted: its replay passes both the time checks and the replay check.
\<close>

lemma replay_window:
  assumes len: "16 \<le> length (cp_jti p)" and fresh: "fst (try_consume st t (cp_jti p) (cp_exp p - cp_iat p))"
    and early: "t < (cp_iat p + 1) * 1000" and u: "t + (cp_exp p - cp_iat p) * 1000 \<le> u"
    and valid: "u div 1000 \<le> cp_exp p"
  shows "fst (verify_and_consume_jti (snd (verify_and_consume_jti st t (cp_jti p) (cp_exp p - cp_iat p)))
           u (cp_jti p) (cp_exp p - cp_iat p)) = Jti_Allowed"
proof -
  have "snd (verify_and_consume_jti st t (cp_jti p) (cp_exp p - cp_iat p))
      = snd (try_consume st t (cp_jti p) (cp_exp p - cp_iat p))"
    using len by (auto simp: verify_and_consume_store)
  with jti.use_after_expiry [OF fresh u] len show ?thesis
    by (simp add: verify_and_consume_allowed)
qed

subsection \<open>The share that is released\<close>

text \<open>
  What Core returns is the share that server-side authoring minted for the record,
  not its reference.
\<close>

lemma released_share_is_authored:
  assumes auth: "managed_authoring_execute W S in_memory_port err kek_secret inp R now st = (Inr out, st')"
    and S: "aead_ok S" "length (mr_iv_wrap R) = wrap_iv_len"
    and rel: "managed_release_execute S C K input v t jtis = (Inr o', jtis')"
    and K: "core_shares K = in_memory_port" "core_share_state K = Some st'" "core_kek_secret K = kek_secret"
    and ref: "release_share_ref (au_record out) = Some (cp_secret_ref (sg_payload (mr_token input)))"
  shows "ro_release_share o' = binary_to_base64 (mr_share R)"
proof -
  obtain kek e where "derive_release_share_kek S kek_secret = Inr kek"
    "port_find in_memory_port st' (cp_secret_ref (sg_payload (mr_token input))) = Inr (Some e)"
    "rs_secret_ref e = cp_secret_ref (sg_payload (mr_token input))"
    "unwrap_release_share S kek (rs_wrapped_share e) (cp_secret_ref (sg_payload (mr_token input))) = Inr (mr_share R)"
    using mem.authored_share_found [OF auth S] ref by auto
  then show ?thesis
    using managed_release_justified [OF rel] K by (auto simp: release_justified_def Let_def)
qed

end
