(* ===== verification/Sample_Platform.thy ===== *)
theory Sample_Platform
  imports Managed_Release
begin

text \<open>
  A small concrete platform on which the properties are applied: a URL parser for a
  few addresses, a toy cipher that satisfies the laws of AES-GCM, a decoder for
  ASCII and a signature scheme that accepts one signature.  Nothing here models
  code of the repository.
\<close>

definition url_table :: "(jstr \<times> url) list" where
  "url_table =
     (let u = (\<lambda>p h q. \<lparr> u_protocol = lit p, u_hostname = lit h, u_port = lit q \<rparr>) in
     [(lit ''https://a.io'', u ''https:'' ''a.io'' ''''),
      (lit ''https://a.io:443'', u ''https:'' ''a.io'' ''''),
      (lit ''http://a.io'', u ''http:'' ''a.io'' ''''),
      (lit ''https://b.io'', u ''https:'' ''b.io'' ''''),
      (lit ''https://b.io:443'', u ''https:'' ''b.io'' ''''),
      (lit ''https://a..'', u ''https:'' ''a..'' ''''),
      (lit ''https://a.'', u ''https:'' ''a.'' ''''),
      (lit ''https://a.:443'', u ''https:'' ''a.'' ''''),
      (lit ''https://a:443'', u ''https:'' ''a'' '''')])"

definition sample_web :: web where
  "sample_web = \<lparr> to_lower = (\<lambda>s. s), to_upper = (\<lambda>s. s), parse_url = map_of url_table,
     resolve_url = (\<lambda>s b. if s \<in> set (map fst url_table) then Some s else None) \<rparr>"

definition sample_stringify :: "json \<Rightarrow> jstr" where
  "sample_stringify j = (case j of
     JObj [(k, JStr u), (k', JStr p)] \<Rightarrow> length u # u @ p | _ \<Rightarrow> [])"

definition sample_parse :: "jstr \<Rightarrow> json option" where
  "sample_parse s = (case s of [] \<Rightarrow> None
     | n # r \<Rightarrow> Some (secret_envelope (take n r) (drop n r)))"

definition sample_subtle :: subtle where
  "sample_subtle = \<lparr> hkdf_sha256 = (\<lambda>ikm salt info n. take (n div 8) (ikm @ replicate 32 7)),
     hmac_sha256 = (\<lambda>k m. m),
     aes_gcm_encrypt = (\<lambda>k iv aad pt. Some (42 # pt)),
     aes_gcm_decrypt = (\<lambda>k iv aad ct. case ct of [] \<Rightarrow> None | _ # pt \<Rightarrow> Some pt),
     text_decode = nats_of,
     json_parse = sample_parse,
     json_stringify = sample_stringify \<rparr>"

definition sample_curve :: curve where
  "sample_curve = \<lparr> ed_sign = (\<lambda>m k. Inr [1, 2, 3]), ed_verify = (\<lambda>s m k. Inr (s = [1, 2, 3])),
     atob_message = ''InvalidCharacterError'' \<rparr>"

definition origin_of :: "string \<Rightarrow> string \<Rightarrow> canonical_origin" where
  "origin_of sch host = \<lparr> scheme = lit sch, hostname = lit host,
     port = (if sch = ''https'' then 443 else 80),
     serialized = serialize_origin (lit sch) (lit host) (if sch = ''https'' then 443 else 80) \<rparr>"

subsection \<open>Facts about it\<close>

lemma sample_aead_ok: "aead_ok sample_subtle"
  by (auto simp: aead_ok_def sample_subtle_def)

lemma sample_decodes: "\<forall>c \<in> set s. c < 128 \<Longrightarrow> decodes sample_subtle s"
proof -
  assume a: "\<forall>c \<in> set s. c < 128"
  then have "\<forall>c \<in> set s. c < 256" by auto
  then show ?thesis using a
    by (simp add: decodes_def sample_subtle_def utf8_encode_ascii nats_of_bytes_of)
qed

lemma sample_json: "json_reads_back sample_subtle (secret_envelope u p)"
  by (simp add: json_reads_back_def sample_subtle_def sample_stringify_def sample_parse_def
        secret_envelope_def)

lemmas sample_eval = lit_def trim_def js_space_def ends_with_def remove_first_def dec_int_def dec_nat.simps
  sample_web_def url_table_def parse_absolute_origin_def supported_schemes_def default_ports_def
  normalize_hostname_def serialize_origin_def origin_of_def

lemma sample_parse_a: "parse_absolute_origin sample_web (lit ''https://a.io'') = Inr (origin_of ''https'' ''a.io'')"
  by (simp add: sample_eval)

lemma sample_parse_b: "parse_absolute_origin sample_web (lit ''https://b.io'') = Inr (origin_of ''https'' ''b.io'')"
  by (simp add: sample_eval)

lemma sample_stable_a: "stable_origin sample_web (origin_of ''https'' ''a.io'')"
  unfolding stable_origin_def by (simp add: sample_eval)

lemma sample_stable_b: "stable_origin sample_web (origin_of ''https'' ''b.io'')"
  unfolding stable_origin_def by (simp add: sample_eval)

end
