(* ===== verification/Step_Up_Flow.thy ===== *)
theory Step_Up_Flow
  imports Prelude
begin

text \<open>
  The client side of a step-up: src/src/domain/services/autofill/step-up-flow.ts.
  The transport (\<^verbatim>\<open>startChallenge\<close>, \<^verbatim>\<open>submitApproval\<close>) and the clock are arguments.
\<close>

datatype step_up_operation = Op_Autofill | Op_Totp

record step_up_binding =
  sb_credential_id :: jstr
  sb_origin :: jstr
  sb_operation :: step_up_operation

record step_up_session =
  ss_challenge_id :: jstr
  ss_binding :: step_up_binding
  ss_expires_at :: int
  ss_attempts_remaining :: int
  ss_completed :: bool

datatype step_up_failure =
    CHALLENGE_UNAVAILABLE | SESSION_EXPIRED | ATTEMPTS_EXHAUSTED | BINDING_MISMATCH
  | ALREADY_COMPLETED | APPROVAL_REJECTED | SESSION_MISSING

record started_challenge =
  sc_challenge_id :: jstr
  sc_expires_at :: int
  sc_attempts_remaining :: int

definition bindings_match :: "step_up_binding \<Rightarrow> step_up_binding \<Rightarrow> bool" where
  "bindings_match a b \<longleftrightarrow> sb_credential_id a = sb_credential_id b \<and> sb_origin a = sb_origin b
     \<and> sb_operation a = sb_operation b"

definition begin_step_up ::
  "(step_up_binding \<Rightarrow> started_challenge option) \<Rightarrow> step_up_binding
     \<Rightarrow> (step_up_failure \<times> string) + step_up_session" where
  "begin_step_up start b = (case start b of
     None \<Rightarrow> Inl (CHALLENGE_UNAVAILABLE, ''Plus did not issue a challenge'')
   | Some s \<Rightarrow>
       if sc_challenge_id s = [] then
         Inl (CHALLENGE_UNAVAILABLE, ''Plus returned an unusable challenge id'')
       else Inr \<lparr> ss_challenge_id = sc_challenge_id s, ss_binding = b,
                  ss_expires_at = sc_expires_at s,
                  ss_attempts_remaining = sc_attempts_remaining s, ss_completed = False \<rparr>)"

definition check_session ::
  "step_up_session option \<Rightarrow> step_up_binding \<Rightarrow> int \<Rightarrow> (step_up_failure \<times> string) + unit" where
  "check_session session b now = (case session of
     None \<Rightarrow> Inl (SESSION_MISSING, ''no step-up session in progress'')
   | Some s \<Rightarrow>
       if \<not> bindings_match (ss_binding s) b then
         Inl (BINDING_MISMATCH, ''challenge is not bound to this release'')
       else if ss_completed s then
         Inl (ALREADY_COMPLETED, ''step-up already completed for this release'')
       else if now \<ge> ss_expires_at s then Inl (SESSION_EXPIRED, ''challenge has expired'')
       else Inr ())"

text \<open>The transport's own reason for a refusal is not part of the result.\<close>

definition submit_approval ::
  "(jstr \<Rightarrow> string option + unit) \<Rightarrow> step_up_session option \<Rightarrow> step_up_binding \<Rightarrow> int
     \<Rightarrow> (step_up_failure \<times> string) + step_up_session" where
  "submit_approval submit session b now = (case check_session session b now of
     Inl f \<Rightarrow> Inl f
   | Inr _ \<Rightarrow> (case session of
       None \<Rightarrow> Inl (SESSION_MISSING, ''no step-up session in progress'')
     | Some s \<Rightarrow> (case submit (ss_challenge_id s) of
         Inr _ \<Rightarrow> Inr (s\<lparr> ss_attempts_remaining := 0, ss_completed := True \<rparr>)
       | Inl _ \<Rightarrow> Inl (APPROVAL_REJECTED, ''the approval was not accepted''))))"

definition can_retry_release ::
  "step_up_session option \<Rightarrow> step_up_binding \<Rightarrow> (step_up_failure \<times> string) + unit" where
  "can_retry_release session b = (case session of
     None \<Rightarrow> Inl (SESSION_MISSING, ''no step-up session in progress'')
   | Some s \<Rightarrow>
       if \<not> bindings_match (ss_binding s) b then
         Inl (BINDING_MISMATCH, ''step-up was completed for a different release'')
       else if \<not> ss_completed s then
         Inl (APPROVAL_REJECTED, ''step-up has not been completed'')
       else Inr ())"

lemma bindings_match_iff: "bindings_match a b \<longleftrightarrow> a = b"
  by (auto simp: bindings_match_def intro: step_up_binding.equality)

text \<open>
  The life of a session: it begins with a challenge started for a binding and
  continues with approvals that the transport accepts.
\<close>

inductive session_of ::
  "(step_up_binding \<Rightarrow> started_challenge option) \<Rightarrow> (jstr \<Rightarrow> string option + unit)
     \<Rightarrow> step_up_session \<Rightarrow> bool"
  for start submit where
  Begun: "begin_step_up start b = Inr s \<Longrightarrow> session_of start submit s"
| Approved: "session_of start submit s \<Longrightarrow> submit_approval submit (Some s) b now = Inr s'
     \<Longrightarrow> session_of start submit s'"

lemma submit_approval_ok:
  assumes "submit_approval submit (Some s) b now = Inr s'"
  shows "ss_binding s = b \<and> ss_completed s = False \<and> now < ss_expires_at s
    \<and> submit (ss_challenge_id s) = Inr () \<and> s' = s\<lparr> ss_attempts_remaining := 0, ss_completed := True \<rparr>"
  using assms
  by (auto simp: submit_approval_def check_session_def bindings_match_iff split: if_splits sum.splits)

text \<open>A completed session was approved by the transport, for the binding it was started with.\<close>

definition session_justified ::
  "(step_up_binding \<Rightarrow> started_challenge option) \<Rightarrow> (jstr \<Rightarrow> string option + unit)
     \<Rightarrow> step_up_session \<Rightarrow> bool" where
  "session_justified start submit s \<longleftrightarrow>
     (\<exists>c. start (ss_binding s) = Some c \<and> sc_challenge_id c = ss_challenge_id s
        \<and> ss_challenge_id s \<noteq> [] \<and> sc_expires_at c = ss_expires_at s)
     \<and> (ss_completed s \<longrightarrow> submit (ss_challenge_id s) = Inr ())"

lemma session_of_justified: "session_of start submit s \<Longrightarrow> session_justified start submit s"
proof (induction rule: session_of.induct)
  case (Begun b s)
  then show ?case
    by (auto simp: begin_step_up_def session_justified_def split: option.splits if_splits)
next
  case (Approved s b now s')
  from submit_approval_ok [OF Approved.hyps(2)] Approved.IH show ?case
    by (auto simp: session_justified_def)
qed

end
