(* ===== verification/Release_Properties.thy ===== *)
theory Release_Properties
  imports Sample_Platform Step_Up_Flow
begin

text \<open>
  The properties of the origin, the guard, the index, authoring and the release of
  a credential in the extension, each with its application to a concrete input.
\<close>

subsection \<open>Release\<close>

definition page_request :: release_request where
  "page_request = \<lparr> rq_credential_id = lit ''c1'', rq_origin = lit ''https://a.io'',
     rq_operation = ''AUTOFILL'', rq_document_origin = lit ''https://a.io'',
     rq_top_level_origin = [], is_framed = False \<rparr>"

definition sample_vek :: bytes where
  "sample_vek = replicate 32 5"

definition sample_random :: authoring_random where
  "sample_random = \<lparr> rnd_id = lit ''c1'', rnd_salt = replicate 32 9, rnd_iv_secret = replicate 12 1,
     rnd_iv_totp = replicate 12 2 \<rparr>"

definition sample_input :: author_credential_input where
  "sample_input = \<lparr> ai_origin = Some (lit ''https://a.io''), ai_username = Some (lit ''bob''),
     ai_password = lit ''pw'', ai_title = None, ai_totp_seed_base32 = None, ai_mode = None,
     ai_release_share_ref = None, ai_id = None \<rparr>"

definition deps_of :: "authoring_success \<Rightarrow> release_deps" where
  "deps_of out = \<lparr> get_vek = Some sample_vek, get_index = Some (au_index out),
     get_record = (\<lambda>i. if i = er_id (au_record out)
       then Some (Some (encrypted_record.truncate (au_record out))) else Some None),
     request_capability = (\<lambda>_. None) \<rparr>"

lemma sample_author:
  "\<exists>out. author_credential sample_web sample_subtle sample_input (Some sample_vek) None sample_random
       = (Inr out, Some sample_vek)
     \<and> er_id (au_record out) = lit ''c1''
     \<and> ar_origin (au_record out) = serialized (origin_of ''https'' ''a.io'')"
  by (simp add: author_credential_def validate_authoring_origin_def sample_input_def absolute_prefix_def
        scheme_char_def starts_with_def sample_eval validate_authoring_fields_def effective_username_def
        effective_title_def seal_and_register_credential_def personal_key_decodes seal_def
        sample_subtle_def sample_random_def compute_lookup_token_def Let_def)

lemma sample_username: "effective_username (ai_username sample_input) = lit ''bob''"
  by (simp add: sample_input_def effective_username_def sample_eval)

lemma sample_envelope_decodes:
  "decodes sample_subtle (json_stringify sample_subtle (secret_envelope (lit ''bob'') (ai_password sample_input)))"
  by (rule sample_decodes)
     (simp add: sample_subtle_def sample_stringify_def secret_envelope_def sample_input_def lit_def)

lemma sample_no_totp: "authored_totp sample_web sample_input = None"
  by (simp add: authored_totp_def sample_input_def)

lemma sample_release:
  "\<exists>out c. snd (release_credential sample_web sample_subtle page_request (deps_of out)) = Inr c"
proof -
  obtain out where out: "author_credential sample_web sample_subtle sample_input (Some sample_vek) None sample_random
       = (Inr out, Some sample_vek)" "er_id (au_record out) = lit ''c1''"
     "ar_origin (au_record out) = serialized (origin_of ''https'' ''a.io'')"
    using sample_author by blast
  have "snd (release_credential sample_web sample_subtle page_request (deps_of out))
      = Inr \<lparr> rc_id = er_id (au_record out), rc_username = effective_username (ai_username sample_input),
              rc_password = ai_password sample_input, rc_totp_secret = authored_totp sample_web sample_input \<rparr>"
    using sample_json sample_envelope_decodes out(2) sample_no_totp
    by (intro release_authored [OF out(1) sample_aead_ok _ _ _ _ _ _ out(3) sample_stable_a])
       (simp_all add: sample_username sample_random_def salt_len_def iv_len_def deps_of_def page_request_def
          sample_parse_a)
  then show ?thesis by blast
qed

text \<open>
  A credential is released only to the page of the origin it is bound to: if a
  release succeeds, the vault is unlocked, the credential's identifier is in the
  index bucket of the requested origin's token, the document is exactly that
  origin, and so is the top-level document when the page is framed.
\<close>

theorem release_only_to_bound_origin:
  assumes "snd (release_credential W S rq D) = Inr c"
    and "parse_absolute_origin W (rq_origin rq) = Inr e" and "stable_origin W e"
    and "\<And>d. parse_absolute_origin W (rq_document_origin rq) = Inr d \<Longrightarrow> stable_origin W d"
  shows "\<exists>vek t ix. get_vek D = Some vek
    \<and> compute_lookup_token W S (rq_origin rq) (Some (derive_domain_index_key S vek)) = Inr t
    \<and> token_origin t = e \<and> get_index D = Some ix
    \<and> rq_credential_id rq \<in> set (lookup_index ix (token t))
    \<and> parse_absolute_origin W (rq_document_origin rq) = Inr e
    \<and> (is_framed rq \<longrightarrow> parse_absolute_origin W (rq_top_level_origin rq) = Inr e)"
proof -
  obtain vek rec where "get_vek D = Some vek" "release_authorized W S rq D vek rec"
    using assms(1) by (rule release_credential_ok)
  with release_authorized_page [OF _ assms(2-4)] show ?thesis by blast
qed

theorem release_only_to_bound_origin_witness:
  "\<exists>(out :: authoring_success) t. compute_lookup_token sample_web sample_subtle (lit ''https://a.io'')
       (Some (derive_domain_index_key sample_subtle sample_vek)) = Inr t
     \<and> lit ''c1'' \<in> set (lookup_index (au_index out) (token t))"
proof -
  obtain out c where "snd (release_credential sample_web sample_subtle page_request (deps_of out)) = Inr c"
    using sample_release by blast
  from release_only_to_bound_origin [OF this, of "origin_of ''https'' ''a.io''"]
  show ?thesis
    by (simp add: page_request_def sample_parse_a sample_stable_a deps_of_def) blast
qed

text \<open>
  C2. Nothing secret is touched before the guard has run: in the trace of every
  release, whatever its outcome, no capability is requested and no blob is
  decrypted before the guard's event.
\<close>

theorem no_secret_before_guard:
  "secrets_after_guard (fst (release_credential W S rq D))"
  by (rule release_secrets_after_guard)

text \<open>
  A credential authored for an origin is released to that origin's page with
  the username (trimmed), the password and the TOTP seed it was authored with, for
  every platform whose AES-GCM, JSON and text coding read back what they wrote.
\<close>

theorem authored_credential_is_released:
  assumes "author_credential W S input (Some vek) existing R = (Inr out, v)"
    and "aead_ok S"
    and "json_reads_back S (secret_envelope (effective_username (ai_username input)) (ai_password input))"
    and "decodes S (json_stringify S (secret_envelope (effective_username (ai_username input)) (ai_password input)))"
    and "\<And>s. authored_totp W input = Some s \<Longrightarrow> decodes S s"
    and "length (rnd_salt R) = salt_len" and "length (rnd_iv_secret R) = iv_len"
    and "length (rnd_iv_totp R) = iv_len"
    and "ar_origin (au_record out) = serialized c" and "stable_origin W c"
    and "get_vek D = Some vek" and "get_index D = Some (au_index out)"
    and "get_record D (er_id (au_record out)) = Some (Some (encrypted_record.truncate (au_record out)))"
    and "rq_credential_id rq = er_id (au_record out)" and "\<not> is_framed rq"
    and "parse_absolute_origin W (rq_origin rq) = Inr c"
    and "parse_absolute_origin W (rq_document_origin rq) = Inr c"
  shows "snd (release_credential W S rq D) = Inr
    \<lparr> rc_id = er_id (au_record out), rc_username = effective_username (ai_username input),
      rc_password = ai_password input, rc_totp_secret = authored_totp W input \<rparr>"
  using assms by (rule release_authored)

theorem authored_credential_is_released_witness:
  "\<exists>out. fst (author_credential sample_web sample_subtle sample_input (Some sample_vek) None sample_random) = Inr out
     \<and> snd (release_credential sample_web sample_subtle page_request (deps_of out))
       = Inr \<lparr> rc_id = lit ''c1'', rc_username = lit ''bob'', rc_password = lit ''pw'', rc_totp_secret = None \<rparr>"
proof -
  obtain out where out: "author_credential sample_web sample_subtle sample_input (Some sample_vek) None sample_random
       = (Inr out, Some sample_vek)" "er_id (au_record out) = lit ''c1''"
     "ar_origin (au_record out) = serialized (origin_of ''https'' ''a.io'')"
    using sample_author by blast
  have "snd (release_credential sample_web sample_subtle page_request (deps_of out))
      = Inr \<lparr> rc_id = er_id (au_record out), rc_username = effective_username (ai_username sample_input),
              rc_password = ai_password sample_input, rc_totp_secret = authored_totp sample_web sample_input \<rparr>"
    using sample_json sample_envelope_decodes out(2) sample_no_totp
    by (intro authored_credential_is_released [OF out(1) sample_aead_ok _ _ _ _ _ _ out(3) sample_stable_a])
       (simp_all add: sample_username sample_random_def salt_len_def iv_len_def deps_of_def page_request_def
          sample_parse_a)
  with out sample_no_totp show ?thesis by (simp add: sample_username) (simp add: sample_input_def)
qed

subsection \<open>Guard and origins\<close>

text \<open>
  C4. The guard's decision: for a releasable operation, a usable credential origin
  c and a usable document, with the origins involved stable, the guard allows the
  fill if and only if the document's origin is c, there is no frame or both the
  frame and the top-level document are c, the form's action resolves to c, and an
  explicit submit target is c.
\<close>

theorem guard_allows_exactly:
  assumes "gr_operation rq \<in> set allowed_operations"
    and "credential_origin rq = Some co" and "parse_absolute_origin W co = Inr c"
    and "parse_absolute_origin W (document_origin rq) = Inr d"
    and "stable_origin W c" and "stable_origin W d"
    and "\<And>t. resolve_against_origin W (form_action rq) (serialized d) = Inr t \<Longrightarrow> stable_origin W t"
  shows "may_release_secret W rq \<longleftrightarrow>
    d = c \<and> frame_authorized W rq c
    \<and> resolve_against_origin W (form_action rq) (serialized c) = Inr c \<and> submit_authorized W rq c"
  unfolding may_release_secret_def using assms by (rule evaluate_autofill_allow_iff)

definition posting_elsewhere :: autofill_guard_request where
  "posting_elsewhere = \<lparr> gr_operation = ''AUTOFILL'', credential_origin = Some (lit ''https://a.io''),
     document_origin = lit ''https://a.io'', form_action = Some (lit ''https://b.io''),
     submit_origin = None, top_level_origin = None, frame_origin = None \<rparr>"

lemma sample_resolve_b:
  "resolve_against_origin sample_web (Some (lit ''https://b.io'')) base = Inr (origin_of ''https'' ''b.io'')"
  by (simp add: resolve_against_origin_def sample_eval)

theorem guard_allows_exactly_witness:
  "\<not> may_release_secret sample_web posting_elsewhere"
  using guard_allows_exactly [of posting_elsewhere "lit ''https://a.io''" sample_web
      "origin_of ''https'' ''a.io''" "origin_of ''https'' ''a.io''"]
    sample_stable_a sample_stable_b
  by (simp add: posting_elsewhere_def allowed_operations_def sample_parse_a sample_resolve_b)
     (simp add: origin_of_def lit_def)

text \<open>
  Two inputs compare as equal exactly when both parse, to one and the same
  canonical origin: scheme, host name, port and serialization all agree.
\<close>

theorem compare_equal_exactly:
  "compare_absolute_origins W expected actual = O_Equal c
     \<longleftrightarrow> parse_absolute_origin W expected = Inr c \<and> parse_absolute_origin W actual = Inr c"
  by (rule compare_equal_iff_same)

text \<open>
  The canonical serialization identifies the origin: two parsed origins with
  the same serialization are the same origin, IPv6 hosts included; and a parsed
  origin is http or https with a nonempty host and a port from 1 to 65535.
\<close>

theorem serialization_identifies_origin:
  assumes "parse_absolute_origin W a = Inr c" and "parse_absolute_origin W b = Inr d"
  shows "wf_origin c \<and> (serialized c = serialized d \<longleftrightarrow> c = d)"
  using assms parse_absolute_origin_wf wf_origin_serialized_inject by blast

theorem serialization_identifies_origin_witness:
  "serialized (origin_of ''https'' ''a.io'') \<noteq> serialized (origin_of ''https'' ''b.io'')"
proof -
  have "origin_of ''https'' ''a.io'' \<noteq> origin_of ''https'' ''b.io''"
    by (simp add: origin_of_def lit_def)
  then show ?thesis
    using serialization_identifies_origin [OF sample_parse_a sample_parse_b] by blast
qed

definition double_dot_request :: autofill_guard_request where
  "double_dot_request = \<lparr> gr_operation = ''AUTOFILL'', credential_origin = Some (lit ''https://a..''),
     document_origin = lit ''https://a.'', form_action = None,
     submit_origin = None, top_level_origin = None, frame_origin = None \<rparr>"

text \<open>
  The double parse of the guard can identify two origins that
  \<^verbatim>\<open>parseAbsoluteOrigin\<close> tells apart: on a platform that, like the WHATWG parser,
  keeps the dots of \<^verbatim>\<open>https://a..\<close>, the guard releases a credential bound to
  \<^verbatim>\<open>https://a..\<close> into the page \<^verbatim>\<open>https://a.\<close>, because each parse drops one dot and
  the guard parses the serializations again.
\<close>

theorem guard_identifies_double_dot:
  "may_release_secret sample_web double_dot_request
     \<and> parse_absolute_origin sample_web (lit ''https://a..'') \<noteq> parse_absolute_origin sample_web (lit ''https://a.'')"
  by (simp add: may_release_secret_def evaluate_autofill_def double_dot_request_def allowed_operations_def
        frame_context_decision_def form_submission_decision_def compare_absolute_origins_def
        resolve_against_origin_def sample_eval)

subsection \<open>Index, keys and encodings\<close>

text \<open>
  C8. The opaque index, after any sequence of additions and removals from the empty
  index, holds an identifier under a token exactly when the last call on that pair
  was an addition; no bucket repeats an identifier and no empty bucket is kept.
\<close>

theorem index_holds_last_addition:
  "(c \<in> set (lookup_index (index_after ops) t) \<longleftrightarrow> registered ops t c)
     \<and> distinct (lookup_index (index_after ops) t) \<and> index_inv (index_after ops)"
  by (simp add: index_after_perform oix.perform_lookup oix.perform_distinct oix.perform_inv)

text \<open>
  A presented token is accepted for an origin exactly when the origin parses,
  the index key is there and the token is the one computed for it: the
  XOR-accumulating comparison is equality, and tokens of different MAC values
  differ.
\<close>

theorem token_accepted_exactly:
  "verify_token_for_origin W S orig k presented
     \<longleftrightarrow> (\<exists>key c. k = Some key \<and> parse_absolute_origin W orig = Inr c
          \<and> presented = to_hex (hmac_sha256 S key (utf8_encode (serialized c))))"
  by (auto simp: verify_token_iff compute_lookup_token_def split: option.splits sum.splits)

text \<open>
  C10. Base32 decoding packs the 5-bit digits big-endian: the bytes are the whole
  octets of the number the digits write, although the accumulator of the loop
  wraps at 32 bits.
\<close>

theorem base32_decodes_digits:
  "let ds = base32_digits (to_upper W (filter (\<lambda>c. \<not> (js_space c \<or> c = 61)) s))
   in length (base32_to_bytes W s) = 5 * length ds div 8
      \<and> be_value (base32_to_bytes W s) = base32_value ds div 2 ^ (5 * length ds mod 8)"
  by (simp add: base32_to_bytes_def base32_loop_spec Let_def)

text \<open>
  Key separation: entry keys of different credentials, versions or modes are
  derived under different HKDF info strings, whatever characters the identifiers
  contain, and none of these is the info string of the domain index key or of
  the Release Share KEK.
\<close>

theorem derivation_contexts_separate:
  "(build_context_info c = build_context_info d \<longleftrightarrow> c = d)
     \<and> build_context_info c \<noteq> domain_index_info
     \<and> build_context_info c \<noteq> release_share_kek_info
     \<and> release_share_kek_info \<noteq> domain_index_info"
  using build_context_info_inject domain_index_info_not_entry kek_info_not_entry kek_info_not_index
  by auto

subsection \<open>Authoring\<close>

text \<open>
  The caller's VEK buffer after authoring: it is zeroed exactly when authoring
  rejects; after a success it still holds the key.
\<close>

theorem authoring_leaves_key_on_success:
  "snd (author_credential W S input (Some vek) existing R)
     = Some (if is_ok (fst (author_credential W S input (Some vek) existing R)) then vek
             else replicate (length vek) 0)"
  using author_credential_vek by (simp add: secure_zero_def)

text \<open>
  C13. Authoring succeeds only for an absolute http or https origin, a nonempty
  username and password and personal mode; the stored record is then personal,
  carries the canonical origin of its input and is found in the returned index
  under the returned token.
\<close>

theorem authoring_success_is_sound:
  assumes "author_credential W S input (Some vek) existing R = (Inr out, v)"
  shows "\<exists>orig c. ai_origin input = Some orig \<and> parse_absolute_origin W (trim orig) = Inr c
    \<and> ar_origin (au_record out) = serialized c \<and> ai_mode input \<noteq> Some Managed
    \<and> er_mode (au_record out) = Personal
    \<and> effective_username (ai_username input) \<noteq> [] \<and> ai_password input \<noteq> []
    \<and> er_id (au_record out) \<in> set (lookup_index (au_index out) (au_lookup_token out))"
proof (rule author_credential_ok [OF assms], goal_cases)
  case (1 vek1 orig c)
  then have "er_id (au_record out) \<in> set (lookup_index (au_index out) (au_lookup_token out))"
    by (auto simp: authored_as_def Let_def oix.lookup_add)
       (auto simp: lookup_index_def add_to_index_def Let_def split: option.splits)
  with 1 show ?case by (auto simp: authored_as_def Let_def)
qed

theorem authoring_success_is_sound_witness:
  "\<exists>out. fst (author_credential sample_web sample_subtle sample_input (Some sample_vek) None sample_random) = Inr out
     \<and> er_mode (au_record out) = Personal
     \<and> er_id (au_record out) \<in> set (lookup_index (au_index out) (au_lookup_token out))"
proof -
  obtain out where out: "author_credential sample_web sample_subtle sample_input (Some sample_vek) None sample_random
       = (Inr out, Some sample_vek)"
    using sample_author by blast
  from authoring_success_is_sound [OF this] out show ?thesis by auto
qed

subsection \<open>Step-up\<close>

text \<open>
  A step-up session that was begun and then driven by approvals, whatever
  bindings and times they were submitted with, carries the binding its challenge
  was started for; if it authorizes a retry then it is for that very binding and
  the transport accepted an approval of its challenge.
\<close>

theorem retry_only_after_approval:
  assumes "session_of start submit s" and "can_retry_release (Some s) b = Inr ()"
  shows "ss_binding s = b \<and> submit (ss_challenge_id s) = Inr ()
    \<and> (\<exists>c. start b = Some c \<and> sc_challenge_id c = ss_challenge_id s)"
  using session_of_justified [OF assms(1)] assms(2)
  by (auto simp: can_retry_release_def bindings_match_iff session_justified_def split: if_splits)

definition sample_binding :: step_up_binding where
  "sample_binding = \<lparr> sb_credential_id = lit ''c1'', sb_origin = lit ''https://a.io'', sb_operation = Op_Totp \<rparr>"

definition sample_start :: "step_up_binding \<Rightarrow> started_challenge option" where
  "sample_start b = Some \<lparr> sc_challenge_id = lit ''ch'', sc_expires_at = 100, sc_attempts_remaining = 0 \<rparr>"

definition sample_session :: step_up_session where
  "sample_session = \<lparr> ss_challenge_id = lit ''ch'', ss_binding = sample_binding, ss_expires_at = 100,
     ss_attempts_remaining = 0, ss_completed = True \<rparr>"

lemma sample_session_of: "session_of sample_start (\<lambda>_. Inr ()) sample_session"
proof (rule session_of.Approved)
  show "session_of sample_start (\<lambda>_. Inr ()) (sample_session\<lparr> ss_completed := False \<rparr>)"
    by (rule session_of.Begun [of _ sample_binding])
       (simp add: begin_step_up_def sample_start_def sample_session_def lit_def)
  show "submit_approval (\<lambda>_. Inr ()) (Some (sample_session\<lparr> ss_completed := False \<rparr>)) sample_binding 50
      = Inr sample_session"
    by (simp add: submit_approval_def check_session_def sample_session_def bindings_match_iff)
qed

theorem retry_only_after_approval_witness:
  "\<exists>c. sample_start sample_binding = Some c \<and> sc_challenge_id c = lit ''ch''"
  using retry_only_after_approval [OF sample_session_of, of sample_binding]
  by (simp add: can_retry_release_def sample_session_def bindings_match_iff)

end
