(* ===== verification/Managed_Properties.thy ===== *)
theory Managed_Properties
  imports Sample_Platform
begin

text \<open>
  The properties of capabilities, of the replay store and of managed authoring and
  release.
\<close>

definition sample_payload :: capability_payload where
  "sample_payload = \<lparr> cp_issuer = lit ''cybervault-plus'', cp_audience = lit ''cybervault-core'',
     cp_user_id = lit ''u'', cp_resource_id = lit ''s'', cp_operation = lit ''AUTOFILL'',
     cp_secret_ref = lit ''s'', cp_device_id = None, cp_assurance = 3, cp_iat = 1000, cp_exp = 1300,
     cp_jti = lit ''AgICAgICAgICAgICAgICAg=='', cp_version = 1 \<rparr>"

definition sample_token :: signed_capability where
  "sample_token = \<lparr> sg_payload = sample_payload, sg_signature = binary_to_base64 [1, 2, 3],
     sg_header = capability_header \<rparr>"

definition sample_context :: capability_binding_context where
  "sample_context = \<lparr> cb_user_id = lit ''u'', cb_resource_id = lit ''s'', cb_secret_ref = lit ''s'',
     cb_device_id = [] \<rparr>"

definition sample_release_input :: managed_release_input where
  "sample_release_input = \<lparr> mr_token = sample_token, mr_expected = Some sample_context,
     mr_vault_id = lit ''v'' \<rparr>"

definition sample_credential :: credential where
  "sample_credential = create_managed (lit ''c1'') 0 \<lparr> ci_vault_id = lit ''v'', ci_title = lit ''t'',
     ci_username = lit ''bob'', ci_encrypted_password = lit ''x'', ci_mode = Managed, ci_salt = lit ''y'',
     ci_version = None, ci_release_share_ref = Some (lit ''s''), ci_url = None, ci_notes = None,
     ci_tags = None, ci_favorite = None \<rparr>"

definition sample_managed_input :: managed_authoring_input where
  "sample_managed_input = \<lparr> mi_origin = Some (lit ''https://a.io''), mi_username = Some (lit ''bob''),
     mi_password = lit ''pw'', mi_title = None, mi_totp_seed_base32 = None,
     mi_vek = Some (replicate 32 5), mi_secret_ref = Some (lit ''s''), mi_existing_index = None,
     mi_id = None \<rparr>"

definition sample_managed_random :: managed_random where
  "sample_managed_random = \<lparr> mr_share = replicate 32 4, mr_salt = replicate 32 9, mr_id = lit ''c1'',
     mr_iv_secret = replicate 12 1, mr_iv_totp = replicate 12 2, mr_iv_wrap = replicate 12 3 \<rparr>"

definition sample_core :: "share_entries \<Rightarrow> share_entries release_core" where
  "sample_core st = \<lparr> core_find_credential = (\<lambda>r. Inr (Some sample_credential)),
     core_shares = in_memory_port, core_share_state = Some st,
     core_kek_secret = Some (replicate 32 8), core_plus_public_key = Some (replicate 32 1) \<rparr>"

lemma sample_managed_author:
  "\<exists>out st. managed_authoring_execute sample_web sample_subtle in_memory_port [] (Some (replicate 32 8))
       sample_managed_input sample_managed_random 0 [] = (Inr out, st)
     \<and> release_share_ref (au_record out) = Some (lit ''s'')"
  by (simp add: managed_authoring_execute_def validate_managed_origin_def sample_managed_input_def
        absolute_prefix_def scheme_char_def starts_with_def sample_eval validate_managed_fields_def
        effective_username_def effective_title_def derive_kek_or_reject_def derive_release_share_kek_def
        release_share_kek_secret_bytes_def sample_subtle_def sample_managed_random_def kek_bits_def
        seal_managed_secrets_def derive_managed_entry_key_def derived_key_decodes seal_def
        compute_lookup_token_def wrap_and_persist_share_def wrap_release_share_def in_memory_port_def Let_def)

lemma sample_encodes: "\<exists>bs. encode_capability_payload sample_payload = Inr bs"
  by (simp add: encode_capability_payload_def sample_payload_def push_string_def push_optional_string_def
        utf8_encode_ascii bytes_of_def lit_def)

lemma sample_acceptable:
  "1300 \<ge> now \<Longrightarrow> 940 \<le> now \<Longrightarrow> capability_acceptable sample_curve now sample_token (replicate 32 1)"
  using sample_encodes
  by (simp add: capability_acceptable_def sample_token_def base64_round_trip sample_curve_def Let_def)
     (simp add: sample_payload_def capability_operations_def capability_version_def)

lemma sample_bound: "capability_bound sample_payload sample_context"
  by (simp add: capability_bound_def sample_payload_def sample_context_def lit_def)

lemma sample_payload_fields:
  "cp_iat sample_payload = 1000" "cp_exp sample_payload = 1300" "16 \<le> length (cp_jti sample_payload)"
  "cp_secret_ref sample_payload = lit ''s''" "cp_operation sample_payload \<in> set releasable_operations"
  by (simp_all add: sample_payload_def releasable_operations_def)

lemma sample_token_payload: "sg_payload (mr_token sample_release_input) = sample_payload"
  by (simp add: sample_release_input_def sample_token_def)

text \<open>A first release, at the second the capability was issued or one second later.\<close>

lemma sample_release_ok:
  assumes "managed_authoring_execute sample_web sample_subtle in_memory_port [] (Some (replicate 32 8))
       sample_managed_input sample_managed_random 0 [] = (Inr out, st)"
    and "release_share_ref (au_record out) = Some (lit ''s'')"
    and "940 \<le> v div 1000" and "v div 1000 \<le> 1300"
    and "\<not> jti_spent jtis t (cp_jti sample_payload)"
  shows "\<exists>ro. fst (managed_release_execute sample_subtle sample_curve (sample_core st)
     sample_release_input v t jtis) = Inr ro"
proof -
  obtain kek e where "derive_release_share_kek sample_subtle (Some (replicate 32 8)) = Inr kek"
    "port_find in_memory_port st (lit ''s'') = Inr (Some e)" "rs_secret_ref e = lit ''s''"
    "unwrap_release_share sample_subtle kek (rs_wrapped_share e) (lit ''s'') = Inr (mr_share sample_managed_random)"
    using mem.authored_share_found [OF assms(1) sample_aead_ok] assms(2)
    by (auto simp: sample_managed_random_def wrap_iv_len_def)
  moreover have "is_managed sample_credential" "cr_release_share_ref sample_credential = Some (lit ''s'')"
    "cr_vault_id sample_credential = lit ''v''"
    by (simp_all add: sample_credential_def create_managed_def is_managed_def)
  moreover have "lit ''v'' \<noteq> []" by (simp add: lit_def)
  ultimately have "release_justified sample_subtle sample_curve (sample_core st) sample_release_input v t jtis
      \<lparr> ro_release_share = binary_to_base64 (mr_share sample_managed_random),
        ro_credential_id = cr_id sample_credential \<rparr>"
    using assms(3-5) sample_acceptable [of "v div 1000"] sample_bound
    by (simp add: release_justified_def sample_token_payload sample_payload_fields sample_core_def Let_def)
       (simp add: sample_release_input_def)
  from justified_managed_release [OF this] show ?thesis by blast
qed

lemma sample_release_pair:
  assumes "940 \<le> v div 1000" and "v div 1000 \<le> 1300"
  obtains out st ro j where
    "managed_authoring_execute sample_web sample_subtle in_memory_port [] (Some (replicate 32 8))
       sample_managed_input sample_managed_random 0 [] = (Inr out, st)"
    "release_share_ref (au_record out) = Some (lit ''s'')"
    "managed_release_execute sample_subtle sample_curve (sample_core st)
       sample_release_input v t empty_jti_store = (Inr ro, j)"
proof -
  obtain out st where a: "managed_authoring_execute sample_web sample_subtle in_memory_port [] (Some (replicate 32 8))
       sample_managed_input sample_managed_random 0 [] = (Inr out, st)"
    "release_share_ref (au_record out) = Some (lit ''s'')"
    using sample_managed_author by blast
  have "\<not> jti_spent empty_jti_store t (cp_jti sample_payload)"
    by (simp add: jti_spent_def empty_jti_store_def)
  from sample_release_ok [OF a assms this] obtain ro where
    "fst (managed_release_execute sample_subtle sample_curve (sample_core st)
       sample_release_input v t empty_jti_store) = Inr ro" by blast
  then show ?thesis using a that by (metis prod.collapse)
qed

subsection \<open>Managed release\<close>

text \<open>
  C15. Core releases a share exactly when everything it must check holds: a pinned
  Plus key verified the capability, its time, issuer, audience and operation are
  right, user, resource, secret and device are the expected ones, its identifier
  was not spent, the credential found by its secret reference is managed, lives in
  the requested vault and has that reference, and the stored share unwraps under
  the configured key; the share is then what was unwrapped.
\<close>

theorem managed_release_exactly_when_justified:
  "fst (managed_release_execute S C K input v t jtis) = Inr out
     \<longleftrightarrow> release_justified S C K input v t jtis out"
  using managed_release_justified justified_managed_release by (metis prod.collapse)

text \<open>
  The share that Core releases for a credential authored server-side is the
  share that was minted for it, for the in-memory share store and every secret
  reference: authoring wraps it and release unwraps it.
\<close>

theorem authored_share_is_released:
  assumes "managed_authoring_execute W S in_memory_port err kek_secret inp R now st = (Inr out, st')"
    and "aead_ok S" and "length (mr_iv_wrap R) = wrap_iv_len"
    and "managed_release_execute S C K input v t jtis = (Inr ro, jtis')"
    and "core_shares K = in_memory_port" and "core_share_state K = Some st'"
    and "core_kek_secret K = kek_secret"
    and "release_share_ref (au_record out) = Some (cp_secret_ref (sg_payload (mr_token input)))"
  shows "ro_release_share ro = binary_to_base64 (mr_share R)"
  using assms by (rule released_share_is_authored)

theorem authored_share_is_released_witness:
  "\<exists>st (ro :: release_output). fst (managed_release_execute sample_subtle sample_curve (sample_core st)
       sample_release_input 1001000 1001000 empty_jti_store) = Inr ro
     \<and> ro_release_share ro = binary_to_base64 (replicate 32 4)"
proof -
  obtain out st ro j where
    a: "managed_authoring_execute sample_web sample_subtle in_memory_port [] (Some (replicate 32 8))
       sample_managed_input sample_managed_random 0 [] = (Inr out, st)"
    and r: "release_share_ref (au_record out) = Some (lit ''s'')"
    and m: "managed_release_execute sample_subtle sample_curve (sample_core st)
       sample_release_input 1001000 1001000 empty_jti_store = (Inr ro, j)"
    by (rule sample_release_pair [where v = 1001000 and t = 1001000], simp, simp, blast)
  have "ro_release_share ro = binary_to_base64 (mr_share sample_managed_random)"
    using r by (intro authored_share_is_released [OF a sample_aead_ok _ m])
      (simp_all add: sample_managed_random_def wrap_iv_len_def sample_core_def sample_token_payload sample_payload_fields)
  with m show ?thesis
    by (intro exI [of _ st] exI [of _ ro]) (simp add: sample_managed_random_def)
qed

text \<open>
  C17. No capability is released twice once its issue second is over: if a release
  succeeded with its identifier consumed at least one second after iat, then
  after any calls on the replay store up to a later time, no release with the same
  capability succeeds at that time, on any state of Core.
\<close>

theorem capability_released_once:
  assumes "managed_release_execute S C K input v t jtis = (Inr out, jtis')"
    and "(cp_iat (sg_payload (mr_token input)) + 1) * 1000 \<le> t"
    and "sg_payload (mr_token input') = sg_payload (mr_token input)"
    and "\<forall>e \<in> set es. event_at_most u e"
  shows "fst (managed_release_execute S C K' input' u u (jti_after jtis' es)) \<noteq> Inr out'"
  using assms by (rule managed_release_never_twice)

theorem capability_released_once_witness:
  "\<exists>st ro j. managed_release_execute sample_subtle sample_curve (sample_core st)
       sample_release_input 1001000 1001000 empty_jti_store = (Inr ro, j)
     \<and> fst (managed_release_execute sample_subtle sample_curve (sample_core st)
       sample_release_input 1300999 1300999 (jti_after j [Sweep 1300998])) \<noteq> Inr ro"
proof -
  obtain st ro j where m: "managed_release_execute sample_subtle sample_curve (sample_core st)
       sample_release_input 1001000 1001000 empty_jti_store = (Inr ro, j)"
    by (rule sample_release_pair [where v = 1001000 and t = 1001000], simp, simp, blast)
  have "fst (managed_release_execute sample_subtle sample_curve (sample_core st)
       sample_release_input 1300999 1300999 (jti_after j [Sweep 1300998])) \<noteq> Inr ro"
    by (rule capability_released_once [OF m])
       (simp_all add: sample_token_payload sample_payload_fields event_at_most_def)
  with m show ?thesis by blast
qed

text \<open>
  The replay window: when the identifier is consumed before the second after
  iat begins (always, for a capability used in the second it was issued, and for up
  to 61 seconds with the permitted clock skew), the store forgets it while the
  capability is still within its validity, and the replay check lets it pass a
  second time.
\<close>

theorem replay_passes_before_expiry:
  assumes "16 \<le> length (cp_jti p)" and "fst (try_consume st t (cp_jti p) (cp_exp p - cp_iat p))"
    and "t < (cp_iat p + 1) * 1000" and "t + (cp_exp p - cp_iat p) * 1000 \<le> u"
    and "u div 1000 \<le> cp_exp p"
  shows "fst (verify_and_consume_jti (snd (verify_and_consume_jti st t (cp_jti p) (cp_exp p - cp_iat p)))
           u (cp_jti p) (cp_exp p - cp_iat p)) = Jti_Allowed"
  using assms by (rule replay_window)

theorem replay_passes_before_expiry_witness:
  "fst (verify_and_consume_jti (snd (verify_and_consume_jti empty_jti_store 1000000 (cp_jti sample_payload) 300))
           1300500 (cp_jti sample_payload) 300) = Jti_Allowed"
  using replay_passes_before_expiry [of sample_payload empty_jti_store 1000000 1300500]
  by (simp add: sample_payload_fields jti.consume_result) (simp add: jti_spent_def empty_jti_store_def)

subsection \<open>Capabilities\<close>

text \<open>
  The canonical encoding of a capability is read back: decoding the bytes
  that are signed gives the payload, for every payload with byte-sized version and
  assurance, times that are nonnegative safe integers, no empty device, and texts
  that TextDecoder reads back.  So the signed bytes determine such a payload.
\<close>

theorem capability_encoding_reads_back:
  assumes "encode_capability_payload p = Inr bs" and "encodable S p"
  shows "decode_capability_payload S bs = Inr p"
  using assms by (rule decode_encoded)

theorem capability_encoding_reads_back_witness:
  "\<exists>bs. decode_capability_payload sample_subtle bs = Inr sample_payload"
proof -
  obtain bs where bs: "encode_capability_payload sample_payload = Inr bs"
    using sample_encodes by blast
  have "encodable sample_subtle sample_payload"
    unfolding encodable_def sample_payload_def by (simp add: sample_decodes lit_def)
  from capability_encoding_reads_back [OF bs this] show ?thesis by blast
qed

text \<open>
  The expiry that is signed is only known modulo 2^64: a payload whose expiry
  is raised by 2^64 has the same signed bytes, so the signature of the one is a
  signature of the other.
\<close>

theorem capability_expiry_wraps:
  "encode_capability_payload (p\<lparr> cp_exp := cp_exp p + 2 ^ 64 \<rparr>) = encode_capability_payload p"
  by (rule encode_exp_mod) simp

end
