(* ===== verification/Plus_Operations.thy ===== *)
theory Plus_Operations
  imports Capability
begin

text \<open>
  The registry of operations of CyberVault Plus: plus/domain/operations.ts.  The
  union of operation codes is the list of their names, as a request carries them;
  the risk levels, which resources use for their criticality too, are ordered from
  low to critical.
\<close>

datatype risk_level = Low | Medium | High | Critical

primrec level_rank :: "risk_level \<Rightarrow> nat" where
  "level_rank Low = 0"
| "level_rank Medium = 1"
| "level_rank High = 2"
| "level_rank Critical = 3"

primrec level_name :: "risk_level \<Rightarrow> jstr" where
  "level_name Low = lit ''low''"
| "level_name Medium = lit ''medium''"
| "level_name High = lit ''high''"
| "level_name Critical = lit ''critical''"

instantiation risk_level :: linorder
begin

definition less_eq_risk_level :: "risk_level \<Rightarrow> risk_level \<Rightarrow> bool" where
  "less_eq_risk_level a b \<longleftrightarrow> level_rank a \<le> level_rank b"

definition less_risk_level :: "risk_level \<Rightarrow> risk_level \<Rightarrow> bool" where
  "less_risk_level a b \<longleftrightarrow> level_rank a < level_rank b"

instance
proof
  show "a = b" if "a \<le> b" and "b \<le> a" for a b :: risk_level
    using that by (cases a; cases b) (simp_all add: less_eq_risk_level_def)
qed (auto simp: less_eq_risk_level_def less_risk_level_def)

end

datatype operation_category = Credential_Op | Connection_Op | Administrative_Op | Backup_Op | Secret_Op

primrec category_name :: "operation_category \<Rightarrow> jstr" where
  "category_name Credential_Op = lit ''credential''"
| "category_name Connection_Op = lit ''connection''"
| "category_name Administrative_Op = lit ''administrative''"
| "category_name Backup_Op = lit ''backup''"
| "category_name Secret_Op = lit ''secret''"

record operation_metadata =
  om_operation :: jstr
  om_display_name :: string
  om_description :: string
  om_category :: operation_category
  om_default_risk_level :: risk_level
  om_requires_step_up :: bool
  om_audit_category :: jstr

definition registry_row ::
  "string \<Rightarrow> string \<Rightarrow> string \<Rightarrow> operation_category \<Rightarrow> risk_level \<Rightarrow> bool \<Rightarrow> string
     \<Rightarrow> jstr \<times> operation_metadata" where
  "registry_row code name desc cat level step_up audit =
     (lit code, \<lparr> om_operation = lit code, om_display_name = name, om_description = desc,
        om_category = cat, om_default_risk_level = level, om_requires_step_up = step_up,
        om_audit_category = lit audit \<rparr>)"

text \<open>The properties of the registry object, in the order of the literal.\<close>

definition operations_registry :: "(jstr \<times> operation_metadata) list" where
  "operations_registry =
    [registry_row ''AUTOFILL'' ''Auto-fill Credentials''
       ''Automatically fill username/password in web forms'' Credential_Op Medium False ''credential_access'',
     registry_row ''VIEW'' ''View Credential''
       ''View credential details (username, password, metadata) in UI'' Credential_Op Low False ''credential_access'',
     registry_row ''TOTP'' ''Generate TOTP Code''
       ''Generate time-based one-time password for 2FA'' Credential_Op Low False ''credential_access'',
     registry_row ''CONNECT'' ''Initiate Connection''
       ''Establish SSH, RDP, VPN, or database connection using credential'' Connection_Op Medium False ''connection'',
     registry_row ''READ'' ''Read Resource Data''
       ''Read data from resource (database query, API GET, file read)'' Connection_Op Low False ''data_access'',
     registry_row ''ADMIN'' ''Administrative Action''
       ''Perform administrative operations (user mgmt, config changes, deployments)'' Administrative_Op Critical True
       ''admin_action'',
     registry_row ''BACKUP'' ''Trigger Backup''
       ''Initiate backup of resource (database dump, config backup, snapshot)'' Backup_Op High True ''backup'',
     registry_row ''RESTORE'' ''Restore from Backup''
       ''Restore resource from backup (database restore, config restore)'' Backup_Op Critical True ''backup'',
     registry_row ''ROTATE_SECRET'' ''Rotate Secret''
       ''Rotate credential/secret (password change, key rotation, cert renewal)'' Secret_Op High True
       ''secret_management'',
     registry_row ''EDIT_SECRET'' ''Edit Secret'' ''Modify secret value or metadata'' Secret_Op High True
       ''secret_management'',
     registry_row ''DELETE_SECRET'' ''Delete Secret'' ''Permanently delete a secret/credential'' Secret_Op Critical True
       ''secret_management'',
     registry_row ''EXPORT_SECRET'' ''Export Secret''
       ''Export secret in portable format (may be denied by policy)'' Secret_Op Critical True ''secret_management'']"

definition all_operations :: "jstr list" where
  "all_operations = map fst operations_registry"

definition operations_by_category :: "(jstr \<times> jstr list) list" where
  "operations_by_category =
    [(lit ''credential'', map lit [''AUTOFILL'', ''VIEW'', ''TOTP'']),
     (lit ''connection'', map lit [''CONNECT'', ''READ'']),
     (lit ''administrative'', map lit [''ADMIN'']),
     (lit ''backup'', map lit [''BACKUP'', ''RESTORE'']),
     (lit ''secret'', map lit [''ROTATE_SECRET'', ''EDIT_SECRET'', ''DELETE_SECRET'', ''EXPORT_SECRET''])]"

definition default_step_up_operations :: "jstr list" where
  "default_step_up_operations = map lit
     [''ADMIN'', ''BACKUP'', ''RESTORE'', ''ROTATE_SECRET'', ''EDIT_SECRET'', ''DELETE_SECRET'', ''EXPORT_SECRET'']"

text \<open>None: the property access on an unregistered code yields undefined.\<close>

definition get_operation_metadata :: "jstr \<Rightarrow> operation_metadata option" where
  "get_operation_metadata op = map_of operations_registry op"

definition get_default_risk_level :: "jstr \<Rightarrow> risk_level option" where
  "get_default_risk_level op = map_option om_default_risk_level (map_of operations_registry op)"

definition requires_step_up_by_default :: "jstr \<Rightarrow> bool option" where
  "requires_step_up_by_default op = map_option om_requires_step_up (map_of operations_registry op)"

definition get_operations_by_category :: "jstr \<Rightarrow> jstr list" where
  "get_operations_by_category cat = (case map_of operations_by_category cat of None \<Rightarrow> [] | Some ops \<Rightarrow> ops)"

definition is_valid_operation :: "jstr \<Rightarrow> bool" where
  "is_valid_operation op \<longleftrightarrow> op \<in> set (map fst operations_registry)"

definition get_audit_category :: "jstr \<Rightarrow> jstr option" where
  "get_audit_category op = map_option om_audit_category (map_of operations_registry op)"

subsection \<open>The tables agree\<close>

lemmas registry_defs = operations_registry_def registry_row_def lit_def

lemma registry_covers_capabilities: "all_operations = capability_operations"
  by (simp add: all_operations_def capability_operations_def registry_defs)

lemma step_up_table_agrees:
  "requires_step_up_by_default op = Some True \<longleftrightarrow> op \<in> set default_step_up_operations"
  by (simp add: requires_step_up_by_default_def default_step_up_operations_def registry_defs)

lemma registered_high_needs_step_up:
  "list_all (\<lambda>(op, m). om_operation m = op
      \<and> (om_requires_step_up m \<longleftrightarrow> High \<le> om_default_risk_level m)) operations_registry"
  by (simp add: registry_defs less_eq_risk_level_def)

lemma categories_agree:
  "list_all (\<lambda>(op, m). op \<in> set (get_operations_by_category (category_name (om_category m)))) operations_registry"
  by (simp add: get_operations_by_category_def operations_by_category_def registry_defs)

lemma is_valid_operation_iff: "is_valid_operation op \<longleftrightarrow> op \<in> set capability_operations"
  using registry_covers_capabilities by (simp add: is_valid_operation_def all_operations_def)

end
