(* ===== verification/Entitlement.thy ===== *)
theory Entitlement
  imports Plus_Operations Credential_Entity "HOL-Library.AList"
begin

text \<open>
  The entitlement of a user on a resource: plus/domain/entities/entitlement.ts.
  Dates are milliseconds; a method that reads the clock takes it as its first
  argument and returns the entitlement it leaves.  The operations array handed to
  the constructor is shared with the caller in the code; the model copies it.
\<close>

datatype pestillo_state = P_Closed | P_Enabled | P_Step_Up | P_Temporary

type_synonym metadata = "(jstr \<times> json) list"

text \<open>Object spread: keys of the second object win, in the place of the first occurrence.\<close>

definition spread :: "(jstr \<times> 'a) list \<Rightarrow> (jstr \<times> 'a) list \<Rightarrow> (jstr \<times> 'a) list" where
  "spread base override = fold (\<lambda>(k, v). AList.update k v) override base"

lemma map_of_spread: "map_of (spread base override) = map_of base ++ map_of (rev override)"
proof (induction override arbitrary: base)
  case (Cons kv override)
  obtain k v where kv: "kv = (k, v)" by (cases kv)
  have "map_of (spread base (kv # override)) = map_of (spread (AList.update k v base) override)"
    by (simp add: spread_def kv)
  then show ?case using Cons by (simp add: kv update_conv map_add_upd_left fun_eq_iff map_add_def split: option.split)
qed (simp add: spread_def)

record entitlement =
  en_id :: jstr
  en_user_id :: jstr
  en_resource_id :: jstr
  en_pestillo :: pestillo_state
  en_operations :: "jstr list"
  en_valid_from :: "int option"
  en_valid_until :: "int option"
  en_metadata :: "metadata option"
  en_created_at :: int
  en_updated_at :: int
  en_created_by :: jstr

subsection \<open>State\<close>

definition is_currently_valid :: "int \<Rightarrow> entitlement \<Rightarrow> bool" where
  "is_currently_valid now e =
     (if en_pestillo e = P_Closed then False
      else if (case en_valid_from e of None \<Rightarrow> False | Some f \<Rightarrow> now < f) then False
      else if (case en_valid_until e of None \<Rightarrow> False | Some u \<Rightarrow> now \<ge> u) then False
      else True)"

definition get_effective_state :: "int \<Rightarrow> entitlement \<Rightarrow> pestillo_state" where
  "get_effective_state now e = (if \<not> is_currently_valid now e then P_Closed else en_pestillo e)"

definition is_operation_allowed :: "jstr \<Rightarrow> entitlement \<Rightarrow> bool" where
  "is_operation_allowed op e \<longleftrightarrow> op \<in> set (en_operations e)"

definition requires_step_up :: "entitlement \<Rightarrow> bool" where
  "requires_step_up e \<longleftrightarrow> en_pestillo e = P_Step_Up"

definition is_temporary :: "entitlement \<Rightarrow> bool" where
  "is_temporary e \<longleftrightarrow> en_pestillo e = P_Temporary"

subsection \<open>Changes\<close>

definition set_pestillo_state :: "int \<Rightarrow> pestillo_state \<Rightarrow> int option \<Rightarrow> entitlement \<Rightarrow> entitlement" where
  "set_pestillo_state now st valid_until e =
     (let e1 = e\<lparr> en_pestillo := st \<rparr>;
          e2 = (if st = P_Temporary \<and> valid_until \<noteq> None then e1\<lparr> en_valid_until := valid_until \<rparr>
                else if st \<noteq> P_Temporary then e1\<lparr> en_valid_until := None \<rparr>
                else e1)
      in e2\<lparr> en_updated_at := now \<rparr>)"

definition add_operation :: "int \<Rightarrow> jstr \<Rightarrow> entitlement \<Rightarrow> entitlement" where
  "add_operation now op e =
     (if op \<notin> set (en_operations e)
      then e\<lparr> en_operations := en_operations e @ [op], en_updated_at := now \<rparr> else e)"

definition remove_operation :: "int \<Rightarrow> jstr \<Rightarrow> entitlement \<Rightarrow> entitlement" where
  "remove_operation now op e =
     (if op \<in> set (en_operations e)
      then e\<lparr> en_operations := remove1 op (en_operations e), en_updated_at := now \<rparr> else e)"

definition set_operations :: "int \<Rightarrow> jstr list \<Rightarrow> entitlement \<Rightarrow> entitlement" where
  "set_operations now ops e = e\<lparr> en_operations := ops, en_updated_at := now \<rparr>"

definition set_validity :: "int \<Rightarrow> int option \<Rightarrow> int option \<Rightarrow> entitlement \<Rightarrow> entitlement" where
  "set_validity now valid_from valid_until e =
     e\<lparr> en_valid_from := valid_from, en_valid_until := valid_until, en_updated_at := now \<rparr>"

definition update_metadata :: "int \<Rightarrow> metadata \<Rightarrow> entitlement \<Rightarrow> entitlement" where
  "update_metadata now m e =
     e\<lparr> en_metadata := Some (spread (case en_metadata e of None \<Rightarrow> [] | Some b \<Rightarrow> b) m),
        en_updated_at := now \<rparr>"

subsection \<open>Construction and serialization\<close>

record entitlement_input =
  ein_user_id :: jstr
  ein_resource_id :: jstr
  ein_pestillo :: pestillo_state
  ein_operations :: "jstr list"
  ein_valid_from :: "int option"
  ein_valid_until :: "int option"
  ein_metadata :: "metadata option"
  ein_created_by :: jstr

definition create_entitlement :: "int \<Rightarrow> entitlement_input \<Rightarrow> entitlement" where
  "create_entitlement now i =
     \<lparr> en_id = ein_user_id i @ lit '':'' @ ein_resource_id i,
       en_user_id = ein_user_id i, en_resource_id = ein_resource_id i,
       en_pestillo = ein_pestillo i, en_operations = ein_operations i,
       en_valid_from = ein_valid_from i, en_valid_until = ein_valid_until i,
       en_metadata = ein_metadata i, en_created_at = now, en_updated_at = now,
       en_created_by = ein_created_by i \<rparr>"

record plain_entitlement =
  pe_id :: jstr
  pe_user_id :: jstr
  pe_resource_id :: jstr
  pe_pestillo :: pestillo_state
  pe_operations :: "jstr list"
  pe_valid_from :: "jstr option"
  pe_valid_until :: "jstr option"
  pe_metadata :: "metadata option"
  pe_created_at :: jstr
  pe_updated_at :: jstr
  pe_created_by :: jstr

text \<open>\<^verbatim>\<open>s ? new Date(s) : undefined\<close>.\<close>

definition optional_date :: "dates \<Rightarrow> jstr option \<Rightarrow> int option" where
  "optional_date T s = (case s of None \<Rightarrow> None | Some t \<Rightarrow> if t = [] then None else Some (of_iso T t))"

definition entitlement_from_plain :: "dates \<Rightarrow> plain_entitlement \<Rightarrow> entitlement" where
  "entitlement_from_plain T p =
     \<lparr> en_id = pe_id p, en_user_id = pe_user_id p, en_resource_id = pe_resource_id p,
       en_pestillo = pe_pestillo p, en_operations = pe_operations p,
       en_valid_from = optional_date T (pe_valid_from p),
       en_valid_until = optional_date T (pe_valid_until p),
       en_metadata = pe_metadata p, en_created_at = of_iso T (pe_created_at p),
       en_updated_at = of_iso T (pe_updated_at p), en_created_by = pe_created_by p \<rparr>"

text \<open>\<^verbatim>\<open>JSON.parse(JSON.stringify(m))\<close> of an object; None: it throws, or yields no object.\<close>

definition clone_metadata :: "subtle \<Rightarrow> metadata option \<Rightarrow> metadata option option" where
  "clone_metadata S m = (case m of
     None \<Rightarrow> Some None
   | Some kvs \<Rightarrow> (case json_parse S (json_stringify S (JObj kvs)) of
       Some (JObj kvs') \<Rightarrow> Some (Some kvs') | _ \<Rightarrow> None))"

definition entitlement_to_plain :: "subtle \<Rightarrow> dates \<Rightarrow> entitlement \<Rightarrow> plain_entitlement option" where
  "entitlement_to_plain S T e = (case clone_metadata S (en_metadata e) of
     None \<Rightarrow> None
   | Some m \<Rightarrow> Some
     \<lparr> pe_id = en_id e, pe_user_id = en_user_id e, pe_resource_id = en_resource_id e,
       pe_pestillo = en_pestillo e, pe_operations = en_operations e,
       pe_valid_from = map_option (to_iso T) (en_valid_from e),
       pe_valid_until = map_option (to_iso T) (en_valid_until e), pe_metadata = m,
       pe_created_at = to_iso T (en_created_at e), pe_updated_at = to_iso T (en_updated_at e),
       pe_created_by = en_created_by e \<rparr>)"

record safe_entitlement =
  se_id :: jstr
  se_user_id :: jstr
  se_resource_id :: jstr
  se_pestillo :: pestillo_state
  se_operations :: "jstr list"
  se_valid_from :: "jstr option"
  se_valid_until :: "jstr option"
  se_currently_valid :: bool
  se_effective_state :: pestillo_state

definition entitlement_to_safe :: "int \<Rightarrow> dates \<Rightarrow> entitlement \<Rightarrow> safe_entitlement" where
  "entitlement_to_safe now T e =
     \<lparr> se_id = en_id e, se_user_id = en_user_id e, se_resource_id = en_resource_id e,
       se_pestillo = en_pestillo e, se_operations = en_operations e,
       se_valid_from = map_option (to_iso T) (en_valid_from e),
       se_valid_until = map_option (to_iso T) (en_valid_until e),
       se_currently_valid = is_currently_valid now e, se_effective_state = get_effective_state now e \<rparr>"

subsection \<open>What the state means\<close>

lemma currently_valid_iff:
  "is_currently_valid now e \<longleftrightarrow> en_pestillo e \<noteq> P_Closed
     \<and> (\<forall>f. en_valid_from e = Some f \<longrightarrow> f \<le> now) \<and> (\<forall>u. en_valid_until e = Some u \<longrightarrow> now < u)"
  by (auto simp: is_currently_valid_def split: option.splits)

lemma effective_state_cases:
  "get_effective_state now e = P_Closed \<or> get_effective_state now e = en_pestillo e \<and> is_currently_valid now e"
  by (simp add: get_effective_state_def)

text \<open>An entitlement that has passed its end is closed at every later time.\<close>

lemma expired_stays_closed:
  assumes "en_valid_until e = Some u" and "u \<le> now"
  shows "get_effective_state now e = P_Closed"
  using assms by (simp add: get_effective_state_def is_currently_valid_def split: option.splits)

lemma set_pestillo_unbounded:
  assumes "st \<noteq> P_Temporary \<or> v = None \<and> en_valid_until e = None"
  shows "en_valid_until (set_pestillo_state t st v e) = None"
  using assms by (auto simp: set_pestillo_state_def Let_def)

lemma no_end_stays_valid:
  assumes "en_valid_until e = None" and "is_currently_valid now e" and "now \<le> later"
  shows "get_effective_state later e = en_pestillo e"
  using assms by (auto simp: get_effective_state_def currently_valid_iff)

lemma optional_date_iso: "(\<And>t. x = Some t \<Longrightarrow> dates_ok T t) \<Longrightarrow> optional_date T (map_option (to_iso T) x) = x"
  by (cases x) (auto simp: optional_date_def dates_ok_def)

definition entitlement_dates :: "entitlement \<Rightarrow> int set" where
  "entitlement_dates e = {en_created_at e, en_updated_at e} \<union> set_option (en_valid_from e) \<union> set_option (en_valid_until e)"

lemma entitlement_round_trip:
  assumes "\<forall>t \<in> entitlement_dates e. dates_ok T t"
    and "\<And>m. en_metadata e = Some m \<Longrightarrow> json_parse S (json_stringify S (JObj m)) = Some (JObj m)"
  shows "map_option (entitlement_from_plain T) (entitlement_to_plain S T e) = Some e"
proof -
  have m: "clone_metadata S (en_metadata e) = Some (en_metadata e)"
    using assms(2) by (cases "en_metadata e") (simp_all add: clone_metadata_def)
  have d: "dates_ok T (en_created_at e)" "dates_ok T (en_updated_at e)"
    "\<And>t. en_valid_from e = Some t \<Longrightarrow> dates_ok T t" "\<And>t. en_valid_until e = Some t \<Longrightarrow> dates_ok T t"
    using assms(1) by (simp_all add: entitlement_dates_def)
  show ?thesis
    using d by (simp add: entitlement_to_plain_def m entitlement_from_plain_def optional_date_iso dates_ok_def)
qed

lemma operations_stay_distinct:
  "distinct (en_operations e) \<Longrightarrow> distinct (en_operations (add_operation t op e))"
  "distinct (en_operations e) \<Longrightarrow> distinct (en_operations (remove_operation t op e))"
  by (simp_all add: add_operation_def remove_operation_def)

lemma operation_allowed_changes:
  "is_operation_allowed x (add_operation t op e) \<longleftrightarrow> x = op \<or> is_operation_allowed x e"
  "distinct (en_operations e) \<Longrightarrow>
     is_operation_allowed x (remove_operation t op e) \<longleftrightarrow> x \<noteq> op \<and> is_operation_allowed x e"
  by (auto simp: is_operation_allowed_def add_operation_def remove_operation_def)

end
