(* ===== verification/Plus_Entities.thy ===== *)
theory Plus_Entities
  imports Entitlement Origin
begin

text \<open>
  The users and resources of CyberVault Plus: plus/domain/entities/user.ts and
  resource.ts.  The case tables are those of the record \<^verbatim>\<open>web\<close>; the clock is the
  first argument of what reads it.
\<close>

subsection \<open>Users\<close>

datatype user_role = Role_Admin | Role_Operator | Role_Viewer | Role_Auditor

record plus_user =
  pu_id :: jstr
  pu_email :: jstr
  pu_name :: jstr
  pu_role :: user_role
  pu_habitual_countries :: "jstr list"
  pu_timezone :: jstr
  pu_active :: bool
  pu_metadata :: "metadata option"
  pu_created_at :: int
  pu_updated_at :: int
  pu_last_login_at :: "int option"
  pu_failed_pin_attempts :: int
  pu_locked_until :: "int option"

text \<open>\<^verbatim>\<open>PinLockoutState\<close>, as the persistence port reads and writes it.\<close>

record pin_lockout_state =
  pl_failed_pin_attempts :: int
  pl_locked_until :: "int option"

definition update_profile ::
  "int \<Rightarrow> jstr option \<Rightarrow> user_role option \<Rightarrow> jstr option \<Rightarrow> plus_user \<Rightarrow> plus_user" where
  "update_profile now name role tz u =
     (let u1 = (case name of None \<Rightarrow> u | Some n \<Rightarrow> u\<lparr> pu_name := n \<rparr>);
          u2 = (case role of None \<Rightarrow> u1 | Some r \<Rightarrow> u1\<lparr> pu_role := r \<rparr>);
          u3 = (case tz of None \<Rightarrow> u2 | Some t \<Rightarrow> u2\<lparr> pu_timezone := t \<rparr>)
      in u3\<lparr> pu_updated_at := now \<rparr>)"

definition add_habitual_country :: "web \<Rightarrow> int \<Rightarrow> jstr \<Rightarrow> plus_user \<Rightarrow> plus_user" where
  "add_habitual_country W now code u =
     (let upper = to_upper W code in
      if upper \<notin> set (pu_habitual_countries u)
      then u\<lparr> pu_habitual_countries := pu_habitual_countries u @ [upper], pu_updated_at := now \<rparr> else u)"

definition remove_habitual_country :: "web \<Rightarrow> int \<Rightarrow> jstr \<Rightarrow> plus_user \<Rightarrow> plus_user" where
  "remove_habitual_country W now code u =
     (let upper = to_upper W code in
      if upper \<in> set (pu_habitual_countries u)
      then u\<lparr> pu_habitual_countries := remove1 upper (pu_habitual_countries u), pu_updated_at := now \<rparr> else u)"

definition set_user_active :: "int \<Rightarrow> bool \<Rightarrow> plus_user \<Rightarrow> plus_user" where
  "set_user_active now a u = u\<lparr> pu_active := a, pu_updated_at := now \<rparr>"

definition record_login :: "int \<Rightarrow> plus_user \<Rightarrow> plus_user" where
  "record_login now u = u\<lparr> pu_last_login_at := Some now \<rparr>"

definition update_user_metadata :: "int \<Rightarrow> metadata \<Rightarrow> plus_user \<Rightarrow> plus_user" where
  "update_user_metadata now m u =
     u\<lparr> pu_metadata := Some (spread (case pu_metadata u of None \<Rightarrow> [] | Some b \<Rightarrow> b) m), pu_updated_at := now \<rparr>"

definition is_country_habitual :: "web \<Rightarrow> jstr \<Rightarrow> plus_user \<Rightarrow> bool" where
  "is_country_habitual W code u \<longleftrightarrow> to_upper W code \<in> set (pu_habitual_countries u)"

definition has_role :: "user_role list \<Rightarrow> plus_user \<Rightarrow> bool" where
  "has_role roles u \<longleftrightarrow> pu_role u \<in> set roles"

definition create_plus_user ::
  "web \<Rightarrow> int \<Rightarrow> jstr \<Rightarrow> jstr \<Rightarrow> jstr \<Rightarrow> user_role \<Rightarrow> jstr list option \<Rightarrow> jstr option \<Rightarrow> metadata option
     \<Rightarrow> plus_user" where
  "create_plus_user W now uid email name role countries tz m =
     \<lparr> pu_id = uid, pu_email = to_lower W email, pu_name = name, pu_role = role,
       pu_habitual_countries = (case countries of None \<Rightarrow> [] | Some cs \<Rightarrow> map (to_upper W) cs),
       pu_timezone = (case tz of None \<Rightarrow> lit ''UTC'' | Some t \<Rightarrow> if t = [] then lit ''UTC'' else t),
       pu_active = True, pu_metadata = m, pu_created_at = now, pu_updated_at = now,
       pu_last_login_at = None, pu_failed_pin_attempts = 0, pu_locked_until = None \<rparr>"

record plain_user =
  ppu_id :: jstr
  ppu_email :: jstr
  ppu_name :: jstr
  ppu_role :: user_role
  ppu_habitual_countries :: "jstr list"
  ppu_timezone :: jstr
  ppu_active :: bool
  ppu_metadata :: "metadata option"
  ppu_created_at :: jstr
  ppu_updated_at :: jstr
  ppu_last_login_at :: "jstr option"
  ppu_failed_pin_attempts :: "int option"
  ppu_locked_until :: "jstr option"

definition user_from_plain :: "dates \<Rightarrow> plain_user \<Rightarrow> plus_user" where
  "user_from_plain T p =
     \<lparr> pu_id = ppu_id p, pu_email = ppu_email p, pu_name = ppu_name p, pu_role = ppu_role p,
       pu_habitual_countries = ppu_habitual_countries p, pu_timezone = ppu_timezone p,
       pu_active = ppu_active p, pu_metadata = ppu_metadata p,
       pu_created_at = of_iso T (ppu_created_at p), pu_updated_at = of_iso T (ppu_updated_at p),
       pu_last_login_at = optional_date T (ppu_last_login_at p),
       pu_failed_pin_attempts = (case ppu_failed_pin_attempts p of None \<Rightarrow> 0 | Some n \<Rightarrow> n),
       pu_locked_until = optional_date T (ppu_locked_until p) \<rparr>"

definition user_to_plain :: "subtle \<Rightarrow> dates \<Rightarrow> plus_user \<Rightarrow> plain_user option" where
  "user_to_plain S T u = (case clone_metadata S (pu_metadata u) of
     None \<Rightarrow> None
   | Some m \<Rightarrow> Some
     \<lparr> ppu_id = pu_id u, ppu_email = pu_email u, ppu_name = pu_name u, ppu_role = pu_role u,
       ppu_habitual_countries = pu_habitual_countries u, ppu_timezone = pu_timezone u,
       ppu_active = pu_active u, ppu_metadata = m,
       ppu_created_at = to_iso T (pu_created_at u), ppu_updated_at = to_iso T (pu_updated_at u),
       ppu_last_login_at = map_option (to_iso T) (pu_last_login_at u),
       ppu_failed_pin_attempts = Some (pu_failed_pin_attempts u),
       ppu_locked_until = map_option (to_iso T) (pu_locked_until u) \<rparr>)"

record safe_user =
  psu_id :: jstr
  psu_email :: jstr
  psu_name :: jstr
  psu_role :: user_role
  psu_habitual_countries :: "jstr list"
  psu_timezone :: jstr
  psu_active :: bool
  psu_created_at :: jstr
  psu_updated_at :: jstr
  psu_last_login_at :: "jstr option"

definition user_to_safe :: "dates \<Rightarrow> plus_user \<Rightarrow> safe_user" where
  "user_to_safe T u =
     \<lparr> psu_id = pu_id u, psu_email = pu_email u, psu_name = pu_name u, psu_role = pu_role u,
       psu_habitual_countries = pu_habitual_countries u, psu_timezone = pu_timezone u,
       psu_active = pu_active u, psu_created_at = to_iso T (pu_created_at u),
       psu_updated_at = to_iso T (pu_updated_at u),
       psu_last_login_at = map_option (to_iso T) (pu_last_login_at u) \<rparr>"

subsection \<open>Resources\<close>

datatype resource_type = Rt_Web | Rt_Ssh | Rt_Rdp | Rt_Vpn | Rt_Database | Rt_Kubernetes | Rt_Microservice
  | Rt_Firewall | Rt_Backup | Rt_Drp | Rt_Other

datatype resource_environment = Env_Production | Env_Staging | Env_Development | Env_Testing | Env_Dr

record resource =
  re_id :: jstr
  re_name :: jstr
  re_type :: resource_type
  re_endpoint :: jstr
  re_environment :: resource_environment
  re_criticality :: risk_level
  re_description :: "jstr option"
  re_tags :: "jstr list"
  re_owner_team :: "jstr option"
  re_metadata :: "metadata option"
  re_active :: bool
  re_created_at :: int
  re_updated_at :: int

definition update_endpoint :: "int \<Rightarrow> jstr \<Rightarrow> resource \<Rightarrow> resource" where
  "update_endpoint now x r = r\<lparr> re_endpoint := x, re_updated_at := now \<rparr>"

definition update_criticality :: "int \<Rightarrow> risk_level \<Rightarrow> resource \<Rightarrow> resource" where
  "update_criticality now x r = r\<lparr> re_criticality := x, re_updated_at := now \<rparr>"

definition update_environment :: "int \<Rightarrow> resource_environment \<Rightarrow> resource \<Rightarrow> resource" where
  "update_environment now x r = r\<lparr> re_environment := x, re_updated_at := now \<rparr>"

definition set_resource_active :: "int \<Rightarrow> bool \<Rightarrow> resource \<Rightarrow> resource" where
  "set_resource_active now x r = r\<lparr> re_active := x, re_updated_at := now \<rparr>"

definition add_resource_tag :: "int \<Rightarrow> jstr \<Rightarrow> resource \<Rightarrow> resource" where
  "add_resource_tag now tag r =
     (if tag \<notin> set (re_tags r) then r\<lparr> re_tags := re_tags r @ [tag], re_updated_at := now \<rparr> else r)"

definition remove_resource_tag :: "int \<Rightarrow> jstr \<Rightarrow> resource \<Rightarrow> resource" where
  "remove_resource_tag now tag r =
     (if tag \<in> set (re_tags r) then r\<lparr> re_tags := remove1 tag (re_tags r), re_updated_at := now \<rparr> else r)"

definition update_resource_metadata :: "int \<Rightarrow> metadata \<Rightarrow> resource \<Rightarrow> resource" where
  "update_resource_metadata now m r =
     r\<lparr> re_metadata := Some (spread (case re_metadata r of None \<Rightarrow> [] | Some b \<Rightarrow> b) m), re_updated_at := now \<rparr>"

record resource_input =
  ri_id :: jstr
  ri_name :: jstr
  ri_type :: resource_type
  ri_endpoint :: jstr
  ri_environment :: resource_environment
  ri_criticality :: risk_level
  ri_description :: "jstr option"
  ri_tags :: "jstr list option"
  ri_owner_team :: "jstr option"
  ri_metadata :: "metadata option"

definition create_resource :: "int \<Rightarrow> resource_input \<Rightarrow> resource" where
  "create_resource now i =
     \<lparr> re_id = ri_id i, re_name = ri_name i, re_type = ri_type i, re_endpoint = ri_endpoint i,
       re_environment = ri_environment i, re_criticality = ri_criticality i,
       re_description = ri_description i, re_tags = (case ri_tags i of None \<Rightarrow> [] | Some ts \<Rightarrow> ts),
       re_owner_team = ri_owner_team i, re_metadata = ri_metadata i, re_active = True,
       re_created_at = now, re_updated_at = now \<rparr>"

record plain_resource =
  pr_id :: jstr
  pr_name :: jstr
  pr_type :: resource_type
  pr_endpoint :: jstr
  pr_environment :: resource_environment
  pr_criticality :: risk_level
  pr_description :: "jstr option"
  pr_tags :: "jstr list"
  pr_owner_team :: "jstr option"
  pr_metadata :: "metadata option"
  pr_active :: bool
  pr_created_at :: jstr
  pr_updated_at :: jstr

definition resource_from_plain :: "dates \<Rightarrow> plain_resource \<Rightarrow> resource" where
  "resource_from_plain T p =
     \<lparr> re_id = pr_id p, re_name = pr_name p, re_type = pr_type p, re_endpoint = pr_endpoint p,
       re_environment = pr_environment p, re_criticality = pr_criticality p,
       re_description = pr_description p, re_tags = pr_tags p, re_owner_team = pr_owner_team p,
       re_metadata = pr_metadata p, re_active = pr_active p,
       re_created_at = of_iso T (pr_created_at p), re_updated_at = of_iso T (pr_updated_at p) \<rparr>"

definition resource_to_plain :: "subtle \<Rightarrow> dates \<Rightarrow> resource \<Rightarrow> plain_resource option" where
  "resource_to_plain S T r = (case clone_metadata S (re_metadata r) of
     None \<Rightarrow> None
   | Some m \<Rightarrow> Some
     \<lparr> pr_id = re_id r, pr_name = re_name r, pr_type = re_type r, pr_endpoint = re_endpoint r,
       pr_environment = re_environment r, pr_criticality = re_criticality r,
       pr_description = re_description r, pr_tags = re_tags r, pr_owner_team = re_owner_team r,
       pr_metadata = m, pr_active = re_active r,
       pr_created_at = to_iso T (re_created_at r), pr_updated_at = to_iso T (re_updated_at r) \<rparr>)"

record safe_resource =
  sr_id :: jstr
  sr_name :: jstr
  sr_type :: resource_type
  sr_environment :: resource_environment
  sr_criticality :: risk_level
  sr_description :: "jstr option"
  sr_tags :: "jstr list"
  sr_active :: bool
  sr_created_at :: jstr
  sr_updated_at :: jstr

definition resource_to_safe :: "dates \<Rightarrow> resource \<Rightarrow> safe_resource" where
  "resource_to_safe T r =
     \<lparr> sr_id = re_id r, sr_name = re_name r, sr_type = re_type r, sr_environment = re_environment r,
       sr_criticality = re_criticality r, sr_description = re_description r, sr_tags = re_tags r,
       sr_active = re_active r, sr_created_at = to_iso T (re_created_at r),
       sr_updated_at = to_iso T (re_updated_at r) \<rparr>"

subsection \<open>Facts\<close>

lemma clone_metadata_id:
  "(\<And>m. md = Some m \<Longrightarrow> json_parse S (json_stringify S (JObj m)) = Some (JObj m)) \<Longrightarrow>
     clone_metadata S md = Some md"
  by (cases md) (simp_all add: clone_metadata_def)

definition user_dates :: "plus_user \<Rightarrow> int set" where
  "user_dates u = {pu_created_at u, pu_updated_at u} \<union> set_option (pu_last_login_at u) \<union> set_option (pu_locked_until u)"

lemma user_round_trip:
  assumes "\<forall>t \<in> user_dates u. dates_ok T t"
    and "\<And>m. pu_metadata u = Some m \<Longrightarrow> json_parse S (json_stringify S (JObj m)) = Some (JObj m)"
  shows "map_option (user_from_plain T) (user_to_plain S T u) = Some u"
proof -
  have d: "dates_ok T (pu_created_at u)" "dates_ok T (pu_updated_at u)"
    "\<And>t. pu_last_login_at u = Some t \<Longrightarrow> dates_ok T t" "\<And>t. pu_locked_until u = Some t \<Longrightarrow> dates_ok T t"
    using assms(1) by (simp_all add: user_dates_def)
  show ?thesis
    using d by (simp add: user_to_plain_def clone_metadata_id [OF assms(2)] user_from_plain_def
        optional_date_iso dates_ok_def)
qed

lemma resource_round_trip:
  assumes "dates_ok T (re_created_at r)" and "dates_ok T (re_updated_at r)"
    and "\<And>m. re_metadata r = Some m \<Longrightarrow> json_parse S (json_stringify S (JObj m)) = Some (JObj m)"
  shows "map_option (resource_from_plain T) (resource_to_plain S T r) = Some r"
  using assms(1,2) by (simp add: resource_to_plain_def clone_metadata_id [OF assms(3)] resource_from_plain_def dates_ok_def)

lemma safe_user_hides_lockout:
  "user_to_safe T (u\<lparr> pu_failed_pin_attempts := n, pu_locked_until := l, pu_metadata := m \<rparr>) = user_to_safe T u"
  by (simp add: user_to_safe_def)

lemma habitual_after_changes:
  "is_country_habitual W c (add_habitual_country W t c u)"
  "distinct (pu_habitual_countries u) \<Longrightarrow> \<not> is_country_habitual W c (remove_habitual_country W t c u)"
  by (auto simp: is_country_habitual_def add_habitual_country_def remove_habitual_country_def Let_def)

end
