(* ===== verification/Js_Number.thy ===== *)
theory Js_Number
  imports Complex_Main Prelude
begin

text \<open>
  What the components share on numbers: \<^verbatim>\<open>Math.round\<close> on exact rationals, and the
  number formatting of JavaScript (\<^verbatim>\<open>String(x)\<close>, \<^verbatim>\<open>toFixed\<close>) as a parameter.
\<close>

definition js_round :: "rat \<Rightarrow> int" where
  "js_round x = \<lfloor>x + 1 / 2\<rfloor>"

lemma js_round_mono: "x \<le> y \<Longrightarrow> js_round x \<le> js_round y"
  by (simp add: js_round_def floor_mono)

lemma js_round_int: "js_round (of_int n) = n"
  by (simp add: js_round_def floor_eq_iff)

lemma js_round_bounds: "of_int a \<le> x \<Longrightarrow> x \<le> of_int b \<Longrightarrow> a \<le> js_round x \<and> js_round x \<le> b"
  using js_round_mono [of "of_int a" x] js_round_mono [of x "of_int b"] by (simp add: js_round_int)

text \<open>Rounding never moves a value by more than a half.\<close>

lemma js_round_close: "\<bar>of_int (js_round x) - x\<bar> \<le> 1 / 2"
proof -
  have "x + 1 / 2 - 1 < of_int \<lfloor>x + 1 / 2\<rfloor>" "of_int \<lfloor>x + 1 / 2\<rfloor> \<le> x + 1 / 2"
    using floor_correct [of "x + 1 / 2"] by simp_all
  then show ?thesis unfolding js_round_def by linarith
qed

record number_format =
  nf_text :: "rat \<Rightarrow> jstr"
  nf_fixed :: "rat \<Rightarrow> nat \<Rightarrow> jstr"

end
