(* ===== verification/Risk_Engine.thy ===== *)
theory Risk_Engine
  imports Plus_Entities Js_Number
begin

text \<open>
  The adaptive risk engine: plus/domain/services/risk-engine.ts.  Scores and weights
  are rationals, the decimal literals of the source taken exactly (the code computes
  them in doubles).  \<^verbatim>\<open>N\<close> is the text of a number in a template literal, \<^verbatim>\<open>now\<close> is
  \<^verbatim>\<open>Date.now()\<close>.  The \<^verbatim>\<open>details\<close> of a factor repeat its inputs and are not modelled.
\<close>

record risk_weights =
  w_country_deviation :: rat
  w_ip_reputation :: rat
  w_device_trust :: rat
  w_time_anomaly :: rat
  w_operation_criticality :: rat
  w_resource_criticality :: rat
  w_pestillo_state :: rat
  w_history_deviation :: rat
  w_velocity :: rat

record risk_thresholds =
  th_allow :: rat
  th_challenge :: rat
  th_deny :: rat

record pestillo_modifiers =
  pm_closed :: rat
  pm_enabled :: rat
  pm_step_up :: rat
  pm_temporary :: rat

record velocity_limits =
  vl_max_requests_per_minute :: int
  vl_max_new_countries_per_hour :: int
  vl_max_new_devices_per_day :: int
  vl_impossible_travel_km_per_hour :: int

record risk_policy =
  rp_weights :: risk_weights
  rp_thresholds :: risk_thresholds
  rp_country_risk :: "jstr \<rightharpoonup> rat"
  rp_operation_multiplier :: "jstr \<rightharpoonup> rat"
  rp_criticality_multiplier :: "jstr \<rightharpoonup> rat"
  rp_pestillo_modifiers :: pestillo_modifiers
  rp_velocity :: velocity_limits

definition default_country_risk :: "jstr \<rightharpoonup> rat" where
  "default_country_risk = map_of (map (\<lambda>(c, r). (lit c, r))
     [(''US'', 10), (''CA'', 10), (''GB'', 10), (''DE'', 10), (''FR'', 10), (''JP'', 10), (''AU'', 10),
      (''EC'', 10), (''CO'', 15), (''PE'', 15), (''CL'', 15), (''AR'', 15), (''MX'', 20), (''BR'', 25),
      (''CN'', 60), (''RU'', 60), (''KP'', 90), (''IR'', 80)])"

definition default_operation_multiplier :: "jstr \<rightharpoonup> rat" where
  "default_operation_multiplier = map_of (map (\<lambda>(c, r). (lit c, r))
     [(''AUTOFILL'', 1), (''VIEW'', 8 / 10), (''TOTP'', 8 / 10), (''CONNECT'', 12 / 10), (''READ'', 8 / 10),
      (''ADMIN'', 2), (''BACKUP'', 15 / 10), (''RESTORE'', 2), (''ROTATE_SECRET'', 18 / 10),
      (''EDIT_SECRET'', 15 / 10), (''DELETE_SECRET'', 2), (''EXPORT_SECRET'', 2)])"

definition default_criticality_multiplier :: "jstr \<rightharpoonup> rat" where
  "default_criticality_multiplier = map_of
     [(level_name Low, 5 / 10), (level_name Medium, 1), (level_name High, 15 / 10), (level_name Critical, 2)]"

definition default_risk_policy :: risk_policy where
  "default_risk_policy =
     \<lparr> rp_weights = \<lparr> w_country_deviation = 20 / 100, w_ip_reputation = 10 / 100, w_device_trust = 15 / 100,
         w_time_anomaly = 10 / 100, w_operation_criticality = 15 / 100, w_resource_criticality = 10 / 100,
         w_pestillo_state = 10 / 100, w_history_deviation = 5 / 100, w_velocity = 5 / 100 \<rparr>,
       rp_thresholds = \<lparr> th_allow = 30, th_challenge = 70, th_deny = 100 \<rparr>,
       rp_country_risk = default_country_risk,
       rp_operation_multiplier = default_operation_multiplier,
       rp_criticality_multiplier = default_criticality_multiplier,
       rp_pestillo_modifiers = \<lparr> pm_closed = 0, pm_enabled = 1, pm_step_up = 5 / 10, pm_temporary = 12 / 10 \<rparr>,
       rp_velocity = \<lparr> vl_max_requests_per_minute = 30, vl_max_new_countries_per_hour = 2,
         vl_max_new_devices_per_day = 3, vl_impossible_travel_km_per_hour = 1000 \<rparr> \<rparr>"

subsection \<open>The engine and its policy\<close>

text \<open>\<^verbatim>\<open>Partial<RiskPolicy>\<close>: each section is absent or whole.\<close>

record policy_override =
  po_weights :: "risk_weights option"
  po_thresholds :: "risk_thresholds option"
  po_country_risk :: "(jstr \<rightharpoonup> rat) option"
  po_operation_multiplier :: "(jstr \<rightharpoonup> rat) option"
  po_criticality_multiplier :: "(jstr \<rightharpoonup> rat) option"
  po_pestillo_modifiers :: "pestillo_modifiers option"
  po_velocity :: "velocity_limits option"

definition section_or :: "'a \<Rightarrow> 'a option \<Rightarrow> 'a" where
  "section_or base ov = (case ov of None \<Rightarrow> base | Some x \<Rightarrow> x)"

definition section_merge :: "(jstr \<rightharpoonup> rat) \<Rightarrow> (jstr \<rightharpoonup> rat) option \<Rightarrow> (jstr \<rightharpoonup> rat)" where
  "section_merge base ov = (case ov of None \<Rightarrow> base | Some m \<Rightarrow> base ++ m)"

definition merge_policy :: "risk_policy \<Rightarrow> policy_override \<Rightarrow> risk_policy" where
  "merge_policy base ov =
     \<lparr> rp_weights = section_or (rp_weights base) (po_weights ov),
       rp_thresholds = section_or (rp_thresholds base) (po_thresholds ov),
       rp_country_risk = section_merge (rp_country_risk base) (po_country_risk ov),
       rp_operation_multiplier = section_merge (rp_operation_multiplier base) (po_operation_multiplier ov),
       rp_criticality_multiplier = section_merge (rp_criticality_multiplier base) (po_criticality_multiplier ov),
       rp_pestillo_modifiers = section_or (rp_pestillo_modifiers base) (po_pestillo_modifiers ov),
       rp_velocity = section_or (rp_velocity base) (po_velocity ov) \<rparr>"

record risk_engine =
  eng_policy :: risk_policy
  eng_locations :: "jstr \<rightharpoonup> jstr \<times> int"

definition new_risk_engine :: "policy_override \<Rightarrow> risk_engine" where
  "new_risk_engine ov = \<lparr> eng_policy = merge_policy default_risk_policy ov, eng_locations = Map.empty \<rparr>"

definition update_policy :: "policy_override \<Rightarrow> risk_engine \<Rightarrow> risk_engine" where
  "update_policy ov E = E\<lparr> eng_policy := merge_policy (eng_policy E) ov \<rparr>"

record client_context =
  cc_country :: "jstr option"
  cc_ip :: "jstr option"
  cc_device_id :: "jstr option"
  cc_user_agent :: "jstr option"
  cc_timestamp :: int

record risk_history =
  rh_recent_failed :: int
  rh_recent_successful :: int
  rh_avg_score :: rat
  rh_known_devices :: "jstr list"
  rh_known_countries :: "jstr list"

record risk_context =
  rc_user :: plus_user
  rc_resource :: resource
  rc_operation :: jstr
  rc_pestillo :: pestillo_state
  rc_client :: client_context
  rc_history :: "risk_history option"
  rc_policy :: risk_policy

record risk_factor =
  rf_name :: string
  rf_score :: rat
  rf_weight :: rat
  rf_reason :: jstr

datatype risk_decision = Risk_Allow | Risk_Challenge | Risk_Deny

record risk_evaluation =
  ev_total_score :: int
  ev_factors :: "risk_factor list"
  ev_decision :: risk_decision
  ev_timestamp :: int

subsection \<open>The nine factors\<close>

text \<open>A missing text and the empty text are both falsy.\<close>

definition truthy_text :: "jstr option \<Rightarrow> jstr option" where
  "truthy_text s = (case s of None \<Rightarrow> None | Some t \<Rightarrow> if t = [] then None else Some t)"

definition country_deviation_score ::
  "risk_policy \<Rightarrow> jstr option \<Rightarrow> jstr list \<Rightarrow> rat" where
  "country_deviation_score P current habitual = (case truthy_text current of
     None \<Rightarrow> 50
   | Some c \<Rightarrow>
       if habitual = [] then 30
       else if c \<in> set habitual then 0
       else min (case rp_country_risk P c of None \<Rightarrow> 50 | Some r \<Rightarrow> r) 80)"

definition evaluate_country_deviation ::
  "web \<Rightarrow> (rat \<Rightarrow> jstr) \<Rightarrow> risk_context \<Rightarrow> risk_factor" where
  "evaluate_country_deviation W N x =
     (let current = map_option (to_upper W) (cc_country (rc_client x));
          habitual = map (to_upper W) (pu_habitual_countries (rc_user x));
          P = rc_policy x
      in \<lparr> rf_name = ''countryDeviation'',
           rf_score = country_deviation_score P current habitual,
           rf_weight = w_country_deviation (rp_weights P),
           rf_reason = (case truthy_text current of
              None \<Rightarrow> lit ''Country not provided in request''
            | Some c \<Rightarrow>
                if habitual = [] then lit ''No habitual countries established for user''
                else if c \<in> set habitual then lit ''Country '' @ c @ lit '' is habitual for user''
                else lit ''New country '' @ c @ lit '' (base risk: ''
                  @ N (case rp_country_risk P c of None \<Rightarrow> 50 | Some r \<Rightarrow> r) @ lit '')'') \<rparr>)"

definition evaluate_ip_reputation :: "risk_engine \<Rightarrow> risk_context \<Rightarrow> risk_factor" where
  "evaluate_ip_reputation E x =
     \<lparr> rf_name = ''ipReputation'', rf_score = 0, rf_weight = w_ip_reputation (rp_weights (eng_policy E)),
       rf_reason = lit ''IP reputation check not implemented (placeholder)'' \<rparr>"

definition known_device :: "risk_history option \<Rightarrow> jstr \<Rightarrow> bool" where
  "known_device h d \<longleftrightarrow> (case h of None \<Rightarrow> False | Some k \<Rightarrow> d \<in> set (rh_known_devices k))"

definition evaluate_device_trust :: "risk_context \<Rightarrow> risk_factor" where
  "evaluate_device_trust x =
     (let (score, reason) = (case truthy_text (cc_device_id (rc_client x)) of
          None \<Rightarrow> (40, lit ''No device ID provided'')
        | Some d \<Rightarrow>
            if known_device (rc_history x) d then (0, lit ''Device '' @ d @ lit '' is known/trusted'')
            else (50, lit ''New device '' @ d @ lit '' not previously seen''))
      in \<lparr> rf_name = ''deviceTrust'', rf_score = score,
           rf_weight = w_device_trust (rp_weights (rc_policy x)), rf_reason = reason \<rparr>)"

text \<open>UTC hour and day of the week (0 is Sunday); None for a time that is no valid date.\<close>

definition utc_hour_day :: "int \<Rightarrow> (int \<times> int) option" where
  "utc_hour_day ts =
     (if \<bar>ts\<bar> \<le> 8640000000000000 then Some (ts div 3600000 mod 24, (ts div 86400000 + 4) mod 7) else None)"

definition business_hours :: "int \<Rightarrow> bool" where
  "business_hours ts \<longleftrightarrow> (case utc_hour_day ts of
     None \<Rightarrow> False
   | Some (hour, day) \<Rightarrow> hour \<ge> 8 \<and> hour \<le> 18 \<and> day \<ge> 1 \<and> day \<le> 5)"

definition evaluate_time_anomaly :: "int \<Rightarrow> risk_context \<Rightarrow> risk_factor" where
  "evaluate_time_anomaly now x =
     (let ts = (if cc_timestamp (rc_client x) = 0 then now else cc_timestamp (rc_client x));
          (hour_text, day_text) = (case utc_hour_day ts of
             None \<Rightarrow> (lit ''NaN'', lit ''NaN'') | Some (h, d) \<Rightarrow> (dec_int h, dec_int d))
      in \<lparr> rf_name = ''timeAnomaly'',
           rf_score = (if \<not> business_hours ts then 25 else 0),
           rf_weight = w_time_anomaly (rp_weights (rc_policy x)),
           rf_reason = (if \<not> business_hours ts
             then lit ''Request outside business hours (UTC hour: '' @ hour_text @ lit '', day: '' @ day_text @ lit '')''
             else lit ''Request within business hours'') \<rparr>)"

definition multiplier_score :: "rat \<Rightarrow> rat" where
  "multiplier_score m = max 0 (min ((m - 1) * 50) 50)"

definition evaluate_operation_criticality :: "(rat \<Rightarrow> jstr) \<Rightarrow> risk_context \<Rightarrow> risk_factor" where
  "evaluate_operation_criticality N x =
     (let m = (case rp_operation_multiplier (rc_policy x) (rc_operation x) of None \<Rightarrow> 1 | Some r \<Rightarrow> r)
      in \<lparr> rf_name = ''operationCriticality'', rf_score = multiplier_score m,
           rf_weight = w_operation_criticality (rp_weights (rc_policy x)),
           rf_reason = lit ''Operation '' @ rc_operation x @ lit '' has risk multiplier '' @ N m \<rparr>)"

definition evaluate_resource_criticality :: "(rat \<Rightarrow> jstr) \<Rightarrow> risk_context \<Rightarrow> risk_factor" where
  "evaluate_resource_criticality N x =
     (let lv = level_name (re_criticality (rc_resource x));
          m = (case rp_criticality_multiplier (rc_policy x) lv of None \<Rightarrow> 1 | Some r \<Rightarrow> r)
      in \<lparr> rf_name = ''resourceCriticality'', rf_score = multiplier_score m,
           rf_weight = w_resource_criticality (rp_weights (rc_policy x)),
           rf_reason = lit ''Resource '' @ re_id (rc_resource x) @ lit '' criticality: '' @ lv
             @ lit '' (multiplier: '' @ N m @ lit '')'' \<rparr>)"

definition pestillo_modifier :: "pestillo_modifiers \<Rightarrow> pestillo_state \<Rightarrow> rat" where
  "pestillo_modifier M st = (case st of
     P_Closed \<Rightarrow> pm_closed M | P_Enabled \<Rightarrow> pm_enabled M
   | P_Step_Up \<Rightarrow> pm_step_up M | P_Temporary \<Rightarrow> pm_temporary M)"

definition pestillo_base :: "pestillo_state \<Rightarrow> rat \<times> jstr" where
  "pestillo_base st = (case st of
     P_Closed \<Rightarrow> (100, lit ''Pestillo is CLOSED - access denied by policy'')
   | P_Enabled \<Rightarrow> (0, lit ''Pestillo is ENABLED - adaptive risk applies'')
   | P_Step_Up \<Rightarrow> (30, lit ''Pestillo is STEP_UP - third factor mandatory'')
   | P_Temporary \<Rightarrow> (20, lit ''Pestillo is TEMPORARY - time-bounded authorization''))"

definition evaluate_pestillo_state :: "risk_context \<Rightarrow> risk_factor" where
  "evaluate_pestillo_state x =
     (let st = rc_pestillo x;
          m = pestillo_modifier (rp_pestillo_modifiers (rc_policy x)) st;
          (base, reason) = pestillo_base st
      in \<lparr> rf_name = ''pestilloState'',
           rf_score = (if st = P_Enabled \<or> st = P_Temporary then of_int (js_round (base * m)) else base),
           rf_weight = w_pestillo_state (rp_weights (rc_policy x)), rf_reason = reason \<rparr>)"

text \<open>\<^verbatim>\<open>reasons.join("; ") || fallback\<close>.\<close>

fun join_reasons :: "jstr list \<Rightarrow> jstr" where
  "join_reasons [] = []"
| "join_reasons [r] = r"
| "join_reasons (r # rs) = r @ lit ''; '' @ join_reasons rs"

definition reasons_or :: "jstr list \<Rightarrow> string \<Rightarrow> jstr" where
  "reasons_or rs fallback = (if join_reasons rs = [] then lit fallback else join_reasons rs)"

definition evaluate_history_deviation :: "(rat \<Rightarrow> jstr) \<Rightarrow> risk_context \<Rightarrow> risk_factor" where
  "evaluate_history_deviation N x = (case rc_history x of
     None \<Rightarrow> \<lparr> rf_name = ''historyDeviation'', rf_score = 20,
       rf_weight = w_history_deviation (rp_weights (rc_policy x)), rf_reason = lit ''No historical data available'' \<rparr>
   | Some h \<Rightarrow>
       (let failed = rh_recent_failed h > 3; high = rh_avg_score h > 50;
            score = (if failed then 30 else 0) + (if high then 20 else 0);
            rs = (if failed then [N (of_int (rh_recent_failed h)) @ lit '' failed attempts in last hour''] else [])
              @ (if high then [lit ''High average risk score ('' @ N (rh_avg_score h) @ lit '')''] else [])
        in \<lparr> rf_name = ''historyDeviation'', rf_score = min score 80,
             rf_weight = w_history_deviation (rp_weights (rc_policy x)),
             rf_reason = reasons_or rs ''History within normal bounds'' \<rparr>))"

text \<open>The arrow of the reason is U+2192.\<close>

definition evaluate_velocity :: "risk_engine \<Rightarrow> (rat \<Rightarrow> jstr) \<Rightarrow> risk_context \<Rightarrow> risk_factor" where
  "evaluate_velocity E N x =
     (let limits = rp_velocity (rc_policy x);
          ops = (case rc_history x of None \<Rightarrow> 0 | Some h \<Rightarrow> rh_recent_successful h);
          rate = (ops \<noteq> 0 \<and> ops > vl_max_requests_per_minute limits);
          moved = (case (truthy_text (cc_country (rc_client x)), rc_history x) of
             (Some c, Some h) \<Rightarrow> (case eng_locations E (pu_id (rc_user x)) of
                Some (country, t) \<Rightarrow> if country \<noteq> c then Some (country, c) else None
              | None \<Rightarrow> None)
           | _ \<Rightarrow> None);
          score = (if rate then 25 else 0) + (if moved \<noteq> None then 40 else 0);
          rs = (if rate then [lit ''High request rate: '' @ N (of_int ops) @ lit ''/min''] else [])
            @ (case moved of None \<Rightarrow> []
               | Some (a, b) \<Rightarrow> [lit ''Country change detected: '' @ a @ [32, 8594, 32] @ b])
      in \<lparr> rf_name = ''velocity'', rf_score = min score 80,
           rf_weight = w_velocity (rp_weights (rc_policy x)),
           rf_reason = reasons_or rs ''Velocity within normal bounds'' \<rparr>)"

subsection \<open>The score and the decision\<close>

definition calculate_weighted_score :: "risk_factor list \<Rightarrow> rat" where
  "calculate_weighted_score fs =
     (let (total, weighted) = foldl (\<lambda>(t, w) f. (t + rf_weight f, w + rf_score f * rf_weight f)) (0, 0) fs
      in if total > 0 then weighted / total else 0)"

definition make_decision :: "risk_engine \<Rightarrow> rat \<Rightarrow> pestillo_state \<Rightarrow> risk_decision" where
  "make_decision E score st =
     (if st = P_Closed then Risk_Deny
      else if st = P_Step_Up then Risk_Challenge
      else if score \<le> th_allow (rp_thresholds (eng_policy E)) then Risk_Allow
      else if score \<le> th_challenge (rp_thresholds (eng_policy E)) then Risk_Challenge
      else Risk_Deny)"

definition risk_factors ::
  "web \<Rightarrow> (rat \<Rightarrow> jstr) \<Rightarrow> int \<Rightarrow> risk_engine \<Rightarrow> risk_context \<Rightarrow> risk_factor list" where
  "risk_factors W N now E x =
     [evaluate_country_deviation W N x, evaluate_ip_reputation E x, evaluate_device_trust x,
      evaluate_time_anomaly now x, evaluate_operation_criticality N x, evaluate_resource_criticality N x,
      evaluate_pestillo_state x, evaluate_history_deviation N x, evaluate_velocity E N x]"

definition evaluate_risk ::
  "web \<Rightarrow> (rat \<Rightarrow> jstr) \<Rightarrow> int \<Rightarrow> risk_engine \<Rightarrow> risk_context \<Rightarrow> risk_evaluation \<times> risk_engine" where
  "evaluate_risk W N now E x =
     (let factors = risk_factors W N now E x;
          total = calculate_weighted_score factors;
          decision = make_decision E total (rc_pestillo x);
          E' = (case truthy_text (cc_country (rc_client x)) of
             None \<Rightarrow> E
           | Some c \<Rightarrow> E\<lparr> eng_locations := (eng_locations E)(pu_id (rc_user x) \<mapsto> (c, cc_timestamp (rc_client x))) \<rparr>)
      in (\<lparr> ev_total_score = js_round total, ev_factors = factors, ev_decision = decision,
            ev_timestamp = now \<rparr>, E'))"

subsection \<open>Bounds of the scores\<close>

lemma weighted_score_sums:
  "calculate_weighted_score fs =
     (let t = sum_list (map rf_weight fs) in
      if t > 0 then sum_list (map (\<lambda>f. rf_score f * rf_weight f) fs) / t else 0)"
proof -
  have "foldl (\<lambda>(t, w) f. (t + rf_weight f, w + rf_score f * rf_weight f)) (t0, w0) fs
      = (t0 + sum_list (map rf_weight fs), w0 + sum_list (map (\<lambda>f. rf_score f * rf_weight f) fs))" for t0 w0
    by (induction fs arbitrary: t0 w0) simp_all
  then show ?thesis by (simp add: calculate_weighted_score_def Let_def)
qed

text \<open>A weighted average stays between the bounds of what it averages.\<close>

lemma weighted_score_bounds:
  assumes "\<forall>f \<in> set fs. 0 \<le> rf_weight f \<and> 0 \<le> rf_score f \<and> rf_score f \<le> b" and "0 \<le> b"
  shows "0 \<le> calculate_weighted_score fs \<and> calculate_weighted_score fs \<le> b"
proof -
  have "0 \<le> sum_list (map (\<lambda>f. rf_score f * rf_weight f) fs)
      \<and> sum_list (map (\<lambda>f. rf_score f * rf_weight f) fs) \<le> b * sum_list (map rf_weight fs)"
    using assms(1)
  proof (induction fs)
    case (Cons f fs)
    then have "0 \<le> rf_score f * rf_weight f" and "rf_score f * rf_weight f \<le> b * rf_weight f"
      by (simp_all add: mult_right_mono)
    with Cons show ?case by (simp add: distrib_left add_mono)
  qed simp
  then show ?thesis using assms(2)
    by (simp add: weighted_score_sums Let_def field_simps)
qed

lemma multiplier_score_bounds: "0 \<le> multiplier_score m" "multiplier_score m \<le> 50"
  by (simp_all add: multiplier_score_def)

lemma multiplier_score_mono: "m \<le> m' \<Longrightarrow> multiplier_score m \<le> multiplier_score m'"
  by (auto simp: multiplier_score_def max_def min_def)

lemma country_score_bounds:
  assumes "\<forall>r \<in> ran (rp_country_risk P). 0 \<le> r"
  shows "0 \<le> country_deviation_score P c h" "country_deviation_score P c h \<le> 80"
  using assms by (auto simp: country_deviation_score_def ran_def split: option.splits)

definition sane_policy :: "risk_policy \<Rightarrow> bool" where
  "sane_policy P \<longleftrightarrow> (\<forall>r \<in> ran (rp_country_risk P). 0 \<le> r)
     \<and> 0 \<le> pm_temporary (rp_pestillo_modifiers P) \<and> pm_temporary (rp_pestillo_modifiers P) \<le> 5"

definition nonneg_weights :: "risk_weights \<Rightarrow> bool" where
  "nonneg_weights w \<longleftrightarrow> 0 \<le> w_country_deviation w \<and> 0 \<le> w_ip_reputation w \<and> 0 \<le> w_device_trust w
     \<and> 0 \<le> w_time_anomaly w \<and> 0 \<le> w_operation_criticality w \<and> 0 \<le> w_resource_criticality w
     \<and> 0 \<le> w_pestillo_state w \<and> 0 \<le> w_history_deviation w \<and> 0 \<le> w_velocity w"

lemma pestillo_score_bounds:
  assumes "0 \<le> pm_temporary (rp_pestillo_modifiers (rc_policy x))"
    and "pm_temporary (rp_pestillo_modifiers (rc_policy x)) \<le> 5"
  shows "0 \<le> rf_score (evaluate_pestillo_state x) \<and> rf_score (evaluate_pestillo_state x) \<le> 100"
proof -
  let ?m = "pm_temporary (rp_pestillo_modifiers (rc_policy x))"
  have "js_round (of_int 0) \<le> js_round (20 * ?m)" and "js_round (20 * ?m) \<le> js_round (of_int 100)"
    using assms by (intro js_round_mono; simp)+
  then have t: "0 \<le> js_round (20 * ?m)" "js_round (20 * ?m) \<le> 100" by (simp_all only: js_round_int)
  then have "0 \<le> rat_of_int (js_round (20 * ?m))" "rat_of_int (js_round (20 * ?m)) \<le> 100" by simp_all
  moreover have "js_round 0 = 0" using js_round_int [of 0] by simp
  ultimately show ?thesis
    by (cases "rc_pestillo x")
      (simp_all add: evaluate_pestillo_state_def Let_def pestillo_base_def pestillo_modifier_def)
qed

lemma factor_scores_bounded:
  assumes "sane_policy (rc_policy x)"
  shows "\<forall>f \<in> set (risk_factors W N now E x). 0 \<le> rf_score f \<and> rf_score f \<le> 100"
proof -
  have a: "0 \<le> country_deviation_score (rc_policy x) c h \<and> country_deviation_score (rc_policy x) c h \<le> 100" for c h
    using assms country_score_bounds [of "rc_policy x" c h] by (auto simp: sane_policy_def)
  have m: "0 \<le> multiplier_score r \<and> multiplier_score r \<le> 100" for r
    using multiplier_score_bounds [of r] by linarith
  have h: "0 \<le> rf_score (evaluate_history_deviation N x) \<and> rf_score (evaluate_history_deviation N x) \<le> 100"
    by (simp add: evaluate_history_deviation_def Let_def split: option.split)
  have d: "0 \<le> rf_score (evaluate_device_trust x) \<and> rf_score (evaluate_device_trust x) \<le> 100"
    by (simp add: evaluate_device_trust_def Let_def split: option.split)
  have p: "0 \<le> rf_score (evaluate_pestillo_state x) \<and> rf_score (evaluate_pestillo_state x) \<le> 100"
    using assms by (intro pestillo_score_bounds) (simp_all add: sane_policy_def)
  show ?thesis
    using a m h d p
    by (simp add: risk_factors_def evaluate_country_deviation_def evaluate_ip_reputation_def
        evaluate_time_anomaly_def evaluate_operation_criticality_def evaluate_resource_criticality_def
        evaluate_velocity_def Let_def split: prod.split)
qed

lemma factor_weights_nonneg:
  assumes "nonneg_weights (rp_weights (rc_policy x))" and "nonneg_weights (rp_weights (eng_policy E))"
  shows "\<forall>f \<in> set (risk_factors W N now E x). 0 \<le> rf_weight f"
  using assms
  by (simp add: risk_factors_def nonneg_weights_def evaluate_country_deviation_def evaluate_ip_reputation_def
      evaluate_device_trust_def evaluate_time_anomaly_def evaluate_operation_criticality_def
      evaluate_resource_criticality_def evaluate_pestillo_state_def evaluate_history_deviation_def
      evaluate_velocity_def Let_def split: prod.split option.split)

lemma factor_weights:
  "map rf_weight (risk_factors W N now E x) =
     (let w = rp_weights (rc_policy x) in
      [w_country_deviation w, w_ip_reputation (rp_weights (eng_policy E)), w_device_trust w, w_time_anomaly w,
       w_operation_criticality w, w_resource_criticality w, w_pestillo_state w, w_history_deviation w, w_velocity w])"
  by (simp add: risk_factors_def evaluate_country_deviation_def evaluate_ip_reputation_def
      evaluate_device_trust_def evaluate_time_anomaly_def evaluate_operation_criticality_def
      evaluate_resource_criticality_def evaluate_pestillo_state_def evaluate_history_deviation_def
      evaluate_velocity_def Let_def split: prod.split option.split)

text \<open>The bound of each factor of an open pestillo under the default policy.\<close>

lemma ran_map_of_subset: "ran (map_of xs) \<subseteq> snd ` set xs"
  by (force simp: ran_def dest: map_of_SomeD)

lemma default_country_risk_nonneg: "\<forall>r \<in> ran default_country_risk. 0 \<le> r"
  unfolding default_country_risk_def
  by (rule ballI, drule subsetD [OF ran_map_of_subset]) auto

lemma sane_default: "sane_policy default_risk_policy"
  using default_country_risk_nonneg by (simp add: sane_policy_def default_risk_policy_def)

lemma open_pestillo_scores:
  assumes "rc_policy x = default_risk_policy" and "rc_pestillo x = P_Enabled \<or> rc_pestillo x = P_Temporary"
  shows "rf_score (evaluate_country_deviation W N x) \<le> 80" "rf_score (evaluate_device_trust x) \<le> 50"
    "rf_score (evaluate_time_anomaly now x) \<le> 25" "rf_score (evaluate_operation_criticality N x) \<le> 50"
    "rf_score (evaluate_resource_criticality N x) \<le> 50" "rf_score (evaluate_pestillo_state x) \<le> 24"
    "rf_score (evaluate_history_deviation N x) \<le> 50" "rf_score (evaluate_velocity E N x) \<le> 65"
    "rf_score (evaluate_ip_reputation E x) = 0"
proof -
  have m: "multiplier_score r \<le> 50" for r by (rule multiplier_score_bounds(2))
  have r: "js_round 24 = 24" "js_round 0 = 0" using js_round_int [of 24] js_round_int [of 0] by simp_all
  show "rf_score (evaluate_country_deviation W N x) \<le> 80"
    using sane_default assms(1) country_score_bounds(2)
    by (simp add: evaluate_country_deviation_def Let_def sane_policy_def)
  show "rf_score (evaluate_pestillo_state x) \<le> 24"
    using assms r
    by (auto simp: evaluate_pestillo_state_def Let_def pestillo_base_def pestillo_modifier_def default_risk_policy_def)
  show "rf_score (evaluate_device_trust x) \<le> 50" "rf_score (evaluate_time_anomaly now x) \<le> 25"
    "rf_score (evaluate_ip_reputation E x) = 0"
    by (simp_all add: evaluate_device_trust_def evaluate_time_anomaly_def evaluate_ip_reputation_def Let_def
        split: option.split prod.split)
  show "rf_score (evaluate_operation_criticality N x) \<le> 50" "rf_score (evaluate_resource_criticality N x) \<le> 50"
    by (simp_all add: evaluate_operation_criticality_def evaluate_resource_criticality_def Let_def m)
  show "rf_score (evaluate_history_deviation N x) \<le> 50" "rf_score (evaluate_velocity E N x) \<le> 65"
    by (simp_all add: evaluate_history_deviation_def evaluate_velocity_def Let_def split: option.split)
qed

lemma default_score_bound:
  assumes "rc_policy x = default_risk_policy" and "eng_policy E = default_risk_policy"
    and "rc_pestillo x = P_Enabled \<or> rc_pestillo x = P_Temporary"
  shows "calculate_weighted_score (risk_factors W N now E x) \<le> 4665 / 100"
proof -
  have w: "sum_list (map rf_weight (risk_factors W N now E x)) = 1"
    using assms by (simp add: factor_weights Let_def default_risk_policy_def)
  have s: "rf_score (evaluate_country_deviation W N x) \<le> 80" "rf_score (evaluate_device_trust x) \<le> 50"
    "rf_score (evaluate_time_anomaly now x) \<le> 25" "rf_score (evaluate_operation_criticality N x) \<le> 50"
    "rf_score (evaluate_resource_criticality N x) \<le> 50" "rf_score (evaluate_pestillo_state x) \<le> 24"
    "rf_score (evaluate_history_deviation N x) \<le> 50" "rf_score (evaluate_velocity E N x) \<le> 65"
    "rf_score (evaluate_ip_reputation E x) = 0"
    using assms(1,3) by (simp_all only: open_pestillo_scores)
  have "sum_list (map (\<lambda>f. rf_score f * rf_weight f) (risk_factors W N now E x)) =
      sum_list (map2 (*) (map rf_score (risk_factors W N now E x)) (map rf_weight (risk_factors W N now E x)))"
    by (simp add: zip_map_map comp_def)
       (simp add: risk_factors_def)
  also have "\<dots> \<le> 4665 / 100"
    using s assms(1,2) unfolding factor_weights
    by (simp add: risk_factors_def Let_def default_risk_policy_def)
  finally show ?thesis by (simp add: weighted_score_sums w)
qed

lemma default_policy_of_override:
  "eng_policy (new_risk_engine ov) = default_risk_policy" if "ov = \<lparr> po_weights = None, po_thresholds = None,
     po_country_risk = None, po_operation_multiplier = None, po_criticality_multiplier = None,
     po_pestillo_modifiers = None, po_velocity = None \<rparr>"
  using that by (simp add: new_risk_engine_def merge_policy_def section_or_def section_merge_def)

lemma decision_of_pestillo:
  "make_decision E s P_Closed = Risk_Deny" "make_decision E s P_Step_Up = Risk_Challenge"
  by (simp_all add: make_decision_def)

lemma evaluate_risk_fields:
  "ev_decision (fst (evaluate_risk W N now E x))
     = make_decision E (calculate_weighted_score (risk_factors W N now E x)) (rc_pestillo x)"
  "ev_total_score (fst (evaluate_risk W N now E x)) = js_round (calculate_weighted_score (risk_factors W N now E x))"
  "ev_factors (fst (evaluate_risk W N now E x)) = risk_factors W N now E x"
  by (simp_all add: evaluate_risk_def Let_def)

lemma evaluate_risk_keeps_policy: "eng_policy (snd (evaluate_risk W N now E x)) = eng_policy E"
  by (simp add: evaluate_risk_def Let_def split: option.split)

lemma default_decision:
  assumes "rc_policy x = default_risk_policy" and "eng_policy E = default_risk_policy"
  shows "ev_decision (fst (evaluate_risk W N now E x)) = Risk_Deny \<longleftrightarrow> rc_pestillo x = P_Closed"
proof (cases "rc_pestillo x = P_Enabled \<or> rc_pestillo x = P_Temporary")
  case True
  have "calculate_weighted_score (risk_factors W N now E x) \<le> 70"
    using default_score_bound [OF assms True, of W N now] by linarith
  moreover have "th_challenge (rp_thresholds (eng_policy E)) = 70"
    using assms(2) by (simp add: default_risk_policy_def)
  ultimately show ?thesis using True by (auto simp: evaluate_risk_fields make_decision_def)
next
  case False
  then show ?thesis by (cases "rc_pestillo x") (simp_all add: evaluate_risk_fields make_decision_def)
qed

text \<open>The third threshold is read by nothing.\<close>

definition with_deny_threshold :: "rat \<Rightarrow> risk_policy \<Rightarrow> risk_policy" where
  "with_deny_threshold d P = P\<lparr> rp_thresholds := (rp_thresholds P)\<lparr> th_deny := d \<rparr> \<rparr>"

lemma factors_ignore_deny_threshold:
  fixes x :: risk_context and d :: rat
  defines "x' \<equiv> x\<lparr> rc_policy := with_deny_threshold d (rc_policy x) \<rparr>"
  shows "evaluate_country_deviation W N x' = evaluate_country_deviation W N x"
    "evaluate_device_trust x' = evaluate_device_trust x" "evaluate_time_anomaly now x' = evaluate_time_anomaly now x"
    "evaluate_operation_criticality N x' = evaluate_operation_criticality N x"
    "evaluate_resource_criticality N x' = evaluate_resource_criticality N x"
    "evaluate_pestillo_state x' = evaluate_pestillo_state x"
    "evaluate_history_deviation N x' = evaluate_history_deviation N x"
    "evaluate_velocity (E\<lparr> eng_policy := P \<rparr>) N x' = evaluate_velocity E N x"
    "evaluate_ip_reputation (E\<lparr> eng_policy := with_deny_threshold d (eng_policy E) \<rparr>) x' = evaluate_ip_reputation E x"
proof -
  let ?P = "with_deny_threshold d (rc_policy x)"
  have f: "rc_policy x' = ?P" "rc_user x' = rc_user x" "rc_resource x' = rc_resource x"
    "rc_operation x' = rc_operation x" "rc_pestillo x' = rc_pestillo x" "rc_client x' = rc_client x"
    "rc_history x' = rc_history x"
    by (simp_all add: x'_def)
  have g: "rp_weights (with_deny_threshold d Q) = rp_weights Q"
    "rp_country_risk (with_deny_threshold d Q) = rp_country_risk Q"
    "rp_operation_multiplier (with_deny_threshold d Q) = rp_operation_multiplier Q"
    "rp_criticality_multiplier (with_deny_threshold d Q) = rp_criticality_multiplier Q"
    "rp_pestillo_modifiers (with_deny_threshold d Q) = rp_pestillo_modifiers Q"
    "rp_velocity (with_deny_threshold d Q) = rp_velocity Q" for Q
    by (simp_all add: with_deny_threshold_def)
  have l: "eng_locations (E\<lparr> eng_policy := Q \<rparr>) = eng_locations E" "eng_policy (E\<lparr> eng_policy := Q \<rparr>) = Q" for Q
    by simp_all
  note defs = evaluate_country_deviation_def evaluate_device_trust_def evaluate_time_anomaly_def
      evaluate_operation_criticality_def evaluate_resource_criticality_def evaluate_pestillo_state_def
      evaluate_history_deviation_def evaluate_velocity_def evaluate_ip_reputation_def country_deviation_score_def
  show "evaluate_country_deviation W N x' = evaluate_country_deviation W N x"
    "evaluate_device_trust x' = evaluate_device_trust x" "evaluate_time_anomaly now x' = evaluate_time_anomaly now x"
    "evaluate_operation_criticality N x' = evaluate_operation_criticality N x"
    "evaluate_resource_criticality N x' = evaluate_resource_criticality N x"
    "evaluate_pestillo_state x' = evaluate_pestillo_state x"
    "evaluate_history_deviation N x' = evaluate_history_deviation N x"
    "evaluate_velocity (E\<lparr> eng_policy := P \<rparr>) N x' = evaluate_velocity E N x"
    "evaluate_ip_reputation (E\<lparr> eng_policy := with_deny_threshold d (eng_policy E) \<rparr>) x' = evaluate_ip_reputation E x"
    unfolding defs Let_def f g l by (rule refl)+
qed

lemma deny_threshold_unread:
  "fst (evaluate_risk W N now (E\<lparr> eng_policy := with_deny_threshold d (eng_policy E) \<rparr>)
     (x\<lparr> rc_policy := with_deny_threshold d (rc_policy x) \<rparr>)) = fst (evaluate_risk W N now E x)"
proof -
  let ?E = "E\<lparr> eng_policy := with_deny_threshold d (eng_policy E) \<rparr>"
  let ?x = "x\<lparr> rc_policy := with_deny_threshold d (rc_policy x) \<rparr>"
  have f: "risk_factors W N now ?E ?x = risk_factors W N now E x"
    unfolding risk_factors_def factors_ignore_deny_threshold ..
  have "make_decision ?E s st = make_decision E s st" for s st
    by (simp add: make_decision_def with_deny_threshold_def)
  then show ?thesis
    unfolding evaluate_risk_def Let_def f by simp
qed

end
