(* ===== verification/Entitlement_Store.thy ===== *)
theory Entitlement_Store
  imports Entitlement Share_Store
begin

text \<open>
  The table of entitlements: plus/infrastructure/repositories/
  PostgresEntitlementRepository.ts, the row mapper of row-mappers.ts and
  \<^verbatim>\<open>parseJsonbColumn\<close> of src/src/shared/jsonb.ts.  A table is the list of its rows by
  primary key; rows created at the same instant keep the order of the table.
  Connection failures, retries and the circuit breaker are outside it.
\<close>

text \<open>What the driver hands over for a TIMESTAMPTZ: a Date, or its text.\<close>

datatype timestamp = Date_Value int | Date_Text jstr

record entitlement_row =
  er_id :: jstr
  er_user_id :: jstr
  er_resource_id :: jstr
  er_pestillo_state :: pestillo_state
  er_allowed_operations :: "jstr list option"
  er_valid_from :: "timestamp option"
  er_valid_until :: "timestamp option"
  er_metadata :: "json option"
  er_created_by :: jstr
  er_created_at :: timestamp
  er_updated_at :: timestamp

definition to_plain_timestamp :: "dates \<Rightarrow> timestamp \<Rightarrow> jstr" where
  "to_plain_timestamp T t = (case t of Date_Value ms \<Rightarrow> to_iso T ms | Date_Text s \<Rightarrow> s)"

definition to_optional_plain_timestamp :: "dates \<Rightarrow> timestamp option \<Rightarrow> jstr option" where
  "to_optional_plain_timestamp T t = map_option (to_plain_timestamp T) t"

text \<open>
  A JSONB column: SQL NULL, or a value already parsed; text is parsed once more.  The
  outer None is the throw of JSON.parse, the inner None is undefined.
\<close>

definition parse_jsonb_column :: "subtle \<Rightarrow> json option \<Rightarrow> json option option" where
  "parse_jsonb_column S v = (case v of
     None \<Rightarrow> Some None
   | Some JNull \<Rightarrow> Some None
   | Some (JStr s) \<Rightarrow> (if trim s = [] then Some None
       else (case json_parse S (trim s) of None \<Rightarrow> None | Some j \<Rightarrow> Some (Some j)))
   | Some j \<Rightarrow> Some (Some j))"

definition metadata_of_json :: "json option \<Rightarrow> metadata option" where
  "metadata_of_json j = (case j of Some (JObj kvs) \<Rightarrow> Some kvs | _ \<Rightarrow> None)"

definition map_entitlement_row :: "subtle \<Rightarrow> dates \<Rightarrow> entitlement_row \<Rightarrow> plain_entitlement option" where
  "map_entitlement_row S T r = (case parse_jsonb_column S (er_metadata r) of
     None \<Rightarrow> None
   | Some m \<Rightarrow> Some
     \<lparr> pe_id = er_id r, pe_user_id = er_user_id r, pe_resource_id = er_resource_id r,
       pe_pestillo = er_pestillo_state r,
       pe_operations = (case er_allowed_operations r of None \<Rightarrow> [] | Some ops \<Rightarrow> ops),
       pe_valid_from = to_optional_plain_timestamp T (er_valid_from r),
       pe_valid_until = to_optional_plain_timestamp T (er_valid_until r),
       pe_metadata = metadata_of_json m,
       pe_created_at = to_plain_timestamp T (er_created_at r),
       pe_updated_at = to_plain_timestamp T (er_updated_at r), pe_created_by = er_created_by r \<rparr>)"

definition entitlement_of_row :: "subtle \<Rightarrow> dates \<Rightarrow> entitlement_row \<Rightarrow> entitlement option" where
  "entitlement_of_row S T r = map_option (entitlement_from_plain T) (map_entitlement_row S T r)"

subsection \<open>The table\<close>

type_synonym entitlement_table = "(jstr \<times> entitlement_row) list"

definition row_of_plain :: "dates \<Rightarrow> plain_entitlement \<Rightarrow> entitlement_row" where
  "row_of_plain T p =
     \<lparr> er_id = pe_id p, er_user_id = pe_user_id p, er_resource_id = pe_resource_id p,
       er_pestillo_state = pe_pestillo p, er_allowed_operations = Some (pe_operations p),
       er_valid_from = map_option Date_Value (optional_date T (pe_valid_from p)),
       er_valid_until = map_option Date_Value (optional_date T (pe_valid_until p)),
       er_metadata = map_option JObj (pe_metadata p), er_created_by = pe_created_by p,
       er_created_at = Date_Value (of_iso T (pe_created_at p)),
       er_updated_at = Date_Value (of_iso T (pe_updated_at p)) \<rparr>"

text \<open>
  The upsert keeps the creation time of a row that is already there.  None: the
  entitlement or the row read back cannot be serialized.
\<close>

definition save_entitlement ::
  "subtle \<Rightarrow> dates \<Rightarrow> entitlement_table \<Rightarrow> entitlement \<Rightarrow> entitlement option \<times> entitlement_table" where
  "save_entitlement S T tb e = (case entitlement_to_plain S T e of
     None \<Rightarrow> (None, tb)
   | Some p \<Rightarrow>
       (let new = row_of_plain T p;
            r = (case map_of tb (pe_id p) of None \<Rightarrow> new | Some old \<Rightarrow> new\<lparr> er_created_at := er_created_at old \<rparr>)
        in (entitlement_of_row S T r, map_set tb (pe_id p) r)))"

text \<open>The outer None is a throw of the mapper.\<close>

definition find_entitlement :: "subtle \<Rightarrow> dates \<Rightarrow> entitlement_table \<Rightarrow> jstr \<Rightarrow> entitlement option option" where
  "find_entitlement S T tb i = (case map_of tb i of
     None \<Rightarrow> Some None
   | Some r \<Rightarrow> (case entitlement_of_row S T r of None \<Rightarrow> None | Some e \<Rightarrow> Some (Some e)))"

definition entitlement_key :: "jstr \<Rightarrow> jstr \<Rightarrow> jstr" where
  "entitlement_key user_id resource_id = user_id @ lit '':'' @ resource_id"

definition find_by_user_and_resource ::
  "subtle \<Rightarrow> dates \<Rightarrow> entitlement_table \<Rightarrow> jstr \<Rightarrow> jstr \<Rightarrow> entitlement option option" where
  "find_by_user_and_resource S T tb user_id resource_id = find_entitlement S T tb (entitlement_key user_id resource_id)"

fun all_rows :: "('a \<Rightarrow> 'b option) \<Rightarrow> 'a list \<Rightarrow> 'b list option" where
  "all_rows f [] = Some []"
| "all_rows f (r # rs) = (case f r of None \<Rightarrow> None
     | Some x \<Rightarrow> (case all_rows f rs of None \<Rightarrow> None | Some xs \<Rightarrow> Some (x # xs)))"

definition date_of :: "dates \<Rightarrow> timestamp \<Rightarrow> int" where
  "date_of T t = (case t of Date_Value ms \<Rightarrow> ms | Date_Text s \<Rightarrow> of_iso T s)"

definition newest_first :: "dates \<Rightarrow> entitlement_row list \<Rightarrow> entitlement_row list" where
  "newest_first T rs = sort_key (\<lambda>r. - date_of T (er_created_at r)) rs"

definition select_entitlements ::
  "subtle \<Rightarrow> dates \<Rightarrow> entitlement_table \<Rightarrow> (entitlement_row \<Rightarrow> bool) \<Rightarrow> entitlement list option" where
  "select_entitlements S T tb q = all_rows (entitlement_of_row S T) (newest_first T (filter q (map snd tb)))"

definition find_entitlements_by_user ::
  "subtle \<Rightarrow> dates \<Rightarrow> entitlement_table \<Rightarrow> jstr \<Rightarrow> entitlement list option" where
  "find_entitlements_by_user S T tb u = select_entitlements S T tb (\<lambda>r. er_user_id r = u)"

definition find_entitlements_by_resource ::
  "subtle \<Rightarrow> dates \<Rightarrow> entitlement_table \<Rightarrow> jstr \<Rightarrow> entitlement list option" where
  "find_entitlements_by_resource S T tb x = select_entitlements S T tb (\<lambda>r. er_resource_id r = x)"

definition find_entitlements_by_state ::
  "subtle \<Rightarrow> dates \<Rightarrow> entitlement_table \<Rightarrow> pestillo_state \<Rightarrow> entitlement list option" where
  "find_entitlements_by_state S T tb st = select_entitlements S T tb (\<lambda>r. er_pestillo_state r = st)"

definition find_expiring_soon ::
  "subtle \<Rightarrow> dates \<Rightarrow> entitlement_table \<Rightarrow> int \<Rightarrow> int \<Rightarrow> entitlement list option" where
  "find_expiring_soon S T tb now within_ms =
     all_rows (entitlement_of_row S T)
       (sort_key (\<lambda>r. case er_valid_until r of None \<Rightarrow> 0 | Some t \<Rightarrow> date_of T t)
          (filter (\<lambda>r. case er_valid_until r of None \<Rightarrow> False
             | Some t \<Rightarrow> date_of T t > now \<and> date_of T t \<le> now + within_ms) (map snd tb)))"

record entitlement_search =
  es_user_id :: "jstr option"
  es_resource_id :: "jstr option"
  es_pestillo_state :: "pestillo_state option"
  es_active_only :: bool
  es_limit :: "nat option"
  es_offset :: "nat option"

definition row_active :: "dates \<Rightarrow> int \<Rightarrow> entitlement_row \<Rightarrow> bool" where
  "row_active T now r \<longleftrightarrow> er_pestillo_state r \<noteq> P_Closed
     \<and> (case er_valid_until r of None \<Rightarrow> True | Some t \<Rightarrow> date_of T t > now)
     \<and> (case er_valid_from r of None \<Rightarrow> True | Some t \<Rightarrow> date_of T t \<le> now)"

text \<open>An empty or absent criterion adds no condition; a limit or offset of 0 is not applied.\<close>

definition search_matches :: "dates \<Rightarrow> int \<Rightarrow> entitlement_search \<Rightarrow> entitlement_row \<Rightarrow> bool" where
  "search_matches T now q r \<longleftrightarrow>
     (case es_user_id q of None \<Rightarrow> True | Some u \<Rightarrow> u = [] \<or> er_user_id r = u)
     \<and> (case es_resource_id q of None \<Rightarrow> True | Some x \<Rightarrow> x = [] \<or> er_resource_id r = x)
     \<and> (case es_pestillo_state q of None \<Rightarrow> True | Some st \<Rightarrow> er_pestillo_state r = st)
     \<and> (es_active_only q \<longrightarrow> row_active T now r)"

definition search_entitlements ::
  "subtle \<Rightarrow> dates \<Rightarrow> entitlement_table \<Rightarrow> int \<Rightarrow> entitlement_search \<Rightarrow> (entitlement list \<times> nat) option" where
  "search_entitlements S T tb now q =
     (let rows = newest_first T (filter (search_matches T now q) (map snd tb));
          from = (case es_offset q of None \<Rightarrow> rows | Some n \<Rightarrow> drop n rows);
          page = (case es_limit q of None \<Rightarrow> from | Some n \<Rightarrow> if n = 0 then from else take n from)
      in map_option (\<lambda>es. (es, length rows)) (all_rows (entitlement_of_row S T) page))"

definition delete_entitlement :: "entitlement_table \<Rightarrow> jstr \<Rightarrow> bool \<times> entitlement_table" where
  "delete_entitlement tb i = (map_of tb i \<noteq> None, map_delete tb i)"

definition list_entitlements :: "subtle \<Rightarrow> dates \<Rightarrow> entitlement_table \<Rightarrow> entitlement list option" where
  "list_entitlements S T tb = select_entitlements S T tb (\<lambda>r. True)"

subsection \<open>Facts\<close>

text \<open>The key determines the pair when no user identifier contains a colon.\<close>

lemma entitlement_key_inject:
  assumes "entitlement_key u r = entitlement_key u' r'" and "58 \<notin> set u" and "58 \<notin> set u'"
  shows "u = u' \<and> r = r'"
proof -
  have "u @ 58 # r = u' @ 58 # r'" using assms(1) by (simp add: entitlement_key_def lit_def)
  from split_first_sep [OF this assms(2,3)] show ?thesis .
qed

lemma entitlement_key_collides: "entitlement_key u (v @ lit '':'' @ r) = entitlement_key (u @ lit '':'' @ v) r"
  by (simp add: entitlement_key_def)

lemma created_entitlement_key: "en_id (create_entitlement now i) = entitlement_key (ein_user_id i) (ein_resource_id i)"
  by (simp add: create_entitlement_def entitlement_key_def)

definition metadata_clones :: "subtle \<Rightarrow> entitlement \<Rightarrow> bool" where
  "metadata_clones S e \<longleftrightarrow> (case en_metadata e of None \<Rightarrow> True
     | Some m \<Rightarrow> json_parse S (json_stringify S (JObj m)) = Some (JObj m))"

definition dates_clone :: "dates \<Rightarrow> entitlement \<Rightarrow> bool" where
  "dates_clone T e \<longleftrightarrow> (\<forall>t \<in> entitlement_dates e. dates_ok T t)"

text \<open>A saved entitlement is the one found under its key.\<close>

lemma optional_date_of_row:
  assumes "\<And>t. x = Some t \<Longrightarrow> dates_ok T t"
  shows "optional_date T (to_optional_plain_timestamp T
     (map_option Date_Value (optional_date T (map_option (to_iso T) x)))) = x"
  using assms
  by (cases x) (auto simp: optional_date_def to_optional_plain_timestamp_def to_plain_timestamp_def dates_ok_def)

lemma saved_row_reads_back:
  assumes "entitlement_to_plain S T e = Some p" and "metadata_clones S e" and "dates_clone T e"
  shows "entitlement_of_row S T (row_of_plain T p) = Some e"
proof -
  have p: "p = \<lparr> pe_id = en_id e, pe_user_id = en_user_id e, pe_resource_id = en_resource_id e,
       pe_pestillo = en_pestillo e, pe_operations = en_operations e,
       pe_valid_from = map_option (to_iso T) (en_valid_from e),
       pe_valid_until = map_option (to_iso T) (en_valid_until e), pe_metadata = en_metadata e,
       pe_created_at = to_iso T (en_created_at e), pe_updated_at = to_iso T (en_updated_at e),
       pe_created_by = en_created_by e \<rparr>"
    using assms(1,2)
    by (auto simp: entitlement_to_plain_def clone_metadata_def metadata_clones_def split: option.splits)
  have d: "dates_ok T (en_created_at e)" "dates_ok T (en_updated_at e)"
    "\<And>t. en_valid_from e = Some t \<Longrightarrow> dates_ok T t" "\<And>t. en_valid_until e = Some t \<Longrightarrow> dates_ok T t"
    using assms(3) by (simp_all add: dates_clone_def entitlement_dates_def)
  have m: "map_option metadata_of_json (parse_jsonb_column S (map_option JObj (en_metadata e))) = Some (en_metadata e)"
    by (cases "en_metadata e") (simp_all add: parse_jsonb_column_def metadata_of_json_def)
  then obtain j where j: "parse_jsonb_column S (map_option JObj (en_metadata e)) = Some j"
    "metadata_of_json j = en_metadata e" by auto
  show ?thesis
    using d j optional_date_of_row [OF d(3)] optional_date_of_row [OF d(4)]
    by (simp add: entitlement_of_row_def map_entitlement_row_def row_of_plain_def p entitlement_from_plain_def
        to_plain_timestamp_def dates_ok_def)
qed

end
