(* ===== verification/Challenge_Store.thy ===== *)
theory Challenge_Store
  imports Entitlement Share_Store
begin

text \<open>
  Challenges and their persistence: the types and the port \<^verbatim>\<open>IChallengeRepository\<close> of
  plus/domain/services/challenge.ts, and the table that
  plus/infrastructure/repositories/PostgresChallengeRepository.ts keeps.  A table is
  the list of its rows by primary key; SQL leaves the order of rows created at the
  same instant open, the model keeps them in table order.  Connection failures,
  retries and the circuit breaker around the queries are not part of this table.
\<close>

datatype challenge_type = Type_Step_Up | Type_Risk_Based | Type_Forced

datatype challenge_status = Pending | Email_Sent | Url_Accessed | Completed | Expired | Failed

record challenge =
  ch_id :: jstr
  ch_user_id :: jstr
  ch_resource_id :: jstr
  ch_operation :: jstr
  ch_secret_ref :: jstr
  ch_device_id :: "jstr option"
  ch_type :: challenge_type
  ch_status :: challenge_status
  ch_nonce :: jstr
  ch_pin_hmac :: "jstr option"
  ch_pin_salt :: "jstr option"
  ch_email_sent_at :: "int option"
  ch_accessed_at :: "int option"
  ch_completed_at :: "int option"
  ch_expires_at :: int
  ch_attempts :: int
  ch_max_attempts :: int
  ch_risk_score :: "int option"
  ch_risk_reasons :: "jstr list option"
  ch_assurance_level :: int
  ch_created_at :: int
  ch_updated_at :: int
  ch_metadata :: "metadata option"

text \<open>\<^verbatim>\<open>IChallengeRepository\<close>: an operation returns its result, or Inl what it throws, and the store it leaves.\<close>

record 's challenge_port =
  chp_save :: "'s \<Rightarrow> challenge \<Rightarrow> (string + challenge) \<times> 's"
  chp_find_by_id :: "'s \<Rightarrow> jstr \<Rightarrow> string + challenge option"
  chp_find_by_user :: "'s \<Rightarrow> jstr \<Rightarrow> string + challenge list"
  chp_find_pending :: "'s \<Rightarrow> jstr \<Rightarrow> string + challenge list"
  chp_update :: "'s \<Rightarrow> challenge \<Rightarrow> (string + challenge) \<times> 's"
  chp_delete :: "'s \<Rightarrow> jstr \<Rightarrow> (string + bool) \<times> 's"
  chp_cleanup :: "'s \<Rightarrow> int \<Rightarrow> (string + nat) \<times> 's"

definition outstanding_statuses :: "challenge_status list" where
  "outstanding_statuses = [Pending, Email_Sent, Url_Accessed]"

subsection \<open>Rows\<close>

text \<open>
  One row of the table.  A JSONB column holds SQL NULL (None) or a JSON value, which
  may be the JSON null; the dates are milliseconds.
\<close>

record challenge_row =
  row_id :: jstr
  row_user_id :: jstr
  row_resource_id :: jstr
  row_operation :: jstr
  row_secret_ref :: jstr
  row_device_id :: "jstr option"
  row_type :: challenge_type
  row_status :: challenge_status
  row_nonce :: jstr
  row_pin_hmac :: jstr
  row_pin_salt :: jstr
  row_email_sent_at :: "int option"
  row_accessed_at :: "int option"
  row_completed_at :: "int option"
  row_expires_at :: int
  row_attempts :: int
  row_max_attempts :: int
  row_risk_score :: "int option"
  row_risk_reasons :: "jstr list option"
  row_assurance_level :: int
  row_created_at :: int
  row_updated_at :: int
  row_metadata :: "json option"

definition plaintext_pin_metadata_key :: jstr where
  "plaintext_pin_metadata_key = lit ''generatedPin''"

definition sanitize_metadata :: "metadata option \<Rightarrow> metadata option" where
  "sanitize_metadata m = (case m of
     None \<Rightarrow> None
   | Some kvs \<Rightarrow> (let kept = filter (\<lambda>(k, v). k \<noteq> plaintext_pin_metadata_key) kvs in
       if kept = [] then None else Some kept))"

text \<open>\<^verbatim>\<open>row.metadata ?? undefined\<close>.\<close>

definition metadata_of_column :: "json option \<Rightarrow> metadata option" where
  "metadata_of_column j = (case j of Some (JObj kvs) \<Rightarrow> Some kvs | _ \<Rightarrow> None)"

definition to_challenge_props :: "challenge_row \<Rightarrow> challenge" where
  "to_challenge_props r =
     \<lparr> ch_id = row_id r, ch_user_id = row_user_id r, ch_resource_id = row_resource_id r,
       ch_operation = row_operation r, ch_secret_ref = row_secret_ref r, ch_device_id = row_device_id r,
       ch_type = row_type r, ch_status = row_status r, ch_nonce = row_nonce r,
       ch_pin_hmac = Some (row_pin_hmac r), ch_pin_salt = Some (row_pin_salt r),
       ch_email_sent_at = row_email_sent_at r, ch_accessed_at = row_accessed_at r,
       ch_completed_at = row_completed_at r, ch_expires_at = row_expires_at r,
       ch_attempts = row_attempts r, ch_max_attempts = row_max_attempts r,
       ch_risk_score = row_risk_score r, ch_risk_reasons = row_risk_reasons r, ch_assurance_level = 3,
       ch_created_at = row_created_at r, ch_updated_at = row_updated_at r,
       ch_metadata = metadata_of_column (row_metadata r) \<rparr>"

text \<open>
  The values bound to the columns.  \<^verbatim>\<open>JSON.stringify(null)\<close> is the text of the JSON null,
  so a challenge without metadata writes that, not SQL NULL.
\<close>

definition to_column_values :: "challenge \<Rightarrow> challenge_row" where
  "to_column_values c =
     \<lparr> row_id = ch_id c, row_user_id = ch_user_id c, row_resource_id = ch_resource_id c,
       row_operation = ch_operation c, row_secret_ref = ch_secret_ref c, row_device_id = ch_device_id c,
       row_type = ch_type c, row_status = ch_status c, row_nonce = ch_nonce c,
       row_pin_hmac = (case ch_pin_hmac c of None \<Rightarrow> [] | Some h \<Rightarrow> h),
       row_pin_salt = (case ch_pin_salt c of None \<Rightarrow> [] | Some s \<Rightarrow> s),
       row_email_sent_at = ch_email_sent_at c, row_accessed_at = ch_accessed_at c,
       row_completed_at = ch_completed_at c, row_expires_at = ch_expires_at c,
       row_attempts = ch_attempts c, row_max_attempts = ch_max_attempts c,
       row_risk_score = ch_risk_score c, row_risk_reasons = ch_risk_reasons c,
       row_assurance_level = ch_assurance_level c, row_created_at = ch_created_at c,
       row_updated_at = ch_updated_at c,
       row_metadata = Some (case sanitize_metadata (ch_metadata c) of None \<Rightarrow> JNull | Some kvs \<Rightarrow> JObj kvs) \<rparr>"

text \<open>What is read back of a stored challenge.\<close>

definition stored_form :: "challenge \<Rightarrow> challenge" where
  "stored_form c = to_challenge_props (to_column_values c)"

subsection \<open>The table\<close>

type_synonym challenge_table = "(jstr \<times> challenge_row) list"

definition pg_save :: "challenge_table \<Rightarrow> challenge \<Rightarrow> (string + challenge) \<times> challenge_table" where
  "pg_save tb c = (let r = to_column_values c in (Inr (to_challenge_props r), map_set tb (ch_id c) r))"

definition pg_find_by_id :: "challenge_table \<Rightarrow> jstr \<Rightarrow> string + challenge option" where
  "pg_find_by_id tb i = Inr (map_option to_challenge_props (map_of tb i))"

definition select_rows :: "challenge_table \<Rightarrow> (challenge_row \<Rightarrow> bool) \<Rightarrow> challenge list" where
  "select_rows tb q = map to_challenge_props (sort_key (\<lambda>r. - row_created_at r) (filter q (map snd tb)))"

definition pg_find_by_user :: "challenge_table \<Rightarrow> jstr \<Rightarrow> string + challenge list" where
  "pg_find_by_user tb u = Inr (select_rows tb (\<lambda>r. row_user_id r = u))"

definition pg_find_pending :: "challenge_table \<Rightarrow> jstr \<Rightarrow> string + challenge list" where
  "pg_find_pending tb u = Inr (select_rows tb (\<lambda>r. row_user_id r = u \<and> row_status r \<in> set outstanding_statuses))"

definition pg_update :: "challenge_table \<Rightarrow> challenge \<Rightarrow> (string + challenge) \<times> challenge_table" where
  "pg_update tb c =
     (if map_of tb (ch_id c) = None then (Inl (''Challenge not found for update: '' @ map char_of (ch_id c)), tb)
      else (let r = to_column_values c in (Inr (to_challenge_props r), map_set tb (ch_id c) r)))"

definition pg_delete :: "challenge_table \<Rightarrow> jstr \<Rightarrow> (string + bool) \<times> challenge_table" where
  "pg_delete tb i = (Inr (map_of tb i \<noteq> None), map_delete tb i)"

definition pg_cleanup_expired :: "challenge_table \<Rightarrow> int \<Rightarrow> (string + nat) \<times> challenge_table" where
  "pg_cleanup_expired tb now =
     (Inr (length (filter (\<lambda>(i, r). row_expires_at r \<le> now) tb)),
      filter (\<lambda>(i, r). \<not> row_expires_at r \<le> now) tb)"

definition pg_port :: "challenge_table challenge_port" where
  "pg_port = \<lparr> chp_save = pg_save, chp_find_by_id = pg_find_by_id, chp_find_by_user = pg_find_by_user,
     chp_find_pending = pg_find_pending, chp_update = pg_update, chp_delete = pg_delete,
     chp_cleanup = pg_cleanup_expired \<rparr>"

text \<open>The primary key: each row once, under its own identifier.\<close>

definition table_ok :: "challenge_table \<Rightarrow> bool" where
  "table_ok tb \<longleftrightarrow> distinct (map fst tb) \<and> (\<forall>(i, r) \<in> set tb. row_id r = i)"

subsection \<open>The contract of the store\<close>

text \<open>
  \<^verbatim>\<open>holds s i c\<close>: the store reads back c under i.  \<^verbatim>\<open>norm\<close> is what is read back of what
  was written; it keeps all that the service decides on.
\<close>

locale challenge_store =
  fixes P :: "'s challenge_port" and ok :: "'s \<Rightarrow> bool" and norm :: "challenge \<Rightarrow> challenge"
    and held :: "'s \<Rightarrow> jstr \<Rightarrow> challenge option"
  assumes find_by_id: "chp_find_by_id P s i = Inr (held s i)"
    and find_by_user: "ok s \<Longrightarrow>
      \<exists>cs. chp_find_by_user P s u = Inr cs \<and> set cs = {c. \<exists>i. held s i = Some c \<and> ch_user_id c = u}"
    and held_id: "ok s \<Longrightarrow> held s i = Some c \<Longrightarrow> ch_id c = i"
    and save_result: "fst (chp_save P s c) = Inr (norm c)"
    and save_held: "held (snd (chp_save P s c)) = (held s)(ch_id c \<mapsto> norm c)"
    and update_missing: "held s (ch_id c) = None \<Longrightarrow> snd (chp_update P s c) = s \<and> (\<exists>e. fst (chp_update P s c) = Inl e)"
    and update_result: "held s (ch_id c) \<noteq> None \<Longrightarrow> fst (chp_update P s c) = Inr (norm c)"
    and update_held: "held s (ch_id c) \<noteq> None \<Longrightarrow> held (snd (chp_update P s c)) = (held s)(ch_id c \<mapsto> norm c)"
    and delete_held: "held (snd (chp_delete P s i)) = (held s)(i := None)"
    and cleanup_held: "ok s \<Longrightarrow> held (snd (chp_cleanup P s now)) i
      = (case held s i of None \<Rightarrow> None | Some c \<Rightarrow> if ch_expires_at c \<le> now then None else Some c)"
    and ok_save: "ok s \<Longrightarrow> ok (snd (chp_save P s c))"
    and ok_update: "ok s \<Longrightarrow> ok (snd (chp_update P s c))"
    and ok_delete: "ok s \<Longrightarrow> ok (snd (chp_delete P s i))"
    and ok_cleanup: "ok s \<Longrightarrow> ok (snd (chp_cleanup P s now))"
    and norm_keeps: "ch_id (norm c) = ch_id c" "ch_user_id (norm c) = ch_user_id c"
      "ch_resource_id (norm c) = ch_resource_id c" "ch_operation (norm c) = ch_operation c"
      "ch_secret_ref (norm c) = ch_secret_ref c" "ch_device_id (norm c) = ch_device_id c"
      "ch_status (norm c) = ch_status c" "ch_expires_at (norm c) = ch_expires_at c"
begin

lemma update_cases:
  obtains (missing) e where "held s (ch_id c) = None" "chp_update P s c = (Inl e, s)"
  | (present) s' where "held s (ch_id c) \<noteq> None" "chp_update P s c = (Inr (norm c), s')"
      "held s' = (held s)(ch_id c \<mapsto> norm c)"
proof (cases "held s (ch_id c)")
  case None
  with update_missing [of s c] missing show ?thesis by (metis prod.collapse)
next
  case (Some x)
  with update_result [of s c] update_held [of s c] present show ?thesis by (metis option.distinct(1) prod.collapse)
qed

end

subsection \<open>The table satisfies it\<close>

definition table_held :: "challenge_table \<Rightarrow> jstr \<Rightarrow> challenge option" where
  "table_held tb i = map_option to_challenge_props (map_of tb i)"

lemma table_held_set: "table_held (map_set tb i r) = (table_held tb)(i \<mapsto> to_challenge_props r)"
  by (simp add: table_held_def map_of_map_set fun_eq_iff)

lemma set_map_set_subset: "set (map_set kvs k v) \<subseteq> insert (k, v) (set kvs)"
  by (induction kvs k v rule: map_set.induct) auto

lemma table_ok_set:
  assumes "table_ok tb" and "row_id r = i"
  shows "table_ok (map_set tb i r)"
  using assms set_map_set_subset [of tb i r] by (fastforce simp: table_ok_def intro: distinct_map_set)

lemma table_ok_filter: "table_ok tb \<Longrightarrow> table_ok (filter q tb)"
  by (auto simp: table_ok_def distinct_map_filter)

lemma map_of_filter_distinct:
  "distinct (map fst kvs) \<Longrightarrow> map_of (filter (\<lambda>(k, v). q v) kvs) k
     = (case map_of kvs k of None \<Rightarrow> None | Some v \<Rightarrow> if q v then Some v else None)"
proof (induction kvs)
  case (Cons kv kvs)
  moreover have "map_of kvs (fst kv) = None" using Cons.prems by (simp add: map_of_eq_None_iff)
  ultimately show ?case by (cases kv) (auto split: option.splits)
qed simp

lemma table_ok_snd:
  assumes "table_ok tb"
  shows "r \<in> snd ` set tb \<longleftrightarrow> map_of tb (row_id r) = Some r"
proof
  assume "r \<in> snd ` set tb"
  then obtain i where i: "(i, r) \<in> set tb" by force
  then have "row_id r = i" using assms by (auto simp: table_ok_def)
  with i assms show "map_of tb (row_id r) = Some r" by (simp add: table_ok_def)
next
  assume "map_of tb (row_id r) = Some r"
  from map_of_SomeD [OF this] show "r \<in> snd ` set tb" by force
qed

lemma to_challenge_props_id: "ch_id (to_challenge_props r) = row_id r"
  "ch_user_id (to_challenge_props r) = row_user_id r" "ch_expires_at (to_challenge_props r) = row_expires_at r"
  by (simp_all add: to_challenge_props_def)

lemma select_rows_set:
  assumes "table_ok tb"
  shows "set (select_rows tb q) = {c. \<exists>i r. map_of tb i = Some r \<and> q r \<and> c = to_challenge_props r}"
proof -
  have "set (select_rows tb q) = to_challenge_props ` {r \<in> snd ` set tb. q r}"
    by (simp add: select_rows_def)
  moreover have "r \<in> snd ` set tb \<longleftrightarrow> (\<exists>i. map_of tb i = Some r)" for r
    using table_ok_snd [OF assms, of r] map_of_SomeD [of tb _ r] by (metis image_eqI snd_conv)
  ultimately show ?thesis by auto
qed

lemma stored_form_keeps:
  "ch_id (stored_form c) = ch_id c" "ch_user_id (stored_form c) = ch_user_id c"
  "ch_resource_id (stored_form c) = ch_resource_id c" "ch_operation (stored_form c) = ch_operation c"
  "ch_secret_ref (stored_form c) = ch_secret_ref c" "ch_device_id (stored_form c) = ch_device_id c"
  "ch_status (stored_form c) = ch_status c" "ch_expires_at (stored_form c) = ch_expires_at c"
  by (simp_all add: stored_form_def to_challenge_props_def to_column_values_def)

lemma pg_select_by_user:
  assumes "table_ok tb"
  shows "set (select_rows tb (\<lambda>r. row_user_id r = u)) = {c. \<exists>i. table_held tb i = Some c \<and> ch_user_id c = u}"
  unfolding select_rows_set [OF assms] table_held_def by (force simp: to_challenge_props_id)

lemma row_id_values: "row_id (to_column_values c) = ch_id c"
  by (simp add: to_column_values_def)

lemma pg_held:
  "chp_find_by_id pg_port s i = Inr (table_held s i)"
  "fst (chp_save pg_port s c) = Inr (stored_form c)"
  "table_held (snd (chp_save pg_port s c)) = (table_held s)(ch_id c \<mapsto> stored_form c)"
  "table_held s (ch_id c) = None \<Longrightarrow> snd (chp_update pg_port s c) = s \<and> (\<exists>e. fst (chp_update pg_port s c) = Inl e)"
  "table_held s (ch_id c) \<noteq> None \<Longrightarrow> fst (chp_update pg_port s c) = Inr (stored_form c)"
  "table_held s (ch_id c) \<noteq> None \<Longrightarrow>
     table_held (snd (chp_update pg_port s c)) = (table_held s)(ch_id c \<mapsto> stored_form c)"
  "table_held (snd (chp_delete pg_port s i)) = (table_held s)(i := None)"
  by (auto simp: pg_port_def pg_find_by_id_def pg_save_def pg_update_def pg_delete_def table_held_def
      stored_form_def Let_def map_of_map_set map_of_map_delete fun_eq_iff)

lemma pg_ok:
  "table_ok s \<Longrightarrow> table_ok (snd (chp_save pg_port s c))"
  "table_ok s \<Longrightarrow> table_ok (snd (chp_update pg_port s c))"
  "table_ok s \<Longrightarrow> table_ok (snd (chp_delete pg_port s i))"
  "table_ok s \<Longrightarrow> table_ok (snd (chp_cleanup pg_port s now))"
  by (simp_all add: pg_port_def pg_save_def pg_update_def pg_delete_def pg_cleanup_expired_def
      Let_def table_ok_set table_ok_filter map_delete_def row_id_values)

interpretation pg: challenge_store pg_port table_ok stored_form table_held
proof unfold_locales
  show "\<exists>cs. chp_find_by_user pg_port s u = Inr cs \<and> set cs = {c. \<exists>i. table_held s i = Some c \<and> ch_user_id c = u}"
    if "table_ok s" for s u
    using pg_select_by_user [OF that] by (simp add: pg_port_def pg_find_by_user_def)
  show "ch_id c = i" if "table_ok s" "table_held s i = Some c" for s i c
    using that map_of_SomeD by (fastforce simp: table_held_def table_ok_def to_challenge_props_id)
  show "table_held (snd (chp_cleanup pg_port s now)) i
      = (case table_held s i of None \<Rightarrow> None | Some c \<Rightarrow> if ch_expires_at c \<le> now then None else Some c)"
    if "table_ok s" for s now i
    using map_of_filter_distinct [of s "\<lambda>r. \<not> row_expires_at r \<le> now" i] that
    by (auto simp: pg_port_def pg_cleanup_expired_def table_held_def table_ok_def to_challenge_props_id split: option.splits)
qed (rule stored_form_keeps pg_held pg_ok | assumption)+

text \<open>The metadata key of a plaintext PIN never reaches a row.\<close>

lemma no_pin_in_row:
  "row_metadata (to_column_values c) = Some (JObj kvs) \<Longrightarrow> plaintext_pin_metadata_key \<notin> fst ` set kvs"
  by (auto simp: to_column_values_def sanitize_metadata_def Let_def split: option.splits if_splits)

end
