(* ===== verification/Approval.thy ===== *)
theory Approval
  imports Capability
begin

text \<open>
  The signed approval of a step-up: src/src/infrastructure/crypto/ed25519-approval.ts.
  JSON, TextDecoder and Ed25519 are the fields of \<^verbatim>\<open>subtle\<close> and \<^verbatim>\<open>curve\<close>; the numbers of a
  payload are integers.
\<close>

definition approval_version :: int where "approval_version = 1"
definition default_approval_ttl_seconds :: int where "default_approval_ttl_seconds = 300"
definition max_approval_ttl_seconds :: int where "max_approval_ttl_seconds = 600"

definition approval_operations :: "jstr list" where
  "approval_operations = map lit [''AUTOFILL'', ''TOTP'', ''EXPORT_SECRET'']"

record approval_binding_context =
  ab_challenge_id :: jstr
  ab_user_id :: jstr
  ab_resource_id :: jstr
  ab_operation :: jstr
  ab_secret_ref :: jstr

record approval_payload =
  ap_version :: int
  ap_typ :: jstr
  ap_challenge_id :: jstr
  ap_user_id :: jstr
  ap_resource_id :: jstr
  ap_operation :: jstr
  ap_secret_ref :: jstr
  ap_iat :: int
  ap_exp :: int
  ap_jti :: jstr

record signed_approval =
  sa_payload :: approval_payload
  sa_signature :: jstr
  sa_header :: jstr

definition is_valid_approval_operation :: "jstr \<Rightarrow> bool" where
  "is_valid_approval_operation op \<longleftrightarrow> op \<in> set approval_operations"

definition approval_typ :: jstr where "approval_typ = lit ''step-up-approval''"

definition approval_object :: "approval_payload \<Rightarrow> json" where
  "approval_object p = JObj
     [(lit ''version'', JNum (ap_version p)), (lit ''typ'', JStr (ap_typ p)),
      (lit ''challengeId'', JStr (ap_challenge_id p)), (lit ''userId'', JStr (ap_user_id p)),
      (lit ''resourceId'', JStr (ap_resource_id p)), (lit ''operation'', JStr (ap_operation p)),
      (lit ''secretRef'', JStr (ap_secret_ref p)), (lit ''iat'', JNum (ap_iat p)),
      (lit ''exp'', JNum (ap_exp p)), (lit ''jti'', JStr (ap_jti p))]"

definition encode_approval_payload :: "subtle \<Rightarrow> approval_payload \<Rightarrow> bytes" where
  "encode_approval_payload S p = utf8_encode (json_stringify S (approval_object p))"

text \<open>
  Own properties of a parsed value; on an array a textual key is absent.  The last
  occurrence of a key is the one JSON.parse keeps, so a parsed object has none twice.
\<close>

definition str_field :: "(jstr \<times> json) list \<Rightarrow> string \<Rightarrow> jstr option" where
  "str_field kvs k = (case map_of kvs (lit k) of Some (JStr s) \<Rightarrow> Some s | _ \<Rightarrow> None)"

definition num_field :: "(jstr \<times> json) list \<Rightarrow> string \<Rightarrow> int option" where
  "num_field kvs k = (case map_of kvs (lit k) of Some (JNum n) \<Rightarrow> Some n | _ \<Rightarrow> None)"

definition nonempty_field :: "(jstr \<times> json) list \<Rightarrow> string \<Rightarrow> jstr option" where
  "nonempty_field kvs k = (case str_field kvs k of Some s \<Rightarrow> if s = [] then None else Some s | None \<Rightarrow> None)"

definition decode_approval_payload :: "subtle \<Rightarrow> bytes \<Rightarrow> approval_payload option" where
  "decode_approval_payload S data = (case json_parse S (text_decode S data) of
     Some (JObj kvs) \<Rightarrow>
       (if str_field kvs ''typ'' \<noteq> Some approval_typ \<or> num_field kvs ''version'' \<noteq> Some approval_version then None
        else (case (nonempty_field kvs ''challengeId'', nonempty_field kvs ''userId'',
                    nonempty_field kvs ''resourceId'', nonempty_field kvs ''secretRef'',
                    nonempty_field kvs ''jti'', num_field kvs ''iat'', num_field kvs ''exp'',
                    str_field kvs ''operation'') of
            (Some c, Some u, Some r, Some s, Some j, Some i, Some e, Some op) \<Rightarrow>
              if \<not> is_valid_approval_operation op then None
              else Some \<lparr> ap_version = approval_version, ap_typ = approval_typ, ap_challenge_id = c,
                     ap_user_id = u, ap_resource_id = r, ap_operation = op, ap_secret_ref = s,
                     ap_iat = i, ap_exp = e, ap_jti = j \<rparr>
          | _ \<Rightarrow> None))
   | _ \<Rightarrow> None)"

definition generate_approval_key_pair :: "bytes \<Rightarrow> bytes \<Rightarrow> jstr \<times> jstr" where
  "generate_approval_key_pair seed public_key =
     (binary_to_base64 public_key, binary_to_base64 (seed @ public_key))"

definition load_approval_public_key :: "jstr \<Rightarrow> bytes option" where
  "load_approval_public_key k = base64_to_binary k"

definition load_approval_private_key :: "jstr \<Rightarrow> bytes option" where
  "load_approval_private_key k = base64_to_binary k"

definition header_object :: json where
  "header_object = JObj [(lit ''alg'', JStr (lit ''Ed25519'')), (lit ''typ'', JStr approval_typ)]"

definition sign_approval ::
  "subtle \<Rightarrow> curve \<Rightarrow> approval_payload \<Rightarrow> bytes \<Rightarrow> string + signed_approval" where
  "sign_approval S C p private_key =
     (case ed_sign C (encode_approval_payload S p) (take 32 private_key) of
        Inl e \<Rightarrow> Inl e
      | Inr sig \<Rightarrow> Inr \<lparr> sa_payload = p, sa_signature = binary_to_base64 sig,
          sa_header = binary_to_base64 (utf8_encode (json_stringify S header_object)) \<rparr>)"

text \<open>The check of the protected header; the error reported, or None when it passes.\<close>

definition header_error :: "subtle \<Rightarrow> jstr \<Rightarrow> string option" where
  "header_error S h = (case base64_to_binary h of
     None \<Rightarrow> Some ''Malformed protected header''
   | Some bs \<Rightarrow> (case json_parse S (text_decode S bs) of
       None \<Rightarrow> Some ''Malformed protected header''
     | Some (JObj kvs) \<Rightarrow>
         if str_field kvs ''typ'' \<noteq> Some approval_typ \<or> str_field kvs ''alg'' \<noteq> Some (lit ''Ed25519'')
         then Some ''Wrong protected header'' else None
     | Some _ \<Rightarrow> Some ''Wrong protected header''))"

definition compare_field :: "string \<Rightarrow> jstr \<Rightarrow> jstr \<Rightarrow> string list" where
  "compare_field name expected actual =
     (if expected = [] then [name @ '': missing context'']
      else if expected \<noteq> actual then [name] else [])"

definition approval_mismatches :: "approval_binding_context \<Rightarrow> approval_payload \<Rightarrow> string list" where
  "approval_mismatches x p =
     compare_field ''challengeId'' (ab_challenge_id x) (ap_challenge_id p)
     @ compare_field ''userId'' (ab_user_id x) (ap_user_id p)
     @ compare_field ''resourceId'' (ab_resource_id x) (ap_resource_id p)
     @ compare_field ''operation'' (ab_operation x) (ap_operation p)
     @ compare_field ''secretRef'' (ab_secret_ref x) (ap_secret_ref p)"

fun join_names :: "string list \<Rightarrow> string" where
  "join_names [] = []"
| "join_names [n] = n"
| "join_names (n # ns) = n @ '', '' @ join_names ns"

text \<open>
  Inl: atob or the curve throws on the signature.  \<^verbatim>\<open>now\<close> is in seconds.
\<close>

definition verify_approval ::
  "subtle \<Rightarrow> curve \<Rightarrow> signed_approval \<Rightarrow> bytes \<Rightarrow> approval_binding_context option \<Rightarrow> int \<Rightarrow> string + verdict" where
  "verify_approval S C tk public_key expected now =
     (case header_error S (sa_header tk) of
        Some e \<Rightarrow> Inr (Invalid e)
      | None \<Rightarrow>
     (case decode_approval_payload S (encode_approval_payload S (sa_payload tk)) of
        None \<Rightarrow> Inr (Invalid ''Malformed approval payload'')
      | Some p \<Rightarrow>
     (case base64_to_binary (sa_signature tk) of
        None \<Rightarrow> Inl (atob_message C)
      | Some sig \<Rightarrow>
     (case ed_verify C sig (encode_approval_payload S p) public_key of
        Inl e \<Rightarrow> Inl e
      | Inr ok \<Rightarrow>
          if \<not> ok then Inr (Invalid ''Invalid signature'')
          else if ap_exp p \<le> now then Inr (Invalid ''Approval expired'')
          else if ap_exp p - ap_iat p > max_approval_ttl_seconds
            then Inr (Invalid ''Approval TTL exceeds the maximum'')
          else (case expected of
              None \<Rightarrow> Inr Valid
            | Some x \<Rightarrow>
                if approval_mismatches x p \<noteq> []
                then Inr (Invalid (''Binding mismatch: '' @ join_names (approval_mismatches x p)))
                else Inr Valid)))))"

subsection \<open>Encoding\<close>

text \<open>The payloads a signer writes.\<close>

definition approval_wellformed :: "approval_payload \<Rightarrow> bool" where
  "approval_wellformed p \<longleftrightarrow> ap_version p = approval_version \<and> ap_typ p = approval_typ
     \<and> ap_challenge_id p \<noteq> [] \<and> ap_user_id p \<noteq> [] \<and> ap_resource_id p \<noteq> [] \<and> ap_secret_ref p \<noteq> []
     \<and> ap_jti p \<noteq> [] \<and> ap_operation p \<in> set approval_operations"

text \<open>JSON and UTF-8 read the payload back.\<close>

definition approval_reads_back :: "subtle \<Rightarrow> approval_payload \<Rightarrow> bool" where
  "approval_reads_back S p \<longleftrightarrow>
     json_parse S (text_decode S (encode_approval_payload S p)) = Some (approval_object p)"

lemma approval_fields:
  "str_field kvs ''typ'' = Some (ap_typ p)" "num_field kvs ''version'' = Some (ap_version p)"
  "str_field kvs ''challengeId'' = Some (ap_challenge_id p)" "str_field kvs ''userId'' = Some (ap_user_id p)"
  "str_field kvs ''resourceId'' = Some (ap_resource_id p)" "str_field kvs ''secretRef'' = Some (ap_secret_ref p)"
  "str_field kvs ''jti'' = Some (ap_jti p)" "num_field kvs ''iat'' = Some (ap_iat p)"
  "num_field kvs ''exp'' = Some (ap_exp p)" "str_field kvs ''operation'' = Some (ap_operation p)"
  if "approval_object p = JObj kvs"
  using that by (auto simp: approval_object_def str_field_def num_field_def lit_def)

lemma decode_encode_approval:
  assumes "approval_reads_back S p"
  shows "decode_approval_payload S (encode_approval_payload S p)
     = (if approval_wellformed p then Some p else None)"
proof -
  obtain kvs where k: "approval_object p = JObj kvs" by (simp add: approval_object_def)
  note f = approval_fields [OF k]
  show ?thesis
    using assms
    by (auto simp: approval_reads_back_def k decode_approval_payload_def f nonempty_field_def
        approval_wellformed_def is_valid_approval_operation_def)
qed

text \<open>Whatever the platform does, a decoded payload is well formed.\<close>

lemma decode_approval_wellformed: "decode_approval_payload S data = Some p \<Longrightarrow> approval_wellformed p"
  by (auto simp: decode_approval_payload_def approval_wellformed_def nonempty_field_def
      is_valid_approval_operation_def split: option.splits json.splits if_splits)

subsection \<open>What a valid approval satisfies\<close>

definition approval_bound :: "approval_payload \<Rightarrow> approval_binding_context \<Rightarrow> bool" where
  "approval_bound p x \<longleftrightarrow> ab_challenge_id x \<noteq> [] \<and> ab_user_id x \<noteq> [] \<and> ab_resource_id x \<noteq> []
     \<and> ab_operation x \<noteq> [] \<and> ab_secret_ref x \<noteq> []
     \<and> ap_challenge_id p = ab_challenge_id x \<and> ap_user_id p = ab_user_id x
     \<and> ap_resource_id p = ab_resource_id x \<and> ap_operation p = ab_operation x
     \<and> ap_secret_ref p = ab_secret_ref x"

definition approval_acceptable ::
  "subtle \<Rightarrow> curve \<Rightarrow> int \<Rightarrow> signed_approval \<Rightarrow> bytes \<Rightarrow> approval_payload \<Rightarrow> bool" where
  "approval_acceptable S C now tk public_key p \<longleftrightarrow>
     header_error S (sa_header tk) = None
     \<and> decode_approval_payload S (encode_approval_payload S (sa_payload tk)) = Some p
     \<and> (\<exists>sig. base64_to_binary (sa_signature tk) = Some sig
          \<and> ed_verify C sig (encode_approval_payload S p) public_key = Inr True)
     \<and> now < ap_exp p \<and> ap_exp p \<le> ap_iat p + 600"

lemma mismatches_empty_iff: "approval_mismatches x p = [] \<longleftrightarrow> approval_bound p x"
  by (auto simp: approval_mismatches_def compare_field_def approval_bound_def)

lemma verify_approval_valid_iff:
  "verify_approval S C tk pk (Some x) now = Inr Valid
     \<longleftrightarrow> (\<exists>p. approval_acceptable S C now tk pk p \<and> approval_bound p x)"
  by (auto simp: verify_approval_def approval_acceptable_def mismatches_empty_iff
      max_approval_ttl_seconds_def split: option.splits sum.splits)

end
