(* ===== verification/Challenge_Service.thy ===== *)
theory Challenge_Service
  imports Challenge_Store Approval Jti_Store
begin

text \<open>
  The challenge service: plus/domain/services/challenge.ts, over the port of the
  challenge store.  An operation returns what it yields, or Inl the message it throws,
  and the states it leaves.  The clock is read once per call, in milliseconds; random
  bytes, the mail transport, and the environment's pinned key are arguments.
\<close>

record challenge_binding =
  bi_user_id :: jstr
  bi_resource_id :: jstr
  bi_operation :: jstr
  bi_secret_ref :: jstr

record challenge_create_input =
  cin_binding :: challenge_binding
  cin_device_id :: "jstr option"
  cin_type :: challenge_type
  cin_risk_score :: "int option"
  cin_risk_reasons :: "jstr list option"
  cin_ttl_minutes :: "int option"
  cin_max_attempts :: "int option"

record challenge_service =
  cs_base_url :: jstr
  cs_private_key :: bytes

definition strip_trailing_slash :: "jstr \<Rightarrow> jstr" where
  "strip_trailing_slash u = (if u \<noteq> [] \<and> last u = 47 then butlast u else u)"

definition new_challenge_service :: "jstr \<Rightarrow> jstr \<Rightarrow> string + challenge_service" where
  "new_challenge_service base_url key64 = (case load_ed25519_private_key key64 of
     Inl e \<Rightarrow> Inl e
   | Inr k \<Rightarrow> Inr \<lparr> cs_base_url = strip_trailing_slash base_url, cs_private_key = k \<rparr>)"

definition same_binding :: "challenge \<Rightarrow> challenge_binding \<Rightarrow> bool" where
  "same_binding c b \<longleftrightarrow> ch_user_id c = bi_user_id b \<and> ch_resource_id c = bi_resource_id b
     \<and> ch_operation c = bi_operation b \<and> ch_secret_ref c = bi_secret_ref b"

definition find_outstanding_challenge ::
  "'s challenge_port \<Rightarrow> 's \<Rightarrow> int \<Rightarrow> challenge_binding \<Rightarrow> string + challenge option" where
  "find_outstanding_challenge P s now b = (case chp_find_by_user P s (bi_user_id b) of
     Inl e \<Rightarrow> Inl e
   | Inr cs \<Rightarrow> Inr (List.find (\<lambda>c. same_binding c b \<and> ch_status c \<in> set outstanding_statuses
       \<and> ch_expires_at c > now) cs))"

definition find_completed_challenge ::
  "'s challenge_port \<Rightarrow> 's \<Rightarrow> int \<Rightarrow> challenge_binding \<Rightarrow> string + challenge option" where
  "find_completed_challenge P s now b = (case chp_find_by_user P s (bi_user_id b) of
     Inl e \<Rightarrow> Inl e
   | Inr cs \<Rightarrow> Inr (List.find (\<lambda>c. same_binding c b \<and> ch_status c = Completed \<and> ch_expires_at c > now) cs))"

subsection \<open>Creating a challenge\<close>

definition challenge_id_of :: "bytes \<Rightarrow> jstr" where
  "challenge_id_of id_bytes =
     take 24 (filter (\<lambda>c. c \<noteq> 43 \<and> c \<noteq> 47 \<and> c \<noteq> 61) (binary_to_base64 id_bytes))"

definition new_challenge :: "int \<Rightarrow> bytes \<Rightarrow> bytes \<Rightarrow> challenge_create_input \<Rightarrow> challenge" where
  "new_challenge now nonce id_bytes input =
     \<lparr> ch_id = challenge_id_of id_bytes, ch_user_id = bi_user_id (cin_binding input),
       ch_resource_id = bi_resource_id (cin_binding input), ch_operation = bi_operation (cin_binding input),
       ch_secret_ref = bi_secret_ref (cin_binding input), ch_device_id = cin_device_id input,
       ch_type = cin_type input, ch_status = Pending, ch_nonce = binary_to_base64 nonce,
       ch_pin_hmac = None, ch_pin_salt = None, ch_email_sent_at = None, ch_accessed_at = None,
       ch_completed_at = None,
       ch_expires_at = now + (case cin_ttl_minutes input of None \<Rightarrow> 10 | Some m \<Rightarrow> m) * 60 * 1000,
       ch_attempts = 0, ch_max_attempts = (case cin_max_attempts input of None \<Rightarrow> 3 | Some m \<Rightarrow> m),
       ch_risk_score = cin_risk_score input, ch_risk_reasons = cin_risk_reasons input,
       ch_assurance_level = 3, ch_created_at = now, ch_updated_at = now, ch_metadata = None \<rparr>"

text \<open>\<^verbatim>\<open>send url minutes\<close> is False when the mail transport throws.\<close>

definition create_challenge ::
  "'s challenge_port \<Rightarrow> challenge_service \<Rightarrow> (jstr \<Rightarrow> int \<Rightarrow> bool) \<Rightarrow> int \<Rightarrow> bytes \<Rightarrow> bytes
     \<Rightarrow> challenge_create_input \<Rightarrow> 's \<Rightarrow> (string + (jstr \<times> int)) \<times> 's" where
  "create_challenge P sv send now nonce id_bytes input s =
     (case find_outstanding_challenge P s now (cin_binding input) of
        Inl e \<Rightarrow> (Inl e, s)
      | Inr (Some c) \<Rightarrow> (Inr (ch_id c, ch_expires_at c), s)
      | Inr None \<Rightarrow>
          (let c = new_challenge now nonce id_bytes input in
           case chp_save P s c of
             (Inl e, s1) \<Rightarrow> (Inl e, s1)
           | (Inr _, s1) \<Rightarrow>
               if \<not> send (cs_base_url sv @ lit ''/challenge/'' @ ch_id c)
                      (case cin_ttl_minutes input of None \<Rightarrow> 10 | Some m \<Rightarrow> m)
               then (Inl ''mail transport failed'', s1)
               else (let c' = c\<lparr> ch_status := Email_Sent, ch_email_sent_at := Some now, ch_updated_at := now \<rparr> in
                 case chp_update P s1 c' of
                   (Inl e, s2) \<Rightarrow> (Inl e, s2)
                 | (Inr _, s2) \<Rightarrow> (Inr (ch_id c', ch_expires_at c'), s2))))"

subsection \<open>Verifying an approval\<close>

record approval_verify_input =
  avi_challenge_id :: jstr
  avi_approval :: signed_approval
  avi_device_id :: "jstr option"

datatype approval_result = Approval_Failed string | Approval_Succeeded signed_capability

text \<open>The pinned key: unset, empty, unreadable or of the wrong length means no approvals.\<close>

definition pinned_approval_key :: "jstr option \<Rightarrow> bytes option" where
  "pinned_approval_key env = (case env of
     None \<Rightarrow> None
   | Some k \<Rightarrow> if k = [] then None
       else (case load_approval_public_key k of
           None \<Rightarrow> None | Some bs \<Rightarrow> if length bs \<noteq> 32 then None else Some bs))"

definition expected_binding :: "challenge \<Rightarrow> approval_binding_context" where
  "expected_binding c = \<lparr> ab_challenge_id = ch_id c, ab_user_id = ch_user_id c,
     ab_resource_id = ch_resource_id c, ab_operation = ch_operation c, ab_secret_ref = ch_secret_ref c \<rparr>"

definition status_name :: "challenge_status \<Rightarrow> string" where
  "status_name st = (case st of Pending \<Rightarrow> ''pending'' | Email_Sent \<Rightarrow> ''email_sent''
     | Url_Accessed \<Rightarrow> ''url_accessed'' | Completed \<Rightarrow> ''completed'' | Expired \<Rightarrow> ''expired'' | Failed \<Rightarrow> ''failed'')"

text \<open>The checks of the approval itself, steps 4 and 5: the error returned, or None.\<close>

definition approval_refusal ::
  "subtle \<Rightarrow> curve \<Rightarrow> jstr option \<Rightarrow> int \<Rightarrow> challenge \<Rightarrow> signed_approval \<Rightarrow> string option" where
  "approval_refusal S C env now c tk = (case pinned_approval_key env of
     None \<Rightarrow> Some ''Core approval public key is not configured''
   | Some pk \<Rightarrow>
       if \<not> is_valid_approval_operation (ch_operation c) then Some (''Operation cannot be approved: '' @ map char_of (ch_operation c))
       else (case verify_approval S C tk pk (Some (expected_binding c)) (now div 1000) of
           Inl e \<Rightarrow> Some ''Malformed approval''
         | Inr (Invalid e) \<Rightarrow> Some e
         | Inr Valid \<Rightarrow> None))"

text \<open>Step 6: the capability minted for a proven challenge, verified by its signer.\<close>

definition mint_step_up_capability ::
  "curve \<Rightarrow> challenge_service \<Rightarrow> int \<Rightarrow> bytes \<Rightarrow> jstr option \<Rightarrow> challenge \<Rightarrow> string + signed_capability" where
  "mint_step_up_capability C sv now jti_bytes device c =
     (case create_capability_payload (now div 1000) jti_bytes (ch_user_id c) (ch_resource_id c)
             (ch_operation c) (ch_secret_ref c)
             (case ch_device_id c of None \<Rightarrow> device | Some d \<Rightarrow> Some d) 3 (Some 300) of
        Inl e \<Rightarrow> Inl e
      | Inr p \<Rightarrow> sign_capability C p (cs_private_key sv))"

definition verify_challenge_approval ::
  "subtle \<Rightarrow> curve \<Rightarrow> 's challenge_port \<Rightarrow> challenge_service \<Rightarrow> jstr option \<Rightarrow> int \<Rightarrow> bytes
     \<Rightarrow> approval_verify_input \<Rightarrow> 's \<Rightarrow> jti_store \<Rightarrow> (string + approval_result) \<times> 's \<times> jti_store" where
  "verify_challenge_approval S C P sv env now jti_bytes input s jtis =
     (case chp_find_by_id P s (avi_challenge_id input) of
        Inl e \<Rightarrow> (Inl e, s, jtis)
      | Inr None \<Rightarrow> (Inr (Approval_Failed ''Challenge not found''), s, jtis)
      | Inr (Some c) \<Rightarrow>
        if ch_status c \<notin> set outstanding_statuses
        then (Inr (Approval_Failed (''Challenge not in valid state: '' @ status_name (ch_status c))), s, jtis)
        else if now > ch_expires_at c then
          (case chp_update P s (c\<lparr> ch_status := Expired, ch_updated_at := now \<rparr>) of
             (Inl e, s1) \<Rightarrow> (Inl e, s1, jtis)
           | (Inr _, s1) \<Rightarrow> (Inr (Approval_Failed ''Challenge expired''), s1, jtis))
        else (case approval_refusal S C env now c (avi_approval input) of
            Some e \<Rightarrow> (Inr (Approval_Failed e), s, jtis)
          | None \<Rightarrow>
            (let p = sa_payload (avi_approval input) in
             case verify_and_consume_jti jtis now (ap_jti p) (ap_exp p - ap_iat p) of
               (Jti_Refused e, jtis1) \<Rightarrow> (Inr (Approval_Failed ''Approval already used''), s, jtis1)
             | (Jti_Allowed, jtis1) \<Rightarrow>
                 (case mint_step_up_capability C sv now jti_bytes (avi_device_id input) c of
                    Inl e \<Rightarrow> (Inl e, s, jtis1)
                  | Inr tk \<Rightarrow>
                    if verify_capability C (now div 1000) tk (drop 32 (cs_private_key sv)) None \<noteq> Valid
                    then (Inr (Approval_Failed ''Internal error: capability signing failed''), s, jtis1)
                    else (case chp_update P s (c\<lparr> ch_status := Completed, ch_completed_at := Some now,
                                 ch_updated_at := now \<rparr>) of
                        (Inl e, s1) \<Rightarrow> (Inl e, s1, jtis1)
                      | (Inr _, s1) \<Rightarrow>
                          (Inr (Approval_Succeeded tk), s1,
                           snd (verify_and_consume_jti jtis1 now (cp_jti (sg_payload tk))
                                  (cp_exp (sg_payload tk) - cp_iat (sg_payload tk)))))))))"

definition get_challenge :: "'s challenge_port \<Rightarrow> 's \<Rightarrow> jstr \<Rightarrow> string + challenge option" where
  "get_challenge P s i = chp_find_by_id P s i"

definition get_pending_challenges :: "'s challenge_port \<Rightarrow> 's \<Rightarrow> jstr \<Rightarrow> string + challenge list" where
  "get_pending_challenges P s u = chp_find_pending P s u"

definition cleanup_expired_challenges :: "'s challenge_port \<Rightarrow> 's \<Rightarrow> int \<Rightarrow> (string + nat) \<times> 's" where
  "cleanup_expired_challenges P s now = chp_cleanup P s now"

end
