(* ===== verification/Plus_Gate.thy ===== *)
theory Plus_Gate
  imports Risk_Engine Entitlement_Store Challenge_Service Capability
begin

text \<open>
  The request handlers of the Plus API: plus/api/server.ts.  The body of a request is
  a record of its fields, already parsed; an absent text is the empty text, which the
  handlers treat alike.  A handler takes the clock (milliseconds, read once), the
  random bytes of the request and the state of the service, and returns the response
  and the state it leaves; 500 stands for anything it catches.
\<close>

record plus_config =
  pc_subtle :: subtle
  pc_curve :: curve
  pc_web :: web
  pc_dates :: dates
  pc_number :: "rat \<Rightarrow> jstr"
  pc_send :: "jstr \<Rightarrow> int \<Rightarrow> bool"
  pc_service :: challenge_service
  pc_issuer :: capability_issuer
  pc_approval_key :: "jstr option"
  pc_service_secret :: jstr
  pc_allowed_origins :: "jstr list"

record 's plus_state =
  ps_entitlements :: entitlement_table
  ps_users :: "jstr \<rightharpoonup> plus_user"
  ps_engine :: risk_engine
  ps_challenges :: 's
  ps_jtis :: jti_store

record request_random =
  rr_nonce :: bytes
  rr_id_bytes :: bytes
  rr_jti_bytes :: bytes

subsection \<open>Helpers\<close>

definition context_string :: "metadata option \<Rightarrow> string \<Rightarrow> jstr option" where
  "context_string cx k = (case cx of
     None \<Rightarrow> None
   | Some kvs \<Rightarrow> (case map_of kvs (lit k) of
       Some (JStr s) \<Rightarrow> if s = [] then None else Some s | _ \<Rightarrow> None))"

definition context_number :: "metadata option \<Rightarrow> string \<Rightarrow> int option" where
  "context_number cx k = (case cx of
     None \<Rightarrow> None
   | Some kvs \<Rightarrow> (case map_of kvs (lit k) of Some (JNum n) \<Rightarrow> Some n | _ \<Rightarrow> None))"

definition neutral_resource :: "int \<Rightarrow> jstr \<Rightarrow> resource" where
  "neutral_resource now resource_id = create_resource now
     \<lparr> ri_id = resource_id, ri_name = resource_id, ri_type = Rt_Other, ri_endpoint = [],
       ri_environment = Env_Production, ri_criticality = Medium, ri_description = None, ri_tags = None,
       ri_owner_team = None, ri_metadata = None \<rparr>"

record capability_gate_request =
  gr_user_id :: jstr
  gr_resource_id :: jstr
  gr_operation :: jstr
  gr_secret_ref :: jstr
  gr_device_id :: "jstr option"
  gr_assurance :: int
  gr_context :: "metadata option"

datatype capability_authorization =
    Gate_Deny string
  | Gate_Challenge jstr int
  | Gate_Allow

definition gate_binding :: "capability_gate_request \<Rightarrow> challenge_binding" where
  "gate_binding args = \<lparr> bi_user_id = gr_user_id args, bi_resource_id = gr_resource_id args,
     bi_operation = gr_operation args, bi_secret_ref = gr_secret_ref args \<rparr>"

definition is_allowed_origin :: "plus_config \<Rightarrow> jstr \<Rightarrow> bool" where
  "is_allowed_origin cfg origin = (if pc_allowed_origins cfg = [] then False else origin \<in> set (pc_allowed_origins cfg))"

subsection \<open>The gate\<close>

definition resolve_third_factor ::
  "'s challenge_port \<Rightarrow> plus_config \<Rightarrow> int \<Rightarrow> request_random \<Rightarrow> capability_gate_request \<Rightarrow> pestillo_state
     \<Rightarrow> risk_evaluation \<Rightarrow> 's \<Rightarrow> (string + capability_authorization) \<times> 's" where
  "resolve_third_factor P cfg now rnd args state ev s =
     (case find_completed_challenge P s now (gate_binding args) of
        Inl e \<Rightarrow> (Inl e, s)
      | Inr None \<Rightarrow>
          (case create_challenge P (pc_service cfg) (pc_send cfg) now (rr_nonce rnd) (rr_id_bytes rnd)
                 \<lparr> cin_binding = gate_binding args, cin_device_id = gr_device_id args,
                   cin_type = (if state = P_Step_Up then Type_Step_Up else Type_Risk_Based),
                   cin_risk_score = Some (ev_total_score ev),
                   cin_risk_reasons = Some (map rf_reason (filter (\<lambda>f. rf_score f > 0) (ev_factors ev))),
                   cin_ttl_minutes = None, cin_max_attempts = None \<rparr> s of
             (Inl e, s1) \<Rightarrow> (Inl e, s1)
           | (Inr (cid, expires), s1) \<Rightarrow> (Inr (Gate_Challenge cid expires), s1))
      | Inr (Some proven) \<Rightarrow>
          (case context_string (gr_context args) ''challengeId'' of
             None \<Rightarrow> (Inr Gate_Allow, s)
           | Some presented \<Rightarrow>
               if presented \<noteq> ch_id proven then (Inr (Gate_Deny ''Challenge not satisfied''), s)
               else (Inr Gate_Allow, s)))"

definition gate_risk_context ::
  "int \<Rightarrow> capability_gate_request \<Rightarrow> pestillo_state \<Rightarrow> plus_user \<Rightarrow> risk_engine \<Rightarrow> risk_context" where
  "gate_risk_context now args state user E =
     \<lparr> rc_user = user, rc_resource = neutral_resource now (gr_resource_id args),
       rc_operation = gr_operation args, rc_pestillo = state,
       rc_client = \<lparr> cc_country = context_string (gr_context args) ''country'',
         cc_ip = context_string (gr_context args) ''ip'', cc_device_id = gr_device_id args,
         cc_user_agent = context_string (gr_context args) ''userAgent'',
         cc_timestamp = (case context_number (gr_context args) ''timestamp'' of None \<Rightarrow> now | Some t \<Rightarrow> t) \<rparr>,
       rc_history = None, rc_policy = eng_policy E \<rparr>"

text \<open>The declared score is a floor: it turns an allowance into a challenge, nothing else.\<close>

definition gate_decision :: "risk_engine \<Rightarrow> capability_gate_request \<Rightarrow> risk_decision \<Rightarrow> risk_decision" where
  "gate_decision E args d =
     (let client_score = (case context_number (gr_context args) ''riskScore'' of None \<Rightarrow> 0 | Some n \<Rightarrow> n) in
      if d = Risk_Allow \<and> of_int client_score > th_allow (rp_thresholds (eng_policy E)) then Risk_Challenge else d)"

definition authorize_capability_request ::
  "'s challenge_port \<Rightarrow> plus_config \<Rightarrow> int \<Rightarrow> request_random \<Rightarrow> capability_gate_request \<Rightarrow> 's plus_state
     \<Rightarrow> (string + capability_authorization) \<times> 's plus_state" where
  "authorize_capability_request P cfg now rnd args st =
     (case find_by_user_and_resource (pc_subtle cfg) (pc_dates cfg) (ps_entitlements st)
            (gr_user_id args) (gr_resource_id args) of
        None \<Rightarrow> (Inl ''entitlement row unreadable'', st)
      | Some None \<Rightarrow> (Inr (Gate_Deny ''No entitlement found''), st)
      | Some (Some en) \<Rightarrow>
          (let state = get_effective_state now en in
           if state = P_Closed then (Inr (Gate_Deny ''Pestillo is closed''), st)
           else if \<not> is_operation_allowed (gr_operation args) en
             then (Inr (Gate_Deny ''Operation not allowed''), st)
           else (case ps_users st (gr_user_id args) of
               None \<Rightarrow> (Inr (Gate_Deny ''Unknown user''), st)
             | Some user \<Rightarrow>
                 (let E = ps_engine st;
                      (ev, E') = evaluate_risk (pc_web cfg) (pc_number cfg) now E
                        (gate_risk_context now args state user E);
                      st1 = st\<lparr> ps_engine := E' \<rparr>;
                      decision = gate_decision E' args (ev_decision ev)
                  in if decision = Risk_Deny
                     then (Inr (Gate_Deny ''Risk policy denied the request''), st1)
                     else if \<not> (state = P_Step_Up \<or> decision = Risk_Challenge \<or> gr_assurance args = 3)
                     then (Inr Gate_Allow, st1)
                     else (let (r, s) = resolve_third_factor P cfg now rnd args state ev (ps_challenges st1)
                           in (r, st1\<lparr> ps_challenges := s \<rparr>))))))"

subsection \<open>The handlers\<close>

datatype plus_response =
    Error_Response nat string
  | Challenge_Response jstr int
  | Capability_Response issued_capability
  | Created_Response jstr int
  | Approved_Response signed_capability
  | Entitlement_Refused string pestillo_state bool
  | Entitlement_Allowed pestillo_state "jstr list" "jstr option" "jstr option"

text \<open>The casts of the declared risk of an assurance 2 request.\<close>

definition declared_score :: "metadata option \<Rightarrow> int" where
  "declared_score cx = (case context_number cx ''riskScore'' of None \<Rightarrow> 0 | Some n \<Rightarrow> n)"

definition declared_reasons :: "metadata option \<Rightarrow> jstr list" where
  "declared_reasons cx = (case cx of
     None \<Rightarrow> []
   | Some kvs \<Rightarrow> (case map_of kvs (lit ''riskReasons'') of
       Some (JArr js) \<Rightarrow> concat (map (\<lambda>j. case j of JStr s \<Rightarrow> [s] | _ \<Rightarrow> []) js) | _ \<Rightarrow> []))"

definition issue_for_assurance ::
  "plus_config \<Rightarrow> int \<Rightarrow> request_random \<Rightarrow> capability_gate_request \<Rightarrow> int option \<Rightarrow> string + issued_capability" where
  "issue_for_assurance cfg now rnd args ttl =
     (let r = \<lparr> ir_user_id = gr_user_id args, ir_resource_id = gr_resource_id args,
                ir_operation = gr_operation args, ir_secret_ref = gr_secret_ref args,
                ir_device_id = gr_device_id args, ir_assurance = 1, ir_ttl_seconds = ttl, ir_context = None \<rparr>
      in if gr_assurance args = 3 then
           issue_step_up_capability (pc_curve cfg) (pc_issuer cfg) now (rr_jti_bytes rnd) r
             (case context_string (gr_context args) ''challengeId'' of None \<Rightarrow> [] | Some c \<Rightarrow> c)
         else if gr_assurance args = 2 then
           issue_risk_based_capability (pc_curve cfg) (pc_issuer cfg) now (rr_jti_bytes rnd) r
             (declared_score (gr_context args)) (declared_reasons (gr_context args))
         else issue_direct_capability (pc_curve cfg) (pc_issuer cfg) now (rr_jti_bytes rnd) r)"

definition handle_capabilities_request ::
  "'s challenge_port \<Rightarrow> plus_config \<Rightarrow> int \<Rightarrow> request_random \<Rightarrow> capability_gate_request \<Rightarrow> int option
     \<Rightarrow> 's plus_state \<Rightarrow> plus_response \<times> 's plus_state" where
  "handle_capabilities_request P cfg now rnd args ttl st =
     (if gr_user_id args = [] \<or> gr_resource_id args = [] \<or> gr_operation args = [] \<or> gr_secret_ref args = []
         \<or> gr_assurance args = 0
      then (Error_Response 400
              ''Missing required fields: userId, resourceId, operation, secretRef, assurance'', st)
      else if gr_operation args \<notin> set capability_operations then (Error_Response 400 ''Invalid operation'', st)
      else (case authorize_capability_request P cfg now rnd args st of
          (Inl e, st1) \<Rightarrow> (Error_Response 500 ''Internal server error'', st1)
        | (Inr (Gate_Deny reason), st1) \<Rightarrow> (Error_Response 403 reason, st1)
        | (Inr (Gate_Challenge cid expires), st1) \<Rightarrow> (Challenge_Response cid expires, st1)
        | (Inr Gate_Allow, st1) \<Rightarrow>
            (case issue_for_assurance cfg now rnd args ttl of
               Inl e \<Rightarrow> (Error_Response 400 (if e = [] then ''Failed to issue capability'' else e), st1)
             | Inr out \<Rightarrow> (Capability_Response out, st1))))"

definition handle_entitlements_check ::
  "plus_config \<Rightarrow> int \<Rightarrow> jstr \<Rightarrow> jstr \<Rightarrow> jstr \<Rightarrow> 's plus_state \<Rightarrow> plus_response" where
  "handle_entitlements_check cfg now user_id resource_id operation st =
     (if user_id = [] \<or> resource_id = [] \<or> operation = []
      then Error_Response 400 ''Missing required fields: userId, resourceId, operation''
      else (case find_by_user_and_resource (pc_subtle cfg) (pc_dates cfg) (ps_entitlements st) user_id resource_id of
          None \<Rightarrow> Error_Response 500 ''Internal server error''
        | Some None \<Rightarrow> Entitlement_Refused ''No entitlement found'' P_Closed False
        | Some (Some en) \<Rightarrow>
            (let state = get_effective_state now en; ok = is_operation_allowed operation en in
             if state = P_Closed \<or> \<not> ok then
               Entitlement_Refused (if state = P_Closed then ''Pestillo is closed'' else ''Operation not allowed'')
                 state False
             else if state = P_Step_Up then Entitlement_Refused ''Step-up authentication required'' state True
             else if state = P_Temporary \<and> (case en_valid_until en of None \<Rightarrow> False | Some u \<Rightarrow> u < now)
               then Entitlement_Refused ''Temporary entitlement expired'' P_Closed False
             else Entitlement_Allowed state (en_operations en)
               (map_option (to_iso (pc_dates cfg)) (en_valid_from en))
               (map_option (to_iso (pc_dates cfg)) (en_valid_until en)))))"

definition handle_challenge_trigger ::
  "'s challenge_port \<Rightarrow> plus_config \<Rightarrow> int \<Rightarrow> request_random \<Rightarrow> challenge_binding \<Rightarrow> jstr option
     \<Rightarrow> challenge_type option \<Rightarrow> int option \<Rightarrow> jstr list option \<Rightarrow> 's plus_state \<Rightarrow> plus_response \<times> 's plus_state" where
  "handle_challenge_trigger P cfg now rnd b device ctype score reasons st =
     (if bi_user_id b = [] \<or> bi_resource_id b = [] \<or> bi_operation b = [] \<or> bi_secret_ref b = []
      then (Error_Response 400 ''Missing required fields'', st)
      else (case create_challenge P (pc_service cfg) (pc_send cfg) now (rr_nonce rnd) (rr_id_bytes rnd)
              \<lparr> cin_binding = b, cin_device_id = device,
                cin_type = (case ctype of None \<Rightarrow> Type_Risk_Based | Some t \<Rightarrow> t),
                cin_risk_score = score, cin_risk_reasons = reasons, cin_ttl_minutes = None,
                cin_max_attempts = None \<rparr> (ps_challenges st) of
          (Inl e, s) \<Rightarrow> (Error_Response 500 ''Internal server error'', st\<lparr> ps_challenges := s \<rparr>)
        | (Inr (cid, expires), s) \<Rightarrow> (Created_Response cid expires, st\<lparr> ps_challenges := s \<rparr>)))"

definition handle_challenge_approve ::
  "'s challenge_port \<Rightarrow> plus_config \<Rightarrow> int \<Rightarrow> request_random \<Rightarrow> jstr \<Rightarrow> signed_approval option \<Rightarrow> jstr option
     \<Rightarrow> 's plus_state \<Rightarrow> plus_response \<times> 's plus_state" where
  "handle_challenge_approve P cfg now rnd cid approval device st =
     (case approval of
        None \<Rightarrow> (Error_Response 400 ''challengeId and approval required'', st)
      | Some tk \<Rightarrow>
          if cid = [] then (Error_Response 400 ''challengeId and approval required'', st)
          else (let (r, s, j) = verify_challenge_approval (pc_subtle cfg) (pc_curve cfg) P (pc_service cfg)
                      (pc_approval_key cfg) now (rr_jti_bytes rnd)
                      \<lparr> avi_challenge_id = cid, avi_approval = tk, avi_device_id = device \<rparr>
                      (ps_challenges st) (ps_jtis st);
                    st' = st\<lparr> ps_challenges := s, ps_jtis := j \<rparr>
                in (case r of
                      Inl e \<Rightarrow> Error_Response 500 ''Internal server error''
                    | Inr (Approval_Failed e) \<Rightarrow>
                        Error_Response 400 (if e = [] then ''Approval verification failed'' else e)
                    | Inr (Approval_Succeeded cap) \<Rightarrow> Approved_Response cap, st')))"

text \<open>The service secret: None when the request passes, else the error of the 401.\<close>

definition authenticate_service_request :: "plus_config \<Rightarrow> jstr option \<Rightarrow> string option" where
  "authenticate_service_request cfg presented = (case presented of
     None \<Rightarrow> Some ''Missing X-Service-Secret''
   | Some p \<Rightarrow>
       if p = [] then Some ''Missing X-Service-Secret''
       else (let a = utf8_encode p; b = utf8_encode (pc_service_secret cfg) in
         if length a \<noteq> length b \<or> a \<noteq> b then Some ''Invalid X-Service-Secret'' else None))"

end
