(* ===== verification/Plus_System.thy ===== *)
theory Plus_System
  imports Plus_Gate
begin

text \<open>
  The Plus service as a state machine: its requests, administration and clean-up as
  steps, and what holds of the challenges in every reachable state.  A handler is one
  step: the model does not interleave the awaits of two requests.
\<close>

text \<open>The world: the state of the service, and every approval it has accepted, with the time.\<close>

record 's plus_world =
  world_state :: "'s plus_state"
  world_log :: "(int \<times> signed_approval) list"

definition log_approval :: "plus_response \<Rightarrow> int \<Rightarrow> signed_approval option \<Rightarrow> (int \<times> signed_approval) list" where
  "log_approval r now tk = (case (r, tk) of (Approved_Response cap, Some a) \<Rightarrow> [(now, a)] | _ \<Rightarrow> [])"

inductive plus_step :: "'s challenge_port \<Rightarrow> plus_config \<Rightarrow> 's plus_world \<Rightarrow> 's plus_world \<Rightarrow> bool"
  for P cfg where
  request: "handle_capabilities_request P cfg now rnd args ttl (world_state w) = (r, st')
     \<Longrightarrow> plus_step P cfg w (w\<lparr> world_state := st' \<rparr>)"
| trigger: "handle_challenge_trigger P cfg now rnd b device ctype score reasons (world_state w) = (r, st')
     \<Longrightarrow> plus_step P cfg w (w\<lparr> world_state := st' \<rparr>)"
| approve: "handle_challenge_approve P cfg now rnd cid tk device (world_state w) = (r, st')
     \<Longrightarrow> plus_step P cfg w \<lparr> world_state = st', world_log = log_approval r now tk @ world_log w \<rparr>"
| cleanup: "cleanup_expired_challenges P (ps_challenges (world_state w)) now = (n, s')
     \<Longrightarrow> plus_step P cfg w (w\<lparr> world_state := (world_state w)\<lparr> ps_challenges := s' \<rparr> \<rparr>)"
| administer: "plus_step P cfg w (w\<lparr> world_state := (world_state w)\<lparr> ps_entitlements := tb, ps_users := us \<rparr> \<rparr>)"
| policy: "plus_step P cfg w (w\<lparr> world_state := (world_state w)\<lparr> ps_engine := update_policy ov (ps_engine (world_state w)) \<rparr> \<rparr>)"
| sweep: "plus_step P cfg w (w\<lparr> world_state := (world_state w)\<lparr> ps_jtis := jti_cleanup (ps_jtis (world_state w)) now \<rparr> \<rparr>)"

inductive plus_reachable :: "'s challenge_port \<Rightarrow> plus_config \<Rightarrow> 's plus_world \<Rightarrow> 's plus_world \<Rightarrow> bool"
  for P cfg w0 where
  start: "plus_reachable P cfg w0 w0"
| step: "plus_reachable P cfg w0 w \<Longrightarrow> plus_step P cfg w w' \<Longrightarrow> plus_reachable P cfg w0 w'"

text \<open>An accepted approval for the binding of a challenge.\<close>

definition core_approved :: "plus_config \<Rightarrow> (int \<times> signed_approval) list \<Rightarrow> approval_binding_context \<Rightarrow> bool" where
  "core_approved cfg lg x \<longleftrightarrow> (\<exists>(t, tk) \<in> set lg. \<exists>pk p. pinned_approval_key (pc_approval_key cfg) = Some pk
     \<and> approval_acceptable (pc_subtle cfg) (pc_curve cfg) (t div 1000) tk pk p \<and> approval_bound p x)"

lemma core_approved_mono: "core_approved cfg lg x \<Longrightarrow> core_approved cfg (newer @ lg) x"
  by (auto simp: core_approved_def)

lemma approval_not_refused:
  assumes "approval_refusal S C env now c tk = None"
  shows "\<exists>pk p. pinned_approval_key env = Some pk \<and> approval_acceptable S C (now div 1000) tk pk p
     \<and> approval_bound p (expected_binding c)"
  using assms
  by (auto simp: approval_refusal_def verify_approval_valid_iff split: option.splits if_splits sum.splits verdict.splits)

subsection \<open>What the operations do to the store\<close>

context challenge_store begin

definition completed_from :: "'s \<Rightarrow> 's \<Rightarrow> bool" where
  "completed_from s s' \<longleftrightarrow> (\<forall>i c. held s' i = Some c \<and> ch_status c = Completed \<longrightarrow> held s i = Some c)"

lemma completed_from_refl [simp]: "completed_from s s"
  by (simp add: completed_from_def)

lemma completed_from_trans: "completed_from s s' \<Longrightarrow> completed_from s' s'' \<Longrightarrow> completed_from s s''"
  by (simp add: completed_from_def)

lemma save_completed_from:
  "ch_status c \<noteq> Completed \<Longrightarrow> completed_from s (snd (chp_save P s c))"
  by (auto simp: completed_from_def save_held norm_keeps split: if_splits)

lemma update_completed_from:
  assumes "ch_status c \<noteq> Completed"
  shows "completed_from s (snd (chp_update P s c))"
  by (rule update_cases [of s c]) (use assms in \<open>auto simp: completed_from_def norm_keeps split: if_splits\<close>)

lemma find_completed_held:
  assumes "find_completed_challenge P s now b = Inr (Some c)" and "ok s"
  shows "held s (ch_id c) = Some c \<and> same_binding c b \<and> ch_status c = Completed \<and> now < ch_expires_at c"
proof -
  obtain cs where cs: "chp_find_by_user P s (bi_user_id b) = Inr cs"
    "set cs = {c. \<exists>i. held s i = Some c \<and> ch_user_id c = bi_user_id b}"
    using find_by_user [OF assms(2)] by blast
  have f: "c \<in> set cs \<and> same_binding c b \<and> ch_status c = Completed \<and> now < ch_expires_at c"
    using assms(1) cs(1) by (auto simp: find_completed_challenge_def dest: find_SomeD)
  then obtain i where "held s i = Some c" using cs(2) by blast
  then show ?thesis using held_id [OF assms(2)] f by metis
qed

lemma completed_found:
  assumes "ok s" and "held s i = Some c" and "same_binding c b" and "ch_status c = Completed" and "now < ch_expires_at c"
  shows "\<exists>c'. find_completed_challenge P s now b = Inr (Some c')"
proof -
  obtain cs where cs: "chp_find_by_user P s (bi_user_id b) = Inr cs"
    "set cs = {c. \<exists>i. held s i = Some c \<and> ch_user_id c = bi_user_id b}"
    using find_by_user [OF assms(1)] by blast
  have "c \<in> set cs" using assms cs(2) by (auto simp: same_binding_def)
  then have "List.find (\<lambda>c. same_binding c b \<and> ch_status c = Completed \<and> now < ch_expires_at c) cs \<noteq> None"
    using assms by (auto simp: find_None_iff)
  then show ?thesis using cs(1) by (auto simp: find_completed_challenge_def)
qed

lemma create_challenge_store:
  assumes "create_challenge P sv send now n ib input s = (r, s')" and "ok s"
  shows "ok s' \<and> completed_from s s'"
proof (cases "find_outstanding_challenge P s now (cin_binding input) = Inr None")
  case False
  then have "s' = s"
    using assms(1) by (auto simp: create_challenge_def split: sum.splits option.splits)
  then show ?thesis using assms(2) by simp
next
  case True
  let ?c = "new_challenge now n ib input"
  let ?c' = "?c\<lparr> ch_status := Email_Sent, ch_email_sent_at := Some now, ch_updated_at := now \<rparr>"
  define s1 where "s1 = snd (chp_save P s ?c)"
  have s1: "ok s1" "completed_from s s1"
    using assms(2) by (simp_all add: s1_def ok_save save_completed_from new_challenge_def)
  have s2: "ok (snd (chp_update P s1 ?c'))" "completed_from s (snd (chp_update P s1 ?c'))"
    using s1 by (simp_all add: ok_update completed_from_trans [OF s1(2) update_completed_from])
  have save: "chp_save P s ?c = (Inr (norm ?c), s1)" by (simp add: s1_def save_result prod_eq_iff)
  have "s' = s1 \<or> s' = snd (chp_update P s1 ?c')"
    using assms(1) True save
    by (auto simp: create_challenge_def Let_def split: if_splits prod.splits sum.splits)
  then show ?thesis using s1 s2 by blast
qed

lemma expected_binding_norm: "ch_id c = ch_id c' \<Longrightarrow> same_binding c \<lparr> bi_user_id = ch_user_id c',
     bi_resource_id = ch_resource_id c', bi_operation = ch_operation c', bi_secret_ref = ch_secret_ref c' \<rparr>
     \<Longrightarrow> expected_binding c = expected_binding c'"
  by (simp add: expected_binding_def same_binding_def)

text \<open>
  Verifying an approval either leaves the completed challenges as they were, or it
  succeeded and the one new completed challenge is the one the approval is bound to.
\<close>

lemma verify_approval_store:
  assumes "verify_challenge_approval S C P sv env now jb input s j = (r, s', j')" and "ok s"
  shows "ok s' \<and> (completed_from s s' \<or>
     (\<exists>tk c. r = Inr (Approval_Succeeded tk) \<and> held s (ch_id c) = Some c
        \<and> approval_refusal S C env now c (avi_approval input) = None
        \<and> (\<forall>i d. held s' i = Some d \<and> ch_status d = Completed \<longrightarrow>
              held s i = Some d \<or> expected_binding d = expected_binding c)))"
proof (cases "\<exists>c tk. held s (avi_challenge_id input) = Some c \<and> r = Inr (Approval_Succeeded tk)")
  case True
  then obtain c tk where c: "held s (avi_challenge_id input) = Some c" "r = Inr (Approval_Succeeded tk)" by blast
  have id: "ch_id c = avi_challenge_id input" using held_id [OF assms(2) c(1)] .
  let ?c' = "c\<lparr> ch_status := Completed, ch_completed_at := Some now, ch_updated_at := now \<rparr>"
  have v: "approval_refusal S C env now c (avi_approval input) = None" "s' = snd (chp_update P s ?c')"
    using assms(1) c
    by (auto simp: verify_challenge_approval_def find_by_id Let_def
        split: if_splits prod.splits sum.splits option.splits jti_verdict.splits)
  have h: "held s' = (held s)(ch_id c \<mapsto> norm ?c')"
    using update_held [of s ?c'] c(1) id v(2) by simp
  have "expected_binding (norm ?c') = expected_binding c" by (simp add: expected_binding_def norm_keeps)
  then have "\<forall>i d. held s' i = Some d \<and> ch_status d = Completed \<longrightarrow> held s i = Some d \<or> expected_binding d = expected_binding c"
    by (auto simp: h split: if_splits)
  moreover have "ok s'" using v(2) ok_update assms(2) by simp
  ultimately show ?thesis using c id v(1) by metis
next
  case False
  let ?e = "\<lambda>c. c\<lparr> ch_status := Expired, ch_updated_at := now \<rparr>"
  let ?d = "\<lambda>c. c\<lparr> ch_status := Completed, ch_completed_at := Some now, ch_updated_at := now \<rparr>"
  have "s' = s \<or> (\<exists>c q. chp_update P s (?e c) = (q, s'))
      \<or> (\<exists>c e. held s (avi_challenge_id input) = Some c \<and> chp_update P s (?d c) = (Inl e, s'))"
    using assms(1) False
    by (auto simp: verify_challenge_approval_def find_by_id Let_def
        split: if_splits prod.splits sum.splits option.splits jti_verdict.splits)
  then show ?thesis
  proof (elim disjE exE conjE)
    fix c e assume "held s (avi_challenge_id input) = Some c" "chp_update P s (?d c) = (Inl e, s')"
    moreover from this have "held s (ch_id (?d c)) = None"
      using update_result [of s "?d c"] by fastforce
    ultimately show ?thesis using held_id [OF assms(2)] by fastforce
  next
    fix c q assume "chp_update P s (?e c) = (q, s')"
    then have "s' = snd (chp_update P s (?e c))" by simp
    then show ?thesis using assms(2) by (simp add: ok_update update_completed_from)
  qed (use assms(2) in simp)
qed

end

subsection \<open>When the gate allows\<close>

definition gate_risk_decision :: "plus_config \<Rightarrow> int \<Rightarrow> capability_gate_request \<Rightarrow> pestillo_state \<Rightarrow> plus_user
     \<Rightarrow> risk_engine \<Rightarrow> risk_decision" where
  "gate_risk_decision cfg now args state user E = gate_decision E args (ev_decision
     (fst (evaluate_risk (pc_web cfg) (pc_number cfg) now E (gate_risk_context now args state user E))))"

definition third_factor_needed :: "pestillo_state \<Rightarrow> risk_decision \<Rightarrow> capability_gate_request \<Rightarrow> bool" where
  "third_factor_needed state d args \<longleftrightarrow> state = P_Step_Up \<or> d = Risk_Challenge \<or> gr_assurance args = 3"

definition third_factor_proven ::
  "'s challenge_port \<Rightarrow> int \<Rightarrow> capability_gate_request \<Rightarrow> 's \<Rightarrow> bool" where
  "third_factor_proven P now args s \<longleftrightarrow> (\<exists>c. find_completed_challenge P s now (gate_binding args) = Inr (Some c)
     \<and> (context_string (gr_context args) ''challengeId'' \<in> {None, Some (ch_id c)}))"

definition gate_justified ::
  "'s challenge_port \<Rightarrow> plus_config \<Rightarrow> int \<Rightarrow> capability_gate_request \<Rightarrow> 's plus_state \<Rightarrow> bool" where
  "gate_justified P cfg now args st \<longleftrightarrow> (\<exists>en user.
     find_by_user_and_resource (pc_subtle cfg) (pc_dates cfg) (ps_entitlements st)
       (gr_user_id args) (gr_resource_id args) = Some (Some en)
     \<and> is_currently_valid now en \<and> gr_operation args \<in> set (en_operations en)
     \<and> ps_users st (gr_user_id args) = Some user
     \<and> (let d = gate_risk_decision cfg now args (en_pestillo en) user (ps_engine st) in
          d \<noteq> Risk_Deny \<and> (third_factor_needed (en_pestillo en) d args
             \<longrightarrow> third_factor_proven P now args (ps_challenges st))))"

lemma gate_decision_policy: "eng_policy E' = eng_policy E \<Longrightarrow> gate_decision E' args d = gate_decision E args d"
  by (simp add: gate_decision_def)

lemma resolve_allow_iff:
  "fst (resolve_third_factor P cfg now rnd args state ev s) = Inr Gate_Allow \<longleftrightarrow> third_factor_proven P now args s"
  by (auto simp: resolve_third_factor_def third_factor_proven_def split: sum.splits option.splits prod.splits)

lemma resolve_proven_store:
  "third_factor_proven P now args s \<Longrightarrow> resolve_third_factor P cfg now rnd args state ev s = (Inr Gate_Allow, s)"
  by (auto simp: resolve_third_factor_def third_factor_proven_def split: option.splits)

lemma effective_state_open:
  "get_effective_state now en \<noteq> P_Closed \<longleftrightarrow> is_currently_valid now en"
  "is_currently_valid now en \<Longrightarrow> get_effective_state now en = en_pestillo en"
  by (auto simp: get_effective_state_def currently_valid_iff)

text \<open>The gate past its look-ups.\<close>

lemma authorize_open:
  assumes "find_by_user_and_resource (pc_subtle cfg) (pc_dates cfg) (ps_entitlements st)
       (gr_user_id args) (gr_resource_id args) = Some (Some en)"
    and "is_currently_valid now en" and "gr_operation args \<in> set (en_operations en)"
    and "ps_users st (gr_user_id args) = Some user"
  defines "x \<equiv> gate_risk_context now args (en_pestillo en) user (ps_engine st)"
  defines "ev \<equiv> evaluate_risk (pc_web cfg) (pc_number cfg) now (ps_engine st) x"
  defines "d \<equiv> gate_risk_decision cfg now args (en_pestillo en) user (ps_engine st)"
  shows "authorize_capability_request P cfg now rnd args st =
     (if d = Risk_Deny then (Inr (Gate_Deny ''Risk policy denied the request''), st\<lparr> ps_engine := snd ev \<rparr>)
      else if \<not> third_factor_needed (en_pestillo en) d args then (Inr Gate_Allow, st\<lparr> ps_engine := snd ev \<rparr>)
      else (let q = resolve_third_factor P cfg now rnd args (en_pestillo en) (fst ev) (ps_challenges st) in
        (fst q, st\<lparr> ps_engine := snd ev, ps_challenges := snd q \<rparr>)))"
proof -
  have s: "get_effective_state now en = en_pestillo en" "en_pestillo en \<noteq> P_Closed"
    using assms(2) effective_state_open by (auto simp: currently_valid_iff)
  have d: "gate_decision (snd ev) args (ev_decision (fst ev)) = d"
    unfolding d_def gate_risk_decision_def ev_def x_def by (rule gate_decision_policy) (rule evaluate_risk_keeps_policy)
  have ev: "evaluate_risk (pc_web cfg) (pc_number cfg) now (ps_engine st) x = (fst ev, snd ev)"
    by (simp add: ev_def)
  show ?thesis
    unfolding authorize_capability_request_def assms(1,4) option.case s(1) Let_def x_def [symmetric] ev prod.case d
    using s(2) assms(3)
    by (simp add: is_operation_allowed_def third_factor_needed_def split: prod.split)
qed

lemma authorize_refused:
  assumes "\<not> (\<exists>en user. find_by_user_and_resource (pc_subtle cfg) (pc_dates cfg) (ps_entitlements st)
       (gr_user_id args) (gr_resource_id args) = Some (Some en)
     \<and> is_currently_valid now en \<and> gr_operation args \<in> set (en_operations en)
     \<and> ps_users st (gr_user_id args) = Some user)"
  shows "snd (authorize_capability_request P cfg now rnd args st) = st
     \<and> fst (authorize_capability_request P cfg now rnd args st) \<noteq> Inr Gate_Allow"
  using assms effective_state_open(1)
  by (auto simp: authorize_capability_request_def Let_def is_operation_allowed_def split: option.split)

lemma authorize_allow_iff:
  "fst (authorize_capability_request P cfg now rnd args st) = Inr Gate_Allow \<longleftrightarrow> gate_justified P cfg now args st"
proof (cases "\<exists>en user. find_by_user_and_resource (pc_subtle cfg) (pc_dates cfg) (ps_entitlements st)
       (gr_user_id args) (gr_resource_id args) = Some (Some en)
     \<and> is_currently_valid now en \<and> gr_operation args \<in> set (en_operations en)
     \<and> ps_users st (gr_user_id args) = Some user")
  case True
  then obtain en user where o: "find_by_user_and_resource (pc_subtle cfg) (pc_dates cfg) (ps_entitlements st)
       (gr_user_id args) (gr_resource_id args) = Some (Some en)"
     "is_currently_valid now en" "gr_operation args \<in> set (en_operations en)"
     "ps_users st (gr_user_id args) = Some user" by blast
  show ?thesis
    unfolding authorize_open [OF o] gate_justified_def Let_def
    using o by (simp add: resolve_allow_iff)
next
  case False
  then show ?thesis using authorize_refused [OF False] by (auto simp: gate_justified_def)
qed

lemma authorize_allow_state:
  assumes "authorize_capability_request P cfg now rnd args st = (Inr Gate_Allow, st')"
  shows "ps_challenges st' = ps_challenges st \<and> ps_entitlements st' = ps_entitlements st \<and> ps_users st' = ps_users st"
proof -
  have "gate_justified P cfg now args st" using assms authorize_allow_iff [of P cfg now rnd args st] by simp
  then obtain en user where o: "find_by_user_and_resource (pc_subtle cfg) (pc_dates cfg) (ps_entitlements st)
       (gr_user_id args) (gr_resource_id args) = Some (Some en)"
     "is_currently_valid now en" "gr_operation args \<in> set (en_operations en)"
     "ps_users st (gr_user_id args) = Some user"
     "third_factor_needed (en_pestillo en) (gate_risk_decision cfg now args (en_pestillo en) user (ps_engine st)) args
        \<longrightarrow> third_factor_proven P now args (ps_challenges st)"
    by (auto simp: gate_justified_def Let_def)
  show ?thesis
    using assms o(5) unfolding authorize_open [OF o(1-4)]
    by (auto simp: Let_def resolve_proven_store split: if_splits)
qed

lemma handler_issues_iff:
  "(\<exists>out. fst (handle_capabilities_request P cfg now rnd args ttl st) = Capability_Response out \<and> q out) \<longleftrightarrow>
     gr_user_id args \<noteq> [] \<and> gr_resource_id args \<noteq> [] \<and> gr_operation args \<noteq> [] \<and> gr_secret_ref args \<noteq> []
     \<and> gr_assurance args \<noteq> 0 \<and> gr_operation args \<in> set capability_operations
     \<and> gate_justified P cfg now args st \<and> (\<exists>out. issue_for_assurance cfg now rnd args ttl = Inr out \<and> q out)"
  unfolding authorize_allow_iff [of P cfg now rnd args st, symmetric]
  by (auto simp: handle_capabilities_request_def split: sum.splits prod.splits capability_authorization.splits)

lemma issue_for_assurance_fields:
  assumes "issue_for_assurance cfg now rnd args ttl = Inr out"
  defines "p \<equiv> sg_payload (ok_token out)"
  shows "cp_user_id p = gr_user_id args \<and> cp_resource_id p = gr_resource_id args
     \<and> cp_operation p = gr_operation args \<and> cp_secret_ref p = gr_secret_ref args \<and> cp_device_id p = gr_device_id args
     \<and> cp_assurance p = (if gr_assurance args = 3 then 3 else if gr_assurance args = 2 then 2 else 1)
     \<and> cp_iat p = now div 1000 \<and> cp_exp p \<le> now div 1000 + is_max_ttl (pc_issuer cfg)"
proof -
  obtain x where "issue_capability (pc_curve cfg) (pc_issuer cfg) now (rr_jti_bytes rnd)
      \<lparr> ir_user_id = gr_user_id args, ir_resource_id = gr_resource_id args,
        ir_operation = gr_operation args, ir_secret_ref = gr_secret_ref args,
        ir_device_id = gr_device_id args,
        ir_assurance = (if gr_assurance args = 3 then 3 else if gr_assurance args = 2 then 2 else 1),
        ir_ttl_seconds = ttl, ir_context = x \<rparr> = Inr out"
    using assms(1) by (auto simp: issue_for_assurance_def Let_def issue_step_up_capability_def
      issue_risk_based_capability_def issue_direct_capability_def split: if_splits)
  from issue_fields [OF this] show ?thesis by (simp add: p_def)
qed

subsection \<open>The invariant\<close>

context challenge_store begin

definition world_ok :: "plus_config \<Rightarrow> 's plus_world \<Rightarrow> bool" where
  "world_ok cfg w \<longleftrightarrow> ok (ps_challenges (world_state w))
     \<and> (\<forall>i c. held (ps_challenges (world_state w)) i = Some c \<and> ch_status c = Completed
          \<longrightarrow> core_approved cfg (world_log w) (expected_binding c))"

lemma world_ok_kept:
  assumes "world_ok cfg w" and "ok (ps_challenges st')" and "completed_from (ps_challenges (world_state w)) (ps_challenges st')"
  shows "world_ok cfg \<lparr> world_state = st', world_log = newer @ world_log w \<rparr>"
  using assms core_approved_mono [of cfg "world_log w"] unfolding world_ok_def completed_from_def by simp blast

lemma resolve_store:
  assumes "ok s"
  shows "ok (snd (resolve_third_factor P cfg now rnd args state ev s))
     \<and> completed_from s (snd (resolve_third_factor P cfg now rnd args state ev s))"
  using assms create_challenge_store
  by (auto simp: resolve_third_factor_def split: sum.split option.split prod.split)

lemma authorize_store:
  assumes "ok (ps_challenges st)"
  shows "ok (ps_challenges (snd (authorize_capability_request P cfg now rnd args st)))
     \<and> completed_from (ps_challenges st) (ps_challenges (snd (authorize_capability_request P cfg now rnd args st)))"
proof (cases "\<exists>en user. find_by_user_and_resource (pc_subtle cfg) (pc_dates cfg) (ps_entitlements st)
       (gr_user_id args) (gr_resource_id args) = Some (Some en)
     \<and> is_currently_valid now en \<and> gr_operation args \<in> set (en_operations en)
     \<and> ps_users st (gr_user_id args) = Some user")
  case True
  then obtain en user where o: "find_by_user_and_resource (pc_subtle cfg) (pc_dates cfg) (ps_entitlements st)
       (gr_user_id args) (gr_resource_id args) = Some (Some en)"
     "is_currently_valid now en" "gr_operation args \<in> set (en_operations en)"
     "ps_users st (gr_user_id args) = Some user" by blast
  show ?thesis
    unfolding authorize_open [OF o] Let_def using assms resolve_store [OF assms] by simp
next
  case False
  then show ?thesis using authorize_refused [OF False] assms by simp
qed

lemma request_store:
  assumes "ok (ps_challenges st)" and "handle_capabilities_request P cfg now rnd args ttl st = (r, st')"
  shows "ok (ps_challenges st') \<and> completed_from (ps_challenges st) (ps_challenges st')"
proof -
  have "st' = st \<or> st' = snd (authorize_capability_request P cfg now rnd args st)"
    using assms(2)
    by (auto simp: handle_capabilities_request_def split: if_splits sum.splits prod.splits capability_authorization.splits)
  then show ?thesis using authorize_store [OF assms(1)] assms(1) by auto
qed

lemma trigger_store:
  assumes "ok (ps_challenges st)" and "handle_challenge_trigger P cfg now rnd b device ctype score reasons st = (r, st')"
  shows "ok (ps_challenges st') \<and> completed_from (ps_challenges st) (ps_challenges st')"
  using assms create_challenge_store
  by (auto simp: handle_challenge_trigger_def split: if_splits sum.splits prod.splits)

lemma cleanup_store:
  assumes "ok s" and "cleanup_expired_challenges P s now = (n, s')"
  shows "ok s' \<and> completed_from s s'"
proof -
  have s': "s' = snd (chp_cleanup P s now)" using assms(2) by (simp add: cleanup_expired_challenges_def)
  have "held s' i = Some c \<Longrightarrow> held s i = Some c" for i c
    unfolding s' cleanup_held [OF assms(1)] by (auto split: option.splits if_splits)
  then show ?thesis using s' ok_cleanup [OF assms(1)] by (simp add: completed_from_def)
qed

lemma approve_world_ok:
  assumes "world_ok cfg w" and "handle_challenge_approve P cfg now rnd cid tk device (world_state w) = (r, st')"
  shows "world_ok cfg \<lparr> world_state = st', world_log = log_approval r now tk @ world_log w \<rparr>"
proof (cases "st' = world_state w")
  case True
  moreover have "ok (ps_challenges (world_state w))" using assms(1) by (simp add: world_ok_def)
  ultimately show ?thesis using world_ok_kept [OF assms(1)] by simp
next
  case False
  let ?s = "ps_challenges (world_state w)"
  have ok: "ok ?s" using assms(1) by (simp add: world_ok_def)
  obtain a where a: "tk = Some a" using False assms(2) by (cases tk) (auto simp: handle_challenge_approve_def)
  define input where "input = \<lparr> avi_challenge_id = cid, avi_approval = a, avi_device_id = device \<rparr>"
  obtain q s' j' where v: "verify_challenge_approval (pc_subtle cfg) (pc_curve cfg) P (pc_service cfg)
      (pc_approval_key cfg) now (rr_jti_bytes rnd) input ?s (ps_jtis (world_state w)) = (q, s', j')"
    by (metis prod_cases3)
  have r: "ps_challenges st' = s'" "\<And>cap. q = Inr (Approval_Succeeded cap) \<Longrightarrow> r = Approved_Response cap"
    using assms(2) False v by (auto simp: handle_challenge_approve_def a input_def split: if_splits)
  note vs = verify_approval_store [OF v ok]
  show ?thesis
  proof (cases "completed_from ?s s'")
    case True
    then show ?thesis using vs r(1) assms(1) by (intro world_ok_kept) simp_all
  next
    case False
    then obtain cap c where c: "q = Inr (Approval_Succeeded cap)"
      "approval_refusal (pc_subtle cfg) (pc_curve cfg) (pc_approval_key cfg) now c a = None"
      "\<forall>i d. held s' i = Some d \<and> ch_status d = Completed \<longrightarrow> held ?s i = Some d \<or> expected_binding d = expected_binding c"
      using vs by (auto simp: input_def)
    have l: "log_approval r now tk = [(now, a)]" using r(2) [OF c(1)] by (simp add: log_approval_def a)
    have "core_approved cfg (log_approval r now tk @ world_log w) (expected_binding c)"
      using approval_not_refused [OF c(2)] by (auto simp: l core_approved_def)
    moreover have "ok (ps_challenges st')" using vs r(1) by simp
    ultimately show ?thesis
      using assms(1) c(3) r(1) core_approved_mono [of cfg "world_log w"] unfolding world_ok_def by simp metis
  qed
qed

lemma step_world_ok:
  assumes "world_ok cfg w" and "plus_step P cfg w w'"
  shows "world_ok cfg w'"
proof -
  have ok: "ok (ps_challenges (world_state w))" using assms(1) by (simp add: world_ok_def)
  note keep = world_ok_kept [OF assms(1), of _ "[]", simplified]
  have upd: "w\<lparr> world_state := st' \<rparr> = \<lparr> world_state = st', world_log = world_log w \<rparr>" for st' by (cases w) simp
  from assms(2) show ?thesis
  proof cases
    case (approve now rnd cid tk device r st')
    then show ?thesis using approve_world_ok [OF assms(1)] by simp
  next
    case request
    then show ?thesis using request_store [OF ok] keep by (simp add: upd)
  next
    case trigger
    then show ?thesis using trigger_store [OF ok] keep by (simp add: upd)
  next
    case cleanup
    then show ?thesis using cleanup_store [OF ok] keep by (simp add: upd)
  qed (use ok keep in \<open>simp_all add: upd\<close>)
qed

lemma reachable_world_ok: "plus_reachable P cfg w0 w \<Longrightarrow> world_ok cfg w0 \<Longrightarrow> world_ok cfg w"
  by (induction rule: plus_reachable.induct) (auto intro: step_world_ok)

text \<open>In a reachable state a proven third factor was approved by Core for the same binding.\<close>

lemma proven_was_approved:
  assumes "world_ok cfg w" and "third_factor_proven P now args (ps_challenges (world_state w))"
  shows "\<exists>cid. core_approved cfg (world_log w) \<lparr> ab_challenge_id = cid, ab_user_id = gr_user_id args,
     ab_resource_id = gr_resource_id args, ab_operation = gr_operation args, ab_secret_ref = gr_secret_ref args \<rparr>"
proof -
  obtain c where c: "find_completed_challenge P (ps_challenges (world_state w)) now (gate_binding args) = Inr (Some c)"
    using assms(2) by (auto simp: third_factor_proven_def)
  have h: "held (ps_challenges (world_state w)) (ch_id c) = Some c" "same_binding c (gate_binding args)" "ch_status c = Completed"
    using find_completed_held [OF c] assms(1) by (simp_all add: world_ok_def)
  then have "core_approved cfg (world_log w) (expected_binding c)" using assms(1) by (simp add: world_ok_def)
  then show ?thesis using h(2) by (auto simp: same_binding_def gate_binding_def expected_binding_def)
qed

end

end
