(* ===== verification/Plus_Properties.thy ===== *)
theory Plus_Properties
  imports Plus_System Sample_Platform
begin

text \<open>
  The properties of CyberVault Plus: its gate, its challenges and approvals, its
  entitlements and its risk engine.
\<close>

subsection \<open>A concrete service\<close>

definition plus_request :: capability_gate_request where
  "plus_request = \<lparr> gr_user_id = lit ''u'', gr_resource_id = lit ''s'', gr_operation = lit ''AUTOFILL'',
     gr_secret_ref = lit ''s'', gr_device_id = None, gr_assurance = 1, gr_context = None \<rparr>"

definition plus_id_bytes :: bytes where "plus_id_bytes = [0, 0, 0, 0, 0, 0, 0, 0, 0, 0, 0, 0, 0, 0, 0, 0]"

definition plus_random :: request_random where
  "plus_random = \<lparr> rr_nonce = replicate 32 1, rr_id_bytes = plus_id_bytes, rr_jti_bytes = [2, 2, 2, 2, 2, 2, 2, 2, 2, 2, 2, 2, 2, 2, 2, 2] \<rparr>"

definition plus_approval_payload :: approval_payload where
  "plus_approval_payload = \<lparr> ap_version = 1, ap_typ = approval_typ, ap_challenge_id = challenge_id_of plus_id_bytes,
     ap_user_id = lit ''u'', ap_resource_id = lit ''s'', ap_operation = lit ''AUTOFILL'', ap_secret_ref = lit ''s'',
     ap_iat = 1000, ap_exp = 1300, ap_jti = lit ''abcdefghijklmnop'' \<rparr>"

text \<open>JSON for the two objects the approval protocol writes.\<close>

definition plus_stringify :: "json \<Rightarrow> jstr" where
  "plus_stringify j = (if j = header_object then [1] else if j = approval_object plus_approval_payload then [2] else [])"

definition plus_parse :: "jstr \<Rightarrow> json option" where
  "plus_parse s = (if s = [1] then Some header_object else if s = [2] then Some (approval_object plus_approval_payload)
     else None)"

definition plus_subtle :: subtle where
  "plus_subtle = sample_subtle\<lparr> json_parse := plus_parse, json_stringify := plus_stringify \<rparr>"

definition plus_approval :: signed_approval where
  "plus_approval = \<lparr> sa_payload = plus_approval_payload, sa_signature = binary_to_base64 [1, 2, 3],
     sa_header = binary_to_base64 [1] \<rparr>"

definition plus_dates :: dates where
  "plus_dates = \<lparr> to_iso = (\<lambda>t. [nat t]), of_iso = (\<lambda>s. int (hd s)) \<rparr>"

definition plus_sample_config :: plus_config where
  "plus_sample_config = \<lparr> pc_subtle = plus_subtle, pc_curve = sample_curve, pc_web = sample_web,
     pc_dates = plus_dates, pc_number = (\<lambda>r. []), pc_send = (\<lambda>u m. True),
     pc_service = \<lparr> cs_base_url = lit ''https://p'', cs_private_key = replicate 64 3 \<rparr>,
     pc_issuer = \<lparr> is_private_key = replicate 64 3, is_public_key = replicate 32 3, is_default_ttl = 300, is_max_ttl = 3600 \<rparr>,
     pc_approval_key = Some (binary_to_base64 (replicate 32 9)), pc_service_secret = lit ''x'', pc_allowed_origins = [] \<rparr>"

definition plus_row :: "string \<Rightarrow> string \<Rightarrow> pestillo_state \<Rightarrow> entitlement_row" where
  "plus_row u r st = \<lparr> er_id = entitlement_key (lit u) (lit r), er_user_id = lit u, er_resource_id = lit r,
     er_pestillo_state = st, er_allowed_operations = Some [lit ''AUTOFILL''], er_valid_from = None,
     er_valid_until = None, er_metadata = None, er_created_by = lit ''admin'', er_created_at = Date_Value 0,
     er_updated_at = Date_Value 0 \<rparr>"

definition plus_sample_user :: plus_user where
  "plus_sample_user = create_plus_user sample_web 0 (lit ''u'') (lit ''e'') (lit ''n'') Role_Operator None None None"

definition empty_override :: policy_override where
  "empty_override = \<lparr> po_weights = None, po_thresholds = None, po_country_risk = None, po_operation_multiplier = None,
     po_criticality_multiplier = None, po_pestillo_modifiers = None, po_velocity = None \<rparr>"

definition plus_sample_state :: "pestillo_state \<Rightarrow> challenge_table plus_state" where
  "plus_sample_state st = \<lparr> ps_entitlements = [(entitlement_key (lit ''u'') (lit ''s''), plus_row ''u'' ''s'' st)],
     ps_users = [lit ''u'' \<mapsto> plus_sample_user], ps_engine = new_risk_engine empty_override,
     ps_challenges = [], ps_jtis = empty_jti_store \<rparr>"

lemma plus_found:
  "find_by_user_and_resource (pc_subtle plus_sample_config) (pc_dates plus_sample_config)
     (ps_entitlements (plus_sample_state st)) (lit ''u'') (lit ''s'')
   = Some (Some (the (entitlement_of_row plus_subtle plus_dates (plus_row ''u'' ''s'' st))))"
  "en_pestillo (the (entitlement_of_row plus_subtle plus_dates (plus_row ''u'' ''s'' st))) = st"
  "en_operations (the (entitlement_of_row plus_subtle plus_dates (plus_row ''u'' ''s'' st))) = [lit ''AUTOFILL'']"
  "en_valid_from (the (entitlement_of_row plus_subtle plus_dates (plus_row ''u'' ''s'' st))) = None"
  "en_valid_until (the (entitlement_of_row plus_subtle plus_dates (plus_row ''u'' ''s'' st))) = None"
  by (simp_all add: find_by_user_and_resource_def find_entitlement_def plus_sample_state_def entitlement_of_row_def
      map_entitlement_row_def parse_jsonb_column_def plus_row_def entitlement_from_plain_def plus_sample_config_def
      metadata_of_json_def to_optional_plain_timestamp_def optional_date_def)

text \<open>The challenge that a trigger creates, as the table holds it.\<close>

definition plus_create_input :: challenge_create_input where
  "plus_create_input = \<lparr> cin_binding = gate_binding plus_request, cin_device_id = None, cin_type = Type_Risk_Based,
     cin_risk_score = None, cin_risk_reasons = None, cin_ttl_minutes = None, cin_max_attempts = None \<rparr>"

definition plus_challenge :: challenge where
  "plus_challenge = (new_challenge 1000000 (replicate 32 1) plus_id_bytes plus_create_input)
     \<lparr> ch_status := Email_Sent, ch_email_sent_at := Some 1000000, ch_updated_at := 1000000 \<rparr>"

definition plus_triggered :: "pestillo_state \<Rightarrow> challenge_table plus_state" where
  "plus_triggered st = (plus_sample_state st)\<lparr> ps_challenges :=
     [(challenge_id_of plus_id_bytes, to_column_values plus_challenge)] \<rparr>"

lemma plus_trigger:
  "handle_challenge_trigger pg_port plus_sample_config 1000000 plus_random (gate_binding plus_request) None None None None
     (plus_sample_state st)
   = (Created_Response (challenge_id_of plus_id_bytes) 1600000, plus_triggered st)"
  by (simp add: handle_challenge_trigger_def gate_binding_def plus_request_def create_challenge_def
      find_outstanding_challenge_def pg_port_def pg_find_by_user_def select_rows_def plus_sample_state_def
      pg_save_def pg_update_def Let_def new_challenge_def plus_sample_config_def plus_random_def
      plus_triggered_def plus_challenge_def plus_create_input_def)
     (simp add: lit_def)

lemma plus_challenge_id: "challenge_id_of plus_id_bytes \<noteq> []"
  by (simp add: challenge_id_of_def plus_id_bytes_def binary_to_base64_def nats_of_def b64_char_def)

lemma plus_header: "header_error plus_subtle (sa_header plus_approval) = None"
  by (simp add: header_error_def plus_approval_def base64_round_trip plus_subtle_def sample_subtle_def nats_of_def
      plus_parse_def header_object_def str_field_def lit_def approval_typ_def)

lemma plus_reads_back: "approval_reads_back plus_subtle plus_approval_payload"
proof -
  have "utf8_encode [2] = [2]" using utf8_encode_ascii [of "[2]"] by (simp add: bytes_of_def)
  moreover have "approval_object plus_approval_payload \<noteq> header_object"
    by (simp add: approval_object_def header_object_def lit_def)
  ultimately show ?thesis
    by (simp add: approval_reads_back_def encode_approval_payload_def plus_subtle_def sample_subtle_def
        plus_stringify_def nats_of_def plus_parse_def)
qed

lemma plus_approval_acceptable:
  assumes "now < 1300"
  shows "approval_acceptable plus_subtle sample_curve now plus_approval (replicate 32 9) plus_approval_payload"
proof -
  have w: "approval_wellformed plus_approval_payload"
    using plus_challenge_id
    by (simp add: approval_wellformed_def plus_approval_payload_def approval_version_def approval_operations_def)
       (simp add: lit_def)
  show ?thesis
    using assms plus_header decode_encode_approval [OF plus_reads_back] w
    by (simp add: approval_acceptable_def plus_approval_def base64_round_trip sample_curve_def)
       (simp add: plus_approval_payload_def)
qed

lemma plus_not_refused:
  assumes "now < 1300000" and "expected_binding c = expected_binding plus_challenge"
    and "ch_operation c = lit ''AUTOFILL''"
  shows "approval_refusal plus_subtle sample_curve (Some (binary_to_base64 (replicate 32 9))) now c plus_approval = None"
proof -
  have k: "pinned_approval_key (Some (binary_to_base64 (replicate 32 9))) = Some (replicate 32 9)"
    using base64_round_trip [of "replicate 32 9"] base64_round_trip [of "[]"]
    by (cases "binary_to_base64 (replicate 32 9) = []")
      (auto simp: pinned_approval_key_def load_approval_public_key_def binary_to_base64_def nats_of_def)
  have n: "now div 1000 < 1300" using assms(1) by simp
  have b: "approval_bound plus_approval_payload (expected_binding c)"
    using plus_challenge_id
    unfolding assms(2)
    by (simp add: approval_bound_def expected_binding_def plus_challenge_def new_challenge_def
        plus_create_input_def plus_approval_payload_def gate_binding_def plus_request_def)
       (simp add: lit_def)
  have v: "verify_approval plus_subtle sample_curve plus_approval (replicate 32 9) (Some (expected_binding c)) (now div 1000)
      = Inr Valid"
    using plus_approval_acceptable [OF n] b by (auto simp: verify_approval_valid_iff)
  show ?thesis
    by (simp add: approval_refusal_def k v assms(3) is_valid_approval_operation_def approval_operations_def)
qed

lemma plus_mint:
  "\<exists>tk. mint_step_up_capability sample_curve (pc_service plus_sample_config) 1000000 (rr_jti_bytes plus_random) None plus_challenge
     = Inr tk \<and> verify_capability sample_curve 1000 tk (replicate 32 3) None = Valid"
proof -
  let ?J = "rr_jti_bytes plus_random"
  let ?p = "\<lparr> cp_issuer = lit ''cybervault-plus'', cp_audience = lit ''cybervault-core'',
     cp_user_id = lit ''u'', cp_resource_id = lit ''s'', cp_operation = lit ''AUTOFILL'',
     cp_secret_ref = lit ''s'', cp_device_id = None, cp_assurance = 3, cp_iat = 1000, cp_exp = 1300,
     cp_jti = binary_to_base64 ?J, cp_version = 1 \<rparr>"
  have c: "create_capability_payload 1000 ?J (ch_user_id plus_challenge) (ch_resource_id plus_challenge)
     (ch_operation plus_challenge) (ch_secret_ref plus_challenge) None 3 (Some 300) = Inr ?p"
    by (simp add: create_capability_payload_def max_capability_ttl_seconds_def plus_challenge_def new_challenge_def
        plus_create_input_def gate_binding_def plus_request_def capability_version_def plus_random_def)
  have j: "binary_to_base64 ?J = lit ''AgICAgICAgICAgICAgICAg==''"
    by (simp add: plus_random_def binary_to_base64_def nats_of_def b64_char_def lit_def)
  obtain bs where e: "encode_capability_payload ?p = Inr bs"
    by (simp add: encode_capability_payload_def j push_string_def push_optional_string_def utf8_encode_ascii
        bytes_of_def lit_def)
  define tk where "tk = \<lparr> sg_payload = ?p, sg_signature = binary_to_base64 [1, 2, 3], sg_header = capability_header \<rparr>"
  have "sign_capability sample_curve ?p (replicate 64 3) = Inr tk"
    using e by (simp add: sign_capability_def sample_curve_def tk_def)
  moreover have "capability_acceptable sample_curve 1000 tk (replicate 32 3)"
    using e by (simp add: capability_acceptable_def tk_def base64_round_trip sample_curve_def
        capability_operations_def capability_version_def)
  moreover have "ch_device_id plus_challenge = None"
    by (simp add: plus_challenge_def new_challenge_def plus_create_input_def)
  ultimately show ?thesis
    using c by (auto simp: mint_step_up_capability_def plus_sample_config_def verify_capability_valid_iff)
qed

definition plus_completed :: challenge where
  "plus_completed = (stored_form plus_challenge)\<lparr> ch_status := Completed, ch_completed_at := Some 1000000,
     ch_updated_at := 1000000 \<rparr>"

definition plus_proven :: "challenge_table" where
  "plus_proven = [(challenge_id_of plus_id_bytes, to_column_values plus_completed)]"

lemma plus_stored_fields:
  "expected_binding (stored_form plus_challenge) = expected_binding plus_challenge"
  "ch_operation (stored_form plus_challenge) = lit ''AUTOFILL''" "ch_status (stored_form plus_challenge) = Email_Sent"
  "ch_expires_at (stored_form plus_challenge) = 1600000" "ch_id (stored_form plus_challenge) = challenge_id_of plus_id_bytes"
  by (simp_all add: expected_binding_def stored_form_keeps)
     (simp_all add: plus_challenge_def new_challenge_def plus_create_input_def gate_binding_def plus_request_def)

lemma mint_stored: "mint_step_up_capability C sv now jb dev (stored_form c) = mint_step_up_capability C sv now jb dev c"
  by (simp add: mint_step_up_capability_def stored_form_keeps)

lemma plus_approve:
  "\<exists>cap j. handle_challenge_approve pg_port plus_sample_config 1000000 plus_random (challenge_id_of plus_id_bytes)
     (Some plus_approval) None (plus_triggered st)
   = (Approved_Response cap, (plus_triggered st)\<lparr> ps_challenges := plus_proven, ps_jtis := j \<rparr>)"
proof -
  let ?c = "stored_form plus_challenge"
  let ?tb = "[(challenge_id_of plus_id_bytes, to_column_values plus_challenge)]"
  obtain tk where tk: "mint_step_up_capability sample_curve (pc_service plus_sample_config) 1000000 (rr_jti_bytes plus_random)
     None ?c = Inr tk" "verify_capability sample_curve 1000 tk (replicate 32 3) None = Valid"
    using plus_mint mint_stored by metis
  have found: "chp_find_by_id pg_port ?tb (challenge_id_of plus_id_bytes) = Inr (Some ?c)"
    by (simp add: pg_port_def pg_find_by_id_def stored_form_def)
  have upd: "chp_update pg_port ?tb (?c\<lparr> ch_status := Completed, ch_completed_at := Some 1000000, ch_updated_at := 1000000 \<rparr>)
      = (Inr (stored_form plus_completed), plus_proven)"
    using plus_stored_fields(5)
    by (simp add: pg_port_def pg_update_def plus_proven_def plus_completed_def Let_def stored_form_def)
  have ref: "approval_refusal plus_subtle sample_curve (Some (binary_to_base64 (replicate 32 9))) 1000000 ?c plus_approval = None"
    by (rule plus_not_refused) (simp_all add: plus_stored_fields)
  have jti: "verify_and_consume_jti empty_jti_store 1000000 (lit ''abcdefghijklmnop'') 300
      = (Jti_Allowed, empty_jti_store(lit ''abcdefghijklmnop'' \<mapsto> 1300000))"
    by (simp add: verify_and_consume_jti_def try_consume_def empty_jti_store_def lit_def)
  have cfg: "pc_subtle plus_sample_config = plus_subtle" "pc_curve plus_sample_config = sample_curve"
    "pc_approval_key plus_sample_config = Some (binary_to_base64 (replicate 32 9))"
    "cs_private_key (pc_service plus_sample_config) = replicate 64 3"
    by (simp_all add: plus_sample_config_def)
  have st: "ps_challenges (plus_triggered st) = ?tb" "ps_jtis (plus_triggered st) = empty_jti_store"
    by (simp_all add: plus_triggered_def plus_sample_state_def)
  have p: "ap_jti (sa_payload plus_approval) = lit ''abcdefghijklmnop''"
    "ap_exp (sa_payload plus_approval) - ap_iat (sa_payload plus_approval) = 300"
    by (simp_all add: plus_approval_def plus_approval_payload_def)
  have out: "Email_Sent \<in> set outstanding_statuses" by (simp add: outstanding_statuses_def)
  have "verify_challenge_approval plus_subtle sample_curve pg_port (pc_service plus_sample_config)
      (Some (binary_to_base64 (replicate 32 9))) 1000000 (rr_jti_bytes plus_random)
      \<lparr> avi_challenge_id = challenge_id_of plus_id_bytes, avi_approval = plus_approval, avi_device_id = None \<rparr> ?tb empty_jti_store
    = (Inr (Approval_Succeeded tk), plus_proven,
       snd (verify_and_consume_jti (empty_jti_store(lit ''abcdefghijklmnop'' \<mapsto> 1300000)) 1000000
              (cp_jti (sg_payload tk)) (cp_exp (sg_payload tk) - cp_iat (sg_payload tk))))"
    unfolding verify_challenge_approval_def
    by (simp add: found plus_stored_fields out ref jti p tk cfg upd)
  then show ?thesis
    using plus_challenge_id by (simp add: handle_challenge_approve_def cfg st) blast
qed

text \<open>With the challenge proven, the gate allows and a capability is issued.\<close>

definition plus_proven_state :: "pestillo_state \<Rightarrow> jti_store \<Rightarrow> challenge_table plus_state" where
  "plus_proven_state st j = (plus_triggered st)\<lparr> ps_challenges := plus_proven, ps_jtis := j \<rparr>"

lemma plus_table_ok: "table_ok plus_proven" "table_ok [(challenge_id_of plus_id_bytes, to_column_values plus_challenge)]"
  using plus_stored_fields(5)
  by (simp_all add: table_ok_def plus_proven_def row_id_values plus_completed_def)
     (simp_all add: stored_form_def to_challenge_props_id row_id_values)

lemma plus_proven_found:
  assumes "now < 1600000"
  shows "third_factor_proven pg_port now plus_request plus_proven"
proof -
  have h: "table_held plus_proven (challenge_id_of plus_id_bytes) = Some (stored_form plus_completed)"
    by (simp add: table_held_def plus_proven_def stored_form_def)
  have b: "same_binding (stored_form plus_completed) (gate_binding plus_request)"
    by (simp add: same_binding_def stored_form_keeps plus_completed_def)
       (simp add: stored_form_keeps plus_challenge_def new_challenge_def plus_create_input_def)
  have s: "ch_status (stored_form plus_completed) = Completed" "ch_expires_at (stored_form plus_completed) = 1600000"
    using plus_stored_fields(4) by (simp_all add: stored_form_keeps plus_completed_def)
  have "\<exists>c. find_completed_challenge pg_port plus_proven now (gate_binding plus_request) = Inr (Some c)"
    using pg.completed_found [OF plus_table_ok(1) h b s(1)] s(2) assms by simp
  then show ?thesis by (auto simp: third_factor_proven_def context_string_def plus_request_def)
qed

lemma plus_valid: "st \<noteq> P_Closed \<Longrightarrow>
   is_currently_valid now (the (entitlement_of_row plus_subtle plus_dates (plus_row ''u'' ''s'' st)))"
  by (simp add: currently_valid_iff plus_found)

lemma plus_user_known: "ps_users (plus_proven_state st j) (lit ''u'') = Some plus_sample_user"
  by (simp add: plus_proven_state_def plus_triggered_def plus_sample_state_def)

lemma plus_gate_justified:
  assumes "now < 1600000"
  shows "gate_justified pg_port plus_sample_config now plus_request (plus_proven_state P_Step_Up j)"
proof -
  let ?st = "plus_proven_state P_Step_Up j"
  have e: "ps_entitlements ?st = ps_entitlements (plus_sample_state P_Step_Up)" "ps_challenges ?st = plus_proven"
    by (simp_all add: plus_proven_state_def plus_triggered_def)
  have d: "gate_risk_decision plus_sample_config now plus_request P_Step_Up plus_sample_user E = Risk_Challenge" for E
    by (simp add: gate_risk_decision_def gate_decision_def evaluate_risk_fields make_decision_def gate_risk_context_def)
  have r: "gr_user_id plus_request = lit ''u''" "gr_resource_id plus_request = lit ''s''"
    "gr_operation plus_request = lit ''AUTOFILL''" by (simp_all add: plus_request_def)
  show ?thesis
    unfolding gate_justified_def r e plus_found(1)
    using plus_valid [of P_Step_Up now] plus_user_known [of P_Step_Up j] plus_proven_found [OF assms]
    by (simp add: plus_found d)
qed

lemma plus_issue:
  assumes "ttl = None \<or> ttl = Some 300"
  shows "\<exists>out. issue_for_assurance plus_sample_config 1000000 plus_random plus_request ttl = Inr out"
proof -
  let ?J = "rr_jti_bytes plus_random"
  let ?p = "\<lparr> cp_issuer = lit ''cybervault-plus'', cp_audience = lit ''cybervault-core'',
     cp_user_id = lit ''u'', cp_resource_id = lit ''s'', cp_operation = lit ''AUTOFILL'',
     cp_secret_ref = lit ''s'', cp_device_id = None, cp_assurance = 1, cp_iat = 1000, cp_exp = 1300,
     cp_jti = binary_to_base64 ?J, cp_version = 1 \<rparr>"
  have c: "create_capability_payload 1000 ?J (lit ''u'') (lit ''s'') (lit ''AUTOFILL'') (lit ''s'') None 1 (Some 300) = Inr ?p"
    by (simp add: create_capability_payload_def max_capability_ttl_seconds_def capability_version_def plus_random_def)
  have j: "binary_to_base64 ?J = lit ''AgICAgICAgICAgICAgICAg==''"
    by (simp add: plus_random_def binary_to_base64_def nats_of_def b64_char_def lit_def)
  obtain bs where e: "encode_capability_payload ?p = Inr bs"
    by (simp add: encode_capability_payload_def j push_string_def push_optional_string_def utf8_encode_ascii
        bytes_of_def lit_def)
  define tk where "tk = \<lparr> sg_payload = ?p, sg_signature = binary_to_base64 [1, 2, 3], sg_header = capability_header \<rparr>"
  have s: "sign_capability sample_curve ?p (replicate 64 3) = Inr tk"
    using e by (simp add: sign_capability_def sample_curve_def tk_def)
  have "capability_acceptable sample_curve 1000 tk (replicate 32 3)"
    using e by (simp add: capability_acceptable_def tk_def base64_round_trip sample_curve_def
        capability_operations_def capability_version_def)
  then have v: "verify_capability sample_curve 1000 tk (replicate 32 3) None = Valid"
    by (simp add: verify_capability_valid_iff)
  show ?thesis
    using assms c s v
    by (auto simp: issue_for_assurance_def issue_direct_capability_def issue_capability_def plus_sample_config_def
        plus_request_def)
qed

lemma plus_release:
  "\<exists>out. fst (handle_capabilities_request pg_port plus_sample_config 1000000 plus_random plus_request None
     (plus_proven_state P_Step_Up j)) = Capability_Response out"
  using handler_issues_iff [of pg_port plus_sample_config 1000000 plus_random plus_request None "plus_proven_state P_Step_Up j"
      "\<lambda>out. True"] plus_gate_justified [of 1000000 j] plus_issue [of None]
  by (simp add: plus_request_def capability_operations_def) (simp add: lit_def)

subsection \<open>The gate\<close>

text \<open>
  C22. Plus answers a capability request with a capability exactly when the request is
  complete and names a listed operation, an entitlement that is open and in force at
  that time lists the operation, the user is known, the risk decision is not a denial,
  a proven unexpired challenge for the binding exists whenever the pestillo, the risk
  decision or the claimed assurance demands a third factor (and is the one presented,
  if one is presented), and the issuer signs it; the capability is then the issuer's.
\<close>

theorem capability_issued_exactly:
  "fst (handle_capabilities_request P cfg now rnd args ttl st) = Capability_Response out \<longleftrightarrow>
     gr_user_id args \<noteq> [] \<and> gr_resource_id args \<noteq> [] \<and> gr_operation args \<noteq> [] \<and> gr_secret_ref args \<noteq> []
     \<and> gr_assurance args \<noteq> 0 \<and> gr_operation args \<in> set capability_operations
     \<and> gate_justified P cfg now args st \<and> issue_for_assurance cfg now rnd args ttl = Inr out"
  using handler_issues_iff [of P cfg now rnd args ttl st "\<lambda>x. x = out"] by simp

text \<open>
  C23. In every state that requests, triggers, approvals, clean-ups, administration and
  policy changes lead to from a table without completed challenges, a capability
  issued under a step-up pestillo, or with assurance 3, was preceded by an approval
  that verifies under the pinned Core key and is bound to the same user, resource,
  operation and secret.
\<close>

theorem step_up_needs_core_approval:
  assumes "plus_reachable pg_port cfg w0 w"
    and "table_ok (ps_challenges (world_state w0))"
    and "\<forall>i c. table_held (ps_challenges (world_state w0)) i = Some c \<longrightarrow> ch_status c \<noteq> Completed"
    and "fst (handle_capabilities_request pg_port cfg now rnd args ttl (world_state w)) = Capability_Response out"
    and "find_by_user_and_resource (pc_subtle cfg) (pc_dates cfg) (ps_entitlements (world_state w))
       (gr_user_id args) (gr_resource_id args) = Some (Some en)"
    and "en_pestillo en = P_Step_Up \<or> gr_assurance args = 3"
  shows "\<exists>cid. core_approved cfg (world_log w) \<lparr> ab_challenge_id = cid, ab_user_id = gr_user_id args,
     ab_resource_id = gr_resource_id args, ab_operation = gr_operation args, ab_secret_ref = gr_secret_ref args \<rparr>"
proof (rule pg.proven_was_approved)
  have "pg.world_ok cfg w0" using assms(2,3) by (auto simp: pg.world_ok_def)
  then show "pg.world_ok cfg w" by (rule pg.reachable_world_ok [OF assms(1)])
  have "gate_justified pg_port cfg now args (world_state w)"
    using assms(4) handler_issues_iff [of pg_port cfg now rnd args ttl "world_state w" "\<lambda>x. True"] by simp
  then show "third_factor_proven pg_port now args (ps_challenges (world_state w))"
    using assms(5,6) by (auto simp: gate_justified_def third_factor_needed_def Let_def)
qed

theorem step_up_needs_core_approval_witness:
  "\<exists>(w :: challenge_table plus_world) cid. core_approved plus_sample_config (world_log w)
     \<lparr> ab_challenge_id = cid, ab_user_id = lit ''u'', ab_resource_id = lit ''s'', ab_operation = lit ''AUTOFILL'',
       ab_secret_ref = lit ''s'' \<rparr>"
proof -
  let ?w0 = "\<lparr> world_state = plus_sample_state P_Step_Up, world_log = [] \<rparr>"
  let ?w1 = "?w0\<lparr> world_state := plus_triggered P_Step_Up \<rparr>"
  obtain cap j where a: "handle_challenge_approve pg_port plus_sample_config 1000000 plus_random
      (challenge_id_of plus_id_bytes) (Some plus_approval) None (plus_triggered P_Step_Up)
      = (Approved_Response cap, plus_proven_state P_Step_Up j)"
    using plus_approve [of P_Step_Up] by (auto simp: plus_proven_state_def)
  let ?w2 = "\<lparr> world_state = plus_proven_state P_Step_Up j,
     world_log = log_approval (Approved_Response cap) 1000000 (Some plus_approval) @ world_log ?w1 \<rparr>"
  have "plus_step pg_port plus_sample_config ?w0 ?w1"
    using plus_step.trigger [of pg_port plus_sample_config 1000000 plus_random "gate_binding plus_request" None None
      None None ?w0] plus_trigger [of P_Step_Up] by simp
  moreover have "plus_step pg_port plus_sample_config ?w1 ?w2"
    using plus_step.approve [of pg_port plus_sample_config 1000000 plus_random "challenge_id_of plus_id_bytes"
      "Some plus_approval" None ?w1] a by simp
  ultimately have r: "plus_reachable pg_port plus_sample_config ?w0 ?w2"
    by (blast intro: plus_reachable.intros)
  obtain out where o: "fst (handle_capabilities_request pg_port plus_sample_config 1000000 plus_random plus_request None
      (world_state ?w2)) = Capability_Response out" using plus_release [of j] by auto
  have e: "ps_entitlements (world_state ?w2) = ps_entitlements (plus_sample_state P_Step_Up)"
    by (simp add: plus_proven_state_def plus_triggered_def)
  have q: "gr_user_id plus_request = lit ''u''" "gr_resource_id plus_request = lit ''s''"
    "gr_operation plus_request = lit ''AUTOFILL''" "gr_secret_ref plus_request = lit ''s''" by (simp_all add: plus_request_def)
  have t0: "table_ok (ps_challenges (world_state ?w0))" by (simp add: table_ok_def plus_sample_state_def)
  have h0: "\<forall>i c. table_held (ps_challenges (world_state ?w0)) i = Some c \<longrightarrow> ch_status c \<noteq> Completed"
    by (simp add: table_held_def plus_sample_state_def)
  have f: "find_by_user_and_resource (pc_subtle plus_sample_config) (pc_dates plus_sample_config)
      (ps_entitlements (world_state ?w2)) (gr_user_id plus_request) (gr_resource_id plus_request)
    = Some (Some (the (entitlement_of_row plus_subtle plus_dates (plus_row ''u'' ''s'' P_Step_Up))))"
    unfolding e q by (rule plus_found(1))
  have "\<exists>cid. core_approved plus_sample_config (world_log ?w2)
      \<lparr> ab_challenge_id = cid, ab_user_id = gr_user_id plus_request, ab_resource_id = gr_resource_id plus_request,
        ab_operation = gr_operation plus_request, ab_secret_ref = gr_secret_ref plus_request \<rparr>"
    by (rule step_up_needs_core_approval [OF r t0 h0 o f]) (simp add: plus_found)
  then show ?thesis unfolding q by blast
qed

text \<open>
  The approval route never reads the entitlement: there is a user whose pestillo
  is closed, whose capability requests are answered 403, and who is handed a capability
  by triggering a challenge and approving it.
\<close>

theorem closed_pestillo_approval_route:
  "\<exists>(st0 :: challenge_table plus_state) st1 st2 cid expires cap.
     handle_capabilities_request pg_port plus_sample_config 1000000 plus_random plus_request None st0
       = (Error_Response 403 ''Pestillo is closed'', st0)
     \<and> handle_challenge_trigger pg_port plus_sample_config 1000000 plus_random (gate_binding plus_request)
         None None None None st0 = (Created_Response cid expires, st1)
     \<and> handle_challenge_approve pg_port plus_sample_config 1000000 plus_random cid (Some plus_approval) None st1
         = (Approved_Response cap, st2)"
proof -
  have "authorize_capability_request pg_port plus_sample_config 1000000 plus_random plus_request (plus_sample_state P_Closed)
      = (Inr (Gate_Deny ''Pestillo is closed''), plus_sample_state P_Closed)"
    using plus_found(1) [of P_Closed] plus_found(2) [of P_Closed]
    by (simp add: authorize_capability_request_def plus_request_def get_effective_state_def is_currently_valid_def Let_def)
  then have "handle_capabilities_request pg_port plus_sample_config 1000000 plus_random plus_request None (plus_sample_state P_Closed)
      = (Error_Response 403 ''Pestillo is closed'', plus_sample_state P_Closed)"
    by (simp add: handle_capabilities_request_def) (simp add: plus_request_def capability_operations_def lit_def)
  then show ?thesis using plus_trigger [of P_Closed] plus_approve [of P_Closed] by blast
qed

text \<open>
  The row key of an entitlement does not determine the pair: an entitlement saved
  for user \<^verbatim>\<open>u:v\<close> on resource r is the one the gate finds for user u on resource \<^verbatim>\<open>v:r\<close>,
  and the gate does not compare the two.
\<close>

theorem saved_entitlement_serves_other_user:
  assumes "fst (save_entitlement S T tb (create_entitlement now i)) = Some e"
    and "ein_user_id i = u @ lit '':'' @ v" and "ein_resource_id i = r"
  shows "find_by_user_and_resource S T (snd (save_entitlement S T tb (create_entitlement now i))) u (v @ lit '':'' @ r)
       = Some (Some e) \<and> en_user_id e = u @ lit '':'' @ v"
proof -
  have k: "en_id (create_entitlement now i) = entitlement_key u (v @ lit '':'' @ r)"
    by (simp add: created_entitlement_key assms(2,3) entitlement_key_collides)
  have uid: "en_user_id (create_entitlement now i) = u @ lit '':'' @ v"
    by (simp add: create_entitlement_def assms(2))
  obtain p where p: "entitlement_to_plain S T (create_entitlement now i) = Some p"
    using assms(1) by (auto simp: save_entitlement_def split: option.splits)
  have pk: "pe_id p = entitlement_key u (v @ lit '':'' @ r)" "pe_user_id p = u @ lit '':'' @ v"
    using p k uid by (auto simp: entitlement_to_plain_def split: option.splits)
  show ?thesis
    using assms(1) pk
    by (auto simp: save_entitlement_def p Let_def find_by_user_and_resource_def find_entitlement_def map_of_map_set
        entitlement_of_row_def map_entitlement_row_def row_of_plain_def entitlement_from_plain_def split: option.splits)
qed

theorem saved_entitlement_serves_other_user_witness:
  "\<exists>e. find_by_user_and_resource plus_subtle plus_dates
      (snd (save_entitlement plus_subtle plus_dates [] (create_entitlement 0
         \<lparr> ein_user_id = lit ''a:b'', ein_resource_id = lit ''c'', ein_pestillo = P_Enabled,
           ein_operations = [lit ''AUTOFILL''], ein_valid_from = None, ein_valid_until = None,
           ein_metadata = None, ein_created_by = lit ''admin'' \<rparr>))) (lit ''a'') (lit ''b'' @ lit '':'' @ lit ''c'') = Some (Some e)
     \<and> en_user_id e = lit ''a'' @ lit '':'' @ lit ''b''"
proof -
  let ?i = "\<lparr> ein_user_id = lit ''a:b'', ein_resource_id = lit ''c'', ein_pestillo = P_Enabled,
     ein_operations = [lit ''AUTOFILL''], ein_valid_from = None, ein_valid_until = None,
     ein_metadata = None, ein_created_by = lit ''admin'' \<rparr>"
  have "\<exists>e. fst (save_entitlement plus_subtle plus_dates [] (create_entitlement 0 ?i)) = Some e"
    by (simp add: save_entitlement_def entitlement_to_plain_def create_entitlement_def clone_metadata_def Let_def
        entitlement_of_row_def map_entitlement_row_def row_of_plain_def parse_jsonb_column_def)
  then obtain e where "fst (save_entitlement plus_subtle plus_dates [] (create_entitlement 0 ?i)) = Some e" by blast
  from saved_entitlement_serves_other_user [OF this, of "lit ''a''" "lit ''b''" "lit ''c''"]
  show ?thesis by (auto simp: lit_def)
qed

subsection \<open>Challenges and approvals\<close>

text \<open>
  One completed challenge keeps authorizing: under a step-up pestillo, a request
  that names no challenge and that the gate allows at one time is allowed again at any
  later time before the challenge expires, whatever was issued in between: the first
  allowance leaves the challenge as it was.
\<close>

theorem proof_reused_until_expiry:
  assumes "table_ok (ps_challenges st)" and "table_held (ps_challenges st) i = Some c"
    and "same_binding c (gate_binding args)" and "ch_status c = Completed"
    and "find_by_user_and_resource (pc_subtle cfg) (pc_dates cfg) (ps_entitlements st)
       (gr_user_id args) (gr_resource_id args) = Some (Some en)"
    and "en_pestillo en = P_Step_Up" and "gr_operation args \<in> set (en_operations en)"
    and "ps_users st (gr_user_id args) = Some user" and "context_string (gr_context args) ''challengeId'' = None"
    and "is_currently_valid now en" and "is_currently_valid later en"
    and "now \<le> later" and "later < ch_expires_at c"
  shows "\<exists>st'. authorize_capability_request pg_port cfg now rnd args st = (Inr Gate_Allow, st')
     \<and> fst (authorize_capability_request pg_port cfg later rnd' args st') = Inr Gate_Allow"
proof -
  have j: "gate_justified pg_port cfg t args s" if "t < ch_expires_at c" "is_currently_valid t en"
    "ps_challenges s = ps_challenges st" "ps_entitlements s = ps_entitlements st" "ps_users s = ps_users st" for t s
  proof -
    have "\<exists>c'. find_completed_challenge pg_port (ps_challenges st) t (gate_binding args) = Inr (Some c')"
      using pg.completed_found [OF assms(1,2,3,4) that(1)] .
    then have p: "third_factor_proven pg_port t args (ps_challenges st)" by (auto simp: third_factor_proven_def assms(9))
    have d: "gate_risk_decision cfg t args P_Step_Up user E \<noteq> Risk_Deny" for E
      by (simp add: gate_risk_decision_def gate_decision_def evaluate_risk_fields make_decision_def gate_risk_context_def)
    show ?thesis unfolding gate_justified_def that(3-5) using assms(5-8) that(2) p d by auto
  qed
  have a: "fst (authorize_capability_request pg_port cfg now rnd args st) = Inr Gate_Allow"
    using j [of now st] assms(10,12,13) by (simp add: authorize_allow_iff)
  then obtain st' where s: "authorize_capability_request pg_port cfg now rnd args st = (Inr Gate_Allow, st')"
    by (metis prod.collapse)
  have "gate_justified pg_port cfg later args st'"
    using j [of later st'] assms(11,13) authorize_allow_state [OF s] by simp
  then show ?thesis using s by (auto simp: authorize_allow_iff)
qed

theorem proof_reused_until_expiry_witness:
  "\<exists>st'. authorize_capability_request pg_port plus_sample_config 1000000 plus_random plus_request
       (plus_proven_state P_Step_Up empty_jti_store) = (Inr Gate_Allow, st')
     \<and> fst (authorize_capability_request pg_port plus_sample_config 1599999 plus_random plus_request st') = Inr Gate_Allow"
proof (rule proof_reused_until_expiry)
  let ?st = "plus_proven_state P_Step_Up empty_jti_store"
  have c: "ps_challenges ?st = plus_proven" "ps_entitlements ?st = ps_entitlements (plus_sample_state P_Step_Up)"
    by (simp_all add: plus_proven_state_def plus_triggered_def)
  show "table_ok (ps_challenges ?st)" by (simp add: c plus_table_ok)
  show "table_held (ps_challenges ?st) (challenge_id_of plus_id_bytes) = Some (stored_form plus_completed)"
    by (simp add: c table_held_def plus_proven_def stored_form_def)
  show "same_binding (stored_form plus_completed) (gate_binding plus_request)"
    by (simp add: same_binding_def stored_form_keeps plus_completed_def)
       (simp add: stored_form_keeps plus_challenge_def new_challenge_def plus_create_input_def)
  show "ch_status (stored_form plus_completed) = Completed" by (simp add: stored_form_keeps plus_completed_def)
  show "find_by_user_and_resource (pc_subtle plus_sample_config) (pc_dates plus_sample_config) (ps_entitlements ?st)
      (gr_user_id plus_request) (gr_resource_id plus_request)
    = Some (Some (the (entitlement_of_row plus_subtle plus_dates (plus_row ''u'' ''s'' P_Step_Up))))"
    by (simp add: c plus_request_def plus_found(1) [of P_Step_Up])
  show "(1599999 :: int) < ch_expires_at (stored_form plus_completed)"
    using plus_stored_fields(4) by (simp add: stored_form_keeps plus_completed_def)
  show "ps_users ?st (gr_user_id plus_request) = Some plus_sample_user"
    using plus_user_known by (simp add: plus_request_def)
qed (simp_all add: plus_found plus_valid plus_request_def context_string_def)

text \<open>
  C27. For a payload that JSON and UTF-8 read back, the approval verifier accepts
  exactly the approvals with the right protected header, a well-formed payload for one
  of the three operations, a signature over that payload under the given key, an
  expiry in the future at most 600 seconds after the issue time, and all five fields
  of a complete binding equal.
\<close>

theorem approval_verified_exactly:
  assumes "approval_reads_back S (sa_payload tk)"
  shows "verify_approval S C tk pk (Some x) now = Inr Valid \<longleftrightarrow>
     header_error S (sa_header tk) = None \<and> approval_wellformed (sa_payload tk)
     \<and> (\<exists>sig. base64_to_binary (sa_signature tk) = Some sig
          \<and> ed_verify C sig (encode_approval_payload S (sa_payload tk)) pk = Inr True)
     \<and> now < ap_exp (sa_payload tk) \<and> ap_exp (sa_payload tk) \<le> ap_iat (sa_payload tk) + 600
     \<and> approval_bound (sa_payload tk) x"
  by (auto simp: verify_approval_valid_iff approval_acceptable_def decode_encode_approval [OF assms])

theorem approval_verified_exactly_witness:
  "verify_approval plus_subtle sample_curve plus_approval (replicate 32 9) (Some (expected_binding plus_challenge)) 1000
     = Inr Valid"
proof -
  have w: "approval_reads_back plus_subtle (sa_payload plus_approval)"
    using plus_reads_back by (simp add: plus_approval_def)
  have a: "approval_acceptable plus_subtle sample_curve 1000 plus_approval (replicate 32 9) plus_approval_payload"
    by (rule plus_approval_acceptable) simp
  have p: "sa_payload plus_approval = plus_approval_payload" by (simp add: plus_approval_def)
  have "approval_wellformed plus_approval_payload"
    using a decode_approval_wellformed by (auto simp: approval_acceptable_def)
  moreover have "approval_bound plus_approval_payload (expected_binding plus_challenge)"
    using plus_challenge_id
    by (simp add: approval_bound_def expected_binding_def plus_challenge_def new_challenge_def
        plus_create_input_def plus_approval_payload_def gate_binding_def plus_request_def)
       (simp add: lit_def)
  ultimately show ?thesis
    unfolding approval_verified_exactly [OF w] using a by (simp add: p approval_acceptable_def)
qed

text \<open>
  The issue time is never compared with the clock: an approval accepted at some
  time is accepted at every earlier time, however long before it was issued, so the
  600 seconds bound its stated window and not how long it is usable.
\<close>

theorem approval_accepted_before_issue:
  assumes "verify_approval S C tk pk (Some x) now = Inr Valid" and "earlier \<le> now"
  shows "verify_approval S C tk pk (Some x) earlier = Inr Valid"
  using assms by (auto simp: verify_approval_valid_iff approval_acceptable_def)

theorem approval_accepted_before_issue_witness:
  "ap_iat (sa_payload plus_approval) = 1000
   \<and> verify_approval plus_subtle sample_curve plus_approval (replicate 32 9) (Some (expected_binding plus_challenge)) (- 5000)
     = Inr Valid"
proof -
  have b: "approval_bound plus_approval_payload (expected_binding plus_challenge)"
    using plus_challenge_id
    by (simp add: approval_bound_def expected_binding_def plus_challenge_def new_challenge_def
        plus_create_input_def plus_approval_payload_def gate_binding_def plus_request_def)
       (simp add: lit_def)
  have "verify_approval plus_subtle sample_curve plus_approval (replicate 32 9) (Some (expected_binding plus_challenge)) 1299
     = Inr Valid"
    using plus_approval_acceptable [of 1299] b by (auto simp: verify_approval_valid_iff)
  from approval_accepted_before_issue [OF this, of "- 5000"] show ?thesis
    by (simp add: plus_approval_def plus_approval_payload_def)
qed

subsection \<open>Risk\<close>

text \<open>
  Under the default policy the risk engine denies exactly the closed pestillos: no
  context, history or travel of an enabled or temporary one reaches a denial.
\<close>

theorem default_policy_denies_only_closed:
  assumes "rc_policy x = default_risk_policy" and "eng_policy E = default_risk_policy"
  shows "ev_decision (fst (evaluate_risk W N now E x)) = Risk_Deny \<longleftrightarrow> rc_pestillo x = P_Closed"
  by (rule default_decision [OF assms])

theorem default_policy_denies_only_closed_witness:
  "ev_decision (fst (evaluate_risk sample_web (\<lambda>r. []) 0 (new_risk_engine empty_override)
     (gate_risk_context 0 plus_request P_Enabled plus_sample_user (new_risk_engine empty_override)))) \<noteq> Risk_Deny"
proof -
  have e: "eng_policy (new_risk_engine empty_override) = default_risk_policy"
    by (rule default_policy_of_override) (simp add: empty_override_def)
  have x: "rc_policy (gate_risk_context 0 plus_request P_Enabled plus_sample_user (new_risk_engine empty_override))
      = default_risk_policy" by (simp add: gate_risk_context_def e)
  show ?thesis
    using default_policy_denies_only_closed [OF x e, of sample_web "\<lambda>r. []" 0] by (simp add: gate_risk_context_def)
qed

text \<open>
  C30. Whatever the context, a policy with nonnegative weights and country risks and a
  temporary modifier between 0 and 5 gives a total score between 0 and 100.
\<close>

theorem risk_score_in_range:
  assumes "sane_policy (rc_policy x)" and "nonneg_weights (rp_weights (rc_policy x))"
    and "nonneg_weights (rp_weights (eng_policy E))"
  shows "0 \<le> ev_total_score (fst (evaluate_risk W N now E x)) \<and> ev_total_score (fst (evaluate_risk W N now E x)) \<le> 100"
proof -
  let ?s = "calculate_weighted_score (risk_factors W N now E x)"
  have "\<forall>f \<in> set (risk_factors W N now E x). 0 \<le> rf_weight f \<and> 0 \<le> rf_score f \<and> rf_score f \<le> 100"
    using factor_scores_bounded [OF assms(1), of W N now E] factor_weights_nonneg [OF assms(2,3), of W N now] by blast
  then have "0 \<le> ?s" and "?s \<le> 100" using weighted_score_bounds [of _ 100] by simp_all
  then have "js_round (of_int 0) \<le> js_round ?s" and "js_round ?s \<le> js_round (of_int 100)"
    by (intro js_round_mono; simp)+
  then show ?thesis by (simp only: js_round_int evaluate_risk_fields)
qed

theorem risk_score_in_range_witness:
  "ev_total_score (fst (evaluate_risk sample_web (\<lambda>r. []) 0 (new_risk_engine empty_override)
     (gate_risk_context 0 plus_request P_Temporary plus_sample_user (new_risk_engine empty_override)))) \<le> 100"
proof -
  have e: "eng_policy (new_risk_engine empty_override) = default_risk_policy"
    by (rule default_policy_of_override) (simp add: empty_override_def)
  have x: "rc_policy (gate_risk_context 0 plus_request P_Temporary plus_sample_user (new_risk_engine empty_override))
      = default_risk_policy" by (simp add: gate_risk_context_def e)
  have w: "nonneg_weights (rp_weights default_risk_policy)" by (simp add: nonneg_weights_def default_risk_policy_def)
  show ?thesis
    using sane_default w e x risk_score_in_range [of "gate_risk_context 0 plus_request P_Temporary plus_sample_user (new_risk_engine empty_override)"
        "new_risk_engine empty_override" sample_web "\<lambda>r. []" 0] by simp
qed

subsection \<open>Entitlements and capabilities\<close>

text \<open>
  An entitlement made temporary without an end, when it had none, never expires: if
  it is in force at some time it is temporary at every later time.
\<close>

lemma temporary_without_end_stays_open:
  assumes "en_valid_until e = None"
    and "is_currently_valid now (set_pestillo_state t P_Temporary None e)" and "now \<le> later"
  shows "get_effective_state later (set_pestillo_state t P_Temporary None e) = P_Temporary"
proof -
  have n: "en_valid_until (set_pestillo_state t P_Temporary None e) = None"
    using assms(1) by (simp add: set_pestillo_unbounded)
  show ?thesis using no_end_stays_valid [OF n assms(2,3)] by (simp add: set_pestillo_state_def)
qed

text \<open>
  C32. A capability that Plus issues is one that Core accepts: from the second of issue to
  its expiry, verification under the issuer's public key passes, bindings included, for
  the user, resource, secret and device it was requested for.
\<close>

theorem issued_capability_accepted_by_core:
  assumes "issue_capability C I now jb r = Inr out" and "now div 1000 \<le> t"
    and "t \<le> cp_exp (sg_payload (ok_token out))"
    and "ir_user_id r \<noteq> []" and "ir_resource_id r \<noteq> []" and "ir_secret_ref r \<noteq> []"
  shows "verify_capability C t (ok_token out) (is_public_key I) (Some
     \<lparr> cb_user_id = ir_user_id r, cb_resource_id = ir_resource_id r, cb_secret_ref = ir_secret_ref r,
       cb_device_id = (case ir_device_id r of None \<Rightarrow> [] | Some d \<Rightarrow> d) \<rparr>) = Valid"
  using issued_acceptable_until_expiry [OF assms(1-3)] issue_fields [OF assms(1)] assms(4-6)
  by (simp add: verify_capability_valid_iff capability_bound_def)

theorem issued_capability_accepted_by_core_witness:
  "\<exists>(out :: issued_capability). verify_capability sample_curve 1299 (ok_token out) (replicate 32 3) (Some
     \<lparr> cb_user_id = lit ''u'', cb_resource_id = lit ''s'', cb_secret_ref = lit ''s'', cb_device_id = [] \<rparr>) = Valid"
proof -
  let ?r = "\<lparr> ir_user_id = lit ''u'', ir_resource_id = lit ''s'', ir_operation = lit ''AUTOFILL'', ir_secret_ref = lit ''s'',
     ir_device_id = None, ir_assurance = 1, ir_ttl_seconds = Some 300, ir_context = None \<rparr>"
  obtain out where "issue_for_assurance plus_sample_config 1000000 plus_random plus_request (Some 300) = Inr out"
    using plus_issue [of "Some 300"] by blast
  then have o: "issue_capability sample_curve (pc_issuer plus_sample_config) 1000000 (rr_jti_bytes plus_random) ?r = Inr out"
    by (simp add: issue_for_assurance_def issue_direct_capability_def plus_request_def plus_sample_config_def)
  obtain p ttl where p: "create_capability_payload 1000 (rr_jti_bytes plus_random) (lit ''u'') (lit ''s'')
        (lit ''AUTOFILL'') (lit ''s'') None 1 (Some ttl) = Inr p" "ttl = 300"
      "sign_capability sample_curve p (is_private_key (pc_issuer plus_sample_config)) = Inr (ok_token out)"
    using issue_capability_result [OF o] by auto
  have e: "cp_exp (sg_payload (ok_token out)) = 1300"
    using create_payload_fields [OF p(1)] sign_capability_payload [OF p(3)] p(2) by simp
  show ?thesis
    using issued_capability_accepted_by_core [OF o, of 1299] e
    by (intro exI [of _ out]) (simp add: plus_sample_config_def lit_def)
qed

end
