(* ===== verification/Lookalikes.thy ===== *)
theory Lookalikes
  imports Prelude Complex_Main
begin

text \<open>How close two host names look: confusable characters and edit distance.\<close>

section \<open>Confusable characters\<close>

text \<open>
  Characters that look like Latin ones: src/src/domain/utils/confusables-data.ts and
  src/src/domain/utils/unicode-confusables.ts.  Strings are code units, as \<^verbatim>\<open>input[i]\<close>
  and \<^verbatim>\<open>String.fromCharCode\<close> are; a character outside the Basic Multilingual Plane
  is a surrogate pair.
\<close>

datatype confusable_category = Homograph | Zerowidth | Combining | Fullwidth_Form

record confusable_mapping =
  cm_char :: jstr
  cm_code_point :: nat
  cm_script :: string
  cm_lookalike :: jstr
  cm_category :: confusable_category

text \<open>The UTF-16 code units of a code point.\<close>

definition utf16 :: "nat \<Rightarrow> jstr" where
  "utf16 c = (if c < 0x10000 then [c]
     else [0xD800 + (c - 0x10000) div 0x400, 0xDC00 + (c - 0x10000) mod 0x400])"

definition homograph :: "string \<Rightarrow> nat \<Rightarrow> string \<Rightarrow> confusable_mapping" where
  "homograph script c look =
     \<lparr>cm_char = utf16 c, cm_code_point = c, cm_script = script, cm_lookalike = lit look,
      cm_category = Homograph\<rparr>"

definition invisible :: "confusable_category \<Rightarrow> nat \<Rightarrow> confusable_mapping" where
  "invisible cat c =
     \<lparr>cm_char = utf16 c, cm_code_point = c, cm_script = ''Common'', cm_lookalike = [], cm_category = cat\<rparr>"

definition fullwidth_mapping :: "nat \<Rightarrow> confusable_mapping" where
  "fullwidth_mapping i =
     \<lparr>cm_char = [0xFF01 + i], cm_code_point = 0xFF01 + i, cm_script = ''Fullwidth'',
      cm_lookalike = [0x21 + i], cm_category = Fullwidth_Form\<rparr>"

definition unicode_confusables_map :: "confusable_mapping list" where
  "unicode_confusables_map =
     map (\<lambda>(c, l). homograph ''Cyrillic'' c l)
       [(0x0430, ''a''), (0x0435, ''e''), (0x043E, ''o''), (0x0440, ''p''), (0x0441, ''c''),
        (0x0443, ''y''), (0x0445, ''x''), (0x0456, ''i''), (0x0458, ''j''), (0x0455, ''s'')]
   @ map (\<lambda>(c, l). homograph ''Greek'' c l)
       [(0x03B1, ''a''), (0x03B2, ''b''), (0x03B5, ''e''), (0x03BF, ''o''), (0x03C1, ''p''),
        (0x03C4, ''t''), (0x03C5, ''y''), (0x03C7, ''x''), (0x03B9, ''i''), (0x03BA, ''k'')]
   @ map (\<lambda>(c, l). homograph ''Armenian'' c l) [(0x0561, ''a''), (0x0565, ''e''), (0x0585, ''o'')]
   @ map (\<lambda>(c, l). homograph ''Hebrew'' c l) [(0x05D0, ''a''), (0x05E2, ''o'')]
   @ map fullwidth_mapping [0..<94]
   @ map (invisible Zerowidth) [0x200B, 0x200C, 0x200D, 0xFEFF, 0x00AD, 0x2060, 0x2061]
   @ [invisible Combining 0x034F]
   @ [homograph ''MathBold'' 0x1D41A ''a'', homograph ''MathBold'' 0x1D41E ''e'',
      (homograph ''MathBold'' 0x1D428 ''o'')\<lparr>cm_code_point := 0x1D424\<rparr>]
   @ map (\<lambda>(c, l). homograph ''Latin'' c l)
       [(0x00E0, ''a''), (0x00E1, ''a''), (0x00E2, ''a''), (0x00E3, ''a''), (0x00E4, ''a''),
        (0x00E5, ''a''), (0x00E8, ''e''), (0x00E9, ''e''), (0x00EA, ''e''), (0x00EB, ''e''),
        (0x00EC, ''i''), (0x00ED, ''i''), (0x00EE, ''i''), (0x00EF, ''i''), (0x00F2, ''o''),
        (0x00F3, ''o''), (0x00F4, ''o''), (0x00F5, ''o''), (0x00F6, ''o''), (0x00F9, ''u''),
        (0x00FA, ''u''), (0x00FB, ''u''), (0x00FC, ''u'')]
   @ map (\<lambda>(c, l). homograph ''Superscript'' c l)
       [(0x2070, ''0''), (0x00B9, ''1''), (0x00B2, ''2''), (0x00B3, ''3'')]"

text \<open>The map keeps the last entry of a character.\<close>

definition confusable_lookup :: "jstr \<Rightarrow> confusable_mapping option" where
  "confusable_lookup ch = map_of (rev (map (\<lambda>m. (cm_char m, m)) unicode_confusables_map)) ch"

definition script_ranges :: "(string \<times> nat \<times> nat) list" where
  "script_ranges =
     [(''Cyrillic'', 0x0400, 0x04FF), (''Greek'', 0x0370, 0x03FF), (''Armenian'', 0x0530, 0x058F),
      (''Hebrew'', 0x0590, 0x05FF), (''Arabic'', 0x0600, 0x06FF), (''Devanagari'', 0x0900, 0x097F),
      (''Fullwidth'', 0xFF00, 0xFFEF), (''MathBold'', 0x1D400, 0x1D7FF),
      (''LatinExtendedA'', 0x0100, 0x017F), (''LatinExtendedB'', 0x0180, 0x024F)]"

record confusable_evidence =
  ce_char :: jstr
  ce_code_point :: nat
  ce_script :: string
  ce_lookalike :: jstr
  ce_category :: confusable_category
  ce_index :: nat

definition zero_width :: "nat \<Rightarrow> bool" where
  "zero_width c \<longleftrightarrow> c \<in> {0x200B, 0x200C, 0x200D, 0xFEFF, 0x2060, 0x00AD}"

definition strip_zero_width :: "jstr \<Rightarrow> jstr" where
  "strip_zero_width s = filter (\<lambda>c. \<not> zero_width c) s"

definition confusable_at :: "nat \<Rightarrow> nat \<Rightarrow> confusable_evidence option" where
  "confusable_at i c = (case confusable_lookup [c] of
     Some m \<Rightarrow> Some \<lparr>ce_char = cm_char m, ce_code_point = cm_code_point m, ce_script = cm_script m,
                   ce_lookalike = cm_lookalike m, ce_category = cm_category m, ce_index = i\<rparr>
   | None \<Rightarrow> (case find (\<lambda>(script, start, stop). start \<le> c \<and> c \<le> stop) script_ranges of
       Some (script, _, _) \<Rightarrow> Some \<lparr>ce_char = [c], ce_code_point = c, ce_script = script,
                   ce_lookalike = [], ce_category = Homograph, ce_index = i\<rparr>
     | None \<Rightarrow> None))"

fun detect_from :: "nat \<Rightarrow> jstr \<Rightarrow> confusable_evidence list" where
  "detect_from i [] = []"
| "detect_from i (c # cs) =
     (case confusable_at i c of None \<Rightarrow> detect_from (Suc i) cs | Some e \<Rightarrow> e # detect_from (Suc i) cs)"

definition detect_confusables :: "jstr \<Rightarrow> confusable_evidence list" where
  "detect_confusables s = detect_from 0 s"

subsection \<open>What is detected\<close>

lemma detect_from_index: "e \<in> set (detect_from i s) \<Longrightarrow> i \<le> ce_index e \<and> ce_index e < i + length s
    \<and> confusable_at (ce_index e) (s ! (ce_index e - i)) = Some e"
proof (induction i s rule: detect_from.induct)
  case (2 i c cs)
  show ?case
  proof (cases "e \<in> set (detect_from (Suc i) cs)")
    case True
    then have h: "Suc i \<le> ce_index e \<and> ce_index e < Suc i + length cs
        \<and> confusable_at (ce_index e) (cs ! (ce_index e - Suc i)) = Some e"
      using "2.IH" by (cases "confusable_at i c") auto
    then have "ce_index e - i = Suc (ce_index e - Suc i)" by linarith
    then show ?thesis using h by auto
  next
    case False
    then have "confusable_at i c = Some e" using "2.prems" by (auto split: option.splits)
    moreover from this have "ce_index e = i" by (auto simp: confusable_at_def split: option.splits)
    ultimately show ?thesis by simp
  qed
qed simp

lemma detect_from_empty: "detect_from i s = [] \<longleftrightarrow> (\<forall>j < length s. confusable_at (i + j) (s ! j) = None)"
proof (induction i s rule: detect_from.induct)
  case (2 i c cs)
  show ?case using 2 by (auto simp: All_less_Suc2 split: option.splits)
qed simp

text \<open>
  Code units are looked up one by one, so a mapping outside the Basic Multilingual
  Plane is never found: surrogates belong to no script.
\<close>

text \<open>No mapped character and no script range meets the units below 128 or the surrogates.\<close>

definition plain_unit :: "nat \<Rightarrow> bool" where
  "plain_unit c \<longleftrightarrow> c < 128 \<or> (0xD800 \<le> c \<and> c \<le> 0xDFFF)"

lemma mapped_not_plain:
  "\<forall>m \<in> set unicode_confusables_map. case cm_char m of [c] \<Rightarrow> \<not> plain_unit c | _ \<Rightarrow> True"
  unfolding unicode_confusables_map_def set_append ball_Un set_map ball_simps
  by (simp add: homograph_def invisible_def fullwidth_mapping_def utf16_def plain_unit_def)

lemma confusable_lookup_char: "confusable_lookup ch = Some m \<Longrightarrow> m \<in> set unicode_confusables_map \<and> cm_char m = ch"
  by (auto simp: confusable_lookup_def dest!: map_of_SomeD)

lemma plain_unit_undetected:
  assumes "plain_unit c"
  shows "confusable_at i c = None"
proof -
  have "confusable_lookup [c] = None"
  proof (cases "confusable_lookup [c]")
    case (Some m)
    then show ?thesis using confusable_lookup_char [OF Some] bspec [OF mapped_not_plain, of m] assms by simp
  qed
  moreover have "find (\<lambda>(script, start, stop). start \<le> c \<and> c \<le> stop) script_ranges = None"
    using assms unfolding plain_unit_def script_ranges_def by (elim disjE) simp_all
  ultimately show ?thesis by (simp add: confusable_at_def)
qed

lemma plain_undetected: "\<forall>c \<in> set s. plain_unit c \<Longrightarrow> detect_confusables s = []"
  by (simp add: detect_confusables_def detect_from_empty plain_unit_undetected)

text \<open>So the mathematical bold letters of the map are never reported.\<close>

lemma math_bold_undetected: "0x1D400 \<le> c \<Longrightarrow> c \<le> 0x1D7FF \<Longrightarrow> detect_confusables (utf16 c) = []"
proof (rule plain_undetected)
  assume c: "0x1D400 \<le> c" "c \<le> 0x1D7FF"
  then have "(c - 0x10000) div 0x400 < 0x400" by (intro less_mult_imp_div_less) simp
  moreover have "(c - 0x10000) mod 0x400 < 0x400" by simp
  ultimately show "\<forall>u \<in> set (utf16 c). plain_unit u"
    using c by (auto simp: utf16_def plain_unit_def)
qed

section \<open>Edit distance\<close>

text \<open>
  The normalized edit distance: src/src/domain/utils/levenshtein.ts.  The two
  buffers of the program are lists; a row is filled from left to right exactly as
  the inner loop does.  What the routine promises is stated independently of it:
  the least number of single edits (insert, delete, replace a code unit anywhere)
  that turn one string into the other.
\<close>

definition max_similarity_length :: nat where "max_similarity_length = 100"

text \<open>
  \<^verbatim>\<open>computeRow\<close>: the buffer \<open>prev\<close> from index j-1 on, the characters of \<open>b\<close> from
  index j-1 on, and the value \<open>curr[j-1]\<close> just written.
\<close>

fun compute_row :: "nat \<Rightarrow> jstr \<Rightarrow> nat list \<Rightarrow> nat \<Rightarrow> nat list" where
  "compute_row a_char (b_char # bs) (diag # up # ps) left =
     (let v = (if a_char = b_char then diag else 1 + min up (min left diag))
      in v # compute_row a_char bs (up # ps) v)"
| "compute_row _ _ _ _ = []"

text \<open>The outer loop: row i starts with \<open>curr[0] = i\<close>.\<close>

fun fill_rows :: "jstr \<Rightarrow> jstr \<Rightarrow> nat \<Rightarrow> nat list \<Rightarrow> nat list" where
  "fill_rows [] b i prev = prev"
| "fill_rows (a_char # as) b i prev = fill_rows as b (Suc i) (i # compute_row a_char b prev i)"

definition levenshtein_similarity :: "jstr \<Rightarrow> jstr \<Rightarrow> string + rat" where
  "levenshtein_similarity a b =
     (if length a > max_similarity_length \<or> length b > max_similarity_length
      then Inl ''Input length exceeds hard limit (100)''
      else if a = [] then Inr (if b = [] then 1 else 0)
      else if b = [] then Inr 0
      else (let prev = [0..<Suc (length b)];
                distance = fill_rows a b 1 prev ! length b
            in Inr (1 - of_nat distance / of_nat (max (length a) (length b)))))"

subsection \<open>The specification: edit scripts\<close>

inductive edit :: "'a list \<Rightarrow> 'a list \<Rightarrow> bool" where
  insert: "edit (us @ vs) (us @ c # vs)"
| delete: "edit (us @ c # vs) (us @ vs)"
| replace: "edit (us @ c # vs) (us @ d # vs)"

definition edit_distance :: "'a list \<Rightarrow> 'a list \<Rightarrow> nat" where
  "edit_distance a b = (LEAST n. (edit ^^ n) a b)"

text \<open>An alignment of two strings with \<open>n\<close> differences.\<close>

inductive align :: "nat \<Rightarrow> 'a list \<Rightarrow> 'a list \<Rightarrow> bool" where
  nil: "align 0 [] []"
| keep: "align n xs ys \<Longrightarrow> align n (c # xs) (c # ys)"
| ins: "align n xs ys \<Longrightarrow> align (Suc n) xs (d # ys)"
| del: "align n xs ys \<Longrightarrow> align (Suc n) (c # xs) ys"
| rep: "align n xs ys \<Longrightarrow> align (Suc n) (c # xs) (d # ys)"

lemma align_refl: "align 0 xs xs"
  by (induction xs) (auto intro: align.intros)

lemma align_append: "align m a b \<Longrightarrow> align n c d \<Longrightarrow> align (m + n) (a @ c) (b @ d)"
  by (induction rule: align.induct) (auto intro: align.intros)

lemma align_split_nil: "align n xs vs \<Longrightarrow> us = [] \<Longrightarrow>
    \<exists>x1 x2 n1 n2. xs = x1 @ x2 \<and> n = n1 + n2 \<and> align n1 x1 us \<and> align n2 x2 vs"
  by (intro exI [of _ "[]"] exI [of _ xs] exI [of _ 0] exI [of _ n]) (simp add: align.nil)

lemma align_split:
  "align n xs (us @ vs) \<Longrightarrow> \<exists>x1 x2 n1 n2. xs = x1 @ x2 \<and> n = n1 + n2 \<and> align n1 x1 us \<and> align n2 x2 vs"
proof (induction n xs "us @ vs" arbitrary: us vs rule: align.induct)
  case nil
  then show ?case by (auto intro: align.nil)
next
  case (keep n xs ys c)
  show ?case
  proof (cases us)
    case Nil
    then show ?thesis using align.keep [OF keep.hyps(1), of c] keep.hyps(3)
      by (intro align_split_nil) simp_all
  next
    case (Cons u us')
    then obtain x1 x2 n1 n2 where x: "xs = x1 @ x2" "n = n1 + n2" "align n1 x1 us'" "align n2 x2 vs"
      using keep.hyps(2) [of us' vs] keep.hyps(3) by auto
    have "u = c" using Cons keep.hyps(3) by simp
    then have "align n1 (c # x1) us" using Cons align.keep [OF x(3)] by simp
    then show ?thesis using x append_Cons by metis
  qed
next
  case (ins n xs ys d)
  show ?case
  proof (cases us)
    case Nil
    then show ?thesis using align.ins [OF ins.hyps(1), of d] ins.hyps(3)
      by (intro align_split_nil) simp_all
  next
    case (Cons u us')
    then obtain x1 x2 n1 n2 where x: "xs = x1 @ x2" "n = n1 + n2" "align n1 x1 us'" "align n2 x2 vs"
      using ins.hyps(2) [of us' vs] ins.hyps(3) by auto
    then show ?thesis using Cons align.ins [OF x(3), of u] add_Suc by metis
  qed
next
  case (del n xs c)
  obtain x1 x2 n1 n2 where x: "xs = x1 @ x2" "n = n1 + n2" "align n1 x1 us" "align n2 x2 vs"
    using del.hyps(2) [OF refl] by auto
  then show ?case using align.del [OF x(3), of c] add_Suc append_Cons by metis
next
  case (rep n xs ys c d)
  show ?case
  proof (cases us)
    case Nil
    then show ?thesis using align.rep [OF rep.hyps(1), of c d] rep.hyps(3)
      by (intro align_split_nil) simp_all
  next
    case (Cons u us')
    then obtain x1 x2 n1 n2 where x: "xs = x1 @ x2" "n = n1 + n2" "align n1 x1 us'" "align n2 x2 vs"
      using rep.hyps(2) [of us' vs] rep.hyps(3) by auto
    then show ?thesis using Cons align.rep [OF x(3), of c u] add_Suc append_Cons by metis
  qed
qed

lemma align_length: "align n xs ys \<Longrightarrow> length xs \<le> n + length ys"
  by (induction rule: align.induct) auto

lemma align_empty: "align (length xs) xs []"
  by (induction xs) (auto intro: align.intros)

lemma align_single: "align (max 1 (length xs)) xs [d]"
proof (cases xs)
  case Nil
  then show ?thesis using align.ins [OF align.nil] by simp
next
  case (Cons x xs')
  then show ?thesis using align.rep [OF align_empty [of xs'], of x d] by (simp add: max_def)
qed

lemma align_one_delete: "align n xs [c] \<Longrightarrow> \<exists>m \<le> Suc n. align m xs []"
  using align_length [of n xs "[c]"] align_empty [of xs] by auto

lemma align_one_replace: "align n xs [c] \<Longrightarrow> \<exists>m \<le> Suc n. align m xs [d]"
proof -
  assume "align n xs [c]"
  then have "max 1 (length xs) \<le> Suc n" using align_length [of n xs "[c]"] by simp
  then show ?thesis using align_single [of xs d] by blast
qed

lemma align_split3:
  assumes "align n xs (us @ c # vs)"
  obtains x1 x2 x3 n1 n2 n3 where "xs = x1 @ x2 @ x3" "n = n1 + (n2 + n3)" "align n1 x1 us"
    "align n2 x2 [c]" "align n3 x3 vs"
proof -
  from assms obtain x1 y n1 k where 1: "xs = x1 @ y" "n = n1 + k" "align n1 x1 us" "align k y ([c] @ vs)"
    using align_split [of n xs us "c # vs"] by auto
  from align_split [OF 1(4)] obtain x2 x3 n2 n3 where "y = x2 @ x3" "k = n2 + n3" "align n2 x2 [c]"
      "align n3 x3 vs"
    by auto
  then show thesis using that [of x1 x2 x3 n1 n2 n3] 1 by simp
qed

lemma align_edit:
  assumes "align n xs ys" "edit ys zs"
  shows "\<exists>m \<le> Suc n. align m xs zs"
  using assms(2)
proof cases
  case (insert us vs c)
  then obtain x1 x2 n1 n2 where s: "xs = x1 @ x2" "n = n1 + n2" "align n1 x1 us" "align n2 x2 vs"
    using assms(1) align_split [of n xs us vs] unfolding insert(1) by auto
  have "align (Suc n2) x2 (c # vs)" by (rule align.ins) (rule s(4))
  then have "align (n1 + Suc n2) xs zs" unfolding s(1) insert(2) by (rule align_append [OF s(3)])
  then show ?thesis using s(2) by (intro exI [of _ "n1 + Suc n2"]) simp
next
  case (delete us c vs)
  then have "align n xs (us @ c # vs)" using assms(1) by simp
  then obtain x1 x2 x3 n1 n2 n3 where s: "xs = x1 @ x2 @ x3" "n = n1 + (n2 + n3)" "align n1 x1 us"
      "align n2 x2 [c]" "align n3 x3 vs"
    by (rule align_split3)
  obtain m where m: "m \<le> Suc n2" "align m x2 []" using align_one_delete [OF s(4)] by blast
  have "align (n1 + (m + n3)) (x1 @ x2 @ x3) (us @ [] @ vs)"
    using s m by (intro align_append) auto
  then show ?thesis using s m delete by (intro exI [of _ "n1 + (m + n3)"]) auto
next
  case (replace us c vs d)
  then have "align n xs (us @ c # vs)" using assms(1) by simp
  then obtain x1 x2 x3 n1 n2 n3 where s: "xs = x1 @ x2 @ x3" "n = n1 + (n2 + n3)" "align n1 x1 us"
      "align n2 x2 [c]" "align n3 x3 vs"
    by (rule align_split3)
  obtain m where m: "m \<le> Suc n2" "align m x2 [d]" using align_one_replace [OF s(4)] by blast
  have "align (n1 + (m + n3)) (x1 @ x2 @ x3) (us @ [d] @ vs)"
    using s m by (intro align_append) auto
  then show ?thesis using s m replace by (intro exI [of _ "n1 + (m + n3)"]) auto
qed

lemma edits_align: "(edit ^^ n) xs ys \<Longrightarrow> \<exists>m \<le> n. align m xs ys"
proof (induction n arbitrary: ys)
  case 0
  then show ?case using align_refl by auto
next
  case (Suc n)
  then obtain zs where zs: "(edit ^^ n) xs zs" "edit zs ys" by auto
  then obtain m where "m \<le> n" "align m xs zs" using Suc.IH by blast
  then show ?case using align_edit [OF _ zs(2)] by (meson Suc_le_mono le_trans)
qed

lemma edit_Cons: "edit xs ys \<Longrightarrow> edit (c # xs) (c # ys)"
  by (induction rule: edit.induct) (metis append_Cons edit.intros)+

lemma edits_Cons: "(edit ^^ n) xs ys \<Longrightarrow> (edit ^^ n) (c # xs) (c # ys)"
  by (induction n arbitrary: ys) (auto dest: edit_Cons)

lemma align_edits: "align n xs ys \<Longrightarrow> (edit ^^ n) xs ys"
proof (induction rule: align.induct)
  case (keep n xs ys c)
  show ?case by (rule edits_Cons) (rule keep.IH)
next
  case (ins n xs ys d)
  then show ?case using edit.insert [of "[]" ys d] by auto
next
  case (del n xs ys c)
  have "edit (c # ys) ys" using edit.delete [of "[]" c ys] by simp
  then show ?case using edits_Cons [OF del.IH, of c] by auto
next
  case (rep n xs ys c d)
  have "edit (c # ys) (d # ys)" using edit.replace [of "[]" c ys d] by simp
  then show ?case using edits_Cons [OF rep.IH, of c] by auto
qed simp

lemma edit_distance_unique:
  assumes "align n xs ys" "\<And>m. align m xs ys \<Longrightarrow> n \<le> m"
  shows "edit_distance xs ys = n"
  unfolding edit_distance_def
proof (rule Least_equality)
  show "(edit ^^ n) xs ys" using assms(1) by (rule align_edits)
  show "n \<le> k" if "(edit ^^ k) xs ys" for k
    using edits_align [OF that] assms(2) le_trans by blast
qed

lemma align_rev: "align n xs ys \<Longrightarrow> align n (rev xs) (rev ys)"
proof (induction rule: align.induct)
  case (keep n xs ys c)
  have "align (n + 0) (rev xs @ [c]) (rev ys @ [c])" by (intro align_append keep.IH align_refl)
  then show ?case by simp
next
  case (ins n xs ys d)
  have "align (n + 1) (rev xs @ []) (rev ys @ [d])"
    using align.ins [OF align.nil] by (intro align_append ins.IH) simp
  then show ?case by simp
next
  case (del n xs ys c)
  have "align (n + 1) (rev xs @ [c]) (rev ys @ [])"
    using align.del [OF align.nil] by (intro align_append del.IH) simp
  then show ?case by simp
next
  case (rep n xs ys c d)
  have "align (n + 1) (rev xs @ [c]) (rev ys @ [d])"
    using align.rep [OF align.nil] by (intro align_append rep.IH) simp
  then show ?case by simp
qed (simp add: align.nil)

subsection \<open>The recursive distance\<close>

fun lev :: "'a list \<Rightarrow> 'a list \<Rightarrow> nat" where
  "lev [] ys = length ys"
| "lev xs [] = length xs"
| "lev (x # xs) (y # ys) =
     (if x = y then lev xs ys else 1 + min (lev xs (y # ys)) (min (lev (x # xs) ys) (lev xs ys)))"

lemma lev_nil [simp]: "lev xs [] = length xs"
  by (cases xs) auto

lemma lev_align: "align (lev xs ys) xs ys"
proof (induction xs ys rule: lev.induct)
  case (1 ys)
  show ?case by (induction ys) (auto intro: align.intros)
next
  case (2 x xs)
  then show ?case using align_empty [of "x # xs"] by simp
next
  case (3 x xs y ys)
  then show ?case by (auto intro: align.intros simp: min_def)
qed

lemma align_sym: "align n xs ys \<Longrightarrow> align n ys xs"
  by (induction rule: align.induct) (auto intro: align.intros)

lemma edit_drop: "edit (c # ys) ys"
  using edit.delete [of "[]" c ys] by simp

inductive_cases align_headsE: "align n (x # xs) (y # ys)"

lemma align_keep_head:
  assumes "align n (c # xs) (c # ys)"
  shows "\<exists>m \<le> n. align m xs ys"
proof -
  have ins: ?thesis if "n = Suc k" "align k (c # xs) ys" for k
    using align_edit [OF align_sym [OF that(2)] edit_drop [of c xs]] align_sym that(1) by blast
  have del: ?thesis if "n = Suc k" "align k xs (c # ys)" for k
    using align_edit [OF that(2) edit_drop [of c ys]] that(1) by blast
  have rep: ?thesis if "n = Suc k" "align k xs ys" for k
    using that by (intro exI [of _ k]) simp
  show ?thesis
    using assms by (rule align_headsE) (use ins del rep in blast)+
qed

lemma lev_least: "align n xs ys \<Longrightarrow> lev xs ys \<le> n"
proof (induction xs ys arbitrary: n rule: lev.induct)
  case (1 ys)
  then show ?case using align_length [OF align_sym] by fastforce
next
  case (2 x xs)
  then show ?case using align_length by fastforce
next
  case (3 x xs y ys)
  show ?case
  proof (cases "x = y")
    case True
    then show ?thesis using 3 align_keep_head by (metis lev.simps(3) le_trans)
  next
    case False
    from "3.prems" show ?thesis
      by (cases rule: align_headsE) (use False "3.IH" in \<open>force simp: min_le_iff_disj\<close>)+
  qed
qed

lemma lev_edit_distance: "edit_distance xs ys = lev xs ys"
  by (rule edit_distance_unique) (auto intro: lev_align lev_least)

lemma lev_rev: "lev (rev xs) (rev ys) = lev xs ys"
proof (rule antisym)
  show "lev (rev xs) (rev ys) \<le> lev xs ys" using align_rev [OF lev_align] by (rule lev_least)
  show "lev xs ys \<le> lev (rev xs) (rev ys)"
    using lev_least [OF align_rev [OF lev_align [of "rev xs" "rev ys"]]] by simp
qed

subsection \<open>The buffers hold the distances of prefixes\<close>

definition prefix_row :: "jstr \<Rightarrow> jstr \<Rightarrow> nat list" where
  "prefix_row as b = map (\<lambda>j. lev (rev as) (rev (take j b))) [0..<Suc (length b)]"

lemma compute_row_prefix:
  "compute_row c b' (map (\<lambda>j. lev (rev as) (rev (take j (b0 @ b')))) [length b0..<Suc (length b0 + length b')])
       (lev (rev (as @ [c])) (rev b0))
   = map (\<lambda>j. lev (rev (as @ [c])) (rev (take j (b0 @ b')))) [Suc (length b0)..<Suc (length b0 + length b')]"
proof (induction b' arbitrary: b0)
  case Nil
  then show ?case by simp
next
  case (Cons d bs)
  let ?n = "length b0" and ?m = "Suc (length b0 + length (d # bs))"
  obtain f g where f: "f = (\<lambda>j. lev (rev as) (rev (take j (b0 @ d # bs))))"
    and g: "g = (\<lambda>j. lev (rev (as @ [c])) (rev (take j (b0 @ d # bs))))" by simp
  have upt: "[?n..<?m] = ?n # Suc ?n # [Suc (Suc ?n)..<?m]" "[Suc ?n..<?m] = Suc ?n # [Suc (Suc ?n)..<?m]"
    by (simp_all add: upt_conv_Cons del: upt_Suc)
  have IH: "compute_row c bs (map f [Suc ?n..<?m]) (g (Suc ?n)) = map g [Suc (Suc ?n)..<?m]"
    using Cons.IH [of "b0 @ [d]"] by (simp add: f g del: upt_Suc)
  have v: "(if c = d then f ?n else 1 + min (f (Suc ?n)) (min (g ?n) (f ?n))) = g (Suc ?n)"
    by (simp add: f g)
  note [simp del] = upt_Suc
  have "compute_row c (d # bs) (map f [?n..<?m]) (g ?n) = g (Suc ?n) # compute_row c bs (map f [Suc ?n..<?m]) (g (Suc ?n))"
    unfolding upt list.map compute_row.simps Let_def v ..
  also have "\<dots> = map g [Suc ?n..<?m]" unfolding IH by (simp only: upt(2) list.map)
  finally show ?case by (simp add: f g del: upt_Suc)
qed

lemma prefix_row_step:
  "Suc (length as) # compute_row c b (prefix_row as b) (Suc (length as)) = prefix_row (as @ [c]) b"
  using compute_row_prefix [of c b as "[]"] by (simp add: prefix_row_def upt_conv_Cons del: upt_Suc)

lemma fill_rows_prefix:
  "fill_rows as b (Suc (length as0)) (prefix_row as0 b) = prefix_row (as0 @ as) b"
proof (induction as arbitrary: as0)
  case (Cons c as)
  then show ?case using Cons.IH [of "as0 @ [c]"] prefix_row_step [of as0 c b] by simp
qed simp

lemma prefix_row_nil: "prefix_row [] b = [0..<Suc (length b)]"
  by (simp add: prefix_row_def map_nth [symmetric] del: upt_Suc) (auto intro: map_idI simp: min_def)

lemma fill_rows_distance: "fill_rows a b (Suc 0) [0..<Suc (length b)] ! length b = edit_distance a b"
proof -
  have "fill_rows a b (Suc 0) [0..<Suc (length b)] = prefix_row a b"
    using fill_rows_prefix [of a b "[]"] unfolding prefix_row_nil by simp
  then show ?thesis by (simp add: prefix_row_def lev_rev lev_edit_distance nth_append)
qed

lemma edit_distance_le: "edit_distance a b \<le> max (length a) (length b)"
proof -
  have "lev a b \<le> max (length a) (length b)" by (induction a b rule: lev.induct) (auto simp: min_def)
  then show ?thesis by (simp add: lev_edit_distance)
qed

lemma edit_distance_zero: "edit_distance a b = 0 \<longleftrightarrow> a = b"
proof
  assume "edit_distance a b = 0"
  then have "align 0 a b" using lev_align [of a b] by (simp add: lev_edit_distance)
  then have "(edit ^^ 0) a b" by (rule align_edits)
  then show "a = b" by simp
next
  assume "a = b"
  then show "edit_distance a b = 0" using lev_least [OF align_refl [of a]] by (simp add: lev_edit_distance)
qed

lemma levenshtein_similarity_eq:
  assumes "length a \<le> 100" "length b \<le> 100" "a \<noteq> [] \<or> b \<noteq> []"
  shows "levenshtein_similarity a b
    = Inr (1 - of_nat (edit_distance a b) / of_nat (max (length a) (length b)))"
proof (cases "a = [] \<or> b = []")
  case True
  then show ?thesis using assms
    by (cases "a = []") (auto simp: levenshtein_similarity_def max_similarity_length_def lev_edit_distance)
next
  case False
  then show ?thesis using assms
    by (simp add: levenshtein_similarity_def max_similarity_length_def fill_rows_distance Let_def del: upt_Suc)
qed

end
