(* ===== verification/Domain_Pipeline.thy ===== *)
theory Domain_Pipeline
  imports Origin Lookalikes Js_Number
begin

text \<open>
  The three steps that judge a page's domain and the orchestrator that runs them:
  src/src/domain/services/aitm/steps/, domain-validation-pipeline.ts,
  pipeline-orchestrator.ts, with the signal arithmetic of types.ts and the host
  normalization of src/src/domain/utils/dns-normalize.ts.  Scores, confidences and
  similarities are exact rationals; how a number is printed is a parameter.
\<close>

subsection \<open>Results\<close>

datatype domain_risk = Domain_Low | Domain_Medium | Domain_High

record domain_validation_result =
  dv_valid :: bool
  dv_strategy :: string
  dv_risk :: domain_risk
  dv_confidence :: rat
  dv_reason :: jstr
  dv_evidence :: "confusable_evidence list option"
  dv_distance :: "int option"
  dv_metadata :: "(jstr option \<times> jstr option) option"

definition step_result :: "string \<Rightarrow> bool \<Rightarrow> domain_risk \<Rightarrow> rat \<Rightarrow> jstr \<Rightarrow> domain_validation_result" where
  "step_result name valid risk confidence reason =
     \<lparr>dv_valid = valid, dv_strategy = name, dv_risk = risk, dv_confidence = confidence,
      dv_reason = reason, dv_evidence = None, dv_distance = None, dv_metadata = None\<rparr>"

definition quoted :: "jstr \<Rightarrow> jstr" where
  "quoted s = [34] @ s @ [34]"

text \<open>A step of the pipeline: a name and what it answers, or the message it throws.\<close>

record validation_step =
  vs_name :: string
  vs_execute :: "jstr \<Rightarrow> jstr \<Rightarrow> jstr + domain_validation_result"

subsection \<open>Exact match\<close>

definition exact_match_execute :: "web \<Rightarrow> jstr \<Rightarrow> jstr \<Rightarrow> domain_validation_result" where
  "exact_match_execute W current expected =
     (case compare_absolute_origins W expected current of
        O_Equal c \<Rightarrow> step_result ''ExactMatch'' True Domain_Low 1
          (lit ''Origin '' @ quoted current @ lit '' exactly matches expected origin '' @ quoted expected)
      | O_Differ e a reason \<Rightarrow>
          (step_result ''ExactMatch'' False Domain_High 1
             (lit ''Origin '' @ quoted current @ lit '' does NOT exactly match expected '' @ quoted expected
              @ [32, 8212, 32] @ reason))
            \<lparr>dv_metadata := Some (map_option serialized e, map_option serialized a)\<rparr>)"

definition exact_match_step :: "web \<Rightarrow> validation_step" where
  "exact_match_step W =
     \<lparr>vs_name = ''ExactMatch'', vs_execute = (\<lambda>current expected. Inr (exact_match_execute W current expected))\<rparr>"

subsection \<open>The host name of an origin, without Punycode\<close>

definition ascii_letter :: "nat \<Rightarrow> bool" where
  "ascii_letter c \<longleftrightarrow> (65 \<le> c \<and> c \<le> 90) \<or> (97 \<le> c \<and> c \<le> 122)"

definition origin_scheme_char :: "nat \<Rightarrow> bool" where
  "origin_scheme_char c \<longleftrightarrow> ascii_letter c \<or> is_digit c \<or> c \<in> set (lit ''+.-'')"

text \<open>\<^verbatim>\<open>/^[a-zA-Z][a-zA-Z0-9+.-]*:\/\/([^:/?#]+)(?::\d+)?/\<close>, first group.\<close>

definition extract_hostname_from_origin :: "jstr \<Rightarrow> jstr option" where
  "extract_hostname_from_origin s = (case s of
     [] \<Rightarrow> None
   | c # cs \<Rightarrow>
       if \<not> ascii_letter c then None
       else (let tail = dropWhile origin_scheme_char cs in
         if \<not> starts_with tail (lit ''://'') then None
         else (let host = takeWhile (\<lambda>u. u \<notin> set (lit '':/?#'')) (drop 3 tail) in
               if host = [] then None else Some host)))"

subsection \<open>Confusable characters\<close>

fun dedupe :: "'a list \<Rightarrow> 'a list" where
  "dedupe [] = []"
| "dedupe (x # xs) = x # dedupe (filter (\<lambda>y. y \<noteq> x) xs)"

fun join_lit :: "jstr \<Rightarrow> jstr list \<Rightarrow> jstr" where
  "join_lit sep [] = []"
| "join_lit sep [x] = x"
| "join_lit sep (x # y # xs) = x @ sep @ join_lit sep (y # xs)"

definition confusable_execute :: "jstr \<Rightarrow> jstr \<Rightarrow> domain_validation_result" where
  "confusable_execute current expected = (case extract_hostname_from_origin current of
     None \<Rightarrow> step_result ''ConfusableDetection'' False Domain_High 1
               (lit ''Invalid origin format for confusable detection'')
   | Some host \<Rightarrow>
       (let clean = strip_zero_width host; evidence = detect_confusables clean in
        if evidence = [] then
          (step_result ''ConfusableDetection'' True Domain_Low 1
             (lit ''No confusable characters detected in '' @ quoted clean))\<lparr>dv_evidence := Some []\<rparr>
        else
          (let scripts = dedupe (map ce_script evidence);
               high = (''Cyrillic'' \<in> set scripts \<or> ''Arabic'' \<in> set scripts \<or> ''Fullwidth'' \<in> set scripts)
           in (step_result ''ConfusableDetection'' False (if high then Domain_High else Domain_Medium) (95/100)
                (lit ''Detected '' @ dec_nat (length evidence) @ lit '' confusable character(s) from scripts: ''
                 @ join_lit (lit '', '') (map lit scripts)))
              \<lparr>dv_evidence := Some evidence\<rparr>)))"

definition confusable_step :: validation_step where
  "confusable_step =
     \<lparr>vs_name = ''ConfusableDetection'', vs_execute = (\<lambda>current expected. Inr (confusable_execute current expected))\<rparr>"

subsection \<open>Typosquatting\<close>

definition common_tlds :: "jstr list" where
  "common_tlds = map lit [''.com'', ''.org'', ''.net'', ''.edu'', ''.gov'', ''.co'', ''.io'', ''.info'',
     ''.biz'', ''.xyz'']"

definition dns_normalize :: "web \<Rightarrow> jstr \<Rightarrow> jstr" where
  "dns_normalize W h =
     (let s = trim (to_lower W h) in if s \<noteq> [] \<and> last s = 46 then butlast s else s)"

definition strip_tld :: "web \<Rightarrow> jstr \<Rightarrow> jstr" where
  "strip_tld W h =
     (let s = dns_normalize W h in
      case find (\<lambda>tld. ends_with s tld) common_tlds of
        None \<Rightarrow> s | Some tld \<Rightarrow> take (length s - length tld) s)"

text \<open>The last piece of \<^verbatim>\<open>split(".")\<close>.\<close>

definition last_label :: "jstr \<Rightarrow> jstr" where
  "last_label s = rev (takeWhile (\<lambda>c. c \<noteq> 46) (rev s))"

definition extract_registrable_domain :: "web \<Rightarrow> jstr \<Rightarrow> jstr" where
  "extract_registrable_domain W h =
     (let l = last_label (strip_tld W h) in if l \<noteq> [] then l else dns_normalize W h)"

definition typosquatting_execute ::
    "web \<Rightarrow> number_format \<Rightarrow> rat \<Rightarrow> jstr \<Rightarrow> jstr \<Rightarrow> jstr + domain_validation_result" where
  "typosquatting_execute W N threshold current expected =
     (case (extract_hostname_from_origin current, extract_hostname_from_origin expected) of
        (Some current_host, Some expected_host) \<Rightarrow>
          (let c = extract_registrable_domain W current_host;
               e = extract_registrable_domain W expected_host in
           if c = e then
             Inr ((step_result ''LevenshteinTypoSquatting'' True Domain_Low 1
                (lit ''Registrable domain '' @ quoted c @ lit '' exactly matches '' @ quoted e))
                \<lparr>dv_distance := Some 0\<rparr>)
           else (case levenshtein_similarity c e of
               Inl m \<Rightarrow> Inl (lit m)
             | Inr similarity \<Rightarrow>
                 (let distance = (if length c > 0 \<and> length e > 0
                        then js_round ((1 - similarity) * of_nat (max (length c) (length e))) else 0)
                  in if similarity \<ge> threshold then
                    Inr ((step_result ''LevenshteinTypoSquatting'' False Domain_High similarity
                      (lit ''Registrable domain '' @ quoted c @ lit '' is similar to '' @ quoted e
                       @ lit '' (similarity: '' @ nf_fixed N similarity 3 @ lit '', threshold: ''
                       @ nf_text N threshold @ lit '')''))\<lparr>dv_distance := Some distance\<rparr>)
                  else
                    Inr ((step_result ''LevenshteinTypoSquatting'' True Domain_Low similarity
                      (lit ''Registrable domain '' @ quoted c @ lit '' is sufficiently different from ''
                       @ quoted e @ lit '' (similarity: '' @ nf_fixed N similarity 3 @ lit '')''))
                       \<lparr>dv_distance := Some distance\<rparr>))))
      | _ \<Rightarrow> Inr (step_result ''LevenshteinTypoSquatting'' False Domain_High 1
               (lit ''Invalid origin format for typosquatting detection'')))"

definition typosquatting_threshold :: rat where "typosquatting_threshold = 85/100"

definition typosquatting_step :: "web \<Rightarrow> number_format \<Rightarrow> rat \<Rightarrow> validation_step" where
  "typosquatting_step W N threshold =
     \<lparr>vs_name = ''LevenshteinTypoSquatting'', vs_execute = typosquatting_execute W N threshold\<rparr>"

subsection \<open>Signals and the risk score\<close>

datatype signal_type = Sig_Hostname | Sig_Content_Hash | Sig_Timing | Sig_Dom_Integrity
  | Sig_Cookie_Security | Sig_Integrity_Score | Sig_Fingerprint_Anomaly

datatype signal_status = Sig_Pass | Sig_Warn | Sig_Fail

record detection_signal =
  ds_type :: signal_type
  ds_status :: signal_status
  ds_score :: rat
  ds_confidence :: rat
  ds_weight :: rat
  ds_details :: jstr

datatype aitm_recommendation = Aitm_Allow | Aitm_Warn | Aitm_Block

record aitm_result =
  ai_risk_score :: int
  ai_signals :: "detection_signal list"
  ai_recommendation :: aitm_recommendation
  ai_evaluated_at :: int

fun signal_weight :: "signal_type \<Rightarrow> rat" where
  "signal_weight Sig_Hostname = 25/100"
| "signal_weight Sig_Content_Hash = 30/100"
| "signal_weight Sig_Timing = 15/100"
| "signal_weight Sig_Dom_Integrity = 20/100"
| "signal_weight Sig_Cookie_Security = 10/100"
| "signal_weight Sig_Integrity_Score = 25/100"
| "signal_weight Sig_Fingerprint_Anomaly = 15/100"

definition block_threshold :: int where "block_threshold = 70"
definition warn_threshold :: int where "warn_threshold = 40"

definition compute_risk_score :: "detection_signal list \<Rightarrow> int" where
  "compute_risk_score signals =
     (let totals = foldl (\<lambda>(ws, tw) s. (ws + ds_score s * signal_weight (ds_type s), tw + signal_weight (ds_type s)))
                       (0, 0) signals
      in if snd totals > 0 then js_round (fst totals / snd totals) else 0)"

definition get_recommendation :: "int \<Rightarrow> aitm_recommendation" where
  "get_recommendation score =
     (if score \<ge> block_threshold then Aitm_Block else if score \<ge> warn_threshold then Aitm_Warn else Aitm_Allow)"

definition all_signal_types :: "signal_type list" where
  "all_signal_types = [Sig_Hostname, Sig_Content_Hash, Sig_Timing, Sig_Dom_Integrity,
     Sig_Cookie_Security, Sig_Integrity_Score, Sig_Fingerprint_Anomaly]"

definition validate_weights :: bool where
  "validate_weights \<longleftrightarrow> \<bar>sum_list (map signal_weight all_signal_types) - 1\<bar> < 1/1000"

subsection \<open>The orchestrator\<close>

text \<open>
  What the timers do is a parameter: which phases answer too late (the race of
  \<^verbatim>\<open>executeWithTimeout\<close>), and, if the timer of the whole run fired first, how many
  results are in the array when the verdict is read (the steps keep running and
  pushing after that timer).
\<close>

record pipeline_timing =
  pt_late :: "nat \<Rightarrow> bool"
  pt_cut :: "nat option"

record pipeline_config =
  pc_phase_timeout :: int
  pc_total_timeout :: int
  pc_evaluate :: "(jstr + aitm_result) option"

definition default_phase_timeout_ms :: int where "default_phase_timeout_ms = 50"
definition default_total_timeout_ms :: int where "default_total_timeout_ms = 200"

definition timed_out_result :: "string \<Rightarrow> int \<Rightarrow> domain_validation_result" where
  "timed_out_result name ms =
     step_result name False Domain_Medium 0
       (lit ''Phase '' @ quoted (lit name) @ lit '' timed out after '' @ dec_int ms @ lit ''ms'')"

definition create_error_result :: "string \<Rightarrow> jstr \<Rightarrow> domain_validation_result" where
  "create_error_result name message =
     step_result name False Domain_Medium 0
       (lit ''Phase '' @ quoted (lit name) @ lit '' failed: '' @ message)"

definition should_short_circuit :: "domain_validation_result \<Rightarrow> bool" where
  "should_short_circuit r \<longleftrightarrow>
     (dv_strategy r = ''ExactMatch'' \<and> dv_valid r) \<or> (dv_strategy r = ''ExactMatch'' \<and> \<not> dv_valid r)
     \<or> (dv_strategy r = ''ConfusableDetection'' \<and> dv_risk r = Domain_High)"

fun run_steps :: "(nat \<Rightarrow> bool) \<Rightarrow> int \<Rightarrow> jstr \<Rightarrow> jstr \<Rightarrow> nat \<Rightarrow> validation_step list
    \<Rightarrow> domain_validation_result list" where
  "run_steps late ms current expected i [] = []"
| "run_steps late ms current expected i (s # ss) =
     (if late i then timed_out_result (vs_name s) ms # run_steps late ms current expected (Suc i) ss
      else (case vs_execute s current expected of
          Inl e \<Rightarrow> create_error_result (vs_name s) e # run_steps late ms current expected (Suc i) ss
        | Inr r \<Rightarrow> r # (if should_short_circuit r then []
                       else run_steps late ms current expected (Suc i) ss)))"

definition execute_pipeline_steps ::
    "pipeline_timing \<Rightarrow> int \<Rightarrow> validation_step list \<Rightarrow> jstr \<Rightarrow> jstr \<Rightarrow> domain_validation_result list" where
  "execute_pipeline_steps T ms steps current expected =
     (let results = run_steps (pt_late T) ms current expected 0 steps in
      case pt_cut T of None \<Rightarrow> results | Some n \<Rightarrow> take n results)"

definition map_strategy_to_signal_type :: "string \<Rightarrow> signal_type" where
  "map_strategy_to_signal_type strategy =
     (if strategy = ''ExactMatch'' then Sig_Hostname
      else if strategy = ''ConfusableDetection'' then Sig_Content_Hash
      else if strategy = ''LevenshteinTypoSquatting'' then Sig_Timing
      else Sig_Cookie_Security)"

definition compute_signal_status :: "domain_validation_result \<Rightarrow> signal_status" where
  "compute_signal_status r =
     (if dv_valid r then Sig_Pass else if dv_risk r = Domain_High then Sig_Fail else Sig_Warn)"

definition compute_signal_score :: "domain_validation_result \<Rightarrow> rat" where
  "compute_signal_score r =
     (if dv_valid r then 0 else if dv_risk r = Domain_High then 100 else 50)"

definition build_domain_signals :: "domain_validation_result list \<Rightarrow> detection_signal list" where
  "build_domain_signals rs = map (\<lambda>r.
     let t = map_strategy_to_signal_type (dv_strategy r) in
     \<lparr>ds_type = t, ds_status = compute_signal_status r, ds_score = compute_signal_score r,
      ds_confidence = dv_confidence r, ds_weight = signal_weight t, ds_details = dv_reason r\<rparr>) rs"

definition compute_domain_risk :: "domain_validation_result list \<Rightarrow> domain_risk" where
  "compute_domain_risk rs =
     (if \<exists>r \<in> set rs. dv_risk r = Domain_High then Domain_High
      else if \<exists>r \<in> set rs. dv_risk r = Domain_Medium then Domain_Medium else Domain_Low)"

definition compute_integrity_risk_level :: "aitm_result option \<Rightarrow> domain_risk" where
  "compute_integrity_risk_level res =
     (let risk = (case res of None \<Rightarrow> 0 | Some r \<Rightarrow> ai_risk_score r) in
      if risk \<ge> block_threshold then Domain_High
      else if risk \<ge> warn_threshold then Domain_Medium else Domain_Low)"

definition compute_overall_risk :: "domain_validation_result list \<Rightarrow> aitm_result option \<Rightarrow> domain_risk" where
  "compute_overall_risk rs res =
     (let d = compute_domain_risk rs; i = compute_integrity_risk_level res in
      if d = Domain_High \<or> i = Domain_High then Domain_High
      else if d = Domain_Medium \<or> i = Domain_Medium then Domain_Medium else Domain_Low)"

record pipeline_result =
  pr_steps :: "domain_validation_result list"
  pr_overall_risk :: domain_risk
  pr_valid :: bool
  pr_total_time :: rat
  pr_integrity :: "aitm_result option"

text \<open>
  \<^verbatim>\<open>runIntegrityEvaluation\<close>: None without an evaluator or a current fingerprint, and
  when the evaluator throws.
\<close>

definition run_integrity_evaluation :: "pipeline_config \<Rightarrow> aitm_result option" where
  "run_integrity_evaluation C = (case pc_evaluate C of
     None \<Rightarrow> None | Some (Inl e) \<Rightarrow> None | Some (Inr r) \<Rightarrow> Some r)"

definition validate_domain ::
    "pipeline_timing \<Rightarrow> pipeline_config \<Rightarrow> validation_step list \<Rightarrow> rat \<Rightarrow> jstr \<Rightarrow> jstr \<Rightarrow> pipeline_result" where
  "validate_domain T C steps elapsed current expected =
     (let results = execute_pipeline_steps T (pc_phase_timeout C) steps current expected;
          integrity = run_integrity_evaluation C;
          combined = (case integrity of None \<Rightarrow> 0
            | Some r \<Rightarrow> compute_risk_score (build_domain_signals results @ ai_signals r));
          valid = (results \<noteq> [] \<and> (\<forall>r \<in> set results. dv_valid r))
      in \<lparr>pr_steps = results, pr_overall_risk = compute_overall_risk results integrity,
          pr_valid = (valid \<and> combined < block_threshold), pr_total_time = elapsed,
          pr_integrity = integrity\<rparr>)"

text \<open>The pipeline of the service worker: \<^verbatim>\<open>createPipeline()\<close> of src/src/background/auditor.ts.\<close>

definition create_pipeline :: "web \<Rightarrow> number_format \<Rightarrow> validation_step list" where
  "create_pipeline W N = [exact_match_step W, confusable_step, typosquatting_step W N typosquatting_threshold]"

subsection \<open>What a verdict rests on\<close>

lemma exact_match_valid:
  "dv_valid (exact_match_execute W current expected)
     \<longleftrightarrow> (\<exists>c. compare_absolute_origins W expected current = O_Equal c)"
  by (auto simp: exact_match_execute_def step_result_def split: origin_comparison.splits)

lemma exact_match_strategy: "dv_strategy (exact_match_execute W current expected) = ''ExactMatch''"
  by (auto simp: exact_match_execute_def step_result_def split: origin_comparison.splits)

lemma timed_out_invalid [simp]: "\<not> dv_valid (timed_out_result name ms)"
  by (simp add: timed_out_result_def step_result_def)

lemma create_error_invalid [simp]: "\<not> dv_valid (create_error_result name e)"
  by (simp add: create_error_result_def step_result_def)

text \<open>
  The first phase decides: on time, it is the only one that runs; late, it leaves
  an invalid result behind.
\<close>

lemma run_create_pipeline:
  "run_steps late ms current expected 0 (create_pipeline W N)
   = (if late 0 then timed_out_result ''ExactMatch'' ms
          # run_steps late ms current expected 1 [confusable_step, typosquatting_step W N typosquatting_threshold]
      else [exact_match_execute W current expected])"
proof -
  have "should_short_circuit (exact_match_execute W current expected)"
    by (auto simp: should_short_circuit_def exact_match_strategy)
  then show ?thesis by (simp add: create_pipeline_def exact_match_step_def)
qed

lemma pipeline_valid_only_equal:
  assumes "pr_valid (validate_domain T C (create_pipeline W N) elapsed current expected)"
  shows "\<exists>c. compare_absolute_origins W expected current = O_Equal c"
proof -
  let ?rs = "run_steps (pt_late T) (pc_phase_timeout C) current expected 0 (create_pipeline W N)"
  let ?got = "execute_pipeline_steps T (pc_phase_timeout C) (create_pipeline W N) current expected"
  have got: "?got \<noteq> []" "\<forall>r \<in> set ?got. dv_valid r" using assms by (auto simp: validate_domain_def Let_def)
  have "?got = ?rs \<or> (\<exists>n. ?got = take n ?rs)" by (cases "pt_cut T") (auto simp: execute_pipeline_steps_def Let_def)
  moreover obtain r rs where rs: "?rs = r # rs" using run_create_pipeline by (metis (full_types))
  ultimately have "hd ?got = r" using got(1) hd_take by (metis hd_take bot_nat_0.not_eq_extremum list.sel(1) take_eq_Nil)
  then have "dv_valid r" using got by (metis list.set_sel(1))
  then have "r = exact_match_execute W current expected"
    using rs run_create_pipeline [of "pt_late T" "pc_phase_timeout C" current expected W N] by (auto split: if_splits)
  then show ?thesis using \<open>dv_valid r\<close> exact_match_valid by simp
qed

lemma pipeline_accepts_equal:
  assumes "compare_absolute_origins W expected current = O_Equal c"
    and "\<not> pt_late T 0" "pt_cut T = None" "pc_evaluate C = None"
  shows "pr_valid (validate_domain T C (create_pipeline W N) elapsed current expected)"
  using assms exact_match_valid [of W current expected]
  by (simp add: validate_domain_def execute_pipeline_steps_def run_create_pipeline run_integrity_evaluation_def
      block_threshold_def Let_def)

text \<open>An address that does not parse is judged high risk by the first phase.\<close>

lemma unusable_high_risk:
  assumes "parse_absolute_origin W h = Inl r" "\<not> pt_late T 0" "pt_cut T = None"
  shows "pr_overall_risk (validate_domain T C (create_pipeline W N) elapsed expected h) = Domain_High
    \<and> pr_overall_risk (validate_domain T C (create_pipeline W N) elapsed h expected) = Domain_High"
  using assms
  by (auto simp: validate_domain_def execute_pipeline_steps_def run_create_pipeline Let_def
      exact_match_execute_def compare_absolute_origins_def step_result_def
      compute_overall_risk_def compute_domain_risk_def split: sum.splits)

subsection \<open>The risk score\<close>

lemma signal_weight_pos: "0 < signal_weight t"
  by (cases t) auto

lemma compute_risk_score_sums:
  "foldl (\<lambda>(ws, tw) s. (ws + ds_score s * signal_weight (ds_type s), tw + signal_weight (ds_type s))) (a, b) ss
   = (a + sum_list (map (\<lambda>s. ds_score s * signal_weight (ds_type s)) ss),
      b + sum_list (map (\<lambda>s. signal_weight (ds_type s)) ss))"
  by (induction ss arbitrary: a b) (auto simp: algebra_simps)

lemma weighted_mean_bounds:
  assumes "\<forall>s \<in> set ss. lo \<le> ds_score s \<and> ds_score s \<le> hi"
  shows "lo * sum_list (map (\<lambda>s. signal_weight (ds_type s)) ss)
      \<le> sum_list (map (\<lambda>s. ds_score s * signal_weight (ds_type s)) ss)
    \<and> sum_list (map (\<lambda>s. ds_score s * signal_weight (ds_type s)) ss)
      \<le> hi * sum_list (map (\<lambda>s. signal_weight (ds_type s)) ss)"
  using assms
proof (induction ss)
  case (Cons s ss)
  have "lo * signal_weight (ds_type s) \<le> ds_score s * signal_weight (ds_type s)"
    "ds_score s * signal_weight (ds_type s) \<le> hi * signal_weight (ds_type s)"
    using Cons.prems signal_weight_pos [of "ds_type s"] by (auto intro!: mult_right_mono)
  then show ?case using Cons by (auto simp: algebra_simps)
qed simp

text \<open>The score is a weighted mean: it lies between the scores of the signals.\<close>

lemma compute_risk_score_bounds:
  assumes "\<forall>s \<in> set ss. of_int lo \<le> ds_score s \<and> ds_score s \<le> of_int hi" "ss \<noteq> []"
  shows "lo \<le> compute_risk_score ss \<and> compute_risk_score ss \<le> hi"
proof -
  let ?w = "sum_list (map (\<lambda>s. signal_weight (ds_type s)) ss)"
  let ?m = "sum_list (map (\<lambda>s. ds_score s * signal_weight (ds_type s)) ss)"
  have nonneg: "0 \<le> sum_list (map (\<lambda>s. signal_weight (ds_type s)) xs)" for xs
    using signal_weight_pos by (intro sum_list_nonneg) (auto intro: less_imp_le)
  have w: "0 < ?w" using assms(2) signal_weight_pos nonneg by (cases ss) (auto intro: add_pos_nonneg)
  have "of_int lo \<le> ?m / ?w" "?m / ?w \<le> of_int hi"
    using weighted_mean_bounds [OF assms(1)] w by (auto simp: pos_le_divide_eq pos_divide_le_eq)
  then show ?thesis using w js_round_bounds
    by (simp add: compute_risk_score_def compute_risk_score_sums Let_def)
qed

lemma weights_not_normalized: "\<not> validate_weights"
  by (simp add: validate_weights_def all_signal_types_def)

end
