(* ===== verification/Trust_Store.thy ===== *)
theory Trust_Store
  imports Domain_Pipeline
begin

text \<open>
  The trust decisions the extension keeps per domain:
  src/src/infrastructure/repositories/chrome-storage-trust-store.ts, an
  implementation of the port ITrustStoreRepository
  (src/src/domain/repositories/index.ts).  chrome.storage holds one array of
  entries; every operation reads it, changes its copy and writes it back, and is
  atomic here.  Errors are the messages thrown.
\<close>

datatype trust_level = Trust_Verified | Trust_Trusted | Trust_Distrusted | Trust_Suspicious | Trust_Unknown

record trust_entry =
  te_domain :: jstr
  te_level :: trust_level
  te_first_seen :: int
  te_last_seen :: int
  te_fingerprint :: "jstr option"
  te_visits :: nat

definition max_trust_store_entries :: nat where "max_trust_store_entries = 10000"

subsection \<open>Which domains are stored\<close>

definition has_control_characters :: "jstr \<Rightarrow> bool" where
  "has_control_characters d \<longleftrightarrow> (\<exists>c \<in> set d. c \<le> 31 \<or> c = 127)"

definition has_dangerous_characters :: "jstr \<Rightarrow> bool" where
  "has_dangerous_characters d \<longleftrightarrow> (\<exists>c \<in> set d. c \<in> {60, 62, 34, 39, 38})"

definition domain_char :: "nat \<Rightarrow> bool" where
  "domain_char c \<longleftrightarrow> (97 \<le> c \<and> c \<le> 122) \<or> is_digit c \<or> c = 46 \<or> c = 45"

fun has_consecutive_dots :: "jstr \<Rightarrow> bool" where
  "has_consecutive_dots (a # b # s) \<longleftrightarrow> (a = 46 \<and> b = 46) \<or> has_consecutive_dots (b # s)"
| "has_consecutive_dots _ \<longleftrightarrow> False"

text \<open>\<^verbatim>\<open>s.split(".")\<close>.\<close>

fun split_dots :: "jstr \<Rightarrow> jstr list" where
  "split_dots [] = [[]]"
| "split_dots (c # s) = (if c = 46 then [] # split_dots s
     else (case split_dots s of [] \<Rightarrow> [[c]] | l # ls \<Rightarrow> (c # l) # ls))"

fun check_labels :: "jstr list \<Rightarrow> string option" where
  "check_labels [] = None"
| "check_labels (l # ls) =
     (if l = [] then Some ''Invalid domain: empty label''
      else if length l > 63 then Some ''Invalid domain: label too long (max 63 chars)''
      else if hd l = 45 \<or> last l = 45 then Some ''Invalid domain: label cannot start or end with hyphen''
      else check_labels ls)"

definition validate_domain_name :: "web \<Rightarrow> jstr \<Rightarrow> string + jstr" where
  "validate_domain_name W d =
     (if has_control_characters d then Inl ''Invalid domain: contains control characters''
      else if has_dangerous_characters d then Inl ''Invalid domain: contains dangerous characters''
      else (let n = dns_normalize W d in
        if n = [] then Inl ''Invalid domain: empty after normalization''
        else if \<not> (\<forall>c \<in> set n. domain_char c) then Inl ''Invalid domain: contains invalid characters''
        else if hd n = 45 \<or> hd n = 46 \<or> last n = 45 \<or> last n = 46
          then Inl ''Invalid domain: cannot start or end with hyphen or dot''
        else if has_consecutive_dots n then Inl ''Invalid domain: consecutive dots not allowed''
        else (case check_labels (split_dots n) of Some m \<Rightarrow> Inl m | None \<Rightarrow> Inr n)))"

subsection \<open>The operations\<close>

type_synonym trust_store = "trust_entry list"

text \<open>Applies a change to the first entry of a domain.\<close>

fun update_entry :: "jstr \<Rightarrow> (trust_entry \<Rightarrow> trust_entry) \<Rightarrow> trust_store \<Rightarrow> trust_store" where
  "update_entry d f [] = []"
| "update_entry d f (e # es) = (if te_domain e = d then f e # es else e # update_entry d f es)"

definition trust_find :: "web \<Rightarrow> jstr \<Rightarrow> trust_store \<Rightarrow> trust_entry option" where
  "trust_find W d st = find (\<lambda>e. te_domain e = dns_normalize W d) st"

definition revisit :: "int \<Rightarrow> trust_entry \<Rightarrow> trust_entry \<Rightarrow> trust_entry" where
  "revisit now entry existing =
     existing\<lparr>te_level := te_level entry, te_last_seen := now, te_visits := Suc (te_visits existing),
       te_fingerprint := (case te_fingerprint entry of
          Some f \<Rightarrow> if f \<noteq> [] then Some f else te_fingerprint existing
        | None \<Rightarrow> te_fingerprint existing)\<rparr>"

definition trust_save :: "web \<Rightarrow> int \<Rightarrow> trust_entry \<Rightarrow> trust_store \<Rightarrow> string + trust_store" where
  "trust_save W now entry st = (case validate_domain_name W (te_domain entry) of
     Inl m \<Rightarrow> Inl m
   | Inr d \<Rightarrow>
       if (\<exists>e \<in> set st. te_domain e = d) then Inr (update_entry d (revisit now entry) st)
       else if length st \<ge> max_trust_store_entries then Inl ''Trust store limit exceeded''
       else Inr (st @ [entry\<lparr>te_domain := d, te_last_seen := now, te_visits := 1\<rparr>]))"

definition trust_revoke :: "web \<Rightarrow> jstr \<Rightarrow> trust_store \<Rightarrow> trust_store" where
  "trust_revoke W d st = filter (\<lambda>e. te_domain e \<noteq> dns_normalize W d) st"

definition trust_remove_expired :: "int \<Rightarrow> int \<Rightarrow> trust_store \<Rightarrow> nat \<times> trust_store" where
  "trust_remove_expired now max_age st =
     (let kept = filter (\<lambda>e. now - te_last_seen e < max_age) st in (length st - length kept, kept))"

text \<open>Fingerprints live in session storage, one key per domain.\<close>

type_synonym fingerprint_store = "jstr \<rightharpoonup> jstr \<times> int"

definition fingerprint_key :: "jstr \<Rightarrow> jstr" where
  "fingerprint_key n = lit ''cybervault_fp_'' @ n"

definition save_fingerprint ::
    "web \<Rightarrow> int \<Rightarrow> jstr \<Rightarrow> jstr \<Rightarrow> fingerprint_store \<Rightarrow> string + fingerprint_store" where
  "save_fingerprint W now d f st = (case validate_domain_name W d of
     Inl m \<Rightarrow> Inl m | Inr n \<Rightarrow> Inr (st(fingerprint_key n \<mapsto> (f, now))))"

definition get_fingerprint :: "web \<Rightarrow> jstr \<Rightarrow> fingerprint_store \<Rightarrow> jstr option" where
  "get_fingerprint W d st = map_option fst (st (fingerprint_key (dns_normalize W d)))"

definition remove_fingerprint :: "web \<Rightarrow> jstr \<Rightarrow> fingerprint_store \<Rightarrow> fingerprint_store" where
  "remove_fingerprint W d st = st(fingerprint_key (dns_normalize W d) := None)"

subsection \<open>The contract of the port\<close>

lemma validate_domain_name_normal: "validate_domain_name W d = Inr n \<Longrightarrow> n = dns_normalize W d"
  by (auto simp: validate_domain_name_def Let_def split: if_splits option.splits)

lemma validate_domain_name_chars:
  "validate_domain_name W d = Inr n \<Longrightarrow> n \<noteq> [] \<and> (\<forall>c \<in> set n. domain_char c)"
  by (auto simp: validate_domain_name_def Let_def split: if_splits option.splits)

text \<open>
  A stored domain is a name of lower case labels, and no domain is stored twice:
  so \<^verbatim>\<open>find\<close> has one answer and \<^verbatim>\<open>revoke\<close> removes everything it could find.
\<close>

definition trust_ok :: "trust_store \<Rightarrow> bool" where
  "trust_ok st \<longleftrightarrow> distinct (map te_domain st) \<and> length st \<le> max_trust_store_entries
     \<and> (\<forall>e \<in> set st. te_domain e \<noteq> [] \<and> (\<forall>c \<in> set (te_domain e). domain_char c) \<and> 0 < te_visits e)"

locale trust_repository =
  fixes save :: "int \<Rightarrow> trust_entry \<Rightarrow> 's \<Rightarrow> string + 's"
    and lookup :: "jstr \<Rightarrow> 's \<Rightarrow> trust_entry option"
    and revoke :: "jstr \<Rightarrow> 's \<Rightarrow> 's"
    and name_of :: "jstr \<Rightarrow> jstr"
    and store_ok :: "'s \<Rightarrow> bool"
  assumes save_ok: "store_ok s \<Longrightarrow> save now e s = Inr s' \<Longrightarrow> store_ok s'"
    and lookup_saved: "store_ok s \<Longrightarrow> save now e s = Inr s' \<Longrightarrow> name_of d = name_of (te_domain e) \<Longrightarrow>
      \<exists>x. lookup d s' = Some x \<and> te_level x = te_level e \<and> te_last_seen x = now"
    and lookup_other: "store_ok s \<Longrightarrow> save now e s = Inr s' \<Longrightarrow> name_of d \<noteq> name_of (te_domain e) \<Longrightarrow>
      lookup d s' = lookup d s"
    and revoke_ok: "store_ok s \<Longrightarrow> store_ok (revoke d s)"
    and lookup_revoked: "store_ok s \<Longrightarrow>
      lookup d' (revoke d s) = (if name_of d' = name_of d then None else lookup d' s)"
begin

text \<open>The last word on a domain is the one that counts, whatever is written about others.\<close>

fun save_all :: "(int \<times> trust_entry) list \<Rightarrow> 's \<Rightarrow> string + 's" where
  "save_all [] s = Inr s"
| "save_all ((now, e) # es) s = (case save now e s of Inl m \<Rightarrow> Inl m | Inr s' \<Rightarrow> save_all es s')"

lemma save_all_ok: "store_ok s \<Longrightarrow> save_all es s = Inr s' \<Longrightarrow> store_ok s'"
proof (induction es arbitrary: s)
  case (Cons x es)
  obtain now e where x: "x = (now, e)" by (cases x)
  obtain s1 where s1: "save now e s = Inr s1" "save_all es s1 = Inr s'"
    using Cons.prems x by (auto split: sum.splits)
  show ?case by (rule Cons.IH [OF save_ok [OF Cons.prems(1) s1(1)] s1(2)])
qed simp

lemma save_all_other:
  "store_ok s \<Longrightarrow> save_all es s = Inr s' \<Longrightarrow> \<forall>(now, e) \<in> set es. name_of (te_domain e) \<noteq> name_of d
    \<Longrightarrow> lookup d s' = lookup d s"
proof (induction es arbitrary: s)
  case (Cons x es)
  obtain now e where x: "x = (now, e)" by (cases x)
  obtain s1 where s1: "save now e s = Inr s1" "save_all es s1 = Inr s'"
    using Cons.prems x by (auto split: sum.splits)
  have "lookup d s' = lookup d s1" using Cons.IH [of s1] Cons.prems s1 x save_ok by auto
  also have "\<dots> = lookup d s" using lookup_other [OF Cons.prems(1) s1(1)] Cons.prems(3) x by auto
  finally show ?case .
qed simp

lemma last_word:
  assumes "store_ok s" "save now e s = Inr s1" "save_all es s1 = Inr s'"
    and "\<forall>(t, e') \<in> set es. name_of (te_domain e') \<noteq> name_of (te_domain e)"
  shows "\<exists>x. lookup (te_domain e) s' = Some x \<and> te_level x = te_level e"
  using save_all_other [OF save_ok [OF assms(1,2)] assms(3), of "te_domain e"] assms(4)
    lookup_saved [OF assms(1,2) refl] by auto

end

lemma update_entry_domains:
  "(\<And>e. te_domain (f e) = te_domain e) \<Longrightarrow> map te_domain (update_entry d f st) = map te_domain st"
  by (induction st) auto

lemma find_update_entry:
  assumes "\<And>e. te_domain (f e) = te_domain e"
  shows "find (\<lambda>e. te_domain e = n) (update_entry d f st)
    = (if n = d then map_option f (find (\<lambda>e. te_domain e = n) st) else find (\<lambda>e. te_domain e = n) st)"
  using assms by (induction st) auto

lemma set_update_entry: "e \<in> set (update_entry d f st) \<Longrightarrow> e \<in> set st \<or> (\<exists>x \<in> set st. e = f x)"
  by (induction st) (auto split: if_splits)

lemma revisit_simps [simp]:
  "te_domain (revisit now e x) = te_domain x" "te_level (revisit now e x) = te_level e"
  "te_last_seen (revisit now e x) = now" "te_visits (revisit now e x) = Suc (te_visits x)"
  by (simp_all add: revisit_def)

lemma length_update_entry [simp]: "length (update_entry d f st) = length st"
  by (induction st) auto

lemma trust_save_ok:
  assumes "trust_ok st" "trust_save W now entry st = Inr st'"
  shows "trust_ok st'"
proof -
  obtain d where d: "validate_domain_name W (te_domain entry) = Inr d"
    using assms(2) by (auto simp: trust_save_def split: sum.splits)
  note chars = validate_domain_name_chars [OF d]
  show ?thesis
  proof (cases "\<exists>e \<in> set st. te_domain e = d")
    case True
    then have st': "st' = update_entry d (revisit now entry) st" using assms(2) d by (simp add: trust_save_def)
    have "map te_domain st' = map te_domain st" unfolding st' by (rule update_entry_domains) simp
    moreover have "\<forall>e \<in> set st'. te_domain e \<noteq> [] \<and> (\<forall>c \<in> set (te_domain e). domain_char c) \<and> 0 < te_visits e"
      using assms(1) set_update_entry [of _ d "revisit now entry" st] unfolding st' trust_ok_def by force
    moreover have "length st' = length st" by (simp add: st')
    ultimately show ?thesis using assms(1) by (simp add: trust_ok_def)
  next
    case False
    then have "st' = st @ [entry\<lparr>te_domain := d, te_last_seen := now, te_visits := 1\<rparr>]"
        "length st < max_trust_store_entries"
      using assms(2) d by (auto simp: trust_save_def split: if_splits)
    then show ?thesis using assms(1) chars False unfolding trust_ok_def by auto
  qed
qed

lemma find_some_domain: "(\<exists>e \<in> set st. te_domain e = d) \<longleftrightarrow> (\<exists>x. find (\<lambda>e. te_domain e = d) st = Some x)"
  by (induction st) auto

lemma trust_find_saved:
  assumes "trust_save W now entry st = Inr st'" "dns_normalize W d = dns_normalize W (te_domain entry)"
  shows "\<exists>x. trust_find W d st' = Some x \<and> te_level x = te_level entry \<and> te_last_seen x = now"
proof -
  obtain n where n: "validate_domain_name W (te_domain entry) = Inr n"
    using assms(1) by (auto simp: trust_save_def split: sum.splits)
  then have norm: "n = dns_normalize W d" using validate_domain_name_normal assms(2) by simp
  show ?thesis
  proof (cases "\<exists>e \<in> set st. te_domain e = n")
    case True
    then obtain x where "find (\<lambda>e. te_domain e = n) st = Some x" using find_some_domain by blast
    then show ?thesis using assms(1) n True norm
      by (auto simp: trust_save_def trust_find_def find_update_entry)
  next
    case False
    then have "find (\<lambda>e. te_domain e = n) st = None" by (auto simp: find_None_iff)
    then show ?thesis using assms(1) n False norm
      by (auto simp: trust_save_def trust_find_def find_append split: if_splits)
  qed
qed

lemma trust_find_other:
  assumes "trust_save W now entry st = Inr st'" "dns_normalize W d \<noteq> dns_normalize W (te_domain entry)"
  shows "trust_find W d st' = trust_find W d st"
proof -
  obtain n where n: "validate_domain_name W (te_domain entry) = Inr n"
    using assms(1) by (auto simp: trust_save_def split: sum.splits)
  then have "n \<noteq> dns_normalize W d" using validate_domain_name_normal assms(2) by metis
  then show ?thesis using assms(1) n
    by (auto simp: trust_save_def trust_find_def find_update_entry find_append split: if_splits option.splits)
qed

lemma find_filter_domain: "find (\<lambda>e. te_domain e = n) (filter (\<lambda>e. te_domain e \<noteq> k) st)
    = (if n = k then None else find (\<lambda>e. te_domain e = n) st)"
  by (induction st) auto

lemma trust_revoke_ok: "trust_ok st \<Longrightarrow> trust_ok (trust_revoke W d st)"
  by (auto simp: trust_ok_def trust_revoke_def distinct_map inj_on_def intro: le_trans [OF length_filter_le])

lemma trust_find_revoked:
  "trust_find W d' (trust_revoke W d st)
    = (if dns_normalize W d' = dns_normalize W d then None else trust_find W d' st)"
  by (simp add: trust_find_def trust_revoke_def find_filter_domain)

lemma trust_remove_expired_ok: "trust_ok st \<Longrightarrow> trust_ok (snd (trust_remove_expired now age st))"
  by (auto simp: trust_ok_def trust_remove_expired_def Let_def distinct_map inj_on_def
      intro: le_trans [OF length_filter_le])

interpretation chrome_trust: trust_repository "trust_save W" "trust_find W" "trust_revoke W" "dns_normalize W" trust_ok
  for W :: web
proof (unfold_locales, goal_cases)
  case (1 s now e s')
  then show ?case by (rule trust_save_ok)
next
  case (2 s now e s' d)
  from 2(2,3) show ?case by (rule trust_find_saved)
next
  case (3 s now e s' d)
  from 3(2,3) show ?case by (rule trust_find_other)
next
  case (4 s d)
  then show ?case by (rule trust_revoke_ok)
next
  case (5 s d' d)
  show ?case by (rule trust_find_revoked)
qed

end
