(* ===== verification/Credentials.thy ===== *)
theory Credentials
  imports Codec Trust_Store Js_Number
begin

text \<open>
  The shape of generated credentials: src/src/domain/services/autocompletado/
  credentials-validator.ts, credentials-types.ts and credentials-errors.ts.  The
  regular expressions are recognizers on code units; the branded string types are
  strings.
\<close>

datatype credentials_error =
    Invalid_Email_Format jstr "jstr option"
  | Invalid_Password_Format jstr "jstr option"
  | Salt_Extraction jstr "jstr option"
  | Pepper_Extraction jstr "jstr option"
  | Entropy_Validation jstr nat
  | Invalid_Domain jstr
  | Invalid_Length jstr nat nat
  | Plain_Error jstr

fun error_code :: "credentials_error \<Rightarrow> string option" where
  "error_code (Invalid_Email_Format _ _) = Some ''INVALID_EMAIL_FORMAT''"
| "error_code (Invalid_Password_Format _ _) = Some ''INVALID_PASSWORD_FORMAT''"
| "error_code (Salt_Extraction _ _) = Some ''SALT_EXTRACTION_FAILED''"
| "error_code (Pepper_Extraction _ _) = Some ''PEPPER_EXTRACTION_FAILED''"
| "error_code (Entropy_Validation _ _) = Some ''ENTROPY_VALIDATION_FAILED''"
| "error_code (Invalid_Domain _) = Some ''INVALID_DOMAIN''"
| "error_code (Invalid_Length _ _ _) = Some ''INVALID_LENGTH''"
| "error_code (Plain_Error _) = None"

text \<open>The message of an error; units 225, 233, 237, 243 are the accented vowels.\<close>

definition with_details :: "jstr \<Rightarrow> jstr option \<Rightarrow> jstr" where
  "with_details m d = (case d of
     None \<Rightarrow> m | Some t \<Rightarrow> if t = [] then m else m @ lit ''. '' @ t)"

fun error_message :: "credentials_error \<Rightarrow> jstr" where
  "error_message (Invalid_Email_Format e d) =
     with_details (lit ''Formato de email inv'' @ [225] @ lit ''lido: '' @ e) d"
| "error_message (Invalid_Password_Format p d) =
     with_details (lit ''Formato de password inv'' @ [225] @ lit ''lido: '' @ p) d"
| "error_message (Salt_Extraction e d) =
     with_details (lit ''No se pudo extraer la sal del email: '' @ e) d"
| "error_message (Pepper_Extraction p d) =
     with_details (lit ''No se pudo extraer la pimienta del password: '' @ p) d"
| "error_message (Entropy_Validation x n) =
     lit ''Entrop'' @ [237] @ lit ''a insuficiente. Requerida: '' @ dec_nat n @ lit '' bits, obtenida: menos''"
| "error_message (Invalid_Domain d) = lit ''Dominio inv'' @ [225] @ lit ''lido: '' @ d"
| "error_message (Invalid_Length v lo hi) =
     lit ''Longitud inv'' @ [225] @ lit ''lida. M'' @ [237] @ lit ''nimo: '' @ dec_nat lo @ lit '', M'' @ [225]
     @ lit ''ximo: '' @ dec_nat hi @ lit '', Actual: '' @ dec_nat (length v)"
| "error_message (Plain_Error m) = m"

subsection \<open>Character classes and recognizers\<close>

definition alnum :: "nat \<Rightarrow> bool" where
  "alnum c \<longleftrightarrow> ascii_letter c \<or> is_digit c"

definition hex_char :: "nat \<Rightarrow> bool" where
  "hex_char c \<longleftrightarrow> is_digit c \<or> (97 \<le> c \<and> c \<le> 102) \<or> (65 \<le> c \<and> c \<le> 70)"

definition email_char :: "nat \<Rightarrow> bool" where
  "email_char c \<longleftrightarrow> alnum c \<or> c \<in> set (lit ''.!#$%&'' @ [39] @ lit ''*+/=?^_'' @ [96] @ lit ''{|}~-'')"

definition password_char :: "nat \<Rightarrow> bool" where
  "password_char c \<longleftrightarrow> alnum c
     \<or> c \<in> set (lit ''!@#$%^&*()_+-=[]{};'' @ [39] @ lit '':'' @ [34, 92] @ lit ''|,.<>/?'')"

text \<open>\<^verbatim>\<open>/^[a-fA-F0-9]{32}$/\<close>.\<close>

definition hex32 :: "jstr \<Rightarrow> bool" where
  "hex32 s \<longleftrightarrow> length s = 32 \<and> (\<forall>c \<in> set s. hex_char c)"

text \<open>\<^verbatim>\<open>[a-zA-Z0-9](?:[a-zA-Z0-9-]{0,61}[a-zA-Z0-9])?\<close>.\<close>

definition domain_label :: "jstr \<Rightarrow> bool" where
  "domain_label l \<longleftrightarrow> l \<noteq> [] \<and> length l \<le> 63 \<and> alnum (hd l) \<and> alnum (last l)
     \<and> (\<forall>c \<in> set l. alnum c \<or> c = 45)"

definition matches_domain :: "jstr \<Rightarrow> bool" where
  "matches_domain s \<longleftrightarrow> (\<forall>l \<in> set (split_dots s). domain_label l)"

text \<open>The text before the first occurrence of a unit, and the text after it.\<close>

definition cut_at :: "nat \<Rightarrow> jstr \<Rightarrow> (jstr \<times> jstr) option" where
  "cut_at c s = (case dropWhile (\<lambda>x. x \<noteq> c) s of
     [] \<Rightarrow> None | _ # t \<Rightarrow> Some (takeWhile (\<lambda>x. x \<noteq> c) s, t))"

definition matches_email_base :: "jstr \<Rightarrow> bool" where
  "matches_email_base s = (case cut_at 64 s of
     None \<Rightarrow> False
   | Some (u, d) \<Rightarrow> u \<noteq> [] \<and> (\<forall>c \<in> set u. email_char c) \<and> matches_domain d)"

text \<open>A text that ends in \<^verbatim>\<open>+\<close> and 32 hexadecimal digits, and what is before it.\<close>

definition hex32_suffix :: "jstr \<Rightarrow> (jstr \<times> jstr) option" where
  "hex32_suffix s =
     (let u = take (length s - 33) s; v = drop (length s - 33) s in
      if length s \<ge> 33 \<and> hd v = 43 \<and> hex32 (tl v) then Some (u, tl v) else None)"

definition matches_email_with_salt :: "jstr \<Rightarrow> bool" where
  "matches_email_with_salt s = (case cut_at 64 s of
     None \<Rightarrow> False
   | Some (u, d) \<Rightarrow> (case hex32_suffix u of
       None \<Rightarrow> False
     | Some (user, salt) \<Rightarrow> user \<noteq> [] \<and> (\<forall>c \<in> set user. email_char c) \<and> matches_domain d))"

definition matches_password_base :: "jstr \<Rightarrow> bool" where
  "matches_password_base s \<longleftrightarrow> length s \<ge> 32 \<and> (\<forall>c \<in> set s. password_char c)"

definition matches_password_with_pepper :: "jstr \<Rightarrow> bool" where
  "matches_password_with_pepper s = (case hex32_suffix s of
     None \<Rightarrow> False | Some (base, pepper) \<Rightarrow> matches_password_base base)"

definition is_valid_email :: "jstr \<Rightarrow> bool" where
  "is_valid_email s \<longleftrightarrow> s \<noteq> [] \<and> matches_email_base s"

definition is_valid_email_with_salt :: "jstr \<Rightarrow> bool" where
  "is_valid_email_with_salt s \<longleftrightarrow> s \<noteq> [] \<and> matches_email_with_salt s"

definition is_valid_password :: "jstr \<Rightarrow> bool" where
  "is_valid_password s \<longleftrightarrow> s \<noteq> [] \<and> matches_password_base s"

definition is_valid_password_with_pepper :: "jstr \<Rightarrow> bool" where
  "is_valid_password_with_pepper s \<longleftrightarrow> s \<noteq> [] \<and> matches_password_with_pepper s"

definition is_valid_domain :: "jstr \<Rightarrow> bool" where
  "is_valid_domain s \<longleftrightarrow> s \<noteq> [] \<and> matches_domain s"

subsection \<open>Extraction\<close>

definition email_empty :: jstr where "email_empty = lit ''Email vac'' @ [237] @ lit ''o''"
definition password_empty :: jstr where "password_empty = lit ''Password vac'' @ [237] @ lit ''o''"
definition email_expected :: jstr where
  "email_expected = lit ''Formato esperado: usuario+salt@dominio.extension''"
definition password_expected :: jstr where
  "password_expected = lit ''Formato esperado: password+pepper''"

text \<open>\<^verbatim>\<open>/^[^+]+\+([^@]+)@/\<close>.\<close>

definition validator_extract_salt :: "jstr \<Rightarrow> credentials_error + jstr" where
  "validator_extract_salt e =
     (if e = [] \<or> trim e = [] then Inl (Invalid_Email_Format e (Some email_empty))
      else (case cut_at 43 e of
          Some (u, rest) \<Rightarrow> (case cut_at 64 rest of
              Some (salt, d) \<Rightarrow> if u \<noteq> [] \<and> salt \<noteq> [] then Inr salt
                else Inl (Invalid_Email_Format e (Some email_expected))
            | None \<Rightarrow> Inl (Invalid_Email_Format e (Some email_expected)))
        | None \<Rightarrow> Inl (Invalid_Email_Format e (Some email_expected))))"

text \<open>\<^verbatim>\<open>/^[^+]+\+([^+]+)$/\<close>: exactly one plus sign.\<close>

definition validator_extract_pepper :: "jstr \<Rightarrow> credentials_error + jstr" where
  "validator_extract_pepper p =
     (if p = [] \<or> trim p = [] then Inl (Invalid_Password_Format p (Some password_empty))
      else (case cut_at 43 p of
          Some (base, pepper) \<Rightarrow>
            if base \<noteq> [] \<and> pepper \<noteq> [] \<and> 43 \<notin> set pepper then Inr pepper
            else Inl (Invalid_Password_Format p (Some password_expected))
        | None \<Rightarrow> Inl (Invalid_Password_Format p (Some password_expected))))"

text \<open>The units that \<^verbatim>\<open>.\<close> does not match.\<close>

definition line_terminator :: "nat \<Rightarrow> bool" where
  "line_terminator c \<longleftrightarrow> c \<in> {10, 13, 0x2028, 0x2029}"

definition dots :: "jstr \<Rightarrow> bool" where
  "dots s \<longleftrightarrow> s \<noteq> [] \<and> (\<forall>c \<in> set s. \<not> line_terminator c)"

text \<open>\<^verbatim>\<open>/^([^+]+)\+([^@]+)@(.+)$/\<close>.\<close>

definition split_salted_email :: "jstr \<Rightarrow> (jstr \<times> jstr \<times> jstr) option" where
  "split_salted_email e = (case cut_at 43 e of
     Some (u, rest) \<Rightarrow> (case cut_at 64 rest of
         Some (salt, d) \<Rightarrow> if u \<noteq> [] \<and> salt \<noteq> [] \<and> dots d then Some (u, salt, d) else None
       | None \<Rightarrow> None)
   | None \<Rightarrow> None)"

record parsed_email =
  pe_user :: jstr
  pe_salt :: jstr
  pe_domain :: jstr
  pe_full :: jstr

definition parse_email_with_salt :: "jstr \<Rightarrow> credentials_error + parsed_email" where
  "parse_email_with_salt e =
     (if e = [] \<or> trim e = [] then Inl (Invalid_Email_Format e (Some email_empty))
      else (case split_salted_email e of
          None \<Rightarrow> Inl (Invalid_Email_Format e (Some email_expected))
        | Some (u, salt, d) \<Rightarrow>
            if \<not> hex32 salt then Inl (Invalid_Email_Format e (Some
              (lit ''Sal inv'' @ [225] @ lit ''lida: debe ser 32 caracteres hexadecimales (encontrados: ''
               @ dec_nat (length salt) @ lit '')'')))
            else if \<not> is_valid_domain d then Inl (Invalid_Email_Format e (Some
              (lit ''Dominio inv'' @ [225] @ lit ''lido: '' @ d)))
            else Inr \<lparr>pe_user = u, pe_salt = salt, pe_domain = d, pe_full = e\<rparr>))"

record parsed_password =
  pw_base :: jstr
  pw_pepper :: jstr
  pw_full :: jstr

definition parse_password_with_pepper :: "jstr \<Rightarrow> credentials_error + parsed_password" where
  "parse_password_with_pepper p =
     (if p = [] \<or> trim p = [] then Inl (Invalid_Password_Format p (Some password_empty))
      else (case cut_at 43 p of
          None \<Rightarrow> Inl (Invalid_Password_Format p (Some password_expected))
        | Some (base, pepper) \<Rightarrow>
            if base = [] \<or> pepper = [] \<or> 43 \<in> set pepper
            then Inl (Invalid_Password_Format p (Some password_expected))
            else if length base < 32 then Inl (Invalid_Password_Format p (Some
              (lit ''Password base demasiado corto: m'' @ [237] @ lit ''nimo 32 caracteres (encontrados: ''
               @ dec_nat (length base) @ lit '')'')))
            else if \<not> hex32 pepper then Inl (Invalid_Password_Format p (Some
              (lit ''Pimienta inv'' @ [225] @ lit ''lida: debe ser 32 caracteres hexadecimales (encontrados: ''
               @ dec_nat (length pepper) @ lit '')'')))
            else Inr \<lparr>pw_base = base, pw_pepper = pepper, pw_full = p\<rparr>))"

subsection \<open>Quality of the base values\<close>

record quality_report =
  qr_valid :: bool
  qr_errors :: "jstr list"
  qr_warnings :: "jstr list"

definition validate_email_base :: "jstr \<Rightarrow> quality_report" where
  "validate_email_base e =
     (if e = [] then \<lparr>qr_valid = False, qr_errors = [email_empty], qr_warnings = []\<rparr>
      else let errors =
          (if matches_email_base e then [] else [lit ''Formato de email inv'' @ [225] @ lit ''lido''])
          @ (if length e < 6 then [lit ''Email demasiado corto (m'' @ [237] @ lit ''nimo 6 caracteres)'']
             else if length e > 254
             then [lit ''Email demasiado largo (m'' @ [225] @ lit ''ximo 254 caracteres)''] else []);
        warnings = (if includes_text e [46, 46] then [lit ''Email contiene puntos consecutivos''] else [])
      in \<lparr>qr_valid = (errors = []), qr_errors = errors, qr_warnings = warnings\<rparr>)"

text \<open>The size of the alphabet a password draws from, by the classes that occur in it.\<close>

definition upper_letter :: "nat \<Rightarrow> bool" where "upper_letter c \<longleftrightarrow> 65 \<le> c \<and> c \<le> 90"
definition lower_letter :: "nat \<Rightarrow> bool" where "lower_letter c \<longleftrightarrow> 97 \<le> c \<and> c \<le> 122"
definition special_char :: "nat \<Rightarrow> bool" where "special_char c \<longleftrightarrow> password_char c \<and> \<not> alnum c"

definition charset_size :: "(nat \<Rightarrow> bool) \<Rightarrow> jstr \<Rightarrow> nat" where
  "charset_size special p =
     (if list_ex upper_letter p then 26 else 0) + (if list_ex lower_letter p then 26 else 0)
     + (if list_ex is_digit p then 10 else 0) + (if list_ex special p then 32 else 0)"

definition validate_password_base :: "(nat \<Rightarrow> rat) \<Rightarrow> number_format \<Rightarrow> jstr \<Rightarrow> quality_report" where
  "validate_password_base log2 nf p =
     (if p = [] then \<lparr>qr_valid = False, qr_errors = [password_empty], qr_warnings = []\<rparr>
      else let errors = (if length p < 32
            then [lit ''Password demasiado corto: '' @ dec_nat (length p) @ lit '' caracteres (m'' @ [237]
                  @ lit ''nimo 32)''] else []);
        entropy = of_nat (length p) * log2 (if charset_size special_char p = 0 then 1 else charset_size special_char p);
        warnings =
          (if list_ex upper_letter p then [] else [lit ''Password sin may'' @ [250] @ lit ''sculas''])
          @ (if list_ex lower_letter p then [] else [lit ''Password sin min'' @ [250] @ lit ''sculas''])
          @ (if list_ex is_digit p then [] else [lit ''Password sin n'' @ [250] @ lit ''meros''])
          @ (if list_ex special_char p then [] else [lit ''Password sin caracteres especiales''])
          @ (if entropy < 128
             then [lit ''Entrop'' @ [237] @ lit ''a baja: '' @ nf_fixed nf entropy 1
                   @ lit '' bits (recomendado: '' @ [0x2265] @ lit ''128 bits)''] else [])
      in \<lparr>qr_valid = (errors = []), qr_errors = errors, qr_warnings = warnings\<rparr>)"

subsection \<open>Branded types\<close>

definition create_email_with_salt :: "jstr \<Rightarrow> credentials_error + jstr" where
  "create_email_with_salt e =
     (if matches_email_with_salt e then Inr e
      else Inl (Plain_Error (lit ''EmailWithSalt inv'' @ [225] @ lit ''lido: '' @ e)))"

definition create_email_original :: "jstr \<Rightarrow> credentials_error + jstr" where
  "create_email_original e =
     (if 43 \<in> set e then Inl (Plain_Error (lit ''EmailOriginal no debe contener sal: '' @ e)) else Inr e)"

definition create_password_with_pepper :: "jstr \<Rightarrow> credentials_error + jstr" where
  "create_password_with_pepper p =
     (if matches_password_with_pepper p then Inr p
      else Inl (Plain_Error (lit ''PasswordWithPepper inv'' @ [225] @ lit ''lido: '' @ p)))"

definition create_password_original :: "jstr \<Rightarrow> credentials_error + jstr" where
  "create_password_original p =
     (if hex32_suffix p \<noteq> None then Inl (Plain_Error (lit ''PasswordOriginal no debe contener pimienta: '' @ p))
      else Inr p)"

definition create_salt :: "jstr \<Rightarrow> credentials_error + jstr" where
  "create_salt s = (if hex32 s then Inr s
     else Inl (Plain_Error (lit ''Sal inv'' @ [225] @ lit ''lida: debe ser 32 caracteres hexadecimales'')))"

definition create_pepper :: "jstr \<Rightarrow> credentials_error + jstr" where
  "create_pepper s = (if hex32 s then Inr s
     else Inl (Plain_Error (lit ''Pimienta inv'' @ [225] @ lit ''lida: debe ser 32 caracteres hexadecimales'')))"

definition create_valid_domain :: "jstr \<Rightarrow> credentials_error + jstr" where
  "create_valid_domain s = (if matches_domain s then Inr s
     else Inl (Plain_Error (lit ''Dominio inv'' @ [225] @ lit ''lido: '' @ s)))"

text \<open>
  \<^verbatim>\<open>/^(.+)\+[a-fA-F0-9]{32}@(.+)$/\<close>: the greedy first group takes the last place
  where the rest still matches.
\<close>

fun last_salted :: "jstr \<Rightarrow> jstr \<Rightarrow> (jstr \<times> jstr) option" where
  "last_salted u [] = None"
| "last_salted u (c # s) = (case last_salted (u @ [c]) s of
     Some r \<Rightarrow> Some r
   | None \<Rightarrow> if c = 43 \<and> dots u \<and> hex32 (take 32 s) \<and> starts_with (drop 32 s) [64] \<and> dots (drop 33 s)
             then Some (u, drop 33 s) else None)"

definition to_original_email :: "jstr \<Rightarrow> credentials_error + jstr" where
  "to_original_email e = (case last_salted [] e of
     None \<Rightarrow> Inl (Plain_Error (lit ''Formato de EmailWithSalt inv'' @ [225] @ lit ''lido''))
   | Some (u, d) \<Rightarrow> create_email_original (u @ [64] @ d))"

definition to_original_password :: "jstr \<Rightarrow> credentials_error + jstr" where
  "to_original_password p = (case hex32_suffix p of
     Some (base, pepper) \<Rightarrow> if dots base then create_password_original base
       else Inl (Plain_Error (lit ''Formato de PasswordWithPepper inv'' @ [225] @ lit ''lido''))
   | None \<Rightarrow> Inl (Plain_Error (lit ''Formato de PasswordWithPepper inv'' @ [225] @ lit ''lido'')))"

text \<open>\<^verbatim>\<open>/^[^+]+\+([a-fA-F0-9]{32})@/\<close> and \<^verbatim>\<open>/^[^+]+\+([a-fA-F0-9]{32})$/\<close>.\<close>

definition typed_extract_salt :: "jstr \<Rightarrow> credentials_error + jstr" where
  "typed_extract_salt e = (case cut_at 43 e of
     Some (u, rest) \<Rightarrow>
       if u \<noteq> [] \<and> hex32 (take 32 rest) \<and> starts_with (drop 32 rest) [64] then create_salt (take 32 rest)
       else Inl (Plain_Error (lit ''No se pudo extraer la sal''))
   | None \<Rightarrow> Inl (Plain_Error (lit ''No se pudo extraer la sal'')))"

definition typed_extract_pepper :: "jstr \<Rightarrow> credentials_error + jstr" where
  "typed_extract_pepper p = (case cut_at 43 p of
     Some (u, rest) \<Rightarrow>
       if u \<noteq> [] \<and> hex32 rest then create_pepper rest
       else Inl (Plain_Error (lit ''No se pudo extraer la pimienta''))
   | None \<Rightarrow> Inl (Plain_Error (lit ''No se pudo extraer la pimienta'')))"

subsection \<open>Facts about the recognizers\<close>

lemma cut_at_append: "c \<notin> set u \<Longrightarrow> cut_at c (u @ c # t) = Some (u, t)"
proof -
  assume u: "c \<notin> set u"
  then have "dropWhile (\<lambda>x. x \<noteq> c) (u @ c # t) = c # t" "takeWhile (\<lambda>x. x \<noteq> c) (u @ c # t) = u"
    by (induction u) auto
  then show ?thesis by (simp add: cut_at_def)
qed

lemma cut_at_Some: "cut_at c s = Some (u, t) \<Longrightarrow> s = u @ c # t \<and> c \<notin> set u"
proof -
  assume cut: "cut_at c s = Some (u, t)"
  then obtain x where d: "dropWhile (\<lambda>x. x \<noteq> c) s = x # t" and u: "u = takeWhile (\<lambda>x. x \<noteq> c) s"
    by (auto simp: cut_at_def split: list.splits)
  have "x = c" using d dropWhile_eq_Cons_conv [of "\<lambda>x. x \<noteq> c" s x t] by auto
  moreover have "s = u @ x # t" using takeWhile_dropWhile_id [of "\<lambda>x. x \<noteq> c" s] d u by simp
  moreover have "c \<notin> set u" using u set_takeWhileD by metis
  ultimately show ?thesis by simp
qed

lemma hex32_suffix_append: "hex32 h \<Longrightarrow> hex32_suffix (u @ 43 # h) = Some (u, h)"
  by (simp add: hex32_suffix_def hex32_def)

lemma hex32_suffix_Some: "hex32_suffix s = Some (u, h) \<Longrightarrow> s = u @ 43 # h \<and> hex32 h"
proof -
  assume h: "hex32_suffix s = Some (u, h)"
  have v: "length s \<ge> 33" "hd (drop (length s - 33) s) = 43" "hex32 (tl (drop (length s - 33) s))"
    "u = take (length s - 33) s" "h = tl (drop (length s - 33) s)"
    using h by (auto simp: hex32_suffix_def Let_def split: if_splits)
  then have "drop (length s - 33) s = 43 # h" by (cases "drop (length s - 33) s") auto
  then show ?thesis using v append_take_drop_id [of "length s - 33" s] by metis
qed

lemma hex32_suffix_length: "hex32_suffix s \<noteq> None \<Longrightarrow> 33 \<le> length s"
  by (auto simp: hex32_suffix_def Let_def split: if_splits)

lemma hex_not_special: "hex_char c \<Longrightarrow> c \<noteq> 43 \<and> c \<noteq> 64 \<and> \<not> line_terminator c"
  by (auto simp: hex_char_def is_digit_def line_terminator_def)

lemma alnum_not_special: "alnum c \<Longrightarrow> c \<noteq> 43 \<and> c \<noteq> 64 \<and> c \<noteq> 46 \<and> \<not> line_terminator c"
  by (auto simp: alnum_def ascii_letter_def is_digit_def line_terminator_def)

lemma split_dots_set: "c \<in> set s \<Longrightarrow> c \<noteq> 46 \<Longrightarrow> \<exists>l \<in> set (split_dots s). c \<in> set l"
  by (induction s) (auto split: list.splits)

lemma domain_chars: "matches_domain d \<Longrightarrow> c \<in> set d \<Longrightarrow> alnum c \<or> c = 45 \<or> c = 46"
  using split_dots_set [of c d] by (auto simp: matches_domain_def domain_label_def)

lemma domain_not_special:
  "matches_domain d \<Longrightarrow> c \<in> set d \<Longrightarrow> c \<noteq> 43 \<and> c \<noteq> 64 \<and> \<not> line_terminator c"
  using domain_chars [of d c] alnum_not_special [of c] by (auto simp: line_terminator_def)

end
