(* ===== verification/Credentials_Generation.thy ===== *)
theory Credentials_Generation
  imports Credentials "HOL-Library.Multiset"
begin

text \<open>
  Generation and extraction of credentials: src/src/domain/services/autocompletado/
  credentials-generator.ts and entropy-validator.ts, with the two use cases over
  them.  The random source gives the i-th byte of the k-th call of getRandomValues;
  the binary logarithm is a parameter.  Warnings written to the console are left
  out, the standard deviation is compared by its square.
\<close>

subsection \<open>Entropy\<close>

definition clean_hex :: "jstr \<Rightarrow> jstr" where
  "clean_hex s = filter hex_char s"

definition calculate_hex_entropy :: "jstr \<Rightarrow> nat" where
  "calculate_hex_entropy s = length (clean_hex s) * 4"

definition calculate_bytes_entropy :: "bytes \<Rightarrow> nat" where
  "calculate_bytes_entropy bs = length bs * 8"

text \<open>\<^verbatim>\<open>for (const char of data)\<close>: a surrogate pair is one character.\<close>

fun js_chars :: "jstr \<Rightarrow> jstr list" where
  "js_chars [] = []"
| "js_chars [c] = [[c]]"
| "js_chars (c # d # s) =
     (if high_surrogate c \<and> low_surrogate d then [c, d] # js_chars s else [c] # js_chars (d # s))"

definition calculate_string_entropy :: "(rat \<Rightarrow> rat) \<Rightarrow> jstr \<Rightarrow> rat" where
  "calculate_string_entropy log2 s =
     (let cs = js_chars s; alphabet = remdups cs;
        probability = (\<lambda>c. of_nat (count_list cs c) / of_nat (length s))
      in (- sum_list (map (\<lambda>c. probability c * log2 (probability c)) alphabet)) * of_nat (length alphabet))"

definition byte_frequency :: "bytes \<Rightarrow> nat list" where
  "byte_frequency bs = map (count_list (nats_of bs)) [0..<256]"

definition is_uniform_distribution :: "bytes \<Rightarrow> bool" where
  "is_uniform_distribution bs \<longleftrightarrow> bs \<noteq> [] \<and>
     (let mean = of_nat (length bs) / (256 :: rat);
        variance = sum_list (map (\<lambda>n. (of_nat n - mean)\<^sup>2) (byte_frequency bs)) / 256
      in variance \<le> (mean / 5)\<^sup>2)"

definition windows :: "nat \<Rightarrow> bytes \<Rightarrow> bytes list" where
  "windows k bs = map (\<lambda>i. take k (drop i bs)) [0..<length bs + 1 - k]"

definition has_no_repetitive_patterns :: "bytes \<Rightarrow> bool" where
  "has_no_repetitive_patterns bs \<longleftrightarrow> length bs < 4 \<or>
     (\<forall>k \<in> {2, 3, 4}. \<forall>w \<in> set (windows k bs).
        count_list (windows k bs) w \<le> length bs div (k * 2))"

definition min_entropy :: nat where "min_entropy = 128"
definition min_password_entropy :: nat where "min_password_entropy = 128"

definition validate_salt_entropy :: "jstr \<Rightarrow> credentials_error option" where
  "validate_salt_entropy s =
     (if s = [] \<or> length s \<noteq> 32 then Some (Entropy_Validation s min_entropy)
      else if calculate_hex_entropy s < min_entropy then Some (Entropy_Validation s min_entropy)
      else None)"

definition validate_pepper_entropy :: "jstr \<Rightarrow> credentials_error option" where
  "validate_pepper_entropy s =
     (if s = [] \<or> length s \<noteq> 32 then Some (Entropy_Validation s min_entropy)
      else if calculate_hex_entropy s < min_entropy then Some (Entropy_Validation s min_entropy)
      else None)"

record entropy_report =
  er_valid :: bool
  er_entropy :: rat
  er_details :: "jstr list"

definition not_uniform_text :: jstr where
  "not_uniform_text = lit ''Distribuci'' @ [243] @ lit ''n no uniforme detectada''"

definition repetitive_text :: jstr where
  "repetitive_text = lit ''Patrones repetitivos detectados''"

definition validate_password_entropy ::
  "(rat \<Rightarrow> rat) \<Rightarrow> number_format \<Rightarrow> jstr \<Rightarrow> entropy_report" where
  "validate_password_entropy log2 nf p =
     (if p = [] then \<lparr>er_valid = False, er_entropy = 0, er_details = [password_empty]\<rparr>
      else let entropy = calculate_string_entropy log2 p; bs = utf8_encode p in
        \<lparr>er_valid = (entropy \<ge> of_nat min_password_entropy), er_entropy = entropy,
         er_details =
           (if entropy < of_nat min_password_entropy
            then [lit ''Entrop'' @ [237] @ lit ''a insuficiente: '' @ nf_fixed nf entropy 1
                  @ lit '' bits (m'' @ [237] @ lit ''nimo: '' @ dec_nat min_password_entropy @ lit '')''] else [])
           @ (if is_uniform_distribution bs then [] else [not_uniform_text])
           @ (if has_no_repetitive_patterns bs then [] else [repetitive_text])\<rparr>)"

definition validate_bytes_entropy :: "number_format \<Rightarrow> bytes \<Rightarrow> entropy_report" where
  "validate_bytes_entropy nf bs =
     (if bs = [] then \<lparr>er_valid = False, er_entropy = 0,
         er_details = [lit ''Bytes vac'' @ [237] @ lit ''os'']\<rparr>
      else let entropy = of_nat (calculate_bytes_entropy bs); expected = of_nat (length bs * 8) in
        \<lparr>er_valid = (entropy \<ge> expected * (9 / 10)), er_entropy = entropy,
         er_details =
           (if entropy < expected * (9 / 10)
            then [lit ''Entrop'' @ [237] @ lit ''a baja: '' @ nf_fixed nf entropy 1 @ lit '' bits (esperado: ''
                  @ nf_text nf expected @ lit '')''] else [])
           @ (if is_uniform_distribution bs then [] else [not_uniform_text])\<rparr>)"

text \<open>Anything but an ASCII letter or digit counts as a symbol here.\<close>

definition estimate_password_entropy :: "(rat \<Rightarrow> rat) \<Rightarrow> jstr \<Rightarrow> rat" where
  "estimate_password_entropy log2 p =
     (if p = [] then 0 else of_nat (length p) * log2 (of_nat (charset_size (\<lambda>c. \<not> alnum c) p)))"

record hex_analysis =
  ha_valid :: bool
  ha_entropy :: nat
  ha_uniform :: bool
  ha_no_patterns :: bool
  ha_issues :: "jstr list"

text \<open>The bytes of clean hexadecimal text; an odd digit at the end is dropped.\<close>

fun hex_pairs :: "jstr \<Rightarrow> bytes" where
  "hex_pairs (a # b # s) =
     (case (hex_value a, hex_value b) of (Some x, Some y) \<Rightarrow> of_nat (x * 16 + y) | _ \<Rightarrow> 0) # hex_pairs s"
| "hex_pairs _ = []"

definition analyze_hex_string :: "jstr \<Rightarrow> hex_analysis" where
  "analyze_hex_string s =
     (let clean = clean_hex s; entropy = calculate_hex_entropy clean; bs = hex_pairs clean;
        uniform = is_uniform_distribution bs; no_patterns = has_no_repetitive_patterns bs
      in \<lparr>ha_valid = (entropy \<ge> 128 \<and> uniform \<and> no_patterns), ha_entropy = entropy,
          ha_uniform = uniform, ha_no_patterns = no_patterns,
          ha_issues = (if entropy < 128 then [lit ''Entrop'' @ [237] @ lit ''a baja''] else [])
            @ (if uniform then [] else [lit ''Distribuci'' @ [243] @ lit ''n no uniforme''])
            @ (if no_patterns then [] else [repetitive_text])\<rparr>)"

subsection \<open>Generation\<close>

record generated_credentials =
  gc_email :: jstr
  gc_password :: jstr
  gc_original_email :: jstr
  gc_original_password :: jstr
  gc_salt :: jstr
  gc_pepper :: jstr

type_synonym random_source = "nat \<Rightarrow> nat \<Rightarrow> 8 word"

definition random_values :: "random_source \<Rightarrow> nat \<Rightarrow> nat \<Rightarrow> bytes" where
  "random_values rnd call n = map (rnd call) [0..<n]"

definition generate_random_string :: "random_source \<Rightarrow> nat \<Rightarrow> nat \<Rightarrow> jstr" where
  "generate_random_string rnd call n = to_hex (random_values rnd call (n div 2))"

fun shuffle_from :: "nat \<Rightarrow> bytes \<Rightarrow> jstr \<Rightarrow> jstr" where
  "shuffle_from 0 r a = a"
| "shuffle_from (Suc i) r a =
     (let j = unat (r ! i) mod Suc i in shuffle_from i r (a[i := a ! j, j := a ! i]))"

definition shuffle_string :: "jstr \<Rightarrow> bytes \<Rightarrow> jstr" where
  "shuffle_string s r = shuffle_from (length s) r s"

definition uppercase_chars :: jstr where "uppercase_chars = [65..<91]"
definition lowercase_chars :: jstr where "lowercase_chars = [97..<123]"
definition number_chars :: jstr where "number_chars = [48..<58]"
definition symbol_chars :: jstr where "symbol_chars = lit ''!@#$%^&*()_+-=[]{}|;:,.<>?''"
definition all_chars :: jstr where
  "all_chars = uppercase_chars @ lowercase_chars @ number_chars @ symbol_chars"

definition pick :: "jstr \<Rightarrow> 8 word \<Rightarrow> nat" where
  "pick cs b = cs ! (unat b mod length cs)"

definition unshuffled_password :: "bytes \<Rightarrow> jstr" where
  "unshuffled_password r =
     [pick uppercase_chars (r ! 0), pick lowercase_chars (r ! 1), pick number_chars (r ! 2),
      pick symbol_chars (r ! 3)] @ map (\<lambda>i. pick all_chars (r ! i)) [4..<length r]"

definition generate_complex_password :: "random_source \<Rightarrow> nat \<Rightarrow> nat \<Rightarrow> jstr" where
  "generate_complex_password rnd call n =
     (let r = random_values rnd call n in shuffle_string (unshuffled_password r) r)"

definition generate_credentials :: "random_source \<Rightarrow> jstr \<Rightarrow> credentials_error + generated_credentials" where
  "generate_credentials rnd d =
     (if \<not> is_valid_domain d then Inl (Invalid_Domain d)
      else let salt = generate_random_string rnd 0 32 in
        (case validate_salt_entropy salt of Some e \<Rightarrow> Inl e
         | None \<Rightarrow> let pepper = generate_random_string rnd 1 32 in
           (case validate_pepper_entropy pepper of Some e \<Rightarrow> Inl e
            | None \<Rightarrow>
              let user = generate_random_string rnd 2 16; password = generate_complex_password rnd 3 32 in
              Inr \<lparr>gc_email = user @ [43] @ salt @ [64] @ d, gc_password = password @ [43] @ pepper,
                   gc_original_email = user @ [64] @ d, gc_original_password = password,
                   gc_salt = salt, gc_pepper = pepper\<rparr>)))"

text \<open>The conversion to the branded types, field after field.\<close>

definition to_strong :: "generated_credentials \<Rightarrow> credentials_error + generated_credentials" where
  "to_strong g =
     (case create_email_with_salt (gc_email g) of Inl e \<Rightarrow> Inl e | Inr em \<Rightarrow>
      (case create_password_with_pepper (gc_password g) of Inl e \<Rightarrow> Inl e | Inr pw \<Rightarrow>
       (case create_email_original (gc_original_email g) of Inl e \<Rightarrow> Inl e | Inr oe \<Rightarrow>
        (case create_password_original (gc_original_password g) of Inl e \<Rightarrow> Inl e | Inr op \<Rightarrow>
         (case create_salt (gc_salt g) of Inl e \<Rightarrow> Inl e | Inr sa \<Rightarrow>
          (case create_pepper (gc_pepper g) of Inl e \<Rightarrow> Inl e | Inr pe \<Rightarrow>
           Inr \<lparr>gc_email = em, gc_password = pw, gc_original_email = oe, gc_original_password = op,
                gc_salt = sa, gc_pepper = pe\<rparr>))))))"

definition generate_credentials_strong ::
  "random_source \<Rightarrow> jstr \<Rightarrow> credentials_error + generated_credentials" where
  "generate_credentials_strong rnd d =
     (case generate_credentials rnd d of Inl e \<Rightarrow> Inl e | Inr g \<Rightarrow> to_strong g)"

definition generate_credentials_execute ::
  "random_source \<Rightarrow> jstr \<Rightarrow> credentials_error + generated_credentials" where
  "generate_credentials_execute rnd d = generate_credentials rnd d"

subsection \<open>Extraction\<close>

record original_credentials =
  oc_email :: jstr
  oc_password :: jstr

text \<open>The text before the last plus sign and the text after it.\<close>

definition cut_last_plus :: "jstr \<Rightarrow> (jstr \<times> jstr) option" where
  "cut_last_plus s = (case cut_at 43 (rev s) of None \<Rightarrow> None | Some (v, u) \<Rightarrow> Some (rev u, rev v))"

definition extract_original_credentials ::
  "jstr \<Rightarrow> jstr \<Rightarrow> credentials_error + original_credentials" where
  "extract_original_credentials e p =
     (if e = [] \<or> trim e = [] then Inl (Invalid_Email_Format e (Some email_empty))
      else if p = [] \<or> trim p = [] then Inl (Invalid_Password_Format p (Some password_empty))
      else (case split_salted_email e of
          None \<Rightarrow> Inl (Invalid_Email_Format e (Some email_expected))
        | Some (u, salt, d) \<Rightarrow> (case cut_last_plus p of
              Some (base, pepper) \<Rightarrow>
                if base \<noteq> [] \<and> pepper \<noteq> [] then Inr \<lparr>oc_email = u @ [64] @ d, oc_password = base\<rparr>
                else Inl (Invalid_Password_Format p (Some password_expected))
            | None \<Rightarrow> Inl (Invalid_Password_Format p (Some password_expected)))))"

definition extract_original_credentials_strong ::
  "jstr \<Rightarrow> jstr \<Rightarrow> credentials_error + original_credentials" where
  "extract_original_credentials_strong e p =
     (case to_original_email e of Inl x \<Rightarrow> Inl x | Inr oe \<Rightarrow>
      (case to_original_password p of Inl x \<Rightarrow> Inl x | Inr op \<Rightarrow>
       Inr \<lparr>oc_email = oe, oc_password = op\<rparr>))"

definition extract_credentials_execute ::
  "jstr \<Rightarrow> jstr \<Rightarrow> credentials_error + original_credentials" where
  "extract_credentials_execute e p = extract_original_credentials_strong e p"

definition extract_salt :: "jstr \<Rightarrow> credentials_error + jstr" where
  "extract_salt e = (case validator_extract_salt e of
     Inl (Invalid_Email_Format x d) \<Rightarrow>
       Inl (Salt_Extraction x (Some (error_message (Invalid_Email_Format x d))))
   | r \<Rightarrow> r)"

definition extract_pepper :: "jstr \<Rightarrow> credentials_error + jstr" where
  "extract_pepper p = (case validator_extract_pepper p of
     Inl (Invalid_Password_Format x d) \<Rightarrow>
       Inl (Pepper_Extraction x (Some (error_message (Invalid_Password_Format x d))))
   | r \<Rightarrow> r)"

subsection \<open>Quality\<close>

record credentials_quality =
  cq_valid :: bool
  cq_salt :: hex_analysis
  cq_pepper :: hex_analysis
  cq_password_entropy :: rat
  cq_warnings :: "jstr list"

fun join_comma :: "jstr list \<Rightarrow> jstr" where
  "join_comma [] = []"
| "join_comma [x] = x"
| "join_comma (x # xs) = x @ [44, 32] @ join_comma xs"

definition analyze_credentials_quality ::
  "(rat \<Rightarrow> rat) \<Rightarrow> number_format \<Rightarrow> generated_credentials \<Rightarrow> credentials_quality" where
  "analyze_credentials_quality log2 nf g =
     (let sa = analyze_hex_string (gc_salt g); pe = analyze_hex_string (gc_pepper g);
        entropy = estimate_password_entropy log2 (gc_original_password g);
        warnings = (if ha_valid sa then [] else [lit ''Sal con problemas: '' @ join_comma (ha_issues sa)])
          @ (if ha_valid pe then [] else [lit ''Pimienta con problemas: '' @ join_comma (ha_issues pe)])
          @ (if entropy < of_nat min_password_entropy
             then [lit ''Password base con baja entrop'' @ [237] @ lit ''a: '' @ nf_fixed nf entropy 1 @ lit '' bits'']
             else [])
      in \<lparr>cq_valid = (warnings = []), cq_salt = sa, cq_pepper = pe, cq_password_entropy = entropy,
          cq_warnings = warnings\<rparr>)"

subsection \<open>What generation yields\<close>

lemma hex_char_digit: "n < 16 \<Longrightarrow> hex_char (hex_digit n)"
  by (auto simp: hex_char_def hex_digit_def is_digit_def)

lemma to_hex_chars: "c \<in> set (to_hex bs) \<Longrightarrow> hex_char c"
proof -
  assume "c \<in> set (to_hex bs)"
  then obtain b where b: "b \<in> set bs" "c = hex_digit (unat b div 16) \<or> c = hex_digit (unat b mod 16)"
    by (auto simp: to_hex_def nats_of_def)
  have "unat b div 16 < 16" using unat_byte_less [of b] by (simp add: less_mult_imp_div_less)
  then show ?thesis using b(2) hex_char_digit [of "unat b div 16"] hex_char_digit [of "unat b mod 16"] by auto
qed

lemma random_string_hex: "even n \<Longrightarrow> length (generate_random_string rnd k n) = n
    \<and> (\<forall>c \<in> set (generate_random_string rnd k n). hex_char c)"
  using to_hex_chars by (auto simp: generate_random_string_def random_values_def length_to_hex)

lemma random_string_hex32: "hex32 (generate_random_string rnd k 32)"
  using random_string_hex [of 32 rnd k] by (simp add: hex32_def)

lemma mset_shuffle_from: "i \<le> length a \<Longrightarrow> mset (shuffle_from i r a) = mset a"
proof (induction i r a rule: shuffle_from.induct)
  case (2 i r a)
  obtain j where j: "j = unat (r ! i) mod Suc i" by simp
  then have le: "j \<le> i" using mod_less_divisor [of "Suc i" "unat (r ! i)"] by simp
  have "mset (shuffle_from i r (a[i := a ! j, j := a ! i])) = mset (a[i := a ! j, j := a ! i])"
    using 2 j by (simp add: Let_def)
  also have "\<dots> = mset a" using 2(2) le by (intro mset_swap) simp_all
  finally show ?case using j by (simp add: Let_def)
qed simp

lemma mset_shuffle_string: "mset (shuffle_string s r) = mset s"
  by (simp add: shuffle_string_def mset_shuffle_from)

lemma pick_in: "cs \<noteq> [] \<Longrightarrow> pick cs b \<in> set cs"
  by (simp add: pick_def)

lemma picked_chars: "c \<in> set all_chars \<Longrightarrow> password_char c \<and> \<not> js_space c \<and> \<not> line_terminator c"
proof -
  have s: "\<forall>c \<in> set symbol_chars. password_char c \<and> \<not> js_space c \<and> \<not> line_terminator c"
    by (simp add: symbol_chars_def lit_def password_char_def js_space_def line_terminator_def)
  have a: "alnum c \<Longrightarrow> password_char c \<and> \<not> js_space c \<and> \<not> line_terminator c" for c
    by (auto simp: password_char_def alnum_def ascii_letter_def is_digit_def js_space_def line_terminator_def)
  have "c \<in> set all_chars \<Longrightarrow> c \<in> set symbol_chars \<or> alnum c"
    by (auto simp: all_chars_def uppercase_chars_def lowercase_chars_def number_chars_def alnum_def
        ascii_letter_def is_digit_def)
  then show "c \<in> set all_chars \<Longrightarrow> ?thesis" using s a by blast
qed

lemma unshuffled_chars: "c \<in> set (unshuffled_password r) \<Longrightarrow> c \<in> set all_chars"
proof -
  have ne: "uppercase_chars \<noteq> []" "lowercase_chars \<noteq> []" "number_chars \<noteq> []" "symbol_chars \<noteq> []" "all_chars \<noteq> []"
    by (simp_all add: uppercase_chars_def lowercase_chars_def number_chars_def symbol_chars_def all_chars_def lit_def)
  have sub: "set uppercase_chars \<subseteq> set all_chars" "set lowercase_chars \<subseteq> set all_chars"
    "set number_chars \<subseteq> set all_chars" "set symbol_chars \<subseteq> set all_chars"
    by (auto simp: all_chars_def)
  show "c \<in> set (unshuffled_password r) \<Longrightarrow> ?thesis"
    using subsetD [OF sub(1) pick_in [OF ne(1)]] subsetD [OF sub(2) pick_in [OF ne(2)]]
      subsetD [OF sub(3) pick_in [OF ne(3)]] subsetD [OF sub(4) pick_in [OF ne(4)]] pick_in [OF ne(5)]
    by (auto simp: unshuffled_password_def)
qed

lemma complex_password:
  assumes "4 \<le> n"
  shows "length (generate_complex_password rnd k n) = n"
    and "c \<in> set (generate_complex_password rnd k n) \<Longrightarrow> c \<in> set all_chars"
proof -
  obtain r where r: "r = random_values rnd k n" by simp
  then have len: "length r = n" by (simp add: random_values_def)
  have m: "mset (generate_complex_password rnd k n) = mset (unshuffled_password r)"
    by (simp add: generate_complex_password_def mset_shuffle_string r Let_def)
  show "length (generate_complex_password rnd k n) = n"
    using mset_eq_length [OF m] assms len by (simp add: unshuffled_password_def)
  show "c \<in> set (generate_complex_password rnd k n) \<Longrightarrow> c \<in> set all_chars"
    using mset_eq_setD [OF m] unshuffled_chars by simp
qed

text \<open>Every generated password draws from each of the four classes.\<close>

lemma complex_password_classes:
  assumes "4 \<le> n"
  shows "\<exists>c \<in> set (generate_complex_password rnd k n). upper_letter c"
    and "\<exists>c \<in> set (generate_complex_password rnd k n). lower_letter c"
    and "\<exists>c \<in> set (generate_complex_password rnd k n). is_digit c"
    and "\<exists>c \<in> set (generate_complex_password rnd k n). special_char c"
proof -
  obtain r where r: "r = random_values rnd k n" by simp
  have m: "mset (generate_complex_password rnd k n) = mset (unshuffled_password r)"
    by (simp add: generate_complex_password_def mset_shuffle_string r Let_def)
  have s: "set (generate_complex_password rnd k n) = set (unshuffled_password r)" using mset_eq_setD [OF m] .
  have "pick uppercase_chars (r ! 0) \<in> set uppercase_chars" by (rule pick_in) (simp add: uppercase_chars_def)
  then show "\<exists>c \<in> set (generate_complex_password rnd k n). upper_letter c"
    unfolding s by (intro bexI [of _ "pick uppercase_chars (r ! 0)"])
      (auto simp: unshuffled_password_def uppercase_chars_def upper_letter_def)
  have "pick lowercase_chars (r ! 1) \<in> set lowercase_chars" by (rule pick_in) (simp add: lowercase_chars_def)
  then show "\<exists>c \<in> set (generate_complex_password rnd k n). lower_letter c"
    unfolding s by (intro bexI [of _ "pick lowercase_chars (r ! 1)"])
      (auto simp: unshuffled_password_def lowercase_chars_def lower_letter_def)
  have "pick number_chars (r ! 2) \<in> set number_chars" by (rule pick_in) (simp add: number_chars_def)
  then show "\<exists>c \<in> set (generate_complex_password rnd k n). is_digit c"
    unfolding s by (intro bexI [of _ "pick number_chars (r ! 2)"])
      (auto simp: unshuffled_password_def number_chars_def is_digit_def)
  have "\<forall>c \<in> set symbol_chars. special_char c"
    by (simp add: symbol_chars_def lit_def special_char_def password_char_def alnum_def ascii_letter_def is_digit_def)
  moreover have "pick symbol_chars (r ! 3) \<in> set symbol_chars" by (rule pick_in) (simp add: symbol_chars_def lit_def)
  ultimately show "\<exists>c \<in> set (generate_complex_password rnd k n). special_char c"
    unfolding s by (intro bexI [of _ "pick symbol_chars (r ! 3)"]) (auto simp: unshuffled_password_def)
qed

text \<open>The text of the credentials for a valid domain, and the facts about its parts.\<close>

definition credentials_of :: "random_source \<Rightarrow> jstr \<Rightarrow> generated_credentials" where
  "credentials_of rnd d =
     (let user = generate_random_string rnd 2 16; salt = generate_random_string rnd 0 32;
        pepper = generate_random_string rnd 1 32; password = generate_complex_password rnd 3 32
      in \<lparr>gc_email = user @ [43] @ salt @ [64] @ d, gc_password = password @ [43] @ pepper,
          gc_original_email = user @ [64] @ d, gc_original_password = password,
          gc_salt = salt, gc_pepper = pepper\<rparr>)"

lemma hex32_entropy: "hex32 s \<Longrightarrow> validate_salt_entropy s = None \<and> validate_pepper_entropy s = None"
  by (auto simp: hex32_def validate_salt_entropy_def validate_pepper_entropy_def calculate_hex_entropy_def
      clean_hex_def min_entropy_def)

lemma generate_credentials_valid:
  "is_valid_domain d \<Longrightarrow> generate_credentials rnd d = Inr (credentials_of rnd d)"
  by (simp add: generate_credentials_def credentials_of_def hex32_entropy random_string_hex32 Let_def)

lemma hex_email_char: "hex_char c \<Longrightarrow> email_char c \<and> \<not> js_space c"
  by (auto simp: hex_char_def email_char_def alnum_def ascii_letter_def is_digit_def js_space_def)

lemma user_chars:
  "length (generate_random_string rnd 2 16) = 16"
  "c \<in> set (generate_random_string rnd 2 16) \<Longrightarrow> email_char c \<and> c \<noteq> 43 \<and> c \<noteq> 64 \<and> \<not> js_space c \<and> \<not> line_terminator c"
  using random_string_hex [of 16 rnd 2] hex_email_char hex_not_special by auto

lemma hex32_chars:
  "hex32 s \<Longrightarrow> c \<in> set s \<Longrightarrow> c \<noteq> 43 \<and> c \<noteq> 64 \<and> \<not> js_space c \<and> \<not> line_terminator c"
  using hex_email_char hex_not_special by (auto simp: hex32_def)

lemma credentials_well_formed:
  assumes d: "is_valid_domain d"
  shows "matches_email_with_salt (gc_email (credentials_of rnd d))"
    and "matches_password_with_pepper (gc_password (credentials_of rnd d))"
    and "43 \<notin> set (gc_original_email (credentials_of rnd d))"
    and "hex32_suffix (gc_original_password (credentials_of rnd d)) = None"
proof -
  obtain u s p w where v: "u = generate_random_string rnd 2 16" "s = generate_random_string rnd 0 32"
    "p = generate_random_string rnd 1 32" "w = generate_complex_password rnd 3 32" by simp
  have dm: "matches_domain d" using d by (simp add: is_valid_domain_def)
  have hs: "hex32 s" "hex32 p" using v random_string_hex32 by simp_all
  have u: "u \<noteq> []" "\<forall>c \<in> set u. email_char c \<and> c \<noteq> 43 \<and> c \<noteq> 64"
    using user_chars(1) [of rnd] user_chars(2) [of _ rnd] v(1) by auto
  have w: "length w = 32" "\<forall>c \<in> set w. password_char c"
    using complex_password(1) [of 32 rnd 3] complex_password(2) [of 32 _ rnd 3] picked_chars v(4) by auto
  have "64 \<notin> set (u @ 43 # s)" using u(2) hex32_chars [OF hs(1)] by auto
  from cut_at_append [OF this, of d] have cut: "cut_at 64 (u @ 43 # s @ 64 # d) = Some (u @ 43 # s, d)" by simp
  show "matches_email_with_salt (gc_email (credentials_of rnd d))"
    using u dm hs v cut by (simp add: credentials_of_def Let_def matches_email_with_salt_def hex32_suffix_append)
  show "matches_password_with_pepper (gc_password (credentials_of rnd d))"
    using w hs v by (simp add: credentials_of_def Let_def matches_password_with_pepper_def hex32_suffix_append
        matches_password_base_def)
  show "43 \<notin> set (gc_original_email (credentials_of rnd d))"
    using u domain_not_special [OF dm] v by (auto simp: credentials_of_def Let_def)
  show "hex32_suffix (gc_original_password (credentials_of rnd d)) = None"
    using w(1) hex32_suffix_length [of w] v by (cases "hex32_suffix w") (simp_all add: credentials_of_def Let_def)
qed

subsection \<open>The generated texts read back\<close>

lemma cut_last_plus_append: "43 \<notin> set t \<Longrightarrow> cut_last_plus (u @ 43 # t) = Some (u, t)"
  using cut_at_append [of 43 "rev t" "rev u"] by (simp add: cut_last_plus_def)

lemma split_salted_email_append:
  "43 \<notin> set u \<Longrightarrow> 64 \<notin> set s \<Longrightarrow> u \<noteq> [] \<Longrightarrow> s \<noteq> [] \<Longrightarrow> dots d \<Longrightarrow>
   split_salted_email (u @ 43 # s @ 64 # d) = Some (u, s, d)"
  by (simp add: split_salted_email_def cut_at_append)

lemma last_salted_none: "43 \<notin> set s \<Longrightarrow> last_salted u s = None"
  by (induction s arbitrary: u) auto

lemma last_salted_append:
  "43 \<notin> set v \<Longrightarrow> 43 \<notin> set t \<Longrightarrow> dots (u @ v) \<Longrightarrow> hex32 (take 32 t) \<Longrightarrow> starts_with (drop 32 t) [64] \<Longrightarrow>
   dots (drop 33 t) \<Longrightarrow> last_salted u (v @ 43 # t) = Some (u @ v, drop 33 t)"
  by (induction v arbitrary: u) (auto simp: last_salted_none)

lemma trim_unit: "\<forall>c \<in> set s. \<not> js_space c \<Longrightarrow> s \<noteq> [] \<Longrightarrow> trim s \<noteq> []"
  by (simp add: trim_no_space)

lemma trim_start_nonspace: "\<not> js_space c \<Longrightarrow> trim (c # s) \<noteq> []"
proof -
  assume c: "\<not> js_space c"
  then have "trim (c # s) = rev (dropWhile js_space (rev s @ [c]))" by (simp add: trim_def)
  moreover have "dropWhile js_space (rev s @ [c]) \<noteq> []" using c by (auto simp: dropWhile_eq_Nil_conv)
  ultimately show ?thesis by simp
qed

lemma trim_nonspace_append: "u \<noteq> [] \<Longrightarrow> \<forall>c \<in> set u. \<not> js_space c \<Longrightarrow> trim (u @ s) \<noteq> []"
  by (cases u) (auto simp: trim_start_nonspace)

lemma extract_generated:
  assumes d: "is_valid_domain d"
  obtains u s p w where
    "credentials_of rnd d = \<lparr>gc_email = u @ 43 # s @ 64 # d, gc_password = w @ 43 # p,
       gc_original_email = u @ 64 # d, gc_original_password = w, gc_salt = s, gc_pepper = p\<rparr>"
    "u \<noteq> []" "w \<noteq> []" "43 \<notin> set u" "dots u" "dots w" "dots d" "43 \<notin> set d" "hex32 s" "hex32 p"
    "trim (u @ 43 # s @ 64 # d) \<noteq> []" "trim (w @ 43 # p) \<noteq> []"
proof -
  obtain u s p w where v: "u = generate_random_string rnd 2 16" "s = generate_random_string rnd 0 32"
    "p = generate_random_string rnd 1 32" "w = generate_complex_password rnd 3 32" by simp
  have dm: "matches_domain d" "d \<noteq> []" using d by (simp_all add: is_valid_domain_def)
  then have dn: "43 \<notin> set d" "\<forall>c \<in> set d. \<not> line_terminator c" using domain_not_special by blast+
  have u: "u \<noteq> []" "\<forall>c \<in> set u. c \<noteq> 43 \<and> \<not> js_space c \<and> \<not> line_terminator c"
    using user_chars(1) [of rnd] user_chars(2) [of _ rnd] v(1) by auto
  have w: "w \<noteq> []" "\<forall>c \<in> set w. \<not> js_space c \<and> \<not> line_terminator c"
    using complex_password(1) [of 32 rnd 3] complex_password(2) [of 32 _ rnd 3] picked_chars v(4) by auto
  show thesis
  proof (rule that [of u s w p])
    show "credentials_of rnd d = \<lparr>gc_email = u @ 43 # s @ 64 # d, gc_password = w @ 43 # p,
       gc_original_email = u @ 64 # d, gc_original_password = w, gc_salt = s, gc_pepper = p\<rparr>"
      using v by (simp add: credentials_of_def Let_def)
  qed (use u w dm(2) dn v random_string_hex32 trim_nonspace_append in \<open>auto simp: dots_def\<close>)
qed

lemma extraction_inverts:
  assumes d: "is_valid_domain d"
  shows "extract_original_credentials (gc_email (credentials_of rnd d)) (gc_password (credentials_of rnd d))
      = Inr \<lparr>oc_email = gc_original_email (credentials_of rnd d), oc_password = gc_original_password (credentials_of rnd d)\<rparr>"
    and "extract_original_credentials_strong (gc_email (credentials_of rnd d)) (gc_password (credentials_of rnd d))
      = Inr \<lparr>oc_email = gc_original_email (credentials_of rnd d), oc_password = gc_original_password (credentials_of rnd d)\<rparr>"
proof -
  note wf = credentials_well_formed [OF d, of rnd]
  obtain u s p w where c: "credentials_of rnd d = \<lparr>gc_email = u @ 43 # s @ 64 # d, gc_password = w @ 43 # p,
       gc_original_email = u @ 64 # d, gc_original_password = w, gc_salt = s, gc_pepper = p\<rparr>"
    and f: "u \<noteq> []" "w \<noteq> []" "43 \<notin> set u" "dots u" "dots w" "dots d" "43 \<notin> set d" "hex32 s" "hex32 p"
      "trim (u @ 43 # s @ 64 # d) \<noteq> []" "trim (w @ 43 # p) \<noteq> []"
    by (rule extract_generated [OF d])
  have h: "43 \<notin> set s" "64 \<notin> set s" "43 \<notin> set p" "s \<noteq> []" "p \<noteq> []" "length s = 32"
    using hex32_chars [OF f(8)] hex32_chars [OF f(9)] f(8,9) by (auto simp: hex32_def)
  show "extract_original_credentials (gc_email (credentials_of rnd d)) (gc_password (credentials_of rnd d))
      = Inr \<lparr>oc_email = gc_original_email (credentials_of rnd d), oc_password = gc_original_password (credentials_of rnd d)\<rparr>"
    using f h by (simp add: c extract_original_credentials_def split_salted_email_append cut_last_plus_append)
  have "last_salted [] (u @ 43 # (s @ 64 # d)) = Some ([] @ u, drop 33 (s @ 64 # d))"
    using f h by (intro last_salted_append) (simp_all add: starts_with_def)
  then have e: "to_original_email (u @ 43 # s @ 64 # d) = Inr (u @ 64 # d)"
    using f h wf(3) by (simp add: to_original_email_def create_email_original_def c)
  have p: "to_original_password (w @ 43 # p) = Inr w"
    using f h wf(4) by (simp add: to_original_password_def hex32_suffix_append create_password_original_def c)
  show "extract_original_credentials_strong (gc_email (credentials_of rnd d)) (gc_password (credentials_of rnd d))
      = Inr \<lparr>oc_email = gc_original_email (credentials_of rnd d), oc_password = gc_original_password (credentials_of rnd d)\<rparr>"
    by (simp add: c extract_original_credentials_strong_def e p)
qed

subsection \<open>The distribution test\<close>

lemma sum_frequency: "\<forall>x \<in> set xs. x < n \<Longrightarrow> sum_list (map (count_list xs) [0..<n]) = length xs"
proof (induction xs)
  case Nil
  show ?case by (induction n) auto
next
  case (Cons x xs)
  have "sum_list (map (count_list (x # xs)) [0..<n]) = (\<Sum>k<n. count_list (x # xs) k)"
    by (simp add: interv_sum_list_conv_sum_set_nat lessThan_atLeast0)
  also have "\<dots> = (\<Sum>k<n. count_list xs k + (if k = x then 1 else 0))"
    by (rule sum.cong) auto
  also have "\<dots> = (\<Sum>k<n. count_list xs k) + 1"
    using Cons.prems by (simp add: sum.distrib)
  finally show ?case using Cons by (simp add: interv_sum_list_conv_sum_set_nat lessThan_atLeast0)
qed

lemma spread_bound:
  fixes m :: rat
  shows "sum_list (map (\<lambda>n. (of_nat n - m)\<^sup>2) ns)
     \<ge> of_nat (sum_list ns) * (1 - 2 * m) + of_nat (length ns) * m\<^sup>2"
proof (induction ns)
  case (Cons n ns)
  have sq: "(of_nat n :: rat) \<le> (of_nat n)\<^sup>2"
  proof -
    have "n \<le> n\<^sup>2" by (simp add: power2_nat_le_imp_le power2_eq_square)
    then show ?thesis using of_nat_le_iff [of n "n\<^sup>2", where 'a = rat] by simp
  qed
  have "(of_nat n - m)\<^sup>2 = (of_nat n)\<^sup>2 - 2 * m * of_nat n + m\<^sup>2"
    by (simp add: power2_diff)
  then have "(of_nat n - m)\<^sup>2 \<ge> of_nat n * (1 - 2 * m) + m\<^sup>2"
    using sq by (simp add: algebra_simps)
  then show ?case using Cons by (simp add: algebra_simps)
qed simp

lemma uniform_needs_many_bytes: "is_uniform_distribution bs \<Longrightarrow> 247 \<le> length bs"
proof (rule ccontr)
  assume u: "is_uniform_distribution bs" and n: "\<not> 247 \<le> length bs"
  obtain L where L: "L = (of_nat (length bs) :: rat)" by simp
  have pos: "L > 0" using u L by (simp add: is_uniform_distribution_def)
  have le: "L \<le> 246" using n L of_nat_le_iff [of "length bs" 246, where 'a = rat] by simp
  have total: "sum_list (byte_frequency bs) = length bs"
    unfolding byte_frequency_def using sum_frequency [of "nats_of bs" 256] unat_byte_less
    by (auto simp: nats_of_def)
  have size: "length (byte_frequency bs) = 256" by (simp add: byte_frequency_def)
  have "sum_list (map (\<lambda>n. (of_nat n - L / 256)\<^sup>2) (byte_frequency bs)) / 256 \<le> (L / 256 / 5)\<^sup>2"
    using u L by (simp add: is_uniform_distribution_def Let_def)
  moreover have "sum_list (map (\<lambda>n. (of_nat n - L / 256)\<^sup>2) (byte_frequency bs))
      \<ge> L * (1 - 2 * (L / 256)) + 256 * (L / 256)\<^sup>2"
    using spread_bound [of "byte_frequency bs" "L / 256"] by (simp add: total size L)
  ultimately have "L * (1 - 2 * (L / 256)) + 256 * (L / 256)\<^sup>2 \<le> 256 * (L / 256 / 5)\<^sup>2" by simp
  then have "L * 6400 \<le> L * (L * 26)" by (simp add: power2_eq_square field_simps)
  then have "6400 \<le> L * 26" using pos by simp
  then show False using le by simp
qed

lemma length_hex_pairs: "length (hex_pairs s) = length s div 2"
  by (induction s rule: hex_pairs.induct) simp_all

lemma analysis_of_short_hex: "length s < 494 \<Longrightarrow> \<not> ha_valid (analyze_hex_string s)"
proof -
  assume s: "length s < 494"
  have "length (clean_hex s) \<le> length s" by (simp add: clean_hex_def)
  then have "length (hex_pairs (clean_hex s)) < 247" using s by (simp add: length_hex_pairs)
  then show ?thesis using uniform_needs_many_bytes [of "hex_pairs (clean_hex s)"]
    by (auto simp: analyze_hex_string_def Let_def)
qed

lemma generated_quality_rejected:
  "is_valid_domain d \<Longrightarrow> \<not> cq_valid (analyze_credentials_quality log2 nf (credentials_of rnd d))"
proof -
  have "length (gc_salt (credentials_of rnd d)) = 32"
    using random_string_hex32 [of rnd 0] by (simp add: credentials_of_def Let_def hex32_def)
  then have "\<not> ha_valid (analyze_hex_string (gc_salt (credentials_of rnd d)))"
    by (intro analysis_of_short_hex) simp
  then show ?thesis by (simp add: analyze_credentials_quality_def Let_def)
qed

end
