(* ===== verification/Resilience.thy ===== *)
theory Resilience
  imports Complex_Main Prelude Jti_Store
begin

text \<open>Retries and circuit breakers, which every call to a database, a node or another service goes through.\<close>

section \<open>Retries\<close>

text \<open>
  Retry with exponential backoff: src/src/shared/retry.ts.  The retried function
  is a state transformer \<^verbatim>\<open>'s \<Rightarrow> ('e + 'a) \<times> 's\<close>, so that what it does to the world
  happens once per attempt; its error is what \<^verbatim>\<open>error.message\<close> reads.  Delays are
  exact rationals and \<^verbatim>\<open>Math.random()\<close> is a parameter, one draw per attempt.
  Sleeping changes nothing but time: the delays slept are returned beside the
  outcome, in order.
\<close>

type_synonym ('s, 'e, 'a) action = "'s \<Rightarrow> ('e + 'a) \<times> 's"

record retry_options =
  ro_max_attempts :: int
  ro_base_delay :: rat
  ro_max_delay :: rat
  ro_backoff :: rat
  ro_retryable :: "jstr list option"

definition default_retry_options :: retry_options where
  "default_retry_options =
     \<lparr>ro_max_attempts = 3, ro_base_delay = 100, ro_max_delay = 5000, ro_backoff = 2,
      ro_retryable = None\<rparr>"

definition is_error_retryable :: "jstr \<Rightarrow> jstr list option \<Rightarrow> bool" where
  "is_error_retryable message patterns = (case patterns of
     None \<Rightarrow> True
   | Some [] \<Rightarrow> True
   | Some ps \<Rightarrow> (\<exists>p \<in> set ps. includes_text message p))"

definition calculate_delay :: "nat \<Rightarrow> retry_options \<Rightarrow> rat \<Rightarrow> rat" where
  "calculate_delay attempt opts random =
     (let delay = min (ro_base_delay opts * ro_backoff opts ^ (attempt - 1)) (ro_max_delay opts)
      in delay * (1/2 + random * (1/2)))"

text \<open>
  What the loop leaves: the value returned, the last error thrown, or \<^verbatim>\<open>undefined\<close>
  thrown when no attempt is allowed.
\<close>

datatype ('e, 'a) retried = Returned 'a | Threw 'e | Threw_Undefined

function retry_loop ::
    "('s, jstr, 'a) action \<Rightarrow> retry_options \<Rightarrow> (nat \<Rightarrow> rat) \<Rightarrow> nat \<Rightarrow> 's
       \<Rightarrow> (jstr, 'a) retried \<times> 's \<times> rat list" where
  "retry_loop fn opts random attempt s =
     (if int attempt > ro_max_attempts opts then (Threw_Undefined, s, [])
      else (case fn s of
          (Inr v, s') \<Rightarrow> (Returned v, s', [])
        | (Inl e, s') \<Rightarrow>
            if int attempt = ro_max_attempts opts then (Threw e, s', [])
            else if \<not> is_error_retryable e (ro_retryable opts) then (Threw e, s', [])
            else (case retry_loop fn opts random (Suc attempt) s' of
                (r, s'', ds) \<Rightarrow> (r, s'', calculate_delay attempt opts (random attempt) # ds))))"
  by pat_completeness auto
termination
  by (relation "measure (\<lambda>(fn, opts, random, attempt, s). nat (ro_max_attempts opts + 1 - int attempt))")
    auto

declare retry_loop.simps [simp del]

definition with_retry ::
    "('s, jstr, 'a) action \<Rightarrow> retry_options \<Rightarrow> (nat \<Rightarrow> rat) \<Rightarrow> 's
       \<Rightarrow> (jstr, 'a) retried \<times> 's \<times> rat list" where
  "with_retry fn opts random s = retry_loop fn opts random 1 s"

subsection \<open>The loop, case by case\<close>

lemma retry_over:
  "ro_max_attempts opts < int k \<Longrightarrow> retry_loop fn opts random k s = (Threw_Undefined, s, [])"
  by (simp add: retry_loop.simps)

lemma retry_return:
  "int k \<le> ro_max_attempts opts \<Longrightarrow> fn s = (Inr v, s')
    \<Longrightarrow> retry_loop fn opts random k s = (Returned v, s', [])"
  by (simp add: retry_loop.simps)

lemma retry_stop:
  "int k \<le> ro_max_attempts opts \<Longrightarrow> fn s = (Inl e, s')
    \<Longrightarrow> int k = ro_max_attempts opts \<or> \<not> is_error_retryable e (ro_retryable opts)
    \<Longrightarrow> retry_loop fn opts random k s = (Threw e, s', [])"
  by (auto simp: retry_loop.simps)

lemma retry_again:
  "int k < ro_max_attempts opts \<Longrightarrow> fn s = (Inl e, s') \<Longrightarrow> is_error_retryable e (ro_retryable opts)
    \<Longrightarrow> retry_loop fn opts random k s = (case retry_loop fn opts random (Suc k) s' of
          (r, s'', ds) \<Rightarrow> (r, s'', calculate_delay k opts (random k) # ds))"
  by (simp add: retry_loop.simps [of _ _ _ k])

lemmas retry_cases = retry_over retry_return retry_stop retry_again

text \<open>Induction over the attempts left, one case per way an attempt ends.\<close>

lemma retry_induct [case_names over return stop again]:
  assumes "\<And>k s. ro_max_attempts opts < int k \<Longrightarrow> P k s (Threw_Undefined, s, [])"
    and "\<And>k s v s'. int k \<le> ro_max_attempts opts \<Longrightarrow> fn s = (Inr v, s') \<Longrightarrow> P k s (Returned v, s', [])"
    and "\<And>k s e s'. int k \<le> ro_max_attempts opts \<Longrightarrow> fn s = (Inl e, s')
      \<Longrightarrow> int k = ro_max_attempts opts \<or> \<not> is_error_retryable e (ro_retryable opts)
      \<Longrightarrow> P k s (Threw e, s', [])"
    and "\<And>k s e s' r s'' ds. int k < ro_max_attempts opts \<Longrightarrow> fn s = (Inl e, s')
      \<Longrightarrow> is_error_retryable e (ro_retryable opts)
      \<Longrightarrow> retry_loop fn opts random (Suc k) s' = (r, s'', ds) \<Longrightarrow> P (Suc k) s' (r, s'', ds)
      \<Longrightarrow> P k s (r, s'', calculate_delay k opts (random k) # ds)"
  shows "P k s (retry_loop fn opts random k s)"
proof (induction "nat (ro_max_attempts opts + 1 - int k)" arbitrary: k s)
  case 0
  then show ?case using assms(1) [of k s] by (simp add: retry_over)
next
  case (Suc n)
  then have k: "int k \<le> ro_max_attempts opts" and n: "n = nat (ro_max_attempts opts + 1 - int (Suc k))"
    by auto
  obtain x s' where fn: "fn s = (x, s')" by (cases "fn s")
  show ?case
  proof (cases x)
    case (Inr v)
    then show ?thesis using assms(2) k fn by (simp add: retry_return)
  next
    case (Inl e)
    show ?thesis
    proof (cases "int k = ro_max_attempts opts \<or> \<not> is_error_retryable e (ro_retryable opts)")
      case True
      then show ?thesis using assms(3) [of k s e s'] k fn Inl by (simp add: retry_stop)
    next
      case False
      obtain r s'' ds where rec: "retry_loop fn opts random (Suc k) s' = (r, s'', ds)"
        by (cases "retry_loop fn opts random (Suc k) s'")
      have "P (Suc k) s' (r, s'', ds)" using Suc.hyps(1) [OF n, of s'] rec by simp
      then show ?thesis using assms(4) [of k s e s' r s'' ds] k fn Inl False rec
        by (simp add: retry_again)
    qed
  qed
qed

text \<open>
  What the loop must come to, without the loop: the state of the world after \<^verbatim>\<open>k\<close> runs of the
  function, what the run after them says, and the outcome these determine.  All runs
  before the last failed in a way that is retried and were followed by their delay; the
  last run is the outcome, and its error is final or the attempts are used up.
\<close>

primrec world_before :: "('s, 'e, 'a) action \<Rightarrow> 's \<Rightarrow> nat \<Rightarrow> 's" where
  "world_before fn s 0 = s"
| "world_before fn s (Suc k) = world_before fn (snd (fn s)) k"

definition run_result :: "('s, 'e, 'a) action \<Rightarrow> 's \<Rightarrow> nat \<Rightarrow> 'e + 'a" where
  "run_result fn s k = fst (fn (world_before fn s k))"

lemma run_result_simps [simp]:
  "run_result fn s 0 = fst (fn s)" "run_result fn s (Suc k) = run_result fn (snd (fn s)) k"
  by (simp_all add: run_result_def)

definition retries_to ::
  "('s, jstr, 'a) action \<Rightarrow> retry_options \<Rightarrow> (nat \<Rightarrow> rat) \<Rightarrow> nat \<Rightarrow> 's
     \<Rightarrow> (jstr, 'a) retried \<times> 's \<times> rat list \<Rightarrow> bool" where
  "retries_to fn opts random k s out \<longleftrightarrow> (case out of (r, s', ds) \<Rightarrow>
     int (k + length ds) \<le> ro_max_attempts opts \<and> s' = world_before fn s (Suc (length ds))
     \<and> (\<forall>j < length ds. ds ! j = calculate_delay (k + j) opts (random (k + j))
          \<and> (\<exists>e. run_result fn s j = Inl e \<and> is_error_retryable e (ro_retryable opts)))
     \<and> (case run_result fn s (length ds) of
          Inr v \<Rightarrow> r = Returned v
        | Inl e \<Rightarrow> r = Threw e \<and> (int (k + length ds) = ro_max_attempts opts
             \<or> \<not> is_error_retryable e (ro_retryable opts))))"

lemma retry_loop_outcome:
  "int k \<le> ro_max_attempts opts \<longrightarrow> retries_to fn opts random k s (retry_loop fn opts random k s)"
proof (rule retry_induct [where P = "\<lambda>k s out. int k \<le> ro_max_attempts opts \<longrightarrow> retries_to fn opts random k s out"])
  fix k s e s' r s'' ds
  assume "int k < ro_max_attempts opts" "fn s = (Inl e, s')" "is_error_retryable e (ro_retryable opts)"
    and "int (Suc k) \<le> ro_max_attempts opts \<longrightarrow> retries_to fn opts random (Suc k) s' (r, s'', ds)"
  then show "int k \<le> ro_max_attempts opts
      \<longrightarrow> retries_to fn opts random k s (r, s'', calculate_delay k opts (random k) # ds)"
    by (auto simp: retries_to_def All_less_Suc2 split: sum.splits)
qed (auto simp: retries_to_def)

lemma calculate_delay_bounds:
  assumes "0 \<le> random" "random < 1"
    and "0 < ro_base_delay opts" "0 < ro_max_delay opts" "0 < ro_backoff opts"
  shows "0 < calculate_delay k opts random \<and> calculate_delay k opts random < ro_max_delay opts"
proof -
  obtain d f where d_def: "d = min (ro_base_delay opts * ro_backoff opts ^ (k - 1)) (ro_max_delay opts)"
    and f_def: "f = (1/2 + random * (1/2) :: rat)" by simp
  have d: "0 < d" "d \<le> ro_max_delay opts" using assms by (auto simp: d_def)
  have f: "0 < f" "f < 1" using assms by (auto simp: f_def)
  have "d * f < d" using d f by (simp add: mult_less_cancel_left2)
  then have "d * f < ro_max_delay opts" using d(2) by (rule less_le_trans)
  moreover have "0 < d * f" using d f by simp
  moreover have "calculate_delay k opts random = d * f"
    by (simp add: calculate_delay_def d_def f_def Let_def)
  ultimately show ?thesis by simp
qed

lemma retry_loop_delays:
  assumes "\<And>n. 0 \<le> random n \<and> random n < 1"
    and "0 < ro_base_delay opts" "0 < ro_max_delay opts" "0 < ro_backoff opts"
  shows "case retry_loop fn opts random k s of (r, s', ds) \<Rightarrow> \<forall>d \<in> set ds. 0 < d \<and> d < ro_max_delay opts"
  by (rule retry_induct [where P = "\<lambda>k s out. case out of (r, s', ds) \<Rightarrow>
        \<forall>d \<in> set ds. 0 < d \<and> d < ro_max_delay opts"])
     (use assms calculate_delay_bounds in auto)

text \<open>A function that keeps an invariant of the world keeps it through every retry.\<close>

lemma retry_loop_preserves:
  assumes "\<And>s. I s \<Longrightarrow> I (snd (fn s))"
  shows "I s \<longrightarrow> I (fst (snd (retry_loop fn opts random k s)))"
  by (rule retry_induct [where P = "\<lambda>k s out. I s \<longrightarrow> I (fst (snd out))"])
     (use assms in \<open>force+\<close>)

lemma retry_first_success:
  "fn s = (Inr v, s') \<Longrightarrow> 1 \<le> ro_max_attempts opts
    \<Longrightarrow> with_retry fn opts random s = (Returned v, s', [])"
  by (simp add: with_retry_def retry_return)

section \<open>Circuit breakers\<close>

text \<open>
  The two circuit breakers of the server: the generic one of
  src/src/shared/circuit-breaker.ts, which the repositories run their queries
  through, and the one built into src/src/infrastructure/plus/plus-bridge.ts, which
  guards the requests Core makes to Plus.  The contract they share is the locale
  \<^verbatim>\<open>circuit\<close>; times are milliseconds and every reading of the clock is an
  argument.
\<close>

subsection \<open>The generic breaker\<close>

datatype circuit_state = Circuit_Closed | Circuit_Open | Circuit_Half_Open

record circuit_options =
  co_failure_threshold :: nat
  co_success_threshold :: nat
  co_reset_timeout :: int
  co_monitor_interval :: int

definition default_circuit_options :: circuit_options where
  "default_circuit_options =
     \<lparr>co_failure_threshold = 5, co_success_threshold = 2, co_reset_timeout = 30000,
      co_monitor_interval = 10000\<rparr>"

record breaker =
  br_state :: circuit_state
  br_failures :: nat
  br_successes :: nat
  br_last_failure :: int
  br_options :: circuit_options

definition new_breaker :: "circuit_options \<Rightarrow> breaker" where
  "new_breaker opts =
     \<lparr>br_state = Circuit_Closed, br_failures = 0, br_successes = 0, br_last_failure = 0,
      br_options = opts\<rparr>"

text \<open>\<^verbatim>\<open>getState\<close> moves an open breaker to half open once the timeout has passed.\<close>

definition breaker_get_state :: "int \<Rightarrow> breaker \<Rightarrow> circuit_state \<times> breaker" where
  "breaker_get_state now b =
     (let b' = (if br_state b = Circuit_Open
                   \<and> now - br_last_failure b \<ge> co_reset_timeout (br_options b)
                then b\<lparr>br_state := Circuit_Half_Open, br_successes := 0\<rparr> else b)
      in (br_state b', b'))"

definition breaker_on_success :: "breaker \<Rightarrow> breaker" where
  "breaker_on_success b =
     (let b1 = b\<lparr>br_failures := 0\<rparr> in
      if br_state b1 = Circuit_Half_Open then
        (let b2 = b1\<lparr>br_successes := Suc (br_successes b1)\<rparr> in
         if br_successes b2 \<ge> co_success_threshold (br_options b2)
         then b2\<lparr>br_state := Circuit_Closed, br_successes := 0\<rparr> else b2)
      else b1)"

definition breaker_on_failure :: "int \<Rightarrow> breaker \<Rightarrow> breaker" where
  "breaker_on_failure now b =
     (let b1 = b\<lparr>br_failures := Suc (br_failures b), br_last_failure := now\<rparr> in
      if br_failures b1 \<ge> co_failure_threshold (br_options b1)
      then b1\<lparr>br_state := Circuit_Open\<rparr> else b1)"

definition breaker_reset :: "breaker \<Rightarrow> breaker" where
  "breaker_reset b = b\<lparr>br_state := Circuit_Closed, br_failures := 0, br_successes := 0\<rparr>"

datatype ('e, 'a) guarded = Rejected_Open | Call_Threw 'e | Call_Returned 'a

text \<open>
  \<^verbatim>\<open>execute(fn)\<close> with no other call in flight: the clock is read when the state is
  looked up and, if the call fails, again when the failure is counted.
\<close>

definition breaker_execute ::
    "('s, 'e, 'a) action \<Rightarrow> int \<Rightarrow> int \<Rightarrow> breaker \<times> 's \<Rightarrow> ('e, 'a) guarded \<times> breaker \<times> 's" where
  "breaker_execute fn now later bs = (case bs of (b, s) \<Rightarrow>
     (case breaker_get_state now b of (state, b1) \<Rightarrow>
        if state = Circuit_Open then (Rejected_Open, b1, s)
        else (case fn s of
            (Inr v, s') \<Rightarrow> (Call_Returned v, breaker_on_success b1, s')
          | (Inl e, s') \<Rightarrow> (Call_Threw e, breaker_on_failure later b1, s'))))"

lemmas breaker_defs = breaker_get_state_def breaker_on_success_def breaker_on_failure_def
  breaker_reset_def Let_def

text \<open>
  The calls may also overlap: between the look-up of the state and the count of
  the outcome any number of other calls may begin and end.
\<close>

inductive breaker_step :: "breaker \<times> nat \<Rightarrow> breaker \<times> nat \<Rightarrow> bool" where
  refuse: "breaker_get_state now b = (Circuit_Open, b') \<Longrightarrow> breaker_step (b, n) (b', n)"
| enter: "breaker_get_state now b = (st, b') \<Longrightarrow> st \<noteq> Circuit_Open \<Longrightarrow> breaker_step (b, n) (b', Suc n)"
| leave_ok: "breaker_step (b, Suc n) (breaker_on_success b, n)"
| leave_failed: "breaker_step (b, Suc n) (breaker_on_failure now b, n)"
| reset: "breaker_step (b, n) (breaker_reset b, n)"

inductive breaker_reachable :: "circuit_options \<Rightarrow> breaker \<times> nat \<Rightarrow> bool" for opts where
  start: "breaker_reachable opts (new_breaker opts, 0)"
| step: "breaker_reachable opts c \<Longrightarrow> breaker_step c c' \<Longrightarrow> breaker_reachable opts c'"

inductive_cases breaker_stepE: "breaker_step c c'"

definition breaker_ok :: "circuit_options \<Rightarrow> breaker \<Rightarrow> bool" where
  "breaker_ok opts b \<longleftrightarrow> br_options b = opts
     \<and> (br_state b = Circuit_Closed \<longrightarrow> br_failures b < co_failure_threshold opts \<and> br_successes b = 0)
     \<and> br_successes b < co_success_threshold opts"

lemma breaker_ok_new:
  "0 < co_failure_threshold opts \<Longrightarrow> 0 < co_success_threshold opts \<Longrightarrow> breaker_ok opts (new_breaker opts)"
  by (simp add: breaker_ok_def new_breaker_def)

lemma breaker_ok_step:
  assumes "breaker_ok opts b" and "breaker_step (b, n) (b', n')"
    and "0 < co_failure_threshold opts" "0 < co_success_threshold opts"
  shows "breaker_ok opts b'"
  using assms(2,1,3,4)
  by (cases rule: breaker_step.cases)
     (auto simp: breaker_ok_def breaker_defs split: if_splits)

lemma breaker_reachable_ok:
  assumes "breaker_reachable opts c" "0 < co_failure_threshold opts" "0 < co_success_threshold opts"
  shows "breaker_ok opts (fst c)"
  using assms
proof induction
  case start
  then show ?case by (simp add: breaker_ok_new)
next
  case (step c c')
  then show ?case using breaker_ok_step [of opts "fst c" "snd c" "fst c'" "snd c'"] by simp
qed

subsection \<open>The contract of a circuit\<close>

text \<open>Calls made one after the other: each starts no earlier than the one before it ended.\<close>

definition one_after_other :: "(int \<times> int) list \<Rightarrow> bool" where
  "one_after_other calls = sorted (concat (map (\<lambda>(t, u). [t, u]) calls))"

text \<open>
  A circuit lets a call through or refuses it (\<^verbatim>\<open>admit\<close>, which also gives the state
  left for the call), and is told of each failure.  The laws say when it is open:
  from the failure that reaches the threshold until the timeout, and never again
  after that.
\<close>

locale circuit =
  fixes admit :: "int \<Rightarrow> 'c \<Rightarrow> 'c option"
    and failed :: "int \<Rightarrow> 'c \<Rightarrow> 'c"
    and failures :: "'c \<Rightarrow> nat"
    and open_since :: "'c \<Rightarrow> int option"
    and circuit_inv :: "'c \<Rightarrow> bool"
    and threshold :: nat
    and timeout :: int
  assumes positive: "0 < threshold"
    and admit_not_open: "circuit_inv c \<Longrightarrow> open_since c = None \<Longrightarrow> admit t c = Some c"
    and refuse_open: "circuit_inv c \<Longrightarrow> open_since c = Some t0 \<Longrightarrow> t - t0 < timeout \<Longrightarrow> admit t c = None"
    and admit_later: "circuit_inv c \<Longrightarrow> open_since c = Some t0 \<Longrightarrow> t - t0 > timeout \<Longrightarrow> admit t c \<noteq> None"
    and admitted_not_open: "circuit_inv c \<Longrightarrow> admit t c = Some c' \<Longrightarrow> open_since c' = None \<and> circuit_inv c'"
    and failed_inv: "circuit_inv c \<Longrightarrow> circuit_inv (failed t c)"
    and failed_counts: "circuit_inv c \<Longrightarrow> failures (failed t c) = Suc (failures c)"
    and failed_opens: "circuit_inv c \<Longrightarrow> open_since c = None \<Longrightarrow>
      open_since (failed t c) = (if Suc (failures c) \<ge> threshold then Some t else None)"
begin

text \<open>
  The times at which the guarded service is really called, when calls are made one
  after the other, each with the time it starts and the time it ends, and the
  service fails every one of them.
\<close>

fun attempts :: "'c \<Rightarrow> (int \<times> int) list \<Rightarrow> int list" where
  "attempts c [] = []"
| "attempts c ((t, u) # ts) = (case admit t c of
     None \<Rightarrow> attempts c ts
   | Some c' \<Rightarrow> t # attempts (failed u c') ts)"

abbreviation in_window :: "int \<Rightarrow> int \<Rightarrow> bool" where
  "in_window a t \<equiv> a \<le> t \<and> t < a + timeout"

text \<open>How many calls may still reach the service in the window that starts at \<open>a\<close>.\<close>

definition budget :: "int \<Rightarrow> 'c \<Rightarrow> nat" where
  "budget a c = (case open_since c of
     None \<Rightarrow> max 1 (threshold - failures c)
   | Some t0 \<Rightarrow> if a \<le> t0 then 0 else threshold)"

lemma budget_le: "budget a c \<le> threshold"
  using positive by (auto simp: budget_def split: option.splits)

lemma attempts_subset: "set (attempts c ts) \<subseteq> fst ` set ts"
  by (induction c ts rule: attempts.induct) (auto split: option.splits)

lemma none_in_window: "\<forall>t \<in> fst ` set ts. a + timeout \<le> t \<Longrightarrow> filter (in_window a) (attempts c ts) = []"
  using attempts_subset [of c ts] by (force simp: filter_empty_conv)

lemma one_after_other_Cons:
  "one_after_other ((t, u) # ts) \<Longrightarrow> t \<le> u \<and> one_after_other ts \<and> (\<forall>t' \<in> fst ` set ts. t \<le> t')"
  by (fastforce simp: one_after_other_def)

lemma attempts_budget:
  assumes "circuit_inv c" "one_after_other ts" "\<forall>t \<in> fst ` set ts. a \<le> t"
  shows "length (filter (in_window a) (attempts c ts)) \<le> budget a c"
  using assms
proof (induction c ts rule: attempts.induct)
  case (1 c)
  then show ?case by simp
next
  case (2 c t u ts)
  note ord = one_after_other_Cons [OF "2.prems"(2)]
  show ?case
  proof (cases "admit t c")
    case None
    then show ?thesis using 2 ord by simp
  next
    case (Some c')
    have c': "open_since c' = None" "circuit_inv c'" using admitted_not_open "2.prems" Some by auto
    let ?d = "failed u c'"
    have d: "open_since ?d = (if Suc (failures c') \<ge> threshold then Some u else None)"
        "failures ?d = Suc (failures c')"
      using failed_opens failed_counts c' by auto
    have IH: "length (filter (in_window a) (attempts ?d ts)) \<le> budget a ?d"
      using 2 Some failed_inv c' ord by auto
    have one_more: "Suc (budget a ?d) \<le> max 1 (threshold - failures c')"
      using d "2.prems"(3) ord by (auto simp: budget_def split: if_splits)
    show ?thesis
    proof (cases "open_since c")
      case None
      then have "c' = c" using admit_not_open "2.prems" Some by simp
      then show ?thesis using IH one_more None Some by (simp add: budget_def)
    next
      case (Some t0)
      have past: "timeout \<le> t - t0"
        using refuse_open [of c t0 t] "2.prems" Some \<open>admit t c = Some c'\<close> by fastforce
      have "filter (in_window a) (attempts c ((t, u) # ts)) = []" if "a \<le> t0"
        using none_in_window [of "(t, u) # ts" a c] ord past that by force
      moreover have "max 1 (threshold - failures c') \<le> threshold" using positive by simp
      ultimately show ?thesis using IH one_more Some \<open>admit t c = Some c'\<close>
        by (auto simp: budget_def simp del: attempts.simps(1))
    qed
  qed
qed

text \<open>
  The load bound: in any window as long as the timeout, a failing service is
  called at most \<^verbatim>\<open>threshold\<close> times, however often calls are made.
\<close>

lemma attempts_bounded:
  assumes "circuit_inv c" "one_after_other ts"
  shows "length (filter (in_window a) (attempts c ts)) \<le> threshold"
  using assms
proof (induction c ts rule: attempts.induct)
  case (1 c)
  then show ?case by simp
next
  case (2 c t u ts)
  note ord = one_after_other_Cons [OF "2.prems"(2)]
  show ?case
  proof (cases "a \<le> t")
    case True
    then have "\<forall>x \<in> fst ` set ((t, u) # ts). a \<le> x" using ord by force
    then show ?thesis using attempts_budget "2.prems" budget_le [of a c] by (meson le_trans)
  next
    case False
    then show ?thesis using 2 admitted_not_open failed_inv ord by (auto split: option.splits)
  qed
qed

text \<open>Recovery: once the timeout has passed the next call is let through.\<close>

lemma recovers: "circuit_inv c \<Longrightarrow> \<forall>t0. open_since c = Some t0 \<longrightarrow> t0 + timeout < t \<Longrightarrow> admit t c \<noteq> None"
  using admit_not_open admit_later by (cases "open_since c") (auto simp: algebra_simps)

end

subsection \<open>The generic breaker as a circuit\<close>

definition breaker_admit :: "int \<Rightarrow> breaker \<Rightarrow> breaker option" where
  "breaker_admit now b = (case breaker_get_state now b of
     (st, b') \<Rightarrow> if st = Circuit_Open then None else Some b')"

definition breaker_open_since :: "breaker \<Rightarrow> int option" where
  "breaker_open_since b = (if br_state b = Circuit_Open then Some (br_last_failure b) else None)"

definition breaker_default_inv :: "breaker \<Rightarrow> bool" where
  "breaker_default_inv b \<longleftrightarrow> br_options b = default_circuit_options"

lemmas breaker_view = breaker_admit_def breaker_open_since_def breaker_default_inv_def
  breaker_get_state_def breaker_on_failure_def default_circuit_options_def Let_def

interpretation cbr: circuit breaker_admit breaker_on_failure br_failures breaker_open_since
  breaker_default_inv 5 30000
  by unfold_locales (auto simp: breaker_view split: if_splits)

end
