(* ===== verification/Plus_Bridge.thy ===== *)
theory Plus_Bridge
  imports Approval Resilience
begin

text \<open>
  Core's client of the Plus service: src/src/infrastructure/plus/plus-bridge.ts.
  \<^verbatim>\<open>fetch\<close> is a parameter that maps a request and the world to what arrives: an
  exception (a refused connection, the abort of the timer) or a response.
  \<^verbatim>\<open>JSON.stringify\<close> is a parameter on the bodies the bridge sends.
\<close>

record bridge_config =
  bc_base_url :: jstr
  bc_service_secret :: jstr
  bc_timeout_ms :: int

record bridge_context =
  bx_country :: "jstr option"
  bx_ip :: "jstr option"
  bx_user_agent :: "jstr option"
  bx_timestamp :: "int option"

record bridge_capability =
  bq_user_id :: jstr
  bq_resource_id :: jstr
  bq_operation :: jstr
  bq_secret_ref :: jstr
  bq_device_id :: "jstr option"
  bq_assurance :: int
  bq_context :: "bridge_context option"

record bridge_entitlement =
  be_user_id :: jstr
  be_resource_id :: jstr
  be_operation :: jstr

record bridge_challenge =
  bt_user_id :: jstr
  bt_resource_id :: jstr
  bt_operation :: jstr
  bt_secret_ref :: jstr
  bt_device_id :: "jstr option"
  bt_context :: bridge_context

datatype audit_decision = Audit_Allow | Audit_Deny | Audit_Challenge | Audit_Revoke

record audit_log_entry =
  al_timestamp :: int
  al_event :: jstr
  al_user_id :: jstr
  al_resource_id :: "jstr option"
  al_operation :: "jstr option"
  al_decision :: audit_decision
  al_risk_score :: "int option"
  al_risk_reasons :: "jstr list option"
  al_context :: "(jstr \<times> json) list option"

datatype bridge_body =
    Body_Capability bridge_capability
  | Body_Entitlement bridge_entitlement
  | Body_Challenge bridge_challenge
  | Body_Approval jstr signed_approval "jstr option"
  | Body_Audit audit_log_entry

datatype http_method = Http_Get | Http_Post | Http_Put | Http_Delete

record http_request =
  hq_url :: jstr
  hq_method :: http_method
  hq_headers :: "(jstr \<times> jstr) list"
  hq_body :: "jstr option"

text \<open>\<^verbatim>\<open>text()\<close> and \<^verbatim>\<open>json()\<close> of the response, each of which may throw.\<close>

record http_response =
  hr_status :: int
  hr_text :: "jstr + jstr"
  hr_json :: "jstr + json"

record 's bridge_world =
  bw_fetch :: "http_request \<Rightarrow> 's \<Rightarrow> (jstr + http_response) \<times> 's"
  bw_stringify :: "bridge_body \<Rightarrow> jstr"

record plus_bridge =
  pb_config :: bridge_config
  pb_open :: bool
  pb_open_time :: int
  pb_failures :: nat

definition circuit_reset_ms :: int where "circuit_reset_ms = 30000"
definition bridge_failure_threshold :: nat where "bridge_failure_threshold = 5"

definition new_bridge :: "bridge_config \<Rightarrow> plus_bridge" where
  "new_bridge config =
     \<lparr>pb_config = config, pb_open = False, pb_open_time = 0, pb_failures = 0\<rparr>"

subsection \<open>One request\<close>

text \<open>The check of the circuit: None is the thrown \<^verbatim>\<open>circuit breaker OPEN\<close>.\<close>

definition bridge_admit :: "int \<Rightarrow> plus_bridge \<Rightarrow> plus_bridge option" where
  "bridge_admit now b =
     (if pb_open b then
        if now - pb_open_time b > circuit_reset_ms
        then Some (b\<lparr>pb_open := False, pb_failures := 0\<rparr>) else None
      else Some b)"

definition bridge_failed :: "int \<Rightarrow> plus_bridge \<Rightarrow> plus_bridge" where
  "bridge_failed later b =
     (let b1 = b\<lparr>pb_failures := Suc (pb_failures b)\<rparr> in
      if pb_failures b1 \<ge> bridge_failure_threshold
      then b1\<lparr>pb_open := True, pb_open_time := later\<rparr> else b1)"

definition bridge_headers :: "plus_bridge \<Rightarrow> (jstr \<times> jstr) list" where
  "bridge_headers b =
     [(lit ''Content-Type'', lit ''application/json''),
      (lit ''X-Core-Service'', lit ''cybervault-core''),
      (lit ''X-Service-Secret'', bc_service_secret (pb_config b))]"

definition bridge_message :: "'s bridge_world \<Rightarrow> plus_bridge \<Rightarrow> jstr \<Rightarrow> http_method \<Rightarrow> bridge_body option
    \<Rightarrow> http_request" where
  "bridge_message W b path verb body =
     \<lparr>hq_url = bc_base_url (pb_config b) @ path, hq_method = verb, hq_headers = bridge_headers b,
      hq_body = map_option (bw_stringify W) body\<rparr>"

definition response_ok :: "http_response \<Rightarrow> bool" where
  "response_ok r \<longleftrightarrow> 200 \<le> hr_status r \<and> hr_status r \<le> 299"

definition read_response :: "http_response \<Rightarrow> jstr + json" where
  "read_response r =
     (if \<not> response_ok r then
        (case hr_text r of
           Inl e \<Rightarrow> Inl e
         | Inr t \<Rightarrow> Inl (lit ''Plus API '' @ dec_int (hr_status r) @ lit '': '' @ t))
      else hr_json r)"

definition circuit_open_message :: jstr where
  "circuit_open_message = lit ''Plus bridge circuit breaker OPEN''"

definition bridge_request ::
    "'s bridge_world \<Rightarrow> int \<Rightarrow> int \<Rightarrow> jstr \<Rightarrow> http_method \<Rightarrow> bridge_body option
       \<Rightarrow> plus_bridge \<times> 's \<Rightarrow> (jstr + json) \<times> plus_bridge \<times> 's" where
  "bridge_request W now later path verb body bs = (case bs of (b, s) \<Rightarrow>
     (case bridge_admit now b of
        None \<Rightarrow> (Inl circuit_open_message, b, s)
      | Some b1 \<Rightarrow>
          (case bw_fetch W (bridge_message W b1 path verb body) s of (arrived, s') \<Rightarrow>
             (case (case arrived of Inl e \<Rightarrow> Inl e | Inr r \<Rightarrow> read_response r) of
                Inr data \<Rightarrow> (Inr data, b1\<lparr>pb_failures := 0\<rparr>, s')
              | Inl e \<Rightarrow> (Inl e, bridge_failed later b1, s')))))"

subsection \<open>The calls of the bridge\<close>

definition bridge_request_capability where
  "bridge_request_capability W now later (r :: bridge_capability) =
     bridge_request W now later (lit ''/api/v1/capabilities/request'') Http_Post (Some (Body_Capability r))"

definition bridge_check_entitlement where
  "bridge_check_entitlement W now later (r :: bridge_entitlement) =
     bridge_request W now later (lit ''/api/v1/entitlements/check'') Http_Post (Some (Body_Entitlement r))"

definition bridge_trigger_challenge where
  "bridge_trigger_challenge W now later (r :: bridge_challenge) =
     bridge_request W now later (lit ''/api/v1/challenges/trigger'') Http_Post (Some (Body_Challenge r))"

definition bridge_submit_approval where
  "bridge_submit_approval W now later challenge_id approval device_id =
     bridge_request W now later (lit ''/api/v1/challenges/approve'') Http_Post
       (Some (Body_Approval challenge_id approval device_id))"

definition bridge_get_public_key where
  "bridge_get_public_key W now later =
     bridge_request W now later (lit ''/api/v1/crypto/public-key'') Http_Get None"

text \<open>Best effort: what it throws is swallowed, and still counted by the circuit.\<close>

definition bridge_send_audit_log ::
    "'s bridge_world \<Rightarrow> int \<Rightarrow> int \<Rightarrow> audit_log_entry \<Rightarrow> plus_bridge \<times> 's \<Rightarrow> plus_bridge \<times> 's" where
  "bridge_send_audit_log W now later e bs =
     snd (bridge_request W now later (lit ''/api/v1/audit'') Http_Post (Some (Body_Audit e)) bs)"

definition bridge_health_check where
  "bridge_health_check W now later = bridge_request W now later (lit ''/health'') Http_Get None"

definition is_circuit_open :: "plus_bridge \<Rightarrow> bool" where
  "is_circuit_open b = pb_open b"

definition reset_circuit :: "plus_bridge \<Rightarrow> plus_bridge" where
  "reset_circuit b = b\<lparr>pb_open := False, pb_failures := 0\<rparr>"

text \<open>The process-wide instance.\<close>

definition get_plus_bridge ::
    "bridge_config option \<Rightarrow> plus_bridge option \<Rightarrow> (jstr + plus_bridge) \<times> plus_bridge option" where
  "get_plus_bridge config held = (case held of
     Some b \<Rightarrow> (Inr b, held)
   | None \<Rightarrow> (case config of
       None \<Rightarrow> (Inl (lit ''PlusBridge not initialized - provide config on first call''), None)
     | Some c \<Rightarrow> (Inr (new_bridge c), Some (new_bridge c))))"

subsection \<open>The bridge as a circuit\<close>

definition bridge_open_since :: "plus_bridge \<Rightarrow> int option" where
  "bridge_open_since b = (if pb_open b then Some (pb_open_time b) else None)"

lemmas bridge_view = bridge_admit_def bridge_failed_def bridge_open_since_def circuit_reset_ms_def
  bridge_failure_threshold_def Let_def

interpretation pbr: circuit bridge_admit bridge_failed pb_failures bridge_open_since "\<lambda>_. True" 5 30000
  by unfold_locales (auto simp: bridge_view split: if_splits)

text \<open>
  A service that answers each request as it pleases, at the time the world shows, and
  notes the time.  It fails when the request throws, or the status is an error status,
  or the body cannot be read.
\<close>

definition answering ::
    "(int \<Rightarrow> http_request \<Rightarrow> jstr + http_response) \<Rightarrow> (bridge_body \<Rightarrow> jstr) \<Rightarrow> (int \<times> int list) bridge_world" where
  "answering answer stringify =
     \<lparr>bw_fetch = (\<lambda>q (clock, seen). (answer clock q, (clock, seen @ [clock]))), bw_stringify = stringify\<rparr>"

definition arrival_fails :: "jstr + http_response \<Rightarrow> bool" where
  "arrival_fails a = (case a of Inl e \<Rightarrow> True | Inr r \<Rightarrow> (case read_response r of Inl e \<Rightarrow> True | Inr j \<Rightarrow> False))"

lemma answering_fetch [simp]: "bw_fetch (answering answer f) q (clock, seen) = (answer clock q, (clock, seen @ [clock]))"
  by (simp add: answering_def)

lemma error_status_fails: "\<not> response_ok r \<Longrightarrow> arrival_fails (Inr r)"
  by (simp add: arrival_fails_def read_response_def split: sum.split)

lemma bridge_request_fails:
  assumes "arrival_fails (answer t (bridge_message (answering answer f) b1 path verb body))" "bridge_admit t b = Some b1"
  shows "\<exists>e. bridge_request (answering answer f) t u path verb body (b, (t, seen))
    = (Inl e, bridge_failed u b1, (t, seen @ [t]))"
  using assms by (auto simp: bridge_request_def arrival_fails_def split: sum.splits)

text \<open>Requests made one after the other; each starts at a time and ends at a time.\<close>

fun bridge_run ::
    "(int \<times> int list) bridge_world \<Rightarrow> ((int \<times> int) \<times> jstr \<times> http_method \<times> bridge_body option) list
       \<Rightarrow> plus_bridge \<times> int list \<Rightarrow> plus_bridge \<times> int list" where
  "bridge_run W [] bs = bs"
| "bridge_run W (((t, u), path, verb, body) # rs) (b, seen) =
     (case bridge_request W t u path verb body (b, (t, seen)) of
        (r, b', (clock, seen')) \<Rightarrow> bridge_run W rs (b', seen'))"

lemma bridge_run_failing:
  assumes "\<And>t q. arrival_fails (answer t q)"
  shows "snd (bridge_run (answering answer f) rs (b, seen)) = seen @ pbr.attempts b (map fst rs)"
proof (induction rs arbitrary: b seen)
  case Nil
  then show ?case by simp
next
  case (Cons r rs)
  obtain t u path verb body where r: "r = ((t, u), path, verb, body)" by (metis surj_pair)
  show ?case
  proof (cases "bridge_admit t b")
    case None
    then show ?thesis by (simp add: r Cons bridge_request_def)
  next
    case (Some b1)
    obtain e where "bridge_request (answering answer f) t u path verb body (b, (t, seen))
        = (Inl e, bridge_failed u b1, (t, seen @ [t]))"
      using bridge_request_fails [of answer, OF _ Some] assms by blast
    then show ?thesis using Some by (simp add: r Cons)
  qed
qed

text \<open>A closed circuit with a service that answers stays closed and forgets its failures.\<close>

lemma bridge_request_answered:
  assumes "bridge_admit now b = Some b1"
    and "bw_fetch W (bridge_message W b1 path verb body) s = (Inr r, s')"
    and "response_ok r" "hr_json r = Inr data"
  shows "bridge_request W now later path verb body (b, s) = (Inr data, b1\<lparr>pb_failures := 0\<rparr>, s')"
  using assms by (simp add: bridge_request_def read_response_def)

end
