(* ===== verification/Rate_Limits.thy ===== *)
theory Rate_Limits
  imports "HOL-Library.AList" Prelude
begin

text \<open>
  The limits on requests: failed logins
  (src/src/infrastructure/api/login-rate-limiter.ts) and the shared counter
  (src/src/infrastructure/rate-limit/shared-store.ts).  Times are milliseconds; a
  call reads the clock once.  The Redis client is a parameter: each command maps
  the store to its answer, or to None when it throws, and the store it leaves.
\<close>

subsection \<open>Failed logins\<close>

record attempt_record =
  ar_count :: nat
  ar_first_failure :: int
  ar_locked_until :: "int option"

type_synonym login_limiter = "jstr \<rightharpoonup> attempt_record"

record lock_status =
  lk_locked :: bool
  lk_retry_after :: "int option"

definition lockout_tiers :: "(nat \<times> int) list" where
  "lockout_tiers = [(5, 60000), (10, 300000), (15, 900000)]"

definition stale_threshold_ms :: int where "stale_threshold_ms = 30 * 60000"

definition not_locked :: lock_status where
  "not_locked = \<lparr>lk_locked = False, lk_retry_after = None\<rparr>"

definition get_lockout_duration :: "nat \<Rightarrow> int" where
  "get_lockout_duration failures =
     foldl (\<lambda>duration (threshold, ms). if failures \<ge> threshold then ms else duration) 0 lockout_tiers"

text \<open>\<^verbatim>\<open>record.lockedUntil\<close> as a condition: neither null nor 0.\<close>

definition lock_end :: "attempt_record \<Rightarrow> int option" where
  "lock_end r = (case ar_locked_until r of Some t \<Rightarrow> if t = 0 then None else Some t | None \<Rightarrow> None)"

definition is_locked :: "int \<Rightarrow> jstr \<Rightarrow> login_limiter \<Rightarrow> lock_status \<times> login_limiter" where
  "is_locked now email m = (case m email of
     None \<Rightarrow> (not_locked, m)
   | Some r \<Rightarrow> (case lock_end r of
       None \<Rightarrow> (not_locked, m)
     | Some t \<Rightarrow>
         if now < t then (\<lparr>lk_locked = True, lk_retry_after = Some (t - now)\<rparr>, m)
         else (not_locked, m(email \<mapsto>
           r\<lparr>ar_count := 0, ar_locked_until := None, ar_first_failure := now\<rparr>))))"

definition record_failure :: "int \<Rightarrow> jstr \<Rightarrow> login_limiter \<Rightarrow> lock_status \<times> login_limiter" where
  "record_failure now email m =
     (let r = (case m email of
          None \<Rightarrow> \<lparr>ar_count = 0, ar_first_failure = now, ar_locked_until = None\<rparr> | Some r \<Rightarrow> r);
        r1 = r\<lparr>ar_count := Suc (ar_count r)\<rparr>;
        duration = get_lockout_duration (ar_count r1)
      in if duration > 0
         then (\<lparr>lk_locked = True, lk_retry_after = Some duration\<rparr>,
               m(email \<mapsto> r1\<lparr>ar_locked_until := Some (now + duration)\<rparr>))
         else (not_locked, m(email \<mapsto> r1)))"

definition record_success :: "jstr \<Rightarrow> login_limiter \<Rightarrow> login_limiter" where
  "record_success email m = m(email := None)"

definition last_activity :: "attempt_record \<Rightarrow> int" where
  "last_activity r = (case lock_end r of
     Some t \<Rightarrow> max t (ar_first_failure r) | None \<Rightarrow> ar_first_failure r)"

definition login_cleanup :: "int \<Rightarrow> login_limiter \<Rightarrow> login_limiter" where
  "login_cleanup now m = (\<lambda>email. case m email of
     None \<Rightarrow> None
   | Some r \<Rightarrow> if now - last_activity r > stale_threshold_ms then None else Some r)"

lemma get_lockout_duration_cases:
  "get_lockout_duration n =
     (if n < 5 then 0 else if n < 10 then 60000 else if n < 15 then 300000 else 900000)"
  by (simp add: get_lockout_duration_def lockout_tiers_def)

text \<open>Housekeeping never lifts a lock.\<close>

lemma login_cleanup_keeps_locks:
  assumes "lk_locked (fst (is_locked now email m))"
  shows "is_locked now email (login_cleanup now m) = (fst (is_locked now email m), login_cleanup now m)"
  using assms
  by (auto simp: is_locked_def login_cleanup_def last_activity_def stale_threshold_ms_def not_locked_def
      split: option.splits if_splits)

text \<open>
  How the login handler uses the limiter: the lock is looked up first, and a
  failure is recorded only when it was not locked.  One after the other, then,
  the count never passes the first threshold.
\<close>

datatype login_event = Login_Failed | Login_Succeeded

definition login_attempt :: "int \<Rightarrow> jstr \<Rightarrow> login_event \<Rightarrow> login_limiter \<Rightarrow> lock_status \<times> login_limiter" where
  "login_attempt now email ev m = (case is_locked now email m of (st, m1) \<Rightarrow>
     if lk_locked st then (st, m1)
     else (case ev of
         Login_Failed \<Rightarrow> (not_locked, snd (record_failure now email m1))
       | Login_Succeeded \<Rightarrow> (not_locked, record_success email m1)))"

inductive login_reachable :: "int \<Rightarrow> login_limiter \<Rightarrow> bool" where
  start: "0 < t \<Longrightarrow> login_reachable t (\<lambda>_. None)"
| attempt: "login_reachable t m \<Longrightarrow> t \<le> now \<Longrightarrow> login_reachable now (snd (login_attempt now email ev m))"
| purge: "login_reachable t m \<Longrightarrow> t \<le> now \<Longrightarrow> login_reachable now (login_cleanup now m)"

definition attempt_ok :: "int \<Rightarrow> attempt_record \<Rightarrow> bool" where
  "attempt_ok t r \<longleftrightarrow> (case ar_locked_until r of
        None \<Rightarrow> ar_count r < 5
      | Some u \<Rightarrow> ar_count r = 5 \<and> 0 < u \<and> u \<le> t + 60000)"

definition login_inv :: "int \<Rightarrow> login_limiter \<Rightarrow> bool" where
  "login_inv t m \<longleftrightarrow> 0 < t \<and> (\<forall>email r. m email = Some r \<longrightarrow> attempt_ok t r)"

lemma attempt_ok_later: "attempt_ok t r \<Longrightarrow> t \<le> now \<Longrightarrow> attempt_ok now r"
  by (auto simp: attempt_ok_def split: option.splits)

lemma login_inv_later: "login_inv t m \<Longrightarrow> t \<le> now \<Longrightarrow> login_inv now m"
  by (auto simp: login_inv_def intro: attempt_ok_later)

lemma is_locked_inv:
  "login_inv now m \<Longrightarrow> login_inv now (snd (is_locked now email m))"
  by (auto simp: login_inv_def is_locked_def attempt_ok_def split: option.splits)

lemma login_invD: "login_inv now m \<Longrightarrow> m email = Some r \<Longrightarrow> attempt_ok now r"
  by (auto simp: login_inv_def)

lemma is_locked_open:
  assumes "login_inv now m" "\<not> lk_locked (fst (is_locked now email m))"
    and "snd (is_locked now email m) email = Some r"
  shows "ar_locked_until r = None \<and> ar_count r < 5"
  using assms(2,3) login_invD [OF assms(1), of email]
  by (auto simp: is_locked_def attempt_ok_def lock_end_def not_locked_def split: option.splits if_splits)

lemma record_failure_inv:
  assumes "login_inv now m" and "\<And>r. m email = Some r \<Longrightarrow> ar_locked_until r = None \<and> ar_count r < 5"
  shows "login_inv now (snd (record_failure now email m))"
  using assms
  by (auto simp: login_inv_def record_failure_def get_lockout_duration_cases attempt_ok_def Let_def
      split: option.splits)

lemma record_success_inv: "login_inv now m \<Longrightarrow> login_inv now (record_success email m)"
  by (auto simp: login_inv_def record_success_def)

lemma login_cleanup_inv: "login_inv now m \<Longrightarrow> login_inv now (login_cleanup now m)"
  by (auto simp: login_inv_def login_cleanup_def split: option.splits if_splits)

lemma login_attempt_inv:
  assumes "login_inv now m"
  shows "login_inv now (snd (login_attempt now email ev m))"
proof -
  obtain st m1 where l: "is_locked now email m = (st, m1)" by (cases "is_locked now email m")
  have m1: "login_inv now m1" using is_locked_inv [OF assms, of email] l by simp
  show ?thesis using m1 is_locked_open [OF assms, of email] l
    by (auto simp: login_attempt_def record_success_inv intro!: record_failure_inv
        split: login_event.splits)
qed

lemma login_reachable_inv: "login_reachable t m \<Longrightarrow> login_inv t m"
proof (induction rule: login_reachable.induct)
  case (start t)
  then show ?case by (simp add: login_inv_def)
qed (auto intro: login_attempt_inv login_cleanup_inv login_inv_later)

text \<open>
  So every lock that stands was set by a fifth failure and lasts a minute: the
  tiers of ten and fifteen failures are out of reach.
\<close>

lemma login_lock_at_most_a_minute:
  assumes "login_reachable t m" "t \<le> now" "is_locked now email m = (st, m')" "lk_retry_after st = Some ms"
  shows "ms \<le> 60000"
  using login_invD [OF login_reachable_inv [OF assms(1)], of email] assms(2-)
  by (auto simp: is_locked_def attempt_ok_def lock_end_def not_locked_def
      split: option.splits if_splits)

subsection \<open>The shared counter\<close>

datatype rate_limit_mode = Mode_Redis | Mode_Memory

record rate_limit_decision =
  rl_allowed :: bool
  rl_remaining :: int
  rl_retry_after_seconds :: int
  rl_mode :: rate_limit_mode

record rate_limit_rule =
  rr_scope :: jstr
  rr_max :: int
  rr_window_ms :: int

record local_count =
  lc_count :: int
  lc_reset :: int

record shared_limiter =
  sh_rule :: rate_limit_rule
  sh_client :: bool
  sh_local :: "(jstr \<times> local_count) list"
  sh_mode :: rate_limit_mode
  sh_logged :: bool

record 'r redis_client =
  rd_waiting :: "'r \<Rightarrow> bool"
  rd_connect :: "'r \<Rightarrow> unit option \<times> 'r"
  rd_incr :: "jstr \<Rightarrow> 'r \<Rightarrow> int option \<times> 'r"
  rd_expire :: "jstr \<Rightarrow> int \<Rightarrow> 'r \<Rightarrow> unit option \<times> 'r"
  rd_ttl :: "jstr \<Rightarrow> 'r \<Rightarrow> int option \<times> 'r"

definition usable_redis_url :: "jstr option \<Rightarrow> jstr option" where
  "usable_redis_url url = (case url of
     None \<Rightarrow> None
   | Some u \<Rightarrow> if u \<noteq> [] \<and> u \<noteq> lit ''redis://localhost:6379'' then Some u else None)"

definition new_shared_limiter :: "rate_limit_rule \<Rightarrow> jstr option \<Rightarrow> shared_limiter" where
  "new_shared_limiter rule url = (case usable_redis_url url of
     None \<Rightarrow> \<lparr>sh_rule = rule, sh_client = False, sh_local = [], sh_mode = Mode_Memory, sh_logged = False\<rparr>
   | Some u \<Rightarrow> \<lparr>sh_rule = rule, sh_client = True, sh_local = [], sh_mode = Mode_Redis, sh_logged = False\<rparr>)"

definition degrade :: "shared_limiter \<Rightarrow> shared_limiter" where
  "degrade l = l\<lparr>sh_mode := Mode_Memory, sh_logged := True\<rparr>"

text \<open>\<^verbatim>\<open>Math.ceil(windowMs / 1000)\<close>.\<close>

definition ceil_seconds :: "int \<Rightarrow> int" where
  "ceil_seconds ms = - ((- ms) div 1000)"

definition redis_key :: "rate_limit_rule \<Rightarrow> jstr \<Rightarrow> jstr" where
  "redis_key rule key = lit ''cv:rl:'' @ rr_scope rule @ lit '':'' @ key"

definition try_redis ::
    "'r redis_client \<Rightarrow> jstr \<Rightarrow> shared_limiter \<times> 'r \<Rightarrow> rate_limit_decision option \<times> shared_limiter \<times> 'r" where
  "try_redis R key lr = (case lr of (l, r) \<Rightarrow>
     if \<not> sh_client l \<or> sh_mode l \<noteq> Mode_Redis then (None, l, r)
     else (let k = redis_key (sh_rule l) key in
       case (if rd_waiting R r then rd_connect R r else (Some (), r)) of
         (None, r1) \<Rightarrow> (None, degrade l, r1)
       | (Some _, r1) \<Rightarrow> (case rd_incr R k r1 of
           (None, r2) \<Rightarrow> (None, degrade l, r2)
         | (Some count, r2) \<Rightarrow>
             (case (if count = 1 then rd_expire R k (ceil_seconds (rr_window_ms (sh_rule l))) r2
                    else (Some (), r2)) of
               (None, r3) \<Rightarrow> (None, degrade l, r3)
             | (Some _, r3) \<Rightarrow> (case rd_ttl R k r3 of
                 (None, r4) \<Rightarrow> (None, degrade l, r4)
               | (Some ttl, r4) \<Rightarrow>
                   (Some \<lparr>rl_allowed = count \<le> rr_max (sh_rule l),
                          rl_remaining = max 0 (rr_max (sh_rule l) - count),
                          rl_retry_after_seconds =
                            (if ttl > 0 then ttl else ceil_seconds (rr_window_ms (sh_rule l))),
                          rl_mode = Mode_Redis\<rparr>, l, r4))))))"

definition local_key :: "rate_limit_rule \<Rightarrow> jstr \<Rightarrow> jstr" where
  "local_key rule key = rr_scope rule @ lit '':'' @ key"

definition sweep_local :: "int \<Rightarrow> (jstr \<times> local_count) list \<Rightarrow> (jstr \<times> local_count) list" where
  "sweep_local now m =
     (if length m < 1024 then m else filter (\<lambda>(k, c). \<not> now > lc_reset c) m)"

definition consume_local :: "int \<Rightarrow> jstr \<Rightarrow> shared_limiter \<Rightarrow> rate_limit_decision \<times> shared_limiter" where
  "consume_local now key l =
     (let rule = sh_rule l; k = local_key rule key in
      case map_of (sh_local l) k of
        Some c \<Rightarrow>
          if now > lc_reset c then
            (\<lparr>rl_allowed = True, rl_remaining = rr_max rule - 1,
              rl_retry_after_seconds = ceil_seconds (rr_window_ms rule), rl_mode = Mode_Memory\<rparr>,
             l\<lparr>sh_local := sweep_local now
                 (AList.update k \<lparr>lc_count = 1, lc_reset = now + rr_window_ms rule\<rparr> (sh_local l))\<rparr>)
          else
            (let c1 = c\<lparr>lc_count := lc_count c + 1\<rparr> in
             (\<lparr>rl_allowed = lc_count c1 \<le> rr_max rule, rl_remaining = max 0 (rr_max rule - lc_count c1),
               rl_retry_after_seconds = max 1 (ceil_seconds (lc_reset c1 - now)), rl_mode = Mode_Memory\<rparr>,
              l\<lparr>sh_local := AList.update k c1 (sh_local l)\<rparr>))
      | None \<Rightarrow>
          (\<lparr>rl_allowed = True, rl_remaining = rr_max rule - 1,
            rl_retry_after_seconds = ceil_seconds (rr_window_ms rule), rl_mode = Mode_Memory\<rparr>,
           l\<lparr>sh_local := sweep_local now
               (AList.update k \<lparr>lc_count = 1, lc_reset = now + rr_window_ms rule\<rparr> (sh_local l))\<rparr>))"

definition consume_rate ::
    "'r redis_client \<Rightarrow> int \<Rightarrow> jstr \<Rightarrow> shared_limiter \<times> 'r \<Rightarrow> rate_limit_decision \<times> shared_limiter \<times> 'r" where
  "consume_rate R now key lr = (case try_redis R key lr of
     (Some d, l, r) \<Rightarrow> (d, l, r)
   | (None, l, r) \<Rightarrow> (case consume_local now key l of (d, l') \<Rightarrow> (d, l', r)))"

text \<open>The limiters of the process, one per scope, created on first use.\<close>

definition get_rate_limiter ::
    "jstr option \<Rightarrow> jstr \<Rightarrow> int \<Rightarrow> int \<Rightarrow> (jstr \<times> shared_limiter) list
       \<Rightarrow> shared_limiter \<times> (jstr \<times> shared_limiter) list" where
  "get_rate_limiter url scope mx window ls = (case map_of ls scope of
     Some l \<Rightarrow> (l, ls)
   | None \<Rightarrow> (let l = new_shared_limiter \<lparr>rr_scope = scope, rr_max = mx, rr_window_ms = window\<rparr> url
              in (l, ls @ [(scope, l)])))"

definition rate_limit_modes :: "(jstr \<times> shared_limiter) list \<Rightarrow> (jstr \<times> rate_limit_mode) list" where
  "rate_limit_modes ls = map (\<lambda>(scope, l). (scope, sh_mode l)) ls"

subsection \<open>What the local counter admits\<close>

text \<open>Requests are a key and a time; the decisions for one key are kept.\<close>

fun consume_run :: "shared_limiter \<Rightarrow> (int \<times> jstr) list \<Rightarrow> (jstr \<times> rate_limit_decision) list \<times> shared_limiter" where
  "consume_run l [] = ([], l)"
| "consume_run l ((now, key) # rs) = (case consume_local now key l of (d, l1) \<Rightarrow>
     (case consume_run l1 rs of (ds, l2) \<Rightarrow> ((key, d) # ds, l2)))"

definition allowed_for :: "jstr \<Rightarrow> (jstr \<times> rate_limit_decision) list \<Rightarrow> nat" where
  "allowed_for key ds = length (filter (\<lambda>(k, d). k = key \<and> rl_allowed d) ds)"

lemma allowed_for_simps [simp]:
  "allowed_for key [] = 0"
  "allowed_for key ((k, d) # ds) = (if k = key \<and> rl_allowed d then 1 else 0) + allowed_for key ds"
  by (simp_all add: allowed_for_def)

text \<open>Keys are unique and counts are not negative.\<close>

definition local_ok :: "shared_limiter \<Rightarrow> bool" where
  "local_ok l \<longleftrightarrow> distinct (map fst (sh_local l)) \<and> (\<forall>(k, c) \<in> set (sh_local l). 0 \<le> lc_count c)"

definition held_count :: "shared_limiter \<Rightarrow> jstr \<Rightarrow> local_count option" where
  "held_count l key = map_of (sh_local l) (local_key (sh_rule l) key)"

lemma local_key_inject [simp]: "local_key rule k = local_key rule k' \<longleftrightarrow> k = k'"
  by (simp add: local_key_def)

lemma map_of_unexpired:
  "distinct (map fst m) \<Longrightarrow>
   map_of (filter (\<lambda>(k, c). P c) m) k = (case map_of m k of Some c \<Rightarrow> if P c then Some c else None | None \<Rightarrow> None)"
  by (induction m) (auto split: option.splits if_splits simp: map_of_eq_None_iff dest: map_of_SomeD)

lemma distinct_filter_fst: "distinct (map fst m) \<Longrightarrow> distinct (map fst (filter P m))"
  by (induction m) auto

lemma set_update_subset: "set (AList.update k c m) \<subseteq> insert (k, c) (set m)"
  by (induction m) auto

lemma local_ok_new [simp]: "local_ok (new_shared_limiter rule url)"
  by (simp add: local_ok_def new_shared_limiter_def split: option.splits)

lemma new_shared_limiter_rule: "sh_rule (new_shared_limiter rule url) = rule"
  by (simp add: new_shared_limiter_def split: option.splits)

lemma consume_local_rule [simp]: "sh_rule (snd (consume_local now key l)) = sh_rule l"
  by (auto simp: consume_local_def Let_def split: option.splits)

lemma update_ok:
  assumes "local_ok l" "0 \<le> lc_count c"
  shows "distinct (map fst (AList.update k c (sh_local l)))"
    and "\<forall>(k', c') \<in> set (AList.update k c (sh_local l)). 0 \<le> lc_count c'"
  using assms set_update_subset [of k c "sh_local l"] by (auto simp: local_ok_def distinct_update)

lemma held_sweep:
  assumes "distinct (map fst m)"
  shows "map_of (sweep_local now m) k = map_of m k
    \<or> (\<exists>c. map_of m k = Some c \<and> lc_reset c < now \<and> map_of (sweep_local now m) k = None)"
  using assms by (auto simp: sweep_local_def map_of_unexpired split: option.splits)

definition fresh_table :: "int \<Rightarrow> jstr \<Rightarrow> shared_limiter \<Rightarrow> (jstr \<times> local_count) list" where
  "fresh_table now key l = AList.update (local_key (sh_rule l) key)
     \<lparr>lc_count = 1, lc_reset = now + rr_window_ms (sh_rule l)\<rparr> (sh_local l)"

lemma map_of_fresh_table:
  "map_of (fresh_table now key l) (local_key (sh_rule l) k) =
     (if k = key then Some \<lparr>lc_count = 1, lc_reset = now + rr_window_ms (sh_rule l)\<rparr> else held_count l k)"
  by (simp add: fresh_table_def update_conv' held_count_def)

lemma held_fresh:
  assumes "local_ok l"
  shows "map_of (sweep_local now (fresh_table now key l)) k = map_of (fresh_table now key l) k
    \<or> (\<exists>c. map_of (fresh_table now key l) k = Some c \<and> lc_reset c < now
         \<and> map_of (sweep_local now (fresh_table now key l)) k = None)"
  by (rule held_sweep) (simp add: fresh_table_def update_ok(1) [OF assms])

lemma held_table [simp]:
  "held_count (l\<lparr>sh_local := m\<rparr>) k = map_of m (local_key (sh_rule l) k)"
  by (simp add: held_count_def)

text \<open>The two ways a request is counted.\<close>

lemma consume_local_fresh_eq:
  "\<forall>c. held_count l key = Some c \<longrightarrow> lc_reset c < now
    \<Longrightarrow> rl_allowed (fst (consume_local now key l))
      \<and> snd (consume_local now key l) = l\<lparr>sh_local := sweep_local now (fresh_table now key l)\<rparr>"
  by (auto simp: consume_local_def held_count_def fresh_table_def Let_def split: option.splits)

lemma consume_local_held_eq:
  "held_count l key = Some c \<Longrightarrow> now \<le> lc_reset c
    \<Longrightarrow> rl_allowed (fst (consume_local now key l)) = (lc_count c + 1 \<le> rr_max (sh_rule l))
      \<and> snd (consume_local now key l) = l\<lparr>sh_local := AList.update (local_key (sh_rule l) key)
          (c\<lparr>lc_count := lc_count c + 1\<rparr>) (sh_local l)\<rparr>"
  by (simp add: consume_local_def held_count_def Let_def)

lemma local_ok_table:
  "local_ok (l\<lparr>sh_local := m\<rparr>) \<longleftrightarrow> distinct (map fst m) \<and> (\<forall>(k, c) \<in> set m. 0 \<le> lc_count c)"
  by (simp add: local_ok_def)

lemma local_ok_sweep: "local_ok (l\<lparr>sh_local := m\<rparr>) \<Longrightarrow> local_ok (l\<lparr>sh_local := sweep_local now m\<rparr>)"
  by (auto simp: local_ok_table sweep_local_def distinct_filter_fst)

lemma local_ok_consume:
  assumes "local_ok l"
  shows "local_ok (snd (consume_local now key l))"
proof (cases "\<forall>c. held_count l key = Some c \<longrightarrow> lc_reset c < now")
  case True
  have "local_ok (l\<lparr>sh_local := fresh_table now key l\<rparr>)"
    unfolding local_ok_table fresh_table_def by (intro conjI update_ok [OF assms]) simp_all
  then show ?thesis using consume_local_fresh_eq [OF True] local_ok_sweep by simp
next
  case False
  then obtain c where c: "held_count l key = Some c" "now \<le> lc_reset c" by auto
  have "0 \<le> lc_count c" using assms map_of_SomeD c(1) by (fastforce simp: held_count_def local_ok_def)
  then have "local_ok (l\<lparr>sh_local := AList.update (local_key (sh_rule l) key)
      (c\<lparr>lc_count := lc_count c + 1\<rparr>) (sh_local l)\<rparr>)"
    unfolding local_ok_table by (intro conjI update_ok [OF assms]) simp_all
  then show ?thesis using consume_local_held_eq [OF c] by simp
qed

lemma consume_local_other:
  assumes "local_ok l" "k \<noteq> key"
  shows "held_count (snd (consume_local now key l)) k = held_count l k
    \<or> (\<exists>c. held_count l k = Some c \<and> lc_reset c < now
         \<and> held_count (snd (consume_local now key l)) k = None)"
proof (cases "\<forall>c. held_count l key = Some c \<longrightarrow> lc_reset c < now")
  case True
  show ?thesis
    using consume_local_fresh_eq [OF True] held_fresh [OF assms(1), of now key "local_key (sh_rule l) k"]
      assms(2) map_of_fresh_table [of now key l k]
    by simp
next
  case False
  then obtain c where "held_count l key = Some c" "now \<le> lc_reset c" by auto
  from consume_local_held_eq [OF this] show ?thesis using assms(2)
    by (simp add: held_count_def update_conv')
qed

lemma consume_local_fresh:
  assumes "local_ok l" "0 \<le> rr_window_ms (sh_rule l)" "\<forall>c. held_count l key = Some c \<longrightarrow> lc_reset c < now"
  shows "rl_allowed (fst (consume_local now key l))
    \<and> held_count (snd (consume_local now key l)) key
        = Some \<lparr>lc_count = 1, lc_reset = now + rr_window_ms (sh_rule l)\<rparr>"
  using consume_local_fresh_eq [OF assms(3)] assms(2) map_of_fresh_table [of now key l key]
    held_fresh [OF assms(1), of now key "local_key (sh_rule l) key"]
  by auto

lemma consume_local_held:
  assumes "held_count l key = Some c" "now \<le> lc_reset c"
  shows "rl_allowed (fst (consume_local now key l)) = (lc_count c + 1 \<le> rr_max (sh_rule l))
    \<and> held_count (snd (consume_local now key l)) key = Some (c\<lparr>lc_count := lc_count c + 1\<rparr>)"
  using consume_local_held_eq [OF assms] by (simp add: held_count_def update_conv')

text \<open>What may still be allowed for a key in \<open>[a, a + window]\<close>.\<close>

definition rate_budget :: "rate_limit_rule \<Rightarrow> int \<Rightarrow> local_count option \<Rightarrow> nat" where
  "rate_budget rule a h = (case h of
     None \<Rightarrow> nat (rr_max rule)
   | Some c \<Rightarrow>
       if lc_reset c < a then nat (rr_max rule)
       else if a + rr_window_ms rule \<le> lc_reset c then nat (rr_max rule - lc_count c)
       else nat (rr_max rule - lc_count c) + nat (rr_max rule))"

lemma rate_budget_step:
  assumes "local_ok l" "0 \<le> rr_window_ms (sh_rule l)" "1 \<le> rr_max (sh_rule l)"
    and "a \<le> now" "now \<le> a + rr_window_ms (sh_rule l)"
  shows "(if k = key \<and> rl_allowed (fst (consume_local now k l)) then 1 else 0)
      + rate_budget (sh_rule l) a (held_count (snd (consume_local now k l)) key)
    \<le> rate_budget (sh_rule l) a (held_count l key)"
proof (cases "k = key")
  case False
  then show ?thesis using consume_local_other [OF assms(1), of key k now] assms
    by (auto simp: rate_budget_def)
next
  case True
  show ?thesis
  proof (cases "\<forall>c. held_count l key = Some c \<longrightarrow> lc_reset c < now")
    case fresh: True
    show ?thesis using consume_local_fresh [OF assms(1,2) fresh] True assms fresh
      by (auto simp: rate_budget_def split: option.splits)
  next
    case False
    then obtain c where c: "held_count l key = Some c" "now \<le> lc_reset c" by auto
    show ?thesis using consume_local_held [OF c] c True assms by (auto simp: rate_budget_def)
  qed
qed

lemma consume_run_budget:
  assumes "local_ok l" "0 \<le> rr_window_ms (sh_rule l)" "1 \<le> rr_max (sh_rule l)"
    and "\<forall>(now, k) \<in> set rs. a \<le> now \<and> now \<le> a + rr_window_ms (sh_rule l)"
  shows "allowed_for key (fst (consume_run l rs)) \<le> rate_budget (sh_rule l) a (held_count l key)"
  using assms
proof (induction l rs rule: consume_run.induct)
  case (1 l)
  then show ?case by simp
next
  case (2 l now k rs)
  obtain d l1 where c: "consume_local now k l = (d, l1)" by (cases "consume_local now k l")
  obtain ds l2 where r: "consume_run l1 rs = (ds, l2)" by (cases "consume_run l1 rs")
  have l1: "local_ok l1" "sh_rule l1 = sh_rule l"
    using local_ok_consume [OF "2.prems"(1), of now k] consume_local_rule [of now k l] c by auto
  have "allowed_for key ds \<le> rate_budget (sh_rule l) a (held_count l1 key)"
    using "2.IH" [OF c [symmetric]] "2.prems" l1 r by simp
  then show ?case using rate_budget_step [of l a now k key] "2.prems" c r by auto
qed

lemma local_ok_run: "local_ok l \<Longrightarrow> local_ok (snd (consume_run l rs))"
proof (induction l rs rule: consume_run.induct)
  case (2 l now key rs)
  then show ?case using local_ok_consume [of l now key] by (auto split: prod.splits)
qed simp

lemma consume_run_rule: "sh_rule (snd (consume_run l rs)) = sh_rule l"
proof (induction l rs rule: consume_run.induct)
  case (2 l now key rs)
  obtain d l1 where c: "consume_local now key l = (d, l1)" by (cases "consume_local now key l")
  obtain ds l2 where r: "consume_run l1 rs = (ds, l2)" by (cases "consume_run l1 rs")
  show ?case using 2 [OF c [symmetric]] consume_local_rule [of now key l] c r by simp
qed simp

lemma rate_budget_le:
  assumes "local_ok l"
  shows "rate_budget (sh_rule l) a (held_count l key) \<le> 2 * nat (rr_max (sh_rule l))"
proof -
  have "0 \<le> lc_count c" if "held_count l key = Some c" for c
    using assms map_of_SomeD [OF that [unfolded held_count_def]] by (auto simp: local_ok_def)
  then show ?thesis by (auto simp: rate_budget_def split: option.splits)
qed

end
