(* ===== verification/Submission_Gate.thy ===== *)
theory Submission_Gate
  imports Trust_Store
begin

text \<open>
  The gate in front of a credential form:
  src/src/domain/services/aitm/pre-submission-gate.ts.  The domain pipeline and the
  look-up of the trust store are handed to its constructor; here they are
  arguments, as are the clock and the random text of a request id.
\<close>

record form_field =
  ff_name :: jstr
  ff_type :: jstr
  ff_value :: "jstr option"

record form_context =
  fc_url :: jstr
  fc_hostname :: jstr
  fc_action :: jstr
  fc_method :: jstr
  fc_has_password :: bool
  fc_fields :: "form_field list"
  fc_expected :: "jstr option"

datatype gate_action = Gate_Allow | Gate_Block | Gate_Warn

record form_gate_decision =
  gd_action :: gate_action
  gd_reason :: jstr
  gd_confidence :: rat
  gd_risk_score :: int
  gd_evidence :: "domain_validation_result list"
  gd_request_id :: jstr
  gd_timestamp :: int

record gate_config =
  gc_enabled :: bool
  gc_threshold :: rat
  gc_whitelist :: "jstr list"
  gc_blacklist :: "jstr list"
  gc_max_per_minute :: int

type_synonym submission_log = "jstr \<rightharpoonup> int list"

record gate_ports =
  gp_pipeline :: "jstr \<Rightarrow> jstr \<Rightarrow> pipeline_result"
  gp_find_trust :: "jstr \<Rightarrow> jstr + trust_entry option"

definition generate_request_id :: "int \<Rightarrow> jstr \<Rightarrow> jstr" where
  "generate_request_id now random = lit ''req_'' @ dec_int now @ lit ''_'' @ random"

definition has_suspicious_hidden_fields :: "web \<Rightarrow> form_field list \<Rightarrow> bool" where
  "has_suspicious_hidden_fields W fs \<longleftrightarrow>
     (\<exists>f \<in> set fs. ff_type f = lit ''hidden''
        \<and> (case ff_value f of None \<Rightarrow> False | Some v \<Rightarrow> v \<noteq> [])
        \<and> to_lower W (ff_name f) \<notin> set (map lit [''csrf_token'', ''csrfmiddlewaretoken'', ''_token'', ''__token'']))"

definition host_listed :: "jstr \<Rightarrow> jstr list \<Rightarrow> bool" where
  "host_listed host names \<longleftrightarrow> (\<exists>n \<in> set names. host = n \<or> ends_with host (46 # n))"

definition submission_window_ms :: int where "submission_window_ms = 60000"

definition recent_submissions :: "int \<Rightarrow> jstr \<Rightarrow> submission_log \<Rightarrow> int list" where
  "recent_submissions now host m =
     filter (\<lambda>t. now - t < submission_window_ms) (case m host of None \<Rightarrow> [] | Some ts \<Rightarrow> ts)"

definition check_rate_limit :: "gate_config \<Rightarrow> int \<Rightarrow> jstr \<Rightarrow> submission_log \<Rightarrow> bool \<times> submission_log" where
  "check_rate_limit C now host m =
     (let recent = recent_submissions now host m in
      if int (length recent) \<ge> gc_max_per_minute C then (False, m(host \<mapsto> recent)) else (True, m))"

definition record_submission :: "int \<Rightarrow> jstr \<Rightarrow> submission_log \<Rightarrow> submission_log" where
  "record_submission now host m = m(host \<mapsto> recent_submissions now host m @ [now])"

text \<open>Action, reason, risk score and confidence.\<close>

definition make_gate_decision :: "pipeline_result \<Rightarrow> trust_entry option \<Rightarrow> gate_action \<times> jstr \<times> int \<times> rat" where
  "make_gate_decision p trust =
     (if map_option te_level trust = Some Trust_Verified then (Gate_Allow, lit ''trusted_domain'', 0, 1)
      else if \<not> pr_valid p \<and> pr_overall_risk p = Domain_High then
        (let step = find (\<lambda>s. dv_risk s = Domain_High) (pr_steps p) in
         (Gate_Block,
          (case step of Some s \<Rightarrow> if dv_reason s \<noteq> [] then dv_reason s else lit ''domain_validation_failed''
             | None \<Rightarrow> lit ''domain_validation_failed''),
          90, (case step of Some s \<Rightarrow> dv_confidence s | None \<Rightarrow> 8/10)))
      else if pr_overall_risk p = Domain_Medium then (Gate_Warn, lit ''domain_validation_uncertain'', 50, 5/10)
      else (case trust of
          None \<Rightarrow> (Gate_Warn, lit ''domain_not_in_trust_store'', 40, 5/10)
        | Some t \<Rightarrow>
            if te_level t = Trust_Distrusted then (Gate_Block, lit ''distrusted_domain'', 90, 1)
            else (Gate_Allow, lit ''low_risk_domain'', 10, 8/10)))"

definition short_decision :: "gate_action \<Rightarrow> string \<Rightarrow> rat \<Rightarrow> int \<Rightarrow> jstr \<Rightarrow> int \<Rightarrow> form_gate_decision" where
  "short_decision action reason confidence risk rid now =
     \<lparr>gd_action = action, gd_reason = lit reason, gd_confidence = confidence, gd_risk_score = risk,
      gd_evidence = [], gd_request_id = rid, gd_timestamp = now\<rparr>"

definition evaluate_submission ::
    "web \<Rightarrow> gate_config \<Rightarrow> gate_ports \<Rightarrow> int \<Rightarrow> jstr \<Rightarrow> form_context \<Rightarrow> submission_log
       \<Rightarrow> form_gate_decision \<times> submission_log" where
  "evaluate_submission W C P now random ctx m =
     (let rid = generate_request_id now random; host = trim (to_lower W (fc_hostname ctx)) in
      if \<not> gc_enabled C then (short_decision Gate_Allow ''gate_disabled'' 1 0 rid now, m)
      else if \<not> fc_has_password ctx then (short_decision Gate_Allow ''no_password_field'' 1 0 rid now, m)
      else if host_listed host (gc_blacklist C) then
        (short_decision Gate_Block ''blacklist_match'' 1 100 rid now, m)
      else if host_listed host (gc_whitelist C) then
        (short_decision Gate_Allow ''whitelist_match'' 1 0 rid now, m)
      else (case check_rate_limit C now host m of (allowed, m1) \<Rightarrow>
        if \<not> allowed then (short_decision Gate_Block ''rate_limit_exceeded'' 1 80 rid now, m1)
        else if has_suspicious_hidden_fields W (fc_fields ctx) then
          (short_decision Gate_Warn ''suspicious_hidden_fields'' (7/10) 60 rid now, m1)
        else
          (let expected = (case fc_expected ctx of Some e \<Rightarrow> if e \<noteq> [] then e else host | None \<Rightarrow> host);
               p = gp_pipeline P host expected;
               trust = (case gp_find_trust P host of Inl e \<Rightarrow> None | Inr t \<Rightarrow> t)
           in (case make_gate_decision p trust of (action, reason, risk, confidence) \<Rightarrow>
             (\<lparr>gd_action = action, gd_reason = reason, gd_confidence = confidence, gd_risk_score = risk,
               gd_evidence = pr_steps p, gd_request_id = rid, gd_timestamp = now\<rparr>,
              record_submission now host m1)))))"

subsection \<open>What the gate promises\<close>

lemma blacklisted_blocked:
  assumes "gc_enabled C" "fc_has_password ctx"
    and "host_listed (trim (to_lower W (fc_hostname ctx))) (gc_blacklist C)"
  shows "gd_action (fst (evaluate_submission W C P now random ctx m)) = Gate_Block"
  using assms by (simp add: evaluate_submission_def short_decision_def Let_def)

text \<open>
  A password form is let through without a warning only for a whitelisted host, a
  verified one, or a known one that is not distrusted on which the pipeline sees
  no risk.
\<close>

lemma allowed_only_if_trusted:
  assumes "gc_enabled C" "fc_has_password ctx"
    and "gd_action (fst (evaluate_submission W C P now random ctx m)) = Gate_Allow"
    and "\<not> host_listed (trim (to_lower W (fc_hostname ctx))) (gc_whitelist C)"
  shows "\<exists>t. gp_find_trust P (trim (to_lower W (fc_hostname ctx))) = Inr (Some t) \<and>
     (te_level t = Trust_Verified \<or>
      te_level t \<noteq> Trust_Distrusted \<and>
      (\<exists>e. pr_overall_risk (gp_pipeline P (trim (to_lower W (fc_hostname ctx))) e) \<noteq> Domain_Medium \<and>
           (pr_valid (gp_pipeline P (trim (to_lower W (fc_hostname ctx))) e)
            \<or> pr_overall_risk (gp_pipeline P (trim (to_lower W (fc_hostname ctx))) e) = Domain_Low)))"
proof -
  let ?host = "trim (to_lower W (fc_hostname ctx))"
  let ?e = "case fc_expected ctx of Some e \<Rightarrow> if e \<noteq> [] then e else ?host | None \<Rightarrow> ?host"
  let ?p = "gp_pipeline P ?host ?e"
  let ?t = "case gp_find_trust P ?host of Inl e \<Rightarrow> None | Inr t \<Rightarrow> t"
  have "fst (make_gate_decision ?p ?t) = Gate_Allow"
    using assms by (auto simp: evaluate_submission_def short_decision_def Let_def split: if_splits prod.splits)
  then obtain t where t: "?t = Some t" "te_level t = Trust_Verified \<or> te_level t \<noteq> Trust_Distrusted
      \<and> pr_overall_risk ?p \<noteq> Domain_Medium \<and> (pr_valid ?p \<or> pr_overall_risk ?p \<noteq> Domain_High)"
    by (auto simp: make_gate_decision_def Let_def split: if_splits option.splits)
  have "gp_find_trust P ?host = Inr (Some t)" using t(1) by (auto split: sum.splits)
  moreover have "pr_overall_risk ?p = Domain_Low" if "pr_overall_risk ?p \<noteq> Domain_Medium" "pr_overall_risk ?p \<noteq> Domain_High"
    using that by (cases "pr_overall_risk ?p") auto
  ultimately show ?thesis using t(2) by blast
qed

text \<open>Recorded submissions stay within the limit of a minute.\<close>

definition submissions_ok :: "gate_config \<Rightarrow> submission_log \<Rightarrow> bool" where
  "submissions_ok C m \<longleftrightarrow> (\<forall>host ts. m host = Some ts \<longrightarrow> int (length ts) \<le> gc_max_per_minute C)"

lemma check_rate_limit_other: "snd (check_rate_limit C now host m) k = m k \<or> k = host"
  by (auto simp: check_rate_limit_def Let_def)

lemma evaluate_submission_ok:
  assumes "submissions_ok C m" "0 \<le> gc_max_per_minute C"
  shows "submissions_ok C (snd (evaluate_submission W C P now random ctx m))"
proof -
  let ?host = "trim (to_lower W (fc_hostname ctx))"
  have recent: "int (length (recent_submissions now ?host m)) \<le> gc_max_per_minute C"
  proof (cases "m ?host")
    case None
    then show ?thesis using assms(2) by (simp add: recent_submissions_def)
  next
    case (Some ts)
    then have "length (recent_submissions now ?host m) \<le> length ts" by (simp add: recent_submissions_def)
    moreover have "int (length ts) \<le> gc_max_per_minute C" using assms(1) Some by (auto simp: submissions_ok_def)
    ultimately show ?thesis by linarith
  qed
  have limited: "submissions_ok C (snd (check_rate_limit C now ?host m))"
    using assms(1) recent by (auto simp: submissions_ok_def check_rate_limit_def Let_def)
  have recorded: "submissions_ok C (record_submission now ?host m)"
    if "fst (check_rate_limit C now ?host m)"
    using assms that by (auto simp: submissions_ok_def check_rate_limit_def record_submission_def Let_def split: if_splits)
  have keep: "snd (check_rate_limit C now ?host m) = m" if "fst (check_rate_limit C now ?host m)"
    using that by (auto simp: check_rate_limit_def Let_def split: if_splits)
  show ?thesis
    using assms limited recorded keep by (auto simp: evaluate_submission_def Let_def split: prod.splits)
qed

end
