(* ===== verification/Page_Integrity.thy ===== *)
theory Page_Integrity
  imports Codec Domain_Pipeline Resilience "HOL-Library.List_Lexorder"
begin

text \<open>
  What the extension observes of a page: src/src/domain/services/aitm/
  content-fingerprinter.ts and dom-integrity-checker.ts, with the value objects
  src/src/domain/value-objects/fingerprint-anomaly.ts and integrity-score.ts.  The
  page is a record of what the selectors of the code find in it; the digest of
  the normalized body is a parameter.
\<close>

subsection \<open>The page\<close>

text \<open>\<^verbatim>\<open>pi_type\<close> is the attribute and \<^verbatim>\<open>pi_kind\<close> the property the browser derives from it.\<close>

record page_input =
  pi_name :: jstr
  pi_id :: jstr
  pi_type :: "jstr option"
  pi_kind :: jstr
  pi_attributes :: "(jstr \<times> jstr) list"

record page_form =
  pf_action :: jstr
  pf_fields :: "page_input list"
  pf_inputs :: "page_input list"
  pf_passwords :: nat

record page_script =
  ps_src :: jstr
  ps_text :: jstr

record page_iframe =
  pq_src :: jstr
  pq_srcdoc :: "jstr option"

text \<open>
  \<^verbatim>\<open>pg_login_matches\<close> has, per selector of \<^verbatim>\<open>detectLoginForms\<close>, the positions of the
  forms it matches, or None where the browser rejects the selector.
\<close>

record page =
  pg_href :: jstr
  pg_origin :: jstr
  pg_hostname :: jstr
  pg_body :: jstr
  pg_cookie :: jstr
  pg_scripts :: "page_script list"
  pg_stylesheets :: "jstr list"
  pg_images :: "jstr list"
  pg_hidden_inputs :: "page_input list"
  pg_iframes :: "page_iframe list"
  pg_forms :: "page_form list"
  pg_login_matches :: "nat list option list"
  pg_password_fields :: "page_input list"

subsection \<open>Fingerprints\<close>

record page_fingerprint =
  fp_url :: jstr
  fp_content_hash :: jstr
  fp_form_structure :: jstr
  fp_script_count :: nat
  fp_external :: "jstr list"
  fp_timestamp :: int

definition hash_normalized_dom :: "(bytes \<Rightarrow> bytes) \<Rightarrow> page \<Rightarrow> jstr" where
  "hash_normalized_dom sha p = to_hex (sha (utf8_encode (pg_body p)))"

definition field_structure :: "page_input \<Rightarrow> jstr" where
  "field_structure i =
     lit ''  input[type='' @ quoted (case pi_type i of Some t \<Rightarrow> if t \<noteq> [] then t else lit ''text'' | None \<Rightarrow> lit ''text'')
     @ lit ''][name='' @ quoted (pi_name i) @ lit ''][id='' @ quoted (pi_id i) @ lit '']''"

definition form_structure :: "page_form \<Rightarrow> jstr" where
  "form_structure f =
     join_lit [10] ((lit ''form[action='' @ quoted (pf_action f) @ lit '']'') # map field_structure (pf_fields f))"

definition hash_form_structure :: "page \<Rightarrow> jstr" where
  "hash_form_structure p = join_lit (10 # lit ''---'' @ [10]) (map form_structure (pg_forms p))"

definition external_resource :: "page \<Rightarrow> jstr \<Rightarrow> bool" where
  "external_resource p s \<longleftrightarrow> s \<noteq> [] \<and> \<not> starts_with s (pg_origin p)"

text \<open>\<^verbatim>\<open>resources.sort()\<close> compares code units.\<close>

definition get_external_resources :: "page \<Rightarrow> jstr list" where
  "get_external_resources p = sort
     (filter (external_resource p) (map ps_src (pg_scripts p))
      @ filter (external_resource p) (pg_stylesheets p)
      @ filter (\<lambda>s. external_resource p s \<and> \<not> starts_with s (lit ''data:'')) (pg_images p))"

definition generate_fingerprint :: "(bytes \<Rightarrow> bytes) \<Rightarrow> int \<Rightarrow> page \<Rightarrow> page_fingerprint" where
  "generate_fingerprint sha now p =
     \<lparr>fp_url = pg_href p, fp_content_hash = hash_normalized_dom sha p,
      fp_form_structure = hash_form_structure p, fp_script_count = length (pg_scripts p),
      fp_external = get_external_resources p, fp_timestamp = now\<rparr>"

definition compare_fingerprints :: "page_fingerprint \<Rightarrow> page_fingerprint \<Rightarrow> rat" where
  "compare_fingerprints a b =
     (let content = (if fp_content_hash a = fp_content_hash b then 5/10 else 0);
          form = (if fp_form_structure a = fp_form_structure b then 3/10 else 0);
          scripts = (if fp_script_count a = fp_script_count b then 1/10
            else 1/10 * (1 - \<bar>of_nat (fp_script_count a) - of_nat (fp_script_count b)\<bar>
                             / of_nat (max (fp_script_count a) (fp_script_count b))));
          shared = length (filter (\<lambda>r. r \<in> set (fp_external b)) (fp_external a));
          most = max (length (fp_external a)) (length (fp_external b));
          resources = 1/10 * (if most = 0 then 1 else of_nat shared / of_nat most)
      in (content + form + scripts + resources) / (5/10 + 3/10 + 1/10 + 1/10))"

subsection \<open>The DOM checker\<close>

datatype dom_anomaly_type = Unexpected_Script | Modified_Form | Hidden_Field | Event_Listener | Iframe_Injection

datatype anomaly_severity = Sev_Info | Sev_Warning | Sev_Critical

record dom_anomaly =
  da_type :: dom_anomaly_type
  da_location :: jstr
  da_description :: jstr
  da_severity :: anomaly_severity

record dom_integrity_result =
  di_intact :: bool
  di_anomalies :: "dom_anomaly list"
  di_risk :: domain_risk

definition create_anomaly :: "dom_anomaly_type \<Rightarrow> jstr \<Rightarrow> jstr \<Rightarrow> anomaly_severity \<Rightarrow> dom_anomaly" where
  "create_anomaly t l d s = \<lparr>da_type = t, da_location = l, da_description = d, da_severity = s\<rparr>"

definition suspicious_patterns :: "jstr list" where
  "suspicious_patterns = map lit [''document.cookie'', ''document.location'', ''window.location'', ''fetch('',
     ''XMLHttpRequest'', ''Image().src'', ''createElement'', ''appendChild'']"

definition find_suspicious_pattern :: "jstr \<Rightarrow> jstr list \<Rightarrow> jstr option" where
  "find_suspicious_pattern text patterns = find (includes_text text) patterns"

definition trusted_domains :: "jstr list" where
  "trusted_domains = map lit [''googleapis.com'', ''cloudflare.com'', ''jsdelivr.net'', ''unpkg.com'',
     ''cdn.jsdelivr.net'', ''ajax.googleapis.com'', ''fonts.googleapis.com'', ''cdnjs.cloudflare.com'']"

text \<open>\<^verbatim>\<open>new URL(s, base).hostname\<close>; None when the constructor throws.\<close>

definition url_hostname :: "web \<Rightarrow> jstr \<Rightarrow> jstr \<Rightarrow> jstr option" where
  "url_hostname W s base = (case resolve_url W s base of
     None \<Rightarrow> None | Some absolute \<Rightarrow> map_option u_hostname (parse_url W absolute))"

definition is_trusted_domain :: "web \<Rightarrow> page \<Rightarrow> jstr \<Rightarrow> bool" where
  "is_trusted_domain W p s = (case url_hostname W s (pg_href p) of
     None \<Rightarrow> False
   | Some h \<Rightarrow> (let host = to_lower W h in
       host = pg_hostname p \<or> ends_with host (46 # pg_hostname p)
       \<or> (\<exists>t \<in> set trusted_domains. host = t \<or> ends_with host (46 # t))))"

definition script_anomalies :: "web \<Rightarrow> page \<Rightarrow> page_script \<Rightarrow> dom_anomaly list" where
  "script_anomalies W p s =
     (if ps_src s = [] \<and> ps_text s \<noteq> [] then
        (case find_suspicious_pattern (ps_text s) suspicious_patterns of
           None \<Rightarrow> []
         | Some pattern \<Rightarrow> [create_anomaly Unexpected_Script (lit ''inline script'')
             (lit ''Inline script contains suspicious pattern: '' @ quoted pattern) Sev_Critical])
      else [])
     @ (if ps_src s \<noteq> [] \<and> \<not> is_trusted_domain W p (ps_src s) then
          [create_anomaly Unexpected_Script (ps_src s)
             (lit ''External script from untrusted domain: '' @ ps_src s) Sev_Warning]
        else [])"

definition detect_unexpected_scripts :: "web \<Rightarrow> page \<Rightarrow> dom_anomaly list" where
  "detect_unexpected_scripts W p = concat (map (script_anomalies W p) (pg_scripts p))"

definition suspicious_names :: "jstr list" where
  "suspicious_names = map lit [''csrf_token'', ''token'', ''session'', ''auth'', ''credential'',
     ''password_confirm'', ''backup_code'']"

definition input_location :: "page_input \<Rightarrow> jstr" where
  "input_location i = lit ''input[name='' @ quoted (pi_name i) @ lit ''][id='' @ quoted (pi_id i) @ lit '']''"

definition detect_hidden_fields :: "web \<Rightarrow> page \<Rightarrow> dom_anomaly list" where
  "detect_hidden_fields W p = concat (map (\<lambda>i.
     if (\<exists>s \<in> set suspicious_names. includes_text (to_lower W (pi_name i)) s \<or> includes_text (to_lower W (pi_id i)) s)
     then [create_anomaly Hidden_Field (input_location i)
             (lit ''Hidden field with suspicious name: '' @ quoted (if pi_name i \<noteq> [] then pi_name i else pi_id i))
             Sev_Warning]
     else []) (pg_hidden_inputs p))"

definition iframe_anomalies :: "web \<Rightarrow> page \<Rightarrow> page_iframe \<Rightarrow> dom_anomaly list" where
  "iframe_anomalies W p f =
     (case pq_srcdoc f of
        None \<Rightarrow> []
      | Some d \<Rightarrow> if d = [] then []
          else [create_anomaly Iframe_Injection (lit ''iframe[srcdoc]'')
                  (lit ''Inline iframe content detected (possible injection)'') Sev_Critical])
     @ (if pq_src f \<noteq> [] \<and> \<not> is_trusted_domain W p (pq_src f) then
          [create_anomaly Iframe_Injection (lit ''iframe[src='' @ quoted (pq_src f) @ lit '']'')
             (lit ''External iframe from untrusted domain: '' @ pq_src f) Sev_Warning]
        else [])"

definition detect_injected_iframes :: "web \<Rightarrow> page \<Rightarrow> dom_anomaly list" where
  "detect_injected_iframes W p = concat (map (iframe_anomalies W p) (pg_iframes p))"

definition check_form_integrity :: "web \<Rightarrow> page \<Rightarrow> page_form \<Rightarrow> dom_anomaly list" where
  "check_form_integrity W p f =
     (if pf_action f \<noteq> [] then
        (case url_hostname W (pf_action f) (pg_href p) of
           None \<Rightarrow> []
         | Some h \<Rightarrow> if h \<noteq> pg_hostname p then
             [create_anomaly Modified_Form (lit ''form[action='' @ quoted (pf_action f) @ lit '']'')
                (lit ''Form action points to different domain: '' @ h) Sev_Critical] else [])
      else [])
     @ (if pf_passwords f > 2 then
          [create_anomaly Modified_Form
             (lit ''form with '' @ dec_nat (pf_passwords f) @ lit '' password fields'')
             (lit ''Unusual number of password fields: '' @ dec_nat (pf_passwords f)) Sev_Warning]
        else [])
     @ concat (map (\<lambda>i.
          if includes_text (to_lower W (pi_name i)) (lit ''token'') \<and> pi_kind i \<noteq> lit ''hidden''
          then [create_anomaly Modified_Form (lit ''input[name='' @ quoted (pi_name i) @ lit '']'')
                  (lit ''Form contains suspicious token field: '' @ quoted (pi_name i)) Sev_Warning]
          else []) (pf_inputs f))"

text \<open>The forms the selectors match, each once, in the order found.\<close>

definition detect_login_forms :: "page \<Rightarrow> page_form list" where
  "detect_login_forms p =
     map (\<lambda>i. pg_forms p ! i)
       (dedupe (concat (map (\<lambda>m. case m of None \<Rightarrow> [] | Some ks \<Rightarrow> ks) (pg_login_matches p))))"

definition suspicious_attribute :: "jstr \<times> jstr \<Rightarrow> bool" where
  "suspicious_attribute a \<longleftrightarrow> starts_with (fst a) (lit ''data-'')
     \<and> (includes_text (fst a) (lit ''capture'') \<or> includes_text (fst a) (lit ''log'')
        \<or> includes_text (fst a) (lit ''track''))"

definition detect_suspicious_event_listeners :: "page \<Rightarrow> dom_anomaly list" where
  "detect_suspicious_event_listeners p = concat (map (\<lambda>i. map (\<lambda>a.
     create_anomaly Event_Listener
       (lit ''input[name='' @ quoted (if pi_name i \<noteq> [] then pi_name i else pi_id i) @ lit '']'')
       (lit ''Suspicious data attribute: '' @ fst a @ lit ''='' @ quoted (snd a)) Sev_Warning)
     (filter suspicious_attribute (pi_attributes i))) (pg_password_fields p))"

definition check_page_integrity :: "web \<Rightarrow> page \<Rightarrow> dom_integrity_result" where
  "check_page_integrity W p =
     (let anomalies = detect_unexpected_scripts W p @ detect_hidden_fields W p
            @ detect_injected_iframes W p @ concat (map (check_form_integrity W p) (detect_login_forms p))
            @ detect_suspicious_event_listeners p
      in \<lparr>di_intact = (anomalies = []), di_anomalies = anomalies,
          di_risk = (if \<exists>a \<in> set anomalies. da_severity a = Sev_Critical then Domain_High
            else if \<exists>a \<in> set anomalies. da_severity a = Sev_Warning then Domain_Medium else Domain_Low)\<rparr>)"

subsection \<open>Value objects\<close>

datatype fingerprint_anomaly_type = Content_Hash_Mismatch | Form_Structure_Modified | Script_Count_Anomaly
  | Unexpected_External_Resource | Missing_Expected_Resource | Timestamp_Skew

record fingerprint_anomaly =
  fa_type :: fingerprint_anomaly_type
  fa_severity :: anomaly_severity
  fa_expected :: jstr
  fa_actual :: jstr
  fa_description :: jstr
  fa_detected_at :: int

definition create_fingerprint_anomaly ::
    "fingerprint_anomaly_type \<Rightarrow> anomaly_severity \<Rightarrow> jstr \<Rightarrow> jstr \<Rightarrow> jstr \<Rightarrow> int \<Rightarrow> string + fingerprint_anomaly" where
  "create_fingerprint_anomaly t s expected actual d now =
     (if now \<le> 0 then Inl ''FingerprintAnomaly: detectedAt must be positive''
      else Inr \<lparr>fa_type = t, fa_severity = s, fa_expected = expected, fa_actual = actual,
                fa_description = d, fa_detected_at = now\<rparr>)"

record integrity_props =
  ip_hostname :: rat
  ip_content_hash :: rat
  ip_timing :: rat
  ip_dom_integrity :: rat
  ip_cookie_security :: rat

record integrity_score =
  is_hostname :: int
  is_content_hash :: int
  is_timing :: int
  is_dom_integrity :: int
  is_cookie_security :: int
  is_overall :: int
  is_evaluated_at :: int

definition clamp_score :: "rat \<Rightarrow> int" where
  "clamp_score v = max 0 (min 100 (js_round v))"

definition compute_overall :: "integrity_props \<Rightarrow> int" where
  "compute_overall q = clamp_score (ip_hostname q * (25/100) + ip_content_hash q * (30/100)
     + ip_timing q * (15/100) + ip_dom_integrity q * (20/100) + ip_cookie_security q * (10/100))"

definition create_integrity_score :: "integrity_props \<Rightarrow> int \<Rightarrow> string + integrity_score" where
  "create_integrity_score q now =
     (if now \<le> 0 then Inl ''IntegrityScore: evaluatedAt must be positive''
      else Inr \<lparr>is_hostname = clamp_score (ip_hostname q), is_content_hash = clamp_score (ip_content_hash q),
                is_timing = clamp_score (ip_timing q), is_dom_integrity = clamp_score (ip_dom_integrity q),
                is_cookie_security = clamp_score (ip_cookie_security q), is_overall = compute_overall q,
                is_evaluated_at = now\<rparr>)"

text \<open>\<^verbatim>\<open>fromPlainObject\<close> recomputes the overall score from the rounded dimensions.\<close>

definition integrity_props_of :: "integrity_score \<Rightarrow> integrity_props" where
  "integrity_props_of s =
     \<lparr>ip_hostname = of_int (is_hostname s), ip_content_hash = of_int (is_content_hash s),
      ip_timing = of_int (is_timing s), ip_dom_integrity = of_int (is_dom_integrity s),
      ip_cookie_security = of_int (is_cookie_security s)\<rparr>"

definition integrity_score_from_plain :: "integrity_score \<Rightarrow> string + integrity_score" where
  "integrity_score_from_plain s = create_integrity_score (integrity_props_of s) (is_evaluated_at s)"

lemma clamp_score_bounds: "0 \<le> clamp_score v \<and> clamp_score v \<le> 100"
  by (simp add: clamp_score_def)

lemma clamp_score_int: "0 \<le> n \<Longrightarrow> n \<le> 100 \<Longrightarrow> clamp_score (of_int n) = n"
  by (simp add: clamp_score_def js_round_int)

text \<open>A score made of whole numbers between 0 and 100 survives the round trip.\<close>

lemma integrity_score_roundtrip:
  assumes "create_integrity_score (integrity_props_of s) now = Inr t" "0 < now"
    and "\<forall>v \<in> {is_hostname s, is_content_hash s, is_timing s, is_dom_integrity s, is_cookie_security s}. 0 \<le> v \<and> v \<le> 100"
  shows "integrity_score_from_plain t = Inr t"
proof -
  have t: "t = \<lparr>is_hostname = is_hostname s, is_content_hash = is_content_hash s, is_timing = is_timing s,
      is_dom_integrity = is_dom_integrity s, is_cookie_security = is_cookie_security s,
      is_overall = compute_overall (integrity_props_of s), is_evaluated_at = now\<rparr>"
    using assms by (auto simp: create_integrity_score_def integrity_props_of_def clamp_score_int)
  then have "integrity_props_of t = integrity_props_of s" by (simp add: integrity_props_of_def)
  then show ?thesis using assms t by (simp add: integrity_score_from_plain_def)
qed

subsection \<open>Similarity of fingerprints\<close>

lemma script_similarity_bounds:
  fixes a b :: nat
  assumes "a \<noteq> b"
  shows "0 \<le> 1 - \<bar>rat_of_nat a - rat_of_nat b\<bar> / rat_of_nat (max a b)
    \<and> 1 - \<bar>rat_of_nat a - rat_of_nat b\<bar> / rat_of_nat (max a b) \<le> 1"
proof -
  have m: "0 < rat_of_nat (max a b)" using assms by (cases a; cases b) (auto simp: max_def)
  have "\<bar>rat_of_nat a - rat_of_nat b\<bar> \<le> rat_of_nat (max a b)" by (auto simp: max_def abs_le_iff)
  then show ?thesis using m by (simp add: divide_le_eq)
qed

lemma compare_fingerprints_bounds: "0 \<le> compare_fingerprints a b \<and> compare_fingerprints a b \<le> 1"
proof -
  let ?s = "if fp_script_count a = fp_script_count b then 1/10
     else 1/10 * (1 - \<bar>rat_of_nat (fp_script_count a) - rat_of_nat (fp_script_count b)\<bar>
                      / rat_of_nat (max (fp_script_count a) (fp_script_count b)))"
  let ?most = "max (length (fp_external a)) (length (fp_external b))"
  let ?shared = "length (filter (\<lambda>r. r \<in> set (fp_external b)) (fp_external a))"
  let ?r = "1/10 * (if ?most = 0 then 1 else rat_of_nat ?shared / rat_of_nat ?most)"
  have s: "0 \<le> ?s" "?s \<le> 1/10" using script_similarity_bounds [of "fp_script_count a" "fp_script_count b"] by auto
  have "?shared \<le> ?most" using length_filter_le le_max_iff_disj by blast
  then have r: "0 \<le> ?r" "?r \<le> 1/10" by (auto simp: divide_le_eq)
  have c: "compare_fingerprints a b = (if fp_content_hash a = fp_content_hash b then 5/10 else 0)
      + (if fp_form_structure a = fp_form_structure b then 3/10 else 0) + ?s + ?r"
    unfolding compare_fingerprints_def Let_def by simp
  have parts: "0 \<le> x + y + u + v \<and> x + y + u + v \<le> 1"
    if "0 \<le> x" "x \<le> 5/10" "0 \<le> y" "y \<le> 3/10" "0 \<le> u" "u \<le> 1/10" "0 \<le> v" "v \<le> 1/10" for x y u v :: rat
    using that by linarith
  show ?thesis unfolding c by (rule parts [OF _ _ _ _ s r]) auto
qed

lemma compare_fingerprints_same: "compare_fingerprints a a = 1"
proof -
  have "filter (\<lambda>r. r \<in> set xs) xs = xs" for xs :: "jstr list" by (simp add: filter_id_conv)
  then show ?thesis by (simp add: compare_fingerprints_def Let_def)
qed

end
