(* ===== verification/Page_Evaluation.thy ===== *)
theory Page_Evaluation
  imports Page_Integrity
begin

text \<open>
  The two judges of a page: the detector
  src/src/domain/services/aitm/aitm-detector.ts and the evaluator
  src/src/infrastructure/browser/BrowserIntegrityEvaluatorAdapter.ts, which the
  orchestrator may be given; with the timing measurements of
  src/src/infrastructure/security/TimingAnalyzer.ts and the older host check
  src/src/domain/services/aitm/domain-validator.ts.  Times are milliseconds as
  exact rationals, and every measured time is an argument.
\<close>

subsection \<open>Timing of native functions\<close>

record timing_measurement =
  tm_function :: jstr
  tm_time :: rat
  tm_baseline :: rat
  tm_deviation :: rat
  tm_severity :: anomaly_severity
  tm_timestamp :: int

text \<open>
  What probing one function yields: it may not exist; it may throw in the baseline
  runs, or after them; else the times of the baseline runs and of the measured runs.
\<close>

datatype native_probe = Probe_Missing | Probe_Throws | Probe_Throws_Later "rat list" | Probe_Times "rat list" "rat list"

definition timing_warning :: rat where "timing_warning = 200"
definition timing_critical :: rat where "timing_critical = 500"

definition mean :: "rat list \<Rightarrow> rat" where
  "mean ts = sum_list ts / of_nat (length ts)"

definition timing_severity :: "rat \<Rightarrow> anomaly_severity" where
  "timing_severity deviation =
     (if deviation > timing_critical / 1000 then Sev_Critical
      else if deviation > timing_warning / 1000 then Sev_Warning else Sev_Info)"

type_synonym baseline_cache = "jstr \<rightharpoonup> rat"

definition measure_function ::
    "int \<Rightarrow> jstr \<Rightarrow> native_probe \<Rightarrow> baseline_cache \<Rightarrow> timing_measurement option \<times> baseline_cache" where
  "measure_function now name probe cache = (case probe of
     Probe_Missing \<Rightarrow> (None, cache)
   | Probe_Throws \<Rightarrow> (None, cache)
   | Probe_Throws_Later base \<Rightarrow>
       (None, cache(name \<mapsto> (case cache name of Some b \<Rightarrow> b | None \<Rightarrow> mean base)))
   | Probe_Times base runs \<Rightarrow>
       (let baseline = (case cache name of Some b \<Rightarrow> b | None \<Rightarrow> mean base);
            avg = mean runs;
            deviation = \<bar>avg - baseline\<bar> / baseline
        in (Some \<lparr>tm_function = name, tm_time = avg, tm_baseline = baseline, tm_deviation = deviation,
                  tm_severity = timing_severity deviation, tm_timestamp = now\<rparr>,
            cache(name \<mapsto> baseline))))"

fun analyze_native_timing ::
    "int \<Rightarrow> (jstr \<times> native_probe) list \<Rightarrow> baseline_cache \<Rightarrow> timing_measurement list \<times> baseline_cache" where
  "analyze_native_timing now [] cache = ([], cache)"
| "analyze_native_timing now ((name, probe) # ps) cache =
     (case measure_function now name probe cache of (m, c1) \<Rightarrow>
        (case analyze_native_timing now ps c1 of (ms, c2) \<Rightarrow>
           ((case m of None \<Rightarrow> ms | Some x \<Rightarrow> x # ms), c2)))"

definition count_severity :: "anomaly_severity \<Rightarrow> anomaly_severity list \<Rightarrow> nat" where
  "count_severity s ss = length (filter (\<lambda>x. x = s) ss)"

record automation_verdict =
  av_automated :: bool
  av_evidence :: "timing_measurement list"
  av_confidence :: rat

definition detect_automated_execution :: "timing_measurement list \<Rightarrow> automation_verdict" where
  "detect_automated_execution ms =
     (let criticals = count_severity Sev_Critical (map tm_severity ms);
          warnings = count_severity Sev_Warning (map tm_severity ms)
      in \<lparr>av_automated = (criticals > 0 \<or> warnings > 2),
          av_evidence = filter (\<lambda>m. tm_severity m = Sev_Critical \<or> tm_severity m = Sev_Warning) ms,
          av_confidence = min 1 (of_nat criticals * (3/10) + of_nat warnings * (15/100))\<rparr>)"

subsection \<open>The evaluator of the browser\<close>

record integrity_context =
  ic_current :: page_fingerprint
  ic_baseline :: "page_fingerprint option"
  ic_url :: jstr
  ic_timestamp :: int

record evaluation_result =
  er_result :: aitm_result
  er_score :: integrity_score
  er_anomalies :: "fingerprint_anomaly list"
  er_context :: integrity_context

definition sequence_results :: "(string + 'a) list \<Rightarrow> string + 'a list" where
  "sequence_results rs = foldr (\<lambda>r acc. case r of Inl e \<Rightarrow> Inl e
     | Inr x \<Rightarrow> (case acc of Inl e \<Rightarrow> Inl e | Inr xs \<Rightarrow> Inr (x # xs))) rs (Inr [])"

definition fingerprint_anomalies ::
    "number_format \<Rightarrow> int \<Rightarrow> page_fingerprint \<Rightarrow> page_fingerprint option \<Rightarrow> string + fingerprint_anomaly list" where
  "fingerprint_anomalies N now c base = (case base of
     None \<Rightarrow> Inr []
   | Some b \<Rightarrow> sequence_results (
       (if fp_content_hash c \<noteq> fp_content_hash b then
          [create_fingerprint_anomaly Content_Hash_Mismatch Sev_Critical (fp_content_hash b) (fp_content_hash c)
             (lit ''Page content hash differs from baseline '' @ [8212]
              @ lit '' possible DOM poisoning or content injection'') now] else [])
       @ (if fp_form_structure c \<noteq> fp_form_structure b then
          [create_fingerprint_anomaly Form_Structure_Modified Sev_Critical (fp_form_structure b) (fp_form_structure c)
             (lit ''Form structure has been modified '' @ [8212]
              @ lit '' possible credential harvesting injection'') now] else [])
       @ (if fp_script_count c \<noteq> fp_script_count b then
          [create_fingerprint_anomaly Script_Count_Anomaly
             (if \<bar>int (fp_script_count c) - int (fp_script_count b)\<bar> > 3 then Sev_Critical else Sev_Warning)
             (dec_nat (fp_script_count b)) (dec_nat (fp_script_count c))
             (lit ''Script count changed from '' @ dec_nat (fp_script_count b) @ lit '' to ''
              @ dec_nat (fp_script_count c) @ [32, 8212] @ lit '' possible script injection'') now] else [])
       @ map (\<lambda>r. create_fingerprint_anomaly Unexpected_External_Resource Sev_Warning (lit ''none'') r
             (lit ''Unexpected external resource loaded: '' @ r) now)
           (filter (\<lambda>r. r \<notin> set (fp_external b)) (fp_external c))
       @ map (\<lambda>r. create_fingerprint_anomaly Missing_Expected_Resource Sev_Warning r (lit ''none'')
             (lit ''Expected external resource missing: '' @ r) now)
           (filter (\<lambda>r. r \<notin> set (fp_external c)) (fp_external b))
       @ (if \<bar>fp_timestamp c - fp_timestamp b\<bar> > 300000 then
          [create_fingerprint_anomaly Timestamp_Skew Sev_Info (dec_int (fp_timestamp b)) (dec_int (fp_timestamp c))
             (lit ''Large timestamp difference between fingerprints: ''
              @ dec_int \<bar>fp_timestamp c - fp_timestamp b\<bar> @ lit ''ms'') now] else [])))"

text \<open>A missing baseline, or an empty text in it, counts as nothing to compare with.\<close>

definition baseline_text :: "jstr option \<Rightarrow> jstr option" where
  "baseline_text b = (case b of None \<Rightarrow> None | Some t \<Rightarrow> if t = [] then None else Some t)"

definition get_signal_status :: "jstr \<Rightarrow> jstr option \<Rightarrow> signal_status" where
  "get_signal_status current base = (case baseline_text base of
     None \<Rightarrow> Sig_Pass | Some b \<Rightarrow> if current = b then Sig_Pass else Sig_Fail)"

definition score_hostname :: "web \<Rightarrow> jstr \<Rightarrow> jstr option \<Rightarrow> int" where
  "score_hostname W current base = (case baseline_text base of
     None \<Rightarrow> 100
   | Some b \<Rightarrow> (case (parse_url W current, parse_url W b) of
       (Some c', Some b') \<Rightarrow> if u_hostname c' = u_hostname b' then 100 else 0
     | _ \<Rightarrow> 0))"

definition score_content_hash :: "jstr \<Rightarrow> jstr option \<Rightarrow> int" where
  "score_content_hash current base = (case baseline_text base of
     None \<Rightarrow> 100 | Some b \<Rightarrow> if current = b then 100 else 0)"

definition severity_status :: "anomaly_severity list \<Rightarrow> signal_status" where
  "severity_status ss =
     (if Sev_Critical \<in> set ss then Sig_Fail else if Sev_Warning \<in> set ss then Sig_Warn else Sig_Pass)"

definition score_timing :: "timing_measurement list \<Rightarrow> int" where
  "score_timing ms =
     (if ms = [] then 100
      else max 0 (100 - int (count_severity Sev_Critical (map tm_severity ms)) * 30
                      - int (count_severity Sev_Warning (map tm_severity ms)) * 10))"

definition compute_dom_score :: "dom_integrity_result \<Rightarrow> int" where
  "compute_dom_score r =
     (if di_intact r then 100
      else max 0 (100 - int (count_severity Sev_Critical (map da_severity (di_anomalies r))) * 25
                      - int (count_severity Sev_Warning (map da_severity (di_anomalies r))) * 10
                      - int (count_severity Sev_Info (map da_severity (di_anomalies r))) * 2))"

definition evaluator_signals ::
    "web \<Rightarrow> timing_measurement list \<Rightarrow> dom_integrity_result \<Rightarrow> integrity_context \<Rightarrow> detection_signal list" where
  "evaluator_signals W timing domr ctx =
     (let c = ic_current ctx; b = ic_baseline ctx in
      [\<lparr>ds_type = Sig_Hostname, ds_status = get_signal_status (fp_url c) (map_option fp_url b),
        ds_score = of_int (score_hostname W (fp_url c) (map_option fp_url b)), ds_confidence = 9/10,
        ds_weight = 25/100, ds_details = lit ''Hostname comparison: '' @ fp_url c\<rparr>,
       \<lparr>ds_type = Sig_Content_Hash, ds_status = get_signal_status (fp_content_hash c) (map_option fp_content_hash b),
        ds_score = of_int (score_content_hash (fp_content_hash c) (map_option fp_content_hash b)),
        ds_confidence = 95/100, ds_weight = 30/100,
        ds_details = lit ''Content hash: '' @ take 16 (fp_content_hash c) @ lit ''...''\<rparr>,
       \<lparr>ds_type = Sig_Timing, ds_status = severity_status (map tm_severity timing),
        ds_score = of_int (score_timing timing), ds_confidence = 8/10, ds_weight = 15/100,
        ds_details = lit ''Timing analysis: '' @ dec_nat (length timing) @ lit '' native functions measured''\<rparr>,
       \<lparr>ds_type = Sig_Dom_Integrity, ds_status = severity_status (map da_severity (di_anomalies domr)),
        ds_score = of_int (compute_dom_score domr), ds_confidence = 85/100, ds_weight = 20/100,
        ds_details = lit ''DOM anomalies: '' @ dec_nat (length (di_anomalies domr))\<rparr>,
       \<lparr>ds_type = Sig_Cookie_Security, ds_status = Sig_Pass, ds_score = 100, ds_confidence = 7/10,
        ds_weight = 10/100, ds_details = lit ''Cookie security assessment''\<rparr>])"

text \<open>The score of the first signal of a type, \<^verbatim>\<open>signals.find(...)?.score ?? 0\<close>.\<close>

definition signal_score :: "signal_type \<Rightarrow> detection_signal list \<Rightarrow> rat" where
  "signal_score t ss = (case find (\<lambda>s. ds_type s = t) ss of None \<Rightarrow> 0 | Some s \<Rightarrow> ds_score s)"

definition evaluate_integrity ::
    "web \<Rightarrow> number_format \<Rightarrow> int \<Rightarrow> timing_measurement list \<Rightarrow> page \<Rightarrow> integrity_context
       \<Rightarrow> string + evaluation_result" where
  "evaluate_integrity W N now timing p ctx =
     (let domr = check_page_integrity W p in
      case fingerprint_anomalies N now (ic_current ctx) (ic_baseline ctx) of
        Inl e \<Rightarrow> Inl e
      | Inr anomalies \<Rightarrow>
          (let signals = evaluator_signals W timing domr ctx;
               risk = compute_risk_score signals
           in case create_integrity_score
                 \<lparr>ip_hostname = signal_score Sig_Hostname signals,
                  ip_content_hash = signal_score Sig_Content_Hash signals,
                  ip_timing = signal_score Sig_Timing signals,
                  ip_dom_integrity = signal_score Sig_Dom_Integrity signals,
                  ip_cookie_security = signal_score Sig_Cookie_Security signals\<rparr> (ic_timestamp ctx) of
               Inl e \<Rightarrow> Inl e
             | Inr score \<Rightarrow> Inr
                 \<lparr>er_result = \<lparr>ai_risk_score = risk, ai_signals = signals,
                     ai_recommendation = get_recommendation risk, ai_evaluated_at = ic_timestamp ctx\<rparr>,
                  er_score = score, er_anomalies = anomalies, er_context = ctx\<rparr>))"

definition quick_evaluate ::
    "web \<Rightarrow> number_format \<Rightarrow> int \<Rightarrow> timing_measurement list \<Rightarrow> page \<Rightarrow> page_fingerprint \<Rightarrow> string + aitm_result" where
  "quick_evaluate W N now timing p f =
     (case evaluate_integrity W N now timing p
         \<lparr>ic_current = f, ic_baseline = None, ic_url = fp_url f, ic_timestamp = now\<rparr> of
        Inl e \<Rightarrow> Inl e | Inr r \<Rightarrow> Inr (er_result r))"

subsection \<open>The detector\<close>

record aitm_detector =
  ad_samples :: "rat list"
  ad_known :: "jstr \<rightharpoonup> page_fingerprint"

definition new_detector :: aitm_detector where
  "new_detector = \<lparr>ad_samples = [], ad_known = (\<lambda>_. None)\<rparr>"

definition register_known_fingerprint :: "jstr \<Rightarrow> page_fingerprint \<Rightarrow> aitm_detector \<Rightarrow> aitm_detector" where
  "register_known_fingerprint domain f d = d\<lparr>ad_known := (ad_known d)(domain \<mapsto> f)\<rparr>"

definition signal ::
    "signal_type \<Rightarrow> signal_status \<Rightarrow> rat \<Rightarrow> rat \<Rightarrow> rat \<Rightarrow> jstr \<Rightarrow> detection_signal" where
  "signal t st score confidence weight details =
     \<lparr>ds_type = t, ds_status = st, ds_score = score, ds_confidence = confidence, ds_weight = weight,
      ds_details = details\<rparr>"

definition validate_hostname :: "web \<Rightarrow> page \<Rightarrow> jstr \<Rightarrow> detection_signal" where
  "validate_hostname W p expected =
     (let host = to_lower W (pg_hostname p); e = to_lower W expected in
      if host = e then signal Sig_Hostname Sig_Pass 0 1 (25/100) (lit ''Hostname matches exactly: '' @ host)
      else if ends_with host (46 # e) then
        signal Sig_Hostname Sig_Warn 25 (8/10) (25/100)
          (lit ''Subdomain match: '' @ host @ [32, 8594, 32] @ e)
      else signal Sig_Hostname Sig_Fail 100 (95/100) (25/100)
          (lit ''Hostname mismatch: '' @ host @ [32, 8800, 32] @ e))"

definition percent :: "number_format \<Rightarrow> rat \<Rightarrow> jstr" where
  "percent N x = nf_fixed N (x * 100) 1 @ lit ''%''"

text \<open>The fingerprint of the page, or the message of what taking it threw.\<close>

definition validate_content_fingerprint ::
    "number_format \<Rightarrow> aitm_detector \<Rightarrow> jstr + page_fingerprint \<Rightarrow> jstr \<Rightarrow> detection_signal" where
  "validate_content_fingerprint N d taken expected = (case taken of
     Inl m \<Rightarrow> signal Sig_Content_Hash Sig_Warn 50 (3/10) (30/100) (lit ''Content fingerprinting failed: '' @ m)
   | Inr f \<Rightarrow> (case ad_known d expected of
       None \<Rightarrow> signal Sig_Content_Hash Sig_Warn 30 (5/10) (30/100)
                 (lit ''No known fingerprint for this domain (first visit)'')
     | Some known \<Rightarrow> (let similarity = compare_fingerprints f known in
         if similarity \<ge> 9/10 then signal Sig_Content_Hash Sig_Pass 0 (9/10) (30/100)
           (lit ''Content fingerprint matches (similarity: '' @ percent N similarity @ lit '')'')
         else if similarity \<ge> 7/10 then signal Sig_Content_Hash Sig_Warn 50 (7/10) (30/100)
           (lit ''Content fingerprint partially matches (similarity: '' @ percent N similarity @ lit '')'')
         else signal Sig_Content_Hash Sig_Fail 100 (85/100) (30/100)
           (lit ''Content fingerprint mismatch (similarity: '' @ percent N similarity @ lit '')''))))"

definition anomaly_type_name :: "dom_anomaly_type \<Rightarrow> jstr" where
  "anomaly_type_name t = lit (case t of Unexpected_Script \<Rightarrow> ''unexpected-script'' | Modified_Form \<Rightarrow> ''modified_form''
     | Hidden_Field \<Rightarrow> ''hidden_field'' | Event_Listener \<Rightarrow> ''event_listener''
     | Iframe_Injection \<Rightarrow> ''iframe_injection'')"

definition validate_dom_integrity :: "web \<Rightarrow> page \<Rightarrow> detection_signal" where
  "validate_dom_integrity W p =
     (let r = check_page_integrity W p;
          critical = filter (\<lambda>a. da_severity a = Sev_Critical) (di_anomalies r);
          warnings = filter (\<lambda>a. da_severity a = Sev_Warning) (di_anomalies r);
          names = (\<lambda>as. join_lit (lit '', '') (map (\<lambda>a. anomaly_type_name (da_type a)) as))
      in if di_intact r then signal Sig_Dom_Integrity Sig_Pass 0 (85/100) (20/100)
             (lit ''DOM integrity verified '' @ [8212] @ lit '' no anomalies detected'')
         else if critical \<noteq> [] then signal Sig_Dom_Integrity Sig_Fail 100 (9/10) (20/100)
             (lit ''Critical DOM anomalies: '' @ names critical)
         else if warnings \<noteq> [] then signal Sig_Dom_Integrity Sig_Warn 50 (7/10) (20/100)
             (lit ''DOM warnings: '' @ names warnings)
         else signal Sig_Dom_Integrity Sig_Pass 10 (8/10) (20/100)
             (lit ''DOM integrity check passed with minor anomalies''))"

definition validate_timing :: "number_format \<Rightarrow> rat \<Rightarrow> detection_signal" where
  "validate_timing N t =
     (if t < 200 then signal Sig_Timing Sig_Pass 0 (8/10) (15/100)
        (lit ''Validation completed in '' @ nf_fixed N t 1 @ lit ''ms (normal)'')
      else if t < 400 then signal Sig_Timing Sig_Warn 50 (5/10) (15/100)
        (lit ''Validation took '' @ nf_fixed N t 1 @ lit ''ms (elevated '' @ [8212] @ lit '' possible proxy)'')
      else signal Sig_Timing Sig_Fail 100 (7/10) (15/100)
        (lit ''Validation took '' @ nf_fixed N t 1 @ lit ''ms (high latency '' @ [8212] @ lit '' likely proxy)''))"

definition validate_cookie_security :: "page \<Rightarrow> detection_signal" where
  "validate_cookie_security p =
     (if \<exists>s \<in> set (pg_scripts p). external_resource p (ps_src s) then
        signal Sig_Cookie_Security Sig_Warn 50 (6/10) (10/100)
          (lit ''External scripts detected '' @ [8212] @ lit '' potential cookie theft vector'')
      else if pg_cookie p \<noteq> [] \<and> \<not> includes_text (pg_cookie p) (lit ''SameSite='') then
        signal Sig_Cookie_Security Sig_Warn 30 (5/10) (10/100)
          (lit ''Cookies without SameSite attribute detected'')
      else signal Sig_Cookie_Security Sig_Pass 0 (7/10) (10/100)
          (lit ''No obvious cookie security issues detected''))"

definition validate_page ::
    "web \<Rightarrow> number_format \<Rightarrow> page \<Rightarrow> jstr + page_fingerprint \<Rightarrow> rat \<Rightarrow> int \<Rightarrow> jstr \<Rightarrow> bool \<Rightarrow> bool
       \<Rightarrow> aitm_detector \<Rightarrow> aitm_result \<times> aitm_detector" where
  "validate_page W N p taken elapsed now expected skip_content skip_dom d =
     (let signals = validate_hostname W p expected
            # (if skip_content then [] else [validate_content_fingerprint N d taken expected])
            @ (if skip_dom then [] else [validate_dom_integrity W p])
            @ [validate_timing N elapsed, validate_cookie_security p];
          risk = compute_risk_score signals
      in (\<lparr>ai_risk_score = risk, ai_signals = signals, ai_recommendation = get_recommendation risk,
           ai_evaluated_at = now\<rparr>, d\<lparr>ad_samples := ad_samples d @ [elapsed]\<rparr>))"

record validation_stats =
  vt_count :: nat
  vt_avg :: rat
  vt_max :: rat
  vt_min :: rat

definition get_validation_stats :: "aitm_detector \<Rightarrow> validation_stats" where
  "get_validation_stats d = (case ad_samples d of
     [] \<Rightarrow> \<lparr>vt_count = 0, vt_avg = 0, vt_max = 0, vt_min = 0\<rparr>
   | t # ts \<Rightarrow> \<lparr>vt_count = length (t # ts), vt_avg = mean (t # ts), vt_max = foldl max t ts, vt_min = foldl min t ts\<rparr>)"

subsection \<open>The older host check\<close>

definition confusable_pattern :: "nat \<Rightarrow> bool" where
  "confusable_pattern c \<longleftrightarrow> (0x0400 \<le> c \<and> c \<le> 0x04FF) \<or> c \<in> {0x0261, 0x0280, 0x1D07, 0x1D04, 0x1D05, 0x1D1C}"

definition validate_host :: "web \<Rightarrow> number_format \<Rightarrow> jstr \<Rightarrow> jstr \<Rightarrow> string + bool \<times> domain_risk \<times> jstr" where
  "validate_host W N host expected =
     (let h = trim (to_lower W host); e = trim (to_lower W expected) in
      if h = e then Inr (True, Domain_Low, lit ''Exact match'')
      else if ends_with h (46 # e) then Inr (True, Domain_Low, lit ''Valid subdomain'')
      else if (\<exists>c \<in> set h. confusable_pattern c) then Inr (False, Domain_High, lit ''Confusable characters detected'')
      else (case levenshtein_similarity h e of
          Inl m \<Rightarrow> Inl m
        | Inr similarity \<Rightarrow>
            if similarity \<ge> 85/100 then Inr (False, Domain_High,
              lit ''Possible typosquatting (similarity: '' @ percent N similarity @ lit '')'')
            else Inr (False, Domain_High, lit ''Domain mismatch'')))"

definition normalize_host :: "web \<Rightarrow> jstr \<Rightarrow> jstr" where
  "normalize_host W host = (case parse_url W (lit ''https://'' @ host) of
     Some u \<Rightarrow> to_lower W (u_hostname u) | None \<Rightarrow> trim (to_lower W host))"

subsection \<open>What the two judges make of a page\<close>

lemma evaluator_risk:
  assumes "evaluate_integrity W N now timing p ctx = Inr r"
  shows "ai_risk_score (er_result r) = compute_risk_score (evaluator_signals W timing (check_page_integrity W p) ctx)"
    and "ai_recommendation (er_result r) = get_recommendation (ai_risk_score (er_result r))"
  using assms by (auto simp: evaluate_integrity_def Let_def split: sum.splits)

lemma evaluator_signals_score:
  "compute_risk_score (evaluator_signals W timing domr ctx) = js_round (
     of_int (score_hostname W (fp_url (ic_current ctx)) (map_option fp_url (ic_baseline ctx))) * (25/100)
     + of_int (score_content_hash (fp_content_hash (ic_current ctx)) (map_option fp_content_hash (ic_baseline ctx))) * (30/100)
     + of_int (score_timing timing) * (15/100) + of_int (compute_dom_score domr) * (20/100) + 10)"
  by (simp add: compute_risk_score_def evaluator_signals_def Let_def)

lemma validate_page_risk_bounds:
  "0 \<le> ai_risk_score (fst (validate_page W N p taken elapsed now expected skip_content skip_dom d))
   \<and> ai_risk_score (fst (validate_page W N p taken elapsed now expected skip_content skip_dom d)) \<le> 100"
proof -
  have parts: "ds_score (validate_hostname W p expected) \<in> {0..100}"
    "ds_score (validate_content_fingerprint N d taken expected) \<in> {0..100}"
    "ds_score (validate_dom_integrity W p) \<in> {0..100}" "ds_score (validate_timing N elapsed) \<in> {0..100}"
    "ds_score (validate_cookie_security p) \<in> {0..100}"
    by (simp_all add: validate_hostname_def validate_content_fingerprint_def validate_dom_integrity_def
        validate_timing_def validate_cookie_security_def signal_def Let_def split: sum.splits option.splits)
  show ?thesis
    unfolding validate_page_def Let_def fst_conv aitm_result.simps
    by (rule compute_risk_score_bounds) (use parts in auto)
qed

end
