(* ===== verification/Service_Properties.thy ===== *)
theory Service_Properties
  imports Credentials_Generation Plus_Bridge Rate_Limits Sample_Platform Submission_Gate
    Page_Evaluation
begin

text \<open>The properties of credential generation, of the shared services and of the phishing judges.\<close>

section \<open>Credentials\<close>

text \<open>The properties of credential generation and extraction.\<close>

text \<open>
  C39.  Generation is well typed: for every domain the validator accepts, and
  whatever the random source gives, it succeeds; the salted email and the
  peppered password match their patterns, salt and pepper have 32 hexadecimal
  digits, the password has 32 characters with one of each class, and the
  conversion to the branded types accepts every field unchanged.
\<close>

theorem generated_credentials_well_typed:
  assumes "is_valid_domain d"
  shows "\<exists>g. generate_credentials_execute rnd d = Inr g \<and> generate_credentials_strong rnd d = Inr g
    \<and> is_valid_email_with_salt (gc_email g) \<and> is_valid_password_with_pepper (gc_password g)
    \<and> hex32 (gc_salt g) \<and> hex32 (gc_pepper g) \<and> length (gc_original_password g) = 32
    \<and> list_ex upper_letter (gc_original_password g) \<and> list_ex lower_letter (gc_original_password g)
    \<and> list_ex is_digit (gc_original_password g) \<and> list_ex special_char (gc_original_password g)"
proof (intro exI conjI)
  note wf = credentials_well_formed [OF assms, of rnd]
  note cl = complex_password_classes [of 32 rnd 3]
  show "generate_credentials_execute rnd d = Inr (credentials_of rnd d)"
    by (simp add: generate_credentials_execute_def generate_credentials_valid [OF assms])
  have h: "hex32 (gc_salt (credentials_of rnd d))" "hex32 (gc_pepper (credentials_of rnd d))"
    using random_string_hex32 by (simp_all add: credentials_of_def Let_def)
  then show "hex32 (gc_salt (credentials_of rnd d))" "hex32 (gc_pepper (credentials_of rnd d))" by simp_all
  show "generate_credentials_strong rnd d = Inr (credentials_of rnd d)"
    using wf h by (simp add: generate_credentials_strong_def generate_credentials_valid [OF assms] to_strong_def
        create_email_with_salt_def create_password_with_pepper_def create_email_original_def
        create_password_original_def create_salt_def create_pepper_def)
  show "is_valid_email_with_salt (gc_email (credentials_of rnd d))"
    using wf(1) by (simp add: is_valid_email_with_salt_def) (simp add: credentials_of_def Let_def)
  show "is_valid_password_with_pepper (gc_password (credentials_of rnd d))"
    using wf(2) by (simp add: is_valid_password_with_pepper_def) (simp add: credentials_of_def Let_def)
  show "length (gc_original_password (credentials_of rnd d)) = 32"
    using complex_password(1) [of 32 rnd 3] by (simp add: credentials_of_def Let_def)
  show "list_ex upper_letter (gc_original_password (credentials_of rnd d))"
    "list_ex lower_letter (gc_original_password (credentials_of rnd d))"
    "list_ex is_digit (gc_original_password (credentials_of rnd d))"
    "list_ex special_char (gc_original_password (credentials_of rnd d))"
    using cl by (simp_all add: credentials_of_def Let_def list_ex_iff)
qed

theorem generated_credentials_well_typed_witness:
  "\<exists>g. generate_credentials_execute (\<lambda>_ i. of_nat i) (lit ''a.io'') = Inr g \<and> generate_credentials_strong (\<lambda>_ i. of_nat i) (lit ''a.io'') = Inr g
    \<and> is_valid_email_with_salt (gc_email g)"
proof -
  have "is_valid_domain (lit ''a.io'')"
    by (simp add: is_valid_domain_def matches_domain_def domain_label_def lit_def alnum_def ascii_letter_def)
  from generated_credentials_well_typed [OF this, of "\<lambda>_ i. of_nat i"] show ?thesis by blast
qed

text \<open>
  C40.  Extraction inverts generation: from the stored email and password of
  generated credentials both extraction routines, the one on plain strings and
  the one of the use case on branded types, give back the original email and
  password.
\<close>

theorem extraction_gives_originals:
  assumes "generate_credentials rnd d = Inr g"
  shows "extract_original_credentials (gc_email g) (gc_password g)
        = Inr \<lparr>oc_email = gc_original_email g, oc_password = gc_original_password g\<rparr>
    \<and> extract_credentials_execute (gc_email g) (gc_password g)
        = Inr \<lparr>oc_email = gc_original_email g, oc_password = gc_original_password g\<rparr>"
proof -
  have d: "is_valid_domain d" using assms by (auto simp: generate_credentials_def split: if_splits)
  then have "g = credentials_of rnd d" using assms generate_credentials_valid by simp
  then show ?thesis using extraction_inverts [OF d, of rnd] by (simp add: extract_credentials_execute_def)
qed

theorem extraction_gives_originals_witness:
  "\<exists>g. generate_credentials (\<lambda>_ i. of_nat i) (lit ''a.io'') = Inr g
    \<and> extract_original_credentials (gc_email g) (gc_password g)
        = Inr \<lparr>oc_email = gc_original_email g, oc_password = gc_original_password g\<rparr>"
proof -
  have "is_valid_domain (lit ''a.io'')"
    by (simp add: is_valid_domain_def matches_domain_def domain_label_def lit_def alnum_def ascii_letter_def)
  from generate_credentials_valid [OF this, of "\<lambda>_ i. of_nat i"]
  show ?thesis using extraction_gives_originals [of "\<lambda>_ i. of_nat i" "lit ''a.io''"] by blast
qed

section \<open>Services\<close>

text \<open>
  The properties of the shared services: retries, circuits and rate limits.
\<close>

text \<open>
  C33. A retried operation always comes back, and with the outcome of its last run:
  \<^verbatim>\<open>withRetry\<close> with at least one attempt runs the function one time more than it sleeps,
  at most \<^verbatim>\<open>maxAttempts\<close> times; every run before the last failed with a retryable error
  and was followed by the delay of its attempt; if the last run returned, its value is
  returned, and if it failed, that very error is thrown, because it is not retryable or
  the attempts are used up.
\<close>

theorem with_retry_returns:
  assumes "1 \<le> ro_max_attempts opts" and "with_retry fn opts random s = (r, s', ds)"
  shows "int (length ds) < ro_max_attempts opts \<and> s' = world_before fn s (Suc (length ds))
    \<and> (\<forall>j < length ds. ds ! j = calculate_delay (Suc j) opts (random (Suc j))
         \<and> (\<exists>e. run_result fn s j = Inl e \<and> is_error_retryable e (ro_retryable opts)))
    \<and> (case run_result fn s (length ds) of
         Inr v \<Rightarrow> r = Returned v
       | Inl e \<Rightarrow> r = Threw e \<and> (int (Suc (length ds)) = ro_max_attempts opts
            \<or> \<not> is_error_retryable e (ro_retryable opts)))"
  using retry_loop_outcome [of 1 opts fn random s] assms
  by (auto simp: with_retry_def retries_to_def split: sum.splits)

theorem with_retry_returns_witness:
  "with_retry (\<lambda>n :: nat. (Inl (dec_nat n) :: jstr + nat, Suc n)) default_retry_options (\<lambda>_. 0) 7
     = (Threw (dec_nat 9), 10, [50, 100])
   \<and> run_result (\<lambda>n :: nat. (Inl (dec_nat n) :: jstr + nat, Suc n)) 7 2 = Inl (dec_nat 9)
   \<and> 10 = world_before (\<lambda>n :: nat. (Inl (dec_nat n) :: jstr + nat, Suc n)) 7 3"
proof -
  let ?fn = "\<lambda>n :: nat. (Inl (dec_nat n) :: jstr + nat, Suc n)"
  have r: "with_retry ?fn default_retry_options (\<lambda>_. 0) 7 = (Threw (dec_nat 9), 10, [50, 100])"
    by (simp add: with_retry_def retry_loop.simps [of _ _ _ "Suc 0"] retry_loop.simps [of _ _ _ "Suc (Suc 0)"]
        retry_loop.simps [of _ _ _ "Suc (Suc (Suc 0))"] default_retry_options_def is_error_retryable_def
        calculate_delay_def)
  have "1 \<le> ro_max_attempts default_retry_options" by (simp add: default_retry_options_def)
  from with_retry_returns [OF this r] r show ?thesis by (simp add: numeral_2_eq_2 numeral_3_eq_3 run_result_def)
qed

text \<open>
  C34. The bridge spares a failing Plus service: while every request fails, whether it
  throws, is answered with an error status or with a body that cannot be read, each in its
  own way, at most five requests reach the service in any thirty seconds, whatever state
  the bridge is in and however many requests Core makes, one after the other.
\<close>

theorem bridge_spares_failing_service:
  assumes "one_after_other (map fst calls)" and "\<And>t q. arrival_fails (answer t q)"
  shows "length (filter (\<lambda>t. a \<le> t \<and> t < a + 30000)
      (snd (bridge_run (answering answer f) calls (b, [])))) \<le> 5"
  using pbr.attempts_bounded [where c = b and ts = "map fst calls" and a = a] assms(1)
  by (simp add: bridge_run_failing [OF assms(2)])

definition seven_health_checks :: "((int \<times> int) \<times> jstr \<times> http_method \<times> bridge_body option) list" where
  "seven_health_checks = map (\<lambda>t. ((t, t + 1), lit ''/health'', Http_Get, None))
     [0, 1000, 2000, 3000, 4000, 5000, 40000]"

text \<open>A service that refuses the connection in its first seconds and then answers 503.\<close>

definition ailing :: "int \<Rightarrow> http_request \<Rightarrow> jstr + http_response" where
  "ailing t q = (if t < 2500 then Inl [] else Inr \<lparr>hr_status = 503, hr_text = Inr [], hr_json = Inl []\<rparr>)"

lemma ailing_fails: "arrival_fails (ailing t q)"
  by (simp add: ailing_def error_status_fails response_ok_def) (simp add: arrival_fails_def)

theorem bridge_spares_failing_service_witness:
  "snd (bridge_run (answering ailing (\<lambda>_. [])) seven_health_checks (new_bridge \<lparr>bc_base_url = [], bc_service_secret = [],
      bc_timeout_ms = 5000\<rparr>, [])) = [0, 1000, 2000, 3000, 4000, 40000]
   \<and> length (filter (\<lambda>t. (0::int) \<le> t \<and> t < 0 + 30000) [0, 1000, 2000, 3000, 4000, 40000]) \<le> 5"
proof -
  let ?b = "new_bridge \<lparr>bc_base_url = [], bc_service_secret = [], bc_timeout_ms = 5000\<rparr>"
  have run: "snd (bridge_run (answering ailing (\<lambda>_. [])) seven_health_checks (?b, [])) = [0, 1000, 2000, 3000, 4000, 40000]"
    unfolding bridge_run_failing [OF ailing_fails] by (simp add: seven_health_checks_def bridge_view new_bridge_def)
  have "one_after_other (map fst seven_health_checks)"
    by (simp add: seven_health_checks_def one_after_other_def)
  from bridge_spares_failing_service [OF this, of ailing 0 "\<lambda>_. []" ?b] ailing_fails run show ?thesis by simp
qed

text \<open>
  C35. The in-process rate limit is a fixed window: whatever requests came before,
  in any stretch of time as long as the window a key is allowed at most twice the
  configured maximum.
\<close>

theorem rate_limit_at_most_twice:
  assumes "1 \<le> rr_max rule" "0 \<le> rr_window_ms rule"
    and "\<forall>(now, k) \<in> set requests. a \<le> now \<and> now \<le> a + rr_window_ms rule"
  shows "allowed_for key
      (fst (consume_run (snd (consume_run (new_shared_limiter rule url) before)) requests))
    \<le> 2 * nat (rr_max rule)"
proof -
  let ?l = "snd (consume_run (new_shared_limiter rule url) before)"
  have l: "local_ok ?l" "sh_rule ?l = rule"
    by (simp_all add: local_ok_run consume_run_rule new_shared_limiter_rule)
  then show ?thesis
    using consume_run_budget [of ?l requests a key] rate_budget_le [of ?l a key] assms by simp
qed

definition burst_rule :: rate_limit_rule where
  "burst_rule = \<lparr>rr_scope = [], rr_max = 2, rr_window_ms = 1000\<rparr>"

theorem rate_limit_at_most_twice_witness:
  "allowed_for [1] (fst (consume_run (snd (consume_run (new_shared_limiter burst_rule None) [(0, [1])]))
      [(1000, [1]), (1000, [1]), (1001, [1]), (1002, [1]), (1003, [1])])) = 3
   \<and> allowed_for [1] (fst (consume_run (snd (consume_run (new_shared_limiter burst_rule None) [(0, [1])]))
      [(1000, [1]), (1000, [1]), (1001, [1]), (1002, [1]), (1003, [1])])) \<le> 2 * nat (rr_max burst_rule)"
proof
  show "allowed_for [1] (fst (consume_run (snd (consume_run (new_shared_limiter burst_rule None) [(0, [1])]))
      [(1000, [1]), (1000, [1]), (1001, [1]), (1002, [1]), (1003, [1])])) = 3"
    by (simp add: new_shared_limiter_def usable_redis_url_def burst_rule_def consume_local_def
        sweep_local_def local_key_def Let_def)
  show "allowed_for [1] (fst (consume_run (snd (consume_run (new_shared_limiter burst_rule None) [(0, [1])]))
      [(1000, [1]), (1000, [1]), (1001, [1]), (1002, [1]), (1003, [1])])) \<le> 2 * nat (rr_max burst_rule)"
    by (rule rate_limit_at_most_twice [of _ _ 1000]) (simp_all add: burst_rule_def)
qed

section \<open>Judges of a page\<close>

text \<open>
  The properties of the protection against an adversary in the middle: the edit
  distance, the domain pipeline and the evaluation of a page.
\<close>

text \<open>
  C36. The similarity routine implements its specification: for strings of at most a
  hundred code units, not both empty, it returns one minus the least number of
  single edits between them, divided by the longer length.
\<close>

theorem similarity_refines_edit_distance:
  assumes "length a \<le> 100" "length b \<le> 100" "a \<noteq> [] \<or> b \<noteq> []"
  shows "levenshtein_similarity a b
    = Inr (1 - of_nat (LEAST n. (edit ^^ n) a b) / of_nat (max (length a) (length b)))"
  using levenshtein_similarity_eq [OF assms] by (simp only: edit_distance_def)

theorem similarity_refines_edit_distance_witness:
  "(LEAST n. (edit ^^ n) (lit ''paypal'') (lit ''payrpal'')) = 1
   \<and> levenshtein_similarity (lit ''paypal'') (lit ''payrpal'') = Inr (6/7)"
proof -
  have s: "levenshtein_similarity (lit ''paypal'') (lit ''payrpal'') = Inr (6/7)"
    by (simp add: levenshtein_similarity_def max_similarity_length_def lit_def)
  have "levenshtein_similarity (lit ''paypal'') (lit ''payrpal'')
      = Inr (1 - of_nat (LEAST n. (edit ^^ n) (lit ''paypal'') (lit ''payrpal'')) / of_nat (max (length (lit ''paypal'')) (length (lit ''payrpal''))))"
    by (rule similarity_refines_edit_distance) (simp_all add: lit_def)
  then show ?thesis using s by (simp add: field_simps)
qed

text \<open>
  C37. Nothing but the expected origin is judged valid: whatever the timers of the
  phases and of the whole run do, and whatever the integrity evaluator answers,
  the pipeline of the service worker accepts a page only when its origin and the
  expected one parse to the same absolute origin.
\<close>

theorem pipeline_accepts_only_equal_origins:
  assumes "pr_valid (validate_domain T C (create_pipeline W N) elapsed current expected)"
  shows "\<exists>c. parse_absolute_origin W expected = Inr c \<and> parse_absolute_origin W current = Inr c"
proof -
  obtain c where eq: "compare_absolute_origins W expected current = O_Equal c"
    using pipeline_valid_only_equal [OF assms] by blast
  then obtain a where p: "parse_absolute_origin W expected = Inr c" "parse_absolute_origin W current = Inr a"
      "scheme c = scheme a" "hostname c = hostname a" "port c = port a"
    by (auto simp: compare_absolute_origins_def Let_def split: sum.splits if_splits)
  have "wf_origin c" "wf_origin a" using p parse_absolute_origin_wf by auto
  then have "a = c" using p(3-5) by (simp add: wf_origin_def)
  then show ?thesis using p by simp
qed

definition plain_numbers :: number_format where
  "plain_numbers = \<lparr>nf_text = (\<lambda>x. []), nf_fixed = (\<lambda>x n. [])\<rparr>"

definition prompt_timers :: pipeline_timing where
  "prompt_timers = \<lparr>pt_late = (\<lambda>i. False), pt_cut = None\<rparr>"

definition worker_config :: pipeline_config where
  "worker_config = \<lparr>pc_phase_timeout = 50, pc_total_timeout = 200, pc_evaluate = None\<rparr>"

theorem pipeline_accepts_only_equal_origins_witness:
  "pr_valid (validate_domain prompt_timers worker_config (create_pipeline sample_web plain_numbers) 1
      (lit ''https://a.io'') (lit ''https://a.io:443''))
   \<and> (\<exists>c. parse_absolute_origin sample_web (lit ''https://a.io:443'') = Inr c
        \<and> parse_absolute_origin sample_web (lit ''https://a.io'') = Inr c)"
proof
  have p: "parse_absolute_origin sample_web (lit ''https://a.io:443'') = Inr (origin_of ''https'' ''a.io'')"
    by (simp add: sample_eval)
  show v: "pr_valid (validate_domain prompt_timers worker_config (create_pipeline sample_web plain_numbers) 1
      (lit ''https://a.io'') (lit ''https://a.io:443''))"
    by (rule pipeline_accepts_equal [of _ _ _ "origin_of ''https'' ''a.io''"])
      (simp_all add: compare_absolute_origins_def sample_parse_a p prompt_timers_def worker_config_def Let_def)
  show "\<exists>c. parse_absolute_origin sample_web (lit ''https://a.io:443'') = Inr c
        \<and> parse_absolute_origin sample_web (lit ''https://a.io'') = Inr c"
    by (rule pipeline_accepts_only_equal_origins [OF v])
qed

text \<open>
  The service worker's request VALIDATE\_DOMAIN hands the pipeline two host names,
  and a host name is not an origin: where the URL parser refuses a string without a
  scheme, a page is never judged valid, not even against its own name, and unless
  the first phase is late or the whole run is cut short it is judged high risk.
\<close>

theorem bare_host_never_valid:
  assumes "parse_url W (trim h) = None"
  shows "\<not> pr_valid (validate_domain T C (create_pipeline W N) elapsed h h)
    \<and> (\<not> pt_late T 0 \<and> pt_cut T = None
       \<longrightarrow> pr_overall_risk (validate_domain T C (create_pipeline W N) elapsed h h) = Domain_High)"
proof -
  have "\<exists>r. parse_absolute_origin W h = Inl r" using assms by (auto simp: parse_absolute_origin_def Let_def)
  then obtain r where r: "parse_absolute_origin W h = Inl r" by blast
  then show ?thesis
    using pipeline_valid_only_equal [of T C W N elapsed h h]
    by (auto simp: unusable_high_risk compare_absolute_origins_def Let_def)
qed

theorem bare_host_never_valid_witness:
  "\<not> pr_valid (validate_domain prompt_timers worker_config (create_pipeline sample_web plain_numbers) 1
      (lit ''a.io'') (lit ''a.io''))
   \<and> pr_overall_risk (validate_domain prompt_timers worker_config (create_pipeline sample_web plain_numbers) 1
      (lit ''a.io'') (lit ''a.io'')) = Domain_High"
proof -
  have "parse_url sample_web (trim (lit ''a.io'')) = None" by (simp add: sample_eval Let_def)
  from bare_host_never_valid [OF this, of prompt_timers worker_config plain_numbers 1]
  show ?thesis by (simp add: prompt_timers_def)
qed

text \<open>
  C38. The evaluator of the browser scores integrity where the risk score counts
  risk: a page with nothing wrong, seen for the first time, is recommended to be
  blocked, and a page on another host, with another content and four critical
  anomalies in its DOM, is allowed.
\<close>

theorem evaluator_inverts_recommendation:
  assumes "evaluate_integrity W N now timing p ctx = Inr r"
  shows "(ic_baseline ctx = None \<and> di_intact (check_page_integrity W p)
       \<and> (\<forall>m \<in> set timing. tm_severity m = Sev_Info)
      \<longrightarrow> ai_recommendation (er_result r) = Aitm_Block)
    \<and> (\<forall>b. ic_baseline ctx = Some b \<and> fp_url b \<noteq> [] \<and> fp_content_hash b \<noteq> []
       \<and> map_option u_hostname (parse_url W (fp_url (ic_current ctx))) \<noteq> map_option u_hostname (parse_url W (fp_url b))
       \<and> fp_content_hash (ic_current ctx) \<noteq> fp_content_hash b
       \<and> 4 \<le> count_severity Sev_Critical (map da_severity (di_anomalies (check_page_integrity W p)))
      \<longrightarrow> ai_recommendation (er_result r) = Aitm_Allow)"
proof (intro conjI allI impI)
  note risk = evaluator_risk [OF assms]
  assume h: "ic_baseline ctx = None \<and> di_intact (check_page_integrity W p)
       \<and> (\<forall>m \<in> set timing. tm_severity m = Sev_Info)"
  then have "score_timing timing = 100" by (auto simp: score_timing_def count_severity_def filter_empty_conv)
  moreover have "compute_dom_score (check_page_integrity W p) = 100" using h by (simp add: compute_dom_score_def)
  ultimately have "ai_risk_score (er_result r) = 100"
    using h unfolding risk(1) evaluator_signals_score
    by (simp add: score_hostname_def score_content_hash_def baseline_text_def js_round_int [of 100, simplified])
  then show "ai_recommendation (er_result r) = Aitm_Block"
    unfolding risk(2) by (simp add: get_recommendation_def block_threshold_def)
next
  note risk = evaluator_risk [OF assms]
  fix b
  let ?n = "count_severity Sev_Critical (map da_severity (di_anomalies (check_page_integrity W p)))"
  assume h: "ic_baseline ctx = Some b \<and> fp_url b \<noteq> [] \<and> fp_content_hash b \<noteq> []
       \<and> map_option u_hostname (parse_url W (fp_url (ic_current ctx))) \<noteq> map_option u_hostname (parse_url W (fp_url b))
       \<and> fp_content_hash (ic_current ctx) \<noteq> fp_content_hash b \<and> 4 \<le> ?n"
  have "di_anomalies (check_page_integrity W p) \<noteq> []" using h by (auto simp: count_severity_def)
  then have "\<not> di_intact (check_page_integrity W p)" by (simp add: check_page_integrity_def Let_def)
  then have dom: "compute_dom_score (check_page_integrity W p) = 0" using h by (simp add: compute_dom_score_def)
  have host: "score_hostname W (fp_url (ic_current ctx)) (map_option fp_url (ic_baseline ctx)) = 0"
    using h by (auto simp: score_hostname_def baseline_text_def split: option.splits)
  have content: "score_content_hash (fp_content_hash (ic_current ctx)) (map_option fp_content_hash (ic_baseline ctx)) = 0"
    using h by (simp add: score_content_hash_def baseline_text_def)
  have "score_timing timing \<le> 100" by (auto simp: score_timing_def)
  then have "of_int (score_timing timing) * (15/100) + 10 \<le> (of_int 25 :: rat)" by simp
  then have "js_round (of_int (score_timing timing) * (15/100) + 10) \<le> 25"
    using js_round_mono [of _ "of_int 25"] by (simp only: js_round_int)
  then have "ai_risk_score (er_result r) \<le> 25" unfolding risk(1) evaluator_signals_score dom host content by simp
  then show "ai_recommendation (er_result r) = Aitm_Allow"
    unfolding risk(2) by (simp add: get_recommendation_def block_threshold_def warn_threshold_def)
qed

definition blank_page :: page where
  "blank_page = \<lparr>pg_href = lit ''https://a.io'', pg_origin = lit ''https://a.io'', pg_hostname = lit ''a.io'',
     pg_body = [], pg_cookie = [], pg_scripts = [], pg_stylesheets = [], pg_images = [], pg_hidden_inputs = [],
     pg_iframes = [], pg_forms = [], pg_login_matches = [], pg_password_fields = []\<rparr>"

definition hostile_page :: page where
  "hostile_page = blank_page\<lparr>pg_href := lit ''https://b.io'', pg_hostname := lit ''b.io'',
     pg_iframes := replicate 4 \<lparr>pq_src = [], pq_srcdoc = Some [60]\<rparr>\<rparr>"

definition seen_page :: "string \<Rightarrow> jstr \<Rightarrow> page_fingerprint" where
  "seen_page url hash = \<lparr>fp_url = lit url, fp_content_hash = hash, fp_form_structure = [], fp_script_count = 0,
     fp_external = [], fp_timestamp = 1\<rparr>"

definition first_visit :: integrity_context where
  "first_visit = \<lparr>ic_current = seen_page ''https://a.io'' [1], ic_baseline = None, ic_url = [], ic_timestamp = 1\<rparr>"

definition replaced_page :: integrity_context where
  "replaced_page = \<lparr>ic_current = seen_page ''https://b.io'' [2], ic_baseline = Some (seen_page ''https://a.io'' [1]),
     ic_url = [], ic_timestamp = 1\<rparr>"

theorem evaluator_inverts_recommendation_witness:
  "(\<exists>r. evaluate_integrity sample_web plain_numbers 1 [] blank_page first_visit = Inr r
      \<and> ai_recommendation (er_result r) = Aitm_Block)
   \<and> (\<exists>r. evaluate_integrity sample_web plain_numbers 1 [] hostile_page replaced_page = Inr r
      \<and> ai_recommendation (er_result r) = Aitm_Allow)"
proof
  have intact: "di_intact (check_page_integrity sample_web blank_page)"
    by (simp add: check_page_integrity_def blank_page_def detect_unexpected_scripts_def detect_hidden_fields_def
        detect_injected_iframes_def detect_login_forms_def detect_suspicious_event_listeners_def)
  obtain r where r: "evaluate_integrity sample_web plain_numbers 1 [] blank_page first_visit = Inr r"
    by (auto simp: evaluate_integrity_def first_visit_def fingerprint_anomalies_def create_integrity_score_def Let_def)
  show "\<exists>r. evaluate_integrity sample_web plain_numbers 1 [] blank_page first_visit = Inr r
      \<and> ai_recommendation (er_result r) = Aitm_Block"
    using r evaluator_inverts_recommendation [OF r] intact by (simp add: first_visit_def)
next
  have four: "4 \<le> count_severity Sev_Critical (map da_severity (di_anomalies (check_page_integrity sample_web hostile_page)))"
    by (simp add: check_page_integrity_def hostile_page_def blank_page_def detect_unexpected_scripts_def detect_hidden_fields_def
        detect_injected_iframes_def detect_login_forms_def detect_suspicious_event_listeners_def
        iframe_anomalies_def create_anomaly_def count_severity_def numeral_eq_Suc)
  have hosts: "map_option u_hostname (parse_url sample_web (lit ''https://b.io''))
      \<noteq> map_option u_hostname (parse_url sample_web (lit ''https://a.io''))"
    by (simp add: sample_web_def url_table_def lit_def Let_def)
  obtain r where r: "evaluate_integrity sample_web plain_numbers 1 [] hostile_page replaced_page = Inr r"
    by (auto simp: evaluate_integrity_def replaced_page_def seen_page_def fingerprint_anomalies_def
        create_fingerprint_anomaly_def sequence_results_def create_integrity_score_def Let_def)
  show "\<exists>r. evaluate_integrity sample_web plain_numbers 1 [] hostile_page replaced_page = Inr r
      \<and> ai_recommendation (er_result r) = Aitm_Allow"
    using r evaluator_inverts_recommendation [OF r] four hosts
    by (simp add: replaced_page_def seen_page_def lit_def)
qed

end
