(* ===== verification/Step_Up_Proof.thy ===== *)
theory Step_Up_Proof
  imports Approval
begin

text \<open>
  Proof of possession for a step-up approval:
  src/src/infrastructure/crypto/step-up-proof.ts.  SHA-256, PBKDF2 (SHA-512,
  600000 iterations, 64 octets), the import of a P-256 point and ECDSA verification
  are the fields of \<^verbatim>\<open>proof_crypto\<close>; JSON and TextDecoder are those of \<^verbatim>\<open>subtle\<close>.
\<close>

record proof_crypto =
  pc_sha256 :: "bytes \<Rightarrow> bytes"
  pc_pbkdf2 :: "bytes \<Rightarrow> bytes \<Rightarrow> bytes"
  pc_import_p256 :: "bytes \<Rightarrow> bool"
  pc_ecdsa_verify :: "bytes \<Rightarrow> bytes \<Rightarrow> bytes \<Rightarrow> bool option"
  pc_text_of :: "json \<Rightarrow> jstr"

definition pbkdf2_key_length :: nat where "pbkdf2_key_length = 64"
definition approval_challenge_ttl_ms :: int where "approval_challenge_ttl_ms = 2 * 60 * 1000"

definition passphrase_proof_prefix :: jstr where
  "passphrase_proof_prefix = lit ''cybervault/step-up/v1:''"

record passphrase_proof =
  pp_challenge_id :: jstr
  pp_approval_challenge_id :: jstr
  pp_value :: jstr

record webauthn_proof =
  wp_challenge_id :: jstr
  wp_approval_challenge_id :: jstr
  wp_credential_id :: jstr
  wp_client_data_json :: jstr
  wp_authenticator_data :: jstr
  wp_signature :: jstr

datatype step_up_proof = Passphrase_Proof passphrase_proof | Webauthn_Proof webauthn_proof

definition is_step_up_proof_type :: "json option \<Rightarrow> bool" where
  "is_step_up_proof_type v \<longleftrightarrow> v = Some (JStr (lit ''passphrase'')) \<or> v = Some (JStr (lit ''webauthn''))"

subsection \<open>Encodings\<close>

definition base64_url_to_bytes :: "jstr \<Rightarrow> bytes option" where
  "base64_url_to_bytes s =
     (let p = map (\<lambda>c. if c = 95 then 47 else c) (map (\<lambda>c. if c = 45 then 43 else c) s) in
      base64_to_binary (p @ replicate ((4 - length p mod 4) mod 4) 61))"

definition bytes_to_base64_url :: "bytes \<Rightarrow> jstr" where
  "bytes_to_base64_url bs =
     filter (\<lambda>c. c \<noteq> 61) (map (\<lambda>c. if c = 47 then 95 else c)
       (map (\<lambda>c. if c = 43 then 45 else c) (binary_to_base64 bs)))"

definition bytes_to_hex :: "bytes \<Rightarrow> jstr" where
  "bytes_to_hex bs = to_hex bs"

text \<open>The bytes of hexadecimal text of even length, or None.\<close>

fun hex_to_bytes_or_null :: "jstr \<Rightarrow> bytes option" where
  "hex_to_bytes_or_null [] = Some []"
| "hex_to_bytes_or_null [_] = None"
| "hex_to_bytes_or_null (a # b # s) =
     (case (hex_value a, hex_value b, hex_to_bytes_or_null s) of
        (Some hi, Some lo, Some bs) \<Rightarrow> Some ((push_bit 4 (of_nat hi) OR of_nat lo) # bs)
      | _ \<Rightarrow> None)"

definition constant_time_equal :: "bytes \<Rightarrow> bytes \<Rightarrow> bool" where
  "constant_time_equal a b \<longleftrightarrow> timing_safe_equal (nats_of a) (nats_of b)"

definition constant_time_equal_str :: "jstr \<Rightarrow> jstr \<Rightarrow> bool" where
  "constant_time_equal_str a b \<longleftrightarrow> constant_time_equal (utf8_encode a) (utf8_encode b)"

text \<open>An index past the end reads as zero.\<close>

definition byte_at :: "bytes \<Rightarrow> nat \<Rightarrow> nat" where
  "byte_at bs i = (if i < length bs then unat (bs ! i) else 0)"

definition read_uint32 :: "bytes \<Rightarrow> nat \<Rightarrow> nat" where
  "read_uint32 bs i =
     (byte_at bs i * 16777216 + byte_at bs (i + 1) * 65536 + byte_at bs (i + 2) * 256 + byte_at bs (i + 3))
     mod 2 ^ 32"

subsection \<open>P-256 public keys\<close>

text \<open>
  One entry of the CBOR map: its key and its value, and what follows.  The values
  0x59 to 0x5b are read as short strings of 25 to 27 octets, the way the code
  reads them.
\<close>

definition cose_key :: "bytes \<Rightarrow> (int \<times> bytes) option" where
  "cose_key bs = (case bs of
     [] \<Rightarrow> None
   | k # r \<Rightarrow> (let n = unat k in
       if n < 24 then Some (int n, r)
       else if 0x20 \<le> n \<and> n \<le> 0x37 then Some (- (int n - 0x1f), r) else None))"

definition cose_value :: "bytes \<Rightarrow> (bytes \<times> bytes) option" where
  "cose_value bs = (case bs of
     [] \<Rightarrow> None
   | v # r \<Rightarrow> (let n = unat v in
       if n \<le> 0x17 \<or> (0x20 \<le> n \<and> n \<le> 0x37) then Some ([v], r)
       else if 0x40 \<le> n \<and> n \<le> 0x5b then
         (if n = 0x58 then (case r of
            [] \<Rightarrow> None
          | l # t \<Rightarrow> if unat l \<le> length t then Some (take (unat l) t, drop (unat l) t) else None)
          else if n - 0x40 \<le> length r then Some (take (n - 0x40) r, drop (n - 0x40) r) else None)
       else None))"

fun cose_entries :: "nat \<Rightarrow> bytes \<Rightarrow> ((int \<rightharpoonup> bytes) \<times> bytes) option" where
  "cose_entries 0 bs = Some (Map.empty, bs)"
| "cose_entries (Suc k) bs =
     (case cose_entries k bs of None \<Rightarrow> None | Some (m, r) \<Rightarrow>
      (case cose_key r of None \<Rightarrow> None | Some (key, r1) \<Rightarrow>
       (case cose_value r1 of None \<Rightarrow> None | Some (v, r2) \<Rightarrow> Some (m(key \<mapsto> v), r2))))"

definition first_byte :: "bytes option \<Rightarrow> nat option" where
  "first_byte v = (case v of Some (b # _) \<Rightarrow> Some (unat b) | _ \<Rightarrow> None)"

definition read_cose_p256_key :: "bytes \<Rightarrow> (bytes \<times> bytes) option" where
  "read_cose_p256_key cose =
     (if length cose < 5 then None
      else let header = unat (hd cose) in
        if header \<noteq> 0xa5 \<and> header \<noteq> 0xa4 then None
        else (case cose_entries (if header = 0xa5 then 5 else 4) (tl cose) of
            Some (m, []) \<Rightarrow>
              (if first_byte (m 1) \<noteq> Some 2 then None
               else if first_byte (m 3) \<notin> {None, Some 0x26, Some 0xf7} then None
               else if first_byte (m (-1)) \<noteq> Some 1 then None
               else (case (m (-2), m (-3)) of
                   (Some x, Some y) \<Rightarrow> if length x = 32 \<and> length y = 32 then Some (x, y) else None
                 | _ \<Rightarrow> None))
          | _ \<Rightarrow> None))"

definition spki_prefix :: bytes where
  "spki_prefix =
     [0x30, 0x59, 0x30, 0x13, 0x06, 0x07, 0x2a, 0x86, 0x48, 0xce, 0x3d, 0x02, 0x01,
      0x06, 0x08, 0x2a, 0x86, 0x48, 0xce, 0x3d, 0x03, 0x01, 0x07, 0x03, 0x42, 0x00]"

definition strip_spki :: "bytes \<Rightarrow> bytes option" where
  "strip_spki bs =
     (if length bs = length spki_prefix + 65
      then if constant_time_equal (take (length spki_prefix) bs) spki_prefix
           then Some (drop (length spki_prefix) bs) else None
      else Some bs)"

definition parse_p256_bytes :: "bytes \<Rightarrow> bytes option" where
  "parse_p256_bytes bs =
     (case (if length bs \<noteq> 65 \<and> bs \<noteq> [] \<and> (hd bs = 0xa4 \<or> hd bs = 0xa5)
            then map_option (\<lambda>(x, y). 0x04 # x @ y) (read_cose_p256_key bs) else Some bs) of
        None \<Rightarrow> None
      | Some p \<Rightarrow> (case strip_spki p of
          None \<Rightarrow> None
        | Some q \<Rightarrow> if length q \<noteq> 65 \<or> hd q \<noteq> 0x04 then None else Some q))"

definition parse_p256_public_key :: "jstr \<Rightarrow> bytes option" where
  "parse_p256_public_key s = (case hex_to_bytes_or_null s of
     Some bs \<Rightarrow> parse_p256_bytes bs
   | None \<Rightarrow> (case base64_url_to_bytes s of None \<Rightarrow> None | Some bs \<Rightarrow> parse_p256_bytes bs))"

subsection \<open>WebAuthn assertions\<close>

record webauthn_assertion =
  wa_client_data_json :: jstr
  wa_authenticator_data :: jstr
  wa_signature :: jstr

record webauthn_expectation =
  we_challenge :: jstr
  we_origin :: jstr
  we_rp_id :: jstr
  we_public_key :: jstr
  we_stored_counter :: nat

text \<open>WA\_Threw is a rejection of the returned promise.\<close>

datatype webauthn_result = WA_Accepted nat | WA_Refused string | WA_Threw

definition property_of :: "json \<Rightarrow> string \<Rightarrow> json option" where
  "property_of j k = (case j of JObj kvs \<Rightarrow> map_of kvs (lit k) | _ \<Rightarrow> None)"

text \<open>\<^verbatim>\<open>clientData.challenge ?? ""\<close>, coerced to text by TextEncoder.\<close>

definition challenge_text :: "proof_crypto \<Rightarrow> json option \<Rightarrow> jstr" where
  "challenge_text P v = (case v of
     None \<Rightarrow> [] | Some JNull \<Rightarrow> [] | Some (JStr s) \<Rightarrow> s | Some j \<Rightarrow> pc_text_of P j)"

definition user_present :: "8 word \<Rightarrow> bool" where
  "user_present flags \<longleftrightarrow> flags AND 0x01 \<noteq> 0"

definition check_signature ::
  "proof_crypto \<Rightarrow> bytes \<Rightarrow> bytes \<Rightarrow> bytes \<Rightarrow> webauthn_expectation \<Rightarrow> nat \<Rightarrow> webauthn_result" where
  "check_signature P client_data auth_data sig e sign_count =
     (case parse_p256_public_key (we_public_key e) of
        None \<Rightarrow> WA_Refused ''Stored key is not a usable P-256 point''
      | Some point \<Rightarrow>
          if \<not> pc_import_p256 P point then WA_Refused ''Could not import the stored key''
          else (case pc_ecdsa_verify P point sig (auth_data @ pc_sha256 P client_data) of
              None \<Rightarrow> WA_Refused ''Signature verification failed''
            | Some False \<Rightarrow> WA_Refused ''Invalid signature''
            | Some True \<Rightarrow> WA_Accepted sign_count))"

definition check_authenticator_data ::
  "proof_crypto \<Rightarrow> bytes \<Rightarrow> bytes \<Rightarrow> bytes \<Rightarrow> webauthn_expectation \<Rightarrow> webauthn_result" where
  "check_authenticator_data P client_data auth_data sig e =
     (if length auth_data < 37 then WA_Refused ''authenticatorData too short''
      else let sign_count = read_uint32 auth_data 33 in
        if \<not> constant_time_equal (take 32 auth_data) (pc_sha256 P (utf8_encode (we_rp_id e)))
        then WA_Refused ''RP ID hash mismatch''
        else if \<not> user_present (auth_data ! 32) then WA_Refused ''No user presence''
        else if we_stored_counter e > 0 \<and> sign_count \<le> we_stored_counter e
        then WA_Refused ''Sign count did not advance''
        else check_signature P client_data auth_data sig e sign_count)"

definition verify_webauthn_assertion ::
  "subtle \<Rightarrow> proof_crypto \<Rightarrow> webauthn_assertion \<Rightarrow> webauthn_expectation \<Rightarrow> webauthn_result" where
  "verify_webauthn_assertion S P a e =
     (case base64_url_to_bytes (wa_client_data_json a) of
        None \<Rightarrow> WA_Refused ''Malformed clientDataJSON''
      | Some client_data \<Rightarrow> (case json_parse S (text_decode S client_data) of
          None \<Rightarrow> WA_Refused ''Malformed clientDataJSON''
        | Some JNull \<Rightarrow> WA_Threw
        | Some j \<Rightarrow>
            if property_of j ''type'' \<noteq> Some (JStr (lit ''webauthn.get'')) then WA_Refused ''Wrong ceremony type''
            else if \<not> constant_time_equal_str (challenge_text P (property_of j ''challenge'')) (we_challenge e)
            then WA_Refused ''Challenge mismatch''
            else if property_of j ''origin'' \<noteq> Some (JStr (we_origin e)) then WA_Refused ''Origin mismatch''
            else (case (base64_url_to_bytes (wa_authenticator_data a), base64_url_to_bytes (wa_signature a)) of
                (Some auth_data, Some sig) \<Rightarrow> check_authenticator_data P client_data auth_data sig e
              | _ \<Rightarrow> WA_Refused ''Malformed assertion'')))"

subsection \<open>Passphrase proofs\<close>

definition proof_salt :: "jstr \<Rightarrow> jstr \<Rightarrow> bytes" where
  "proof_salt challenge_id salt = utf8_encode (passphrase_proof_prefix @ challenge_id @ [58] @ salt)"

definition derive_passphrase_proof ::
  "proof_crypto \<Rightarrow> jstr \<Rightarrow> jstr \<Rightarrow> jstr \<Rightarrow> jstr \<Rightarrow> jstr" where
  "derive_passphrase_proof P passphrase user_salt challenge_id salt =
     (let user_hash = pc_pbkdf2 P (utf8_encode passphrase) (utf8_encode user_salt) in
      bytes_to_hex (pc_pbkdf2 P user_hash (proof_salt challenge_id salt)))"

definition verify_passphrase_proof ::
  "proof_crypto \<Rightarrow> jstr \<Rightarrow> jstr \<Rightarrow> jstr \<Rightarrow> jstr \<Rightarrow> bool" where
  "verify_passphrase_proof P user_hash salt challenge_id presented =
     (case hex_to_bytes_or_null user_hash of
        None \<Rightarrow> False
      | Some hash_bytes \<Rightarrow>
          if length hash_bytes \<noteq> pbkdf2_key_length then False
          else let expected = pc_pbkdf2 P hash_bytes (proof_salt challenge_id salt) in
            (case (case hex_to_bytes_or_null presented of Some bs \<Rightarrow> Some bs
                   | None \<Rightarrow> base64_url_to_bytes presented) of
               None \<Rightarrow> False
             | Some bs \<Rightarrow> length bs = pbkdf2_key_length \<and> constant_time_equal expected bs))"

subsection \<open>The encodings read back\<close>

lemma constant_time_equal_iff: "constant_time_equal a b \<longleftrightarrow> a = b"
  by (simp add: constant_time_equal_def timing_safe_equal_iff)

lemma nibbles_join: "unat (b :: 8 word) = n \<Longrightarrow>
    push_bit 4 (of_nat (n div 16)) OR of_nat (n mod 16) = b"
proof -
  assume n: "unat b = n"
  have "of_nat (unat (b div 16)) = b div 16" "of_nat (unat (b mod 16)) = b mod 16" by simp_all
  then have hi: "(of_nat (n div 16) :: 8 word) = drop_bit 4 b" and lo: "(of_nat (n mod 16) :: 8 word) = take_bit 4 b"
    using n by (simp_all add: unat_div_distrib unat_mod_distrib drop_bit_eq_div take_bit_eq_mod)
  show ?thesis unfolding hi lo by (rule bit_eqI) (auto simp: bit_simps)
qed

lemma hex_round_trip: "hex_to_bytes_or_null (to_hex bs) = Some bs"
proof (induction bs)
  case (Cons b bs)
  have "unat b div 16 < 16" using unat_byte_less [of b] by (simp add: less_mult_imp_div_less)
  then show ?case using Cons nibbles_join [of b "unat b"]
    by (simp add: to_hex_def nats_of_def hex_value_digit)
qed (simp add: to_hex_def nats_of_def)

lemma hex_odd: "odd (length s) \<Longrightarrow> hex_to_bytes_or_null s = None"
  by (induction s rule: hex_to_bytes_or_null.induct) (auto split: option.splits)

lemma hex_length: "hex_to_bytes_or_null s = Some bs \<Longrightarrow> length s = 2 * length bs"
  by (induction s arbitrary: bs rule: hex_to_bytes_or_null.induct) (auto split: option.splits)

lemma b64_char_url: "n < 64 \<Longrightarrow> b64_char n \<noteq> 45 \<and> b64_char n \<noteq> 95 \<and> b64_char n \<noteq> 61"
  by (auto simp: b64_char_def)

lemma b64_groups_url:
  "\<forall>n \<in> set ns. n < 256 \<Longrightarrow> c \<in> set (b64_groups ns) \<Longrightarrow> c \<noteq> 45 \<and> c \<noteq> 95"
proof (induction ns rule: b64_groups.induct)
  case (1 a b c rest)
  then show ?case by (auto simp: Let_def b64_char_url)
next
  case (2 a b)
  then show ?case by (auto simp: Let_def b64_char_url)
next
  case (3 a)
  then show ?case by (auto simp: Let_def b64_char_url)
qed simp

lemma b64_groups_padding:
  "\<forall>n \<in> set ns. n < 256 \<Longrightarrow>
     b64_groups ns = unpadded (b64_groups ns) @ replicate ((4 - length (unpadded (b64_groups ns)) mod 4) mod 4) 61
     \<and> length (unpadded (b64_groups ns)) = (4 * length ns + 2) div 3"
proof (induction ns rule: b64_groups.induct)
  case (1 a b c rest)
  then have "(a * 65536 + b * 256 + c) div 262144 < 64" using b64_quad(1) [of a b c] by simp
  then show ?case using 1 by (auto simp: Let_def unpadded_def b64_char_url)
next
  case (2 a b)
  then have "(a * 65536 + b * 256) div 262144 < 64" using b64_quad(1) [of a b 0] by simp
  then show ?case by (simp add: Let_def unpadded_def b64_char_url)
next
  case (3 a)
  then have "(a * 65536) div 262144 < 64" using b64_quad(1) [of a 0 0] by simp
  then show ?case by (simp add: Let_def unpadded_def b64_char_url numeral_2_eq_2)
qed (simp add: unpadded_def)

lemma base64_url_round_trip: "base64_url_to_bytes (bytes_to_base64_url bs) = Some bs"
  and length_base64_url: "length (bytes_to_base64_url bs) = (4 * length bs + 2) div 3"
proof -
  obtain g where g: "g = b64_groups (nats_of bs)" by simp
  note u = b64_groups_url [OF nats_of_bound, of _ bs, folded g]
  note p = b64_groups_padding [OF nats_of_bound, of bs, folded g]
  obtain sub where sub: "sub = (\<lambda>c :: nat. if c = 43 then 45 else if c = 47 then 95 else c)" by simp
  have m: "bytes_to_base64_url bs = map sub (unpadded g)"
  proof -
    have "filter (\<lambda>c. c \<noteq> 61) (map sub g) = map sub (unpadded g)"
      by (simp add: filter_map comp_def unpadded_def sub) (rule arg_cong [where f = "map _"], rule filter_cong, auto)
    moreover have "map (\<lambda>c. if c = 47 then 95 else c) (map (\<lambda>c. if c = 43 then 45 else c) g) = map sub g"
      by (simp add: sub)
    ultimately show ?thesis unfolding bytes_to_base64_url_def binary_to_base64_def g [symmetric] by (simp only:)
  qed
  then show "length (bytes_to_base64_url bs) = (4 * length bs + 2) div 3" using p by simp
  have "map (\<lambda>c. if c = 95 then 47 else c) (map (\<lambda>c. if c = 45 then 43 else c) (map sub (unpadded g))) = unpadded g"
    using u by (auto simp: sub unpadded_def intro!: map_idI)
  then have "base64_url_to_bytes (bytes_to_base64_url bs)
      = base64_to_binary (unpadded g @ replicate ((4 - length (unpadded g) mod 4) mod 4) 61)"
    by (simp add: base64_url_to_bytes_def m Let_def)
  also have "\<dots> = base64_to_binary (binary_to_base64 bs)"
    unfolding binary_to_base64_def g [symmetric] p [THEN conjunct1, symmetric] ..
  finally show "base64_url_to_bytes (bytes_to_base64_url bs) = Some bs" by (simp add: base64_round_trip)
qed

subsection \<open>The points that are accepted\<close>

lemma parse_p256_bytes_point: "parse_p256_bytes bs = Some p \<Longrightarrow> length p = 65 \<and> hd p = 0x04"
  by (auto simp: parse_p256_bytes_def split: option.splits if_splits)

lemma parse_p256_point: "parse_p256_public_key s = Some p \<Longrightarrow> length p = 65 \<and> hd p = 0x04"
  using parse_p256_bytes_point by (auto simp: parse_p256_public_key_def split: option.splits)

lemma parse_p256_bytes_id: "length p = 65 \<Longrightarrow> hd p = 0x04 \<Longrightarrow> parse_p256_bytes p = Some p"
  by (simp add: parse_p256_bytes_def strip_spki_def spki_prefix_def)

text \<open>Whatever form a key comes in, the point survives being stored in base64url or in hexadecimal.\<close>

lemma stored_point_reads_back:
  assumes "length p = 65" "hd p = 0x04"
  shows "parse_p256_public_key (bytes_to_base64_url p) = Some p"
    and "parse_p256_public_key (bytes_to_hex p) = Some p"
proof -
  have "length (bytes_to_base64_url p) = 87" using assms(1) length_base64_url by simp
  then have "hex_to_bytes_or_null (bytes_to_base64_url p) = None" by (intro hex_odd) simp
  then show "parse_p256_public_key (bytes_to_base64_url p) = Some p"
    using assms by (simp add: parse_p256_public_key_def base64_url_round_trip parse_p256_bytes_id)
  show "parse_p256_public_key (bytes_to_hex p) = Some p"
    using assms by (simp add: parse_p256_public_key_def bytes_to_hex_def hex_round_trip parse_p256_bytes_id)
qed

text \<open>
  Two COSE encodings of one key: the entries in another order, so the stored key
  does not tell which octets were registered.
\<close>

definition cose_example :: "bool \<Rightarrow> bytes" where
  "cose_example swap =
     [0xa4] @ (if swap then [0x20, 0x01, 0x01, 0x02] else [0x01, 0x02, 0x20, 0x01])
     @ [0x21, 0x58, 0x20] @ replicate 32 1 @ [0x22, 0x58, 0x20] @ replicate 32 2"

lemma cose_examples_agree:
  "cose_example True \<noteq> cose_example False"
  "parse_p256_bytes (cose_example True) = parse_p256_bytes (cose_example False)"
  "parse_p256_bytes (cose_example True) \<noteq> None"
  by code_simp+

subsection \<open>Which assertions and proofs are accepted\<close>

definition assertion_acceptable ::
  "subtle \<Rightarrow> proof_crypto \<Rightarrow> webauthn_assertion \<Rightarrow> webauthn_expectation \<Rightarrow> nat \<Rightarrow> bool" where
  "assertion_acceptable S P a e n \<longleftrightarrow>
     (\<exists>client j auth sig point.
        base64_url_to_bytes (wa_client_data_json a) = Some client
      \<and> json_parse S (text_decode S client) = Some j
      \<and> property_of j ''type'' = Some (JStr (lit ''webauthn.get''))
      \<and> utf8_encode (challenge_text P (property_of j ''challenge'')) = utf8_encode (we_challenge e)
      \<and> property_of j ''origin'' = Some (JStr (we_origin e))
      \<and> base64_url_to_bytes (wa_authenticator_data a) = Some auth
      \<and> base64_url_to_bytes (wa_signature a) = Some sig
      \<and> 37 \<le> length auth \<and> take 32 auth = pc_sha256 P (utf8_encode (we_rp_id e))
      \<and> odd (unat (auth ! 32)) \<and> n = read_uint32 auth 33
      \<and> (we_stored_counter e = 0 \<or> we_stored_counter e < n)
      \<and> parse_p256_public_key (we_public_key e) = Some point \<and> pc_import_p256 P point
      \<and> pc_ecdsa_verify P point sig (auth @ pc_sha256 P client) = Some True)"

lemma user_present_iff: "user_present b \<longleftrightarrow> odd (unat b)"
proof -
  have "b AND 0x01 = of_bool (odd b)" by (simp add: and_one_eq mod_2_eq_odd)
  moreover have "odd b \<longleftrightarrow> odd (unat b)" using bit_unsigned_iff [of b 0, where 'a = nat] by (simp add: bit_0)
  ultimately show ?thesis by (simp add: user_present_def)
qed

lemma check_signature_accepts:
  "check_signature P c a s e n = WA_Accepted m \<longleftrightarrow> m = n \<and>
     (\<exists>point. parse_p256_public_key (we_public_key e) = Some point \<and> pc_import_p256 P point
        \<and> pc_ecdsa_verify P point s (a @ pc_sha256 P c) = Some True)"
  by (auto simp: check_signature_def split: option.splits bool.splits)

lemma check_authenticator_data_accepts:
  "check_authenticator_data P c a s e = WA_Accepted m \<longleftrightarrow>
     37 \<le> length a \<and> take 32 a = pc_sha256 P (utf8_encode (we_rp_id e))
     \<and> odd (unat (a ! 32)) \<and> m = read_uint32 a 33 \<and> (we_stored_counter e = 0 \<or> we_stored_counter e < m)
     \<and> (\<exists>point. parse_p256_public_key (we_public_key e) = Some point \<and> pc_import_p256 P point
        \<and> pc_ecdsa_verify P point s (a @ pc_sha256 P c) = Some True)"
  by (auto simp: check_authenticator_data_def Let_def constant_time_equal_iff user_present_iff
      check_signature_accepts)

lemma assertion_accepted_iff:
  "verify_webauthn_assertion S P a e = WA_Accepted n \<longleftrightarrow> assertion_acceptable S P a e n"
proof (cases "base64_url_to_bytes (wa_client_data_json a)")
  case (Some client)
  show ?thesis
  proof (cases "json_parse S (text_decode S client)")
    case (Some j)
    then show ?thesis using \<open>base64_url_to_bytes (wa_client_data_json a) = Some client\<close>
      by (cases j) (auto simp: verify_webauthn_assertion_def assertion_acceptable_def property_of_def
          constant_time_equal_str_def constant_time_equal_iff check_authenticator_data_accepts
          split: option.splits)
  qed (simp add: verify_webauthn_assertion_def assertion_acceptable_def Some)
qed (simp add: verify_webauthn_assertion_def assertion_acceptable_def)

lemma passphrase_accepted_iff:
  "verify_passphrase_proof P h s c v \<longleftrightarrow>
     (\<exists>k bs. hex_to_bytes_or_null h = Some k \<and> length k = 64
        \<and> (hex_to_bytes_or_null v = Some bs \<or> hex_to_bytes_or_null v = None \<and> base64_url_to_bytes v = Some bs)
        \<and> length bs = 64 \<and> bs = pc_pbkdf2 P k (proof_salt c s))"
  by (auto simp: verify_passphrase_proof_def pbkdf2_key_length_def constant_time_equal_iff Let_def
      split: option.splits)

end
