(* ===== verification/Step_Up_Stores.thy ===== *)
theory Step_Up_Stores
  imports Prelude
begin

text \<open>
  The stores behind a step-up proof: src/src/infrastructure/repositories/
  InMemoryStepUpProofStores.ts, PostgresStepUpProofStores.ts and their factory.  A
  Map and a table are both association lists in insertion order; a SQL statement is
  one step, a failing connection is the caller's error and no step.
\<close>

subsection \<open>Approval challenges\<close>

datatype challenge_purpose = Release_Purpose | Enroll_Purpose

record step_up_challenge =
  sc_id :: jstr
  sc_binding_id :: jstr
  sc_user_id :: jstr
  sc_purpose :: challenge_purpose
  sc_challenge :: jstr
  sc_salt :: jstr
  sc_rp_id :: "jstr option"
  sc_origin :: "jstr option"
  sc_created_at :: int
  sc_expires_at :: int
  sc_consumed_at :: "int option"

type_synonym approval_table = "(jstr \<times> step_up_challenge) list"

record approval_store =
  ac_save :: "approval_table \<Rightarrow> step_up_challenge \<Rightarrow> (string + unit) \<times> approval_table"
  ac_consume :: "approval_table \<Rightarrow> jstr \<Rightarrow> jstr \<Rightarrow> int \<Rightarrow> step_up_challenge option \<times> approval_table"
  ac_find :: "approval_table \<Rightarrow> jstr \<Rightarrow> step_up_challenge option"

text \<open>\<^verbatim>\<open>Map.set\<close>: an existing key keeps its place.\<close>

fun put :: "'k \<Rightarrow> 'v \<Rightarrow> ('k \<times> 'v) list \<Rightarrow> ('k \<times> 'v) list" where
  "put k v [] = [(k, v)]"
| "put k v ((i, x) # xs) = (if i = k then (k, v) # xs else (i, x) # put k v xs)"

lemma map_of_put [simp]: "map_of (put k v xs) = (map_of xs)(k \<mapsto> v)"
  by (induction xs) auto

definition memory_challenge_save ::
  "approval_table \<Rightarrow> step_up_challenge \<Rightarrow> (string + unit) \<times> approval_table" where
  "memory_challenge_save t c = (Inr (), put (sc_id c) c t)"

definition memory_challenge_consume ::
  "approval_table \<Rightarrow> jstr \<Rightarrow> jstr \<Rightarrow> int \<Rightarrow> step_up_challenge option \<times> approval_table" where
  "memory_challenge_consume t i u now = (case map_of t i of
     None \<Rightarrow> (None, t)
   | Some r \<Rightarrow>
       if sc_user_id r \<noteq> u then (None, t)
       else if sc_consumed_at r \<noteq> None then (None, t)
       else if sc_expires_at r \<le> now then (None, t)
       else let consumed = r\<lparr>sc_consumed_at := Some now\<rparr> in (Some consumed, put i consumed t))"

definition memory_challenges :: approval_store where
  "memory_challenges = \<lparr>ac_save = memory_challenge_save, ac_consume = memory_challenge_consume, ac_find = map_of\<rparr>"

text \<open>
  The primary key refuses a second row of one id.  The guards of the UPDATE are its
  WHERE clause, and the row it returns is the updated one.
\<close>

definition pg_challenge_save ::
  "approval_table \<Rightarrow> step_up_challenge \<Rightarrow> (string + unit) \<times> approval_table" where
  "pg_challenge_save t c =
     (if map_of t (sc_id c) \<noteq> None then (Inl ''duplicate key'', t)
      else (Inr (), t @ [(sc_id c, c\<lparr>sc_consumed_at := None\<rparr>)]))"

definition pg_consumable :: "jstr \<Rightarrow> jstr \<Rightarrow> int \<Rightarrow> step_up_challenge \<Rightarrow> bool" where
  "pg_consumable i u now r \<longleftrightarrow> sc_id r = i \<and> sc_user_id r = u \<and> sc_consumed_at r = None \<and> now < sc_expires_at r"

definition pg_challenge_consume ::
  "approval_table \<Rightarrow> jstr \<Rightarrow> jstr \<Rightarrow> int \<Rightarrow> step_up_challenge option \<times> approval_table" where
  "pg_challenge_consume t i u now =
     (let spend = (\<lambda>r. if pg_consumable i u now r then r\<lparr>sc_consumed_at := Some now\<rparr> else r);
        returned = map (spend \<circ> snd) (filter (pg_consumable i u now \<circ> snd) t)
      in (case returned of [] \<Rightarrow> None | r # _ \<Rightarrow> Some r, map (\<lambda>(k, r). (k, spend r)) t))"

definition pg_challenge_find :: "approval_table \<Rightarrow> jstr \<Rightarrow> step_up_challenge option" where
  "pg_challenge_find t i = (case filter (\<lambda>(_, r). sc_id r = i) t of [] \<Rightarrow> None | (_, r) # _ \<Rightarrow> Some r)"

definition postgres_challenges :: approval_store where
  "postgres_challenges =
     \<lparr>ac_save = pg_challenge_save, ac_consume = pg_challenge_consume, ac_find = pg_challenge_find\<rparr>"

subsection \<open>Registered authenticators\<close>

record step_up_authenticator =
  sk_credential_id :: jstr
  sk_user_id :: jstr
  sk_public_key :: jstr
  sk_counter :: nat
  sk_transports :: "jstr list"
  sk_created_at :: int

type_synonym authenticator_table = "(jstr \<times> step_up_authenticator) list"

record authenticator_store =
  au_save :: "authenticator_table \<Rightarrow> step_up_authenticator \<Rightarrow> bool \<times> authenticator_table"
  au_find :: "authenticator_table \<Rightarrow> jstr \<Rightarrow> step_up_authenticator option"
  au_list :: "authenticator_table \<Rightarrow> jstr \<Rightarrow> step_up_authenticator list"
  au_update_counter :: "authenticator_table \<Rightarrow> jstr \<Rightarrow> nat \<Rightarrow> authenticator_table"

definition memory_authenticator_save ::
  "authenticator_table \<Rightarrow> step_up_authenticator \<Rightarrow> bool \<times> authenticator_table" where
  "memory_authenticator_save t a = (case map_of t (sk_credential_id a) of
     Some e \<Rightarrow> if sk_user_id e \<noteq> sk_user_id a then (False, t) else (True, put (sk_credential_id a) a t)
   | None \<Rightarrow> (True, put (sk_credential_id a) a t))"

definition memory_authenticator_list :: "authenticator_table \<Rightarrow> jstr \<Rightarrow> step_up_authenticator list" where
  "memory_authenticator_list t u = filter (\<lambda>a. sk_user_id a = u) (map snd t)"

definition memory_update_counter :: "authenticator_table \<Rightarrow> jstr \<Rightarrow> nat \<Rightarrow> authenticator_table" where
  "memory_update_counter t i n = (case map_of t i of
     None \<Rightarrow> t | Some a \<Rightarrow> if n \<le> sk_counter a then t else put i (a\<lparr>sk_counter := n\<rparr>) t)"

definition memory_authenticators :: authenticator_store where
  "memory_authenticators = \<lparr>au_save = memory_authenticator_save, au_find = map_of,
     au_list = memory_authenticator_list, au_update_counter = memory_update_counter\<rparr>"

text \<open>
  INSERT ... ON CONFLICT DO UPDATE of the key and the transports, for the same owner
  only; the counter and the creation time of an existing row stay.
\<close>

definition pg_authenticator_save ::
  "authenticator_table \<Rightarrow> step_up_authenticator \<Rightarrow> bool \<times> authenticator_table" where
  "pg_authenticator_save t a = (case map_of t (sk_credential_id a) of
     None \<Rightarrow> (True, t @ [(sk_credential_id a, a)])
   | Some e \<Rightarrow>
       if sk_user_id e = sk_user_id a
       then (True, put (sk_credential_id a)
               (e\<lparr>sk_public_key := sk_public_key a, sk_transports := sk_transports a\<rparr>) t)
       else (False, t))"

definition pg_authenticator_list :: "authenticator_table \<Rightarrow> jstr \<Rightarrow> step_up_authenticator list" where
  "pg_authenticator_list t u = sort_key sk_created_at (filter (\<lambda>a. sk_user_id a = u) (map snd t))"

definition pg_update_counter :: "authenticator_table \<Rightarrow> jstr \<Rightarrow> nat \<Rightarrow> authenticator_table" where
  "pg_update_counter t i n =
     map (\<lambda>(k, a). (k, if k = i \<and> sk_counter a < n then a\<lparr>sk_counter := n\<rparr> else a)) t"

definition postgres_authenticators :: authenticator_store where
  "postgres_authenticators = \<lparr>au_save = pg_authenticator_save, au_find = map_of,
     au_list = pg_authenticator_list, au_update_counter = pg_update_counter\<rparr>"

subsection \<open>The choice of the stores\<close>

datatype proof_store_choice = Proofs_In_Memory | Proofs_In_Postgres jstr

definition create_step_up_proof_stores :: "jstr option \<Rightarrow> jstr option \<Rightarrow> proof_store_choice" where
  "create_step_up_proof_stores use_postgres database_url =
     (if use_postgres \<noteq> Some (lit ''true'') then Proofs_In_Memory
      else let conn = (case database_url of None \<Rightarrow> [] | Some d \<Rightarrow> trim d) in
        if conn = [] then Proofs_In_Memory else Proofs_In_Postgres conn)"

subsection \<open>What a store of challenges promises\<close>

datatype challenge_op = Save_Challenge step_up_challenge | Consume_Challenge jstr jstr int

locale one_time_challenges =
  fixes save :: "'s \<Rightarrow> step_up_challenge \<Rightarrow> (string + unit) \<times> 's"
    and consume :: "'s \<Rightarrow> jstr \<Rightarrow> jstr \<Rightarrow> int \<Rightarrow> step_up_challenge option \<times> 's"
    and held :: "'s \<Rightarrow> jstr \<Rightarrow> step_up_challenge option"
    and ok :: "'s \<Rightarrow> bool"
  assumes save_ok: "ok s \<Longrightarrow> ok (snd (save s c))"
    and save_fresh: "ok s \<Longrightarrow> held s (sc_id c) = None \<Longrightarrow> sc_consumed_at c = None \<Longrightarrow>
        fst (save s c) = Inr () \<and> held (snd (save s c)) = (held s)(sc_id c \<mapsto> c)"
    and consume_ok: "ok s \<Longrightarrow> ok (snd (consume s i u now))"
    and consume_held: "ok s \<Longrightarrow>
        (case held s i of
           Some r \<Rightarrow>
             if sc_user_id r = u \<and> sc_consumed_at r = None \<and> now < sc_expires_at r
             then fst (consume s i u now) = Some (r\<lparr>sc_consumed_at := Some now\<rparr>)
               \<and> held (snd (consume s i u now)) = (held s)(i \<mapsto> r\<lparr>sc_consumed_at := Some now\<rparr>)
             else fst (consume s i u now) = None \<and> held (snd (consume s i u now)) = held s
         | None \<Rightarrow> fst (consume s i u now) = None \<and> held (snd (consume s i u now)) = held s)"
begin

definition spent :: "'s \<Rightarrow> jstr \<Rightarrow> bool" where
  "spent s i \<longleftrightarrow> (\<exists>r. held s i = Some r \<and> sc_consumed_at r \<noteq> None)"

lemma consume_success:
  assumes "ok s" "fst (consume s i u now) = Some r"
  shows "\<exists>c. held s i = Some c \<and> sc_user_id c = u \<and> sc_consumed_at c = None \<and> now < sc_expires_at c
      \<and> r = c\<lparr>sc_consumed_at := Some now\<rparr> \<and> held (snd (consume s i u now)) = (held s)(i \<mapsto> r)"
  using consume_held [OF assms(1), of i u now] assms(2) by (auto split: option.splits if_splits)

lemma consume_failure:
  assumes "ok s" "fst (consume s i u now) = None"
  shows "held (snd (consume s i u now)) = held s"
  using consume_held [OF assms(1), of i u now] assms(2) by (auto split: option.splits if_splits)

lemma consume_spends: "ok s \<Longrightarrow> fst (consume s i u now) = Some r \<Longrightarrow> spent (snd (consume s i u now)) i"
  using consume_success by (fastforce simp: spent_def)

lemma spent_not_consumed: "ok s \<Longrightarrow> spent s i \<Longrightarrow> fst (consume s i u now) = None"
  using consume_held [of s i u now] by (auto simp: spent_def split: option.splits if_splits)

lemma spent_after_consume: "ok s \<Longrightarrow> spent s i \<Longrightarrow> spent (snd (consume s j u now)) i"
  using consume_held [of s j u now] by (auto simp: spent_def split: option.splits if_splits)

lemma spent_after_save:
  "ok s \<Longrightarrow> spent s i \<Longrightarrow> held s (sc_id c) = None \<Longrightarrow> sc_consumed_at c = None \<Longrightarrow> spent (snd (save s c)) i"
  using save_fresh [of s c] by (auto simp: spent_def)

text \<open>A history in which every saved challenge is new, and how often an identifier was consumed in it.\<close>

fun fresh_history :: "'s \<Rightarrow> challenge_op list \<Rightarrow> bool" where
  "fresh_history s [] \<longleftrightarrow> True"
| "fresh_history s (Save_Challenge c # ops) \<longleftrightarrow>
     held s (sc_id c) = None \<and> sc_consumed_at c = None \<and> fresh_history (snd (save s c)) ops"
| "fresh_history s (Consume_Challenge i u now # ops) \<longleftrightarrow> fresh_history (snd (consume s i u now)) ops"

fun consumptions :: "jstr \<Rightarrow> 's \<Rightarrow> challenge_op list \<Rightarrow> nat" where
  "consumptions i s [] = 0"
| "consumptions i s (Save_Challenge c # ops) = consumptions i (snd (save s c)) ops"
| "consumptions i s (Consume_Challenge j u now # ops) =
     (if j = i \<and> fst (consume s j u now) \<noteq> None then 1 else 0) + consumptions i (snd (consume s j u now)) ops"

lemma spent_never_again: "ok s \<Longrightarrow> spent s i \<Longrightarrow> fresh_history s ops \<Longrightarrow> consumptions i s ops = 0"
proof (induction ops arbitrary: s)
  case (Cons op ops)
  then show ?case
    by (cases op) (auto simp: save_ok consume_ok spent_not_consumed spent_after_save spent_after_consume)
qed simp

lemma consumed_at_most_once: "ok s \<Longrightarrow> fresh_history s ops \<Longrightarrow> consumptions i s ops \<le> 1"
proof (induction ops arbitrary: s)
  case (Cons op ops)
  show ?case
  proof (cases op)
    case (Save_Challenge c)
    then show ?thesis using Cons save_ok by simp
  next
    case (Consume_Challenge j u now)
    then show ?thesis
      using Cons consume_ok [of s j u now] consume_spends [of s j u now]
        spent_never_again [of "snd (consume s j u now)" i ops] by fastforce
  qed
qed simp

end

definition challenge_table_ok :: "approval_table \<Rightarrow> bool" where
  "challenge_table_ok t \<longleftrightarrow> distinct (map fst t) \<and> (\<forall>(k, r) \<in> set t. sc_id r = k)"

lemma keys_put: "fst ` set (put k v t) = insert k (fst ` set t)"
proof (induction k v t rule: put.induct)
  case (2 k v i x xs)
  then show ?case by (cases "i = k") (auto simp: insert_commute)
qed simp

lemma distinct_put: "distinct (map fst t) \<Longrightarrow> distinct (map fst (put k v t))"
  by (induction k v t rule: put.induct) (auto simp: keys_put)

lemma set_put: "x \<in> set (put k v t) \<Longrightarrow> x = (k, v) \<or> x \<in> set t"
  by (induction k v t rule: put.induct) (auto split: if_splits)

lemma put_ok: "challenge_table_ok t \<Longrightarrow> sc_id c = k \<Longrightarrow> challenge_table_ok (put k c t)"
  using set_put [of _ k c t] by (fastforce simp: challenge_table_ok_def distinct_put)

interpretation mem_challenges:
  one_time_challenges memory_challenge_save memory_challenge_consume map_of challenge_table_ok
proof
  fix s :: approval_table and c i u and now :: int
  assume ok: "challenge_table_ok s"
  show "challenge_table_ok (snd (memory_challenge_save s c))"
    using ok by (simp add: memory_challenge_save_def put_ok)
  have "map_of s i = Some r \<Longrightarrow> sc_id r = i" for r
    using ok by (auto simp: challenge_table_ok_def dest: map_of_SomeD)
  then show "challenge_table_ok (snd (memory_challenge_consume s i u now))"
    using ok by (auto simp: memory_challenge_consume_def Let_def put_ok split: option.splits)
qed (auto simp: memory_challenge_save_def memory_challenge_consume_def Let_def split: option.splits)

lemma spend_map_of:
  "distinct (map fst t) \<Longrightarrow>
   map_of (map (\<lambda>(k, r). (k, f r)) t) i = map_option f (map_of t i)"
  by (induction t) auto

lemma consumable_rows:
  assumes "challenge_table_ok t"
  shows "filter (pg_consumable i u now \<circ> snd) t = (case map_of t i of
     None \<Rightarrow> [] | Some r \<Rightarrow> if pg_consumable i u now r then [(i, r)] else [])"
  using assms
proof (induction t)
  case (Cons x t)
  obtain k r where x: "x = (k, r)" by (cases x)
  have k: "sc_id r = k" "k \<notin> fst ` set t" "challenge_table_ok t" using Cons.prems x by (auto simp: challenge_table_ok_def)
  show ?case
  proof (cases "k = i")
    case True
    then have "map_of t i = None" using k(2) by (simp add: map_of_eq_None_iff)
    then show ?thesis using Cons.IH [OF k(3)] True x by simp
  next
    case False
    then have "\<not> pg_consumable i u now r" using k(1) by (simp add: pg_consumable_def)
    then show ?thesis using Cons.IH [OF k(3)] False x by simp
  qed
qed simp

lemma find_is_held: "challenge_table_ok t \<Longrightarrow> pg_challenge_find t i = map_of t i"
proof (induction t)
  case (Cons x t)
  then show ?case by (cases x) (auto simp: pg_challenge_find_def challenge_table_ok_def)
qed (simp add: pg_challenge_find_def)

interpretation pg_challenges:
  one_time_challenges pg_challenge_save pg_challenge_consume map_of challenge_table_ok
proof
  fix s :: approval_table and c i u and now :: int
  assume ok: "challenge_table_ok s"
  show "challenge_table_ok (snd (pg_challenge_save s c))"
    using ok by (auto simp: challenge_table_ok_def pg_challenge_save_def map_of_eq_None_iff)
  have m: "map fst (snd (pg_challenge_consume s i u now)) = map fst s"
    by (simp add: pg_challenge_consume_def Let_def comp_def case_prod_beta)
  show "challenge_table_ok (snd (pg_challenge_consume s i u now))"
    using ok unfolding challenge_table_ok_def m by (auto simp: pg_challenge_consume_def Let_def)
  obtain f where f: "f = (\<lambda>r. if pg_consumable i u now r then r\<lparr>sc_consumed_at := Some now\<rparr> else r)" by simp
  have h: "map_of (snd (pg_challenge_consume s i u now)) j = map_option f (map_of s j)" for j
    using ok spend_map_of [of s f j] by (simp add: pg_challenge_consume_def Let_def f challenge_table_ok_def)
  have id: "map_of s j = Some r \<Longrightarrow> sc_id r = j" for j r
    using ok by (auto simp: challenge_table_ok_def dest: map_of_SomeD)
  then have other: "j \<noteq> i \<Longrightarrow> map_option f (map_of s j) = map_of s j" for j
    by (cases "map_of s j") (auto simp: f pg_consumable_def)
  have r: "fst (pg_challenge_consume s i u now) = (case map_of s i of
      None \<Rightarrow> None | Some r \<Rightarrow> if pg_consumable i u now r then Some (f r) else None)"
    by (simp add: pg_challenge_consume_def Let_def consumable_rows [OF ok] f split: option.splits)
  have all: "map_of (snd (pg_challenge_consume s i u now)) = (\<lambda>j. if j = i then map_option f (map_of s i) else map_of s j)"
    using h other by fastforce
  show "case map_of s i of
      None \<Rightarrow> fst (pg_challenge_consume s i u now) = None \<and> map_of (snd (pg_challenge_consume s i u now)) = map_of s
    | Some r \<Rightarrow>
        if sc_user_id r = u \<and> sc_consumed_at r = None \<and> now < sc_expires_at r
        then fst (pg_challenge_consume s i u now) = Some (r\<lparr>sc_consumed_at := Some now\<rparr>)
          \<and> map_of (snd (pg_challenge_consume s i u now)) = (map_of s)(i \<mapsto> r\<lparr>sc_consumed_at := Some now\<rparr>)
        else fst (pg_challenge_consume s i u now) = None
          \<and> map_of (snd (pg_challenge_consume s i u now)) = map_of s"
    unfolding all r by (auto simp: fun_eq_iff f pg_consumable_def id split: option.splits)
qed (auto simp: pg_challenge_save_def fun_eq_iff map_add_def split: option.splits)

subsection \<open>What a store of authenticators promises\<close>

text \<open>Whoever registers, a credential stays with its owner.\<close>

locale owned_authenticators =
  fixes save :: "'s \<Rightarrow> step_up_authenticator \<Rightarrow> bool \<times> 's"
    and update_counter :: "'s \<Rightarrow> jstr \<Rightarrow> nat \<Rightarrow> 's"
    and held :: "'s \<Rightarrow> jstr \<Rightarrow> step_up_authenticator option"
  assumes save_foreign: "held s (sk_credential_id a) = Some e \<Longrightarrow> sk_user_id e \<noteq> sk_user_id a \<Longrightarrow> save s a = (False, s)"
    and save_other: "i \<noteq> sk_credential_id a \<Longrightarrow> held (snd (save s a)) i = held s i"
    and save_owner: "held s (sk_credential_id a) = Some e \<Longrightarrow> sk_user_id e = sk_user_id a \<Longrightarrow>
        \<exists>b. held (snd (save s a)) (sk_credential_id a) = Some b \<and> sk_user_id b = sk_user_id a"
    and counter_kept: "held s i = Some e \<Longrightarrow>
        \<exists>b. held (update_counter s j n) i = Some b \<and> sk_user_id b = sk_user_id e \<and> sk_counter e \<le> sk_counter b"
begin

lemma save_keeps_owner:
  "held s i = Some e \<Longrightarrow> \<exists>b. held (snd (save s a)) i = Some b \<and> sk_user_id b = sk_user_id e"
proof (cases "i = sk_credential_id a")
  case True
  assume h: "held s i = Some e"
  show ?thesis
  proof (cases "sk_user_id e = sk_user_id a")
    case True
    then show ?thesis using h \<open>i = sk_credential_id a\<close> save_owner [of s a e] by auto
  next
    case False
    then show ?thesis using h \<open>i = sk_credential_id a\<close> save_foreign [of s a e] by auto
  qed
qed (simp add: save_other)

end

interpretation mem_authenticators:
  owned_authenticators memory_authenticator_save memory_update_counter map_of
  by unfold_locales (auto simp: memory_authenticator_save_def memory_update_counter_def split: option.splits)

lemma map_of_update_counter:
  "map_of (pg_update_counter t j n) i =
     map_option (\<lambda>a. if i = j \<and> sk_counter a < n then a\<lparr>sk_counter := n\<rparr> else a) (map_of t i)"
  by (induction t) (auto simp: pg_update_counter_def)

interpretation pg_authenticators:
  owned_authenticators pg_authenticator_save pg_update_counter map_of
  by unfold_locales
    (auto simp: pg_authenticator_save_def map_of_update_counter map_add_def split: option.splits)

text \<open>
  The two adapters differ on the counter: registering again never rewinds it in the
  table, but replaces it in memory.
\<close>

lemma pg_registration_keeps_counter:
  "map_of t (sk_credential_id a) = Some e \<Longrightarrow>
   \<exists>b. map_of (snd (pg_authenticator_save t a)) (sk_credential_id a) = Some b \<and> sk_counter b = sk_counter e"
  by (auto simp: pg_authenticator_save_def)

lemma memory_registration_rewinds_counter:
  "map_of t (sk_credential_id a) = Some e \<Longrightarrow> sk_user_id e = sk_user_id a \<Longrightarrow>
   map_of (snd (memory_authenticator_save t a)) (sk_credential_id a) = Some a"
  by (simp add: memory_authenticator_save_def)

end
