(* ===== verification/Auth.thy ===== *)
theory Auth
  imports Step_Up_Proof Step_Up_Stores
begin

text \<open>
  Users and tokens of the Core API: src/src/infrastructure/api/auth.ts and
  PostgresUserRepository.ts.  The token library is the record \<^verbatim>\<open>jwt\<close>; None of
  \<^verbatim>\<open>jwt_verify\<close> is its exception.  Both user stores are association lists keyed by
  e-mail, with the time of creation.
\<close>

record jwt =
  jwt_sign :: "json \<Rightarrow> jstr \<Rightarrow> jstr"
  jwt_verify :: "int \<Rightarrow> jstr \<Rightarrow> jstr \<Rightarrow> json option"

record stored_user =
  su_user_id :: jstr
  su_email :: jstr
  su_hash :: jstr
  su_salt :: jstr

subsection \<open>Password hashing\<close>

definition hash_password :: "proof_crypto \<Rightarrow> bytes \<Rightarrow> jstr \<Rightarrow> jstr \<times> jstr" where
  "hash_password P rnd password =
     (let salt = to_hex rnd in (to_hex (pc_pbkdf2 P (utf8_encode password) (utf8_encode salt)), salt))"

text \<open>\<^verbatim>\<open>Buffer.from(s, "hex")\<close> stops at the first pair that is not hexadecimal.\<close>

fun buffer_from_hex :: "jstr \<Rightarrow> bytes" where
  "buffer_from_hex (a # b # s) = (case (hex_value a, hex_value b) of
     (Some hi, Some lo) \<Rightarrow> of_nat (hi * 16 + lo) # buffer_from_hex s | _ \<Rightarrow> [])"
| "buffer_from_hex _ = []"

definition verify_password :: "proof_crypto \<Rightarrow> jstr \<Rightarrow> jstr \<Rightarrow> jstr \<Rightarrow> bool" where
  "verify_password P password stored_hash salt =
     (let hash = to_hex (pc_pbkdf2 P (utf8_encode password) (utf8_encode salt)) in
      constant_time_equal (buffer_from_hex hash) (buffer_from_hex stored_hash))"

subsection \<open>User stores\<close>

type_synonym user_table = "(jstr \<times> stored_user \<times> int) list"

record user_store =
  us_by_email :: "user_table \<Rightarrow> jstr \<Rightarrow> stored_user option"
  us_by_id :: "user_table \<Rightarrow> jstr \<Rightarrow> stored_user option"
  us_create :: "user_table \<Rightarrow> int \<Rightarrow> stored_user \<Rightarrow> (string + unit) \<times> user_table"

definition inmemory_max_size :: nat where "inmemory_max_size = 10000"
definition inmemory_ttl_ms :: int where "inmemory_ttl_ms = 60 * 60 * 1000"

definition cleanup_in_memory :: "int \<Rightarrow> user_table \<Rightarrow> user_table" where
  "cleanup_in_memory now t =
     (let kept = filter (\<lambda>(_, _, created). \<not> (now - created > inmemory_ttl_ms)) t in
      if length kept > inmemory_max_size
      then (case kept of [] \<Rightarrow> [] | (oldest, e) # rest \<Rightarrow> if oldest \<noteq> [] then rest else kept)
      else kept)"

definition memory_by_email :: "user_table \<Rightarrow> jstr \<Rightarrow> stored_user option" where
  "memory_by_email t e = map_option fst (map_of t e)"

definition memory_by_id :: "user_table \<Rightarrow> jstr \<Rightarrow> stored_user option" where
  "memory_by_id t u = (case filter (\<lambda>(_, s, _). su_user_id s = u) t of [] \<Rightarrow> None | (_, s, _) # _ \<Rightarrow> Some s)"

definition memory_create :: "user_table \<Rightarrow> int \<Rightarrow> stored_user \<Rightarrow> (string + unit) \<times> user_table" where
  "memory_create t now u = (Inr (), put (su_email u) (u, now) (cleanup_in_memory now t))"

definition memory_users :: user_store where
  "memory_users = \<lparr>us_by_email = memory_by_email, us_by_id = memory_by_id, us_create = memory_create\<rparr>"

definition pg_create_user :: "user_table \<Rightarrow> int \<Rightarrow> stored_user \<Rightarrow> (string + unit) \<times> user_table" where
  "pg_create_user t now u =
     (if list_ex (\<lambda>(_, s, _). su_email s = su_email u \<or> su_user_id s = su_user_id u) t
      then (Inl ''duplicate key'', t) else (Inr (), t @ [(su_email u, u, now)]))"

definition postgres_users :: user_store where
  "postgres_users = \<lparr>us_by_email = memory_by_email, us_by_id = memory_by_id, us_create = pg_create_user\<rparr>"

definition get_repo :: "jstr option \<Rightarrow> user_store" where
  "get_repo use_postgres = (if use_postgres = Some (lit ''true'') then postgres_users else memory_users)"

definition create_user ::
  "proof_crypto \<Rightarrow> user_store \<Rightarrow> user_table \<Rightarrow> int \<Rightarrow> jstr \<Rightarrow> bytes \<Rightarrow> jstr \<Rightarrow> jstr \<Rightarrow>
   (string + stored_user) \<times> user_table" where
  "create_user P us t now uuid rnd email password =
     (let (hash, salt) = hash_password P rnd password;
        user = \<lparr>su_user_id = uuid, su_email = email, su_hash = hash, su_salt = salt\<rparr>
      in (case us_create us t now user of (Inl e, t1) \<Rightarrow> (Inl e, t1) | (Inr _, t1) \<Rightarrow> (Inr user, t1)))"

subsection \<open>Tokens\<close>

definition token_payload :: "string \<Rightarrow> int \<Rightarrow> int \<Rightarrow> jstr \<Rightarrow> jstr \<Rightarrow> json" where
  "token_payload kind seconds now uuid user_id = JObj
     [(lit ''sub'', JStr user_id), (lit ''jti'', JStr uuid), (lit ''type'', JStr (lit kind)),
      (lit ''iat'', JNum (now div 1000)), (lit ''exp'', JNum (now div 1000 + seconds))]"

definition generate_token :: "jwt \<Rightarrow> int \<Rightarrow> jstr \<Rightarrow> jstr \<Rightarrow> jstr \<Rightarrow> jstr" where
  "generate_token J now uuid user_id secret =
     jwt_sign J (token_payload ''access'' (15 * 60) now uuid user_id) secret"

definition generate_refresh_token :: "jwt \<Rightarrow> int \<Rightarrow> jstr \<Rightarrow> jstr \<Rightarrow> jstr \<Rightarrow> jstr" where
  "generate_refresh_token J now uuid user_id secret =
     jwt_sign J (token_payload ''refresh'' (7 * 24 * 60 * 60) now uuid user_id) secret"

record decoded_token =
  dt_user_id :: "jstr option"
  dt_type :: "jstr option"

definition falsy_json :: "json \<Rightarrow> bool" where
  "falsy_json j \<longleftrightarrow> j \<in> {JNull, JBool False, JNum 0, JStr []}"

definition string_property :: "json \<Rightarrow> string \<Rightarrow> jstr option" where
  "string_property j k = (case property_of j k of Some (JStr s) \<Rightarrow> Some s | _ \<Rightarrow> None)"

definition verify_token :: "jwt \<Rightarrow> int \<Rightarrow> jstr \<Rightarrow> jstr \<Rightarrow> decoded_token option" where
  "verify_token J now tok secret = (case jwt_verify J now tok secret of
     None \<Rightarrow> None
   | Some j \<Rightarrow> Some \<lparr>dt_user_id = string_property j ''sub'', dt_type = string_property j ''type''\<rparr>)"

datatype auth_outcome = Auth_Refused nat string | Auth_Passed "jstr option"

definition authenticate :: "jwt \<Rightarrow> int \<Rightarrow> jstr option \<Rightarrow> jstr option \<Rightarrow> auth_outcome" where
  "authenticate J now secret header = (case header of
     None \<Rightarrow> Auth_Refused 401 ''No token provided''
   | Some h \<Rightarrow>
       if h = [] \<or> \<not> starts_with h (lit ''Bearer '') then Auth_Refused 401 ''No token provided''
       else (case secret of
           None \<Rightarrow> Auth_Refused 500 ''JWT_SECRET not configured''
         | Some s \<Rightarrow>
             if s = [] then Auth_Refused 500 ''JWT_SECRET not configured''
             else (case verify_token J now (drop 7 h) s of
                 None \<Rightarrow> Auth_Refused 401 ''Invalid token''
               | Some d \<Rightarrow> if dt_type d \<noteq> Some (lit ''access'') then Auth_Refused 401 ''Invalid token''
                   else Auth_Passed (dt_user_id d))))"

subsection \<open>Hashes and tokens\<close>

lemma buffer_from_hex_to_hex: "buffer_from_hex (to_hex bs) = bs"
proof (induction bs)
  case (Cons b bs)
  have "unat b div 16 < 16" using unat_byte_less [of b] by (simp add: less_mult_imp_div_less)
  moreover have "of_nat (unat b div 16 * 16 + unat b mod 16) = b" by simp
  ultimately show ?case using Cons by (simp add: to_hex_def nats_of_def hex_value_digit)
qed (simp add: to_hex_def nats_of_def)

text \<open>A password verifies against its hash, and only against the hash of an equal derivation.\<close>

lemma verify_hashed_password:
  "hash_password P rnd password = (h, s) \<Longrightarrow>
   verify_password P attempt h s \<longleftrightarrow>
     pc_pbkdf2 P (utf8_encode attempt) (utf8_encode s) = pc_pbkdf2 P (utf8_encode password) (utf8_encode s)"
  by (auto simp: hash_password_def verify_password_def Let_def constant_time_equal_iff buffer_from_hex_to_hex)

text \<open>What the token library promises: an unexpired token it signed under a nonempty secret reads back.\<close>

definition jwt_reads_back :: "jwt \<Rightarrow> bool" where
  "jwt_reads_back J \<longleftrightarrow> (\<forall>kind seconds t uuid u secret now.
     now < t div 1000 + seconds \<and> secret \<noteq> [] \<longrightarrow>
     jwt_verify J now (jwt_sign J (token_payload kind seconds t uuid u) secret) secret
       = Some (token_payload kind seconds t uuid u))"

lemma token_properties:
  "string_property (token_payload kind seconds t uuid u) ''sub'' = Some u"
  "string_property (token_payload kind seconds t uuid u) ''type'' = Some (lit kind)"
  by (simp_all add: string_property_def property_of_def token_payload_def lit_def)

lemma access_token_authenticates:
  assumes "jwt_reads_back J" "now < t div 1000 + 15 * 60" "secret \<noteq> []"
  shows "authenticate J now (Some secret) (Some (lit ''Bearer '' @ generate_token J t uuid u secret))
    = Auth_Passed (Some u)"
  using assms by (simp add: authenticate_def verify_token_def generate_token_def jwt_reads_back_def
      token_properties starts_with_def lit_def)

lemma refresh_token_refused:
  assumes "jwt_reads_back J" "now < t div 1000 + 7 * 24 * 60 * 60" "secret \<noteq> []"
  shows "authenticate J now (Some secret) (Some (lit ''Bearer '' @ generate_refresh_token J t uuid u secret))
    = Auth_Refused 401 ''Invalid token''"
proof -
  have "lit ''refresh'' \<noteq> lit ''access''" "lit ''Bearer '' \<noteq> []" by (simp_all add: lit_def)
  then show ?thesis using assms by (simp add: authenticate_def verify_token_def generate_refresh_token_def
      jwt_reads_back_def token_properties starts_with_def)
qed

text \<open>The proof a passphrase gives verifies against the hash stored for that passphrase.\<close>

lemma passphrase_proof_verifies:
  assumes "\<And>k s. length (pc_pbkdf2 P k s) = 64"
    and h: "hash_password P rnd password = (hash, user_salt)"
  shows "verify_passphrase_proof P hash salt c (derive_passphrase_proof P password user_salt c salt)"
  using assms by (auto simp: passphrase_accepted_iff derive_passphrase_proof_def hash_password_def Let_def
      bytes_to_hex_def hex_round_trip)

end
