(* ===== verification/Vault_Store.thy ===== *)
theory Vault_Store
  imports Entitlement_Store "HOL-Library.AList" Resilience Credential_Entity
begin

text \<open>
  Vaults and credentials at rest: src/src/domain/entities/vault.ts,
  src/src/infrastructure/repositories/PostgresVaultRepository.ts,
  PostgresCredentialRepository.ts, row-mappers.ts, and the error of the optimistic
  lock, src/src/domain/errors/optimistic-lock-conflict.error.ts.  A statement is one
  step on the two tables, the constraints of the schema included (primary keys, the
  unique reference, the foreign key with its cascade) but not the lengths of its
  VARCHAR columns; a JSONB column holds a JSON value.  A row read back through the mappers is a value of the entity.
\<close>

subsection \<open>The vault entity\<close>

record vault =
  va_id :: jstr
  va_name :: jstr
  va_description :: "jstr option"
  va_encrypted_data :: jstr
  va_encryption_key_id :: jstr
  va_owner_id :: "jstr option"
  va_metadata :: "json option"
  va_created_at :: int
  va_updated_at :: int
  va_lock_version :: "int option"

definition vault_update_data :: "int \<Rightarrow> jstr \<Rightarrow> jstr \<Rightarrow> vault \<Rightarrow> vault" where
  "vault_update_data now encrypted key_id v =
     v\<lparr>va_encrypted_data := encrypted, va_encryption_key_id := key_id, va_updated_at := now\<rparr>"

text \<open>Own enumerable properties, as an object spread copies them.\<close>

definition object_spread :: "json option \<Rightarrow> (jstr \<times> json) list" where
  "object_spread j = (case j of
     Some (JObj kvs) \<Rightarrow> kvs
   | Some (JArr js) \<Rightarrow> zip (map dec_nat [0..<length js]) js
   | Some (JStr s) \<Rightarrow> zip (map dec_nat [0..<length s]) (map (\<lambda>c. JStr [c]) s)
   | _ \<Rightarrow> [])"

definition vault_update_metadata :: "int \<Rightarrow> (jstr \<times> json) list \<Rightarrow> vault \<Rightarrow> vault" where
  "vault_update_metadata now m v =
     v\<lparr>va_metadata := Some (JObj (foldl (\<lambda>kvs (k, x). AList.update k x kvs) (object_spread (va_metadata v)) m)),
       va_updated_at := now\<rparr>"

record vault_create_input =
  vi_name :: jstr
  vi_description :: "jstr option"
  vi_encrypted_data :: jstr
  vi_encryption_key_id :: jstr
  vi_owner_id :: "jstr option"
  vi_metadata :: "json option"

definition vault_create :: "jstr \<Rightarrow> int \<Rightarrow> vault_create_input \<Rightarrow> vault" where
  "vault_create new_id now i =
     \<lparr>va_id = new_id, va_name = vi_name i, va_description = vi_description i,
      va_encrypted_data = vi_encrypted_data i, va_encryption_key_id = vi_encryption_key_id i,
      va_owner_id = vi_owner_id i, va_metadata = vi_metadata i, va_created_at = now, va_updated_at = now,
      va_lock_version = None\<rparr>"

record plain_vault =
  pv_id :: jstr
  pv_name :: jstr
  pv_description :: "jstr option"
  pv_encrypted_data :: jstr
  pv_encryption_key_id :: jstr
  pv_owner_id :: "jstr option"
  pv_metadata :: "json option"
  pv_created_at :: jstr
  pv_updated_at :: jstr
  pv_lock_version :: "int option"

definition vault_from_plain :: "dates \<Rightarrow> plain_vault \<Rightarrow> string + vault" where
  "vault_from_plain T p =
     (if pv_id p = [] then Inl ''DomainId value must not be empty''
      else Inr \<lparr>va_id = pv_id p, va_name = pv_name p, va_description = pv_description p,
        va_encrypted_data = pv_encrypted_data p, va_encryption_key_id = pv_encryption_key_id p,
        va_owner_id = pv_owner_id p, va_metadata = pv_metadata p,
        va_created_at = of_iso T (pv_created_at p), va_updated_at = of_iso T (pv_updated_at p),
        va_lock_version = pv_lock_version p\<rparr>)"

definition vault_to_plain :: "dates \<Rightarrow> vault \<Rightarrow> plain_vault" where
  "vault_to_plain T v =
     \<lparr>pv_id = va_id v, pv_name = va_name v, pv_description = va_description v,
      pv_encrypted_data = va_encrypted_data v, pv_encryption_key_id = va_encryption_key_id v,
      pv_owner_id = va_owner_id v, pv_metadata = va_metadata v,
      pv_created_at = to_iso T (va_created_at v), pv_updated_at = to_iso T (va_updated_at v),
      pv_lock_version = va_lock_version v\<rparr>"

record safe_vault =
  sv_id :: jstr
  sv_name :: jstr
  sv_description :: "jstr option"
  sv_encryption_key_id :: jstr
  sv_owner_id :: "jstr option"
  sv_metadata :: "json option"
  sv_created_at :: jstr
  sv_updated_at :: jstr
  sv_lock_version :: "int option"

definition vault_to_safe :: "dates \<Rightarrow> vault \<Rightarrow> safe_vault" where
  "vault_to_safe T v =
     \<lparr>sv_id = va_id v, sv_name = va_name v, sv_description = va_description v,
      sv_encryption_key_id = va_encryption_key_id v, sv_owner_id = va_owner_id v, sv_metadata = va_metadata v,
      sv_created_at = to_iso T (va_created_at v), sv_updated_at = to_iso T (va_updated_at v),
      sv_lock_version = va_lock_version v\<rparr>"

subsection \<open>Rows and their mappers\<close>

record vault_row =
  vr_id :: jstr
  vr_name :: jstr
  vr_description :: "jstr option"
  vr_encrypted_data :: jstr
  vr_encryption_key_id :: jstr
  vr_owner_id :: "jstr option"
  vr_metadata :: "json option"
  vr_created_at :: timestamp
  vr_updated_at :: timestamp
  vr_lock_version :: int

text \<open>None is the throw of JSON.parse on a text column.\<close>

definition map_vault_row :: "subtle \<Rightarrow> dates \<Rightarrow> vault_row \<Rightarrow> plain_vault option" where
  "map_vault_row S T r = (case parse_jsonb_column S (vr_metadata r) of
     None \<Rightarrow> None
   | Some m \<Rightarrow> Some
     \<lparr>pv_id = vr_id r, pv_name = vr_name r, pv_description = vr_description r,
      pv_encrypted_data = vr_encrypted_data r, pv_encryption_key_id = vr_encryption_key_id r,
      pv_owner_id = vr_owner_id r, pv_metadata = m,
      pv_created_at = to_plain_timestamp T (vr_created_at r),
      pv_updated_at = to_plain_timestamp T (vr_updated_at r), pv_lock_version = Some (vr_lock_version r)\<rparr>)"

record credential_row =
  cw_id :: jstr
  cw_vault_id :: jstr
  cw_title :: jstr
  cw_username :: jstr
  cw_encrypted_password :: jstr
  cw_mode :: "entry_mode option"
  cw_salt :: "jstr option"
  cw_version :: "int option"
  cw_release_share_ref :: "jstr option"
  cw_url :: "jstr option"
  cw_notes :: "jstr option"
  cw_tags :: "jstr list option"
  cw_favorite :: "bool option"
  cw_created_at :: timestamp
  cw_updated_at :: timestamp
  cw_last_used :: "timestamp option"
  cw_lock_version :: int

definition map_credential_row :: "dates \<Rightarrow> credential_row \<Rightarrow> plain_credential" where
  "map_credential_row T r =
     \<lparr>pl_id = cw_id r, pl_vault_id = cw_vault_id r, pl_title = cw_title r, pl_username = cw_username r,
      pl_encrypted_password = cw_encrypted_password r,
      pl_mode = (case cw_mode r of None \<Rightarrow> Personal | Some m \<Rightarrow> m),
      pl_salt = (case cw_salt r of None \<Rightarrow> [] | Some s \<Rightarrow> s),
      pl_version = (case cw_version r of None \<Rightarrow> 1 | Some n \<Rightarrow> n),
      pl_release_share_ref = cw_release_share_ref r, pl_url = cw_url r, pl_notes = cw_notes r,
      pl_tags = (case cw_tags r of None \<Rightarrow> [] | Some ts \<Rightarrow> ts),
      pl_favorite = (case cw_favorite r of None \<Rightarrow> False | Some b \<Rightarrow> b),
      pl_created_at = to_plain_timestamp T (cw_created_at r),
      pl_updated_at = to_plain_timestamp T (cw_updated_at r),
      pl_last_used = to_optional_plain_timestamp T (cw_last_used r),
      pl_lock_version = Some (cw_lock_version r)\<rparr>"

subsection \<open>Errors and the circuit\<close>

datatype lockable_entity = Lock_Vault | Lock_Credential

datatype db_error =
    Lock_Conflict lockable_entity jstr int "int option"
  | Constraint_Violation string
  | Bad_Row string
  | Circuit_Is_Open

definition entity_name :: "lockable_entity \<Rightarrow> jstr" where
  "entity_name e = (case e of Lock_Vault \<Rightarrow> lit ''vault'' | Lock_Credential \<Rightarrow> lit ''credential'')"

definition lock_conflict_message :: "lockable_entity \<Rightarrow> jstr \<Rightarrow> int \<Rightarrow> int option \<Rightarrow> jstr" where
  "lock_conflict_message e i expected actual = (case actual of
     None \<Rightarrow> entity_name e @ lit '' '' @ i @ lit '' does not exist (expected lock_version '' @ dec_int expected
       @ lit '', guarded write refused without INSERT)''
   | Some n \<Rightarrow> entity_name e @ lit '' '' @ i @ lit '' is at lock_version '' @ dec_int n
       @ lit '' but the caller expected '' @ dec_int expected @ lit '' '' @ [0x2014]
       @ lit '' concurrent modification'')"

text \<open>executeWithCircuit: an open circuit rejects without running the query.\<close>

definition execute_with_circuit ::
  "('s, 'e, 'a) action \<Rightarrow> int \<Rightarrow> int \<Rightarrow> breaker \<times> 's \<Rightarrow> ('e, 'a) guarded \<times> breaker \<times> 's" where
  "execute_with_circuit fn now later bs = (case bs of (b, s) \<Rightarrow>
     (case breaker_get_state now b of (state, b1) \<Rightarrow>
        if state = Circuit_Open then (Rejected_Open, b1, s) else breaker_execute fn now later (b1, s)))"

subsection \<open>The tables\<close>

record vault_db =
  db_vaults :: "vault_row list"
  db_credentials :: "credential_row list"

definition read_vault :: "subtle \<Rightarrow> dates \<Rightarrow> vault_row \<Rightarrow> db_error + vault" where
  "read_vault S T r = (case map_vault_row S T r of
     None \<Rightarrow> Inl (Bad_Row ''SyntaxError'')
   | Some p \<Rightarrow> (case vault_from_plain T p of Inl e \<Rightarrow> Inl (Bad_Row e) | Inr v \<Rightarrow> Inr v))"

fun read_all :: "('r \<Rightarrow> db_error + 'e) \<Rightarrow> 'r list \<Rightarrow> db_error + 'e list" where
  "read_all rd [] = Inr []"
| "read_all rd (r # rs) = (case rd r of Inl e \<Rightarrow> Inl e
     | Inr x \<Rightarrow> (case read_all rd rs of Inl e \<Rightarrow> Inl e | Inr xs \<Rightarrow> Inr (x # xs)))"

definition or_null :: "jstr option \<Rightarrow> jstr option" where
  "or_null s = (if s = Some [] then None else s)"

text \<open>The columns an UPDATE sets from the plain object, and the row an INSERT makes.\<close>

definition set_vault_columns :: "dates \<Rightarrow> plain_vault \<Rightarrow> vault_row \<Rightarrow> vault_row" where
  "set_vault_columns T p r =
     r\<lparr>vr_name := pv_name p, vr_description := or_null (pv_description p),
       vr_encrypted_data := pv_encrypted_data p, vr_encryption_key_id := pv_encryption_key_id p,
       vr_owner_id := or_null (pv_owner_id p), vr_metadata := pv_metadata p,
       vr_updated_at := Date_Value (of_iso T (pv_updated_at p)), vr_lock_version := vr_lock_version r + 1\<rparr>"

definition insert_vault_row :: "dates \<Rightarrow> plain_vault \<Rightarrow> vault_row" where
  "insert_vault_row T p =
     \<lparr>vr_id = pv_id p, vr_name = pv_name p, vr_description = or_null (pv_description p),
      vr_encrypted_data = pv_encrypted_data p, vr_encryption_key_id = pv_encryption_key_id p,
      vr_owner_id = or_null (pv_owner_id p), vr_metadata = pv_metadata p,
      vr_created_at = Date_Value (of_iso T (pv_created_at p)),
      vr_updated_at = Date_Value (of_iso T (pv_updated_at p)), vr_lock_version = 1\<rparr>"

definition vault_row_of :: "vault_db \<Rightarrow> jstr \<Rightarrow> vault_row option" where
  "vault_row_of s i = find (\<lambda>r. vr_id r = i) (db_vaults s)"

definition vault_blind_save :: "subtle \<Rightarrow> dates \<Rightarrow> vault_db \<Rightarrow> vault \<Rightarrow> (db_error + vault) \<times> vault_db" where
  "vault_blind_save S T s v =
     (let p = vault_to_plain T v in
      case vault_row_of s (pv_id p) of
        None \<Rightarrow> (let r = insert_vault_row T p in (read_vault S T r, s\<lparr>db_vaults := db_vaults s @ [r]\<rparr>))
      | Some r \<Rightarrow> (read_vault S T (set_vault_columns T p r),
          s\<lparr>db_vaults := map (\<lambda>x. if vr_id x = pv_id p then set_vault_columns T p x else x) (db_vaults s)\<rparr>))"

definition vault_guarded_save ::
  "subtle \<Rightarrow> dates \<Rightarrow> vault_db \<Rightarrow> vault \<Rightarrow> int \<Rightarrow> (db_error + vault) \<times> vault_db" where
  "vault_guarded_save S T s v expected =
     (let p = vault_to_plain T v in
      case vault_row_of s (pv_id p) of
        None \<Rightarrow> (Inl (Lock_Conflict Lock_Vault (pv_id p) expected None), s)
      | Some r \<Rightarrow>
          if vr_lock_version r \<noteq> expected
          then (Inl (Lock_Conflict Lock_Vault (pv_id p) expected (Some (vr_lock_version r))), s)
          else (read_vault S T (set_vault_columns T p r),
            s\<lparr>db_vaults := map (\<lambda>x. if vr_id x = pv_id p then set_vault_columns T p x else x) (db_vaults s)\<rparr>))"

definition vault_save ::
  "subtle \<Rightarrow> dates \<Rightarrow> vault_db \<Rightarrow> vault \<Rightarrow> int option \<Rightarrow> (db_error + vault) \<times> vault_db" where
  "vault_save S T s v expected = (case expected of
     None \<Rightarrow> vault_blind_save S T s v | Some n \<Rightarrow> vault_guarded_save S T s v n)"

definition vault_find_by_id :: "subtle \<Rightarrow> dates \<Rightarrow> vault_db \<Rightarrow> jstr \<Rightarrow> db_error + vault option" where
  "vault_find_by_id S T s i = (case vault_row_of s i of
     None \<Rightarrow> Inr None
   | Some r \<Rightarrow> (case read_vault S T r of Inl e \<Rightarrow> Inl e | Inr v \<Rightarrow> Inr (Some v)))"

definition find_by_vault_and_owner ::
  "subtle \<Rightarrow> dates \<Rightarrow> vault_db \<Rightarrow> jstr \<Rightarrow> jstr \<Rightarrow> db_error + vault option" where
  "find_by_vault_and_owner S T s i owner =
     (case find (\<lambda>r. vr_id r = i \<and> vr_owner_id r = Some owner) (db_vaults s) of
        None \<Rightarrow> Inr None
      | Some r \<Rightarrow> (case read_vault S T r of Inl e \<Rightarrow> Inl e | Inr v \<Rightarrow> Inr (Some v)))"

definition vault_delete :: "vault_db \<Rightarrow> jstr \<Rightarrow> bool \<times> vault_db" where
  "vault_delete s i =
     (vault_row_of s i \<noteq> None,
      s\<lparr>db_vaults := filter (\<lambda>r. vr_id r \<noteq> i) (db_vaults s),
        db_credentials := filter (\<lambda>c. cw_vault_id c \<noteq> i) (db_credentials s)\<rparr>)"

text \<open>ORDER BY created\_at DESC; the order of equal times is left to the database.\<close>

definition timestamp_value :: "dates \<Rightarrow> timestamp \<Rightarrow> int" where
  "timestamp_value T t = (case t of Date_Value ms \<Rightarrow> ms | Date_Text s \<Rightarrow> of_iso T s)"

definition vault_list :: "subtle \<Rightarrow> dates \<Rightarrow> vault_db \<Rightarrow> db_error + vault list" where
  "vault_list S T s =
     read_all (read_vault S T) (sort_key (\<lambda>r. - timestamp_value T (vr_created_at r)) (db_vaults s))"

definition list_by_owner :: "subtle \<Rightarrow> dates \<Rightarrow> vault_db \<Rightarrow> jstr \<Rightarrow> db_error + vault list" where
  "list_by_owner S T s owner =
     read_all (read_vault S T) (sort_key (\<lambda>r. - timestamp_value T (vr_created_at r))
       (filter (\<lambda>r. vr_owner_id r = Some owner) (db_vaults s)))"

definition pg_update_metadata ::
  "int \<Rightarrow> vault_db \<Rightarrow> jstr \<Rightarrow> json \<Rightarrow> int option \<Rightarrow> (db_error + unit) \<times> vault_db" where
  "pg_update_metadata now s i m expected =
     (let hit = (\<lambda>r. vr_id r = i \<and> (case expected of None \<Rightarrow> True | Some n \<Rightarrow> vr_lock_version r = n));
        s' = s\<lparr>db_vaults := map (\<lambda>r. if hit r
          then r\<lparr>vr_metadata := Some m, vr_updated_at := Date_Value now, vr_lock_version := vr_lock_version r + 1\<rparr>
          else r) (db_vaults s)\<rparr>
      in (case expected of
          Some n \<Rightarrow> if list_ex hit (db_vaults s) then (Inr (), s')
            else (Inl (Lock_Conflict Lock_Vault i n (map_option vr_lock_version (vault_row_of s i))), s')
        | None \<Rightarrow> (Inr (), s')))"

subsection \<open>The table of credentials\<close>

definition read_credential :: "dates \<Rightarrow> credential_row \<Rightarrow> db_error + credential" where
  "read_credential T r = (case from_plain_object T (map_credential_row T r) of
     Inl e \<Rightarrow> Inl (Bad_Row e) | Inr c \<Rightarrow> Inr c)"

definition set_credential_columns :: "dates \<Rightarrow> plain_credential \<Rightarrow> credential_row \<Rightarrow> credential_row" where
  "set_credential_columns T p r =
     r\<lparr>cw_vault_id := pl_vault_id p, cw_title := pl_title p, cw_username := pl_username p,
       cw_encrypted_password := pl_encrypted_password p, cw_mode := Some (pl_mode p),
       cw_salt := Some (pl_salt p), cw_version := Some (pl_version p),
       cw_release_share_ref := or_null (pl_release_share_ref p), cw_url := or_null (pl_url p),
       cw_notes := or_null (pl_notes p), cw_tags := Some (pl_tags p), cw_favorite := Some (pl_favorite p),
       cw_updated_at := Date_Value (of_iso T (pl_updated_at p)),
       cw_last_used := map_option (\<lambda>t. Date_Value (of_iso T t)) (or_null (pl_last_used p)),
       cw_lock_version := cw_lock_version r + 1\<rparr>"

definition insert_credential_row :: "dates \<Rightarrow> plain_credential \<Rightarrow> credential_row" where
  "insert_credential_row T p =
     \<lparr>cw_id = pl_id p, cw_vault_id = pl_vault_id p, cw_title = pl_title p, cw_username = pl_username p,
      cw_encrypted_password = pl_encrypted_password p, cw_mode = Some (pl_mode p),
      cw_salt = Some (pl_salt p), cw_version = Some (pl_version p),
      cw_release_share_ref = or_null (pl_release_share_ref p), cw_url = or_null (pl_url p),
      cw_notes = or_null (pl_notes p), cw_tags = Some (pl_tags p), cw_favorite = Some (pl_favorite p),
      cw_created_at = Date_Value (of_iso T (pl_created_at p)),
      cw_updated_at = Date_Value (of_iso T (pl_updated_at p)),
      cw_last_used = map_option (\<lambda>t. Date_Value (of_iso T t)) (or_null (pl_last_used p)),
      cw_lock_version = 1\<rparr>"

definition credential_row_of :: "vault_db \<Rightarrow> jstr \<Rightarrow> credential_row option" where
  "credential_row_of s i = find (\<lambda>r. cw_id r = i) (db_credentials s)"

text \<open>The foreign key and the unique reference, for a row about to be written under an id.\<close>

definition credential_constraint :: "vault_db \<Rightarrow> plain_credential \<Rightarrow> string option" where
  "credential_constraint s p =
     (if or_null (pl_release_share_ref p) \<noteq> None
        \<and> list_ex (\<lambda>r. cw_id r \<noteq> pl_id p \<and> cw_release_share_ref r = or_null (pl_release_share_ref p))
            (db_credentials s)
      then Some ''duplicate key''
      else if vault_row_of s (pl_vault_id p) = None then Some ''foreign key'' else None)"

definition credential_blind_save ::
  "dates \<Rightarrow> vault_db \<Rightarrow> credential \<Rightarrow> (db_error + credential) \<times> vault_db" where
  "credential_blind_save T s c =
     (let p = to_plain_object T c in
      case credential_constraint s p of
        Some e \<Rightarrow> (Inl (Constraint_Violation e), s)
      | None \<Rightarrow> (case credential_row_of s (pl_id p) of
          None \<Rightarrow> (let r = insert_credential_row T p in
            (read_credential T r, s\<lparr>db_credentials := db_credentials s @ [r]\<rparr>))
        | Some r \<Rightarrow> (read_credential T (set_credential_columns T p r),
            s\<lparr>db_credentials := map (\<lambda>x. if cw_id x = pl_id p then set_credential_columns T p x else x)
                (db_credentials s)\<rparr>)))"

definition credential_guarded_save ::
  "dates \<Rightarrow> vault_db \<Rightarrow> credential \<Rightarrow> int \<Rightarrow> (db_error + credential) \<times> vault_db" where
  "credential_guarded_save T s c expected =
     (let p = to_plain_object T c in
      case credential_row_of s (pl_id p) of
        None \<Rightarrow> (Inl (Lock_Conflict Lock_Credential (pl_id p) expected None), s)
      | Some r \<Rightarrow>
          if cw_lock_version r \<noteq> expected
          then (Inl (Lock_Conflict Lock_Credential (pl_id p) expected (Some (cw_lock_version r))), s)
          else (case credential_constraint s p of
              Some e \<Rightarrow> (Inl (Constraint_Violation e), s)
            | None \<Rightarrow> (read_credential T (set_credential_columns T p r),
                s\<lparr>db_credentials := map (\<lambda>x. if cw_id x = pl_id p then set_credential_columns T p x else x)
                    (db_credentials s)\<rparr>)))"

definition credential_save ::
  "dates \<Rightarrow> vault_db \<Rightarrow> credential \<Rightarrow> int option \<Rightarrow> (db_error + credential) \<times> vault_db" where
  "credential_save T s c expected = (case expected of
     None \<Rightarrow> credential_blind_save T s c | Some n \<Rightarrow> credential_guarded_save T s c n)"

definition read_optional :: "('r \<Rightarrow> db_error + 'e) \<Rightarrow> 'r option \<Rightarrow> db_error + 'e option" where
  "read_optional rd r = (case r of None \<Rightarrow> Inr None
     | Some x \<Rightarrow> (case rd x of Inl e \<Rightarrow> Inl e | Inr v \<Rightarrow> Inr (Some v)))"

definition credential_find_by_id :: "dates \<Rightarrow> vault_db \<Rightarrow> jstr \<Rightarrow> db_error + credential option" where
  "credential_find_by_id T s i = read_optional (read_credential T) (credential_row_of s i)"

definition find_by_vault_id :: "dates \<Rightarrow> vault_db \<Rightarrow> jstr \<Rightarrow> db_error + credential list" where
  "find_by_vault_id T s i =
     read_all (read_credential T) (sort_key (\<lambda>r. - timestamp_value T (cw_created_at r))
       (filter (\<lambda>r. cw_vault_id r = i) (db_credentials s)))"

definition find_by_secret_ref :: "dates \<Rightarrow> vault_db \<Rightarrow> jstr \<Rightarrow> db_error + credential option" where
  "find_by_secret_ref T s ref =
     read_optional (read_credential T) (find (\<lambda>r. cw_release_share_ref r = Some ref) (db_credentials s))"

definition credential_delete :: "vault_db \<Rightarrow> jstr \<Rightarrow> bool \<times> vault_db" where
  "credential_delete s i =
     (credential_row_of s i \<noteq> None, s\<lparr>db_credentials := filter (\<lambda>r. cw_id r \<noteq> i) (db_credentials s)\<rparr>)"

definition credential_list :: "dates \<Rightarrow> vault_db \<Rightarrow> db_error + credential list" where
  "credential_list T s =
     read_all (read_credential T) (sort_key (\<lambda>r. - timestamp_value T (cw_created_at r)) (db_credentials s))"

subsection \<open>Optimistic locking\<close>

datatype 'e row_write = Guarded_Write 'e int | Blind_Write 'e | Delete_Row jstr

text \<open>How many guarded writes of an id with one expected version succeed in a history.\<close>

fun guarded_wins ::
  "('s \<Rightarrow> 'e \<Rightarrow> int \<Rightarrow> (db_error + 'e) \<times> 's) \<Rightarrow> ('s \<Rightarrow> 'e \<Rightarrow> (db_error + 'e) \<times> 's) \<Rightarrow>
   ('s \<Rightarrow> jstr \<Rightarrow> bool \<times> 's) \<Rightarrow> ('e \<Rightarrow> jstr) \<Rightarrow> jstr \<Rightarrow> int \<Rightarrow> 's \<Rightarrow> 'e row_write list \<Rightarrow> nat" where
  "guarded_wins guarded blind remove key i n s [] = 0"
| "guarded_wins guarded blind remove key i n s (Guarded_Write e m # ops) =
     (if key e = i \<and> m = n \<and> is_ok (fst (guarded s e m)) then 1 else 0)
     + guarded_wins guarded blind remove key i n (snd (guarded s e m)) ops"
| "guarded_wins guarded blind remove key i n s (Blind_Write e # ops) =
     guarded_wins guarded blind remove key i n (snd (blind s e)) ops"
| "guarded_wins guarded blind remove key i n s (Delete_Row j # ops) =
     guarded_wins guarded blind remove key i n (snd (remove s j)) ops"

locale optimistic_locking =
  fixes guarded :: "'s \<Rightarrow> 'e \<Rightarrow> int \<Rightarrow> (db_error + 'e) \<times> 's"
    and blind :: "'s \<Rightarrow> 'e \<Rightarrow> (db_error + 'e) \<times> 's"
    and remove :: "'s \<Rightarrow> jstr \<Rightarrow> bool \<times> 's"
    and key :: "'e \<Rightarrow> jstr"
    and version :: "'s \<Rightarrow> jstr \<Rightarrow> int option"
  assumes stale_refused: "version s (key e) \<noteq> Some n \<Longrightarrow> \<not> is_ok (fst (guarded s e n)) \<and> snd (guarded s e n) = s"
    and guarded_bumps: "is_ok (fst (guarded s e n)) \<Longrightarrow> version (snd (guarded s e n)) = (version s)(key e \<mapsto> n + 1)"
    and guarded_moves: "version s (key e) = Some n \<Longrightarrow> snd (guarded s e n) = s
        \<or> version (snd (guarded s e n)) = (version s)(key e \<mapsto> n + 1)"
    and blind_moves: "snd (blind s e) = s
        \<or> version (snd (blind s e)) = (version s)(key e \<mapsto> (case version s (key e) of None \<Rightarrow> 1 | Some n \<Rightarrow> n + 1))"
    and remove_other: "i \<noteq> j \<Longrightarrow> version (snd (remove s j)) i = version s i"
begin

lemma guarded_version: "is_ok (fst (guarded s e n)) \<Longrightarrow> version s (key e) = Some n"
  using stale_refused by blast

lemma version_grows:
  "version s i = Some m \<Longrightarrow> \<exists>k \<ge> m. version (snd (guarded s e n)) i = Some k"
  "version s i = Some m \<Longrightarrow> \<exists>k \<ge> m. version (snd (blind s e)) i = Some k"
proof -
  assume v: "version s i = Some m"
  show "\<exists>k \<ge> m. version (snd (guarded s e n)) i = Some k"
  proof (cases "version s (key e) = Some n")
    case True
    then show ?thesis using v guarded_moves [OF True] by (cases "i = key e") auto
  qed (use v stale_refused in auto)
  show "\<exists>k \<ge> m. version (snd (blind s e)) i = Some k"
    using v blind_moves [of s e] by (cases "i = key e") auto
qed

lemma passed_version_never_wins:
  "version s i = Some m \<Longrightarrow> n < m \<Longrightarrow> Delete_Row i \<notin> set ops \<Longrightarrow>
   guarded_wins guarded blind remove key i n s ops = 0"
proof (induction ops arbitrary: s m)
  case (Cons op ops)
  show ?case
  proof (cases op)
    case (Guarded_Write e k)
    obtain l where "l \<ge> m" "version (snd (guarded s e k)) i = Some l"
      using version_grows(1) [OF Cons.prems(1)] by blast
    moreover have "\<not> (key e = i \<and> k = n \<and> is_ok (fst (guarded s e k)))"
      using guarded_version [of s e k] Cons.prems by auto
    ultimately show ?thesis using Guarded_Write Cons by simp
  next
    case (Blind_Write e)
    obtain l where "l \<ge> m" "version (snd (blind s e)) i = Some l"
      using version_grows(2) [OF Cons.prems(1)] by blast
    then show ?thesis using Blind_Write Cons by simp
  next
    case (Delete_Row j)
    then show ?thesis using Cons remove_other [of i j s] by auto
  qed
qed simp

lemma wins_at_most_once:
  "Delete_Row i \<notin> set ops \<Longrightarrow> guarded_wins guarded blind remove key i n s ops \<le> 1"
proof (induction ops arbitrary: s)
  case (Cons op ops)
  show ?case
  proof (cases op)
    case (Guarded_Write e k)
    have "version (snd (guarded s e k)) i = Some (n + 1)"
      if "key e = i \<and> k = n \<and> is_ok (fst (guarded s e k))"
      using guarded_bumps [of s e k] that by auto
    then show ?thesis
      using Guarded_Write Cons passed_version_never_wins [of "snd (guarded s e k)" i "n + 1" n ops] by auto
  next
    case (Blind_Write e)
    then show ?thesis using Cons by simp
  next
    case (Delete_Row j)
    then show ?thesis using Cons by simp
  qed
qed simp

end

definition vault_version :: "vault_db \<Rightarrow> jstr \<Rightarrow> int option" where
  "vault_version s i = map_option vr_lock_version (vault_row_of s i)"

definition credential_version :: "vault_db \<Rightarrow> jstr \<Rightarrow> int option" where
  "credential_version s i = map_option cw_lock_version (credential_row_of s i)"

lemma find_map_key:
  assumes "\<And>x. k (f x) = k x"
  shows "find (\<lambda>x. k x = i) (map (\<lambda>x. if k x = j then f x else x) xs)
    = (if i = j then map_option f (find (\<lambda>x. k x = i) xs) else find (\<lambda>x. k x = i) xs)"
  using assms by (induction xs) auto

lemma set_vault_columns_key: "vr_id (set_vault_columns T p x) = vr_id x"
  and set_vault_columns_version: "vr_lock_version (set_vault_columns T p x) = vr_lock_version x + 1"
  and insert_vault_key: "vr_id (insert_vault_row T p) = pv_id p" "vr_lock_version (insert_vault_row T p) = 1"
  by (simp_all add: set_vault_columns_def insert_vault_row_def)

lemma vault_update_version:
  "vault_version (s\<lparr>db_vaults := map (\<lambda>x. if vr_id x = j then set_vault_columns T p x else x) (db_vaults s)\<rparr>) i
   = (if i = j then map_option (\<lambda>n. n + 1) (vault_version s i) else vault_version s i)"
  by (simp add: vault_version_def vault_row_of_def find_map_key set_vault_columns_key option.map_comp comp_def
      set_vault_columns_version)

interpretation vault_locking:
  optimistic_locking "vault_guarded_save S T" "vault_blind_save S T" vault_delete va_id vault_version
  for S T
proof
  fix s :: vault_db and e n i j
  have k: "pv_id (vault_to_plain T e) = va_id e" by (simp add: vault_to_plain_def)
  show "vault_version s (va_id e) \<noteq> Some n \<Longrightarrow>
      \<not> is_ok (fst (vault_guarded_save S T s e n)) \<and> snd (vault_guarded_save S T s e n) = s"
    by (auto simp: vault_guarded_save_def vault_version_def k Let_def split: option.splits)
  show "vault_version s (va_id e) = Some n \<Longrightarrow> snd (vault_guarded_save S T s e n) = s
      \<or> vault_version (snd (vault_guarded_save S T s e n)) = (vault_version s)(va_id e \<mapsto> n + 1)"
    by (auto simp: vault_guarded_save_def k Let_def fun_eq_iff vault_update_version split: option.splits)
  then show "is_ok (fst (vault_guarded_save S T s e n)) \<Longrightarrow>
      vault_version (snd (vault_guarded_save S T s e n)) = (vault_version s)(va_id e \<mapsto> n + 1)"
    by (auto simp: vault_guarded_save_def k Let_def fun_eq_iff vault_update_version split: option.splits if_splits)
      (auto simp: vault_version_def)
  show "snd (vault_blind_save S T s e) = s \<or> vault_version (snd (vault_blind_save S T s e))
      = (vault_version s)(va_id e \<mapsto> (case vault_version s (va_id e) of None \<Rightarrow> 1 | Some n \<Rightarrow> n + 1))"
    by (auto simp: vault_blind_save_def k Let_def fun_eq_iff vault_update_version split: option.splits)
      (auto simp: vault_version_def vault_row_of_def find_append insert_vault_key k split: option.splits)
  show "i \<noteq> j \<Longrightarrow> vault_version (snd (vault_delete s j)) i = vault_version s i"
    by (simp add: vault_version_def vault_row_of_def vault_delete_def find_filter_other)
qed

lemma set_credential_columns_key: "cw_id (set_credential_columns T p x) = cw_id x"
  and set_credential_columns_version: "cw_lock_version (set_credential_columns T p x) = cw_lock_version x + 1"
  and insert_credential_key: "cw_id (insert_credential_row T p) = pl_id p"
    "cw_lock_version (insert_credential_row T p) = 1"
  by (simp_all add: set_credential_columns_def insert_credential_row_def)

lemma credential_update_version:
  "credential_version (s\<lparr>db_credentials := map (\<lambda>x. if cw_id x = j then set_credential_columns T p x else x)
      (db_credentials s)\<rparr>) i
   = (if i = j then map_option (\<lambda>n. n + 1) (credential_version s i) else credential_version s i)"
  by (simp add: credential_version_def credential_row_of_def find_map_key set_credential_columns_key
      option.map_comp comp_def set_credential_columns_version)

interpretation credential_locking:
  optimistic_locking "credential_guarded_save T" "credential_blind_save T" credential_delete cr_id credential_version
  for T
proof
  fix s :: vault_db and e n i j
  have k: "pl_id (to_plain_object T e) = cr_id e" by (simp add: to_plain_object_def)
  show "credential_version s (cr_id e) \<noteq> Some n \<Longrightarrow>
      \<not> is_ok (fst (credential_guarded_save T s e n)) \<and> snd (credential_guarded_save T s e n) = s"
    by (auto simp: credential_guarded_save_def credential_version_def k Let_def split: option.splits)
  show "credential_version s (cr_id e) = Some n \<Longrightarrow> snd (credential_guarded_save T s e n) = s
      \<or> credential_version (snd (credential_guarded_save T s e n)) = (credential_version s)(cr_id e \<mapsto> n + 1)"
    by (auto simp: credential_guarded_save_def k Let_def fun_eq_iff credential_update_version split: option.splits)
  then show "is_ok (fst (credential_guarded_save T s e n)) \<Longrightarrow>
      credential_version (snd (credential_guarded_save T s e n)) = (credential_version s)(cr_id e \<mapsto> n + 1)"
    by (auto simp: credential_guarded_save_def k Let_def fun_eq_iff credential_update_version
        split: option.splits if_splits)
      (auto simp: credential_version_def)
  show "snd (credential_blind_save T s e) = s \<or> credential_version (snd (credential_blind_save T s e))
      = (credential_version s)(cr_id e \<mapsto> (case credential_version s (cr_id e) of None \<Rightarrow> 1 | Some n \<Rightarrow> n + 1))"
    by (auto simp: credential_blind_save_def k Let_def fun_eq_iff credential_update_version split: option.splits)
      (auto simp: credential_version_def credential_row_of_def find_append insert_credential_key k
        split: option.splits)
  show "i \<noteq> j \<Longrightarrow> credential_version (snd (credential_delete s j)) i = credential_version s i"
    by (simp add: credential_version_def credential_row_of_def credential_delete_def find_filter_other)
qed

end
