(* ===== verification/Step_Up_Api.thy ===== *)
theory Step_Up_Api
  imports Auth Vault_Store
begin

text \<open>
  The step-up routes of Core: src/src/infrastructure/api/step-up-approval.ts and the
  handlers of src/src/infrastructure/api/server.ts that issue approval challenges,
  register authenticators and sign approvals.  A handler is one step on the state;
  its random values, identifiers and clock are those of the request.
\<close>

subsection \<open>Verification of a proof\<close>

record webauthn_config =
  wc_configured :: bool
  wc_rp_id :: jstr
  wc_origin :: jstr

definition read_webauthn_config :: "jstr option \<Rightarrow> jstr option \<Rightarrow> webauthn_config" where
  "read_webauthn_config rp origin =
     (let r = (case rp of None \<Rightarrow> [] | Some s \<Rightarrow> trim s); u = (case origin of None \<Rightarrow> [] | Some s \<Rightarrow> trim s) in
      \<lparr>wc_configured = (r \<noteq> [] \<and> u \<noteq> []), wc_rp_id = r, wc_origin = u\<rparr>)"

datatype proof_verification =
    Proof_Accepted "nat option" "jstr option"
  | Proof_Refused nat string
  | Proof_Threw

definition proof_rejected :: proof_verification where
  "proof_rejected = Proof_Refused 403 ''Approval proof rejected''"

definition proof_challenge_id :: "step_up_proof \<Rightarrow> jstr" where
  "proof_challenge_id p = (case p of Passphrase_Proof q \<Rightarrow> pp_challenge_id q | Webauthn_Proof q \<Rightarrow> wp_challenge_id q)"

definition proof_approval_challenge_id :: "step_up_proof \<Rightarrow> jstr" where
  "proof_approval_challenge_id p = (case p of
     Passphrase_Proof q \<Rightarrow> pp_approval_challenge_id q | Webauthn_Proof q \<Rightarrow> wp_approval_challenge_id q)"

definition verify_step_up_proof ::
  "subtle \<Rightarrow> proof_crypto \<Rightarrow> step_up_proof \<Rightarrow> step_up_challenge \<Rightarrow> stored_user \<Rightarrow> challenge_purpose \<Rightarrow>
   (jstr \<Rightarrow> step_up_authenticator option) \<Rightarrow> webauthn_config \<Rightarrow> proof_verification" where
  "verify_step_up_proof S P proof row user purpose find_authenticator webauthn =
     (if sc_purpose row \<noteq> purpose then proof_rejected
      else if proof_challenge_id proof \<noteq> sc_binding_id row then proof_rejected
      else (case proof of
          Passphrase_Proof q \<Rightarrow>
            if pp_value q = [] then proof_rejected
            else if \<not> verify_passphrase_proof P (su_hash user) (sc_salt row) (sc_binding_id row) (pp_value q)
            then proof_rejected else Proof_Accepted None None
        | Webauthn_Proof q \<Rightarrow>
            if \<not> wc_configured webauthn \<or> absent (sc_rp_id row) \<or> absent (sc_origin row) then proof_rejected
            else if wp_credential_id q = [] then proof_rejected
            else (case find_authenticator (wp_credential_id q) of
                None \<Rightarrow> proof_rejected
              | Some a \<Rightarrow>
                  if sk_user_id a \<noteq> sc_user_id row then proof_rejected
                  else (case verify_webauthn_assertion S P
                      \<lparr>wa_client_data_json = wp_client_data_json q,
                       wa_authenticator_data = wp_authenticator_data q, wa_signature = wp_signature q\<rparr>
                      \<lparr>we_challenge = sc_challenge row, we_origin = the (sc_origin row), we_rp_id = the (sc_rp_id row),
                       we_public_key = sk_public_key a, we_stored_counter = sk_counter a\<rparr> of
                      WA_Accepted n \<Rightarrow> Proof_Accepted (Some n) (Some (sk_credential_id a))
                    | WA_Refused _ \<Rightarrow> proof_rejected
                    | WA_Threw \<Rightarrow> Proof_Threw))))"

definition present_string :: "json \<Rightarrow> string \<Rightarrow> jstr option" where
  "present_string j k = (case string_property j k of Some [] \<Rightarrow> None | s \<Rightarrow> s)"

definition is_object :: "json option \<Rightarrow> bool" where
  "is_object v \<longleftrightarrow> (case v of Some (JObj _) \<Rightarrow> True | Some (JArr _) \<Rightarrow> True | _ \<Rightarrow> False)"

definition precheck_proof_shape :: "json option \<Rightarrow> jstr option \<Rightarrow> (nat \<times> string) + step_up_proof" where
  "precheck_proof_shape raw expected =
     (if \<not> is_object raw then Inl (403, ''Approval proof required'')
      else let c = the raw; rejected = Inl (403, ''Approval proof rejected'') in
        if \<not> is_step_up_proof_type (property_of c ''type'') then Inl (400, ''Unsupported proof type'')
        else (case (present_string c ''approvalChallengeId'', string_property c ''challengeId'') of
            (Some approval_id, Some challenge_id) \<Rightarrow>
              if expected \<noteq> None \<and> Some challenge_id \<noteq> expected then rejected
              else if property_of c ''type'' = Some (JStr (lit ''passphrase'')) then
                (case string_property c ''value'' of
                   Some v \<Rightarrow> Inr (Passphrase_Proof \<lparr>pp_challenge_id = challenge_id,
                     pp_approval_challenge_id = approval_id, pp_value = v\<rparr>)
                 | None \<Rightarrow> rejected)
              else (case (present_string c ''credentialId'', present_string c ''clientDataJSON'',
                     present_string c ''authenticatorData'', present_string c ''signature'') of
                  (Some i, Some d, Some a, Some s) \<Rightarrow> Inr (Webauthn_Proof \<lparr>wp_challenge_id = challenge_id,
                     wp_approval_challenge_id = approval_id, wp_credential_id = i, wp_client_data_json = d,
                     wp_authenticator_data = a, wp_signature = s\<rparr>)
                | _ \<Rightarrow> rejected)
          | _ \<Rightarrow> rejected))"

subsection \<open>The state of the routes\<close>

record step_up_env =
  se_challenges :: approval_store
  se_authenticators :: authenticator_store
  se_users :: user_store
  se_rp_id :: "jstr option"
  se_origin :: "jstr option"
  se_approval_key :: "jstr option"
  se_has_credentials :: bool

record step_up_state =
  ss_challenges :: approval_table
  ss_authenticators :: authenticator_table
  ss_users :: user_table
  ss_db :: vault_db

record step_up_request =
  sr_user :: "jstr option"
  sr_body :: "json option"
  sr_now :: int
  sr_uuid :: jstr
  sr_random1 :: bytes
  sr_random2 :: bytes

record issued_challenge =
  ic_approval_challenge_id :: jstr
  ic_challenge_id :: jstr
  ic_purpose :: challenge_purpose
  ic_challenge :: jstr
  ic_salt :: jstr
  ic_user_salt :: jstr
  ic_rp_id :: "jstr option"
  ic_has_authenticator :: bool
  ic_credential_ids :: "jstr list"
  ic_expires_at :: int

text \<open>SU\_Rejected: the promise of the handler rejects before an answer is written.\<close>

datatype step_up_reply =
    SU_Error nat string
  | SU_Challenge issued_challenge
  | SU_Registered jstr
  | SU_Approval signed_approval
  | SU_Rejected

text \<open>
  parseJsonBody: the type of the content, the size, JSON.parse.  A body that is null
  has no properties to read, so the handler throws on it as well.
\<close>

definition max_body_bytes :: nat where "max_body_bytes = 1024 * 1024"

definition parse_json_body :: "subtle \<Rightarrow> jstr option \<Rightarrow> nat \<Rightarrow> jstr \<Rightarrow> json option" where
  "parse_json_body S content_type bytes body =
     (if \<not> includes_text (case content_type of None \<Rightarrow> [] | Some t \<Rightarrow> t) (lit ''application/json'') then None
      else if bytes > max_body_bytes then None else json_parse S body)"

definition readable_body :: "step_up_request \<Rightarrow> json option" where
  "readable_body rq = (case sr_body rq of Some JNull \<Rightarrow> None | b \<Rightarrow> b)"

definition purpose_of :: "json option \<Rightarrow> challenge_purpose option" where
  "purpose_of v = (if v = Some (JStr (lit ''release'')) then Some Release_Purpose
     else if v = Some (JStr (lit ''enroll'')) then Some Enroll_Purpose else None)"

definition new_approval_challenge ::
  "step_up_request \<Rightarrow> webauthn_config \<Rightarrow> jstr \<Rightarrow> challenge_purpose \<Rightarrow> jstr \<Rightarrow> step_up_challenge" where
  "new_approval_challenge rq webauthn user purpose challenge_id =
     \<lparr>sc_id = sr_uuid rq,
      sc_binding_id = (if purpose = Release_Purpose then challenge_id else sr_uuid rq),
      sc_user_id = user, sc_purpose = purpose, sc_challenge = bytes_to_base64_url (sr_random1 rq),
      sc_salt = to_hex (sr_random2 rq),
      sc_rp_id = (if wc_configured webauthn then Some (wc_rp_id webauthn) else None),
      sc_origin = (if wc_configured webauthn then Some (wc_origin webauthn) else None),
      sc_created_at = sr_now rq, sc_expires_at = sr_now rq + approval_challenge_ttl_ms, sc_consumed_at = None\<rparr>"

definition handle_approval_challenge ::
  "step_up_env \<Rightarrow> step_up_request \<Rightarrow> step_up_state \<Rightarrow> step_up_reply \<times> step_up_state" where
  "handle_approval_challenge E rq st =
     (if absent (sr_user rq) then (SU_Error 401 ''Authentication required'', st)
      else (case readable_body rq of None \<Rightarrow> (SU_Rejected, st) | Some data \<Rightarrow>
       (case present_string data ''challengeId'' of
          None \<Rightarrow> (SU_Error 400 ''challengeId is required'', st)
        | Some challenge_id \<Rightarrow>
       (case purpose_of (property_of data ''purpose'') of
          None \<Rightarrow> (SU_Error 400 ''Unsupported purpose'', st)
        | Some purpose \<Rightarrow>
       (case us_by_id (se_users E) (ss_users st) (the (sr_user rq)) of
          None \<Rightarrow> (SU_Error 503 ''Approval unavailable'', st)
        | Some user \<Rightarrow>
           let webauthn = read_webauthn_config (se_rp_id E) (se_origin E);
             registered = au_list (se_authenticators E) (ss_authenticators st) (the (sr_user rq));
             ids = (if wc_configured webauthn then map sk_credential_id registered else []);
             row = new_approval_challenge rq webauthn (the (sr_user rq)) purpose challenge_id
           in (case ac_save (se_challenges E) (ss_challenges st) row of
               (Inl e, t) \<Rightarrow> (SU_Rejected, st\<lparr>ss_challenges := t\<rparr>)
             | (Inr _, t) \<Rightarrow>
                 (SU_Challenge \<lparr>ic_approval_challenge_id = sc_id row, ic_challenge_id = sc_binding_id row,
                    ic_purpose = sc_purpose row, ic_challenge = sc_challenge row, ic_salt = sc_salt row,
                    ic_user_salt = su_salt user, ic_rp_id = sc_rp_id row, ic_has_authenticator = (ids \<noteq> []),
                    ic_credential_ids = ids, ic_expires_at = sc_expires_at row\<rparr>,
                  st\<lparr>ss_challenges := t\<rparr>)))))))"

subsection \<open>Registration of an authenticator\<close>

definition read_register_request :: "json \<Rightarrow> (nat \<times> string) + (jstr \<times> jstr \<times> jstr list)" where
  "read_register_request data =
     (case (present_string data ''credentialId'', present_string data ''publicKey'') of
        (Some i, Some k) \<Rightarrow>
          if property_of data ''alg'' \<noteq> Some (JNum (-7)) then Inl (400, ''Unsupported algorithm'')
          else Inr (i, k, (case property_of data ''transports'' of
              Some (JArr ts) \<Rightarrow> concat (map (\<lambda>t. case t of JStr s \<Rightarrow> [s] | _ \<Rightarrow> []) ts) | _ \<Rightarrow> []))
      | _ \<Rightarrow> Inl (400, ''credentialId and publicKey are required''))"

definition handle_register_authenticator ::
  "subtle \<Rightarrow> proof_crypto \<Rightarrow> step_up_env \<Rightarrow> step_up_request \<Rightarrow> step_up_state \<Rightarrow> step_up_reply \<times> step_up_state" where
  "handle_register_authenticator S P E rq st =
     (if absent (sr_user rq) then (SU_Error 401 ''Authentication required'', st)
      else (case readable_body rq of None \<Rightarrow> (SU_Rejected, st) | Some data \<Rightarrow>
       (if \<not> is_object (property_of data ''proof'') then (SU_Error 403 ''Approval proof required'', st)
        else (case precheck_proof_shape (property_of data ''proof'') None of
          Inl (n, e) \<Rightarrow> (SU_Error n e, st)
        | Inr proof \<Rightarrow>
       (case read_register_request data of
          Inl (n, e) \<Rightarrow> (SU_Error n e, st)
        | Inr (credential_id, public_key, transports) \<Rightarrow>
       (let webauthn = read_webauthn_config (se_rp_id E) (se_origin E) in
        if \<not> wc_configured webauthn then (SU_Error 503 ''Authenticator registration is not configured'', st)
        else (case us_by_id (se_users E) (ss_users st) (the (sr_user rq)) of
          None \<Rightarrow> (SU_Error 503 ''Approval unavailable'', st)
        | Some user \<Rightarrow>
       (case parse_p256_public_key public_key of
          None \<Rightarrow> (SU_Error 400 ''Invalid public key'', st)
        | Some point \<Rightarrow>
       (case ac_consume (se_challenges E) (ss_challenges st) (proof_approval_challenge_id proof)
              (the (sr_user rq)) (sr_now rq) of
          (None, t) \<Rightarrow> (SU_Error 403 ''Approval proof rejected'', st\<lparr>ss_challenges := t\<rparr>)
        | (Some row, t) \<Rightarrow>
           let st1 = st\<lparr>ss_challenges := t\<rparr> in
           (case verify_step_up_proof S P proof row user Enroll_Purpose
               (au_find (se_authenticators E) (ss_authenticators st1)) webauthn of
              Proof_Refused n e \<Rightarrow> (SU_Error n e, st1)
            | Proof_Threw \<Rightarrow> (SU_Rejected, st1)
            | Proof_Accepted _ _ \<Rightarrow>
                (case au_save (se_authenticators E) (ss_authenticators st1)
                    \<lparr>sk_credential_id = credential_id, sk_user_id = the (sr_user rq),
                     sk_public_key = bytes_to_base64_url point, sk_counter = 0, sk_transports = transports,
                     sk_created_at = sr_now rq\<rparr> of
                   (False, a) \<Rightarrow> (SU_Error 409 ''This authenticator is already registered to another account'',
                      st1\<lparr>ss_authenticators := a\<rparr>)
                 | (True, a) \<Rightarrow> (SU_Registered credential_id, st1\<lparr>ss_authenticators := a\<rparr>))))))))))))"

subsection \<open>Signing an approval\<close>

definition read_approve_request :: "json \<Rightarrow> (nat \<times> string) + (jstr \<times> jstr \<times> jstr \<times> step_up_proof)" where
  "read_approve_request data =
     (case present_string data ''credentialId'' of
        None \<Rightarrow> Inl (400, ''credentialId is required'')
      | Some credential_id \<Rightarrow>
     (case string_property data ''operation'' of
        None \<Rightarrow> Inl (400, ''Unsupported operation'')
      | Some operation \<Rightarrow>
        if \<not> is_valid_approval_operation operation then Inl (400, ''Unsupported operation'')
        else (case present_string data ''challengeId'' of
        None \<Rightarrow> Inl (400, ''challengeId is required'')
      | Some challenge_id \<Rightarrow>
     (case precheck_proof_shape (property_of data ''proof'') (Some challenge_id) of
        Inl e \<Rightarrow> Inl e
      | Inr proof \<Rightarrow> Inr (credential_id, operation, challenge_id, proof)))))"

text \<open>Inl: the refusal is written, or the promise rejected.\<close>

definition consume_and_verify ::
  "subtle \<Rightarrow> proof_crypto \<Rightarrow> step_up_env \<Rightarrow> step_up_request \<Rightarrow> step_up_proof \<Rightarrow> step_up_state \<Rightarrow>
   (step_up_reply + unit) \<times> step_up_state" where
  "consume_and_verify S P E rq proof st =
     (case us_by_id (se_users E) (ss_users st) (the (sr_user rq)) of
        None \<Rightarrow> (Inl (SU_Error 503 ''Approval unavailable''), st)
      | Some user \<Rightarrow>
     (case ac_consume (se_challenges E) (ss_challenges st) (proof_approval_challenge_id proof)
            (the (sr_user rq)) (sr_now rq) of
        (None, t) \<Rightarrow> (Inl (SU_Error 403 ''Approval proof rejected''), st\<lparr>ss_challenges := t\<rparr>)
      | (Some row, t) \<Rightarrow>
         let st1 = st\<lparr>ss_challenges := t\<rparr> in
         (case verify_step_up_proof S P proof row user Release_Purpose
             (au_find (se_authenticators E) (ss_authenticators st1))
             (read_webauthn_config (se_rp_id E) (se_origin E)) of
            Proof_Refused n e \<Rightarrow> (Inl (SU_Error n e), st1)
          | Proof_Threw \<Rightarrow> (Inl SU_Rejected, st1)
          | Proof_Accepted count credential_id \<Rightarrow>
              (case (count, credential_id) of
                 (Some n, Some i) \<Rightarrow> if i \<noteq> [] \<and> n > 0
                   then (Inr (), st1\<lparr>ss_authenticators :=
                     au_update_counter (se_authenticators E) (ss_authenticators st1) i n\<rparr>)
                   else (Inr (), st1)
               | _ \<Rightarrow> (Inr (), st1)))))"

definition approval_for :: "step_up_request \<Rightarrow> jstr \<Rightarrow> jstr \<Rightarrow> jstr \<Rightarrow> approval_payload" where
  "approval_for rq challenge_id operation ref =
     (let iat = sr_now rq div 1000 in
      \<lparr>ap_version = approval_version, ap_typ = approval_typ, ap_challenge_id = challenge_id,
       ap_user_id = the (sr_user rq), ap_resource_id = ref, ap_operation = operation, ap_secret_ref = ref,
       ap_iat = iat, ap_exp = iat + min default_approval_ttl_seconds max_approval_ttl_seconds,
       ap_jti = sr_uuid rq\<rparr>)"

text \<open>What follows an accepted proof: ownership, then the signature.\<close>

definition sign_for_owner ::
  "subtle \<Rightarrow> curve \<Rightarrow> dates \<Rightarrow> step_up_env \<Rightarrow> step_up_request \<Rightarrow> vault_db \<Rightarrow> jstr \<Rightarrow> jstr \<Rightarrow> jstr \<Rightarrow> step_up_reply" where
  "sign_for_owner S C T E rq db credential_id operation challenge_id =
     (case credential_find_by_id T db credential_id of
        Inl _ \<Rightarrow> SU_Rejected
      | Inr None \<Rightarrow> SU_Error 404 ''Credential not available for release''
      | Inr (Some c) \<Rightarrow>
          if \<not> is_managed c \<or> absent (cr_release_share_ref c)
          then SU_Error 400 ''Credential is not a managed credential''
          else (case find_by_vault_and_owner S T db (cr_vault_id c) (the (sr_user rq)) of
              Inl _ \<Rightarrow> SU_Rejected
            | Inr None \<Rightarrow> SU_Error 404 ''Credential not available for release''
            | Inr (Some _) \<Rightarrow>
                if absent (se_approval_key E) then SU_Error 503 ''Approval signing is not configured''
                else (case load_approval_private_key (the (se_approval_key E)) of
                    None \<Rightarrow> SU_Rejected
                  | Some key \<Rightarrow>
                      (case sign_approval S C
                          (approval_for rq challenge_id operation (the (cr_release_share_ref c))) key of
                         Inl _ \<Rightarrow> SU_Rejected | Inr a \<Rightarrow> SU_Approval a))))"

definition handle_step_up_approve ::
  "subtle \<Rightarrow> curve \<Rightarrow> dates \<Rightarrow> proof_crypto \<Rightarrow> step_up_env \<Rightarrow> step_up_request \<Rightarrow> step_up_state \<Rightarrow>
   step_up_reply \<times> step_up_state" where
  "handle_step_up_approve S C T P E rq st =
     (if absent (sr_user rq) then (SU_Error 401 ''Authentication required'', st)
      else if \<not> se_has_credentials E then (SU_Error 503 ''Approval unavailable'', st)
      else (case readable_body rq of None \<Rightarrow> (SU_Rejected, st) | Some data \<Rightarrow>
       (case read_approve_request data of
          Inl (n, e) \<Rightarrow> (SU_Error n e, st)
        | Inr (credential_id, operation, challenge_id, proof) \<Rightarrow>
            (case consume_and_verify S P E rq proof st of
               (Inl reply, st1) \<Rightarrow> (reply, st1)
             | (Inr _, st1) \<Rightarrow>
                 (sign_for_owner S C T E rq (ss_db st1) credential_id operation challenge_id, st1)))))"

subsection \<open>Routing\<close>

datatype step_up_route = Route_Challenge | Route_Register | Route_Approve

definition step_up_step ::
  "subtle \<Rightarrow> curve \<Rightarrow> dates \<Rightarrow> proof_crypto \<Rightarrow> step_up_env \<Rightarrow> step_up_route \<Rightarrow> step_up_request \<Rightarrow> step_up_state \<Rightarrow>
   step_up_reply \<times> step_up_state" where
  "step_up_step S C T P E route rq st = (case route of
     Route_Challenge \<Rightarrow> handle_approval_challenge E rq st
   | Route_Register \<Rightarrow> handle_register_authenticator S P E rq st
   | Route_Approve \<Rightarrow> handle_step_up_approve S C T P E rq st)"

end
