(* ===== verification/Step_Up_History.thy ===== *)
theory Step_Up_History
  imports Step_Up_Api
begin

text \<open>
  Histories of the step-up routes: which requests came, what was answered, and what
  the table of challenges then holds.  Users, vaults and credentials may change
  between requests in any way.
\<close>

record su_entry =
  en_route :: step_up_route
  en_request :: step_up_request
  en_reply :: step_up_reply

inductive step_up_history ::
  "subtle \<Rightarrow> curve \<Rightarrow> dates \<Rightarrow> proof_crypto \<Rightarrow> step_up_env \<Rightarrow> step_up_state \<Rightarrow> su_entry list \<Rightarrow> bool"
  for S C T P E where
  start: "step_up_history S C T P E \<lparr>ss_challenges = [], ss_authenticators = [], ss_users = u, ss_db = d\<rparr> []"
| request: "step_up_history S C T P E st past \<Longrightarrow> step_up_step S C T P E route rq st = (reply, st') \<Longrightarrow>
    (route = Route_Challenge \<Longrightarrow> map_of (ss_challenges st) (sr_uuid rq) = None) \<Longrightarrow>
    step_up_history S C T P E st' (\<lparr>en_route = route, en_request = rq, en_reply = reply\<rparr> # past)"
| world: "step_up_history S C T P E st past \<Longrightarrow>
    step_up_history S C T P E (st\<lparr>ss_users := u, ss_db := d\<rparr>) past"

text \<open>The stores createStepUpProofStores chooses between.\<close>

definition factory_challenges :: "step_up_env \<Rightarrow> bool" where
  "factory_challenges E \<longleftrightarrow> se_challenges E = memory_challenges \<or> se_challenges E = postgres_challenges"

lemma factory_save:
  assumes "factory_challenges E" "challenge_table_ok t" "map_of t (sc_id c) = None" "sc_consumed_at c = None"
  shows "\<exists>t'. ac_save (se_challenges E) t c = (Inr (), t') \<and> map_of t' = (map_of t)(sc_id c \<mapsto> c) \<and> challenge_table_ok t'"
  using assms mem_challenges.save_fresh [of t c] mem_challenges.save_ok [of t c]
    pg_challenges.save_fresh [of t c] pg_challenges.save_ok [of t c]
  by (cases "memory_challenge_save t c"; cases "pg_challenge_save t c")
    (auto simp: factory_challenges_def memory_challenges_def postgres_challenges_def)

lemma factory_consumed:
  assumes "factory_challenges E" "challenge_table_ok t" "ac_consume (se_challenges E) t i u now = (Some r, t')"
  shows "\<exists>c. map_of t i = Some c \<and> sc_user_id c = u \<and> sc_consumed_at c = None \<and> now < sc_expires_at c
    \<and> r = c\<lparr>sc_consumed_at := Some now\<rparr> \<and> map_of t' = (map_of t)(i \<mapsto> r) \<and> challenge_table_ok t'"
  using assms mem_challenges.consume_success [of t i u now r] mem_challenges.consume_ok [of t i u now]
    pg_challenges.consume_success [of t i u now r] pg_challenges.consume_ok [of t i u now]
  by (auto simp: factory_challenges_def memory_challenges_def postgres_challenges_def)

lemma factory_not_consumed:
  assumes "factory_challenges E" "challenge_table_ok t" "ac_consume (se_challenges E) t i u now = (None, t')"
  shows "map_of t' = map_of t \<and> challenge_table_ok t'"
  using assms mem_challenges.consume_failure [of t i u now] mem_challenges.consume_ok [of t i u now]
    pg_challenges.consume_failure [of t i u now] pg_challenges.consume_ok [of t i u now]
  by (auto simp: factory_challenges_def memory_challenges_def postgres_challenges_def)

subsection \<open>What a request does to the table\<close>

text \<open>The challenge a request presents.\<close>

definition presented_id :: "step_up_request \<Rightarrow> jstr option" where
  "presented_id rq = (case readable_body rq of
     None \<Rightarrow> None
   | Some data \<Rightarrow> (case property_of data ''proof'' of None \<Rightarrow> None | Some p \<Rightarrow> present_string p ''approvalChallengeId''))"

definition accepted_reply :: "step_up_reply \<Rightarrow> bool" where
  "accepted_reply r \<longleftrightarrow> (case r of SU_Approval _ \<Rightarrow> True | SU_Registered _ \<Rightarrow> True | _ \<Rightarrow> False)"

lemma precheck_ok:
  assumes "precheck_proof_shape raw e = Inr proof"
  shows "\<exists>c. raw = Some c \<and> present_string c ''approvalChallengeId'' = Some (proof_approval_challenge_id proof)
    \<and> (e \<noteq> None \<longrightarrow> e = Some (proof_challenge_id proof))"
  using assms
  by (cases raw)
    (auto simp: precheck_proof_shape_def is_object_def Let_def proof_approval_challenge_id_def
      proof_challenge_id_def split: if_splits option.splits)

lemma verified_binding:
  "verify_step_up_proof S P proof row user purpose f w = Proof_Accepted n i \<Longrightarrow>
   sc_purpose row = purpose \<and> proof_challenge_id proof = sc_binding_id row"
  by (auto simp: verify_step_up_proof_def proof_rejected_def split: if_splits)

text \<open>A request consumes at most the challenge it presents, of its own user and in time.\<close>

definition consumes :: "step_up_request \<Rightarrow> approval_table \<Rightarrow> approval_table \<Rightarrow> step_up_challenge \<Rightarrow> bool" where
  "consumes rq t t' c \<longleftrightarrow>
     (\<exists>i. presented_id rq = Some i \<and> map_of t i = Some c \<and> sr_user rq = Some (sc_user_id c)
        \<and> sc_consumed_at c = None \<and> sr_now rq < sc_expires_at c
        \<and> map_of t' = (map_of t)(i \<mapsto> c\<lparr>sc_consumed_at := Some (sr_now rq)\<rparr>) \<and> challenge_table_ok t')"

definition untouched :: "approval_table \<Rightarrow> approval_table \<Rightarrow> bool" where
  "untouched t t' \<longleftrightarrow> map_of t' = map_of t \<and> challenge_table_ok t'"

lemma untouched_refl: "challenge_table_ok t \<Longrightarrow> untouched t t"
  by (simp add: untouched_def)

lemma present_user: "\<not> absent u \<Longrightarrow> u = Some (the u)"
  by (cases u) (auto simp: absent_def)

lemma register_effect:
  assumes E: "factory_challenges E" and ok: "challenge_table_ok (ss_challenges st)"
    and h: "handle_register_authenticator S P E rq st = (reply, st')"
  shows "untouched (ss_challenges st) (ss_challenges st') \<and> (\<exists>n e. reply = SU_Error n e \<or> reply = SU_Rejected)
    \<or> (\<exists>c. consumes rq (ss_challenges st) (ss_challenges st') c) \<and> (\<forall>a. reply \<noteq> SU_Approval a) \<and> (\<forall>v. reply \<noteq> SU_Challenge v)"
proof -
  note d = h [unfolded handle_register_authenticator_def]
  consider (early) "ss_challenges st' = ss_challenges st" "\<exists>n e. reply = SU_Error n e \<or> reply = SU_Rejected"
    | (consume) data pf t r where "\<not> absent (sr_user rq)" "readable_body rq = Some data"
        "precheck_proof_shape (property_of data ''proof'') None = Inr pf"
        "ac_consume (se_challenges E) (ss_challenges st) (proof_approval_challenge_id pf) (the (sr_user rq)) (sr_now rq) = (r, t)"
        "ss_challenges st' = t"
        "r = None \<longrightarrow> reply = SU_Error 403 ''Approval proof rejected''"
        "(\<forall>a. reply \<noteq> SU_Approval a) \<and> (\<forall>v. reply \<noteq> SU_Challenge v)"
    using d
    by (auto simp: Let_def split: if_splits option.splits sum.splits prod.splits proof_verification.splits bool.splits)
  then show ?thesis
  proof cases
    case early
    then show ?thesis using untouched_refl [OF ok] by auto
  next
    case consume
    obtain p where p: "property_of data ''proof'' = Some p"
      "present_string p ''approvalChallengeId'' = Some (proof_approval_challenge_id pf)"
      using precheck_ok [OF consume(3)] by auto
    have pid: "presented_id rq = Some (proof_approval_challenge_id pf)"
      using consume(2) p by (simp add: presented_id_def)
    show ?thesis
    proof (cases r)
      case None
      then show ?thesis using factory_not_consumed [OF E ok] consume by (auto simp: untouched_def)
    next
      case (Some row)
      then have "consumes rq (ss_challenges st) (ss_challenges st') (row\<lparr>sc_consumed_at := None\<rparr>)"
        using factory_consumed [OF E ok consume(4) [unfolded Some]] consume(1,5) pid present_user
        by (fastforce simp: consumes_def)
      then show ?thesis using consume(7) by blast
    qed
  qed
qed

lemma approve_effect:
  assumes E: "factory_challenges E" and ok: "challenge_table_ok (ss_challenges st)"
    and h: "handle_step_up_approve S C T P E rq st = (reply, st')"
  shows "untouched (ss_challenges st) (ss_challenges st') \<and> (\<exists>n e. reply = SU_Error n e \<or> reply = SU_Rejected)
    \<or> (\<exists>c. consumes rq (ss_challenges st) (ss_challenges st') c \<and> (\<forall>v. reply \<noteq> SU_Challenge v) \<and> (\<forall>k. reply \<noteq> SU_Registered k)
        \<and> (\<forall>a. reply = SU_Approval a \<longrightarrow> sc_purpose c = Release_Purpose
            \<and> ap_challenge_id (sa_payload a) = sc_binding_id c \<and> ap_user_id (sa_payload a) = sc_user_id c))"
proof -
  note d = h [unfolded handle_step_up_approve_def consume_and_verify_def]
  show ?thesis
  proof (cases "\<not> absent (sr_user rq) \<and> se_has_credentials E \<and> readable_body rq \<noteq> None
      \<and> is_ok (read_approve_request (the (readable_body rq)))
      \<and> us_by_id (se_users E) (ss_users st) (the (sr_user rq)) \<noteq> None")
    case False
    then have "ss_challenges st' = ss_challenges st \<and> (\<exists>n e. reply = SU_Error n e \<or> reply = SU_Rejected)"
      using d by (auto split: option.splits sum.splits prod.splits if_splits)
    then show ?thesis using untouched_refl [OF ok] by auto
  next
    case True
    then obtain data cid op ch pf user where a: "\<not> absent (sr_user rq)" "se_has_credentials E"
      "readable_body rq = Some data" "read_approve_request data = Inr (cid, op, ch, pf)"
      "us_by_id (se_users E) (ss_users st) (the (sr_user rq)) = Some user"
      by (auto simp: is_ok_iff)
    have pre: "precheck_proof_shape (property_of data ''proof'') (Some ch) = Inr pf"
      using a(4) by (auto simp: read_approve_request_def split: option.splits sum.splits if_splits)
    obtain p where p: "property_of data ''proof'' = Some p" "ch = proof_challenge_id pf"
      "present_string p ''approvalChallengeId'' = Some (proof_approval_challenge_id pf)"
      using precheck_ok [OF pre] by auto
    have pid: "presented_id rq = Some (proof_approval_challenge_id pf)" using a(3) p by (simp add: presented_id_def)
    obtain r t where rt: "ac_consume (se_challenges E) (ss_challenges st) (proof_approval_challenge_id pf)
        (the (sr_user rq)) (sr_now rq) = (r, t)" by fastforce
    show ?thesis
    proof (cases r)
      case None
      then have "ss_challenges st' = t" "reply = SU_Error 403 ''Approval proof rejected''"
        using d a rt by auto
      then show ?thesis using factory_not_consumed [OF E ok rt [unfolded None]] by (auto simp: untouched_def)
    next
      case (Some row)
      obtain c where c: "map_of (ss_challenges st) (proof_approval_challenge_id pf) = Some c"
        "sc_user_id c = the (sr_user rq)" "sc_consumed_at c = None" "sr_now rq < sc_expires_at c"
        "row = c\<lparr>sc_consumed_at := Some (sr_now rq)\<rparr>"
        "map_of t = (map_of (ss_challenges st))(proof_approval_challenge_id pf \<mapsto> row)" "challenge_table_ok t"
        using factory_consumed [OF E ok rt [unfolded Some]] by blast
      have st': "ss_challenges st' = t"
        using d a rt Some by (auto simp: Let_def split: proof_verification.splits option.splits if_splits)
      have "consumes rq (ss_challenges st) (ss_challenges st') c"
        using c pid st' present_user [OF a(1)] by (simp add: consumes_def)
      moreover have "(\<forall>v. reply \<noteq> SU_Challenge v) \<and> (\<forall>k. reply \<noteq> SU_Registered k)"
        using d a rt Some
        by (auto simp: Let_def sign_for_owner_def split: proof_verification.splits option.splits if_splits sum.splits)
      moreover have "sc_purpose c = Release_Purpose \<and> ap_challenge_id (sa_payload s) = sc_binding_id c
          \<and> ap_user_id (sa_payload s) = sc_user_id c" if s: "reply = SU_Approval s" for s
      proof -
        obtain n i where v: "verify_step_up_proof S P pf row user Release_Purpose
            (au_find (se_authenticators E) (ss_authenticators st)) (read_webauthn_config (se_rp_id E) (se_origin E))
            = Proof_Accepted n i"
          using d a rt Some s by (auto simp: Let_def split: proof_verification.splits)
        have "sa_payload s = approval_for rq ch op ref" if "sign_approval S C (approval_for rq ch op ref) k = Inr s" for ref k
          using that by (auto simp: sign_approval_def split: sum.splits)
        then have "ap_challenge_id (sa_payload s) = ch \<and> ap_user_id (sa_payload s) = the (sr_user rq)"
          using d a rt Some s
          by (auto simp: Let_def sign_for_owner_def approval_for_def
              split: proof_verification.splits option.splits if_splits sum.splits)
        then show ?thesis using verified_binding [OF v] c(2,5) p(2) by simp
      qed
      ultimately show ?thesis by blast
    qed
  qed
qed

lemma challenge_effect:
  assumes E: "factory_challenges E" and ok: "challenge_table_ok (ss_challenges st)"
    and fresh: "map_of (ss_challenges st) (sr_uuid rq) = None"
    and h: "handle_approval_challenge E rq st = (reply, st')"
  shows "untouched (ss_challenges st) (ss_challenges st') \<and> (\<exists>n e. reply = SU_Error n e \<or> reply = SU_Rejected)
    \<or> (\<exists>v c. reply = SU_Challenge v \<and> challenge_table_ok (ss_challenges st')
        \<and> map_of (ss_challenges st') = (map_of (ss_challenges st))(ic_approval_challenge_id v \<mapsto> c)
        \<and> ic_approval_challenge_id v = sr_uuid rq \<and> ic_challenge_id v = sc_binding_id c \<and> ic_purpose v = sc_purpose c
        \<and> sr_user rq = Some (sc_user_id c) \<and> sc_expires_at c = sr_now rq + approval_challenge_ttl_ms
        \<and> sc_consumed_at c = None)"
proof -
  note d = h [unfolded handle_approval_challenge_def]
  consider (early) "st' = st" "\<exists>n e. reply = SU_Error n e \<or> reply = SU_Rejected"
    | (save) purpose ch user where "\<not> absent (sr_user rq)"
        "us_by_id (se_users E) (ss_users st) (the (sr_user rq)) = Some user"
        "purpose_of (property_of (the (readable_body rq)) ''purpose'') = Some purpose"
        "present_string (the (readable_body rq)) ''challengeId'' = Some ch" "readable_body rq \<noteq> None"
    using d by (auto split: if_splits option.splits)
  then show ?thesis
  proof cases
    case early
    then show ?thesis using untouched_refl [OF ok] by auto
  next
    case save
    obtain row where row: "row = new_approval_challenge rq (read_webauthn_config (se_rp_id E) (se_origin E))
        (the (sr_user rq)) purpose ch" by simp
    have r: "sc_id row = sr_uuid rq" "sc_user_id row = the (sr_user rq)" "sc_consumed_at row = None"
      "sc_expires_at row = sr_now rq + approval_challenge_ttl_ms"
      by (simp_all add: row new_approval_challenge_def)
    obtain t' where t': "ac_save (se_challenges E) (ss_challenges st) row = (Inr (), t')"
      "map_of t' = (map_of (ss_challenges st))(sc_id row \<mapsto> row)" "challenge_table_ok t'"
      using factory_save [OF E ok, of row] fresh r by auto
    obtain v where v: "reply = SU_Challenge v" "ic_approval_challenge_id v = sc_id row"
      "ic_challenge_id v = sc_binding_id row" "ic_purpose v = sc_purpose row" "ss_challenges st' = t'"
      using d save t'(1) [unfolded row] row by (auto simp: Let_def)
    show ?thesis
      using v t' r present_user [OF save(1)] by (intro disjI2 exI [of _ v] exI [of _ row]) simp
  qed
qed

text \<open>What is signed: the reference of a managed credential in a vault of the caller.\<close>

definition caller_owns :: "subtle \<Rightarrow> dates \<Rightarrow> vault_db \<Rightarrow> jstr \<Rightarrow> jstr \<Rightarrow> jstr \<Rightarrow> bool" where
  "caller_owns S T db credential_id ref user \<longleftrightarrow>
     (\<exists>c v. credential_find_by_id T db credential_id = Inr (Some c) \<and> is_managed c
        \<and> cr_release_share_ref c = Some ref \<and> find_by_vault_and_owner S T db (cr_vault_id c) user = Inr (Some v))"

lemma sign_for_owner_approves:
  assumes "sign_for_owner S C T E rq db cid op ch = SU_Approval a"
  shows "sa_payload a = approval_for rq ch op (ap_secret_ref (sa_payload a))
    \<and> caller_owns S T db cid (ap_secret_ref (sa_payload a)) (the (sr_user rq))"
proof -
  have p: "sa_payload a = q" if "sign_approval S C q k = Inr a" for q k
    using that by (auto simp: sign_approval_def split: sum.splits)
  obtain c v key where c: "credential_find_by_id T db cid = Inr (Some c)" "is_managed c" "\<not> absent (cr_release_share_ref c)"
    "find_by_vault_and_owner S T db (cr_vault_id c) (the (sr_user rq)) = Inr (Some v)"
    "sign_approval S C (approval_for rq ch op (the (cr_release_share_ref c))) key = Inr a"
    using assms by (auto simp: sign_for_owner_def split: sum.splits option.splits if_splits)
  have r: "ap_secret_ref (sa_payload a) = the (cr_release_share_ref c)" using p [OF c(5)] by (simp add: approval_for_def Let_def)
  have "cr_release_share_ref c = Some (ap_secret_ref (sa_payload a))" using present_user [OF c(3)] r by simp
  then show ?thesis using c p [OF c(5)] r by (auto simp: caller_owns_def)
qed

lemma approve_signs:
  assumes "handle_step_up_approve S C T P E rq st = (SU_Approval a, st')"
  shows "\<exists>data cid. readable_body rq = Some data \<and> present_string data ''credentialId'' = Some cid
    \<and> caller_owns S T (ss_db st) cid (ap_secret_ref (sa_payload a)) (the (sr_user rq))
    \<and> string_property data ''operation'' = Some (ap_operation (sa_payload a))
    \<and> ap_iat (sa_payload a) = sr_now rq div 1000 \<and> ap_exp (sa_payload a) = sr_now rq div 1000 + 300"
proof -
  obtain data cid op ch pf st1 where d: "readable_body rq = Some data" "read_approve_request data = Inr (cid, op, ch, pf)"
    "consume_and_verify S P E rq pf st = (Inr (), st1)"
    "sign_for_owner S C T E rq (ss_db st1) cid op ch = SU_Approval a"
    using assms by (auto simp: handle_step_up_approve_def consume_and_verify_def Let_def
        split: if_splits option.splits sum.splits prod.splits proof_verification.splits)
  have db: "ss_db st1 = ss_db st"
    using d(3) by (auto simp: consume_and_verify_def Let_def
        split: if_splits option.splits prod.splits proof_verification.splits)
  have r: "present_string data ''credentialId'' = Some cid" "string_property data ''operation'' = Some op"
    using d(2) by (auto simp: read_approve_request_def split: option.splits sum.splits if_splits)
  show ?thesis using sign_for_owner_approves [OF d(4)] d(1) db r
    by (auto simp: approval_for_def Let_def default_approval_ttl_seconds_def max_approval_ttl_seconds_def
        dest: arg_cong [where f = ap_operation] arg_cong [where f = ap_iat] arg_cong [where f = ap_exp])
qed

subsection \<open>The invariant\<close>

text \<open>A row was issued, for its user and two minutes, by an earlier request.\<close>

definition issued_by :: "su_entry \<Rightarrow> jstr \<Rightarrow> step_up_challenge \<Rightarrow> bool" where
  "issued_by en i c \<longleftrightarrow> (\<exists>v. en_reply en = SU_Challenge v \<and> ic_approval_challenge_id v = i
     \<and> ic_challenge_id v = sc_binding_id c \<and> ic_purpose v = sc_purpose c
     \<and> sr_user (en_request en) = Some (sc_user_id c)
     \<and> sc_expires_at c = sr_now (en_request en) + approval_challenge_ttl_ms)"

definition used_in :: "su_entry list \<Rightarrow> jstr \<Rightarrow> bool" where
  "used_in past i \<longleftrightarrow> (\<exists>en \<in> set past. accepted_reply (en_reply en) \<and> presented_id (en_request en) = Some i)"

definition step_up_inv :: "approval_table \<Rightarrow> su_entry list \<Rightarrow> bool" where
  "step_up_inv t past \<longleftrightarrow> challenge_table_ok t
     \<and> (\<forall>i c. map_of t i = Some c \<longrightarrow> (\<exists>en \<in> set past. issued_by en i c) \<and> (sc_consumed_at c = None \<longrightarrow> \<not> used_in past i))
     \<and> (\<forall>i. used_in past i \<longrightarrow> map_of t i \<noteq> None)"

lemma used_in_Cons:
  "used_in (en # past) i \<longleftrightarrow> accepted_reply (en_reply en) \<and> presented_id (en_request en) = Some i \<or> used_in past i"
  by (auto simp: used_in_def)

lemma issued_by_consumed: "issued_by en i (c\<lparr>sc_consumed_at := x\<rparr>) = issued_by en i c"
  by (simp add: issued_by_def)

lemma inv_untouched:
  assumes "step_up_inv t past" "untouched t t'" "\<not> accepted_reply (en_reply en)"
  shows "step_up_inv t' (en # past)"
  using assms by (fastforce simp: step_up_inv_def untouched_def used_in_Cons)

lemma inv_consumes:
  assumes inv: "step_up_inv t past" and c: "consumes (en_request en) t t' c"
  shows "step_up_inv t' (en # past)"
proof -
  obtain i where i: "presented_id (en_request en) = Some i" "map_of t i = Some c"
    "map_of t' = (map_of t)(i \<mapsto> c\<lparr>sc_consumed_at := Some (sr_now (en_request en))\<rparr>)" "challenge_table_ok t'"
    using c by (auto simp: consumes_def)
  show ?thesis unfolding step_up_inv_def
  proof (intro conjI allI impI)
    fix j d assume d: "map_of t' j = Some d"
    show "\<exists>en' \<in> set (en # past). issued_by en' j d"
      using d i inv by (cases "j = i") (auto simp: step_up_inv_def issued_by_consumed)
    assume "sc_consumed_at d = None"
    then have "j \<noteq> i" using d i by auto
    then have "map_of t j = Some d" using d i by simp
    then show "\<not> used_in (en # past) j" using inv i \<open>j \<noteq> i\<close> \<open>sc_consumed_at d = None\<close> by (auto simp: step_up_inv_def used_in_Cons)
  next
    fix j assume "used_in (en # past) j"
    then show "map_of t' j \<noteq> None" using i inv by (cases "j = i") (auto simp: step_up_inv_def used_in_Cons)
  qed (use i in simp)
qed

lemma inv_issues:
  assumes inv: "step_up_inv t past" and v: "en_reply en = SU_Challenge v" "map_of t (ic_approval_challenge_id v) = None"
    and t': "challenge_table_ok t'" "map_of t' = (map_of t)(ic_approval_challenge_id v \<mapsto> c)"
    and c: "issued_by en (ic_approval_challenge_id v) c"
  shows "step_up_inv t' (en # past)"
proof -
  have a: "\<not> accepted_reply (en_reply en)" using v(1) by (simp add: accepted_reply_def)
  have n: "\<not> used_in past (ic_approval_challenge_id v)" using inv v(2) by (auto simp: step_up_inv_def)
  show ?thesis unfolding step_up_inv_def
  proof (intro conjI allI impI)
    fix j d assume d: "map_of t' j = Some d"
    show "\<exists>en' \<in> set (en # past). issued_by en' j d"
      using d t' inv c by (cases "j = ic_approval_challenge_id v") (auto simp: step_up_inv_def)
    assume "sc_consumed_at d = None"
    then show "\<not> used_in (en # past) j"
      using d t' inv a n by (cases "j = ic_approval_challenge_id v") (auto simp: step_up_inv_def used_in_Cons)
  next
    fix j assume "used_in (en # past) j"
    then show "map_of t' j \<noteq> None" using t' inv a by (auto simp: step_up_inv_def used_in_Cons)
  qed (use t' in simp)
qed

lemma error_not_accepted: "\<exists>n e. reply = SU_Error n e \<or> reply = SU_Rejected \<Longrightarrow> \<not> accepted_reply reply"
  by (auto simp: accepted_reply_def)

lemma history_inv:
  assumes E: "factory_challenges E"
  shows "step_up_history S C T P E st past \<Longrightarrow> step_up_inv (ss_challenges st) past"
proof (induction rule: step_up_history.induct)
  case (start u d)
  then show ?case by (simp add: step_up_inv_def challenge_table_ok_def used_in_def)
next
  case (request st past route rq reply st')
  obtain en where en: "en = \<lparr>en_route = route, en_request = rq, en_reply = reply\<rparr>" by simp
  have ok: "challenge_table_ok (ss_challenges st)" using request.IH by (simp add: step_up_inv_def)
  have "step_up_inv (ss_challenges st') (en # past)"
  proof (cases route)
    case Route_Challenge
    then have h: "handle_approval_challenge E rq st = (reply, st')" using request.hyps(2) by (simp add: step_up_step_def)
    have fresh: "map_of (ss_challenges st) (sr_uuid rq) = None" using request.hyps(3) Route_Challenge by simp
    from challenge_effect [OF E ok fresh h] consider
        (none) "untouched (ss_challenges st) (ss_challenges st')" "\<not> accepted_reply reply"
      | (new) v c where "reply = SU_Challenge v" "challenge_table_ok (ss_challenges st')"
        "map_of (ss_challenges st') = (map_of (ss_challenges st))(ic_approval_challenge_id v \<mapsto> c)"
        "ic_approval_challenge_id v = sr_uuid rq" "issued_by en (ic_approval_challenge_id v) c"
      using error_not_accepted [of reply] by (auto simp: issued_by_def en)
    then show ?thesis
    proof cases
      case none
      then show ?thesis using inv_untouched [OF request.IH, of _ en] en by simp
    next
      case new
      then show ?thesis using fresh by (intro inv_issues [OF request.IH, of en v _ c]) (simp_all add: en)
    qed
  next
    case Route_Register
    then have h: "handle_register_authenticator S P E rq st = (reply, st')" using request.hyps(2) by (simp add: step_up_step_def)
    from register_effect [OF E ok h] show ?thesis
      using inv_untouched [OF request.IH, of _ en] inv_consumes [OF request.IH, of en] error_not_accepted [of reply] en
      by auto
  next
    case Route_Approve
    then have h: "handle_step_up_approve S C T P E rq st = (reply, st')" using request.hyps(2) by (simp add: step_up_step_def)
    from approve_effect [OF E ok h] show ?thesis
      using inv_untouched [OF request.IH, of _ en] inv_consumes [OF request.IH, of en] error_not_accepted [of reply] en
      by auto
  qed
  then show ?case by (simp add: en)
next
  case (world st past u d)
  then show ?case by simp
qed

lemma history_approval:
  assumes E: "factory_challenges E" and st: "step_up_history S C T P E st past"
    and step: "step_up_step S C T P E route rq st = (SU_Approval a, st')"
    and fresh: "route = Route_Challenge \<Longrightarrow> map_of (ss_challenges st) (sr_uuid rq) = None"
  shows "\<exists>i en v. presented_id rq = Some i \<and> en \<in> set past \<and> en_reply en = SU_Challenge v
    \<and> ic_approval_challenge_id v = i \<and> ic_purpose v = Release_Purpose
    \<and> ic_challenge_id v = ap_challenge_id (sa_payload a)
    \<and> sr_user (en_request en) = Some (ap_user_id (sa_payload a)) \<and> sr_user rq = Some (ap_user_id (sa_payload a))
    \<and> sr_now rq < sr_now (en_request en) + 120000 \<and> \<not> used_in past i"
proof -
  have inv: "step_up_inv (ss_challenges st) past" using history_inv [OF E st] .
  then have ok: "challenge_table_ok (ss_challenges st)" by (simp add: step_up_inv_def)
  have "route = Route_Approve"
  proof (cases route)
    case Route_Challenge
    then show ?thesis using challenge_effect [OF E ok fresh, of "SU_Approval a" st'] step
      by (auto simp: step_up_step_def)
  next
    case Route_Register
    then show ?thesis using register_effect [OF E ok, of S P rq "SU_Approval a" st'] step
      by (auto simp: step_up_step_def)
  qed
  then have h: "handle_step_up_approve S C T P E rq st = (SU_Approval a, st')" using step by (simp add: step_up_step_def)
  obtain c where c: "consumes rq (ss_challenges st) (ss_challenges st') c" "sc_purpose c = Release_Purpose"
    "ap_challenge_id (sa_payload a) = sc_binding_id c" "ap_user_id (sa_payload a) = sc_user_id c"
    using approve_effect [OF E ok h] by auto
  then obtain i where i: "presented_id rq = Some i" "map_of (ss_challenges st) i = Some c"
    "sr_user rq = Some (sc_user_id c)" "sc_consumed_at c = None" "sr_now rq < sc_expires_at c"
    by (auto simp: consumes_def)
  have "\<exists>en \<in> set past. issued_by en i c" and u: "\<not> used_in past i"
    using inv i(2,4) unfolding step_up_inv_def by blast+
  then obtain en where en: "en \<in> set past" "issued_by en i c" by blast
  then show ?thesis using i c u by (auto simp: issued_by_def approval_challenge_ttl_ms_def)
qed

end
