(* ===== verification/Step_Up_Properties.thy ===== *)
theory Step_Up_Properties
  imports Step_Up_History Sample_Platform
begin

text \<open>
  The properties of Core's step-up routes, of the proofs they accept and of the
  tables behind them.
\<close>

subsection \<open>A concrete exchange\<close>

text \<open>One user of the in-memory stores who asks for a challenge and approves with a passphrase.\<close>

definition su_crypto :: proof_crypto where
  "su_crypto = \<lparr>pc_sha256 = (\<lambda>b. take 32 (b @ replicate 32 0)), pc_pbkdf2 = (\<lambda>k s. replicate 64 5),
     pc_import_p256 = (\<lambda>p. True), pc_ecdsa_verify = (\<lambda>p s m. Some (s = [1])), pc_text_of = (\<lambda>j. [])\<rparr>"

definition su_dates :: dates where
  "su_dates = \<lparr>to_iso = (\<lambda>t. [nat t]), of_iso = (\<lambda>s. int (hd s))\<rparr>"

definition su_env :: step_up_env where
  "su_env = \<lparr>se_challenges = memory_challenges, se_authenticators = memory_authenticators, se_users = memory_users,
     se_rp_id = None, se_origin = None, se_approval_key = Some (binary_to_base64 [3, 3, 3]),
     se_has_credentials = True\<rparr>"

definition su_sample_user :: stored_user where
  "su_sample_user = \<lparr>su_user_id = [1], su_email = [2], su_hash = to_hex (replicate 64 5), su_salt = [3]\<rparr>"

definition su_vault_row :: vault_row where
  "su_vault_row = \<lparr>vr_id = [4], vr_name = [], vr_description = None, vr_encrypted_data = [], vr_encryption_key_id = [],
     vr_owner_id = Some [1], vr_metadata = None, vr_created_at = Date_Value 0, vr_updated_at = Date_Value 0,
     vr_lock_version = 1\<rparr>"

definition su_credential_row :: credential_row where
  "su_credential_row = \<lparr>cw_id = [5], cw_vault_id = [4], cw_title = [], cw_username = [], cw_encrypted_password = [],
     cw_mode = Some Managed, cw_salt = None, cw_version = None, cw_release_share_ref = Some [6], cw_url = None,
     cw_notes = None, cw_tags = None, cw_favorite = None, cw_created_at = Date_Value 0, cw_updated_at = Date_Value 0,
     cw_last_used = None, cw_lock_version = 1\<rparr>"

definition su_start :: step_up_state where
  "su_start = \<lparr>ss_challenges = [], ss_authenticators = [], ss_users = [([2], su_sample_user, 0)],
     ss_db = \<lparr>db_vaults = [su_vault_row], db_credentials = [su_credential_row]\<rparr>\<rparr>"

definition su_ask :: step_up_request where
  "su_ask = \<lparr>sr_user = Some [1], sr_body = Some (JObj [(lit ''challengeId'', JStr [7]),
       (lit ''purpose'', JStr (lit ''release''))]),
     sr_now = 1000, sr_uuid = [8], sr_random1 = [0], sr_random2 = [0]\<rparr>"

definition su_proof :: json where
  "su_proof = JObj [(lit ''type'', JStr (lit ''passphrase'')), (lit ''challengeId'', JStr [7]),
     (lit ''approvalChallengeId'', JStr [8]), (lit ''value'', JStr (to_hex (replicate 64 5)))]"

definition su_approve :: step_up_request where
  "su_approve = \<lparr>sr_user = Some [1], sr_body = Some (JObj [(lit ''credentialId'', JStr [5]),
       (lit ''operation'', JStr (lit ''AUTOFILL'')), (lit ''challengeId'', JStr [7]), (lit ''proof'', su_proof)]),
     sr_now = 61000, sr_uuid = [9], sr_random1 = [0], sr_random2 = [0]\<rparr>"

definition su_asked :: "step_up_reply \<times> step_up_state" where
  "su_asked = step_up_step sample_subtle sample_curve su_dates su_crypto su_env Route_Challenge su_ask su_start"

definition su_approved :: "step_up_reply \<times> step_up_state" where
  "su_approved = step_up_step sample_subtle sample_curve su_dates su_crypto su_env Route_Approve su_approve (snd su_asked)"

lemmas su_eval = su_env_def su_sample_user_def su_start_def su_ask_def su_proof_def su_approve_def su_crypto_def su_dates_def
  step_up_step_def absent_def readable_body_def property_of_def string_property_def present_string_def
  memory_challenges_def memory_authenticators_def memory_users_def memory_by_id_def

definition su_row :: step_up_challenge where
  "su_row = new_approval_challenge su_ask (read_webauthn_config None None) [1] Release_Purpose [7]"

lemma su_asked_state: "snd su_asked = su_start\<lparr>ss_challenges := [([8], su_row)]\<rparr>"
  by (simp add: su_asked_def su_row_def handle_approval_challenge_def purpose_of_def memory_challenge_save_def
      new_approval_challenge_def read_webauthn_config_def memory_authenticator_list_def Let_def su_eval)
    (simp add: lit_def)

lemma su_proof_accepted:
  "verify_passphrase_proof su_crypto (to_hex (replicate 64 5)) salt c (to_hex (replicate 64 5))"
  unfolding passphrase_accepted_iff by (simp add: su_crypto_def hex_round_trip)

lemma su_precheck:
  "precheck_proof_shape (Some su_proof) (Some [7])
   = Inr (Passphrase_Proof \<lparr>pp_challenge_id = [7], pp_approval_challenge_id = [8], pp_value = to_hex (replicate 64 5)\<rparr>)"
  by (simp add: precheck_proof_shape_def is_object_def is_step_up_proof_type_def Let_def su_proof_def
      property_of_def string_property_def present_string_def) (simp add: lit_def)

lemma su_request_read:
  "readable_body su_approve = sr_body su_approve"
  "read_approve_request (the (sr_body su_approve)) = Inr ([5], lit ''AUTOFILL'', [7],
     Passphrase_Proof \<lparr>pp_challenge_id = [7], pp_approval_challenge_id = [8], pp_value = to_hex (replicate 64 5)\<rparr>)"
proof -
  obtain p where p: "p = su_proof" by simp
  show "readable_body su_approve = sr_body su_approve" by (simp add: readable_body_def su_approve_def)
  show "read_approve_request (the (sr_body su_approve)) = Inr ([5], lit ''AUTOFILL'', [7],
     Passphrase_Proof \<lparr>pp_challenge_id = [7], pp_approval_challenge_id = [8], pp_value = to_hex (replicate 64 5)\<rparr>)"
    using su_precheck [folded p]
    by (simp add: read_approve_request_def su_approve_def p [symmetric] property_of_def string_property_def
        present_string_def is_valid_approval_operation_def approval_operations_def) (simp add: lit_def)
qed

lemma su_challenge_row: "sc_user_id su_row = [1]" "sc_consumed_at su_row = None" "sc_expires_at su_row = 121000"
  "sc_purpose su_row = Release_Purpose" "sc_binding_id su_row = [7]"
  by (simp_all add: su_row_def new_approval_challenge_def su_ask_def approval_challenge_ttl_ms_def)

lemma su_consumed:
  "consume_and_verify sample_subtle su_crypto su_env su_approve
     (Passphrase_Proof \<lparr>pp_challenge_id = [7], pp_approval_challenge_id = [8], pp_value = to_hex (replicate 64 5)\<rparr>)
     (snd su_asked) = (Inr (), (snd su_asked)\<lparr>ss_challenges := [([8], su_row\<lparr>sc_consumed_at := Some 61000\<rparr>)]\<rparr>)"
proof -
  have "to_hex (replicate 64 5) \<noteq> []" by (simp add: to_hex_def nats_of_def)
  then show ?thesis
    by (simp add: consume_and_verify_def su_asked_state su_env_def memory_users_def memory_by_id_def su_start_def
        su_sample_user_def su_approve_def proof_approval_challenge_id_def proof_challenge_id_def memory_challenges_def
        memory_challenge_consume_def su_challenge_row Let_def verify_step_up_proof_def su_proof_accepted)
qed

lemma su_key_present: "binary_to_base64 [3, 3, 3] \<noteq> []"
  by (simp add: binary_to_base64_def nats_of_def Let_def)

lemma su_signed:
  "\<exists>a. sign_for_owner sample_subtle sample_curve su_dates su_env su_approve (ss_db su_start) [5] op ch = SU_Approval a"
  by (simp add: sign_for_owner_def credential_find_by_id_def read_optional_def read_credential_def credential_row_of_def
      su_start_def su_credential_row_def map_credential_row_def from_plain_object_def is_managed_def absent_def
      find_by_vault_and_owner_def su_vault_row_def read_vault_def map_vault_row_def parse_jsonb_column_def
      vault_from_plain_def su_approve_def su_env_def load_approval_private_key_def base64_round_trip sign_approval_def
      sample_curve_def su_key_present)

lemma su_approved_reply: "\<exists>a. su_approved = (SU_Approval a, snd su_approved)"
proof -
  obtain a where "sign_for_owner sample_subtle sample_curve su_dates su_env su_approve (ss_db su_start) [5]
      (lit ''AUTOFILL'') [7] = SU_Approval a" using su_signed by blast
  moreover have "sr_body su_approve = Some (the (sr_body su_approve))" by (simp add: su_approve_def)
  ultimately show ?thesis
    using su_request_read su_consumed su_asked_state
    by (simp add: su_approved_def step_up_step_def handle_step_up_approve_def)
      (simp add: absent_def su_approve_def su_env_def)
qed

subsection \<open>Approvals\<close>

text \<open>
  C28. Over any history of the step-up routes on the repository's stores, with users,
  vaults and credentials changing in between: Core signs an approval only for a
  request that presents a challenge issued earlier to the same user for a release and
  for the same challenge of Plus, less than two minutes before, that no accepted
  request presented before; and what it signs is the reference of a managed
  credential in a vault of that user, for the operation asked for and five minutes.
\<close>

theorem approval_needs_fresh_challenge:
  assumes "factory_challenges E" and "step_up_history S C T P E st past"
    and "step_up_step S C T P E Route_Approve rq st = (SU_Approval a, st')"
  shows "(\<exists>en v. en \<in> set past \<and> en_reply en = SU_Challenge v
      \<and> presented_id rq = Some (ic_approval_challenge_id v) \<and> ic_purpose v = Release_Purpose
      \<and> ic_challenge_id v = ap_challenge_id (sa_payload a)
      \<and> sr_user (en_request en) = Some (ap_user_id (sa_payload a)) \<and> sr_user rq = Some (ap_user_id (sa_payload a))
      \<and> sr_now rq < sr_now (en_request en) + 120000 \<and> \<not> used_in past (ic_approval_challenge_id v))
    \<and> (\<exists>data cid. readable_body rq = Some data \<and> present_string data ''credentialId'' = Some cid
      \<and> caller_owns S T (ss_db st) cid (ap_secret_ref (sa_payload a)) (ap_user_id (sa_payload a))
      \<and> string_property data ''operation'' = Some (ap_operation (sa_payload a))
      \<and> ap_iat (sa_payload a) = sr_now rq div 1000 \<and> ap_exp (sa_payload a) = sr_now rq div 1000 + 300)"
proof -
  note h = history_approval [OF assms]
  then have "the (sr_user rq) = ap_user_id (sa_payload a)" by auto
  then show ?thesis using h approve_signs [of S C T P E rq st a st'] assms(3)
    by (auto simp: step_up_step_def)
qed

theorem approval_needs_fresh_challenge_witness:
  "\<exists>a. fst su_approved = SU_Approval a \<and> ap_challenge_id (sa_payload a) = [7] \<and> ap_secret_ref (sa_payload a) = [6]"
proof -
  obtain a where a: "su_approved = (SU_Approval a, snd su_approved)" using su_approved_reply by blast
  obtain past where past: "past = [\<lparr>en_route = Route_Challenge, en_request = su_ask, en_reply = fst su_asked\<rparr>]" by simp
  have "step_up_history sample_subtle sample_curve su_dates su_crypto su_env su_start []"
    unfolding su_start_def by (rule step_up_history.start)
  then have h: "step_up_history sample_subtle sample_curve su_dates su_crypto su_env (snd su_asked) past"
    unfolding past by (rule step_up_history.request) (simp_all add: su_asked_def su_start_def)
  have E: "factory_challenges su_env" by (simp add: factory_challenges_def su_env_def)
  have st: "step_up_step sample_subtle sample_curve su_dates su_crypto su_env Route_Approve su_approve (snd su_asked)
      = (SU_Approval a, snd su_approved)"
    using a by (simp add: su_approved_def)
  have v: "\<exists>v. fst su_asked = SU_Challenge v \<and> ic_challenge_id v = [7]"
    by (simp add: su_asked_def handle_approval_challenge_def purpose_of_def memory_challenge_save_def
      new_approval_challenge_def read_webauthn_config_def memory_authenticator_list_def Let_def su_eval)
      (simp add: lit_def)
  have "present_string (the (readable_body su_approve)) ''credentialId'' = Some [5]"
    by (simp add: readable_body_def su_approve_def present_string_def string_property_def property_of_def)
  moreover have "fst su_approved = SU_Approval a" using arg_cong [OF a, of fst] by simp
  ultimately show ?thesis using approval_needs_fresh_challenge [OF E h st] v
    by (intro exI [of _ a]) (auto simp: past caller_owns_def credential_find_by_id_def read_optional_def read_credential_def credential_row_of_def
        su_asked_state su_start_def su_credential_row_def map_credential_row_def from_plain_object_def)
qed

subsection \<open>Proofs\<close>

text \<open>
  C31. A WebAuthn assertion is accepted exactly when its client data is a webauthn.get
  object with the challenge that was issued and the configured origin, the
  authenticator data is for the configured RP, has the user-presence bit and a counter
  that advances whenever one is stored, and the signature over both verifies with the
  stored P-256 point; the counter returned is the one read from the data.
\<close>

theorem assertion_accepted_exactly:
  "verify_webauthn_assertion S P a e = WA_Accepted n \<longleftrightarrow>
     (\<exists>client j auth sig point.
        base64_url_to_bytes (wa_client_data_json a) = Some client
      \<and> json_parse S (text_decode S client) = Some j
      \<and> property_of j ''type'' = Some (JStr (lit ''webauthn.get''))
      \<and> utf8_encode (challenge_text P (property_of j ''challenge'')) = utf8_encode (we_challenge e)
      \<and> property_of j ''origin'' = Some (JStr (we_origin e))
      \<and> base64_url_to_bytes (wa_authenticator_data a) = Some auth
      \<and> base64_url_to_bytes (wa_signature a) = Some sig
      \<and> 37 \<le> length auth \<and> take 32 auth = pc_sha256 P (utf8_encode (we_rp_id e))
      \<and> odd (unat (auth ! 32)) \<and> n = read_uint32 auth 33
      \<and> (we_stored_counter e = 0 \<or> we_stored_counter e < n)
      \<and> parse_p256_public_key (we_public_key e) = Some point \<and> pc_import_p256 P point
      \<and> pc_ecdsa_verify P point sig (auth @ pc_sha256 P client) = Some True)"
  unfolding assertion_accepted_iff assertion_acceptable_def ..

text \<open>
  C25. Whatever form a P-256 key is registered in (hexadecimal or base64url, a raw
  point, SubjectPublicKeyInfo or COSE), the base64url text the server stores is read
  back as the very point that was parsed, and so is its hexadecimal form.
\<close>

theorem registered_key_reads_back:
  assumes "parse_p256_public_key submitted = Some point"
  shows "parse_p256_public_key (bytes_to_base64_url point) = Some point
    \<and> parse_p256_public_key (bytes_to_hex point) = Some point \<and> length point = 65 \<and> hd point = 0x04"
  using stored_point_reads_back [of point] parse_p256_point [OF assms] by blast

theorem registered_key_reads_back_witness:
  "parse_p256_public_key (bytes_to_base64_url (0x04 # replicate 32 1 @ replicate 32 2))
     = Some (0x04 # replicate 32 1 @ replicate 32 2)"
proof -
  obtain c where c: "parse_p256_bytes (cose_example True) = Some c" "c = 0x04 # replicate 32 1 @ replicate 32 2"
    by (intro that [of "0x04 # replicate 32 1 @ replicate 32 2"]) code_simp+
  have "parse_p256_public_key (bytes_to_hex (cose_example True)) = Some c"
    by (simp add: parse_p256_public_key_def bytes_to_hex_def hex_round_trip c(1))
  from registered_key_reads_back [OF this] show ?thesis by (simp only: c(2))
qed

text \<open>
  The proof a client derives from its passphrase verifies against the hash the
  server stored for that passphrase, for the same challenge and salt, although the
  server never sees the passphrase; a proof is accepted exactly when it is the
  64 octets derived from the stored hash.
\<close>

theorem passphrase_proof_accepted:
  assumes "\<And>k s. length (pc_pbkdf2 P k s) = 64"
    and "hash_password P rnd password = (hash, user_salt)"
  shows "verify_passphrase_proof P hash salt c (derive_passphrase_proof P password user_salt c salt)
    \<and> (\<forall>v bs. hex_to_bytes_or_null v = Some bs \<longrightarrow>
         (verify_passphrase_proof P hash salt c v \<longleftrightarrow>
            bs = pc_pbkdf2 P (pc_pbkdf2 P (utf8_encode password) (utf8_encode user_salt)) (proof_salt c salt)))"
  using passphrase_proof_verifies [OF assms] assms
  by (auto simp: passphrase_accepted_iff hash_password_def Let_def hex_round_trip)

theorem passphrase_proof_accepted_witness:
  "verify_passphrase_proof su_crypto (fst (hash_password su_crypto [1] [112])) [9] [7]
     (derive_passphrase_proof su_crypto [112] (snd (hash_password su_crypto [1] [112])) [7] [9])"
  using passphrase_proof_accepted [of su_crypto "[1]" "[112]"] by (simp add: su_crypto_def)

subsection \<open>Optimistic locking\<close>

text \<open>
  C21. In any interleaving of guarded and unguarded writes and of deletions of other
  rows, at most one guarded write of a vault succeeds for one expected version, and
  likewise for a credential: of two clients that read the same version, one is told
  of the conflict.
\<close>

theorem guarded_write_wins_once:
  assumes "Delete_Row i \<notin> set ops" and "Delete_Row i \<notin> set credential_ops"
  shows "guarded_wins (vault_guarded_save S T) (vault_blind_save S T) vault_delete va_id i n db ops \<le> 1
    \<and> guarded_wins (credential_guarded_save T) (credential_blind_save T) credential_delete cr_id i n db credential_ops \<le> 1"
  using vault_locking.wins_at_most_once [OF assms(1)] credential_locking.wins_at_most_once [OF assms(2)] by blast

definition su_vault :: vault where
  "su_vault = \<lparr>va_id = [4], va_name = [65], va_description = None, va_encrypted_data = [], va_encryption_key_id = [],
     va_owner_id = Some [1], va_metadata = None, va_created_at = 0, va_updated_at = 0, va_lock_version = Some 1\<rparr>"

theorem guarded_write_wins_once_witness:
  "guarded_wins (vault_guarded_save sample_subtle su_dates) (vault_blind_save sample_subtle su_dates) vault_delete va_id
     [4] 1 (ss_db su_start) [Guarded_Write su_vault 1, Guarded_Write su_vault 1] = 1"
proof -
  have "is_ok (fst (vault_guarded_save sample_subtle su_dates (ss_db su_start) su_vault 1))"
    by (simp add: vault_guarded_save_def vault_row_of_def su_start_def su_vault_row_def su_vault_def vault_to_plain_def
        Let_def read_vault_def map_vault_row_def set_vault_columns_def parse_jsonb_column_def vault_from_plain_def)
  then have "1 \<le> guarded_wins (vault_guarded_save sample_subtle su_dates) (vault_blind_save sample_subtle su_dates)
      vault_delete va_id [4] 1 (ss_db su_start) [Guarded_Write su_vault 1, Guarded_Write su_vault 1]"
    by (simp add: su_vault_def)
  moreover note guarded_write_wins_once [of "[4]" "[Guarded_Write su_vault 1, Guarded_Write su_vault 1]" "[]"
      sample_subtle su_dates 1 "ss_db su_start"]
  ultimately show ?thesis by force
qed

end
