(* ===== verification/Core_Api.thy ===== *)
theory Core_Api
  imports Step_Up_Api Credentials_Generation Rate_Limits Managed_Release Managed_Authoring
begin

text \<open>
  The HTTP handlers of Core: src/src/infrastructure/api/server.ts, the use case
  create-vault.use-case.ts and the limits of middleware/rate-limiter.ts.  A handler is
  one step on the state; the clock, the identifiers and the random values it draws are
  those of the request.  The body is the JSON the request carries, or the error
  parseJsonBody rejects with; a field the code casts to a text counts as missing when
  it has another type, and a capability token is already typed.  Metrics and the
  time stamps of replies are left out.
\<close>

subsection \<open>Requests, replies and state\<close>

datatype http_verb = Http_Get | Http_Post | Http_Delete | Http_Other

record core_request =
  kq_verb :: http_verb
  kq_path :: jstr
  kq_ip :: jstr
  kq_authorization :: "jstr option"
  kq_body :: "jstr + json"
  kq_token :: "signed_capability option"
  kq_now :: int
  kq_uuid :: "nat \<Rightarrow> jstr"
  kq_salt :: bytes
  kq_random1 :: bytes
  kq_random2 :: bytes
  kq_source :: random_source
  kq_authoring :: managed_random

datatype core_reply =
    Core_Error nat jstr
  | Coded_Error jstr jstr
  | Retry_Later int
  | Session nat jstr jstr "(jstr \<times> jstr) option"
  | Registration_Processed
  | Fresh_Tokens jstr jstr
  | Token_Valid jstr
  | Vault_Created safe_vault
  | Vault_Items "safe_vault list"
  | Vault_Item safe_vault
  | Vault_Sealed jstr jstr jstr jstr
  | Vault_Deleted jstr
  | Credential_Ids "jstr list"
  | Generated jstr generated_credentials credentials_quality
  | Extracted original_credentials
  | Validity "bool option" "bool option"
  | Released release_output
  | Authored jstr authoring_success
  | Authoring_Refused jstr managed_authoring_rejection jstr
  | Health nat string string string
  | Api_Info
  | Step_Up_Reply step_up_reply
  | Static_File jstr
  | Metrics_Text

record ('s, 'r) core_env =
  ke_web :: web
  ke_subtle :: subtle
  ke_curve :: curve
  ke_dates :: dates
  ke_crypto :: proof_crypto
  ke_jwt :: jwt
  ke_log2 :: "rat \<Rightarrow> rat"
  ke_number :: number_format
  ke_jwt_secret :: "jstr option"
  ke_production :: bool
  ke_step_up :: step_up_env
  ke_share_port :: "'s share_port"
  ke_kek_secret :: "bytes option"
  ke_plus_key :: "bytes option"
  ke_platform_error :: jstr
  ke_redis :: "'r redis_client"
  ke_redis_url :: "jstr option"
  ke_database :: "bool option"
  ke_ipfs :: "bool option"
  ke_static :: "jstr \<Rightarrow> bool"

record ('s, 'r) core_state =
  ks_step_up :: step_up_state
  ks_login :: login_limiter
  ks_shares :: 's
  ks_jtis :: jti_store
  ks_limiters :: "(jstr \<times> shared_limiter) list"
  ks_redis :: 'r

text \<open>The properties of a parsed body; reading one of null throws.\<close>

definition read_body :: "core_request \<Rightarrow> string \<Rightarrow> jstr + json" where
  "read_body rq first = (case kq_body rq of
     Inr JNull \<Rightarrow> Inl (lit ''Cannot read properties of null (reading '' @ [39] @ lit first @ [39] @ lit '')'')
   | b \<Rightarrow> b)"

definition text_field :: "json \<Rightarrow> string \<Rightarrow> jstr" where
  "text_field j k = (case string_property j k of Some s \<Rightarrow> s | None \<Rightarrow> [])"

definition db_message :: "db_error \<Rightarrow> jstr" where
  "db_message e = (case e of
     Lock_Conflict k i expected actual \<Rightarrow> lock_conflict_message k i expected actual
   | Constraint_Violation s \<Rightarrow> lit s
   | Bad_Row s \<Rightarrow> lit s
   | Circuit_Is_Open \<Rightarrow> lit ''PostgreSQL circuit breaker is OPEN'' @ [32, 0x2014]
       @ lit '' database is critical, cannot degrade'')"

definition json_error_reply :: "jstr \<Rightarrow> core_reply" where
  "json_error_reply message =
     (if includes_text message (lit ''Invalid Content-Type'')
      then Core_Error 400 (lit ''Invalid Content-Type: expected application/json'')
      else if includes_text message (lit ''is not valid JSON'') \<or> includes_text message (lit ''Unexpected token'')
      then Core_Error 400 (lit ''Invalid JSON in request body'')
      else Core_Error 500 (lit ''Internal server error''))"

definition ks_db :: "('s, 'r) core_state \<Rightarrow> vault_db" where
  "ks_db st = ss_db (ks_step_up st)"

definition set_ks_db :: "vault_db \<Rightarrow> ('s, 'r) core_state \<Rightarrow> ('s, 'r) core_state" where
  "set_ks_db db st = st\<lparr>ks_step_up := (ks_step_up st)\<lparr>ss_db := db\<rparr>\<rparr>"

definition ks_users :: "('s, 'r) core_state \<Rightarrow> user_table" where
  "ks_users st = ss_users (ks_step_up st)"

definition set_ks_users :: "user_table \<Rightarrow> ('s, 'r) core_state \<Rightarrow> ('s, 'r) core_state" where
  "set_ks_users t st = st\<lparr>ks_step_up := (ks_step_up st)\<lparr>ss_users := t\<rparr>\<rparr>"

subsection \<open>Rate limits\<close>

definition limiter_allows ::
  "jstr \<Rightarrow> int \<Rightarrow> int \<Rightarrow> ('s, 'r) core_env \<Rightarrow> core_request \<Rightarrow> ('s, 'r) core_state \<Rightarrow> bool \<times> ('s, 'r) core_state" where
  "limiter_allows scope mx window E rq st =
     (case get_rate_limiter (ke_redis_url E) scope mx window (ks_limiters st) of (l, ls) \<Rightarrow>
       (case consume_rate (ke_redis E) (kq_now rq) (kq_ip rq) (l, ks_redis st) of (d, l1, r) \<Rightarrow>
         (rl_allowed d, st\<lparr>ks_limiters := map_set ls scope l1, ks_redis := r\<rparr>)))"

definition rate_limit_max :: int where "rate_limit_max = 100"
definition rate_limit_window :: int where "rate_limit_window = 15 * 60 * 1000"
definition validate_rate_limit_max :: int where "validate_rate_limit_max = 20"
definition validate_rate_limit_window :: int where "validate_rate_limit_window = 5 * 60 * 1000"

definition check_rate_limit_core ::
  "('s, 'r) core_env \<Rightarrow> core_request \<Rightarrow> ('s, 'r) core_state \<Rightarrow> bool \<times> ('s, 'r) core_state" where
  "check_rate_limit_core = limiter_allows (lit ''core-api'') rate_limit_max rate_limit_window"

definition check_validate_rate_limit ::
  "('s, 'r) core_env \<Rightarrow> core_request \<Rightarrow> ('s, 'r) core_state \<Rightarrow> bool \<times> ('s, 'r) core_state" where
  "check_validate_rate_limit = limiter_allows (lit ''core-validate'') validate_rate_limit_max validate_rate_limit_window"

subsection \<open>Sessions\<close>

definition configured_secret :: "('s, 'r) core_env \<Rightarrow> jstr option" where
  "configured_secret E = (if ke_jwt_secret E = Some [] then None else ke_jwt_secret E)"

definition validate_registration_input :: "jstr \<Rightarrow> jstr \<Rightarrow> string option" where
  "validate_registration_input email password =
     (if email = [] \<or> password = [] then Some ''Email and password required''
      else if \<not> matches_email_base email then Some ''Invalid email format''
      else if length password < 8 then Some ''Password must be at least 8 characters''
      else None)"

definition token_pair :: "('s, 'r) core_env \<Rightarrow> core_request \<Rightarrow> nat \<Rightarrow> jstr \<Rightarrow> jstr \<Rightarrow> jstr \<times> jstr" where
  "token_pair E rq k user secret =
     (generate_token (ke_jwt E) (kq_now rq) (kq_uuid rq k) user secret,
      generate_refresh_token (ke_jwt E) (kq_now rq) (kq_uuid rq (k + 1)) user secret)"

definition session_reply :: "('s, 'r) core_env \<Rightarrow> core_request \<Rightarrow> nat \<Rightarrow> nat \<Rightarrow> stored_user \<Rightarrow> core_reply" where
  "session_reply E rq status k user = (case configured_secret E of
     None \<Rightarrow> if ke_production E then Core_Error 503 (lit ''Authentication not configured'')
       else Session status (su_user_id user) (su_email user) None
   | Some secret \<Rightarrow> Session status (su_user_id user) (su_email user)
       (Some (token_pair E rq k (su_user_id user) secret)))"

definition handle_register ::
  "('s, 'r) core_env \<Rightarrow> core_request \<Rightarrow> ('s, 'r) core_state \<Rightarrow> core_reply \<times> ('s, 'r) core_state" where
  "handle_register E rq st =
     (case read_body rq ''email'' of
        Inl e \<Rightarrow> (json_error_reply e, st)
      | Inr data \<Rightarrow>
          let email = text_field data ''email''; password = text_field data ''password'';
            us = se_users (ke_step_up E)
          in (case validate_registration_input email password of
              Some e \<Rightarrow> (Core_Error 400 (lit e), st)
            | None \<Rightarrow>
                if us_by_email us (ks_users st) email \<noteq> None then (Registration_Processed, st)
                else (case create_user (ke_crypto E) us (ks_users st) (kq_now rq) (kq_uuid rq 0) (kq_salt rq)
                        email password of
                    (Inl e, t) \<Rightarrow> (json_error_reply (lit e), set_ks_users t st)
                  | (Inr user, t) \<Rightarrow> (session_reply E rq 201 1 user, set_ks_users t st))))"

definition handle_login ::
  "('s, 'r) core_env \<Rightarrow> core_request \<Rightarrow> ('s, 'r) core_state \<Rightarrow> core_reply \<times> ('s, 'r) core_state" where
  "handle_login E rq st =
     (case read_body rq ''email'' of
        Inl e \<Rightarrow> (json_error_reply e, st)
      | Inr data \<Rightarrow>
          let email = text_field data ''email''; password = text_field data ''password'';
            failed = (\<lambda>st. (Core_Error 401 (lit ''Invalid email or password''),
              st\<lparr>ks_login := snd (record_failure (kq_now rq) email (ks_login st))\<rparr>))
          in if email = [] \<or> password = [] then (Core_Error 400 (lit ''Email and password required''), st)
            else (case is_locked (kq_now rq) email (ks_login st) of (lock, m) \<Rightarrow>
              let st1 = st\<lparr>ks_login := m\<rparr> in
              if lk_locked lock
              then (Retry_Later (ceil_seconds (case lk_retry_after lock of None \<Rightarrow> 60000 | Some ms \<Rightarrow> ms)), st1)
              else (case us_by_email (se_users (ke_step_up E)) (ks_users st1) email of
                  None \<Rightarrow> failed st1
                | Some user \<Rightarrow>
                    if \<not> verify_password (ke_crypto E) password (su_hash user) (su_salt user) then failed st1
                    else (session_reply E rq 200 0 user,
                      st1\<lparr>ks_login := record_success email (ks_login st1)\<rparr>))))"

definition handle_refresh_token :: "('s, 'r) core_env \<Rightarrow> core_request \<Rightarrow> core_reply" where
  "handle_refresh_token E rq =
     (case read_body rq ''refreshToken'' of
        Inl _ \<Rightarrow> Core_Error 500 (lit ''Internal server error'')
      | Inr data \<Rightarrow>
          if text_field data ''refreshToken'' = [] then Core_Error 400 (lit ''refreshToken is required'')
          else (case configured_secret E of
              None \<Rightarrow> Core_Error 503 (lit ''Authentication not configured'')
            | Some secret \<Rightarrow>
                (case verify_token (ke_jwt E) (kq_now rq div 1000) (text_field data ''refreshToken'') secret of
                   None \<Rightarrow> Core_Error 401 (lit ''Invalid or expired refresh token'')
                 | Some d \<Rightarrow>
                     if dt_type d \<noteq> Some (lit ''refresh'')
                     then Core_Error 401 (lit ''Invalid or expired refresh token'')
                     else (case token_pair E rq 0 (case dt_user_id d of None \<Rightarrow> [] | Some u \<Rightarrow> u) secret of
                         (access, refresh) \<Rightarrow> Fresh_Tokens access refresh))))"

definition handle_verify_token :: "jstr option \<Rightarrow> core_reply" where
  "handle_verify_token user = Token_Valid (if absent user then lit ''anonymous'' else the user)"

subsection \<open>Vaults\<close>

text \<open>CreateVaultUseCase: an empty vault, its data to be written later.\<close>

definition create_vault_execute ::
  "subtle \<Rightarrow> dates \<Rightarrow> vault_db \<Rightarrow> jstr \<Rightarrow> int \<Rightarrow> jstr \<Rightarrow> jstr option \<Rightarrow> jstr \<Rightarrow> jstr option \<Rightarrow>
   (db_error + vault) \<times> vault_db" where
  "create_vault_execute S T db new_id now name description key_id owner =
     vault_save S T db (vault_create new_id now \<lparr>vi_name = name, vi_description = description,
       vi_encrypted_data = [], vi_encryption_key_id = key_id, vi_owner_id = owner, vi_metadata = None\<rparr>) None"

definition handle_create_vault ::
  "('s, 'r) core_env \<Rightarrow> core_request \<Rightarrow> jstr option \<Rightarrow> ('s, 'r) core_state \<Rightarrow> core_reply \<times> ('s, 'r) core_state" where
  "handle_create_vault E rq user st =
     (case read_body rq ''name'' of
        Inl e \<Rightarrow> (Core_Error 400 e, st)
      | Inr data \<Rightarrow>
          if text_field data ''name'' = [] \<or> text_field data ''encryptionKeyId'' = []
          then (Core_Error 400 (lit ''Name and encryptionKeyId are required''), st)
          else (case create_vault_execute (ke_subtle E) (ke_dates E) (ks_db st) (kq_uuid rq 0) (kq_now rq)
                  (text_field data ''name'') (string_property data ''description'')
                  (text_field data ''encryptionKeyId'') user of
              (Inl e, db) \<Rightarrow> (Core_Error 400 (db_message e), set_ks_db db st)
            | (Inr v, db) \<Rightarrow> (Vault_Created (vault_to_safe (ke_dates E) v), set_ks_db db st)))"

definition handle_vaults_list :: "('s, 'r) core_env \<Rightarrow> jstr option \<Rightarrow> ('s, 'r) core_state \<Rightarrow> core_reply" where
  "handle_vaults_list E user st =
     (case (if absent user then Inr [] else list_by_owner (ke_subtle E) (ke_dates E) (ks_db st) (the user)) of
        Inl _ \<Rightarrow> Core_Error 500 (lit ''Failed to list vaults'')
      | Inr vs \<Rightarrow> Vault_Items (map (vault_to_safe (ke_dates E)) vs))"

text \<open>What the handlers of one vault begin with: who asks, and whether the vault is theirs.\<close>

definition with_own_vault ::
  "('s, 'r) core_env \<Rightarrow> jstr option \<Rightarrow> jstr \<Rightarrow> string \<Rightarrow> ('s, 'r) core_state \<Rightarrow>
   (vault \<Rightarrow> core_reply \<times> ('s, 'r) core_state) \<Rightarrow> core_reply \<times> ('s, 'r) core_state" where
  "with_own_vault E user i failure st k =
     (if absent user then (Core_Error 401 (lit ''Authentication required''), st)
      else (case find_by_vault_and_owner (ke_subtle E) (ke_dates E) (ks_db st) i (the user) of
          Inl _ \<Rightarrow> (Core_Error 500 (lit failure), st)
        | Inr None \<Rightarrow> (Core_Error 404 (lit ''Vault not found''), st)
        | Inr (Some v) \<Rightarrow> k v))"

definition handle_vault_get ::
  "('s, 'r) core_env \<Rightarrow> jstr option \<Rightarrow> jstr \<Rightarrow> ('s, 'r) core_state \<Rightarrow> core_reply \<times> ('s, 'r) core_state" where
  "handle_vault_get E user i st = with_own_vault E user i ''Failed to get vault'' st
     (\<lambda>v. (Vault_Item (vault_to_safe (ke_dates E) v), st))"

definition handle_vault_unlock ::
  "('s, 'r) core_env \<Rightarrow> jstr option \<Rightarrow> jstr \<Rightarrow> ('s, 'r) core_state \<Rightarrow> core_reply \<times> ('s, 'r) core_state" where
  "handle_vault_unlock E user i st = with_own_vault E user i ''Failed to unlock vault'' st
     (\<lambda>v. (Vault_Sealed (va_id v) (va_name v) (va_encrypted_data v) (va_encryption_key_id v), st))"

definition handle_vault_delete ::
  "('s, 'r) core_env \<Rightarrow> jstr option \<Rightarrow> jstr \<Rightarrow> ('s, 'r) core_state \<Rightarrow> core_reply \<times> ('s, 'r) core_state" where
  "handle_vault_delete E user i st = with_own_vault E user i ''Failed to delete vault'' st
     (\<lambda>v. case vault_delete (ks_db st) i of (deleted, db) \<Rightarrow>
        (if deleted then Vault_Deleted i else Core_Error 404 (lit ''Vault not found''), set_ks_db db st))"

subsection \<open>Credentials\<close>

definition get_owned_vault_ids :: "subtle \<Rightarrow> dates \<Rightarrow> vault_db \<Rightarrow> jstr \<Rightarrow> db_error + jstr list" where
  "get_owned_vault_ids S T db user = (case list_by_owner S T db user of Inl e \<Rightarrow> Inl e | Inr vs \<Rightarrow> Inr (map va_id vs))"

definition handle_credentials_list :: "('s, 'r) core_env \<Rightarrow> jstr option \<Rightarrow> ('s, 'r) core_state \<Rightarrow> core_reply" where
  "handle_credentials_list E user st =
     (if \<not> se_has_credentials (ke_step_up E) then Credential_Ids []
      else if absent user then Credential_Ids []
      else (case get_owned_vault_ids (ke_subtle E) (ke_dates E) (ks_db st) (the user) of
          Inl _ \<Rightarrow> Core_Error 500 (lit ''Failed to list credentials'')
        | Inr ids \<Rightarrow> (case read_all (find_by_vault_id (ke_dates E) (ks_db st)) ids of
              Inl _ \<Rightarrow> Core_Error 500 (lit ''Failed to list credentials'')
            | Inr css \<Rightarrow> Credential_Ids (map cr_id (concat css)))))"

definition coded_error :: "credentials_error \<Rightarrow> core_reply" where
  "coded_error e = Coded_Error (error_message e) (lit (case error_code e of None \<Rightarrow> ''UNKNOWN_ERROR'' | Some c \<Rightarrow> c))"

definition handle_generate_credentials :: "('s, 'r) core_env \<Rightarrow> core_request \<Rightarrow> core_reply" where
  "handle_generate_credentials E rq =
     (case read_body rq ''domain'' of
        Inl e \<Rightarrow> Coded_Error e (lit ''UNKNOWN_ERROR'')
      | Inr data \<Rightarrow>
          if text_field data ''domain'' = [] then Core_Error 400 (lit ''Domain is required'')
          else (case generate_credentials_execute (kq_source rq) (text_field data ''domain'') of
              Inl e \<Rightarrow> coded_error e
            | Inr g \<Rightarrow> Generated (text_field data ''domain'') g
                (analyze_credentials_quality (ke_log2 E) (ke_number E) g)))"

definition handle_extract_credentials :: "core_request \<Rightarrow> core_reply" where
  "handle_extract_credentials rq =
     (case read_body rq ''email'' of
        Inl e \<Rightarrow> Coded_Error e (lit ''UNKNOWN_ERROR'')
      | Inr data \<Rightarrow>
          if text_field data ''email'' = [] \<or> text_field data ''password'' = []
          then Core_Error 400 (lit ''Email and password are required'')
          else (case create_email_with_salt (text_field data ''email'') of
              Inl e \<Rightarrow> coded_error e
            | Inr email \<Rightarrow> (case create_password_with_pepper (text_field data ''password'') of
                Inl e \<Rightarrow> coded_error e
              | Inr password \<Rightarrow> (case extract_credentials_execute email password of
                  Inl e \<Rightarrow> coded_error e | Inr original \<Rightarrow> Extracted original))))"

definition handle_validate_credentials ::
  "('s, 'r) core_env \<Rightarrow> core_request \<Rightarrow> ('s, 'r) core_state \<Rightarrow> core_reply \<times> ('s, 'r) core_state" where
  "handle_validate_credentials E rq st =
     (case check_validate_rate_limit E rq st of (allowed, st1) \<Rightarrow>
       (if \<not> allowed then Core_Error 429 (lit ''Too many validation requests'')
        else (let field = (\<lambda>k. case read_body rq ''email'' of Inl _ \<Rightarrow> [] | Inr data \<Rightarrow> text_field data k);
            email = field ''email''; password = field ''password''
          in if email = [] \<and> password = [] then Core_Error 400 (lit ''Email or password parameter required'')
            else Validity (if email = [] then None else Some (is_valid_email_with_salt email))
              (if password = [] then None else Some (is_valid_password_with_pepper password))), st1))"

end
