(* ===== verification/Share_Postgres.thy ===== *)
theory Share_Postgres
  imports Managed_Authoring
begin

text \<open>
  The durable store of wrapped Release Shares: src/src/infrastructure/repositories/
  PostgresReleaseShareStore.ts, and the rule that selects a store,
  release-share-store-factory.ts.  The state is the table and, when the database
  cannot be reached or the circuit is open, the error every statement throws.
\<close>

record share_table =
  st_rows :: "wrapped_release_share list"
  st_outage :: "jstr option"

text \<open>A statement runs on the rows, or throws what the outage throws and leaves them.\<close>

definition pg_statement :: "share_table \<Rightarrow> (wrapped_release_share list \<Rightarrow> 'a) \<Rightarrow> jstr + 'a" where
  "pg_statement s q = (case st_outage s of Some e \<Rightarrow> Inl e | None \<Rightarrow> Inr (q (st_rows s)))"

text \<open>INSERT ... ON CONFLICT (secret\_ref) DO UPDATE of both columns.\<close>

definition upsert_share :: "wrapped_release_share \<Rightarrow> wrapped_release_share list \<Rightarrow> wrapped_release_share list" where
  "upsert_share e rs =
     (if list_ex (\<lambda>r. rs_secret_ref r = rs_secret_ref e) rs
      then map (\<lambda>r. if rs_secret_ref r = rs_secret_ref e
        then r\<lparr>rs_wrapped_share := rs_wrapped_share e, rs_created_at := rs_created_at e\<rparr> else r) rs
      else rs @ [e])"

definition pg_share_save :: "share_table \<Rightarrow> wrapped_release_share \<Rightarrow> jstr + share_table" where
  "pg_share_save s e = (case pg_statement s (upsert_share e) of Inl x \<Rightarrow> Inl x | Inr rs \<Rightarrow> Inr (s\<lparr>st_rows := rs\<rparr>))"

definition pg_share_find :: "share_table \<Rightarrow> jstr \<Rightarrow> jstr + wrapped_release_share option" where
  "pg_share_find s ref = pg_statement s (find (\<lambda>r. rs_secret_ref r = ref))"

definition pg_share_delete :: "share_table \<Rightarrow> jstr \<Rightarrow> jstr + (bool \<times> share_table)" where
  "pg_share_delete s ref =
     (case pg_statement s (\<lambda>rs. (list_ex (\<lambda>r. rs_secret_ref r = ref) rs, filter (\<lambda>r. rs_secret_ref r \<noteq> ref) rs)) of
        Inl x \<Rightarrow> Inl x | Inr (b, rs) \<Rightarrow> Inr (b, s\<lparr>st_rows := rs\<rparr>))"

definition postgres_port :: "share_table share_port" where
  "postgres_port = \<lparr>port_save = pg_share_save, port_find = pg_share_find, port_delete = pg_share_delete\<rparr>"

datatype share_store_choice = Shares_In_Memory | Shares_In_Postgres jstr

definition create_release_share_store :: "jstr option \<Rightarrow> jstr option \<Rightarrow> share_store_choice" where
  "create_release_share_store use_postgres database_url =
     (if use_postgres \<noteq> Some (lit ''true'') then Shares_In_Memory
      else let conn = (case database_url of None \<Rightarrow> [] | Some d \<Rightarrow> trim d) in
        if conn = [] then Shares_In_Memory else Shares_In_Postgres conn)"

subsection \<open>The contract of the port\<close>

lemma find_none_iff: "find P xs = None \<longleftrightarrow> \<not> list_ex P xs"
  by (induction xs) auto

lemma find_upsert_same: "find (\<lambda>r. rs_secret_ref r = rs_secret_ref e) (upsert_share e rs) = Some e"
proof (cases "list_ex (\<lambda>r. rs_secret_ref r = rs_secret_ref e) rs")
  case True
  then have "find (\<lambda>r. rs_secret_ref r = rs_secret_ref e) (map (\<lambda>r. if rs_secret_ref r = rs_secret_ref e
      then r\<lparr>rs_wrapped_share := rs_wrapped_share e, rs_created_at := rs_created_at e\<rparr> else r) rs) = Some e"
    by (induction rs) auto
  then show ?thesis using True by (simp add: upsert_share_def)
next
  case False
  then have "find (\<lambda>r. rs_secret_ref r = rs_secret_ref e) rs = None" by (simp add: find_none_iff)
  then show ?thesis using False by (simp add: upsert_share_def find_append)
qed

lemma find_upsert_other:
  assumes "ref \<noteq> rs_secret_ref e"
  shows "find (\<lambda>r. rs_secret_ref r = ref) (upsert_share e rs) = find (\<lambda>r. rs_secret_ref r = ref) rs"
proof -
  have "find (\<lambda>r. rs_secret_ref r = ref) (map (\<lambda>r. if rs_secret_ref r = rs_secret_ref e
      then r\<lparr>rs_wrapped_share := rs_wrapped_share e, rs_created_at := rs_created_at e\<rparr> else r) rs)
    = find (\<lambda>r. rs_secret_ref r = ref) rs"
    using assms by (induction rs) auto
  then show ?thesis using assms by (simp add: upsert_share_def find_append split: option.splits)
qed

lemma find_deleted_other:
  "r' \<noteq> r \<Longrightarrow> find (\<lambda>x. rs_secret_ref x = r') (filter (\<lambda>x. rs_secret_ref x \<noteq> r) rs) = find (\<lambda>x. rs_secret_ref x = r') rs"
  by (rule find_filter_other) auto

interpretation pg_shares: share_store_laws postgres_port
proof
  show "port_save postgres_port st e = Inr st' \<Longrightarrow>
      port_find postgres_port st' (rs_secret_ref e) = Inr (Some e)" for st e st'
    by (auto simp: postgres_port_def pg_share_save_def pg_share_find_def pg_statement_def find_upsert_same
        split: option.splits)
  show "port_save postgres_port st e = Inr st' \<Longrightarrow> r \<noteq> rs_secret_ref e \<Longrightarrow>
      port_find postgres_port st' r = port_find postgres_port st r" for st e st' r
    by (auto simp: postgres_port_def pg_share_save_def pg_share_find_def pg_statement_def find_upsert_other
        split: option.splits)
  show "port_delete postgres_port st r = Inr (b, st') \<Longrightarrow> port_find postgres_port st' r = Inr None" for st r b st'
    by (auto simp: postgres_port_def pg_share_delete_def pg_share_find_def pg_statement_def find_none_iff list_ex_iff
        split: option.splits)
  show "port_delete postgres_port st r = Inr (b, st') \<Longrightarrow> r' \<noteq> r \<Longrightarrow>
      port_find postgres_port st' r' = port_find postgres_port st r'" for st r b st' r'
    by (auto simp: postgres_port_def pg_share_delete_def pg_share_find_def pg_statement_def find_deleted_other
        split: option.splits)
qed

text \<open>An outage is an error, never an unknown reference.\<close>

lemma outage_not_missing: "st_outage s = Some e \<Longrightarrow> port_find postgres_port s ref = Inl e"
  by (simp add: postgres_port_def pg_share_find_def pg_statement_def)

end
