(* ===== verification/Core_Routes.thy ===== *)
theory Core_Routes
  imports Core_Api Share_Postgres
begin

text \<open>
  Managed release and authoring over HTTP, health, start-up and the routes of
  src/src/infrastructure/api/server.ts.  Swagger, the request timeout and the bytes of
  static files are left out.
\<close>

subsection \<open>Managed release\<close>

text \<open>The use case's view of the repository, the share store and the pinned key.\<close>

definition release_core_of :: "('s, 'r) core_env \<Rightarrow> ('s, 'r) core_state \<Rightarrow> 's release_core" where
  "release_core_of E st =
     \<lparr>core_find_credential = (\<lambda>ref. case find_by_secret_ref (ke_dates E) (ks_db st) ref of
        Inl e \<Rightarrow> Inl (db_message e) | Inr c \<Rightarrow> Inr c),
      core_shares = ke_share_port E, core_share_state = Some (ks_shares st),
      core_kek_secret = ke_kek_secret E, core_plus_public_key = ke_plus_key E\<rparr>"

definition release_binding :: "jstr \<Rightarrow> jstr \<Rightarrow> jstr \<Rightarrow> capability_binding_context" where
  "release_binding user ref device =
     \<lparr>cb_user_id = user, cb_resource_id = ref, cb_secret_ref = ref, cb_device_id = device\<rparr>"

definition release_in_vault ::
  "('s, 'r) core_env \<Rightarrow> core_request \<Rightarrow> jstr \<Rightarrow> jstr \<Rightarrow> ('s, 'r) core_state \<Rightarrow> core_reply \<times> ('s, 'r) core_state" where
  "release_in_vault E rq user vault_id st =
     (case read_body rq ''capabilityToken'' of
        Inl _ \<Rightarrow> (Core_Error 500 (lit ''Failed to process managed release''), st)
      | Inr data \<Rightarrow> (case kq_token rq of
          None \<Rightarrow> (Core_Error 400 (lit ''capabilityToken required''), st)
        | Some tok \<Rightarrow>
            if sg_signature tok = [] then (Core_Error 400 (lit ''capabilityToken required''), st)
            else if \<not> se_has_credentials (ke_step_up E)
            then (Core_Error 503 (lit ''Credential repository not configured''), st)
            else let credential_id = trim (text_field data ''credentialId'') in
              if credential_id = [] then (Core_Error 400 (lit ''credentialId required''), st)
              else (case credential_find_by_id (ke_dates E) (ks_db st) credential_id of
                  Inl _ \<Rightarrow> (Core_Error 500 (lit ''Failed to process managed release''), st)
                | Inr None \<Rightarrow> (Core_Error 404 (lit ''Credential not found''), st)
                | Inr (Some c) \<Rightarrow>
                    if cr_vault_id c \<noteq> vault_id then (Core_Error 404 (lit ''Credential not found''), st)
                    else if absent (cr_release_share_ref c)
                    then (Core_Error 403 (lit ''Credential is not managed (requires Plus authorization)''), st)
                    else (case managed_release_execute (ke_subtle E) (ke_curve E) (release_core_of E st)
                           \<lparr>mr_token = tok, mr_expected = Some (release_binding user
                              (the (cr_release_share_ref c)) (text_field data ''deviceId'')),
                            mr_vault_id = vault_id\<rparr> (kq_now rq) (kq_now rq) (ks_jtis st) of
                        (Inl e, j) \<Rightarrow> (Core_Error 403 e, st\<lparr>ks_jtis := j\<rparr>)
                      | (Inr out, j) \<Rightarrow> (Released out, st\<lparr>ks_jtis := j\<rparr>)))))"

definition handle_vault_managed_release ::
  "('s, 'r) core_env \<Rightarrow> core_request \<Rightarrow> jstr option \<Rightarrow> jstr \<Rightarrow> ('s, 'r) core_state \<Rightarrow>
   core_reply \<times> ('s, 'r) core_state" where
  "handle_vault_managed_release E rq user vault_id st =
     with_own_vault E user vault_id ''Failed to process managed release'' st
       (\<lambda>v. release_in_vault E rq (the user) vault_id st)"

subsection \<open>Managed authoring\<close>

definition decode_managed_vek :: "json \<Rightarrow> string + bytes option" where
  "decode_managed_vek data =
     (let t = trim (text_field data ''vek'') in
      if t = [] then Inr None
      else (case base64_to_binary t of
          None \<Rightarrow> Inl ''vek must be base64-encoded''
        | Some vek \<Rightarrow> Inr (if vek = [] then None else Some vek)))"

definition managed_authoring_error :: "managed_authoring_rejection \<Rightarrow> jstr \<Rightarrow> jstr" where
  "managed_authoring_error reason detail =
     (if reason = RELEASE_SHARE_KEK_INVALID
      then detail @ [32, 0x2014] @ lit '' RELEASE_SHARE_KEK_SECRET (base64 of 32 random bytes) must be configured''
      else detail)"

definition authoring_input_of :: "json \<Rightarrow> jstr \<Rightarrow> bytes option \<Rightarrow> managed_authoring_input" where
  "authoring_input_of data secret_ref vek =
     \<lparr>mi_origin = Some (text_field data ''origin''), mi_username = Some (text_field data ''username''),
      mi_password = text_field data ''password'', mi_title = Some (text_field data ''title''),
      mi_totp_seed_base32 = string_property data ''totpSeedBase32'', mi_vek = vek,
      mi_secret_ref = Some secret_ref, mi_existing_index = None, mi_id = None\<rparr>"

text \<open>The row of an authored record: no address, and the redacted name.\<close>

definition authored_row :: "dates \<Rightarrow> int \<Rightarrow> jstr \<Rightarrow> authored_record \<Rightarrow> plain_credential" where
  "authored_row T now vault_id r =
     \<lparr>pl_id = encrypted_record.er_id r, pl_vault_id = vault_id, pl_title = (case er_title r of None \<Rightarrow> [] | Some t \<Rightarrow> t),
      pl_username = (case username_hint r of None \<Rightarrow> [] | Some u \<Rightarrow> u),
      pl_encrypted_password = encrypted_secret r, pl_mode = Managed, pl_salt = er_salt r,
      pl_version = er_version r, pl_release_share_ref = release_share_ref r, pl_url = None, pl_notes = None,
      pl_tags = [], pl_favorite = False, pl_created_at = to_iso T now, pl_updated_at = to_iso T now,
      pl_last_used = None, pl_lock_version = None\<rparr>"

definition persist_authored ::
  "('s, 'r) core_env \<Rightarrow> int \<Rightarrow> jstr \<Rightarrow> authoring_success \<Rightarrow> ('s, 'r) core_state \<Rightarrow> core_reply \<times> ('s, 'r) core_state" where
  "persist_authored E now vault_id out st =
     (case from_plain_object (ke_dates E) (authored_row (ke_dates E) now vault_id (au_record out)) of
        Inl _ \<Rightarrow> (Core_Error 500 (lit ''Failed to process managed authoring''), st)
      | Inr c \<Rightarrow> (case credential_save (ke_dates E) (ks_db st) c None of
          (Inl _, db) \<Rightarrow> (Core_Error 500 (lit ''Failed to process managed authoring''), set_ks_db db st)
        | (Inr saved, db) \<Rightarrow> (Authored (cr_id saved) out, set_ks_db db st)))"

definition author_in_vault ::
  "('s, 'r) core_env \<Rightarrow> core_request \<Rightarrow> jstr \<Rightarrow> ('s, 'r) core_state \<Rightarrow> core_reply \<times> ('s, 'r) core_state" where
  "author_in_vault E rq vault_id st =
     (if \<not> se_has_credentials (ke_step_up E)
      then (Core_Error 503 (lit ''Credential repository not configured''), st)
      else (case read_body rq ''vek'' of
          Inl _ \<Rightarrow> (Core_Error 500 (lit ''Failed to process managed authoring''), st)
        | Inr data \<Rightarrow> (case decode_managed_vek data of
            Inl e \<Rightarrow> (Core_Error 400 (lit e), st)
          | Inr vek \<Rightarrow> (case managed_authoring_execute (ke_web E) (ke_subtle E) (ke_share_port E)
                  (ke_platform_error E) (ke_kek_secret E) (authoring_input_of data (kq_uuid rq 0) vek)
                  (kq_authoring rq) (kq_now rq) (ks_shares st) of
              (Inl (reason, detail), s) \<Rightarrow>
                (Authoring_Refused (managed_authoring_error reason detail) reason detail, st\<lparr>ks_shares := s\<rparr>)
            | (Inr out, s) \<Rightarrow> persist_authored E (kq_now rq) vault_id out (st\<lparr>ks_shares := s\<rparr>)))))"

definition handle_vault_managed_credential ::
  "('s, 'r) core_env \<Rightarrow> core_request \<Rightarrow> jstr option \<Rightarrow> jstr \<Rightarrow> ('s, 'r) core_state \<Rightarrow>
   core_reply \<times> ('s, 'r) core_state" where
  "handle_vault_managed_credential E rq user vault_id st =
     with_own_vault E user vault_id ''Failed to process managed authoring'' st (\<lambda>v. author_in_vault E rq vault_id st)"

subsection \<open>Health\<close>

definition evaluate_health_check :: "bool option \<Rightarrow> string" where
  "evaluate_health_check c = (case c of None \<Rightarrow> ''not_configured'' | Some ok \<Rightarrow> if ok then ''ok'' else ''error'')"

definition compute_health_status :: "string \<Rightarrow> string \<Rightarrow> string" where
  "compute_health_status database ipfs =
     (if database = ''error'' then ''unhealthy'' else if ipfs = ''error'' then ''degraded'' else ''healthy'')"

definition handle_health :: "('s, 'r) core_env \<Rightarrow> core_reply" where
  "handle_health E =
     (let database = evaluate_health_check (ke_database E); ipfs = evaluate_health_check (ke_ipfs E);
        status = compute_health_status database ipfs
      in Health (if status = ''unhealthy'' then 503 else 200) status database ipfs)"

definition handle_ready :: "('s, 'r) core_env \<Rightarrow> core_reply" where
  "handle_ready E =
     (let database = evaluate_health_check (ke_database E); ipfs = evaluate_health_check (ke_ipfs E);
        ok = (database \<noteq> ''error'' \<and> ipfs \<noteq> ''error'')
      in Health (if ok then 200 else 503) (if ok then ''ready'' else ''not_ready'') database ipfs)"

subsection \<open>Start-up\<close>

record tls_configuration =
  tls_https :: bool
  tls_key_path :: jstr
  tls_cert_path :: jstr

definition or_default :: "jstr option \<Rightarrow> jstr \<Rightarrow> jstr" where
  "or_default v d = (case v of None \<Rightarrow> d | Some s \<Rightarrow> if s = [] then d else s)"

definition assert_tls_configuration ::
  "(jstr \<Rightarrow> bool) \<Rightarrow> jstr option \<Rightarrow> jstr option \<Rightarrow> jstr option \<Rightarrow> jstr option \<Rightarrow> jstr \<Rightarrow> jstr \<Rightarrow> string + tls_configuration" where
  "assert_tls_configuration readable https_enabled node_env key cert default_key default_cert =
     (let https = (https_enabled = Some (lit ''true''));
        key_path = or_default key default_key; cert_path = or_default cert default_cert
      in if node_env = Some (lit ''production'') \<and> \<not> https
        then Inl ''Refusing to start: NODE_ENV is production but HTTPS is not enabled''
        else if https \<and> \<not> (readable key_path \<and> readable cert_path)
        then Inl ''Refusing to start: HTTPS_ENABLED=true but the TLS key or certificate could not be read''
        else Inr \<lparr>tls_https = https, tls_key_path = key_path, tls_cert_path = cert_path\<rparr>)"

subsection \<open>Routes\<close>

definition strip_prefix :: "jstr \<Rightarrow> jstr \<Rightarrow> jstr option" where
  "strip_prefix p s = (if starts_with s p then Some (drop (length p) s) else None)"

definition path_id_char :: "nat \<Rightarrow> bool" where
  "path_id_char c \<longleftrightarrow> alnum c \<or> c = 95 \<or> c = 45"

text \<open>\<^verbatim>\<open>/^\/api\/v1\/vaults\/[a-zA-Z0-9_-]+(\/...)?$/\<close>: the identifier and what follows it.\<close>

definition vault_path :: "jstr \<Rightarrow> (jstr \<times> jstr) option" where
  "vault_path path = (case strip_prefix (lit ''/api/v1/vaults/'') path of
     None \<Rightarrow> None
   | Some r \<Rightarrow> (let i = takeWhile path_id_char r; rest = dropWhile path_id_char r in
       if i = [] then None
       else if rest \<in> set (map lit [[], ''/unlock'', ''/managed-release'', ''/managed-credentials''])
       then Some (i, rest) else None))"

definition method_not_allowed :: core_reply where
  "method_not_allowed = Core_Error 405 (lit ''Method not allowed'')"

text \<open>handleAuthRoute: without a secret (development) every caller is let through, nameless.\<close>

definition handle_auth_route ::
  "('s, 'r) core_env \<Rightarrow> core_request \<Rightarrow> ('s, 'r) core_state \<Rightarrow>
   (jstr option \<Rightarrow> core_reply \<times> ('s, 'r) core_state) \<Rightarrow> core_reply \<times> ('s, 'r) core_state" where
  "handle_auth_route E rq st handler =
     (if configured_secret E = None then handler None
      else (case authenticate (ke_jwt E) (kq_now rq div 1000) (ke_jwt_secret E) (kq_authorization rq) of
          Auth_Refused n e \<Rightarrow> (Core_Error n (lit e), st)
        | Auth_Passed user \<Rightarrow> handler user))"

definition step_up_request_of :: "core_request \<Rightarrow> jstr option \<Rightarrow> step_up_request" where
  "step_up_request_of rq user =
     \<lparr>sr_user = user, sr_body = (case kq_body rq of Inl _ \<Rightarrow> None | Inr j \<Rightarrow> Some j), sr_now = kq_now rq,
      sr_uuid = kq_uuid rq 0, sr_random1 = kq_random1 rq, sr_random2 = kq_random2 rq\<rparr>"

definition route_step_up ::
  "('s, 'r) core_env \<Rightarrow> core_request \<Rightarrow> ('s, 'r) core_state \<Rightarrow> step_up_route \<Rightarrow> core_reply \<times> ('s, 'r) core_state" where
  "route_step_up E rq st route =
     (if kq_verb rq \<noteq> Http_Post then (method_not_allowed, st)
      else handle_auth_route E rq st (\<lambda>user.
        case step_up_step (ke_subtle E) (ke_curve E) (ke_dates E) (ke_crypto E) (ke_step_up E) route
               (step_up_request_of rq user) (ks_step_up st) of
          (reply, su) \<Rightarrow> (Step_Up_Reply reply, st\<lparr>ks_step_up := su\<rparr>)))"

definition route_vaults ::
  "('s, 'r) core_env \<Rightarrow> core_request \<Rightarrow> ('s, 'r) core_state \<Rightarrow> core_reply \<times> ('s, 'r) core_state" where
  "route_vaults E rq st = (case kq_verb rq of
     Http_Post \<Rightarrow> handle_auth_route E rq st (\<lambda>user. handle_create_vault E rq user st)
   | Http_Get \<Rightarrow> handle_auth_route E rq st (\<lambda>user. (handle_vaults_list E user st, st))
   | _ \<Rightarrow> (method_not_allowed, st))"

definition route_vault_path ::
  "('s, 'r) core_env \<Rightarrow> core_request \<Rightarrow> ('s, 'r) core_state \<Rightarrow> jstr \<Rightarrow> jstr \<Rightarrow> core_reply \<times> ('s, 'r) core_state" where
  "route_vault_path E rq st i rest =
     (if rest = [] then (case kq_verb rq of
          Http_Get \<Rightarrow> handle_auth_route E rq st (\<lambda>user. handle_vault_get E user i st)
        | Http_Delete \<Rightarrow> handle_auth_route E rq st (\<lambda>user. handle_vault_delete E user i st)
        | _ \<Rightarrow> (method_not_allowed, st))
      else if kq_verb rq \<noteq> Http_Post then (method_not_allowed, st)
      else handle_auth_route E rq st (\<lambda>user.
        if rest = lit ''/unlock'' then handle_vault_unlock E user i st
        else if rest = lit ''/managed-release'' then handle_vault_managed_release E rq user i st
        else handle_vault_managed_credential E rq user i st))"

definition static_files :: "jstr list" where
  "static_files = map lit [''/auth.html'', ''/vault.html'', ''/test-plugin.html'']"

definition handle_static_file :: "('s, 'r) core_env \<Rightarrow> jstr \<Rightarrow> core_reply" where
  "handle_static_file E path =
     (if path \<notin> set static_files \<or> \<not> ke_static E path then Core_Error 404 (lit ''Not found'') else Static_File path)"

datatype core_route =
    R_Health | R_Ready | R_Metrics | R_Vaults | R_Generate | R_Extract | R_Validate | R_Register | R_Login
  | R_Refresh | R_Verify | R_Vault jstr jstr | R_Credentials | R_Step_Up step_up_route | R_Api | R_Static

definition fixed_routes :: "(jstr \<times> core_route) list" where
  "fixed_routes = map (\<lambda>(p, r). (lit p, r))
     [(''/health'', R_Health), (''/ready'', R_Ready), (''/metrics'', R_Metrics), (''/api/v1/vaults'', R_Vaults),
      (''/api/v1/credentials/generate'', R_Generate), (''/api/v1/credentials/extract'', R_Extract),
      (''/api/v1/credentials/validate'', R_Validate), (''/api/v1/auth/register'', R_Register),
      (''/api/v1/auth/login'', R_Login), (''/api/v1/auth/refresh'', R_Refresh), (''/api/v1/auth/verify'', R_Verify),
      (''/api/v1/credentials'', R_Credentials), (''/api/v1/step-up/approve'', R_Step_Up Route_Approve),
      (''/api/v1/step-up/approval-challenge'', R_Step_Up Route_Challenge),
      (''/api/v1/step-up/authenticator/register'', R_Step_Up Route_Register), (''/api'', R_Api)]"

definition route_of_path :: "jstr \<Rightarrow> core_route" where
  "route_of_path path = (case map_of fixed_routes path of
     Some r \<Rightarrow> r
   | None \<Rightarrow> (case vault_path path of Some (i, rest) \<Rightarrow> R_Vault i rest | None \<Rightarrow> R_Static))"

definition route_request ::
  "('s, 'r) core_env \<Rightarrow> core_request \<Rightarrow> ('s, 'r) core_state \<Rightarrow> core_reply \<times> ('s, 'r) core_state" where
  "route_request E rq st =
     (let only = (\<lambda>verb handler. if kq_verb rq = verb then handler else (method_not_allowed, st)) in
      case route_of_path (kq_path rq) of
        R_Health \<Rightarrow> (handle_health E, st)
      | R_Ready \<Rightarrow> (handle_ready E, st)
      | R_Metrics \<Rightarrow> (Metrics_Text, st)
      | R_Vaults \<Rightarrow> route_vaults E rq st
      | R_Generate \<Rightarrow> only Http_Post (handle_auth_route E rq st (\<lambda>_. (handle_generate_credentials E rq, st)))
      | R_Extract \<Rightarrow> only Http_Post (handle_auth_route E rq st (\<lambda>_. (handle_extract_credentials rq, st)))
      | R_Validate \<Rightarrow> only Http_Post (handle_validate_credentials E rq st)
      | R_Register \<Rightarrow> handle_register E rq st
      | R_Login \<Rightarrow> handle_login E rq st
      | R_Refresh \<Rightarrow> (handle_refresh_token E rq, st)
      | R_Verify \<Rightarrow> only Http_Get (handle_auth_route E rq st (\<lambda>user. (handle_verify_token user, st)))
      | R_Vault i rest \<Rightarrow> route_vault_path E rq st i rest
      | R_Credentials \<Rightarrow> handle_auth_route E rq st (\<lambda>user. (handle_credentials_list E user st, st))
      | R_Step_Up route \<Rightarrow> route_step_up E rq st route
      | R_Api \<Rightarrow> only Http_Get (Api_Info, st)
      | R_Static \<Rightarrow> (handle_static_file E (kq_path rq), st))"

definition core_step ::
  "('s, 'r) core_env \<Rightarrow> core_request \<Rightarrow> ('s, 'r) core_state \<Rightarrow> core_reply \<times> ('s, 'r) core_state" where
  "core_step E rq st =
     (case check_rate_limit_core E rq st of (allowed, st1) \<Rightarrow>
       if allowed then route_request E rq st1 else (Core_Error 429 (lit ''Rate limit exceeded''), st1))"

end
