(* ===== verification/Core_Access.thy ===== *)
theory Core_Access
  imports Core_Routes
begin

text \<open>What the requests of Core may reveal and achieve: access, sessions, release.\<close>

section \<open>Access\<close>

text \<open>
  Who may see what: the caller a route has authenticated, the vaults and credentials a
  reply reveals, and that they are the caller's.
\<close>

subsection \<open>The caller\<close>

text \<open>The request carries an access token that verifies and names the user.\<close>

definition authenticated :: "('s, 'r) core_env \<Rightarrow> core_request \<Rightarrow> jstr \<Rightarrow> bool" where
  "authenticated E rq u \<longleftrightarrow>
     (\<exists>secret tok d. configured_secret E = Some secret \<and> kq_authorization rq = Some (lit ''Bearer '' @ tok)
        \<and> verify_token (ke_jwt E) (kq_now rq div 1000) tok secret = Some d
        \<and> dt_type d = Some (lit ''access'') \<and> dt_user_id d = Some u)"

lemma authenticate_passed:
  assumes "authenticate J now (Some secret) h = Auth_Passed u"
  shows "\<exists>tok d. h = Some (lit ''Bearer '' @ tok) \<and> secret \<noteq> [] \<and> verify_token J now tok secret = Some d
    \<and> dt_type d = Some (lit ''access'') \<and> dt_user_id d = u"
proof -
  obtain x d where x: "h = Some x" "starts_with x (lit ''Bearer '')" "secret \<noteq> []"
    "verify_token J now (drop 7 x) secret = Some d" "dt_type d = Some (lit ''access'')" "dt_user_id d = u"
    using assms by (auto simp: authenticate_def split: option.splits if_splits)
  have "length (lit ''Bearer '') = 7" by simp
  then have "x = lit ''Bearer '' @ drop 7 x" using x(2) unfolding starts_with_def by (metis append_take_drop_id)
  then show ?thesis using x by metis
qed

lemma auth_route_cases:
  assumes "configured_secret E \<noteq> None" and "handle_auth_route E rq st h = (reply, st')"
  obtains (refused) n e where "reply = Core_Error n e" "st' = st"
    | (passed) user where "h user = (reply, st')" "\<And>u. user = Some u \<Longrightarrow> authenticated E rq u"
proof -
  obtain secret where c: "configured_secret E = Some secret" using assms(1) by blast
  then have "ke_jwt_secret E = Some secret" by (auto simp: configured_secret_def split: if_splits)
  note s = c this
  show ?thesis
  proof (cases "authenticate (ke_jwt E) (kq_now rq div 1000) (ke_jwt_secret E) (kq_authorization rq)")
    case (Auth_Refused n e)
    then show ?thesis using assms s refused by (auto simp: handle_auth_route_def)
  next
    case (Auth_Passed user)
    then have "h user = (reply, st')" using assms s by (simp add: handle_auth_route_def)
    moreover have "authenticated E rq u" if "user = Some u" for u
      using authenticate_passed [OF Auth_Passed [unfolded s(2)]] s(1) that by (auto simp: authenticated_def)
    ultimately show ?thesis using passed by blast
  qed
qed

subsection \<open>What the tables say\<close>

definition owns_vault :: "vault_db \<Rightarrow> jstr \<Rightarrow> jstr \<Rightarrow> bool" where
  "owns_vault db u i \<longleftrightarrow> (\<exists>r \<in> set (db_vaults db). vr_id r = i \<and> vr_owner_id r = Some u)"

definition owns_credential :: "vault_db \<Rightarrow> jstr \<Rightarrow> jstr \<Rightarrow> bool" where
  "owns_credential db u i \<longleftrightarrow> (\<exists>c \<in> set (db_credentials db). cw_id c = i \<and> owns_vault db u (cw_vault_id c))"

lemma read_vault_fields: "read_vault S T r = Inr v \<Longrightarrow> va_id v = vr_id r \<and> va_owner_id v = vr_owner_id r"
  by (auto simp: read_vault_def map_vault_row_def vault_from_plain_def split: option.splits sum.splits if_splits)

lemma read_credential_fields:
  "read_credential T r = Inr c \<Longrightarrow>
     cr_id c = cw_id r \<and> cr_vault_id c = cw_vault_id r \<and> cr_release_share_ref c = cw_release_share_ref r"
  by (auto simp: read_credential_def map_credential_row_def from_plain_object_def split: if_splits)

lemma read_all_set: "read_all rd rs = Inr xs \<Longrightarrow> x \<in> set xs \<Longrightarrow> \<exists>r \<in> set rs. rd r = Inr x"
  by (induction rs arbitrary: xs) (auto split: sum.splits)

lemma found_vault_owned:
  assumes "find_by_vault_and_owner S T db i u = Inr (Some v)"
  shows "owns_vault db u i \<and> va_id v = i"
proof -
  obtain r where "find (\<lambda>r. vr_id r = i \<and> vr_owner_id r = Some u) (db_vaults db) = Some r" "read_vault S T r = Inr v"
    using assms by (auto simp: find_by_vault_and_owner_def split: option.splits sum.splits)
  then show ?thesis using read_vault_fields [of S T r v]
    by (auto simp: owns_vault_def dest!: find_SomeD)
qed

lemma listed_vault_owned:
  assumes "list_by_owner S T db u = Inr vs" "v \<in> set vs"
  shows "owns_vault db u (va_id v)"
proof -
  obtain r where "r \<in> set (db_vaults db)" "vr_owner_id r = Some u" "read_vault S T r = Inr v"
    using read_all_set [OF assms(1) [unfolded list_by_owner_def] assms(2)] by auto
  then show ?thesis using read_vault_fields [of S T r v] by (auto simp: owns_vault_def)
qed

lemma listed_credential_owned:
  assumes "find_by_vault_id T db i = Inr cs" "c \<in> set cs" "owns_vault db u i"
  shows "owns_credential db u (cr_id c)"
proof -
  obtain r where "r \<in> set (db_credentials db)" "cw_vault_id r = i" "read_credential T r = Inr c"
    using read_all_set [OF assms(1) [unfolded find_by_vault_id_def] assms(2)] by auto
  then show ?thesis using read_credential_fields [of T r c] assms(3) by (auto simp: owns_credential_def)
qed

lemma found_by_ref:
  assumes "find_by_secret_ref T db ref = Inr (Some c)"
  shows "\<exists>r \<in> set (db_credentials db). cw_id r = cr_id c \<and> cw_vault_id r = cr_vault_id c"
proof -
  obtain r where "find (\<lambda>r. cw_release_share_ref r = Some ref) (db_credentials db) = Some r" "read_credential T r = Inr c"
    using assms by (auto simp: find_by_secret_ref_def read_optional_def split: option.splits sum.splits)
  then show ?thesis using read_credential_fields [of T r c] by (auto dest!: find_SomeD)
qed

subsection \<open>What a reply reveals\<close>

definition revealed_vaults :: "core_reply \<Rightarrow> jstr list" where
  "revealed_vaults r = (case r of
     Vault_Items vs \<Rightarrow> map sv_id vs | Vault_Item v \<Rightarrow> [sv_id v] | Vault_Sealed i _ _ _ \<Rightarrow> [i] | Vault_Deleted i \<Rightarrow> [i]
   | _ \<Rightarrow> [])"

definition revealed_credentials :: "core_reply \<Rightarrow> jstr list" where
  "revealed_credentials r = (case r of Credential_Ids is \<Rightarrow> is | Released out \<Rightarrow> [ro_credential_id out] | _ \<Rightarrow> [])"

definition confined :: "('s, 'r) core_env \<Rightarrow> core_request \<Rightarrow> vault_db \<Rightarrow> core_reply \<Rightarrow> bool" where
  "confined E rq db reply \<longleftrightarrow>
     (revealed_vaults reply = [] \<and> revealed_credentials reply = [])
     \<or> (\<exists>u. authenticated E rq u \<and> (\<forall>i \<in> set (revealed_vaults reply). owns_vault db u i)
          \<and> (\<forall>i \<in> set (revealed_credentials reply). owns_credential db u i))"

lemma own_vault_cases:
  assumes "with_own_vault E user i failure st k = (reply, st')"
  obtains (refused) n e where "reply = Core_Error n e" "st' = st"
    | (found) u v where "user = Some u" "u \<noteq> []" "k v = (reply, st')"
        "find_by_vault_and_owner (ke_subtle E) (ke_dates E) (ks_db st) i u = Inr (Some v)"
proof (cases "absent user")
  case False
  then obtain u where u: "user = Some u" "u \<noteq> []" by (cases user) (auto simp: absent_def)
  show ?thesis using assms u refused found
    by (auto simp: with_own_vault_def absent_def split: sum.splits option.splits)
qed (use assms refused in \<open>auto simp: with_own_vault_def\<close>)

lemma confined_none: "revealed_vaults reply = [] \<Longrightarrow> revealed_credentials reply = [] \<Longrightarrow> confined E rq db reply"
  by (simp add: confined_def)

lemma revealed_error [simp]: "revealed_vaults (Core_Error n e) = []" "revealed_credentials (Core_Error n e) = []"
  by (simp_all add: revealed_vaults_def revealed_credentials_def)

lemma confined_vault:
  assumes "\<And>u. user = Some u \<Longrightarrow> authenticated E rq u" "with_own_vault E user i f st k = (reply, st')"
    and "\<And>u v. user = Some u \<Longrightarrow> owns_vault (ks_db st) u i \<Longrightarrow> va_id v = i \<Longrightarrow> k v = (reply, st') \<Longrightarrow>
        set (revealed_vaults reply) \<subseteq> {i} \<and> (\<forall>j \<in> set (revealed_credentials reply). owns_credential (ks_db st) u j)"
  shows "confined E rq (ks_db st) reply"
  using assms(2)
proof (cases rule: own_vault_cases)
  case (found u v)
  then have "owns_vault (ks_db st) u i" "va_id v = i" using found_vault_owned by blast+
  then show ?thesis using found assms(1) [of u] assms(3) [of u v] unfolding confined_def by blast
qed (simp add: confined_none)

text \<open>A share that is released: by which use of the use case.\<close>

lemma release_in_vault_cases:
  assumes "release_in_vault E rq u i st = (reply, st')"
  obtains (refused) n e where "reply = Core_Error n e"
    | (released) data tok c out j where "reply = Released out" "st' = st\<lparr>ks_jtis := j\<rparr>"
        "read_body rq ''capabilityToken'' = Inr data" "kq_token rq = Some tok" "sg_signature tok \<noteq> []"
        "credential_find_by_id (ke_dates E) (ks_db st) (trim (text_field data ''credentialId'')) = Inr (Some c)"
        "cr_vault_id c = i" "\<not> absent (cr_release_share_ref c)"
        "managed_release_execute (ke_subtle E) (ke_curve E) (release_core_of E st)
           \<lparr>mr_token = tok, mr_expected = Some (release_binding u (the (cr_release_share_ref c))
              (text_field data ''deviceId'')), mr_vault_id = i\<rparr> (kq_now rq) (kq_now rq) (ks_jtis st) = (Inr out, j)"
  using assms unfolding release_in_vault_def
  by (auto simp: Let_def split: sum.splits option.splits if_splits prod.splits)

lemma confined_release:
  assumes "\<And>u. user = Some u \<Longrightarrow> authenticated E rq u" "handle_vault_managed_release E rq user i st = (reply, st')"
  shows "confined E rq (ks_db st) reply"
proof (rule confined_vault [OF assms(1) assms(2) [unfolded handle_vault_managed_release_def]])
  fix u v
  assume own: "owns_vault (ks_db st) u i" and k: "release_in_vault E rq (the user) i st = (reply, st')"
  show "set (revealed_vaults reply) \<subseteq> {i} \<and> (\<forall>j \<in> set (revealed_credentials reply). owns_credential (ks_db st) u j)"
    using k
  proof (cases rule: release_in_vault_cases)
    case (released data tok c' out j)
    obtain ref c where c: "core_find_credential (release_core_of E st) ref = Inr (Some c)" "cr_vault_id c = i"
      "ro_credential_id out = cr_id c"
      using managed_release_justified [OF released(9)] by (auto simp: release_justified_def Let_def)
    then have "find_by_secret_ref (ke_dates E) (ks_db st) ref = Inr (Some c)"
      by (auto simp: release_core_of_def split: sum.splits)
    then have "owns_credential (ks_db st) u (cr_id c)"
      using found_by_ref own c(2) unfolding owns_credential_def by metis
    then show ?thesis using released(1) c(3) by (simp add: revealed_vaults_def revealed_credentials_def)
  qed simp
qed auto

text \<open>The other handlers.\<close>

lemma confined_vaults_list:
  assumes "\<And>u. user = Some u \<Longrightarrow> authenticated E rq u"
  shows "confined E rq (ks_db st) (handle_vaults_list E user st)"
proof (cases "absent user")
  case False
  then obtain u where u: "user = Some u" by (cases user) (auto simp: absent_def)
  have "\<forall>v \<in> set vs. owns_vault (ks_db st) u (va_id v)" if "list_by_owner S T (ks_db st) u = Inr vs" for S T vs
    using listed_vault_owned [OF that] by blast
  then show ?thesis using u assms [OF u] False
    by (auto simp: handle_vaults_list_def confined_def revealed_vaults_def revealed_credentials_def vault_to_safe_def
        split: sum.splits)
qed (simp add: handle_vaults_list_def confined_def revealed_vaults_def revealed_credentials_def)

lemma confined_credentials_list:
  assumes "\<And>u. user = Some u \<Longrightarrow> authenticated E rq u"
  shows "confined E rq (ks_db st) (handle_credentials_list E user st)"
proof (cases "absent user \<or> \<not> se_has_credentials (ke_step_up E)")
  case False
  then obtain u where u: "user = Some u" by (cases user) (auto simp: absent_def)
  have "owns_credential (ks_db st) u (cr_id c)"
    if "list_by_owner S T (ks_db st) u = Inr vs" "read_all (find_by_vault_id T (ks_db st)) (map va_id vs) = Inr css"
      "cs \<in> set css" "c \<in> set cs" for S T vs css cs c
  proof -
    note t = that
    obtain v where "v \<in> set vs" "find_by_vault_id T (ks_db st) (va_id v) = Inr cs"
      using read_all_set [OF t(2,3)] by auto
    then show ?thesis using listed_vault_owned [OF t(1)] listed_credential_owned t(4) by blast
  qed
  then show ?thesis using u assms [OF u] False
    by (auto simp: handle_credentials_list_def get_owned_vault_ids_def confined_def revealed_vaults_def
        revealed_credentials_def split: sum.splits)
qed (auto simp: handle_credentials_list_def confined_def revealed_vaults_def revealed_credentials_def)

lemma confined_item:
  assumes "\<And>u. user = Some u \<Longrightarrow> authenticated E rq u"
  shows "handle_vault_get E user i st = (reply, st') \<Longrightarrow> confined E rq (ks_db st) reply"
    and "handle_vault_unlock E user i st = (reply, st') \<Longrightarrow> confined E rq (ks_db st) reply"
    and "handle_vault_delete E user i st = (reply, st') \<Longrightarrow> confined E rq (ks_db st) reply"
  unfolding handle_vault_get_def handle_vault_unlock_def handle_vault_delete_def
  by (erule confined_vault [OF assms, rotated];
      auto simp: revealed_vaults_def revealed_credentials_def vault_to_safe_def split: prod.splits if_splits)+

lemma confined_authoring:
  assumes "handle_vault_managed_credential E rq user i st = (reply, st')"
  shows "confined E rq db reply"
  using assms unfolding handle_vault_managed_credential_def
proof (cases rule: own_vault_cases)
  case (found u v)
  then show ?thesis
    by (auto simp: author_in_vault_def persist_authored_def confined_def revealed_vaults_def revealed_credentials_def
        split: if_splits sum.splits prod.splits)
qed (simp add: confined_none)

lemma confined_create: "handle_create_vault E rq user st = (reply, st') \<Longrightarrow> confined E rq db reply"
  by (auto simp: handle_create_vault_def confined_def revealed_vaults_def revealed_credentials_def
      split: sum.splits if_splits prod.splits)

lemma session_reveals_none: "confined E rq db (session_reply E rq n k user)"
  by (auto simp: session_reply_def confined_def revealed_vaults_def revealed_credentials_def split: option.splits)

lemma json_error_reveals_none: "confined E rq db (json_error_reply e)"
  by (auto simp: json_error_reply_def confined_def)

lemma confined_sessions:
  "handle_register E rq st = (reply, st') \<Longrightarrow> confined E rq db reply"
  "handle_login E rq st = (reply, st') \<Longrightarrow> confined E rq db reply"
  "confined E rq db (handle_refresh_token E rq)"
  "confined E rq db (handle_verify_token user)"
  by (auto simp: handle_register_def handle_login_def Let_def session_reveals_none json_error_reveals_none
      confined_none split: sum.splits if_splits prod.splits option.splits)
    (auto simp: confined_def revealed_vaults_def revealed_credentials_def handle_refresh_token_def
      handle_verify_token_def split: sum.splits option.splits prod.splits)

lemma coded_reveals_none: "confined E rq db (coded_error e)"
  by (simp add: coded_error_def confined_def revealed_vaults_def revealed_credentials_def)

lemma confined_credential_tools:
  "confined E rq db (handle_generate_credentials E rq)"
  "confined E rq db (handle_extract_credentials rq)"
  "handle_validate_credentials E rq st = (reply, st') \<Longrightarrow> confined E rq db reply"
  by (auto simp: handle_generate_credentials_def handle_extract_credentials_def handle_validate_credentials_def Let_def
      coded_reveals_none split: sum.splits if_splits prod.splits)
    (auto simp: confined_def revealed_vaults_def revealed_credentials_def)

subsection \<open>Every route\<close>

lemma confined_auth_route:
  assumes "configured_secret E \<noteq> None" "handle_auth_route E rq st h = (reply, st')"
    and "\<And>user. (\<And>u. user = Some u \<Longrightarrow> authenticated E rq u) \<Longrightarrow> h user = (reply, st') \<Longrightarrow> confined E rq db reply"
  shows "confined E rq db reply"
  using assms(1,2)
proof (cases rule: auth_route_cases)
  case (refused n e)
  then show ?thesis by (simp add: confined_none)
next
  case (passed user)
  then show ?thesis using assms(3) by blast
qed

lemma confined_vault_path:
  assumes "configured_secret E \<noteq> None" "route_vault_path E rq st i rest = (reply, st')"
  shows "confined E rq (ks_db st) reply"
proof -
  note r = confined_auth_route [OF assms(1)]
  consider (none) "reply = method_not_allowed"
    | (get) "handle_auth_route E rq st (\<lambda>user. handle_vault_get E user i st) = (reply, st')"
    | (del) "handle_auth_route E rq st (\<lambda>user. handle_vault_delete E user i st) = (reply, st')"
    | (post) "handle_auth_route E rq st (\<lambda>user. if rest = lit ''/unlock'' then handle_vault_unlock E user i st
        else if rest = lit ''/managed-release'' then handle_vault_managed_release E rq user i st
        else handle_vault_managed_credential E rq user i st) = (reply, st')"
    using assms(2) by (auto simp: route_vault_path_def split: if_splits http_verb.splits)
  then show ?thesis
  proof cases
    case none
    then show ?thesis by (simp add: method_not_allowed_def confined_none)
  next
    case get
    then show ?thesis by (rule r) (blast intro: confined_item)
  next
    case del
    then show ?thesis by (rule r) (blast intro: confined_item)
  next
    case post
    then show ?thesis
      by (rule r) (auto intro: confined_item confined_release confined_authoring split: if_splits)
  qed
qed

lemma confined_step_up:
  assumes "configured_secret E \<noteq> None" "route_step_up E rq st route = (reply, st')"
  shows "confined E rq db reply"
proof (cases "kq_verb rq = Http_Post")
  case True
  then have "handle_auth_route E rq st (\<lambda>user. case step_up_step (ke_subtle E) (ke_curve E) (ke_dates E) (ke_crypto E)
      (ke_step_up E) route (step_up_request_of rq user) (ks_step_up st) of
      (reply, su) \<Rightarrow> (Step_Up_Reply reply, st\<lparr>ks_step_up := su\<rparr>)) = (reply, st')"
    using assms(2) by (simp add: route_step_up_def)
  then show ?thesis
    by (rule confined_auth_route [OF assms(1)])
      (auto simp: confined_def revealed_vaults_def revealed_credentials_def split: prod.splits)
qed (use assms(2) in \<open>auto simp: route_step_up_def method_not_allowed_def confined_none\<close>)

lemma confined_vaults:
  assumes "configured_secret E \<noteq> None" "route_vaults E rq st = (reply, st')"
  shows "confined E rq (ks_db st) reply"
proof -
  note r = confined_auth_route [OF assms(1)]
  consider (none) "reply = method_not_allowed"
    | (post) "handle_auth_route E rq st (\<lambda>user. handle_create_vault E rq user st) = (reply, st')"
    | (get) "handle_auth_route E rq st (\<lambda>user. (handle_vaults_list E user st, st)) = (reply, st')"
    using assms(2) by (auto simp: route_vaults_def split: http_verb.splits)
  then show ?thesis
  proof cases
    case none
    then show ?thesis by (simp add: method_not_allowed_def confined_none)
  next
    case post
    then show ?thesis by (rule r) (rule confined_create)
  next
    case get
    then show ?thesis
    proof (rule r)
      fix user assume "\<And>u. user = Some u \<Longrightarrow> authenticated E rq u" "(handle_vaults_list E user st, st) = (reply, st')"
      then show "confined E rq (ks_db st) reply" using confined_vaults_list [of user E rq st] by blast
    qed
  qed
qed

text \<open>The replies no handler below is asked for.\<close>

definition plain_reply :: "('s, 'r) core_env \<Rightarrow> core_request \<Rightarrow> core_reply \<Rightarrow> bool" where
  "plain_reply E rq reply \<longleftrightarrow> reply \<in> {method_not_allowed, Metrics_Text, Api_Info, handle_health E, handle_ready E,
     handle_static_file E (kq_path rq)}"

lemma plain_reveals_none: "plain_reply E rq reply \<Longrightarrow> confined E rq db reply"
  by (auto simp: plain_reply_def method_not_allowed_def handle_health_def handle_ready_def handle_static_file_def Let_def
      confined_def revealed_vaults_def revealed_credentials_def)

lemma route_request_cases:
  assumes h: "route_request E rq st = (reply, st')"
  obtains (plain) "plain_reply E rq reply"
    | (vaults) "route_vaults E rq st = (reply, st')"
    | (gen) "handle_auth_route E rq st (\<lambda>_. (handle_generate_credentials E rq, st)) = (reply, st')"
    | (ext) "handle_auth_route E rq st (\<lambda>_. (handle_extract_credentials rq, st)) = (reply, st')"
    | (val) "handle_validate_credentials E rq st = (reply, st')"
    | (reg) "handle_register E rq st = (reply, st')"
    | (login) "handle_login E rq st = (reply, st')"
    | (refresh) "reply = handle_refresh_token E rq"
    | (verify) "handle_auth_route E rq st (\<lambda>user. (handle_verify_token user, st)) = (reply, st')"
    | (creds) "handle_auth_route E rq st (\<lambda>user. (handle_credentials_list E user st, st)) = (reply, st')"
    | (su) route where "route_step_up E rq st route = (reply, st')"
    | (path) i rest where "route_vault_path E rq st i rest = (reply, st')"
proof (cases "route_of_path (kq_path rq)")
qed (use h that in \<open>auto simp: route_request_def Let_def plain_reply_def split: if_splits\<close>)

lemma confined_route:
  assumes c: "configured_secret E \<noteq> None" and h: "route_request E rq st = (reply, st')"
  shows "confined E rq (ks_db st) reply"
proof -
  note r = confined_auth_route [OF c]
  show ?thesis using h
  proof (cases rule: route_request_cases)
    case plain then show ?thesis by (rule plain_reveals_none)
  next
    case vaults then show ?thesis by (rule confined_vaults [OF c])
  next
    case gen then show ?thesis by (rule r) (metis confined_credential_tools(1) fst_conv)
  next
    case ext then show ?thesis by (rule r) (metis confined_credential_tools(2) fst_conv)
  next
    case val then show ?thesis by (rule confined_credential_tools(3))
  next
    case reg then show ?thesis by (rule confined_sessions(1))
  next
    case login then show ?thesis by (rule confined_sessions(2))
  next
    case refresh then show ?thesis by (simp add: confined_sessions(3))
  next
    case verify then show ?thesis by (rule r) (metis confined_sessions(4) fst_conv)
  next
    case creds
    then show ?thesis
    proof (rule r)
      fix user assume "\<And>u. user = Some u \<Longrightarrow> authenticated E rq u" "(handle_credentials_list E user st, st) = (reply, st')"
      then show "confined E rq (ks_db st) reply" using confined_credentials_list [of user E rq st] by blast
    qed
  next
    case su then show ?thesis by (rule confined_step_up [OF c])
  next
    case path then show ?thesis by (rule confined_vault_path [OF c])
  qed
qed

lemma limiter_keeps: "ks_step_up (snd (limiter_allows s m w E rq st)) = ks_step_up st"
  "ks_shares (snd (limiter_allows s m w E rq st)) = ks_shares st"
  "ks_jtis (snd (limiter_allows s m w E rq st)) = ks_jtis st"
  "ks_login (snd (limiter_allows s m w E rq st)) = ks_login st"
  by (simp_all add: limiter_allows_def split: prod.splits)

lemma confined_core_step:
  assumes "configured_secret E \<noteq> None" "core_step E rq st = (reply, st')"
  shows "confined E rq (ks_db st) reply"
proof -
  obtain b st1 where l: "check_rate_limit_core E rq st = (b, st1)" by fastforce
  then have "ks_db st1 = ks_db st"
    using limiter_keeps(1) [of "lit ''core-api''" rate_limit_max rate_limit_window E rq st]
    by (simp add: check_rate_limit_core_def ks_db_def)
  then show ?thesis using assms l confined_route [OF assms(1), of rq st1 reply st']
    by (auto simp: core_step_def confined_none split: if_splits)
qed

section \<open>Sessions\<close>

text \<open>
  What the routes do together: a registered user logs in, and a credential authored over
  HTTP is released over HTTP.
\<close>

subsection \<open>Registration and login\<close>

definition core_users :: "user_store \<Rightarrow> bool" where
  "core_users us \<longleftrightarrow> us = memory_users \<or> us = postgres_users"

lemma created_user_found:
  assumes "core_users us" "us_by_email us t email = None" "create_user P us t now uuid rnd email password = (Inr user, t')"
  shows "us_by_email us t' email = Some user \<and> su_user_id user = uuid \<and> su_email user = email
    \<and> hash_password P rnd password = (su_hash user, su_salt user)"
proof -
  have "us_by_email us t' (su_email user) = Some user" if "us_create us t now user = (Inr (), t')" "us_by_email us t (su_email user) = None"
    using assms(1) that
    by (auto simp: core_users_def memory_users_def postgres_users_def memory_create_def memory_by_email_def
        pg_create_user_def map_add_def split: if_splits option.splits)
  then show ?thesis using assms(2,3)
    by (auto simp: create_user_def Let_def split: prod.splits sum.splits)
qed

lemma verify_created: "hash_password P rnd password = (h, s) \<Longrightarrow> verify_password P password h s"
  using verify_hashed_password by blast

lemma login_session_iff:
  assumes "read_body rq ''email'' = Inr data"
  shows "fst (handle_login E rq st) = Session 200 u e toks \<longleftrightarrow>
    text_field data ''email'' \<noteq> [] \<and> text_field data ''password'' \<noteq> []
    \<and> \<not> lk_locked (fst (is_locked (kq_now rq) (text_field data ''email'') (ks_login st)))
    \<and> (\<exists>user. us_by_email (se_users (ke_step_up E)) (ks_users st) (text_field data ''email'') = Some user
        \<and> verify_password (ke_crypto E) (text_field data ''password'') (su_hash user) (su_salt user)
        \<and> session_reply E rq 200 0 user = Session 200 u e toks)"
  using assms
  by (cases "is_locked (kq_now rq) (text_field data ''email'') (ks_login st)")
    (auto simp: handle_login_def Let_def ks_users_def split: option.splits)

lemma registration_creates:
  assumes "handle_register E rq st = (Session 201 u e toks, st1)" "core_users (se_users (ke_step_up E))"
  shows "\<exists>data user. read_body rq ''email'' = Inr data \<and> e = text_field data ''email'' \<and> e \<noteq> []
    \<and> text_field data ''password'' \<noteq> [] \<and> su_user_id user = u \<and> su_email user = e
    \<and> us_by_email (se_users (ke_step_up E)) (ks_users st1) e = Some user
    \<and> verify_password (ke_crypto E) (text_field data ''password'') (su_hash user) (su_salt user)
    \<and> ks_login st1 = ks_login st \<and> (configured_secret E = None \<longrightarrow> \<not> ke_production E)"
proof -
  obtain data user t where d: "read_body rq ''email'' = Inr data"
    "validate_registration_input (text_field data ''email'') (text_field data ''password'') = None"
    "us_by_email (se_users (ke_step_up E)) (ks_users st) (text_field data ''email'') = None"
    "create_user (ke_crypto E) (se_users (ke_step_up E)) (ks_users st) (kq_now rq) (kq_uuid rq 0) (kq_salt rq)
       (text_field data ''email'') (text_field data ''password'') = (Inr user, t)"
    "session_reply E rq 201 1 user = Session 201 u e toks" "st1 = set_ks_users t st"
    using assms(1) by (auto simp: handle_register_def Let_def json_error_reply_def
        split: sum.splits option.splits if_splits prod.splits)
  note c = created_user_found [OF assms(2) d(3,4)]
  have "su_user_id user = u" "su_email user = e" "configured_secret E = None \<longrightarrow> \<not> ke_production E"
    using d(5) by (auto simp: session_reply_def split: option.splits if_splits)
  then show ?thesis using c d verify_created
    by (auto simp: validate_registration_input_def set_ks_users_def ks_users_def split: if_splits)
qed

lemma access_token_of_pair:
  assumes "jwt_reads_back (ke_jwt E)" "configured_secret E = Some secret" "later < kq_now rq div 1000 + 900"
    "session_reply E rq n k user = Session n u e (Some (access, refresh))"
  shows "authenticate (ke_jwt E) later (ke_jwt_secret E) (Some (lit ''Bearer '' @ access)) = Auth_Passed (Some u)"
proof -
  have s: "ke_jwt_secret E = Some secret" "secret \<noteq> []" using assms(2) by (auto simp: configured_secret_def split: if_splits)
  have "access = generate_token (ke_jwt E) (kq_now rq) (kq_uuid rq k) u secret"
    using assms(2,4) by (auto simp: session_reply_def token_pair_def)
  then show ?thesis using access_token_authenticates [OF assms(1), of later "kq_now rq" secret] assms(3) s by simp
qed

lemma refreshed_forever:
  assumes "jwt_reads_back (ke_jwt E)" "configured_secret E = Some secret"
    and "generate_refresh_token (ke_jwt E) issued uuid u secret = tok"
    and "kq_now rq div 1000 < issued div 1000 + 7 * 24 * 60 * 60"
    and "read_body rq ''refreshToken'' = Inr data" "text_field data ''refreshToken'' = tok" "tok \<noteq> []"
  shows "\<exists>access refresh. handle_refresh_token E rq = Fresh_Tokens access refresh"
proof -
  have "verify_token (ke_jwt E) (kq_now rq div 1000) tok secret = Some \<lparr>dt_user_id = Some u, dt_type = Some (lit ''refresh'')\<rparr>"
    using assms(1-4) by (auto simp: verify_token_def jwt_reads_back_def generate_refresh_token_def token_properties
        configured_secret_def split: if_splits)
  then show ?thesis using assms(2,5,6,7) by (simp add: handle_refresh_token_def split: prod.splits)
qed

subsection \<open>Releasing what was authored\<close>

lemma vault_found_after_save:
  "db_vaults db' = db_vaults db \<Longrightarrow> find_by_vault_and_owner S T db' i u = find_by_vault_and_owner S T db i u"
  by (simp add: find_by_vault_and_owner_def)

lemma inserted_credential_found:
  assumes fresh: "credential_row_of db (cr_id c) = None" and ref: "cr_release_share_ref c = Some ref" "ref \<noteq> []"
    and saved: "credential_save T db c None = (Inr c', db')"
  shows "cr_id c' = cr_id c \<and> db_vaults db' = db_vaults db
    \<and> (\<exists>r. read_credential T r = Inr c' \<and> cw_release_share_ref r = Some ref \<and> cw_vault_id r = cr_vault_id c
        \<and> cw_mode r = Some (cr_mode c)
        \<and> credential_find_by_id T db' (cr_id c) = Inr (Some c') \<and> find_by_secret_ref T db' ref = Inr (Some c'))"
proof -
  obtain p where p: "p = to_plain_object T c" by simp
  have pf: "pl_id p = cr_id c" "pl_release_share_ref p = Some ref" "pl_vault_id p = cr_vault_id c" "pl_mode p = cr_mode c"
    using ref by (simp_all add: p to_plain_object_def)
  obtain r where r: "r = insert_credential_row T p" by simp
  have rf: "cw_id r = cr_id c" "cw_release_share_ref r = Some ref" "cw_vault_id r = cr_vault_id c" "cw_mode r = Some (cr_mode c)"
    using pf ref(2) by (simp_all add: r insert_credential_row_def or_null_def)
  have k: "credential_constraint db p = None" "read_credential T r = Inr c'" "db' = db\<lparr>db_credentials := db_credentials db @ [r]\<rparr>"
    using saved fresh pf by (auto simp: credential_save_def credential_blind_save_def p [symmetric] r Let_def
        split: option.splits)
  have "\<not> list_ex (\<lambda>x. cw_id x \<noteq> cr_id c \<and> cw_release_share_ref x = Some ref) (db_credentials db)"
    using k(1) pf ref(2) by (auto simp: credential_constraint_def or_null_def split: if_splits)
  moreover have "\<not> list_ex (\<lambda>x. cw_id x = cr_id c) (db_credentials db)"
    using fresh by (auto simp: credential_row_of_def find_None_iff list_ex_iff)
  ultimately have n: "find (\<lambda>x. cw_release_share_ref x = Some ref) (db_credentials db) = None"
    by (auto simp: find_None_iff list_ex_iff)
  have i: "credential_row_of db' (cr_id c) = Some r" using fresh k(3) rf(1) by (simp add: credential_row_of_def find_append)
  have s: "find (\<lambda>x. cw_release_share_ref x = Some ref) (db_credentials db') = Some r"
    using n k(3) rf(2) by (simp add: find_append)
  show ?thesis using k rf i s read_credential_fields [OF k(2)]
    by (auto simp: credential_find_by_id_def find_by_secret_ref_def read_optional_def)
qed

lemma read_credential_mode: "read_credential T r = Inr c \<Longrightarrow> cw_mode r = Some m \<Longrightarrow> cr_mode c = m"
  by (auto simp: read_credential_def map_credential_row_def from_plain_object_def split: if_splits)

text \<open>The share an authoring request leaves in the durable store, and the row of its credential.\<close>

lemma authored_over_http:
  assumes a: "author_in_vault E rq i st = (Authored cid out, st1)"
    and E: "ke_share_port E = postgres_port" "aead_ok (ke_subtle E)"
    and iv: "length (mr_iv_wrap (kq_authoring rq)) = wrap_iv_len"
    and fresh: "credential_row_of (ks_db st) (mr_id (kq_authoring rq)) = None"
  shows "\<exists>ref c kek w. cid = cr_id c \<and> credential_find_by_id (ke_dates E) (ks_db st1) cid = Inr (Some c)
    \<and> find_by_secret_ref (ke_dates E) (ks_db st1) ref = Inr (Some c) \<and> cr_vault_id c = i \<and> is_managed c
    \<and> cr_release_share_ref c = Some ref \<and> ref \<noteq> [] \<and> db_vaults (ks_db st1) = db_vaults (ks_db st)
    \<and> release_share_ref (au_record out) = Some ref
    \<and> derive_release_share_kek (ke_subtle E) (ke_kek_secret E) = Inr kek
    \<and> port_find postgres_port (ks_shares st1) ref = Inr (Some w) \<and> rs_secret_ref w = ref
    \<and> unwrap_release_share (ke_subtle E) kek (rs_wrapped_share w) ref = Inr (mr_share (kq_authoring rq))
    \<and> se_has_credentials (ke_step_up E)"
proof -
  obtain data vek s where m: "managed_authoring_execute (ke_web E) (ke_subtle E) postgres_port (ke_platform_error E)
      (ke_kek_secret E) (authoring_input_of data (kq_uuid rq 0) vek) (kq_authoring rq) (kq_now rq) (ks_shares st) = (Inr out, s)"
    and p: "persist_authored E (kq_now rq) i out (st\<lparr>ks_shares := s\<rparr>) = (Authored cid out, st1)"
    and has: "se_has_credentials (ke_step_up E)"
    using a E(1) by (auto simp: author_in_vault_def persist_authored_def split: if_splits sum.splits prod.splits)
  obtain ref kek w where w: "release_share_ref (au_record out) = Some ref" "ref \<noteq> []" "er_mode (au_record out) = Managed"
    "derive_release_share_kek (ke_subtle E) (ke_kek_secret E) = Inr kek" "port_find postgres_port s ref = Inr (Some w)"
    "rs_secret_ref w = ref" "unwrap_release_share (ke_subtle E) kek (rs_wrapped_share w) ref = Inr (mr_share (kq_authoring rq))"
    using pg_shares.authored_share_found [OF m E(2) iv] by auto
  have cid: "encrypted_record.er_id (au_record out) = mr_id (kq_authoring rq)"
    using m by (auto simp: managed_authoring_execute_def authoring_input_of_def Let_def split: sum.splits option.splits)
  obtain c c' db where c: "from_plain_object (ke_dates E) (authored_row (ke_dates E) (kq_now rq) i (au_record out)) = Inr c"
    "credential_save (ke_dates E) (ks_db st) c None = (Inr c', db)" "cid = cr_id c'"
    "st1 = set_ks_db db (st\<lparr>ks_shares := s\<rparr>)"
    using p by (auto simp: persist_authored_def ks_db_def split: sum.splits prod.splits)
  have cf: "cr_id c = mr_id (kq_authoring rq)" "cr_release_share_ref c = Some ref" "cr_vault_id c = i" "cr_mode c = Managed"
    using c(1) w(1) cid by (auto simp: from_plain_object_def authored_row_def split: if_splits)
  obtain r where r: "cr_id c' = cr_id c" "db_vaults db = db_vaults (ks_db st)" "read_credential (ke_dates E) r = Inr c'"
    "cw_release_share_ref r = Some ref" "cw_vault_id r = i" "cw_mode r = Some Managed"
    "credential_find_by_id (ke_dates E) db (cr_id c) = Inr (Some c')" "find_by_secret_ref (ke_dates E) db ref = Inr (Some c')"
    using inserted_credential_found [OF _ cf(2) w(2) c(2)] fresh cf by auto
  have "ks_db st1 = db" "ks_shares st1 = s" by (simp_all add: c(4) set_ks_db_def ks_db_def)
  then show ?thesis using r w c(3) has read_credential_fields [OF r(3)] read_credential_mode [OF r(3,6)]
    by (auto simp: is_managed_def intro!: exI [of _ c'])
qed

section \<open>Release\<close>

text \<open>
  The release route against the authoring route: when a request is answered with a
  Release Share, and which share that is.
\<close>

text \<open>What the capability of a release request must satisfy, for one reference.\<close>

definition capability_releases ::
  "('s, 'r) core_env \<Rightarrow> core_request \<Rightarrow> ('s, 'r) core_state \<Rightarrow> jstr \<Rightarrow> jstr \<Rightarrow> jstr \<Rightarrow> bool" where
  "capability_releases E rq st user ref device \<longleftrightarrow>
     (\<exists>tok key. kq_token rq = Some tok \<and> sg_signature tok \<noteq> [] \<and> ke_plus_key E = Some key \<and> key \<noteq> []
        \<and> capability_acceptable (ke_curve E) (kq_now rq div 1000) tok key
        \<and> capability_bound (sg_payload tok) (release_binding user ref device)
        \<and> cp_operation (sg_payload tok) \<in> set releasable_operations
        \<and> cp_iat (sg_payload tok) < cp_exp (sg_payload tok) \<and> 16 \<le> length (cp_jti (sg_payload tok))
        \<and> \<not> jti_spent (ks_jtis st) (kq_now rq) (cp_jti (sg_payload tok)))"

lemma bound_ref: "capability_bound p (release_binding user ref device) \<Longrightarrow> cp_secret_ref p = ref \<and> ref \<noteq> []"
  by (auto simp: capability_bound_def release_binding_def)

lemma release_core_fields:
  "core_shares (release_core_of E st) = ke_share_port E" "core_share_state (release_core_of E st) = Some (ks_shares st)"
  "core_kek_secret (release_core_of E st) = ke_kek_secret E" "core_plus_public_key (release_core_of E st) = ke_plus_key E"
  "core_find_credential (release_core_of E st) ref = Inr c \<longleftrightarrow> find_by_secret_ref (ke_dates E) (ks_db st) ref = Inr c"
  by (auto simp: release_core_of_def split: sum.splits)

text \<open>The share stored for a reference under the key-encryption key of the environment.\<close>

definition stored_share :: "('s, 'r) core_env \<Rightarrow> ('s, 'r) core_state \<Rightarrow> jstr \<Rightarrow> bytes \<Rightarrow> bool" where
  "stored_share E st ref share \<longleftrightarrow>
     (\<exists>kek w. derive_release_share_kek (ke_subtle E) (ke_kek_secret E) = Inr kek
        \<and> port_find (ke_share_port E) (ks_shares st) ref = Inr (Some w)
        \<and> unwrap_release_share (ke_subtle E) kek (rs_wrapped_share w) (rs_secret_ref w) = Inr share)"

lemma stored_share_unique: "stored_share E st ref a \<Longrightarrow> stored_share E st ref b \<Longrightarrow> a = b"
  by (auto simp: stored_share_def)

lemma release_in_vault_iff:
  "fst (release_in_vault E rq u i st) = Released out \<longleftrightarrow>
     (\<exists>data c share ref. read_body rq ''capabilityToken'' = Inr data \<and> se_has_credentials (ke_step_up E)
        \<and> i \<noteq> [] \<and> trim (text_field data ''credentialId'') \<noteq> []
        \<and> credential_find_by_id (ke_dates E) (ks_db st) (trim (text_field data ''credentialId'')) = Inr (Some c)
        \<and> cr_vault_id c = i \<and> cr_release_share_ref c = Some ref
        \<and> capability_releases E rq st u ref (text_field data ''deviceId'')
        \<and> (\<exists>c'. find_by_secret_ref (ke_dates E) (ks_db st) ref = Inr (Some c') \<and> is_managed c'
            \<and> cr_release_share_ref c' = Some ref \<and> cr_vault_id c' = i \<and> stored_share E st ref share
            \<and> out = \<lparr>ro_release_share = binary_to_base64 share, ro_credential_id = cr_id c'\<rparr>))"
    (is "?reply \<longleftrightarrow> ?checks")
proof
  assume ?reply
  then obtain st' where "release_in_vault E rq u i st = (Released out, st')" by (metis prod.collapse)
  then show ?checks
  proof (cases rule: release_in_vault_cases)
    case (released data tok c out' j)
    then obtain ref where ref: "cr_release_share_ref c = Some ref" "ref \<noteq> []"
      by (cases "cr_release_share_ref c") (auto simp: absent_def)
    have g: "se_has_credentials (ke_step_up E)" "trim (text_field data ''credentialId'') \<noteq> []"
      using \<open>release_in_vault E rq u i st = (Released out, st')\<close> released(3-5)
      by (auto simp: release_in_vault_def Let_def split: if_splits)
    have o: "out' = out" using released(1) by simp
    note j = managed_release_justified [OF released(9) [unfolded o ref option.sel]]
    have b: "cp_secret_ref (sg_payload tok) = ref"
      using j bound_ref by (fastforce simp: release_justified_def Let_def)
    show ?thesis
      using j released(3-7) ref g b
      by (auto simp: release_justified_def Let_def release_core_fields capability_releases_def stored_share_def)
  qed simp
next
  assume ?checks
  then obtain data c share ref tok key c' kek w where d: "read_body rq ''capabilityToken'' = Inr data"
      "se_has_credentials (ke_step_up E)" "i \<noteq> []" "trim (text_field data ''credentialId'') \<noteq> []"
      "credential_find_by_id (ke_dates E) (ks_db st) (trim (text_field data ''credentialId'')) = Inr (Some c)"
      "cr_vault_id c = i" "cr_release_share_ref c = Some ref"
    and t: "kq_token rq = Some tok" "sg_signature tok \<noteq> []" "ke_plus_key E = Some key" "key \<noteq> []"
      "capability_acceptable (ke_curve E) (kq_now rq div 1000) tok key"
      "capability_bound (sg_payload tok) (release_binding u ref (text_field data ''deviceId''))"
      "cp_operation (sg_payload tok) \<in> set releasable_operations"
      "cp_iat (sg_payload tok) < cp_exp (sg_payload tok)" "16 \<le> length (cp_jti (sg_payload tok))"
      "\<not> jti_spent (ks_jtis st) (kq_now rq) (cp_jti (sg_payload tok))"
    and s: "find_by_secret_ref (ke_dates E) (ks_db st) ref = Inr (Some c')" "is_managed c'"
      "cr_release_share_ref c' = Some ref" "cr_vault_id c' = i"
      "derive_release_share_kek (ke_subtle E) (ke_kek_secret E) = Inr kek"
      "port_find (ke_share_port E) (ks_shares st) ref = Inr (Some w)"
      "unwrap_release_share (ke_subtle E) kek (rs_wrapped_share w) (rs_secret_ref w) = Inr share"
      "out = \<lparr>ro_release_share = binary_to_base64 share, ro_credential_id = cr_id c'\<rparr>"
    unfolding capability_releases_def stored_share_def by blast
  note b = bound_ref [OF t(6)]
  have "release_justified (ke_subtle E) (ke_curve E) (release_core_of E st)
      \<lparr>mr_token = tok, mr_expected = Some (release_binding u ref (text_field data ''deviceId'')), mr_vault_id = i\<rparr>
      (kq_now rq) (kq_now rq) (ks_jtis st) out"
    using d t s b by (auto simp: release_justified_def Let_def release_core_fields)
  note f = justified_managed_release [OF this]
  show ?reply using d t b f
    by (auto simp: release_in_vault_def Let_def absent_def split: prod.splits sum.splits)
qed

lemma found_vault_kept:
  "db_vaults (ks_db st') = db_vaults (ks_db st) \<Longrightarrow>
   find_by_vault_and_owner S T (ks_db st') i u = find_by_vault_and_owner S T (ks_db st) i u"
  by (simp add: find_by_vault_and_owner_def)

text \<open>What an authoring request leaves for a later release.\<close>

lemma authored_for_release:
  assumes a: "handle_vault_managed_credential E rq (Some u) i st = (Authored cid out, st1)"
    and E: "ke_share_port E = postgres_port" "aead_ok (ke_subtle E)"
    and iv: "length (mr_iv_wrap (kq_authoring rq)) = wrap_iv_len"
    and fresh: "credential_row_of (ks_db st) (mr_id (kq_authoring rq)) = None"
  shows "\<exists>ref c v. release_share_ref (au_record out) = Some ref \<and> ref \<noteq> [] \<and> u \<noteq> [] \<and> cid = cr_id c \<and> is_managed c
    \<and> cr_vault_id c = i \<and> cr_release_share_ref c = Some ref \<and> se_has_credentials (ke_step_up E)
    \<and> find_by_vault_and_owner (ke_subtle E) (ke_dates E) (ks_db st1) i u = Inr (Some v)
    \<and> credential_find_by_id (ke_dates E) (ks_db st1) cid = Inr (Some c)
    \<and> find_by_secret_ref (ke_dates E) (ks_db st1) ref = Inr (Some c)
    \<and> stored_share E st1 ref (mr_share (kq_authoring rq))"
  using a unfolding handle_vault_managed_credential_def
proof (cases rule: own_vault_cases)
  case (found u' v)
  note h = authored_over_http [OF found(3) E iv fresh]
  show ?thesis using h found(1,2,4) E(1) found_vault_kept unfolding stored_share_def by (metis option.inject)
qed simp

subsection \<open>Where a released share comes from\<close>

lemma release_in_vault_spends:
  assumes "release_in_vault E rq u i st = (Released out, st')" "kq_token rq = Some tok"
  shows "jti_spent (ks_jtis st') t (cp_jti (sg_payload tok)) \<longleftrightarrow>
    t < kq_now rq + (cp_exp (sg_payload tok) - cp_iat (sg_payload tok)) * 1000"
  using assms(1)
proof (cases rule: release_in_vault_cases)
  case (released data tok' c out' j)
  have "fst (try_consume (ks_jtis st) (kq_now rq) (cp_jti (sg_payload tok)) (cp_exp (sg_payload tok) - cp_iat (sg_payload tok)))"
    "j = snd (try_consume (ks_jtis st) (kq_now rq) (cp_jti (sg_payload tok)) (cp_exp (sg_payload tok) - cp_iat (sg_payload tok)))"
    using managed_release_store [OF released(9)] released(4) assms(2) by simp_all
  then show ?thesis using released(2) by (simp add: jti.consume_result jti.consume_spends)
qed simp

lemma not_released_elsewhere:
  "session_reply E rq n k user \<noteq> Released out" "json_error_reply e \<noteq> Released out" "coded_error x \<noteq> Released out"
  "handle_refresh_token E rq \<noteq> Released out" "handle_verify_token who \<noteq> Released out"
  "handle_vaults_list E who st \<noteq> Released out" "handle_credentials_list E who st \<noteq> Released out"
  "handle_generate_credentials E rq \<noteq> Released out" "handle_extract_credentials rq \<noteq> Released out"
  by (auto simp: session_reply_def json_error_reply_def coded_error_def handle_refresh_token_def handle_verify_token_def
      handle_vaults_list_def handle_credentials_list_def handle_generate_credentials_def handle_extract_credentials_def
      split: option.splits sum.splits prod.splits if_splits)

lemma released_handler:
  "handle_create_vault E rq who st \<noteq> (Released out, st')" "handle_vault_get E who i st \<noteq> (Released out, st')"
  "handle_vault_unlock E who i st \<noteq> (Released out, st')" "handle_vault_delete E who i st \<noteq> (Released out, st')"
  "handle_vault_managed_credential E rq who i st \<noteq> (Released out, st')"
  "handle_register E rq st \<noteq> (Released out, st')" "handle_login E rq st \<noteq> (Released out, st')"
  "handle_validate_credentials E rq st \<noteq> (Released out, st')"
  by (auto simp: handle_create_vault_def handle_vault_get_def handle_vault_unlock_def handle_vault_delete_def
      handle_vault_managed_credential_def author_in_vault_def persist_authored_def with_own_vault_def handle_register_def
      handle_login_def handle_validate_credentials_def Let_def not_released_elsewhere
      split: sum.splits option.splits prod.splits if_splits)

lemma released_route:
  assumes c: "configured_secret E \<noteq> None" and h: "route_request E rq st = (Released out, st')"
  shows "\<exists>u i. authenticated E rq u \<and> owns_vault (ks_db st) u i \<and> release_in_vault E rq u i st = (Released out, st')"
proof -
  have route: "\<exists>user. k user = (Released out, st') \<and> (\<forall>u. user = Some u \<longrightarrow> authenticated E rq u)"
    if "handle_auth_route E rq st k = (Released out, st')" for k
    using that by (cases rule: auth_route_cases [OF c]) auto
  have rel: "\<exists>u i. authenticated E rq u \<and> owns_vault (ks_db st) u i \<and> release_in_vault E rq u i st = (Released out, st')"
    if "handle_vault_managed_release E rq user i st = (Released out, st')" "\<forall>u. user = Some u \<longrightarrow> authenticated E rq u" for user i
    using that(1) unfolding handle_vault_managed_release_def
  proof (cases rule: own_vault_cases)
    case (found u v)
    then show ?thesis using that(2) found_vault_owned [OF found(4)] by auto
  qed simp
  show ?thesis using h
  proof (cases rule: route_request_cases)
    case plain
    then show ?thesis by (auto simp: plain_reply_def method_not_allowed_def handle_health_def handle_ready_def
        handle_static_file_def Let_def split: if_splits)
  next
    case vaults
    then show ?thesis using route released_handler(1) not_released_elsewhere(6)
      by (fastforce simp: route_vaults_def method_not_allowed_def split: http_verb.splits)
  next
    case gen
    then show ?thesis using route not_released_elsewhere(8) by fastforce
  next
    case ext
    then show ?thesis using route not_released_elsewhere(9) by fastforce
  next
    case val then show ?thesis by (simp add: released_handler)
  next
    case reg then show ?thesis by (simp add: released_handler)
  next
    case login then show ?thesis by (simp add: released_handler)
  next
    case refresh then show ?thesis using not_released_elsewhere(4) by metis
  next
    case verify
    then show ?thesis using route not_released_elsewhere(5) by fastforce
  next
    case creds
    then show ?thesis using route not_released_elsewhere(7) by fastforce
  next
    case (su r)
    then show ?thesis using route by (fastforce simp: route_step_up_def method_not_allowed_def split: if_splits prod.splits)
  next
    case (path i rest)
    then show ?thesis
      by (auto simp: route_vault_path_def method_not_allowed_def released_handler split: if_splits http_verb.splits
          dest!: route) (use rel in blast)
  qed
qed

end
