(* ===== verification/Server_Support.thy ===== *)
theory Server_Support
  imports Js_Number Domain_Pipeline "HOL-Library.AList" "HOL-Library.List_Lexorder"
    "HOL-Library.Multiset" Core_Routes
begin

text \<open>What surrounds both services: metrics, configuration and start.\<close>

section \<open>Metrics\<close>

text \<open>
  The collector of src/src/shared/metrics.ts, behind the metrics and health routes.  Its
  two Maps are association lists in the order of insertion; numbers are exact.
\<close>

datatype metric_type = Counter_Metric | Gauge_Metric | Histogram_Metric

type_synonym metric_labels = "(jstr \<times> jstr) list"

record metric_entry =
  me_type :: metric_type
  me_help :: jstr
  me_value :: rat
  me_labels :: "metric_labels option"

record histogram_data =
  hg_values :: "rat list"
  hg_buckets :: "rat list"

record metrics =
  mx_metrics :: "(jstr \<times> metric_entry) list"
  mx_histograms :: "(jstr \<times> histogram_data) list"

definition no_metrics :: metrics where
  "no_metrics = \<lparr>mx_metrics = [], mx_histograms = []\<rparr>"

text \<open>\<^verbatim>\<open>sort()\<close> compares the entries as texts: key, comma, value.\<close>

definition sorted_labels :: "metric_labels \<Rightarrow> jstr" where
  "sorted_labels ls = join_lit (lit '','') (map (\<lambda>(k, v). k @ lit ''=\"'' @ v @ lit ''\"'')
     (sort_key (\<lambda>(k, v). k @ 44 # v) ls))"

definition metric_key :: "jstr \<Rightarrow> metric_labels option \<Rightarrow> jstr" where
  "metric_key name labels = (case labels of None \<Rightarrow> name
     | Some ls \<Rightarrow> name @ lit ''{'' @ sorted_labels ls @ lit ''}'')"

definition label_str :: "metric_labels option \<Rightarrow> jstr" where
  "label_str labels = (case labels of None \<Rightarrow> [] | Some ls \<Rightarrow>
     if ls = [] then [] else lit ''{'' @ sorted_labels ls @ lit ''}'')"

definition metric_counter :: "jstr \<Rightarrow> jstr \<Rightarrow> metric_labels option \<Rightarrow> metrics \<Rightarrow> metrics" where
  "metric_counter name hint labels m =
     (let k = metric_key name labels in
      m\<lparr>mx_metrics := AList.update k (case map_of (mx_metrics m) k of
          Some e \<Rightarrow> e\<lparr>me_value := me_value e + 1\<rparr>
        | None \<Rightarrow> \<lparr>me_type = Counter_Metric, me_help = hint, me_value = 1, me_labels = labels\<rparr>) (mx_metrics m)\<rparr>)"

definition metric_gauge :: "jstr \<Rightarrow> jstr \<Rightarrow> rat \<Rightarrow> metric_labels option \<Rightarrow> metrics \<Rightarrow> metrics" where
  "metric_gauge name hint v labels m = m\<lparr>mx_metrics := AList.update (metric_key name labels)
     \<lparr>me_type = Gauge_Metric, me_help = hint, me_value = v, me_labels = labels\<rparr> (mx_metrics m)\<rparr>"

definition histogram_buckets :: "rat list" where
  "histogram_buckets = [1/100, 5/100, 1/10, 25/100, 1/2, 1, 25/10, 5, 10]"

definition metric_histogram :: "jstr \<Rightarrow> jstr \<Rightarrow> rat \<Rightarrow> metric_labels option \<Rightarrow> metrics \<Rightarrow> metrics" where
  "metric_histogram name hint v labels m =
     (let k = metric_key name labels in
      case map_of (mx_histograms m) k of
        Some h \<Rightarrow> m\<lparr>mx_histograms := AList.update k (h\<lparr>hg_values := hg_values h @ [v]\<rparr>) (mx_histograms m)\<rparr>
      | None \<Rightarrow> m\<lparr>mx_histograms := AList.update k \<lparr>hg_values = [v], hg_buckets = histogram_buckets\<rparr> (mx_histograms m),
          mx_metrics := AList.update k
            \<lparr>me_type = Histogram_Metric, me_help = hint, me_value = 0, me_labels = labels\<rparr> (mx_metrics m)\<rparr>)"

definition bucket_count :: "rat list \<Rightarrow> rat \<Rightarrow> nat" where
  "bucket_count vs b = length (filter (\<lambda>v. v \<le> b) (sort vs))"

definition with_le :: "jstr \<Rightarrow> jstr \<Rightarrow> jstr" where
  "with_le pre b = (if pre = [] then lit ''{le=\"'' @ b @ lit ''\"}''
     else butlast pre @ lit '',le=\"'' @ b @ lit ''\"}'')"

definition format_histogram :: "number_format \<Rightarrow> jstr \<Rightarrow> jstr \<Rightarrow> metric_entry \<Rightarrow> metrics \<Rightarrow> jstr list" where
  "format_histogram F k base e m = (case map_of (mx_histograms m) k of None \<Rightarrow> []
     | Some h \<Rightarrow> if hg_values h = [] then []
         else let vs = sort (hg_values h); pre = label_str (me_labels e) in
           map (\<lambda>b. base @ lit ''_bucket'' @ with_le pre (nf_text F b) @ 32 # dec_nat (bucket_count (hg_values h) b)) (hg_buckets h)
           @ [base @ lit ''_bucket'' @ with_le pre (lit ''+Inf'') @ 32 # dec_nat (length vs),
              base @ lit ''_sum'' @ pre @ 32 # nf_fixed F (foldl (+) 0 vs) 6,
              base @ lit ''_count'' @ pre @ 32 # dec_nat (length vs)])"

definition metric_type_name :: "metric_type \<Rightarrow> jstr" where
  "metric_type_name t = (case t of Counter_Metric \<Rightarrow> lit ''counter'' | Gauge_Metric \<Rightarrow> lit ''gauge''
     | Histogram_Metric \<Rightarrow> lit ''histogram'')"

definition base_name :: "jstr \<Rightarrow> jstr" where
  "base_name k = takeWhile (\<lambda>c. c \<noteq> 123) k"

fun format_metrics :: "number_format \<Rightarrow> metrics \<Rightarrow> jstr list \<Rightarrow> (jstr \<times> metric_entry) list \<Rightarrow> jstr list" where
  "format_metrics F m seen [] = []"
| "format_metrics F m seen ((k, e) # es) =
     (let base = base_name k in
      (if base \<in> set seen then [] else
         [lit ''# HELP '' @ base @ 32 # me_help e, lit ''# TYPE '' @ base @ 32 # metric_type_name (me_type e)])
      @ (if me_type e = Histogram_Metric then format_histogram F k base e m
         else [k @ 32 # nf_text F (me_value e)])
      @ format_metrics F m (base # seen) es)"

definition format_prometheus :: "number_format \<Rightarrow> metrics \<Rightarrow> jstr" where
  "format_prometheus F m = join_lit [10] (format_metrics F m [] (mx_metrics m)) @ [10]"

definition metric_series :: "jstr \<Rightarrow> metrics \<Rightarrow> (metric_labels option \<times> rat) list" where
  "metric_series name m = map (\<lambda>(k, e). (me_labels e, me_value e))
     (filter (\<lambda>(k, e). k = name \<or> starts_with k (name @ lit ''{'')) (mx_metrics m))"

definition reset_metrics :: "metrics \<Rightarrow> metrics" where
  "reset_metrics m = no_metrics"

subsection \<open>What is counted\<close>

definition metric_value :: "jstr \<Rightarrow> metric_labels option \<Rightarrow> metrics \<Rightarrow> rat option" where
  "metric_value name labels m = map_option me_value (map_of (mx_metrics m) (metric_key name labels))"

lemma counter_counts:
  "metric_value name labels (metric_counter name hint labels m)
     = Some (case metric_value name labels m of None \<Rightarrow> 1 | Some v \<Rightarrow> v + 1)"
  by (auto simp: metric_value_def metric_counter_def Let_def update_conv' split: option.splits)

lemma counter_run:
  "metric_value name labels ((metric_counter name hint labels ^^ Suc n) no_metrics) = Some (of_nat (Suc n))"
proof (induction n)
  case 0
  show ?case by (simp add: counter_counts) (simp add: metric_value_def no_metrics_def)
next
  case (Suc n)
  then show ?case by (simp add: counter_counts)
qed

lemma counter_other:
  "metric_key name labels \<noteq> metric_key name' labels' \<Longrightarrow>
     metric_value name' labels' (metric_counter name hint labels m) = metric_value name' labels' m"
  by (simp add: metric_value_def metric_counter_def Let_def update_conv')

lemma gauge_is_last: "metric_value name labels (metric_gauge name hint v labels m) = Some v"
  by (simp add: metric_value_def metric_gauge_def update_conv')

text \<open>A histogram's buckets are cumulative, none holds more than all its values.\<close>

lemma bucket_count_mono: "a \<le> b \<Longrightarrow> bucket_count vs a \<le> bucket_count vs b"
proof -
  assume "a \<le> b"
  then have "filter (\<lambda>v. v \<le> a) xs = filter (\<lambda>v. v \<le> a) (filter (\<lambda>v. v \<le> b) xs)" for xs :: "rat list"
    by (induction xs) auto
  then show ?thesis unfolding bucket_count_def by (metis length_filter_le)
qed

lemma bucket_count_bound: "bucket_count vs b \<le> length vs"
  unfolding bucket_count_def by (metis length_filter_le length_sort)

text \<open>Every line of a family that is a histogram: the buckets, then three totals.\<close>

lemma histogram_lines:
  assumes "map_of (mx_histograms m) k = Some h" "hg_values h \<noteq> []"
  shows "length (format_histogram F k base e m) = length (hg_buckets h) + 3"
  using assms by (simp add: format_histogram_def Let_def)

text \<open>The order in which labels are given does not matter.\<close>

lemma sort_key_unordered:
  assumes "mset xs = mset ys" "inj_on f (set ys)"
  shows "sort_key f xs = sort_key f ys"
proof (rule properties_for_sort_key)
  show "mset (sort_key f ys) = mset xs" using assms(1) by simp
  show "filter (\<lambda>x. f k = f x) (sort_key f ys) = filter (\<lambda>x. f k = f x) xs" if "k \<in> set (sort_key f ys)" for k
  proof -
    have same: "set xs = set ys" using assms(1) by (rule mset_eq_setD)
    have one: "filter (\<lambda>x. f k = f x) zs = filter ((=) k) zs" if "set zs = set ys" for zs
      using assms(2) that \<open>k \<in> _\<close> by (intro filter_cong) (auto simp: inj_on_def)
    show ?thesis
      using one [of "sort_key f ys"] one [of xs] same assms(1)
      by (simp flip: replicate_count_mset_eq_filter_eq)
  qed
qed simp

lemma labels_unordered:
  assumes "mset ls = mset ls'" "inj_on (\<lambda>(k, v). k @ 44 # v) (set ls')"
  shows "metric_key name (Some ls) = metric_key name (Some ls')"
  using sort_key_unordered [OF assms] by (simp add: metric_key_def sorted_labels_def)

lemma series_of_counter:
  assumes "metric_value name labels m = None"
  shows "(labels, 1) \<in> set (metric_series name (metric_counter name hint labels m))"
proof -
  have "map_of (mx_metrics (metric_counter name hint labels m)) (metric_key name labels)
      = Some \<lparr>me_type = Counter_Metric, me_help = hint, me_value = 1, me_labels = labels\<rparr>"
    using assms by (simp add: metric_value_def metric_counter_def Let_def update_conv')
  then have "(metric_key name labels, \<lparr>me_type = Counter_Metric, me_help = hint, me_value = 1, me_labels = labels\<rparr>)
      \<in> set (mx_metrics (metric_counter name hint labels m))" by (rule map_of_SomeD)
  moreover have "metric_key name labels = name \<or> starts_with (metric_key name labels) (name @ lit ''{'')"
    by (cases labels) (auto simp: metric_key_def starts_with_def)
  ultimately show ?thesis by (force simp: metric_series_def)
qed

section \<open>Configuration and start\<close>

text \<open>
  How the two services come up: src/src/shared/config.ts, the health checks and the start of
  src/src/infrastructure/api/server.ts, and the start of plus/api/server.ts with plus/api/main.ts.
  The environment is a function; files and sockets are flags that say whether they could be
  read or bound.
\<close>

type_synonym environment = "string \<Rightarrow> jstr option"

subsection \<open>Configuration\<close>

definition env_text :: "environment \<Rightarrow> string \<Rightarrow> string \<Rightarrow> jstr" where
  "env_text V key d = or_text (V key) d"

definition env_int :: "environment \<Rightarrow> string \<Rightarrow> string \<Rightarrow> int option" where
  "env_int V key d = parse_int (or_text (V key) d)"

definition env_bool :: "environment \<Rightarrow> string \<Rightarrow> bool \<Rightarrow> bool" where
  "env_bool V key d = (case V key of None \<Rightarrow> d | Some v \<Rightarrow> v = lit ''true'')"

record service_config =
  sf_port :: "int option"
  sf_env :: jstr
  sf_base_url :: jstr
  sf_jwt_secret :: jstr
  sf_jwt_expiry :: jstr
  sf_session_timeout_minutes :: "int option"
  sf_rate_limit_max :: "int option"
  sf_rate_limit_window_ms :: "int option"
  sf_master_key :: "jstr option"
  sf_encryption_salt :: "jstr option"

definition api_and_security_config :: "environment \<Rightarrow> service_config" where
  "api_and_security_config V = \<lparr>
     sf_port = env_int V ''PORT'' ''3000'', sf_env = env_text V ''NODE_ENV'' ''development'',
     sf_base_url = env_text V ''API_BASE_URL'' ''http://localhost:3000'',
     sf_jwt_secret = env_text V ''JWT_SECRET'' '''', sf_jwt_expiry = env_text V ''JWT_EXPIRY'' ''24h'',
     sf_session_timeout_minutes = env_int V ''SESSION_TIMEOUT_MINUTES'' ''15'',
     sf_rate_limit_max = env_int V ''RATE_LIMIT_MAX_REQUESTS'' ''100'',
     sf_rate_limit_window_ms = env_int V ''RATE_LIMIT_WINDOW_MS'' ''60000'',
     sf_master_key = V ''VAULT_MASTER_KEY'', sf_encryption_salt = V ''VAULT_ENCRYPTION_SALT''\<rparr>"

record store_config =
  tf_url :: jstr
  tf_host :: jstr
  tf_port :: "int option"
  tf_name :: jstr
  tf_user :: jstr
  tf_password :: "jstr option"
  tf_redis_host :: jstr
  tf_redis_port :: "int option"
  tf_redis_password :: "jstr option"
  tf_redis_db :: "int option"

definition database_and_redis_config :: "environment \<Rightarrow> store_config" where
  "database_and_redis_config V = \<lparr>
     tf_url = env_text V ''DATABASE_URL'' ''sqlite://cybervault.db'', tf_host = env_text V ''DB_HOST'' ''localhost'',
     tf_port = env_int V ''DB_PORT'' ''5432'', tf_name = env_text V ''DB_NAME'' ''cybervault'',
     tf_user = env_text V ''DB_USER'' ''cybervault'', tf_password = V ''DB_PASSWORD'',
     tf_redis_host = env_text V ''REDIS_HOST'' ''localhost'', tf_redis_port = env_int V ''REDIS_PORT'' ''6379'',
     tf_redis_password = V ''REDIS_PASSWORD'', tf_redis_db = env_int V ''REDIS_DB'' ''0''\<rparr>"

record feature_config =
  ff_ipfs_enabled :: bool
  ff_ipfs_host :: jstr
  ff_ipfs_port :: "int option"
  ff_ipfs_protocol :: jstr
  ff_log_level :: jstr
  ff_log_format :: jstr
  ff_breach_scanning :: bool
  ff_threat_intel :: bool
  ff_ipfs_sync :: bool
  ff_biometric_unlock :: bool

definition feature_flags_config :: "environment \<Rightarrow> feature_config" where
  "feature_flags_config V = \<lparr>
     ff_ipfs_enabled = env_bool V ''IPFS_ENABLED'' False, ff_ipfs_host = env_text V ''IPFS_HOST'' ''localhost'',
     ff_ipfs_port = env_int V ''IPFS_PORT'' ''5001'', ff_ipfs_protocol = env_text V ''IPFS_PROTOCOL'' ''http'',
     ff_log_level = env_text V ''LOG_LEVEL'' ''info'', ff_log_format = env_text V ''LOG_FORMAT'' ''json'',
     ff_breach_scanning = env_bool V ''FEATURE_BREACH_SCANNING'' True,
     ff_threat_intel = env_bool V ''FEATURE_THREAT_INTEL'' True,
     ff_ipfs_sync = env_bool V ''FEATURE_IPFS_SYNC'' False, ff_biometric_unlock = env_bool V ''FEATURE_BIOMETRIC'' False\<rparr>"

text \<open>Any message at all makes the import throw.\<close>

definition validate_config :: "environment \<Rightarrow> string list" where
  "validate_config V =
     (if absent (V ''JWT_SECRET'') then [''JWT_SECRET is required''] else [])
     @ (case V ''JWT_SECRET'' of None \<Rightarrow> []
        | Some s \<Rightarrow> if s \<noteq> [] \<and> length s < 32 then [''JWT_SECRET must be at least 32 characters''] else [])
     @ (if V ''NODE_ENV'' = Some (lit ''production'') then
          (if absent (V ''VAULT_MASTER_KEY'') then [''VAULT_MASTER_KEY is required in production''] else [])
          @ (if absent (V ''VAULT_ENCRYPTION_SALT'') then [''VAULT_ENCRYPTION_SALT is required in production''] else [])
          @ (if absent (V ''DB_PASSWORD'') \<and> \<not> (case V ''DATABASE_URL'' of None \<Rightarrow> False | Some u \<Rightarrow> starts_with u (lit ''sqlite''))
             then [''DB_PASSWORD is required in production''] else [])
        else [])"

subsection \<open>Health of the dependencies\<close>

text \<open>A repository is one of Postgres, with the answer of \<^verbatim>\<open>isHealthy\<close> (None: it threw), or another.\<close>

datatype repository = Postgres_Repository "bool option" | Other_Repository

definition healthy_answer :: "bool option \<Rightarrow> bool" where
  "healthy_answer r = (case r of None \<Rightarrow> False | Some b \<Rightarrow> b)"

definition check_database_health :: "environment \<Rightarrow> repository \<Rightarrow> repository option \<Rightarrow> bool" where
  "check_database_health V vaults credentials =
     (if V ''USE_POSTGRES'' \<noteq> Some (lit ''true'') then True
      else (case (vaults, credentials) of
          (Postgres_Repository h, _) \<Rightarrow> healthy_answer h
        | (Other_Repository, Some (Postgres_Repository h)) \<Rightarrow> healthy_answer h
        | _ \<Rightarrow> True))"

definition check_ipfs_health :: "environment \<Rightarrow> bool option \<Rightarrow> bool" where
  "check_ipfs_health V adapter = (if absent (V ''IPFS_API_URL'') then True else healthy_answer adapter)"

definition run_dependency_checks :: "environment \<Rightarrow> repository \<Rightarrow> repository option \<Rightarrow> bool option \<Rightarrow> string \<times> string" where
  "run_dependency_checks V vaults credentials adapter =
     (evaluate_health_check (if V ''USE_POSTGRES'' = Some (lit ''true'')
        then Some (check_database_health V vaults credentials) else None),
      evaluate_health_check (if absent (V ''IPFS_API_URL'') then None else Some (check_ipfs_health V adapter)))"

subsection \<open>Starting\<close>

datatype listening = Https_Server "int option" | Http_Server "int option"

definition tls_of_environment :: "(jstr \<Rightarrow> bool) \<Rightarrow> environment \<Rightarrow> string + tls_configuration" where
  "tls_of_environment readable V = assert_tls_configuration readable (V ''HTTPS_ENABLED'') (V ''NODE_ENV'')
     (V ''TLS_KEY_PATH'') (V ''TLS_CERT_PATH'') (lit ''./certs/server.key'') (lit ''./certs/server.crt'')"

text \<open>The key and the certificate are read twice; the last flag says whether the port could be bound.\<close>

definition start_server ::
  "(jstr \<Rightarrow> bool) \<Rightarrow> (jstr \<Rightarrow> bool) \<Rightarrow> environment \<Rightarrow> int option \<Rightarrow> bool \<Rightarrow> string + listening" where
  "start_server readable later V pn binds = (case tls_of_environment readable V of
     Inl e \<Rightarrow> Inl e
   | Inr t \<Rightarrow>
       if tls_https t \<and> \<not> (later (tls_key_path t) \<and> later (tls_cert_path t))
       then Inl ''Refusing to start: TLS material became unreadable while binding the HTTPS server''
       else if \<not> binds then Inl ''listen''
       else Inr (if tls_https t then Https_Server pn else Http_Server pn))"

text \<open>The Plus service decides as the Core does.\<close>

definition start_plus ::
  "(jstr \<Rightarrow> bool) \<Rightarrow> (jstr \<Rightarrow> bool) \<Rightarrow> environment \<Rightarrow> int option \<Rightarrow> bool \<Rightarrow> string + listening" where
  "start_plus readable later V pn binds = (case tls_of_environment readable V of
     Inl e \<Rightarrow> Inl e
   | Inr t \<Rightarrow>
       if tls_https t \<and> \<not> (later (tls_key_path t) \<and> later (tls_cert_path t))
       then Inl ''Refusing to start: TLS material became unreadable while binding the HTTPS server''
       else if \<not> binds then Inl ''listen''
       else Inr (if tls_https t then Https_Server pn else Http_Server pn))"

text \<open>The repositories: those given, Postgres at an address, or the browser's; the credentials may have none.\<close>

datatype 'r repository_choice = Given 'r | Postgres_At jstr | Browser_Storage

record 'r core_repositories =
  rp_vaults :: "'r repository_choice"
  rp_credentials :: "'r repository_choice option"

definition choose_repositories :: "environment \<Rightarrow> 'r option \<Rightarrow> 'r option \<Rightarrow> 'r core_repositories" where
  "choose_repositories V vaults credentials =
     (let postgres = (V ''USE_POSTGRES'' = Some (lit ''true'')); url = or_text (V ''DATABASE_URL'') '''' in
      \<lparr>rp_vaults = (case vaults of Some r \<Rightarrow> Given r
          | None \<Rightarrow> if postgres then Postgres_At url else Browser_Storage),
        rp_credentials = (case credentials of Some r \<Rightarrow> Some (Given r)
          | None \<Rightarrow> if postgres then Some (Postgres_At url) else None)\<rparr>)"

text \<open>Run directly: the port, and the exit code of a start that failed.\<close>

definition main_port :: "environment \<Rightarrow> string \<Rightarrow> int option" where
  "main_port V d = parse_int (or_text (V ''PORT'') d)"

definition exit_code :: "string + listening \<Rightarrow> nat option" where
  "exit_code r = (case r of Inl _ \<Rightarrow> Some 1 | Inr _ \<Rightarrow> None)"

definition run_core :: "(jstr \<Rightarrow> bool) \<Rightarrow> (jstr \<Rightarrow> bool) \<Rightarrow> environment \<Rightarrow> bool \<Rightarrow> (string + listening) \<times> nat option" where
  "run_core readable later V binds =
     (let r = start_server readable later V (main_port V ''3000'') binds in (r, exit_code r))"

definition run_plus :: "(jstr \<Rightarrow> bool) \<Rightarrow> (jstr \<Rightarrow> bool) \<Rightarrow> environment \<Rightarrow> bool \<Rightarrow> (string + listening) \<times> nat option" where
  "run_plus readable later V binds =
     (let r = start_plus readable later V (main_port V ''3001'') binds in (r, exit_code r))"

subsection \<open>What a start means\<close>

lemma plus_starts_as_core: "start_plus = start_server"
  by (intro ext) (simp add: start_plus_def start_server_def)

text \<open>A production process serves over TLS with readable material, or exits with 1.\<close>

lemma production_is_https:
  assumes "V ''NODE_ENV'' = Some (lit ''production'')" "start_server readable later V pn binds = Inr l"
  shows "l = Https_Server pn \<and> V ''HTTPS_ENABLED'' = Some (lit ''true'')"
  using assms by (auto simp: start_server_def tls_of_environment_def assert_tls_configuration_def Let_def
      split: sum.splits if_splits)

lemma asked_for_tls_is_tls:
  assumes "V ''HTTPS_ENABLED'' = Some (lit ''true'')" "start_server readable later V pn binds = Inr l"
  shows "l = Https_Server pn
    \<and> (\<exists>k c. readable k \<and> readable c \<and> later k \<and> later c)"
  using assms by (auto simp: start_server_def tls_of_environment_def assert_tls_configuration_def Let_def
      split: sum.splits if_splits) blast

lemma failed_start_exits: "run_core readable later V binds = (Inl e, code) \<Longrightarrow> code = Some 1"
  by (auto simp: run_core_def exit_code_def Let_def)

lemma valid_config_secret:
  assumes "validate_config V = []"
  shows "32 \<le> length (sf_jwt_secret (api_and_security_config V))"
  using assms
  by (auto simp: validate_config_def api_and_security_config_def env_text_def or_text_def absent_def
      split: if_splits option.splits)

lemma valid_production_config:
  assumes "validate_config V = []" "V ''NODE_ENV'' = Some (lit ''production'')"
  shows "\<not> absent (sf_master_key (api_and_security_config V)) \<and> \<not> absent (sf_encryption_salt (api_and_security_config V))"
  using assms by (auto simp: validate_config_def api_and_security_config_def split: if_splits)

text \<open>A check reports an error only for a dependency that is configured and not healthy.\<close>

lemma database_error_iff:
  "fst (run_dependency_checks V vaults credentials adapter) = ''error'' \<longleftrightarrow>
     V ''USE_POSTGRES'' = Some (lit ''true'') \<and> \<not> check_database_health V vaults credentials"
  by (auto simp: run_dependency_checks_def evaluate_health_check_def)

lemma ipfs_error_iff:
  "snd (run_dependency_checks V vaults credentials adapter) = ''error'' \<longleftrightarrow>
     \<not> absent (V ''IPFS_API_URL'') \<and> adapter \<noteq> Some True"
  by (auto simp: run_dependency_checks_def evaluate_health_check_def check_ipfs_health_def healthy_answer_def split: option.splits)

end
