(* ===== verification/Plus_Http.thy ===== *)
theory Plus_Http
  imports Plus_System Rate_Limits Trust_Store Server_Support
begin

text \<open>
  The HTTP side of the Plus API, plus/api/server.ts: configuration, CORS, request tracking,
  the rate limit, the service secret, the routes and the key and audit handlers around the
  handlers of Plus_Gate.  A body is given as what each route reads of it.  The answer is
  sent as a whole: time-outs and sockets are left out.  At the end: the server refines the
  state machine, and what stands behind every capability it answers.
\<close>

subsection \<open>Configuration\<close>

fun split_commas :: "jstr \<Rightarrow> jstr list" where
  "split_commas [] = [[]]"
| "split_commas (c # s) = (if c = 44 then [] # split_commas s
     else (case split_commas s of [] \<Rightarrow> [[c]] | x # xs \<Rightarrow> (c # x) # xs))"

definition read_allowed_origins :: "jstr option \<Rightarrow> jstr list" where
  "read_allowed_origins v = filter (\<lambda>o'. 0 < length o') (map trim (split_commas (or_text v '''')))"

definition read_service_secret :: "jstr option \<Rightarrow> jstr" where
  "read_service_secret v = or_text v ''dev-secret-change-in-production''"

text \<open>One signing key for the issuer and the challenge service; the second text is a generated one.\<close>

definition signing_key_of :: "jstr option \<Rightarrow> jstr \<Rightarrow> jstr" where
  "signing_key_of v generated = (if absent v then generated else the v)"

subsection \<open>Requests\<close>

record plus_body =
  pb_capability :: "capability_gate_request \<times> int option"
  pb_entitlement :: "jstr \<times> jstr \<times> jstr"
  pb_trigger :: "challenge_binding \<times> jstr option \<times> challenge_type option \<times> int option \<times> jstr list option"
  pb_approval :: "jstr \<times> signed_approval option \<times> jstr option"
  pb_audit :: json

text \<open>No path: the address does not parse.  No body: it is not JSON, too large or null.\<close>

record plus_http_request =
  pq_method :: jstr
  pq_path :: "jstr option"
  pq_origin :: "jstr option"
  pq_secret :: "jstr option"
  pq_ip :: jstr
  pq_body :: "plus_body option"
  pq_now :: int
  pq_random :: request_random
  pq_seconds :: rat

datatype plus_answer =
    Handled plus_response
  | Preflight
  | Healthy
  | Ready bool
  | Published_Key jstr
  | Audit_Recorded
  | Too_Many int

record ('s, 'r) plus_server =
  px_world :: "'s plus_world"
  px_active :: int
  px_metrics :: metrics
  px_limiters :: "(jstr \<times> shared_limiter) list"
  px_redis :: 'r
  px_audit :: "json list"

record 'r plus_host =
  ph_redis :: "'r redis_client"
  ph_redis_url :: "jstr option"

definition answer_status :: "plus_answer \<Rightarrow> nat" where
  "answer_status a = (case a of
     Handled (Error_Response n _) \<Rightarrow> n
   | Handled (Capability_Response _) \<Rightarrow> 201 | Handled (Created_Response _ _) \<Rightarrow> 201
   | Handled _ \<Rightarrow> 200
   | Preflight \<Rightarrow> 204 | Healthy \<Rightarrow> 200 | Ready ok \<Rightarrow> if ok then 200 else 503
   | Published_Key _ \<Rightarrow> 200 | Audit_Recorded \<Rightarrow> 200 | Too_Many _ \<Rightarrow> 429)"

definition plus_method_refused :: plus_answer where
  "plus_method_refused = Handled (Error_Response 405 ''Method not allowed'')"

definition internal_error :: plus_answer where
  "internal_error = Handled (Error_Response 500 ''Internal server error'')"

subsection \<open>Tracking and the rate limit\<close>

definition plus_gauge :: "int \<Rightarrow> metrics \<Rightarrow> metrics" where
  "plus_gauge n = metric_gauge (lit ''active_connections'') (lit ''Current active connections'') (of_int n)
     (Some [(lit ''service'', lit ''plus-api'')])"

definition track_request :: "('s, 'r) plus_server \<Rightarrow> ('s, 'r) plus_server" where
  "track_request x = x\<lparr>px_active := px_active x + 1, px_metrics := plus_gauge (px_active x + 1) (px_metrics x)\<rparr>"

definition finish_request :: "plus_http_request \<Rightarrow> jstr \<Rightarrow> nat \<Rightarrow> ('s, 'r) plus_server \<Rightarrow> ('s, 'r) plus_server" where
  "finish_request q path code x =
     (let n = max 0 (px_active x - 1); mth = (if pq_method q = [] then lit ''unknown'' else pq_method q) in
      x\<lparr>px_active := n, px_metrics :=
        metric_histogram (lit ''http_request_duration_seconds'') (lit ''Request duration'') (pq_seconds q)
          (Some [(lit ''method'', mth), (lit ''path'', path)])
        (metric_counter (lit ''http_requests_total'') (lit ''Total HTTP requests'')
          (Some [(lit ''method'', mth), (lit ''path'', path), (lit ''status'', dec_nat code)])
        (plus_gauge n (px_metrics x)))\<rparr>)"

definition plus_rate_limit_window :: int where "plus_rate_limit_window = 60000"
definition plus_rate_limit_max :: int where "plus_rate_limit_max = 60"

text \<open>None: the request may go on; else the seconds of \<^verbatim>\<open>Retry-After\<close>.\<close>

definition check_plus_rate_limit ::
  "'r plus_host \<Rightarrow> plus_http_request \<Rightarrow> ('s, 'r) plus_server \<Rightarrow> int option \<times> ('s, 'r) plus_server" where
  "check_plus_rate_limit H q x =
     (case get_rate_limiter (ph_redis_url H) (lit ''plus-api'') plus_rate_limit_max plus_rate_limit_window (px_limiters x) of
        (l, ls) \<Rightarrow> (case consume_rate (ph_redis H) (pq_now q) (pq_ip q) (l, px_redis x) of (d, l1, r) \<Rightarrow>
          (if rl_allowed d then None else Some (rl_retry_after_seconds d),
           x\<lparr>px_limiters := AList.update (lit ''plus-api'') l1 ls, px_redis := r\<rparr>)))"

subsection \<open>Routes\<close>

definition set_world_state :: "'s plus_state \<Rightarrow> ('s, 'r) plus_server \<Rightarrow> ('s, 'r) plus_server" where
  "set_world_state st x = x\<lparr>px_world := (px_world x)\<lparr>world_state := st\<rparr>\<rparr>"

definition with_body ::
  "plus_http_request \<Rightarrow> ('s, 'r) plus_server \<Rightarrow> (plus_body \<Rightarrow> plus_answer \<times> ('s, 'r) plus_server) \<Rightarrow> plus_answer \<times> ('s, 'r) plus_server" where
  "with_body q x k = (if pq_method q \<noteq> lit ''POST'' then (plus_method_refused, x)
     else (case pq_body q of None \<Rightarrow> (internal_error, x) | Some b \<Rightarrow> k b))"

definition count_capability :: "plus_response \<Rightarrow> capability_gate_request \<Rightarrow> metrics \<Rightarrow> metrics" where
  "count_capability r args m = (case r of
     Capability_Response _ \<Rightarrow> metric_counter (lit ''plus_capabilities_issued_total'') (lit ''Total capabilities issued'')
       (Some [(lit ''assurance'', dec_int (gr_assurance args)), (lit ''operation'', gr_operation args)]) m
   | _ \<Rightarrow> m)"

definition route_capability ::
  "'s challenge_port \<Rightarrow> plus_config \<Rightarrow> plus_http_request \<Rightarrow> ('s, 'r) plus_server \<Rightarrow> plus_answer \<times> ('s, 'r) plus_server" where
  "route_capability P cfg q x = with_body q x (\<lambda>b. case pb_capability b of (args, ttl) \<Rightarrow>
     (case handle_capabilities_request P cfg (pq_now q) (pq_random q) args ttl (world_state (px_world x)) of
       (r, st) \<Rightarrow> (Handled r, set_world_state st (x\<lparr>px_metrics := count_capability r args (px_metrics x)\<rparr>))))"

definition route_entitlement ::
  "plus_config \<Rightarrow> plus_http_request \<Rightarrow> ('s, 'r) plus_server \<Rightarrow> plus_answer \<times> ('s, 'r) plus_server" where
  "route_entitlement cfg q x = with_body q x (\<lambda>b. case pb_entitlement b of (u, r, opn) \<Rightarrow>
     (Handled (handle_entitlements_check cfg (pq_now q) u r opn (world_state (px_world x))), x))"

definition route_trigger ::
  "'s challenge_port \<Rightarrow> plus_config \<Rightarrow> plus_http_request \<Rightarrow> ('s, 'r) plus_server \<Rightarrow> plus_answer \<times> ('s, 'r) plus_server" where
  "route_trigger P cfg q x = with_body q x (\<lambda>b. case pb_trigger b of (bi, device, ty, score, reasons) \<Rightarrow>
     (case handle_challenge_trigger P cfg (pq_now q) (pq_random q) bi device ty score reasons (world_state (px_world x)) of
       (r, st) \<Rightarrow> (Handled r, set_world_state st x)))"

text \<open>The log of accepted approvals is the specification's.\<close>

definition route_approve ::
  "'s challenge_port \<Rightarrow> plus_config \<Rightarrow> plus_http_request \<Rightarrow> ('s, 'r) plus_server \<Rightarrow> plus_answer \<times> ('s, 'r) plus_server" where
  "route_approve P cfg q x = with_body q x (\<lambda>b. case pb_approval b of (cid, tk, device) \<Rightarrow>
     (case handle_challenge_approve P cfg (pq_now q) (pq_random q) cid tk device (world_state (px_world x)) of
       (r, st) \<Rightarrow> (Handled r, x\<lparr>px_world :=
         \<lparr>world_state = st, world_log = log_approval r (pq_now q) tk @ world_log (px_world x)\<rparr>\<rparr>)))"

definition handle_public_key :: "plus_config \<Rightarrow> plus_http_request \<Rightarrow> plus_answer" where
  "handle_public_key cfg q = (if pq_method q \<noteq> lit ''GET'' then plus_method_refused
     else Published_Key (issuer_public_key (pc_issuer cfg)))"

definition handle_audit :: "plus_http_request \<Rightarrow> ('s, 'r) plus_server \<Rightarrow> plus_answer \<times> ('s, 'r) plus_server" where
  "handle_audit q x = with_body q x (\<lambda>b. (Audit_Recorded, x\<lparr>px_audit := px_audit x @ [pb_audit b]\<rparr>))"

text \<open>The checks of \<^verbatim>\<open>handleReady\<close> are constants.\<close>

definition plus_ready :: plus_answer where
  "plus_ready = Ready (list_all (\<lambda>v. v = ''ok'') [''ok'', ''ok'', ''ok''])"

definition route_plus ::
  "'s challenge_port \<Rightarrow> plus_config \<Rightarrow> plus_http_request \<Rightarrow> jstr \<Rightarrow> ('s, 'r) plus_server \<Rightarrow> plus_answer \<times> ('s, 'r) plus_server" where
  "route_plus P cfg q path x =
     (let probe = (path = lit ''/health'' \<or> path = lit ''/ready'') in
      case (if probe then None else authenticate_service_request cfg (pq_secret q)) of
        Some e \<Rightarrow> (Handled (Error_Response 401 e), x)
      | None \<Rightarrow>
          if path = lit ''/health'' then (Healthy, x)
          else if path = lit ''/ready'' then (plus_ready, x)
          else if path = lit ''/api/v1/capabilities/request'' then route_capability P cfg q x
          else if path = lit ''/api/v1/entitlements/check'' then route_entitlement cfg q x
          else if path = lit ''/api/v1/challenges/trigger'' then route_trigger P cfg q x
          else if path = lit ''/api/v1/challenges/approve'' then route_approve P cfg q x
          else if path = lit ''/api/v1/crypto/public-key'' then (handle_public_key cfg q, x)
          else if path = lit ''/api/v1/audit'' then handle_audit q x
          else (Handled (Error_Response 404 ''Not found''), x))"

text \<open>The origin echoed and the answer; no answer when the address does not parse, which rejects.\<close>

definition cors_origin :: "plus_config \<Rightarrow> plus_http_request \<Rightarrow> jstr option" where
  "cors_origin cfg q = (case pq_origin q of None \<Rightarrow> None
     | Some og \<Rightarrow> if is_allowed_origin cfg og then Some og else None)"

definition handle_plus_request ::
  "'s challenge_port \<Rightarrow> plus_config \<Rightarrow> 'r plus_host \<Rightarrow> plus_http_request \<Rightarrow> ('s, 'r) plus_server
     \<Rightarrow> (jstr option \<times> plus_answer) option \<times> ('s, 'r) plus_server" where
  "handle_plus_request P cfg H q x =
     (if pq_method q = lit ''OPTIONS'' then (Some (cors_origin cfg q, Preflight), x)
      else let x1 = track_request x in
        (case pq_path q of
           None \<Rightarrow> (None, x1)
         | Some path \<Rightarrow>
             (case check_plus_rate_limit H q x1 of
                (Some s, x2) \<Rightarrow> (Some (cors_origin cfg q, Too_Many s), finish_request q path 429 x2)
              | (None, x2) \<Rightarrow> (case route_plus P cfg q path x2 of (a, x3) \<Rightarrow>
                  (Some (cors_origin cfg q, a), finish_request q path (answer_status a) x3)))))"

fun serve_plus ::
  "'s challenge_port \<Rightarrow> plus_config \<Rightarrow> 'r plus_host \<Rightarrow> plus_http_request list \<Rightarrow> ('s, 'r) plus_server \<Rightarrow> ('s, 'r) plus_server" where
  "serve_plus P cfg H [] x = x"
| "serve_plus P cfg H (q # qs) x = serve_plus P cfg H qs (snd (handle_plus_request P cfg H q x))"

subsection \<open>The server refines the state machine\<close>

lemma tracking_keeps_world [simp]:
  "px_world (track_request x) = px_world x" "px_world (finish_request q path code x) = px_world x"
  "px_active (finish_request q path code x) = max 0 (px_active x - 1)" "px_active (track_request x) = px_active x + 1"
  by (simp_all add: track_request_def finish_request_def Let_def)

lemma rate_limit_keeps_world:
  "check_plus_rate_limit H q x = (d, x') \<Longrightarrow> px_world x' = px_world x \<and> px_active x' = px_active x \<and> px_audit x' = px_audit x"
  by (auto simp: check_plus_rate_limit_def split: prod.splits)

definition plus_evolves ::
  "'s challenge_port \<Rightarrow> plus_config \<Rightarrow> ('s, 'r) plus_server \<Rightarrow> ('s, 'r) plus_server \<Rightarrow> bool" where
  "plus_evolves P cfg x x' \<longleftrightarrow>
     (px_world x' = px_world x \<or> plus_step P cfg (px_world x) (px_world x')) \<and> px_active x' = px_active x"

lemma evolves_refl [simp]: "plus_evolves P cfg x x"
  by (simp add: plus_evolves_def)

lemma routes_evolve:
  "plus_evolves P cfg x (snd (route_capability P cfg q x))"
  "plus_evolves P cfg x (snd (route_entitlement cfg q x))"
  "plus_evolves P cfg x (snd (route_trigger P cfg q x))"
  "plus_evolves P cfg x (snd (route_approve P cfg q x))"
  "plus_evolves P cfg x (snd (handle_audit q x))"
proof -
  show "plus_evolves P cfg x (snd (route_capability P cfg q x))"
    using plus_step.request [of P cfg _ _ _ _ "px_world x"]
    by (auto simp: route_capability_def with_body_def set_world_state_def plus_evolves_def split: option.split prod.split)
  show "plus_evolves P cfg x (snd (route_entitlement cfg q x))"
    by (auto simp: route_entitlement_def with_body_def plus_evolves_def split: option.split prod.split)
  show "plus_evolves P cfg x (snd (route_trigger P cfg q x))"
    using plus_step.trigger [of P cfg _ _ _ _ _ _ _ "px_world x"]
    by (auto simp: route_trigger_def with_body_def set_world_state_def plus_evolves_def split: option.split prod.split)
  show "plus_evolves P cfg x (snd (route_approve P cfg q x))"
    using plus_step.approve [of P cfg _ _ _ _ _ "px_world x"]
    by (auto simp: route_approve_def with_body_def plus_evolves_def split: option.split prod.split)
  show "plus_evolves P cfg x (snd (handle_audit q x))"
    by (auto simp: handle_audit_def with_body_def plus_evolves_def split: option.split)
qed

lemma routed_evolves: "plus_evolves P cfg x (snd (route_plus P cfg q path x))"
  by (simp add: route_plus_def Let_def routes_evolve split: option.split)

lemma routed_world:
  "route_plus P cfg q path x = (a, x') \<Longrightarrow>
     (px_world x' = px_world x \<or> plus_step P cfg (px_world x) (px_world x')) \<and> px_active x' = px_active x"
  using routed_evolves [of P cfg x q path] by (simp add: plus_evolves_def)

text \<open>What a request that is not a preflight goes through.\<close>

lemma handled_cases:
  assumes "handle_plus_request P cfg H q x = (r, x')"
  obtains "pq_method q = lit ''OPTIONS''" "r = Some (cors_origin cfg q, Preflight)" "x' = x"
  | "pq_path q = None" "r = None" "x' = track_request x"
  | path s x2 where "pq_path q = Some path" "check_plus_rate_limit H q (track_request x) = (Some s, x2)"
      "r = Some (cors_origin cfg q, Too_Many s)" "x' = finish_request q path 429 x2"
  | path x2 a x3 where "pq_path q = Some path" "check_plus_rate_limit H q (track_request x) = (None, x2)"
      "route_plus P cfg q path x2 = (a, x3)" "r = Some (cors_origin cfg q, a)"
      "x' = finish_request q path (answer_status a) x3"
  using assms by (auto simp: handle_plus_request_def Let_def split: if_splits option.splits prod.splits)

lemma handled_world:
  assumes "handle_plus_request P cfg H q x = (r, x')"
  shows "px_world x' = px_world x \<or> plus_step P cfg (px_world x) (px_world x')"
  using assms by (rule handled_cases) (auto dest!: rate_limit_keeps_world routed_world)

lemma served_reachable: "plus_reachable P cfg (px_world x) (px_world (serve_plus P cfg H qs x))"
proof (induction qs arbitrary: x)
  case Nil
  show ?case by (simp add: plus_reachable.start)
next
  case (Cons q qs)
  have trans: "plus_reachable P cfg w0 w2" if "plus_reachable P cfg w1 w2" "plus_reachable P cfg w0 w1" for w0 w1 w2
    using that by (induction rule: plus_reachable.induct) (auto intro: plus_reachable.step)
  have "plus_reachable P cfg (px_world x) (px_world (snd (handle_plus_request P cfg H q x)))"
    using handled_world [of P cfg H q x] by (metis plus_reachable.start plus_reachable.step prod.collapse)
  with Cons [of "snd (handle_plus_request P cfg H q x)"] show ?case by (auto intro: trans)
qed

text \<open>What reaches a handler other than the probes carries the secret.\<close>

lemma secret_required:
  assumes "handle_plus_request P cfg H q x = (Some (og, a), x')" "pq_path q = Some path"
    and "path \<notin> {lit ''/health'', lit ''/ready''}" "answer_status a \<notin> {204, 401, 429}"
  shows "\<exists>s. pq_secret q = Some s \<and> s \<noteq> [] \<and> utf8_encode s = utf8_encode (pc_service_secret cfg)"
  using assms(1)
proof (rule handled_cases)
  fix path' x2 a' x3
  assume "pq_path q = Some path'" "route_plus P cfg q path' x2 = (a', x3)" "Some (og, a) = Some (cors_origin cfg q, a')"
  with assms(2-4) have "authenticate_service_request cfg (pq_secret q) = None"
    by (auto simp: route_plus_def Let_def answer_status_def split: option.splits)
  then show ?thesis by (auto simp: authenticate_service_request_def Let_def split: option.splits if_splits)
qed (use assms in \<open>auto simp: answer_status_def\<close>)

lemma unauthenticated_unchanged:
  assumes "handle_plus_request P cfg H q x = (r, x')" "authenticate_service_request cfg (pq_secret q) = Some e"
  shows "px_world x' = px_world x"
proof -
  have same: "px_world x3 = px_world x2" if "route_plus P cfg q path x2 = (a, x3)" for path x2 a x3
    using that assms(2) by (auto simp: route_plus_def Let_def split: option.splits if_splits)
  then show ?thesis
    using assms(1) by (auto elim!: handled_cases dest!: rate_limit_keeps_world dest: same)
qed

text \<open>Only a configured origin is echoed, and it is the one of the request.\<close>

lemma cors_exact: "cors_origin cfg q = Some og \<Longrightarrow> pq_origin q = Some og \<and> og \<in> set (pc_allowed_origins cfg)"
  by (auto simp: cors_origin_def is_allowed_origin_def split: option.splits if_splits)

lemma no_origins_no_cors: "read_allowed_origins None = []"
  by (simp add: read_allowed_origins_def or_text_def lit_def)

text \<open>Every answered request leaves the connection counter as it was; one that does not parse keeps it raised.\<close>

lemma connections_return:
  assumes "handle_plus_request P cfg H q x = (Some r, x')" "0 \<le> px_active x"
  shows "px_active x' = px_active x"
  using assms by (auto elim!: handled_cases dest!: rate_limit_keeps_world routed_world)

lemma malformed_address_leaks:
  assumes "pq_method q \<noteq> lit ''OPTIONS''" "pq_path q = None"
  shows "fst (handle_plus_request P cfg H q x) = None"
    and "px_active (snd (handle_plus_request P cfg H q x)) = px_active x + 1"
  using assms by (simp_all add: handle_plus_request_def Let_def)

subsection \<open>What stands behind a capability\<close>

text \<open>Every request served, in order, with the server it met and the answer it got.\<close>

fun plus_served ::
  "'s challenge_port \<Rightarrow> plus_config \<Rightarrow> 'r plus_host \<Rightarrow> plus_http_request list \<Rightarrow> ('s, 'r) plus_server
     \<Rightarrow> (('s, 'r) plus_server \<times> plus_http_request \<times> (jstr option \<times> plus_answer) option) list" where
  "plus_served P cfg H [] x = []"
| "plus_served P cfg H (q # qs) x = (case handle_plus_request P cfg H q x of (r, x') \<Rightarrow>
     (x, q, r) # plus_served P cfg H qs x')"

definition answered_token :: "(jstr option \<times> plus_answer) option \<Rightarrow> signed_capability option" where
  "answered_token r = (case r of
     Some (_, Handled (Capability_Response out)) \<Rightarrow> Some (ok_token out)
   | Some (_, Handled (Approved_Response tk)) \<Rightarrow> Some tk
   | _ \<Rightarrow> None)"

text \<open>
  Why Plus answers a request with the payload: the request carries the service secret and
  either the gate justifies it as it stands, or it presents an approval that verifies
  under the pinned key of Core and is bound to the user, resource, operation and secret.
\<close>

definition gate_stands_behind ::
  "'s challenge_port \<Rightarrow> plus_config \<Rightarrow> ('s, 'r) plus_server \<Rightarrow> plus_http_request \<Rightarrow> plus_body \<Rightarrow> capability_payload \<Rightarrow> bool" where
  "gate_stands_behind P cfg x q b p \<longleftrightarrow> (\<exists>args ttl. pb_capability b = (args, ttl)
     \<and> gate_justified P cfg (pq_now q) args (world_state (px_world x))
     \<and> cp_user_id p = gr_user_id args \<and> cp_resource_id p = gr_resource_id args
     \<and> cp_operation p = gr_operation args \<and> cp_secret_ref p = gr_secret_ref args \<and> cp_device_id p = gr_device_id args)"

definition approval_stands_behind :: "plus_config \<Rightarrow> plus_http_request \<Rightarrow> plus_body \<Rightarrow> capability_payload \<Rightarrow> bool" where
  "approval_stands_behind cfg q b p \<longleftrightarrow> (\<exists>cid tk device i. pb_approval b = (cid, Some tk, device)
     \<and> core_approved cfg [(pq_now q, tk)] \<lparr>ab_challenge_id = i, ab_user_id = cp_user_id p,
          ab_resource_id = cp_resource_id p, ab_operation = cp_operation p, ab_secret_ref = cp_secret_ref p\<rparr>)"

definition plus_authorizes ::
  "'s challenge_port \<Rightarrow> plus_config \<Rightarrow> ('s, 'r) plus_server \<Rightarrow> plus_http_request \<Rightarrow> capability_payload \<Rightarrow> bool" where
  "plus_authorizes P cfg x q p \<longleftrightarrow> authenticate_service_request cfg (pq_secret q) = None
     \<and> (\<exists>b. pq_body q = Some b \<and> (gate_stands_behind P cfg x q b p \<or> approval_stands_behind cfg q b p))
     \<and> cp_operation p \<in> set capability_operations \<and> cp_iat p = pq_now q div 1000"

lemma mint_fields:
  assumes "mint_step_up_capability C sv now jb device c = Inr tk"
  shows "cp_user_id (sg_payload tk) = ch_user_id c" "cp_resource_id (sg_payload tk) = ch_resource_id c"
    "cp_operation (sg_payload tk) = ch_operation c" "cp_secret_ref (sg_payload tk) = ch_secret_ref c"
    "cp_iat (sg_payload tk) = now div 1000"
  using assms create_payload_fields sign_capability_payload
  by (auto simp: mint_step_up_capability_def split: sum.splits)

lemma approval_succeeded:
  assumes "verify_challenge_approval S C P sv env now jb input s jtis = (Inr (Approval_Succeeded tk), s', j')"
  obtains c where "chp_find_by_id P s (avi_challenge_id input) = Inr (Some c)"
    "approval_refusal S C env now c (avi_approval input) = None"
    "mint_step_up_capability C sv now jb (avi_device_id input) c = Inr tk"
    "verify_capability C (now div 1000) tk (drop 32 (cs_private_key sv)) None = Valid"
  using assms
  by (auto simp: verify_challenge_approval_def Let_def split: sum.splits option.splits if_splits prod.splits jti_verdict.splits)

lemma approve_answer:
  assumes "handle_challenge_approve P cfg now rnd cid tk device st = (Approved_Response cap, st')"
  obtains a c where "tk = Some a" "chp_find_by_id P (ps_challenges st) cid = Inr (Some c)"
    "approval_refusal (pc_subtle cfg) (pc_curve cfg) (pc_approval_key cfg) now c a = None"
    "mint_step_up_capability (pc_curve cfg) (pc_service cfg) now (rr_jti_bytes rnd) device c = Inr cap"
    "cp_operation (sg_payload cap) \<in> set capability_operations"
proof -
  obtain a where a: "tk = Some a" using assms by (cases tk) (auto simp: handle_challenge_approve_def)
  obtain s j where "verify_challenge_approval (pc_subtle cfg) (pc_curve cfg) P (pc_service cfg) (pc_approval_key cfg) now
      (rr_jti_bytes rnd) \<lparr>avi_challenge_id = cid, avi_approval = a, avi_device_id = device\<rparr> (ps_challenges st) (ps_jtis st)
    = (Inr (Approval_Succeeded cap), s, j)"
    using assms by (auto simp: handle_challenge_approve_def a Let_def split: if_splits prod.splits sum.splits approval_result.splits)
  then show ?thesis using a that
    by (auto elim!: approval_succeeded simp: verify_capability_valid_iff capability_acceptable_def Let_def)
qed

lemma capability_route_authorizes:
  assumes "route_capability P cfg q x = (Handled (Capability_Response out), x')"
    "authenticate_service_request cfg (pq_secret q) = None"
  shows "plus_authorizes P cfg x q (sg_payload (ok_token out))"
proof -
  obtain b args ttl st where b: "pq_body q = Some b" "pb_capability b = (args, ttl)"
    "handle_capabilities_request P cfg (pq_now q) (pq_random q) args ttl (world_state (px_world x)) = (Capability_Response out, st)"
    using assms(1) by (auto simp: route_capability_def with_body_def plus_method_refused_def internal_error_def
        split: if_splits option.splits prod.splits)
  have g: "gate_justified P cfg (pq_now q) args (world_state (px_world x))" "gr_operation args \<in> set capability_operations"
    "issue_for_assurance cfg (pq_now q) (pq_random q) args ttl = Inr out"
    using handler_issues_iff [of P cfg "pq_now q" "pq_random q" args ttl "world_state (px_world x)" "\<lambda>x. x = out"] b(3) by simp_all
  show ?thesis
    using issue_for_assurance_fields [OF g(3)] g b assms(2) by (auto simp: plus_authorizes_def gate_stands_behind_def)
qed

lemma approve_route_authorizes:
  assumes "route_approve P cfg q x = (Handled (Approved_Response cap), x')"
    "authenticate_service_request cfg (pq_secret q) = None"
  shows "plus_authorizes P cfg x q (sg_payload cap)"
proof -
  obtain b cid tk device st where b: "pq_body q = Some b" "pb_approval b = (cid, tk, device)"
    "handle_challenge_approve P cfg (pq_now q) (pq_random q) cid tk device (world_state (px_world x)) = (Approved_Response cap, st)"
    using assms(1) by (auto simp: route_approve_def with_body_def plus_method_refused_def internal_error_def
        split: if_splits option.splits prod.splits)
  obtain a c where a: "tk = Some a" "approval_refusal (pc_subtle cfg) (pc_curve cfg) (pc_approval_key cfg) (pq_now q) c a = None"
    "mint_step_up_capability (pc_curve cfg) (pc_service cfg) (pq_now q) (rr_jti_bytes (pq_random q)) device c = Inr cap"
    "cp_operation (sg_payload cap) \<in> set capability_operations"
    using approve_answer [OF b(3)] by metis
  have "core_approved cfg [(pq_now q, a)] (expected_binding c)"
    using approval_not_refused [OF a(2)] by (auto simp: core_approved_def)
  then have "approval_stands_behind cfg q b (sg_payload cap)"
    using b(2) a(1) mint_fields [OF a(3)] by (auto simp: approval_stands_behind_def expected_binding_def)
  then show ?thesis using b(1) a(4) mint_fields [OF a(3)] assms(2) by (auto simp: plus_authorizes_def)
qed

text \<open>A capability comes from the two routes that issue one.\<close>

lemma token_cases:
  assumes "answered_token (Some (og, a)) = Some tk"
  obtains out where "a = Handled (Capability_Response out)" "tk = ok_token out" | "a = Handled (Approved_Response tk)"
  using assms by (auto simp: answered_token_def split: plus_answer.splits plus_response.splits)

lemma capability_handler_token:
  "fst (handle_capabilities_request P cfg now rnd args ttl st) \<noteq> Approved_Response tk"
  by (simp add: handle_capabilities_request_def split: sum.split prod.split capability_authorization.split)

lemma approve_handler_token:
  "fst (handle_challenge_approve P cfg now rnd cid tk device st) \<noteq> Capability_Response out"
  by (simp add: handle_challenge_approve_def Let_def split: option.split prod.split sum.split approval_result.split)

lemma trigger_handler_token:
  "answered_token (Some (og, Handled (fst (handle_challenge_trigger P cfg now rnd b device ct score reasons st)))) = None"
  by (simp add: handle_challenge_trigger_def answered_token_def split: prod.split sum.split)

lemma entitlement_handler_token:
  "answered_token (Some (og, Handled (handle_entitlements_check cfg now u r ope st))) = None"
  by (simp add: handle_entitlements_check_def answered_token_def Let_def split: option.split)

lemma with_body_token:
  assumes "with_body q x k = (a, x')" "answered_token (Some (og, a)) = Some tk"
  obtains b where "pq_body q = Some b" "k b = (a, x')"
  using assms by (auto simp: with_body_def plus_method_refused_def internal_error_def answered_token_def
      split: if_splits option.splits)

lemma other_routes_token:
  "answered_token (Some (og, fst (route_entitlement cfg q x))) = None"
  "answered_token (Some (og, fst (route_trigger P cfg q x))) = None"
  "answered_token (Some (og, handle_public_key cfg q)) = None"
  "answered_token (Some (og, fst (handle_audit q x))) = None"
proof -
  show "answered_token (Some (og, fst (route_entitlement cfg q x))) = None"
    using entitlement_handler_token
    by (auto simp: route_entitlement_def with_body_def plus_method_refused_def internal_error_def split: option.split prod.split)
       (simp_all add: answered_token_def)
  show "answered_token (Some (og, fst (route_trigger P cfg q x))) = None"
    using trigger_handler_token [of og P cfg]
    by (auto simp: route_trigger_def with_body_def plus_method_refused_def internal_error_def split: option.split prod.split)
       (simp_all add: answered_token_def, metis fst_conv)
qed (simp_all add: handle_public_key_def handle_audit_def with_body_def plus_method_refused_def internal_error_def
      answered_token_def split: option.split)

lemma plain_answers_token:
  "answered_token (Some (og, Healthy)) = None" "answered_token (Some (og, plus_ready)) = None"
  "answered_token (Some (og, Handled (Error_Response n e))) = None"
  by (simp_all add: answered_token_def plus_ready_def)

lemma capability_route_token:
  assumes "answered_token (Some (og, fst (route_capability P cfg q x))) = Some tk"
  obtains out x' where "route_capability P cfg q x = (Handled (Capability_Response out), x')" "tk = ok_token out"
proof -
  obtain a x' where r: "route_capability P cfg q x = (a, x')" by fastforce
  have "a \<noteq> Handled (Approved_Response tk)"
    using r capability_handler_token [of P cfg "pq_now q" "pq_random q"]
    by (auto simp: route_capability_def with_body_def plus_method_refused_def internal_error_def
        split: if_splits option.splits prod.splits) (metis fst_conv)
  then show ?thesis using assms r by (auto elim!: token_cases intro: that)
qed

lemma approve_route_token:
  assumes "answered_token (Some (og, fst (route_approve P cfg q x))) = Some tk"
  obtains x' where "route_approve P cfg q x = (Handled (Approved_Response tk), x')"
proof -
  obtain a x' where r: "route_approve P cfg q x = (a, x')" by fastforce
  have "a \<noteq> Handled (Capability_Response out)" for out
    using r approve_handler_token [of P cfg "pq_now q" "pq_random q"]
    by (auto simp: route_approve_def with_body_def plus_method_refused_def internal_error_def
        split: if_splits option.splits prod.splits) (metis fst_conv)
  then show ?thesis using assms r by (auto elim!: token_cases intro: that)
qed

lemma routed_authorizes:
  assumes "answered_token (Some (og, fst (route_plus P cfg q path x))) = Some tk"
  shows "plus_authorizes P cfg x q (sg_payload tk)"
proof -
  have auth: "authenticate_service_request cfg (pq_secret q) = None"
    using assms by (auto simp: route_plus_def Let_def answered_token_def plus_ready_def split: option.splits if_splits)
  have "answered_token (Some (og, fst (route_capability P cfg q x))) = Some tk
      \<or> answered_token (Some (og, fst (route_approve P cfg q x))) = Some tk"
    using assms auth other_routes_token(1) [of og cfg q x] other_routes_token(3) [of og cfg q] other_routes_token(4) [of og q x]
      other_routes_token(2) [of og P cfg q x]
    by (simp add: route_plus_def Let_def plain_answers_token split: if_splits)
  then show ?thesis
    using auth by (auto elim!: capability_route_token approve_route_token
        dest: capability_route_authorizes approve_route_authorizes)
qed

lemma answered_authorizes:
  assumes "handle_plus_request P cfg H q x = (r, x')" "answered_token r = Some tk"
  shows "plus_authorizes P cfg x q (sg_payload tk)"
  using assms(1)
proof (cases rule: handled_cases)
  case (4 path x2 a x3)
  have w: "px_world x2 = px_world x" using rate_limit_keeps_world [OF 4(2)] by simp
  have "plus_authorizes P cfg x2 q (sg_payload tk)"
    using routed_authorizes [of "cors_origin cfg q" P cfg q path x2 tk] 4(3,4) assms(2) by simp
  then show ?thesis by (simp add: plus_authorizes_def gate_stands_behind_def w)
qed (use assms(2) in \<open>auto simp: answered_token_def\<close>)

lemma served_authorizes:
  "(x, q, r) \<in> set (plus_served P cfg H qs x0) \<Longrightarrow> answered_token r = Some tk \<Longrightarrow> plus_authorizes P cfg x q (sg_payload tk)"
  by (induction qs arbitrary: x0) (auto dest: answered_authorizes [OF sym] split: prod.splits)

lemma served_world_reachable:
  "(x, q, r) \<in> set (plus_served P cfg H qs x0) \<Longrightarrow> plus_reachable P cfg (px_world x0) (px_world x)"
proof -
  have "\<exists>before. x = serve_plus P cfg H before x0" if "(x, q, r) \<in> set (plus_served P cfg H qs x0)" for x q r
    using that
  proof (induction qs arbitrary: x0)
    case (Cons q' qs)
    obtain r' x1 where h: "handle_plus_request P cfg H q' x0 = (r', x1)" by fastforce
    show ?case
    proof (cases "x = x0")
      case True
      then show ?thesis by (intro exI [of _ "[]"]) simp
    next
      case False
      then obtain before where "x = serve_plus P cfg H before x1" using Cons h by auto
      then show ?thesis using h by (intro exI [of _ "q' # before"]) simp
    qed
  qed simp
  then show "(x, q, r) \<in> set (plus_served P cfg H qs x0) \<Longrightarrow> ?thesis" using served_reachable by blast
qed

end
