(* ===== verification/Core_Properties.thy ===== *)
theory Core_Properties
  imports Core_Access Managed_Properties Step_Up_Properties Plus_Properties Plus_Http
begin

text \<open>
  The properties of the HTTP routes of Core, and a concrete exchange they are applied to;
  and what joins Core to Plus: a share that Core releases was granted by Plus.
\<close>

subsection \<open>A concrete exchange\<close>

text \<open>A token is the text of its claims; user \<^verbatim>\<open>u\<close> owns vault \<^verbatim>\<open>v\<close>.\<close>

definition cs_sign :: "json \<Rightarrow> jstr \<Rightarrow> jstr" where
  "cs_sign j secret = (case j of
     JObj [(_, JStr sub), (_, JStr jti), (_, JStr kind), (_, JNum t), (_, JNum x)] \<Rightarrow>
       [length sub, length jti, nat t, nat (- t), nat x, nat (- x)] @ sub @ jti @ kind
   | _ \<Rightarrow> [])"

definition cs_verify :: "int \<Rightarrow> jstr \<Rightarrow> jstr \<Rightarrow> json option" where
  "cs_verify now tok secret = (case tok of
     s # j # i # i' # e # e' # r \<Rightarrow> Some (JObj
       [(lit ''sub'', JStr (take s r)), (lit ''jti'', JStr (take j (drop s r))),
        (lit ''type'', JStr (drop j (drop s r))), (lit ''iat'', JNum (int i - int i')),
        (lit ''exp'', JNum (int e - int e'))])
   | _ \<Rightarrow> None)"

definition cs_jwt :: jwt where
  "cs_jwt = \<lparr>jwt_sign = cs_sign, jwt_verify = cs_verify\<rparr>"

lemma cs_jwt_reads_back: "jwt_reads_back cs_jwt"
  by (simp add: jwt_reads_back_def cs_jwt_def cs_sign_def cs_verify_def token_payload_def)

definition cs_env :: "(share_table, unit) core_env" where
  "cs_env = \<lparr>ke_web = sample_web, ke_subtle = sample_subtle, ke_curve = sample_curve, ke_dates = su_dates,
     ke_crypto = su_crypto, ke_jwt = cs_jwt, ke_log2 = (\<lambda>x. x),
     ke_number = \<lparr>nf_text = (\<lambda>x. []), nf_fixed = (\<lambda>x n. [])\<rparr>, ke_jwt_secret = Some [7], ke_production = True, ke_step_up = su_env,
     ke_share_port = postgres_port, ke_kek_secret = Some (replicate 32 8), ke_plus_key = Some (replicate 32 1),
     ke_platform_error = [], ke_redis = \<lparr>rd_waiting = (\<lambda>r. False), rd_connect = (\<lambda>r. (None, r)),
       rd_incr = (\<lambda>k r. (None, r)), rd_expire = (\<lambda>k n r. (None, r)), rd_ttl = (\<lambda>k r. (None, r))\<rparr>,
     ke_redis_url = None, ke_database = None, ke_ipfs = None, ke_static = (\<lambda>p. False)\<rparr>"

definition cs_vault_row :: vault_row where
  "cs_vault_row = su_vault_row\<lparr>vr_id := lit ''v'', vr_owner_id := Some (lit ''u'')\<rparr>"

definition cs_state :: "(share_table, unit) core_state" where
  "cs_state = \<lparr>ks_step_up = su_start\<lparr>ss_db := \<lparr>db_vaults = [cs_vault_row], db_credentials = []\<rparr>\<rparr>,
     ks_login = (\<lambda>_. None), ks_shares = \<lparr>st_rows = [], st_outage = None\<rparr>, ks_jtis = empty_jti_store,
     ks_limiters = [], ks_redis = ()\<rparr>"

definition cs_token :: "int \<Rightarrow> jstr" where
  "cs_token now = lit ''Bearer '' @ generate_token cs_jwt now [9] (lit ''u'') [7]"

definition cs_request :: core_request where
  "cs_request = \<lparr>kq_verb = Http_Get, kq_path = lit ''/api/v1/vaults'', kq_ip = [], kq_authorization = Some (cs_token 1001000),
     kq_body = Inl [], kq_token = None, kq_now = 1001000, kq_uuid = (\<lambda>n. lit ''s''), kq_salt = [1],
     kq_random1 = [], kq_random2 = [], kq_source = (\<lambda>_ _. 0), kq_authoring = sample_managed_random\<rparr>"

lemma cs_limit:
  assumes "ks_limiters st = []"
  shows "fst (check_rate_limit_core cs_env rq st)"
  using assms
  by (simp add: check_rate_limit_core_def limiter_allows_def cs_env_def get_rate_limiter_def
      new_shared_limiter_def usable_redis_url_def consume_rate_def try_redis_def consume_local_def Let_def)

lemma cs_core_step:
  assumes "ks_limiters st = []"
  obtains st1 where "core_step cs_env rq st = route_request cs_env rq st1" "ks_db st1 = ks_db st"
    "ks_shares st1 = ks_shares st" "ks_jtis st1 = ks_jtis st"
  using cs_limit [OF assms, of rq] limiter_keeps(1-3) [of "lit ''core-api''" rate_limit_max rate_limit_window cs_env rq st]
  by (cases "check_rate_limit_core cs_env rq st") (simp add: check_rate_limit_core_def ks_db_def core_step_def)

lemma cs_secret: "configured_secret cs_env = Some [7]"
  by (simp add: configured_secret_def cs_env_def)

lemma cs_authenticates:
  assumes "kq_now rq = 1001000" "kq_authorization rq = Some (cs_token 1001000)"
  shows "handle_auth_route cs_env rq st h = h (Some (lit ''u''))"
proof -
  have "authenticate cs_jwt 1001 (Some [7]) (Some (cs_token 1001000)) = Auth_Passed (Some (lit ''u''))"
    unfolding cs_token_def by (rule access_token_authenticates [OF cs_jwt_reads_back]) simp_all
  then show ?thesis using assms cs_secret by (simp add: handle_auth_route_def cs_env_def)
qed

text \<open>An authoring request for that vault, and a release request for what it stored.\<close>

definition cs_author_body :: json where
  "cs_author_body = JObj [(lit ''origin'', JStr (lit ''https://a.io'')), (lit ''username'', JStr (lit ''bob'')),
     (lit ''password'', JStr (lit ''pw'')), (lit ''vek'', JStr (lit ''BQUF''))]"

definition cs_author :: core_request where
  "cs_author = cs_request\<lparr>kq_verb := Http_Post, kq_path := lit ''/api/v1/vaults/v/managed-credentials'',
     kq_body := Inr cs_author_body\<rparr>"

definition cs_release :: core_request where
  "cs_release = cs_request\<lparr>kq_verb := Http_Post, kq_path := lit ''/api/v1/vaults/v/managed-release'',
     kq_body := Inr (JObj [(lit ''credentialId'', JStr (lit ''c1''))]), kq_token := Some sample_token\<rparr>"

lemma cs_vek: "decode_managed_vek cs_author_body = Inr (Some [5, 5, 5])"
proof -
  have "text_field cs_author_body ''vek'' = lit ''BQUF''"
    by (simp add: text_field_def string_property_def property_of_def cs_author_body_def) (simp add: lit_def)
  moreover have "trim (lit ''BQUF'') = lit ''BQUF''"
    by (rule trim_no_space) (simp add: lit_def js_space_def)
  moreover have "base64_to_binary (lit ''BQUF'') = Some [5, 5, 5]"
    by (simp add: base64_to_binary_def atob_values_def lit_def strip_padding_def ascii_space_def b64_value_def ends_with_def bytes_of_def)
  moreover have "lit ''BQUF'' \<noteq> []" by (simp add: lit_def)
  ultimately show ?thesis by (simp add: decode_managed_vek_def)
qed

lemma cs_author_input:
  "authoring_input_of cs_author_body (lit ''s'') (Some [5, 5, 5]) =
     \<lparr>mi_origin = Some (lit ''https://a.io''), mi_username = Some (lit ''bob''), mi_password = lit ''pw'',
      mi_title = Some [], mi_totp_seed_base32 = None, mi_vek = Some [5, 5, 5], mi_secret_ref = Some (lit ''s''),
      mi_existing_index = None, mi_id = None\<rparr>"
  by (simp add: authoring_input_of_def text_field_def string_property_def property_of_def cs_author_body_def)
    (simp add: lit_def)

lemma cs_authored:
  "\<exists>out s. managed_authoring_execute sample_web sample_subtle postgres_port [] (Some (replicate 32 8))
       (authoring_input_of cs_author_body (lit ''s'') (Some [5, 5, 5])) sample_managed_random now \<lparr>st_rows = [], st_outage = None\<rparr>
       = (Inr out, s)
     \<and> release_share_ref (au_record out) = Some (lit ''s'') \<and> encrypted_record.er_id (au_record out) = lit ''c1''"
  unfolding cs_author_input
  by (simp add: managed_authoring_execute_def validate_managed_origin_def
        absolute_prefix_def scheme_char_def starts_with_def sample_eval validate_managed_fields_def
        effective_username_def effective_title_def derive_kek_or_reject_def derive_release_share_kek_def
        release_share_kek_secret_bytes_def sample_subtle_def sample_managed_random_def kek_bits_def
        seal_managed_secrets_def derive_managed_entry_key_def derived_key_decodes seal_def
        compute_lookup_token_def wrap_and_persist_share_def wrap_release_share_def postgres_port_def
        pg_share_save_def pg_statement_def upsert_share_def Let_def)

lemma cs_found_vault: "db_vaults db = [cs_vault_row] \<Longrightarrow>
  \<exists>v. find_by_vault_and_owner sample_subtle su_dates db (lit ''v'') (lit ''u'') = Inr (Some v)"
  by (simp add: find_by_vault_and_owner_def cs_vault_row_def read_vault_def map_vault_row_def su_vault_row_def
      parse_jsonb_column_def vault_from_plain_def) (simp add: lit_def)

lemma cs_author_handled:
  obtains out st where "handle_vault_managed_credential cs_env cs_author (Some (lit ''u'')) (lit ''v'') cs_state
      = (Authored (lit ''c1'') out, st)" "release_share_ref (au_record out) = Some (lit ''s'')"
    "ks_jtis st = empty_jti_store" "db_vaults (ks_db st) = [cs_vault_row]" "ks_limiters st = []"
proof -
  obtain out s where m: "managed_authoring_execute sample_web sample_subtle postgres_port [] (Some (replicate 32 8))
       (authoring_input_of cs_author_body (lit ''s'') (Some [5, 5, 5])) sample_managed_random 1001000
       \<lparr>st_rows = [], st_outage = None\<rparr> = (Inr out, s)"
    and r: "release_share_ref (au_record out) = Some (lit ''s'')" "encrypted_record.er_id (au_record out) = lit ''c1''"
    using cs_authored by blast
  have n: "lit ''v'' \<noteq> []" "lit ''c1'' \<noteq> []" "lit ''u'' \<noteq> []" by (simp_all add: lit_def)
  obtain st where p: "persist_authored cs_env 1001000 (lit ''v'') out (cs_state\<lparr>ks_shares := s\<rparr>) = (Authored (lit ''c1'') out, st)"
    "ks_jtis st = empty_jti_store" "db_vaults (ks_db st) = [cs_vault_row]" "ks_limiters st = []"
    using r n by (simp add: persist_authored_def cs_env_def authored_row_def from_plain_object_def credential_save_def
        credential_blind_save_def Let_def credential_constraint_def vault_row_of_def ks_db_def cs_state_def su_start_def
        cs_vault_row_def credential_row_of_def to_plain_object_def insert_credential_row_def read_credential_def
        map_credential_row_def set_ks_db_def)
  obtain v where v: "find_by_vault_and_owner sample_subtle su_dates (ks_db cs_state) (lit ''v'') (lit ''u'') = Inr (Some v)"
    using cs_found_vault [of "ks_db cs_state"] by (auto simp: cs_state_def ks_db_def)
  have "author_in_vault cs_env cs_author (lit ''v'') cs_state = (Authored (lit ''c1'') out, st)"
    using m p cs_vek by (simp add: author_in_vault_def cs_author_def cs_request_def read_body_def cs_env_def su_env_def
        cs_state_def) (simp add: cs_author_body_def)
  then have "handle_vault_managed_credential cs_env cs_author (Some (lit ''u'')) (lit ''v'') cs_state
      = (Authored (lit ''c1'') out, st)"
    using v n by (simp add: handle_vault_managed_credential_def with_own_vault_def absent_def cs_env_def)
  then show ?thesis using r(1) p that by blast
qed

lemma cs_release_body:
  obtains data where "read_body cs_release ''capabilityToken'' = Inr data" "text_field data ''deviceId'' = []"
    "trim (text_field data ''credentialId'') = lit ''c1''"
  by (simp add: read_body_def cs_release_def text_field_def string_property_def property_of_def lit_def trim_def js_space_def)

lemma cs_release_route: "route_of_path (kq_path cs_release) = R_Vault (lit ''v'') (lit ''/managed-release'')"
proof -
  obtain p where p: "p = lit ''/api/v1/vaults/v/managed-release''" by simp
  have "map_of fixed_routes p = None" unfolding p by (simp add: fixed_routes_def lit_def)
  moreover have "strip_prefix (lit ''/api/v1/vaults/'') p = Some (lit ''v/managed-release'')"
    unfolding p by (simp add: strip_prefix_def starts_with_def lit_def)
  then have "vault_path p = Some (lit ''v'', lit ''/managed-release'')"
    by (simp add: vault_path_def path_id_char_def alnum_def ascii_letter_def is_digit_def lit_def)
  ultimately show ?thesis by (simp add: route_of_path_def cs_release_def p [symmetric])
qed

lemma cs_capability: "ks_jtis st = empty_jti_store \<Longrightarrow> capability_releases cs_env cs_release st (lit ''u'') (lit ''s'') []"
proof -
  assume j: "ks_jtis st = empty_jti_store"
  have "capability_bound sample_payload (release_binding (lit ''u'') (lit ''s'') [])"
    using sample_bound by (simp add: release_binding_def sample_context_def)
  moreover have "sg_payload sample_token = sample_payload" "sg_signature sample_token \<noteq> []"
    by (simp_all add: sample_token_def binary_to_base64_nonempty)
  ultimately show ?thesis
    using j sample_acceptable [of 1001] sample_payload_fields
    by (simp add: capability_releases_def cs_release_def cs_request_def cs_env_def jti_spent_def empty_jti_store_def)
qed

text \<open>The release request is answered on the state authoring left.\<close>

lemma cs_release_answered:
  assumes a: "handle_vault_managed_credential cs_env cs_author (Some (lit ''u'')) (lit ''v'') cs_state
      = (Authored (lit ''c1'') out, st)" "release_share_ref (au_record out) = Some (lit ''s'')"
      "ks_jtis st = empty_jti_store" "db_vaults (ks_db st) = [cs_vault_row]" "ks_limiters st = []"
    and k: "ks_db st1 = ks_db st" "ks_shares st1 = ks_shares st" "ks_jtis st1 = ks_jtis st"
  shows "\<exists>ro. fst (handle_vault_managed_release cs_env cs_release (Some (lit ''u'')) (lit ''v'') st1) = Released ro"
proof -
  have e: "aead_ok (ke_subtle cs_env)" "ke_share_port cs_env = postgres_port"
    "length (mr_iv_wrap (kq_authoring cs_author)) = wrap_iv_len"
    "credential_row_of (ks_db cs_state) (mr_id (kq_authoring cs_author)) = None"
    by (simp_all add: cs_env_def sample_aead_ok cs_author_def cs_request_def sample_managed_random_def wrap_iv_len_def
        cs_state_def ks_db_def credential_row_of_def)
  obtain c v where c: "is_managed c" "cr_vault_id c = lit ''v''" "cr_release_share_ref c = Some (lit ''s'')"
    "se_has_credentials (ke_step_up cs_env)"
    "find_by_vault_and_owner (ke_subtle cs_env) (ke_dates cs_env) (ks_db st) (lit ''v'') (lit ''u'') = Inr (Some v)"
    "credential_find_by_id (ke_dates cs_env) (ks_db st) (lit ''c1'') = Inr (Some c)"
    "find_by_secret_ref (ke_dates cs_env) (ks_db st) (lit ''s'') = Inr (Some c)"
    "stored_share cs_env st (lit ''s'') (mr_share (kq_authoring cs_author))"
    using authored_for_release [OF a(1) e(2,1,3,4)] a(2) by auto
  obtain data where d: "read_body cs_release ''capabilityToken'' = Inr data" "text_field data ''deviceId'' = []"
    "trim (text_field data ''credentialId'') = lit ''c1''" by (rule cs_release_body)
  have n: "lit ''u'' \<noteq> []" "lit ''v'' \<noteq> []" "lit ''c1'' \<noteq> []" by (simp_all add: lit_def)
  have "stored_share cs_env st1 (lit ''s'') (mr_share (kq_authoring cs_author))"
    using c(8) k by (simp add: stored_share_def)
  then have "\<exists>ro. fst (release_in_vault cs_env cs_release (lit ''u'') (lit ''v'') st1) = Released ro"
    using c d n k cs_capability [of st1] a(3) by (auto simp: release_in_vault_iff)
  then show ?thesis using c(5) n k by (simp add: handle_vault_managed_release_def with_own_vault_def absent_def)
qed

lemma cs_release_step:
  obtains st out st' where "core_step cs_env cs_release st = (Released out, st')"
proof -
  obtain out st where a: "handle_vault_managed_credential cs_env cs_author (Some (lit ''u'')) (lit ''v'') cs_state
      = (Authored (lit ''c1'') out, st)" "release_share_ref (au_record out) = Some (lit ''s'')"
    "ks_jtis st = empty_jti_store" "db_vaults (ks_db st) = [cs_vault_row]" "ks_limiters st = []" by (rule cs_author_handled)
  obtain st1 where l: "core_step cs_env cs_release st = route_request cs_env cs_release st1" "ks_db st1 = ks_db st"
    "ks_shares st1 = ks_shares st" "ks_jtis st1 = ks_jtis st"
    using cs_core_step [OF a(5), of cs_release] by blast
  have "route_of_path (kq_path cs_release) = R_Vault (lit ''v'') (lit ''/managed-release'')" by (rule cs_release_route)
  then have "route_request cs_env cs_release st1 = handle_vault_managed_release cs_env cs_release (Some (lit ''u'')) (lit ''v'') st1"
    by (simp add: route_request_def route_vault_path_def cs_authenticates)
      (simp add: cs_release_def cs_request_def cs_authenticates lit_def)
  moreover obtain out' st' where r: "handle_vault_managed_release cs_env cs_release (Some (lit ''u'')) (lit ''v'') st1 = (Released out', st')"
    using cs_release_answered [OF a l(2-4)] by (metis prod.collapse)
  ultimately show ?thesis using l(1) that by simp
qed

lemma cs_release_device: "read_body cs_release ''capabilityToken'' = Inr data \<Longrightarrow> text_field data ''deviceId'' = []"
  by (auto simp: read_body_def cs_release_def text_field_def string_property_def property_of_def lit_def)

subsection \<open>Authoring and release\<close>

text \<open>
  C16. A credential authored over HTTP is released over HTTP, with the share that was
  minted for it: on the state authoring leaves, a release request for that credential by
  the owner is answered with a share exactly when its capability is acceptable under the
  pinned key, bound to the caller, the stored reference and the device, for a releasable
  operation and with an unspent identifier; and the share is then the minted one.
\<close>

theorem authored_credential_released_over_http:
  assumes "handle_vault_managed_credential E rq (Some u) i st = (Authored cid out, st1)"
    and "ke_share_port E = postgres_port" "aead_ok (ke_subtle E)"
    and "length (mr_iv_wrap (kq_authoring rq)) = wrap_iv_len"
    and "credential_row_of (ks_db st) (mr_id (kq_authoring rq)) = None" "i \<noteq> []" "cid \<noteq> []"
    and "read_body rq' ''capabilityToken'' = Inr data" "trim (text_field data ''credentialId'') = cid"
    and "release_share_ref (au_record out) = Some ref"
  shows "fst (handle_vault_managed_release E rq' (Some u) i st1) = Released ro \<longleftrightarrow>
    capability_releases E rq' st1 u ref (text_field data ''deviceId'')
    \<and> ro = \<lparr>ro_release_share = binary_to_base64 (mr_share (kq_authoring rq)), ro_credential_id = cid\<rparr>"
proof -
  obtain c v where c: "u \<noteq> []" "cid = cr_id c" "is_managed c" "cr_vault_id c = i" "cr_release_share_ref c = Some ref"
    "se_has_credentials (ke_step_up E)"
    "find_by_vault_and_owner (ke_subtle E) (ke_dates E) (ks_db st1) i u = Inr (Some v)"
    "credential_find_by_id (ke_dates E) (ks_db st1) cid = Inr (Some c)"
    "find_by_secret_ref (ke_dates E) (ks_db st1) ref = Inr (Some c)"
    "stored_share E st1 ref (mr_share (kq_authoring rq))"
    using authored_for_release [OF assms(1-5)] assms(10) by auto
  have "handle_vault_managed_release E rq' (Some u) i st1 = release_in_vault E rq' u i st1"
    using c by (simp add: handle_vault_managed_release_def with_own_vault_def absent_def)
  then show ?thesis using c assms(6-9) by (auto simp: release_in_vault_iff dest: stored_share_unique)
qed

theorem authored_credential_released_over_http_witness:
  "\<exists>st. fst (handle_vault_managed_release cs_env cs_release (Some (lit ''u'')) (lit ''v'') st)
     = Released \<lparr>ro_release_share = binary_to_base64 (replicate 32 4), ro_credential_id = lit ''c1''\<rparr>"
proof -
  obtain out st where a: "handle_vault_managed_credential cs_env cs_author (Some (lit ''u'')) (lit ''v'') cs_state
      = (Authored (lit ''c1'') out, st)" "release_share_ref (au_record out) = Some (lit ''s'')"
    "ks_jtis st = empty_jti_store" by (rule cs_author_handled)
  obtain data where d: "read_body cs_release ''capabilityToken'' = Inr data" "text_field data ''deviceId'' = []"
    "trim (text_field data ''credentialId'') = lit ''c1''" by (rule cs_release_body)
  have "fst (handle_vault_managed_release cs_env cs_release (Some (lit ''u'')) (lit ''v'') st) = Released ro \<longleftrightarrow>
      capability_releases cs_env cs_release st (lit ''u'') (lit ''s'') (text_field data ''deviceId'')
      \<and> ro = \<lparr>ro_release_share = binary_to_base64 (mr_share (kq_authoring cs_author)), ro_credential_id = lit ''c1''\<rparr>" for ro
    by (rule authored_credential_released_over_http [OF a(1) _ _ _ _ _ _ d(1,3) a(2)])
      (simp_all add: cs_env_def sample_aead_ok cs_author_def cs_request_def sample_managed_random_def wrap_iv_len_def
        cs_state_def ks_db_def credential_row_of_def lit_def)
  then show ?thesis using cs_capability [OF a(3)] d(2)
    by (auto simp: cs_author_def cs_request_def sample_managed_random_def)
qed

subsection \<open>Who is answered\<close>

text \<open>
  C7. Whatever the request, a reply of Core reveals only what its caller owns: when a
  signing secret is configured, every vault a reply lists, shows, unlocks or deletes and
  every credential it lists or releases belongs, in the tables before the request, to the
  user named by a verified access token of that request.
\<close>

theorem replies_confined_to_owner:
  assumes "configured_secret E \<noteq> None" and "core_step E rq st = (reply, st')"
    and "revealed_vaults reply \<noteq> [] \<or> revealed_credentials reply \<noteq> []"
  shows "\<exists>u. authenticated E rq u \<and> (\<forall>i \<in> set (revealed_vaults reply). owns_vault (ks_db st) u i)
    \<and> (\<forall>i \<in> set (revealed_credentials reply). owns_credential (ks_db st) u i)"
  using confined_core_step [OF assms(1,2)] assms(3) by (auto simp: confined_def)

theorem replies_confined_to_owner_witness:
  "\<exists>reply st' u. core_step cs_env cs_request cs_state = (reply, st') \<and> revealed_vaults reply = [lit ''v'']
     \<and> authenticated cs_env cs_request u \<and> owns_vault (ks_db cs_state) u (lit ''v'')"
proof -
  obtain st1 where l: "core_step cs_env cs_request cs_state = route_request cs_env cs_request st1" "ks_db st1 = ks_db cs_state"
    using cs_core_step [of cs_state cs_request] by (auto simp: cs_state_def)
  have "route_of_path (kq_path cs_request) = R_Vaults" by (simp add: route_of_path_def fixed_routes_def cs_request_def lit_def)
  then have "route_request cs_env cs_request st1 = (handle_vaults_list cs_env (Some (lit ''u'')) st1, st1)"
    by (simp add: route_request_def route_vaults_def cs_authenticates) (simp add: cs_request_def cs_authenticates)
  then obtain reply st' where s: "core_step cs_env cs_request cs_state = (reply, st')"
    "reply = handle_vaults_list cs_env (Some (lit ''u'')) st1" using l by simp
  have u: "lit ''u'' \<noteq> []" "lit ''v'' \<noteq> []" by (simp_all add: lit_def)
  have "revealed_vaults reply = [lit ''v'']"
    using l(2) u by (simp add: s(2) handle_vaults_list_def absent_def list_by_owner_def ks_db_def cs_state_def cs_vault_row_def
        su_vault_row_def cs_env_def read_vault_def map_vault_row_def parse_jsonb_column_def vault_from_plain_def
        revealed_vaults_def vault_to_safe_def)
  then show ?thesis using replies_confined_to_owner [OF _ s(1)] s(1) cs_secret by fastforce
qed

text \<open>What a release by Core rests on, on the state it met.\<close>

lemma released_by_core_step:
  assumes "configured_secret E \<noteq> None" and "core_step E rq st = (Released out, st')"
  obtains u c ref share data where "authenticated E rq u" "owns_vault (ks_db st) u (cr_vault_id c)"
    "read_body rq ''capabilityToken'' = Inr data"
    "capability_releases E rq st u ref (text_field data ''deviceId'')"
    "find_by_secret_ref (ke_dates E) (ks_db st) ref = Inr (Some c)" "is_managed c" "cr_release_share_ref c = Some ref"
    "stored_share E st ref share"
    "out = \<lparr>ro_release_share = binary_to_base64 share, ro_credential_id = cr_id c\<rparr>"
    "\<not> capability_releases E rq st' u ref (text_field data ''deviceId'')"
proof -
  obtain st1 where l: "check_rate_limit_core E rq st = (True, st1)" "route_request E rq st1 = (Released out, st')"
    using assms(2) by (auto simp: core_step_def split: prod.splits if_splits)
  have k: "ks_db st1 = ks_db st" "ks_shares st1 = ks_shares st" "ks_jtis st1 = ks_jtis st"
    using limiter_keeps(1-3) [of "lit ''core-api''" rate_limit_max rate_limit_window E rq st] l(1)
    by (simp_all add: check_rate_limit_core_def ks_db_def)
  obtain u i where u: "authenticated E rq u" "owns_vault (ks_db st1) u i" "release_in_vault E rq u i st1 = (Released out, st')"
    using released_route [OF assms(1) l(2)] by blast
  obtain data ref c share where r: "read_body rq ''capabilityToken'' = Inr data"
    "capability_releases E rq st1 u ref (text_field data ''deviceId'')"
    "find_by_secret_ref (ke_dates E) (ks_db st1) ref = Inr (Some c)" "is_managed c" "cr_vault_id c = i"
    "cr_release_share_ref c = Some ref"
    "stored_share E st1 ref share" "out = \<lparr>ro_release_share = binary_to_base64 share, ro_credential_id = cr_id c\<rparr>"
    using iffD1 [OF release_in_vault_iff, of E rq u i st1 out] u(3) by auto
  have "\<not> capability_releases E rq st' u ref (text_field data ''deviceId'')"
    using r(2) release_in_vault_spends [OF u(3)] by (auto simp: capability_releases_def)
  moreover have "capability_releases E rq st u ref (text_field data ''deviceId'')" "stored_share E st ref share"
    using r(2,7) k by (simp_all add: capability_releases_def stored_share_def)
  moreover have "owns_vault (ks_db st) u (cr_vault_id c)" "find_by_secret_ref (ke_dates E) (ks_db st) ref = Inr (Some c)"
    using u(2) r(3,5) k(1) by simp_all
  ultimately show ?thesis using u(1) r(1,4,6,8) that by blast
qed

text \<open>
  C18. Core hands out a Release Share only to an authenticated owner with a fresh
  capability: such a reply means the caller owns the vault of the credential, presented a
  capability acceptable under the pinned key and bound to that user, the credential's
  reference and the device of the request, and received the share stored under that
  reference; and the state it leaves refuses the same request.
\<close>

theorem share_released_only_to_owner_once:
  assumes "configured_secret E \<noteq> None" and "core_step E rq st = (Released out, st')"
  shows "\<exists>u c ref share data. authenticated E rq u \<and> owns_vault (ks_db st) u (cr_vault_id c)
    \<and> read_body rq ''capabilityToken'' = Inr data
    \<and> capability_releases E rq st u ref (text_field data ''deviceId'')
    \<and> find_by_secret_ref (ke_dates E) (ks_db st) ref = Inr (Some c) \<and> is_managed c \<and> stored_share E st ref share
    \<and> out = \<lparr>ro_release_share = binary_to_base64 share, ro_credential_id = cr_id c\<rparr>
    \<and> \<not> capability_releases E rq st' u ref (text_field data ''deviceId'')"
  by (rule released_by_core_step [OF assms]) blast

theorem share_released_only_to_owner_once_witness:
  "\<exists>st out st'. core_step cs_env cs_release st = (Released out, st')
     \<and> (\<exists>u ref. authenticated cs_env cs_release u \<and> \<not> capability_releases cs_env cs_release st' u ref [])"
proof -
  obtain st out st' where s: "core_step cs_env cs_release st = (Released out, st')" by (rule cs_release_step)
  show ?thesis using share_released_only_to_owner_once [OF _ s] cs_secret s cs_release_device by fastforce
qed

subsection \<open>What Core releases, Plus authorized\<close>

text \<open>
  The messages Plus put its signature to in a run, and what Ed25519 promises of a capability
  presented later: its signature verifies for such a message only.
\<close>

definition signed_messages ::
  "(('s, 'r) plus_server \<times> plus_http_request \<times> (jstr option \<times> plus_answer) option) list \<Rightarrow> bytes set" where
  "signed_messages served = {m. \<exists>x q r tk. (x, q, r) \<in> set served \<and> answered_token r = Some tk
     \<and> encode_capability_payload (sg_payload tk) = Inr m}"

definition unforged :: "curve \<Rightarrow> bytes \<Rightarrow> signed_capability \<Rightarrow> bytes set \<Rightarrow> bool" where
  "unforged C key tk messages \<longleftrightarrow> (\<forall>m sig. encode_capability_payload (sg_payload tk) = Inr m
     \<and> base64_to_binary (sg_signature tk) = Some sig \<and> ed_verify C sig m key = Inr True \<longrightarrow> m \<in> messages)"

lemma capability_operation_texts:
  assumes "same_text s t" "s \<in> set capability_operations" "t \<in> set capability_operations"
  shows "s = t"
proof -
  have "\<forall>o' \<in> set capability_operations. \<forall>c \<in> set o'. c < 128"
    by (simp add: capability_operations_def lit_def)
  then show ?thesis using assms utf8_encode_ascii_inject [of s t] by (auto simp: same_text_def)
qed

definition grants_release :: "capability_payload \<Rightarrow> jstr \<Rightarrow> jstr \<Rightarrow> jstr \<Rightarrow> bool" where
  "grants_release p user ref device \<longleftrightarrow> same_text (cp_user_id p) user \<and> same_text (cp_secret_ref p) ref
     \<and> same_text (cp_resource_id p) ref \<and> same_text (device_text (cp_device_id p)) device
     \<and> cp_operation p \<in> set releasable_operations"

text \<open>
  C20. No Release Share leaves Core unless Plus authorized it: if the signature presented to
  Core is no forgery, that is, if what it verifies for under the pinned key is a message
  Plus signed in answer to one of the requests it served, then a share that any request to
  Core obtains goes to an authenticated owner of the vault, and some request served by Plus
  carried the service secret and was answered with a capability for that user, the
  credential's reference as resource and secret, the device of the request and a
  releasable operation, either because the gate justified that very request in the state
  it met, or because it presented an approval signed by Core for the same user, resource,
  operation and secret; every signed field of the presented capability is the one Plus
  granted, the times modulo 2^64.
\<close>

theorem released_share_was_authorized:
  assumes "configured_secret E \<noteq> None" and "core_step E rq st = (Released out, st')"
    and "kq_token rq = Some tok" and "ke_plus_key E = Some key"
    and "unforged (ke_curve E) key tok (signed_messages (plus_served P cfg H qs x0))"
  shows "\<exists>u c ref data x q r tk. authenticated E rq u \<and> owns_vault (ks_db st) u (cr_vault_id c)
    \<and> find_by_secret_ref (ke_dates E) (ks_db st) ref = Inr (Some c) \<and> ro_credential_id out = cr_id c
    \<and> read_body rq ''capabilityToken'' = Inr data
    \<and> (x, q, r) \<in> set (plus_served P cfg H qs x0) \<and> answered_token r = Some tk
    \<and> plus_reachable P cfg (px_world x0) (px_world x) \<and> plus_authorizes P cfg x q (sg_payload tk)
    \<and> same_grant (sg_payload tk) (sg_payload tok) \<and> grants_release (sg_payload tk) u ref (text_field data ''deviceId'')"
proof -
  obtain u c ref share data where c: "authenticated E rq u" "owns_vault (ks_db st) u (cr_vault_id c)"
    "read_body rq ''capabilityToken'' = Inr data" "capability_releases E rq st u ref (text_field data ''deviceId'')"
    "find_by_secret_ref (ke_dates E) (ks_db st) ref = Inr (Some c)" "is_managed c" "cr_release_share_ref c = Some ref"
    "stored_share E st ref share" "out = \<lparr>ro_release_share = binary_to_base64 share, ro_credential_id = cr_id c\<rparr>"
    "\<not> capability_releases E rq st' u ref (text_field data ''deviceId'')"
    by (rule released_by_core_step [OF assms(1,2)])
  have a: "capability_acceptable (ke_curve E) (kq_now rq div 1000) tok key"
    and b: "capability_bound (sg_payload tok) (release_binding u ref (text_field data ''deviceId''))"
    and o': "cp_operation (sg_payload tok) \<in> set releasable_operations"
    using c(4) assms(3,4) by (auto simp: capability_releases_def)
  obtain m sig where m: "encode_capability_payload (sg_payload tok) = Inr m" "base64_to_binary (sg_signature tok) = Some sig"
    "ed_verify (ke_curve E) sig m key = Inr True" using a by (auto simp: capability_acceptable_def Let_def)
  then have "m \<in> signed_messages (plus_served P cfg H qs x0)" using assms(5) by (auto simp: unforged_def)
  then obtain x q r tk where s: "(x, q, r) \<in> set (plus_served P cfg H qs x0)" "answered_token r = Some tk"
    "encode_capability_payload (sg_payload tk) = Inr m" by (auto simp: signed_messages_def)
  note g = encoding_determines [OF s(3) m(1)]
  note w = served_authorizes [OF s(1,2)]
  have "cp_operation (sg_payload tk) = cp_operation (sg_payload tok)"
    using g w a by (intro capability_operation_texts)
      (auto simp: same_grant_def plus_authorizes_def capability_acceptable_def Let_def)
  then have "grants_release (sg_payload tk) u ref (text_field data ''deviceId'')"
    using g b o' by (auto simp: grants_release_def same_grant_def capability_bound_def release_binding_def device_text_def)
  moreover have "ro_credential_id out = cr_id c" by (simp add: c(9))
  ultimately show ?thesis using c(1-3,5) s(1,2) g w served_world_reachable [OF s(1)] by blast
qed

text \<open>
  A run of Plus that answers with the capability of the sample: the approval of a
  challenge, submitted over HTTP.
\<close>

definition plus_host_sample :: "unit plus_host" where
  "plus_host_sample = \<lparr>ph_redis = ke_redis cs_env, ph_redis_url = None\<rparr>"

definition plus_server_sample :: "(challenge_table, unit) plus_server" where
  "plus_server_sample = \<lparr>px_world = \<lparr>world_state = plus_triggered P_Step_Up, world_log = []\<rparr>, px_active = 0,
     px_metrics = no_metrics, px_limiters = [], px_redis = (), px_audit = []\<rparr>"

definition plus_approve_request :: plus_http_request where
  "plus_approve_request = \<lparr>pq_method = lit ''POST'', pq_path = Some (lit ''/api/v1/challenges/approve''),
     pq_origin = None, pq_secret = Some (lit ''x''), pq_ip = lit ''10.0.0.1'',
     pq_body = Some \<lparr>pb_capability = (plus_request, None), pb_entitlement = ([], [], []),
       pb_trigger = (gate_binding plus_request, None, None, None, None),
       pb_approval = (challenge_id_of plus_id_bytes, Some plus_approval, None), pb_audit = JNull\<rparr>,
     pq_now = 1000000, pq_random = plus_random, pq_seconds = 0\<rparr>"

lemma plus_sample_minted:
  assumes "mint_step_up_capability sample_curve (pc_service plus_sample_config) 1000000 (rr_jti_bytes plus_random) None
     (stored_form plus_challenge) = Inr tk"
  shows "tk = sample_token"
proof -
  have j: "binary_to_base64 (rr_jti_bytes plus_random) = lit ''AgICAgICAgICAgICAgICAg==''"
    by (simp add: plus_random_def binary_to_base64_def nats_of_def b64_char_def lit_def)
  have "create_capability_payload 1000 (rr_jti_bytes plus_random) (ch_user_id plus_challenge) (ch_resource_id plus_challenge)
     (ch_operation plus_challenge) (ch_secret_ref plus_challenge) None 3 (Some 300) = Inr sample_payload"
    using j by (simp add: create_capability_payload_def max_capability_ttl_seconds_def plus_challenge_def new_challenge_def
        plus_create_input_def gate_binding_def plus_request_def capability_version_def plus_random_def sample_payload_def)
  moreover have "ch_device_id plus_challenge = None"
    by (simp add: plus_challenge_def new_challenge_def plus_create_input_def)
  ultimately show ?thesis using assms [unfolded mint_stored]
    by (auto simp: mint_step_up_capability_def sign_capability_def sample_curve_def sample_token_def split: sum.splits)
qed

lemma plus_approve_sample:
  "\<exists>st'. handle_challenge_approve pg_port plus_sample_config 1000000 plus_random (challenge_id_of plus_id_bytes)
     (Some plus_approval) None (plus_triggered P_Step_Up) = (Approved_Response sample_token, st')"
proof -
  obtain cap st' where h: "handle_challenge_approve pg_port plus_sample_config 1000000 plus_random (challenge_id_of plus_id_bytes)
     (Some plus_approval) None (plus_triggered P_Step_Up) = (Approved_Response cap, st')"
    using plus_approve [of P_Step_Up] by blast
  have "pg_find_by_id (ps_challenges (plus_triggered P_Step_Up)) (challenge_id_of plus_id_bytes) = Inr (Some (stored_form plus_challenge))"
    by (simp add: plus_triggered_def pg_find_by_id_def stored_form_def)
  then have "mint_step_up_capability sample_curve (pc_service plus_sample_config) 1000000 (rr_jti_bytes plus_random) None
     (stored_form plus_challenge) = Inr cap"
    using approve_answer [OF h] by (auto simp: pg_port_def plus_sample_config_def)
  then show ?thesis using h plus_sample_minted by blast
qed

lemma plus_sample_answered:
  obtains og x where "handle_plus_request pg_port plus_sample_config plus_host_sample plus_approve_request plus_server_sample
    = (Some (og, Handled (Approved_Response sample_token)), x)"
proof -
  let ?x1 = "track_request plus_server_sample"
  obtain d x2 where c: "check_plus_rate_limit plus_host_sample plus_approve_request ?x1 = (d, x2)" by fastforce
  have "px_limiters ?x1 = []" by (simp add: track_request_def plus_server_sample_def)
  then have "d = None" using c
    by (auto simp: check_plus_rate_limit_def plus_host_sample_def cs_env_def get_rate_limiter_def plus_rate_limit_max_def
        new_shared_limiter_def usable_redis_url_def consume_rate_def try_redis_def consume_local_def Let_def split: prod.splits)
  moreover have w: "world_state (px_world x2) = plus_triggered P_Step_Up"
    using rate_limit_keeps_world [OF c] by (simp add: plus_server_sample_def)
  moreover obtain st' where h: "handle_challenge_approve pg_port plus_sample_config 1000000 plus_random
     (challenge_id_of plus_id_bytes) (Some plus_approval) None (plus_triggered P_Step_Up) = (Approved_Response sample_token, st')"
    using plus_approve_sample by blast
  have a: "fst (route_approve pg_port plus_sample_config plus_approve_request x2) = Handled (Approved_Response sample_token)"
    using w h by (simp add: route_approve_def with_body_def plus_approve_request_def)
  have "authenticate_service_request plus_sample_config (pq_secret plus_approve_request) = None"
    by (simp add: authenticate_service_request_def plus_approve_request_def plus_sample_config_def) (simp add: lit_def)
  then have r: "route_plus pg_port plus_sample_config plus_approve_request (lit ''/api/v1/challenges/approve'') x2
      = route_approve pg_port plus_sample_config plus_approve_request x2"
    by (simp add: route_plus_def Let_def) (simp add: lit_def)
  ultimately show ?thesis using c a that
    by (cases "route_approve pg_port plus_sample_config plus_approve_request x2")
      (simp add: handle_plus_request_def Let_def plus_approve_request_def lit_def)
qed

theorem released_share_was_authorized_witness:
  "\<exists>st out st' x q r tk. core_step cs_env cs_release st = (Released out, st')
     \<and> (x, q, r) \<in> set (plus_served pg_port plus_sample_config plus_host_sample [plus_approve_request] plus_server_sample)
     \<and> answered_token r = Some tk \<and> plus_authorizes pg_port plus_sample_config x q (sg_payload tk)
     \<and> (\<exists>u ref. authenticated cs_env cs_release u \<and> grants_release (sg_payload tk) u ref [])"
proof -
  let ?run = "plus_served pg_port plus_sample_config plus_host_sample [plus_approve_request] plus_server_sample"
  obtain st out st' where s: "core_step cs_env cs_release st = (Released out, st')"
    by (rule cs_release_step)
  obtain og x where h: "handle_plus_request pg_port plus_sample_config plus_host_sample plus_approve_request plus_server_sample
    = (Some (og, Handled (Approved_Response sample_token)), x)" by (rule plus_sample_answered)
  have "unforged (ke_curve cs_env) (replicate 32 1) sample_token (signed_messages ?run)"
    using h by (auto simp: unforged_def signed_messages_def answered_token_def)
  then have "\<exists>u c ref data x q r tk. authenticated cs_env cs_release u \<and> owns_vault (ks_db st) u (cr_vault_id c)
      \<and> find_by_secret_ref (ke_dates cs_env) (ks_db st) ref = Inr (Some c) \<and> ro_credential_id out = cr_id c
      \<and> read_body cs_release ''capabilityToken'' = Inr data \<and> (x, q, r) \<in> set ?run \<and> answered_token r = Some tk
      \<and> plus_reachable pg_port plus_sample_config (px_world plus_server_sample) (px_world x)
      \<and> plus_authorizes pg_port plus_sample_config x q (sg_payload tk) \<and> same_grant (sg_payload tk) (sg_payload sample_token)
      \<and> grants_release (sg_payload tk) u ref (text_field data ''deviceId'')"
    using cs_secret by (intro released_share_was_authorized [OF _ s]) (simp_all add: cs_release_def cs_request_def cs_env_def)
  then show ?thesis using s cs_release_device by metis
qed

subsection \<open>Sessions\<close>

definition cs_register :: core_request where
  "cs_register = cs_request\<lparr>kq_body := Inr (JObj [(lit ''email'', JStr (lit ''a@b.io'')),
     (lit ''password'', JStr (lit ''12345678''))])\<rparr>"

lemma cs_registered:
  "\<exists>u toks st. handle_register cs_env cs_register cs_state = (Session 201 u (lit ''a@b.io'') toks, st)"
proof -
  obtain data where d: "read_body cs_register ''email'' = Inr data" "text_field data ''email'' = lit ''a@b.io''"
    "text_field data ''password'' = lit ''12345678''"
    by (simp add: read_body_def cs_register_def text_field_def string_property_def property_of_def lit_def)
  have v: "validate_registration_input (lit ''a@b.io'') (lit ''12345678'') = None"
    by (simp add: validate_registration_input_def matches_email_base_def cut_at_def matches_domain_def domain_label_def
        email_char_def alnum_def ascii_letter_def is_digit_def lit_def)
  have u: "se_users (ke_step_up cs_env) = memory_users" by (simp add: cs_env_def su_env_def)
  have "us_by_email memory_users (ks_users cs_state) (lit ''a@b.io'') = None"
    by (simp add: memory_users_def memory_by_email_def ks_users_def cs_state_def su_start_def lit_def)
  moreover obtain user t where c: "create_user (ke_crypto cs_env) memory_users (ks_users cs_state) (kq_now cs_register)
      (kq_uuid cs_register 0) (kq_salt cs_register) (lit ''a@b.io'') (lit ''12345678'') = (Inr user, t)"
      "su_email user = lit ''a@b.io''"
    by (cases "hash_password (ke_crypto cs_env) (kq_salt cs_register) (lit ''12345678'')")
      (simp add: create_user_def memory_users_def memory_create_def Let_def)
  ultimately show ?thesis using d v u cs_secret by (simp add: handle_register_def Let_def session_reply_def)
qed

text \<open>
  C24. Whoever registers can log in: after a registration answered 201, in either user
  store, a login with the same e-mail and a password of equal derivation that is not
  locked out is answered with a session for the same user, and its access token
  authenticates that user for the next fifteen minutes.
\<close>

theorem registered_user_logs_in:
  assumes "core_users (se_users (ke_step_up E))" "jwt_reads_back (ke_jwt E)" "configured_secret E = Some secret"
    and "handle_register E rq st = (Session 201 u e toks, st1)"
    and "read_body rq ''email'' = Inr data" "read_body rq' ''email'' = Inr data"
    and "\<not> lk_locked (fst (is_locked (kq_now rq') e (ks_login st)))"
  shows "\<exists>access refresh. fst (handle_login E rq' st1) = Session 200 u e (Some (access, refresh))
    \<and> (\<forall>later < kq_now rq' div 1000 + 900.
        authenticate (ke_jwt E) later (ke_jwt_secret E) (Some (lit ''Bearer '' @ access)) = Auth_Passed (Some u))"
proof -
  obtain user where r: "e = text_field data ''email''" "e \<noteq> []" "text_field data ''password'' \<noteq> []"
    "su_user_id user = u" "su_email user = e" "us_by_email (se_users (ke_step_up E)) (ks_users st1) e = Some user"
    "verify_password (ke_crypto E) (text_field data ''password'') (su_hash user) (su_salt user)" "ks_login st1 = ks_login st"
    using registration_creates [OF assms(4,1)] assms(5) by auto
  obtain access refresh where s: "session_reply E rq' 200 0 user = Session 200 u e (Some (access, refresh))"
    using assms(3) r by (simp add: session_reply_def token_pair_def)
  then have "fst (handle_login E rq' st1) = Session 200 u e (Some (access, refresh))"
    using login_session_iff [OF assms(6)] r assms(7) by metis
  then show ?thesis using access_token_of_pair [OF assms(2,3) _ s] by blast
qed

theorem registered_user_logs_in_witness:
  "\<exists>u st. \<exists>access refresh. fst (handle_login cs_env cs_register st) = Session 200 u (lit ''a@b.io'') (Some (access, refresh))"
proof -
  obtain u toks st1 where r: "handle_register cs_env cs_register cs_state = (Session 201 u (lit ''a@b.io'') toks, st1)"
    using cs_registered by blast
  obtain data where d: "read_body cs_register ''email'' = Inr data" by (simp add: read_body_def cs_register_def)
  show ?thesis using registered_user_logs_in [OF _ _ cs_secret r d d] cs_jwt_reads_back
    by (auto simp: cs_env_def su_env_def core_users_def cs_state_def is_locked_def not_locked_def)
qed

end
