(* ===== verification/Totp.thy ===== *)
theory Totp
  imports Authoring Step_Up_Proof
begin

unbundle bit_operations_syntax

text \<open>
  One-time passwords: src/src/ui/content-scripts/totp-generator.ts.  HMAC, the URL
  parser and the text folding are a parameter (None where they throw); times are
  milliseconds, and a NaN number of seconds is None.
\<close>

datatype totp_algorithm = SHA_1 | SHA_256 | SHA_512

record totp_config =
  tc_algorithm :: totp_algorithm
  tc_digits :: nat
  tc_period :: int

definition default_totp_config :: totp_config where
  "default_totp_config = \<lparr>tc_algorithm = SHA_1, tc_digits = 6, tc_period = 30\<rparr>"

record otp_url =
  ou_protocol :: jstr
  ou_hostname :: jstr
  ou_pathname :: jstr
  ou_params :: "(jstr \<times> jstr) list"

record totp_platform =
  tp_hmac :: "totp_algorithm \<Rightarrow> bytes \<Rightarrow> bytes \<Rightarrow> bytes option"
  tp_parse_url :: "jstr \<Rightarrow> otp_url option"
  tp_decode_component :: "jstr \<Rightarrow> jstr option"
  tp_encode_component :: "jstr \<Rightarrow> jstr option"
  tp_form :: "(jstr \<times> jstr) list \<Rightarrow> jstr"
  tp_to_upper :: "jstr \<Rightarrow> jstr"
  tp_fold :: "jstr \<Rightarrow> jstr"

subsection \<open>Codes\<close>

definition pad_zeros :: "nat \<Rightarrow> jstr \<Rightarrow> jstr" where
  "pad_zeros n s = replicate (n - length s) 48 @ s"

text \<open>\<^verbatim>\<open>Math.floor(timestamp / 1000 / period)\<close>; a period of 0 gives no number, which is written as 0.\<close>

definition time_counter :: "totp_config \<Rightarrow> int \<Rightarrow> int" where
  "time_counter cfg t = (if tc_period cfg = 0 then 0 else t div (1000 * tc_period cfg))"

definition counter_bytes :: "int \<Rightarrow> bytes" where
  "counter_bytes c = replicate 4 0 @ be_bytes 4 c"

definition octet :: "bytes \<Rightarrow> nat \<Rightarrow> 32 word" where
  "octet h i = (if i < length h then ucast (h ! i) else 0)"

definition truncate_hmac :: "bytes \<Rightarrow> 32 word" where
  "truncate_hmac h =
     (let k = (if h = [] then 0 else unat (last h AND 0x0F)) in
      push_bit 24 (octet h k AND 0x7F) OR push_bit 16 (octet h (k + 1) AND 0xFF)
        OR push_bit 8 (octet h (k + 2) AND 0xFF) OR (octet h (k + 3) AND 0xFF))"

definition generate_totp :: "totp_platform \<Rightarrow> jstr \<Rightarrow> totp_config \<Rightarrow> int \<Rightarrow> jstr option" where
  "generate_totp P secret cfg t = (case base64_to_binary secret of
     None \<Rightarrow> None
   | Some key \<Rightarrow> (case tp_hmac P (tc_algorithm cfg) key (counter_bytes (time_counter cfg t)) of
       None \<Rightarrow> None
     | Some h \<Rightarrow> Some (pad_zeros (tc_digits cfg) (dec_nat (unat (truncate_hmac h) mod 10 ^ tc_digits cfg)))))"

record totp_window =
  tw_current :: jstr
  tw_previous :: "jstr option"
  tw_next :: "jstr option"

definition generate_totp_window ::
  "totp_platform \<Rightarrow> jstr \<Rightarrow> totp_config \<Rightarrow> int \<Rightarrow> int \<Rightarrow> totp_window option" where
  "generate_totp_window P secret cfg t window = (case generate_totp P secret cfg t of
     None \<Rightarrow> None
   | Some c \<Rightarrow>
       if window > 0 then
         (case generate_totp P secret cfg (t - tc_period cfg * 1000) of
            None \<Rightarrow> None
          | Some p \<Rightarrow> (case generate_totp P secret cfg (t + tc_period cfg * 1000) of
              None \<Rightarrow> None
            | Some n \<Rightarrow> Some \<lparr>tw_current = c, tw_previous = Some p, tw_next = Some n\<rparr>))
       else Some \<lparr>tw_current = c, tw_previous = None, tw_next = None\<rparr>)"

definition verify_totp :: "totp_platform \<Rightarrow> jstr \<Rightarrow> jstr \<Rightarrow> totp_config \<Rightarrow> int \<Rightarrow> int \<Rightarrow> bool option" where
  "verify_totp P secret code cfg t window = (case generate_totp_window P secret cfg t window of
     None \<Rightarrow> None
   | Some w \<Rightarrow> Some (code = tw_current w \<or> Some code = tw_previous w \<or> Some code = tw_next w))"

subsection \<open>Base32\<close>

definition base32_char :: "nat \<Rightarrow> nat" where
  "base32_char n = (if n < 26 then 65 + n else 24 + n)"

text \<open>\<^verbatim>\<open>alphabet[(value >> k) & 0x1f]\<close>.\<close>

definition base32_char_at :: "nat \<Rightarrow> 32 word \<Rightarrow> nat" where
  "base32_char_at k v = base32_char (unat (signed_drop_bit k v AND 0x1F))"

function base32_emit :: "nat \<Rightarrow> 32 word \<Rightarrow> jstr" where
  "base32_emit bits v =
     (if bits \<ge> 5 then base32_char_at (bits - 5) v # base32_emit (bits - 5) v else [])"
  by auto

termination by (relation "measure fst") auto

declare base32_emit.simps [simp del]

fun base32_chars :: "nat \<Rightarrow> 32 word \<Rightarrow> bytes \<Rightarrow> jstr" where
  "base32_chars bits v [] =
     (if bits > 0 then [base32_char (unat (push_bit (5 - bits) v AND 0x1F))] else [])"
| "base32_chars bits v (b # bs) =
     (let v1 = push_bit 8 v OR ucast b; bits1 = bits + 8 in
      base32_emit bits1 v1 @ base32_chars (bits1 mod 5) v1 bs)"

definition pad_base32 :: "jstr \<Rightarrow> jstr" where
  "pad_base32 s = s @ replicate ((8 - length s mod 8) mod 8) 61"

definition base64_to_base32 :: "jstr \<Rightarrow> jstr option" where
  "base64_to_base32 s = map_option (\<lambda>bs. pad_base32 (base32_chars 0 0 bs)) (base64_to_binary s)"

definition base32_to_base64 :: "jstr \<Rightarrow> jstr" where
  "base32_to_base64 s = binary_to_base64 (base32_loop 0 0 (filter (\<lambda>c. c \<noteq> 61) s))"

subsection \<open>otpauth addresses\<close>

definition normalize_totp_algorithm :: "totp_platform \<Rightarrow> jstr option \<Rightarrow> totp_algorithm option" where
  "normalize_totp_algorithm P raw = (case raw of
     None \<Rightarrow> Some SHA_1
   | Some r \<Rightarrow>
       if r = [] then Some SHA_1
       else (let c = filter (\<lambda>x. x \<noteq> 45) (tp_to_upper P r) in
         if c = lit ''SHA1'' then Some SHA_1
         else if c = lit ''SHA256'' then Some SHA_256
         else if c = lit ''SHA512'' then Some SHA_512 else None))"

definition algorithm_to_uri_param :: "totp_algorithm \<Rightarrow> jstr" where
  "algorithm_to_uri_param a = (case a of SHA_1 \<Rightarrow> lit ''SHA1'' | SHA_256 \<Rightarrow> lit ''SHA256'' | SHA_512 \<Rightarrow> lit ''SHA512'')"

record otp_auth =
  oa_secret :: jstr
  oa_label :: jstr
  oa_issuer :: "jstr option"
  oa_algorithm :: totp_algorithm
  oa_digits :: int
  oa_period :: "int option"

definition parse_otp_auth_uri :: "totp_platform \<Rightarrow> jstr \<Rightarrow> otp_auth option" where
  "parse_otp_auth_uri P uri = (case tp_parse_url P uri of
     None \<Rightarrow> None
   | Some u \<Rightarrow>
       let param = (\<lambda>k. map_of (ou_params u) (lit k)) in
       if ou_protocol u \<noteq> lit ''otpauth:'' \<or> ou_hostname u \<noteq> lit ''totp'' then None
       else if param ''secret'' = None \<or> param ''secret'' = Some [] then None
       else (case tp_decode_component P (drop 1 (ou_pathname u)) of
           None \<Rightarrow> None
         | Some label \<Rightarrow> (case normalize_totp_algorithm P (param ''algorithm'') of
             None \<Rightarrow> None
           | Some a \<Rightarrow>
               let digits = parse_int (or_text (param ''digits'') ''6'');
                 period = parse_int (or_text (param ''period'') ''30'')
               in if digits \<noteq> Some 6 \<and> digits \<noteq> Some 8 then None
                 else if period \<noteq> None \<and> the period \<le> 0 then None
                 else Some \<lparr>oa_secret = tp_to_upper P (filter (\<lambda>c. \<not> js_space c) (the (param ''secret''))),
                   oa_label = label, oa_issuer = (if param ''issuer'' = Some [] then None else param ''issuer''),
                   oa_algorithm = a, oa_digits = the digits, oa_period = period\<rparr>)))"

definition generate_otp_auth_uri :: "totp_platform \<Rightarrow> jstr \<Rightarrow> jstr \<Rightarrow> jstr option \<Rightarrow> totp_config \<Rightarrow> jstr option" where
  "generate_otp_auth_uri P secret label issuer cfg = (case base64_to_base32 secret of
     None \<Rightarrow> None
   | Some s32 \<Rightarrow>
       let named = (issuer \<noteq> None \<and> issuer \<noteq> Some []);
         params = [(lit ''secret'', s32), (lit ''algorithm'', algorithm_to_uri_param (tc_algorithm cfg)),
             (lit ''digits'', dec_nat (tc_digits cfg)), (lit ''period'', dec_int (tc_period cfg))]
           @ (if named then [(lit ''issuer'', the issuer)] else []);
         text = (if named then the issuer @ [58] else []) @ label
       in (case tp_encode_component P text of
           None \<Rightarrow> None
         | Some l \<Rightarrow> Some (lit ''otpauth://totp/'' @ l @ [63] @ tp_form P params)))"

subsection \<open>Fields\<close>

text \<open>The text, telephone and number inputs of a form, in document order.\<close>

record totp_input =
  ti_autocomplete :: jstr
  ti_name :: jstr
  ti_id :: jstr
  ti_placeholder :: jstr

definition mentions :: "jstr \<Rightarrow> string list \<Rightarrow> bool" where
  "mentions s ws \<longleftrightarrow> list_ex (\<lambda>w. includes_text s (lit w)) ws"

definition is_totp_field :: "totp_platform \<Rightarrow> totp_input \<Rightarrow> bool" where
  "is_totp_field P i \<longleftrightarrow>
     tp_fold P (ti_autocomplete i) = lit ''one-time-code''
     \<or> mentions (tp_fold P (ti_name i)) [''totp'', ''2fa'', ''mfa'', ''otp'', ''authenticator'']
     \<or> mentions (tp_fold P (ti_id i)) [''totp'', ''2fa'', ''mfa'', ''otp'']
     \<or> mentions (tp_fold P (ti_placeholder i)) [''totp'', ''2fa'', ''codigo'', ''code'']"

definition detect_totp_field :: "totp_platform \<Rightarrow> totp_input list \<Rightarrow> totp_input option" where
  "detect_totp_field P inputs = find (is_totp_field P) inputs"

text \<open>Whether the field was filled, and what was written into it.\<close>

definition fill_totp_field :: "totp_platform \<Rightarrow> jstr \<Rightarrow> totp_config \<Rightarrow> int \<Rightarrow> bool \<times> jstr option" where
  "fill_totp_field P secret cfg now = (case generate_totp P secret cfg now of
     None \<Rightarrow> (False, None) | Some c \<Rightarrow> (True, Some c))"


subsection \<open>What a code is\<close>

lemma uint_byte_less: "uint (b :: 8 word) < 256"
  using unsigned_less [of b, where ?'a = int] by simp

lemma push8_or:
  fixes w :: "32 word"
  assumes "uint v < 256"
  shows "uint (push_bit 8 w OR v) = (uint w * 256 + uint v) mod 2 ^ 32"
proof -
  have "v = take_bit 8 v" using assms by (simp add: word_uint_eq_iff unsigned_take_bit_eq take_bit_int_eq_self)
  then have "push_bit 8 w AND v = push_bit 8 w AND take_bit 8 v" by simp
  also have "\<dots> = 0" by (rule bit_eqI) (auto simp: bit_simps)
  finally have "push_bit 8 w OR v = push_bit 8 w + v" by (simp add: disjunctive_add_eq_or)
  also have "\<dots> = of_int (uint w * 256 + uint v)" by (simp add: push_bit_eq_mult)
  finally have e: "push_bit 8 w OR v = of_int (uint w * 256 + uint v)" .
  have "uint (of_int x :: 32 word) = x mod 2 ^ 32" for x by (simp add: unsigned_of_int take_bit_eq_mod)
  then show ?thesis unfolding e .
qed

lemma uint_ucast_byte: "uint (ucast (b :: 8 word) :: 32 word) = uint b"
  using uint_byte_less [of b] by (simp add: unsigned_ucast_eq take_bit_int_eq_self)

lemma octet_byte: "uint (octet h i AND 0xFF) = (if i < length h then uint (h ! i) else 0)"
proof -
  have m: "(0xFF :: 32 word) = mask 8" by (simp add: mask_eq_exp_minus_1)
  have "uint (ucast b AND 0xFF :: 32 word) = uint b" for b :: "8 word"
    unfolding m using uint_byte_less [of b]
    by (simp add: uint_ucast_byte unsigned_take_bit_eq take_bit_int_eq_self flip: take_bit_eq_mask)
  then show ?thesis by (simp add: octet_def)
qed

lemma octet_low: "i < length h \<Longrightarrow> uint (octet h i AND 0x7F) = uint (h ! i) mod 128"
proof -
  have m: "(0x7F :: 32 word) = mask 7" by (simp add: mask_eq_exp_minus_1)
  show "i < length h \<Longrightarrow> uint (octet h i AND 0x7F) = uint (h ! i) mod 128"
    unfolding m by (simp add: octet_def uint_ucast_byte unsigned_take_bit_eq flip: take_bit_eq_mask) (simp add: take_bit_eq_mod)
qed

text \<open>Four octets from the offset, without the top bit.\<close>

lemma truncate_hmac_value:
  assumes "k = (if h = [] then 0 else unat (last h AND 0x0F))" "k + 4 \<le> length h"
  shows "uint (truncate_hmac h) = be_value (take 4 (drop k h)) mod 2 ^ 31"
proof -
  obtain a b c d where o: "h ! k = a" "h ! (k + 1) = b" "h ! (k + 2) = c" "h ! (k + 3) = d" by blast
  have t: "take 4 (drop k h) = [a, b, c, d]"
    using assms(2) o by (intro nth_equalityI) (auto simp: nth_Cons less_Suc_eq numeral_eq_Suc)
  obtain A B C D where w: "A = octet h k AND 0x7F" "B = octet h (k + 1) AND 0xFF" "C = octet h (k + 2) AND 0xFF"
    "D = octet h (k + 3) AND 0xFF" by blast
  have l: "uint a mod 128 < 128" "uint b < 256" "uint c < 256" "uint d < 256" "0 \<le> uint a mod 128" "0 \<le> uint b" "0 \<le> uint c" "0 \<le> uint d"
    using uint_byte_less by simp_all
  have u: "uint A = uint a mod 128" "uint B = uint b" "uint C = uint c" "uint D = uint d"
    using assms(2) o by (simp_all add: w octet_byte octet_low)
  have "truncate_hmac h = push_bit 24 A OR push_bit 16 B OR push_bit 8 C OR D"
    unfolding w by (simp only: truncate_hmac_def Let_def assms(1))
  also have "\<dots> = push_bit 8 (push_bit 8 (push_bit 8 A OR B) OR C) OR D" by (simp add: push_bit_or or.assoc)
  finally obtain X Y where xy: "X = push_bit 8 A OR B" "Y = push_bit 8 X OR C" "truncate_hmac h = push_bit 8 Y OR D" by blast
  have "uint X = uint a mod 128 * 256 + uint b" unfolding xy(1) using l by (simp add: push8_or u)
  moreover from this have "uint Y = (uint a mod 128 * 256 + uint b) * 256 + uint c" unfolding xy(2) using l by (simp add: push8_or u)
  ultimately have "uint (truncate_hmac h) = ((uint a mod 128 * 256 + uint b) * 256 + uint c) * 256 + uint d"
    unfolding xy(3) using l by (simp add: push8_or u)
  also have "\<dots> = be_value [a, b, c, d] mod 2 ^ 31"
  proof -
    have "be_value [a, b, c, d] = uint a div 128 * 2 ^ 31 + (((uint a mod 128 * 256 + uint b) * 256 + uint c) * 256 + uint d)"
      by (simp add: be_value_def) (use div_mult_mod_eq [of "uint a" 128] in linarith)
    then show ?thesis using l by simp
  qed
  finally show ?thesis unfolding t .
qed

lemma length_dec_nat: "n < 10 ^ d \<Longrightarrow> 0 < d \<Longrightarrow> length (dec_nat n) \<le> d"
proof (induction d arbitrary: n)
  case (Suc d)
  show ?case
  proof (cases "n < 10")
    case True
    then show ?thesis by (subst dec_nat.simps) simp
  next
    case False
    then have "n div 10 < 10 ^ d" "0 < d" using Suc.prems by (auto simp: less_mult_imp_div_less intro: gr0I)
    then show ?thesis using False Suc.IH by (subst dec_nat.simps) simp
  qed
qed simp

lemma digits_value_pad: "digits_value (replicate k 48 @ s) = digits_value s"
  by (induction k) (simp_all add: digits_value_def)

lemma pad_zeros_code:
  assumes "0 < d" "n < 10 ^ d"
  shows "length (pad_zeros d (dec_nat n)) = d \<and> (\<forall>c \<in> set (pad_zeros d (dec_nat n)). is_digit c)
    \<and> digits_value (pad_zeros d (dec_nat n)) = int n"
  using length_dec_nat [OF assms(2,1)] dec_nat_digits [of _ n]
  by (auto simp: pad_zeros_def digits_value_pad digits_value_dec_nat is_digit_def)

text \<open>The value of RFC 6238: HMAC of the counter, dynamically truncated, modulo a power of ten.\<close>

definition rfc6238_value :: "totp_platform \<Rightarrow> totp_config \<Rightarrow> bytes \<Rightarrow> bytes \<Rightarrow> int \<Rightarrow> bool" where
  "rfc6238_value P cfg key h x \<longleftrightarrow>
     (let k = unat (last h AND 0x0F) in x = be_value (take 4 (drop k h)) mod 2 ^ 31 mod 10 ^ tc_digits cfg)"

lemma offset_fits: "unat (b AND 0x0F :: 8 word) \<le> 15"
proof -
  have m: "(0x0F :: 8 word) = mask 4" by (simp add: mask_eq_exp_minus_1)
  have "unat (b AND 0x0F) < 16" unfolding m by (simp add: unsigned_take_bit_eq flip: take_bit_eq_mask) (simp add: take_bit_eq_mod)
  then show ?thesis by simp
qed

lemma generated_code:
  assumes "generate_totp P secret cfg t = Some code" "0 < tc_digits cfg"
    and long: "\<And>a k m h. tp_hmac P a k m = Some h \<Longrightarrow> 20 \<le> length h"
  shows "\<exists>key h. base64_to_binary secret = Some key
    \<and> tp_hmac P (tc_algorithm cfg) key (counter_bytes (time_counter cfg t)) = Some h
    \<and> length code = tc_digits cfg \<and> (\<forall>c \<in> set code. is_digit c)
    \<and> rfc6238_value P cfg key h (digits_value code)"
proof -
  obtain key h where h: "base64_to_binary secret = Some key"
    "tp_hmac P (tc_algorithm cfg) key (counter_bytes (time_counter cfg t)) = Some h"
    "code = pad_zeros (tc_digits cfg) (dec_nat (unat (truncate_hmac h) mod 10 ^ tc_digits cfg))"
    using assms(1) by (auto simp: generate_totp_def split: option.splits)
  have n: "h \<noteq> []" "unat (last h AND 0x0F) + 4 \<le> length h"
    using long [OF h(2)] offset_fits [of "last h"] by auto
  have "int (unat (truncate_hmac h) mod 10 ^ tc_digits cfg) = uint (truncate_hmac h) mod 10 ^ tc_digits cfg"
    by (simp add: zmod_int)
  then show ?thesis using h pad_zeros_code [OF assms(2), of "unat (truncate_hmac h) mod 10 ^ tc_digits cfg"] n
      truncate_hmac_value [of "unat (last h AND 0x0F)" h]
    by (auto simp: rfc6238_value_def Let_def)
qed

subsection \<open>Verification over the window\<close>

lemma generate_by_counter:
  "time_counter cfg t = time_counter cfg t' \<Longrightarrow> generate_totp P secret cfg t = generate_totp P secret cfg t'"
  by (simp add: generate_totp_def cong: option.case_cong)

lemma counter_shift: "0 < tc_period cfg \<Longrightarrow> time_counter cfg (t + tc_period cfg * 1000 * n) = time_counter cfg t + n"
proof -
  assume p: "0 < tc_period cfg"
  have "(t + tc_period cfg * 1000 * n) div (1000 * tc_period cfg) = t div (1000 * tc_period cfg) + n"
    using p by (metis add.commute div_mult_self1 less_irrefl mult.commute mult_pos_pos zero_less_numeral)
  then show ?thesis using p by (simp add: time_counter_def)
qed

text \<open>A code is accepted within one period of its generation, in both directions.\<close>

lemma verified_nearby:
  assumes "0 < tc_period cfg" "0 < window" "generate_totp P secret cfg t = Some code"
    and "\<bar>t' - t\<bar> \<le> tc_period cfg * 1000"
    and ok: "\<And>k m. base64_to_binary secret = Some k \<Longrightarrow> tp_hmac P (tc_algorithm cfg) k m \<noteq> None"
  shows "verify_totp P secret code cfg t' window = Some True"
proof -
  obtain key where key: "base64_to_binary secret = Some key" using assms(3) by (auto simp: generate_totp_def split: option.splits)
  have some: "\<exists>c. generate_totp P secret cfg x = Some c" for x
    using key ok [OF key] by (auto simp: generate_totp_def split: option.splits)
  obtain c p n where w: "generate_totp P secret cfg t' = Some c"
    "generate_totp P secret cfg (t' - tc_period cfg * 1000) = Some p" "generate_totp P secret cfg (t' + tc_period cfg * 1000) = Some n"
    using some by metis
  have m: "time_counter cfg a \<le> time_counter cfg b" if "a \<le> b" for a b
    using that assms(1) by (simp add: time_counter_def zdiv_mono1)
  have "time_counter cfg (t' - tc_period cfg * 1000) \<le> time_counter cfg t" "time_counter cfg t \<le> time_counter cfg (t' + tc_period cfg * 1000)"
    using assms(4) by (auto intro!: m)
  moreover have s: "time_counter cfg (t' - tc_period cfg * 1000) = time_counter cfg t' - 1"
    "time_counter cfg (t' + tc_period cfg * 1000) = time_counter cfg t' + 1"
    using counter_shift [OF assms(1), of t' "-1"] counter_shift [OF assms(1), of t' 1] by simp_all
  ultimately consider "time_counter cfg t = time_counter cfg t'" | "time_counter cfg t = time_counter cfg (t' - tc_period cfg * 1000)"
    | "time_counter cfg t = time_counter cfg (t' + tc_period cfg * 1000)" by linarith
  then have "code = c \<or> code = p \<or> code = n"
    using assms(3) w by cases (metis generate_by_counter option.inject)+
  then show ?thesis using w assms(2) by (auto simp: verify_totp_def generate_totp_window_def)
qed


subsection \<open>Base32 undone\<close>

lemma base32_digit_char: "v < 32 \<Longrightarrow> base32_digit (base32_char v) = Some v"
  by (auto simp: base32_digit_def base32_char_def)

lemma base32_char_not_pad: "v < 32 \<Longrightarrow> base32_char v \<noteq> 61"
  by (auto simp: base32_char_def)

lemma low5_of_shift:
  fixes w :: "32 word"
  assumes "k \<le> 7"
  shows "uint (signed_drop_bit k w AND 0x1F) = uint w div 2 ^ k mod 32"
proof -
  have m: "(0x1F :: 32 word) = mask 5" by (simp add: mask_eq_exp_minus_1)
  have "signed_drop_bit k w AND 0x1F = take_bit 5 (drop_bit k w)"
    unfolding m using assms by (intro bit_eqI) (auto simp: bit_simps bit_signed_drop_bit_iff)
  then show ?thesis by (simp add: unsigned_take_bit_eq unsigned_drop_bit_eq)
    (simp add: take_bit_eq_mod drop_bit_eq_div unsigned_less [of w, where ?'a = int, simplified])
qed


lemma be_bytes_be_value: "be_bytes (length bs) (be_value bs) = bs"
proof (induction bs rule: rev_induct)
  case (snoc b bs)
  have "uint (of_int (be_value bs * 256 + uint b) :: 8 word) = uint b"
    using uint_byte_less [of b] by (simp only: uint_of_int_byte) simp
  then have "(of_int (be_value bs * 256 + uint b) :: 8 word) = b" by (rule word_uint_eqI)
  moreover have "(be_value bs * 256 + uint b) div 256 = be_value bs" using uint_byte_less [of b] by simp
  ultimately show ?case using snoc by (simp add: be_value_snoc)
qed simp

lemma be_value_inject: "length a = length b \<Longrightarrow> be_value a = be_value b \<Longrightarrow> a = b"
  by (metis be_bytes_be_value)

lemma base32_digits_append: "base32_digits (s @ t) = base32_digits s @ base32_digits t"
  by (induction s) (auto simp: base32_digits_def List.map_filter_simps split: option.splits)

lemma base32_value_append: "base32_value (ds @ es) = base32_value ds * 32 ^ length es + base32_value es"
  by (induction ds) (simp_all add: base32_value_Cons power_add algebra_simps, simp add: base32_value_def)

lemma base32_digits_Cons_char: "v < 32 \<Longrightarrow> base32_digits (base32_char v # s) = v # base32_digits s"
  by (simp add: base32_digits_def List.map_filter_simps base32_digit_char)

lemma char_at_digit:
  assumes "k \<le> 7"
  shows "base32_digits (base32_char_at k w # s) = nat (uint w div 2 ^ k mod 32) # base32_digits s"
    and "base32_char_at k w \<noteq> 61"
proof -
  have e: "unat (signed_drop_bit k w AND 0x1F) = nat (uint w div 2 ^ k mod 32)"
    using low5_of_shift [OF assms, of w] by (metis nat_uint_eq)
  have "nat (uint w div 2 ^ k mod 32) < 32" by simp
  then show "base32_digits (base32_char_at k w # s) = nat (uint w div 2 ^ k mod 32) # base32_digits s"
    "base32_char_at k w \<noteq> 61"
    using base32_char_not_pad by (simp_all add: base32_char_at_def e base32_digits_Cons_char)
qed

text \<open>What is emitted: the pending bits above the last incomplete group, as base 32 digits.\<close>

lemma base32_emit_value:
  assumes "bits \<le> 12"
  shows "length (base32_digits (base32_emit bits w)) = bits div 5
    \<and> base32_value (base32_digits (base32_emit bits w)) = uint w mod 2 ^ bits div 2 ^ (bits mod 5)
    \<and> 61 \<notin> set (base32_emit bits w)"
  using assms
proof (induction bits w rule: base32_emit.induct)
  case (1 bits w)
  show ?case
  proof (cases "bits \<ge> 5")
    case False
    then have "bits div 5 = 0" "bits mod 5 = bits" by simp_all
    then show ?thesis using False
      by (subst (1 2 3) base32_emit.simps) (simp add: base32_digits_def List.map_filter_simps base32_value_def div_pos_pos_trivial)
  next
    case True
    obtain k l r where k: "bits = k + 5" "k = 5 * l + r" "r = k mod 5" "l = k div 5" by (metis True le_add_diff_inverse2 mult_div_mod_eq)
    have ih: "length (base32_digits (base32_emit k w)) = l" "base32_value (base32_digits (base32_emit k w)) = uint w mod 2 ^ k div 2 ^ r"
      "61 \<notin> set (base32_emit k w)"
      using 1(1) [OF True] 1(2) unfolding k(1) by (simp_all add: k(3,4))
    have k7: "k \<le> 7" using 1(2) k(1) by simp
    have b: "bits div 5 = Suc l" "bits mod 5 = r" unfolding k(1) by (simp_all add: k(3,4))
    have e: "base32_emit bits w = base32_char_at k w # base32_emit k w" using True k(1) by (subst base32_emit.simps) simp
    have p: "(2::int) ^ k = 32 ^ l * 2 ^ r" by (simp add: k(2) power_add power_mult)
    have "uint w mod 2 ^ bits = 2 ^ k * (uint w div 2 ^ k mod 2 ^ 5) + uint w mod 2 ^ k"
      unfolding k(1) power_add by (rule zmod_zmult2_eq) simp
    also have "\<dots> = (uint w div 2 ^ k mod 32 * 32 ^ l) * 2 ^ r + uint w mod 2 ^ k" by (simp add: p mult_ac)
    finally have "uint w mod 2 ^ bits div 2 ^ r = uint w div 2 ^ k mod 32 * 32 ^ l + uint w mod 2 ^ k div 2 ^ r" by simp
    then show ?thesis using ih k7 by (simp add: e b char_at_digit base32_value_Cons)
  qed
qed

lemma base32_chars_value:
  assumes "bits < 5" "pad = (5 - (bits + 8 * length bs) mod 5) mod 5"
  shows "5 * length (base32_digits (base32_chars bits w bs)) = bits + 8 * length bs + pad
    \<and> base32_value (base32_digits (base32_chars bits w bs)) = (uint w mod 2 ^ bits * 256 ^ length bs + be_value bs) * 2 ^ pad
    \<and> 61 \<notin> set (base32_chars bits w bs)"
  using assms
proof (induction bits w bs rule: base32_chars.induct)
  case (1 bits w)
  show ?case
  proof (cases "bits = 0")
    case True
    then show ?thesis using 1 by (simp add: base32_digits_def List.map_filter_simps base32_value_def be_value_def)
  next
    case False
    then have pad: "pad = 5 - bits" using 1 by simp
    have m: "(0x1F :: 32 word) = mask 5" by (simp add: mask_eq_exp_minus_1)
    have "uint (push_bit (5 - bits) w AND 0x1F) = uint w * 2 ^ (5 - bits) mod 32"
      unfolding m by (simp add: unsigned_take_bit_eq unsigned_push_bit_eq push_bit_take_bit flip: take_bit_eq_mask)
        (simp add: take_bit_eq_mod push_bit_eq_mult)
    also have "\<dots> = uint w mod 2 ^ bits * 2 ^ (5 - bits)"
    proof -
      have "(32::int) = 2 ^ bits * 2 ^ (5 - bits)" using 1(1) by (simp flip: power_add)
      then show ?thesis by (metis mult_mod_left)
    qed
    finally have u: "uint (push_bit (5 - bits) w AND 0x1F) = uint w mod 2 ^ bits * 2 ^ pad" by (simp add: pad)
    obtain v where v: "v = unat (push_bit (5 - bits) w AND 0x1F)" by blast
    have "v < 32" unfolding v m by (simp add: unsigned_take_bit_eq flip: take_bit_eq_mask) (simp add: take_bit_eq_mod)
    moreover have "int v = uint w mod 2 ^ bits * 2 ^ pad" unfolding v using u by simp
    ultimately show ?thesis using False pad 1(1) base32_char_not_pad
      by (simp add: v [symmetric] base32_digits_Cons_char) (simp add: base32_digits_def List.map_filter_simps base32_value_def be_value_def)
  qed
next
  case (2 bits w b bs)
  obtain w1 X r where w1: "w1 = push_bit 8 w OR ucast b" and X: "X = uint w mod 2 ^ bits * 256 + uint b" and r: "r = (bits + 8) mod 5" by blast
  have "uint w1 = (uint w * 256 + uint b) mod 2 ^ 32"
    unfolding w1 using push8_or [of "ucast b" w] uint_byte_less [of b] by (simp add: uint_ucast_byte)
  then have "uint w1 mod 2 ^ (bits + 8) = (uint w * 256 + uint b) mod 2 ^ (bits + 8)"
    using 2(2) by (simp only:) (rule mod_mod_cancel, rule le_imp_power_dvd, simp)
  also have "\<dots> = 256 * ((uint w * 256 + uint b) div 256 mod 2 ^ bits) + (uint w * 256 + uint b) mod 256"
    by (simp only: power_add mult.commute [of "2 ^ bits"]) (subst zmod_zmult2_eq, simp_all)
  also have "\<dots> = X" using uint_byte_less [of b] by (simp add: X)
  finally have x: "uint w1 mod 2 ^ (bits + 8) = X" .
  have rb: "r \<le> bits + 8" unfolding r by (rule mod_less_eq_dividend)
  have xr: "uint w1 mod 2 ^ r = X mod 2 ^ r"
    unfolding x [symmetric] by (rule mod_mod_cancel [symmetric], rule le_imp_power_dvd, rule rb)
  have pad: "pad = (5 - (r + 8 * length bs) mod 5) mod 5"
  proof -
    have "(r + 8 * length bs) mod 5 = (bits + 8 * length (b # bs)) mod 5"
      unfolding r by (simp only: mod_add_left_eq) (simp add: ac_simps)
    then show ?thesis unfolding 2(3) by simp
  qed
  have ih: "5 * length (base32_digits (base32_chars r w1 bs)) = r + 8 * length bs + pad"
    "base32_value (base32_digits (base32_chars r w1 bs)) = (uint w1 mod 2 ^ r * 256 ^ length bs + be_value bs) * 2 ^ pad"
    "61 \<notin> set (base32_chars r w1 bs)"
    using 2(1) [OF w1 refl] pad by (simp_all add: r)
  have em: "length (base32_digits (base32_emit (bits + 8) w1)) = (bits + 8) div 5"
    "base32_value (base32_digits (base32_emit (bits + 8) w1)) = X div 2 ^ r" "61 \<notin> set (base32_emit (bits + 8) w1)"
    using base32_emit_value [of "bits + 8" w1] 2(2) x by (simp_all add: r)
  have c: "base32_chars bits w (b # bs) = base32_emit (bits + 8) w1 @ base32_chars r w1 bs" by (simp add: w1 r Let_def)
  have p32: "(32::int) ^ length (base32_digits (base32_chars r w1 bs)) = 2 ^ r * 256 ^ length bs * 2 ^ pad"
  proof -
    have "(32::int) ^ length (base32_digits (base32_chars r w1 bs)) = 2 ^ (5 * length (base32_digits (base32_chars r w1 bs)))"
      by (simp only: power_mult) simp
    also have "\<dots> = 2 ^ r * 2 ^ (8 * length bs) * 2 ^ pad" unfolding ih(1) by (simp only: power_add)
    also have "(2::int) ^ (8 * length bs) = 256 ^ length bs" by (simp only: power_mult) simp
    finally show ?thesis .
  qed
  have "base32_value (base32_digits (base32_chars bits w (b # bs)))
      = (X div 2 ^ r * 2 ^ r + X mod 2 ^ r) * 256 ^ length bs * 2 ^ pad + be_value bs * 2 ^ pad"
    unfolding c base32_digits_append base32_value_append em ih p32 xr by (simp only: algebra_simps)
  also have "\<dots> = (X * 256 ^ length bs + be_value bs) * 2 ^ pad" by (simp add: algebra_simps)
  also have "X * 256 ^ length bs + be_value bs = uint w mod 2 ^ bits * 256 ^ length (b # bs) + be_value (b # bs)"
    by (simp add: X be_value_Cons algebra_simps)
  finally have v: "base32_value (base32_digits (base32_chars bits w (b # bs)))
      = (uint w mod 2 ^ bits * 256 ^ length (b # bs) + be_value (b # bs)) * 2 ^ pad" .
  have "5 * ((bits + 8) div 5) + r = bits + 8" unfolding r by simp
  then show ?case using v ih em unfolding c by (simp add: base32_digits_append)
qed

lemma base32_round_trip:
  assumes "base64_to_binary s = Some bs"
  shows "\<exists>t. base64_to_base32 s = Some t \<and> base32_to_base64 t = binary_to_base64 bs"
proof -
  obtain c ds pad where c: "c = base32_chars 0 0 bs" "ds = base32_digits c" "pad = (5 - 8 * length bs mod 5) mod 5" by blast
  have v: "5 * length ds = 8 * length bs + pad" "base32_value ds = be_value bs * 2 ^ pad" "61 \<notin> set c"
    using base32_chars_value [of 0 pad bs 0] c by simp_all
  have p: "pad < 5" using c(3) by simp
  have "filter (\<lambda>x. x \<noteq> 61) (pad_base32 c) = c" using v(3) by (auto simp: pad_base32_def filter_id_conv)
  moreover have "base32_loop 0 0 c = bs"
  proof (rule be_value_inject)
    show "length (base32_loop 0 0 c) = length bs" using base32_loop_spec(1) [of c] v(1) p c(2) by simp
    have "5 * length ds mod 8 = pad" using v(1) p by simp
    then show "be_value (base32_loop 0 0 c) = be_value bs" using base32_loop_spec(2) [of c] v(2) c(2) by simp
  qed
  ultimately show ?thesis using assms by (simp add: base64_to_base32_def base32_to_base64_def c(1))
qed


subsection \<open>The counter\<close>

text \<open>While the number of the step fits in 32 bits, the code writes the eight octets of RFC 4226.\<close>

lemma be_bytes_split: "be_bytes (j + k) x = be_bytes j (x div 256 ^ k) @ be_bytes k x"
proof (induction k arbitrary: x)
  case (Suc k)
  have "x div 256 div 256 ^ k = x div 256 ^ Suc k" by (simp add: zdiv_zmult2_eq)
  then show ?case using Suc [of "x div 256"] by simp
qed simp

lemma be_bytes_zero: "be_bytes k 0 = replicate k 0"
  by (induction k) (simp_all add: replicate_append_same)

lemma counter_is_eight_octets:
  assumes "0 < tc_period cfg" "0 \<le> t" "t div 1000 div tc_period cfg < 2 ^ 32"
  shows "counter_bytes (time_counter cfg t) = be_bytes 8 (t div 1000 div tc_period cfg)"
proof -
  let ?c = "t div 1000 div tc_period cfg"
  have "time_counter cfg t = ?c" using assms(1) by (simp add: time_counter_def zdiv_zmult2_eq)
  moreover have "?c div 256 ^ 4 = 0" using assms by (simp add: pos_imp_zdiv_nonneg_iff div_pos_pos_trivial)
  ultimately show ?thesis using be_bytes_split [of 4 4 ?c] by (simp add: counter_bytes_def be_bytes_zero)
qed
subsection \<open>Addresses read back\<close>

definition base32_text :: "jstr \<Rightarrow> bool" where
  "base32_text s \<longleftrightarrow> (\<forall>c \<in> set s. (65 \<le> c \<and> c \<le> 90) \<or> (50 \<le> c \<and> c \<le> 55) \<or> c = 61)"

lemma low5: "unat (w AND 0x1F :: 32 word) < 32"
proof -
  have m: "(0x1F :: 32 word) = mask 5" by (simp add: mask_eq_exp_minus_1)
  show ?thesis unfolding m by (simp add: unsigned_take_bit_eq flip: take_bit_eq_mask) (simp add: take_bit_eq_mod)
qed

lemma base32_char_text: "n < 32 \<Longrightarrow> base32_text (base32_char n # s) \<longleftrightarrow> base32_text s"
  by (auto simp: base32_text_def base32_char_def)

lemma base32_text_append: "base32_text (s @ t) \<longleftrightarrow> base32_text s \<and> base32_text t"
  by (auto simp: base32_text_def)

lemma base32_emit_text: "base32_text (base32_emit bits w)"
proof (induction bits w rule: base32_emit.induct)
  case (1 bits w)
  then show ?case
    by (subst base32_emit.simps) (auto simp: base32_char_at_def base32_char_text low5, simp add: base32_text_def)
qed

lemma base32_chars_text: "base32_text (base32_chars bits w bs)"
proof (induction bits w bs rule: base32_chars.induct)
  case (1 bits w)
  then show ?case using low5 [of "push_bit (5 - bits) w"] by (auto simp: base32_char_text) (auto simp: base32_text_def)
next
  case (2 bits w b bs)
  then show ?case by (simp add: base32_text_append base32_emit_text Let_def)
qed

lemma pad_base32_text: "base32_text s \<Longrightarrow> base32_text (pad_base32 s)"
  by (auto simp: base32_text_def pad_base32_def)

lemma base32_text_no_space: "base32_text s \<Longrightarrow> filter (\<lambda>c. \<not> js_space c) s = s"
proof -
  assume s: "base32_text s"
  have "\<not> js_space c" if "50 \<le> c" "c \<le> 90" for c using that by (simp add: js_space_def)
  moreover have "50 \<le> c \<and> c \<le> 90" if "c \<in> set s" for c using s that by (force simp: base32_text_def)
  ultimately show ?thesis by (simp add: filter_id_conv)
qed

lemma base32_chars_nonempty: "bs \<noteq> [] \<Longrightarrow> base32_chars 0 0 bs \<noteq> []"
proof -
  have e: "base32_emit (0 + 8) w \<noteq> []" for w by (subst base32_emit.simps) simp
  show "bs \<noteq> [] \<Longrightarrow> base32_chars 0 0 bs \<noteq> []"
    by (cases bs) (simp_all only: base32_chars.simps Let_def append_is_Nil_conv e simp_thms)
qed

text \<open>
  What the URL parser does with such an address: the label is one path segment that is
  not a dot segment, and the parameters are read in order.  Both hold of texts without
  lone surrogates only: \<^verbatim>\<open>encodeURIComponent\<close> throws on a lone surrogate, and the form
  encoder replaces it.
\<close>

fun well_formed_text :: "jstr \<Rightarrow> bool" where
  "well_formed_text [] \<longleftrightarrow> True"
| "well_formed_text [c] \<longleftrightarrow> \<not> high_surrogate c \<and> \<not> low_surrogate c"
| "well_formed_text (c # d # s) \<longleftrightarrow> (if high_surrogate c \<and> low_surrogate d then well_formed_text s
     else \<not> high_surrogate c \<and> \<not> low_surrogate c \<and> well_formed_text (d # s))"

lemma well_formed_ascii: "\<forall>c \<in> set s. c < 128 \<Longrightarrow> well_formed_text s"
  by (induction s rule: well_formed_text.induct) (auto simp: high_surrogate_def low_surrogate_def)

lemma well_formed_before_colon: "well_formed_text (s @ 58 # t) \<Longrightarrow> well_formed_text s"
  by (induction s rule: well_formed_text.induct)
     (auto simp: high_surrogate_def low_surrogate_def split: if_splits)

definition otp_uri_reads_back :: "totp_platform \<Rightarrow> bool" where
  "otp_uri_reads_back P \<longleftrightarrow> (\<forall>l e. tp_encode_component P l = Some e \<longrightarrow> well_formed_text l \<and>
     (\<forall>ps. l \<notin> {[46], [46, 46]} \<and> (\<forall>(k, v) \<in> set ps. well_formed_text k \<and> well_formed_text v) \<longrightarrow>
       tp_parse_url P (lit ''otpauth://totp/'' @ e @ [63] @ tp_form P ps)
         = Some \<lparr>ou_protocol = lit ''otpauth:'', ou_hostname = lit ''totp'', ou_pathname = 47 # e, ou_params = ps\<rparr>
       \<and> tp_decode_component P e = Some l))"

definition upper_fixed :: "totp_platform \<Rightarrow> bool" where
  "upper_fixed P \<longleftrightarrow> (\<forall>s. (\<forall>c \<in> set s. c < 97) \<longrightarrow> tp_to_upper P s = s)"

lemma algorithm_param_read:
  "upper_fixed P \<Longrightarrow> normalize_totp_algorithm P (Some (algorithm_to_uri_param a)) = Some a"
  by (cases a) (simp_all add: normalize_totp_algorithm_def algorithm_to_uri_param_def upper_fixed_def lit_def)

lemma otp_params_well_formed:
  "well_formed_text (lit ''secret'')" "well_formed_text (lit ''algorithm'')" "well_formed_text (lit ''digits'')"
  "well_formed_text (lit ''period'')" "well_formed_text (lit ''issuer'')"
  "well_formed_text (algorithm_to_uri_param a)" "well_formed_text (dec_nat n)" "well_formed_text (dec_int i)"
proof -
  have d: "c < 128" if "c \<in> set (dec_nat n)" for c n using dec_nat_digits [OF that] by (simp add: is_digit_def)
  show "well_formed_text (dec_nat n)" by (intro well_formed_ascii ballI d)
  show "well_formed_text (dec_int i)" by (intro well_formed_ascii ballI) (auto simp: dec_int_def dest: d split: if_splits)
  show "well_formed_text (algorithm_to_uri_param a)"
    by (intro well_formed_ascii) (cases a; simp add: algorithm_to_uri_param_def lit_def)
qed (intro well_formed_ascii; simp add: lit_def)+

lemma otp_address_parsed:
  assumes P: "otp_uri_reads_back P" "upper_fixed P"
    and uri: "generate_otp_auth_uri P secret label issuer cfg = Some uri"
    and secret: "base64_to_binary secret = Some bs" "bs \<noteq> []"
    and cfg: "tc_digits cfg \<in> {6, 8}" "0 < tc_period cfg"
    and lbl: "text = (case issuer of None \<Rightarrow> [] | Some i \<Rightarrow> if i = [] then [] else i @ [58]) @ label" "text \<notin> {[46], [46, 46]}"
  shows "\<exists>a. parse_otp_auth_uri P uri = Some a \<and> base32_to_base64 (oa_secret a) = binary_to_base64 bs
    \<and> oa_label a = text \<and> oa_issuer a = (if issuer = Some [] then None else issuer)
    \<and> oa_algorithm a = tc_algorithm cfg \<and> oa_digits a = int (tc_digits cfg) \<and> oa_period a = Some (tc_period cfg)"
proof -
  obtain s32 where s32: "base64_to_base32 secret = Some s32" "base32_to_base64 s32 = binary_to_base64 bs"
    using base32_round_trip [OF secret(1)] by blast
  have t: "s32 = pad_base32 (base32_chars 0 0 bs)" using s32(1) secret(1) by (simp add: base64_to_base32_def)
  have b: "base32_text s32" unfolding t by (intro pad_base32_text base32_chars_text)
  have n: "s32 \<noteq> []" unfolding t using base32_chars_nonempty [OF secret(2)] by (simp add: pad_base32_def)
  have up: "tp_to_upper P (filter (\<lambda>c. \<not> js_space c) s32) = s32"
    using P(2) b by (simp add: base32_text_no_space upper_fixed_def) (force simp: base32_text_def)
  obtain ps where ps: "ps = [(lit ''secret'', s32), (lit ''algorithm'', algorithm_to_uri_param (tc_algorithm cfg)),
      (lit ''digits'', dec_nat (tc_digits cfg)), (lit ''period'', dec_int (tc_period cfg))]
      @ (if issuer \<noteq> None \<and> issuer \<noteq> Some [] then [(lit ''issuer'', the issuer)] else [])" by blast
  obtain e where e: "tp_encode_component P text = Some e" "uri = lit ''otpauth://totp/'' @ e @ [63] @ tp_form P ps"
    using uri s32(1) unfolding lbl(1)
    by (cases issuer) (auto simp: generate_otp_auth_uri_def Let_def ps split: option.splits if_splits)
  have "well_formed_text text" using P(1) e(1) by (auto simp: otp_uri_reads_back_def)
  then have wi: "well_formed_text i" if "issuer = Some i" "i \<noteq> []" for i
    using lbl(1) that well_formed_before_colon [of i label] by simp
  have ws: "well_formed_text s32" using b by (intro well_formed_ascii) (force simp: base32_text_def)
  have wp: "\<forall>(k, v) \<in> set ps. well_formed_text k \<and> well_formed_text v"
    by (cases issuer) (use wi in \<open>auto simp: ps ws otp_params_well_formed\<close>)
  have u: "tp_parse_url P uri = Some \<lparr>ou_protocol = lit ''otpauth:'', ou_hostname = lit ''totp'', ou_pathname = 47 # e, ou_params = ps\<rparr>"
    "tp_decode_component P e = Some text"
    using P(1) e lbl(2) wp unfolding otp_uri_reads_back_def by blast+
  have k: "map_of ps (lit ''secret'') = Some s32" "map_of ps (lit ''algorithm'') = Some (algorithm_to_uri_param (tc_algorithm cfg))"
    "map_of ps (lit ''digits'') = Some (dec_nat (tc_digits cfg))" "map_of ps (lit ''period'') = Some (dec_nat (nat (tc_period cfg)))"
    "map_of ps (lit ''issuer'') = (if issuer = Some [] then None else issuer)"
    using cfg(2) by (auto simp: ps dec_int_of_pos lit_def split: option.splits)
  have d: "parse_int (or_text (Some (dec_nat m)) d) = Some (int m)" for m d by (simp add: or_text_def parse_int_dec_nat)
  show ?thesis using u k d n up algorithm_param_read [OF P(2)] cfg s32(2)
    by (auto simp: parse_otp_auth_uri_def Let_def)
qed

end
