(* ===== verification/Vault_Keys.thy ===== *)
theory Vault_Keys
  imports Authored_Release
begin

text \<open>
  Keys from a passphrase and what is encrypted under them:
  src/src/infrastructure/crypto/key-derivation-service.ts, EncryptionService.ts,
  crypto-service.ts, argon2-kdf.ts and secure-memory.ts.  PBKDF2, Argon2id, SHA-256
  and ECDSA are the record \<^verbatim>\<open>key_crypto\<close> (None where they throw); salts and
  initialization vectors are arguments.
\<close>

record argon2_config =
  ac_memory_size :: int
  ac_iterations :: int
  ac_parallelism :: int
  ac_hash_length :: nat

record key_crypto =
  kc_pbkdf2 :: "bytes \<Rightarrow> bytes \<Rightarrow> int \<Rightarrow> nat \<Rightarrow> bytes"
  kc_argon2id :: "argon2_config \<Rightarrow> bytes \<Rightarrow> bytes \<Rightarrow> jstr option"
  kc_sha256 :: "bytes \<Rightarrow> bytes"
  kc_ecdsa_sign :: "jstr \<Rightarrow> bytes \<Rightarrow> bytes option"
  kc_ecdsa_verify :: "jstr \<Rightarrow> bytes \<Rightarrow> bytes \<Rightarrow> bool option"

datatype crypto_error = Bad_Base64 | Bad_Key | Encryption_Failed | Decryption_Failed

subsection \<open>The derivation chain\<close>

definition key_iterations :: int where "key_iterations = 600000"
definition master_secret_bits :: nat where "master_secret_bits = 512"
definition key_output_bits :: nat where "key_output_bits = 256"
definition key_scheme :: jstr where "key_scheme = lit ''hkdf-sha256-v2''"
definition verifier_info :: jstr where "verifier_info = lit ''cybervault|master_key_verify|v2''"
definition session_key_info :: jstr where "session_key_info = lit ''cybervault|session_key|v2''"
definition default_key_info :: jstr where "default_key_info = lit ''cybervault|derive_key|v2''"
definition verifier_scheme_prefix :: jstr where "verifier_scheme_prefix = key_scheme @ [36]"

definition derive_key :: "subtle \<Rightarrow> key_crypto \<Rightarrow> jstr \<Rightarrow> bytes \<Rightarrow> int \<Rightarrow> nat \<Rightarrow> jstr option \<Rightarrow> jstr" where
  "derive_key S K password salt iterations bits info =
     (let master_secret = kc_pbkdf2 K (utf8_encode password) salt iterations master_secret_bits
      in binary_to_base64 (hkdf_sha256 S master_secret salt
           (utf8_encode (case info of None \<Rightarrow> default_key_info | Some i \<Rightarrow> i)) bits))"

definition derive_verification_hash :: "subtle \<Rightarrow> key_crypto \<Rightarrow> jstr \<Rightarrow> bytes \<Rightarrow> jstr" where
  "derive_verification_hash S K master salt =
     derive_key S K master salt key_iterations key_output_bits (Some verifier_info)"

definition derive_session_key :: "subtle \<Rightarrow> key_crypto \<Rightarrow> jstr \<Rightarrow> bytes \<Rightarrow> jstr" where
  "derive_session_key S K master salt =
     derive_key S K master salt key_iterations key_output_bits (Some session_key_info)"

subsection \<open>Encryption under a session key\<close>

definition aes_iv_length :: nat where "aes_iv_length = 12"
definition pbkdf2_salt_length :: nat where "pbkdf2_salt_length = 16"

definition encrypt_with_key :: "subtle \<Rightarrow> bytes \<Rightarrow> jstr \<Rightarrow> jstr \<Rightarrow> crypto_error + jstr" where
  "encrypt_with_key S iv data key = (case base64_to_binary key of
     None \<Rightarrow> Inl Bad_Base64
   | Some k \<Rightarrow> (case aes_gcm_encrypt S k iv [] (utf8_encode data) of
       None \<Rightarrow> Inl Encryption_Failed
     | Some c \<Rightarrow> Inr (binary_to_base64 (iv @ c))))"

definition decrypt_with_key :: "subtle \<Rightarrow> jstr \<Rightarrow> jstr \<Rightarrow> crypto_error + jstr" where
  "decrypt_with_key S data key = (case base64_to_binary key of
     None \<Rightarrow> Inl Bad_Base64
   | Some k \<Rightarrow> (case base64_to_binary data of
       None \<Rightarrow> Inl Bad_Base64
     | Some combined \<Rightarrow>
         (case aes_gcm_decrypt S k (take aes_iv_length combined) [] (drop aes_iv_length combined) of
            None \<Rightarrow> Inl Decryption_Failed
          | Some pt \<Rightarrow> Inr (text_decode S pt))))"

subsection \<open>Encryption under a passphrase\<close>

definition master_aes_key :: "key_crypto \<Rightarrow> jstr \<Rightarrow> bytes \<Rightarrow> bytes" where
  "master_aes_key K master salt = kc_pbkdf2 K (utf8_encode master) salt key_iterations key_output_bits"

definition encrypt_with_master ::
  "subtle \<Rightarrow> key_crypto \<Rightarrow> bytes \<Rightarrow> bytes \<Rightarrow> jstr \<Rightarrow> jstr \<Rightarrow> crypto_error + jstr" where
  "encrypt_with_master S K salt iv data master =
     (case aes_gcm_encrypt S (master_aes_key K master salt) iv [] (utf8_encode data) of
        None \<Rightarrow> Inl Encryption_Failed
      | Some c \<Rightarrow> Inr (binary_to_base64 (salt @ iv @ c)))"

text \<open>salt | iv | ciphertext.\<close>

definition open_master_blob :: "subtle \<Rightarrow> key_crypto \<Rightarrow> bytes \<Rightarrow> jstr \<Rightarrow> crypto_error + jstr" where
  "open_master_blob S K combined master =
     (let salt = take pbkdf2_salt_length combined;
        iv = take aes_iv_length (drop pbkdf2_salt_length combined);
        c = drop (pbkdf2_salt_length + aes_iv_length) combined
      in case aes_gcm_decrypt S (master_aes_key K master salt) iv [] c of
           None \<Rightarrow> Inl Decryption_Failed
         | Some pt \<Rightarrow> Inr (text_decode S pt))"

definition decrypt_with_master :: "subtle \<Rightarrow> key_crypto \<Rightarrow> jstr \<Rightarrow> jstr \<Rightarrow> crypto_error + jstr" where
  "decrypt_with_master S K data master = (case base64_to_binary data of
     None \<Rightarrow> Inl Bad_Base64 | Some combined \<Rightarrow> open_master_blob S K combined master)"

text \<open>CryptoService: the same blobs, but one generic error.\<close>

definition crypto_encrypt ::
  "subtle \<Rightarrow> key_crypto \<Rightarrow> bytes \<Rightarrow> bytes \<Rightarrow> jstr \<Rightarrow> jstr \<Rightarrow> crypto_error + jstr" where
  "crypto_encrypt S K salt iv data master =
     (case aes_gcm_encrypt S (master_aes_key K master salt) iv [] (utf8_encode data) of
        None \<Rightarrow> Inl Encryption_Failed
      | Some c \<Rightarrow> Inr (binary_to_base64 (salt @ iv @ c)))"

definition crypto_decrypt :: "subtle \<Rightarrow> key_crypto \<Rightarrow> jstr \<Rightarrow> jstr \<Rightarrow> crypto_error + jstr" where
  "crypto_decrypt S K data master = (case base64_to_binary data of
     None \<Rightarrow> Inl Decryption_Failed | Some combined \<Rightarrow> open_master_blob S K combined master)"

definition crypto_hash :: "key_crypto \<Rightarrow> jstr \<Rightarrow> jstr" where
  "crypto_hash K data = to_hex (kc_sha256 K (utf8_encode data))"

definition crypto_derive_key :: "key_crypto \<Rightarrow> jstr \<Rightarrow> jstr \<Rightarrow> int \<Rightarrow> crypto_error + jstr" where
  "crypto_derive_key K password salt iterations = (case base64_to_binary salt of
     None \<Rightarrow> Inl Bad_Base64
   | Some s \<Rightarrow> Inr (binary_to_base64 (kc_pbkdf2 K (utf8_encode password) s iterations key_output_bits)))"

definition crypto_sign :: "key_crypto \<Rightarrow> jstr \<Rightarrow> jstr \<Rightarrow> crypto_error + jstr" where
  "crypto_sign K data private_key = (case kc_ecdsa_sign K private_key (utf8_encode data) of
     None \<Rightarrow> Inl Bad_Key | Some s \<Rightarrow> Inr (binary_to_base64 s))"

definition crypto_verify :: "key_crypto \<Rightarrow> jstr \<Rightarrow> jstr \<Rightarrow> jstr \<Rightarrow> bool" where
  "crypto_verify K data signature public_key = (case base64_to_binary signature of
     None \<Rightarrow> False
   | Some s \<Rightarrow> (case kc_ecdsa_verify K public_key s (utf8_encode data) of None \<Rightarrow> False | Some b \<Rightarrow> b))"

subsection \<open>Argon2id with its fallback\<close>

definition default_argon2_config :: argon2_config where
  "default_argon2_config = \<lparr>ac_memory_size = 65536, ac_iterations = 3, ac_parallelism = 4, ac_hash_length = 32\<rparr>"

definition probe_argon2_config :: argon2_config where
  "probe_argon2_config = \<lparr>ac_memory_size = 65536, ac_iterations = 1, ac_parallelism = 1, ac_hash_length = 32\<rparr>"

datatype kdf_algorithm = Argon2id | Pbkdf2_Fallback

record kdf_result =
  kr_key :: bytes
  kr_algorithm :: kdf_algorithm

text \<open>Whether the module has seen Argon2id work; it is probed until it has.\<close>

definition initialize_argon2 :: "key_crypto \<Rightarrow> bool \<Rightarrow> bool" where
  "initialize_argon2 K available =
     (available \<or> kc_argon2id K probe_argon2_config (map of_nat [1..<9]) (replicate 16 1) \<noteq> None)"

text \<open>\<^verbatim>\<open>parseInt(pair, 16)\<close>; a pair that is not hexadecimal gives NaN, which is stored as 0.\<close>

fun bytes_of_hex_text :: "jstr \<Rightarrow> bytes" where
  "bytes_of_hex_text (a # b # s) = of_nat (case (hex_value a, hex_value b) of
     (Some hi, Some lo) \<Rightarrow> hi * 16 + lo | (Some hi, None) \<Rightarrow> hi | _ \<Rightarrow> 0) # bytes_of_hex_text s"
| "bytes_of_hex_text _ = []"

definition derive_with_argon2 :: "key_crypto \<Rightarrow> bool \<Rightarrow> bytes \<Rightarrow> bytes \<Rightarrow> argon2_config \<Rightarrow> kdf_result option" where
  "derive_with_argon2 K available password salt cfg =
     (if \<not> available then None
      else map_option (\<lambda>hex. \<lparr>kr_key = bytes_of_hex_text hex, kr_algorithm = Argon2id\<rparr>)
        (kc_argon2id K cfg password salt))"

definition derive_with_pbkdf2 :: "key_crypto \<Rightarrow> bytes \<Rightarrow> bytes \<Rightarrow> kdf_result" where
  "derive_with_pbkdf2 K password salt =
     \<lparr>kr_key = kc_pbkdf2 K password salt key_iterations (8 * 32), kr_algorithm = Pbkdf2_Fallback\<rparr>"

definition kdf_derive_key ::
  "key_crypto \<Rightarrow> bool \<Rightarrow> bytes \<Rightarrow> bytes \<Rightarrow> argon2_config \<Rightarrow> (string + kdf_result) \<times> bool" where
  "kdf_derive_key K available password salt cfg =
     (if ac_memory_size cfg < 65536 then (Inl ''memorySize must be >= 65536 KB'', available)
      else if ac_iterations cfg < 1 then (Inl ''iterations must be >= 1'', available)
      else if ac_parallelism cfg < 1 then (Inl ''parallelism must be >= 1'', available)
      else let ready = initialize_argon2 K available in
        (Inr (case derive_with_argon2 K ready password salt cfg of
            None \<Rightarrow> derive_with_pbkdf2 K password salt | Some r \<Rightarrow> r), ready))"

text \<open>The vault is handed back as it came, beside the new key.\<close>

definition migrate_vault_to_argon2 ::
  "key_crypto \<Rightarrow> bool \<Rightarrow> jstr \<Rightarrow> bytes \<Rightarrow> bytes \<Rightarrow> bytes \<Rightarrow> (string + bytes \<times> bytes) \<times> bool" where
  "migrate_vault_to_argon2 K available password old_salt vault new_salt =
     (case kdf_derive_key K available (utf8_encode password) new_salt default_argon2_config of
        (Inl e, a) \<Rightarrow> (Inl e, a) | (Inr r, a) \<Rightarrow> (Inr (kr_key r, vault), a))"

subsection \<open>Buffers that are wiped\<close>

record secure_buffer =
  sb_bytes :: bytes
  sb_freed :: bool

definition new_secure_buffer :: "nat \<Rightarrow> secure_buffer" where
  "new_secure_buffer n = \<lparr>sb_bytes = replicate n 0, sb_freed = False\<rparr>"

datatype buffer_error = Buffer_Freed | Data_Too_Long | Range_Error

definition buffer_view :: "secure_buffer \<Rightarrow> buffer_error + bytes" where
  "buffer_view b = (if sb_freed b then Inl Buffer_Freed else Inr (sb_bytes b))"

definition copy_from :: "secure_buffer \<Rightarrow> bytes \<Rightarrow> buffer_error + secure_buffer" where
  "copy_from b data =
     (if sb_freed b then Inl Buffer_Freed
      else if length data > length (sb_bytes b) then Inl Data_Too_Long
      else Inr (b\<lparr>sb_bytes := data @ drop (length data) (sb_bytes b)\<rparr>))"

definition copy_to :: "secure_buffer \<Rightarrow> bytes \<Rightarrow> buffer_error + bytes" where
  "copy_to b destination =
     (if sb_freed b then Inl Buffer_Freed
      else let s = take (length destination) (sb_bytes b) in Inr (s @ drop (length s) destination))"

definition buffer_free :: "secure_buffer \<Rightarrow> secure_buffer" where
  "buffer_free b = (if sb_freed b then b else \<lparr>sb_bytes = secure_zero (sb_bytes b), sb_freed = True\<rparr>)"

subsection \<open>What is encrypted is read back\<close>

lemma b64_char_mod: "\<exists>n < 64. b64_char (m mod 64) = b64_char n"
  by (rule exI [of _ "m mod 64"]) simp

lemma b64_groups_shape:
  "\<forall>n \<in> set ns. n < 256 \<Longrightarrow>
     length (b64_groups ns) \<le> 4 * length ns \<and> (\<forall>c \<in> set (b64_groups ns). c = 61 \<or> (\<exists>n < 64. c = b64_char n))"
proof (induction ns rule: b64_groups.induct)
  case (1 a b c rest)
  then have "(a * 65536 + b * 256 + c) div 262144 < 64" by auto
  then show ?case using 1 b64_char_mod by (auto simp: Let_def)
next
  case (2 a b)
  then have "(a * 65536 + b * 256) div 262144 < 64" by auto
  then show ?case using b64_char_mod by (auto simp: Let_def)
next
  case (3 a)
  then have "a * 65536 div 262144 < 64" by auto
  then show ?case using b64_char_mod by (auto simp: Let_def)
qed simp

lemma base64_chars: "c \<in> set (binary_to_base64 bs) \<Longrightarrow> c = 61 \<or> (\<exists>n < 64. c = b64_char n)"
  using b64_groups_shape [of "nats_of bs"] nats_of_bound [of bs] by (auto simp: binary_to_base64_def)

lemma base64_length: "length (binary_to_base64 bs) \<le> 4 * length bs"
  using b64_groups_shape [of "nats_of bs"] nats_of_bound [of bs] by (auto simp: binary_to_base64_def)

lemma encrypted_with_key_opens:
  assumes "aead_ok S" "decodes S data" "length iv = aes_iv_length"
    and "encrypt_with_key S iv data key = Inr blob"
  shows "decrypt_with_key S blob key = Inr data"
  using assms
  by (auto simp: encrypt_with_key_def decrypt_with_key_def base64_round_trip aead_ok_def decodes_def
      split: option.splits)

lemma encrypted_with_master_opens:
  assumes "aead_ok S" "decodes S data" "length iv = aes_iv_length" "length salt = pbkdf2_salt_length"
    and "encrypt_with_master S K salt iv data master = Inr blob"
  shows "decrypt_with_master S K blob master = Inr data"
  using assms
  by (auto simp: encrypt_with_master_def decrypt_with_master_def open_master_blob_def Let_def base64_round_trip
      aead_ok_def decodes_def split: option.splits)

text \<open>The two services read each other's blobs.\<close>

lemma crypto_encrypt_same: "crypto_encrypt S K salt iv data master = encrypt_with_master S K salt iv data master"
  by (simp add: crypto_encrypt_def encrypt_with_master_def)

lemma crypto_decrypt_same: "crypto_decrypt S K data master = Inr t \<longleftrightarrow> decrypt_with_master S K data master = Inr t"
  by (auto simp: crypto_decrypt_def decrypt_with_master_def split: option.splits)

lemma crypto_decrypt_generic_error: "crypto_decrypt S K data master = Inl e \<Longrightarrow> e = Decryption_Failed"
  by (auto simp: crypto_decrypt_def open_master_blob_def Let_def split: option.splits)

lemma bytes_of_hex_text_to_hex: "bytes_of_hex_text (to_hex bs) = bs"
proof (induction bs)
  case (Cons b bs)
  have "unat b div 16 < 16" using unat_byte_less [of b] by (simp add: less_mult_imp_div_less)
  moreover have "of_nat (unat b div 16 * 16 + unat b mod 16) = b" by simp
  ultimately show ?case using Cons by (simp add: to_hex_def nats_of_def hex_value_digit)
qed (simp add: to_hex_def nats_of_def)

lemma kdf_uses_argon2:
  assumes "kdf_derive_key K available password salt cfg = (Inr r, ready)"
  shows "(kr_algorithm r = Argon2id \<and> (\<exists>hex. kc_argon2id K cfg password salt = Some hex \<and> kr_key r = bytes_of_hex_text hex))
    \<or> (kr_algorithm r = Pbkdf2_Fallback \<and> kr_key r = kc_pbkdf2 K password salt key_iterations 256
        \<and> (\<not> ready \<or> kc_argon2id K cfg password salt = None))"
  using assms by (auto simp: kdf_derive_key_def derive_with_argon2_def derive_with_pbkdf2_def Let_def split: if_splits option.splits)

lemma freed_buffer_is_wiped:
  "\<not> sb_freed b \<Longrightarrow> set (sb_bytes (buffer_free b)) \<subseteq> {0} \<and> buffer_view (buffer_free b) = Inl Buffer_Freed
     \<and> length (sb_bytes (buffer_free b)) = length (sb_bytes b)"
  by (auto simp: buffer_free_def secure_zero_def buffer_view_def)

lemma copied_into_buffer:
  assumes "copy_from (new_secure_buffer (length data)) data = Inr b"
  shows "buffer_view b = Inr data"
  using assms by (auto simp: copy_from_def new_secure_buffer_def buffer_view_def)

end
