(* ===== verification/Master_Key.thy ===== *)
theory Master_Key
  imports Vault_Keys
begin

unbundle bit_operations_syntax

text \<open>
  The master key and its session: src/src/infrastructure/crypto/master-key-manager.ts.
  The state is the two storage areas it writes; an operation reads the clock once.
  Storage failures are left out, but every other throw that an operation turns into a
  generic error is a branch.
\<close>

record local_area =
  la_verify :: "jstr option"
  la_salt :: "jstr option"
  la_scheme :: "jstr option"
  la_initialized :: bool
  la_credentials :: "jstr list option"

record session_area =
  sa_key :: "jstr option"
  sa_unlock_time :: "int option"

record key_areas =
  ka_local :: local_area
  ka_session :: session_area

definition empty_areas :: key_areas where
  "empty_areas = \<lparr>ka_local = \<lparr>la_verify = None, la_salt = None, la_scheme = None, la_initialized = False,
     la_credentials = None\<rparr>, ka_session = \<lparr>sa_key = None, sa_unlock_time = None\<rparr>\<rparr>"

datatype master_key_result =
    Mk_Success
  | Mk_Too_Short
  | Mk_Already_Initialized
  | Mk_Vault_Not_Initialized
  | Mk_Scheme_Unsupported
  | Mk_Wrong_Passphrase
  | Mk_Failed

definition session_duration_ms :: int where "session_duration_ms = 15 * 60 * 1000"

subsection \<open>Comparison\<close>

text \<open>\<^verbatim>\<open>s.charCodeAt(i % s.length)\<close>; of the empty text it is NaN, which is 0 to XOR.\<close>

definition unit_at :: "jstr \<Rightarrow> nat \<Rightarrow> 32 word" where
  "unit_at s i = (if s = [] then 0 else of_nat (s ! (i mod length s)))"

definition timing_safe_text_equal :: "jstr \<Rightarrow> jstr \<Rightarrow> bool" where
  "timing_safe_text_equal a b \<longleftrightarrow>
     foldl (\<lambda>r i. r OR (unit_at a i XOR unit_at b i)) (of_nat (length a) XOR of_nat (length b) :: 32 word)
       [0..<max (length a) (length b)] = 0"

subsection \<open>Operations\<close>

definition has_current_scheme :: "jstr option \<Rightarrow> jstr option \<Rightarrow> bool" where
  "has_current_scheme sch verifier \<longleftrightarrow>
     sch = Some key_scheme \<and> (case verifier of None \<Rightarrow> False | Some v \<Rightarrow> starts_with v verifier_scheme_prefix)"

definition is_vault_initialized :: "key_areas \<Rightarrow> bool" where
  "is_vault_initialized st = la_initialized (ka_local st)"

definition open_session :: "int \<Rightarrow> jstr \<Rightarrow> key_areas \<Rightarrow> key_areas" where
  "open_session now key st = st\<lparr>ka_session := \<lparr>sa_key = Some key, sa_unlock_time = Some now\<rparr>\<rparr>"

definition initialize_vault ::
  "subtle \<Rightarrow> key_crypto \<Rightarrow> int \<Rightarrow> bytes \<Rightarrow> jstr \<Rightarrow> key_areas \<Rightarrow> master_key_result \<times> key_areas" where
  "initialize_vault S K now salt master st =
     (if length master < 12 then (Mk_Too_Short, st)
      else if is_vault_initialized st then
        (if has_current_scheme (la_scheme (ka_local st)) (la_verify (ka_local st))
         then (Mk_Already_Initialized, st) else (Mk_Scheme_Unsupported, st))
      else (Mk_Success,
        (open_session now (derive_session_key S K master salt) st)\<lparr>ka_local :=
          \<lparr>la_verify = Some (verifier_scheme_prefix @ derive_verification_hash S K master salt),
           la_salt = Some (binary_to_base64 salt), la_scheme = Some key_scheme, la_initialized = True,
           la_credentials = Some []\<rparr>\<rparr>))"

definition is_session_valid :: "int \<Rightarrow> key_areas \<Rightarrow> bool" where
  "is_session_valid now st \<longleftrightarrow> (case (sa_key (ka_session st), sa_unlock_time (ka_session st)) of
     (Some k, Some t) \<Rightarrow> k \<noteq> [] \<and> t \<noteq> 0 \<and> now - t < session_duration_ms
   | _ \<Rightarrow> False)"

definition is_vault_unlocked :: "int \<Rightarrow> key_areas \<Rightarrow> bool" where
  "is_vault_unlocked now st = is_session_valid now st"

definition refresh_session :: "int \<Rightarrow> key_areas \<Rightarrow> key_areas" where
  "refresh_session now st =
     (if is_session_valid now st then st\<lparr>ka_session := (ka_session st)\<lparr>sa_unlock_time := Some now\<rparr>\<rparr> else st)"

definition lock_vault :: "key_areas \<Rightarrow> key_areas" where
  "lock_vault st = st\<lparr>ka_session := \<lparr>sa_key = None, sa_unlock_time = None\<rparr>\<rparr>"

definition unlock_vault :: "subtle \<Rightarrow> key_crypto \<Rightarrow> int \<Rightarrow> jstr \<Rightarrow> key_areas \<Rightarrow> master_key_result \<times> key_areas" where
  "unlock_vault S K now master st =
     (if is_session_valid now st then (Mk_Success, refresh_session now st)
      else let l = ka_local st in
        if \<not> la_initialized l then (Mk_Vault_Not_Initialized, st)
        else if \<not> has_current_scheme (la_scheme l) (la_verify l) then (Mk_Scheme_Unsupported, st)
        else if absent (la_salt l) then (Mk_Vault_Not_Initialized, st)
        else (case base64_to_binary (the (la_salt l)) of
            None \<Rightarrow> (Mk_Failed, st)
          | Some salt \<Rightarrow>
              if \<not> timing_safe_text_equal (derive_verification_hash S K master salt)
                  (drop (length verifier_scheme_prefix) (the (la_verify l)))
              then (Mk_Wrong_Passphrase, st)
              else (Mk_Success, open_session now (derive_session_key S K master salt) st)))"

definition get_session_key :: "int \<Rightarrow> key_areas \<Rightarrow> jstr option \<times> key_areas" where
  "get_session_key now st =
     (if \<not> is_session_valid now st then (None, lock_vault st)
      else if absent (sa_key (ka_session st)) then (None, st)
      else (sa_key (ka_session st), refresh_session now st))"

text \<open>The outer option is the promise (None: rejected), the inner one its value (None: null).\<close>

definition encrypt_with_session_key ::
  "subtle \<Rightarrow> int \<Rightarrow> bytes \<Rightarrow> jstr \<Rightarrow> key_areas \<Rightarrow> jstr option option \<times> key_areas" where
  "encrypt_with_session_key S now iv data st = (case get_session_key now st of (k, st1) \<Rightarrow>
     (if absent k then Some None
      else (case encrypt_with_key S iv data (the k) of Inl _ \<Rightarrow> None | Inr c \<Rightarrow> Some (Some c)), st1))"

definition decrypt_with_session_key ::
  "subtle \<Rightarrow> int \<Rightarrow> jstr \<Rightarrow> key_areas \<Rightarrow> jstr option \<times> key_areas" where
  "decrypt_with_session_key S now data st = (case get_session_key now st of (k, st1) \<Rightarrow>
     (if absent k then None
      else (case decrypt_with_key S data (the k) of Inl _ \<Rightarrow> None | Inr t \<Rightarrow> Some t), st1))"

definition reset_vault :: "key_areas \<Rightarrow> key_areas" where
  "reset_vault st = (lock_vault st)\<lparr>ka_local := ka_local empty_areas\<rparr>"

subsection \<open>The comparison is equality\<close>

lemma foldl_or_zero:
  "foldl (\<lambda>r i. r OR f i) (x :: 32 word) is = 0 \<longleftrightarrow> x = 0 \<and> (\<forall>i \<in> set is. f i = 0)"
  by (induction "is" arbitrary: x) (auto simp: or_eq_0_iff)

lemma xor_word_zero: "(x :: 32 word) XOR y = 0 \<longleftrightarrow> x = y"
  by (auto simp: bit_eq_iff bit_xor_iff)

lemma of_nat_word32_inject: "m < 2 ^ 32 \<Longrightarrow> n < 2 ^ 32 \<Longrightarrow> (of_nat m :: 32 word) = of_nat n \<longleftrightarrow> m = n"
  by (simp add: word_of_nat_eq_iff take_bit_nat_eq_self)

definition js_text :: "jstr \<Rightarrow> bool" where
  "js_text s \<longleftrightarrow> length s < 2 ^ 32 \<and> (\<forall>c \<in> set s. c < 2 ^ 16)"

lemma timing_safe_text_equal_iff:
  assumes "js_text a" "js_text b"
  shows "timing_safe_text_equal a b \<longleftrightarrow> a = b"
proof -
  have u: "unit_at a i = unit_at b i \<longleftrightarrow> a ! i = b ! i" if "length a = length b" "i < length a" for i
  proof -
    have "a ! i < 2 ^ 32" "b ! i < 2 ^ 32" using assms that by (fastforce simp: js_text_def dest: nth_mem)+
    then show ?thesis using that of_nat_word32_inject by (auto simp: unit_at_def)
  qed
  have "timing_safe_text_equal a b \<longleftrightarrow>
      length a = length b \<and> (\<forall>i < max (length a) (length b). unit_at a i = unit_at b i)"
    using assms of_nat_word32_inject [of "length a" "length b"]
    by (auto simp: timing_safe_text_equal_def foldl_or_zero xor_word_zero js_text_def)
  also have "\<dots> \<longleftrightarrow> a = b" using u by (auto simp: list_eq_iff_nth_eq)
  finally show ?thesis .
qed


subsection \<open>Histories\<close>

datatype key_operation =
    Op_Initialize bytes jstr
  | Op_Unlock jstr
  | Op_Lock
  | Op_Get_Key
  | Op_Refresh
  | Op_Reset

definition key_step :: "subtle \<Rightarrow> key_crypto \<Rightarrow> int \<Rightarrow> key_operation \<Rightarrow> key_areas \<Rightarrow> key_areas" where
  "key_step S K now ev st = (case ev of
     Op_Initialize salt master \<Rightarrow> snd (initialize_vault S K now salt master st)
   | Op_Unlock master \<Rightarrow> snd (unlock_vault S K now master st)
   | Op_Lock \<Rightarrow> lock_vault st
   | Op_Get_Key \<Rightarrow> snd (get_session_key now st)
   | Op_Refresh \<Rightarrow> refresh_session now st
   | Op_Reset \<Rightarrow> reset_vault st)"

inductive key_reachable :: "subtle \<Rightarrow> key_crypto \<Rightarrow> int \<Rightarrow> key_areas \<Rightarrow> bool" for S K where
  start: "key_reachable S K t empty_areas"
| step: "key_reachable S K t st \<Longrightarrow> t \<le> now \<Longrightarrow> key_reachable S K now (key_step S K now ev st)"

text \<open>
  The areas belong together: the verifier was derived from a passphrase under the
  stored salt, and a session key from that very passphrase; no session began later
  than now.
\<close>

definition verifier_of :: "subtle \<Rightarrow> key_crypto \<Rightarrow> bytes \<Rightarrow> jstr \<Rightarrow> jstr" where
  "verifier_of S K salt master = verifier_scheme_prefix @ derive_verification_hash S K master salt"

definition keeps_verifier :: "subtle \<Rightarrow> key_crypto \<Rightarrow> bytes \<Rightarrow> jstr \<Rightarrow> local_area \<Rightarrow> bool" where
  "keeps_verifier S K salt master l \<longleftrightarrow> la_initialized l \<and> la_salt l = Some (binary_to_base64 salt)
     \<and> la_scheme l = Some key_scheme \<and> la_verify l = Some (verifier_of S K salt master)"

definition paired :: "subtle \<Rightarrow> key_crypto \<Rightarrow> local_area \<Rightarrow> jstr option \<Rightarrow> bool" where
  "paired S K l key \<longleftrightarrow> (case key of
     None \<Rightarrow> l = ka_local empty_areas \<or> (\<exists>salt master. keeps_verifier S K salt master l)
   | Some k \<Rightarrow> \<exists>salt master. keeps_verifier S K salt master l \<and> k = derive_session_key S K master salt)"

definition timed :: "int \<Rightarrow> session_area \<Rightarrow> bool" where
  "timed now s \<longleftrightarrow> (sa_key s = None \<longleftrightarrow> sa_unlock_time s = None) \<and> (\<forall>t. sa_unlock_time s = Some t \<longrightarrow> t \<le> now)"

definition areas_inv :: "subtle \<Rightarrow> key_crypto \<Rightarrow> int \<Rightarrow> key_areas \<Rightarrow> bool" where
  "areas_inv S K now st \<longleftrightarrow> paired S K (ka_local st) (sa_key (ka_session st)) \<and> timed now (ka_session st)"

text \<open>Derived keys have the length that was asked for.\<close>

definition hkdf_sized :: "subtle \<Rightarrow> bool" where
  "hkdf_sized S \<longleftrightarrow> (\<forall>ikm salt info n. length (hkdf_sha256 S ikm salt info n) = n div 8)"

lemma verification_hash_js: "hkdf_sized S \<Longrightarrow> js_text (derive_verification_hash S K master salt)"
proof -
  assume "hkdf_sized S"
  then obtain h where h: "derive_verification_hash S K master salt = binary_to_base64 h" "length h = 32"
    by (auto simp: derive_verification_hash_def derive_key_def Let_def hkdf_sized_def key_output_bits_def)
  have "c < 256" if "c \<in> set (binary_to_base64 h)" for c using base64_chars [OF that] by (auto simp: b64_char_def split: if_splits)
  then show ?thesis using h base64_length [of h] by (fastforce simp: js_text_def)
qed

lemma verification_equal:
  "hkdf_sized S \<Longrightarrow> timing_safe_text_equal (derive_verification_hash S K a salt)
      (drop (length verifier_scheme_prefix) (verifier_of S K salt b)) \<longleftrightarrow> verifier_of S K salt a = verifier_of S K salt b"
  by (simp add: verifier_of_def timing_safe_text_equal_iff verification_hash_js)

lemma paired_locked: "paired S K l key \<Longrightarrow> paired S K l None"
  by (auto simp: paired_def split: option.splits)

lemma keeps_current_scheme: "keeps_verifier S K salt master l \<Longrightarrow> has_current_scheme (la_scheme l) (la_verify l)"
  by (simp add: keeps_verifier_def has_current_scheme_def verifier_of_def starts_with_def)

text \<open>When a locked vault opens, and what the session then holds.\<close>

lemma unlock_locked:
  assumes S: "hkdf_sized S" and l: "keeps_verifier S K salt master (ka_local st)" and salt: "salt \<noteq> []"
    and v: "\<not> is_session_valid now st"
  shows "unlock_vault S K now attempt st =
    (if verifier_of S K salt attempt = verifier_of S K salt master
     then (Mk_Success, open_session now (derive_session_key S K attempt salt) st) else (Mk_Wrong_Passphrase, st))"
proof -
  have "\<not> absent (la_salt (ka_local st))" using l binary_to_base64_nonempty [OF salt] by (simp add: absent_def keeps_verifier_def)
  then show ?thesis using v l keeps_current_scheme [OF l] verification_equal [OF S, of K attempt salt master]
    by (simp add: unlock_vault_def Let_def keeps_verifier_def base64_round_trip)
qed


lemma open_session_fields [simp]:
  "ka_local (open_session now key st) = ka_local st" "sa_key (ka_session (open_session now key st)) = Some key"
  "sa_unlock_time (ka_session (open_session now key st)) = Some now"
  by (simp_all add: open_session_def)

lemma lock_vault_fields [simp]:
  "ka_local (lock_vault st) = ka_local st" "sa_key (ka_session (lock_vault st)) = None"
  "sa_unlock_time (ka_session (lock_vault st)) = None"
  by (simp_all add: lock_vault_def)

lemma refresh_session_fields:
  "ka_local (refresh_session now st) = ka_local st" "sa_key (ka_session (refresh_session now st)) = sa_key (ka_session st)"
  "is_session_valid now st \<Longrightarrow> sa_unlock_time (ka_session (refresh_session now st)) = Some now"
  by (simp_all add: refresh_session_def)

lemma inv_locked: "areas_inv S K now st \<Longrightarrow> areas_inv S K now (lock_vault st)"
  by (auto simp: areas_inv_def timed_def intro: paired_locked)

lemma inv_refreshed: "areas_inv S K now st \<Longrightarrow> areas_inv S K now (refresh_session now st)"
  by (auto simp: areas_inv_def timed_def refresh_session_def is_session_valid_def split: option.splits)

lemma inv_opened:
  assumes "keeps_verifier S K salt master (ka_local st)"
  shows "areas_inv S K now (open_session now (derive_session_key S K master salt) st)"
  using assms by (auto simp: areas_inv_def paired_def timed_def)

lemma inv_unlocked:
  assumes S: "hkdf_sized S" and inv: "areas_inv S K now st"
  shows "areas_inv S K now (snd (unlock_vault S K now attempt st))"
proof (cases "is_session_valid now st")
  case True
  then show ?thesis using inv by (simp add: unlock_vault_def inv_refreshed)
next
  case v: False
  show ?thesis
  proof (cases "la_initialized (ka_local st) \<and> \<not> absent (la_salt (ka_local st))")
    case True
    then obtain salt master where k: "keeps_verifier S K salt master (ka_local st)"
      using inv by (auto simp: areas_inv_def paired_def empty_areas_def split: option.splits)
    have "salt \<noteq> []" using True k by (auto simp: absent_def keeps_verifier_def binary_to_base64_def nats_of_def)
    from unlock_locked [OF S k this v, of attempt] show ?thesis
      using inv k inv_opened [of S K salt attempt st now] by (auto simp: keeps_verifier_def)
  qed (use v inv in \<open>auto simp: unlock_vault_def Let_def\<close>)
qed

lemma inv_step:
  assumes S: "hkdf_sized S" and inv: "areas_inv S K now st"
  shows "areas_inv S K now (key_step S K now ev st)"
proof (cases ev)
  case (Op_Initialize salt master)
  show ?thesis using inv unfolding key_step_def Op_Initialize
    by (auto simp: initialize_vault_def areas_inv_def timed_def paired_def keeps_verifier_def verifier_of_def)
next
  case Op_Get_Key
  then show ?thesis using inv by (auto simp: key_step_def get_session_key_def inv_locked inv_refreshed)
next
  case Op_Reset
  then show ?thesis by (simp add: key_step_def reset_vault_def areas_inv_def paired_def timed_def)
qed (use S inv in \<open>auto simp: key_step_def inv_locked inv_refreshed inv_unlocked\<close>)

lemma key_reachable_inv:
  assumes "hkdf_sized S" "key_reachable S K now st"
  shows "areas_inv S K now st"
  using assms(2)
proof (induction rule: key_reachable.induct)
  case (start t)
  show ?case by (simp add: areas_inv_def paired_def timed_def empty_areas_def)
next
  case (step t st now ev)
  then have "areas_inv S K now st" by (fastforce simp: areas_inv_def timed_def)
  then show ?case using inv_step [OF assms(1)] by blast
qed

text \<open>A session that nobody uses for fifteen minutes is gone.\<close>

lemma idle_session_ends:
  assumes "areas_inv S K t st" "t + session_duration_ms \<le> now"
  shows "get_session_key now st = (None, lock_vault st)"
proof -
  have "\<not> is_session_valid now st"
    using assms by (fastforce simp: areas_inv_def timed_def is_session_valid_def split: option.splits)
  then show ?thesis by (simp add: get_session_key_def)
qed

lemma session_key_nonempty: "hkdf_sized S \<Longrightarrow> derive_session_key S K master salt \<noteq> []"
proof -
  assume "hkdf_sized S"
  then have "length (hkdf_sha256 S m salt i key_output_bits) = 32" for m i by (simp add: hkdf_sized_def key_output_bits_def)
  then have "hkdf_sha256 S m salt i key_output_bits \<noteq> []" for m i by (metis length_0_conv zero_neq_numeral)
  then show ?thesis by (simp add: derive_session_key_def derive_key_def Let_def binary_to_base64_nonempty)
qed

lemma opened_session_key:
  assumes "hkdf_sized S" "now \<noteq> 0" "now \<le> later" "later < now + session_duration_ms"
  shows "get_session_key later (open_session now (derive_session_key S K master salt) st)
    = (Some (derive_session_key S K master salt), refresh_session later (open_session now (derive_session_key S K master salt) st))"
  using assms session_key_nonempty [OF assms(1), of K master salt]
  by (simp add: get_session_key_def is_session_valid_def absent_def)

text \<open>Locking and unlocking with the same passphrase gives the same session key back.\<close>

lemma data_survives_lock:
  assumes S: "hkdf_sized S" "aead_ok S" "decodes S data" "length iv = aes_iv_length" "salt \<noteq> []"
    and init: "initialize_vault S K t0 salt master st0 = (Mk_Success, st1)"
    and enc: "encrypt_with_session_key S t1 iv data st1 = (Some (Some blob), st2)"
    and times: "t3 \<noteq> 0" "t3 \<le> t4" "t4 < t3 + session_duration_ms"
  shows "unlock_vault S K t3 master (lock_vault st2) = (Mk_Success, open_session t3 (derive_session_key S K master salt) (lock_vault st2))
    \<and> fst (decrypt_with_session_key S t4 blob (snd (unlock_vault S K t3 master (lock_vault st2)))) = Some data"
proof -
  have k: "keeps_verifier S K salt master (ka_local st1)" "sa_key (ka_session st1) = Some (derive_session_key S K master salt)"
    using init by (auto simp: initialize_vault_def keeps_verifier_def verifier_of_def open_session_def split: if_splits)
  obtain key where key: "get_session_key t1 st1 = (Some key, st2)" "encrypt_with_key S iv data key = Inr blob"
    using enc by (auto simp: encrypt_with_session_key_def absent_def split: prod.splits if_splits option.splits sum.splits)
  have s: "key = derive_session_key S K master salt" "ka_local st2 = ka_local st1"
    using key(1) k(2) by (auto simp: get_session_key_def refresh_session_fields split: if_splits)
  have u: "unlock_vault S K t3 master (lock_vault st2)
      = (Mk_Success, open_session t3 (derive_session_key S K master salt) (lock_vault st2))"
    using unlock_locked [OF S(1) _ S(5), of K master "lock_vault st2" t3 master] k(1) s(2)
    by (simp add: is_session_valid_def)
  have "decrypt_with_key S blob key = Inr data" using encrypted_with_key_opens [OF S(2-4) key(2)] .
  then show ?thesis using u s(1) opened_session_key [OF S(1) times, of K master salt "lock_vault st2"] session_key_nonempty [OF S(1), of K master salt]
    by (simp add: decrypt_with_session_key_def absent_def)
qed

text \<open>And only a passphrase with the same verifier opens a locked vault.\<close>

lemma unlock_locked_success:
  assumes "hkdf_sized S" "areas_inv S K t st" "\<not> is_session_valid now st"
    and "unlock_vault S K now attempt st = (Mk_Success, st')"
  shows "\<exists>salt master. keeps_verifier S K salt master (ka_local st) \<and> verifier_of S K salt attempt = verifier_of S K salt master
    \<and> sa_key (ka_session st') = Some (derive_session_key S K attempt salt)"
proof -
  have i: "la_initialized (ka_local st)" "\<not> absent (la_salt (ka_local st))"
    using assms(3,4) by (auto simp: unlock_vault_def Let_def split: if_splits)
  then obtain salt master where k: "keeps_verifier S K salt master (ka_local st)"
    using assms(2) by (auto simp: areas_inv_def paired_def empty_areas_def split: option.splits)
  have "salt \<noteq> []" using i(2) k by (auto simp: absent_def keeps_verifier_def binary_to_base64_def nats_of_def)
  from unlock_locked [OF assms(1) k this assms(3), of attempt] show ?thesis
    using assms(4) k by (auto split: if_splits)
qed

end
