(* ===== verification/Channel_Binding.thy ===== *)
theory Channel_Binding
  imports Master_Key Step_Up_Proof
begin

text \<open>
  Channel binding: src/src/infrastructure/crypto/subtle-crypto-channel-binding-adapter.ts
  and src/src/domain/value-objects/binding-signature.ts.  The session key is that of
  Master\_Key; nonces are arguments, times whole milliseconds.
\<close>

record binding_context =
  bc_domain :: jstr
  bc_timestamp :: int
  bc_nonce :: bytes

record binding_signature =
  bs_domain :: jstr
  bs_timestamp :: int
  bs_nonce :: jstr
  bs_signature :: jstr

definition normal_domain :: "web \<Rightarrow> jstr \<Rightarrow> jstr" where
  "normal_domain W d = trim (to_lower W d)"

definition binding_signature_create :: "web \<Rightarrow> jstr \<Rightarrow> int \<Rightarrow> jstr \<Rightarrow> jstr \<Rightarrow> string + binding_signature" where
  "binding_signature_create W domain timestamp nonce signature =
     (if domain = [] \<or> trim domain = [] then Inl ''BindingSignature: domain is required''
      else if timestamp \<le> 0 then Inl ''BindingSignature: timestamp must be positive''
      else if nonce = [] then Inl ''BindingSignature: nonce is required''
      else if signature = [] then Inl ''BindingSignature: signature is required''
      else Inr \<lparr>bs_domain = normal_domain W domain, bs_timestamp = timestamp, bs_nonce = nonce, bs_signature = signature\<rparr>)"

definition binding_max_age_ms :: int where "binding_max_age_ms = 300000"

definition binding_is_valid :: "binding_signature \<Rightarrow> int \<Rightarrow> int \<Rightarrow> bool" where
  "binding_is_valid s current max_age \<longleftrightarrow> \<bar>current - bs_timestamp s\<bar> \<le> max_age"

definition binding_from_plain :: "web \<Rightarrow> binding_signature \<Rightarrow> string + binding_signature" where
  "binding_from_plain W p = binding_signature_create W (bs_domain p) (bs_timestamp p) (bs_nonce p) (bs_signature p)"

definition binding_nonce_length :: nat where "binding_nonce_length = 32"

definition validate_binding_context :: "binding_context \<Rightarrow> string option" where
  "validate_binding_context c =
     (if bc_domain c = [] \<or> trim (bc_domain c) = [] then Some ''Domain is required for channel binding''
      else if bc_timestamp c \<le> 0 then Some ''Valid timestamp is required''
      else if length (bc_nonce c) \<noteq> binding_nonce_length then Some ''Nonce must be exactly 32 bytes''
      else None)"

definition binding_message_text :: "web \<Rightarrow> binding_context \<Rightarrow> jstr" where
  "binding_message_text W c =
     normal_domain W (bc_domain c) @ [124] @ dec_int (bc_timestamp c) @ [124] @ binary_to_base64 (bc_nonce c)"

definition create_signing_message :: "web \<Rightarrow> binding_context \<Rightarrow> bytes" where
  "create_signing_message W c = utf8_encode (binding_message_text W c)"

definition create_hkdf_info :: "web \<Rightarrow> jstr \<Rightarrow> int \<Rightarrow> bytes" where
  "create_hkdf_info W domain timestamp =
     utf8_encode (lit ''cybervault-channel-binding|'' @ normal_domain W domain @ [124] @ dec_int timestamp)"

text \<open>None is the exception of a session key that is not base64.\<close>

definition derive_binding_key :: "web \<Rightarrow> subtle \<Rightarrow> jstr \<Rightarrow> jstr \<Rightarrow> int \<Rightarrow> bytes option" where
  "derive_binding_key W S session_key domain timestamp =
     map_option (\<lambda>k. hkdf_sha256 S k [] (create_hkdf_info W domain timestamp) (32 * 8)) (base64_to_binary session_key)"

definition sign_channel_binding ::
  "web \<Rightarrow> subtle \<Rightarrow> int \<Rightarrow> binding_context \<Rightarrow> key_areas \<Rightarrow> (string + binding_signature) \<times> key_areas" where
  "sign_channel_binding W S now c st = (case validate_binding_context c of
     Some e \<Rightarrow> (Inl e, st)
   | None \<Rightarrow> (case get_session_key now st of (key, st1) \<Rightarrow>
       (if absent key then Inl ''No active session key available. Vault must be unlocked.''
        else (case derive_binding_key W S (the key) (bc_domain c) (bc_timestamp c) of
            None \<Rightarrow> Inl ''InvalidCharacterError''
          | Some k \<Rightarrow> binding_signature_create W (bc_domain c) (bc_timestamp c) (binary_to_base64 (bc_nonce c))
              (binary_to_base64 (hmac_sha256 S k (create_signing_message W c)))), st1)))"

definition verify_channel_binding ::
  "web \<Rightarrow> subtle \<Rightarrow> int \<Rightarrow> binding_signature \<Rightarrow> binding_context \<Rightarrow> key_areas \<Rightarrow> bool \<times> key_areas" where
  "verify_channel_binding W S now s c st =
     (if validate_binding_context c \<noteq> None then (False, st)
      else if bs_domain s \<noteq> normal_domain W (bc_domain c) then (False, st)
      else if \<not> binding_is_valid s (bc_timestamp c) binding_max_age_ms then (False, st)
      else (case get_session_key now st of (key, st1) \<Rightarrow>
        (\<not> absent key \<and>
         (case derive_binding_key W S (the key) (bc_domain c) (bc_timestamp c) of
            None \<Rightarrow> False
          | Some k \<Rightarrow> (case base64_to_binary (bs_signature s) of
              None \<Rightarrow> False
            | Some provided \<Rightarrow> constant_time_equal (hmac_sha256 S k (create_signing_message W c)) provided)), st1)))"

subsection \<open>Which signatures are accepted\<close>

lemma verify_binding_iff:
  "fst (verify_channel_binding W S now s c st) \<longleftrightarrow>
     validate_binding_context c = None \<and> bs_domain s = normal_domain W (bc_domain c)
     \<and> \<bar>bc_timestamp c - bs_timestamp s\<bar> \<le> binding_max_age_ms
     \<and> (\<exists>key k. fst (get_session_key now st) = Some key \<and> key \<noteq> []
          \<and> derive_binding_key W S key (bc_domain c) (bc_timestamp c) = Some k
          \<and> base64_to_binary (bs_signature s) = Some (hmac_sha256 S k (create_signing_message W c)))"
  by (auto simp: verify_channel_binding_def binding_is_valid_def absent_def constant_time_equal_iff
      split: prod.splits option.splits)

text \<open>The nonce and the time inside a signature are not what is verified.\<close>

lemma verify_ignores_own_nonce:
  "fst (verify_channel_binding W S now (s\<lparr>bs_nonce := n\<rparr>) c st) = fst (verify_channel_binding W S now s c st)"
  by (simp add: verify_binding_iff)

lemma verify_ignores_own_time:
  "\<bar>bc_timestamp c - t\<bar> \<le> binding_max_age_ms \<Longrightarrow> \<bar>bc_timestamp c - bs_timestamp s\<bar> \<le> binding_max_age_ms \<Longrightarrow>
   fst (verify_channel_binding W S now (s\<lparr>bs_timestamp := t\<rparr>) c st) = fst (verify_channel_binding W S now s c st)"
  by (simp add: verify_binding_iff)

lemma signed_binding:
  assumes "sign_channel_binding W S now c st = (Inr s, st1)"
  shows "\<exists>key k. validate_binding_context c = None \<and> get_session_key now st = (Some key, st1) \<and> key \<noteq> []
    \<and> derive_binding_key W S key (bc_domain c) (bc_timestamp c) = Some k
    \<and> s = \<lparr>bs_domain = normal_domain W (bc_domain c), bs_timestamp = bc_timestamp c,
        bs_nonce = binary_to_base64 (bc_nonce c), bs_signature = binary_to_base64 (hmac_sha256 S k (create_signing_message W c))\<rparr>"
  using assms
  by (auto simp: sign_channel_binding_def binding_signature_create_def absent_def split: option.splits prod.splits if_splits)

text \<open>A binding verifies against its own context while the session lasts.\<close>

lemma session_key_stays:
  assumes "get_session_key now st = (Some key, st1)" "now \<noteq> 0" "later < now + session_duration_ms"
  shows "fst (get_session_key later st1) = Some key"
proof -
  have v: "is_session_valid now st" "sa_key (ka_session st) = Some key" "st1 = refresh_session now st"
    using assms(1) by (auto simp: get_session_key_def absent_def split: if_splits)
  then have "is_session_valid later st1" using assms(2,3)
    by (auto simp: refresh_session_def is_session_valid_def split: option.splits)
  then show ?thesis using v by (auto simp: get_session_key_def absent_def refresh_session_fields is_session_valid_def split: option.splits)
qed

lemma signed_binding_verifies:
  assumes "sign_channel_binding W S now c st = (Inr s, st1)" "now \<noteq> 0" "later < now + session_duration_ms"
  shows "fst (verify_channel_binding W S later s c st1)"
proof -
  obtain key k where k: "validate_binding_context c = None" "get_session_key now st = (Some key, st1)" "key \<noteq> []"
    "derive_binding_key W S key (bc_domain c) (bc_timestamp c) = Some k"
    "s = \<lparr>bs_domain = normal_domain W (bc_domain c), bs_timestamp = bc_timestamp c,
        bs_nonce = binary_to_base64 (bc_nonce c), bs_signature = binary_to_base64 (hmac_sha256 S k (create_signing_message W c))\<rparr>"
    using signed_binding [OF assms(1)] by blast
  then show ?thesis using session_key_stays [OF k(2) assms(2,3)]
    by (simp add: verify_binding_iff base64_round_trip binding_max_age_ms_def)
qed

text \<open>The message determines what it binds.\<close>

lemma base64_no_bar: "124 \<notin> set (binary_to_base64 bs)"
  using base64_chars [of 124 bs] by (auto simp: b64_char_def split: if_splits)

lemma binding_message_determines:
  assumes "binding_message_text W c = binding_message_text W c'" "0 < bc_timestamp c" "0 < bc_timestamp c'"
  shows "normal_domain W (bc_domain c) = normal_domain W (bc_domain c') \<and> bc_timestamp c = bc_timestamp c' \<and> bc_nonce c = bc_nonce c'"
proof -
  have bar: "124 \<notin> set (dec_nat n)" for n using dec_nat_digits [of 124 n] by (auto simp: is_digit_def)
  have 1: "normal_domain W (bc_domain c) @ 124 # dec_int (bc_timestamp c) = normal_domain W (bc_domain c') @ 124 # dec_int (bc_timestamp c')
    \<and> binary_to_base64 (bc_nonce c) = binary_to_base64 (bc_nonce c')"
    by (rule split_last_sep [where c = 124]) (use assms(1) base64_no_bar in \<open>simp_all add: binding_message_text_def\<close>)
  have 2: "normal_domain W (bc_domain c) = normal_domain W (bc_domain c') \<and> dec_int (bc_timestamp c) = dec_int (bc_timestamp c')"
    using 1 assms(2,3) bar by (intro split_last_sep [where c = 124]) (simp_all add: dec_int_of_pos)
  have "bc_nonce c = bc_nonce c'" using 1 base64_round_trip by (metis option.inject)
  moreover have "bc_timestamp c = bc_timestamp c'"
    using 2 assms(2,3) eq_nat_nat_iff [of "bc_timestamp c" "bc_timestamp c'"] by (simp add: dec_int_of_pos dec_nat_inject)
  ultimately show ?thesis using 2 by simp
qed

end
