(* ===== verification/Recovery.thy ===== *)
theory Recovery
  imports Vault_Keys Core_Access
begin

text \<open>
  Recovery of an account and of a master phrase:
  src/src/application/use-cases/recovery.use-case.ts.  Vaults are the tables of
  Vault\_Store.  The user repository has no implementation for these operations in the
  repository, so it is a parameter; None is its exception.  An output is Inl its error
  text or Inr what it carries on success; a recovery property that is not a text does
  not decode.
\<close>

record recovery_user =
  ru_user_id :: jstr
  ru_reset_hash :: "jstr option"
  ru_reset_expiry :: "int option"
  ru_recovery_hash :: "jstr option"

record 'u user_repository =
  ur_by_email :: "'u \<Rightarrow> jstr \<Rightarrow> recovery_user option option"
  ur_by_id :: "'u \<Rightarrow> jstr \<Rightarrow> recovery_user option option"
  ur_set_reset_token :: "'u \<Rightarrow> jstr \<Rightarrow> jstr \<Rightarrow> int \<Rightarrow> 'u option"
  ur_clear_reset_token :: "'u \<Rightarrow> jstr \<Rightarrow> 'u option"
  ur_update_password :: "'u \<Rightarrow> jstr \<Rightarrow> jstr \<Rightarrow> jstr \<Rightarrow> 'u option"
  ur_increment_session :: "'u \<Rightarrow> jstr \<Rightarrow> 'u option"
  ur_set_recovery_hash :: "'u \<Rightarrow> jstr \<Rightarrow> jstr \<Rightarrow> 'u option"

subsection \<open>Account password\<close>

definition hash_token :: "key_crypto \<Rightarrow> jstr \<Rightarrow> jstr" where
  "hash_token K t = binary_to_base64 (kc_sha256 K (utf8_encode t))"

definition reset_token_ttl_ms :: int where "reset_token_ttl_ms = 30 * 60 * 1000"

text \<open>Whether a message could be sent; None where no e-mail service is configured.\<close>

definition account_initiate ::
  "key_crypto \<Rightarrow> 'u user_repository \<Rightarrow> bool \<Rightarrow> bool option \<Rightarrow> int \<Rightarrow> bytes \<Rightarrow> jstr \<Rightarrow> 'u \<Rightarrow>
   (string + jstr option) \<times> 'u" where
  "account_initiate K R dev mail now rnd email st =
     (case ur_by_email R st email of
        None \<Rightarrow> (Inl ''Failed to initiate recovery'', st)
      | Some None \<Rightarrow> (Inr None, st)
      | Some (Some u) \<Rightarrow>
          (let tok = binary_to_base64 rnd in
           case ur_set_reset_token R st (ru_user_id u) (hash_token K tok) (now + reset_token_ttl_ms) of
             None \<Rightarrow> (Inl ''Failed to initiate recovery'', st)
           | Some st1 \<Rightarrow>
               if mail = Some False then (Inl ''Failed to initiate recovery'', st1)
               else (Inr (if dev then Some tok else None), st1)))"

definition recovery_hash_password :: "key_crypto \<Rightarrow> bytes \<Rightarrow> jstr \<Rightarrow> jstr \<times> jstr" where
  "recovery_hash_password K salt password =
     (binary_to_base64 (kc_pbkdf2 K (utf8_encode password) salt key_iterations 512), binary_to_base64 salt)"

definition finish_reset :: "'u user_repository \<Rightarrow> jstr \<Rightarrow> jstr \<Rightarrow> jstr \<Rightarrow> 'u \<Rightarrow> (string + unit) \<times> 'u" where
  "finish_reset R u hash salt st =
     (case ur_update_password R st u hash salt of
        None \<Rightarrow> (Inl ''Failed to reset password'', st)
      | Some st1 \<Rightarrow> (case ur_clear_reset_token R st1 u of
          None \<Rightarrow> (Inl ''Failed to reset password'', st1)
        | Some st2 \<Rightarrow> (case ur_increment_session R st2 u of
            None \<Rightarrow> (Inl ''Failed to reset password'', st2)
          | Some st3 \<Rightarrow> (Inr (), st3))))"

definition reset_password ::
  "key_crypto \<Rightarrow> 'u user_repository \<Rightarrow> int \<Rightarrow> bytes \<Rightarrow> jstr \<Rightarrow> jstr \<Rightarrow> jstr \<Rightarrow> 'u \<Rightarrow> (string + unit) \<times> 'u" where
  "reset_password K R now salt email tok password st =
     (case ur_by_email R st email of
        None \<Rightarrow> (Inl ''Failed to reset password'', st)
      | Some None \<Rightarrow> (Inl ''Invalid or expired reset token'', st)
      | Some (Some u) \<Rightarrow>
          if absent (ru_reset_hash u) \<or> ru_reset_expiry u = None \<or> ru_reset_expiry u = Some 0
          then (Inl ''Invalid or expired reset token'', st)
          else if now > the (ru_reset_expiry u) then
            (case ur_clear_reset_token R st (ru_user_id u) of
               None \<Rightarrow> (Inl ''Failed to reset password'', st) | Some st1 \<Rightarrow> (Inl ''Reset token expired'', st1))
          else if Some (hash_token K tok) \<noteq> ru_reset_hash u then (Inl ''Invalid reset token'', st)
          else (case recovery_hash_password K salt password of (h, s) \<Rightarrow> finish_reset R (ru_user_id u) h s st))"

subsection \<open>Master phrase\<close>

record recovery_random =
  rr_key :: bytes
  rr_salt :: bytes
  rr_vek :: bytes
  rr_iv :: bytes
  rr_phrase :: bytes
  rr_phrase_salt :: bytes
  rr_phrase_iv :: bytes

definition derive_recovery_kek :: "key_crypto \<Rightarrow> jstr \<Rightarrow> bytes \<Rightarrow> bytes" where
  "derive_recovery_kek K recovery_key salt = kc_pbkdf2 K (utf8_encode recovery_key) salt key_iterations 256"

definition wrap_vek :: "subtle \<Rightarrow> bytes \<Rightarrow> bytes \<Rightarrow> bytes \<Rightarrow> jstr option" where
  "wrap_vek S iv vek kek = map_option (\<lambda>c. binary_to_base64 (iv @ c)) (aes_gcm_encrypt S kek iv [] vek)"

definition unwrap_vek :: "subtle \<Rightarrow> jstr \<Rightarrow> bytes \<Rightarrow> bytes option" where
  "unwrap_vek S text kek = (case base64_to_binary text of
     None \<Rightarrow> None | Some c \<Rightarrow> aes_gcm_decrypt S kek (take 12 c) [] (drop 12 c))"

record phrase_wrapper =
  pw_encrypted_vek :: jstr
  pw_salt :: jstr
  pw_version :: int

definition wrap_vek_with_master_phrase :: "subtle \<Rightarrow> key_crypto \<Rightarrow> recovery_random \<Rightarrow> bytes \<Rightarrow> jstr \<Rightarrow> phrase_wrapper option" where
  "wrap_vek_with_master_phrase S K Z vek phrase =
     map_option (\<lambda>w. \<lparr>pw_encrypted_vek = w, pw_salt = binary_to_base64 (rr_phrase_salt Z), pw_version = 1\<rparr>)
       (wrap_vek S (rr_phrase_iv Z) vek (kc_pbkdf2 K (utf8_encode phrase) (rr_phrase_salt Z) key_iterations 256))"

definition stored_recovery :: "vault \<Rightarrow> json option" where
  "stored_recovery v = (case va_metadata v of None \<Rightarrow> None | Some m \<Rightarrow> property_of m ''recovery'')"

text \<open>From the stored data to the wrapper handed out; the first phrase is random and not kept.\<close>

definition rewrap_vek ::
  "subtle \<Rightarrow> key_crypto \<Rightarrow> recovery_random \<Rightarrow> jstr \<Rightarrow> json \<Rightarrow> string + phrase_wrapper" where
  "rewrap_vek S K Z recovery_key data =
     (case string_property data ''recoverySalt'' of
        None \<Rightarrow> Inl ''Master recovery failed''
      | Some t \<Rightarrow> (case base64_to_binary t of
          None \<Rightarrow> Inl ''Master recovery failed''
        | Some salt \<Rightarrow>
            (case (case string_property data ''encryptedVek'' of
                None \<Rightarrow> None | Some w \<Rightarrow> unwrap_vek S w (derive_recovery_kek K recovery_key salt)) of
              None \<Rightarrow> Inl ''Failed to unwrap VEK with Recovery Key''
            | Some vek \<Rightarrow> (case wrap_vek_with_master_phrase S K Z vek (binary_to_base64 (rr_phrase Z)) of
                None \<Rightarrow> Inl ''Master recovery failed'' | Some w \<Rightarrow> Inr w))))"

definition recover_master ::
  "subtle \<Rightarrow> dates \<Rightarrow> key_crypto \<Rightarrow> 'u user_repository \<Rightarrow> recovery_random \<Rightarrow> jstr \<Rightarrow> jstr \<Rightarrow> 'u \<Rightarrow> vault_db \<Rightarrow>
   string + phrase_wrapper" where
  "recover_master S T K R Z user recovery_key st db =
     (case ur_by_id R st user of
        None \<Rightarrow> Inl ''Master recovery failed''
      | Some None \<Rightarrow> Inl ''User not found''
      | Some (Some u) \<Rightarrow>
          if absent (ru_recovery_hash u) then Inl ''No Recovery Key configured for this account''
          else if Some (hash_token K recovery_key) \<noteq> ru_recovery_hash u then Inl ''Invalid Recovery Key''
          else (case list_by_owner S T db user of
              Inl _ \<Rightarrow> Inl ''Master recovery failed''
            | Inr [] \<Rightarrow> Inl ''No vault found for user''
            | Inr (v # _) \<Rightarrow> (case stored_recovery v of
                None \<Rightarrow> Inl ''Recovery data not found in vault''
              | Some data \<Rightarrow> if falsy_json data then Inl ''Recovery data not found in vault''
                  else rewrap_vek S K Z recovery_key data)))"

definition recovery_metadata :: "jstr \<Rightarrow> bytes \<Rightarrow> json" where
  "recovery_metadata wrapped salt = JObj [(lit ''recovery'', JObj [(lit ''encryptedVek'', JStr wrapped),
     (lit ''recoverySalt'', JStr (binary_to_base64 salt)), (lit ''version'', JNum 1)])]"

definition setup_recovery_key ::
  "subtle \<Rightarrow> dates \<Rightarrow> key_crypto \<Rightarrow> 'u user_repository \<Rightarrow> recovery_random \<Rightarrow> int \<Rightarrow> jstr \<Rightarrow> 'u \<Rightarrow> vault_db \<Rightarrow>
   (string + jstr) \<times> 'u \<times> vault_db" where
  "setup_recovery_key S T K R Z now user st db =
     (let failed = Inl ''Failed to setup Recovery Key''; key = binary_to_base64 (rr_key Z) in
      case ur_by_id R st user of
        None \<Rightarrow> (failed, st, db)
      | Some None \<Rightarrow> (Inl ''User not found'', st, db)
      | Some (Some u) \<Rightarrow> (case list_by_owner S T db user of
          Inl _ \<Rightarrow> (failed, st, db)
        | Inr [] \<Rightarrow> (Inl ''No vault found for user'', st, db)
        | Inr (v # _) \<Rightarrow> (case wrap_vek S (rr_iv Z) (rr_vek Z) (derive_recovery_kek K key (rr_salt Z)) of
            None \<Rightarrow> (failed, st, db)
          | Some w \<Rightarrow> (case ur_set_recovery_hash R st (ru_user_id u) (hash_token K key) of
              None \<Rightarrow> (failed, st, db)
            | Some st1 \<Rightarrow> (case pg_update_metadata now db (va_id v) (recovery_metadata w (rr_salt Z)) None of
                (Inl _, db1) \<Rightarrow> (failed, st1, db1) | (Inr _, db1) \<Rightarrow> (Inr key, st1, db1))))))"


subsection \<open>What the user repository is relied on for\<close>

definition reset_token_laws :: "'u user_repository \<Rightarrow> bool" where
  "reset_token_laws R \<longleftrightarrow> (\<forall>st st' email u. ur_by_email R st email = Some (Some u) \<longrightarrow>
     (\<forall>h e. ur_set_reset_token R st (ru_user_id u) h e = Some st' \<longrightarrow>
        ur_by_email R st' email = Some (Some (u\<lparr>ru_reset_hash := Some h, ru_reset_expiry := Some e\<rparr>)))
     \<and> (ur_clear_reset_token R st (ru_user_id u) = Some st' \<longrightarrow>
        ur_by_email R st' email = Some (Some (u\<lparr>ru_reset_hash := None, ru_reset_expiry := None\<rparr>)))
     \<and> (\<forall>h s. ur_update_password R st (ru_user_id u) h s = Some st' \<longrightarrow> ur_by_email R st' email = Some (Some u))
     \<and> (ur_increment_session R st (ru_user_id u) = Some st' \<longrightarrow> ur_by_email R st' email = Some (Some u)))"

definition recovery_hash_laws :: "'u user_repository \<Rightarrow> bool" where
  "recovery_hash_laws R \<longleftrightarrow> (\<forall>st st' i u h. ur_by_id R st i = Some (Some u) \<and> ur_set_recovery_hash R st (ru_user_id u) h = Some st'
     \<longrightarrow> ur_by_id R st' i = Some (Some (u\<lparr>ru_recovery_hash := Some h\<rparr>)))"

lemma reset_token_set:
  "reset_token_laws R \<Longrightarrow> ur_by_email R st email = Some (Some u) \<Longrightarrow> ur_set_reset_token R st (ru_user_id u) h e = Some st' \<Longrightarrow>
   ur_by_email R st' email = Some (Some (u\<lparr>ru_reset_hash := Some h, ru_reset_expiry := Some e\<rparr>))"
  unfolding reset_token_laws_def by blast

subsection \<open>A reset token works once\<close>

lemma reset_exactly:
  assumes "ur_by_email R st email = Some (Some u)"
  shows "reset_password K R now salt email tok password st = (Inr (), st') \<longleftrightarrow>
    ru_reset_hash u = Some (hash_token K tok) \<and> hash_token K tok \<noteq> []
    \<and> (\<exists>e. ru_reset_expiry u = Some e \<and> e \<noteq> 0 \<and> now \<le> e)
    \<and> finish_reset R (ru_user_id u) (fst (recovery_hash_password K salt password)) (snd (recovery_hash_password K salt password)) st = (Inr (), st')"
  using assms by (auto simp: reset_password_def absent_def split: prod.splits option.splits)

lemma finished_reset_cleared:
  assumes "reset_token_laws R" "ur_by_email R st email = Some (Some u)" "finish_reset R (ru_user_id u) h s st = (Inr (), st')"
  shows "ur_by_email R st' email = Some (Some (u\<lparr>ru_reset_hash := None, ru_reset_expiry := None\<rparr>))"
proof -
  obtain st1 st2 where s: "ur_update_password R st (ru_user_id u) h s = Some st1" "ur_clear_reset_token R st1 (ru_user_id u) = Some st2"
    "ur_increment_session R st2 (ru_user_id u) = Some st'"
    using assms(3) by (auto simp: finish_reset_def split: option.splits)
  obtain v where v: "v = u\<lparr>ru_reset_hash := None, ru_reset_expiry := None\<rparr>" by blast
  have 1: "ur_by_email R st1 email = Some (Some u)" using assms(1,2) s(1) unfolding reset_token_laws_def by blast
  have 2: "ur_by_email R st2 email = Some (Some v)" using assms(1) 1 s(2) unfolding reset_token_laws_def v by blast
  have "ru_user_id v = ru_user_id u" by (simp add: v)
  then show ?thesis using assms(1) 2 s(3) unfolding reset_token_laws_def v [symmetric] by metis
qed

lemma reset_used_up:
  assumes R: "reset_token_laws R" and "reset_password K R now salt email tok password st = (Inr (), st')"
  shows "reset_password K R later salt2 email tok2 password2 st' = (Inl ''Invalid or expired reset token'', st')"
proof -
  obtain u where u: "ur_by_email R st email = Some (Some u)"
    using assms(2) by (auto simp: reset_password_def split: option.splits)
  from finished_reset_cleared [OF R u] reset_exactly [OF u] assms(2)
  have "ur_by_email R st' email = Some (Some (u\<lparr>ru_reset_hash := None, ru_reset_expiry := None\<rparr>))" by blast
  then show ?thesis by (simp add: reset_password_def absent_def)
qed

lemma initiated_reset:
  assumes R: "reset_token_laws R" and u: "ur_by_email R st email = Some (Some u)"
    and init: "account_initiate K R dev mail t0 rnd email st = (Inr out, st1)"
    and "0 \<le> t0" "now \<le> t0 + reset_token_ttl_ms" "kc_sha256 K (utf8_encode (binary_to_base64 rnd)) \<noteq> []"
  shows "reset_password K R now salt email (binary_to_base64 rnd) password st1
    = finish_reset R (ru_user_id u) (fst (recovery_hash_password K salt password)) (snd (recovery_hash_password K salt password)) st1"
proof -
  have "ur_set_reset_token R st (ru_user_id u) (hash_token K (binary_to_base64 rnd)) (t0 + reset_token_ttl_ms) = Some st1"
    using init u by (auto simp: account_initiate_def Let_def split: option.splits if_splits)
  then obtain v where v: "ur_by_email R st1 email = Some (Some v)" "ru_reset_hash v = Some (hash_token K (binary_to_base64 rnd))"
    "ru_reset_expiry v = Some (t0 + reset_token_ttl_ms)" "ru_user_id v = ru_user_id u"
    using reset_token_set [OF R u] by auto
  have "hash_token K (binary_to_base64 rnd) \<noteq> []" using assms(6) by (simp add: hash_token_def binary_to_base64_nonempty)
  moreover have "t0 + reset_token_ttl_ms \<noteq> 0" using assms(4) by (simp add: reset_token_ttl_ms_def)
  ultimately show ?thesis using v assms(5)
    by (cases "recovery_hash_password K salt password") (simp add: reset_password_def absent_def)
qed

subsection \<open>A recovery key opens what it sealed\<close>

lemma insort_key_map: "(\<And>x. k (f x) = k x) \<Longrightarrow> insort_key k (f x) (map f xs) = map f (insort_key k x xs)"
  by (induction xs) auto

lemma sort_key_map: "(\<And>x. k (f x) = k x) \<Longrightarrow> sort_key k (map f xs) = map f (sort_key k xs)"
  by (induction xs) (simp_all add: insort_key_map)

lemma read_all_map:
  assumes "\<And>r x. r \<in> set rs \<Longrightarrow> rd r = Inr x \<Longrightarrow> rd (f r) = Inr (g r x)" "read_all rd rs = Inr xs"
  shows "read_all rd (map f rs) = Inr (map2 g rs xs)"
  using assms by (induction rs arbitrary: xs) (auto split: sum.splits)

lemma listed_after_metadata:
  assumes l: "list_by_owner S T db owner = Inr (v # vs)"
    and up: "pg_update_metadata now db (va_id v) (JObj m) None = (res, db')"
  shows "\<exists>v' vs'. list_by_owner S T db' owner = Inr (v' # vs') \<and> va_id v' = va_id v \<and> va_metadata v' = Some (JObj m)"
proof -
  obtain f :: "vault_row \<Rightarrow> vault_row" where f: "f = (\<lambda>r. if vr_id r = va_id v
      then r\<lparr>vr_metadata := Some (JObj m), vr_updated_at := Date_Value now, vr_lock_version := vr_lock_version r + 1\<rparr> else r)" by blast
  have db': "db_vaults db' = map f (db_vaults db)" using up by (auto simp: pg_update_metadata_def Let_def f)
  obtain rs where rs: "rs = sort_key (\<lambda>r. - timestamp_value T (vr_created_at r)) (filter (\<lambda>r. vr_owner_id r = Some owner) (db_vaults db))" by blast
  have "filter (\<lambda>r. vr_owner_id r = Some owner) (map f xs) = map f (filter (\<lambda>r. vr_owner_id r = Some owner) xs)" for xs
    by (induction xs) (auto simp: f)
  then have s: "sort_key (\<lambda>r. - timestamp_value T (vr_created_at r)) (filter (\<lambda>r. vr_owner_id r = Some owner) (db_vaults db')) = map f rs"
    by (simp add: db' rs) (rule sort_key_map, simp add: f)
  obtain g :: "vault_row \<Rightarrow> vault \<Rightarrow> vault" where g: "g = (\<lambda>r x. if vr_id r = va_id v then x\<lparr>va_metadata := Some (JObj m),
      va_updated_at := of_iso T (to_iso T now), va_lock_version := Some (vr_lock_version r + 1)\<rparr> else x)" by blast
  have rd: "read_vault S T (f r) = Inr (g r x)" if "read_vault S T r = Inr x" for r x
    using that by (auto simp: f g read_vault_def map_vault_row_def parse_jsonb_column_def vault_from_plain_def to_plain_timestamp_def
        split: option.splits if_splits)
  obtain r rs' where r: "rs = r # rs'" "read_vault S T r = Inr v" "read_all (read_vault S T) rs = Inr (v # vs)"
    using l by (cases rs) (auto simp: list_by_owner_def rs [symmetric] split: sum.splits)
  have "list_by_owner S T db' owner = Inr (map2 g rs (v # vs))"
    using read_all_map [OF rd r(3)] by (simp add: list_by_owner_def s)
  moreover have "vr_id r = va_id v" using read_vault_fields [OF r(2)] by simp
  ultimately show ?thesis by (simp add: r(1) g)
qed


lemma wrapped_vek_opens:
  "aead_ok S \<Longrightarrow> length iv = 12 \<Longrightarrow> wrap_vek S iv vek kek = Some w \<Longrightarrow> unwrap_vek S w kek = Some vek"
  by (auto simp: wrap_vek_def unwrap_vek_def base64_round_trip aead_ok_def)

lemma recovery_text_fields:
  "property_of (recovery_metadata w salt) ''recovery'' = Some (JObj [(lit ''encryptedVek'', JStr w),
     (lit ''recoverySalt'', JStr (binary_to_base64 salt)), (lit ''version'', JNum 1)])"
  "string_property (JObj [(lit ''encryptedVek'', JStr w), (lit ''recoverySalt'', JStr t), (lit ''version'', JNum 1)]) ''encryptedVek'' = Some w"
  "string_property (JObj [(lit ''encryptedVek'', JStr w), (lit ''recoverySalt'', JStr t), (lit ''version'', JNum 1)]) ''recoverySalt'' = Some t"
  by (simp_all add: recovery_metadata_def property_of_def string_property_def lit_def)

lemma recovered_after_setup:
  assumes R: "recovery_hash_laws R" and S: "aead_ok S" "length (rr_iv Z) = 12"
    and done_setup: "setup_recovery_key S T K R Z now user st db = (Inr key, st1, db1)"
    and sha: "kc_sha256 K (utf8_encode key) \<noteq> []"
    and w: "wrap_vek_with_master_phrase S K Z' (rr_vek Z) (binary_to_base64 (rr_phrase Z')) = Some w"
  shows "recover_master S T K R Z' user key st1 db1 = Inr w"
proof -
  obtain u v vs wrapped where a: "key = binary_to_base64 (rr_key Z)" "ur_by_id R st user = Some (Some u)"
    "list_by_owner S T db user = Inr (v # vs)" "wrap_vek S (rr_iv Z) (rr_vek Z) (derive_recovery_kek K key (rr_salt Z)) = Some wrapped"
    "ur_set_recovery_hash R st (ru_user_id u) (hash_token K key) = Some st1"
    "pg_update_metadata now db (va_id v) (recovery_metadata wrapped (rr_salt Z)) None = (Inr (), db1)"
    using done_setup by (auto simp: setup_recovery_key_def Let_def split: option.splits sum.splits list.splits prod.splits)
  have h: "ur_by_id R st1 user = Some (Some (u\<lparr>ru_recovery_hash := Some (hash_token K key)\<rparr>))"
    using R a(2,5) unfolding recovery_hash_laws_def by blast
  obtain v' vs' where v: "list_by_owner S T db1 user = Inr (v' # vs')" "va_metadata v' = Some (recovery_metadata wrapped (rr_salt Z))"
    using listed_after_metadata [OF a(3)] a(6) unfolding recovery_metadata_def by blast
  have n: "hash_token K key \<noteq> []" using sha by (simp add: hash_token_def binary_to_base64_nonempty)
  have "unwrap_vek S wrapped (derive_recovery_kek K key (rr_salt Z)) = Some (rr_vek Z)"
    using wrapped_vek_opens [OF S a(4)] .
  then show ?thesis using h v n w
    by (simp add: recover_master_def absent_def stored_recovery_def recovery_text_fields falsy_json_def rewrap_vek_def base64_round_trip)
qed

lemma recovered_vek:
  assumes "aead_ok S" "length (rr_phrase_iv Z) = 12" "wrap_vek_with_master_phrase S K Z vek phrase = Some w"
  shows "unwrap_vek S (pw_encrypted_vek w) (kc_pbkdf2 K (utf8_encode phrase) (rr_phrase_salt Z) key_iterations 256) = Some vek"
  using assms by (auto simp: wrap_vek_with_master_phrase_def wrapped_vek_opens)

text \<open>Another key is refused, unless its hash is the same.\<close>

lemma wrong_recovery_key:
  assumes "ur_by_id R st user = Some (Some u)" "ru_recovery_hash u = Some h" "h \<noteq> []" "hash_token K attempt \<noteq> h"
  shows "recover_master S T K R Z user attempt st db = Inl ''Invalid Recovery Key''"
  using assms by (simp add: recover_master_def absent_def)


end
