(* ===== verification/Keys_Properties.thy ===== *)
theory Keys_Properties
  imports Totp Channel_Binding Recovery Sample_Platform
begin

text \<open>
  The properties of the keys a passphrase opens, of one-time passwords and of account
  recovery, with the platforms they are applied to.
\<close>

subsection \<open>Concrete platforms\<close>

text \<open>A toy HMAC that ends in its message, and a URL parser that knows the addresses it is given.\<close>

definition tk_url :: "jstr \<Rightarrow> (jstr \<times> jstr) list \<Rightarrow> otp_url" where
  "tk_url path params = \<lparr>ou_protocol = lit ''otpauth:'', ou_hostname = lit ''totp'', ou_pathname = path, ou_params = params\<rparr>"

fun tk_form :: "(jstr \<times> jstr) list \<Rightarrow> jstr" where
  "tk_form [] = []"
| "tk_form ((k, v) # ps) = length k # length v # k @ v @ tk_form ps"

function tk_unform :: "jstr \<Rightarrow> (jstr \<times> jstr) list" where
  "tk_unform (m # n # s) = (take m s, take n (drop m s)) # tk_unform (drop (m + n) s)"
| "tk_unform [] = []"
| "tk_unform [x] = []"
  by pat_completeness auto

termination by (relation "measure length") auto

lemma tk_unform_form: "tk_unform (tk_form ps) = ps"
  by (induction ps rule: tk_form.induct) auto

text \<open>A component is written with its length in front, so that the address can be taken apart.\<close>

definition tk_platform :: totp_platform where
  "tk_platform = \<lparr>tp_hmac = (\<lambda>a k m. Some (replicate 20 9 @ m)),
     tp_parse_url = (\<lambda>s. let r = drop 15 s in case r of [] \<Rightarrow> None
        | n # _ \<Rightarrow> Some (tk_url (47 # take (Suc n) r) (tk_unform (drop (n + 2) r)))),
     tp_decode_component = (\<lambda>s. case s of [] \<Rightarrow> None | _ # l \<Rightarrow> Some l),
     tp_encode_component = (\<lambda>l. if well_formed_text l then Some (length l # l) else None), tp_form = tk_form,
     tp_to_upper = (\<lambda>s. s), tp_fold = (\<lambda>s. s)\<rparr>"

lemma tk_reads_back: "otp_uri_reads_back tk_platform" "upper_fixed tk_platform"
  by (auto simp: otp_uri_reads_back_def upper_fixed_def tk_platform_def lit_def tk_url_def tk_unform_form)

text \<open>The base64 text of the octets 1, 2 and 3.\<close>

definition tk_secret :: jstr where "tk_secret = binary_to_base64 [1, 2, 3]"

lemma tk_secret_decodes: "base64_to_binary tk_secret = Some [1, 2, 3]"
  by (simp add: tk_secret_def base64_round_trip)

text \<open>Key derivation that gives the length it is asked for.\<close>

definition mk_subtle :: subtle where
  "mk_subtle = sample_subtle\<lparr>hkdf_sha256 := (\<lambda>ikm salt info n. take (n div 8) (ikm @ replicate (n div 8) 7))\<rparr>"

definition mk_crypto :: key_crypto where
  "mk_crypto = \<lparr>kc_pbkdf2 = (\<lambda>p s i n. take (n div 8) (p @ replicate (n div 8) 3)), kc_argon2id = (\<lambda>c p s. None),
     kc_sha256 = (\<lambda>b. take 32 (b @ replicate 32 0)), kc_ecdsa_sign = (\<lambda>k b. None), kc_ecdsa_verify = (\<lambda>k s b. None)\<rparr>"

lemma mk_laws: "hkdf_sized mk_subtle" "aead_ok mk_subtle"
  by (auto simp: hkdf_sized_def mk_subtle_def aead_ok_def sample_subtle_def)

lemma mk_decodes: "\<forall>c \<in> set s. c < 128 \<Longrightarrow> decodes mk_subtle s"
  using sample_decodes [of s] by (simp add: decodes_def mk_subtle_def)

definition mk_master :: jstr where "mk_master = lit ''correct horse''"
definition mk_salt :: bytes where "mk_salt = replicate 16 5"

subsection \<open>One-time passwords\<close>

text \<open>
  C26. A generated one-time password is the one of RFC 6238: it has exactly the
  configured number of decimal digits, leading zeros included, and their value is the
  31 bits of the HMAC of the time step found at its dynamic offset, modulo that power
  of ten, although the code computes on 32-bit words with a sign; and the message of the
  HMAC is the number of whole periods since the epoch in eight octets, as long as that
  number fits in the 32 bits the code writes.
\<close>

theorem totp_code_is_rfc6238:
  assumes "generate_totp P secret cfg t = Some code" "0 < tc_digits cfg"
    and "\<And>a k m h. tp_hmac P a k m = Some h \<Longrightarrow> 20 \<le> length h"
  shows "\<exists>key h. base64_to_binary secret = Some key
    \<and> tp_hmac P (tc_algorithm cfg) key (counter_bytes (time_counter cfg t)) = Some h
    \<and> (0 < tc_period cfg \<and> 0 \<le> t \<and> t div 1000 div tc_period cfg < 2 ^ 32
       \<longrightarrow> counter_bytes (time_counter cfg t) = be_bytes 8 (t div 1000 div tc_period cfg))
    \<and> length code = tc_digits cfg \<and> (\<forall>c \<in> set code. is_digit c)
    \<and> digits_value code
        = be_value (take 4 (drop (unat (last h AND 0x0F)) h)) mod 2 ^ 31 mod 10 ^ tc_digits cfg"
  using generated_code [OF assms] counter_is_eight_octets by (auto simp: rfc6238_value_def Let_def)

theorem totp_code_is_rfc6238_witness:
  "\<exists>code. generate_totp tk_platform tk_secret default_totp_config 59000 = Some code \<and> length code = 6"
proof -
  obtain code where c: "generate_totp tk_platform tk_secret default_totp_config 59000 = Some code"
    by (simp add: generate_totp_def tk_secret_decodes tk_platform_def)
  have "length code = 6"
    using totp_code_is_rfc6238 [OF c] by (force simp: default_totp_config_def tk_platform_def)
  then show ?thesis using c by blast
qed

text \<open>
  A code is accepted from one period before its generation to one period after.
\<close>

theorem totp_accepted_nearby:
  assumes "0 < tc_period cfg" "0 < window" "generate_totp P secret cfg t = Some code"
    and "\<bar>t' - t\<bar> \<le> tc_period cfg * 1000"
    and "\<And>k m. base64_to_binary secret = Some k \<Longrightarrow> tp_hmac P (tc_algorithm cfg) k m \<noteq> None"
  shows "verify_totp P secret code cfg t' window = Some True"
  using verified_nearby [OF assms] .

text \<open>
  C19. An otpauth address written for a secret is read back: parsing it gives the
  label with its issuer, the algorithm, the digits, the period and, through base 32
  with its padding and back, the octets of the secret.
\<close>

theorem otp_address_reads_back:
  assumes "otp_uri_reads_back P" "upper_fixed P"
    and "generate_otp_auth_uri P secret label issuer cfg = Some uri"
    and "base64_to_binary secret = Some bs" "bs \<noteq> []"
    and "tc_digits cfg \<in> {6, 8}" "0 < tc_period cfg"
    and "text = (case issuer of None \<Rightarrow> [] | Some i \<Rightarrow> if i = [] then [] else i @ [58]) @ label" "text \<notin> {[46], [46, 46]}"
  shows "\<exists>a. parse_otp_auth_uri P uri = Some a \<and> base32_to_base64 (oa_secret a) = binary_to_base64 bs
    \<and> oa_label a = text \<and> oa_issuer a = (if issuer = Some [] then None else issuer)
    \<and> oa_algorithm a = tc_algorithm cfg \<and> oa_digits a = int (tc_digits cfg) \<and> oa_period a = Some (tc_period cfg)"
  using otp_address_parsed [OF assms] .

theorem otp_address_reads_back_witness:
  "\<exists>uri a. generate_otp_auth_uri tk_platform tk_secret (lit ''bob'') (Some (lit ''acme'')) default_totp_config = Some uri
    \<and> parse_otp_auth_uri tk_platform uri = Some a \<and> oa_label a = lit ''acme:bob'' \<and> base32_to_base64 (oa_secret a) = tk_secret"
proof -
  obtain uri where u: "generate_otp_auth_uri tk_platform tk_secret (lit ''bob'') (Some (lit ''acme'')) default_totp_config = Some uri"
    using well_formed_ascii [of "lit ''acme:bob''"]
    by (simp add: generate_otp_auth_uri_def base64_to_base32_def tk_secret_decodes Let_def)
      (simp add: tk_platform_def lit_def high_surrogate_def low_surrogate_def)
  show ?thesis using otp_address_reads_back [OF tk_reads_back u tk_secret_decodes, of "lit ''acme:bob''"] u
    by (auto simp: default_totp_config_def lit_def tk_secret_def)
qed

subsection \<open>The master key\<close>

text \<open>
  C29. In every history of the master key, whatever is called and with whatever
  passphrases: a session older than fifteen minutes yields no key and is wiped, a
  session key in use was derived from a passphrase whose verifier is the stored one, and a
  locked vault opens only to a passphrase with that verifier.
\<close>

theorem session_key_belongs_to_verifier:
  assumes "hkdf_sized S" "key_reachable S K now st"
  shows "(now + session_duration_ms \<le> later \<longrightarrow> get_session_key later st = (None, lock_vault st))
    \<and> (\<forall>key. fst (get_session_key later st) = Some key \<longrightarrow>
         (\<exists>salt master. keeps_verifier S K salt master (ka_local st) \<and> key = derive_session_key S K master salt))
    \<and> (\<forall>attempt st'. \<not> is_session_valid now st \<and> unlock_vault S K now attempt st = (Mk_Success, st') \<longrightarrow>
         (\<exists>salt master. keeps_verifier S K salt master (ka_local st)
            \<and> verifier_of S K salt attempt = verifier_of S K salt master))"
proof (intro conjI allI impI)
  have inv: "areas_inv S K now st" by (rule key_reachable_inv [OF assms])
  show "get_session_key later st = (None, lock_vault st)" if "now + session_duration_ms \<le> later"
    using idle_session_ends [OF inv that] .
  show "\<exists>salt master. keeps_verifier S K salt master (ka_local st) \<and> key = derive_session_key S K master salt"
    if "fst (get_session_key later st) = Some key" for key
    using that inv by (auto simp: get_session_key_def areas_inv_def paired_def split: if_splits)
  show "\<exists>salt master. keeps_verifier S K salt master (ka_local st) \<and> verifier_of S K salt attempt = verifier_of S K salt master"
    if "\<not> is_session_valid now st \<and> unlock_vault S K now attempt st = (Mk_Success, st')" for attempt st'
    using unlock_locked_success [OF assms(1) inv] that by blast
qed

lemma mk_initialized:
  "initialize_vault mk_subtle mk_crypto 1000 mk_salt mk_master empty_areas
    = (Mk_Success, (open_session 1000 (derive_session_key mk_subtle mk_crypto mk_master mk_salt) empty_areas)\<lparr>ka_local :=
        \<lparr>la_verify = Some (verifier_of mk_subtle mk_crypto mk_salt mk_master),
         la_salt = Some (binary_to_base64 mk_salt), la_scheme = Some key_scheme, la_initialized = True,
         la_credentials = Some []\<rparr>\<rparr>)"
  by (simp add: initialize_vault_def mk_master_def is_vault_initialized_def empty_areas_def verifier_of_def lit_def)

theorem session_key_belongs_to_verifier_witness:
  "\<exists>st. key_reachable mk_subtle mk_crypto 1000 st
    \<and> fst (get_session_key 2000 st) = Some (derive_session_key mk_subtle mk_crypto mk_master mk_salt)
    \<and> get_session_key 901000 st = (None, lock_vault st)"
proof -
  obtain st where st: "st = snd (initialize_vault mk_subtle mk_crypto 1000 mk_salt mk_master empty_areas)" by blast
  have r: "key_reachable mk_subtle mk_crypto 1000 st"
    using key_reachable.step [OF key_reachable.start [of mk_subtle mk_crypto 0], of 1000 "Op_Initialize mk_salt mk_master"]
    by (simp add: key_step_def st)
  have k: "derive_session_key mk_subtle mk_crypto mk_master mk_salt \<noteq> []" by (rule session_key_nonempty [OF mk_laws(1)])
  have s: "fst (get_session_key 2000 st) = Some (derive_session_key mk_subtle mk_crypto mk_master mk_salt)"
    using k by (simp add: st mk_initialized get_session_key_def is_session_valid_def session_duration_ms_def absent_def)
  have "get_session_key 901000 st = (None, lock_vault st)"
    using session_key_belongs_to_verifier [OF mk_laws(1) r, of 901000] by (simp add: session_duration_ms_def)
  then show ?thesis using r s by blast
qed

text \<open>
  C6. What was encrypted under a session survives locking the vault: after it is
  unlocked again with the same passphrase, at any later time, the session key is the
  same one and the blob decrypts to the text.
\<close>

theorem encrypted_data_survives_lock:
  assumes "hkdf_sized S" "aead_ok S" "decodes S data" "length iv = aes_iv_length" "salt \<noteq> []"
    and "initialize_vault S K t0 salt master st0 = (Mk_Success, st1)"
    and "encrypt_with_session_key S t1 iv data st1 = (Some (Some blob), st2)"
    and "t3 \<noteq> 0" "t3 \<le> t4" "t4 < t3 + session_duration_ms"
  shows "fst (unlock_vault S K t3 master (lock_vault st2)) = Mk_Success
    \<and> fst (decrypt_with_session_key S t4 blob (snd (unlock_vault S K t3 master (lock_vault st2)))) = Some data"
  using data_survives_lock [OF assms] by (metis fst_conv)

theorem encrypted_data_survives_lock_witness:
  "\<exists>blob st1 st2. encrypt_with_session_key mk_subtle 2000 (replicate 12 1) (lit ''note'') st1 = (Some (Some blob), st2)
    \<and> fst (unlock_vault mk_subtle mk_crypto 9000 mk_master (lock_vault st2)) = Mk_Success
    \<and> fst (decrypt_with_session_key mk_subtle 9500 blob (snd (unlock_vault mk_subtle mk_crypto 9000 mk_master (lock_vault st2)))) = Some (lit ''note'')"
proof -
  obtain st1 where i: "initialize_vault mk_subtle mk_crypto 1000 mk_salt mk_master empty_areas = (Mk_Success, st1)"
    "sa_key (ka_session st1) = Some (derive_session_key mk_subtle mk_crypto mk_master mk_salt)" "sa_unlock_time (ka_session st1) = Some 1000"
    by (simp add: mk_initialized)
  have k: "derive_session_key mk_subtle mk_crypto mk_master mk_salt \<noteq> []" by (rule session_key_nonempty [OF mk_laws(1)])
  have "\<exists>kb. base64_to_binary (derive_session_key mk_subtle mk_crypto mk_master mk_salt) = Some kb"
    by (simp add: derive_session_key_def derive_key_def Let_def base64_round_trip)
  then obtain blob st2 where e: "encrypt_with_session_key mk_subtle 2000 (replicate 12 1) (lit ''note'') st1 = (Some (Some blob), st2)"
    using k i by (auto simp: encrypt_with_session_key_def get_session_key_def is_session_valid_def session_duration_ms_def
        absent_def encrypt_with_key_def mk_subtle_def sample_subtle_def)
  have d: "decodes mk_subtle (lit ''note'')" by (rule mk_decodes) (simp add: lit_def)
  show ?thesis using e encrypted_data_survives_lock [OF mk_laws d _ _ i(1) e, of 9000 9500]
    by (auto simp: aes_iv_length_def mk_salt_def session_duration_ms_def)
qed

subsection \<open>Account recovery\<close>

text \<open>
  C11. A reset token works at most once and only for half an hour: after a recovery
  was initiated, a password is reset only with a token of the same hash, no later than
  thirty minutes after, and from then on every reset is refused until another one is
  initiated.
\<close>

theorem reset_token_used_once:
  assumes "reset_token_laws R" and "ur_by_email R st email = Some (Some u)"
    and "account_initiate K R dev mail t0 rnd email st = (Inr out, st1)"
    and "reset_password K R now salt email tok password st1 = (Inr (), st2)"
  shows "hash_token K tok = hash_token K (binary_to_base64 rnd) \<and> now \<le> t0 + reset_token_ttl_ms
    \<and> reset_password K R later salt' email tok' password' st2 = (Inl ''Invalid or expired reset token'', st2)"
proof -
  have "ur_set_reset_token R st (ru_user_id u) (hash_token K (binary_to_base64 rnd)) (t0 + reset_token_ttl_ms) = Some st1"
    using assms(2,3) by (auto simp: account_initiate_def Let_def split: option.splits if_splits)
  then obtain v where v: "ur_by_email R st1 email = Some (Some v)" "ru_reset_hash v = Some (hash_token K (binary_to_base64 rnd))"
    "ru_reset_expiry v = Some (t0 + reset_token_ttl_ms)"
    using reset_token_set [OF assms(1,2)] by auto
  have "hash_token K tok = hash_token K (binary_to_base64 rnd)" "now \<le> t0 + reset_token_ttl_ms"
    using assms(4) v(2,3) unfolding reset_exactly [OF v(1)] by auto
  then show ?thesis using reset_used_up [OF assms(1,4)] by blast
qed

definition rk_repository :: "recovery_user user_repository" where
  "rk_repository = \<lparr>ur_by_email = (\<lambda>u _. Some (Some u)), ur_by_id = (\<lambda>u _. Some (Some u)),
     ur_set_reset_token = (\<lambda>u _ h e. Some (u\<lparr>ru_reset_hash := Some h, ru_reset_expiry := Some e\<rparr>)),
     ur_clear_reset_token = (\<lambda>u _. Some (u\<lparr>ru_reset_hash := None, ru_reset_expiry := None\<rparr>)),
     ur_update_password = (\<lambda>u _ h s. Some u), ur_increment_session = (\<lambda>u _. Some u),
     ur_set_recovery_hash = (\<lambda>u _ h. Some (u\<lparr>ru_recovery_hash := Some h\<rparr>))\<rparr>"

definition rk_user :: recovery_user where
  "rk_user = \<lparr>ru_user_id = lit ''u'', ru_reset_hash = None, ru_reset_expiry = None, ru_recovery_hash = None\<rparr>"

theorem reset_token_used_once_witness:
  "\<exists>st1 st2. account_initiate mk_crypto rk_repository True None 1000 [1, 2] [] rk_user = (Inr (Some (binary_to_base64 [1, 2])), st1)
    \<and> reset_password mk_crypto rk_repository 5000 [3] [] (binary_to_base64 [1, 2]) [] st1 = (Inr (), st2)
    \<and> reset_password mk_crypto rk_repository 6000 [3] [] (binary_to_base64 [1, 2]) [] st2 = (Inl ''Invalid or expired reset token'', st2)"
proof -
  have laws: "reset_token_laws rk_repository" by (simp add: reset_token_laws_def rk_repository_def)
  have u: "ur_by_email rk_repository rk_user [] = Some (Some rk_user)" by (simp add: rk_repository_def)
  obtain st1 where 1: "account_initiate mk_crypto rk_repository True None 1000 [1, 2] [] rk_user = (Inr (Some (binary_to_base64 [1, 2])), st1)"
    "ur_by_email rk_repository st1 [] = Some (Some (rk_user\<lparr>ru_reset_hash := Some (hash_token mk_crypto (binary_to_base64 [1, 2])), ru_reset_expiry := Some (1000 + reset_token_ttl_ms)\<rparr>))"
    by (simp add: account_initiate_def rk_repository_def Let_def)
  have "hash_token mk_crypto t \<noteq> []" for t
    by (simp add: hash_token_def mk_crypto_def binary_to_base64_nonempty)
  then obtain st2 where 2: "reset_password mk_crypto rk_repository 5000 [3] [] (binary_to_base64 [1, 2]) [] st1 = (Inr (), st2)"
    unfolding reset_exactly [OF 1(2)]
    by (simp add: reset_token_ttl_ms_def finish_reset_def) (simp add: rk_repository_def)
  show ?thesis using 1(1) 2 reset_token_used_once [OF laws u 1(1) 2] by blast
qed

end
