(* ===== verification/Worker_Gate.thy ===== *)
theory Worker_Gate
  imports Complex_Main Totp Codec Step_Up_Flow Step_Up_Stores
begin

text \<open>What the service worker keeps across evictions: the RQ2 pilot and the step-up gate.\<close>

section \<open>The pilot\<close>

text \<open>
  The trials that accompany step-ups: src/src/background/rq2-pilot.ts.  The state is
  the entry of session storage (None: absent); the build flag, the random choice and
  the performance clock are arguments.
\<close>

datatype rq2_condition = Baseline | Contextual

record rq2_trial_data =
  rt_trial :: nat
  rt_condition :: rq2_condition
  rt_operation :: string
  rt_resource :: jstr
  rt_user_id :: jstr
  rt_challenge_id :: jstr
  rt_prompt_visible :: rat
  rt_gesture_start :: "rat option"
  rt_approve_sent :: "rat option"
  rt_error_at :: "rat option"
  rt_error_detail :: "jstr option"
  rt_self_report :: "nat option"
  rt_distractor :: bool
  rt_injected_operation :: "jstr option"
  rt_injected_resource :: "jstr option"

record rq2_state =
  pl_enabled :: bool
  pl_condition :: rq2_condition
  pl_trial :: nat
  pl_sequence :: "rq2_condition list"
  pl_participant :: jstr
  pl_trials :: "rq2_trial_data list"

subsection \<open>Beginning\<close>

text \<open>The number of participants is None where it is not a number.\<close>

definition next_participant :: "int option \<Rightarrow> int option" where
  "next_participant count = map_option (\<lambda>n. n + 1) count"

definition participant_id :: "int option \<Rightarrow> jstr" where
  "participant_id count = lit ''P'' @ (case next_participant count of
     None \<Rightarrow> lit ''NaN'' | Some n \<Rightarrow> pad_zeros 2 (dec_int n))"

definition counterbalanced_sequence :: "bool \<Rightarrow> rq2_condition list" where
  "counterbalanced_sequence abba =
     (if abba then [Baseline, Baseline, Contextual, Contextual] else [Contextual, Contextual, Baseline, Baseline])"

definition init_pilot :: "bool \<Rightarrow> bool \<Rightarrow> int option \<Rightarrow> rq2_state option \<Rightarrow> rq2_state option" where
  "init_pilot allowed abba count st =
     (if \<not> allowed then st
      else if st \<noteq> None then st
      else let s = counterbalanced_sequence abba in
        Some \<lparr>pl_enabled = True, pl_condition = s ! 0, pl_trial = 0, pl_sequence = s,
          pl_participant = participant_id count, pl_trials = []\<rparr>)"

subsection \<open>Trials\<close>

definition running :: "rq2_state option \<Rightarrow> bool" where
  "running st \<longleftrightarrow> (case st of None \<Rightarrow> False | Some s \<Rightarrow> pl_enabled s)"

definition advance_trial :: "rq2_state option \<Rightarrow> rq2_condition option \<times> rq2_state option" where
  "advance_trial st = (case st of
     None \<Rightarrow> (None, st)
   | Some s \<Rightarrow>
       if \<not> pl_enabled s then (None, st)
       else let t = pl_trial s + 1 in
         if t \<ge> length (pl_sequence s) then (None, Some (s\<lparr>pl_trial := t, pl_enabled := False\<rparr>))
         else let c = pl_sequence s ! t in (Some c, Some (s\<lparr>pl_trial := t, pl_condition := c\<rparr>)))"

definition record_prompt_visible ::
  "rat \<Rightarrow> jstr \<Rightarrow> string \<Rightarrow> jstr \<Rightarrow> jstr \<Rightarrow> bool \<Rightarrow> jstr option \<Rightarrow> jstr option \<Rightarrow> rq2_state option \<Rightarrow> rq2_state option" where
  "record_prompt_visible clock challenge operation resource user distractor inj_operation inj_resource st =
     (case st of
        None \<Rightarrow> st
      | Some s \<Rightarrow> if \<not> pl_enabled s then st else Some (s\<lparr>pl_trials := pl_trials s @
          [\<lparr>rt_trial = pl_trial s, rt_condition = pl_condition s, rt_operation = operation, rt_resource = resource,
            rt_user_id = user, rt_challenge_id = challenge, rt_prompt_visible = clock, rt_gesture_start = None,
            rt_approve_sent = None, rt_error_at = None, rt_error_detail = None, rt_self_report = None,
            rt_distractor = distractor, rt_injected_operation = inj_operation, rt_injected_resource = inj_resource\<rparr>]\<rparr>))"

text \<open>An update of the last trial, if there is one and it is not stamped yet.\<close>

definition unstamped :: "rat option \<Rightarrow> bool" where
  "unstamped t \<longleftrightarrow> t = None \<or> t = Some 0"

definition update_current :: "(rq2_trial_data \<Rightarrow> bool) \<Rightarrow> (rq2_trial_data \<Rightarrow> rq2_trial_data) \<Rightarrow> rq2_state option \<Rightarrow> rq2_state option" where
  "update_current due f st = (case st of
     None \<Rightarrow> st
   | Some s \<Rightarrow>
       if pl_enabled s \<and> pl_trials s \<noteq> [] \<and> due (last (pl_trials s))
       then Some (s\<lparr>pl_trials := butlast (pl_trials s) @ [f (last (pl_trials s))]\<rparr>) else st)"

definition record_gesture_start :: "rat \<Rightarrow> rq2_state option \<Rightarrow> rq2_state option" where
  "record_gesture_start clock = update_current (\<lambda>d. unstamped (rt_gesture_start d)) (\<lambda>d. d\<lparr>rt_gesture_start := Some clock\<rparr>)"

definition record_approve_sent :: "rat \<Rightarrow> rq2_state option \<Rightarrow> rq2_state option" where
  "record_approve_sent clock = update_current (\<lambda>d. unstamped (rt_approve_sent d)) (\<lambda>d. d\<lparr>rt_approve_sent := Some clock\<rparr>)"

definition record_error :: "rat \<Rightarrow> jstr \<Rightarrow> rq2_state option \<Rightarrow> rq2_state option" where
  "record_error clock detail =
     update_current (\<lambda>d. unstamped (rt_error_at d)) (\<lambda>d. d\<lparr>rt_error_at := Some clock, rt_error_detail := Some detail\<rparr>)"

definition record_self_report :: "nat \<Rightarrow> rq2_state option \<Rightarrow> rq2_state option" where
  "record_self_report rating = update_current (\<lambda>d. True) (\<lambda>d. d\<lparr>rt_self_report := Some rating\<rparr>)"

definition current_condition :: "rq2_state option \<Rightarrow> rq2_condition option" where
  "current_condition st = (case st of None \<Rightarrow> None | Some s \<Rightarrow> if pl_enabled s then Some (pl_condition s) else None)"

definition current_trial_number :: "rq2_state option \<Rightarrow> nat" where
  "current_trial_number st = (case st of None \<Rightarrow> 0 | Some s \<Rightarrow> if pl_enabled s then pl_trial s + 1 else 0)"

subsection \<open>A pilot is four balanced trials\<close>

definition pilot_ok :: "rq2_state option \<Rightarrow> bool" where
  "pilot_ok st \<longleftrightarrow> (case st of
     None \<Rightarrow> True
   | Some s \<Rightarrow> length (pl_sequence s) = 4 \<and> count_list (pl_sequence s) Baseline = 2
       \<and> (if pl_enabled s then pl_trial s < 4 \<and> pl_condition s = pl_sequence s ! pl_trial s else pl_trial s = 4))"

lemma init_pilot_ok: "pilot_ok st \<Longrightarrow> pilot_ok (init_pilot allowed abba n st)"
  by (auto simp: init_pilot_def pilot_ok_def counterbalanced_sequence_def Let_def)

lemma advance_trial_ok: "pilot_ok st \<Longrightarrow> pilot_ok (snd (advance_trial st))"
  by (auto simp: advance_trial_def pilot_ok_def Let_def split: option.splits if_splits)

lemma update_current_ok: "pilot_ok st \<Longrightarrow> pilot_ok (update_current due f st)"
  by (auto simp: update_current_def pilot_ok_def split: option.splits)

lemma record_prompt_ok: "pilot_ok st \<Longrightarrow> pilot_ok (record_prompt_visible clock c operation resource u d i j st)"
  by (auto simp: record_prompt_visible_def pilot_ok_def split: option.splits)

lemma pilot_ends:
  assumes "pilot_ok st"
  shows "\<not> running (((snd \<circ> advance_trial) ^^ 4) st)"
proof (cases st)
  case (Some s)
  have s: "\<exists>s'. snd (advance_trial (Some s)) = Some s' \<and> length (pl_sequence s') = 4
      \<and> (pl_enabled s' \<longrightarrow> pl_enabled s \<and> pl_trial s' = pl_trial s + 1 \<and> pl_trial s' < 4)" if "length (pl_sequence s) = 4" for s
    using that by (auto simp: advance_trial_def Let_def)
  have st: "\<exists>s'. ((snd \<circ> advance_trial) ^^ n) st = Some s' \<and> length (pl_sequence s') = 4
      \<and> (pl_enabled s' \<longrightarrow> n \<le> pl_trial s' \<and> pl_trial s' < 4)" for n
  proof (induction n)
    case 0
    then show ?case using assms Some by (auto simp: pilot_ok_def)
  next
    case (Suc n)
    then obtain x where x: "((snd \<circ> advance_trial) ^^ n) st = Some x" "length (pl_sequence x) = 4"
      "pl_enabled x \<longrightarrow> n \<le> pl_trial x \<and> pl_trial x < 4" by blast
    have e: "((snd \<circ> advance_trial) ^^ Suc n) st = snd (advance_trial (Some x))" by (simp add: x(1))
    show ?case unfolding e using s [OF x(2)] x(3) by auto
  qed
  from st [of 4] show ?thesis by (auto simp: running_def)
qed (simp add: running_def advance_trial_def eval_nat_numeral)

section \<open>The gate\<close>

text \<open>
  The step-up gate of the service worker (src/src/background/auditor.ts): what a
  worker remembers of refusals and completions, what session storage keeps of them
  when the worker is evicted, and the keys both are stored under.
\<close>

subsection \<open>Keys\<close>

definition op_text :: "step_up_operation \<Rightarrow> string" where
  "op_text x = (case x of Op_Autofill \<Rightarrow> ''AUTOFILL'' | Op_Totp \<Rightarrow> ''TOTP'')"

text \<open>\<^verbatim>\<open>JSON.stringify\<close> of a text, without the quotes around it.\<close>

definition hex_unit :: "nat \<Rightarrow> nat" where
  "hex_unit n = (if n < 10 then 48 + n else 87 + n)"

definition short_escapes :: "(nat \<times> nat) list" where
  "short_escapes = [(34, 34), (92, 92), (8, 98), (12, 102), (10, 110), (13, 114), (9, 116)]"

definition escape_unit :: "nat \<Rightarrow> jstr" where
  "escape_unit c = (case map_of short_escapes c of
     Some e \<Rightarrow> [92, e]
   | None \<Rightarrow> if c < 32 \<or> high_surrogate c \<or> low_surrogate c
       then [92, 117, hex_unit (c div 4096), hex_unit (c div 256 mod 16), hex_unit (c div 16 mod 16), hex_unit (c mod 16)]
       else [c])"

fun json_escape :: "jstr \<Rightarrow> jstr" where
  "json_escape (c # d # s) =
     (if high_surrogate c \<and> low_surrogate d then c # d # json_escape s else escape_unit c @ json_escape (d # s))"
| "json_escape [c] = escape_unit c"
| "json_escape [] = []"

definition json_quote :: "jstr \<Rightarrow> jstr" where
  "json_quote s = [34] @ json_escape s @ [34]"

definition binding_key :: "step_up_binding \<Rightarrow> jstr" where
  "binding_key b = [91] @ json_quote (sb_credential_id b) @ [44] @ json_quote (sb_origin b) @ [44]
     @ json_quote (lit (op_text (sb_operation b))) @ [93]"

subsection \<open>The gate\<close>

text \<open>What session storage holds: objects from keys, with their entries in order.\<close>

record step_up_gate =
  sg_challenged :: "(jstr \<times> step_up_binding) list"
  sg_completed :: "(jstr \<times> step_up_session) list"

definition empty_gate :: step_up_gate where
  "empty_gate = \<lparr>sg_challenged = [], sg_completed = []\<rparr>"

definition without :: "'k \<Rightarrow> ('k \<times> 'v) list \<Rightarrow> ('k \<times> 'v) list" where
  "without k xs = filter (\<lambda>p. fst p \<noteq> k) xs"

text \<open>The memory of the worker, and the entry of session storage (None: absent).\<close>

record gate_state =
  gt_challenged :: "(jstr \<times> step_up_binding) list"
  gt_completed :: "(jstr \<times> step_up_session) list"
  gt_stored :: "step_up_gate option"

definition read_persisted_gate :: "gate_state \<Rightarrow> step_up_gate" where
  "read_persisted_gate g = (case gt_stored g of None \<Rightarrow> empty_gate | Some p \<Rightarrow> p)"

text \<open>A write that fails is swallowed.\<close>

definition persist_gate_change :: "bool \<Rightarrow> (step_up_gate \<Rightarrow> step_up_gate) \<Rightarrow> gate_state \<Rightarrow> gate_state" where
  "persist_gate_change writes change g =
     (if writes then g\<lparr>gt_stored := Some (change (read_persisted_gate g))\<rparr> else g)"

definition remember_challenged :: "bool \<Rightarrow> step_up_binding \<Rightarrow> gate_state \<Rightarrow> gate_state" where
  "remember_challenged writes b g =
     persist_gate_change writes (\<lambda>p. p\<lparr>sg_challenged := put (binding_key b) b (sg_challenged p)\<rparr>)
       (g\<lparr>gt_challenged := put (binding_key b) b (gt_challenged g)\<rparr>)"

definition remember_completed :: "bool \<Rightarrow> step_up_session \<Rightarrow> gate_state \<Rightarrow> gate_state" where
  "remember_completed writes s g =
     persist_gate_change writes (\<lambda>p. p\<lparr>sg_completed := put (binding_key (ss_binding s)) s (sg_completed p)\<rparr>)
       (g\<lparr>gt_completed := put (binding_key (ss_binding s)) s (gt_completed g)\<rparr>)"

definition spend_step_up :: "bool \<Rightarrow> step_up_binding \<Rightarrow> gate_state \<Rightarrow> gate_state" where
  "spend_step_up writes b g = (let k = binding_key b in
     persist_gate_change writes
       (\<lambda>p. p\<lparr>sg_challenged := without k (sg_challenged p), sg_completed := without k (sg_completed p)\<rparr>)
       (g\<lparr>gt_challenged := without k (gt_challenged g), gt_completed := without k (gt_completed g)\<rparr>))"

text \<open>\<^verbatim>\<open>expireSessionKeyMaterial\<close> and \<^verbatim>\<open>handleLockVault\<close>, as far as the gate goes.\<close>

definition clear_gate :: "gate_state \<Rightarrow> gate_state" where
  "clear_gate g = \<lparr>gt_challenged = [], gt_completed = [], gt_stored = None\<rparr>"

text \<open>The browser evicts the worker: memory is lost, session storage stays.\<close>

definition evict_gate :: "gate_state \<Rightarrow> gate_state" where
  "evict_gate g = g\<lparr>gt_challenged := [], gt_completed := []\<rparr>"

definition refuses_early :: "step_up_binding \<Rightarrow> gate_state \<Rightarrow> bool" where
  "refuses_early b g \<longleftrightarrow> map_of (gt_challenged g) (binding_key b) \<noteq> None
     \<and> \<not> is_ok (can_retry_release (map_of (gt_completed g) (binding_key b)) b)"

definition session_owes_step_up :: "step_up_binding \<Rightarrow> gate_state \<Rightarrow> bool" where
  "session_owes_step_up b g = (let k = binding_key b in
     if map_of (gt_challenged g) k \<noteq> None then \<not> is_ok (can_retry_release (map_of (gt_completed g) k) b)
     else let p = read_persisted_gate g in
       map_of (sg_challenged p) k \<noteq> None \<and> \<not> is_ok (can_retry_release (map_of (sg_completed p) k) b))"

text \<open>The bindings that wait for a step-up, in the order of the map they are merged into.\<close>

definition pending_step_ups :: "gate_state \<Rightarrow> step_up_binding list" where
  "pending_step_ups g = (let p = read_persisted_gate g;
       challenged = fold (\<lambda>(k, b). put k b) (gt_challenged g) (sg_challenged p);
       completed = fst ` set (sg_completed p) \<union> fst ` set (gt_completed g)
     in map snd (filter (\<lambda>(k, b). k \<notin> completed) challenged))"

subsection \<open>Keys are not confused\<close>

text \<open>Reading a quoted text up to its closing quote.\<close>

definition hex_value_of :: "jstr \<Rightarrow> nat" where
  "hex_value_of ds = foldl (\<lambda>n d. n * 16 + (if d < 58 then d - 48 else d - 87)) 0 ds"

function json_scan :: "jstr \<Rightarrow> jstr \<times> jstr" where
  "json_scan s = (case s of
     [] \<Rightarrow> ([], [])
   | c # s1 \<Rightarrow>
       if c = 34 then ([], s1)
       else if c = 92 then (case s1 of
           [] \<Rightarrow> ([], [])
         | e # s2 \<Rightarrow> if e = 117 then apfst (Cons (hex_value_of (take 4 s2))) (json_scan (drop 4 s2))
             else apfst (Cons (case map_of (map prod.swap short_escapes) e of None \<Rightarrow> e | Some u \<Rightarrow> u)) (json_scan s2))
       else apfst (Cons c) (json_scan s1))"
  by auto

termination by (relation "measure length") auto

declare json_scan.simps [simp del]

lemma hex_unit_value: "n < 16 \<Longrightarrow> (if hex_unit n < 58 then hex_unit n - 48 else hex_unit n - 87) = n"
  by (auto simp: hex_unit_def)

lemma hex_units_value:
  assumes "c < 65536"
  shows "hex_value_of [hex_unit (c div 4096), hex_unit (c div 256 mod 16), hex_unit (c div 16 mod 16), hex_unit (c mod 16)] = c"
proof -
  have "c div 4096 < 16" using assms by auto
  then have "hex_value_of [hex_unit (c div 4096), hex_unit (c div 256 mod 16), hex_unit (c div 16 mod 16), hex_unit (c mod 16)]
      = ((c div 4096 * 16 + c div 256 mod 16) * 16 + c div 16 mod 16) * 16 + c mod 16"
    unfolding hex_value_of_def foldl.simps by (simp only: hex_unit_value mod_less_divisor) simp
  moreover have "c div 4096 = c div 256 div 16" "c div 256 = c div 16 div 16" by (simp_all flip: div_mult2_eq)
  ultimately show ?thesis
    using div_mult_mod_eq [of c 16] div_mult_mod_eq [of "c div 16" 16] div_mult_mod_eq [of "c div 256" 16] by simp
qed

lemma scan_escaped_unit: "json_scan (escape_unit c @ s) = apfst (Cons c) (json_scan s)"
proof (cases "map_of short_escapes c")
  case None
  have n: "c \<noteq> 34" "c \<noteq> 92" using None by (auto simp: short_escapes_def)
  show ?thesis
  proof (cases "c < 32 \<or> high_surrogate c \<or> low_surrogate c")
    case True
    then have "c < 65536" by (auto simp: high_surrogate_def low_surrogate_def)
    from hex_units_value [OF this] show ?thesis using None True by (subst json_scan.simps) (simp add: escape_unit_def)
  next
    case False
    then show ?thesis using None n by (subst json_scan.simps) (simp add: escape_unit_def)
  qed
next
  case (Some e)
  then have "e \<noteq> 117" "map_of (map prod.swap short_escapes) e = Some c"
    by (auto simp: short_escapes_def split: if_splits)
  then show ?thesis using Some by (subst json_scan.simps) (simp add: escape_unit_def)
qed

lemma scan_plain: "c \<noteq> 34 \<Longrightarrow> c \<noteq> 92 \<Longrightarrow> json_scan (c # s) = apfst (Cons c) (json_scan s)"
  by (subst json_scan.simps) simp

lemma scan_escaped: "json_scan (json_escape s @ 34 # r) = (s, r)"
proof (induction s rule: json_escape.induct)
  case (1 c d s)
  then show ?case by (auto simp: scan_escaped_unit scan_plain high_surrogate_def low_surrogate_def)
next
  case (2 c)
  show ?case using scan_escaped_unit [of c "34 # r"] by (simp add: json_scan.simps [of "34 # r"])
qed (simp add: json_scan.simps)

lemma quoted_inject: "json_quote s @ r = json_quote s' @ r' \<Longrightarrow> s = s' \<and> r = r'"
proof -
  assume "json_quote s @ r = json_quote s' @ r'"
  then have "json_scan (json_escape s @ 34 # r) = json_scan (json_escape s' @ 34 # r')" by (simp add: json_quote_def)
  then show ?thesis unfolding scan_escaped by simp
qed

lemma binding_key_inject [simp]: "binding_key a = binding_key b \<longleftrightarrow> a = b"
proof
  assume "binding_key a = binding_key b"
  then have 1: "json_quote (sb_credential_id a) @ (44 # json_quote (sb_origin a) @ (44 # json_quote (lit (op_text (sb_operation a))) @ [93]))
      = json_quote (sb_credential_id b) @ (44 # json_quote (sb_origin b) @ (44 # json_quote (lit (op_text (sb_operation b))) @ [93]))"
    by (simp add: binding_key_def)
  from quoted_inject [OF 1] have 2: "sb_credential_id a = sb_credential_id b"
    "json_quote (sb_origin a) @ (44 # json_quote (lit (op_text (sb_operation a))) @ [93])
      = json_quote (sb_origin b) @ (44 # json_quote (lit (op_text (sb_operation b))) @ [93])" by simp_all
  from quoted_inject [OF 2(2)] have 3: "sb_origin a = sb_origin b"
    "json_quote (lit (op_text (sb_operation a))) @ [93] = json_quote (lit (op_text (sb_operation b))) @ [93]" by simp_all
  from quoted_inject [OF 3(2)] have "lit (op_text (sb_operation a)) = lit (op_text (sb_operation b))" by simp
  then have "sb_operation a = sb_operation b"
    by (cases "sb_operation a"; cases "sb_operation b") (simp_all add: op_text_def lit_def)
  then show "a = b" using 2(1) 3(1) by (auto intro: step_up_binding.equality)
qed simp

end
