(* ===== verification/Worker_Session.thy ===== *)
theory Worker_Session
  imports Worker_Gate Master_Key Domain_Pipeline Trust_Store Auth
begin

text \<open>
  The state of the service worker and the handlers of src/src/background/auditor.ts
  that open, close and use its session, keep trust and anomalies, and talk to Plus and
  Core.  Messages are those of message-types.ts.  fetch is a parameter of each step, as
  are the clocks and random values; a property of an answer that has not the type its
  interface gives is read as absent, and failures of chrome.storage other than the
  writes of the gate are left out.
\<close>

subsection \<open>State\<close>

record unlock_state =
  us_vault_id :: jstr
  us_unlocked_at :: int
  us_expires_at :: int

record anomaly =
  an_domain :: jstr
  an_type :: jstr
  an_severity :: jstr
  an_details :: jstr
  an_timestamp :: int

record worker_settings =
  st_auto_validate :: bool
  st_block_high_risk :: bool
  st_show_notifications :: bool
  st_session_timeout_minutes :: int

text \<open>
  \<^verbatim>\<open>stepUpChallenges\<close> and the gate's maps are memory; session storage holds the key
  areas of Master\_Key, the vault key, the unlock state, the gate and the pilot; the
  rest is local storage.
\<close>

record worker =
  wk_ceremonies :: "(jstr \<times> step_up_binding \<times> int) list"
  wk_gate :: gate_state
  wk_keys :: key_areas
  wk_vek :: "jstr option"
  wk_unlock :: "unlock_state option"
  wk_pilot :: "rq2_state option"
  wk_token :: "jstr option"
  wk_user_id :: "jstr option"
  wk_plus_base :: "jstr option"
  wk_plus_secret :: "jstr option"
  wk_core_base :: "jstr option"
  wk_index :: "opaque_index option"
  wk_records :: "jstr \<rightharpoonup> encrypted_record"
  wk_trust :: trust_store
  wk_anomalies :: "anomaly list"
  wk_validations :: "jstr \<rightharpoonup> pipeline_result \<times> int"
  wk_settings :: "worker_settings option"

definition evict :: "worker \<Rightarrow> worker" where
  "evict w = w\<lparr>wk_ceremonies := [], wk_gate := evict_gate (wk_gate w)\<rparr>"

subsection \<open>Platform\<close>

record fetch_request =
  hq_url :: jstr
  hq_post :: bool
  hq_headers :: "(string \<times> jstr) list"
  hq_body :: "json option"

text \<open>\<^verbatim>\<open>json()\<close> gives a value or rejects with a message.\<close>

record http_answer =
  ha_ok :: bool
  ha_status :: int
  ha_text :: jstr
  ha_json :: "jstr + json"

datatype http_outcome = Fetch_Failed jstr | Fetched http_answer

record worker_env =
  en_web :: web
  en_subtle :: subtle
  en_crypto :: key_crypto
  en_numbers :: number_format
  en_fetch :: "fetch_request \<Rightarrow> http_outcome"
  en_encode :: "jstr \<Rightarrow> jstr + jstr"
  en_null_error :: jstr
  en_now :: int
  en_clock :: rat
  en_salt :: bytes
  en_iv :: bytes
  en_random :: authoring_random
  en_timing :: pipeline_timing
  en_elapsed :: rat
  en_gate_writes :: bool
  en_pilot_allowed :: bool
  en_pilot_abba :: bool
  en_participants :: "int option"

datatype worker_error =
    Error_Text jstr
  | Error_Denial release_denial_code
  | Error_Authoring authoring_rejection
  | Error_Key master_key_result

datatype worker_data =
    No_Data
  | Validation_Data pipeline_result
  | Trust_Data "trust_entry option"
  | Unlocked_Data jstr
  | Status_Data bool
  | Text_Data jstr
  | Json_Data json
  | Share_Data jstr
  | Candidates_Data "candidate_summary list"
  | Authored_Data jstr "jstr option" "jstr option" jstr
  | Credential_Data released_credential
  | Challenge_Data jstr int step_up_binding
  | Pending_Data "step_up_binding list"
  | Verified_Data

text \<open>What the data of a failure repeats of its error is left out.\<close>

datatype worker_reply = Answered worker_data | Failed worker_error

definition failed_text :: "string \<Rightarrow> worker_reply" where
  "failed_text s = Failed (Error_Text (lit s))"

subsection \<open>The session\<close>

definition session_window_ms :: int where "session_window_ms = 30 * 60 * 1000"

definition is_session_unlocked :: "int \<Rightarrow> worker \<Rightarrow> bool" where
  "is_session_unlocked now w =
     (let s = ka_session (wk_keys w) in
      case sa_unlock_time s of
        None \<Rightarrow> False
      | Some t \<Rightarrow> \<not> absent (sa_key s) \<and> t \<noteq> 0
          \<and> (case wk_unlock w of None \<Rightarrow> True | Some u \<Rightarrow> now < us_expires_at u)
          \<and> now - t < session_window_ms)"

definition expire_session_key_material :: "worker \<Rightarrow> worker" where
  "expire_session_key_material w =
     w\<lparr>wk_gate := clear_gate (wk_gate w), wk_vek := None, wk_keys := lock_vault (wk_keys w), wk_unlock := None\<rparr>"

definition read_session_vek :: "int \<Rightarrow> worker \<Rightarrow> bytes option \<times> worker" where
  "read_session_vek now w =
     (if \<not> is_session_unlocked now w then (None, expire_session_key_material w)
      else if absent (wk_vek w) then (None, w)
      else (case base64_to_binary (the (wk_vek w)) of
          None \<Rightarrow> (None, w)
        | Some bs \<Rightarrow> if length bs \<noteq> 32 then (None, w) else (Some bs, w)))"

definition finish_unlock :: "int \<Rightarrow> jstr \<Rightarrow> worker \<Rightarrow> worker_reply \<times> worker" where
  "finish_unlock now vault_id w =
     (if absent (sa_key (ka_session (wk_keys w))) then (failed_text ''unlock produced no session key'', w)
      else (Answered (Unlocked_Data vault_id),
        w\<lparr>wk_vek := sa_key (ka_session (wk_keys w)),
          wk_unlock := Some \<lparr>us_vault_id = vault_id, us_unlocked_at = now, us_expires_at = now + session_window_ms\<rparr>\<rparr>))"

definition handle_unlock_vault :: "worker_env \<Rightarrow> jstr \<Rightarrow> jstr option \<Rightarrow> worker \<Rightarrow> worker_reply \<times> worker" where
  "handle_unlock_vault E vault_id passphrase w =
     (if absent passphrase then (failed_text ''a passphrase is required'', w)
      else let p = the passphrase; S = en_subtle E; K = en_crypto E; now = en_now E in
        (case unlock_vault S K now p (wk_keys w) of (r, k1) \<Rightarrow>
          if r = Mk_Vault_Not_Initialized then
            (case initialize_vault S K now (en_salt E) p k1 of (c, k2) \<Rightarrow>
              if c \<noteq> Mk_Success then (Failed (Error_Key c), w\<lparr>wk_keys := k2\<rparr>)
              else (case unlock_vault S K now p k2 of (r2, k3) \<Rightarrow>
                if r2 \<noteq> Mk_Success then (Failed (Error_Key r2), w\<lparr>wk_keys := k3\<rparr>)
                else finish_unlock now vault_id (w\<lparr>wk_keys := k3\<rparr>)))
          else if r \<noteq> Mk_Success then (Failed (Error_Key r), w\<lparr>wk_keys := k1\<rparr>)
          else finish_unlock now vault_id (w\<lparr>wk_keys := k1\<rparr>)))"

text \<open>The removals are verified to have worked, which they have here.\<close>

definition handle_lock_vault :: "worker \<Rightarrow> worker_reply \<times> worker" where
  "handle_lock_vault w =
     (Answered No_Data, w\<lparr>wk_ceremonies := [], wk_gate := clear_gate (wk_gate w), wk_vek := None,
        wk_keys := lock_vault (wk_keys w), wk_unlock := None\<rparr>)"

definition handle_check_vault_status :: "worker_env \<Rightarrow> worker \<Rightarrow> worker_reply \<times> worker" where
  "handle_check_vault_status E w = (Answered (Status_Data (is_session_unlocked (en_now E) w)), w)"

definition crypto_error_text :: "crypto_error \<Rightarrow> string" where
  "crypto_error_text e = (case e of Bad_Base64 \<Rightarrow> ''InvalidCharacterError'' | Bad_Key \<Rightarrow> ''DataError''
     | Encryption_Failed \<Rightarrow> ''OperationError'' | Decryption_Failed \<Rightarrow> ''OperationError'')"

definition with_session_key :: "(jstr \<Rightarrow> crypto_error + jstr) \<Rightarrow> worker \<Rightarrow> worker_reply" where
  "with_session_key f w = (let k = sa_key (ka_session (wk_keys w)) in
     if absent k then failed_text ''Vault not unlocked''
     else (case f (the k) of Inl e \<Rightarrow> failed_text (crypto_error_text e) | Inr t \<Rightarrow> Answered (Text_Data t)))"

definition handle_encrypt_data :: "worker_env \<Rightarrow> jstr \<Rightarrow> worker \<Rightarrow> worker_reply \<times> worker" where
  "handle_encrypt_data E payload w = (with_session_key (encrypt_with_key (en_subtle E) (en_iv E) payload) w, w)"

definition handle_decrypt_data :: "worker_env \<Rightarrow> jstr \<Rightarrow> worker \<Rightarrow> worker_reply \<times> worker" where
  "handle_decrypt_data E payload w = (with_session_key (decrypt_with_key (en_subtle E) payload) w, w)"

subsection \<open>Trust and anomalies\<close>

definition worker_pipeline_config :: pipeline_config where
  "worker_pipeline_config = \<lparr>pc_phase_timeout = default_phase_timeout_ms,
     pc_total_timeout = default_total_timeout_ms, pc_evaluate = None\<rparr>"

definition worker_trust_entry :: "int \<Rightarrow> jstr \<Rightarrow> trust_level \<Rightarrow> trust_entry" where
  "worker_trust_entry now domain level = \<lparr>te_domain = domain, te_level = level, te_first_seen = now,
     te_last_seen = now, te_fingerprint = None, te_visits = 1\<rparr>"

definition handle_validate_domain :: "worker_env \<Rightarrow> jstr \<Rightarrow> jstr \<Rightarrow> worker \<Rightarrow> worker_reply \<times> worker" where
  "handle_validate_domain E host expected w =
     (let result = validate_domain (en_timing E) worker_pipeline_config (create_pipeline (en_web E) (en_numbers E))
          (en_elapsed E) host expected;
        level = (if pr_overall_risk result = Domain_High then Trust_Suspicious else Trust_Trusted)
      in case trust_save (en_web E) (en_now E) (worker_trust_entry (en_now E) host level) (wk_trust w) of
           Inl m \<Rightarrow> (failed_text m, w)
         | Inr t \<Rightarrow> (Answered (Validation_Data result),
             w\<lparr>wk_trust := t, wk_validations := (wk_validations w)(host \<mapsto> (result, en_now E))\<rparr>))"

definition handle_get_trust_status :: "worker_env \<Rightarrow> jstr \<Rightarrow> worker \<Rightarrow> worker_reply \<times> worker" where
  "handle_get_trust_status E domain w = (Answered (Trust_Data (trust_find (en_web E) domain (wk_trust w))), w)"

definition max_anomalies :: nat where "max_anomalies = 500"

definition handle_report_anomaly ::
  "worker_env \<Rightarrow> jstr \<Rightarrow> jstr \<Rightarrow> jstr \<Rightarrow> jstr \<Rightarrow> worker \<Rightarrow> worker_reply \<times> worker" where
  "handle_report_anomaly E domain kind severity details w =
     (let all = wk_anomalies w @ [\<lparr>an_domain = domain, an_type = kind, an_severity = severity, an_details = details,
          an_timestamp = en_now E\<rparr>];
        w1 = w\<lparr>wk_anomalies := drop (length all - max_anomalies) all\<rparr>
      in if severity \<noteq> lit ''high'' then (Answered No_Data, w1)
         else (case trust_save (en_web E) (en_now E) (worker_trust_entry (en_now E) domain Trust_Suspicious) (wk_trust w1) of
             Inl m \<Rightarrow> (failed_text m, w1)
           | Inr t \<Rightarrow> (Answered No_Data, w1\<lparr>wk_trust := t\<rparr>)))"

subsection \<open>Plus and Core\<close>

definition default_core_base_url :: string where "default_core_base_url = ''http://localhost:3010''"
definition default_plus_base_url :: string where "default_plus_base_url = ''http://localhost:3003''"

definition or_empty :: "jstr option \<Rightarrow> jstr" where
  "or_empty v = (case v of None \<Rightarrow> [] | Some s \<Rightarrow> s)"

definition plus_headers :: "jstr \<Rightarrow> jstr \<Rightarrow> (string \<times> jstr) list" where
  "plus_headers secret tok = [(''Content-Type'', lit ''application/json''), (''X-Core-Service'', lit ''cybervault-core''),
     (''X-Service-Secret'', secret), (''Authorization'', lit ''Bearer '' @ tok)]"

definition core_headers :: "jstr \<Rightarrow> (string \<times> jstr) list" where
  "core_headers tok = [(''Content-Type'', lit ''application/json''), (''Authorization'', lit ''Bearer '' @ tok)]"

definition plus_post :: "worker \<Rightarrow> string \<Rightarrow> jstr \<Rightarrow> json \<Rightarrow> fetch_request" where
  "plus_post w path tok body = \<lparr>hq_url = or_text (wk_plus_base w) default_plus_base_url @ lit path, hq_post = True,
     hq_headers = plus_headers (or_empty (wk_plus_secret w)) tok, hq_body = Some body\<rparr>"

definition timed_out_message :: "jstr \<Rightarrow> bool" where
  "timed_out_message m \<longleftrightarrow> includes_text m (lit ''aborted'') \<or> includes_text m (lit ''timeout'')"

definition optional_field :: "string \<Rightarrow> json option \<Rightarrow> (jstr \<times> json) list" where
  "optional_field k v = (case v of None \<Rightarrow> [] | Some j \<Rightarrow> [(lit k, j)])"

record capability_demand =
  cp_resource_id :: jstr
  cp_operation :: jstr
  cp_secret_ref :: jstr
  cp_device_id :: "jstr option"
  cp_assurance :: int
  cp_context :: "json option"

definition capability_body :: "jstr \<Rightarrow> capability_demand \<Rightarrow> json" where
  "capability_body user p = JObj ([(lit ''userId'', JStr user), (lit ''resourceId'', JStr (cp_resource_id p)),
     (lit ''operation'', JStr (cp_operation p)), (lit ''secretRef'', JStr (cp_secret_ref p))]
     @ optional_field ''deviceId'' (map_option JStr (cp_device_id p)) @ [(lit ''assurance'', JNum (cp_assurance p))]
     @ optional_field ''context'' (cp_context p))"

definition http_failure :: "string \<Rightarrow> http_answer \<Rightarrow> worker_reply" where
  "http_failure party a = Failed (Error_Text (lit party @ dec_int (ha_status a) @ lit '': '' @ ha_text a))"

definition handle_request_managed_capability ::
  "worker_env \<Rightarrow> capability_demand \<Rightarrow> worker \<Rightarrow> worker_reply \<times> worker" where
  "handle_request_managed_capability E p w =
     (if absent (wk_token w) \<or> absent (wk_user_id w) then (failed_text ''Not authenticated'', w)
      else let failure = (\<lambda>m. if timed_out_message m then failed_text ''Plus API timeout''
            else Failed (Error_Text (lit ''Plus API error: '' @ m)))
        in (case en_fetch E (plus_post w ''/api/v1/capabilities/request'' (the (wk_token w))
                 (capability_body (the (wk_user_id w)) p)) of
              Fetch_Failed m \<Rightarrow> failure m
            | Fetched a \<Rightarrow>
                if \<not> ha_ok a then http_failure ''Plus API '' a
                else (case ha_json a of Inl m \<Rightarrow> failure m | Inr j \<Rightarrow> Answered (Json_Data j)), w))"

definition handle_get_plus_public_key :: "worker_env \<Rightarrow> worker \<Rightarrow> worker_reply \<times> worker" where
  "handle_get_plus_public_key E w =
     (let failure = (\<lambda>m. Failed (Error_Text (lit ''Plus public key error: '' @ m)))
      in (case en_fetch E \<lparr>hq_url = or_text (wk_plus_base w) default_plus_base_url @ lit ''/api/v1/crypto/public-key'',
               hq_post = False, hq_headers = [(''X-Service-Secret'', or_empty (wk_plus_secret w))], hq_body = None\<rparr> of
            Fetch_Failed m \<Rightarrow> failure m
          | Fetched a \<Rightarrow>
              if \<not> ha_ok a then http_failure ''Plus API '' a
              else (case ha_json a of Inl m \<Rightarrow> failure m | Inr j \<Rightarrow> Answered (Json_Data j)), w))"

text \<open>A body whose properties are read: reading one of null throws.\<close>

definition object_of :: "worker_env \<Rightarrow> http_answer \<Rightarrow> jstr + json" where
  "object_of E a = (case ha_json a of Inl m \<Rightarrow> Inl m | Inr j \<Rightarrow> if j = JNull then Inl (en_null_error E) else Inr j)"

definition truthy_property :: "json \<Rightarrow> string \<Rightarrow> bool" where
  "truthy_property j k \<longleftrightarrow> (case property_of j k of None \<Rightarrow> False | Some v \<Rightarrow> \<not> falsy_json v)"

definition text_or :: "json \<Rightarrow> string \<Rightarrow> string \<Rightarrow> jstr" where
  "text_or j k d = (case string_property j k of None \<Rightarrow> lit d | Some s \<Rightarrow> s)"

datatype managed_fetch =
    Released_Share jstr
  | Release_Unlocked
  | Release_Http int jstr
  | Release_Network jstr
  | Release_Denied jstr

text \<open>\<^verbatim>\<open>fetchManagedRelease\<close>; Inl is an exception that leaves it.\<close>

definition fetch_managed_release :: "worker_env \<Rightarrow> worker \<Rightarrow> jstr \<Rightarrow> jstr \<Rightarrow> json \<Rightarrow> jstr + managed_fetch" where
  "fetch_managed_release E w tok credential_id capability =
     (let vault = (case wk_unlock w of None \<Rightarrow> [] | Some u \<Rightarrow> us_vault_id u) in
      if vault = [] then Inr Release_Unlocked
      else (case en_encode E vault of
          Inl m \<Rightarrow> Inr (Release_Network m)
        | Inr v \<Rightarrow>
            (case en_fetch E \<lparr>hq_url = or_text (wk_core_base w) default_core_base_url @ lit ''/api/v1/vaults/'' @ v
                   @ lit ''/managed-release'', hq_post = True, hq_headers = core_headers tok,
                 hq_body = Some (JObj [(lit ''capabilityToken'', capability), (lit ''credentialId'', JStr credential_id)])\<rparr> of
               Fetch_Failed m \<Rightarrow> Inr (Release_Network m)
             | Fetched a \<Rightarrow>
                 if \<not> ha_ok a then Inr (Release_Http (ha_status a) (ha_text a))
                 else (case object_of E a of
                     Inl m \<Rightarrow> Inl m
                   | Inr b \<Rightarrow>
                       if property_of b ''success'' = Some (JBool False) \<or> absent (string_property b ''releaseShare'')
                       then Inr (Release_Denied (text_or b ''error'' ''release share denied''))
                       else Inr (Released_Share (the (string_property b ''releaseShare'')))))))"

definition handle_request_release_share :: "worker_env \<Rightarrow> jstr \<Rightarrow> json \<Rightarrow> worker \<Rightarrow> worker_reply \<times> worker" where
  "handle_request_release_share E credential_id capability w =
     (if absent (wk_token w) then (failed_text ''Not authenticated'', w)
      else (case fetch_managed_release E w (the (wk_token w)) credential_id capability of
          Inl m \<Rightarrow> Failed (Error_Text m)
        | Inr (Released_Share s) \<Rightarrow> Answered (Share_Data s)
        | Inr (Release_Http n t) \<Rightarrow> Failed (Error_Text (lit ''Core API '' @ dec_int n @ lit '': '' @ t))
        | Inr (Release_Network m) \<Rightarrow> if timed_out_message m then failed_text ''Core API timeout''
            else Failed (Error_Text (lit ''Core API error: '' @ m))
        | Inr Release_Unlocked \<Rightarrow> failed_text ''vault not unlocked''
        | Inr (Release_Denied d) \<Rightarrow> Failed (Error_Text d), w))"

datatype plus_material = Plus_Token json | Plus_Detail jstr | Plus_Challenge

text \<open>\<^verbatim>\<open>fetchPlusMaterial\<close>; Inl is an exception that leaves it.\<close>

definition fetch_plus_material :: "worker_env \<Rightarrow> worker \<Rightarrow> jstr \<Rightarrow> jstr \<Rightarrow> jstr \<Rightarrow> string \<Rightarrow> jstr + plus_material" where
  "fetch_plus_material E w tok user secret_ref operation =
     (case en_fetch E (plus_post w ''/api/v1/capabilities/request'' tok
          (JObj [(lit ''userId'', JStr user), (lit ''resourceId'', JStr secret_ref), (lit ''operation'', JStr (lit operation)),
             (lit ''secretRef'', JStr secret_ref), (lit ''assurance'', JNum 2),
             (lit ''context'', JObj [(lit ''userAgent'', JStr (lit ''cybervault-extension'')), (lit ''timestamp'', JNum (en_now E))])])) of
        Fetch_Failed m \<Rightarrow> Inl m
      | Fetched a \<Rightarrow>
          if \<not> ha_ok a then Inr (Plus_Detail (lit ''capability request failed ('' @ dec_int (ha_status a) @ lit '')''))
          else (case object_of E a of
              Inl m \<Rightarrow> Inl m
            | Inr cap \<Rightarrow>
                if truthy_property cap ''challengeRequired'' then Inr Plus_Challenge
                else if property_of cap ''success'' = Some (JBool False)
                then Inr (Plus_Detail (text_or cap ''error'' ''capability denied''))
                else (case property_of cap ''capabilityToken'' of
                    None \<Rightarrow> Inr (Plus_Detail (lit ''capability token missing''))
                  | Some t \<Rightarrow>
                      if falsy_json t \<or> string_property t ''signature'' = None \<or> string_property t ''protectedHeader'' = None
                      then Inr (Plus_Detail (lit ''capability token missing'')) else Inr (Plus_Token t))))"

text \<open>\<^verbatim>\<open>requestCapability\<close> of \<^verbatim>\<open>buildReleaseDeps\<close>, which never rejects.\<close>

definition request_capability_of :: "worker_env \<Rightarrow> worker \<Rightarrow> capability_request \<Rightarrow> capability_reply" where
  "request_capability_of E w rq =
     (if absent (wk_token w) \<or> absent (wk_user_id w) then Capability_Refused (lit ''not authenticated'')
      else (case fetch_plus_material E w (the (wk_token w)) (the (wk_user_id w)) (cq_secret_ref rq) (cq_operation rq) of
          Inl m \<Rightarrow> Capability_Refused m
        | Inr (Plus_Detail d) \<Rightarrow> Capability_Refused d
        | Inr Plus_Challenge \<Rightarrow> Capability_Challenge
        | Inr (Plus_Token t) \<Rightarrow>
            (case fetch_managed_release E w (the (wk_token w)) (cq_credential_id rq) t of
               Inl m \<Rightarrow> Capability_Refused m
             | Inr (Released_Share s) \<Rightarrow> Capability_Granted s
             | Inr (Release_Http n _) \<Rightarrow> Capability_Refused (lit ''managed release failed ('' @ dec_int n @ lit '')'')
             | Inr (Release_Network m) \<Rightarrow> Capability_Refused m
             | Inr (Release_Denied d) \<Rightarrow> Capability_Refused d
             | Inr Release_Unlocked \<Rightarrow> Capability_Refused (lit ''vault not unlocked''))))"

end
