(* ===== verification/Service_Worker.thy ===== *)
theory Service_Worker
  imports Worker_Session Authored_Release Step_Up_Api
begin

text \<open>
  The rest of src/src/background/auditor.ts: the release and the authoring of
  credentials over the worker's stores, the step-up messages, the message router and
  the lifecycle.  One step answers one message; eviction is a step of its own.
\<close>

subsection \<open>Messages\<close>

record release_message =
  rm_credential_id :: jstr
  rm_origin :: jstr
  rm_operation :: step_up_operation
  rm_document_origin :: jstr
  rm_top_level_origin :: jstr
  rm_is_framed :: bool

record author_message =
  am_origin :: "jstr option"
  am_username :: "jstr option"
  am_password :: "jstr option"
  am_title :: "jstr option"
  am_totp_seed :: "jstr option"

datatype worker_message =
    Validate_Domain jstr jstr
  | Get_Trust_Status jstr
  | Report_Anomaly jstr jstr jstr jstr
  | Unlock_Vault jstr "jstr option"
  | Lock_Vault
  | Check_Vault_Status
  | Encrypt_Data jstr
  | Decrypt_Data jstr
  | Request_Managed_Capability capability_demand
  | Request_Release_Share jstr json
  | Get_Plus_Public_Key
  | List_Credentials jstr
  | Author_Credential author_message
  | Release_Credential release_message
  | Start_Step_Up "jstr option" "jstr option" "step_up_operation option"
  | Approve_Step_Up jstr "json option"
  | Get_Pending_Step_Up
  | Unknown_Message jstr

subsection \<open>Release and authoring\<close>

definition release_deps_of :: "worker_env \<Rightarrow> worker \<Rightarrow> bytes option \<Rightarrow> release_deps" where
  "release_deps_of E w vek = \<lparr>get_vek = vek,
     get_index = Some (case wk_index w of None \<Rightarrow> empty_index | Some ix \<Rightarrow> ix),
     get_record = (\<lambda>i. Some (wk_records w i)),
     request_capability = (\<lambda>rq. Some (request_capability_of E w rq))\<rparr>"

definition handle_list_credentials :: "worker_env \<Rightarrow> jstr \<Rightarrow> worker \<Rightarrow> worker_reply \<times> worker" where
  "handle_list_credentials E orig w = (case read_session_vek (en_now E) w of (vek, w1) \<Rightarrow>
     (Answered (Candidates_Data (list_candidates_for_origin (en_web E) (en_subtle E) orig (release_deps_of E w1 vek))), w1))"

definition author_input_of :: "author_message \<Rightarrow> author_credential_input" where
  "author_input_of m = \<lparr>ai_origin = Some (or_empty (am_origin m)), ai_username = Some (or_empty (am_username m)),
     ai_password = or_empty (am_password m), ai_title = Some (or_empty (am_title m)),
     ai_totp_seed_base32 = am_totp_seed m, ai_mode = None, ai_release_share_ref = None, ai_id = None\<rparr>"

definition handle_author_credential :: "worker_env \<Rightarrow> author_message \<Rightarrow> worker \<Rightarrow> worker_reply \<times> worker" where
  "handle_author_credential E m w = (case read_session_vek (en_now E) w of
     (None, w1) \<Rightarrow> (Failed (Error_Denial VAULT_LOCKED), w1)
   | (Some vek, w1) \<Rightarrow>
       (case fst (author_credential (en_web E) (en_subtle E) (author_input_of m) (Some vek)
            (get_index (release_deps_of E w1 None)) (en_random E)) of
          Inl (reason, _) \<Rightarrow> (Failed (Error_Authoring reason), w1)
        | Inr out \<Rightarrow>
            let rec = au_record out in
            (Answered (Authored_Data (encrypted_record.er_id rec) (er_title rec) (username_hint rec) (ar_origin rec)),
             w1\<lparr>wk_records := (wk_records w1)(encrypted_record.er_id rec \<mapsto> encrypted_record.truncate rec), wk_index := Some (au_index out)\<rparr>)))"

definition binding_of :: "release_message \<Rightarrow> step_up_binding" where
  "binding_of m = \<lparr>sb_credential_id = rm_credential_id m, sb_origin = rm_origin m, sb_operation = rm_operation m\<rparr>"

definition release_request_of :: "release_message \<Rightarrow> release_request" where
  "release_request_of m = \<lparr>rq_credential_id = rm_credential_id m, rq_origin = rm_origin m,
     rq_operation = op_text (rm_operation m), rq_document_origin = rm_document_origin m,
     rq_top_level_origin = rm_top_level_origin m, is_framed = rm_is_framed m\<rparr>"

definition handle_release_credential :: "worker_env \<Rightarrow> release_message \<Rightarrow> worker \<Rightarrow> worker_reply \<times> worker" where
  "handle_release_credential E m w =
     (let b = binding_of m; refusal = Failed (Error_Denial CHALLENGE_REQUIRED); ok = en_gate_writes E in
      if refuses_early b (wk_gate w) then (refusal, w)
      else (case read_session_vek (en_now E) w of (vek, w1) \<Rightarrow>
        (case snd (release_credential (en_web E) (en_subtle E) (release_request_of m) (release_deps_of E w1 vek)) of
           Inr c \<Rightarrow>
             if session_owes_step_up b (wk_gate w1)
             then (refusal, w1\<lparr>wk_gate := remember_challenged ok b (wk_gate w1)\<rparr>)
             else (Answered (Credential_Data c), w1\<lparr>wk_gate := spend_step_up ok b (wk_gate w1)\<rparr>)
         | Inl (code, _) \<Rightarrow> (Failed (Error_Denial code),
             if code = CHALLENGE_REQUIRED then w1\<lparr>wk_gate := remember_challenged ok b (wk_gate w1)\<rparr> else w1))))"

subsection \<open>Step-up\<close>

definition handle_get_pending_step_up :: "worker \<Rightarrow> worker_reply \<times> worker" where
  "handle_get_pending_step_up w = (Answered (Pending_Data (pending_step_ups (wk_gate w))), w)"

definition resolve_managed_release_share_ref :: "worker \<Rightarrow> jstr \<Rightarrow> jstr" where
  "resolve_managed_release_share_ref w i = (case wk_records w i of
     None \<Rightarrow> []
   | Some rec \<Rightarrow> if encrypted_record.er_mode rec \<noteq> Managed then [] else or_empty (release_share_ref rec))"

definition default_challenge_ms :: int where "default_challenge_ms = 120000"

definition expires_at_of :: "int \<Rightarrow> json \<Rightarrow> int" where
  "expires_at_of now body = (case property_of body ''expiresAt'' of Some (JNum n) \<Rightarrow> n | _ \<Rightarrow> now + default_challenge_ms)"

text \<open>Inl is a refusal to return or the message of an exception.\<close>

definition trigger_plus_challenge ::
  "worker_env \<Rightarrow> worker \<Rightarrow> step_up_binding \<Rightarrow> jstr \<Rightarrow> jstr \<Rightarrow> jstr \<Rightarrow> jstr + (jstr \<times> int)" where
  "trigger_plus_challenge E w b secret_ref tok user =
     (case en_fetch E (plus_post w ''/api/v1/challenges/trigger'' tok
          (JObj [(lit ''userId'', JStr user), (lit ''resourceId'', JStr secret_ref),
             (lit ''operation'', JStr (lit (op_text (sb_operation b)))), (lit ''secretRef'', JStr secret_ref),
             (lit ''context'', JObj [(lit ''userAgent'', JStr (lit ''cybervault-extension'')), (lit ''timestamp'', JNum (en_now E))])])) of
        Fetch_Failed m \<Rightarrow> Inl m
      | Fetched a \<Rightarrow>
          if \<not> ha_ok a then Inl (lit ''challenge trigger failed ('' @ dec_int (ha_status a) @ lit '')'')
          else (case object_of E a of
              Inl m \<Rightarrow> Inl m
            | Inr body \<Rightarrow>
                if property_of body ''success'' = Some (JBool False) \<or> absent (string_property body ''challengeId'')
                then Inl (text_or body ''error'' ''challenge refused'')
                else Inr (the (string_property body ''challengeId''), expires_at_of (en_now E) body)))"

definition handle_start_step_up ::
  "worker_env \<Rightarrow> jstr option \<Rightarrow> jstr option \<Rightarrow> step_up_operation option \<Rightarrow> worker \<Rightarrow> worker_reply \<times> worker" where
  "handle_start_step_up E cid orig operation w =
     (let b = \<lparr>sb_credential_id = or_empty cid, sb_origin = or_empty orig,
          sb_operation = (case operation of None \<Rightarrow> Op_Autofill | Some x \<Rightarrow> x)\<rparr>;
        secret_ref = resolve_managed_release_share_ref w (sb_credential_id b) in
      if sb_credential_id b = [] \<or> sb_origin b = [] then (failed_text ''BINDING_MISSING'', w)
      else if secret_ref = [] then (failed_text ''BINDING_NOT_MANAGED'', w)
      else if absent (wk_token w) \<or> absent (wk_user_id w) then (failed_text ''not authenticated'', w)
      else (case trigger_plus_challenge E w b secret_ref (the (wk_token w)) (the (wk_user_id w)) of
          Inl m \<Rightarrow> (Failed (Error_Text m), w)
        | Inr (i, t) \<Rightarrow> (Answered (Challenge_Data i t b),
            w\<lparr>wk_ceremonies := put i (b, t) (wk_ceremonies w),
              wk_pilot := record_prompt_visible (en_clock E) i (op_text (sb_operation b)) (sb_origin b)
                (the (wk_user_id w)) False None None (wk_pilot w)\<rparr>)))"

text \<open>\<^verbatim>\<open>requestCoreStepUpApproval\<close>: Inl is the error to answer, or the message of an exception.\<close>

definition request_core_approval :: "worker_env \<Rightarrow> worker \<Rightarrow> jstr \<Rightarrow> jstr \<Rightarrow> json \<Rightarrow> step_up_binding \<Rightarrow> jstr + json" where
  "request_core_approval E w tok i proof b =
     (case en_fetch E \<lparr>hq_url = or_text (wk_core_base w) default_core_base_url @ lit ''/api/v1/step-up/approve'', hq_post = True,
          hq_headers = core_headers tok,
          hq_body = Some (JObj [(lit ''challengeId'', JStr i), (lit ''credentialId'', JStr (sb_credential_id b)),
            (lit ''operation'', JStr (lit (op_text (sb_operation b)))), (lit ''proof'', proof)])\<rparr> of
        Fetch_Failed m \<Rightarrow> Inl m
      | Fetched a \<Rightarrow>
          if \<not> ha_ok a then Inl (lit ''the release could not be approved'')
          else (case object_of E a of
              Inl m \<Rightarrow> Inl m
            | Inr body \<Rightarrow> (case property_of body ''approval'' of
                None \<Rightarrow> Inl (lit ''the release could not be approved'')
              | Some v \<Rightarrow> if falsy_json v then Inl (lit ''the release could not be approved'') else Inr v)))"

text \<open>Whether Plus issued a capability for the approval; Inl is the message of an exception.\<close>

definition plus_accepts_approval :: "worker_env \<Rightarrow> worker \<Rightarrow> jstr \<Rightarrow> jstr \<Rightarrow> json \<Rightarrow> jstr + bool" where
  "plus_accepts_approval E w tok i approval =
     (case en_fetch E (plus_post w ''/api/v1/challenges/approve'' tok
          (JObj [(lit ''challengeId'', JStr i), (lit ''approval'', approval)])) of
        Fetch_Failed m \<Rightarrow> Inl m
      | Fetched a \<Rightarrow>
          if \<not> ha_ok a then Inr False
          else (case object_of E a of
              Inl m \<Rightarrow> Inl m
            | Inr body \<Rightarrow> Inr (property_of body ''success'' = Some (JBool True) \<or> property_of body ''capabilityToken'' \<noteq> None)))"

definition completed_session :: "jstr \<Rightarrow> step_up_binding \<Rightarrow> int \<Rightarrow> step_up_session" where
  "completed_session i b t = \<lparr>ss_challenge_id = i, ss_binding = b, ss_expires_at = t, ss_attempts_remaining = 0, ss_completed = True\<rparr>"

definition finish_approval :: "worker_env \<Rightarrow> jstr \<Rightarrow> step_up_binding \<Rightarrow> int \<Rightarrow> worker \<Rightarrow> worker_reply \<times> worker" where
  "finish_approval E i b t w =
     (Answered Verified_Data, w\<lparr>wk_ceremonies := without i (wk_ceremonies w),
        wk_gate := remember_completed (en_gate_writes E) (completed_session i b t) (wk_gate w),
        wk_pilot := snd (advance_trial (record_approve_sent (en_clock E) (wk_pilot w)))\<rparr>)"

definition handle_approve_step_up :: "worker_env \<Rightarrow> jstr \<Rightarrow> json option \<Rightarrow> worker \<Rightarrow> worker_reply \<times> worker" where
  "handle_approve_step_up E i proof w =
     (let refused = failed_text ''the approval was not accepted'' in
      if \<not> is_object proof then (refused, w)
      else (case map_of (wk_ceremonies w) i of
          None \<Rightarrow> (refused, w)
        | Some (b, t) \<Rightarrow>
            if en_now E \<ge> t then (refused, w\<lparr>wk_ceremonies := without i (wk_ceremonies w)\<rparr>)
            else if absent (wk_token w) then (failed_text ''not authenticated'', w)
            else (case request_core_approval E w (the (wk_token w)) i (the proof) b of
                Inl m \<Rightarrow> (Failed (Error_Text m), w)
              | Inr approval \<Rightarrow> (case plus_accepts_approval E w (the (wk_token w)) i approval of
                  Inl m \<Rightarrow> (Failed (Error_Text m), w)
                | Inr accepted \<Rightarrow> if accepted then finish_approval E i b t w else (refused, w)))))"

subsection \<open>The router\<close>

definition handle_message :: "worker_env \<Rightarrow> worker_message \<Rightarrow> worker \<Rightarrow> worker_reply \<times> worker" where
  "handle_message E msg w = (case msg of
     Validate_Domain h e \<Rightarrow> handle_validate_domain E h e w
   | Get_Trust_Status d \<Rightarrow> handle_get_trust_status E d w
   | Report_Anomaly d k s t \<Rightarrow> handle_report_anomaly E d k s t w
   | Unlock_Vault v p \<Rightarrow> handle_unlock_vault E v p w
   | Lock_Vault \<Rightarrow> handle_lock_vault w
   | Check_Vault_Status \<Rightarrow> handle_check_vault_status E w
   | Encrypt_Data s \<Rightarrow> handle_encrypt_data E s w
   | Decrypt_Data s \<Rightarrow> handle_decrypt_data E s w
   | Request_Managed_Capability p \<Rightarrow> handle_request_managed_capability E p w
   | Request_Release_Share c t \<Rightarrow> handle_request_release_share E c t w
   | Get_Plus_Public_Key \<Rightarrow> handle_get_plus_public_key E w
   | List_Credentials orig \<Rightarrow> handle_list_credentials E orig w
   | Author_Credential m \<Rightarrow> handle_author_credential E m w
   | Release_Credential m \<Rightarrow> handle_release_credential E m w
   | Start_Step_Up c orig x \<Rightarrow> handle_start_step_up E c orig x w
   | Approve_Step_Up i p \<Rightarrow> handle_approve_step_up E i p w
   | Get_Pending_Step_Up \<Rightarrow> handle_get_pending_step_up w
   | Unknown_Message t \<Rightarrow> (Failed (Error_Text (lit ''Unknown message type: '' @ t)), w))"

definition default_worker_settings :: worker_settings where
  "default_worker_settings = \<lparr>st_auto_validate = True, st_block_high_risk = True, st_show_notifications = True,
     st_session_timeout_minutes = 30\<rparr>"

definition trust_max_age_ms :: int where "trust_max_age_ms = 90 * 24 * 60 * 60 * 1000"

definition handle_installed :: "worker_env \<Rightarrow> string \<Rightarrow> worker \<Rightarrow> worker" where
  "handle_installed E reason w =
     (let w1 = (if reason = ''install'' then w\<lparr>wk_settings := Some default_worker_settings, wk_anomalies := []\<rparr>
          else if reason = ''update'' then w\<lparr>wk_trust := snd (trust_remove_expired (en_now E) trust_max_age_ms (wk_trust w))\<rparr>
          else w)
      in w1\<lparr>wk_pilot := init_pilot (en_pilot_allowed E) (en_pilot_abba E) (en_participants E) (wk_pilot w1)\<rparr>)"

text \<open>
  What happens to a worker: a message, an eviction, an installation, or a page of the
  extension that writes the sign-in and the service addresses into local storage.
\<close>

datatype worker_event =
    Message worker_message
  | Evicted
  | Installed string
  | Configured "jstr option" "jstr option" "jstr option" "jstr option" "jstr option"

definition worker_step :: "worker_env \<Rightarrow> worker_event \<Rightarrow> worker \<Rightarrow> worker_reply option \<times> worker" where
  "worker_step E ev w = (case ev of
     Message msg \<Rightarrow> apfst Some (handle_message E msg w)
   | Evicted \<Rightarrow> (None, evict w)
   | Installed reason \<Rightarrow> (None, handle_installed E reason w)
   | Configured tok user pb secret core \<Rightarrow> (None, w\<lparr>wk_token := tok, wk_user_id := user, wk_plus_base := pb,
       wk_plus_secret := secret, wk_core_base := core\<rparr>))"

end
