(* ===== verification/Worker_History.thy ===== *)
theory Worker_History
  imports Service_Worker
begin

text \<open>
  Histories of the service worker, evictions included: a refusal that asked for a
  step-up stands until an approval for the same release answers it.
\<close>

subsection \<open>Histories\<close>

record worker_entry =
  ye_env :: worker_env
  ye_event :: worker_event
  ye_before :: worker
  ye_reply :: "worker_reply option"

text \<open>When the browser starts, session storage and memory are empty.\<close>

definition fresh_worker :: "worker \<Rightarrow> bool" where
  "fresh_worker w \<longleftrightarrow> wk_ceremonies w = [] \<and> wk_gate w = \<lparr>gt_challenged = [], gt_completed = [], gt_stored = None\<rparr>"

text \<open>The last entry is the first of the list; writes of the gate succeed.\<close>

inductive worker_history :: "worker_entry list \<Rightarrow> worker \<Rightarrow> bool" where
  start: "fresh_worker w \<Longrightarrow> worker_history [] w"
| step: "worker_history h w \<Longrightarrow> en_gate_writes E \<Longrightarrow> worker_step E ev w = (r, w')
     \<Longrightarrow> worker_history (\<lparr>ye_env = E, ye_event = ev, ye_before = w, ye_reply = r\<rparr> # h) w'"

text \<open>A step that reads the vault key drops the key material, and the gate, of a lapsed session.\<close>

definition reads_vek :: "worker_event \<Rightarrow> worker \<Rightarrow> bool" where
  "reads_vek ev w = (case ev of
     Message (List_Credentials _) \<Rightarrow> True
   | Message (Author_Credential _) \<Rightarrow> True
   | Message (Release_Credential m) \<Rightarrow> \<not> refuses_early (binding_of m) (wk_gate w)
   | _ \<Rightarrow> False)"

definition ends_session :: "worker_entry \<Rightarrow> bool" where
  "ends_session e \<longleftrightarrow> ye_event e = Message Lock_Vault
     \<or> reads_vek (ye_event e) (ye_before e) \<and> \<not> is_session_unlocked (en_now (ye_env e)) (ye_before e)"

definition releases :: "step_up_binding \<Rightarrow> worker_entry \<Rightarrow> bool" where
  "releases b e \<longleftrightarrow> (\<exists>m c. ye_event e = Message (Release_Credential m) \<and> binding_of m = b
     \<and> ye_reply e = Some (Answered (Credential_Data c)))"

definition asks_step_up :: "step_up_binding \<Rightarrow> worker_entry \<Rightarrow> bool" where
  "asks_step_up b e \<longleftrightarrow> (\<exists>m. ye_event e = Message (Release_Credential m) \<and> binding_of m = b
     \<and> ye_reply e = Some (Failed (Error_Denial CHALLENGE_REQUIRED)))"

text \<open>Core has signed the approval of the challenge started for the binding, and Plus has accepted it.\<close>

definition approves :: "step_up_binding \<Rightarrow> worker_entry \<Rightarrow> bool" where
  "approves b e \<longleftrightarrow> (\<exists>i proof t approval. ye_event e = Message (Approve_Step_Up i proof)
     \<and> map_of (wk_ceremonies (ye_before e)) i = Some (b, t) \<and> en_now (ye_env e) < t
     \<and> request_core_approval (ye_env e) (ye_before e) (the (wk_token (ye_before e))) i (the proof) b = Inr approval
     \<and> plus_accepts_approval (ye_env e) (ye_before e) (the (wk_token (ye_before e))) i approval = Inr True)"

text \<open>Whether something happened since the last end of a session and the last release of the binding.\<close>

fun since_release :: "(worker_entry \<Rightarrow> bool) \<Rightarrow> step_up_binding \<Rightarrow> worker_entry list \<Rightarrow> bool" where
  "since_release P b [] = False"
| "since_release P b (e # h) = (\<not> ends_session e \<and> \<not> releases b e \<and> (P e \<or> since_release P b h))"

subsection \<open>What a step does to the gate\<close>

datatype gate_change =
    Kept
  | Cleared
  | Evicting
  | Challenged step_up_binding
  | Spent step_up_binding
  | Approved jstr step_up_binding int

fun apply_change :: "gate_change \<Rightarrow> gate_state \<Rightarrow> gate_state" where
  "apply_change Kept g = g"
| "apply_change Cleared g = clear_gate g"
| "apply_change Evicting g = evict_gate g"
| "apply_change (Challenged b) g = remember_challenged True b g"
| "apply_change (Spent b) g = spend_step_up True b g"
| "apply_change (Approved i b t) g = remember_completed True (completed_session i b t) g"

text \<open>What the gate says of each change.\<close>

definition explains :: "gate_change \<Rightarrow> worker_entry \<Rightarrow> bool" where
  "explains c e \<longleftrightarrow> (case c of
     Kept \<Rightarrow> \<not> ends_session e \<and> (\<forall>b. \<not> releases b e) \<and> (\<forall>b. asks_step_up b e \<longrightarrow> refuses_early b (wk_gate (ye_before e)))
   | Cleared \<Rightarrow> ends_session e \<and> (\<forall>b. \<not> releases b e)
   | Evicting \<Rightarrow> \<not> ends_session e \<and> (\<forall>b. \<not> releases b e \<and> \<not> asks_step_up b e)
   | Challenged b \<Rightarrow> \<not> ends_session e \<and> (\<forall>b. \<not> releases b e) \<and> (\<forall>b'. asks_step_up b' e \<longrightarrow> b' = b)
   | Spent b \<Rightarrow> \<not> ends_session e \<and> releases b e \<and> (\<forall>b'. releases b' e \<longrightarrow> b' = b)
       \<and> \<not> refuses_early b (wk_gate (ye_before e)) \<and> \<not> session_owes_step_up b (wk_gate (ye_before e))
       \<and> (\<forall>b'. \<not> asks_step_up b' e)
   | Approved i b t \<Rightarrow> \<not> ends_session e \<and> approves b e \<and> (\<forall>b'. \<not> releases b' e \<and> \<not> asks_step_up b' e))"

lemmas entry_defs = explains_def ends_session_def releases_def asks_step_up_def reads_vek_def

lemma worker_gate_only [simp]:
  "wk_gate (expire_session_key_material w) = clear_gate (wk_gate w)"
  by (simp add: expire_session_key_material_def)

lemma read_session_vek_gate:
  "read_session_vek now w = (vek, w1) \<Longrightarrow>
     (if is_session_unlocked now w then w1 = w else vek = None \<and> wk_gate w1 = clear_gate (wk_gate w))"
  by (auto simp: read_session_vek_def split: if_splits option.splits)

lemma handle_release_change:
  assumes "worker_step E (Message (Release_Credential m)) w = (r, w')" "en_gate_writes E"
  shows "\<exists>c. wk_gate w' = apply_change c (wk_gate w)
    \<and> explains c \<lparr>ye_env = E, ye_event = Message (Release_Credential m), ye_before = w, ye_reply = r\<rparr>"
proof (cases "refuses_early (binding_of m) (wk_gate w)")
  case True
  then have "w' = w" "r = Some (Failed (Error_Denial CHALLENGE_REQUIRED))"
    using assms(1) by (auto simp: worker_step_def handle_message_def handle_release_credential_def Let_def)
  then show ?thesis using True by (intro exI [of _ Kept]) (auto simp: entry_defs)
next
  case early: False
  obtain vek w1 where v: "read_session_vek (en_now E) w = (vek, w1)" by fastforce
  note g = read_session_vek_gate [OF v]
  obtain out where out: "out = snd (release_credential (en_web E) (en_subtle E) (release_request_of m) (release_deps_of E w1 vek))" by blast
  show ?thesis
  proof (cases "is_session_unlocked (en_now E) w")
    case False
    then have "out = Inl (VAULT_LOCKED, lit ''vault is locked'')" using g by (simp add: out release_credential_def release_deps_of_def)
    then have "r = Some (Failed (Error_Denial VAULT_LOCKED))" "w' = w1"
      using assms(1) early v by (auto simp: worker_step_def handle_message_def handle_release_credential_def Let_def out)
    then show ?thesis using g False early by (intro exI [of _ Cleared]) (auto simp: entry_defs)
  next
    case True
    then have w1: "w1 = w" using g by simp
    have s: "(r, w') = apfst Some (case out of
        Inr c \<Rightarrow> if session_owes_step_up (binding_of m) (wk_gate w)
          then (Failed (Error_Denial CHALLENGE_REQUIRED), w\<lparr>wk_gate := remember_challenged True (binding_of m) (wk_gate w)\<rparr>)
          else (Answered (Credential_Data c), w\<lparr>wk_gate := spend_step_up True (binding_of m) (wk_gate w)\<rparr>)
      | Inl (code, _) \<Rightarrow> (Failed (Error_Denial code),
          if code = CHALLENGE_REQUIRED then w\<lparr>wk_gate := remember_challenged True (binding_of m) (wk_gate w)\<rparr> else w))"
      using assms early v unfolding w1 out by (simp add: worker_step_def handle_message_def handle_release_credential_def Let_def)
    show ?thesis
    proof (cases out)
      case (Inl x)
      show ?thesis
      proof (cases "fst x = CHALLENGE_REQUIRED")
        case c: True
        show ?thesis using s Inl True early c
          by (intro exI [of _ "Challenged (binding_of m)"]) (auto simp: entry_defs split: prod.splits)
      next
        case c: False
        show ?thesis using s Inl True early c by (intro exI [of _ Kept]) (auto simp: entry_defs split: prod.splits)
      qed
    next
      case (Inr c)
      show ?thesis
      proof (cases "session_owes_step_up (binding_of m) (wk_gate w)")
        case owes: True
        show ?thesis using s Inr True early owes by (intro exI [of _ "Challenged (binding_of m)"]) (auto simp: entry_defs)
      next
        case owes: False
        show ?thesis using s Inr True early owes by (intro exI [of _ "Spent (binding_of m)"]) (auto simp: entry_defs)
      qed
    qed
  qed
qed

lemma handle_approve_change:
  assumes "worker_step E (Message (Approve_Step_Up i proof)) w = (r, w')" "en_gate_writes E"
  shows "\<exists>c. wk_gate w' = apply_change c (wk_gate w)
    \<and> explains c \<lparr>ye_env = E, ye_event = Message (Approve_Step_Up i proof), ye_before = w, ye_reply = r\<rparr>"
proof (cases "\<exists>b t approval. map_of (wk_ceremonies w) i = Some (b, t) \<and> en_now E < t
    \<and> request_core_approval E w (the (wk_token w)) i (the proof) b = Inr approval
    \<and> plus_accepts_approval E w (the (wk_token w)) i approval = Inr True \<and> is_object proof \<and> \<not> absent (wk_token w)")
  case True
  then obtain b t approval where a: "map_of (wk_ceremonies w) i = Some (b, t)" "en_now E < t"
    "request_core_approval E w (the (wk_token w)) i (the proof) b = Inr approval"
    "plus_accepts_approval E w (the (wk_token w)) i approval = Inr True" "is_object proof" "\<not> absent (wk_token w)" by blast
  then show ?thesis using assms
    by (intro exI [of _ "Approved i b t"])
      (auto simp: worker_step_def handle_message_def handle_approve_step_up_def Let_def finish_approval_def entry_defs approves_def)
next
  case False
  then have "wk_gate w' = wk_gate w" using assms(1)
    by (auto simp: worker_step_def handle_message_def handle_approve_step_up_def Let_def split: option.splits sum.splits if_splits prod.splits)
  then show ?thesis by (intro exI [of _ Kept]) (auto simp: entry_defs)
qed

lemma handle_list_change:
  assumes "worker_step E (Message (List_Credentials orig)) w = (r, w')"
  shows "\<exists>c. wk_gate w' = apply_change c (wk_gate w)
    \<and> explains c \<lparr>ye_env = E, ye_event = Message (List_Credentials orig), ye_before = w, ye_reply = r\<rparr>"
proof -
  obtain vek w1 where v: "read_session_vek (en_now E) w = (vek, w1)" by fastforce
  then have "w' = w1" using assms by (auto simp: worker_step_def handle_message_def handle_list_credentials_def)
  then show ?thesis using read_session_vek_gate [OF v]
    by (cases "is_session_unlocked (en_now E) w") (rule exI [of _ Kept], auto simp: entry_defs, rule exI [of _ Cleared], auto simp: entry_defs)
qed

lemma handle_author_change:
  assumes "worker_step E (Message (Author_Credential m)) w = (r, w')"
  shows "\<exists>c. wk_gate w' = apply_change c (wk_gate w)
    \<and> explains c \<lparr>ye_env = E, ye_event = Message (Author_Credential m), ye_before = w, ye_reply = r\<rparr>"
proof -
  obtain vek w1 where v: "read_session_vek (en_now E) w = (vek, w1)" by fastforce
  then have "wk_gate w' = wk_gate w1" using assms
    by (auto simp: worker_step_def handle_message_def handle_author_credential_def Let_def split: option.splits sum.splits)
  then show ?thesis using read_session_vek_gate [OF v]
    by (cases "is_session_unlocked (en_now E) w") (rule exI [of _ Kept], auto simp: entry_defs, rule exI [of _ Cleared], auto simp: entry_defs)
qed

lemma unlock_keeps_gate_snd: "wk_gate (snd (handle_unlock_vault E v p w)) = wk_gate w"
  by (auto simp: handle_unlock_vault_def finish_unlock_def Let_def split: prod.splits)

lemma unlock_keeps_gate: "apfst f (handle_unlock_vault E v p w) = (r, w') \<Longrightarrow> wk_gate w' = wk_gate w"
  using unlock_keeps_gate_snd [of E v p w] by (metis snd_apfst snd_conv)

lemma message_keeps_gate:
  assumes "worker_step E (Message msg) w = (r, w')"
    and "case msg of Release_Credential _ \<Rightarrow> False | Approve_Step_Up _ _ \<Rightarrow> False | List_Credentials _ \<Rightarrow> False
      | Author_Credential _ \<Rightarrow> False | Lock_Vault \<Rightarrow> False | _ \<Rightarrow> True"
  shows "wk_gate w' = wk_gate w"
  using assms
  by (cases msg) (auto dest: unlock_keeps_gate simp: worker_step_def handle_message_def handle_validate_domain_def handle_get_trust_status_def
      handle_report_anomaly_def handle_check_vault_status_def handle_encrypt_data_def handle_decrypt_data_def
      handle_request_managed_capability_def handle_request_release_share_def handle_get_plus_public_key_def
      handle_start_step_up_def handle_get_pending_step_up_def Let_def split: sum.splits if_splits)

text \<open>Every step is one change of the gate, which its entry explains.\<close>

lemma gate_changes:
  assumes "worker_step E ev w = (r, w')" "en_gate_writes E"
  shows "\<exists>c. wk_gate w' = apply_change c (wk_gate w) \<and> explains c \<lparr>ye_env = E, ye_event = ev, ye_before = w, ye_reply = r\<rparr>"
proof (cases ev)
  case (Message msg)
  show ?thesis
  proof (cases "case msg of Release_Credential _ \<Rightarrow> False | Approve_Step_Up _ _ \<Rightarrow> False | List_Credentials _ \<Rightarrow> False
      | Author_Credential _ \<Rightarrow> False | Lock_Vault \<Rightarrow> False | _ \<Rightarrow> True")
    case True
    then show ?thesis using message_keeps_gate [OF assms(1) [unfolded Message] True]
      by (intro exI [of _ Kept]) (cases msg; auto simp: Message entry_defs)
  next
    case False
    then show ?thesis using assms unfolding Message
      by (cases msg) (simp_all add: handle_release_change handle_approve_change handle_list_change handle_author_change,
        intro exI [of _ Cleared], auto simp: entry_defs worker_step_def handle_message_def handle_lock_vault_def)
  qed
next
  case Evicted
  then show ?thesis using assms(1) by (intro exI [of _ Evicting]) (auto simp: entry_defs worker_step_def evict_def)
next
  case (Installed reason)
  then show ?thesis using assms(1) by (intro exI [of _ Kept]) (auto simp: entry_defs worker_step_def handle_installed_def Let_def)
next
  case Configured
  then show ?thesis using assms(1) by (intro exI [of _ Kept]) (auto simp: entry_defs worker_step_def)
qed

subsection \<open>The gate keeps what histories owe\<close>

text \<open>
  A refusal that stands is in session storage; whatever counts as completed was
  approved; what memory holds as challenged is stored too.
\<close>

definition gate_inv :: "worker_entry list \<Rightarrow> gate_state \<Rightarrow> bool" where
  "gate_inv h g \<longleftrightarrow> (\<forall>b.
     (since_release (asks_step_up b) b h \<longrightarrow> map_of (sg_challenged (read_persisted_gate g)) (binding_key b) \<noteq> None)
   \<and> (map_of (gt_challenged g) (binding_key b) \<noteq> None \<longrightarrow> map_of (sg_challenged (read_persisted_gate g)) (binding_key b) \<noteq> None)
   \<and> (map_of (gt_completed g) (binding_key b) \<noteq> None \<or> map_of (sg_completed (read_persisted_gate g)) (binding_key b) \<noteq> None
        \<longrightarrow> since_release (approves b) b h))"

lemma map_of_without [simp]: "map_of (without k xs) i = (if i = k then None else map_of xs i)"
  by (induction xs) (auto simp: without_def)

lemmas change_defs = remember_challenged_def remember_completed_def spend_step_up_def persist_gate_change_def
  clear_gate_def evict_gate_def read_persisted_gate_def empty_gate_def completed_session_def Let_def

lemma gate_inv_step:
  assumes "gate_inv h (wk_gate (ye_before e))" "explains c e"
  shows "gate_inv (e # h) (apply_change c (wk_gate (ye_before e)))"
proof (cases c)
  case Kept
  then show ?thesis using assms by (auto simp: gate_inv_def explains_def refuses_early_def)
next
  case Cleared
  then show ?thesis using assms by (auto simp: gate_inv_def explains_def change_defs)
next
  case Evicting
  then show ?thesis using assms by (auto simp: gate_inv_def explains_def change_defs)
next
  case (Challenged b)
  then show ?thesis using assms by (auto simp: gate_inv_def explains_def change_defs split: option.splits)
next
  case (Spent b)
  then have e: "\<not> ends_session e" "\<And>b'. releases b' e \<longleftrightarrow> b' = b" "\<And>b'. \<not> asks_step_up b' e"
    using assms(2) by (auto simp: explains_def)
  obtain g where g: "g = wk_gate (ye_before e)" by blast
  have fields: "gt_challenged (spend_step_up True b g) = without (binding_key b) (gt_challenged g)"
    "gt_completed (spend_step_up True b g) = without (binding_key b) (gt_completed g)"
    "sg_challenged (read_persisted_gate (spend_step_up True b g)) = without (binding_key b) (sg_challenged (read_persisted_gate g))"
    "sg_completed (read_persisted_gate (spend_step_up True b g)) = without (binding_key b) (sg_completed (read_persisted_gate g))"
    by (simp_all add: spend_step_up_def persist_gate_change_def Let_def read_persisted_gate_def)
  show ?thesis using assms(1) unfolding Spent apply_change.simps g [symmetric] gate_inv_def fields map_of_without
    by (simp add: e)
next
  case (Approved i b t)
  then show ?thesis using assms by (auto simp: gate_inv_def explains_def change_defs split: option.splits)
qed

lemma history_gate_inv: "worker_history h w \<Longrightarrow> gate_inv h (wk_gate w)"
proof (induction rule: worker_history.induct)
  case (start w)
  then show ?case by (simp add: gate_inv_def fresh_worker_def read_persisted_gate_def empty_gate_def)
next
  case (step h w E ev r w')
  obtain c where c: "wk_gate w' = apply_change c (wk_gate w)" "explains c \<lparr>ye_env = E, ye_event = ev, ye_before = w, ye_reply = r\<rparr>"
    using gate_changes [OF step(3,2)] by blast
  show ?case unfolding c(1) using gate_inv_step [OF _ c(2)] step.IH by simp
qed

lemma released_after_refusal:
  assumes "worker_history h w" "en_gate_writes E"
    and rel: "worker_step E (Message (Release_Credential m)) w = (Some (Answered (Credential_Data c)), w')"
    and owed: "since_release (asks_step_up (binding_of m)) (binding_of m) h"
  shows "since_release (approves (binding_of m)) (binding_of m) h"
proof -
  obtain ch where ch: "explains ch \<lparr>ye_env = E, ye_event = Message (Release_Credential m), ye_before = w,
      ye_reply = Some (Answered (Credential_Data c))\<rparr>" using gate_changes [OF rel assms(2)] by blast
  have "ch = Spent (binding_of m)"
    using ch by (cases ch) (auto simp: explains_def releases_def ends_session_def)
  then have free: "\<not> refuses_early (binding_of m) (wk_gate w)" "\<not> session_owes_step_up (binding_of m) (wk_gate w)"
    using ch by (simp_all add: explains_def)
  have "map_of (sg_challenged (read_persisted_gate (wk_gate w))) (binding_key (binding_of m)) \<noteq> None"
    using history_gate_inv [OF assms(1)] owed by (simp add: gate_inv_def)
  then have "map_of (gt_completed (wk_gate w)) (binding_key (binding_of m)) \<noteq> None
      \<or> map_of (sg_completed (read_persisted_gate (wk_gate w))) (binding_key (binding_of m)) \<noteq> None"
    using free by (auto simp: refuses_early_def session_owes_step_up_def Let_def can_retry_release_def split: if_splits option.splits)
  then show ?thesis using history_gate_inv [OF assms(1)] by (auto simp: gate_inv_def)
qed

subsection \<open>What a released credential has passed\<close>

lemma credential_reply_justified:
  assumes "worker_step E (Message (Release_Credential m)) w = (Some (Answered (Credential_Data c)), w')"
    and "parse_absolute_origin (en_web E) (rm_origin m) = Inr e" and "stable_origin (en_web E) e"
    and "\<And>d. parse_absolute_origin (en_web E) (rm_document_origin m) = Inr d \<Longrightarrow> stable_origin (en_web E) d"
  shows "is_session_unlocked (en_now E) w
    \<and> (\<exists>vek t ix. fst (read_session_vek (en_now E) w) = Some vek \<and> length vek = 32
        \<and> compute_lookup_token (en_web E) (en_subtle E) (rm_origin m) (Some (derive_domain_index_key (en_subtle E) vek)) = Inr t
        \<and> token_origin t = e \<and> ix = (case wk_index w of None \<Rightarrow> empty_index | Some x \<Rightarrow> x)
        \<and> rm_credential_id m \<in> set (lookup_index ix (token t)))
    \<and> parse_absolute_origin (en_web E) (rm_document_origin m) = Inr e
    \<and> (rm_is_framed m \<longrightarrow> parse_absolute_origin (en_web E) (rm_top_level_origin m) = Inr e)"
proof -
  obtain vek w1 where v: "read_session_vek (en_now E) w = (vek, w1)" by fastforce
  have r: "snd (release_credential (en_web E) (en_subtle E) (release_request_of m) (release_deps_of E w1 vek)) = Inr c"
    using assms(1) v by (auto simp: worker_step_def handle_message_def handle_release_credential_def Let_def split: if_splits sum.splits prod.splits)
  obtain k rec where k: "vek = Some k" and auth: "release_authorized (en_web E) (en_subtle E) (release_request_of m) (release_deps_of E w1 vek) k rec"
    using r by (rule release_credential_ok) (simp add: release_deps_of_def)
  have live: "is_session_unlocked (en_now E) w" "w1 = w" "length k = 32"
    using v k by (auto simp: read_session_vek_def split: if_splits option.splits)
  have "parse_absolute_origin (en_web E) (rq_origin (release_request_of m)) = Inr e" using assms(2) by (simp add: release_request_of_def)
  from release_authorized_page [OF auth this assms(3)] assms(4) show ?thesis
    using live v k by (fastforce simp: release_request_of_def release_deps_of_def)
qed

end
