(* ===== verification/Worker_Properties.thy ===== *)
theory Worker_Properties
  imports Worker_History Release_Properties
begin

text \<open>
  The properties of the service worker as its callers see it: what a message is
  answered with, over any history of messages and evictions.
\<close>

subsection \<open>A concrete worker\<close>

text \<open>An answer that satisfies whoever asked for it, and one that demands a step-up.\<close>

definition wp_answer :: "(string \<times> json) list \<Rightarrow> fetch_request \<Rightarrow> http_outcome" where
  "wp_answer kvs = (\<lambda>_. Fetched \<lparr>ha_ok = True, ha_status = 200, ha_text = [],
     ha_json = Inr (JObj (map (apfst lit) kvs))\<rparr>)"

definition wp_granting :: "(string \<times> json) list" where
  "wp_granting = [(''success'', JBool True), (''challengeId'', JStr (lit ''ch'')), (''approval'', JBool True),
     (''capabilityToken'', JObj [(lit ''signature'', JStr (lit ''s'')), (lit ''protectedHeader'', JStr (lit ''h''))]),
     (''releaseShare'', JStr (binary_to_base64 [7, 8, 9]))]"

definition wp_demanding :: "(string \<times> json) list" where
  "wp_demanding = [(''challengeRequired'', JBool True)]"

definition wp_env :: "(string \<times> json) list \<Rightarrow> worker_env" where
  "wp_env kvs = \<lparr>en_web = sample_web, en_subtle = sample_subtle,
     en_crypto = \<lparr>kc_pbkdf2 = (\<lambda>p s i n. []), kc_argon2id = (\<lambda>c p s. None), kc_sha256 = (\<lambda>b. b),
       kc_ecdsa_sign = (\<lambda>k b. None), kc_ecdsa_verify = (\<lambda>k s b. None)\<rparr>,
     en_numbers = \<lparr>nf_text = (\<lambda>x. []), nf_fixed = (\<lambda>x n. [])\<rparr>, en_fetch = wp_answer kvs,
     en_encode = Inr, en_null_error = [], en_now = 2000, en_clock = 0, en_salt = [], en_iv = [],
     en_random = sample_random, en_timing = \<lparr>pt_late = (\<lambda>_. False), pt_cut = None\<rparr>, en_elapsed = 0,
     en_gate_writes = True, en_pilot_allowed = False, en_pilot_abba = True, en_participants = None\<rparr>"

definition wp_worker :: "opaque_index option \<Rightarrow> (jstr \<rightharpoonup> encrypted_record) \<Rightarrow> worker" where
  "wp_worker ix recs = \<lparr>wk_ceremonies = [], wk_gate = \<lparr>gt_challenged = [], gt_completed = [], gt_stored = None\<rparr>,
     wk_keys = \<lparr>ka_local = ka_local empty_areas, ka_session = \<lparr>sa_key = Some [1], sa_unlock_time = Some 1000\<rparr>\<rparr>,
     wk_vek = Some (binary_to_base64 sample_vek),
     wk_unlock = Some \<lparr>us_vault_id = lit ''v'', us_unlocked_at = 1000, us_expires_at = 1000 + session_window_ms\<rparr>,
     wk_pilot = None, wk_token = Some [1], wk_user_id = Some [1], wk_plus_base = None, wk_plus_secret = None,
     wk_core_base = None, wk_index = ix, wk_records = recs, wk_trust = [], wk_anomalies = [],
     wk_validations = Map.empty, wk_settings = None\<rparr>"

definition wp_release :: release_message where
  "wp_release = \<lparr>rm_credential_id = lit ''c1'', rm_origin = lit ''https://a.io'', rm_operation = Op_Autofill,
     rm_document_origin = lit ''https://a.io'', rm_top_level_origin = [], rm_is_framed = False\<rparr>"

definition wp_author :: author_message where
  "wp_author = \<lparr>am_origin = Some (lit ''https://a.io''), am_username = Some (lit ''bob''), am_password = Some (lit ''pw''),
     am_title = None, am_totp_seed = None\<rparr>"

text \<open>Whether a worker holds the session of the example.\<close>

definition wp_open :: "worker \<Rightarrow> bool" where
  "wp_open w \<longleftrightarrow> wk_keys w = wk_keys (wp_worker None Map.empty) \<and> wk_vek w = Some (binary_to_base64 sample_vek)
     \<and> wk_unlock w = wk_unlock (wp_worker None Map.empty) \<and> wk_token w = Some [1] \<and> wk_user_id w = Some [1]"

lemma wp_unlocked: "wp_open w \<Longrightarrow> is_session_unlocked 2000 w"
  by (simp add: wp_open_def wp_worker_def is_session_unlocked_def Let_def absent_def session_window_ms_def)

lemma wp_vek: "wp_open w \<Longrightarrow> read_session_vek 2000 w = (Some sample_vek, w)"
  using wp_unlocked [of w] binary_to_base64_nonempty [of sample_vek]
  by (simp add: read_session_vek_def wp_open_def absent_def base64_round_trip sample_vek_def)

lemma wp_property: "en_fetch (wp_env kvs) rq = Fetched \<lparr>ha_ok = True, ha_status = 200, ha_text = [],
   ha_json = Inr (JObj (map (apfst lit) kvs))\<rparr>"
  by (simp add: wp_env_def wp_answer_def)

lemmas wp_json = property_of_def string_property_def truthy_property_def falsy_json_def object_of_def
  expires_at_of_def absent_def wp_granting_def wp_demanding_def lit_def apfst_conv

lemma wp_challenge: "wp_open w \<Longrightarrow> request_capability_of (wp_env wp_demanding) w rq = Capability_Challenge"
  by (simp add: request_capability_of_def wp_open_def fetch_plus_material_def wp_property wp_json)

lemma wp_share:
  assumes "wp_open w"
  shows "fetch_managed_release (wp_env wp_granting) w tok i cap = Inr (Released_Share (binary_to_base64 [7, 8, 9]))"
proof -
  have "en_encode (wp_env wp_granting) = Inr" by (simp add: wp_env_def)
  moreover have "wk_unlock w = Some \<lparr>us_vault_id = lit ''v'', us_unlocked_at = 1000, us_expires_at = 1000 + session_window_ms\<rparr>"
    using assms by (simp add: wp_open_def wp_worker_def)
  moreover have "lit ''v'' \<noteq> []" by (simp add: lit_def)
  ultimately show ?thesis using binary_to_base64_nonempty [of "[7, 8, 9]"]
    by (simp add: fetch_managed_release_def wp_property Let_def) (simp add: wp_json)
qed

lemma wp_grant:
  assumes "wp_open w"
  shows "request_capability_of (wp_env wp_granting) w rq = Capability_Granted (binary_to_base64 [7, 8, 9])"
proof -
  have "\<exists>t. fetch_plus_material (wp_env wp_granting) w tok user ref x = Inr (Plus_Token t)" for tok user ref x
    by (simp add: fetch_plus_material_def wp_property) (simp add: wp_json)
  then obtain t where "fetch_plus_material (wp_env wp_granting) w [1] [1] (cq_secret_ref rq) (cq_operation rq) = Inr (Plus_Token t)" by blast
  then show ?thesis using assms by (simp add: request_capability_of_def wp_share [OF assms] wp_open_def absent_def)
qed

subsection \<open>A concrete managed credential\<close>

text \<open>The credential of the example, as if Core kept a share of its key.\<close>

definition wp_record :: "authoring_success \<Rightarrow> encrypted_record" where
  "wp_record out = (encrypted_record.truncate (au_record out))\<lparr>er_mode := Managed, release_share_ref := Some (lit ''s'')\<rparr>"

definition wp_authored :: "authoring_success \<Rightarrow> bool" where
  "wp_authored out \<longleftrightarrow> author_credential sample_web sample_subtle sample_input (Some sample_vek) None sample_random
     = (Inr out, Some sample_vek) \<and> encrypted_record.er_id (au_record out) = lit ''c1''
     \<and> ar_origin (au_record out) = serialized (origin_of ''https'' ''a.io'')"

definition wp_deps :: "authoring_success \<Rightarrow> capability_reply \<Rightarrow> release_deps" where
  "wp_deps out reply = \<lparr>get_vek = Some sample_vek, get_index = Some (au_index out),
     get_record = (\<lambda>i. Some ([lit ''c1'' \<mapsto> wp_record out] i)), request_capability = (\<lambda>_. Some reply)\<rparr>"

lemma wp_request: "release_request_of wp_release = page_request"
  by (simp add: release_request_of_def wp_release_def page_request_def op_text_def)

lemma wp_personal:
  assumes "wp_authored out"
  shows "\<exists>c. snd (release_credential sample_web sample_subtle page_request (deps_of out)) = Inr c"
proof -
  have out: "author_credential sample_web sample_subtle sample_input (Some sample_vek) None sample_random
       = (Inr out, Some sample_vek)" "encrypted_record.er_id (au_record out) = lit ''c1''"
     "ar_origin (au_record out) = serialized (origin_of ''https'' ''a.io'')"
    using assms by (simp_all add: wp_authored_def)
  have "snd (release_credential sample_web sample_subtle page_request (deps_of out))
      = Inr \<lparr> rc_id = encrypted_record.er_id (au_record out), rc_username = effective_username (ai_username sample_input),
              rc_password = ai_password sample_input, rc_totp_secret = authored_totp sample_web sample_input \<rparr>"
    using sample_json sample_envelope_decodes out(2) sample_no_totp
    by (intro release_authored [OF out(1) sample_aead_ok _ _ _ _ _ _ out(3) sample_stable_a])
       (simp_all add: sample_username sample_random_def salt_len_def iv_len_def deps_of_def page_request_def
          sample_parse_a)
  then show ?thesis by blast
qed

text \<open>The toy cipher ignores its key.\<close>

lemma wp_any_key: "decrypt_blob sample_subtle b k = decrypt_blob sample_subtle b k'"
proof -
  have "aes_gcm_decrypt sample_subtle = (\<lambda>_. aes_gcm_decrypt sample_subtle k)" by (simp add: sample_subtle_def)
  then show ?thesis unfolding decrypt_blob_def by metis
qed

lemma wp_any_key_envelope: "decrypt_envelope sample_subtle k e = decrypt_envelope sample_subtle k' e"
  by (simp add: decrypt_envelope_def wp_any_key [of e k k'])

lemma wp_any_key_outcome:
  "build_release_outcome sample_subtle (wp_record out) up k
     = build_release_outcome sample_subtle (encrypted_record.truncate (au_record out)) up k'"
  unfolding build_release_outcome_def wp_any_key [of _ k k'] by (simp add: wp_record_def)

lemma wp_managed:
  assumes out: "wp_authored out"
  shows "snd (release_credential sample_web sample_subtle page_request (wp_deps out Capability_Challenge))
      = Inl (CHALLENGE_REQUIRED, lit ''policy requires a step-up challenge before release'')"
    "\<exists>c. snd (release_credential sample_web sample_subtle page_request (wp_deps out (Capability_Granted (binary_to_base64 [7, 8, 9])))) = Inr c"
proof -
  obtain c where c: "snd (release_credential sample_web sample_subtle page_request (deps_of out)) = Inr c" using wp_personal [OF out] ..
  obtain rec where auth: "release_authorized sample_web sample_subtle page_request (deps_of out) sample_vek rec"
    using c by (rule release_credential_ok) (simp add: deps_of_def)
  then have rec: "rec = encrypted_record.truncate (au_record out)"
    by (auto simp: release_authorized_def deps_of_def split: sum.splits if_splits)
  have auth': "release_authorized sample_web sample_subtle page_request (wp_deps out r) sample_vek (wp_record out)" for r
    using auth out by (auto simp: release_authorized_def deps_of_def wp_deps_def wp_record_def page_request_def lit_def wp_authored_def split: sum.splits)
  have prep: "snd (prepare_release sample_web sample_subtle page_request (wp_deps out r) sample_vek) = Inr (wp_record out)" for r
    using auth' prepare_release_ok_iff by blast
  have steps: "snd (release_steps sample_web sample_subtle page_request (deps_of out) sample_vek) = Inr c"
    using c by (auto simp: release_credential_def deps_of_def Let_def split: sum.splits release_failure.splits)
  have prep0: "snd (prepare_release sample_web sample_subtle page_request (deps_of out) sample_vek) = Inr rec"
    using auth prepare_release_ok_iff by blast
  obtain salt where salt: "base64_to_binary (er_salt rec) = Some salt"
    using steps prep0 by (cases "base64_to_binary (er_salt rec)") (simp_all add: release_steps_def snd_and_then)
  obtain k up where k: "snd (decrypt_envelope sample_subtle k (encrypted_secret rec)) = Inr (Inr up)"
    "\<exists>x. snd (build_release_outcome sample_subtle rec up k) = Inr x"
    using steps prep0 salt by (auto simp: release_steps_def snd_and_then await_def split: sum.splits option.splits)
  have f: "er_salt (wp_record out) = er_salt rec" "encrypted_secret (wp_record out) = encrypted_secret rec"
    "encrypted_totp_secret (wp_record out) = encrypted_totp_secret rec" "er_mode (wp_record out) = Managed"
    by (simp_all add: rec wp_record_def)
  have snd_release: "snd (release_credential sample_web sample_subtle page_request (wp_deps out r))
      = (case snd (release_steps sample_web sample_subtle page_request (wp_deps out r) sample_vek) of
           Inr c \<Rightarrow> Inr c | Inl (Deny code m) \<Rightarrow> Inl (code, m) | Inl Thrown \<Rightarrow> Inl (DECRYPT_FAILED, lit ''unexpected failure during release''))" for r
    by (auto simp: release_credential_def wp_deps_def Let_def split: sum.splits release_failure.splits)
  have "snd (entry_key_for sample_subtle (wp_record out) sample_vek salt (wp_deps out Capability_Challenge))
      = Inl (Deny CHALLENGE_REQUIRED (lit ''policy requires a step-up challenge before release''))"
    by (simp add: entry_key_for_def f(4) wp_deps_def Let_def)
  then show "snd (release_credential sample_web sample_subtle page_request (wp_deps out Capability_Challenge))
      = Inl (CHALLENGE_REQUIRED, lit ''policy requires a step-up challenge before release'')"
    using prep salt snd_release by (simp add: release_steps_def snd_and_then f)
  let ?r = "Capability_Granted (binary_to_base64 [7, 8, 9])"
  obtain k64 k' where key: "snd (entry_key_for sample_subtle (wp_record out) sample_vek salt (wp_deps out ?r)) = Inr k64"
    "base64_to_binary k64 = Some k'"
    by (simp add: entry_key_for_def f(4) wp_deps_def Let_def base64_round_trip derive_managed_entry_key_def derived_key_decodes)
  have env: "snd (decrypt_envelope sample_subtle k' (encrypted_secret rec)) = Inr (Inr up)"
    using k(1) wp_any_key_envelope by metis
  have "\<exists>x. snd (build_release_outcome sample_subtle (wp_record out) up k') = Inr x"
    using k(2) unfolding rec wp_any_key_outcome [of out up k' k] .
  then show "\<exists>c. snd (release_credential sample_web sample_subtle page_request (wp_deps out ?r)) = Inr c"
    using prep salt key env snd_release by (auto simp: release_steps_def snd_and_then f)
qed

subsection \<open>A session of the example\<close>

text \<open>A worker of the example that holds the credential.\<close>

definition wp_holds :: "authoring_success \<Rightarrow> worker \<Rightarrow> bool" where
  "wp_holds out w \<longleftrightarrow> wp_open w \<and> wk_index w = Some (au_index out) \<and> wk_records w = [lit ''c1'' \<mapsto> wp_record out]"

definition wp_gate :: gate_state where
  "wp_gate = \<lparr>gt_challenged = [], gt_completed = [], gt_stored = Some
     \<lparr>sg_challenged = [(binding_key (binding_of wp_release), binding_of wp_release)],
       sg_completed = [(binding_key (binding_of wp_release),
         completed_session (lit ''ch'') (binding_of wp_release) (2000 + default_challenge_ms))]\<rparr>\<rparr>"

lemma wp_deps_demanding:
  "wp_holds out w \<Longrightarrow> release_deps_of (wp_env wp_demanding) w (Some sample_vek) = wp_deps out Capability_Challenge"
  by (simp add: release_deps_of_def wp_deps_def wp_holds_def wp_challenge)

lemma wp_deps_granting:
  "wp_holds out w \<Longrightarrow> release_deps_of (wp_env wp_granting) w (Some sample_vek)
     = wp_deps out (Capability_Granted (binary_to_base64 [7, 8, 9]))"
  by (simp add: release_deps_of_def wp_deps_def wp_holds_def wp_grant)

lemma wp_env_fields [simp]:
  "en_web (wp_env kvs) = sample_web" "en_subtle (wp_env kvs) = sample_subtle" "en_now (wp_env kvs) = 2000"
  "en_gate_writes (wp_env kvs)" "en_random (wp_env kvs) = sample_random"
  by (simp_all add: wp_env_def)

lemma wp_refused:
  assumes "wp_authored out" "wp_holds out w" "\<not> refuses_early (binding_of wp_release) (wk_gate w)"
  shows "worker_step (wp_env wp_demanding) (Message (Release_Credential wp_release)) w
     = (Some (Failed (Error_Denial CHALLENGE_REQUIRED)),
        w\<lparr>wk_gate := remember_challenged True (binding_of wp_release) (wk_gate w)\<rparr>)"
proof -
  have "read_session_vek 2000 w = (Some sample_vek, w)" using assms(2) by (intro wp_vek) (simp add: wp_holds_def)
  then show ?thesis using assms(3) wp_deps_demanding [OF assms(2)] wp_managed(1) [OF assms(1)]
    by (simp add: worker_step_def handle_message_def handle_release_credential_def Let_def wp_request)
qed

lemma wp_released:
  assumes "wp_authored out" "wp_holds out w" "\<not> refuses_early (binding_of wp_release) (wk_gate w)"
    "\<not> session_owes_step_up (binding_of wp_release) (wk_gate w)"
  shows "\<exists>c w'. worker_step (wp_env wp_granting) (Message (Release_Credential wp_release)) w
     = (Some (Answered (Credential_Data c)), w')"
proof -
  have "read_session_vek 2000 w = (Some sample_vek, w)" using assms(2) by (intro wp_vek) (simp add: wp_holds_def)
  then show ?thesis using assms(3,4) wp_deps_granting [OF assms(2)] wp_managed(2) [OF assms(1)]
    by (auto simp: worker_step_def handle_message_def handle_release_credential_def Let_def wp_request)
qed

lemma wp_open_truth: "wp_open w \<Longrightarrow> \<not> absent (wk_token w) \<and> \<not> absent (wk_user_id w)"
  by (simp add: wp_open_def absent_def)

lemma wp_triggered: "trigger_plus_challenge (wp_env wp_granting) w b ref t u = Inr (lit ''ch'', 2000 + default_challenge_ms)"
  by (simp add: trigger_plus_challenge_def wp_property) (simp add: wp_json)

lemma wp_accepted: "request_core_approval (wp_env wp_granting) w t i p b = Inr (JBool True)"
    "plus_accepts_approval (wp_env wp_granting) w t i a = Inr True"
  by (simp add: request_core_approval_def wp_property, simp add: wp_json)
     (simp add: plus_accepts_approval_def wp_property, simp add: wp_json)

lemma wp_started:
  assumes "wp_authored out" "wp_holds out w"
  shows "\<exists>r w'. worker_step (wp_env wp_granting) (Message (Start_Step_Up (Some (lit ''c1'')) (Some (lit ''https://a.io'')) None)) w
      = (Some r, w') \<and> wp_holds out w' \<and> wk_gate w' = wk_gate w
      \<and> map_of (wk_ceremonies w') (lit ''ch'') = Some (binding_of wp_release, 2000 + default_challenge_ms)
      \<and> (\<exists>i t b. r = Answered (Challenge_Data i t b))"
proof -
  have "resolve_managed_release_share_ref w (lit ''c1'') = lit ''s''"
    using assms(2) by (simp add: resolve_managed_release_share_ref_def wp_holds_def wp_record_def or_empty_def)
  moreover have "lit ''s'' \<noteq> []" "lit ''c1'' \<noteq> []" "lit ''https://a.io'' \<noteq> []" by (simp_all add: lit_def)
  ultimately show ?thesis using assms(2) wp_open_truth [of w]
    by (simp add: worker_step_def handle_message_def handle_start_step_up_def Let_def or_empty_def wp_triggered wp_holds_def
        wp_open_def binding_of_def wp_release_def)
qed

lemma wp_approved:
  assumes "wp_holds out w" "map_of (wk_ceremonies w) (lit ''ch'') = Some (binding_of wp_release, 2000 + default_challenge_ms)"
  shows "\<exists>w'. worker_step (wp_env wp_granting) (Message (Approve_Step_Up (lit ''ch'') (Some (JObj [])))) w
      = (Some (Answered Verified_Data), w') \<and> wp_holds out w'
      \<and> wk_gate w' = remember_completed True (completed_session (lit ''ch'') (binding_of wp_release) (2000 + default_challenge_ms)) (wk_gate w)"
  using assms wp_open_truth [of w] by (simp add: worker_step_def handle_message_def handle_approve_step_up_def Let_def is_object_def
      wp_accepted finish_approval_def wp_holds_def wp_open_def default_challenge_ms_def)

text \<open>A refusal that asks for a step-up, the step-up, and an eviction.\<close>

lemma wp_history:
  assumes out: "wp_authored out"
  shows "\<exists>h w. worker_history h w \<and> wp_holds out w \<and> wk_gate w = wp_gate
    \<and> since_release (asks_step_up (binding_of wp_release)) (binding_of wp_release) h"
proof -
  let ?b = "binding_of wp_release"
  obtain w0 where w0: "w0 = wp_worker (Some (au_index out)) [lit ''c1'' \<mapsto> wp_record out]" by blast
  have h0: "worker_history [] w0" by (rule worker_history.start) (simp add: fresh_worker_def w0 wp_worker_def)
  have holds0: "wp_holds out w0" by (simp add: wp_holds_def wp_open_def w0 wp_worker_def)
  have gate0: "wk_gate w0 = \<lparr>gt_challenged = [], gt_completed = [], gt_stored = None\<rparr>" by (simp add: w0 wp_worker_def)
  then have early: "\<not> refuses_early ?b (wk_gate w0)" by (simp add: refuses_early_def)
  obtain w1 where w1: "w1 = w0\<lparr>wk_gate := remember_challenged True ?b (wk_gate w0)\<rparr>" by blast
  note h1 = worker_history.step [OF h0 _ wp_refused [OF out holds0 early, folded w1], simplified]
  have holds1: "wp_holds out w1" using holds0 by (simp add: wp_holds_def wp_open_def w1)
  obtain r2 w2 where s2: "worker_step (wp_env wp_granting)
      (Message (Start_Step_Up (Some (lit ''c1'')) (Some (lit ''https://a.io'')) None)) w1 = (Some r2, w2)"
    and holds2: "wp_holds out w2" and gate2: "wk_gate w2 = wk_gate w1"
    and cer: "map_of (wk_ceremonies w2) (lit ''ch'') = Some (?b, 2000 + default_challenge_ms)"
    using wp_started [OF out holds1] by blast
  note h2 = worker_history.step [OF h1 _ s2, simplified]
  obtain w3 where s3: "worker_step (wp_env wp_granting) (Message (Approve_Step_Up (lit ''ch'') (Some (JObj [])))) w2
      = (Some (Answered Verified_Data), w3)" and holds3: "wp_holds out w3"
    and gate3: "wk_gate w3 = remember_completed True (completed_session (lit ''ch'') ?b (2000 + default_challenge_ms)) (wk_gate w2)"
    using wp_approved [OF holds2 cer] by blast
  note h3 = worker_history.step [OF h2 _ s3, simplified]
  have s4: "worker_step (wp_env wp_granting) Evicted w3 = (None, evict w3)" by (simp add: worker_step_def)
  note h4 = worker_history.step [OF h3 _ s4, simplified]
  have holds4: "wp_holds out (evict w3)" using holds3 by (simp add: wp_holds_def wp_open_def evict_def)
  have gate4: "wk_gate (evict w3) = wp_gate"
    by (simp add: evict_def gate3 gate2 w1 gate0 wp_gate_def change_defs)
  have "is_session_unlocked 2000 w0" using holds0 by (intro wp_unlocked) (simp add: wp_holds_def)
  then show ?thesis
    apply -
    apply (rule exI, rule exI, rule conjI, rule h4)
    apply (rule conjI, rule holds4, rule conjI, rule gate4)
    apply (simp add: ends_session_def reads_vek_def releases_def asks_step_up_def)
    done
qed

subsection \<open>Replies that reveal a secret\<close>

text \<open>
  C1. The worker answers a release with a credential only while its session is open,
  and only for the page of the origin the credential is bound to: the session key is
  there, it was used within thirty minutes and before the unlock expired, the
  identifier is in the index bucket of the requested origin's token, and document
  and top-level document are that origin.
\<close>

theorem worker_releases_only_live_and_bound:
  assumes "worker_step E (Message (Release_Credential m)) w = (Some (Answered (Credential_Data c)), w')"
    and "parse_absolute_origin (en_web E) (rm_origin m) = Inr e" and "stable_origin (en_web E) e"
    and "\<And>d. parse_absolute_origin (en_web E) (rm_document_origin m) = Inr d \<Longrightarrow> stable_origin (en_web E) d"
  shows "is_session_unlocked (en_now E) w
    \<and> (\<exists>vek t ix. fst (read_session_vek (en_now E) w) = Some vek \<and> length vek = 32
        \<and> compute_lookup_token (en_web E) (en_subtle E) (rm_origin m) (Some (derive_domain_index_key (en_subtle E) vek)) = Inr t
        \<and> token_origin t = e \<and> ix = (case wk_index w of None \<Rightarrow> empty_index | Some x \<Rightarrow> x)
        \<and> rm_credential_id m \<in> set (lookup_index ix (token t)))
    \<and> parse_absolute_origin (en_web E) (rm_document_origin m) = Inr e
    \<and> (rm_is_framed m \<longrightarrow> parse_absolute_origin (en_web E) (rm_top_level_origin m) = Inr e)"
  using assms by (rule credential_reply_justified)

theorem worker_releases_only_live_and_bound_witness:
  "\<exists>(out :: authoring_success) w c w'. worker_step (wp_env wp_granting) (Message (Release_Credential wp_release)) w
       = (Some (Answered (Credential_Data c)), w')
     \<and> is_session_unlocked 2000 w
     \<and> (\<exists>t. compute_lookup_token sample_web sample_subtle (lit ''https://a.io'')
          (Some (derive_domain_index_key sample_subtle sample_vek)) = Inr t \<and> lit ''c1'' \<in> set (lookup_index (au_index out) (token t)))"
proof -
  obtain out where out: "wp_authored out" using sample_author by (auto simp: wp_authored_def)
  obtain w where w: "w = wp_worker (Some (au_index out)) [lit ''c1'' \<mapsto> wp_record out]" by blast
  have holds: "wp_holds out w" by (simp add: wp_holds_def wp_open_def w wp_worker_def)
  have gate: "\<not> refuses_early (binding_of wp_release) (wk_gate w)" "\<not> session_owes_step_up (binding_of wp_release) (wk_gate w)"
    by (simp_all add: w wp_worker_def refuses_early_def session_owes_step_up_def read_persisted_gate_def empty_gate_def Let_def)
  obtain c w' where step: "worker_step (wp_env wp_granting) (Message (Release_Credential wp_release)) w
      = (Some (Answered (Credential_Data c)), w')" using wp_released [OF out holds gate] by blast
  have o: "rm_origin wp_release = lit ''https://a.io''" "rm_document_origin wp_release = lit ''https://a.io''"
    "rm_credential_id wp_release = lit ''c1''" by (simp_all add: wp_release_def)
  have vek: "fst (read_session_vek 2000 w) = Some sample_vek" using holds wp_vek [of w] by (simp add: wp_holds_def)
  have ix: "wk_index w = Some (au_index out)" using holds by (simp add: wp_holds_def)
  from worker_releases_only_live_and_bound [OF step, of "origin_of ''https'' ''a.io''", unfolded wp_env_fields o]
  have "is_session_unlocked 2000 w \<and> (\<exists>t. compute_lookup_token sample_web sample_subtle (lit ''https://a.io'')
      (Some (derive_domain_index_key sample_subtle sample_vek)) = Inr t \<and> lit ''c1'' \<in> set (lookup_index (au_index out) (token t)))"
    by (simp add: sample_parse_a sample_stable_a vek ix) blast
  then show ?thesis using step by blast
qed

text \<open>
  C14. Over any history of the worker, evictions and lapsed sessions included, a
  refusal that asked for a step-up is answered only by an approval: if since the last
  end of the session and the last release of a binding one of its releases was
  refused for want of a step-up, then a release of it is answered with the credential
  only if, since then too, an approval of a challenge started for that very binding
  was signed by Core and accepted by Plus before it expired.
\<close>

theorem released_only_after_approval:
  assumes "worker_history h w" and "en_gate_writes E"
    and "worker_step E (Message (Release_Credential m)) w = (Some (Answered (Credential_Data c)), w')"
    and "since_release (asks_step_up (binding_of m)) (binding_of m) h"
  shows "since_release (approves (binding_of m)) (binding_of m) h"
  using assms by (rule released_after_refusal)

theorem released_only_after_approval_witness:
  "\<exists>h w c w'. worker_history h w
     \<and> worker_step (wp_env wp_granting) (Message (Release_Credential wp_release)) w = (Some (Answered (Credential_Data c)), w')
     \<and> since_release (asks_step_up (binding_of wp_release)) (binding_of wp_release) h
     \<and> since_release (approves (binding_of wp_release)) (binding_of wp_release) h"
proof -
  obtain out where out: "wp_authored out" using sample_author by (auto simp: wp_authored_def)
  obtain h w where hw: "worker_history h w" "wp_holds out w" "wk_gate w = wp_gate"
    and asked: "since_release (asks_step_up (binding_of wp_release)) (binding_of wp_release) h"
    using wp_history [OF out] by blast
  have "\<not> refuses_early (binding_of wp_release) wp_gate" "\<not> session_owes_step_up (binding_of wp_release) wp_gate"
    by (simp_all add: wp_gate_def refuses_early_def session_owes_step_up_def read_persisted_gate_def Let_def
        can_retry_release_def completed_session_def bindings_match_iff)
  then obtain c w' where step: "worker_step (wp_env wp_granting) (Message (Release_Credential wp_release)) w
      = (Some (Answered (Credential_Data c)), w')" using wp_released [OF out hw(2)] unfolding hw(3) by blast
  from released_only_after_approval [OF hw(1) _ step asked] step hw(1) asked show ?thesis by auto
qed

subsection \<open>Authoring and release, by messages\<close>

text \<open>
  C3. A credential authored by a message is released, with the username (trimmed),
  the password and the TOTP seed it was authored with, to a message from the page of
  its origin, the worker evicted in between or not, as long as the session is still
  unlocked and owes that binding no step-up; for every platform whose AES-GCM, JSON
  and text coding read back what they wrote.
\<close>

theorem authored_by_message_is_released:
  assumes "worker_step E (Message (Author_Credential am)) w = (Some (Answered (Authored_Data i title hint orig)), w1)"
    and "w2 = w1 \<or> w2 = evict w1"
    and "is_session_unlocked (en_now E') w2" and "en_web E' = W" "en_subtle E' = S" "en_web E = W" "en_subtle E = S"
    and "\<not> refuses_early (binding_of m) (wk_gate w2)" "\<not> session_owes_step_up (binding_of m) (wk_gate w2)"
    and "aead_ok S"
    and "json_reads_back S (secret_envelope (trim (or_empty (am_username am))) (or_empty (am_password am)))"
    and "decodes S (json_stringify S (secret_envelope (trim (or_empty (am_username am))) (or_empty (am_password am))))"
    and "\<And>s. authored_totp W (author_input_of am) = Some s \<Longrightarrow> decodes S s"
    and "length (rnd_salt (en_random E)) = salt_len" "length (rnd_iv_secret (en_random E)) = iv_len"
    and "length (rnd_iv_totp (en_random E)) = iv_len"
    and "orig = serialized c" "stable_origin W c" and "rm_credential_id m = i" "\<not> rm_is_framed m"
    and "parse_absolute_origin W (rm_origin m) = Inr c" "parse_absolute_origin W (rm_document_origin m) = Inr c"
  shows "\<exists>w3. worker_step E' (Message (Release_Credential m)) w2 = (Some (Answered (Credential_Data
      \<lparr>rc_id = i, rc_username = trim (or_empty (am_username am)), rc_password = or_empty (am_password am),
       rc_totp_secret = authored_totp W (author_input_of am)\<rparr>)), w3)"
proof -
  obtain vek w0 where v: "read_session_vek (en_now E) w = (vek, w0)" by fastforce
  obtain k where k: "vek = Some k" using assms(1) v
    by (cases vek) (auto simp: worker_step_def handle_message_def handle_author_credential_def)
  have w0: "w0 = w" using v k by (auto simp: read_session_vek_def split: if_splits option.splits)
  obtain out where out: "fst (author_credential W S (author_input_of am) (Some k) (get_index (release_deps_of E w None)) (en_random E)) = Inr out"
    and i: "encrypted_record.er_id (au_record out) = i" "ar_origin (au_record out) = orig"
    and w1: "w1 = w\<lparr>wk_records := (wk_records w)(i \<mapsto> encrypted_record.truncate (au_record out)), wk_index := Some (au_index out)\<rparr>"
    using assms(1,6,7) v unfolding k w0
    by (auto simp: worker_step_def handle_message_def handle_author_credential_def Let_def split: sum.splits)
  have vek2: "read_session_vek (en_now E') w2 = (Some k, w2)"
    using v assms(2,3) unfolding k w0 by (auto simp: read_session_vek_def w1 evict_def split: if_splits option.splits)
  obtain x where auth: "author_credential W S (author_input_of am) (Some k) (get_index (release_deps_of E w None)) (en_random E) = (Inr out, x)"
    using out by (metis prod.collapse)
  have u: "effective_username (ai_username (author_input_of am)) = trim (or_empty (am_username am))"
    "ai_password (author_input_of am) = or_empty (am_password am)" by (simp_all add: author_input_of_def effective_username_def)
  have "snd (release_credential W S (release_request_of m) (release_deps_of E' w2 (Some k))) = Inr
      \<lparr>rc_id = encrypted_record.er_id (au_record out), rc_username = effective_username (ai_username (author_input_of am)),
       rc_password = ai_password (author_input_of am), rc_totp_secret = authored_totp W (author_input_of am)\<rparr>"
    using assms(2,11-)
    by (intro release_authored [OF auth assms(10), where c = c]) (auto simp: u i release_deps_of_def release_request_of_def w1 evict_def)
  then show ?thesis using assms(8,9) vek2 unfolding u i
    by (simp add: worker_step_def handle_message_def handle_release_credential_def Let_def assms(4,5))
qed

lemma wp_author_ok:
  "\<exists>out. author_credential sample_web sample_subtle (author_input_of wp_author) (Some sample_vek) (Some empty_index) sample_random
       = (Inr out, Some sample_vek)
     \<and> encrypted_record.er_id (au_record out) = lit ''c1''
     \<and> ar_origin (au_record out) = serialized (origin_of ''https'' ''a.io'')"
  by (simp add: author_credential_def validate_authoring_origin_def author_input_of_def wp_author_def or_empty_def absolute_prefix_def
        scheme_char_def starts_with_def sample_eval validate_authoring_fields_def effective_username_def
        effective_title_def seal_and_register_credential_def personal_key_decodes seal_def
        sample_subtle_def sample_random_def compute_lookup_token_def Let_def)

theorem authored_by_message_is_released_witness:
  "\<exists>title hint w3. fst (worker_step (wp_env wp_granting) (Message (Author_Credential wp_author)) (wp_worker None Map.empty))
       = Some (Answered (Authored_Data (lit ''c1'') title hint (serialized (origin_of ''https'' ''a.io''))))
     \<and> worker_step (wp_env wp_demanding) (Message (Release_Credential wp_release))
         (evict (snd (worker_step (wp_env wp_granting) (Message (Author_Credential wp_author)) (wp_worker None Map.empty))))
       = (Some (Answered (Credential_Data \<lparr>rc_id = lit ''c1'', rc_username = lit ''bob'', rc_password = lit ''pw'',
           rc_totp_secret = None\<rparr>)), w3)"
proof -
  let ?w = "wp_worker None Map.empty"
  obtain out where out: "author_credential sample_web sample_subtle (author_input_of wp_author) (Some sample_vek) (Some empty_index) sample_random
       = (Inr out, Some sample_vek)" "encrypted_record.er_id (au_record out) = lit ''c1''"
     "ar_origin (au_record out) = serialized (origin_of ''https'' ''a.io'')"
    using wp_author_ok by blast
  have open0: "wp_open ?w" by (simp add: wp_open_def wp_worker_def)
  have ix: "wk_index ?w = None" by (simp add: wp_worker_def)
  obtain w1 where step: "worker_step (wp_env wp_granting) (Message (Author_Credential wp_author)) ?w
      = (Some (Answered (Authored_Data (lit ''c1'') (er_title (au_record out)) (username_hint (au_record out))
          (serialized (origin_of ''https'' ''a.io'')))), w1)"
    and w1: "w1 = ?w\<lparr>wk_records := (wk_records ?w)(lit ''c1'' \<mapsto> encrypted_record.truncate (au_record out)),
       wk_index := Some (au_index out)\<rparr>"
    using wp_vek [OF open0] out ix
    by (simp add: worker_step_def handle_message_def handle_author_credential_def release_deps_of_def Let_def)
  have e: "wp_open (evict w1)" "wk_gate (evict w1) = \<lparr>gt_challenged = [], gt_completed = [], gt_stored = None\<rparr>"
    using open0 by (simp_all add: w1 evict_def wp_open_def wp_worker_def evict_gate_def)
  have texts: "trim (or_empty (am_username wp_author)) = lit ''bob''" "or_empty (am_password wp_author) = lit ''pw''"
    by (simp_all add: wp_author_def or_empty_def sample_eval)
  have env: "decodes sample_subtle (json_stringify sample_subtle (secret_envelope (lit ''bob'') (lit ''pw'')))"
    using sample_envelope_decodes unfolding sample_username by (simp add: sample_input_def)
  have totp: "authored_totp sample_web (author_input_of wp_author) = None"
    by (simp add: authored_totp_def author_input_of_def wp_author_def)
  from authored_by_message_is_released [OF step, of "evict w1" "wp_env wp_demanding" sample_web sample_subtle wp_release "origin_of ''https'' ''a.io''"]
  have "\<exists>w3. worker_step (wp_env wp_demanding) (Message (Release_Credential wp_release)) (evict w1)
      = (Some (Answered (Credential_Data \<lparr>rc_id = lit ''c1'', rc_username = lit ''bob'', rc_password = lit ''pw'',
           rc_totp_secret = None\<rparr>)), w3)"
    using wp_unlocked [OF e(1)] e(2) sample_aead_ok sample_json env sample_stable_a sample_parse_a unfolding texts totp
    by (simp add: refuses_early_def session_owes_step_up_def read_persisted_gate_def empty_gate_def Let_def wp_release_def
        sample_random_def salt_len_def iv_len_def)
  then show ?thesis using step by simp
qed

subsection \<open>A locked worker\<close>

definition unlocks :: "worker_event \<Rightarrow> bool" where
  "unlocks ev \<longleftrightarrow> (case ev of Message (Unlock_Vault _ _) \<Rightarrow> True | _ \<Rightarrow> False)"

text \<open>The answers that disclose, or are computed with, what the vault protects.\<close>

definition discloses :: "worker_reply \<Rightarrow> bool" where
  "discloses r \<longleftrightarrow> (case r of
     Answered (Credential_Data _) \<Rightarrow> True | Answered (Text_Data _) \<Rightarrow> True | Answered (Share_Data _) \<Rightarrow> True
   | Answered (Authored_Data _ _ _ _) \<Rightarrow> True | Answered (Candidates_Data cs) \<Rightarrow> cs \<noteq> []
   | Answered (Status_Data b) \<Rightarrow> b | _ \<Rightarrow> False)"

fun run_worker :: "(worker_env \<times> worker_event) list \<Rightarrow> worker \<Rightarrow> worker_reply option list \<times> worker" where
  "run_worker [] w = ([], w)"
| "run_worker ((E, ev) # evs) w = (case worker_step E ev w of (r, w1) \<Rightarrow> apfst (Cons r) (run_worker evs w1))"

definition no_session :: "worker \<Rightarrow> bool" where
  "no_session w \<longleftrightarrow> sa_key (ka_session (wk_keys w)) = None \<and> sa_unlock_time (ka_session (wk_keys w)) = None
     \<and> wk_vek w = None \<and> wk_unlock w = None"

lemma no_session_lock: "no_session (snd (handle_lock_vault w))"
  by (simp add: no_session_def handle_lock_vault_def lock_vault_def)

lemma no_session_locked: "no_session w \<Longrightarrow> \<not> is_session_unlocked now w"
  by (simp add: no_session_def is_session_unlocked_def)

lemma no_session_read:
  "no_session w \<Longrightarrow> read_session_vek now w = (None, expire_session_key_material w) \<and> no_session (expire_session_key_material w)"
  by (simp add: read_session_vek_def no_session_locked) (simp add: no_session_def expire_session_key_material_def lock_vault_def)

lemma no_session_step:
  assumes "no_session w" "\<not> unlocks ev"
  shows "no_session (snd (worker_step E ev w))"
proof (cases ev)
  case (Message msg)
  have keep: "no_session w2" if "wk_keys w2 = wk_keys w" "wk_vek w2 = wk_vek w" "wk_unlock w2 = wk_unlock w" for w2
    using that assms(1) by (simp add: no_session_def)
  show ?thesis
    using assms no_session_read [OF assms(1), of "en_now E"] no_session_lock [of w] unfolding Message
    by (cases msg) (auto simp: worker_step_def handle_message_def unlocks_def handle_validate_domain_def handle_get_trust_status_def
      handle_report_anomaly_def handle_check_vault_status_def handle_encrypt_data_def handle_decrypt_data_def
      handle_request_managed_capability_def handle_request_release_share_def handle_get_plus_public_key_def
      handle_start_step_up_def handle_get_pending_step_up_def handle_list_credentials_def handle_author_credential_def
      handle_approve_step_up_def finish_approval_def handle_release_credential_def release_credential_def release_deps_of_def
      Let_def no_session_def split: sum.splits if_splits option.splits prod.splits)
next
  case Evicted
  then show ?thesis using assms(1) by (simp add: worker_step_def evict_def no_session_def)
next
  case (Installed x)
  then show ?thesis using assms(1) by (simp add: worker_step_def handle_installed_def no_session_def Let_def)
next
  case Configured
  then show ?thesis using assms(1) by (simp add: worker_step_def no_session_def)
qed

lemma no_session_quiet:
  assumes "no_session w" "\<not> unlocks ev" "fst (worker_step E ev w) = Some r"
  shows "\<not> discloses r"
proof (cases ev)
  case (Message msg)
  have n: "absent (sa_key (ka_session (wk_keys w)))" "wk_unlock w = None" "wk_vek w = None"
    using assms(1) by (simp_all add: no_session_def absent_def)
  note read = no_session_read [OF assms(1), of "en_now E"] no_session_locked [OF assms(1)]
  show ?thesis
    using assms(2,3) n read unfolding Message
    by (cases msg) (auto simp: worker_step_def handle_message_def unlocks_def handle_validate_domain_def handle_get_trust_status_def
      handle_report_anomaly_def handle_check_vault_status_def handle_encrypt_data_def handle_decrypt_data_def with_session_key_def
      handle_request_managed_capability_def handle_request_release_share_def fetch_managed_release_def handle_get_plus_public_key_def
      handle_start_step_up_def handle_get_pending_step_up_def handle_list_credentials_def list_candidates_for_origin_def
      handle_author_credential_def handle_approve_step_up_def finish_approval_def handle_release_credential_def
      release_credential_def release_deps_of_def failed_text_def http_failure_def discloses_def handle_lock_vault_def
      Let_def split: sum.splits if_splits option.splits prod.splits http_outcome.splits)
qed (use assms(3) in \<open>auto simp: worker_step_def\<close>)

lemma no_session_run:
  "no_session w \<Longrightarrow> \<forall>(E, ev) \<in> set evs. \<not> unlocks ev \<Longrightarrow>
     no_session (snd (run_worker evs w)) \<and> (\<forall>r. Some r \<in> set (fst (run_worker evs w)) \<longrightarrow> \<not> discloses r)"
proof (induction evs arbitrary: w)
  case (Cons e evs)
  obtain E ev where e: "e = (E, ev)" by fastforce
  obtain r w1 where s: "worker_step E ev w = (r, w1)" by fastforce
  have "no_session w1" using no_session_step [OF Cons.prems(1), of ev E] Cons.prems(2) by (simp add: e s)
  moreover have "\<not> discloses x" if "r = Some x" for x
    using no_session_quiet [OF Cons.prems(1), of ev E x] Cons.prems(2) that by (simp add: e s)
  ultimately show ?case using Cons.IH [of w1] Cons.prems(2) by (auto simp: e s)
qed simp

text \<open>
  C9. Once the vault is locked, no sequence of messages other than unlocking,
  evictions, installations and changes of the sign-in gives away anything of it: no
  credential, release share, encrypted or decrypted text, candidate list or authored
  record is answered, the vault is never reported unlocked, and no key material comes
  back into session storage.
\<close>

theorem locked_worker_discloses_nothing:
  assumes "\<forall>(E, ev) \<in> set evs. \<not> unlocks ev"
  shows "no_session (snd (run_worker evs (snd (handle_lock_vault w))))
    \<and> (\<forall>r. Some r \<in> set (fst (run_worker evs (snd (handle_lock_vault w)))) \<longrightarrow> \<not> discloses r)"
  using no_session_run [OF no_session_lock assms] .

theorem locked_worker_discloses_nothing_witness:
  "let w = snd (handle_lock_vault (wp_worker None Map.empty));
     evs = [(wp_env wp_granting, Message (Release_Credential wp_release)), (wp_env wp_granting, Evicted),
       (wp_env wp_granting, Message (Encrypt_Data (lit ''x'')))]
   in no_session (snd (run_worker evs w)) \<and> (\<forall>r. Some r \<in> set (fst (run_worker evs w)) \<longrightarrow> \<not> discloses r)"
  unfolding Let_def by (rule locked_worker_discloses_nothing) (simp add: unlocks_def)

end
