(* ===== verification/Content_Autofill.thy ===== *)
theory Content_Autofill
  imports Worker_History Totp
begin

text \<open>
  The content script that fills forms: src/src/ui/content-scripts/autocomplete.ts,
  talking to the service worker.  A page is the list of its forms; a field keeps its
  number while the page changes under a pending release.  Badge, events and the
  framework-proof setter are left out.
\<close>

subsection \<open>Where the script runs\<close>

datatype top_window = Top_Self | Top_Readable browser_location | Top_Unreadable

record page_window =
  pw_location :: browser_location
  pw_top :: top_window

record origin_context =
  oc_document :: jstr
  oc_top :: jstr
  oc_framed :: bool

definition describe_origin_context :: "page_window \<Rightarrow> origin_context" where
  "describe_origin_context win =
     (let d = origin_from_location (pw_location win) in
      case pw_top win of
        Top_Self \<Rightarrow> \<lparr>oc_document = d, oc_top = d, oc_framed = False\<rparr>
      | Top_Readable l \<Rightarrow> \<lparr>oc_document = d, oc_top = origin_from_location l, oc_framed = True\<rparr>
      | Top_Unreadable \<Rightarrow> \<lparr>oc_document = d, oc_top = [], oc_framed = True\<rparr>)"

subsection \<open>Forms and their fields\<close>

record script_input =
  in_type_attribute :: "jstr option"
  in_name :: jstr
  in_id :: jstr
  in_placeholder :: jstr
  in_autocomplete :: "jstr option"
  in_disabled :: bool
  in_read_only :: bool
  in_filled :: bool
  in_value :: jstr

record script_form =
  fo_action :: "jstr option"
  fo_inputs :: "script_input list"

record field_pair =
  fp_username :: "nat option"
  fp_password :: "nat option"
  fp_totp :: "nat option"

definition fillable_types :: "jstr list" where
  "fillable_types = [lit ''text'', lit ''email'', lit ''password'', lit ''tel'', lit ''number'']"

definition is_fillable :: "web \<Rightarrow> script_input \<Rightarrow> bool" where
  "is_fillable W x \<longleftrightarrow> (case in_type_attribute x of None \<Rightarrow> True | Some t \<Rightarrow> to_lower W t \<in> set fillable_types)"

definition input_type :: "web \<Rightarrow> script_input \<Rightarrow> jstr" where
  "input_type W x = (case in_type_attribute x of None \<Rightarrow> lit ''text'' | Some t \<Rightarrow> to_lower W t)"

definition join_words :: "jstr list \<Rightarrow> jstr" where
  "join_words ws = (case ws of [] \<Rightarrow> [] | w # vs \<Rightarrow> w @ concat (map (\<lambda>v. 32 # v) vs))"

definition names_some :: "string list \<Rightarrow> jstr \<Rightarrow> bool" where
  "names_some words s \<longleftrightarrow> list_ex (\<lambda>w. includes_text s (lit w)) words"

definition is_totp_candidate :: "totp_platform \<Rightarrow> script_input \<Rightarrow> bool" where
  "is_totp_candidate P x \<longleftrightarrow>
     (case in_autocomplete x of None \<Rightarrow> False | Some a \<Rightarrow> tp_fold P a = lit ''one-time-code'')
     \<or> names_some [''totp'', ''2fa'', ''mfa'', ''otp'', ''authenticator'', ''codigo'', ''code'']
         (join_words [tp_fold P (in_name x), tp_fold P (in_id x), tp_fold P (in_placeholder x)])"

definition is_username_candidate :: "totp_platform \<Rightarrow> script_input \<Rightarrow> jstr \<Rightarrow> bool" where
  "is_username_candidate P x ty \<longleftrightarrow> ty = lit ''email''
     \<or> names_some [''user'', ''username'', ''login'', ''email'', ''correo'', ''identificador'']
         (join_words [tp_fold P (in_name x), tp_fold P (in_id x), tp_fold P (in_placeholder x),
            tp_fold P (or_empty (in_autocomplete x))])"

text \<open>The loop over the inputs, which are numbered from i.\<close>

fun detect_fields_from :: "web \<Rightarrow> totp_platform \<Rightarrow> nat \<Rightarrow> script_input list \<Rightarrow> field_pair \<Rightarrow> field_pair" where
  "detect_fields_from W P i [] p = p"
| "detect_fields_from W P i (x # xs) p = detect_fields_from W P (Suc i) xs
     (if \<not> is_fillable W x then p
      else if input_type W x = lit ''password'' then (if fp_password p = None then p\<lparr>fp_password := Some i\<rparr> else p)
      else if fp_totp p = None \<and> is_totp_candidate P x then p\<lparr>fp_totp := Some i\<rparr>
      else if fp_username p = None \<and> is_username_candidate P x (input_type W x) then p\<lparr>fp_username := Some i\<rparr>
      else p)"

definition detect_fields :: "web \<Rightarrow> totp_platform \<Rightarrow> script_form \<Rightarrow> field_pair" where
  "detect_fields W P f = detect_fields_from W P 0 (fo_inputs f) \<lparr>fp_username = None, fp_password = None, fp_totp = None\<rparr>"

text \<open>The submitter's \<^verbatim>\<open>formaction\<close> (None: no submitter or no attribute) overrides the action.\<close>

definition resolve_submit_origin :: "script_form \<Rightarrow> jstr option \<Rightarrow> jstr option" where
  "resolve_submit_origin f formaction = (case formaction of
     Some a \<Rightarrow> if a \<noteq> [] \<and> trim a \<noteq> [] then Some a else fo_action f
   | None \<Rightarrow> fo_action f)"

definition guard_fill :: "web \<Rightarrow> jstr \<Rightarrow> origin_context \<Rightarrow> jstr option \<Rightarrow> jstr option \<Rightarrow> bool" where
  "guard_fill W cred ctx action submit = is_ok (evaluate_autofill W
     \<lparr>gr_operation = ''AUTOFILL'', credential_origin = Some cred, document_origin = oc_document ctx,
       form_action = action, submit_origin = submit,
       top_level_origin = (if oc_framed ctx then Some (oc_top ctx) else None),
       frame_origin = (if oc_framed ctx then Some (oc_document ctx) else None)\<rparr>)"

definition write_field :: "nat \<Rightarrow> jstr \<Rightarrow> script_form \<Rightarrow> bool \<times> script_form" where
  "write_field i v f =
     (if i \<ge> length (fo_inputs f) then (False, f)
      else let x = fo_inputs f ! i in
        if in_disabled x \<or> in_read_only x \<or> in_filled x then (False, f)
        else (True, f\<lparr>fo_inputs := (fo_inputs f)[i := x\<lparr>in_value := v, in_filled := True\<rparr>]\<rparr>))"

subsection \<open>Talking to the worker\<close>

text \<open>
  What surrounds one message: the worker's environment, whether the answer arrives
  within five seconds, and what the page does to the form in the meantime.
\<close>

record content_env =
  ce_worker :: worker_env
  ce_arrives :: bool
  ce_change :: "script_form \<Rightarrow> script_form"
  ce_totp :: totp_platform

definition send_to_worker :: "content_env \<Rightarrow> worker_message \<Rightarrow> worker \<Rightarrow> worker_reply option \<times> worker" where
  "send_to_worker C msg w = (case handle_message (ce_worker C) msg w of (r, w') \<Rightarrow> (if ce_arrives C then Some r else None, w'))"

definition list_candidates :: "content_env \<Rightarrow> jstr \<Rightarrow> worker \<Rightarrow> candidate_summary list \<times> worker" where
  "list_candidates C orig w = (case send_to_worker C (List_Credentials orig) w of
     (Some (Answered (Candidates_Data cs)), w') \<Rightarrow> (cs, w') | (_, w') \<Rightarrow> ([], w'))"

definition release_message_of :: "jstr \<Rightarrow> jstr \<Rightarrow> step_up_operation \<Rightarrow> origin_context \<Rightarrow> release_message" where
  "release_message_of i orig operation ctx = \<lparr>rm_credential_id = i, rm_origin = orig, rm_operation = operation,
     rm_document_origin = oc_document ctx, rm_top_level_origin = oc_top ctx, rm_is_framed = oc_framed ctx\<rparr>"

definition request_release ::
  "content_env \<Rightarrow> jstr \<Rightarrow> jstr \<Rightarrow> step_up_operation \<Rightarrow> origin_context \<Rightarrow> worker \<Rightarrow> released_credential option \<times> worker" where
  "request_release C i orig operation ctx w =
     (case send_to_worker C (Release_Credential (release_message_of i orig operation ctx)) w of
        (Some (Answered (Credential_Data c)), w') \<Rightarrow> (Some c, w') | (_, w') \<Rightarrow> (None, w'))"

subsection \<open>Filling\<close>

definition write_text :: "nat option \<Rightarrow> jstr option \<Rightarrow> script_form \<Rightarrow> bool \<times> script_form" where
  "write_text field v f = (case (field, v) of
     (Some i, Some s) \<Rightarrow> if s = [] then (False, f) else write_field i s f | _ \<Rightarrow> (False, f))"

text \<open>A code that cannot be generated is not written; an empty one, which is never generated, would be.\<close>

definition write_code :: "content_env \<Rightarrow> nat option \<Rightarrow> jstr option \<Rightarrow> script_form \<Rightarrow> bool \<times> script_form" where
  "write_code C field seed f = (case (field, seed) of
     (Some i, Some s) \<Rightarrow> if s = [] then (False, f)
       else (case generate_totp (ce_totp C) s default_totp_config (en_now (ce_worker C)) of
           None \<Rightarrow> (False, f) | Some code \<Rightarrow> write_field i code f)
   | _ \<Rightarrow> (False, f))"

definition write_released :: "content_env \<Rightarrow> field_pair \<Rightarrow> released_credential \<Rightarrow> script_form \<Rightarrow> bool \<times> script_form" where
  "write_released C p c f =
     (case write_text (fp_username p) (Some (rc_username c)) f of (w1, f1) \<Rightarrow>
      case write_text (fp_password p) (Some (rc_password c)) f1 of (w2, f2) \<Rightarrow>
      case write_code C (fp_totp p) (rc_totp_secret c) f2 of (w3, f3) \<Rightarrow> (w1 \<or> w2 \<or> w3, f3))"

definition fill_form ::
  "content_env \<Rightarrow> origin_context \<Rightarrow> field_pair \<Rightarrow> candidate_summary \<Rightarrow> script_form \<Rightarrow> worker \<Rightarrow> bool \<times> script_form \<times> worker" where
  "fill_form C ctx p cand f w =
     (let W = en_web (ce_worker C) in
      if \<not> guard_fill W (cs_origin cand) ctx (fo_action f) (resolve_submit_origin f None) then (False, f, w)
      else (case request_release C (cs_credential_id cand) (cs_origin cand) Op_Autofill ctx w of (r, w') \<Rightarrow>
        let f' = ce_change C f in
        (case r of
           None \<Rightarrow> (False, f', w')
         | Some c \<Rightarrow>
             if \<not> guard_fill W (cs_origin cand) ctx (fo_action f') (resolve_submit_origin f' None) then (False, f', w')
             else (case write_released C p c f' of (wrote, f'') \<Rightarrow> (wrote, f'', w')))))"

text \<open>One entry per fill that wrote something.\<close>

record fill_entry =
  fe_env :: content_env
  fe_candidate :: candidate_summary
  fe_worker :: worker
  fe_form :: script_form

text \<open>The k-th message meets the k-th environment.\<close>

fun fill_candidates ::
  "(nat \<Rightarrow> content_env) \<Rightarrow> origin_context \<Rightarrow> field_pair \<Rightarrow> candidate_summary list \<Rightarrow> nat \<Rightarrow> script_form \<Rightarrow> worker
     \<Rightarrow> fill_entry list \<times> nat \<times> script_form \<times> worker" where
  "fill_candidates C ctx p [] k f w = ([], k, f, w)"
| "fill_candidates C ctx p (cand # cs) k f w =
     (case fill_form (C k) ctx p cand f w of (wrote, f1, w1) \<Rightarrow>
      case fill_candidates C ctx p cs (Suc k) f1 w1 of (es, k2, f2, w2) \<Rightarrow>
        ((if wrote then [\<lparr>fe_env = C k, fe_candidate = cand, fe_worker = w, fe_form = ce_change (C k) f\<rparr>] else []) @ es, k2, f2, w2))"

fun fill_forms ::
  "(nat \<Rightarrow> content_env) \<Rightarrow> origin_context \<Rightarrow> candidate_summary list \<Rightarrow> nat \<Rightarrow> script_form list \<Rightarrow> worker
     \<Rightarrow> fill_entry list \<times> script_form list \<times> worker" where
  "fill_forms C ctx cs k [] w = ([], [], w)"
| "fill_forms C ctx cs k (f # fs) w =
     (let p = detect_fields (en_web (ce_worker (C k))) (ce_totp (C k)) f in
      if fp_password p = None \<and> fp_username p = None then
        (case fill_forms C ctx cs k fs w of (es, fs', w') \<Rightarrow> (es, f # fs', w'))
      else (case fill_candidates C ctx p cs k f w of (es1, k1, f1, w1) \<Rightarrow>
        case fill_forms C ctx cs k1 fs w1 of (es2, fs', w') \<Rightarrow> (es1 @ es2, f1 # fs', w')))"

text \<open>The handler of the badge's click.\<close>

definition attempt_fill ::
  "(nat \<Rightarrow> content_env) \<Rightarrow> page_window \<Rightarrow> script_form list \<Rightarrow> worker \<Rightarrow> fill_entry list \<times> script_form list \<times> worker" where
  "attempt_fill C win forms w =
     (let ctx = describe_origin_context win in
      case list_candidates (C 0) (oc_document ctx) w of (cs, w1) \<Rightarrow>
        if cs = [] then ([], forms, w1) else fill_forms C ctx cs 1 forms w1)"

text \<open>On load only the number of candidates is shown.\<close>

definition content_main :: "content_env \<Rightarrow> page_window \<Rightarrow> worker \<Rightarrow> nat \<times> worker" where
  "content_main C win w = apfst length (list_candidates C (oc_document (describe_origin_context win)) w)"

subsection \<open>What every fill has passed\<close>

text \<open>The guard allowed the form as it stands, and the worker answered with the credential.\<close>

definition fill_justified :: "origin_context \<Rightarrow> fill_entry \<Rightarrow> bool" where
  "fill_justified ctx e \<longleftrightarrow>
     guard_fill (en_web (ce_worker (fe_env e))) (cs_origin (fe_candidate e)) ctx (fo_action (fe_form e))
       (resolve_submit_origin (fe_form e) None)
     \<and> (\<exists>c w'. worker_step (ce_worker (fe_env e))
          (Message (Release_Credential (release_message_of (cs_credential_id (fe_candidate e)) (cs_origin (fe_candidate e)) Op_Autofill ctx)))
          (fe_worker e) = (Some (Answered (Credential_Data c)), w'))"

lemma write_nothing: "write_text field (Some []) f = (False, f)"
  by (simp add: write_text_def split: option.splits)

lemma written_fill:
  assumes "fill_form C ctx p cand f w = (True, f1, w1)"
  shows "fill_justified ctx \<lparr>fe_env = C, fe_candidate = cand, fe_worker = w, fe_form = ce_change C f\<rparr>"
  using assms
  by (auto simp: fill_form_def fill_justified_def request_release_def send_to_worker_def worker_step_def Let_def
      split: if_splits prod.splits option.splits worker_reply.splits worker_data.splits)

lemma candidates_justified:
  "fill_candidates C ctx p cs k f w = (es, k2, f2, w2) \<Longrightarrow> e \<in> set es \<Longrightarrow> fill_justified ctx e"
  by (induction C ctx p cs k f w arbitrary: es k2 f2 w2 rule: fill_candidates.induct)
    (auto split: prod.splits if_splits dest!: written_fill)

lemma forms_justified:
  "fill_forms C ctx cs k fs w = (es, fs', w') \<Longrightarrow> e \<in> set es \<Longrightarrow> fill_justified ctx e"
  by (induction C ctx cs k fs w arbitrary: es fs' w' rule: fill_forms.induct)
    (auto simp: Let_def split: prod.splits if_splits dest: candidates_justified)

lemma attempt_justified:
  assumes "e \<in> set (fst (attempt_fill C win forms w))"
  shows "fill_justified (describe_origin_context win) e"
proof -
  obtain cs w1 where l: "list_candidates (C 0) (oc_document (describe_origin_context win)) w = (cs, w1)" by fastforce
  obtain es fs' w' where "fill_forms C (describe_origin_context win) cs 1 forms w1 = (es, fs', w')" by (rule prod_cases3)
  then show ?thesis using assms l
    by (auto simp: attempt_fill_def Let_def split: if_splits dest: forms_justified)
qed

lemma filled_page:
  assumes "fill_justified ctx e"
    and W: "W = en_web (ce_worker (fe_env e))"
    and c: "parse_absolute_origin W (cs_origin (fe_candidate e)) = Inr c" "stable_origin W c"
    and d: "\<And>d. parse_absolute_origin W (oc_document ctx) = Inr d \<Longrightarrow> stable_origin W d"
    and t: "\<And>d t. parse_absolute_origin W (oc_document ctx) = Inr d
      \<Longrightarrow> resolve_against_origin W (fo_action (fe_form e)) (serialized d) = Inr t \<Longrightarrow> stable_origin W t"
  shows "parse_absolute_origin W (oc_document ctx) = Inr c
    \<and> (oc_framed ctx \<longrightarrow> parse_absolute_origin W (oc_top ctx) = Inr c)
    \<and> resolve_against_origin W (fo_action (fe_form e)) (serialized c) = Inr c
    \<and> (\<forall>s. fo_action (fe_form e) = Some s \<longrightarrow> parse_absolute_origin W s = Inr c)"
proof -
  let ?rq = "\<lparr>gr_operation = ''AUTOFILL'', credential_origin = Some (cs_origin (fe_candidate e)), document_origin = oc_document ctx,
       form_action = fo_action (fe_form e), submit_origin = resolve_submit_origin (fe_form e) None,
       top_level_origin = (if oc_framed ctx then Some (oc_top ctx) else None),
       frame_origin = (if oc_framed ctx then Some (oc_document ctx) else None)\<rparr>"
  have g: "is_ok (evaluate_autofill W ?rq)" using assms(1) by (simp add: fill_justified_def guard_fill_def W)
  then obtain dd where dd: "parse_absolute_origin W (oc_document ctx) = Inr dd"
    using c(1) by (cases "parse_absolute_origin W (oc_document ctx)")
      (auto simp: evaluate_autofill_def Let_def split: if_splits)
  have "is_ok (evaluate_autofill W ?rq) \<longleftrightarrow> dd = c \<and> frame_authorized W ?rq c
      \<and> resolve_against_origin W (form_action ?rq) (serialized c) = Inr c \<and> submit_authorized W ?rq c"
    by (rule evaluate_autofill_allow_iff) (use c d dd t in \<open>auto simp: allowed_operations_def\<close>)
  then show ?thesis using g dd
    by (auto simp: frame_authorized_def submit_authorized_def resolve_submit_origin_def)
qed

text \<open>
  The action attribute is passed as the submit target as well, and the guard wants an
  absolute one: a form whose action does not stand for an origin by itself, a relative
  one for example, is never filled.
\<close>

lemma relative_action_refused:
  assumes "fo_action f = Some s" "\<And>c. parse_absolute_origin W s \<noteq> Inr c"
  shows "\<not> guard_fill W cred ctx (fo_action f) (resolve_submit_origin f None)"
proof -
  have no: "compare_absolute_origins W x s \<noteq> O_Equal y" for x y
    using assms(2) compare_equal_iff_same by blast
  show ?thesis
    using no assms(1)
    by (auto simp: guard_fill_def evaluate_autofill_def form_submission_decision_def resolve_submit_origin_def Let_def
        split: option.splits sum.splits origin_comparison.splits if_splits)
qed

lemma relative_action_never_filled:
  assumes "fo_action (fe_form e) = Some s" "\<And>c. parse_absolute_origin (en_web (ce_worker (fe_env e))) s \<noteq> Inr c"
  shows "e \<notin> set (fst (attempt_fill C win forms w))"
  using attempt_justified [of e C win forms w] relative_action_refused [OF assms] by (auto simp: fill_justified_def)

text \<open>Detected fields are fields of the form: a password field of type password, the others of the other types.\<close>

lemma detected_password:
  "fp_password (detect_fields_from W P i xs p) = Some j \<Longrightarrow>
     fp_password p = Some j \<or> i \<le> j \<and> j < i + length xs \<and> is_fillable W (xs ! (j - i)) \<and> input_type W (xs ! (j - i)) = lit ''password''"
proof (induction W P i xs p rule: detect_fields_from.induct)
  case (2 W P i x xs p)
  from 2(2) have "fp_password (detect_fields_from W P (Suc i) xs
     (if \<not> is_fillable W x then p
      else if input_type W x = lit ''password'' then (if fp_password p = None then p\<lparr>fp_password := Some i\<rparr> else p)
      else if fp_totp p = None \<and> is_totp_candidate P x then p\<lparr>fp_totp := Some i\<rparr>
      else if fp_username p = None \<and> is_username_candidate P x (input_type W x) then p\<lparr>fp_username := Some i\<rparr>
      else p)) = Some j" by (simp only: detect_fields_from.simps)
  from 2(1) [OF this] show ?case
    by (auto simp: nth_Cons' Suc_diff_le split: if_splits)
qed simp

lemma password_field_is_password:
  assumes "fp_password (detect_fields W P f) = Some j"
  shows "j < length (fo_inputs f) \<and> input_type W (fo_inputs f ! j) = lit ''password''"
  using detected_password [OF assms [unfolded detect_fields_def]] by simp

text \<open>A field is written once.\<close>

lemma written_once: "write_field i v f = (True, f') \<Longrightarrow> write_field i v' f' = (False, f')"
  by (auto simp: write_field_def Let_def split: if_splits)

end
