(* ===== verification/Popup.thy ===== *)
theory Popup
  imports Service_Worker Step_Up_Api
begin

text \<open>
  The popup of the extension: src/src/ui/popup/popup.ts over the service worker.  The
  state holds what the page keeps in memory, the texts of its fields, what it shows, and
  the entries of local storage it owns; views of the list, buttons and the clipboard are
  left out.  The k-th message of a handler meets the k-th environment, so that anything
  may change in the worker's surroundings in between.
\<close>

subsection \<open>State and platform\<close>

datatype popup_view = View_Login | View_Locked | View_Unlocked

datatype popup_notice = Notice jstr | Worker_Notice worker_error

record add_fields =
  adf_title :: jstr
  adf_username :: jstr
  adf_password :: jstr
  adf_url :: jstr

definition no_add_fields :: add_fields where
  "no_add_fields = \<lparr>adf_title = [], adf_username = [], adf_password = [], adf_url = []\<rparr>"

text \<open>\<^verbatim>\<open>vault_data\<close> and \<^verbatim>\<open>cybervault_email\<close> are storage; the sign-in is the worker's.\<close>

record popup =
  pop_vault :: "json option"
  pop_email :: "jstr option"
  pop_view :: popup_view
  pop_unlocked :: bool
  pop_credentials :: "json list"
  pop_token :: "jstr option"
  pop_shown :: "json list"
  pop_master :: jstr
  pop_add_open :: bool
  pop_add :: add_fields
  pop_login_error :: "jstr option"
  pop_lock_error :: "jstr option"
  pop_add_error :: "popup_notice option"
  pop_challenge :: "jstr option"
  pop_binding :: "step_up_binding option"
  pop_panel :: bool
  pop_status :: jstr
  pop_detail :: jstr
  pop_step_error :: "popup_notice option"
  pop_passphrase :: jstr
  pop_can_submit :: bool

definition closed_popup :: "json option \<Rightarrow> jstr option \<Rightarrow> popup" where
  "closed_popup vault email = \<lparr>pop_vault = vault, pop_email = email, pop_view = View_Login, pop_unlocked = False,
     pop_credentials = [], pop_token = None, pop_shown = [], pop_master = [], pop_add_open = False, pop_add = no_add_fields,
     pop_login_error = None, pop_lock_error = None, pop_add_error = None, pop_challenge = None, pop_binding = None,
     pop_panel = False, pop_status = [], pop_detail = [], pop_step_error = None, pop_passphrase = [], pop_can_submit = False\<rparr>"

text \<open>Answers of Core typed as the code casts them: Answered\_With ok challenge error.\<close>

datatype challenge_answer = Challenge_Unreachable | Answered_With bool "issued_challenge option" "jstr option"

record assertion_response =
  ar_raw_id :: bytes
  ar_client_data :: bytes
  ar_auth_data :: bytes
  ar_signature :: bytes

record attestation_response =
  at_raw_id :: bytes
  at_public_key :: "bytes option"
  at_transports :: "json list"

text \<open>
  None for the authenticator: no API, no device, or the user cancelled; Inr None for a
  registration: it gave nothing, Inl: it threw or there is no API.  The registration
  is posted with the token and the body; None: it cannot be sent.
\<close>

record popup_env =
  pen_worker :: "nat \<Rightarrow> worker_env"
  pen_no_token :: jstr
  pen_now_iso :: jstr
  pen_challenge :: "jstr \<Rightarrow> jstr \<Rightarrow> challenge_purpose \<Rightarrow> challenge_answer"
  pen_proofs :: proof_crypto
  pen_get :: "bytes \<Rightarrow> jstr \<Rightarrow> bytes list \<Rightarrow> assertion_response option"
  pen_create :: "bytes \<Rightarrow> jstr \<Rightarrow> jstr \<Rightarrow> jstr \<Rightarrow> attestation_response option option"
  pen_can_create :: bool
  pen_register :: "jstr \<Rightarrow> json \<Rightarrow> bool option"

definition popup_api_base :: jstr where "popup_api_base = lit ''http://localhost:3010''"

definition tell_worker :: "popup_env \<Rightarrow> nat \<Rightarrow> worker_message \<Rightarrow> worker \<Rightarrow> worker_reply \<times> worker" where
  "tell_worker E k msg w = handle_message (pen_worker E k) msg w"

subsection \<open>Signing in\<close>

definition login_request :: "jstr \<Rightarrow> jstr \<Rightarrow> fetch_request" where
  "login_request email password = \<lparr>hq_url = popup_api_base @ lit ''/api/v1/auth/login'', hq_post = True,
     hq_headers = [(''Content-Type'', lit ''application/json'')],
     hq_body = Some (JObj [(lit ''email'', JStr email), (lit ''password'', JStr password)])\<rparr>"

definition connection_error :: "jstr \<Rightarrow> jstr" where
  "connection_error m = lit ''Error de conexi'' @ [243] @ lit ''n: '' @ m"

definition popup_login :: "popup_env \<Rightarrow> jstr \<Rightarrow> jstr \<Rightarrow> popup \<Rightarrow> worker \<Rightarrow> popup \<times> worker" where
  "popup_login E typed password p w =
     (let email = trim typed; E0 = pen_worker E 0 in
      if email = [] \<or> password = []
      then (p\<lparr>pop_login_error := Some (lit ''Email y contrase'' @ [241] @ lit ''a requeridos'')\<rparr>, w)
      else let p1 = p\<lparr>pop_login_error := None\<rparr> in
        (case en_fetch E0 (login_request email password) of
           Fetch_Failed m \<Rightarrow> (p1\<lparr>pop_login_error := Some (connection_error m)\<rparr>, w)
         | Fetched a \<Rightarrow> (case object_of E0 a of
             Inl m \<Rightarrow> (p1\<lparr>pop_login_error := Some (connection_error m)\<rparr>, w)
           | Inr data \<Rightarrow>
               if ha_ok a \<and> truthy_property data ''token''
               then (p1\<lparr>pop_token := string_property data ''token'', pop_email := Some email, pop_view := View_Locked\<rparr>,
                 w\<lparr>wk_token := string_property data ''token'',
                   wk_user_id := (case string_property data ''userId'' of None \<Rightarrow> wk_user_id w | Some u \<Rightarrow> Some u)\<rparr>)
               else (p1\<lparr>pop_login_error := Some (or_text (string_property data ''error'') ''Credenciales incorrectas'')\<rparr>, w))))"

subsection \<open>The list of credentials\<close>

definition show_list :: "json list \<Rightarrow> popup \<Rightarrow> popup" where
  "show_list cs p = p\<lparr>pop_credentials := cs, pop_shown := cs\<rparr>"

text \<open>
  Showing a null throws and leaves no credentials; so does what is not a list (a text,
  or an object with a length, is left out).
\<close>

definition parsed_credentials :: "json option \<Rightarrow> json list" where
  "parsed_credentials j = (case j of Some (JArr cs) \<Rightarrow> if JNull \<in> set cs then [] else cs | _ \<Rightarrow> [])"

definition load_credentials :: "popup_env \<Rightarrow> nat \<Rightarrow> popup \<Rightarrow> worker \<Rightarrow> popup \<times> worker" where
  "load_credentials E k p w =
     (case (case pop_vault p of None \<Rightarrow> None | Some v \<Rightarrow> string_property v ''encryptedData'') of
        None \<Rightarrow> (show_list [] p, w)
      | Some enc \<Rightarrow>
          if enc = [] then (show_list [] p, w)
          else (case tell_worker E k (Decrypt_Data enc) w of
              (Answered (Text_Data t), w1) \<Rightarrow>
                (show_list (if t = [] then [] else parsed_credentials (json_parse (en_subtle (pen_worker E k)) t)) p, w1)
            | (_, w1) \<Rightarrow> (show_list [] p, w1)))"

text \<open>\<^verbatim>\<open>{ ...vault, encryptedData }\<close>; None: undefined, which storage drops.\<close>

definition with_encrypted :: "json option \<Rightarrow> json \<Rightarrow> json" where
  "with_encrypted d v = (let kvs = (case v of JObj kvs \<Rightarrow> kvs | _ \<Rightarrow> []) in
     JObj (case d of None \<Rightarrow> without (lit ''encryptedData'') kvs | Some x \<Rightarrow> put (lit ''encryptedData'') x kvs))"

definition save_credentials :: "popup_env \<Rightarrow> nat \<Rightarrow> popup \<Rightarrow> worker \<Rightarrow> popup \<times> worker" where
  "save_credentials E k p w = (case pop_vault p of
     None \<Rightarrow> (p, w)
   | Some v \<Rightarrow>
       (case tell_worker E k (Encrypt_Data (json_stringify (en_subtle (pen_worker E k)) (JArr (pop_credentials p)))) w of
          (Answered (Text_Data t), w1) \<Rightarrow> (if t = [] then p else p\<lparr>pop_vault := Some (with_encrypted (Some (JStr t)) v)\<rparr>, w1)
        | (_, w1) \<Rightarrow> (p, w1)))"

text \<open>None: a credential lacks a text that is read, which throws.\<close>

definition text_mentions :: "web \<Rightarrow> jstr \<Rightarrow> json option \<Rightarrow> bool option" where
  "text_mentions W query v = (case v of Some (JStr s) \<Rightarrow> Some (includes_text (to_lower W s) query) | _ \<Rightarrow> None)"

definition or_else :: "bool option \<Rightarrow> bool option \<Rightarrow> bool option" where
  "or_else a b = (case a of Some False \<Rightarrow> b | _ \<Rightarrow> a)"

definition tags_mention :: "web \<Rightarrow> jstr \<Rightarrow> json option \<Rightarrow> bool option" where
  "tags_mention W query v = (case v of
     Some (JArr ts) \<Rightarrow> foldr (\<lambda>t rest. or_else (text_mentions W query (Some t)) rest) ts (Some False) | _ \<Rightarrow> None)"

definition credential_mentions :: "web \<Rightarrow> jstr \<Rightarrow> json \<Rightarrow> bool option" where
  "credential_mentions W query c =
     or_else (text_mentions W query (property_of c ''title''))
    (or_else (text_mentions W query (property_of c ''username''))
    (or_else (if property_of c ''url'' \<in> {None, Some JNull} then Some False else text_mentions W query (property_of c ''url''))
       (tags_mention W query (property_of c ''tags''))))"

definition handle_search :: "popup_env \<Rightarrow> jstr \<Rightarrow> popup \<Rightarrow> popup" where
  "handle_search E typed p =
     (let W = en_web (pen_worker E 0); query = to_lower W (trim typed) in
      if query = [] then p\<lparr>pop_shown := pop_credentials p\<rparr>
      else if list_ex (\<lambda>c. credential_mentions W query c = None) (pop_credentials p) then p
      else p\<lparr>pop_shown := filter (\<lambda>c. credential_mentions W query c = Some True) (pop_credentials p)\<rparr>)"

subsection \<open>The panel of the step-up\<close>

definition show_step_up :: "jstr \<Rightarrow> popup \<Rightarrow> popup" where
  "show_step_up s p = p\<lparr>pop_status := s, pop_step_error := None, pop_panel := True\<rparr>"

definition hide_step_up :: "popup \<Rightarrow> popup" where
  "hide_step_up p = p\<lparr>pop_panel := False, pop_detail := [], pop_passphrase := []\<rparr>"

definition no_pending :: "popup \<Rightarrow> popup" where
  "no_pending p = p\<lparr>pop_challenge := None, pop_binding := None\<rparr>"

text \<open>The first of the pending bindings is started.\<close>

definition check_pending_step_up :: "popup_env \<Rightarrow> nat \<Rightarrow> popup \<Rightarrow> worker \<Rightarrow> popup \<times> worker" where
  "check_pending_step_up E k p w = (case tell_worker E k Get_Pending_Step_Up w of
     (Answered (Pending_Data (b # _)), w1) \<Rightarrow>
       let p1 = show_step_up (lit ''Step-up required for '' @ sb_origin b @ lit ''. Requesting a challenge'' @ [8230])
           (p\<lparr>pop_binding := Some b, pop_passphrase := []\<rparr>) in
       (case tell_worker E (Suc k) (Start_Step_Up (Some (sb_credential_id b)) (Some (sb_origin b)) (Some (sb_operation b))) w1 of
          (Answered (Challenge_Data i _ _), w2) \<Rightarrow>
            if i = [] then (p1\<lparr>pop_step_error := Some (Notice (lit ''The challenge could not be started.''))\<rparr>, w2)
            else (p1\<lparr>pop_challenge := Some i, pop_status := lit ''Approve releasing this credential to the site below?'',
              pop_detail := sb_origin b @ [32, 183, 32] @ lit (op_text (sb_operation b)), pop_can_submit := True\<rparr>, w2)
        | (Failed e, w2) \<Rightarrow> (p1\<lparr>pop_step_error := Some (Worker_Notice e)\<rparr>, w2)
        | (_, w2) \<Rightarrow> (p1\<lparr>pop_step_error := Some (Notice (lit ''The challenge could not be started.''))\<rparr>, w2))
   | (_, w1) \<Rightarrow> (hide_step_up (no_pending p), w1))"

definition handle_dismiss_step_up :: "popup \<Rightarrow> popup" where
  "handle_dismiss_step_up p = hide_step_up (no_pending p)"

subsection \<open>Opening, unlocking, locking\<close>

definition check_auth_state :: "popup_env \<Rightarrow> popup \<Rightarrow> worker \<Rightarrow> popup \<times> worker" where
  "check_auth_state E p w =
     (let p1 = p\<lparr>pop_token := wk_token w\<rparr> in
      case tell_worker E 0 Check_Vault_Status w of
        (Answered (Status_Data True), w1) \<Rightarrow>
          (case load_credentials E 1 (p1\<lparr>pop_unlocked := True, pop_view := View_Unlocked\<rparr>) w1 of (p2, w2) \<Rightarrow>
            check_pending_step_up E 2 p2 w2)
      | (_, w1) \<Rightarrow> (p1\<lparr>pop_view := (if absent (wk_token w) then View_Login else View_Locked)\<rparr>, w1))"

definition open_popup :: "popup_env \<Rightarrow> popup \<Rightarrow> worker \<Rightarrow> popup \<times> worker" where
  "open_popup E old w = check_auth_state E (closed_popup (pop_vault old) (pop_email old)) w"

definition bearer :: "popup_env \<Rightarrow> popup \<Rightarrow> jstr" where
  "bearer E p = lit ''Bearer '' @ (case pop_token p of None \<Rightarrow> pen_no_token E | Some t \<Rightarrow> t)"

definition vaults_request :: "popup_env \<Rightarrow> popup \<Rightarrow> fetch_request" where
  "vaults_request E p = \<lparr>hq_url = popup_api_base @ lit ''/api/v1/vaults'', hq_post = False,
     hq_headers = [(''Authorization'', bearer E p)], hq_body = None\<rparr>"

definition unlock_request :: "popup_env \<Rightarrow> popup \<Rightarrow> jstr \<Rightarrow> fetch_request" where
  "unlock_request E p i = \<lparr>hq_url = popup_api_base @ lit ''/api/v1/vaults/'' @ i @ lit ''/unlock'', hq_post = True,
     hq_headers = [(''Authorization'', bearer E p), (''Content-Type'', lit ''application/json'')], hq_body = None\<rparr>"

definition unlock_failed :: "popup \<Rightarrow> popup" where
  "unlock_failed p = p\<lparr>pop_lock_error := Some (lit ''Frase maestra incorrecta o error al descifrar'')\<rparr>"

text \<open>The identifier of a vault is a text.\<close>

definition vault_id_of :: "json \<Rightarrow> jstr" where
  "vault_id_of v = (case string_property v ''id'' of None \<Rightarrow> lit ''undefined'' | Some i \<Rightarrow> i)"

definition unlock_with :: "popup_env \<Rightarrow> jstr \<Rightarrow> json \<Rightarrow> popup \<Rightarrow> worker \<Rightarrow> popup \<times> worker" where
  "unlock_with E passphrase vault p w =
     (case en_fetch (pen_worker E 0) (unlock_request E p (vault_id_of vault)) of
        Fetch_Failed _ \<Rightarrow> (unlock_failed p, w)
      | Fetched a \<Rightarrow>
          if \<not> ha_ok a then (unlock_failed p, w)
          else (case ha_json a of
              Inl _ \<Rightarrow> (unlock_failed p, w)
            | Inr data \<Rightarrow> (case tell_worker E 0 (Unlock_Vault (vault_id_of vault) (Some passphrase)) w of
                (Answered (Unlocked_Data _), w1) \<Rightarrow>
                  if data = JNull then (unlock_failed p, w1)
                  else (case load_credentials E 1
                      (p\<lparr>pop_vault := Some (with_encrypted (property_of data ''encryptedData'') vault), pop_unlocked := True,
                         pop_view := View_Unlocked, pop_master := []\<rparr>) w1 of (p2, w2) \<Rightarrow>
                    check_pending_step_up E 2 p2 w2)
              | (_, w1) \<Rightarrow> (unlock_failed p, w1))))"

definition handle_unlock :: "popup_env \<Rightarrow> popup \<Rightarrow> worker \<Rightarrow> popup \<times> worker" where
  "handle_unlock E p w =
     (let passphrase = trim (pop_master p); E0 = pen_worker E 0 in
      if passphrase = [] then (p\<lparr>pop_lock_error := Some (lit ''Passphrase required'')\<rparr>, w)
      else let p1 = p\<lparr>pop_lock_error := None\<rparr> in
        (case en_fetch E0 (vaults_request E p1) of
           Fetch_Failed _ \<Rightarrow> (unlock_failed p1, w)
         | Fetched a \<Rightarrow>
             if ha_status a = 401 then (p1\<lparr>pop_token := None, pop_view := View_Login\<rparr>, w\<lparr>wk_token := None\<rparr>)
             else (case object_of E0 a of
                 Inl _ \<Rightarrow> (unlock_failed p1, w)
               | Inr data \<Rightarrow>
                   if \<not> truthy_property data ''vaults'' \<or> property_of data ''vaults'' = Some (JArr [])
                   then (p1\<lparr>pop_lock_error := Some (lit ''No vault found. Create one in the web app first.'')\<rparr>, w)
                   else (case property_of data ''vaults'' of
                       Some (JArr (v # _)) \<Rightarrow> if v = JNull then (unlock_failed p1, w) else unlock_with E passphrase v p1 w
                     | _ \<Rightarrow> (unlock_failed p1, w)))))"

definition handle_lock :: "popup_env \<Rightarrow> popup \<Rightarrow> worker \<Rightarrow> popup \<times> worker" where
  "handle_lock E p w = (case tell_worker E 0 Lock_Vault w of (_, w1) \<Rightarrow>
     (hide_step_up (p\<lparr>pop_vault := None, pop_unlocked := False, pop_credentials := [], pop_shown := []\<rparr>)
        \<lparr>pop_view := View_Locked\<rparr>, w1))"

subsection \<open>Adding a credential\<close>

definition url_origin :: "url \<Rightarrow> jstr" where
  "url_origin u = u_protocol u @ lit ''//'' @ u_hostname u @ (if u_port u = [] then [] else 58 # u_port u)"

definition to_bound_origin :: "web \<Rightarrow> jstr \<Rightarrow> jstr option" where
  "to_bound_origin W raw =
     (let s = trim raw in
      if s = [] then None
      else (case parse_url W s of
          None \<Rightarrow> None
        | Some u \<Rightarrow> if u_protocol u \<noteq> lit ''http:'' \<and> u_protocol u \<noteq> lit ''https:'' then None else Some (url_origin u)))"

definition hide_add_form :: "popup \<Rightarrow> popup" where
  "hide_add_form p = p\<lparr>pop_add_open := False, pop_add_error := None, pop_add := no_add_fields\<rparr>"

definition new_credential :: "jstr \<Rightarrow> jstr \<Rightarrow> jstr \<Rightarrow> jstr \<Rightarrow> jstr \<Rightarrow> jstr \<Rightarrow> json" where
  "new_credential i title username password orig now = JObj [(lit ''id'', JStr i), (lit ''vaultId'', JStr []),
     (lit ''title'', JStr title), (lit ''username'', JStr username), (lit ''password'', JStr password),
     (lit ''url'', JStr orig), (lit ''tags'', JArr []), (lit ''favorite'', JBool False),
     (lit ''createdAt'', JStr now), (lit ''updatedAt'', JStr now)]"

definition author_message_of :: "jstr \<Rightarrow> jstr \<Rightarrow> jstr \<Rightarrow> jstr \<Rightarrow> author_message" where
  "author_message_of orig username password title = \<lparr>am_origin = Some orig, am_username = Some username,
     am_password = Some password, am_title = Some title, am_totp_seed = None\<rparr>"

definition handle_add_credential :: "popup_env \<Rightarrow> popup \<Rightarrow> worker \<Rightarrow> popup \<times> worker" where
  "handle_add_credential E p w =
     (let title = trim (adf_title (pop_add p)); username = trim (adf_username (pop_add p)); password = adf_password (pop_add p) in
      if title = [] \<or> username = [] \<or> password = [] then (p, w)
      else (case to_bound_origin (en_web (pen_worker E 0)) (adf_url (pop_add p)) of
          None \<Rightarrow> (p\<lparr>pop_add_error := Some (Notice (lit ''Add the site as a full origin, e.g. https://example.com '' @ [8212]
            @ lit '' a credential with no site can never be filled.''))\<rparr>, w)
        | Some orig \<Rightarrow>
            let p1 = p\<lparr>pop_add_error := None\<rparr>; unsaved = Notice (lit ''The credential could not be saved.'') in
            (case tell_worker E 0 (Author_Credential (author_message_of orig username password title)) w of
               (Answered (Authored_Data i _ _ _), w1) \<Rightarrow>
                 if i = [] then (p1\<lparr>pop_add_error := Some unsaved\<rparr>, w1)
                 else (case save_credentials E 1
                     (p1\<lparr>pop_credentials := pop_credentials p @ [new_credential i title username password orig (pen_now_iso E)]\<rparr>) w1 of
                   (p2, w2) \<Rightarrow> ((hide_add_form p2)\<lparr>pop_shown := pop_credentials p2\<rparr>, w2))
             | (Failed e, w1) \<Rightarrow> (p1\<lparr>pop_add_error := Some (Worker_Notice e)\<rparr>, w1)
             | (_, w1) \<Rightarrow> (p1\<lparr>pop_add_error := Some unsaved\<rparr>, w1))))"

subsection \<open>Approving a release\<close>

definition fetch_approval_challenge :: "popup_env \<Rightarrow> popup \<Rightarrow> jstr \<Rightarrow> challenge_purpose \<Rightarrow> jstr + issued_challenge" where
  "fetch_approval_challenge E p i purpose =
     (if absent (pop_token p) then Inl (lit ''You are not signed in.'')
      else (case pen_challenge E (the (pop_token p)) i purpose of
          Challenge_Unreachable \<Rightarrow> Inl (lit ''Could not reach the approval service.'')
        | Answered_With ok c m \<Rightarrow> (case c of
            Some ch \<Rightarrow> if ok then Inr ch else Inl (case m of None \<Rightarrow> lit ''The approval challenge is unavailable.'' | Some s \<Rightarrow> s)
          | None \<Rightarrow> Inl (case m of None \<Rightarrow> lit ''The approval challenge is unavailable.'' | Some s \<Rightarrow> s))))"

fun decode_all :: "jstr list \<Rightarrow> bytes list option" where
  "decode_all [] = Some []"
| "decode_all (s # ss) = (case (base64_url_to_bytes s, decode_all ss) of (Some b, Some bs) \<Rightarrow> Some (b # bs) | _ \<Rightarrow> None)"

definition get_assertion_proof :: "popup_env \<Rightarrow> issued_challenge \<Rightarrow> step_up_proof option" where
  "get_assertion_proof E c =
     (if \<not> ic_has_authenticator c \<or> absent (ic_rp_id c) \<or> ic_credential_ids c = [] then None
      else (case (base64_url_to_bytes (ic_challenge c), decode_all (ic_credential_ids c)) of
          (Some ch, Some ids) \<Rightarrow> map_option (\<lambda>r. Webauthn_Proof \<lparr>wp_challenge_id = ic_challenge_id c,
              wp_approval_challenge_id = ic_approval_challenge_id c, wp_credential_id = bytes_to_base64_url (ar_raw_id r),
              wp_client_data_json = bytes_to_base64_url (ar_client_data r),
              wp_authenticator_data = bytes_to_base64_url (ar_auth_data r),
              wp_signature = bytes_to_base64_url (ar_signature r)\<rparr>) (pen_get E ch (the (ic_rp_id c)) ids)
        | _ \<Rightarrow> None))"

text \<open>A typed passphrase goes before a device.\<close>

definition build_approval_proof :: "popup_env \<Rightarrow> popup \<Rightarrow> issued_challenge \<Rightarrow> jstr + step_up_proof" where
  "build_approval_proof E p c =
     (if pop_passphrase p \<noteq> [] then Inr (Passphrase_Proof \<lparr>pp_challenge_id = ic_challenge_id c,
         pp_approval_challenge_id = ic_approval_challenge_id c,
         pp_value = derive_passphrase_proof (pen_proofs E) (pop_passphrase p) (ic_user_salt c) (ic_challenge_id c) (ic_salt c)\<rparr>)
      else (case get_assertion_proof E c of
          Some a \<Rightarrow> Inr a
        | None \<Rightarrow> Inl (if ic_has_authenticator c then lit ''The device check was not completed. Try again, or enter your passphrase.''
            else lit ''Enter your passphrase to approve this release.'')))"

definition proof_json :: "step_up_proof \<Rightarrow> json" where
  "proof_json pr = (case pr of
     Passphrase_Proof q \<Rightarrow> JObj [(lit ''type'', JStr (lit ''passphrase'')), (lit ''challengeId'', JStr (pp_challenge_id q)),
       (lit ''approvalChallengeId'', JStr (pp_approval_challenge_id q)), (lit ''value'', JStr (pp_value q))]
   | Webauthn_Proof q \<Rightarrow> JObj [(lit ''type'', JStr (lit ''webauthn'')), (lit ''challengeId'', JStr (wp_challenge_id q)),
       (lit ''approvalChallengeId'', JStr (wp_approval_challenge_id q)), (lit ''credentialId'', JStr (wp_credential_id q)),
       (lit ''clientDataJSON'', JStr (wp_client_data_json q)), (lit ''authenticatorData'', JStr (wp_authenticator_data q)),
       (lit ''signature'', JStr (wp_signature q))])"

definition step_error :: "jstr \<Rightarrow> popup \<Rightarrow> popup" where
  "step_error m p = p\<lparr>pop_step_error := Some (Notice m), pop_can_submit := True\<rparr>"

text \<open>The gesture is recorded in the pilot before the worker is told.\<close>

definition handle_submit_step_up :: "popup_env \<Rightarrow> popup \<Rightarrow> worker \<Rightarrow> popup \<times> worker" where
  "handle_submit_step_up E p w = (case pop_challenge p of
     None \<Rightarrow> (p\<lparr>pop_step_error := Some (Notice (lit ''There is no pending approval.''))\<rparr>, w)
   | Some i \<Rightarrow>
       if i = [] then (p\<lparr>pop_step_error := Some (Notice (lit ''There is no pending approval.''))\<rparr>, w)
       else let p1 = p\<lparr>pop_step_error := None, pop_can_submit := True\<rparr> in
       (case fetch_approval_challenge E p1 i Release_Purpose of
          Inl m \<Rightarrow> (step_error m p1, w)
        | Inr c \<Rightarrow> (case build_approval_proof E p1 c of
            Inl m \<Rightarrow> (step_error m p1, w)
          | Inr pr \<Rightarrow>
              let w1 = w\<lparr>wk_pilot := record_gesture_start (en_clock (pen_worker E 0)) (wk_pilot w)\<rparr> in
              (case tell_worker E 0 (Approve_Step_Up i (Some (proof_json pr))) w1 of
                 (Answered _, w2) \<Rightarrow> ((no_pending p1)\<lparr>pop_passphrase := [],
                   pop_status := lit ''Approved. Retry the fill to release the credential.'', pop_detail := []\<rparr>, w2)
               | (Failed e, w2) \<Rightarrow> (p1\<lparr>pop_step_error := Some (Worker_Notice e), pop_passphrase := []\<rparr>, w2)))))"

definition register_body :: "step_up_proof \<Rightarrow> attestation_response \<Rightarrow> bytes \<Rightarrow> json" where
  "register_body pr r key = JObj [(lit ''proof'', proof_json pr), (lit ''credentialId'', JStr (bytes_to_base64_url (at_raw_id r))),
     (lit ''publicKey'', JStr (bytes_to_base64_url key)), (lit ''alg'', JNum (- 7)), (lit ''transports'', JArr (at_transports r))]"

definition handle_register_step_up :: "popup_env \<Rightarrow> popup \<Rightarrow> worker \<Rightarrow> popup" where
  "handle_register_step_up E p w =
     (let failed = step_error (lit ''The device could not be registered.''); nothing = step_error (lit ''The device was not registered.'') in
      case pop_challenge p of
        None \<Rightarrow> p\<lparr>pop_step_error := Some (Notice (lit ''There is no pending approval to register from.''))\<rparr>
      | Some i \<Rightarrow>
          if i = [] then p\<lparr>pop_step_error := Some (Notice (lit ''There is no pending approval to register from.''))\<rparr>
          else let p1 = p\<lparr>pop_step_error := None, pop_can_submit := True\<rparr> in
          (case fetch_approval_challenge E p1 i Enroll_Purpose of
             Inl m \<Rightarrow> step_error m p1
           | Inr c \<Rightarrow> (case build_approval_proof E p1 c of
               Inl m \<Rightarrow> step_error m p1
             | Inr pr \<Rightarrow>
                 if absent (ic_rp_id c) \<or> \<not> pen_can_create E then step_error (lit ''This browser cannot register an approval device.'') p1
                 else if absent (wk_user_id w) \<or> absent (pop_email p) then step_error (lit ''Your account could not be identified.'') p1
                 else (case base64_url_to_bytes (ic_challenge c) of
                     None \<Rightarrow> failed p1
                   | Some ch \<Rightarrow> (case pen_create E ch (the (ic_rp_id c)) (the (wk_user_id w)) (the (pop_email p)) of
                       None \<Rightarrow> failed p1
                     | Some None \<Rightarrow> nothing p1
                     | Some (Some r) \<Rightarrow> (case at_public_key r of
                         None \<Rightarrow> nothing p1
                       | Some key \<Rightarrow>
                           (case pen_register E (case pop_token p of None \<Rightarrow> [] | Some t \<Rightarrow> t) (register_body pr r key) of
                              Some True \<Rightarrow> p1\<lparr>pop_passphrase := [],
                                pop_status := lit ''Device registered. Approve the release when ready.''\<rparr>
                            | _ \<Rightarrow> failed p1)))))))"

subsection \<open>Facts\<close>

text \<open>What Core reads of a proof the popup sends is that proof.\<close>

lemma proof_json_reads:
  assumes "proof_approval_challenge_id pr \<noteq> []" and "expected = None \<or> expected = Some (proof_challenge_id pr)"
    and "\<And>q. pr = Webauthn_Proof q \<Longrightarrow> wp_credential_id q \<noteq> [] \<and> wp_client_data_json q \<noteq> []
      \<and> wp_authenticator_data q \<noteq> [] \<and> wp_signature q \<noteq> []"
  shows "precheck_proof_shape (Some (proof_json pr)) expected = Inr pr"
proof (cases pr)
  case (Passphrase_Proof q)
  then show ?thesis using assms
    by (auto simp: proof_json_def precheck_proof_shape_def is_object_def is_step_up_proof_type_def property_of_def present_string_def
        string_property_def proof_approval_challenge_id_def proof_challenge_id_def Let_def lit_def split: list.splits)
next
  case (Webauthn_Proof q)
  then show ?thesis using assms
    by (auto simp: proof_json_def precheck_proof_shape_def is_object_def is_step_up_proof_type_def property_of_def present_string_def
        string_property_def proof_approval_challenge_id_def proof_challenge_id_def Let_def lit_def split: list.splits)
qed

text \<open>The passphrase typed into the popup answers the challenge Core issued.\<close>

lemma typed_passphrase_accepted:
  assumes issued: "handle_approval_challenge Ec rq st = (SU_Challenge c, st')"
    and user: "us_by_id (se_users Ec) (ss_users st) (the (sr_user rq)) = Some user"
    and stored: "hash_password P rnd password = (su_hash user, su_salt user)" "\<And>k s. length (pc_pbkdf2 P k s) = 64"
    and typed: "pop_passphrase p = password" "password \<noteq> []" "pen_proofs E = P" "sr_uuid rq \<noteq> []"
  shows "\<exists>pr row. build_approval_proof E p c = Inr pr \<and> sc_id row = ic_approval_challenge_id c \<and> sc_binding_id row = ic_challenge_id c
    \<and> sc_purpose row = ic_purpose c
    \<and> fst (ac_save (se_challenges Ec) (ss_challenges st) row) \<in> range Inr
    \<and> precheck_proof_shape (Some (proof_json pr)) (Some (ic_challenge_id c)) = Inr pr
    \<and> verify_step_up_proof S P pr row user (ic_purpose c) look webauthn = Proof_Accepted None None"
proof -
  let ?row = "\<lambda>purpose i. new_approval_challenge rq (read_webauthn_config (se_rp_id Ec) (se_origin Ec)) (the (sr_user rq)) purpose i"
  have "\<exists>purpose i. fst (ac_save (se_challenges Ec) (ss_challenges st) (?row purpose i)) = Inr () \<and>
    ic_approval_challenge_id c = sc_id (?row purpose i) \<and> ic_challenge_id c = sc_binding_id (?row purpose i) \<and>
    ic_purpose c = sc_purpose (?row purpose i) \<and> ic_salt c = sc_salt (?row purpose i) \<and> ic_user_salt c = su_salt user"
    using issued user
    by (auto simp: handle_approval_challenge_def Let_def split: if_splits option.splits sum.splits prod.splits intro!: exI)
  then obtain purpose i where r: "fst (ac_save (se_challenges Ec) (ss_challenges st) (?row purpose i)) = Inr ()"
    "ic_approval_challenge_id c = sc_id (?row purpose i)" "ic_challenge_id c = sc_binding_id (?row purpose i)"
    "ic_purpose c = sc_purpose (?row purpose i)" "ic_salt c = sc_salt (?row purpose i)" "ic_user_salt c = su_salt user" by blast
  obtain row where row: "row = ?row purpose i" by blast
  note c = r [folded row]
  have id: "sc_id row = sr_uuid rq" by (simp add: row new_approval_challenge_def)
  let ?v = "derive_passphrase_proof P password (su_salt user) (sc_binding_id row) (sc_salt row)"
  let ?pr = "Passphrase_Proof \<lparr>pp_challenge_id = sc_binding_id row, pp_approval_challenge_id = sc_id row, pp_value = ?v\<rparr>"
  have "build_approval_proof E p c = Inr ?pr" using typed c by (simp add: build_approval_proof_def)
  moreover have "precheck_proof_shape (Some (proof_json ?pr)) (Some (ic_challenge_id c)) = Inr ?pr"
    using typed(4) id c by (intro proof_json_reads) (simp_all add: proof_approval_challenge_id_def proof_challenge_id_def)
  moreover have "?v \<noteq> []"
    using stored(2) by (auto simp: derive_passphrase_proof_def Let_def bytes_to_hex_def dest!: arg_cong [where f = length] simp: length_to_hex)
  then have "verify_step_up_proof S P ?pr row user (ic_purpose c) look webauthn = Proof_Accepted None None"
    using passphrase_proof_verifies [OF stored(2,1)] c by (simp add: verify_step_up_proof_def proof_challenge_id_def)
  ultimately show ?thesis using c by (intro exI [of _ ?pr] exI [of _ row]) simp
qed

text \<open>An added credential is in the list when the popup reads it back.\<close>

lemma saved_list_reads_back:
  assumes k: "sa_key (ka_session (wk_keys w)) = Some key" "key \<noteq> []"
    and vault: "pop_vault p = Some v" and S: "S = en_subtle (pen_worker E k)" "S = en_subtle (pen_worker E' k')"
    and ok: "aead_ok S" "decodes S (json_stringify S (JArr (pop_credentials p)))" "length (en_iv (pen_worker E k)) = aes_iv_length"
      "json_parse S (json_stringify S (JArr (pop_credentials p))) = Some (JArr (pop_credentials p))" "JNull \<notin> set (pop_credentials p)"
      "json_stringify S (JArr (pop_credentials p)) \<noteq> []"
    and enc: "encrypt_with_key S (en_iv (pen_worker E k)) (json_stringify S (JArr (pop_credentials p))) key = Inr t" "t \<noteq> []"
  shows "load_credentials E' k' (fst (save_credentials E k p w)) w
    = (show_list (pop_credentials p) (fst (save_credentials E k p w)), w)
    \<and> snd (save_credentials E k p w) = w"
proof -
  have e: "tell_worker E k (Encrypt_Data (json_stringify S (JArr (pop_credentials p)))) w = (Answered (Text_Data t), w)"
    using k enc by (simp add: tell_worker_def handle_message_def handle_encrypt_data_def with_session_key_def absent_def S(1) Let_def)
  have d: "tell_worker E' k' (Decrypt_Data t) w = (Answered (Text_Data (json_stringify S (JArr (pop_credentials p)))), w)"
    using k encrypted_with_key_opens [OF ok(1-3) enc(1)]
    by (simp add: tell_worker_def handle_message_def handle_decrypt_data_def with_session_key_def absent_def S(2) [symmetric] Let_def)
  have f: "string_property (with_encrypted (Some (JStr t)) v) ''encryptedData'' = Some t"
    by (simp add: string_property_def property_of_def with_encrypted_def Let_def)
  show ?thesis using e d f vault ok enc(2)
    by (simp add: save_credentials_def load_credentials_def S(1) [symmetric] S(2) [symmetric] parsed_credentials_def)
qed

text \<open>Locking leaves nothing of the list, the stored vault or the typed passphrase in the popup.\<close>

lemma locked_popup_empty:
  "handle_lock E p w = (p', w') \<Longrightarrow> pop_vault p' = None \<and> pop_credentials p' = [] \<and> pop_shown p' = [] \<and> pop_passphrase p' = []
     \<and> pop_view p' = View_Locked \<and> \<not> pop_unlocked p' \<and> \<not> pop_panel p'"
  by (auto simp: handle_lock_def hide_step_up_def split: prod.splits)

text \<open>A passphrase that was sent as a proof does not stay in its field.\<close>

lemma submitted_passphrase_cleared:
  assumes "handle_submit_step_up E p w = (p', w')" "w' \<noteq> w" shows "pop_passphrase p' = []"
  using assms by (auto simp: handle_submit_step_up_def Let_def no_pending_def split: option.splits if_splits sum.splits prod.splits worker_reply.splits)

text \<open>
  Unlocking replaces the stored list by Core's copy, whatever was added since: additions
  are never sent to Core.
\<close>

lemma unlock_takes_cores_copy: "unlock_with E pw v (p\<lparr>pop_vault := x\<rparr>) w = unlock_with E pw v p w
     \<or> fst (unlock_with E pw v p w) = unlock_failed p"
  by (auto simp: unlock_with_def unlock_request_def bearer_def unlock_failed_def split: http_outcome.splits sum.splits prod.splits worker_reply.splits worker_data.splits)

text \<open>A list that cannot be decrypted counts as empty, and the next addition is saved in its place.\<close>

lemma undecryptable_list_dropped:
  assumes "pop_vault p = Some v" "string_property v ''encryptedData'' = Some enc" "tell_worker E k (Decrypt_Data enc) w = (Failed e, w1)"
  shows "pop_credentials (fst (load_credentials E k p w)) = []"
  using assms by (auto simp: load_credentials_def show_list_def)

text \<open>A start that fails leaves the challenge of an earlier binding beside the new one's text.\<close>

lemma failed_start_keeps_challenge:
  assumes "tell_worker E k Get_Pending_Step_Up w = (Answered (Pending_Data (b # bs)), w1)"
    and "tell_worker E (Suc k) (Start_Step_Up (Some (sb_credential_id b)) (Some (sb_origin b)) (Some (sb_operation b))) w1 = (Failed e, w2)"
  shows "pop_challenge (fst (check_pending_step_up E k p w)) = pop_challenge p
    \<and> pop_binding (fst (check_pending_step_up E k p w)) = Some b"
  using assms by (simp add: check_pending_step_up_def show_step_up_def Let_def)

text \<open>
  The site the popup binds is one the worker accepts: reading its address gives the
  canonical origin of what was typed.
\<close>

lemma bound_origin_accepted:
  assumes "to_bound_origin W raw = Some o'" "parse_url W (trim raw) = Some u"
    and "parse_url W (url_origin u) = Some u" "trim (url_origin u) = url_origin u" "url_origin u \<noteq> []"
  shows "parse_absolute_origin W o' = parse_absolute_origin W raw"
  using assms by (auto simp: to_bound_origin_def parse_absolute_origin_def Let_def split: if_splits)

end
