(* ===== verification/Extension_Properties.thy ===== *)
theory Extension_Properties
  imports Content_Autofill Worker_Properties Keys_Properties Popup Step_Up_Properties
begin

text \<open>The properties of the content script and of the popup.\<close>

section \<open>The content script\<close>

text \<open>What a page receives from the content script, the service worker included.\<close>

subsection \<open>A concrete page\<close>

definition cp_window :: page_window where
  "cp_window = \<lparr>pw_location = \<lparr>loc_protocol = lit ''https:'', loc_hostname = lit ''a.io'', loc_port = []\<rparr>, pw_top = Top_Self\<rparr>"

definition cp_input :: script_input where
  "cp_input = \<lparr>in_type_attribute = Some (lit ''password''), in_name = [], in_id = [], in_placeholder = [],
     in_autocomplete = None, in_disabled = False, in_read_only = False, in_filled = False, in_value = []\<rparr>"

definition cp_form :: script_form where
  "cp_form = \<lparr>fo_action = None, fo_inputs = [cp_input]\<rparr>"

definition cp_env :: "nat \<Rightarrow> content_env" where
  "cp_env k = \<lparr>ce_worker = wp_env wp_granting, ce_arrives = True, ce_change = (\<lambda>f. f), ce_totp = tk_platform\<rparr>"

definition cp_worker :: "authoring_success \<Rightarrow> worker" where
  "cp_worker out = wp_worker (Some (au_index out)) [lit ''c1'' \<mapsto> encrypted_record.truncate (au_record out)]"

lemma cp_origin: "origin_from_location (pw_location cp_window) = lit ''https://a.io''"
  by (simp add: cp_window_def origin_from_location_def lit_def)

lemma cp_context: "describe_origin_context cp_window
    = \<lparr>oc_document = lit ''https://a.io'', oc_top = lit ''https://a.io'', oc_framed = False\<rparr>"
  using cp_origin by (simp add: describe_origin_context_def Let_def) (simp add: cp_window_def)

lemma cp_author:
  "\<exists>out t. author_credential sample_web sample_subtle sample_input (Some sample_vek) None sample_random
       = (Inr out, Some sample_vek)
     \<and> encrypted_record.er_id (au_record out) = lit ''c1''
     \<and> ar_origin (au_record out) = serialized (origin_of ''https'' ''a.io'')
     \<and> compute_lookup_token sample_web sample_subtle (lit ''https://a.io'')
         (Some (derive_domain_index_key sample_subtle sample_vek)) = Inr t
     \<and> token_origin t = origin_of ''https'' ''a.io''
     \<and> au_index out = add_to_index empty_index (token t) (lit ''c1'')"
  by (simp add: author_credential_def validate_authoring_origin_def sample_input_def absolute_prefix_def
        scheme_char_def starts_with_def sample_eval validate_authoring_fields_def effective_username_def
        effective_title_def seal_and_register_credential_def personal_key_decodes seal_def
        sample_subtle_def sample_random_def compute_lookup_token_def Let_def)

abbreviation cp_bound :: canonical_origin where "cp_bound \<equiv> origin_of ''https'' ''a.io''"

lemma cp_parse: "parse_absolute_origin sample_web (serialized cp_bound) = Inr cp_bound"
  using sample_stable_a by (simp add: stable_origin_def)

lemma cp_open: "wp_open (cp_worker out)"
  by (simp add: cp_worker_def wp_open_def wp_worker_def)

lemma cp_listed:
  assumes out: "encrypted_record.er_id (au_record out) = lit ''c1''"
    "compute_lookup_token sample_web sample_subtle (lit ''https://a.io'')
         (Some (derive_domain_index_key sample_subtle sample_vek)) = Inr t"
    "token_origin t = origin_of ''https'' ''a.io''" "au_index out = add_to_index empty_index (token t) (lit ''c1'')"
  shows "\<exists>x u v. list_candidates (cp_env 0) (lit ''https://a.io'') (cp_worker out)
    = ([\<lparr>cs_credential_id = lit ''c1'', cs_origin = serialized cp_bound, has_totp = x, cs_title = u, cs_username_hint = v\<rparr>], cp_worker out)"
proof -
  have "lookup_index (au_index out) (token t) = [lit ''c1'']"
    by (simp add: out(4) lookup_index_def add_to_index_def empty_index_def Let_def)
  moreover have "get_vek (release_deps_of E (cp_worker out) (Some sample_vek)) = Some sample_vek"
    "get_index (release_deps_of E (cp_worker out) (Some sample_vek)) = Some (au_index out)"
    "get_record (release_deps_of E (cp_worker out) (Some sample_vek)) (lit ''c1'') = Some (Some (encrypted_record.truncate (au_record out)))" for E
    by (simp_all add: release_deps_of_def cp_worker_def wp_worker_def)
  ultimately show ?thesis
    using wp_vek [OF cp_open [of out]]
    by (simp add: list_candidates_def send_to_worker_def handle_message_def handle_list_credentials_def cp_env_def
        list_candidates_for_origin_def out(2,3) snd_and_then)
qed

lemma cp_released:
  assumes out: "author_credential sample_web sample_subtle sample_input (Some sample_vek) None sample_random
       = (Inr out, Some sample_vek)"
     "encrypted_record.er_id (au_record out) = lit ''c1''"
     "ar_origin (au_record out) = serialized (origin_of ''https'' ''a.io'')"
  shows "\<exists>w'. request_release (cp_env 1) (lit ''c1'') (serialized cp_bound) Op_Autofill (describe_origin_context cp_window) (cp_worker out)
    = (Some \<lparr>rc_id = lit ''c1'', rc_username = lit ''bob'', rc_password = lit ''pw'', rc_totp_secret = None\<rparr>, w')"
proof -
  let ?m = "release_message_of (lit ''c1'') (serialized cp_bound) Op_Autofill (describe_origin_context cp_window)"
  have "snd (release_credential sample_web sample_subtle (release_request_of ?m) (release_deps_of (wp_env wp_granting) (cp_worker out) (Some sample_vek)))
      = Inr \<lparr>rc_id = encrypted_record.er_id (au_record out), rc_username = effective_username (ai_username sample_input),
              rc_password = ai_password sample_input, rc_totp_secret = authored_totp sample_web sample_input\<rparr>"
    using sample_json sample_envelope_decodes out(2) sample_no_totp
    by (intro release_authored [OF out(1) sample_aead_ok _ _ _ _ _ _ out(3) sample_stable_a])
       (simp_all add: sample_username sample_random_def salt_len_def iv_len_def release_deps_of_def cp_worker_def wp_worker_def
          release_request_of_def release_message_of_def cp_context sample_parse_a cp_parse)
  then have r: "snd (release_credential sample_web sample_subtle (release_request_of ?m) (release_deps_of (wp_env wp_granting) (cp_worker out) (Some sample_vek)))
      = Inr \<lparr>rc_id = lit ''c1'', rc_username = lit ''bob'', rc_password = lit ''pw'', rc_totp_secret = None\<rparr>"
    by (simp add: out(2) sample_username sample_no_totp) (simp add: sample_input_def)
  have "wk_gate (cp_worker out) = \<lparr>gt_challenged = [], gt_completed = [], gt_stored = None\<rparr>"
    by (simp add: cp_worker_def wp_worker_def)
  then have "\<not> refuses_early b (wk_gate (cp_worker out))" "\<not> session_owes_step_up b (wk_gate (cp_worker out))" for b
    by (simp_all add: refuses_early_def session_owes_step_up_def read_persisted_gate_def empty_gate_def Let_def)
  then show ?thesis using r wp_vek [OF cp_open [of out]]
    by (simp add: request_release_def send_to_worker_def handle_message_def handle_release_credential_def cp_env_def Let_def)
qed

lemma empty_unparsed: "parse_absolute_origin W [] \<noteq> Inr c"
  by (simp add: parse_absolute_origin_def trim_def)

lemma cp_guard: "guard_fill sample_web (serialized cp_bound) (describe_origin_context cp_window) None None"
proof -
  let ?rq = "\<lparr>gr_operation = ''AUTOFILL'', credential_origin = Some (serialized cp_bound), document_origin = lit ''https://a.io'',
       form_action = None, submit_origin = None, top_level_origin = None, frame_origin = None\<rparr>"
  have "resolve_against_origin sample_web None (serialized cp_bound) = Inr cp_bound"
    by (simp add: resolve_against_origin_def cp_parse)
  then have "is_ok (evaluate_autofill sample_web ?rq)"
    using cp_parse sample_parse_a sample_stable_a
    by (subst evaluate_autofill_allow_iff [where co = "serialized cp_bound" and c = cp_bound and d = cp_bound])
      (auto simp: allowed_operations_def frame_authorized_def submit_authorized_def)
  then show ?thesis by (simp add: guard_fill_def cp_context)
qed

lemma cp_filled:
  "\<exists>out e. encrypted_record.er_id (au_record out) = lit ''c1''
     \<and> e \<in> set (fst (attempt_fill cp_env cp_window [cp_form] (cp_worker out)))
     \<and> fe_env e = cp_env 1 \<and> cs_origin (fe_candidate e) = serialized cp_bound \<and> fo_action (fe_form e) = None"
proof -
  obtain out t where out: "author_credential sample_web sample_subtle sample_input (Some sample_vek) None sample_random
       = (Inr out, Some sample_vek)"
     "encrypted_record.er_id (au_record out) = lit ''c1''"
     "ar_origin (au_record out) = serialized (origin_of ''https'' ''a.io'')"
     "compute_lookup_token sample_web sample_subtle (lit ''https://a.io'')
         (Some (derive_domain_index_key sample_subtle sample_vek)) = Inr t"
     "token_origin t = origin_of ''https'' ''a.io''"
     "au_index out = add_to_index empty_index (token t) (lit ''c1'')"
    using cp_author by blast
  obtain cand where l: "list_candidates (cp_env 0) (lit ''https://a.io'') (cp_worker out) = ([cand], cp_worker out)"
    and cand: "cs_credential_id cand = lit ''c1''" "cs_origin cand = serialized cp_bound"
    using cp_listed [OF out(2,4-6)] by force
  obtain w' where r: "request_release (cp_env 1) (lit ''c1'') (serialized cp_bound) Op_Autofill (describe_origin_context cp_window) (cp_worker out)
    = (Some \<lparr>rc_id = lit ''c1'', rc_username = lit ''bob'', rc_password = lit ''pw'', rc_totp_secret = None\<rparr>, w')"
    using cp_released [OF out(1-3)] by blast
  have p: "detect_fields sample_web tk_platform cp_form = \<lparr>fp_username = None, fp_password = Some 0, fp_totp = None\<rparr>"
    by (simp add: detect_fields_def cp_form_def cp_input_def is_fillable_def input_type_def fillable_types_def)
       (simp add: sample_web_def lit_def)
  have "fill_form (cp_env 1) (describe_origin_context cp_window) \<lparr>fp_username = None, fp_password = Some 0, fp_totp = None\<rparr> cand cp_form (cp_worker out)
      = (True, cp_form\<lparr>fo_inputs := [cp_input\<lparr>in_value := lit ''pw'', in_filled := True\<rparr>]\<rparr>, w')"
    using cp_guard r
    by (simp add: fill_form_def cand cp_env_def cp_form_def resolve_submit_origin_def Let_def write_released_def write_text_def
        write_code_def write_field_def cp_input_def) (simp add: lit_def)
  then have "fst (attempt_fill cp_env cp_window [cp_form] (cp_worker out))
      = [\<lparr>fe_env = cp_env 1, fe_candidate = cand, fe_worker = cp_worker out, fe_form = cp_form\<rparr>]"
    using l p by (simp add: attempt_fill_def cp_context Let_def) (simp add: cp_env_def)
  then show ?thesis using out(2) cand by (intro exI [of _ out] exI) (auto simp: cp_form_def)
qed

subsection \<open>What is filled\<close>

text \<open>
  C5. Whatever candidates the worker lists and whatever the page does to its forms
  while a release is pending: when the content script writes a credential into a form,
  the page is exactly the origin the candidate is bound to, so is the top-level page
  when it is framed (a page that hides its top-level origin receives nothing), so are
  the target the form's action resolves to and the action read by itself; and in the
  worker that answered, the vault was unlocked and the credential's identifier was in
  the index bucket of that origin.
\<close>

theorem filled_only_on_bound_page:
  assumes e: "e \<in> set (fst (attempt_fill C win forms w))" and W: "W = en_web (ce_worker (fe_env e))"
    and c: "parse_absolute_origin W (cs_origin (fe_candidate e)) = Inr c" "stable_origin W c"
    and d: "\<And>d. parse_absolute_origin W (origin_from_location (pw_location win)) = Inr d \<Longrightarrow> stable_origin W d"
    and t: "\<And>d t. parse_absolute_origin W (origin_from_location (pw_location win)) = Inr d
      \<Longrightarrow> resolve_against_origin W (fo_action (fe_form e)) (serialized d) = Inr t \<Longrightarrow> stable_origin W t"
  shows "parse_absolute_origin W (origin_from_location (pw_location win)) = Inr c
    \<and> (case pw_top win of Top_Self \<Rightarrow> True | Top_Unreadable \<Rightarrow> False
        | Top_Readable l \<Rightarrow> parse_absolute_origin W (origin_from_location l) = Inr c)
    \<and> resolve_against_origin W (fo_action (fe_form e)) (serialized c) = Inr c
    \<and> (\<forall>s. fo_action (fe_form e) = Some s \<longrightarrow> parse_absolute_origin W s = Inr c)
    \<and> is_session_unlocked (en_now (ce_worker (fe_env e))) (fe_worker e)
    \<and> (\<exists>vek t ix. fst (read_session_vek (en_now (ce_worker (fe_env e))) (fe_worker e)) = Some vek
        \<and> compute_lookup_token W (en_subtle (ce_worker (fe_env e))) (cs_origin (fe_candidate e))
            (Some (derive_domain_index_key (en_subtle (ce_worker (fe_env e))) vek)) = Inr t \<and> token_origin t = c
        \<and> ix = (case wk_index (fe_worker e) of None \<Rightarrow> empty_index | Some x \<Rightarrow> x)
        \<and> cs_credential_id (fe_candidate e) \<in> set (lookup_index ix (token t)))"
proof -
  let ?ctx = "describe_origin_context win"
  have j: "fill_justified ?ctx e" using e by (rule attempt_justified)
  have doc: "oc_document ?ctx = origin_from_location (pw_location win)"
    by (simp add: describe_origin_context_def Let_def split: top_window.splits)
  have page: "parse_absolute_origin W (oc_document ?ctx) = Inr c
    \<and> (oc_framed ?ctx \<longrightarrow> parse_absolute_origin W (oc_top ?ctx) = Inr c)
    \<and> resolve_against_origin W (fo_action (fe_form e)) (serialized c) = Inr c
    \<and> (\<forall>s. fo_action (fe_form e) = Some s \<longrightarrow> parse_absolute_origin W s = Inr c)"
    by (rule filled_page [OF j W c]) (use d t doc in auto)
  have top: "case pw_top win of Top_Self \<Rightarrow> True | Top_Unreadable \<Rightarrow> False
        | Top_Readable l \<Rightarrow> parse_absolute_origin W (origin_from_location l) = Inr c"
    using page by (auto simp: describe_origin_context_def Let_def empty_unparsed split: top_window.splits)
  let ?m = "release_message_of (cs_credential_id (fe_candidate e)) (cs_origin (fe_candidate e)) Op_Autofill ?ctx"
  obtain x w' where r: "worker_step (ce_worker (fe_env e)) (Message (Release_Credential ?m)) (fe_worker e)
      = (Some (Answered (Credential_Data x)), w')"
    using j by (auto simp: fill_justified_def)
  have m: "rm_origin ?m = cs_origin (fe_candidate e)" "rm_document_origin ?m = oc_document ?ctx"
    "rm_credential_id ?m = cs_credential_id (fe_candidate e)" by (simp_all add: release_message_of_def)
  from credential_reply_justified [OF r, unfolded m, OF c [unfolded W]] d [unfolded W] show ?thesis
    using page top unfolding W doc by blast
qed

theorem filled_only_on_bound_page_witness:
  "\<exists>out e. encrypted_record.er_id (au_record out) = lit ''c1''
     \<and> e \<in> set (fst (attempt_fill cp_env cp_window [cp_form] (cp_worker out)))
     \<and> parse_absolute_origin sample_web (origin_from_location (pw_location cp_window)) = Inr cp_bound
     \<and> is_session_unlocked 2000 (fe_worker e)"
proof -
  obtain out e where e: "encrypted_record.er_id (au_record out) = lit ''c1''"
     "e \<in> set (fst (attempt_fill cp_env cp_window [cp_form] (cp_worker out)))"
     "fe_env e = cp_env 1" "cs_origin (fe_candidate e) = serialized cp_bound" "fo_action (fe_form e) = None"
    using cp_filled by blast
  have w: "en_web (ce_worker (fe_env e)) = sample_web" "en_now (ce_worker (fe_env e)) = 2000" by (simp_all add: e(3) cp_env_def)
  have d: "stable_origin sample_web d" if "parse_absolute_origin sample_web (origin_from_location (pw_location cp_window)) = Inr d" for d
    using that sample_stable_a by (simp add: cp_origin sample_parse_a)
  have t: "stable_origin sample_web t"
    if "parse_absolute_origin sample_web (origin_from_location (pw_location cp_window)) = Inr d"
      "resolve_against_origin sample_web (fo_action (fe_form e)) (serialized d) = Inr t" for d t
    using that sample_stable_a cp_parse by (auto simp: cp_origin sample_parse_a e(5) resolve_against_origin_def)
  have c: "parse_absolute_origin sample_web (cs_origin (fe_candidate e)) = Inr cp_bound" by (simp add: e(4) cp_parse)
  have "is_session_unlocked (en_now (ce_worker (fe_env e))) (fe_worker e)"
    using filled_only_on_bound_page [OF e(2) w(1) [symmetric] c sample_stable_a] d t by blast
  moreover have "parse_absolute_origin sample_web (origin_from_location (pw_location cp_window)) = Inr cp_bound"
    by (simp add: cp_origin sample_parse_a)
  ultimately show ?thesis using e(1,2) w(2) by auto
qed

section \<open>The popup\<close>

text \<open>The popup against Core: the approval a user types reaches the routes that judge it.\<close>

definition ppr_state :: step_up_state where
  "ppr_state = su_start\<lparr>ss_users := [([2], su_sample_user\<lparr>su_salt := to_hex [1]\<rparr>, 0)]\<rparr>"

definition ppr_challenge :: issued_challenge where
  "ppr_challenge = \<lparr>ic_approval_challenge_id = [8], ic_challenge_id = [7], ic_purpose = Release_Purpose, ic_challenge = sc_challenge su_row,
     ic_salt = sc_salt su_row, ic_user_salt = to_hex [1], ic_rp_id = None, ic_has_authenticator = False, ic_credential_ids = [],
     ic_expires_at = sc_expires_at su_row\<rparr>"

lemma ppr_issued: "\<exists>st'. handle_approval_challenge su_env su_ask ppr_state = (SU_Challenge ppr_challenge, st')"
  by (simp add: ppr_state_def ppr_challenge_def su_row_def handle_approval_challenge_def purpose_of_def memory_challenge_save_def
      new_approval_challenge_def read_webauthn_config_def memory_authenticator_list_def Let_def su_eval)
    (simp add: lit_def)

definition ppr_popup :: popup where
  "ppr_popup = (closed_popup None None)\<lparr>pop_passphrase := [112]\<rparr>"

text \<open>
  C12. The approval a user gives by passphrase is accepted: when Core has issued a
  challenge for the user, what the popup builds from the typed passphrase and that
  challenge alone is read by Core as the same proof, for that release, and verifies
  against the stored hash, whatever the authenticators; the challenge it answers is the
  row Core saved.
\<close>

theorem typed_passphrase_approves:
  assumes "handle_approval_challenge Ec rq st = (SU_Challenge c, st')"
    and "us_by_id (se_users Ec) (ss_users st) (the (sr_user rq)) = Some user"
    and "hash_password P rnd password = (su_hash user, su_salt user)" "\<And>k s. length (pc_pbkdf2 P k s) = 64"
    and "pop_passphrase p = password" "password \<noteq> []" "pen_proofs E = P" "sr_uuid rq \<noteq> []"
  shows "\<exists>pr row. build_approval_proof E p c = Inr pr \<and> sc_id row = ic_approval_challenge_id c \<and> sc_binding_id row = ic_challenge_id c
    \<and> sc_purpose row = ic_purpose c
    \<and> fst (ac_save (se_challenges Ec) (ss_challenges st) row) \<in> range Inr
    \<and> precheck_proof_shape (Some (proof_json pr)) (Some (ic_challenge_id c)) = Inr pr
    \<and> verify_step_up_proof S P pr row user (ic_purpose c) look webauthn = Proof_Accepted None None"
  using assms by (rule typed_passphrase_accepted)

definition ppr_env :: popup_env where
  "ppr_env = \<lparr>pen_worker = (\<lambda>_. wp_env wp_granting), pen_no_token = [], pen_now_iso = [], pen_challenge = (\<lambda>_ _ _. Challenge_Unreachable),
     pen_proofs = su_crypto, pen_get = (\<lambda>_ _ _. None), pen_create = (\<lambda>_ _ _ _. None), pen_can_create = False,
     pen_register = (\<lambda>_ _. None)\<rparr>"

theorem typed_passphrase_approves_witness:
  "\<exists>pr. build_approval_proof ppr_env ppr_popup ppr_challenge = Inr pr
     \<and> precheck_proof_shape (Some (proof_json pr)) (Some [7]) = Inr pr"
proof -
  obtain st' where i: "handle_approval_challenge su_env su_ask ppr_state = (SU_Challenge ppr_challenge, st')"
    using ppr_issued by blast
  have u: "us_by_id (se_users su_env) (ss_users ppr_state) (the (sr_user su_ask)) = Some (su_sample_user\<lparr>su_salt := to_hex [1]\<rparr>)"
    by (simp add: ppr_state_def su_eval)
  have h: "hash_password su_crypto [1] [112] = (su_hash (su_sample_user\<lparr>su_salt := to_hex [1]\<rparr>), su_salt (su_sample_user\<lparr>su_salt := to_hex [1]\<rparr>))"
    by (simp add: hash_password_def su_crypto_def su_sample_user_def Let_def)
  have l: "length (pc_pbkdf2 su_crypto k s) = 64" for k s by (simp add: su_crypto_def)
  have "ic_challenge_id ppr_challenge = [7]" by (simp add: ppr_challenge_def)
  with typed_passphrase_approves [OF i u h l, of ppr_popup ppr_env sample_subtle Map.empty "read_webauthn_config None None"]
  show ?thesis by (auto simp: ppr_popup_def ppr_env_def su_ask_def)
qed

end
