(* ===== verification/Entity_Repositories.thy ===== *)
theory Entity_Repositories
  imports Share_Store Plus_Entities Entitlement_Store Complex_Main Entitlement
begin

text \<open>The repositories of users, resources and vulnerabilities.\<close>

section \<open>Users and resources\<close>

text \<open>
  The directory of Plus: the tables of users and of resources (plus/infrastructure/
  repositories/PostgresPlusUserRepository.ts and PostgresResourceRepository.ts, with
  their mappers in row-mappers.ts) and the use case over resources
  (plus/application/use-cases/resource.use-case.ts).  As in Entitlement\_Store a table
  is the list of its rows by primary key, and connection failures, retries and the
  circuit breaker are outside it.  Users, resources and entitlements all keep the laws
  of \<^verbatim>\<open>entity_table\<close>.
\<close>

subsection \<open>Patterns of ILIKE\<close>

text \<open>
  Percent stands for any text, underscore for one unit, a backslash takes the next unit
  literally; None: the pattern ends in a backslash.  Both texts are folded first.
\<close>

fun like :: "jstr \<Rightarrow> jstr \<Rightarrow> bool option" where
  "like [] s = Some (s = [])"
| "like (p # ps) [] = (if p = 37 then like ps [] else if p = 92 \<and> ps = [] then None else Some False)"
| "like (p # ps) (c # s) =
     (if p = 37 then (case like ps (c # s) of None \<Rightarrow> None | Some True \<Rightarrow> Some True | Some False \<Rightarrow> like (p # ps) s)
      else if p = 95 then like ps s
      else if p = 92 then (case ps of [] \<Rightarrow> None | q # qs \<Rightarrow> if q = c then like qs s else Some False)
      else if p = c then like ps s else Some False)"

definition ilike :: "web \<Rightarrow> jstr \<Rightarrow> jstr \<Rightarrow> bool" where
  "ilike W s wanted \<longleftrightarrow> like (to_lower W (lit ''%'' @ wanted @ lit ''%'')) (to_lower W s) = Some True"

definition page_of :: "nat option \<Rightarrow> nat option \<Rightarrow> 'a list \<Rightarrow> 'a list" where
  "page_of limit offset rows =
     (let from = (case offset of None \<Rightarrow> rows | Some n \<Rightarrow> drop n rows)
      in case limit of None \<Rightarrow> from | Some n \<Rightarrow> if n = 0 then from else take n from)"

definition newest_rows :: "('r \<Rightarrow> int) \<Rightarrow> 'r list \<Rightarrow> 'r list" where
  "newest_rows created rows = sort_key (\<lambda>r. - created r) rows"

definition active_flag :: "bool option \<Rightarrow> bool" where
  "active_flag v = (case v of None \<Rightarrow> False | Some b \<Rightarrow> b)"

subsection \<open>Users\<close>

record user_row =
  ur_id :: jstr
  ur_email :: jstr
  ur_name :: jstr
  ur_role :: user_role
  ur_habitual_countries :: "jstr list option"
  ur_timezone :: jstr
  ur_active :: "bool option"
  ur_metadata :: "json option"
  ur_created_at :: timestamp
  ur_updated_at :: timestamp
  ur_last_login_at :: "timestamp option"
  ur_failed_pin_attempts :: "int option"
  ur_locked_until :: "timestamp option"

type_synonym plus_user_table = "(jstr \<times> user_row) list"

definition map_plus_user_row :: "subtle \<Rightarrow> dates \<Rightarrow> user_row \<Rightarrow> plain_user option" where
  "map_plus_user_row S T r = (case parse_jsonb_column S (ur_metadata r) of
     None \<Rightarrow> None
   | Some m \<Rightarrow> Some
     \<lparr>ppu_id = ur_id r, ppu_email = ur_email r, ppu_name = ur_name r, ppu_role = ur_role r,
       ppu_habitual_countries = (case ur_habitual_countries r of None \<Rightarrow> [] | Some cs \<Rightarrow> cs),
       ppu_timezone = ur_timezone r, ppu_active = active_flag (ur_active r),
       ppu_metadata = metadata_of_json m, ppu_created_at = to_plain_timestamp T (ur_created_at r),
       ppu_updated_at = to_plain_timestamp T (ur_updated_at r),
       ppu_last_login_at = to_optional_plain_timestamp T (ur_last_login_at r),
       ppu_failed_pin_attempts = Some (case ur_failed_pin_attempts r of None \<Rightarrow> 0 | Some n \<Rightarrow> n),
       ppu_locked_until = to_optional_plain_timestamp T (ur_locked_until r)\<rparr>)"

definition user_of_row :: "subtle \<Rightarrow> dates \<Rightarrow> user_row \<Rightarrow> plus_user option" where
  "user_of_row S T r = map_option (user_from_plain T) (map_plus_user_row S T r)"

text \<open>The columns of the insertion; the two columns of the lockout take their defaults.\<close>

definition row_of_user :: "dates \<Rightarrow> plain_user \<Rightarrow> user_row" where
  "row_of_user T p =
     \<lparr>ur_id = ppu_id p, ur_email = ppu_email p, ur_name = ppu_name p, ur_role = ppu_role p,
       ur_habitual_countries = Some (ppu_habitual_countries p), ur_timezone = ppu_timezone p,
       ur_active = Some (ppu_active p), ur_metadata = map_option JObj (ppu_metadata p),
       ur_created_at = Date_Value (of_iso T (ppu_created_at p)), ur_updated_at = Date_Value (of_iso T (ppu_updated_at p)),
       ur_last_login_at = map_option Date_Value (optional_date T (ppu_last_login_at p)),
       ur_failed_pin_attempts = Some 0, ur_locked_until = None\<rparr>"

definition keep_unwritten :: "user_row \<Rightarrow> user_row \<Rightarrow> user_row" where
  "keep_unwritten old new = new\<lparr>ur_created_at := ur_created_at old,
     ur_failed_pin_attempts := ur_failed_pin_attempts old, ur_locked_until := ur_locked_until old\<rparr>"

text \<open>None: the user cannot be serialized, or its e-mail address is another row's.\<close>

definition save_user :: "subtle \<Rightarrow> dates \<Rightarrow> plus_user_table \<Rightarrow> plus_user \<Rightarrow> plus_user option \<times> plus_user_table" where
  "save_user S T tb u = (case user_to_plain S T u of
     None \<Rightarrow> (None, tb)
   | Some p \<Rightarrow>
       if list_ex (\<lambda>(i, r). i \<noteq> ppu_id p \<and> ur_email r = ppu_email p) tb then (None, tb)
       else let r = (case map_of tb (ppu_id p) of None \<Rightarrow> row_of_user T p | Some old \<Rightarrow> keep_unwritten old (row_of_user T p))
         in (user_of_row S T r, map_set tb (ppu_id p) r))"

text \<open>The outer None is a throw of the mapper.\<close>

definition found_user :: "subtle \<Rightarrow> dates \<Rightarrow> user_row option \<Rightarrow> plus_user option option" where
  "found_user S T r = (case r of
     None \<Rightarrow> Some None
   | Some x \<Rightarrow> (case user_of_row S T x of None \<Rightarrow> None | Some u \<Rightarrow> Some (Some u)))"

definition find_user :: "subtle \<Rightarrow> dates \<Rightarrow> plus_user_table \<Rightarrow> jstr \<Rightarrow> plus_user option option" where
  "find_user S T tb i = found_user S T (map_of tb i)"

definition find_user_by_email :: "web \<Rightarrow> subtle \<Rightarrow> dates \<Rightarrow> plus_user_table \<Rightarrow> jstr \<Rightarrow> plus_user option option" where
  "find_user_by_email W S T tb email = found_user S T (List.find (\<lambda>r. ur_email r = to_lower W email) (map snd tb))"

definition select_users :: "subtle \<Rightarrow> dates \<Rightarrow> plus_user_table \<Rightarrow> (user_row \<Rightarrow> bool) \<Rightarrow> plus_user list option" where
  "select_users S T tb q =
     all_rows (user_of_row S T) (newest_rows (\<lambda>r. date_of T (ur_created_at r)) (filter q (map snd tb)))"

definition find_users_by_role :: "subtle \<Rightarrow> dates \<Rightarrow> plus_user_table \<Rightarrow> user_role \<Rightarrow> plus_user list option" where
  "find_users_by_role S T tb role = select_users S T tb (\<lambda>r. ur_role r = role)"

definition find_active_users :: "subtle \<Rightarrow> dates \<Rightarrow> plus_user_table \<Rightarrow> plus_user list option" where
  "find_active_users S T tb = select_users S T tb (\<lambda>r. ur_active r = Some True)"

definition list_users :: "subtle \<Rightarrow> dates \<Rightarrow> plus_user_table \<Rightarrow> plus_user list option" where
  "list_users S T tb = select_users S T tb (\<lambda>_. True)"

record user_search =
  us_name :: "jstr option"
  us_email :: "jstr option"
  us_role :: "user_role option"
  us_active :: "bool option"
  us_habitual_country :: "jstr option"
  us_limit :: "nat option"
  us_offset :: "nat option"

definition user_matches :: "web \<Rightarrow> user_search \<Rightarrow> user_row \<Rightarrow> bool" where
  "user_matches W q r \<longleftrightarrow> criterion (us_name q) (ilike W (ur_name r)) \<and> criterion (us_email q) (ilike W (ur_email r))
     \<and> (case us_role q of None \<Rightarrow> True | Some x \<Rightarrow> ur_role r = x)
     \<and> (case us_active q of None \<Rightarrow> True | Some b \<Rightarrow> ur_active r = Some b)
     \<and> criterion (us_habitual_country q)
         (\<lambda>c. case ur_habitual_countries r of None \<Rightarrow> False | Some cs \<Rightarrow> to_upper W c \<in> set cs)"

definition search_users ::
  "web \<Rightarrow> subtle \<Rightarrow> dates \<Rightarrow> plus_user_table \<Rightarrow> user_search \<Rightarrow> (plus_user list \<times> nat) option" where
  "search_users W S T tb q =
     (let rows = newest_rows (\<lambda>r. date_of T (ur_created_at r)) (filter (user_matches W q) (map snd tb))
      in map_option (\<lambda>us. (us, length rows)) (all_rows (user_of_row S T) (page_of (us_limit q) (us_offset q) rows)))"

definition delete_user :: "plus_user_table \<Rightarrow> jstr \<Rightarrow> bool \<times> plus_user_table" where
  "delete_user tb i = (map_of tb i \<noteq> None, map_delete tb i)"

subsection \<open>The lockout after failed PINs\<close>

definition no_lockout :: pin_lockout_state where
  "no_lockout = \<lparr>pl_failed_pin_attempts = 0, pl_locked_until = None\<rparr>"

definition get_pin_lockout :: "subtle \<Rightarrow> dates \<Rightarrow> plus_user_table \<Rightarrow> jstr \<Rightarrow> pin_lockout_state option" where
  "get_pin_lockout S T tb i = (case find_user S T tb i of
     None \<Rightarrow> None
   | Some None \<Rightarrow> Some no_lockout
   | Some (Some u) \<Rightarrow> Some \<lparr>pl_failed_pin_attempts = pu_failed_pin_attempts u, pl_locked_until = pu_locked_until u\<rparr>)"

text \<open>The database increments the column.\<close>

definition record_failed_pin_attempt :: "dates \<Rightarrow> int \<Rightarrow> plus_user_table \<Rightarrow> jstr \<Rightarrow> pin_lockout_state \<times> plus_user_table" where
  "record_failed_pin_attempt T now tb i = (case map_of tb i of
     None \<Rightarrow> (no_lockout, tb)
   | Some r \<Rightarrow>
       let r' = r\<lparr>ur_failed_pin_attempts := map_option (\<lambda>n. n + 1) (ur_failed_pin_attempts r), ur_updated_at := Date_Value now\<rparr>
       in (\<lparr>pl_failed_pin_attempts = (case ur_failed_pin_attempts r' of None \<Rightarrow> 0 | Some n \<Rightarrow> n),
            pl_locked_until = map_option (date_of T) (ur_locked_until r')\<rparr>, map_set tb i r'))"

definition set_pin_lockout :: "int \<Rightarrow> plus_user_table \<Rightarrow> jstr \<Rightarrow> pin_lockout_state \<Rightarrow> plus_user_table" where
  "set_pin_lockout now tb i st = (case map_of tb i of
     None \<Rightarrow> tb
   | Some r \<Rightarrow> map_set tb i (r\<lparr>ur_failed_pin_attempts := Some (pl_failed_pin_attempts st),
       ur_locked_until := map_option Date_Value (pl_locked_until st), ur_updated_at := Date_Value now\<rparr>))"

subsection \<open>Resources\<close>

record resource_row =
  rr_id :: jstr
  rr_name :: jstr
  rr_type :: resource_type
  rr_endpoint :: jstr
  rr_environment :: resource_environment
  rr_criticality :: risk_level
  rr_description :: "jstr option"
  rr_tags :: "jstr list option"
  rr_owner_team :: "jstr option"
  rr_metadata :: "json option"
  rr_active :: "bool option"
  rr_created_at :: timestamp
  rr_updated_at :: timestamp

type_synonym resource_table = "(jstr \<times> resource_row) list"

definition map_resource_row :: "subtle \<Rightarrow> dates \<Rightarrow> resource_row \<Rightarrow> plain_resource option" where
  "map_resource_row S T r = (case parse_jsonb_column S (rr_metadata r) of
     None \<Rightarrow> None
   | Some m \<Rightarrow> Some
     \<lparr>pr_id = rr_id r, pr_name = rr_name r, pr_type = rr_type r, pr_endpoint = rr_endpoint r,
       pr_environment = rr_environment r, pr_criticality = rr_criticality r, pr_description = rr_description r,
       pr_tags = (case rr_tags r of None \<Rightarrow> [] | Some ts \<Rightarrow> ts), pr_owner_team = rr_owner_team r,
       pr_metadata = metadata_of_json m, pr_active = active_flag (rr_active r),
       pr_created_at = to_plain_timestamp T (rr_created_at r), pr_updated_at = to_plain_timestamp T (rr_updated_at r)\<rparr>)"

definition resource_of_row :: "subtle \<Rightarrow> dates \<Rightarrow> resource_row \<Rightarrow> resource option" where
  "resource_of_row S T r = map_option (resource_from_plain T) (map_resource_row S T r)"

definition non_empty :: "jstr option \<Rightarrow> jstr option" where
  "non_empty v = (case v of None \<Rightarrow> None | Some s \<Rightarrow> if s = [] then None else Some s)"

definition row_of_resource :: "dates \<Rightarrow> plain_resource \<Rightarrow> resource_row" where
  "row_of_resource T p =
     \<lparr>rr_id = pr_id p, rr_name = pr_name p, rr_type = pr_type p, rr_endpoint = pr_endpoint p,
       rr_environment = pr_environment p, rr_criticality = pr_criticality p,
       rr_description = non_empty (pr_description p), rr_tags = Some (pr_tags p),
       rr_owner_team = non_empty (pr_owner_team p), rr_metadata = map_option JObj (pr_metadata p),
       rr_active = Some (pr_active p), rr_created_at = Date_Value (of_iso T (pr_created_at p)),
       rr_updated_at = Date_Value (of_iso T (pr_updated_at p))\<rparr>"

definition save_resource :: "subtle \<Rightarrow> dates \<Rightarrow> resource_table \<Rightarrow> resource \<Rightarrow> resource option \<times> resource_table" where
  "save_resource S T tb x = (case resource_to_plain S T x of
     None \<Rightarrow> (None, tb)
   | Some p \<Rightarrow>
       let new = row_of_resource T p;
         r = (case map_of tb (pr_id p) of None \<Rightarrow> new | Some old \<Rightarrow> new\<lparr>rr_created_at := rr_created_at old\<rparr>)
       in (resource_of_row S T r, map_set tb (pr_id p) r))"

definition find_resource :: "subtle \<Rightarrow> dates \<Rightarrow> resource_table \<Rightarrow> jstr \<Rightarrow> resource option option" where
  "find_resource S T tb i = (case map_of tb i of
     None \<Rightarrow> Some None
   | Some r \<Rightarrow> (case resource_of_row S T r of None \<Rightarrow> None | Some x \<Rightarrow> Some (Some x)))"

definition select_resources ::
  "subtle \<Rightarrow> dates \<Rightarrow> resource_table \<Rightarrow> (resource_row \<Rightarrow> bool) \<Rightarrow> resource list option" where
  "select_resources S T tb q =
     all_rows (resource_of_row S T) (newest_rows (\<lambda>r. date_of T (rr_created_at r)) (filter q (map snd tb)))"

definition find_resources_by_type :: "subtle \<Rightarrow> dates \<Rightarrow> resource_table \<Rightarrow> resource_type \<Rightarrow> resource list option" where
  "find_resources_by_type S T tb x = select_resources S T tb (\<lambda>r. rr_type r = x)"

definition find_resources_by_environment ::
  "subtle \<Rightarrow> dates \<Rightarrow> resource_table \<Rightarrow> resource_environment \<Rightarrow> resource list option" where
  "find_resources_by_environment S T tb x = select_resources S T tb (\<lambda>r. rr_environment r = x)"

definition find_resources_by_criticality ::
  "subtle \<Rightarrow> dates \<Rightarrow> resource_table \<Rightarrow> risk_level \<Rightarrow> resource list option" where
  "find_resources_by_criticality S T tb x = select_resources S T tb (\<lambda>r. rr_criticality r = x)"

definition find_active_resources :: "subtle \<Rightarrow> dates \<Rightarrow> resource_table \<Rightarrow> resource list option" where
  "find_active_resources S T tb = select_resources S T tb (\<lambda>r. rr_active r = Some True)"

definition list_resources :: "subtle \<Rightarrow> dates \<Rightarrow> resource_table \<Rightarrow> resource list option" where
  "list_resources S T tb = select_resources S T tb (\<lambda>_. True)"

record resource_search =
  rs_name :: "jstr option"
  rs_type :: "resource_type option"
  rs_environment :: "resource_environment option"
  rs_criticality :: "risk_level option"
  rs_tags :: "jstr list option"
  rs_active :: "bool option"
  rs_limit :: "nat option"
  rs_offset :: "nat option"

definition wanted_or_any :: "'a option \<Rightarrow> 'a \<Rightarrow> bool" where
  "wanted_or_any c v \<longleftrightarrow> (case c of None \<Rightarrow> True | Some x \<Rightarrow> v = x)"

definition resource_matches :: "web \<Rightarrow> resource_search \<Rightarrow> resource_row \<Rightarrow> bool" where
  "resource_matches W q r \<longleftrightarrow> criterion (rs_name q) (ilike W (rr_name r)) \<and> wanted_or_any (rs_type q) (rr_type r)
     \<and> wanted_or_any (rs_environment q) (rr_environment r) \<and> wanted_or_any (rs_criticality q) (rr_criticality r)
     \<and> (case rs_tags q of None \<Rightarrow> True | Some ts \<Rightarrow> ts = []
         \<or> (case rr_tags r of None \<Rightarrow> False | Some own \<Rightarrow> set own \<inter> set ts \<noteq> {}))
     \<and> (case rs_active q of None \<Rightarrow> True | Some b \<Rightarrow> rr_active r = Some b)"

definition search_resources ::
  "web \<Rightarrow> subtle \<Rightarrow> dates \<Rightarrow> resource_table \<Rightarrow> resource_search \<Rightarrow> (resource list \<times> nat) option" where
  "search_resources W S T tb q =
     (let rows = newest_rows (\<lambda>r. date_of T (rr_created_at r)) (filter (resource_matches W q) (map snd tb))
      in map_option (\<lambda>xs. (xs, length rows)) (all_rows (resource_of_row S T) (page_of (rs_limit q) (rs_offset q) rows)))"

definition delete_resource :: "resource_table \<Rightarrow> jstr \<Rightarrow> bool \<times> resource_table" where
  "delete_resource tb i = (map_of tb i \<noteq> None, map_delete tb i)"

subsection \<open>The use case over resources\<close>

text \<open>What arrives names its type, environment and criticality by texts.\<close>

record raw_resource =
  xr_id :: jstr
  xr_name :: jstr
  xr_type :: jstr
  xr_endpoint :: jstr
  xr_environment :: jstr
  xr_criticality :: jstr
  xr_description :: "jstr option"
  xr_tags :: "jstr list option"
  xr_owner_team :: "jstr option"
  xr_metadata :: "metadata option"

definition criticality_names :: "(jstr \<times> risk_level) list" where
  "criticality_names = [(lit ''low'', Low), (lit ''medium'', Medium), (lit ''high'', High), (lit ''critical'', Critical)]"

definition environment_names :: "(jstr \<times> resource_environment) list" where
  "environment_names = [(lit ''production'', Env_Production), (lit ''staging'', Env_Staging),
     (lit ''development'', Env_Development), (lit ''testing'', Env_Testing), (lit ''dr'', Env_Dr)]"

definition type_names :: "(jstr \<times> resource_type) list" where
  "type_names = [(lit ''web'', Rt_Web), (lit ''ssh'', Rt_Ssh), (lit ''rdp'', Rt_Rdp), (lit ''vpn'', Rt_Vpn),
     (lit ''database'', Rt_Database), (lit ''kubernetes'', Rt_Kubernetes), (lit ''microservice'', Rt_Microservice),
     (lit ''firewall'', Rt_Firewall), (lit ''backup'', Rt_Backup), (lit ''drp'', Rt_Drp), (lit ''other'', Rt_Other)]"

text \<open>Inl None is a throw of the repository.\<close>

definition resource_create ::
  "subtle \<Rightarrow> dates \<Rightarrow> int \<Rightarrow> resource_table \<Rightarrow> raw_resource \<Rightarrow> (jstr option + resource) \<times> resource_table" where
  "resource_create S T now tb x =
     (case map_of criticality_names (xr_criticality x) of
        None \<Rightarrow> (Inl (Some (lit ''Invalid criticality: '' @ xr_criticality x)), tb)
      | Some c \<Rightarrow> (case map_of environment_names (xr_environment x) of
          None \<Rightarrow> (Inl (Some (lit ''Invalid environment: '' @ xr_environment x)), tb)
        | Some env \<Rightarrow> (case map_of type_names (xr_type x) of
            None \<Rightarrow> (Inl (Some (lit ''Invalid resource type: '' @ xr_type x)), tb)
          | Some ty \<Rightarrow>
              (case save_resource S T tb (create_resource now
                 \<lparr>ri_id = xr_id x, ri_name = xr_name x, ri_type = ty, ri_endpoint = xr_endpoint x, ri_environment = env,
                  ri_criticality = c, ri_description = xr_description x, ri_tags = xr_tags x,
                  ri_owner_team = xr_owner_team x, ri_metadata = xr_metadata x\<rparr>) of
                 (None, tb') \<Rightarrow> (Inl None, tb')
               | (Some r, tb') \<Rightarrow> (Inr r, tb')))))"

record resource_changes =
  rc_name :: "jstr option"
  rc_endpoint :: "jstr option"
  rc_environment :: "resource_environment option"
  rc_criticality :: "risk_level option"
  rc_description :: "jstr option"
  rc_tags :: "jstr list option"
  rc_owner_team :: "jstr option"
  rc_metadata :: "metadata option"
  rc_active :: "bool option"

definition change_with :: "'a option \<Rightarrow> ('a \<Rightarrow> resource \<Rightarrow> resource) \<Rightarrow> resource \<Rightarrow> resource" where
  "change_with v f r = (case v of None \<Rightarrow> r | Some x \<Rightarrow> f x r)"

definition apply_changes :: "int \<Rightarrow> resource_changes \<Rightarrow> resource \<Rightarrow> resource" where
  "apply_changes now c r =
     change_with (rc_active c) (set_resource_active now)
    (change_with (rc_metadata c) (update_resource_metadata now)
    (change_with (rc_owner_team c) (\<lambda>t x. x\<lparr>re_owner_team := Some t, re_updated_at := now\<rparr>)
    (change_with (rc_tags c) (\<lambda>ts x. x\<lparr>re_tags := ts, re_updated_at := now\<rparr>)
    (change_with (rc_description c) (\<lambda>d x. x\<lparr>re_description := Some d, re_updated_at := now\<rparr>)
    (change_with (rc_criticality c) (update_criticality now)
    (change_with (rc_environment c) (update_environment now)
    (change_with (rc_endpoint c) (update_endpoint now)
    (change_with (rc_name c) (\<lambda>n x. x\<lparr>re_name := n, re_updated_at := now\<rparr>) r))))))))"

text \<open>The outer None is a throw of the repository.\<close>

definition resource_update ::
  "subtle \<Rightarrow> dates \<Rightarrow> int \<Rightarrow> resource_table \<Rightarrow> jstr \<Rightarrow> resource_changes \<Rightarrow> resource option option \<times> resource_table" where
  "resource_update S T now tb i c = (case find_resource S T tb i of
     None \<Rightarrow> (None, tb)
   | Some None \<Rightarrow> (Some None, tb)
   | Some (Some r) \<Rightarrow> (case save_resource S T tb (apply_changes now c r) of
       (None, tb') \<Rightarrow> (None, tb') | (Some x, tb') \<Rightarrow> (Some (Some x), tb')))"

subsection \<open>The tables keep the laws of a table\<close>

lemma parse_written_metadata:
  "\<exists>j. parse_jsonb_column S (map_option JObj m) = Some j \<and> metadata_of_json j = m"
  by (cases m) (simp_all add: parse_jsonb_column_def metadata_of_json_def)

lemma user_row_reads: "user_of_row S T (row_of_user T p) \<noteq> None" "user_of_row S T (keep_unwritten old (row_of_user T p)) \<noteq> None"
  using parse_written_metadata [of S "ppu_metadata p"]
  by (auto simp: user_of_row_def map_plus_user_row_def row_of_user_def keep_unwritten_def)

lemma user_plain_id: "user_to_plain S T u = Some p \<Longrightarrow> ppu_id p = pu_id u \<and> ppu_email p = pu_email u"
  by (auto simp: user_to_plain_def split: option.splits)

interpretation ut: entity_table "save_user S T" "find_user S T" delete_user pu_id "\<lambda>_. True" for S T
proof (unfold_locales, goal_cases)
  case (3 t e e' t')
  then show ?case
    by (auto simp: save_user_def find_user_def found_user_def map_of_map_set Let_def user_plain_id
        split: option.splits if_splits dest!: user_plain_id)
next
  case (4 t e t')
  then show ?case by (auto simp: user_row_reads save_user_def Let_def split: option.splits if_splits)
next
  case (5 i e t)
  then show ?case by (auto simp: save_user_def find_user_def map_of_map_set Let_def dest: user_plain_id split: option.splits)
qed (simp_all add: find_user_def found_user_def delete_user_def map_of_map_delete)

lemma resource_row_reads:
  "resource_of_row S T (row_of_resource T p) \<noteq> None" "resource_of_row S T ((row_of_resource T p)\<lparr>rr_created_at := c\<rparr>) \<noteq> None"
  using parse_written_metadata [of S "pr_metadata p"]
  by (auto simp: resource_of_row_def map_resource_row_def row_of_resource_def)

lemma resource_plain_id: "resource_to_plain S T x = Some p \<Longrightarrow> pr_id p = re_id x"
  by (auto simp: resource_to_plain_def split: option.splits)

interpretation rt: entity_table "save_resource S T" "find_resource S T" delete_resource re_id "\<lambda>_. True" for S T
proof (unfold_locales, goal_cases)
  case (3 t e e' t')
  then show ?case
    by (auto simp: save_resource_def find_resource_def map_of_map_set Let_def split: option.splits if_splits dest!: resource_plain_id)
next
  case (4 t e t')
  then show ?case by (auto simp: resource_row_reads save_resource_def Let_def split: option.splits if_splits)
next
  case (5 i e t)
  then show ?case by (auto simp: save_resource_def find_resource_def map_of_map_set Let_def dest: resource_plain_id split: option.splits)
qed (simp_all add: find_resource_def delete_resource_def map_of_map_delete)

lemma entitlement_row_reads:
  "entitlement_of_row S T (row_of_plain T p) \<noteq> None" "entitlement_of_row S T ((row_of_plain T p)\<lparr>er_created_at := c\<rparr>) \<noteq> None"
  using parse_written_metadata [of S "pe_metadata p"]
  by (auto simp: entitlement_of_row_def map_entitlement_row_def row_of_plain_def)

lemma entitlement_plain_id: "entitlement_to_plain S T e = Some p \<Longrightarrow> pe_id p = en_id e"
  by (auto simp: entitlement_to_plain_def split: option.splits)

interpretation et: entity_table "save_entitlement S T" "find_entitlement S T" delete_entitlement en_id "\<lambda>_. True" for S T
proof (unfold_locales, goal_cases)
  case (3 t e e' t')
  then show ?case
    by (auto simp: save_entitlement_def find_entitlement_def map_of_map_set Let_def split: option.splits if_splits dest!: entitlement_plain_id)
next
  case (4 t e t')
  then show ?case by (auto simp: entitlement_row_reads save_entitlement_def Let_def split: option.splits if_splits)
next
  case (5 i e t)
  then show ?case by (auto simp: save_entitlement_def find_entitlement_def map_of_map_set Let_def dest: entitlement_plain_id split: option.splits)
qed (simp_all add: find_entitlement_def delete_entitlement_def map_of_map_delete)

subsection \<open>The lockout outlives every save\<close>

datatype user_op =
    Save_User plus_user
  | Fail_Pin int jstr
  | Set_Lockout int jstr pin_lockout_state
  | Delete_User jstr

fun user_op_step :: "subtle \<Rightarrow> dates \<Rightarrow> user_op \<Rightarrow> plus_user_table \<Rightarrow> plus_user_table" where
  "user_op_step S T (Save_User u) tb = snd (save_user S T tb u)"
| "user_op_step S T (Fail_Pin now i) tb = snd (record_failed_pin_attempt T now tb i)"
| "user_op_step S T (Set_Lockout now i st) tb = set_pin_lockout now tb i st"
| "user_op_step S T (Delete_User i) tb = snd (delete_user tb i)"

definition run_user_ops :: "subtle \<Rightarrow> dates \<Rightarrow> user_op list \<Rightarrow> plus_user_table \<Rightarrow> plus_user_table" where
  "run_user_ops S T ops tb = fold (user_op_step S T) ops tb"

definition resets_lockout :: "jstr \<Rightarrow> user_op \<Rightarrow> bool" where
  "resets_lockout i x = (case x of Set_Lockout _ j _ \<Rightarrow> j = i | Delete_User j \<Rightarrow> j = i | _ \<Rightarrow> False)"

definition fails_pin :: "jstr \<Rightarrow> user_op \<Rightarrow> bool" where
  "fails_pin i x = (case x of Fail_Pin _ j \<Rightarrow> j = i | _ \<Rightarrow> False)"

definition lockout_columns :: "plus_user_table \<Rightarrow> jstr \<Rightarrow> (int option \<times> timestamp option) option" where
  "lockout_columns tb i = map_option (\<lambda>r. (ur_failed_pin_attempts r, ur_locked_until r)) (map_of tb i)"

lemma lockout_step:
  assumes "lockout_columns tb i = Some (Some n, l)" "\<not> resets_lockout i x"
  shows "lockout_columns (user_op_step S T x tb) i = Some (Some (n + (if fails_pin i x then 1 else 0)), l)"
  using assms
  by (cases x) (auto simp: lockout_columns_def resets_lockout_def fails_pin_def save_user_def record_failed_pin_attempt_def
    set_pin_lockout_def delete_user_def map_of_map_set map_of_map_delete keep_unwritten_def Let_def
    dest!: user_plain_id split: option.splits)

text \<open>
  Whatever stale users are saved in between, the count of failures grows by exactly the
  failures recorded and the lock stays, until the lockout is set or the user deleted.
\<close>

lemma lockout_outlives_saves:
  assumes "lockout_columns tb i = Some (Some n, l)" "\<forall>x \<in> set ops. \<not> resets_lockout i x"
  shows "lockout_columns (run_user_ops S T ops tb) i = Some (Some (n + int (length (filter (fails_pin i) ops))), l)"
  using assms
proof (induction ops arbitrary: tb n)
  case (Cons x ops)
  have "lockout_columns (user_op_step S T x tb) i = Some (Some (n + (if fails_pin i x then 1 else 0)), l)"
    using Cons.prems by (intro lockout_step) auto
  from Cons.IH [OF this] Cons.prems(2) show ?case by (simp add: run_user_ops_def)
qed (simp add: run_user_ops_def)

lemma lockout_read:
  assumes "map_of tb i = Some r" "user_of_row S T r = Some u"
  shows "get_pin_lockout S T tb i = Some \<lparr>pl_failed_pin_attempts = (case ur_failed_pin_attempts r of None \<Rightarrow> 0 | Some n \<Rightarrow> n),
    pl_locked_until = optional_date T (to_optional_plain_timestamp T (ur_locked_until r))\<rparr>"
  using assms by (auto simp: get_pin_lockout_def find_user_def found_user_def user_of_row_def map_plus_user_row_def
      user_from_plain_def split: option.splits)

subsection \<open>Searching\<close>

lemma like_rest: "like [37] s = Some True"
  by (induction s) auto

lemma like_literal:
  assumes "\<forall>c \<in> set w. c \<noteq> 37 \<and> c \<noteq> 95 \<and> c \<noteq> 92"
  shows "like (w @ [37]) s = Some (starts_with s w)"
  using assms by (induction w arbitrary: s) (auto simp: like_rest starts_with_def, case_tac s, auto simp: starts_with_def)

text \<open>A criterion without pattern characters is a search for a part of the text.\<close>

lemma like_contains:
  assumes "\<forall>c \<in> set w. c \<noteq> 37 \<and> c \<noteq> 95 \<and> c \<noteq> 92"
  shows "like (37 # w @ [37]) s = Some (includes_text s w)"
proof (induction s)
  case Nil
  show ?case using like_literal [OF assms, of "[]"] by (auto simp: starts_with_def)
next
  case (Cons c s)
  then show ?case using like_literal [OF assms, of "c # s"] by (auto split: option.splits bool.splits)
qed

text \<open>The total counts the matches, of which a page is a part.\<close>

lemma length_page: "length (page_of limit offset rows) \<le> length rows"
  "limit = Some k \<Longrightarrow> k \<noteq> 0 \<Longrightarrow> length (page_of limit offset rows) \<le> k"
  by (auto simp: page_of_def Let_def split: option.splits)

lemma length_all_rows: "all_rows f rs = Some xs \<Longrightarrow> length xs = length rs"
  by (induction rs arbitrary: xs) (auto split: option.splits)

lemma found_users_bounded:
  assumes "search_users W S T tb q = Some (us, n)"
  shows "length us \<le> n \<and> n = length (filter (user_matches W q) (map snd tb))
    \<and> (\<forall>k. us_limit q = Some k \<longrightarrow> k \<noteq> 0 \<longrightarrow> length us \<le> k)"
proof -
  obtain rows where rows: "rows = newest_rows (\<lambda>r. date_of T (ur_created_at r)) (filter (user_matches W q) (map snd tb))" by blast
  have "all_rows (user_of_row S T) (page_of (us_limit q) (us_offset q) rows) = Some us" "n = length rows"
    using assms by (auto simp: search_users_def rows Let_def)
  moreover have "length rows = length (filter (user_matches W q) (map snd tb))" by (simp add: rows newest_rows_def)
  ultimately show ?thesis
    using length_page(1) [of "us_limit q" "us_offset q" rows] length_page(2) [of "us_limit q" _ "us_offset q" rows]
    by (simp add: length_all_rows)
qed

subsection \<open>The use case keeps what it does not change\<close>

lemma created_resource_found:
  assumes "resource_create S T now tb x = (Inr r, tb')"
  shows "find_resource S T tb' (xr_id x) = Some (Some r)"
  using assms rt.save_found [of S T tb]
  by (fastforce simp: resource_create_def create_resource_def split: option.splits prod.splits)

lemma apply_changes_keeps:
  "re_id (apply_changes now c r) = re_id r" "re_type (apply_changes now c r) = re_type r"
  "re_created_at (apply_changes now c r) = re_created_at r"
  by (simp_all add: apply_changes_def change_with_def update_endpoint_def update_criticality_def update_environment_def
      set_resource_active_def update_resource_metadata_def split: option.splits)

lemma found_resource_id: "find_resource S T tb i = Some (Some r) \<Longrightarrow> \<exists>x. map_of tb i = Some x \<and> resource_of_row S T x = Some r"
  by (auto simp: find_resource_def split: option.splits)

lemma updated_resource_found:
  assumes "resource_update S T now tb i c = (Some (Some r), tb')"
  shows "\<exists>old. find_resource S T tb i = Some (Some old) \<and> find_resource S T tb' (re_id old) = Some (Some r)"
  using assms rt.save_found [of S T tb]
  by (fastforce simp: resource_update_def apply_changes_keeps split: option.splits prod.splits)

section \<open>Vulnerabilities\<close>

text \<open>
  Identifiers (src/src/domain/value-objects/ids.ts), vulnerabilities (domain/entities/
  vulnerability.ts) and their repository in memory (infrastructure/repositories/
  InMemoryVulnerabilityRepository.ts).
\<close>

subsection \<open>Identifiers\<close>

text \<open>The sixteen random octets with the bits of version 4 and variant 1.\<close>

definition uuid_bytes :: "bytes \<Rightarrow> bytes" where
  "uuid_bytes bs = bs[6 := (bs ! 6 AND 0x0f) OR 0x40, 8 := (bs ! 8 AND 0x3f) OR 0x80]"

definition js_slice :: "nat \<Rightarrow> nat \<Rightarrow> jstr \<Rightarrow> jstr" where
  "js_slice a b s = drop a (take b s)"

definition uuid_text :: "bytes \<Rightarrow> jstr" where
  "uuid_text bs = (let hex = to_hex (uuid_bytes bs) in
     js_slice 0 8 hex @ lit ''-'' @ js_slice 8 12 hex @ lit ''-'' @ js_slice 12 16 hex @ lit ''-'' @ js_slice 16 20 hex
       @ lit ''-'' @ drop 20 hex)"

text \<open>What the runtime offers: randomUUID, else octets of node's or of the Web Crypto generator.\<close>

definition generate_uuid :: "jstr option \<Rightarrow> bytes option \<Rightarrow> bytes \<Rightarrow> jstr" where
  "generate_uuid platform node web = (case platform of
     Some u \<Rightarrow> u | None \<Rightarrow> (case node of Some bs \<Rightarrow> uuid_text bs | None \<Rightarrow> uuid_text web))"

text \<open>None: the constructor throws.\<close>

definition id_from_string :: "jstr \<Rightarrow> jstr option" where
  "id_from_string s = (if s = [] then None else Some s)"

definition id_equals :: "jstr \<Rightarrow> jstr \<Rightarrow> bool" where
  "id_equals a b \<longleftrightarrow> a = b"

subsection \<open>The entity\<close>

datatype severity_level = Severity_Critical | Severity_High | Severity_Medium | Severity_Low | Severity_Info

datatype vulnerability_status = Vuln_Open | Vuln_In_Progress | Vuln_Resolved | Vuln_False_Positive

definition severity_text :: "severity_level \<Rightarrow> jstr" where
  "severity_text s = (case s of Severity_Critical \<Rightarrow> lit ''CRITICAL'' | Severity_High \<Rightarrow> lit ''HIGH''
     | Severity_Medium \<Rightarrow> lit ''MEDIUM'' | Severity_Low \<Rightarrow> lit ''LOW'' | Severity_Info \<Rightarrow> lit ''INFO'')"

definition status_text :: "vulnerability_status \<Rightarrow> jstr" where
  "status_text s = (case s of Vuln_Open \<Rightarrow> lit ''OPEN'' | Vuln_In_Progress \<Rightarrow> lit ''IN_PROGRESS''
     | Vuln_Resolved \<Rightarrow> lit ''RESOLVED'' | Vuln_False_Positive \<Rightarrow> lit ''FALSE_POSITIVE'')"

record vulnerability =
  vn_id :: jstr
  vn_title :: jstr
  vn_description :: jstr
  vn_severity :: severity_level
  vn_cvss_score :: "rat option"
  vn_cve_id :: "jstr option"
  vn_status :: vulnerability_status
  vn_affected_asset :: jstr
  vn_detection_date :: int
  vn_resolution_date :: "int option"
  vn_remediation :: "jstr option"
  vn_metadata :: "metadata option"
  vn_created_at :: int
  vn_updated_at :: int

definition mark_in_progress :: "int \<Rightarrow> vulnerability \<Rightarrow> vulnerability" where
  "mark_in_progress now v = (if vn_status v = Vuln_Open then v\<lparr>vn_status := Vuln_In_Progress, vn_updated_at := now\<rparr> else v)"

definition mark_resolved :: "int \<Rightarrow> jstr option \<Rightarrow> vulnerability \<Rightarrow> vulnerability" where
  "mark_resolved now remediation v =
     (let v1 = v\<lparr>vn_status := Vuln_Resolved, vn_resolution_date := Some now\<rparr>;
          v2 = (case remediation of None \<Rightarrow> v1 | Some r \<Rightarrow> if r = [] then v1 else v1\<lparr>vn_remediation := Some r\<rparr>)
      in v2\<lparr>vn_updated_at := now\<rparr>)"

definition mark_false_positive :: "int \<Rightarrow> vulnerability \<Rightarrow> vulnerability" where
  "mark_false_positive now v = v\<lparr>vn_status := Vuln_False_Positive, vn_updated_at := now\<rparr>"

definition update_remediation :: "int \<Rightarrow> jstr \<Rightarrow> vulnerability \<Rightarrow> vulnerability" where
  "update_remediation now r v = v\<lparr>vn_remediation := Some r, vn_updated_at := now\<rparr>"

record vulnerability_input =
  vi_title :: jstr
  vi_description :: jstr
  vi_severity :: severity_level
  vi_cvss_score :: "rat option"
  vi_cve_id :: "jstr option"
  vi_affected_asset :: jstr
  vi_remediation :: "jstr option"
  vi_metadata :: "metadata option"

definition create_vulnerability :: "jstr \<Rightarrow> int \<Rightarrow> vulnerability_input \<Rightarrow> vulnerability" where
  "create_vulnerability new_id now i =
     \<lparr>vn_id = new_id, vn_title = vi_title i, vn_description = vi_description i, vn_severity = vi_severity i,
       vn_cvss_score = vi_cvss_score i, vn_cve_id = vi_cve_id i, vn_status = Vuln_Open,
       vn_affected_asset = vi_affected_asset i, vn_detection_date = now, vn_resolution_date = None,
       vn_remediation = vi_remediation i, vn_metadata = vi_metadata i, vn_created_at = now, vn_updated_at = now\<rparr>"

record plain_vulnerability =
  pv_id :: jstr
  pv_title :: jstr
  pv_description :: jstr
  pv_severity :: severity_level
  pv_cvss_score :: "rat option"
  pv_cve_id :: "jstr option"
  pv_status :: vulnerability_status
  pv_affected_asset :: jstr
  pv_detection_date :: jstr
  pv_resolution_date :: "jstr option"
  pv_remediation :: "jstr option"
  pv_metadata :: "metadata option"
  pv_created_at :: jstr
  pv_updated_at :: jstr

definition vulnerability_from_plain :: "dates \<Rightarrow> plain_vulnerability \<Rightarrow> vulnerability option" where
  "vulnerability_from_plain T p = map_option (\<lambda>i.
     \<lparr>vn_id = i, vn_title = pv_title p, vn_description = pv_description p, vn_severity = pv_severity p,
       vn_cvss_score = pv_cvss_score p, vn_cve_id = pv_cve_id p, vn_status = pv_status p,
       vn_affected_asset = pv_affected_asset p, vn_detection_date = of_iso T (pv_detection_date p),
       vn_resolution_date = optional_date T (pv_resolution_date p), vn_remediation = pv_remediation p,
       vn_metadata = pv_metadata p, vn_created_at = of_iso T (pv_created_at p),
       vn_updated_at = of_iso T (pv_updated_at p)\<rparr>) (id_from_string (pv_id p))"

text \<open>None: the metadata cannot be written as JSON.\<close>

definition vulnerability_to_plain :: "subtle \<Rightarrow> dates \<Rightarrow> vulnerability \<Rightarrow> plain_vulnerability option" where
  "vulnerability_to_plain S T v = map_option (\<lambda>m.
     \<lparr>pv_id = vn_id v, pv_title = vn_title v, pv_description = vn_description v, pv_severity = vn_severity v,
       pv_cvss_score = vn_cvss_score v, pv_cve_id = vn_cve_id v, pv_status = vn_status v,
       pv_affected_asset = vn_affected_asset v, pv_detection_date = to_iso T (vn_detection_date v),
       pv_resolution_date = map_option (to_iso T) (vn_resolution_date v), pv_remediation = vn_remediation v,
       pv_metadata = m, pv_created_at = to_iso T (vn_created_at v), pv_updated_at = to_iso T (vn_updated_at v)\<rparr>)
     (clone_metadata S (vn_metadata v))"

subsection \<open>The repository\<close>

text \<open>A list of entities; that the caller keeps a reference to what it saved is left out.\<close>

fun vulnerability_put :: "vulnerability list \<Rightarrow> vulnerability \<Rightarrow> vulnerability list" where
  "vulnerability_put [] v = [v]"
| "vulnerability_put (x # xs) v = (if id_equals (vn_id x) (vn_id v) then v # xs else x # vulnerability_put xs v)"

definition vulnerability_save ::
  "vulnerability list \<Rightarrow> vulnerability \<Rightarrow> vulnerability option \<times> vulnerability list" where
  "vulnerability_save vs v = (Some v, vulnerability_put vs v)"

definition vulnerability_find :: "vulnerability list \<Rightarrow> jstr \<Rightarrow> vulnerability option option" where
  "vulnerability_find vs i = Some (List.find (\<lambda>v. id_equals (vn_id v) i) vs)"

record vulnerability_search =
  vs_severity :: "jstr option"
  vs_status :: "jstr option"
  vs_date_from :: "int option"
  vs_date_to :: "int option"

definition vulnerability_matches :: "vulnerability_search \<Rightarrow> vulnerability \<Rightarrow> bool" where
  "vulnerability_matches q v \<longleftrightarrow> criterion (vs_severity q) (\<lambda>s. severity_text (vn_severity v) = s)
     \<and> criterion (vs_status q) (\<lambda>s. status_text (vn_status v) = s)
     \<and> (case vs_date_from q of None \<Rightarrow> True | Some d \<Rightarrow> vn_detection_date v \<ge> d)
     \<and> (case vs_date_to q of None \<Rightarrow> True | Some d \<Rightarrow> vn_detection_date v \<le> d)"

definition vulnerability_search_all :: "vulnerability list \<Rightarrow> vulnerability_search \<Rightarrow> vulnerability list" where
  "vulnerability_search_all vs q = filter (vulnerability_matches q) vs"

fun vulnerability_drop :: "vulnerability list \<Rightarrow> jstr \<Rightarrow> vulnerability list" where
  "vulnerability_drop [] i = []"
| "vulnerability_drop (x # xs) i = (if id_equals (vn_id x) i then xs else x # vulnerability_drop xs i)"

definition vulnerability_delete :: "vulnerability list \<Rightarrow> jstr \<Rightarrow> bool \<times> vulnerability list" where
  "vulnerability_delete vs i = (list_ex (\<lambda>v. id_equals (vn_id v) i) vs, vulnerability_drop vs i)"

subsection \<open>Facts\<close>

lemma length_uuid_bytes [simp]: "length (uuid_bytes bs) = length bs"
  by (simp add: uuid_bytes_def)

lemma nth_to_hex:
  "i < length bs \<Longrightarrow> to_hex bs ! (2 * i) = hex_digit (unat (bs ! i) div 16)
    \<and> to_hex bs ! (2 * i + 1) = hex_digit (unat (bs ! i) mod 16)"
proof (induction bs arbitrary: i)
  case (Cons b bs)
  have c: "to_hex (b # bs) = hex_digit (unat b div 16) # hex_digit (unat b mod 16) # to_hex bs"
    by (simp add: to_hex_def nats_of_def)
  show ?case
  proof (cases i)
    case (Suc j)
    then show ?thesis using Cons.IH [of j] Cons.prems by (simp add: c)
  qed (simp add: c)
qed simp

lemma uuid_length: "length bs = 16 \<Longrightarrow> length (uuid_text bs) = 36"
  by (simp add: uuid_text_def js_slice_def length_to_hex Let_def)

text \<open>Any sequence of transitions: a vulnerability that is no longer open never becomes open again.\<close>

datatype vulnerability_op = In_Progress int | Resolved int "jstr option" | False_Positive int | Remediate int jstr

fun vulnerability_op_step :: "vulnerability_op \<Rightarrow> vulnerability \<Rightarrow> vulnerability" where
  "vulnerability_op_step (In_Progress t) v = mark_in_progress t v"
| "vulnerability_op_step (Resolved t r) v = mark_resolved t r v"
| "vulnerability_op_step (False_Positive t) v = mark_false_positive t v"
| "vulnerability_op_step (Remediate t r) v = update_remediation t r v"

lemmas vulnerability_ops = mark_in_progress_def mark_resolved_def mark_false_positive_def update_remediation_def Let_def

lemma never_reopened:
  "vn_status v \<noteq> Vuln_Open \<Longrightarrow> vn_status (fold vulnerability_op_step ops v) \<noteq> Vuln_Open"
proof (induction ops arbitrary: v)
  case (Cons x ops)
  have "vn_status (vulnerability_op_step x v) \<noteq> Vuln_Open"
    using Cons.prems by (cases x) (auto simp: vulnerability_ops split: option.splits)
  then show ?case using Cons.IH by simp
qed simp

lemma resolved_has_date:
  "(vn_status v = Vuln_Resolved \<longrightarrow> vn_resolution_date v \<noteq> None) \<Longrightarrow>
     vn_status (fold vulnerability_op_step ops v) = Vuln_Resolved \<longrightarrow> vn_resolution_date (fold vulnerability_op_step ops v) \<noteq> None"
proof (induction ops arbitrary: v)
  case (Cons x ops)
  have "vn_status (vulnerability_op_step x v) = Vuln_Resolved \<longrightarrow> vn_resolution_date (vulnerability_op_step x v) \<noteq> None"
    using Cons.prems by (cases x) (auto simp: vulnerability_ops split: option.splits)
  then show ?case using Cons.IH by simp
qed simp

lemma vulnerability_round_trip:
  assumes "vulnerability_to_plain S T v = Some p" "vn_id v \<noteq> []"
    and "\<And>m. vn_metadata v = Some m \<Longrightarrow> json_parse S (json_stringify S (JObj m)) = Some (JObj m)"
    and "\<forall>t \<in> {vn_detection_date v, vn_created_at v, vn_updated_at v} \<union> set_option (vn_resolution_date v). dates_ok T t"
  shows "vulnerability_from_plain T p = Some v"
proof -
  have "clone_metadata S (vn_metadata v) = Some (vn_metadata v)"
    using assms(3) by (cases "vn_metadata v") (simp_all add: clone_metadata_def)
  moreover have "optional_date T (map_option (to_iso T) (vn_resolution_date v)) = vn_resolution_date v"
    using assms(4) by (intro optional_date_iso) simp
  ultimately show ?thesis using assms(1,2,4)
    by (auto simp: vulnerability_to_plain_def vulnerability_from_plain_def id_from_string_def dates_ok_def)
qed

lemma find_put: "List.find (\<lambda>v. vn_id v = i) (vulnerability_put vs x)
   = (if vn_id x = i then Some x else List.find (\<lambda>v. vn_id v = i) vs)"
  by (induction vs) (auto simp: id_equals_def)

lemma put_ids: "distinct (map vn_id vs) \<Longrightarrow> distinct (map vn_id (vulnerability_put vs x))
    \<and> set (map vn_id (vulnerability_put vs x)) = insert (vn_id x) (set (map vn_id vs))"
  by (induction vs) (auto simp: id_equals_def)

lemma find_drop:
  "distinct (map vn_id vs) \<Longrightarrow> List.find (\<lambda>v. vn_id v = i) (vulnerability_drop vs j)
     = (if i = j then None else List.find (\<lambda>v. vn_id v = i) vs)"
  by (induction vs) (auto simp: id_equals_def find_None_iff image_iff)

interpretation vt: entity_table vulnerability_save vulnerability_find vulnerability_delete vn_id "\<lambda>vs. distinct (map vn_id vs)"
proof (unfold_locales, goal_cases)
  case (2 t i)
  have "set (map vn_id (vulnerability_drop vs i)) \<subseteq> set (map vn_id vs)" for vs
    by (induction vs) auto
  then have "distinct (map vn_id vs) \<Longrightarrow> distinct (map vn_id (vulnerability_drop vs i))" for vs
    by (induction vs) auto
  then show ?case using 2 by (simp add: vulnerability_delete_def)
next
  case (7 i j t)
  have "List.find (\<lambda>v. vn_id v = i) (vulnerability_drop vs j) = List.find (\<lambda>v. vn_id v = i) vs" for vs
    using 7 by (induction vs) (auto simp: id_equals_def)
  then show ?case by (simp add: vulnerability_find_def vulnerability_delete_def id_equals_def)
qed (auto simp: vulnerability_save_def vulnerability_find_def vulnerability_delete_def id_equals_def find_put put_ids find_drop)

end
