(* ===== verification/Exchange_Crypto.thy ===== *)
theory Exchange_Crypto
  imports Vault_Keys Step_Up_Proof Authored_Release
begin

text \<open>
  Key agreement and the byte-level services of the extension: src/src/infrastructure/
  crypto/key-exchange.ts, KeyExchangeService.ts, signature-service.ts, HashingService.ts
  and the payloads of domain/ports/ICryptoService.ts.  Elliptic curves, ChaCha20 and
  PBKDF2 are parameters; None is a rejection of theirs.
\<close>

subsection \<open>Key agreement\<close>

datatype exchange_curve = X25519 | P256
datatype private_format = Raw_Key | Pkcs8_Key

text \<open>Keys are exported octets, public key first.\<close>

record exchange_platform =
  xp_generate_x25519 :: "(bytes \<times> bytes) option"
  xp_generate_p256 :: "(bytes \<times> bytes) option"
  xp_agree :: "exchange_curve \<Rightarrow> private_format \<Rightarrow> bytes \<Rightarrow> bytes \<Rightarrow> bytes option"
  xp_pbkdf2_sha512 :: "bytes \<Rightarrow> bytes \<Rightarrow> int \<Rightarrow> bytes"
  xp_chacha_seal :: "bytes \<Rightarrow> bytes \<Rightarrow> bytes option \<Rightarrow> bytes \<Rightarrow> bytes"
  xp_chacha_open :: "bytes \<Rightarrow> bytes \<Rightarrow> bytes option \<Rightarrow> bytes \<Rightarrow> bytes option"
  xp_ecdsa_sign :: "bytes \<Rightarrow> bytes \<Rightarrow> bytes option"
  xp_ecdsa_verify :: "bytes \<Rightarrow> bytes \<Rightarrow> bytes \<Rightarrow> bool option"

record exchange_pair =
  xk_public :: secure_buffer
  xk_private :: secure_buffer
  xk_curve :: exchange_curve
  xk_format :: private_format

definition secure_buffer_from :: "bytes \<Rightarrow> secure_buffer" where
  "secure_buffer_from data = (case copy_from (new_secure_buffer (length data)) data of Inr b \<Rightarrow> b | Inl _ \<Rightarrow> new_secure_buffer (length data))"

definition pair_of :: "exchange_curve \<Rightarrow> private_format \<Rightarrow> bytes \<times> bytes \<Rightarrow> exchange_pair" where
  "pair_of c f k = \<lparr>xk_public = secure_buffer_from (fst k), xk_private = secure_buffer_from (snd k), xk_curve = c, xk_format = f\<rparr>"

definition generate_exchange_pair :: "exchange_platform \<Rightarrow> exchange_pair option" where
  "generate_exchange_pair X = (case xp_generate_x25519 X of
     Some k \<Rightarrow> Some (pair_of X25519 Raw_Key k)
   | None \<Rightarrow> map_option (pair_of P256 Pkcs8_Key) (xp_generate_p256 X))"

datatype exchange_error = Private_Key_Freed | Buffer_Error buffer_error | Agreement_Failed

definition default_exchange_context :: string where "default_exchange_context = ''cybervault_key_exchange_v1''"

text \<open>The context is salt and info of the derivation at once.\<close>

definition derive_shared_secret ::
  "subtle \<Rightarrow> exchange_platform \<Rightarrow> exchange_pair \<Rightarrow> secure_buffer \<Rightarrow> jstr \<Rightarrow> exchange_error + bytes" where
  "derive_shared_secret S X kp peer context =
     (if sb_freed (xk_private kp) then Inl Private_Key_Freed
      else case buffer_view (xk_private kp) of
        Inl e \<Rightarrow> Inl (Buffer_Error e)
      | Inr priv \<Rightarrow> (case buffer_view peer of
          Inl e \<Rightarrow> Inl (Buffer_Error e)
        | Inr pub \<Rightarrow> (case xp_agree X (xk_curve kp) (xk_format kp) priv pub of
            None \<Rightarrow> Inl Agreement_Failed
          | Some z \<Rightarrow> Inr (hkdf_sha256 S z (utf8_encode context) (utf8_encode context) 256))))"

definition export_public_key :: "exchange_pair \<Rightarrow> buffer_error + jstr" where
  "export_public_key kp = (case buffer_view (xk_public kp) of Inl e \<Rightarrow> Inl e | Inr bs \<Rightarrow> Inr (binary_to_base64 bs))"

definition import_public_key :: "jstr \<Rightarrow> secure_buffer option" where
  "import_public_key s = map_option secure_buffer_from (base64_to_binary s)"

definition exchange_bytes_equal :: "bytes \<Rightarrow> bytes \<Rightarrow> bool" where
  "exchange_bytes_equal a b \<longleftrightarrow> length a = length b
     \<and> fold (\<lambda>(x, y) r. r OR (x XOR y)) (zip a b) 0 = 0"

subsection \<open>Sealed and signed payloads\<close>

datatype payload_algorithm = Aes_256_Gcm | Chacha20_Poly1305

record sealed_payload =
  sp_ciphertext :: bytes
  sp_nonce :: bytes
  sp_auth_tag :: bytes
  sp_algorithm :: payload_algorithm
  sp_key_id :: jstr
  sp_aad :: "bytes option"

definition auth_tag_length :: nat where "auth_tag_length = 16"

text \<open>\<^verbatim>\<open>slice(-16)\<close> and \<^verbatim>\<open>slice(0, -16)\<close>.\<close>

definition split_tag :: "bytes \<Rightarrow> bytes \<times> bytes" where
  "split_tag c = (take (length c - auth_tag_length) c, drop (length c - auth_tag_length) c)"

definition payload_of :: "payload_algorithm \<Rightarrow> bytes \<Rightarrow> bytes \<Rightarrow> bytes \<Rightarrow> sealed_payload" where
  "payload_of alg nonce key_id c = \<lparr>sp_ciphertext = fst (split_tag c), sp_nonce = nonce, sp_auth_tag = snd (split_tag c),
     sp_algorithm = alg, sp_key_id = to_hex key_id, sp_aad = None\<rparr>"

definition aad_bytes :: "bytes option \<Rightarrow> bytes" where
  "aad_bytes aad = (case aad of None \<Rightarrow> [] | Some a \<Rightarrow> a)"

definition encrypt_aes256_gcm ::
  "subtle \<Rightarrow> bytes \<Rightarrow> bytes \<Rightarrow> bytes \<Rightarrow> bytes \<Rightarrow> bytes option \<Rightarrow> sealed_payload option" where
  "encrypt_aes256_gcm S nonce key_id key plain aad =
     map_option (payload_of Aes_256_Gcm nonce key_id) (aes_gcm_encrypt S key nonce (aad_bytes aad) plain)"

definition decrypt_aes256_gcm :: "subtle \<Rightarrow> bytes \<Rightarrow> sealed_payload \<Rightarrow> bytes option" where
  "decrypt_aes256_gcm S key p = aes_gcm_decrypt S key (sp_nonce p) (aad_bytes (sp_aad p)) (sp_ciphertext p @ sp_auth_tag p)"

definition encrypt_chacha20 ::
  "exchange_platform \<Rightarrow> bytes \<Rightarrow> bytes \<Rightarrow> bytes \<Rightarrow> bytes \<Rightarrow> bytes option \<Rightarrow> sealed_payload" where
  "encrypt_chacha20 X nonce key_id key plain aad =
     payload_of Chacha20_Poly1305 nonce key_id (xp_chacha_seal X key nonce aad plain)"

definition decrypt_chacha20 :: "exchange_platform \<Rightarrow> bytes \<Rightarrow> sealed_payload \<Rightarrow> bytes option" where
  "decrypt_chacha20 X key p = xp_chacha_open X key (sp_nonce p) None (sp_ciphertext p @ sp_auth_tag p)"

definition derive_key_pbkdf2 :: "exchange_platform \<Rightarrow> bytes \<Rightarrow> bytes \<Rightarrow> int option \<Rightarrow> bytes" where
  "derive_key_pbkdf2 X password salt iter =
     xp_pbkdf2_sha512 X password salt ((case iter of None \<Rightarrow> 3 | Some n \<Rightarrow> n) * 100000)"

definition service_shared_secret :: "exchange_platform \<Rightarrow> bytes \<Rightarrow> bytes \<Rightarrow> bytes option" where
  "service_shared_secret X private_key peer = xp_agree X X25519 Pkcs8_Key private_key peer"

record signed_payload =
  sg_data :: bytes
  sg_signature :: bytes
  sg_key_id :: jstr

definition sign_ecdsa_p256 :: "exchange_platform \<Rightarrow> bytes \<Rightarrow> bytes \<Rightarrow> bytes \<Rightarrow> signed_payload option" where
  "sign_ecdsa_p256 X key_id private_key data =
     map_option (\<lambda>s. \<lparr>sg_data = data, sg_signature = s, sg_key_id = to_hex key_id\<rparr>) (xp_ecdsa_sign X private_key data)"

definition verify_ecdsa_p256 :: "exchange_platform \<Rightarrow> bytes \<Rightarrow> signed_payload \<Rightarrow> bool option" where
  "verify_ecdsa_p256 X public_key p = xp_ecdsa_verify X public_key (sg_signature p) (sg_data p)"

subsection \<open>Signatures and hashes of texts\<close>

text \<open>None: the key is not JSON or is refused; a failed verification answers false.\<close>

definition text_sign :: "subtle \<Rightarrow> key_crypto \<Rightarrow> jstr \<Rightarrow> jstr \<Rightarrow> jstr option" where
  "text_sign S K data private_key = (case json_parse S private_key of
     None \<Rightarrow> None
   | Some _ \<Rightarrow> map_option binary_to_base64 (kc_ecdsa_sign K private_key (utf8_encode data)))"

definition text_verify :: "subtle \<Rightarrow> key_crypto \<Rightarrow> jstr \<Rightarrow> jstr \<Rightarrow> jstr \<Rightarrow> bool" where
  "text_verify S K data signature public_key = (case json_parse S public_key of
     None \<Rightarrow> False
   | Some _ \<Rightarrow> (case base64_to_binary signature of
       None \<Rightarrow> False
     | Some s \<Rightarrow> (case kc_ecdsa_verify K public_key s (utf8_encode data) of None \<Rightarrow> False | Some b \<Rightarrow> b)))"

definition text_hash :: "key_crypto \<Rightarrow> jstr \<Rightarrow> jstr" where
  "text_hash K data = to_hex (kc_sha256 K (utf8_encode data))"

subsection \<open>Facts\<close>

lemma buffer_of_data [simp]: "buffer_view (secure_buffer_from data) = Inr data" "\<not> sb_freed (secure_buffer_from data)"
  by (simp_all add: secure_buffer_from_def copy_from_def new_secure_buffer_def buffer_view_def)

text \<open>Both sides of an agreement derive one key, for whichever curve the platform offers.\<close>

lemma shared_secret_agrees:
  assumes "xp_agree X c fa a pb = Some z" and "xp_agree X c fb b pa = Some z"
  shows "derive_shared_secret S X (pair_of c fa (pa, a)) (secure_buffer_from pb) ctx
    = derive_shared_secret S X (pair_of c fb (pb, b)) (secure_buffer_from pa) ctx
    \<and> (\<exists>k. derive_shared_secret S X (pair_of c fa (pa, a)) (secure_buffer_from pb) ctx = Inr k)"
  using assms by (simp add: derive_shared_secret_def pair_of_def)

lemma freed_key_derives_nothing:
  "derive_shared_secret S X (kp\<lparr>xk_private := buffer_free (xk_private kp)\<rparr>) peer ctx = Inl Private_Key_Freed"
  by (simp add: derive_shared_secret_def buffer_free_def)

lemma exported_key_imports:
  "export_public_key (pair_of c f (pub, priv)) = Inr s \<Longrightarrow> import_public_key s = Some (secure_buffer_from pub)"
  by (auto simp: export_public_key_def pair_of_def import_public_key_def base64_round_trip)

lemma fold_or_word_zero: "fold (\<lambda>(x, y) r. r OR (x XOR y)) ps r = (0 :: 8 word) \<longleftrightarrow> r = 0 \<and> (\<forall>(x, y) \<in> set ps. x = y)"
proof (induction ps arbitrary: r)
  case (Cons p ps)
  obtain x y where p: "p = (x, y)" by fastforce
  have "r OR (x XOR y) = 0 \<longleftrightarrow> r = 0 \<and> x = y"
    by (metis or_eq_0_iff xor_self_eq bit.xor_left_self xor.right_neutral)
  then show ?case by (auto simp: p Cons.IH)
qed simp

lemma exchange_bytes_equal_iff: "exchange_bytes_equal a b \<longleftrightarrow> a = b"
  by (auto simp: exchange_bytes_equal_def fold_or_word_zero list_eq_iff_zip_eq in_set_zip)

lemma split_tag_whole: "fst (split_tag c) @ snd (split_tag c) = c"
  by (simp add: split_tag_def)

lemma sealed_payload_opens:
  assumes "aead_ok S" "encrypt_aes256_gcm S nonce kid key plain None = Some p"
  shows "decrypt_aes256_gcm S key p = Some plain"
  using assms by (auto simp: encrypt_aes256_gcm_def decrypt_aes256_gcm_def payload_of_def split_tag_whole aead_ok_def aad_bytes_def)

text \<open>The additional data is not kept in the payload, so opening authenticates none.\<close>

lemma payload_forgets_aad:
  assumes "encrypt_aes256_gcm S nonce kid key plain (Some a) = Some p"
  shows "\<exists>c. aes_gcm_encrypt S key nonce a plain = Some c \<and> decrypt_aes256_gcm S key p = aes_gcm_decrypt S key nonce [] c"
  using assms by (auto simp: encrypt_aes256_gcm_def decrypt_aes256_gcm_def payload_of_def split_tag_whole aad_bytes_def)

lemma chacha_forgets_aad:
  "decrypt_chacha20 X key (encrypt_chacha20 X nonce kid key plain aad) = xp_chacha_open X key nonce None (xp_chacha_seal X key nonce aad plain)"
  by (simp add: decrypt_chacha20_def encrypt_chacha20_def payload_of_def split_tag_whole)

lemma signed_payload_verifies:
  assumes "\<And>s. xp_ecdsa_sign X priv data = Some s \<Longrightarrow> xp_ecdsa_verify X pub s data = Some True"
    and "sign_ecdsa_p256 X kid priv data = Some p"
  shows "verify_ecdsa_p256 X pub p = Some True"
  using assms by (auto simp: sign_ecdsa_p256_def verify_ecdsa_p256_def)

lemma signed_text_verifies:
  assumes "\<And>s. kc_ecdsa_sign K priv (utf8_encode data) = Some s \<Longrightarrow> kc_ecdsa_verify K pub s (utf8_encode data) = Some True"
    and "json_parse S pub \<noteq> None" and "text_sign S K data priv = Some s"
  shows "text_verify S K data s pub"
  using assms by (auto simp: text_sign_def text_verify_def base64_round_trip split: option.splits)

lemma text_hash_length: "length (kc_sha256 K (utf8_encode data)) = 32 \<Longrightarrow> length (text_hash K data) = 64"
  by (simp add: text_hash_def length_to_hex)

end
