(* ===== verification/Extension_Stores.thy ===== *)
theory Extension_Stores
  imports Vault_Keys Codec "HOL-Library.AList" Service_Worker Vault_Store
begin

text \<open>Smaller stores of the extension: isolated cookies, the options page, the vault of the browser.\<close>

section \<open>Isolated cookies\<close>

text \<open>
  The session cookies kept out of the browser, src/src/infrastructure/cookie/
  chrome-storage-cookie-isolation-adapter.ts with the time to live of
  domain/constants/cookie-isolation.ts.  The store is a JavaScript Map: an association list in
  the order of insertion.
\<close>

definition cookie_ttl_ms :: int where "cookie_ttl_ms = 30 * 60 * 1000"

record isolated_cookie =
  ic_name :: jstr
  ic_domain :: jstr

record isolated_entry =
  ie_buffer :: secure_buffer
  ie_expires_at :: int

text \<open>The second part: the native cookies asked to be removed, as url and name.\<close>

record cookie_isolation =
  ci_store :: "(jstr \<times> isolated_entry) list"
  ci_released :: "secure_buffer list"
  ci_removals :: "(jstr \<times> jstr) list"

definition no_cookies :: cookie_isolation where
  "no_cookies = \<lparr>ci_store = [], ci_released = [], ci_removals = []\<rparr>"

definition cookie_key :: "jstr \<Rightarrow> jstr \<Rightarrow> jstr" where
  "cookie_key domain name = domain @ 58 # name"

definition remove_native_cookie :: "jstr \<Rightarrow> jstr \<Rightarrow> cookie_isolation \<Rightarrow> cookie_isolation" where
  "remove_native_cookie domain name c = c\<lparr>ci_removals := ci_removals c @ [(lit ''https://'' @ domain, name)]\<rparr>"

definition release_entry :: "isolated_entry \<Rightarrow> cookie_isolation \<Rightarrow> cookie_isolation" where
  "release_entry e c = c\<lparr>ci_released := ci_released c @ [buffer_free (ie_buffer e)]\<rparr>"

definition isolate_cookie ::
  "int \<Rightarrow> jstr \<Rightarrow> bytes \<Rightarrow> isolated_cookie \<Rightarrow> cookie_isolation \<Rightarrow> buffer_error + cookie_isolation" where
  "isolate_cookie now domain encoded k c =
     (let key = cookie_key domain (ic_name k);
        c1 = (case map_of (ci_store c) key of None \<Rightarrow> c | Some e \<Rightarrow> release_entry e c)
      in case copy_from (new_secure_buffer (length encoded)) encoded of
           Inl e \<Rightarrow> Inl e
         | Inr b \<Rightarrow> Inr (remove_native_cookie (ic_domain k) (ic_name k)
             (c1\<lparr>ci_store := AList.update key \<lparr>ie_buffer = b, ie_expires_at = now + cookie_ttl_ms\<rparr> (ci_store c1)\<rparr>)))"

fun isolate_cookies ::
  "int \<Rightarrow> jstr \<Rightarrow> bytes \<Rightarrow> isolated_cookie list \<Rightarrow> cookie_isolation \<Rightarrow> buffer_error + cookie_isolation" where
  "isolate_cookies now domain encoded [] c = Inr c"
| "isolate_cookies now domain encoded (k # ks) c =
     (case isolate_cookie now domain encoded k c of
        Inl e \<Rightarrow> Inl e | Inr c' \<Rightarrow> isolate_cookies now domain encoded ks c')"

datatype isolation_error = Cookie_Value_Required | Isolation_Buffer buffer_error

definition isolate_session_cookies ::
  "int \<Rightarrow> jstr \<Rightarrow> isolated_cookie list \<Rightarrow> jstr \<Rightarrow> cookie_isolation \<Rightarrow> isolation_error + cookie_isolation" where
  "isolate_session_cookies now domain cookies value c =
     (if value = [] then Inl Cookie_Value_Required
      else (case isolate_cookies now domain (utf8_encode value) cookies c of
          Inl e \<Rightarrow> Inl (Isolation_Buffer e) | Inr c' \<Rightarrow> Inr c'))"

text \<open>The entries of a domain in the order of the store; those past their time are freed and dropped.\<close>

definition of_domain :: "jstr \<Rightarrow> jstr \<Rightarrow> bool" where
  "of_domain domain key \<longleftrightarrow> starts_with key (domain @ [58])"

definition entry_expired :: "int \<Rightarrow> isolated_entry \<Rightarrow> bool" where
  "entry_expired now e \<longleftrightarrow> ie_expires_at e < now"

fun collect_entries ::
  "int \<Rightarrow> jstr \<Rightarrow> (jstr \<times> isolated_entry) list \<Rightarrow> secure_buffer list \<times> (jstr \<times> isolated_entry) list \<times> secure_buffer list" where
  "collect_entries now domain [] = ([], [], [])"
| "collect_entries now domain ((key, e) # es) =
     (case collect_entries now domain es of (found, kept, released) \<Rightarrow>
        if \<not> of_domain domain key then (found, (key, e) # kept, released)
        else if entry_expired now e then (found, kept, buffer_free (ie_buffer e) # released)
        else (ie_buffer e # found, (key, e) # kept, released))"

fun merge_buffers :: "secure_buffer list \<Rightarrow> buffer_error + bytes" where
  "merge_buffers [] = Inr []"
| "merge_buffers (b # bs) =
     (case copy_to b (replicate (length (sb_bytes b)) 0) of
        Inl e \<Rightarrow> Inl e
      | Inr chunk \<Rightarrow> (case merge_buffers bs of Inl e \<Rightarrow> Inl e | Inr rest \<Rightarrow> Inr (chunk @ rest)))"

definition retrieve_isolated_session ::
  "int \<Rightarrow> jstr \<Rightarrow> cookie_isolation \<Rightarrow> (buffer_error + secure_buffer option) \<times> cookie_isolation" where
  "retrieve_isolated_session now domain c =
     (case collect_entries now domain (ci_store c) of (found, kept, released) \<Rightarrow>
        (if found = [] then Inr None
         else (case merge_buffers found of
             Inl e \<Rightarrow> Inl e
           | Inr bytes \<Rightarrow> Inr (Some (\<lparr>sb_bytes = bytes, sb_freed = False\<rparr>))),
         c\<lparr>ci_store := kept, ci_released := ci_released c @ released\<rparr>))"

definition free_all_cookies :: "cookie_isolation \<Rightarrow> cookie_isolation" where
  "free_all_cookies c = c\<lparr>ci_store := [],
     ci_released := ci_released c @ map (\<lambda>(_, e). buffer_free (ie_buffer e)) (ci_store c)\<rparr>"

subsection \<open>What is kept\<close>

text \<open>No key twice, nothing released in the store, every released buffer wiped.\<close>

definition cookies_ok :: "cookie_isolation \<Rightarrow> bool" where
  "cookies_ok c \<longleftrightarrow> distinct (map fst (ci_store c))
     \<and> (\<forall>(k, e) \<in> set (ci_store c). \<not> sb_freed (ie_buffer e))
     \<and> (\<forall>b \<in> set (ci_released c). sb_freed b \<and> set (sb_bytes b) \<subseteq> {0})"

lemma wiped_buffer: "\<not> sb_freed b \<Longrightarrow> sb_freed (buffer_free b) \<and> set (sb_bytes (buffer_free b)) \<subseteq> {0}"
  using freed_buffer_is_wiped [of b] by (auto simp: buffer_free_def)

lemma copied_exactly: "copy_from (new_secure_buffer (length bs)) bs = Inr \<lparr>sb_bytes = bs, sb_freed = False\<rparr>"
  by (simp add: copy_from_def new_secure_buffer_def)

lemma set_alist_update: "set (AList.update k v xs) \<subseteq> insert (k, v) (set xs)"
  by (induction xs) auto

lemma update_fresh: "k \<notin> fst ` set xs \<Longrightarrow> AList.update k v xs = xs @ [(k, v)]"
  by (induction xs) auto

lemma isolate_cookie_store:
  assumes "isolate_cookie now domain bs k c = Inr c'"
  shows "ci_store c' = AList.update (cookie_key domain (ic_name k))
      \<lparr>ie_buffer = \<lparr>sb_bytes = bs, sb_freed = False\<rparr>, ie_expires_at = now + cookie_ttl_ms\<rparr> (ci_store c)"
    and "ci_released c' = ci_released c @ (case map_of (ci_store c) (cookie_key domain (ic_name k)) of
      None \<Rightarrow> [] | Some e \<Rightarrow> [buffer_free (ie_buffer e)])"
  using assms by (auto simp: isolate_cookie_def copied_exactly Let_def release_entry_def remove_native_cookie_def
      split: option.splits)

lemma isolate_cookie_ok:
  assumes "isolate_cookie now domain bs k c = Inr c'" "cookies_ok c"
  shows "cookies_ok c'"
proof -
  have "\<not> sb_freed (ie_buffer e)" if "(x, e) \<in> set (ci_store c')" for x e
    using that assms(2) set_alist_update isolate_cookie_store(1) [OF assms(1)]
    by (fastforce simp: cookies_ok_def)
  moreover have "sb_freed b \<and> set (sb_bytes b) \<subseteq> {0}" if "b \<in> set (ci_released c')" for b
  proof (cases "b \<in> set (ci_released c)")
    case True
    then show ?thesis using assms(2) by (simp add: cookies_ok_def)
  next
    case False
    with that obtain e where m: "map_of (ci_store c) (cookie_key domain (ic_name k)) = Some e"
      and e: "b = buffer_free (ie_buffer e)"
      by (cases "map_of (ci_store c) (cookie_key domain (ic_name k))") (auto simp: isolate_cookie_store(2) [OF assms(1)])
    from m have "(cookie_key domain (ic_name k), e) \<in> set (ci_store c)" by (rule map_of_SomeD)
    then have "\<not> sb_freed (ie_buffer e)" using assms(2) by (auto simp: cookies_ok_def)
    from wiped_buffer [OF this] show ?thesis using e by simp
  qed
  moreover have "distinct (map fst (ci_store c'))"
    using assms(2) by (simp add: isolate_cookie_store(1) [OF assms(1)] cookies_ok_def distinct_update)
  ultimately show ?thesis by (auto simp: cookies_ok_def)
qed

lemma isolate_cookies_ok:
  "isolate_cookies now domain bs ks c = Inr c' \<Longrightarrow> cookies_ok c \<Longrightarrow> cookies_ok c'"
  by (induction ks arbitrary: c) (auto dest: isolate_cookie_ok split: sum.splits)

lemma isolated_session_ok:
  assumes "isolate_session_cookies now domain ks value c = Inr c'" "cookies_ok c"
  shows "cookies_ok c'"
  using assms by (auto simp: isolate_session_cookies_def dest: isolate_cookies_ok split: if_splits sum.splits)

lemma collected:
  "collect_entries now domain es = (found, kept, released) \<Longrightarrow>
     found = map (ie_buffer \<circ> snd) (filter (\<lambda>(k, e). of_domain domain k \<and> \<not> entry_expired now e) es)
     \<and> kept = filter (\<lambda>(k, e). \<not> (of_domain domain k \<and> entry_expired now e)) es
     \<and> released = map (buffer_free \<circ> ie_buffer \<circ> snd) (filter (\<lambda>(k, e). of_domain domain k \<and> entry_expired now e) es)"
  by (induction es arbitrary: found kept released) (auto split: prod.splits if_splits)

lemma retrieve_ok: "cookies_ok c \<Longrightarrow> cookies_ok (snd (retrieve_isolated_session now domain c))"
  using wiped_buffer
  by (fastforce simp: retrieve_isolated_session_def cookies_ok_def distinct_map_filter dest!: collected split: prod.splits)

lemma free_all_ok: "cookies_ok c \<Longrightarrow> cookies_ok (free_all_cookies c)"
  using wiped_buffer by (fastforce simp: free_all_cookies_def cookies_ok_def)

lemma merge_unfreed: "\<forall>b \<in> set bs. \<not> sb_freed b \<Longrightarrow> merge_buffers bs = Inr (concat (map sb_bytes bs))"
  by (induction bs) (auto simp: copy_to_def Let_def)

text \<open>What a retrieval returns, in any state the adapter can be in.\<close>

lemma retrieved_session:
  assumes "cookies_ok c"
  shows "fst (retrieve_isolated_session now domain c) =
    Inr (let es = filter (\<lambda>(k, e). of_domain domain k \<and> \<not> entry_expired now e) (ci_store c) in
      if es = [] then None else Some \<lparr>sb_bytes = concat (map (sb_bytes \<circ> ie_buffer \<circ> snd) es), sb_freed = False\<rparr>)"
proof -
  let ?es = "filter (\<lambda>(k, e). of_domain domain k \<and> \<not> entry_expired now e) (ci_store c)"
  have "\<forall>b \<in> set (map (ie_buffer \<circ> snd) ?es). \<not> sb_freed b"
    using assms by (auto simp: cookies_ok_def)
  from merge_unfreed [OF this] show ?thesis
    by (auto simp: retrieve_isolated_session_def Let_def comp_assoc dest!: collected split: prod.splits)
qed

lemma nothing_after_the_time_to_live:
  assumes "cookies_ok c" "\<forall>(k, e) \<in> set (ci_store c). ie_expires_at e < now"
  shows "fst (retrieve_isolated_session now domain c) = Inr None"
    and "\<forall>(k, e) \<in> set (ci_store (snd (retrieve_isolated_session now domain c))). \<not> of_domain domain k"
  using assms
  by (auto simp: retrieved_session Let_def filter_empty_conv entry_expired_def)
    (auto simp: retrieve_isolated_session_def entry_expired_def dest!: collected split: prod.splits)

lemma nothing_after_free_all: "fst (retrieve_isolated_session now domain (free_all_cookies c)) = Inr None"
  by (simp add: retrieve_isolated_session_def free_all_cookies_def)

text \<open>
  The whole text goes under every cookie's name: a session of several cookies comes back
  as that many copies.
\<close>

lemma isolate_from_empty:
  assumes "distinct (map ic_name ks)" "\<forall>k \<in> set ks. cookie_key domain (ic_name k) \<notin> fst ` set (ci_store c)"
  shows "\<exists>c'. isolate_cookies now domain bs ks c = Inr c' \<and> ci_store c' = ci_store c @
    map (\<lambda>k. (cookie_key domain (ic_name k), \<lparr>ie_buffer = \<lparr>sb_bytes = bs, sb_freed = False\<rparr>, ie_expires_at = now + cookie_ttl_ms\<rparr>)) ks"
  using assms
proof (induction ks arbitrary: c)
  case (Cons k ks)
  have absent: "map_of (ci_store c) (cookie_key domain (ic_name k)) = None"
    using Cons.prems by (simp add: map_of_eq_None_iff)
  let ?v = "\<lparr>ie_buffer = \<lparr>sb_bytes = bs, sb_freed = False\<rparr>, ie_expires_at = now + cookie_ttl_ms\<rparr>"
  let ?c = "remove_native_cookie (ic_domain k) (ic_name k) (c\<lparr>ci_store := ci_store c @ [(cookie_key domain (ic_name k), ?v)]\<rparr>)"
  have one: "isolate_cookie now domain bs k c = Inr ?c"
    using Cons.prems absent by (simp add: isolate_cookie_def copied_exactly Let_def update_fresh)
  have fresh: "\<forall>x \<in> set ks. cookie_key domain (ic_name x) \<noteq> cookie_key domain (ic_name k)"
    using Cons.prems(1) by (auto simp: cookie_key_def) (metis imageI)
  show ?case
    using Cons.IH [of ?c] Cons.prems one fresh by (simp add: remove_native_cookie_def)
qed simp

lemma isolated_is_retrieved:
  assumes "value \<noteq> []" "distinct (map ic_name ks)" "ks \<noteq> []" "later \<le> now + cookie_ttl_ms"
  shows "\<exists>c. isolate_session_cookies now domain ks value no_cookies = Inr c
    \<and> fst (retrieve_isolated_session later domain c)
      = Inr (Some \<lparr>sb_bytes = concat (replicate (length ks) (utf8_encode value)), sb_freed = False\<rparr>)"
proof -
  let ?e = "\<lparr>ie_buffer = \<lparr>sb_bytes = utf8_encode value, sb_freed = False\<rparr>, ie_expires_at = now + cookie_ttl_ms\<rparr>"
  let ?es = "map (\<lambda>k. (cookie_key domain (ic_name k), ?e)) ks"
  from isolate_from_empty [of ks domain no_cookies now "utf8_encode value"] obtain c where
    c: "isolate_cookies now domain (utf8_encode value) ks no_cookies = Inr c" "ci_store c = ?es"
    using assms by (auto simp: no_cookies_def)
  have "isolate_session_cookies now domain ks value no_cookies = Inr c"
    using assms c by (simp add: isolate_session_cookies_def)
  moreover from this have "cookies_ok c"
    by (rule isolated_session_ok) (simp add: cookies_ok_def no_cookies_def)
  moreover have "filter (\<lambda>(k, e). of_domain domain k \<and> \<not> entry_expired later e) ?es = ?es"
    using assms by (auto simp: of_domain_def cookie_key_def starts_with_def entry_expired_def)
  moreover have "concat (map (sb_bytes \<circ> ie_buffer \<circ> snd) ?es) = concat (replicate (length ks) (utf8_encode value))"
    by (simp add: comp_def map_replicate_const)
  ultimately show ?thesis using assms by (simp add: retrieved_session c Let_def)
qed

text \<open>A domain that is another's prefix up to a colon reads its cookies.\<close>

lemma prefix_domain_reads:
  "of_domain domain (cookie_key (domain @ 58 # rest) name)"
  by (simp add: of_domain_def cookie_key_def starts_with_def)

section \<open>The options page\<close>

text \<open>
  The options page, src/src/ui/options/options.ts, over the areas of local storage it reads
  and writes.  Layout and dates are left out; what the browser shows of a stored value is the
  value.
\<close>

record local_areas =
  la_settings :: "json option"
  la_trusted :: "json option"
  la_anomalies :: "json option"
  la_vault :: "json option"

record options_page =
  op_domain_input :: jstr
  op_domain_list :: "json list"
  op_auto_validate :: bool
  op_block_high_risk :: bool
  op_show_notifications :: bool
  op_session_timeout :: jstr
  op_status :: "(jstr \<times> bool) option"
  op_downloads :: "(jstr \<times> jstr) list"
  op_anomalies :: "json list"

definition array_or_empty :: "json option \<Rightarrow> json list" where
  "array_or_empty v = (case v of Some (JArr xs) \<Rightarrow> xs | _ \<Rightarrow> [])"

subsection \<open>Trusted domains\<close>

definition load_domains :: "local_areas \<Rightarrow> json list" where
  "load_domains a = array_or_empty (la_trusted a)"

definition render_domains :: "local_areas \<Rightarrow> options_page \<Rightarrow> options_page" where
  "render_domains a p = p\<lparr>op_domain_list := load_domains a\<rparr>"

definition add_domain :: "web \<Rightarrow> local_areas \<Rightarrow> options_page \<Rightarrow> local_areas \<times> options_page" where
  "add_domain W a p =
     (let d = to_lower W (trim (op_domain_input p)) in
      if d = [] then (a, p)
      else if JStr d \<in> set (load_domains a) then (a, p\<lparr>op_domain_input := []\<rparr>)
      else let a' = a\<lparr>la_trusted := Some (JArr (load_domains a @ [JStr d]))\<rparr>
           in (a', render_domains a' (p\<lparr>op_domain_input := []\<rparr>)))"

definition remove_domain :: "json \<Rightarrow> local_areas \<Rightarrow> options_page \<Rightarrow> local_areas \<times> options_page" where
  "remove_domain d a p =
     (let a' = a\<lparr>la_trusted := Some (JArr (filter (\<lambda>x. x \<noteq> d) (load_domains a)))\<rparr> in (a', render_domains a' p))"

subsection \<open>Settings\<close>

definition stored_setting :: "local_areas \<Rightarrow> string \<Rightarrow> json \<Rightarrow> json" where
  "stored_setting a name d = (case la_settings a of
     None \<Rightarrow> d | Some j \<Rightarrow> (case property_of j name of None \<Rightarrow> d | Some v \<Rightarrow> v))"

definition minutes_of :: "jstr \<Rightarrow> int" where
  "minutes_of s = max 1 (case parse_int s of None \<Rightarrow> 30 | Some n \<Rightarrow> if n = 0 then 30 else n)"

definition save_settings :: "local_areas \<Rightarrow> options_page \<Rightarrow> local_areas \<times> options_page" where
  "save_settings a p =
     (a\<lparr>la_settings := Some (JObj [
        (lit ''autoValidate'', JBool (op_auto_validate p)),
        (lit ''blockHighRisk'', JBool (op_block_high_risk p)),
        (lit ''showNotifications'', JBool (op_show_notifications p)),
        (lit ''sessionTimeoutMinutes'', JNum (minutes_of (op_session_timeout p)))])\<rparr>,
      p\<lparr>op_status := Some (lit ''Settings saved'', True)\<rparr>)"

text \<open>\<^verbatim>\<open>String(v)\<close> is a parameter.\<close>

definition populate_settings :: "(json \<Rightarrow> jstr) \<Rightarrow> local_areas \<Rightarrow> options_page \<Rightarrow> options_page" where
  "populate_settings text_of a p = p\<lparr>
     op_auto_validate := \<not> falsy_json (stored_setting a ''autoValidate'' (JBool True)),
     op_block_high_risk := \<not> falsy_json (stored_setting a ''blockHighRisk'' (JBool True)),
     op_show_notifications := \<not> falsy_json (stored_setting a ''showNotifications'' (JBool True)),
     op_session_timeout := text_of (stored_setting a ''sessionTimeoutMinutes'' (JNum 30))\<rparr>"

subsection \<open>Export and import\<close>

text \<open>The printer is \<^verbatim>\<open>JSON.stringify(vault, null, 2)\<close>.\<close>

definition handle_export :: "(json \<Rightarrow> jstr) \<Rightarrow> int \<Rightarrow> local_areas \<Rightarrow> options_page \<Rightarrow> options_page" where
  "handle_export pretty now a p = (case la_vault a of
     Some v \<Rightarrow> if \<not> falsy_json v
       then p\<lparr>op_downloads := op_downloads p @ [(lit ''cybervault-export-'' @ dec_int now @ lit ''.json'', pretty v)],
         op_status := Some (lit ''Vault exported'', True)\<rparr>
       else p\<lparr>op_status := Some (lit ''No vault to export'', False)\<rparr>
   | None \<Rightarrow> p\<lparr>op_status := Some (lit ''No vault to export'', False)\<rparr>)"

definition json_is_object :: "json \<Rightarrow> bool" where
  "json_is_object v \<longleftrightarrow> (case v of JObj _ \<Rightarrow> True | JArr _ \<Rightarrow> True | _ \<Rightarrow> False)"

text \<open>The file, if one was chosen; the message of a failed parse is a parameter.\<close>

definition handle_import_file ::
  "subtle \<Rightarrow> (jstr \<Rightarrow> jstr) \<Rightarrow> jstr option \<Rightarrow> local_areas \<Rightarrow> options_page \<Rightarrow> local_areas \<times> options_page" where
  "handle_import_file S parse_error file a p = (case file of
     None \<Rightarrow> (a, p)
   | Some t \<Rightarrow> (case json_parse S t of
         None \<Rightarrow> (a, p\<lparr>op_status := Some (parse_error t, False)\<rparr>)
       | Some v \<Rightarrow> if json_is_object v
           then (a\<lparr>la_vault := Some v\<rparr>, p\<lparr>op_status := Some (lit ''Vault imported successfully'', True)\<rparr>)
           else (a, p\<lparr>op_status := Some (lit ''Invalid vault file format'', False)\<rparr>)))"

subsection \<open>The anomaly log\<close>

definition recent_entries :: "'a list \<Rightarrow> 'a list" where
  "recent_entries xs = rev (drop (length xs - 50) xs)"

definition load_anomaly_log :: "local_areas \<Rightarrow> options_page \<Rightarrow> options_page" where
  "load_anomaly_log a p = p\<lparr>op_anomalies := recent_entries (array_or_empty (la_anomalies a))\<rparr>"

definition open_options :: "(json \<Rightarrow> jstr) \<Rightarrow> local_areas \<Rightarrow> options_page \<Rightarrow> options_page" where
  "open_options text_of a p = load_anomaly_log a (populate_settings text_of a (render_domains a p))"

subsection \<open>What the page does\<close>

lemma minutes_positive: "1 \<le> minutes_of s"
  by (simp add: minutes_of_def)

lemma minutes_read_back: "minutes_of (dec_int (minutes_of s)) = minutes_of s"
proof -
  have "parse_int (dec_int (minutes_of s)) = Some (minutes_of s)"
    using minutes_positive [of s] by (simp add: dec_int_of_pos parse_int_dec_nat)
  then show ?thesis using minutes_positive [of s] by (simp add: minutes_of_def)
qed

text \<open>Saved settings come back as they were, the timeout as the number it was read as.\<close>

lemma saved_settings_come_back:
  assumes "\<And>n. text_of (JNum n) = dec_int n"
  shows "populate_settings text_of (fst (save_settings a p)) q = q\<lparr>op_auto_validate := op_auto_validate p,
    op_block_high_risk := op_block_high_risk p, op_show_notifications := op_show_notifications p,
    op_session_timeout := dec_int (minutes_of (op_session_timeout p))\<rparr>"
  using assms by (simp add: save_settings_def populate_settings_def stored_setting_def falsy_json_def property_of_def lit_def)

lemma save_is_stable:
  assumes "\<And>n. text_of (JNum n) = dec_int n" "fst (save_settings a p) = a'"
  shows "fst (save_settings a' (populate_settings text_of a' q)) = a'"
  using assms by (auto simp: saved_settings_come_back minutes_read_back) (simp add: save_settings_def minutes_read_back)

lemma added_domain_listed:
  assumes "add_domain W a p = (a', p')" "to_lower W (trim (op_domain_input p)) \<noteq> []"
  shows "JStr (to_lower W (trim (op_domain_input p))) \<in> set (load_domains a')"
    and "set (load_domains a) \<subseteq> set (load_domains a')"
    and "distinct (load_domains a) \<Longrightarrow> distinct (load_domains a')"
  using assms by (auto simp: add_domain_def Let_def load_domains_def array_or_empty_def split: if_splits)

lemma removed_domain_gone:
  "d \<notin> set (load_domains (fst (remove_domain d a p)))"
  "x \<noteq> d \<Longrightarrow> x \<in> set (load_domains (fst (remove_domain d a p))) \<longleftrightarrow> x \<in> set (load_domains a)"
  by (auto simp: remove_domain_def Let_def load_domains_def array_or_empty_def)

text \<open>What is exported can be imported again, unless the vault is neither an object nor an array.\<close>

lemma exported_vault_imports:
  assumes "\<And>v. json_parse S (pretty v) = Some v" "la_vault a = Some v" "json_is_object v"
  shows "\<exists>name t. op_downloads (handle_export pretty now a p) = op_downloads p @ [(name, t)]
    \<and> la_vault (fst (handle_import_file S parse_error (Some t) b q)) = Some v"
  using assms by (auto simp: handle_export_def handle_import_file_def falsy_json_def json_is_object_def split: json.splits)

lemma failed_import_keeps_vault:
  assumes "handle_import_file S parse_error file a p = (a', p')"
  shows "a' = a \<or> (\<exists>t v. file = Some t \<and> json_parse S t = Some v \<and> json_is_object v \<and> a' = a\<lparr>la_vault := Some v\<rparr>)"
  using assms by (auto simp: handle_import_file_def split: option.splits if_splits)

lemma recent_entries_bound: "length (recent_entries xs) \<le> 50" "set (recent_entries xs) \<subseteq> set xs"
  by (auto simp: recent_entries_def dest: in_set_dropD)

lemma log_newest_first: "xs \<noteq> [] \<Longrightarrow> hd (recent_entries xs) = last xs"
  by (simp add: recent_entries_def hd_rev)

section \<open>The vault of the browser\<close>

text \<open>
  The repository of the extension, src/src/infrastructure/repositories/
  ChromeStorageVaultRepository.ts: one vault under one key of local storage.
\<close>

datatype browser_vault_error = Bad_Vault string | Vault_Not_Found

definition browser_save :: "dates \<Rightarrow> vault \<Rightarrow> plain_vault option \<Rightarrow> vault \<times> plain_vault option" where
  "browser_save T v st = (v, Some (vault_to_plain T v))"

definition browser_read :: "dates \<Rightarrow> plain_vault option \<Rightarrow> browser_vault_error + vault option" where
  "browser_read T st = (case st of None \<Rightarrow> Inr None
     | Some p \<Rightarrow> (case vault_from_plain T p of Inl e \<Rightarrow> Inl (Bad_Vault e) | Inr v \<Rightarrow> Inr (Some v)))"

definition browser_where :: "dates \<Rightarrow> (vault \<Rightarrow> bool) \<Rightarrow> plain_vault option \<Rightarrow> browser_vault_error + vault option" where
  "browser_where T P st = (case browser_read T st of Inl e \<Rightarrow> Inl e
     | Inr None \<Rightarrow> Inr None | Inr (Some v) \<Rightarrow> Inr (if P v then Some v else None))"

definition browser_find_by_id :: "dates \<Rightarrow> jstr \<Rightarrow> plain_vault option \<Rightarrow> browser_vault_error + vault option" where
  "browser_find_by_id T i = browser_where T (\<lambda>v. va_id v = i)"

definition browser_delete ::
  "dates \<Rightarrow> jstr \<Rightarrow> plain_vault option \<Rightarrow> (browser_vault_error + bool) \<times> plain_vault option" where
  "browser_delete T i st = (case browser_find_by_id T i st of
     Inl e \<Rightarrow> (Inl e, st) | Inr None \<Rightarrow> (Inr False, st) | Inr (Some _) \<Rightarrow> (Inr True, None))"

definition listed :: "browser_vault_error + vault option \<Rightarrow> browser_vault_error + vault list" where
  "listed r = (case r of Inl e \<Rightarrow> Inl e | Inr None \<Rightarrow> Inr [] | Inr (Some v) \<Rightarrow> Inr [v])"

definition browser_list :: "dates \<Rightarrow> plain_vault option \<Rightarrow> browser_vault_error + vault list" where
  "browser_list T st = listed (browser_read T st)"

definition browser_list_by_owner :: "dates \<Rightarrow> jstr \<Rightarrow> plain_vault option \<Rightarrow> browser_vault_error + vault list" where
  "browser_list_by_owner T owner st = listed (browser_where T (\<lambda>v. va_owner_id v = Some owner) st)"

text \<open>An identifier that is compared is made first, and an empty one throws.\<close>

definition browser_find_owned :: "dates \<Rightarrow> jstr \<Rightarrow> jstr \<Rightarrow> plain_vault option \<Rightarrow> browser_vault_error + vault option" where
  "browser_find_owned T i owner st = (case browser_read T st of Inl e \<Rightarrow> Inl e | Inr None \<Rightarrow> Inr None
     | Inr (Some v) \<Rightarrow> if i = [] then Inl (Bad_Vault ''DomainId value must not be empty'')
         else Inr (if va_id v = i \<and> va_owner_id v = Some owner then Some v else None))"

definition browser_update_metadata ::
  "dates \<Rightarrow> int \<Rightarrow> jstr \<Rightarrow> (jstr \<times> json) list \<Rightarrow> plain_vault option \<Rightarrow> (browser_vault_error + unit) \<times> plain_vault option" where
  "browser_update_metadata T now i m st = (case browser_read T st of
     Inl e \<Rightarrow> (Inl e, st)
   | Inr None \<Rightarrow> (Inl Vault_Not_Found, st)
   | Inr (Some v) \<Rightarrow>
       if i = [] then (Inl (Bad_Vault ''DomainId value must not be empty''), st)
       else if va_id v \<noteq> i then (Inl Vault_Not_Found, st)
       else (Inr (), Some (vault_to_plain T (vault_update_metadata now m v))))"

text \<open>A vault of whole milliseconds comes back as it was saved.\<close>

lemma browser_saved:
  assumes "va_id v \<noteq> []" "of_iso T (to_iso T (va_created_at v)) = va_created_at v"
    "of_iso T (to_iso T (va_updated_at v)) = va_updated_at v"
  shows "browser_read T (snd (browser_save T v st)) = Inr (Some v)"
  using assms by (simp add: browser_save_def browser_read_def vault_from_plain_def vault_to_plain_def)

text \<open>One key, one vault: saving another forgets the first.\<close>

lemma browser_forgets:
  assumes "i \<noteq> va_id v" "va_id v \<noteq> []"
  shows "browser_find_by_id T i (snd (browser_save T v st)) = Inr None"
  using assms
  by (simp add: browser_save_def browser_find_by_id_def browser_where_def browser_read_def vault_from_plain_def vault_to_plain_def)

lemma browser_delete_only_named:
  assumes "browser_delete T i st = (r, st')"
  shows "st' = st \<or> st' = None \<and> (\<exists>v. browser_read T st = Inr (Some v) \<and> va_id v = i \<and> r = Inr True)"
  using assms by (auto simp: browser_delete_def browser_find_by_id_def browser_where_def split: sum.splits option.splits if_splits)

lemma browser_deleted: "browser_delete T i st = (Inr True, st') \<Longrightarrow> browser_list T st' = Inr []"
  by (auto simp: browser_delete_def browser_list_def browser_read_def listed_def split: sum.splits option.splits)

lemma browser_owner_only:
  assumes "browser_find_owned T i owner st = Inr (Some v)"
  shows "va_id v = i \<and> va_owner_id v = Some owner \<and> browser_read T st = Inr (Some v)"
  using assms by (auto simp: browser_find_owned_def split: sum.splits option.splits if_splits)

lemma browser_update_keeps_data:
  assumes "browser_update_metadata T now i m st = (Inr (), st')" "i \<noteq> []"
  shows "\<exists>v p. browser_read T st = Inr (Some v) \<and> va_id v = i \<and> st' = Some p
    \<and> pv_id p = i \<and> pv_encrypted_data p = va_encrypted_data v \<and> pv_owner_id p = va_owner_id v"
  using assms by (auto simp: browser_update_metadata_def vault_to_plain_def vault_update_metadata_def
      split: sum.splits option.splits if_splits)

end
