(* ===== verification/Page_Scripts.thy ===== *)
theory Page_Scripts
  imports Service_Worker Authored_Release
begin

text \<open>What runs in a page besides the filling of forms.\<close>

section \<open>The submission of forms\<close>

text \<open>
  What stands between a page's forms and their submission: the content script
  src/src/ui/content-scripts/inject.ts over the service worker, and the gate of
  infrastructure/browser/SubmissionGateAdapter.ts with its use case application/use-cases/
  ValidateFormSubmission.ts, DomainNormalizerAdapter.ts and storage/TrustedDomainStoreAdapter.ts.
  Forms are numbers; how an alert looks is left out.
\<close>

subsection \<open>The content script\<close>

text \<open>
  The last verdict, the forms already reported, a listener per interception, and the
  alerts on the page.
\<close>

record page_guard =
  pg_result :: "domain_risk option"
  pg_blocked :: "nat list"
  pg_listeners :: "nat list"
  pg_alerts :: "(jstr \<times> domain_risk) list"

definition fresh_guard :: page_guard where
  "fresh_guard = \<lparr>pg_result = None, pg_blocked = [], pg_listeners = [], pg_alerts = []\<rparr>"

text \<open>The first text is \<^verbatim>\<open>location.href\<close>; an element is a form's input or select, with its name.\<close>

record page_fingerprint_summary =
  pf_url :: jstr
  pf_hostname :: jstr
  pf_form_count :: nat
  pf_login_form_count :: nat
  pf_input_names :: "jstr list"

definition summarize_page :: "jstr \<Rightarrow> jstr \<Rightarrow> nat \<Rightarrow> nat \<Rightarrow> jstr list \<Rightarrow> page_fingerprint_summary" where
  "summarize_page url host forms passwords names = \<lparr>pf_url = url, pf_hostname = host, pf_form_count = forms,
     pf_login_form_count = passwords, pf_input_names = dedupe (filter (\<lambda>n. n \<noteq> []) names)\<rparr>"

text \<open>The flag tells whether the worker can be reached.\<close>

definition ask_validation :: "worker_env \<Rightarrow> bool \<Rightarrow> jstr \<Rightarrow> worker \<Rightarrow> domain_risk option \<times> worker" where
  "ask_validation E reachable host w =
     (if \<not> reachable then (None, w)
      else (case handle_message E (Validate_Domain host host) w of
          (Answered (Validation_Data r), w') \<Rightarrow> (Some (pr_overall_risk r), w')
        | (_, w') \<Rightarrow> (None, w')))"

definition show_blocking_alert :: "jstr \<Rightarrow> domain_risk \<Rightarrow> page_guard \<Rightarrow> page_guard" where
  "show_blocking_alert host risk g = g\<lparr>pg_alerts := pg_alerts g @ [(host, risk)]\<rparr>"

definition dismiss_alert :: "nat \<Rightarrow> page_guard \<Rightarrow> page_guard" where
  "dismiss_alert k g = g\<lparr>pg_alerts := take k (pg_alerts g) @ drop (Suc k) (pg_alerts g)\<rparr>"

definition intercept_form_submit :: "nat \<Rightarrow> page_guard \<Rightarrow> page_guard" where
  "intercept_form_submit f g = (if f \<in> set (pg_blocked g) then g else g\<lparr>pg_listeners := pg_listeners g @ [f]\<rparr>)"

text \<open>For every password field the form around it, if any.\<close>

definition scan_for_login_forms :: "nat option list \<Rightarrow> page_guard \<Rightarrow> page_guard" where
  "scan_for_login_forms inputs g = foldl (\<lambda>g x. case x of None \<Rightarrow> g | Some f \<Rightarrow> intercept_form_submit f g) g inputs"

definition run_page_guard :: "worker_env \<Rightarrow> bool \<Rightarrow> jstr \<Rightarrow> nat option list \<Rightarrow> worker \<Rightarrow> page_guard \<times> worker" where
  "run_page_guard E reachable host inputs w =
     (if host = [] then (fresh_guard, w)
      else (case ask_validation E reachable host w of (r, w') \<Rightarrow>
        let g = (case r of None \<Rightarrow> fresh_guard
          | Some risk \<Rightarrow> let g1 = fresh_guard\<lparr>pg_result := Some risk\<rparr> in
              if risk \<noteq> Domain_Low then show_blocking_alert host risk g1 else g1)
        in (scan_for_login_forms inputs g, w')))"

text \<open>A batch of mutations; the flag: some node was added.\<close>

definition page_mutated :: "bool \<Rightarrow> nat option list \<Rightarrow> page_guard \<Rightarrow> page_guard" where
  "page_mutated added inputs g = (if added then scan_for_login_forms inputs g else g)"

text \<open>A submission of a form: whether it was prevented.\<close>

definition form_submitted :: "jstr \<Rightarrow> nat \<Rightarrow> page_guard \<Rightarrow> bool \<times> page_guard" where
  "form_submitted host f g =
     (if f \<notin> set (pg_listeners g) then (False, g)
      else (case pg_result g of
          None \<Rightarrow> (False, g)
        | Some risk \<Rightarrow> if risk = Domain_Low then (False, g)
            else (True, if f \<in> set (pg_blocked g) then g
              else show_blocking_alert host risk (g\<lparr>pg_blocked := f # pg_blocked g\<rparr>))))"

subsection \<open>The normalizer\<close>

definition label_char :: "nat \<Rightarrow> bool" where
  "label_char c \<longleftrightarrow> 97 \<le> c \<and> c \<le> 122 \<or> 48 \<le> c \<and> c \<le> 57 \<or> c = 45"

definition sanitize_hostname :: "jstr \<Rightarrow> jstr" where
  "sanitize_hostname host = take 253 (join_lit (lit ''.'')
     (take 127 (filter (\<lambda>l. 0 < length l \<and> length l \<le> 63) (map (filter label_char) (split_dots host)))))"

record normalized_domain =
  nd_hostname :: jstr
  nd_is_punycode :: bool
  nd_original_input :: jstr

definition normalize_domain :: "web \<Rightarrow> jstr \<Rightarrow> normalized_domain" where
  "normalize_domain W raw =
     (let t = trim raw;
        input = (if \<not> includes_text t (lit ''://'') \<and> \<not> starts_with t (lit ''//'') then lit ''https://'' @ t else t)
      in case parse_url W input of
           None \<Rightarrow> \<lparr>nd_hostname = sanitize_hostname input, nd_is_punycode = False, nd_original_input = raw\<rparr>
         | Some u \<Rightarrow>
             let h1 = (if ends_with (u_hostname u) (lit ''.'') then butlast (u_hostname u) else u_hostname u);
               h2 = (if starts_with h1 (lit ''['') \<and> ends_with h1 (lit '']'') then butlast (tl h1) else h1)
             in \<lparr>nd_hostname = sanitize_hostname (to_lower W h2), nd_is_punycode = starts_with h2 (lit ''xn--''),
               nd_original_input = raw\<rparr>)"

subsection \<open>Trusted domains\<close>

text \<open>A set in the order of insertion, and what was last written to storage (None: nothing, or it failed).\<close>

record trusted_domain_set =
  td_set :: "jstr list"
  td_stored :: "jstr option"

definition insert_last :: "jstr \<Rightarrow> jstr list \<Rightarrow> jstr list" where
  "insert_last x xs = (if x \<in> set xs then xs else xs @ [x])"

definition persist_trusted :: "subtle \<Rightarrow> bool \<Rightarrow> trusted_domain_set \<Rightarrow> trusted_domain_set" where
  "persist_trusted S writes d = (if writes then d\<lparr>td_stored := Some (json_stringify S (JArr (map JStr (td_set d))))\<rparr> else d)"

definition add_trusted :: "web \<Rightarrow> subtle \<Rightarrow> bool \<Rightarrow> jstr \<Rightarrow> trusted_domain_set \<Rightarrow> trusted_domain_set" where
  "add_trusted W S writes x d = persist_trusted S writes (d\<lparr>td_set := insert_last (nd_hostname (normalize_domain W x)) (td_set d)\<rparr>)"

definition remove_trusted :: "web \<Rightarrow> subtle \<Rightarrow> bool \<Rightarrow> jstr \<Rightarrow> trusted_domain_set \<Rightarrow> trusted_domain_set" where
  "remove_trusted W S writes x d =
     persist_trusted S writes (d\<lparr>td_set := filter (\<lambda>y. y \<noteq> nd_hostname (normalize_domain W x)) (td_set d)\<rparr>)"

definition clear_trusted :: "subtle \<Rightarrow> bool \<Rightarrow> trusted_domain_set \<Rightarrow> trusted_domain_set" where
  "clear_trusted S writes d = persist_trusted S writes (d\<lparr>td_set := []\<rparr>)"

definition is_trusted :: "web \<Rightarrow> jstr \<Rightarrow> trusted_domain_set \<Rightarrow> bool" where
  "is_trusted W x d \<longleftrightarrow> to_lower W x \<in> set (td_set d)"

text \<open>Loading stops at the first entry that is not a text.\<close>

fun load_entries :: "web \<Rightarrow> json list \<Rightarrow> jstr list \<Rightarrow> jstr list" where
  "load_entries W (JStr s # js) xs = load_entries W js (insert_last (to_lower W s) xs)"
| "load_entries W _ xs = xs"

definition load_trusted :: "web \<Rightarrow> subtle \<Rightarrow> jstr option \<Rightarrow> trusted_domain_set" where
  "load_trusted W S stored = \<lparr>td_set = (if absent stored then []
       else (case json_parse S (the stored) of Some (JArr js) \<Rightarrow> load_entries W js [] | _ \<Rightarrow> [])), td_stored = stored\<rparr>"

subsection \<open>The use case\<close>

datatype submission_status = Valid_Form | Suspicious_Form | Malicious_Form

definition risk_to_status :: "domain_risk \<Rightarrow> submission_status" where
  "risk_to_status r = (case r of Domain_Low \<Rightarrow> Valid_Form | Domain_Medium \<Rightarrow> Suspicious_Form | Domain_High \<Rightarrow> Malicious_Form)"

definition validate_submission_url ::
  "pipeline_timing \<Rightarrow> pipeline_config \<Rightarrow> web \<Rightarrow> number_format \<Rightarrow> rat \<Rightarrow> trusted_domain_set \<Rightarrow> jstr \<Rightarrow> pipeline_result" where
  "validate_submission_url T C W N elapsed d url =
     (let h = nd_hostname (normalize_domain W url) in
      validate_domain T C (create_pipeline W N) elapsed h (case td_set d of [] \<Rightarrow> h | x # _ \<Rightarrow> x))"

definition submission_verdict :: "pipeline_result \<Rightarrow> submission_status \<times> jstr" where
  "submission_verdict r = (risk_to_status (pr_overall_risk r), case pr_steps r of [] \<Rightarrow> lit ''unknown'' | s # _ \<Rightarrow> dv_reason s)"

subsection \<open>The gate\<close>

text \<open>\<^verbatim>\<open>processing\<close> marks, and the validations under way.\<close>

record submission_gate =
  sbg_registered :: bool
  sbg_patched :: bool
  sbg_processing :: "nat list"
  sbg_pending :: "(nat \<times> jstr) list"

datatype gate_effect = Native_Submission nat | Form_Submitted nat | Form_Blocked jstr nat

definition gate_register :: "submission_gate \<Rightarrow> submission_gate" where
  "gate_register g = (if sbg_registered g then g else g\<lparr>sbg_registered := True, sbg_patched := True\<rparr>)"

definition gate_unregister :: "submission_gate \<Rightarrow> submission_gate" where
  "gate_unregister g = g\<lparr>sbg_registered := False, sbg_patched := False\<rparr>"

text \<open>A submit event at a form (None: at something else); without a validator nothing gets under way.\<close>

definition gate_submit :: "bool \<Rightarrow> nat option \<Rightarrow> jstr \<Rightarrow> jstr \<Rightarrow> submission_gate \<Rightarrow> gate_effect list \<times> submission_gate" where
  "gate_submit has_validator target action href g = (case target of
     None \<Rightarrow> ([], g)
   | Some f \<Rightarrow>
       if \<not> sbg_registered g then ([Native_Submission f], g)
       else if f \<in> set (sbg_processing g) then ([], g)
       else ([], g\<lparr>sbg_processing := f # sbg_processing g,
         sbg_pending := (if has_validator then sbg_pending g @ [(f, if action = [] then href else action)] else sbg_pending g)\<rparr>))"

text \<open>The validator answers, or rejects (None).\<close>

definition gate_decided :: "nat \<Rightarrow> (submission_status \<times> jstr) option \<Rightarrow> submission_gate \<Rightarrow> gate_effect list \<times> submission_gate" where
  "gate_decided f verdict g =
     (let g1 = g\<lparr>sbg_pending := filter (\<lambda>p. fst p \<noteq> f) (sbg_pending g)\<rparr> in
      case verdict of
        None \<Rightarrow> ([], g1)
      | Some (s, reason) \<Rightarrow>
          let g2 = g1\<lparr>sbg_processing := filter (\<lambda>x. x \<noteq> f) (sbg_processing g)\<rparr> in
          if s = Valid_Form then ((if sbg_patched g then [Form_Submitted f] else []), g2)
          else ([Form_Blocked reason f], g2))"

text \<open>\<^verbatim>\<open>form.submit()\<close> called by the page.\<close>

definition programmatic_submit :: "bool \<Rightarrow> nat \<Rightarrow> jstr \<Rightarrow> jstr \<Rightarrow> submission_gate \<Rightarrow> gate_effect list \<times> submission_gate" where
  "programmatic_submit has_validator f action href g =
     (if sbg_patched g then gate_submit has_validator (Some f) action href g else ([Native_Submission f], g))"

subsection \<open>Facts about the content script\<close>

lemma prevented_iff:
  "fst (form_submitted host f g) \<longleftrightarrow> f \<in> set (pg_listeners g) \<and> pg_result g \<noteq> None \<and> pg_result g \<noteq> Some Domain_Low"
  by (auto simp: form_submitted_def split: option.splits)

lemma scanned_listeners:
  "pg_result (scan_for_login_forms inputs g) = pg_result g \<and> pg_blocked (scan_for_login_forms inputs g) = pg_blocked g
     \<and> (\<forall>f. Some f \<in> set inputs \<and> f \<notin> set (pg_blocked g) \<longrightarrow> f \<in> set (pg_listeners (scan_for_login_forms inputs g)))
     \<and> set (pg_listeners g) \<subseteq> set (pg_listeners (scan_for_login_forms inputs g))"
proof (induction inputs arbitrary: g)
  case (Cons x inputs)
  let ?g = "case x of None \<Rightarrow> g | Some f \<Rightarrow> intercept_form_submit f g"
  have s: "scan_for_login_forms (x # inputs) g = scan_for_login_forms inputs ?g" by (simp add: scan_for_login_forms_def)
  have g: "pg_result ?g = pg_result g" "pg_blocked ?g = pg_blocked g" "set (pg_listeners g) \<subseteq> set (pg_listeners ?g)"
    "\<forall>f. x = Some f \<and> f \<notin> set (pg_blocked g) \<longrightarrow> f \<in> set (pg_listeners ?g)"
    by (auto simp: intercept_form_submit_def split: option.splits)
  show ?case using Cons.IH [of ?g] g unfolding s by fastforce
qed (simp add: scan_for_login_forms_def)

text \<open>Dismissing the alert, though it offers to continue, lets no submission through.\<close>

lemma dismissal_does_not_continue: "fst (form_submitted host f (dismiss_alert k g)) = fst (form_submitted host f g)"
  unfolding prevented_iff by (simp add: dismiss_alert_def)

text \<open>
  The worker is asked about the host name, which is no address: where the URL parser
  refuses it, every form with a password field is blocked, whatever the site.
\<close>

lemma every_login_form_blocked:
  assumes "parse_absolute_origin (en_web E) host = Inl r" "host \<noteq> []" "\<not> pt_late (en_timing E) 0" "pt_cut (en_timing E) = None"
    and "\<exists>t. trust_save (en_web E) (en_now E) (worker_trust_entry (en_now E) host Trust_Suspicious) (wk_trust w) = Inr t"
    and "Some f \<in> set inputs"
  shows "fst (form_submitted host f (fst (run_page_guard E True host inputs w)))"
proof -
  have "pr_overall_risk (validate_domain (en_timing E) worker_pipeline_config (create_pipeline (en_web E) (en_numbers E))
      (en_elapsed E) host host) = Domain_High"
    using unusable_high_risk [OF assms(1,3,4)] by blast
  then obtain w' where "ask_validation E True host w = (Some Domain_High, w')"
    using assms(5) by (auto simp: ask_validation_def handle_message_def handle_validate_domain_def Let_def)
  then show ?thesis
    using assms(2,6) scanned_listeners [of inputs "show_blocking_alert host Domain_High (fresh_guard\<lparr>pg_result := Some Domain_High\<rparr>)"]
    unfolding prevented_iff by (auto simp: run_page_guard_def show_blocking_alert_def fresh_guard_def Let_def)
qed

subsection \<open>Facts about the gate\<close>

lemma join_lit_chars: "c \<in> set (join_lit sep ls) \<Longrightarrow> c \<in> set sep \<or> (\<exists>l \<in> set ls. c \<in> set l)"
  by (induction sep ls rule: join_lit.induct) auto

lemma sanitized_chars: "c \<in> set (sanitize_hostname h) \<Longrightarrow> label_char c \<or> c = 46"
  using join_lit_chars by (fastforce simp: sanitize_hostname_def lit_def dest: in_set_takeD)

lemma sanitized_no_colon: "58 \<notin> set (sanitize_hostname h)"
  using sanitized_chars [of 58 h] by (auto simp: label_char_def)

lemma normalized_length: "length (nd_hostname (normalize_domain W x)) \<le> 253"
  by (simp add: normalize_domain_def sanitize_hostname_def Let_def split: option.splits)

lemma normalized_no_colon: "58 \<notin> set (nd_hostname (normalize_domain W x))"
  by (simp add: normalize_domain_def sanitized_no_colon Let_def split: option.splits)

text \<open>
  The pipeline gets a host name where it parses an address; a URL parser refuses a text
  without a scheme, so every submission is judged malicious.
\<close>

lemma every_submission_malicious:
  assumes "\<And>s. 58 \<notin> set s \<Longrightarrow> parse_url W s = None" "\<not> pt_late T 0" "pt_cut T = None"
  shows "fst (submission_verdict (validate_submission_url T C W N elapsed d url)) = Malicious_Form"
proof -
  let ?h = "nd_hostname (normalize_domain W url)"
  have "58 \<notin> set (trim ?h)"
    using normalized_no_colon [of W url] by (auto simp: trim_def dest!: set_dropWhileD)
  then have "\<exists>r. parse_absolute_origin W ?h = Inl r"
    using assms(1) by (simp add: parse_absolute_origin_def Let_def)
  then obtain r where "parse_absolute_origin W ?h = Inl r" ..
  from unusable_high_risk [OF this assms(2,3)] show ?thesis
    by (simp add: submission_verdict_def validate_submission_url_def risk_to_status_def Let_def)
qed

text \<open>While the gate is registered a form leaves the page only through a verdict that it is valid.\<close>

lemma registered_gate_holds:
  "sbg_registered g \<Longrightarrow> sbg_patched g \<Longrightarrow> fst (gate_submit v target action href g) = [] \<and> fst (programmatic_submit v f action href g) = []"
  by (auto simp: gate_submit_def programmatic_submit_def split: option.splits)

lemma submitted_only_if_valid: "Form_Submitted f \<in> set (fst (gate_decided f' verdict g)) \<Longrightarrow> \<exists>reason. verdict = Some (Valid_Form, reason)"
  by (auto simp: gate_decided_def Let_def split: option.splits if_splits prod.splits)

text \<open>A validator that rejects leaves the form marked: it can never be submitted again.\<close>

lemma rejected_validation_sticks:
  assumes "f \<in> set (sbg_processing g)"
  shows "f \<in> set (sbg_processing (snd (gate_decided f None g)))"
    and "fst (gate_submit v (Some f) action href (snd (gate_decided f None g))) = [] \<or> \<not> sbg_registered g"
    and "sbg_registered g \<Longrightarrow> snd (gate_submit v (Some f) action href (snd (gate_decided f None g))) = snd (gate_decided f None g)"
  using assms by (auto simp: gate_decided_def gate_submit_def)

text \<open>The set of trusted domains has no duplicates, and what was stored is loaded again.\<close>

lemma insert_last_distinct: "distinct xs \<Longrightarrow> distinct (insert_last x xs)"
  by (simp add: insert_last_def)

lemma load_entries_all:
  "\<forall>s \<in> set ss. to_lower W s = s \<Longrightarrow> distinct (xs @ ss) \<Longrightarrow> load_entries W (map JStr ss) xs = xs @ ss"
  by (induction ss arbitrary: xs) (auto simp: insert_last_def)

lemma trusted_reloaded:
  assumes "distinct (td_set d)" "\<forall>s \<in> set (td_set d). to_lower W s = s"
    and "json_parse S (json_stringify S (JArr (map JStr (td_set d)))) = Some (JArr (map JStr (td_set d)))"
    and "json_stringify S (JArr (map JStr (td_set d))) \<noteq> []"
  shows "td_set (load_trusted W S (td_stored (persist_trusted S True d))) = td_set d"
  using assms load_entries_all [of "td_set d" W "[]"] by (simp add: load_trusted_def persist_trusted_def absent_def)

section \<open>Decryption of managed credentials\<close>

text \<open>
  Decryption of stored credentials outside the worker: src/src/ui/content-scripts/
  managed-decrypt.ts.  A managed credential needs a capability and a Release Share,
  which the worker fetches; a personal one only the vault key.
\<close>

subsection \<open>Platform\<close>

text \<open>The k-th message: the worker's environment, and \<^verbatim>\<open>chrome.runtime.lastError\<close>.\<close>

record decrypt_env =
  md_worker :: "nat \<Rightarrow> worker_env"
  md_last_error :: "nat \<Rightarrow> jstr option"
  md_user_agent :: jstr

definition ask_worker :: "decrypt_env \<Rightarrow> nat \<Rightarrow> worker_message \<Rightarrow> worker \<Rightarrow> (jstr + worker_reply) \<times> worker" where
  "ask_worker E k msg w = (case handle_message (md_worker E k) msg w of (r, w') \<Rightarrow>
     (case md_last_error E k of Some m \<Rightarrow> Inl m | None \<Rightarrow> Inr r, w'))"

text \<open>salt (32), IV (12), ciphertext and tag; None: anything that throws.\<close>

definition decrypt_aes_gcm :: "subtle \<Rightarrow> jstr \<Rightarrow> jstr \<Rightarrow> jstr option" where
  "decrypt_aes_gcm S ciphertext key = (case (base64_to_binary ciphertext, base64_to_binary key) of
     (Some c, Some k) \<Rightarrow> map_option (text_decode S) (aes_gcm_decrypt S k (take 12 (drop 32 c)) [] (drop (32 + 12) c))
   | _ \<Rightarrow> None)"

subsection \<open>Capability and share\<close>

record capability_response =
  cr_success :: bool
  cr_capability_token :: "json option"
  cr_error :: "jstr option"

text \<open>The envelope of a failure carries its error, which is only logged.\<close>

definition refused_capability :: "jstr option \<Rightarrow> capability_response" where
  "refused_capability e = \<lparr>cr_success = False, cr_capability_token = None, cr_error = e\<rparr>"

definition request_managed_capability ::
  "decrypt_env \<Rightarrow> nat \<Rightarrow> capability_demand \<Rightarrow> worker \<Rightarrow> capability_response \<times> worker" where
  "request_managed_capability E k rq w = (case ask_worker E k (Request_Managed_Capability rq) w of
     (Inl m, w') \<Rightarrow> (refused_capability (Some m), w')
   | (Inr (Answered (Json_Data data)), w') \<Rightarrow>
       (\<lparr>cr_success = truthy_property data ''capabilityToken'', cr_capability_token = property_of data ''capabilityToken'',
         cr_error = string_property data ''error''\<rparr>, w')
   | (Inr (Answered _), w') \<Rightarrow> (refused_capability None, w')
   | (Inr (Failed (Error_Text m)), w') \<Rightarrow> (refused_capability (Some m), w')
   | (Inr (Failed _), w') \<Rightarrow> (refused_capability None, w'))"

text \<open>An answer without a share is no success.\<close>

definition request_release_share :: "decrypt_env \<Rightarrow> nat \<Rightarrow> json \<Rightarrow> jstr \<Rightarrow> worker \<Rightarrow> jstr option \<times> worker" where
  "request_release_share E k cap_token i w = (case ask_worker E k (Request_Release_Share i cap_token) w of
     (Inr (Answered (Share_Data s)), w') \<Rightarrow> (if s = [] then None else Some s, w')
   | (_, w') \<Rightarrow> (None, w'))"

subsection \<open>Decryption\<close>

record credential_like =
  cl_id :: jstr
  cl_encrypted_password :: jstr
  cl_salt :: jstr
  cl_version :: int
  cl_mode :: entry_mode
  cl_release_share_ref :: "jstr option"

definition managed_demand :: "decrypt_env \<Rightarrow> jstr \<Rightarrow> capability_demand" where
  "managed_demand E ref = \<lparr>cp_resource_id = ref, cp_operation = lit ''AUTOFILL'', cp_secret_ref = ref, cp_device_id = None,
     cp_assurance = 2, cp_context = Some (JObj [(lit ''userAgent'', JStr (md_user_agent E)),
       (lit ''timestamp'', JNum (en_now (md_worker E 0)))])\<rparr>"

definition decrypt_managed_credential ::
  "subtle \<Rightarrow> decrypt_env \<Rightarrow> credential_like \<Rightarrow> jstr \<Rightarrow> jstr \<Rightarrow> worker \<Rightarrow> jstr option \<times> worker" where
  "decrypt_managed_credential S E c ref vek64 w =
     (case request_managed_capability E 0 (managed_demand E ref) w of (cap, w1) \<Rightarrow>
      if \<not> cr_success cap \<or> cr_capability_token cap = None then (None, w1)
      else (case request_release_share E 1 (the (cr_capability_token cap)) (cl_id c) w1 of
          (None, w2) \<Rightarrow> (None, w2)
        | (Some s, w2) \<Rightarrow> (case (base64_to_binary vek64, base64_to_binary s, base64_to_binary (cl_salt c)) of
            (Some vek, Some share, Some salt) \<Rightarrow>
              (decrypt_aes_gcm S (cl_encrypted_password c)
                (key_base64 (derive_managed_entry_key S vek share salt (cl_id c) (cl_version c))), w2)
          | _ \<Rightarrow> (None, w2))))"

definition decrypt_personal_credential :: "subtle \<Rightarrow> credential_like \<Rightarrow> jstr \<Rightarrow> jstr option" where
  "decrypt_personal_credential S c vek64 = (case (base64_to_binary vek64, base64_to_binary (cl_salt c)) of
     (Some vek, Some salt) \<Rightarrow> decrypt_aes_gcm S (cl_encrypted_password c)
        (key_base64 (derive_personal_entry_key S vek salt (cl_id c) (cl_version c)))
   | _ \<Rightarrow> None)"

definition decrypt_credential :: "subtle \<Rightarrow> decrypt_env \<Rightarrow> credential_like \<Rightarrow> jstr \<Rightarrow> worker \<Rightarrow> jstr option \<times> worker" where
  "decrypt_credential S E c vek64 w =
     (if cl_mode c = Managed \<and> \<not> absent (cl_release_share_ref c)
      then decrypt_managed_credential S E c (the (cl_release_share_ref c)) vek64 w
      else (decrypt_personal_credential S c vek64, w))"

subsection \<open>Facts\<close>

text \<open>What authoring sealed is opened.\<close>

lemma sealed_decrypts:
  assumes "aead_ok S" "decodes S plain" "seal S plain key salt iv = Some blob" "length salt = salt_len" "length iv = iv_len"
    and "base64_to_binary k64 = Some key"
  shows "decrypt_aes_gcm S blob k64 = Some plain"
  using assms
  by (auto simp: decrypt_aes_gcm_def seal_def base64_round_trip salt_len_def iv_len_def aead_ok_def decodes_def split: option.splits)

lemma personal_credential_opens:
  assumes "aead_ok S" "decodes S plain" "length salt = salt_len" "length iv = iv_len"
    and "seal S plain (personal_key S vek salt (cl_id c)) salt iv = Some (cl_encrypted_password c)"
    and "cl_salt c = binary_to_base64 salt" "cl_version c = 1"
  shows "decrypt_personal_credential S c (binary_to_base64 vek) = Some plain"
  using assms sealed_decrypts [OF assms(1,2,5,3,4) personal_key_decodes]
  by (simp add: decrypt_personal_credential_def base64_round_trip)

text \<open>
  A managed credential is opened only with a capability the worker answered with and a
  Release Share the worker fetched for it.
\<close>

lemma managed_needs_share:
  assumes "decrypt_managed_credential S E c ref vek64 w = (Some plain, w')"
  shows "\<exists>cap_token data s w1. truthy_property data ''capabilityToken'' \<and> property_of data ''capabilityToken'' = Some cap_token
     \<and> worker_step (md_worker E 0) (Message (Request_Managed_Capability (managed_demand E ref))) w = (Some (Answered (Json_Data data)), w1)
     \<and> worker_step (md_worker E 1) (Message (Request_Release_Share (cl_id c) cap_token)) w1 = (Some (Answered (Share_Data s)), w') \<and> s \<noteq> []"
  using assms
  by (auto simp: decrypt_managed_credential_def request_managed_capability_def request_release_share_def refused_capability_def
      ask_worker_def worker_step_def split: prod.splits option.splits sum.splits if_splits worker_reply.splits worker_data.splits worker_error.splits)

text \<open>Without a share, from Core or at all, a managed credential does not open.\<close>

lemma no_share_no_password:
  assumes "wk_token w = None"
  shows "fst (decrypt_managed_credential S E c ref vek64 w) = None"
  using assms
  by (auto simp: decrypt_managed_credential_def request_managed_capability_def refused_capability_def ask_worker_def handle_message_def
      handle_request_managed_capability_def absent_def failed_text_def split: prod.splits option.splits)

end
