(* ===== verification/Suggestions.thy ===== *)
theory Suggestions
  imports Credentials_Generation Content_Autofill
begin

text \<open>
  Generated credentials offered to registration forms: src/src/domain/services/autocompletado/
  form-detector.ts and autocomplete-service.ts over the generator.  A page is the list of its
  forms with their controls and cards; an identifier names controls of forms only.  Styles,
  texts of the card and the alert of the manual mode are left out.
\<close>

subsection \<open>Registration forms\<close>

datatype control_kind = Input_Control | Select_Control | Textarea_Control

record page_control =
  pc_kind :: control_kind
  pc_type :: jstr
  pc_name :: jstr
  pc_id :: jstr
  pc_placeholder :: jstr
  pc_autocomplete :: "jstr option"
  pc_value :: jstr

record form_field_info =
  ff_type :: jstr
  ff_name :: jstr
  ff_id :: jstr
  ff_placeholder :: jstr
  ff_autocomplete :: jstr

record suggestion_card =
  sc_index :: nat
  sc_fields :: "form_field_info list"
  sc_credentials :: generated_credentials
  sc_hidden :: bool

text \<open>The submit text: that of the first element with \<^verbatim>\<open>type="submit"\<close>.\<close>

record web_form =
  rf_action :: jstr
  rf_id :: jstr
  rf_submit_text :: "jstr option"
  rf_controls :: "page_control list"
  rf_cards :: "suggestion_card list"

record detected_form =
  df_fields :: "form_field_info list"
  df_has_email :: bool
  df_has_password :: bool
  df_has_confirmation :: bool
  df_form :: nat

definition form_field_of :: "page_control \<Rightarrow> form_field_info" where
  "form_field_of c = \<lparr>
     ff_type = (if pc_kind c = Input_Control then or_text (Some (pc_type c)) ''text'' else lit ''text''),
     ff_name = pc_name c, ff_id = pc_id c,
     ff_placeholder = (if pc_kind c = Select_Control then [] else pc_placeholder c),
     ff_autocomplete = or_text (pc_autocomplete c) ''''\<rparr>"

definition extract_form_fields :: "web_form \<Rightarrow> form_field_info list" where
  "extract_form_fields f = map form_field_of (rf_controls f)"

text \<open>A kind of field: by type, by autocomplete, by name or by identifier.\<close>

definition field_mentions :: "web \<Rightarrow> string \<Rightarrow> form_field_info \<Rightarrow> bool" where
  "field_mentions W word x \<longleftrightarrow> ff_type x = lit word \<or> includes_text (ff_autocomplete x) (lit word)
     \<or> includes_text (to_lower W (ff_name x)) (lit word) \<or> includes_text (to_lower W (ff_id x)) (lit word)"

definition confirms_password :: "web \<Rightarrow> form_field_info \<Rightarrow> bool" where
  "confirms_password W x \<longleftrightarrow> ff_type x = lit ''password''
     \<and> (includes_text (ff_autocomplete x) (lit ''new-password'')
        \<or> includes_text (to_lower W (ff_name x)) (lit ''confirm'')
        \<or> includes_text (to_lower W (ff_id x)) (lit ''confirm'')
        \<or> includes_text (to_lower W (ff_name x)) (lit ''repeat''))"

definition registration_words :: "web \<Rightarrow> web_form \<Rightarrow> bool" where
  "registration_words W f \<longleftrightarrow> names_some [''register'', ''signup'', ''sign-up''] (rf_action f)
     \<or> names_some [''register'', ''signup''] (to_lower W (rf_id f))
     \<or> (case rf_submit_text f of None \<Rightarrow> False
          | Some t \<Rightarrow> names_some [''register'', ''sign up'', ''crear cuenta''] (to_lower W t))"

text \<open>The element is given by the form around it, if any.\<close>

definition detect_registration_form :: "web \<Rightarrow> web_form list \<Rightarrow> nat option \<Rightarrow> detected_form option" where
  "detect_registration_form W forms around =
     (case around of None \<Rightarrow> None
      | Some n \<Rightarrow> if n \<ge> length forms then None
          else let f = forms ! n; xs = extract_form_fields f;
                 email = list_ex (field_mentions W ''email'') xs;
                 password = list_ex (field_mentions W ''password'') xs
               in if email \<and> password \<and> registration_words W f
                  then Some \<lparr>df_fields = xs, df_has_email = email, df_has_password = password,
                    df_has_confirmation = list_ex (confirms_password W) xs, df_form = n\<rparr>
                  else None)"

definition detect_all_registration_forms :: "web \<Rightarrow> web_form list \<Rightarrow> detected_form list" where
  "detect_all_registration_forms W forms = List.map_filter (\<lambda>n. detect_registration_form W forms (Some n)) [0..<length forms]"

definition is_registration_page :: "web \<Rightarrow> jstr \<Rightarrow> jstr \<Rightarrow> web_form list \<Rightarrow> bool" where
  "is_registration_page W href path forms \<longleftrightarrow>
     names_some [''register'', ''signup'', ''sign-up''] (to_lower W href)
     \<or> names_some [''register'', ''signup''] (to_lower W path)
     \<or> detect_all_registration_forms W forms \<noteq> []"

subsection \<open>The service\<close>

record suggestion =
  su_email :: jstr
  su_password :: jstr
  su_original_email :: jstr
  su_original_password :: jstr
  su_domain :: jstr
  su_timestamp :: int

record stored_credentials_entry =
  sl_credentials :: generated_credentials
  sl_domain :: jstr
  sl_form_url :: jstr
  sl_timestamp :: int

text \<open>The registry, the page, and what the service wrote to the console.\<close>

record suggestions =
  sg_registry :: "jstr \<rightharpoonup> suggestion"
  sg_page :: "web_form list"
  sg_console :: "stored_credentials_entry list"

definition suggestion_key :: "jstr \<Rightarrow> nat \<Rightarrow> jstr" where
  "suggestion_key domain index = domain @ 45 # dec_nat index"

definition add_card :: "nat \<Rightarrow> suggestion_card \<Rightarrow> web_form list \<Rightarrow> web_form list" where
  "add_card n c forms = (if n < length forms
     then forms[n := (forms ! n)\<lparr>rf_cards := rf_cards (forms ! n) @ [c]\<rparr>] else forms)"

definition show_suggestion_ui :: "detected_form \<Rightarrow> generated_credentials \<Rightarrow> nat \<Rightarrow> suggestions \<Rightarrow> suggestions" where
  "show_suggestion_ui d g index s = s\<lparr>sg_page := add_card (df_form d)
     \<lparr>sc_index = index, sc_fields = df_fields d, sc_credentials = g, sc_hidden = False\<rparr> (sg_page s)\<rparr>"

text \<open>A rejected generation ends the processing of that form.\<close>

definition process_form ::
  "random_source \<Rightarrow> jstr \<Rightarrow> int \<Rightarrow> detected_form \<Rightarrow> nat \<Rightarrow> suggestions \<Rightarrow> suggestions" where
  "process_form rnd domain now d index s =
     (case generate_credentials rnd domain of
        Inl _ \<Rightarrow> s
      | Inr g \<Rightarrow> show_suggestion_ui d g index (s\<lparr>sg_registry := (sg_registry s)(suggestion_key domain index \<mapsto>
          \<lparr>su_email = gc_email g, su_password = gc_password g, su_original_email = gc_original_email g,
            su_original_password = gc_original_password g, su_domain = domain, su_timestamp = now\<rparr>)\<rparr>))"

text \<open>The forms found, each with its own random values.\<close>

fun process_forms ::
  "(nat \<Rightarrow> random_source) \<Rightarrow> jstr \<Rightarrow> int \<Rightarrow> nat \<Rightarrow> detected_form list \<Rightarrow> suggestions \<Rightarrow> suggestions" where
  "process_forms rnd domain now index [] s = s"
| "process_forms rnd domain now index (d # ds) s =
     process_forms rnd domain now (Suc index) ds (process_form (rnd index) domain now d index s)"

definition check_current_page :: "web \<Rightarrow> (nat \<Rightarrow> random_source) \<Rightarrow> jstr \<Rightarrow> int \<Rightarrow> suggestions \<Rightarrow> suggestions" where
  "check_current_page W rnd domain now s =
     process_forms rnd domain now 0 (detect_all_registration_forms W (sg_page s)) s"

text \<open>A mutation record: for every added node, whether it is a card of the service.\<close>

definition own_suggestion_mutation :: "bool list list \<Rightarrow> bool" where
  "own_suggestion_mutation records \<longleftrightarrow> list_all (list_all id) records"

definition page_changed ::
  "web \<Rightarrow> (nat \<Rightarrow> random_source) \<Rightarrow> jstr \<Rightarrow> int \<Rightarrow> bool list list \<Rightarrow> suggestions \<Rightarrow> suggestions" where
  "page_changed W rnd domain now records s =
     (if own_suggestion_mutation records then s else check_current_page W rnd domain now s)"

definition check_for_registration_field ::
  "web \<Rightarrow> random_source \<Rightarrow> jstr \<Rightarrow> int \<Rightarrow> nat option \<Rightarrow> suggestions \<Rightarrow> suggestions" where
  "check_for_registration_field W rnd domain now around s =
     (case detect_registration_form W (sg_page s) around of
        None \<Rightarrow> s | Some d \<Rightarrow> process_form rnd domain now d 0 s)"

text \<open>\<^verbatim>\<open>document.getElementById\<close>: the first element of that identifier; the empty text names none.\<close>

fun set_value_by_id :: "jstr \<Rightarrow> jstr \<Rightarrow> page_control list \<Rightarrow> page_control list option" where
  "set_value_by_id i v [] = None"
| "set_value_by_id i v (c # cs) =
     (if pc_id c = i then Some (c\<lparr>pc_value := v\<rparr> # cs) else map_option (Cons c) (set_value_by_id i v cs))"

fun set_in_forms :: "jstr \<Rightarrow> jstr \<Rightarrow> web_form list \<Rightarrow> web_form list" where
  "set_in_forms i v [] = []"
| "set_in_forms i v (f # fs) =
     (case set_value_by_id i v (rf_controls f) of
        None \<Rightarrow> f # set_in_forms i v fs | Some cs \<Rightarrow> f\<lparr>rf_controls := cs\<rparr> # fs)"

definition fill_element :: "jstr \<Rightarrow> jstr \<Rightarrow> web_form list \<Rightarrow> web_form list" where
  "fill_element i v forms = (if i = [] then forms else set_in_forms i v forms)"

fun hide_card :: "nat \<Rightarrow> suggestion_card list \<Rightarrow> suggestion_card list option" where
  "hide_card index [] = None"
| "hide_card index (c # cs) =
     (if sc_index c = index then Some (c\<lparr>sc_hidden := True\<rparr> # cs) else map_option (Cons c) (hide_card index cs))"

fun hide_in_forms :: "nat \<Rightarrow> web_form list \<Rightarrow> web_form list" where
  "hide_in_forms index [] = []"
| "hide_in_forms index (f # fs) =
     (case hide_card index (rf_cards f) of
        None \<Rightarrow> f # hide_in_forms index fs | Some cs \<Rightarrow> f\<lparr>rf_cards := cs\<rparr> # fs)"

definition dismiss_suggestion :: "nat \<Rightarrow> suggestions \<Rightarrow> suggestions" where
  "dismiss_suggestion index s = s\<lparr>sg_page := hide_in_forms index (sg_page s)\<rparr>"

definition save_credentials_for_domain ::
  "jstr \<Rightarrow> int \<Rightarrow> generated_credentials \<Rightarrow> jstr \<Rightarrow> suggestions \<Rightarrow> suggestions" where
  "save_credentials_for_domain domain now g url s = s\<lparr>sg_console := sg_console s @
     [\<lparr>sl_credentials = g, sl_domain = domain, sl_form_url = url, sl_timestamp = now\<rparr>]\<rparr>"

definition email_field :: "web \<Rightarrow> form_field_info list \<Rightarrow> form_field_info option" where
  "email_field W xs = List.find (\<lambda>x. ff_type x = lit ''email'' \<or> includes_text (ff_autocomplete x) (lit ''email'')
     \<or> includes_text (to_lower W (ff_name x)) (lit ''email'')) xs"

definition first_password_field :: "form_field_info list \<Rightarrow> form_field_info option" where
  "first_password_field xs = List.find (\<lambda>x. ff_type x = lit ''password'') xs"

definition fill_found :: "form_field_info option \<Rightarrow> jstr \<Rightarrow> web_form list \<Rightarrow> web_form list" where
  "fill_found x v forms = (case x of None \<Rightarrow> forms | Some x \<Rightarrow> fill_element (ff_id x) v forms)"

text \<open>The button of a card, given with the form it stands in.\<close>

definition use_generated_credentials ::
  "web \<Rightarrow> jstr \<Rightarrow> int \<Rightarrow> nat \<Rightarrow> suggestion_card \<Rightarrow> suggestions \<Rightarrow> suggestions" where
  "use_generated_credentials W domain now n c s =
     (let g = sc_credentials c;
        p1 = fill_found (email_field W (sc_fields c)) (gc_original_email g) (sg_page s);
        p2 = fill_found (first_password_field (sc_fields c)) (gc_original_password g) p1
      in dismiss_suggestion (sc_index c) (save_credentials_for_domain domain now g
           (if n < length p2 then rf_action (p2 ! n) else []) (s\<lparr>sg_page := p2\<rparr>)))"

datatype card_action = Use_Card | Manual_Card | Dismiss_Card

definition card_clicked ::
  "web \<Rightarrow> jstr \<Rightarrow> int \<Rightarrow> nat \<Rightarrow> suggestion_card \<Rightarrow> card_action \<Rightarrow> suggestions \<Rightarrow> suggestions" where
  "card_clicked W domain now n c a s =
     (case a of Use_Card \<Rightarrow> use_generated_credentials W domain now n c s
      | Manual_Card \<Rightarrow> s
      | Dismiss_Card \<Rightarrow> dismiss_suggestion (sc_index c) s)"

definition get_stored_credentials :: "jstr \<Rightarrow> suggestions \<Rightarrow> suggestion option" where
  "get_stored_credentials domain s = sg_registry s (suggestion_key domain 0)"

definition clear_all_suggestions :: "suggestions \<Rightarrow> suggestions" where
  "clear_all_suggestions s = s\<lparr>sg_registry := Map.empty\<rparr>"

subsection \<open>What the service does\<close>

text \<open>Cards never change what a page's forms are.\<close>

definition form_contents :: "web_form \<Rightarrow> jstr \<times> jstr \<times> jstr option \<times> page_control list" where
  "form_contents f = (rf_action f, rf_id f, rf_submit_text f, rf_controls f)"

lemma cards_leave_contents:
  "map form_contents (add_card n c forms) = map form_contents forms"
  "map form_contents (hide_in_forms index forms) = map form_contents forms"
proof -
  show "map form_contents (add_card n c forms) = map form_contents forms"
    by (cases "n < length forms") (auto simp: add_card_def form_contents_def nth_list_update intro!: nth_equalityI)
  show "map form_contents (hide_in_forms index forms) = map form_contents forms"
    by (induction forms) (auto simp: form_contents_def split: option.splits)
qed

lemma detection_same_contents:
  assumes "map form_contents forms = map form_contents forms'"
  shows "detect_registration_form W forms around = detect_registration_form W forms' around"
proof -
  have len: "length forms = length forms'" using assms map_eq_imp_length_eq by blast
  have "form_contents (forms ! n) = form_contents (forms' ! n)" if "n < length forms" for n
    using assms that len by (metis nth_map)
  then show ?thesis
    by (auto simp: detect_registration_form_def len Let_def form_contents_def extract_form_fields_def
        registration_words_def split: option.splits)
qed

definition suggestion_of :: "jstr \<Rightarrow> int \<Rightarrow> generated_credentials \<Rightarrow> suggestion" where
  "suggestion_of domain now g = \<lparr>su_email = gc_email g, su_password = gc_password g,
     su_original_email = gc_original_email g, su_original_password = gc_original_password g,
     su_domain = domain, su_timestamp = now\<rparr>"

lemma processed_form:
  assumes "is_valid_domain domain"
  shows "process_form rnd domain now d index s = show_suggestion_ui d (credentials_of rnd domain) index
    (s\<lparr>sg_registry := (sg_registry s)(suggestion_key domain index \<mapsto> suggestion_of domain now (credentials_of rnd domain))\<rparr>)"
  using assms by (simp add: process_form_def generate_credentials_valid suggestion_of_def)

lemma suggestion_key_inject: "suggestion_key domain i = suggestion_key domain j \<longleftrightarrow> i = j"
  by (simp add: suggestion_key_def dec_nat_inject)

lemma processing_leaves_contents:
  "map form_contents (sg_page (process_form r domain now d index s)) = map form_contents (sg_page s)"
  "map form_contents (sg_page (process_forms rnd domain now index ds s)) = map form_contents (sg_page s)"
proof -
  show one: "map form_contents (sg_page (process_form r domain now d index s)) = map form_contents (sg_page s)"
    for r domain now d index s
    by (simp add: process_form_def show_suggestion_ui_def cards_leave_contents split: sum.splits)
  show "map form_contents (sg_page (process_forms rnd domain now index ds s)) = map form_contents (sg_page s)"
    by (induction ds arbitrary: index s) (simp_all add: one)
qed

text \<open>A pass detects the same forms as the one before: the cards do not count.\<close>

lemma scan_detects_the_same:
  "detect_registration_form W (sg_page (check_current_page W rnd domain now s)) around
     = detect_registration_form W (sg_page s) around"
  by (rule detection_same_contents) (simp add: check_current_page_def processing_leaves_contents)

lemma later_forms_keep_slot:
  "i < index \<Longrightarrow> sg_registry (process_forms rnd domain now index ds s) (suggestion_key domain i)
     = sg_registry s (suggestion_key domain i)"
proof (induction ds arbitrary: index s)
  case (Cons d ds)
  then show ?case
    by (auto simp: process_form_def show_suggestion_ui_def suggestion_key_inject split: sum.splits)
qed simp

lemma slots_after_scan:
  assumes "is_valid_domain domain" "i < length ds"
  shows "sg_registry (process_forms rnd domain now index ds s) (suggestion_key domain (index + i))
    = Some (suggestion_of domain now (credentials_of (rnd (index + i)) domain))"
  using assms(2)
proof (induction ds arbitrary: index s i)
  case (Cons d ds)
  show ?case
  proof (cases i)
    case 0
    then show ?thesis
      using assms(1) by (simp add: later_forms_keep_slot processed_form show_suggestion_ui_def)
  next
    case (Suc j)
    then show ?thesis using Cons.IH [of j "Suc index"] Cons.prems by simp
  qed
qed simp

text \<open>The first registration form of a page fills the slot that is read back.\<close>

lemma stored_after_scan:
  assumes "is_valid_domain domain" "detect_all_registration_forms W (sg_page s) \<noteq> []"
  shows "get_stored_credentials domain (check_current_page W rnd domain now s)
    = Some (suggestion_of domain now (credentials_of (rnd 0) domain))"
  using assms slots_after_scan [of domain 0 _ rnd now 0]
  by (simp add: get_stored_credentials_def check_current_page_def)

text \<open>Focusing a field of any registration form takes that slot and adds a card of the same number.\<close>

lemma focus_takes_the_first_slot:
  assumes "is_valid_domain domain" "detect_registration_form W (sg_page s) (Some n) = Some d"
  shows "get_stored_credentials domain (check_for_registration_field W rnd domain now (Some n) s)
      = Some (suggestion_of domain now (credentials_of rnd domain))"
    and "rf_cards (sg_page (check_for_registration_field W rnd domain now (Some n) s) ! n)
      = rf_cards (sg_page s ! n) @ [\<lparr>sc_index = 0, sc_fields = df_fields d,
          sc_credentials = credentials_of rnd domain, sc_hidden = False\<rparr>]"
  using assms
  by (auto simp: get_stored_credentials_def check_for_registration_field_def processed_form show_suggestion_ui_def
      add_card_def detect_registration_form_def Let_def split: if_splits)

text \<open>Dismissing reaches the first card of a number only.\<close>

lemma second_card_stays:
  assumes "rf_cards f = c1 # c2 # cs" "sc_index c1 = index"
  shows "rf_cards (hd (hide_in_forms index (f # fs))) = c1\<lparr>sc_hidden := True\<rparr> # c2 # cs"
  using assms by simp

lemma own_mutation_ignored: "own_suggestion_mutation records \<Longrightarrow> page_changed W rnd domain now records s = s"
  by (simp add: page_changed_def)

text \<open>A field without an identifier is never filled; one with an identifier gets the value.\<close>

lemma nameless_field_not_filled: "ff_id x = [] \<Longrightarrow> fill_found (Some x) v forms = forms"
  by (simp add: fill_found_def fill_element_def)

lemma set_value_found:
  "set_value_by_id i v cs = (case List.find (\<lambda>c. pc_id c = i) cs of None \<Rightarrow> None
     | Some c \<Rightarrow> Some (takeWhile (\<lambda>c. pc_id c \<noteq> i) cs @ c\<lparr>pc_value := v\<rparr> # tl (dropWhile (\<lambda>c. pc_id c \<noteq> i) cs)))"
  by (induction cs) (auto split: option.splits)

lemma filled_value:
  assumes "i \<noteq> []" "f \<in> set forms" "c \<in> set (rf_controls f)" "pc_id c = i"
  shows "\<exists>f' \<in> set (fill_element i v forms). \<exists>c' \<in> set (rf_controls f'). pc_id c' = i \<and> pc_value c' = v"
proof -
  have "set_in_forms i v forms = forms \<and> (\<forall>f \<in> set forms. \<forall>c \<in> set (rf_controls f). pc_id c \<noteq> i)
    \<or> (\<exists>f' \<in> set (set_in_forms i v forms). \<exists>c' \<in> set (rf_controls f'). pc_id c' = i \<and> pc_value c' = v)"
    by (induction forms) (auto simp: set_value_found find_None_iff find_Some_iff split: option.splits)
  then show ?thesis using assms by (auto simp: fill_element_def)
qed

text \<open>Using a card stores nothing: the registry is as before and the credentials go to the console.\<close>

lemma used_card_stores_nothing:
  "sg_registry (use_generated_credentials W domain now n c s) = sg_registry s"
  "\<exists>e. sg_console (use_generated_credentials W domain now n c s) = sg_console s @ [e] \<and> sl_credentials e = sc_credentials c"
  by (simp_all add: use_generated_credentials_def dismiss_suggestion_def save_credentials_for_domain_def Let_def)

end
