(* ===== verification/Server_Stores.thy ===== *)
theory Server_Stores
  imports Key_Derivation Jti_Store Rate_Limits Vault_Keys Resilience "HOL-Library.AList"
begin

text \<open>What the server keeps outside its database: the cache, replay store and sessions of Redis, and IPFS.\<close>

section \<open>The cache\<close>

text \<open>
  The cache of the server: src/src/infrastructure/redis/cache-service.ts and the client it asks
  for, redis-client.ts.  The server of Redis is a parameter: its commands on a state of its own,
  None when one throws.
\<close>

record 'r redis_commands =
  rk_get :: "jstr \<Rightarrow> 'r \<Rightarrow> jstr option option \<times> 'r"
  rk_setex :: "jstr \<Rightarrow> int \<Rightarrow> jstr \<Rightarrow> 'r \<Rightarrow> bool \<times> 'r"
  rk_del :: "jstr list \<Rightarrow> 'r \<Rightarrow> nat option \<times> 'r"
  rk_exists :: "jstr \<Rightarrow> 'r \<Rightarrow> int option \<times> 'r"
  rk_mget :: "jstr list \<Rightarrow> 'r \<Rightarrow> jstr option list option \<times> 'r"
  rk_keys :: "jstr \<Rightarrow> 'r \<Rightarrow> jstr list option \<times> 'r"

subsection \<open>The client\<close>

datatype client_status = Client_Ready | Client_Other

text \<open>The module's two variables.\<close>

record redis_module =
  rm_client :: "client_status option"
  rm_connecting :: bool

definition no_client :: redis_module where
  "no_client = \<lparr>rm_client = None, rm_connecting = False\<rparr>"

text \<open>Milliseconds before another attempt; None gives up.\<close>

definition retry_strategy :: "int \<Rightarrow> int option" where
  "retry_strategy n = (if n > 3 then None else Some (min (n * 200) 2000))"

text \<open>The flag: the connection was made.\<close>

definition connect_redis :: "jstr option \<Rightarrow> bool \<Rightarrow> redis_module \<Rightarrow> redis_module" where
  "connect_redis host_env connects m =
     (if absent host_env then m
      else if rm_client m = Some Client_Ready \<or> rm_connecting m then m
      else \<lparr>rm_client = (if connects then Some Client_Ready else None), rm_connecting = False\<rparr>)"

definition disconnect_redis :: "redis_module \<Rightarrow> redis_module" where
  "disconnect_redis m = (if rm_client m = None then m else m\<lparr>rm_client := None\<rparr>)"

definition is_redis_connected :: "redis_module \<Rightarrow> bool" where
  "is_redis_connected m \<longleftrightarrow> rm_client m = Some Client_Ready"

subsection \<open>The cache\<close>

record cache_service =
  cs_prefix :: jstr
  cs_default_ttl :: int

definition new_cache_service :: "jstr option \<Rightarrow> int option \<Rightarrow> cache_service" where
  "new_cache_service pre ttl = \<lparr>cs_prefix = (case pre of None \<Rightarrow> lit ''cybervault'' | Some p \<Rightarrow> p),
     cs_default_ttl = (case ttl of None \<Rightarrow> 300 | Some n \<Rightarrow> n)\<rparr>"

definition vault_cache :: cache_service where
  "vault_cache = new_cache_service (Some (lit ''cybervault:vaults'')) (Some 600)"
definition session_cache :: cache_service where
  "session_cache = new_cache_service (Some (lit ''cybervault:sessions'')) (Some 1800)"

definition build_cache_key :: "cache_service \<Rightarrow> jstr \<Rightarrow> jstr" where
  "build_cache_key c key = cs_prefix c @ 58 # key"

definition cache_get ::
  "subtle \<Rightarrow> 'r redis_commands \<Rightarrow> cache_service \<Rightarrow> bool \<Rightarrow> jstr \<Rightarrow> 'r \<Rightarrow> json option \<times> 'r" where
  "cache_get S R c has_client key r =
     (if \<not> has_client then (None, r)
      else (case rk_get R (build_cache_key c key) r of
          (Some (Some t), r') \<Rightarrow> (json_parse S t, r') | (_, r') \<Rightarrow> (None, r')))"

definition cache_setex ::
  "subtle \<Rightarrow> 'r redis_commands \<Rightarrow> cache_service \<Rightarrow> bool \<Rightarrow> jstr \<Rightarrow> int \<Rightarrow> json \<Rightarrow> 'r \<Rightarrow> bool \<times> 'r" where
  "cache_setex S R c has_client key ttl v r =
     (if \<not> has_client then (False, r) else rk_setex R (build_cache_key c key) ttl (json_stringify S v) r)"

definition cache_set ::
  "subtle \<Rightarrow> 'r redis_commands \<Rightarrow> cache_service \<Rightarrow> bool \<Rightarrow> jstr \<Rightarrow> json \<Rightarrow> int option \<Rightarrow> 'r \<Rightarrow> bool \<times> 'r" where
  "cache_set S R c has_client key v ttl r =
     (if \<not> has_client then (False, r)
      else rk_setex R (build_cache_key c key) (case ttl of Some n \<Rightarrow> n | None \<Rightarrow> cs_default_ttl c) (json_stringify S v) r)"

definition cache_del :: "'r redis_commands \<Rightarrow> cache_service \<Rightarrow> bool \<Rightarrow> jstr list \<Rightarrow> 'r \<Rightarrow> nat \<times> 'r" where
  "cache_del R c has_client keys r =
     (if \<not> has_client then (0, r)
      else (case rk_del R (map (build_cache_key c) keys) r of (Some n, r') \<Rightarrow> (n, r') | (None, r') \<Rightarrow> (0, r')))"

definition cache_has :: "'r redis_commands \<Rightarrow> cache_service \<Rightarrow> bool \<Rightarrow> jstr \<Rightarrow> 'r \<Rightarrow> bool \<times> 'r" where
  "cache_has R c has_client key r =
     (if \<not> has_client then (False, r)
      else (case rk_exists R (build_cache_key c key) r of (Some n, r') \<Rightarrow> (n = 1, r') | (None, r') \<Rightarrow> (False, r')))"

definition cache_mget ::
  "subtle \<Rightarrow> 'r redis_commands \<Rightarrow> cache_service \<Rightarrow> bool \<Rightarrow> jstr list \<Rightarrow> 'r \<Rightarrow> json option list \<times> 'r" where
  "cache_mget S R c has_client keys r =
     (if \<not> has_client then (map (\<lambda>k. None) keys, r)
      else (case rk_mget R (map (build_cache_key c) keys) r of
          (Some ts, r') \<Rightarrow> (map (\<lambda>t. case t of None \<Rightarrow> None | Some s \<Rightarrow> json_parse S s) ts, r')
        | (None, r') \<Rightarrow> (map (\<lambda>k. None) keys, r')))"

definition cache_flush :: "'r redis_commands \<Rightarrow> cache_service \<Rightarrow> bool \<Rightarrow> 'r \<Rightarrow> bool \<times> 'r" where
  "cache_flush R c has_client r =
     (if \<not> has_client then (False, r)
      else (case rk_keys R (cs_prefix c @ lit '':*'') r of
          (None, r') \<Rightarrow> (False, r')
        | (Some ks, r') \<Rightarrow> if ks = [] then (True, r')
            else (case rk_del R ks r' of (Some n, r2) \<Rightarrow> (True, r2) | (None, r2) \<Rightarrow> (False, r2))))"

subsection \<open>What the cache promises\<close>

text \<open>Without a client every operation is a miss and changes nothing.\<close>

lemma no_client_is_a_miss:
  "cache_get S R c False key r = (None, r)" "cache_set S R c False key v ttl r = (False, r)"
  "cache_del R c False keys r = (0, r)" "cache_has R c False key r = (False, r)" "cache_flush R c False r = (False, r)"
  "cache_mget S R c False keys r = (replicate (length keys) None, r)"
  by (simp_all add: cache_get_def cache_set_def cache_del_def cache_has_def cache_flush_def cache_mget_def map_replicate_const)

text \<open>What was set is read, when Redis gives back what it was given.\<close>

lemma cached_value:
  assumes "json_parse S (json_stringify S v) = Some v"
    and "cache_set S R c True key v ttl r = (True, r')"
    and "\<And>k n t q q'. rk_setex R k n t q = (True, q') \<Longrightarrow> fst (rk_get R k q') = Some (Some t)"
  shows "fst (cache_get S R c True key r') = Some v"
proof -
  from assms(2) have s: "rk_setex R (build_cache_key c key) (case ttl of Some n \<Rightarrow> n | None \<Rightarrow> cs_default_ttl c) (json_stringify S v) r = (True, r')"
    by (simp add: cache_set_def)
  show ?thesis using assms(3) [OF s] assms(1)
    by (cases "rk_get R (build_cache_key c key) r'") (simp add: cache_get_def)
qed

text \<open>Keys of one cache are apart, and the two caches of the server never share one.\<close>

lemma cache_key_inject: "build_cache_key c k = build_cache_key c k' \<longleftrightarrow> k = k'"
  by (simp add: build_cache_key_def)

lemma caches_apart: "build_cache_key vault_cache k \<noteq> build_cache_key session_cache k'"
  by (simp add: build_cache_key_def vault_cache_def session_cache_def new_cache_service_def lit_def)

lemma retry_strategy_bounds: "retry_strategy n = Some d \<Longrightarrow> n \<le> 3 \<and> d \<le> 600"
  by (auto simp: retry_strategy_def split: if_splits)

lemma connected_after_connect:
  "is_redis_connected (connect_redis h True m) \<longleftrightarrow> is_redis_connected m \<or> \<not> absent h \<and> \<not> rm_connecting m"
  by (auto simp: connect_redis_def is_redis_connected_def)

lemma disconnected: "\<not> is_redis_connected (disconnect_redis m)"
  by (auto simp: disconnect_redis_def is_redis_connected_def)

section \<open>Replay store and sessions\<close>

text \<open>
  What the server keeps in Redis: the replay store shared by several processes, the second half
  of src/src/infrastructure/crypto/jti-store.ts, and the sessions of src/src/infrastructure/redis/
  session-store.ts over the cache.  What \<^verbatim>\<open>SET key 1 EX ttl NX\<close> does is the
  locale \<^verbatim>\<open>redis_keys\<close>.
\<close>

subsection \<open>The address\<close>

definition strip_redis_scheme :: "jstr \<Rightarrow> jstr" where
  "strip_redis_scheme u = (if starts_with u (lit ''redis://'') then drop 8 u
     else if starts_with u (lit ''rediss://'') then drop 9 u else u)"

text \<open>\<^verbatim>\<open>encodeURIComponent\<close> is a parameter.\<close>

definition with_redis_credentials :: "(jstr \<Rightarrow> jstr) \<Rightarrow> jstr \<Rightarrow> jstr option \<Rightarrow> jstr" where
  "with_redis_credentials encode u password =
     (if 64 \<in> set u then u
      else if absent password then u
      else (if starts_with u (lit ''rediss://'') then lit ''rediss'' else lit ''redis'')
        @ lit ''://:'' @ encode (the password) @ 64 # strip_redis_scheme u)"

datatype jti_backend = Jti_Redis jstr | Jti_Memory

definition create_jti_store :: "jstr option \<Rightarrow> jti_backend" where
  "create_jti_store u = (case usable_redis_url u of Some v \<Rightarrow> Jti_Redis v | None \<Rightarrow> Jti_Memory)"

subsection \<open>The shared replay store\<close>

definition redis_jti_key :: "jstr \<Rightarrow> jstr" where
  "redis_jti_key j = lit ''cv:jti:'' @ j"

text \<open>A process: whether it is connected, and the Redis it shares.  None: the promise is rejected.\<close>

record 'r redis_jti =
  rj_connected :: bool
  rj_redis :: 'r

definition redis_try_consume ::
  "('r \<Rightarrow> int \<Rightarrow> jstr \<Rightarrow> int \<Rightarrow> bool \<times> 'r) \<Rightarrow> bool \<Rightarrow> int \<Rightarrow> jstr \<Rightarrow> int \<Rightarrow> 'r redis_jti \<Rightarrow> bool option \<times> 'r redis_jti" where
  "redis_try_consume set_nx connects now j ttl s =
     (if \<not> rj_connected s \<and> \<not> connects then (None, s)
      else if ttl \<le> 0 then (None, s\<lparr>rj_connected := True\<rparr>)
      else (case set_nx (rj_redis s) now (redis_jti_key j) ttl of
          (ok, r) \<Rightarrow> (Some ok, \<lparr>rj_connected = True, rj_redis = r\<rparr>)))"

definition redis_is_consumed ::
  "('r \<Rightarrow> int \<Rightarrow> jstr \<Rightarrow> bool \<times> 'r) \<Rightarrow> bool \<Rightarrow> int \<Rightarrow> jstr \<Rightarrow> 'r redis_jti \<Rightarrow> bool option \<times> 'r redis_jti" where
  "redis_is_consumed exists_key connects now j s =
     (if \<not> rj_connected s \<and> \<not> connects then (None, s)
      else (case exists_key (rj_redis s) now (redis_jti_key j) of
          (ok, r) \<Rightarrow> (Some ok, \<lparr>rj_connected = True, rj_redis = r\<rparr>)))"

definition redis_close :: "'r redis_jti \<Rightarrow> 'r redis_jti" where
  "redis_close s = s\<lparr>rj_connected := False\<rparr>"

text \<open>The documented behaviour of the command: it sets a key that is not live, for its seconds.\<close>

locale redis_keys =
  fixes set_nx :: "'r \<Rightarrow> int \<Rightarrow> jstr \<Rightarrow> int \<Rightarrow> bool \<times> 'r"
    and live :: "'r \<Rightarrow> int \<Rightarrow> jstr \<Rightarrow> bool"
  assumes set_result: "0 < ttl \<Longrightarrow> fst (set_nx r t k ttl) \<longleftrightarrow> \<not> live r t k"
    and set_lives: "0 < ttl \<Longrightarrow> \<not> live r t k \<Longrightarrow> live (snd (set_nx r t k ttl)) u k \<longleftrightarrow> u < t + ttl * 1000"
    and set_refused: "0 < ttl \<Longrightarrow> live r t k \<Longrightarrow> snd (set_nx r t k ttl) = r"
    and set_other: "k' \<noteq> k \<Longrightarrow> live (snd (set_nx r t k ttl)) u k' \<longleftrightarrow> live r u k'"
    and live_earlier: "live r u k \<Longrightarrow> t \<le> u \<Longrightarrow> live r t k"
begin

text \<open>The uses of any processes, each with its own connection, in the order Redis sees them.\<close>

fun uses :: "'r \<Rightarrow> (bool \<times> bool \<times> int \<times> jstr \<times> int) list \<Rightarrow> 'r" where
  "uses r [] = r"
| "uses r ((joined, connects, t, j, ttl) # es) =
     uses (rj_redis (snd (redis_try_consume set_nx connects t j ttl \<lparr>rj_connected = joined, rj_redis = r\<rparr>))) es"

lemma use_keeps_live:
  assumes "live r u (redis_jti_key j)" "t \<le> u"
  shows "live (rj_redis (snd (redis_try_consume set_nx connects t j' ttl \<lparr>rj_connected = joined, rj_redis = r\<rparr>))) u
    (redis_jti_key j)"
proof (cases "redis_jti_key j' = redis_jti_key j")
  case True
  have "live r t (redis_jti_key j)" using live_earlier assms by blast
  with True show ?thesis
    using assms set_refused [of ttl r t "redis_jti_key j"] by (auto simp: redis_try_consume_def split: prod.splits)
next
  case False
  then show ?thesis
    using assms set_other [of "redis_jti_key j" "redis_jti_key j'" r t ttl u]
    by (auto simp: redis_try_consume_def split: prod.splits)
qed

lemma uses_keep_live:
  assumes "live r u (redis_jti_key j)" "\<forall>(c, d, t, j', ttl) \<in> set es. t \<le> u"
  shows "live (uses r es) u (redis_jti_key j)"
  using assms
proof (induction es arbitrary: r)
  case (Cons e es)
  obtain c d t j' ttl where e: "e = (c, d, t, j', ttl)" by (cases e) auto
  with Cons.prems have "live (rj_redis (snd (redis_try_consume set_nx d t j' ttl \<lparr>rj_connected = c, rj_redis = r\<rparr>))) u
    (redis_jti_key j)" by (intro use_keeps_live) auto
  with Cons e show ?case by simp
qed simp

text \<open>One use across all processes: within its time to live no second one is allowed.\<close>

lemma shared_no_double_use:
  assumes "redis_try_consume set_nx connects t j ttl s = (Some True, s')"
    and "\<forall>(c, d, t', j', ttl') \<in> set es. t' \<le> u" "u < t + ttl * 1000"
  shows "fst (redis_try_consume set_nx d u j ttl' \<lparr>rj_connected = c, rj_redis = uses (rj_redis s') es\<rparr>) \<noteq> Some True"
proof -
  obtain ttl: "0 < ttl" and ok: "set_nx (rj_redis s) t (redis_jti_key j) ttl = (True, rj_redis s')"
    using assms(1) by (auto simp: redis_try_consume_def split: if_splits prod.splits)
  then have "\<not> live (rj_redis s) t (redis_jti_key j)"
    using set_result [of ttl "rj_redis s" t "redis_jti_key j"] by simp
  then have "live (rj_redis s') u (redis_jti_key j)"
    using set_lives [of ttl "rj_redis s" t "redis_jti_key j" u] ttl ok assms(3) by simp
  from uses_keep_live [OF this assms(2)] have "live (uses (rj_redis s') es) u (redis_jti_key j)" .
  then show ?thesis
    using set_result [of ttl' "uses (rj_redis s') es" u "redis_jti_key j"]
    by (auto simp: redis_try_consume_def split: if_splits prod.splits)
qed

end

text \<open>The store in memory behaves as the command is documented to.\<close>

interpretation nx: redis_keys try_consume jti_spent
  by unfold_locales (auto simp: try_consume_def jti_spent_def Let_def split: option.splits if_splits)

subsection \<open>Sessions\<close>

record session_data =
  sn_user_id :: jstr
  sn_username :: jstr
  sn_login_time :: jstr

definition session_json :: "session_data \<Rightarrow> json" where
  "session_json d = JObj [(lit ''userId'', JStr (sn_user_id d)), (lit ''username'', JStr (sn_username d)),
     (lit ''loginTime'', JStr (sn_login_time d))]"

definition session_ttl :: int where "session_ttl = 1800"

definition session_store :: cache_service where
  "session_store = new_cache_service (Some (lit ''cybervault:sessions'')) (Some session_ttl)"

definition session_create ::
  "subtle \<Rightarrow> 'r redis_commands \<Rightarrow> bool \<Rightarrow> jstr \<Rightarrow> session_data \<Rightarrow> 'r \<Rightarrow> bool \<times> 'r" where
  "session_create S R c sid d r = cache_set S R session_store c sid (session_json d) (Some session_ttl) r"

definition session_get :: "subtle \<Rightarrow> 'r redis_commands \<Rightarrow> bool \<Rightarrow> jstr \<Rightarrow> 'r \<Rightarrow> json option \<times> 'r" where
  "session_get S R c sid r = cache_get S R session_store c sid r"

definition session_destroy :: "'r redis_commands \<Rightarrow> bool \<Rightarrow> jstr \<Rightarrow> 'r \<Rightarrow> bool \<times> 'r" where
  "session_destroy R c sid r = (case cache_del R session_store c [sid] r of (n, r') \<Rightarrow> (n > 0, r'))"

text \<open>What was read is written again, whatever it is.\<close>

definition session_refresh :: "subtle \<Rightarrow> 'r redis_commands \<Rightarrow> bool \<Rightarrow> jstr \<Rightarrow> 'r \<Rightarrow> bool \<times> 'r" where
  "session_refresh S R c sid r = (case cache_get S R session_store c sid r of
     (None, r') \<Rightarrow> (False, r')
   | (Some d, r') \<Rightarrow> if d \<in> {JNull, JBool False, JNum 0, JStr []} then (False, r')
       else cache_set S R session_store c sid d (Some session_ttl) r')"

text \<open>A created session is read, and refreshing it keeps it.\<close>

lemma created_session_read:
  assumes "json_parse S (json_stringify S (session_json d)) = Some (session_json d)"
    and "session_create S R True sid d r = (True, r')"
    and "\<And>k n t q q'. rk_setex R k n t q = (True, q') \<Longrightarrow> fst (rk_get R k q') = Some (Some t)"
  shows "fst (session_get S R True sid r') = Some (session_json d)"
  using assms unfolding session_create_def session_get_def by (rule cached_value)

lemma refreshed_session_read:
  assumes "json_parse S (json_stringify S v) = Some v" "cache_get S R session_store True sid r = (Some v, r1)"
    and "session_refresh S R True sid r = (True, r')"
    and "\<And>k n t q q'. rk_setex R k n t q = (True, q') \<Longrightarrow> fst (rk_get R k q') = Some (Some t)"
  shows "fst (session_get S R True sid r') = Some v"
proof -
  from assms(2,3) have "cache_set S R session_store True sid v (Some session_ttl) r1 = (True, r')"
    by (auto simp: session_refresh_def split: if_splits)
  from cached_value [OF assms(1) this assms(4)] show ?thesis by (simp add: session_get_def)
qed

lemma credentials_added_once:
  "with_redis_credentials encode (with_redis_credentials encode u p) p = with_redis_credentials encode u p"
  by (simp add: with_redis_credentials_def)

section \<open>IPFS\<close>

text \<open>
  The IPFS client of the server, src/src/infrastructure/ipfs/ipfs-adapter.ts, over the circuit
  breaker, the retries and the encryption service.  The node is a parameter with a state of
  its own: its five calls, each of which may fail with a message.
\<close>

record 'n ipfs_node =
  in_add :: "bytes \<Rightarrow> ('n, jstr, jstr) action"
  in_cat :: "jstr \<Rightarrow> ('n, jstr, bytes list) action"
  in_unpin :: "jstr \<Rightarrow> 'n \<Rightarrow> bool \<times> 'n"
  in_pins :: "('n, jstr, jstr list) action"
  in_identify :: "('n, jstr, jstr) action"

text \<open>Offline: no client could be made.  The store keeps the order of insertion.\<close>

record 'n ipfs_adapter =
  ia_online :: bool
  ia_breaker :: breaker
  ia_node :: 'n
  ia_memory :: "(jstr \<times> jstr) list"
  ia_keys :: "jstr \<rightharpoonup> jstr"

datatype ipfs_error = Data_Not_Found | Ipfs_Crypto crypto_error | Ipfs_Node jstr

text \<open>The clock at the look-up of the breaker, the clock at a failure, the jitter of the retries.\<close>

record ipfs_moment =
  im_now :: int
  im_later :: int
  im_jitter :: "nat \<Rightarrow> rat"

subsection \<open>Configuration\<close>

record ipfs_config =
  if_host :: jstr
  if_port :: int
  if_protocol :: jstr
  if_api_path :: "jstr option"

definition build_api_url :: "ipfs_config \<Rightarrow> jstr" where
  "build_api_url c = (let base = if_protocol c @ lit ''://'' @ if_host c @ lit '':'' @ dec_int (if_port c) in
     if absent (if_api_path c) then base @ lit ''/api/v0'' else base @ the (if_api_path c))"

definition default_ipfs_config :: ipfs_config where
  "default_ipfs_config = \<lparr>if_host = lit ''127.0.0.1'', if_port = 5001, if_protocol = lit ''http'', if_api_path = None\<rparr>"

record parsed_url =
  pl_protocol :: jstr
  pl_host_name :: jstr
  pl_port_text :: jstr
  pl_path_name :: jstr

text \<open>A port of a parsed address is decimal or empty.\<close>

definition resolve_port :: "parsed_url \<Rightarrow> int" where
  "resolve_port u = (case parse_int (pl_port_text u) of Some n \<Rightarrow> n
     | None \<Rightarrow> if pl_protocol u = lit ''https:'' then 443 else 5001)"

definition resolve_api_path :: "parsed_url \<Rightarrow> jstr option" where
  "resolve_api_path u = (if pl_path_name u \<noteq> lit ''/'' then Some (pl_path_name u) else None)"

definition resolve_ipfs_config :: "(jstr \<Rightarrow> parsed_url option) \<Rightarrow> jstr option \<Rightarrow> ipfs_config" where
  "resolve_ipfs_config parse env_url =
     (if absent env_url then default_ipfs_config
      else (case parse (the env_url) of
          None \<Rightarrow> default_ipfs_config
        | Some u \<Rightarrow> \<lparr>if_host = pl_host_name u, if_port = resolve_port u,
            if_protocol = remove_first 58 (pl_protocol u), if_api_path = resolve_api_path u\<rparr>))"

definition new_ipfs_adapter :: "'n ipfs_node \<Rightarrow> 'n \<Rightarrow> 'n ipfs_adapter" where
  "new_ipfs_adapter N n = (case in_identify N n of (r, n') \<Rightarrow>
     \<lparr>ia_online = (case r of Inr _ \<Rightarrow> True | Inl _ \<Rightarrow> False), ia_breaker = new_breaker default_circuit_options,
      ia_node = n', ia_memory = [], ia_keys = Map.empty\<rparr>)"

subsection \<open>Calls through the breaker\<close>

definition ipfs_retry_options :: retry_options where
  "ipfs_retry_options = default_retry_options\<lparr>ro_max_attempts := 3,
     ro_retryable := Some [lit ''ECONNREFUSED'', lit ''timeout'', lit ''fetch failed'']\<rparr>"

definition retried_action :: "('n, jstr, 'a) action \<Rightarrow> (nat \<Rightarrow> rat) \<Rightarrow> ('n, jstr, 'a) action" where
  "retried_action fn jitter n = (case with_retry fn ipfs_retry_options jitter n of
     (Returned v, n', ds) \<Rightarrow> (Inr v, n') | (Threw e, n', ds) \<Rightarrow> (Inl e, n') | (Threw_Undefined, n', ds) \<Rightarrow> (Inl [], n'))"

definition guarded_call ::
  "('n, jstr, 'a) action \<Rightarrow> ipfs_moment \<Rightarrow> 'n ipfs_adapter \<Rightarrow> 'a option \<times> 'n ipfs_adapter" where
  "guarded_call fn t a = (case breaker_execute fn (im_now t) (im_later t) (ia_breaker a, ia_node a) of
     (r, b, n) \<Rightarrow> ((case r of Call_Returned v \<Rightarrow> Some v | _ \<Rightarrow> None), a\<lparr>ia_breaker := b, ia_node := n\<rparr>))"

definition ipfs_healthy :: "'n ipfs_node \<Rightarrow> ipfs_moment \<Rightarrow> 'n ipfs_adapter \<Rightarrow> bool \<times> 'n ipfs_adapter" where
  "ipfs_healthy N t a = (case breaker_get_state (im_now t) (ia_breaker a) of (st, b) \<Rightarrow>
     let a1 = a\<lparr>ia_breaker := b\<rparr> in
     if st = Circuit_Open \<or> \<not> ia_online a then (False, a1)
     else (case guarded_call (in_identify N) t a1 of (r, a2) \<Rightarrow> (r \<noteq> None, a2)))"

definition fetch_from_ipfs :: "subtle \<Rightarrow> 'n ipfs_node \<Rightarrow> jstr \<Rightarrow> ('n, jstr, jstr) action" where
  "fetch_from_ipfs S N cid n = (case in_cat N cid n of
     (Inl e, n') \<Rightarrow> (Inl e, n') | (Inr chunks, n') \<Rightarrow> (Inr (text_decode S (concat chunks)), n'))"

definition from_memory :: "jstr \<Rightarrow> 'n ipfs_adapter \<Rightarrow> ipfs_error + jstr" where
  "from_memory cid a = (case map_of (ia_memory a) cid of
     None \<Rightarrow> Inl Data_Not_Found | Some s \<Rightarrow> if s = [] then Inl Data_Not_Found else Inr s)"

definition fetch_with_fallback ::
  "subtle \<Rightarrow> 'n ipfs_node \<Rightarrow> ipfs_moment \<Rightarrow> jstr \<Rightarrow> 'n ipfs_adapter \<Rightarrow> (ipfs_error + jstr) \<times> 'n ipfs_adapter" where
  "fetch_with_fallback S N t cid a =
     (case guarded_call (retried_action (fetch_from_ipfs S N cid) (im_jitter t)) t a of
        (Some s, a') \<Rightarrow> (Inr s, a') | (None, a') \<Rightarrow> (from_memory cid a', a'))"

definition decrypt_if_needed ::
  "subtle \<Rightarrow> key_crypto \<Rightarrow> jstr \<Rightarrow> jstr \<Rightarrow> bool \<Rightarrow> 'n ipfs_adapter \<Rightarrow> ipfs_error + jstr" where
  "decrypt_if_needed S K cid data decrypt a =
     (if \<not> decrypt then Inr data
      else if absent (ia_keys a cid) then Inr data
      else (case decrypt_with_master S K data (the (ia_keys a cid)) of
          Inl e \<Rightarrow> Inl (Ipfs_Crypto e) | Inr s \<Rightarrow> Inr s))"

subsection \<open>Operations\<close>

definition remember_key :: "jstr option \<Rightarrow> jstr \<Rightarrow> 'n ipfs_adapter \<Rightarrow> 'n ipfs_adapter" where
  "remember_key key cid a = (case key of None \<Rightarrow> a | Some k \<Rightarrow> if k = [] then a else a\<lparr>ia_keys := (ia_keys a)(cid \<mapsto> k)\<rparr>)"

definition keep_in_memory :: "key_crypto \<Rightarrow> jstr \<Rightarrow> jstr option \<Rightarrow> 'n ipfs_adapter \<Rightarrow> jstr \<times> 'n ipfs_adapter" where
  "keep_in_memory K processed key a = (let cid = crypto_hash K processed in
     (cid, remember_key key cid (a\<lparr>ia_memory := AList.update cid processed (ia_memory a)\<rparr>)))"

record ipfs_random =
  iq_key :: bytes
  iq_salt :: bytes
  iq_iv :: bytes

definition process_upload :: "subtle \<Rightarrow> key_crypto \<Rightarrow> ipfs_random \<Rightarrow> jstr \<Rightarrow> bool \<Rightarrow> ipfs_error + jstr \<times> jstr option" where
  "process_upload S K r data enc =
     (if \<not> enc then Inr (data, None)
      else (let key = to_hex (iq_key r) in case encrypt_with_master S K (iq_salt r) (iq_iv r) data key of
          Inl e \<Rightarrow> Inl (Ipfs_Crypto e) | Inr blob \<Rightarrow> Inr (blob, Some key)))"

definition ipfs_upload ::
  "subtle \<Rightarrow> key_crypto \<Rightarrow> 'n ipfs_node \<Rightarrow> ipfs_moment \<Rightarrow> ipfs_random \<Rightarrow> jstr \<Rightarrow> bool \<Rightarrow> 'n ipfs_adapter
     \<Rightarrow> (ipfs_error + jstr) \<times> 'n ipfs_adapter" where
  "ipfs_upload S K N t r data enc a = (case process_upload S K r data enc of
     Inl e \<Rightarrow> (Inl e, a)
   | Inr (processed, key) \<Rightarrow>
       if \<not> ia_online a then (case keep_in_memory K processed key a of (cid, a') \<Rightarrow> (Inr cid, a'))
       else (case guarded_call (retried_action (in_add N (utf8_encode processed)) (im_jitter t)) t a of
           (Some cid, a') \<Rightarrow> (Inr cid, remember_key key cid a')
         | (None, a') \<Rightarrow> (case keep_in_memory K processed key a' of (cid, a2) \<Rightarrow> (Inr cid, remember_key key cid a2))))"

definition ipfs_download ::
  "subtle \<Rightarrow> key_crypto \<Rightarrow> 'n ipfs_node \<Rightarrow> ipfs_moment \<Rightarrow> jstr \<Rightarrow> bool \<Rightarrow> 'n ipfs_adapter
     \<Rightarrow> (ipfs_error + jstr) \<times> 'n ipfs_adapter" where
  "ipfs_download S K N t cid decrypt a =
     (case (if ia_online a then fetch_with_fallback S N t cid a else (from_memory cid a, a)) of
        (Inl e, a') \<Rightarrow> (Inl e, a')
      | (Inr data, a') \<Rightarrow> (decrypt_if_needed S K cid data decrypt a', a'))"

definition ipfs_delete :: "'n ipfs_node \<Rightarrow> jstr \<Rightarrow> 'n ipfs_adapter \<Rightarrow> bool \<times> 'n ipfs_adapter" where
  "ipfs_delete N cid a =
     (if \<not> ia_online a then (map_of (ia_memory a) cid \<noteq> None, a\<lparr>ia_memory := AList.delete cid (ia_memory a)\<rparr>)
      else (case in_unpin N cid (ia_node a) of (ok, n) \<Rightarrow> (ok, a\<lparr>ia_node := n\<rparr>)))"

definition ipfs_list :: "'n ipfs_node \<Rightarrow> 'n ipfs_adapter \<Rightarrow> (ipfs_error + jstr list) \<times> 'n ipfs_adapter" where
  "ipfs_list N a =
     (if \<not> ia_online a then (Inr (map fst (ia_memory a)), a)
      else (case in_pins N (ia_node a) of
          (Inl e, n) \<Rightarrow> (Inl (Ipfs_Node e), a\<lparr>ia_node := n\<rparr>) | (Inr cs, n) \<Rightarrow> (Inr cs, a\<lparr>ia_node := n\<rparr>)))"

text \<open>One moment per download.\<close>

fun sync_downloads ::
  "subtle \<Rightarrow> key_crypto \<Rightarrow> 'n ipfs_node \<Rightarrow> (nat \<Rightarrow> ipfs_moment) \<Rightarrow> nat \<Rightarrow> jstr list \<Rightarrow> 'n ipfs_adapter \<Rightarrow> nat \<times> 'n ipfs_adapter" where
  "sync_downloads S K N ts i [] a = (0, a)"
| "sync_downloads S K N ts i (cid # cs) a = (case ipfs_download S K N (ts i) cid False a of
     (Inl e, a') \<Rightarrow> sync_downloads S K N ts (Suc i) cs a'
   | (Inr data, a') \<Rightarrow> (case sync_downloads S K N ts (Suc i) cs (a'\<lparr>ia_memory := AList.update cid data (ia_memory a')\<rparr>) of
       (n, a2) \<Rightarrow> (Suc n, a2)))"

fun sync_uploads :: "'n ipfs_node \<Rightarrow> jstr list \<Rightarrow> 'n ipfs_adapter \<Rightarrow> nat \<times> 'n ipfs_adapter" where
  "sync_uploads N [] a = (0, a)"
| "sync_uploads N (cid # cs) a =
     (if absent (map_of (ia_memory a) cid) then sync_uploads N cs a
      else (case in_add N (utf8_encode (the (map_of (ia_memory a) cid))) (ia_node a) of
          (Inl e, n) \<Rightarrow> sync_uploads N cs (a\<lparr>ia_node := n\<rparr>)
        | (Inr c, n) \<Rightarrow> (case sync_uploads N cs (a\<lparr>ia_node := n\<rparr>) of (k, a2) \<Rightarrow> (Suc k, a2))))"

definition ipfs_sync ::
  "subtle \<Rightarrow> key_crypto \<Rightarrow> 'n ipfs_node \<Rightarrow> (nat \<Rightarrow> ipfs_moment) \<Rightarrow> 'n ipfs_adapter
     \<Rightarrow> (ipfs_error + nat \<times> nat) \<times> 'n ipfs_adapter" where
  "ipfs_sync S K N ts a =
     (if \<not> ia_online a then (Inr (0, 0), a)
      else (case ipfs_list N a of
          (Inl e, a1) \<Rightarrow> (Inl e, a1)
        | (Inr remote, a1) \<Rightarrow>
            let held_here = map fst (ia_memory a1);
              missing = filter (\<lambda>c. c \<notin> set held_here) remote; own = filter (\<lambda>c. c \<notin> set remote) held_here
            in (case sync_downloads S K N ts 0 missing a1 of (d, a2) \<Rightarrow>
                 (case sync_uploads N own a2 of (u, a3) \<Rightarrow> (Inr (u, d), a3)))))"

subsection \<open>What the adapter keeps\<close>

lemma kept_reads_back:
  assumes "keep_in_memory K processed key a = (cid, a')" "processed \<noteq> []"
  shows "from_memory cid a' = Inr processed"
  using assms by (auto simp: keep_in_memory_def from_memory_def remember_key_def Let_def update_conv' split: option.splits if_splits)

lemma kept_key:
  assumes "keep_in_memory K processed (Some k) a = (cid, a')" "k \<noteq> []"
  shows "ia_keys a' cid = Some k"
  using assms by (auto simp: keep_in_memory_def remember_key_def Let_def)

lemma to_hex_nonempty: "bs \<noteq> [] \<Longrightarrow> to_hex bs \<noteq> []"
  by (cases bs) (auto simp: to_hex_def nats_of_def)

lemma b64_groups_nonempty: "ns \<noteq> [] \<Longrightarrow> b64_groups ns \<noteq> []"
  by (cases ns rule: b64_groups.cases) (auto simp: Let_def)

lemma encrypted_nonempty: "encrypt_with_master S K salt iv data key = Inr blob \<Longrightarrow> salt \<noteq> [] \<Longrightarrow> blob \<noteq> []"
  by (auto simp: encrypt_with_master_def binary_to_base64_def nats_of_def b64_groups_nonempty split: option.splits)

text \<open>With no node, what is uploaded encrypted is downloaded again.\<close>

lemma offline_round_trip:
  assumes "\<not> ia_online a" "ipfs_upload S K N t r data True a = (Inr cid, a')"
    and "aead_ok S" "decodes S data" "length (iq_iv r) = aes_iv_length" "length (iq_salt r) = pbkdf2_salt_length"
    and "iq_key r \<noteq> []"
  shows "fst (ipfs_download S K N t' cid True a') = Inr data"
proof -
  let ?k = "to_hex (iq_key r)"
  obtain blob where e: "encrypt_with_master S K (iq_salt r) (iq_iv r) data ?k = Inr blob"
    and k: "keep_in_memory K blob (Some ?k) a = (cid, a')"
    using assms(1,2) by (auto simp: ipfs_upload_def process_upload_def Let_def split: sum.splits prod.splits)
  have "iq_salt r \<noteq> []" using assms(6) by (auto simp: pbkdf2_salt_length_def)
  then have "blob \<noteq> []" using encrypted_nonempty [OF e] by simp
  then have m: "from_memory cid a' = Inr blob" using kept_reads_back [OF k] by simp
  have key: "ia_keys a' cid = Some ?k" using kept_key [OF k] to_hex_nonempty assms(7) by simp
  have "\<not> ia_online a'" using k assms(1) by (auto simp: keep_in_memory_def remember_key_def Let_def split: if_splits)
  moreover have "decrypt_with_master S K blob ?k = Inr data"
    using encrypted_with_master_opens [OF assms(3,4,5,6) e] .
  ultimately show ?thesis
    using m key to_hex_nonempty [OF assms(7)] by (simp add: ipfs_download_def decrypt_if_needed_def absent_def)
qed

text \<open>An upload fails only with its encryption, whatever the node does.\<close>

lemma upload_error_is_crypto:
  assumes "ipfs_upload S K N t r data enc a = (Inl e, a')"
  shows "(\<exists>c. e = Ipfs_Crypto c) \<and> enc \<and> a' = a"
  using assms by (auto simp: ipfs_upload_def process_upload_def Let_def split: sum.splits prod.splits if_splits option.splits)

text \<open>When the node fails, what was uploaded is in memory and readable while the node cannot serve it.\<close>

lemma guarded_call_keeps:
  "guarded_call fn t a = (v, a') \<Longrightarrow> ia_memory a' = ia_memory a \<and> ia_keys a' = ia_keys a \<and> ia_online a' = ia_online a"
  by (auto simp: guarded_call_def split: prod.splits)

lemma failed_upload_in_memory:
  assumes "ia_online a" "data \<noteq> []" "ipfs_upload S K N t r data False a = (Inr cid, a')"
    and "fst (guarded_call (retried_action (in_add N (utf8_encode data)) (im_jitter t)) t a) = None"
    and "fst (guarded_call (retried_action (fetch_from_ipfs S N cid) (im_jitter t')) t' a') = None"
  shows "fst (ipfs_download S K N t' cid False a') = Inr data"
proof -
  obtain a1 where g: "guarded_call (retried_action (in_add N (utf8_encode data)) (im_jitter t)) t a = (None, a1)"
    using assms(4) by (cases "guarded_call (retried_action (in_add N (utf8_encode data)) (im_jitter t)) t a") auto
  with assms(1,3) have k: "keep_in_memory K data None a1 = (cid, a')"
    by (auto simp: ipfs_upload_def process_upload_def remember_key_def keep_in_memory_def Let_def)
  obtain a2 where f: "guarded_call (retried_action (fetch_from_ipfs S N cid) (im_jitter t')) t' a' = (None, a2)"
    using assms(5) by (cases "guarded_call (retried_action (fetch_from_ipfs S N cid) (im_jitter t')) t' a'") auto
  have "ia_online a'" using k guarded_call_keeps [OF g] assms(1) by (auto simp: keep_in_memory_def remember_key_def Let_def)
  moreover have "from_memory cid a2 = Inr data"
    using kept_reads_back [OF k assms(2)] guarded_call_keeps [OF f] by (simp add: from_memory_def)
  ultimately show ?thesis using f by (simp add: ipfs_download_def fetch_with_fallback_def decrypt_if_needed_def)
qed

text \<open>With a node, deleting leaves the copy in memory.\<close>

lemma online_delete_keeps_memory: "ia_online a \<Longrightarrow> ia_memory (snd (ipfs_delete N cid a)) = ia_memory a"
  by (auto simp: ipfs_delete_def split: prod.splits)

lemma synced_bounds:
  "fst (sync_downloads S K N ts i cs a) \<le> length cs" "fst (sync_uploads N cs b) \<le> length cs"
proof -
  show "fst (sync_downloads S K N ts i cs a) \<le> length cs"
    by (induction cs arbitrary: i a) (auto split: prod.splits sum.splits, (metis fst_conv le_SucI Suc_le_mono)+)
  show "fst (sync_uploads N cs b) \<le> length cs"
    by (induction cs arbitrary: b) (auto split: prod.splits sum.splits, (metis fst_conv le_SucI Suc_le_mono)+)
qed

end
