(* ===== verification/Spec2Isabelle.thy ===== *)
theory Spec2Isabelle
  imports Release_Properties Managed_Properties Plus_Properties Service_Properties
    Step_Up_Properties Core_Properties Keys_Properties Worker_Properties Extension_Properties
    Entity_Repositories Exchange_Crypto Extension_Stores Page_Scripts Suggestions Plus_Http
    Server_Stores
begin

text \<open>
  CyberVault: a password manager made of a browser extension (src/src/ui,
  src/src/background), a server called Core (src/src/infrastructure/api) and an
  authorization service called Plus (plus/).  This development models the logic of
  the three and proves what makes it correct.

  \<^bold>\<open>How the parts interact.\<close>  The extension stores personal credentials encrypted
  per entry and finds them through an opaque index of origins; a page gets a
  credential only through the autofill guard, and only after the protection against
  an adversary in the middle has looked at the page.  A managed credential has its
  key share at Core: the extension asks Plus for a capability, Plus judges the
  request (entitlement, risk, step-up), signs the capability, and Core releases the
  share to its bearer, once.  Where a step-up is asked for, Core itself signs the
  approval, after a passphrase or an authenticator has proved the user's presence,
  and Plus checks that approval.

  \<^bold>\<open>Extension.\<close>
    \<^item> Origin, Autofill\_Guard: domain/services/autofill/origin.ts, autofill-guard.ts
      (record \<^verbatim>\<open>canonical_origin\<close>; parseAbsoluteOrigin, mayReleaseSecret).
    \<^item> Codec, Key\_Derivation, Domain\_Index: shared/utils/binary.ts,
      crypto/hkdf-derivation.ts, autofill/domain-index.ts (the index is an association
      list from tokens to identifiers).
    \<^item> Credential\_Release, Authoring, Authored\_Release: background/credential-release.ts
      and autofill/credential-authoring.ts, and the two put together; the release is a
      list of observable steps beside its result.
    \<^item> Step\_Up\_Flow: autofill/step-up-flow.ts, the client's session state machine.
    \<^item> Lookalikes, Domain\_Pipeline, Trust\_Store, Submission\_Gate,
      Page\_Integrity, Page\_Evaluation: domain/services/aitm/ and its adapters.
    \<^item> Credentials, Credentials\_Generation, Suggestions: domain/services/autocompletado/.
    \<^item> Totp: ui/content-scripts/totp-generator.ts.  Vault\_Keys, Master\_Key:
      crypto/key-derivation-service.ts, EncryptionService.ts, crypto-service.ts,
      argon2-kdf.ts, secure-memory.ts and master-key-manager.ts (the two storage areas
      are the record \<^verbatim>\<open>key_areas\<close>).  Channel\_Binding: the channel binding adapter.
    \<^item> Worker\_Gate, Worker\_Session, Service\_Worker: background/auditor.ts,
      rq2-pilot.ts and message-types.ts.  The record \<^verbatim>\<open>worker\<close> is what a worker holds in
      memory and in both storage areas, \<^verbatim>\<open>worker_step\<close> one message, eviction or
      installation.  Worker\_History follows the step-up gate over histories of steps.
    \<^item> Content\_Autofill, Popup: ui/content-scripts/autocomplete.ts and ui/popup/popup.ts,
      as clients that send messages to the worker.
    \<^item> Page\_Scripts: ui/content-scripts/inject.ts and managed-decrypt.ts, and the
      submission gate of infrastructure/browser/ with its use case.
    \<^item> Extension\_Stores: the isolated cookies, ui/options/options.ts and
      ChromeStorageVaultRepository.ts.

  \<^bold>\<open>Core.\<close>
    \<^item> Capability, Jti\_Store, Release\_Share\_Kek, Share\_Store, Credential\_Entity,
      Managed\_Authoring, Managed\_Release: capability tokens, the replay store, the
      wrapped shares and the two use cases over them.
    \<^item> Resilience (retry and circuit breaker), Plus\_Bridge, Rate\_Limits: the services the
      handlers run on.
    \<^item> Auth, Vault\_Store, Step\_Up\_Proof, Step\_Up\_Stores, Step\_Up\_Api,
      Step\_Up\_History: users and tokens, vaults and credentials at rest with optimistic
      locking, and the step-up routes of api/server.ts with their histories.
    \<^item> Share\_Postgres, Core\_Api, Core\_Routes: the durable share store, the handlers of
      api/server.ts and the routes (\<^verbatim>\<open>core_step\<close>: one request, rate limit first).
    \<^item> Core\_Access: what a reply may reveal, registration and
      login, authoring and release over HTTP.
    \<^item> Recovery: application/use-cases/recovery.use-case.ts.  Exchange\_Crypto: key exchange,
      signatures and hashing in infrastructure/crypto.
    \<^item> Server\_Support, Server\_Stores: shared/metrics.ts, shared/config.ts and the start of
      both services; infrastructure/redis/, the replay store on Redis and
      infrastructure/ipfs/ipfs-adapter.ts.

  \<^bold>\<open>Plus.\<close>
    \<^item> Plus\_Operations, Entitlement, Plus\_Entities, Risk\_Engine, Approval,
      Challenge\_Service: plus/domain; the capability issuer is in Capability.
    \<^item> Entitlement\_Store, Challenge\_Store, Entity\_Repositories:
      plus/infrastructure/repositories, and the vulnerabilities of Core.
    \<^item> Plus\_Gate, Plus\_System: plus/api/server.ts and the service as a state machine.
    \<^item> Plus\_Http: CORS, tracking, rate limit, secret and routes around the handlers; every
      history of requests is a history of that state machine (served\_reachable).

  Prelude and Js\_Number hold the JavaScript primitives the sources use (strings are
  lists of UTF-16 code units, type \<^verbatim>\<open>jstr\<close>; \<^verbatim>\<open>lit\<close> injects an ASCII literal);
  Sample\_Platform a toy platform on which the witnesses run.  A record stands for a
  class, with one definition per method; a method that mutates returns the new
  record, a fallible operation a sum (Inl the error) or an option.

  \<^bold>\<open>Interfaces.\<close>  A locale states what a client relies on, and is interpreted on the
  code's model: \<^verbatim>\<open>id_index\<close> (\<^verbatim>\<open>oix\<close>), \<^verbatim>\<open>replay_store\<close> (\<^verbatim>\<open>jti\<close>), \<^verbatim>\<open>share_store_laws\<close> (\<^verbatim>\<open>mem\<close>),
  \<^verbatim>\<open>challenge_store\<close> (\<^verbatim>\<open>pg\<close>), \<^verbatim>\<open>circuit\<close> (\<^verbatim>\<open>cbr\<close>, \<^verbatim>\<open>pbr\<close>), \<^verbatim>\<open>trust_repository\<close>
  (\<^verbatim>\<open>chrome_trust\<close>), \<^verbatim>\<open>one_time_challenges\<close> and \<^verbatim>\<open>owned_authenticators\<close> (in memory and in
  Postgres), \<^verbatim>\<open>optimistic_locking\<close> (vaults and credentials),
  \<^verbatim>\<open>share_store_laws\<close> also on Postgres (\<^verbatim>\<open>pg_shares\<close>), \<^verbatim>\<open>entity_table\<close> (users, resources,
  entitlements, vulnerabilities) and \<^verbatim>\<open>redis_keys\<close> (\<^verbatim>\<open>nx\<close>: the documented SET NX EX, which the
  store in memory obeys).

  \<^bold>\<open>What is a parameter.\<close>  The URL parser and the case tables (record \<^verbatim>\<open>web\<close>),
  WebCrypto, JSON and TextDecoder (\<^verbatim>\<open>subtle\<close>, \<^verbatim>\<open>proof_crypto\<close>), Ed25519 (\<^verbatim>\<open>curve\<close>), ISO
  dates (\<^verbatim>\<open>dates\<close>), jsonwebtoken (\<^verbatim>\<open>jwt\<close>), random values, the clock, fetch and Redis.
  Properties name what they need of them as hypotheses (\<^verbatim>\<open>aead_ok\<close>: decryption inverts
  encryption; \<^verbatim>\<open>json_reads_back\<close>, \<^verbatim>\<open>approval_reads_back\<close>: parsing inverts printing;
  \<^verbatim>\<open>decodes\<close>, \<^verbatim>\<open>jwt_reads_back\<close>; \<^verbatim>\<open>unforged\<close>: a signature presented to Core verifies only for
  what Plus signed), each with a witness on a concrete platform.

  \<^bold>\<open>Abstractions and bounds.\<close>  Doubles that hold scores, weights and delays are exact
  rationals; times are integers.  A handler reads the clock once and is one step, so
  awaits of two requests do not interleave inside it; an SQL statement is one step.
  Bytes and flags are \<^verbatim>\<open>8 word\<close>; accumulators that wrap are written with their width.
  Loops are structural recursions on the data or on the number of attempts left, so
  no fuel can run out.

  \<^bold>\<open>Properties.\<close>  Release\_Properties (origins, guard, index, authoring, release),
  Managed\_Properties (capabilities, replay, managed release), Plus\_Properties (gate,
  challenges, approvals, risk), Service\_Properties (generation and extraction of
  credentials, retry, circuit, rate limits, similarity, pipeline, evaluator),
  Step\_Up\_Properties (approvals, proofs, keys, locking), Core\_Properties (replies, release
  and sessions over HTTP, and Core and Plus together: what Core releases, Plus granted),
  Keys\_Properties (one-time passwords, master key, account recovery), Worker\_Properties (what the service worker
  answers over histories of messages and evictions), Extension\_Properties (filling by
  the content script, approval from the popup).
  The lemmas before them in each component theory give the behaviour of every branch,
  the invariants of the stores and the laws of the locales.

  \<^bold>\<open>Not modelled.\<close>  The rendering of pages, the admin interface, sockets, timers and
  time-outs, logging, mail, database connections, pools and migrations, build scripts
  and benchmarks, and the internals of Redis, IPFS and WebCrypto: they draw, print or
  call platform code and keep no state of their own that a property could speak of.
\<close>

end
